(* ===== verification/Owl_Prelude.thy ===== *)
theory Owl_Prelude
  imports Main "HOL-Library.Sublist" "HOL-Library.Multiset"
begin

text \<open>
  Shared vocabulary of the development: results with an error branch, the loop
  combinator used for Go loops that return early, and the relational algebra in which the
  SQL statements of the stores are written (tables are lists of row records).

  The lemmas here are about lists, results and tables in general. They are declared
  \<^theory_text>\<open>[simp]\<close> or collected in \<open>result_iff\<close> and \<open>sql_simps\<close>, so that the
  component theories can close their goals with \<^theory_text>\<open>auto simp: result_iff sql_simps\<close>.
\<close>

named_theorems result_iff \<open>when a result computation succeeds\<close>
named_theorems sql_simps \<open>rewriting SQL statements on tables\<close>

section \<open>Types shared by all components\<close>

type_synonym id = string
type_synonym time = int \<comment> \<open>nanoseconds since the epoch, UTC\<close>
type_synonym duration = int \<comment> \<open>nanoseconds, as Go's time.Duration\<close>

section \<open>Results\<close>

text \<open>
  A Go function that returns \<open>(T, error)\<close> becomes a function into \<open>'e + 'a\<close>:
  \<open>Inl\<close> is the error return, \<open>Inr\<close> the value with a nil error.
\<close>

fun rbind :: "'e + 'a \<Rightarrow> ('a \<Rightarrow> 'e + 'b) \<Rightarrow> 'e + 'b" where
  "rbind (Inl e) f = Inl e"
| "rbind (Inr x) f = f x"

text \<open>\<open>guard c e\<close> is the early return \<open>if !c { return e }\<close>.\<close>

definition guard :: "bool \<Rightarrow> 'e \<Rightarrow> 'e + unit" where
  "guard c e = (if c then Inr () else Inl e)"

text \<open>\<open>or_err\<close> turns a lookup that may find nothing into an early return.\<close>

definition or_err :: "'a option \<Rightarrow> 'e \<Rightarrow> 'e + 'a" where
  "or_err m e = (case m of None \<Rightarrow> Inl e | Some x \<Rightarrow> Inr x)"

text \<open>A Go \<open>for ... range\<close> loop whose body may return an error.\<close>

fun loop :: "('s \<Rightarrow> 'a \<Rightarrow> 'e + 's) \<Rightarrow> 's \<Rightarrow> 'a list \<Rightarrow> 'e + 's" where
  "loop f s [] = Inr s"
| "loop f s (x # xs) = rbind (f s x) (\<lambda>s'. loop f s' xs)"

text \<open>The same loop with the index of the element, \<open>for i, x := range xs\<close>.\<close>

fun iloop :: "(nat \<Rightarrow> 's \<Rightarrow> 'a \<Rightarrow> 'e + 's) \<Rightarrow> nat \<Rightarrow> 's \<Rightarrow> 'a list \<Rightarrow> 'e + 's" where
  "iloop f i s [] = Inr s"
| "iloop f i s (x # xs) = rbind (f i s x) (\<lambda>s'. iloop f (Suc i) s' xs)"

section \<open>Tables\<close>

text \<open>
  \<open>UPDATE t SET ... WHERE p\<close> maps the rows that satisfy \<open>p\<close>; \<open>affected\<close> is the
  row count Go reads from the statement's result.
\<close>

definition update_where :: "('r \<Rightarrow> bool) \<Rightarrow> ('r \<Rightarrow> 'r) \<Rightarrow> 'r list \<Rightarrow> 'r list" where
  "update_where p f rows = map (\<lambda>r. if p r then f r else r) rows"

definition affected :: "('r \<Rightarrow> bool) \<Rightarrow> 'r list \<Rightarrow> nat" where
  "affected p rows = length (filter p rows)"

definition delete_where :: "('r \<Rightarrow> bool) \<Rightarrow> 'r list \<Rightarrow> 'r list" where
  "delete_where p rows = filter (\<lambda>r. \<not> p r) rows"

text \<open>
  \<open>QueryRow\<close> returns the first row of the result, and \<open>sql.ErrNoRows\<close> (here \<open>None\<close>)
  when there is none.
\<close>

definition select_row :: "('r \<Rightarrow> bool) \<Rightarrow> 'r list \<Rightarrow> 'r option" where
  "select_row p rows = find p rows"

text \<open>A row added at the end of its table.\<close>

definition add_row :: "'r \<Rightarrow> 'r list \<Rightarrow> 'r list" where
  "add_row r rows = rows @ [r]"

text \<open>
  \<open>ORDER BY\<close>: a stable insertion sort by a strict comparison, so that the order in which
  equal rows come out is the table's.
\<close>

fun insert_by :: "('r \<Rightarrow> 'r \<Rightarrow> bool) \<Rightarrow> 'r \<Rightarrow> 'r list \<Rightarrow> 'r list" where
  "insert_by lt r [] = [r]"
| "insert_by lt r (x # xs) = (if lt x r then x # insert_by lt r xs else r # x # xs)"

fun order_by :: "('r \<Rightarrow> 'r \<Rightarrow> bool) \<Rightarrow> 'r list \<Rightarrow> 'r list" where
  "order_by lt [] = []"
| "order_by lt (x # xs) = insert_by lt x (order_by lt xs)"

section \<open>Lemmas on results\<close>

lemma rbind_Inr_iff [simp, result_iff]: "rbind m f = Inr y \<longleftrightarrow> (\<exists>x. m = Inr x \<and> f x = Inr y)"
  by (cases m) auto

lemma rbind_Inl_iff [simp, result_iff]:
  "rbind m f = Inl e \<longleftrightarrow> m = Inl e \<or> (\<exists>x. m = Inr x \<and> f x = Inl e)"
  by (cases m) auto

lemma guard_Inr_iff [simp, result_iff]: "guard c e = Inr u \<longleftrightarrow> c"
  by (simp add: guard_def)

lemma guard_Inl_iff [simp, result_iff]: "guard c e = Inl e' \<longleftrightarrow> \<not> c \<and> e' = e"
  by (auto simp: guard_def)

lemma guard_True [simp]: "guard True e = Inr ()"
  and guard_False [simp]: "guard False e = Inl e"
  by (simp_all add: guard_def)

lemma or_err_Inr_iff [simp, result_iff]: "or_err m e = Inr x \<longleftrightarrow> m = Some x"
  by (auto simp: or_err_def split: option.splits)

lemma or_err_Inl_iff [simp, result_iff]: "or_err m e = Inl e' \<longleftrightarrow> m = None \<and> e' = e"
  by (auto simp: or_err_def split: option.splits)

lemma or_err_simps [simp]: "or_err (Some x) e = Inr x" "or_err None e = Inl e"
  by (simp_all add: or_err_def)

text \<open>An invariant of the loop body holds after the loop, when the loop succeeds.\<close>

lemma loop_invariant:
  assumes "loop f s xs = Inr t" "I s"
    and "\<And>s x s'. x \<in> set xs \<Longrightarrow> I s \<Longrightarrow> f s x = Inr s' \<Longrightarrow> I s'"
  shows "I t"
  using assms
proof (induction xs arbitrary: s)
  case Nil
  then show ?case by simp
next
  case (Cons x xs)
  from Cons.prems(1) obtain s' where "f s x = Inr s'" "loop f s' xs = Inr t" by auto
  then show ?case using Cons.IH [of s'] Cons.prems(2,3) by auto
qed

lemma iloop_invariant:
  assumes "iloop f i s xs = Inr t" "I s"
    and "\<And>j s x s'. x \<in> set xs \<Longrightarrow> I s \<Longrightarrow> f j s x = Inr s' \<Longrightarrow> I s'"
  shows "I t"
  using assms
proof (induction xs arbitrary: i s)
  case Nil
  then show ?case by simp
next
  case (Cons x xs)
  from Cons.prems(1) obtain s' where "f i s x = Inr s'" "iloop f (Suc i) s' xs = Inr t" by auto
  then show ?case using Cons.IH [of "Suc i" s'] Cons.prems(2,3) by auto
qed

text \<open>
  The indexed invariant: \<open>I j s\<close> holds before the element of index \<open>j\<close>, and the body
  moves it to \<open>j + 1\<close>.
\<close>

lemma iloop_indexed:
  assumes "iloop f i s xs = Inr t" "I i s"
    and "\<And>j s s'. i \<le> j \<Longrightarrow> j < i + length xs \<Longrightarrow> I j s \<Longrightarrow> f j s (xs ! (j - i)) = Inr s'
          \<Longrightarrow> I (Suc j) s'"
  shows "I (i + length xs) t"
  using assms
proof (induction xs arbitrary: i s)
  case Nil
  then show ?case by simp
next
  case (Cons x xs)
  from Cons.prems(1) obtain s' where s': "f i s x = Inr s'" "iloop f (Suc i) s' xs = Inr t" by auto
  have "I (Suc i) s'"
    using Cons.prems(3) [of i s s'] Cons.prems(2) s'(1) by simp
  moreover have "I (Suc j) u'"
    if j: "Suc i \<le> j" "j < Suc i + length xs" and u: "I j u" "f j u (xs ! (j - Suc i)) = Inr u'" for j u u'
  proof -
    have "(x # xs) ! (j - i) = xs ! (j - Suc i)" using j(1) by (simp add: nth_Cons')
    then show ?thesis using Cons.prems(3) [of j u u'] j u by simp
  qed
  ultimately have "I (Suc i + length xs) t"
    by (rule Cons.IH [OF s'(2)])
  then show ?case by simp
qed

text \<open>A loop body that can only succeed makes a loop that succeeds.\<close>

lemma loop_total:
  assumes "P s" "\<And>s x. x \<in> set xs \<Longrightarrow> P s \<Longrightarrow> \<exists>s'. f s x = Inr s' \<and> P s'"
  shows "\<exists>t. loop f s xs = Inr t \<and> P t"
  using assms
proof (induction xs arbitrary: s)
  case Nil
  then show ?case by simp
next
  case (Cons x xs)
  then obtain s' where "f s x = Inr s'" "P s'" by (metis list.set_intros(1))
  with Cons show ?case by auto
qed

section \<open>Lemmas on tables\<close>

lemma length_update_where [simp]: "length (update_where p f rows) = length rows"
  by (simp add: update_where_def)

lemma update_where_Nil [simp]: "update_where p f [] = []"
  by (simp add: update_where_def)

lemma update_where_Cons [simp]:
  "update_where p f (r # rows) = (if p r then f r else r) # update_where p f rows"
  by (simp add: update_where_def)

lemma set_update_where [sql_simps]:
  "set (update_where p f rows) = (\<lambda>r. if p r then f r else r) ` set rows"
  by (simp add: update_where_def)

lemma map_update_where:
  "(\<And>r. r \<in> set rows \<Longrightarrow> p r \<Longrightarrow> k (f r) = k r) \<Longrightarrow> map k (update_where p f rows) = map k rows"
  by (induction rows) (auto simp: update_where_def)

lemma update_where_id: "(\<And>r. r \<in> set rows \<Longrightarrow> \<not> p r) \<Longrightarrow> update_where p f rows = rows"
  by (induction rows) (auto simp: update_where_def)

text \<open>Rows that the statement does not touch, selected by a key the statement keeps.\<close>

lemma filter_update_where:
  assumes "\<And>r. r \<in> set rows \<Longrightarrow> p r \<Longrightarrow> \<not> q r" "\<And>r. r \<in> set rows \<Longrightarrow> p r \<Longrightarrow> \<not> q (f r)"
  shows "filter q (update_where p f rows) = filter q rows"
  using assms by (induction rows) (auto simp: update_where_def)

lemma filter_delete_where:
  assumes "\<And>r. r \<in> set rows \<Longrightarrow> p r \<Longrightarrow> \<not> q r"
  shows "filter q (delete_where p rows) = filter q rows"
  using assms by (induction rows) (auto simp: delete_where_def)

lemma filter_add_row [sql_simps]:
  "filter q (add_row r rows) = filter q rows @ (if q r then [r] else [])"
  by (simp add: add_row_def)

lemma set_add_row [simp]: "set (add_row r rows) = insert r (set rows)"
  by (auto simp: add_row_def)

lemma map_add_row [simp]: "map k (add_row r rows) = map k rows @ [k r]"
  by (simp add: add_row_def)

lemma length_add_row [simp]: "length (add_row r rows) = Suc (length rows)"
  by (simp add: add_row_def)

lemma set_delete_where [simp]: "set (delete_where p rows) = {r \<in> set rows. \<not> p r}"
  by (auto simp: delete_where_def)

lemma affected_zero_iff [sql_simps]: "affected p rows = 0 \<longleftrightarrow> (\<forall>r\<in>set rows. \<not> p r)"
  by (auto simp: affected_def filter_empty_conv)

lemma affected_pos_iff: "0 < affected p rows \<longleftrightarrow> (\<exists>r\<in>set rows. p r)"
  using affected_zero_iff [of p rows] by (auto simp: neq0_conv [symmetric])

lemma affected_one_ex: "affected p rows = 1 \<Longrightarrow> \<exists>r\<in>set rows. p r"
  using affected_pos_iff [of p rows] by simp

text \<open>A condition that implies a unique key selects at most one row.\<close>

lemma affected_le_one:
  assumes "distinct (map k rows)" "\<And>r. r \<in> set rows \<Longrightarrow> p r \<Longrightarrow> k r = v"
  shows "affected p rows \<le> 1"
  using assms
proof (induction rows)
  case Nil
  then show ?case by (simp add: affected_def)
next
  case (Cons r rows)
  have IH: "affected p rows \<le> 1" using Cons by auto
  show ?case
  proof (cases "p r")
    case True
    then have "\<not> p r'" if "r' \<in> set rows" for r'
      using Cons.prems that by (metis distinct.simps(2) image_eqI list.set_intros list.simps(9) set_map)
    then have "affected p rows = 0" by (simp add: affected_zero_iff)
    then show ?thesis using True by (simp add: affected_def)
  next
    case False
    then show ?thesis using IH by (simp add: affected_def)
  qed
qed

lemma select_row_SomeD:
  "select_row p rows = Some r \<Longrightarrow> r \<in> set rows \<and> p r"
  unfolding select_row_def by (auto simp: find_Some_iff)

lemma select_row_None_iff [sql_simps]: "select_row p rows = None \<longleftrightarrow> (\<forall>r\<in>set rows. \<not> p r)"
  by (auto simp: select_row_def find_None_iff)

lemma select_row_ex: "(\<exists>r. select_row p rows = Some r) \<longleftrightarrow> (\<exists>r\<in>set rows. p r)"
  using select_row_None_iff [of p rows] by (cases "select_row p rows") (auto dest: select_row_SomeD)

text \<open>Under a unique key, the selected row is the only one.\<close>

lemma select_row_unique:
  assumes "distinct (map k rows)" "r \<in> set rows" "p r" "\<And>r'. r' \<in> set rows \<Longrightarrow> p r' \<Longrightarrow> k r' = k r"
  shows "select_row p rows = Some r"
proof -
  obtain r' where r': "select_row p rows = Some r'"
    using assms(2,3) select_row_None_iff [of p rows] by (cases "select_row p rows") auto
  have in_rows: "r' \<in> set rows" "p r'" using select_row_SomeD [OF r'] by auto
  have "k r' = k r" by (rule assms(4) [OF in_rows])
  moreover have "inj_on k (set rows)" using assms(1) by (simp add: distinct_map)
  ultimately have "r' = r" using in_rows(1) assms(2) by (auto dest: inj_onD)
  with r' show ?thesis by simp
qed

lemma select_row_update_where:
  assumes "\<And>r. r \<in> set rows \<Longrightarrow> p r \<Longrightarrow> q (f r) = q r"
  shows "select_row q (update_where p f rows) =
    map_option (\<lambda>r. if p r then f r else r) (select_row q rows)"
  using assms by (induction rows) (auto simp: select_row_def)

lemma select_row_add_row:
  "select_row p (add_row r rows) =
    (case select_row p rows of Some x \<Rightarrow> Some x | None \<Rightarrow> (if p r then Some r else None))"
  by (induction rows) (auto simp: select_row_def add_row_def)

lemma mset_insert_by [simp]: "mset (insert_by lt r rows) = add_mset r (mset rows)"
  by (induction rows) auto

lemma mset_order_by [simp]: "mset (order_by lt rows) = mset rows"
  by (induction rows) auto

lemma set_order_by [simp]: "set (order_by lt rows) = set rows"
  by (metis mset_order_by set_mset_mset)

lemma length_order_by [simp]: "length (order_by lt rows) = length rows"
  by (metis mset_order_by size_mset)

lemma distinct_order_by [simp]: "distinct (order_by lt rows) = distinct rows"
  by (metis mset_order_by mset_eq_imp_distinct_iff)

lemma distinct_map_filter_key: "distinct (map k rows) \<Longrightarrow> distinct (map k (filter p rows))"
  by (induction rows) auto

lemma distinct_map_delete_where [simp]: "distinct (map k rows) \<Longrightarrow> distinct (map k (delete_where p rows))"
  by (simp add: delete_where_def distinct_map_filter_key)

section \<open>Transition systems\<close>

text \<open>
  The contracts that the components share. \<open>system_invariant\<close> is a step relation with an
  invariant; \<open>absorbing\<close> adds a condition that no step undoes; \<open>single_use\<close> adds an operation
  that spends a token, where a spent token stays spent and is refused.
\<close>

locale system_invariant =
  fixes step :: "'s \<Rightarrow> 's \<Rightarrow> bool"
    and I :: "'s \<Rightarrow> bool"
  assumes preserved: "step s s' \<Longrightarrow> I s \<Longrightarrow> I s'"
begin

lemma invariant_reachable: "step\<^sup>*\<^sup>* s s' \<Longrightarrow> I s \<Longrightarrow> I s'"
  by (induction rule: rtranclp_induct) (auto intro: preserved)

end

locale absorbing = system_invariant +
  fixes P :: "'k \<Rightarrow> 's \<Rightarrow> bool"
  assumes absorbed: "step s s' \<Longrightarrow> I s \<Longrightarrow> P k s \<Longrightarrow> P k s'"
begin

lemma absorbed_reachable:
  assumes "step\<^sup>*\<^sup>* s s'" "I s" "P k s"
  shows "P k s'"
  using assms(1)
proof (induction rule: rtranclp_induct)
  case base
  show ?case by (rule assms(3))
next
  case (step t t')
  then have "I t" using invariant_reachable assms(2) by blast
  with step show ?case using absorbed by blast
qed

end

locale single_use = absorbing step I spent
  for step :: "'s \<Rightarrow> 's \<Rightarrow> bool" and I :: "'s \<Rightarrow> bool" and spent :: "'k \<Rightarrow> 's \<Rightarrow> bool" +
  fixes redeems :: "'k \<Rightarrow> 's \<Rightarrow> 's \<Rightarrow> bool"
  assumes redeem_step: "redeems k s s' \<Longrightarrow> step s s'"
    and redeem_spends: "redeems k s s' \<Longrightarrow> I s \<Longrightarrow> spent k s'"
    and spent_refused: "I s \<Longrightarrow> spent k s \<Longrightarrow> \<not> redeems k s s'"
begin

theorem redeemed_once:
  assumes "I s" "redeems k s s1" "step\<^sup>*\<^sup>* s1 s2"
  shows "\<not> redeems k s2 s3"
proof -
  have "I s1" using assms(1,2) redeem_step preserved by blast
  moreover have "spent k s1" using assms(1,2) redeem_spends by blast
  ultimately have "I s2" "spent k s2"
    using assms(3) invariant_reachable absorbed_reachable by blast+
  then show ?thesis using spent_refused by blast
qed

end

end
