(* ===== verification/Go_Lib.thy ===== *)
theory Go_Lib
  imports Owl_Prelude
begin

text \<open>
  The parts of Go's standard library that the program calls: \<open>strings\<close>, \<open>strconv\<close>,
  \<open>encoding/base64\<close>, \<open>encoding/hex\<close>, \<open>html\<close> and the text form of \<open>time.Time\<close> in which the
  stores write and compare timestamps. A Go string is its list of bytes: a \<open>char\<close> of the
  model is a byte, and \<open>len\<close> is the length of the list.

  Functions that rest on tables or algorithms outside the program (SHA-256, HMAC, Unicode
  case tables, the address grammar of \<open>net/mail\<close>, JSON, time layouts and zones) are fields
  of the record \<open>runtime\<close>, which the definitions that use them take as an argument.
\<close>

section \<open>Library functions taken as parameters\<close>

text \<open>What \<open>csv.Reader.Read\<close> returns before the end of the input: a record or an error.\<close>

datatype csv_outcome = CsvRecord "string list" | CsvError string

record runtime =
  rt_hmac :: "string \<Rightarrow> string \<Rightarrow> string" \<comment> \<open>HMAC-SHA256: key, message\<close>
  rt_sha256 :: "string \<Rightarrow> string"
  rt_lower :: "string \<Rightarrow> string" \<comment> \<open>strings.ToLower on text with non-ASCII bytes\<close>
  rt_mail_ok :: "string \<Rightarrow> bool" \<comment> \<open>mail.ParseAddress succeeds\<close>
  rt_quote :: "string \<Rightarrow> string" \<comment> \<open>the %q verb of fmt\<close>
  rt_json_strings :: "string \<Rightarrow> string list option" \<comment> \<open>json.Unmarshal into []string\<close>
  rt_json_background :: "string \<Rightarrow> string option"
    \<comment> \<open>json.Unmarshal of an object: its backgroundImage field, empty when absent\<close>
  rt_url_scheme :: "string \<Rightarrow> string option" \<comment> \<open>url.Parse: the scheme, None on an error\<close>
  rt_utf8_valid :: "string \<Rightarrow> bool" \<comment> \<open>utf8.Valid\<close>
  rt_csv_read :: "string \<Rightarrow> csv_outcome list"
    \<comment> \<open>the outcomes of csv.Reader.Read until io.EOF, FieldsPerRecord = -1\<close>
  rt_format_time :: "time \<Rightarrow> string" \<comment> \<open>Format(time.RFC3339Nano) in UTC\<close>
  rt_parse_rfc3339 :: "string \<Rightarrow> time option" \<comment> \<open>time.Parse(time.RFC3339, s), in UTC\<close>

section \<open>strings\<close>

definition ascii :: "char \<Rightarrow> bool" where
  "ascii c \<longleftrightarrow> (of_char c :: nat) < 128"

definition is_digit :: "char \<Rightarrow> bool" where
  "is_digit c \<longleftrightarrow> 48 \<le> (of_char c :: nat) \<and> (of_char c :: nat) \<le> 57"

definition byte :: "nat \<Rightarrow> char" where
  "byte n = char_of n"

text \<open>The UTF-8 encodings of the runes for which \<open>unicode.IsSpace\<close> holds.\<close>

definition space_runes :: "string list" where
  "space_runes =
    map (\<lambda>n. [byte n]) [9, 10, 11, 12, 13, 32] @
    [[byte 194, byte 133], [byte 194, byte 160], [byte 225, byte 154, byte 128]] @
    map (\<lambda>n. [byte 226, byte 128, byte n])
      [128, 129, 130, 131, 132, 133, 134, 135, 136, 137, 138, 168, 169, 175] @
    [[byte 226, byte 129, byte 159], [byte 227, byte 128, byte 128]]"

text \<open>Strip every leading occurrence of one of the given non-empty strings.\<close>

function strip :: "string list \<Rightarrow> string \<Rightarrow> string" where
  "strip ps s = (case find (\<lambda>p. p \<noteq> [] \<and> prefix p s) ps of
      None \<Rightarrow> s
    | Some p \<Rightarrow> strip ps (drop (length p) s))"
  by pat_completeness auto
termination
  by (relation "measure (\<lambda>(ps, s). length s)") (auto simp: find_Some_iff prefix_def)

declare strip.simps [simp del]

definition trim_space :: "string \<Rightarrow> string" where
  "trim_space s = rev (strip (map rev space_runes) (rev (strip space_runes s)))"

definition lower_byte :: "char \<Rightarrow> char" where
  "lower_byte c = (let n = (of_char c :: nat) in if 65 \<le> n \<and> n \<le> 90 then byte (n + 32) else c)"

definition to_lower :: "'x runtime_scheme \<Rightarrow> string \<Rightarrow> string" where
  "to_lower rt s = (if list_all ascii s then map lower_byte s else rt_lower rt s)"

text \<open>\<open>strings.Split\<close> with a one-byte separator, and \<open>strings.Join\<close>.\<close>

fun split_on :: "char \<Rightarrow> string \<Rightarrow> string list" where
  "split_on d [] = [[]]"
| "split_on d (c # cs) = (if c = d then [] # split_on d cs
     else (case split_on d cs of [] \<Rightarrow> [[c]] | p # ps \<Rightarrow> (c # p) # ps))"

fun join :: "string \<Rightarrow> string list \<Rightarrow> string" where
  "join sep [] = []"
| "join sep [p] = p"
| "join sep (p # q # ps) = p @ sep @ join sep (q # ps)"

definition trim_prefix :: "string \<Rightarrow> string \<Rightarrow> string" where
  "trim_prefix p s = (if prefix p s then drop (length p) s else s)"

definition trim_right :: "char \<Rightarrow> string \<Rightarrow> string" where
  "trim_right c s = rev (dropWhile (\<lambda>x. x = c) (rev s))"

fun contains_str :: "string \<Rightarrow> string \<Rightarrow> bool" where
  "contains_str needle [] = (needle = [])"
| "contains_str needle (c # cs) = (prefix needle (c # cs) \<or> contains_str needle cs)"

definition contains_any :: "string \<Rightarrow> string \<Rightarrow> bool" where
  "contains_any chars s \<longleftrightarrow> list_ex (\<lambda>c. c \<in> set chars) s"

text \<open>
  Reading a Go map gives the zero value (here the empty list) for a missing key; \<open>delete\<close> and
  assignment on the association lists that stand for maps.
\<close>

definition map_get :: "('k \<times> 'v list) list \<Rightarrow> 'k \<Rightarrow> 'v list" where
  "map_get m k = (case map_of m k of None \<Rightarrow> [] | Some v \<Rightarrow> v)"

definition map_delete :: "'k \<Rightarrow> ('k \<times> 'v) list \<Rightarrow> ('k \<times> 'v) list" where
  "map_delete k m = filter (\<lambda>(k', v). k' \<noteq> k) m"

definition map_put :: "'k \<Rightarrow> 'v \<Rightarrow> ('k \<times> 'v) list \<Rightarrow> ('k \<times> 'v) list" where
  "map_put k v m = map_delete k m @ [(k, v)]"

text \<open>\<open>html.EscapeString\<close>.\<close>

definition escape_byte :: "char \<Rightarrow> string" where
  "escape_byte c =
    (if c = CHR ''&'' then ''&amp;''
     else if c = byte 39 then ''&#39;''
     else if c = CHR ''<'' then ''&lt;''
     else if c = CHR ''>'' then ''&gt;''
     else if c = byte 34 then ''&#34;''
     else [c])"

definition escape_string :: "string \<Rightarrow> string" where
  "escape_string s = concat (map escape_byte s)"

section \<open>strconv\<close>

definition digit_char :: "nat \<Rightarrow> char" where
  "digit_char n = ''0123456789'' ! (n mod 10)"

fun nat_digits :: "nat \<Rightarrow> string" where
  "nat_digits n = (if n < 10 then [digit_char n] else nat_digits (n div 10) @ [digit_char (n mod 10)])"

declare nat_digits.simps [simp del]

definition itoa :: "int \<Rightarrow> string" where
  "itoa n = (if n < 0 then CHR ''-'' # nat_digits (nat (- n)) else nat_digits (nat n))"

definition digits_value :: "string \<Rightarrow> nat" where
  "digits_value s = foldl (\<lambda>acc c. acc * 10 + (of_char c - 48)) 0 s"

definition min_int :: int where "min_int = - (2 ^ 63)"
definition max_int :: int where "max_int = 2 ^ 63 - 1"

text \<open>
  \<open>strconv.Atoi\<close>: an optional sign, at least one digit, nothing else, and a value in the
  range of a 64-bit \<open>int\<close>; \<open>None\<close> is the error return.
\<close>

definition atoi_digits :: "bool \<Rightarrow> string \<Rightarrow> int option" where
  "atoi_digits neg s =
    (if s = [] \<or> \<not> list_all is_digit s then None
     else let n = (if neg then - int (digits_value s) else int (digits_value s))
          in if min_int \<le> n \<and> n \<le> max_int then Some n else None)"

definition atoi :: "string \<Rightarrow> int option" where
  "atoi s = (case s of
      [] \<Rightarrow> None
    | c # cs \<Rightarrow> (if c = CHR ''-'' then atoi_digits True cs
                else if c = CHR ''+'' then atoi_digits False cs
                else atoi_digits False s))"

section \<open>encoding/base64 (RawURLEncoding) and encoding/hex\<close>

definition base64_alphabet :: string where
  "base64_alphabet = ''ABCDEFGHIJKLMNOPQRSTUVWXYZabcdefghijklmnopqrstuvwxyz0123456789-_''"

definition base64_char :: "nat \<Rightarrow> char" where
  "base64_char n = base64_alphabet ! (n mod 64)"

fun base64url :: "string \<Rightarrow> string" where
  "base64url [] = []"
| "base64url [a] = (let x = of_char a in [base64_char (x div 4), base64_char (x mod 4 * 16)])"
| "base64url [a, b] = (let x = of_char a; y = of_char b in
     [base64_char (x div 4), base64_char (x mod 4 * 16 + y div 16), base64_char (y mod 16 * 4)])"
| "base64url (a # b # c # rest) = (let x = of_char a; y = of_char b; z = of_char c in
     [base64_char (x div 4), base64_char (x mod 4 * 16 + y div 16),
      base64_char (y mod 16 * 4 + z div 64), base64_char z] @ base64url rest)"

definition hex_digit :: "nat \<Rightarrow> char" where
  "hex_digit n = ''0123456789abcdef'' ! (n mod 16)"

definition hex_encode :: "string \<Rightarrow> string" where
  "hex_encode s = concat (map (\<lambda>c. [hex_digit (of_char c div 16), hex_digit (of_char c)]) s)"

section \<open>Timestamps in the database\<close>

text \<open>
  The stores write a time as \<open>Format(time.RFC3339Nano)\<close> of its UTC value, and the SQL
  statements compare these texts byte by byte. For the years 0000 to 9999 the date and time
  to the second has a fixed width, so that part compares as the number of seconds; the
  fraction follows, without its trailing zeros (and without its point when it is zero), and
  then the letter Z. \<open>frac_text\<close> is that tail.
\<close>

definition second :: duration where "second = 1000000000"
definition minute :: duration where "minute = 60 * second"
definition hour :: duration where "hour = 60 * minute"

definition secs :: "time \<Rightarrow> int" where "secs t = t div second"
definition nanos :: "time \<Rightarrow> int" where "nanos t = t mod second"

fun frac_digits :: "nat \<Rightarrow> nat \<Rightarrow> string" where
  "frac_digits 0 n = []"
| "frac_digits (Suc k) n = frac_digits k (n div 10) @ [digit_char (n mod 10)]"

definition frac_text :: "int \<Rightarrow> string" where
  "frac_text n = (if n = 0 then ''Z''
     else CHR ''.'' # trim_right (CHR ''0'') (frac_digits 9 (nat n)) @ ''Z'')"

fun bytes_less :: "string \<Rightarrow> string \<Rightarrow> bool" where
  "bytes_less s [] = False"
| "bytes_less [] (y # ys) = True"
| "bytes_less (x # xs) (y # ys) =
    ((of_char x :: nat) < of_char y \<or> x = y \<and> bytes_less xs ys)"

definition stamp_less :: "time \<Rightarrow> time \<Rightarrow> bool" where
  "stamp_less a b \<longleftrightarrow> secs a < secs b \<or>
    secs a = secs b \<and> bytes_less (frac_text (nanos a)) (frac_text (nanos b))"

section \<open>Lemmas\<close>

lemma contains_str_iff: "contains_str needle s \<longleftrightarrow> sublist needle s"
  by (induction s) (auto simp: sublist_Cons_right)

lemma prefix_drop_append: "prefix p s \<Longrightarrow> s = p @ drop (length p) s"
  by (auto simp: prefix_def)

text \<open>What is left by \<open>strip\<close> is a suffix that starts with none of the prefixes.\<close>

lemma strip_suffix: "suffix (strip ps s) s"
proof (induction ps s rule: strip.induct)
  case (1 ps s)
  show ?case
  proof (cases "find (\<lambda>p. p \<noteq> [] \<and> prefix p s) ps")
    case None
    then show ?thesis by (simp add: strip.simps [of ps s])
  next
    case (Some p)
    then have "suffix (strip ps (drop (length p) s)) (drop (length p) s)" using 1 by simp
    then show ?thesis using Some by (simp add: strip.simps [of ps s] suffix_drop suffix_order.trans)
  qed
qed

lemma strip_no_prefix: "p \<in> set ps \<Longrightarrow> p \<noteq> [] \<Longrightarrow> \<not> prefix p (strip ps s)"
proof (induction ps s rule: strip.induct)
  case (1 ps s)
  show ?case
  proof (cases "find (\<lambda>p. p \<noteq> [] \<and> prefix p s) ps")
    case None
    then show ?thesis using 1(2,3) by (simp add: strip.simps [of ps s]) (auto simp: find_None_iff)
  next
    case (Some q)
    then show ?thesis using 1 by (simp add: strip.simps [of ps s])
  qed
qed

lemma strip_id: "(\<And>p. p \<in> set ps \<Longrightarrow> p \<noteq> [] \<Longrightarrow> \<not> prefix p s) \<Longrightarrow> strip ps s = s"
  by (subst strip.simps) (auto simp: find_Some_iff split: option.splits)

lemma length_strip: "length (strip ps s) \<le> length s"
  using strip_suffix suffix_length_le by blast

lemma length_trim_space: "length (trim_space s) \<le> length s"
  unfolding trim_space_def using length_strip [of space_runes s]
    length_strip [of "map rev space_runes" "rev (strip space_runes s)"] by simp

lemma trim_space_no_prefix:
  assumes "p \<in> set space_runes" "p \<noteq> []"
  shows "\<not> prefix p (trim_space s)"
proof
  let ?t = "strip space_runes s"
  assume "prefix p (trim_space s)"
  moreover have "prefix (trim_space s) ?t"
    using strip_suffix [of "map rev space_runes" "rev ?t"]
    by (simp add: trim_space_def suffix_to_prefix)
  ultimately have "prefix p ?t" using prefix_order.trans by blast
  then show False using strip_no_prefix assms by blast
qed

lemma trim_space_idem [simp]: "trim_space (trim_space s) = trim_space s"
proof -
  let ?u = "trim_space s"
  have left: "strip space_runes ?u = ?u"
    by (rule strip_id) (use trim_space_no_prefix in blast)
  have "strip (map rev space_runes) (rev ?u) = rev ?u"
  proof (rule strip_id)
    fix p assume "p \<in> set (map rev space_runes)" "p \<noteq> []"
    then show "\<not> prefix p (rev ?u)"
      by (simp add: trim_space_def strip_no_prefix)
  qed
  then show ?thesis using left by (simp add: trim_space_def [of ?u])
qed

lemma trim_space_Nil [simp]: "trim_space [] = []"
  using length_trim_space [of "[]"] by simp

text \<open>A text that begins and ends with printable ASCII bytes is not trimmed.\<close>

definition graphic :: "char \<Rightarrow> bool" where
  "graphic c \<longleftrightarrow> 33 \<le> (of_char c :: nat) \<and> (of_char c :: nat) < 128"

lemma space_runes_not_graphic:
  "p \<in> set space_runes \<Longrightarrow> p \<noteq> [] \<and> \<not> graphic (hd p) \<and> \<not> graphic (last p)"
  by (auto simp: space_runes_def graphic_def byte_def)

lemma prefix_hd: "prefix p s \<Longrightarrow> p \<noteq> [] \<Longrightarrow> hd p = hd s"
  by (auto simp: prefix_def)

lemma trim_space_graphic: "s \<noteq> [] \<Longrightarrow> graphic (hd s) \<Longrightarrow> graphic (last s) \<Longrightarrow> trim_space s = s"
proof -
  assume s: "s \<noteq> []" "graphic (hd s)" "graphic (last s)"
  have "strip space_runes s = s"
    by (rule strip_id) (use s space_runes_not_graphic prefix_hd in metis)
  moreover have "strip (map rev space_runes) (rev s) = rev s"
  proof (rule strip_id)
    fix p assume "p \<in> set (map rev space_runes)" "p \<noteq> []"
    then have "\<not> graphic (hd p)" using space_runes_not_graphic by (auto simp: hd_rev)
    then show "\<not> prefix p (rev s)" using prefix_hd [of p "rev s"] \<open>p \<noteq> []\<close> s(3) by (auto simp: hd_rev)
  qed
  ultimately show ?thesis by (simp add: trim_space_def)
qed

lemma split_on_not_Nil [simp]: "split_on d s \<noteq> []"
  by (induction s) (auto split: list.splits)

lemma split_on_no_sep: "d \<notin> set s \<Longrightarrow> split_on d s = [s]"
  by (induction s) auto

lemma split_on_append: "d \<notin> set p \<Longrightarrow> split_on d (p @ d # rest) = p # split_on d rest"
  by (induction p) auto

lemma join_split_on: "join [d] (split_on d s) = s"
proof (induction s)
  case Nil
  then show ?case by simp
next
  case (Cons c cs)
  then show ?case by (cases "split_on d cs" rule: list.exhaust; cases "tl (split_on d cs)") auto
qed

lemma split_on_parts: "p \<in> set (split_on d s) \<Longrightarrow> d \<notin> set p"
  by (induction s arbitrary: p) (fastforce split: list.splits if_splits)+

lemma length_split_on: "length (split_on d s) = Suc (length (filter (\<lambda>c. c = d) s))"
  by (induction s) (auto split: list.splits)

lemma of_char_less [simp]: "(of_char (c :: char) :: nat) < 256"
  by (metis nat_of_char_less_256)

lemma of_char_byte: "n < 256 \<Longrightarrow> (of_char (byte n) :: nat) = n"
  by (simp add: byte_def)

lemma byte_eq_iff: "n < 256 \<Longrightarrow> byte n = c \<longleftrightarrow> n = of_char c"
  by (metis byte_def char_of_char of_char_byte)

lemma of_char_digit [simp]: "n < 10 \<Longrightarrow> (of_char (digit_char n) :: nat) = 48 + n"
proof -
  assume "n < 10"
  then have "n \<in> {0, 1, 2, 3, 4, 5, 6, 7, 8, 9}" by auto
  then show ?thesis by (auto simp: digit_char_def)
qed

lemma is_digit_digit_char [simp]: "n < 10 \<Longrightarrow> is_digit (digit_char n)"
  by (simp add: is_digit_def)

lemma nat_digits_digits: "list_all is_digit (nat_digits n)"
proof (induction n rule: nat_digits.induct)
  case (1 n)
  then show ?case by (subst nat_digits.simps) simp
qed

lemma nat_digits_not_Nil [simp]: "nat_digits n \<noteq> []"
  by (subst nat_digits.simps) simp

lemma digits_value_append: "digits_value (s @ [c]) = digits_value s * 10 + (of_char c - 48)"
  by (simp add: digits_value_def)

lemma digits_value_nat_digits [simp]: "digits_value (nat_digits n) = n"
proof (induction n rule: nat_digits.induct)
  case (1 n)
  show ?case
  proof (cases "n < 10")
    case True
    then show ?thesis by (simp add: nat_digits.simps [of n] digits_value_def)
  next
    case False
    then show ?thesis using 1 by (simp add: nat_digits.simps [of n] digits_value_append)
  qed
qed

lemma digit_not_sign: "is_digit c \<Longrightarrow> c \<noteq> CHR ''-'' \<and> c \<noteq> CHR ''+'' \<and> c \<noteq> CHR ''.'' \<and> c \<noteq> byte 0"
  by (auto simp: is_digit_def byte_def)

lemma digit_memberI: "list_all is_digit s \<Longrightarrow> \<not> is_digit c \<Longrightarrow> c \<notin> set s"
  by (auto simp: list_all_iff)

text \<open>\<open>Atoi\<close> reads back what \<open>Itoa\<close> writes.\<close>

lemma atoi_itoa: "min_int \<le> n \<Longrightarrow> n \<le> max_int \<Longrightarrow> atoi (itoa n) = Some n"
proof -
  assume n: "min_int \<le> n" "n \<le> max_int"
  show ?thesis
  proof (cases "n < 0")
    case True
    then show ?thesis using n nat_digits_digits by (simp add: itoa_def atoi_def atoi_digits_def)
  next
    case False
    obtain c cs where cs: "nat_digits (nat n) = c # cs" by (cases "nat_digits (nat n)") auto
    have "is_digit c" using nat_digits_digits [of "nat n"] cs by simp
    then show ?thesis using False n cs digit_not_sign [of c] nat_digits_digits [of "nat n"]
        digits_value_nat_digits [of "nat n"]
      by (simp add: itoa_def atoi_def atoi_digits_def)
  qed
qed

lemma nat_digits_no_minus: "nat_digits n \<noteq> CHR ''-'' # s"
  using nat_digits_digits [of n] by (auto simp: is_digit_def)

lemma itoa_inj:
  assumes eq: "itoa a = itoa b"
  shows "a = b"
proof (cases "a < 0"; cases "b < 0")
  assume "a < 0" "b < 0"
  then have "nat_digits (nat (- a)) = nat_digits (nat (- b))" using eq by (simp add: itoa_def)
  then have "nat (- a) = nat (- b)" using digits_value_nat_digits by metis
  then show ?thesis using \<open>a < 0\<close> \<open>b < 0\<close> by linarith
next
  assume "\<not> a < 0" "\<not> b < 0"
  then have "nat_digits (nat a) = nat_digits (nat b)" using eq by (simp add: itoa_def)
  then have "nat a = nat b" using digits_value_nat_digits by metis
  then show ?thesis using \<open>\<not> a < 0\<close> \<open>\<not> b < 0\<close> by linarith
qed (use eq nat_digits_no_minus in \<open>auto simp: itoa_def dest: sym\<close>)

lemma base64_char_alphabet: "base64_char n \<in> set base64_alphabet"
  unfolding base64_char_def by (rule nth_mem) (simp add: base64_alphabet_def)

lemma base64url_alphabet: "set (base64url s) \<subseteq> set base64_alphabet"
  by (induction s rule: base64url.induct) (auto simp: Let_def base64_char_alphabet)

lemma base64url_no_dot: "CHR ''.'' \<notin> set (base64url s)"
proof
  assume "CHR ''.'' \<in> set (base64url s)"
  then have "CHR ''.'' \<in> set base64_alphabet" using base64url_alphabet by blast
  then show False by (simp add: base64_alphabet_def)
qed

lemma length_base64url: "length (base64url s) = (8 * length s + 5) div 6"
  by (induction s rule: base64url.induct) (auto simp: Let_def)

lemma length_hex_encode [simp]: "length (hex_encode s) = 2 * length s"
  by (induction s) (auto simp: hex_encode_def)

section \<open>The order of stored timestamps\<close>

lemma frac_digits_numeral:
  "frac_digits (numeral k) n = frac_digits (pred_numeral k) (n div 10) @ [digit_char (n mod 10)]"
  using frac_digits.simps(2) [of "pred_numeral k" n] by (simp only: numeral_eq_Suc [symmetric])

text \<open>Evaluation of comparisons between given times.\<close>

lemmas stamp_eval = stamp_less_def secs_def nanos_def second_def minute_def hour_def frac_text_def
  trim_right_def frac_digits_numeral digit_char_def

lemma secs_mono: "a \<le> b \<Longrightarrow> secs a \<le> secs b"
  by (simp add: secs_def second_def zdiv_mono1)

text \<open>
  The text order is the order of time up to the second: it never errs by a second or more.
\<close>

lemma stamp_less_bound: "stamp_less a b \<Longrightarrow> a < b + second"
  by (auto simp: stamp_less_def secs_def second_def)

lemma stamp_less_if: "a + second \<le> b \<Longrightarrow> stamp_less a b"
  by (auto simp: stamp_less_def secs_def second_def)

lemma bytes_less_irrefl: "\<not> bytes_less s s"
  by (induction s) auto

lemma stamp_less_irrefl: "\<not> stamp_less a a"
  by (simp add: stamp_less_def bytes_less_irrefl)

text \<open>Whole seconds, and times of which one is whole, compare as the text of their seconds.\<close>

lemma stamp_less_whole: "nanos a = 0 \<Longrightarrow> nanos b = 0 \<Longrightarrow> stamp_less a b \<longleftrightarrow> a < b"
  by (auto simp: stamp_less_def nanos_def secs_def second_def frac_text_def)

text \<open>
  Within one second the order of the texts is not that of the times: half a second (\<open>.5Z\<close>)
  sorts after fifty-five hundredths (\<open>.55Z\<close>), and a whole second (\<open>Z\<close>) after all of its fractions.
\<close>

lemma stamp_order_not_chronological:
  "stamp_less 550000000 500000000" "\<not> stamp_less 0 500000000" "stamp_less 500000000 0"
  by (simp_all add: stamp_eval)

end
