(* ===== verification/Invitation_Model.thy ===== *)
theory Invitation_Model
  imports Go_Lib
begin

text \<open>
  The data of the invitation package (\<open>internal/invitation/model.go\<close>) and its error values
  (\<open>store.go\<close>, \<open>capability.go\<close>, \<open>internal/errcode\<close>). A Go struct is a record, a pointer to a
  string, number or time is an option, and the string constants keep their names.
\<close>

section \<open>Errors\<close>

text \<open>
  The sentinel errors of the package, the validation errors made by
  \<open>errcode.Validationf\<close> (with their message), and every other error (a failed SQL
  statement, an unavailable collaborator), which carries the code's prefix.
\<close>

datatype inv_error =
    ErrNotFound
  | ErrConflict
  | ErrAllowance
  | ErrCapacity
  | ErrDeliverySuppressed
  | ErrInvalidCapability
  | Validation string
  | Internal string

type_synonym 'a result = "inv_error + 'a"

section \<open>Constants\<close>

definition SourcePrivate :: string where "SourcePrivate = ''private''"
definition SourceOpen :: string where "SourceOpen = ''open''"
definition GuestOriginAssigned :: string where "GuestOriginAssigned = ''assigned''"
definition GuestOriginAdditional :: string where "GuestOriginAdditional = ''additional''"
definition AttendancePending :: string where "AttendancePending = ''pending''"
definition AttendanceAttending :: string where "AttendanceAttending = ''attending''"
definition AttendanceMaybe :: string where "AttendanceMaybe = ''maybe''"
definition AttendanceDeclined :: string where "AttendanceDeclined = ''declined''"
definition QuestionScopeInvitation :: string where "QuestionScopeInvitation = ''invitation''"
definition QuestionScopeGuest :: string where "QuestionScopeGuest = ''guest''"
definition DeliveryNotRequested :: string where "DeliveryNotRequested = ''not_requested''"
definition DeliverySent :: string where "DeliverySent = ''sent''"
definition DeliveryFailed :: string where "DeliveryFailed = ''failed''"

lemmas model_consts = SourcePrivate_def SourceOpen_def GuestOriginAssigned_def
  GuestOriginAdditional_def AttendancePending_def AttendanceAttending_def AttendanceMaybe_def
  AttendanceDeclined_def QuestionScopeInvitation_def QuestionScopeGuest_def
  DeliveryNotRequested_def DeliverySent_def DeliveryFailed_def

section \<open>Stored entities\<close>

record Invitation =
  inv_ID :: id
  inv_EventID :: id
  inv_Label :: string
  inv_ContactEmail :: "string option"
  inv_ContactPhone :: "string option"
  inv_PreferredDeliveryMethod :: string
  inv_AdditionalGuestAllowance :: int
  inv_Source :: string
  inv_OpenEnrollmentID :: "id option"
  inv_AccessID :: string
  inv_TokenVersion :: int
  inv_CreatedByUserID :: "id option"
  inv_RevokedAt :: "time option"
  inv_RevocationReason :: "string option"
  inv_CreatedAt :: time
  inv_UpdatedAt :: time

record Guest =
  guest_ID :: id
  guest_InvitationID :: id
  guest_Name :: string
  guest_Origin :: string
  guest_SortOrder :: int
  guest_Attendance :: string
  guest_RemovedAt :: "time option"
  guest_CreatedAt :: time
  guest_UpdatedAt :: time

record Response =
  resp_ID :: id
  resp_InvitationID :: id
  resp_Version :: int
  resp_SubmittedAt :: "time option"
  resp_CreatedAt :: time
  resp_UpdatedAt :: time

record Question =
  q_ID :: id
  q_Label :: string
  q_Type :: string
  q_Options :: "string list"
  q_Required :: bool
  q_Scope :: string
  q_SortOrder :: int

record Answer =
  ans_QuestionID :: id
  ans_Answer :: string

record GuestAnswer =
  ga_GuestID :: id
  ga_QuestionID :: id
  ga_Answer :: string

record EventSummary =
  ev_ID :: id
  ev_Title :: string
  ev_Description :: string
  ev_EventDate :: time
  ev_EndDate :: "time option"
  ev_Location :: string
  ev_Timezone :: string
  ev_Status :: string

record GuestPresentation =
  gp_TemplateID :: string
  gp_Heading :: string
  gp_Body :: string
  gp_Footer :: string
  gp_PrimaryColor :: string
  gp_SecondaryColor :: string
  gp_Font :: string
  gp_BackgroundImage :: string

record DeliverySummary =
  ds_Status :: string
  ds_DeliveryStatus :: string
  ds_Provider :: string
  ds_Error :: string
  ds_AttemptedAt :: time
  ds_SentAt :: "time option"

record Household =
  hh_Invitation :: Invitation
  hh_Event :: EventSummary
  hh_Response :: "Response option"
  hh_Guests :: "Guest list"
  hh_Questions :: "Question list"
  hh_InvitationAnswers :: "Answer list"
  hh_GuestAnswers :: "GuestAnswer list"
  hh_Presentation :: "GuestPresentation option"
  hh_LatestDelivery :: "DeliverySummary option"

section \<open>Requests and results\<close>

record CreateRequest =
  cr_Label :: string
  cr_ContactEmail :: "string option"
  cr_ContactPhone :: "string option"
  cr_PreferredDeliveryMethod :: string
  cr_AdditionalGuestAllowance :: int
  cr_AssignedGuestNames :: "string list"
  cr_Send :: bool

record AssignedGuestEdit =
  age_ID :: id
  age_Name :: string

record UpdateInvitationRequest =
  ur_Label :: string
  ur_ContactEmail :: "string option"
  ur_ContactPhone :: "string option"
  ur_PreferredDeliveryMethod :: string
  ur_AdditionalGuestAllowance :: int
  ur_AssignedGuests :: "AssignedGuestEdit list"

record DeliveryResult =
  dr_Status :: string
  dr_Warning :: string
  dr_err :: "inv_error option"

record CreateResult =
  cres_Invitation :: Invitation
  cres_Guests :: "Guest list"
  cres_AccessURL :: string
  cres_Delivery :: DeliveryResult

record AdditionalGuestInput =
  agi_ID :: id
  agi_ClientKey :: string
  agi_Name :: string
  agi_Attendance :: string

record GuestAttendanceInput =
  gai_GuestID :: id
  gai_Attendance :: string

text \<open>
  A Go map of a request is an association list. The list's order stands for the order in
  which a \<open>range\<close> over the map happens to visit it; a theorem about a request holds for every
  such order.
\<close>

record SubmitRequest =
  sr_Version :: int
  sr_AssignedGuests :: "GuestAttendanceInput list"
  sr_AdditionalGuests :: "AdditionalGuestInput list"
  sr_InvitationAnswers :: "(id \<times> string) list"
  sr_GuestAnswers :: "(id \<times> (id \<times> string) list) list"

record OpenEnrollmentConfig =
  oe_ID :: id
  oe_EventID :: id
  oe_Enabled :: bool
  oe_OpensAt :: "time option"
  oe_ClosesAt :: "time option"
  oe_MaxPartySize :: int
  oe_Capacity :: "int option"
  oe_TokenVersion :: int
  oe_RevokedAt :: "time option"
  oe_CreatedAt :: time
  oe_UpdatedAt :: time
  oe_AccessID :: string

record ConfigureOpenRequest =
  co_Enabled :: bool
  co_OpensAt :: "string option"
  co_ClosesAt :: "string option"
  co_MaxPartySize :: int
  co_Capacity :: "int option"

record OpenEnrollmentRequest =
  or_Capability :: string
  or_Label :: string
  or_ContactEmail :: "string option"
  or_ContactPhone :: "string option"
  or_PreferredDeliveryMethod :: string
  or_GuestNames :: "string list"

record MessageRequest =
  mr_RecipientGroup :: string
  mr_Subject :: string
  mr_Body :: string

record MessagePreview =
  mp_RecipientGroup :: string
  mp_RecipientHouseholds :: nat

record MessageResult =
  mres_Attempted :: nat
  mres_Accepted :: nat
  mres_Failed :: nat
  mres_Skipped :: nat

record InvitationMessage =
  msg_ID :: id
  msg_EventID :: id
  msg_SenderUserID :: "id option"
  msg_RecipientGroup :: string
  msg_Subject :: string
  msg_Body :: string
  msg_CreatedAt :: time

record ImportIssue =
  ii_Row :: nat
  ii_Field :: string
  ii_Message :: string

record ImportHousehold =
  ih_HouseholdKey :: string
  ih_HouseholdLabel :: string
  ih_ContactEmail :: "string option"
  ih_ContactPhone :: "string option"
  ih_PreferredDelivery :: string
  ih_AdditionalGuestAllowance :: int
  ih_AssignedGuestNames :: "string list"

record ImportPreview =
  ip_HouseholdCount :: nat
  ip_AssignedGuestCount :: nat
  ip_Households :: "ImportHousehold list"
  ip_Errors :: "ImportIssue list"
  ip_Warnings :: "ImportIssue list"

record ImportCommitResult =
  icr_HouseholdCount :: nat
  icr_AssignedGuestCount :: nat
  icr_InvitationIDs :: "id list"

section \<open>Contact normalisation\<close>

text \<open>
  \<open>normalizeEmail\<close> and \<open>normalizePhone\<close> of \<open>store.go\<close>. The loop of \<open>normalizePhone\<close> ranges over
  runes, and only the ASCII runes \<open>0\<close> to \<open>9\<close> and \<open>+\<close> are kept; those are single bytes and no byte
  of a longer rune is one of them, so the filter is stated on bytes.
\<close>

definition normalizeEmail :: "'x runtime_scheme \<Rightarrow> string \<Rightarrow> string" where
  "normalizeEmail rt value = to_lower rt (trim_space value)"

definition normalizePhone :: "string \<Rightarrow> string" where
  "normalizePhone value = (case trim_space value of
      [] \<Rightarrow> []
    | c # cs \<Rightarrow> (if is_digit c \<or> c = CHR ''+'' then [c] else []) @ filter is_digit cs)"

definition validAttendance :: "string \<Rightarrow> bool" where
  "validAttendance value \<longleftrightarrow> value \<in> set [AttendancePending, AttendanceAttending,
     AttendanceMaybe, AttendanceDeclined]"

end
