(* ===== verification/Capability.thy ===== *)
theory Capability
  imports Invitation_Model
begin

text \<open>
  Capability signing (\<open>internal/invitation/capability.go\<close>). A capability is the text
  \<open>prefix.accessID.version.proof\<close> whose proof is the base64 form of an HMAC over the domain,
  the access id and the version. The interface that the service relies on is the locale
  \<open>capability_codec\<close>; it is interpreted for the private and for the open capabilities.
\<close>

section \<open>The signer\<close>

record CapabilitySigner =
  cs_key :: string

definition privateCapabilityPrefix :: string where "privateCapabilityPrefix = ''oi1''"
definition openCapabilityPrefix :: string where "openCapabilityPrefix = ''oo1''"
definition privateCapabilityDomain :: string where
  "privateCapabilityDomain = ''owl-invites/private-invitation/v1''"
definition openCapabilityDomain :: string where
  "openCapabilityDomain = ''owl-invites/open-enrollment/v1''"

definition NewCapabilitySigner :: "string \<Rightarrow> CapabilitySigner result" where
  "NewCapabilitySigner secret =
    (if length secret < 32
     then Inl (Internal ''OWL_INVITES_SECRET_KEY must contain at least 32 bytes'')
     else Inr \<lparr> cs_key = secret \<rparr>)"

text \<open>The bytes written to the HMAC by \<open>sign\<close>.\<close>

definition mac_input :: "string \<Rightarrow> string \<Rightarrow> string \<Rightarrow> string" where
  "mac_input domain accessID version = domain @ [byte 0] @ accessID @ [byte 0] @ version"

definition sign :: "'x runtime_scheme \<Rightarrow> CapabilitySigner \<Rightarrow> string \<Rightarrow> string \<Rightarrow> string \<Rightarrow> int \<Rightarrow> string"
where
  "sign rt s pre domain accessID tokenVersion =
    (let version = itoa tokenVersion;
         proof_text = base64url (rt_hmac rt (cs_key s) (mac_input domain accessID version))
     in join ''.'' [pre, accessID, version, proof_text])"

definition parse ::
  "'x runtime_scheme \<Rightarrow> CapabilitySigner \<Rightarrow> string \<Rightarrow> string \<Rightarrow> string \<Rightarrow> (string \<times> int) result" where
  "parse rt s raw pre domain =
    (let parts = split_on (CHR ''.'') raw in
     if length parts \<noteq> 4 \<or> parts ! 0 \<noteq> pre \<or> parts ! 1 = [] then Inl ErrInvalidCapability
     else case atoi (parts ! 2) of
         None \<Rightarrow> Inl ErrInvalidCapability
       | Some version \<Rightarrow>
           if version < 1 then Inl ErrInvalidCapability
           else if raw \<noteq> sign rt s pre domain (parts ! 1) version then Inl ErrInvalidCapability
           else Inr (parts ! 1, version))"

definition Private :: "'x runtime_scheme \<Rightarrow> CapabilitySigner \<Rightarrow> string \<Rightarrow> int \<Rightarrow> string" where
  "Private rt s accessID tokenVersion =
    sign rt s privateCapabilityPrefix privateCapabilityDomain accessID tokenVersion"

definition Open :: "'x runtime_scheme \<Rightarrow> CapabilitySigner \<Rightarrow> string \<Rightarrow> int \<Rightarrow> string" where
  "Open rt s accessID tokenVersion =
    sign rt s openCapabilityPrefix openCapabilityDomain accessID tokenVersion"

definition ParsePrivate :: "'x runtime_scheme \<Rightarrow> CapabilitySigner \<Rightarrow> string \<Rightarrow> (string \<times> int) result"
where
  "ParsePrivate rt s raw = parse rt s raw privateCapabilityPrefix privateCapabilityDomain"

definition ParseOpen :: "'x runtime_scheme \<Rightarrow> CapabilitySigner \<Rightarrow> string \<Rightarrow> (string \<times> int) result" where
  "ParseOpen rt s raw = parse rt s raw openCapabilityPrefix openCapabilityDomain"

section \<open>Random tokens, token hashes and fingerprints\<close>

text \<open>
  \<open>rand n\<close> is what \<open>crypto/rand.Read\<close> fills a buffer of \<open>n\<close> bytes with, \<open>None\<close> when it fails.
\<close>

type_synonym entropy = "nat \<Rightarrow> string option"

definition randomToken :: "entropy \<Rightarrow> nat \<Rightarrow> string result" where
  "randomToken rand n = (case rand n of
      None \<Rightarrow> Inl (Internal ''generate random token'')
    | Some b \<Rightarrow> Inr (base64url b))"

definition hashToken :: "'x runtime_scheme \<Rightarrow> string \<Rightarrow> string" where
  "hashToken rt raw = hex_encode (rt_sha256 rt raw)"

text \<open>The bytes written to the HMAC by \<open>fingerprint\<close>.\<close>

definition fingerprint_input :: "string list \<Rightarrow> string" where
  "fingerprint_input parts =
    ''owl-invites/recovery-rate-limit/v1'' @ concat (map (\<lambda>part. byte 0 # part) parts)"

definition fingerprint :: "'x runtime_scheme \<Rightarrow> CapabilitySigner \<Rightarrow> string list \<Rightarrow> string" where
  "fingerprint rt s parts = hex_encode (rt_hmac rt (cs_key s) (fingerprint_input parts))"

lemmas capability_consts = privateCapabilityPrefix_def openCapabilityPrefix_def
  privateCapabilityDomain_def openCapabilityDomain_def

section \<open>The contract of a capability codec\<close>

text \<open>
  An access id that can travel in a capability: \<open>randomToken\<close> only makes such ids, since
  the base64 alphabet has no full stop.
\<close>

definition selector :: "string \<Rightarrow> bool" where
  "selector a \<longleftrightarrow> a \<noteq> [] \<and> CHR ''.'' \<notin> set a"

definition issuable :: "int \<Rightarrow> bool" where
  "issuable v \<longleftrightarrow> 1 \<le> v \<and> v \<le> max_int"

locale capability_codec =
  fixes mint :: "string \<Rightarrow> int \<Rightarrow> string"
    and accept :: "string \<Rightarrow> (string \<times> int) result"
  assumes complete: "selector a \<Longrightarrow> issuable v \<Longrightarrow> accept (mint a v) = Inr (a, v)"
    and sound: "accept raw = Inr (a, v) \<Longrightarrow> raw = mint a v \<and> selector a \<and> issuable v"
    and only_error: "accept raw = Inl e \<Longrightarrow> e = ErrInvalidCapability"
begin

lemma accept_iff: "accept raw = Inr (a, v) \<longleftrightarrow> raw = mint a v \<and> selector a \<and> issuable v"
  using complete sound by blast

lemma accept_unique: "accept raw = Inr x \<Longrightarrow> accept raw' = Inr x \<Longrightarrow> raw = raw'"
  using sound by (cases x) blast

lemma mint_inj:
  assumes "mint a v = mint b w" "selector a" "issuable v" "selector b" "issuable w"
  shows "a = b \<and> v = w"
proof -
  have "(Inr (a, v) :: (string \<times> int) result) = Inr (b, w)"
    using complete [OF assms(2,3)] complete [OF assms(4,5)] unfolding assms(1) by simp
  then show ?thesis by simp
qed

lemma rejects_other:
  assumes "\<And>a v. raw \<noteq> mint a v"
  shows "accept raw = Inl ErrInvalidCapability"
proof (cases "accept raw")
  case (Inl e)
  then show ?thesis using only_error by simp
next
  case (Inr x)
  then obtain a v where "accept raw = Inr (a, v)" by (cases x) simp
  then show ?thesis using sound assms by blast
qed

end

section \<open>Lemmas on signing and parsing\<close>

lemma itoa_no_dot: "CHR ''.'' \<notin> set (itoa v)"
proof -
  have "CHR ''.'' \<notin> set (nat_digits n)" for n
    using nat_digits_digits by (rule digit_memberI) (simp add: is_digit_def)
  then show ?thesis by (auto simp: itoa_def)
qed

lemma itoa_no_zero_byte: "byte 0 \<notin> set (itoa v)"
proof -
  have "byte 0 \<notin> set (nat_digits n)" for n
    using nat_digits_digits by (rule digit_memberI) (simp add: is_digit_def of_char_byte)
  moreover have "byte 0 \<noteq> CHR ''-''" by (simp add: byte_eq_iff)
  ultimately show ?thesis by (simp add: itoa_def)
qed

lemma sign_parts:
  assumes "CHR ''.'' \<notin> set p" "CHR ''.'' \<notin> set a"
  shows "split_on (CHR ''.'') (sign rt s p d a v) =
    [p, a, itoa v, base64url (rt_hmac rt (cs_key s) (mac_input d a (itoa v)))]"
  using assms
  by (simp add: sign_def Let_def split_on_append split_on_no_sep itoa_no_dot base64url_no_dot)

lemma parse_sign:
  assumes "CHR ''.'' \<notin> set p" "selector a" "issuable v"
  shows "parse rt s (sign rt s p d a v) p d = Inr (a, v)"
proof -
  have "atoi (itoa v) = Some v"
    using assms(3) by (intro atoi_itoa) (auto simp: issuable_def min_int_def)
  then show ?thesis using assms sign_parts [of p a rt s d v]
    by (simp add: parse_def selector_def issuable_def)
qed

lemma atoi_range: "atoi s = Some n \<Longrightarrow> min_int \<le> n \<and> n \<le> max_int"
  by (auto simp: atoi_def atoi_digits_def Let_def split: list.splits if_splits)

lemma parse_Inr_D:
  assumes "parse rt s raw p d = Inr (a, v)"
  shows "raw = sign rt s p d a v \<and> selector a \<and> issuable v"
proof -
  let ?parts = "split_on (CHR ''.'') raw"
  from assms have parts: "length ?parts = 4" "?parts ! 0 = p" "?parts ! 1 \<noteq> []"
    by (auto simp: parse_def Let_def split: if_splits)
  with assms have a: "a = ?parts ! 1" and v: "atoi (?parts ! 2) = Some v" "1 \<le> v"
    and raw: "raw = sign rt s p d a v"
    by (auto simp: parse_def Let_def split: if_splits option.splits)
  have "CHR ''.'' \<notin> set a" unfolding a by (rule split_on_parts [of _ _ raw]) (simp add: parts(1))
  moreover have "a \<noteq> []" unfolding a by (rule parts(3))
  ultimately have "selector a" by (simp add: selector_def)
  moreover have "issuable v" using v(2) atoi_range [OF v(1)] by (simp add: issuable_def)
  ultimately show ?thesis using raw by blast
qed

lemma parse_Inl_D: "parse rt s raw p d = Inl e \<Longrightarrow> e = ErrInvalidCapability"
  by (auto simp: parse_def Let_def split: if_splits option.splits)

interpretation private_codec: capability_codec "Private rt s" "ParsePrivate rt s" for rt s
proof
  show "ParsePrivate rt s (Private rt s a v) = Inr (a, v)" if "selector a" "issuable v" for a v
    unfolding ParsePrivate_def Private_def using that by (intro parse_sign) (simp_all add: capability_consts)
qed (auto simp: ParsePrivate_def Private_def dest: parse_Inr_D parse_Inl_D)

interpretation open_codec: capability_codec "Open rt s" "ParseOpen rt s" for rt s
proof
  show "ParseOpen rt s (Open rt s a v) = Inr (a, v)" if "selector a" "issuable v" for a v
    unfolding ParseOpen_def Open_def using that by (intro parse_sign) (simp_all add: capability_consts)
qed (auto simp: ParseOpen_def Open_def dest: parse_Inr_D parse_Inl_D)

text \<open>The HMAC input determines the domain, the access id and the version.\<close>

lemma append_sep_inject:
  assumes "x \<notin> set a" "x \<notin> set b" "a @ x # c = b @ x # d"
  shows "a = b \<and> c = d"
  using assms
proof (induction a arbitrary: b)
  case Nil
  then show ?case by (cases b) auto
next
  case (Cons y a)
  then show ?case by (cases b) auto
qed

lemma mac_input_inject:
  assumes "mac_input d a (itoa v) = mac_input d' a' (itoa v')"
    and "byte 0 \<notin> set d" "byte 0 \<notin> set d'"
  shows "d = d' \<and> a = a' \<and> v = v'"
proof -
  have dd: "d = d'" "a @ byte 0 # itoa v = a' @ byte 0 # itoa v'"
    using append_sep_inject [OF assms(2,3)] assms(1) by (auto simp: mac_input_def)
  have "rev (itoa v) @ byte 0 # rev a = rev (itoa v') @ byte 0 # rev a'"
    using arg_cong [OF dd(2), of rev] by simp
  then have "rev (itoa v) = rev (itoa v') \<and> rev a = rev a'"
    using itoa_no_zero_byte by (intro append_sep_inject [of "byte 0"]) auto
  then show ?thesis using dd itoa_inj by auto
qed

lemma fingerprint_input_inject:
  assumes "fingerprint_input ps = fingerprint_input qs"
    and "\<forall>p \<in> set ps \<union> set qs. byte 0 \<notin> set p"
  shows "ps = qs"
proof -
  let ?cat = "\<lambda>ps. concat (map (\<lambda>part. byte 0 # part) ps)"
  have "?cat ps = ?cat qs" using assms(1) by (simp add: fingerprint_input_def)
  then show ?thesis using assms(2)
  proof (induction ps arbitrary: qs)
    case Nil
    then show ?case by (cases qs) auto
  next
    case (Cons p ps)
    then obtain q qs' where qs: "qs = q # qs'" by (cases qs) auto
    have eq: "p @ ?cat ps = q @ ?cat qs'" and pq: "byte 0 \<notin> set p" "byte 0 \<notin> set q"
      using Cons.prems qs by auto
    have "p = q \<and> ?cat ps = ?cat qs'"
    proof -
      have shape: "takeWhile (\<lambda>c. c \<noteq> byte 0) (r @ ?cat rs) = r" if "byte 0 \<notin> set r" for r rs
      proof -
        have "takeWhile (\<lambda>c. c \<noteq> byte 0) (?cat rs) = []" by (cases rs) auto
        then show ?thesis using that by (subst takeWhile_append2) auto
      qed
      then have "p = q" using eq pq by metis
      then show ?thesis using eq by simp
    qed
    then show ?case using Cons.IH [of qs'] Cons.prems(2) qs by auto
  qed
qed

lemma randomToken_selector:
  assumes "randomToken rand n = Inr t" "rand n = Some b" "length b = n" "0 < n"
  shows "selector t \<and> length t = (8 * n + 5) div 6"
proof -
  have t: "t = base64url b" using assms(1,2) by (simp add: randomToken_def)
  then have len: "length t = (8 * n + 5) div 6" using assms(3) by (simp add: length_base64url)
  moreover have "0 < (8 * n + 5) div 6" using assms(4) by simp
  ultimately have "t \<noteq> []" by auto
  then show ?thesis using t len base64url_no_dot by (simp add: selector_def)
qed

text \<open>What a parsed capability was minted for, even when that was no valid selector.\<close>

lemma private_parts:
  assumes "ParsePrivate rt s (Private rt s a v) = Inr (b, w)"
  shows "a = b \<and> v = w"
proof -
  have "Private rt s a v = Private rt s b w" "selector b"
    using private_codec.sound [OF assms] by auto
  then have "join ''.'' [a, itoa v, base64url (rt_hmac rt (cs_key s) (mac_input privateCapabilityDomain a (itoa v)))] =
      join ''.'' [b, itoa w, base64url (rt_hmac rt (cs_key s) (mac_input privateCapabilityDomain b (itoa w)))]"
    by (simp add: Private_def sign_def Let_def)
  then have eq: "a @ CHR ''.'' # itoa v @ CHR ''.'' # base64url (rt_hmac rt (cs_key s) (mac_input privateCapabilityDomain a (itoa v))) =
      b @ CHR ''.'' # itoa w @ CHR ''.'' # base64url (rt_hmac rt (cs_key s) (mac_input privateCapabilityDomain b (itoa w)))"
    by simp
  let ?p = "\<lambda>a v. base64url (rt_hmac rt (cs_key s) (mac_input privateCapabilityDomain a (itoa v)))"
  have "rev (?p a v) @ CHR ''.'' # rev (itoa v) @ CHR ''.'' # rev a =
      rev (?p b w) @ CHR ''.'' # rev (itoa w) @ CHR ''.'' # rev b"
    using arg_cong [OF eq, of rev] by simp
  then have "rev (itoa v) @ CHR ''.'' # rev a = rev (itoa w) @ CHR ''.'' # rev b"
    using append_sep_inject [of "CHR ''.''" "rev (?p a v)" "rev (?p b w)"] base64url_no_dot unfolding set_rev by blast
  then have "rev (itoa v) = rev (itoa w) \<and> rev a = rev b"
    by (rule append_sep_inject [rotated 2]) (simp_all add: itoa_no_dot)
  then show ?thesis by (auto dest: itoa_inj)
qed

section \<open>Properties\<close>

lemma sign_first_part:
  assumes "CHR ''.'' \<notin> set p"
  shows "split_on (CHR ''.'') (sign rt s p d a v) ! 0 = p"
  using assms by (simp add: sign_def Let_def split_on_append)

lemma parse_other_prefix:
  assumes "CHR ''.'' \<notin> set p" "p \<noteq> p'"
  shows "parse rt s (sign rt s p d a v) p' d' = Inl ErrInvalidCapability"
  using sign_first_part [OF assms(1), of rt s d a v] assms(2) by (simp add: parse_def Let_def)

lemma domains_no_zero_byte:
  "byte 0 \<notin> set privateCapabilityDomain" "byte 0 \<notin> set openCapabilityDomain"
  by (simp_all add: capability_consts byte_eq_iff)

text \<open>
  C5: a private or open capability is accepted exactly when it is, byte for byte, the one the
  signer mints for the returned access id and version, and these are a non-empty id without
  full stops and a version of at least 1 that fits a 64-bit integer. In particular every
  minted capability is accepted and nothing else is, for every HMAC function.
\<close>

theorem capability_accepts_exactly_minted:
  "(ParsePrivate rt s raw = Inr (a, v) \<longleftrightarrow> raw = Private rt s a v \<and> selector a \<and> issuable v) \<and>
   (ParseOpen rt s raw = Inr (a, v) \<longleftrightarrow> raw = Open rt s a v \<and> selector a \<and> issuable v)"
  by (rule conjI [OF private_codec.accept_iff open_codec.accept_iff])

text \<open>
  The two kinds of capability are separated. No open capability passes as a private one or
  the other way round, and the bytes under the HMAC differ for any ids and versions, so that a
  proof made for one kind is a proof for a different message of the other.
\<close>

theorem capability_domain_separation:
  "ParsePrivate rt s (Open rt s a v) = Inl ErrInvalidCapability \<and>
   ParseOpen rt s (Private rt s a v) = Inl ErrInvalidCapability \<and>
   mac_input privateCapabilityDomain a (itoa v) \<noteq> mac_input openCapabilityDomain a' (itoa v')"
proof (intro conjI)
  show "ParsePrivate rt s (Open rt s a v) = Inl ErrInvalidCapability"
    unfolding ParsePrivate_def Open_def by (rule parse_other_prefix) (simp_all add: capability_consts)
  show "ParseOpen rt s (Private rt s a v) = Inl ErrInvalidCapability"
    unfolding ParseOpen_def Private_def by (rule parse_other_prefix) (simp_all add: capability_consts)
  have "privateCapabilityDomain \<noteq> openCapabilityDomain" by (simp add: capability_consts)
  then show "mac_input privateCapabilityDomain a (itoa v) \<noteq> mac_input openCapabilityDomain a' (itoa v')"
    using mac_input_inject domains_no_zero_byte by blast
qed

text \<open>
  The HMAC input is an injective encoding: two access ids and versions of one kind of
  capability share a proof's message only when they are equal, whatever bytes the ids contain.
\<close>

theorem capability_mac_input_injective:
  "mac_input privateCapabilityDomain a (itoa v) = mac_input privateCapabilityDomain a' (itoa v')
     \<longleftrightarrow> a = a' \<and> v = v'"
proof
  assume "mac_input privateCapabilityDomain a (itoa v) = mac_input privateCapabilityDomain a' (itoa v')"
  from mac_input_inject [OF this domains_no_zero_byte(1,1)] show "a = a' \<and> v = v'" by blast
qed simp

end
