(* ===== verification/Schema.thy ===== *)
theory Schema
  imports Invitation_Model
begin

text \<open>
  The tables of the invitation domain (migrations 000005, 000023, 000034 and 000036 of
  \<open>internal/database/migrations/sqlite\<close>) and their INSERT statements. A table is the list of
  its rows; the insert functions check the primary keys, UNIQUE, CHECK and REFERENCES
  constraints of the migrations (the connection is opened with foreign keys on) and return
  \<open>None\<close> when the engine would refuse the statement.

  A time is kept as a number; the comparisons that a statement makes on the stored text are
  made by \<open>stamp_less\<close>. The surrogate keys that no statement reads (of guest responses,
  answers, sessions, recovery tokens, recovery attempts and messages) are left out.

  The database is opened with one connection, so that transactions run one after the other;
  a transaction is a function from the database to an error (the rollback) or the new
  database (the commit).
\<close>

section \<open>Rows\<close>

record invitation_row = Invitation +
  inv_normalized_email :: "string option"
  inv_normalized_phone :: "string option"

record guest_row =
  g_id :: id
  g_invitation_id :: id
  g_name :: string
  g_origin :: string
  g_sort_order :: int
  g_removed_at :: "time option"
  g_created_at :: time
  g_updated_at :: time

record guest_response_row =
  gr_response_id :: id
  gr_guest_id :: id
  gr_attendance :: string
  gr_created_at :: time
  gr_updated_at :: time

record question_row =
  qr_id :: id
  qr_event_id :: id
  qr_label :: string
  qr_type :: string
  qr_options :: string
  qr_required :: bool
  qr_scope :: string
  qr_sort_order :: int
  qr_deleted :: bool
  qr_created_at :: time
  qr_updated_at :: time

record invitation_answer_row =
  ia_invitation_id :: id
  ia_question_id :: id
  ia_answer :: string
  ia_created_at :: time

record guest_answer_row =
  gar_guest_id :: id
  gar_question_id :: id
  gar_answer :: string
  gar_created_at :: time

record open_enrollment_row = OpenEnrollmentConfig +
  oe_created_by_user_id :: "id option"

record session_row =
  ss_invitation_id :: id
  ss_token_hash :: string
  ss_issued_token_version :: int
  ss_expires_at :: time
  ss_last_used_at :: "time option"
  ss_revoked_at :: "time option"
  ss_created_at :: time

record recovery_token_row =
  rk_invitation_id :: id
  rk_token_hash :: string
  rk_destination :: string
  rk_expires_at :: time
  rk_consumed_at :: "time option"
  rk_created_at :: time

record recovery_attempt_row =
  ra_event_id :: id
  ra_source_fingerprint :: string
  ra_destination_fingerprint :: string
  ra_created_at :: time

record invite_card_row =
  ic_id :: id
  ic_event_id :: id
  ic_template_id :: string
  ic_heading :: string
  ic_body :: string
  ic_footer :: string
  ic_primary_color :: string
  ic_secondary_color :: string
  ic_font :: string
  ic_custom_data :: string
  ic_created_at :: time
  ic_updated_at :: time

record notification_row =
  nl_id :: id
  nl_invitation_id :: "id option"
  nl_status :: string
  nl_delivery_status :: string
  nl_provider :: string
  nl_error :: "string option"
  nl_created_at :: time
  nl_sent_at :: "time option"

record db =
  db_users :: "id list"
  db_events :: "EventSummary list"
  db_questions :: "question_row list"
  db_open :: "open_enrollment_row list"
  db_invitations :: "invitation_row list"
  db_guests :: "guest_row list"
  db_responses :: "Response list"
  db_guest_responses :: "guest_response_row list"
  db_invitation_answers :: "invitation_answer_row list"
  db_guest_answers :: "guest_answer_row list"
  db_sessions :: "session_row list"
  db_recovery_tokens :: "recovery_token_row list"
  db_recovery_attempts :: "recovery_attempt_row list"
  db_messages :: "InvitationMessage list"
  db_cards :: "invite_card_row list"
  db_notifications :: "notification_row list"

section \<open>INSERT statements\<close>

definition event_ids :: "db \<Rightarrow> id set" where "event_ids d = ev_ID ` set (db_events d)"
definition invitation_ids :: "db \<Rightarrow> id set" where "invitation_ids d = inv_ID ` set (db_invitations d)"
definition guest_ids :: "db \<Rightarrow> id set" where "guest_ids d = g_id ` set (db_guests d)"
definition response_ids :: "db \<Rightarrow> id set" where "response_ids d = resp_ID ` set (db_responses d)"
definition question_ids :: "db \<Rightarrow> id set" where "question_ids d = qr_id ` set (db_questions d)"

definition user_ref_ok :: "db \<Rightarrow> id option \<Rightarrow> bool" where
  "user_ref_ok d u = (case u of None \<Rightarrow> True | Some uid \<Rightarrow> uid \<in> set (db_users d))"

text \<open>The CHECK constraints on a row of \<open>invitations\<close>.\<close>

definition invitation_checks :: "invitation_row \<Rightarrow> bool" where
  "invitation_checks r \<longleftrightarrow>
    inv_PreferredDeliveryMethod r \<in> set [''email'', ''sms'', ''none''] \<and>
    0 \<le> inv_AdditionalGuestAllowance r \<and> 0 < inv_TokenVersion r \<and>
    (inv_Source r = ''private'' \<and> inv_OpenEnrollmentID r = None \<or>
     inv_Source r = ''open'' \<and> inv_OpenEnrollmentID r \<noteq> None)"

definition insert_invitation :: "invitation_row \<Rightarrow> db \<Rightarrow> db option" where
  "insert_invitation r d =
    (if inv_ID r \<notin> invitation_ids d \<and>
        inv_AccessID r \<notin> inv_AccessID ` set (db_invitations d) \<and>
        inv_EventID r \<in> event_ids d \<and>
        (case inv_OpenEnrollmentID r of None \<Rightarrow> True | Some oid \<Rightarrow> oid \<in> oe_ID ` set (db_open d)) \<and>
        user_ref_ok d (inv_CreatedByUserID r) \<and> invitation_checks r
     then Some (d\<lparr>db_invitations := add_row r (db_invitations d)\<rparr>) else None)"

definition insert_guest :: "guest_row \<Rightarrow> db \<Rightarrow> db option" where
  "insert_guest r d =
    (if g_id r \<notin> guest_ids d \<and> g_invitation_id r \<in> invitation_ids d \<and>
        g_origin r \<in> set [''assigned'', ''additional'']
     then Some (d\<lparr>db_guests := add_row r (db_guests d)\<rparr>) else None)"

definition insert_response :: "Response \<Rightarrow> db \<Rightarrow> db option" where
  "insert_response r d =
    (if resp_ID r \<notin> response_ids d \<and> resp_InvitationID r \<in> invitation_ids d \<and>
        resp_InvitationID r \<notin> resp_InvitationID ` set (db_responses d) \<and> 0 < resp_Version r
     then Some (d\<lparr>db_responses := add_row r (db_responses d)\<rparr>) else None)"

definition guest_response_ok :: "guest_response_row \<Rightarrow> db \<Rightarrow> bool" where
  "guest_response_ok r d \<longleftrightarrow> gr_response_id r \<in> response_ids d \<and> gr_guest_id r \<in> guest_ids d \<and>
     validAttendance (gr_attendance r)"

definition insert_guest_response :: "guest_response_row \<Rightarrow> db \<Rightarrow> db option" where
  "insert_guest_response r d =
    (if guest_response_ok r d \<and> gr_guest_id r \<notin> gr_guest_id ` set (db_guest_responses d)
     then Some (d\<lparr>db_guest_responses := add_row r (db_guest_responses d)\<rparr>) else None)"

definition insert_invitation_answer :: "invitation_answer_row \<Rightarrow> db \<Rightarrow> db option" where
  "insert_invitation_answer r d =
    (if ia_invitation_id r \<in> invitation_ids d \<and> ia_question_id r \<in> question_ids d \<and>
        (ia_invitation_id r, ia_question_id r) \<notin>
          (\<lambda>x. (ia_invitation_id x, ia_question_id x)) ` set (db_invitation_answers d)
     then Some (d\<lparr>db_invitation_answers := add_row r (db_invitation_answers d)\<rparr>) else None)"

definition insert_guest_answer :: "guest_answer_row \<Rightarrow> db \<Rightarrow> db option" where
  "insert_guest_answer r d =
    (if gar_guest_id r \<in> guest_ids d \<and> gar_question_id r \<in> question_ids d \<and>
        (gar_guest_id r, gar_question_id r) \<notin>
          (\<lambda>x. (gar_guest_id x, gar_question_id x)) ` set (db_guest_answers d)
     then Some (d\<lparr>db_guest_answers := add_row r (db_guest_answers d)\<rparr>) else None)"

definition insert_session :: "session_row \<Rightarrow> db \<Rightarrow> db option" where
  "insert_session r d =
    (if ss_invitation_id r \<in> invitation_ids d \<and> 0 < ss_issued_token_version r \<and>
        ss_token_hash r \<notin> ss_token_hash ` set (db_sessions d)
     then Some (d\<lparr>db_sessions := add_row r (db_sessions d)\<rparr>) else None)"

definition insert_recovery_token :: "recovery_token_row \<Rightarrow> db \<Rightarrow> db option" where
  "insert_recovery_token r d =
    (if rk_invitation_id r \<in> invitation_ids d \<and> rk_destination r \<in> set [''email'', ''sms''] \<and>
        rk_token_hash r \<notin> rk_token_hash ` set (db_recovery_tokens d)
     then Some (d\<lparr>db_recovery_tokens := add_row r (db_recovery_tokens d)\<rparr>) else None)"

definition insert_recovery_attempt :: "recovery_attempt_row \<Rightarrow> db \<Rightarrow> db option" where
  "insert_recovery_attempt r d =
    (if ra_event_id r \<in> event_ids d
     then Some (d\<lparr>db_recovery_attempts := add_row r (db_recovery_attempts d)\<rparr>) else None)"

definition insert_message :: "InvitationMessage \<Rightarrow> db \<Rightarrow> db option" where
  "insert_message r d =
    (if msg_EventID r \<in> event_ids d \<and> user_ref_ok d (msg_SenderUserID r) \<and>
        msg_RecipientGroup r \<in> set [''all'', ''attending'', ''maybe'', ''declined'', ''pending'']
     then Some (d\<lparr>db_messages := add_row r (db_messages d)\<rparr>) else None)"

text \<open>The CHECK constraints of \<open>open_enrollments\<close>; the last one compares the stored texts.\<close>

definition open_checks :: "open_enrollment_row \<Rightarrow> bool" where
  "open_checks r \<longleftrightarrow> 0 < oe_TokenVersion r \<and> 0 < oe_MaxPartySize r \<and>
    (case oe_Capacity r of None \<Rightarrow> True | Some c \<Rightarrow> 0 < c) \<and>
    (case (oe_OpensAt r, oe_ClosesAt r) of (Some a, Some b) \<Rightarrow> stamp_less a b | _ \<Rightarrow> True)"

section \<open>The schema invariant\<close>

text \<open>
  What the constraints of the migrations guarantee of a database: keys are unique and
  references resolve.
\<close>

definition keys_unique :: "db \<Rightarrow> bool" where
  "keys_unique d \<longleftrightarrow>
    distinct (map ev_ID (db_events d)) \<and>
    distinct (map inv_ID (db_invitations d)) \<and>
    distinct (map inv_AccessID (db_invitations d)) \<and>
    distinct (map g_id (db_guests d)) \<and>
    distinct (map resp_ID (db_responses d)) \<and>
    distinct (map resp_InvitationID (db_responses d)) \<and>
    distinct (map gr_guest_id (db_guest_responses d)) \<and>
    distinct (map ss_token_hash (db_sessions d)) \<and>
    distinct (map rk_token_hash (db_recovery_tokens d)) \<and>
    distinct (map oe_ID (db_open d)) \<and>
    distinct (map oe_EventID (db_open d)) \<and>
    distinct (map oe_AccessID (db_open d))"

definition refs_ok :: "db \<Rightarrow> bool" where
  "refs_ok d \<longleftrightarrow>
    (\<forall>r \<in> set (db_invitations d). inv_EventID r \<in> event_ids d) \<and>
    (\<forall>r \<in> set (db_guests d). g_invitation_id r \<in> invitation_ids d) \<and>
    (\<forall>r \<in> set (db_responses d). resp_InvitationID r \<in> invitation_ids d) \<and>
    (\<forall>r \<in> set (db_guest_responses d). gr_guest_id r \<in> guest_ids d) \<and>
    (\<forall>r \<in> set (db_sessions d). ss_invitation_id r \<in> invitation_ids d) \<and>
    (\<forall>r \<in> set (db_recovery_tokens d). rk_invitation_id r \<in> invitation_ids d)"

text \<open>
  The invariant the store's code keeps beyond the constraints: every invitation has its
  response row, so that the queries for it find one.
\<close>

definition responses_total :: "db \<Rightarrow> bool" where
  "responses_total d \<longleftrightarrow>
    (\<forall>r \<in> set (db_invitations d). inv_ID r \<in> resp_InvitationID ` set (db_responses d))"

definition wf_db :: "db \<Rightarrow> bool" where
  "wf_db d \<longleftrightarrow> keys_unique d \<and> refs_ok d \<and> responses_total d"

lemmas id_set_defs = event_ids_def invitation_ids_def guest_ids_def response_ids_def question_ids_def

lemmas insert_defs = insert_invitation_def insert_guest_def insert_response_def
  insert_guest_response_def insert_invitation_answer_def insert_guest_answer_def
  insert_session_def insert_recovery_token_def insert_recovery_attempt_def insert_message_def

text \<open>The empty database of a new instance with one event and one user.\<close>

definition empty_db :: "id list \<Rightarrow> EventSummary list \<Rightarrow> question_row list \<Rightarrow> db" where
  "empty_db us evs qs = \<lparr> db_users = us, db_events = evs, db_questions = qs, db_open = [],
     db_invitations = [], db_guests = [], db_responses = [], db_guest_responses = [],
     db_invitation_answers = [], db_guest_answers = [], db_sessions = [],
     db_recovery_tokens = [], db_recovery_attempts = [], db_messages = [], db_cards = [],
     db_notifications = [] \<rparr>"

section \<open>Lemmas\<close>

lemma wf_empty_db: "distinct (map ev_ID evs) \<Longrightarrow> wf_db (empty_db us evs qs)"
  by (simp add: wf_db_def keys_unique_def refs_ok_def responses_total_def empty_db_def)

text \<open>A row found by its primary key is the only one with that key.\<close>

lemma unique_row:
  assumes "distinct (map k rows)" "r \<in> set rows" "r' \<in> set rows" "k r = k r'"
  shows "r = r'"
  using assms by (auto simp: distinct_map dest: inj_onD)

text \<open>What an insert that succeeds has checked and done.\<close>

lemma insert_invitation_D:
  assumes "insert_invitation r d = Some d'"
  shows "d' = d\<lparr>db_invitations := add_row r (db_invitations d)\<rparr>"
    and "inv_ID r \<notin> inv_ID ` set (db_invitations d)"
    and "inv_AccessID r \<notin> inv_AccessID ` set (db_invitations d)"
    and "inv_EventID r \<in> event_ids d"
  using assms by (simp_all add: insert_invitation_def invitation_ids_def split: if_splits)

lemma insert_guest_D:
  assumes "insert_guest r d = Some d'"
  shows "d' = d\<lparr>db_guests := add_row r (db_guests d)\<rparr>"
    and "g_id r \<notin> g_id ` set (db_guests d)"
    and "g_invitation_id r \<in> invitation_ids d"
  using assms by (simp_all add: insert_guest_def guest_ids_def split: if_splits)

lemma insert_response_D:
  assumes "insert_response r d = Some d'"
  shows "d' = d\<lparr>db_responses := add_row r (db_responses d)\<rparr>"
    and "resp_ID r \<notin> resp_ID ` set (db_responses d)"
    and "resp_InvitationID r \<notin> resp_InvitationID ` set (db_responses d)"
    and "resp_InvitationID r \<in> invitation_ids d"
  using assms by (simp_all add: insert_response_def response_ids_def split: if_splits)

lemma insert_guest_response_D:
  assumes "insert_guest_response r d = Some d'"
  shows "d' = d\<lparr>db_guest_responses := add_row r (db_guest_responses d)\<rparr>"
    and "gr_guest_id r \<notin> gr_guest_id ` set (db_guest_responses d)"
    and "gr_guest_id r \<in> guest_ids d"
  using assms by (simp_all add: insert_guest_response_def guest_response_ok_def split: if_splits)

lemma insert_session_D:
  assumes "insert_session r d = Some d'"
  shows "d' = d\<lparr>db_sessions := add_row r (db_sessions d)\<rparr>"
    and "ss_token_hash r \<notin> ss_token_hash ` set (db_sessions d)"
    and "ss_invitation_id r \<in> invitation_ids d"
  using assms by (simp_all add: insert_session_def split: if_splits)

lemma insert_recovery_token_D:
  assumes "insert_recovery_token r d = Some d'"
  shows "d' = d\<lparr>db_recovery_tokens := add_row r (db_recovery_tokens d)\<rparr>"
    and "rk_token_hash r \<notin> rk_token_hash ` set (db_recovery_tokens d)"
    and "rk_invitation_id r \<in> invitation_ids d"
  using assms by (simp_all add: insert_recovery_token_def split: if_splits)

lemma insert_recovery_attempt_D:
  assumes "insert_recovery_attempt r d = Some d'"
  shows "d' = d\<lparr>db_recovery_attempts := add_row r (db_recovery_attempts d)\<rparr>"
  using assms by (simp_all add: insert_recovery_attempt_def split: if_splits)

lemma insert_message_D:
  assumes "insert_message r d = Some d'"
  shows "d' = d\<lparr>db_messages := add_row r (db_messages d)\<rparr>"
  using assms by (simp_all add: insert_message_def split: if_splits)

lemma insert_invitation_answer_D:
  assumes "insert_invitation_answer r d = Some d'"
  shows "d' = d\<lparr>db_invitation_answers := add_row r (db_invitation_answers d)\<rparr>"
  using assms by (simp_all add: insert_invitation_answer_def split: if_splits)

lemma insert_guest_answer_D:
  assumes "insert_guest_answer r d = Some d'"
  shows "d' = d\<lparr>db_guest_answers := add_row r (db_guest_answers d)\<rparr>"
  using assms by (simp_all add: insert_guest_answer_def split: if_splits)

text \<open>The inserts keep the key and reference invariants.\<close>

lemma insert_keys_unique:
  assumes "keys_unique d"
  shows "insert_invitation ir d = Some d' \<Longrightarrow> keys_unique d'"
    and "insert_guest gr d = Some d' \<Longrightarrow> keys_unique d'"
    and "insert_response rr d = Some d' \<Longrightarrow> keys_unique d'"
    and "insert_guest_response xr d = Some d' \<Longrightarrow> keys_unique d'"
    and "insert_session sr d = Some d' \<Longrightarrow> keys_unique d'"
    and "insert_recovery_token kr d = Some d' \<Longrightarrow> keys_unique d'"
    and "insert_recovery_attempt ar d = Some d' \<Longrightarrow> keys_unique d'"
    and "insert_message mr d = Some d' \<Longrightarrow> keys_unique d'"
    and "insert_invitation_answer iar d = Some d' \<Longrightarrow> keys_unique d'"
    and "insert_guest_answer gar d = Some d' \<Longrightarrow> keys_unique d'"
proof -
  note ok = assms [unfolded keys_unique_def]
  show "keys_unique d'" if "insert_invitation ir d = Some d'"
    using ok insert_invitation_D [OF that] by (simp add: keys_unique_def)
  show "keys_unique d'" if "insert_guest gr d = Some d'"
    using ok insert_guest_D [OF that] by (simp add: keys_unique_def)
  show "keys_unique d'" if "insert_response rr d = Some d'"
    using ok insert_response_D [OF that] by (simp add: keys_unique_def)
  show "keys_unique d'" if "insert_guest_response xr d = Some d'"
    using ok insert_guest_response_D [OF that] by (simp add: keys_unique_def)
  show "keys_unique d'" if "insert_session sr d = Some d'"
    using ok insert_session_D [OF that] by (simp add: keys_unique_def)
  show "keys_unique d'" if "insert_recovery_token kr d = Some d'"
    using ok insert_recovery_token_D [OF that] by (simp add: keys_unique_def)
  show "keys_unique d'" if "insert_recovery_attempt ar d = Some d'"
    using ok insert_recovery_attempt_D [OF that] by (simp add: keys_unique_def)
  show "keys_unique d'" if "insert_message mr d = Some d'"
    using ok insert_message_D [OF that] by (simp add: keys_unique_def)
  show "keys_unique d'" if "insert_invitation_answer iar d = Some d'"
    using ok insert_invitation_answer_D [OF that] by (simp add: keys_unique_def)
  show "keys_unique d'" if "insert_guest_answer gar d = Some d'"
    using ok insert_guest_answer_D [OF that] by (simp add: keys_unique_def)
qed

lemma insert_refs_ok:
  assumes "refs_ok d"
  shows "insert_invitation ir d = Some d' \<Longrightarrow> refs_ok d'"
    and "insert_guest gr d = Some d' \<Longrightarrow> refs_ok d'"
    and "insert_response rr d = Some d' \<Longrightarrow> refs_ok d'"
    and "insert_guest_response xr d = Some d' \<Longrightarrow> refs_ok d'"
    and "insert_session sr d = Some d' \<Longrightarrow> refs_ok d'"
    and "insert_recovery_token kr d = Some d' \<Longrightarrow> refs_ok d'"
    and "insert_recovery_attempt ar d = Some d' \<Longrightarrow> refs_ok d'"
    and "insert_message mr d = Some d' \<Longrightarrow> refs_ok d'"
    and "insert_invitation_answer iar d = Some d' \<Longrightarrow> refs_ok d'"
    and "insert_guest_answer gar d = Some d' \<Longrightarrow> refs_ok d'"
proof -
  note ok = assms [unfolded refs_ok_def id_set_defs]
  show "refs_ok d'" if "insert_invitation ir d = Some d'"
    using ok insert_invitation_D [OF that] by (simp add: refs_ok_def id_set_defs)
  show "refs_ok d'" if "insert_guest gr d = Some d'"
    using ok insert_guest_D [OF that] by (simp add: refs_ok_def id_set_defs)
  show "refs_ok d'" if "insert_response rr d = Some d'"
    using ok insert_response_D [OF that] by (simp add: refs_ok_def id_set_defs)
  show "refs_ok d'" if "insert_guest_response xr d = Some d'"
    using ok insert_guest_response_D [OF that] by (simp add: refs_ok_def id_set_defs)
  show "refs_ok d'" if "insert_session sr d = Some d'"
    using ok insert_session_D [OF that] by (simp add: refs_ok_def id_set_defs)
  show "refs_ok d'" if "insert_recovery_token kr d = Some d'"
    using ok insert_recovery_token_D [OF that] by (simp add: refs_ok_def id_set_defs)
  show "refs_ok d'" if "insert_recovery_attempt ar d = Some d'"
    using ok insert_recovery_attempt_D [OF that] by (simp add: refs_ok_def id_set_defs)
  show "refs_ok d'" if "insert_message mr d = Some d'"
    using ok insert_message_D [OF that] by (simp add: refs_ok_def id_set_defs)
  show "refs_ok d'" if "insert_invitation_answer iar d = Some d'"
    using ok insert_invitation_answer_D [OF that] by (simp add: refs_ok_def id_set_defs)
  show "refs_ok d'" if "insert_guest_answer gar d = Some d'"
    using ok insert_guest_answer_D [OF that] by (simp add: refs_ok_def id_set_defs)
qed

text \<open>
  The shape of a database: the keys and references of its rows. The invariant depends on the
  shape only, and a statement that leaves the key columns alone keeps it.
\<close>

definition invitation_key :: "invitation_row \<Rightarrow> id \<times> string \<times> id" where
  "invitation_key r = (inv_ID r, inv_AccessID r, inv_EventID r)"
definition guest_key :: "guest_row \<Rightarrow> id \<times> id" where
  "guest_key r = (g_id r, g_invitation_id r)"
definition response_key :: "Response \<Rightarrow> id \<times> id" where
  "response_key r = (resp_ID r, resp_InvitationID r)"
definition session_key :: "session_row \<Rightarrow> string \<times> id" where
  "session_key r = (ss_token_hash r, ss_invitation_id r)"
definition recovery_key :: "recovery_token_row \<Rightarrow> string \<times> id" where
  "recovery_key r = (rk_token_hash r, rk_invitation_id r)"
definition open_key :: "open_enrollment_row \<Rightarrow> id \<times> id \<times> string" where
  "open_key r = (oe_ID r, oe_EventID r, oe_AccessID r)"

definition same_shape :: "db \<Rightarrow> db \<Rightarrow> bool" where
  "same_shape d d' \<longleftrightarrow>
    map ev_ID (db_events d) = map ev_ID (db_events d') \<and>
    map invitation_key (db_invitations d) = map invitation_key (db_invitations d') \<and>
    map guest_key (db_guests d) = map guest_key (db_guests d') \<and>
    map response_key (db_responses d) = map response_key (db_responses d') \<and>
    map gr_guest_id (db_guest_responses d) = map gr_guest_id (db_guest_responses d') \<and>
    map session_key (db_sessions d) = map session_key (db_sessions d') \<and>
    map recovery_key (db_recovery_tokens d) = map recovery_key (db_recovery_tokens d') \<and>
    map open_key (db_open d) = map open_key (db_open d')"

lemmas key_defs = invitation_key_def guest_key_def response_key_def session_key_def
  recovery_key_def open_key_def

lemma map_key_proj:
  assumes "map k xs = map k ys" "\<And>x. p x = q (k x)"
  shows "map p xs = map p ys"
proof -
  have proj: "map p zs = map q (map k zs)" for zs by (simp add: assms(2))
  show ?thesis unfolding proj assms(1) ..
qed

lemma set_key_proj:
  assumes "map k xs = map k ys" "\<And>x. P x = Q (k x)"
  shows "(\<forall>x \<in> set xs. P x) = (\<forall>y \<in> set ys. P y)"
proof -
  have "(\<forall>x \<in> set zs. P x) = list_all Q (map k zs)" for zs
    by (simp add: assms(2) list_all_iff)
  then show ?thesis using assms(1) by metis
qed

lemma same_shape_maps:
  assumes "same_shape d d'"
  shows "map inv_ID (db_invitations d) = map inv_ID (db_invitations d')"
    "map inv_AccessID (db_invitations d) = map inv_AccessID (db_invitations d')"
    "map g_id (db_guests d) = map g_id (db_guests d')"
    "map resp_ID (db_responses d) = map resp_ID (db_responses d')"
    "map resp_InvitationID (db_responses d) = map resp_InvitationID (db_responses d')"
    "map ss_token_hash (db_sessions d) = map ss_token_hash (db_sessions d')"
    "map rk_token_hash (db_recovery_tokens d) = map rk_token_hash (db_recovery_tokens d')"
    "map oe_ID (db_open d) = map oe_ID (db_open d')"
    "map oe_EventID (db_open d) = map oe_EventID (db_open d')"
    "map oe_AccessID (db_open d) = map oe_AccessID (db_open d')"
proof -
  note shape = assms [unfolded same_shape_def]
  show "map inv_ID (db_invitations d) = map inv_ID (db_invitations d')"
    by (rule map_key_proj [of invitation_key _ _ _ fst]) (use shape in \<open>simp_all add: key_defs\<close>)
  show "map inv_AccessID (db_invitations d) = map inv_AccessID (db_invitations d')"
    by (rule map_key_proj [of invitation_key _ _ _ "fst \<circ> snd"]) (use shape in \<open>simp_all add: key_defs\<close>)
  show "map g_id (db_guests d) = map g_id (db_guests d')"
    by (rule map_key_proj [of guest_key _ _ _ fst]) (use shape in \<open>simp_all add: key_defs\<close>)
  show "map resp_ID (db_responses d) = map resp_ID (db_responses d')"
    by (rule map_key_proj [of response_key _ _ _ fst]) (use shape in \<open>simp_all add: key_defs\<close>)
  show "map resp_InvitationID (db_responses d) = map resp_InvitationID (db_responses d')"
    by (rule map_key_proj [of response_key _ _ _ snd]) (use shape in \<open>simp_all add: key_defs\<close>)
  show "map ss_token_hash (db_sessions d) = map ss_token_hash (db_sessions d')"
    by (rule map_key_proj [of session_key _ _ _ fst]) (use shape in \<open>simp_all add: key_defs\<close>)
  show "map rk_token_hash (db_recovery_tokens d) = map rk_token_hash (db_recovery_tokens d')"
    by (rule map_key_proj [of recovery_key _ _ _ fst]) (use shape in \<open>simp_all add: key_defs\<close>)
  show "map oe_ID (db_open d) = map oe_ID (db_open d')"
    by (rule map_key_proj [of open_key _ _ _ fst]) (use shape in \<open>simp_all add: key_defs\<close>)
  show "map oe_EventID (db_open d) = map oe_EventID (db_open d')"
    by (rule map_key_proj [of open_key _ _ _ "fst \<circ> snd"]) (use shape in \<open>simp_all add: key_defs\<close>)
  show "map oe_AccessID (db_open d) = map oe_AccessID (db_open d')"
    by (rule map_key_proj [of open_key _ _ _ "snd \<circ> snd"]) (use shape in \<open>simp_all add: key_defs\<close>)
qed

lemma same_shape_ids:
  assumes "same_shape d d'"
  shows "event_ids d = event_ids d'" "invitation_ids d = invitation_ids d'"
    "guest_ids d = guest_ids d'" "response_ids d = response_ids d'"
    "resp_InvitationID ` set (db_responses d) = resp_InvitationID ` set (db_responses d')"
  using arg_cong [OF same_shape_maps(1) [OF assms], of set] arg_cong [OF same_shape_maps(3) [OF assms], of set]
    arg_cong [OF same_shape_maps(4) [OF assms], of set] arg_cong [OF same_shape_maps(5) [OF assms], of set]
    assms [unfolded same_shape_def, THEN conjunct1, THEN arg_cong, of set]
  by (simp_all add: id_set_defs)

lemma same_shape_wf:
  assumes "same_shape d d'" "wf_db d'"
  shows "wf_db d"
proof -
  note shape = assms(1) [unfolded same_shape_def] and ids = same_shape_ids [OF assms(1)]
  have "keys_unique d"
    using assms(2) same_shape_maps [OF assms(1)] shape by (simp add: wf_db_def keys_unique_def)
  moreover have "refs_ok d"
  proof -
    have "(\<forall>r \<in> set (db_invitations d). inv_EventID r \<in> X) = (\<forall>r \<in> set (db_invitations d'). inv_EventID r \<in> X)" for X
      by (rule set_key_proj [of invitation_key _ _ _ "\<lambda>k. snd (snd k) \<in> X"])
        (use shape in \<open>simp_all add: key_defs\<close>)
    moreover have "(\<forall>r \<in> set (db_guests d). g_invitation_id r \<in> X) = (\<forall>r \<in> set (db_guests d'). g_invitation_id r \<in> X)" for X
      by (rule set_key_proj [of guest_key _ _ _ "\<lambda>k. snd k \<in> X"]) (use shape in \<open>simp_all add: key_defs\<close>)
    moreover have "(\<forall>r \<in> set (db_responses d). resp_InvitationID r \<in> X) = (\<forall>r \<in> set (db_responses d'). resp_InvitationID r \<in> X)" for X
      by (rule set_key_proj [of response_key _ _ _ "\<lambda>k. snd k \<in> X"]) (use shape in \<open>simp_all add: key_defs\<close>)
    moreover have "(\<forall>r \<in> set (db_guest_responses d). gr_guest_id r \<in> X) = (\<forall>r \<in> set (db_guest_responses d'). gr_guest_id r \<in> X)" for X
      by (rule set_key_proj [of gr_guest_id _ _ _ "\<lambda>k. k \<in> X"]) (use shape in simp_all)
    moreover have "(\<forall>r \<in> set (db_sessions d). ss_invitation_id r \<in> X) = (\<forall>r \<in> set (db_sessions d'). ss_invitation_id r \<in> X)" for X
      by (rule set_key_proj [of session_key _ _ _ "\<lambda>k. snd k \<in> X"]) (use shape in \<open>simp_all add: key_defs\<close>)
    moreover have "(\<forall>r \<in> set (db_recovery_tokens d). rk_invitation_id r \<in> X) = (\<forall>r \<in> set (db_recovery_tokens d'). rk_invitation_id r \<in> X)" for X
      by (rule set_key_proj [of recovery_key _ _ _ "\<lambda>k. snd k \<in> X"]) (use shape in \<open>simp_all add: key_defs\<close>)
    ultimately show ?thesis using assms(2) ids by (simp add: wf_db_def refs_ok_def)
  qed
  moreover have "responses_total d"
  proof -
    have "(\<forall>r \<in> set (db_invitations d). inv_ID r \<in> X) = (\<forall>r \<in> set (db_invitations d'). inv_ID r \<in> X)" for X
      by (rule set_key_proj [of invitation_key _ _ _ "\<lambda>k. fst k \<in> X"]) (use shape in \<open>simp_all add: key_defs\<close>)
    then show ?thesis using assms(2) ids(5) by (simp add: wf_db_def responses_total_def)
  qed
  ultimately show ?thesis by (simp add: wf_db_def)
qed

end
