(* ===== verification/Presentation.thy ===== *)
theory Presentation
  imports Schema
begin

text \<open>
  The card data shown to guests (\<open>internal/invitation/presentation_store.go\<close>): what a guest
  sees of an invite card is rebuilt from safe values, whatever the stored card contains.
\<close>

definition hex_byte :: "char \<Rightarrow> bool" where
  "hex_byte c \<longleftrightarrow> is_digit c \<or> c \<in> set ''abcdefABCDEF''"

text \<open>The regular expressions \<open>^#[0-9a-fA-F]{3,8}$\<close> and \<open>^[A-Za-z0-9 ,\-_'"]+$\<close>.\<close>

definition guestColorPattern :: "string \<Rightarrow> bool" where
  "guestColorPattern s = (case s of [] \<Rightarrow> False
    | c # cs \<Rightarrow> c = CHR ''#'' \<and> 3 \<le> length cs \<and> length cs \<le> 8 \<and> list_all hex_byte cs)"

definition letter :: "char \<Rightarrow> bool" where
  "letter c = (let n = (of_char c :: nat) in 65 \<le> n \<and> n \<le> 90 \<or> 97 \<le> n \<and> n \<le> 122)"

definition font_byte :: "char \<Rightarrow> bool" where
  "font_byte c \<longleftrightarrow> letter c \<or> is_digit c \<or> c \<in> set '' ,-_'' \<or> c = byte 39 \<or> c = byte 34"

definition guestFontPattern :: "string \<Rightarrow> bool" where
  "guestFontPattern s \<longleftrightarrow> s \<noteq> [] \<and> list_all font_byte s"

definition guestTemplates :: "string list" where
  "guestTemplates = [''balloon-party'', ''confetti'', ''unicorn-magic'', ''superhero'',
     ''garden-picnic'', ''elegant-affair'', ''clean-minimal'', ''tropical-vibes'',
     ''vintage-retro'', ''chalkboard'']"

text \<open>The characters refused in a background image: brackets, quotes, angle brackets, backslash.\<close>

definition css_breaking :: string where
  "css_breaking = ''()<>'' @ [byte 34, byte 39, byte 92]"

definition guestBackgroundImage :: "'x runtime_scheme \<Rightarrow> string \<Rightarrow> string" where
  "guestBackgroundImage rt customData = (case rt_json_background rt customData of
      None \<Rightarrow> []
    | Some img \<Rightarrow>
       (let v = trim_space img in
        if v = [] \<or> contains_any css_breaking v then []
        else if prefix ''/api/v1/uploads/'' v \<and> \<not> contains_str ''..'' v then v
        else case rt_url_scheme rt v of
            None \<Rightarrow> []
          | Some scheme \<Rightarrow> if scheme \<noteq> ''http'' \<and> scheme \<noteq> ''https'' then [] else v))"

definition defaultGuestPresentation :: GuestPresentation where
  "defaultGuestPresentation = \<lparr> gp_TemplateID = ''clean-minimal'', gp_Heading = [], gp_Body = [],
     gp_Footer = [], gp_PrimaryColor = ''#E54666'', gp_SecondaryColor = ''#f472b6'',
     gp_Font = ''Inter'', gp_BackgroundImage = [] \<rparr>"

definition loadGuestPresentation :: "'x runtime_scheme \<Rightarrow> id \<Rightarrow> db \<Rightarrow> GuestPresentation" where
  "loadGuestPresentation rt eventID d =
    (case select_row (\<lambda>r. ic_event_id r = eventID) (db_cards d) of
       None \<Rightarrow> defaultGuestPresentation
     | Some r \<Rightarrow> \<lparr>
         gp_TemplateID = (if ic_template_id r \<in> set guestTemplates then ic_template_id r
                          else ''clean-minimal''),
         gp_Heading = ic_heading r, gp_Body = ic_body r, gp_Footer = ic_footer r,
         gp_PrimaryColor = (if guestColorPattern (ic_primary_color r) then ic_primary_color r
                            else ''#E54666''),
         gp_SecondaryColor = (if guestColorPattern (ic_secondary_color r) then ic_secondary_color r
                              else ''#f472b6''),
         gp_Font = (if 100 < length (ic_font r) \<or> \<not> guestFontPattern (ic_font r) then ''Inter''
                    else ic_font r),
         gp_BackgroundImage = guestBackgroundImage rt (ic_custom_data r) \<rparr>)"

section \<open>What guests can be shown\<close>

definition safe_background :: "'x runtime_scheme \<Rightarrow> string \<Rightarrow> bool" where
  "safe_background rt v \<longleftrightarrow> v = [] \<or>
    \<not> list_ex (\<lambda>c. c \<in> set css_breaking) v \<and> trim_space v = v \<and>
    (prefix ''/api/v1/uploads/'' v \<and> \<not> sublist ''..'' v \<or>
     rt_url_scheme rt v \<in> {Some ''http'', Some ''https''})"

lemma guestBackgroundImage_safe: "safe_background rt (guestBackgroundImage rt customData)"
proof (cases "rt_json_background rt customData")
  case None
  then show ?thesis by (simp add: guestBackgroundImage_def safe_background_def)
next
  case (Some img)
  let ?v = "trim_space img"
  show ?thesis
  proof (cases "?v = [] \<or> contains_any css_breaking ?v")
    case True
    then show ?thesis using Some by (auto simp: guestBackgroundImage_def safe_background_def Let_def)
  next
    case False
    then show ?thesis using Some
      by (auto simp: guestBackgroundImage_def safe_background_def Let_def contains_any_def
          contains_str_iff split: option.splits)
  qed
qed

lemma default_values_safe:
  "guestColorPattern ''#E54666''" "guestColorPattern ''#f472b6''" "guestFontPattern ''Inter''"
  "''clean-minimal'' \<in> set guestTemplates"
  by (simp_all add: guestColorPattern_def guestFontPattern_def guestTemplates_def hex_byte_def
      is_digit_def font_byte_def letter_def)

text \<open>
  Whatever an organizer stored in the invite card of an event, a guest is shown one of the
  known templates, colours that are hexadecimal literals, a font of at most 100 bytes from the
  allowed characters, and a background image that cannot leave a CSS url() and is an upload
  path without \<open>..\<close> or an http(s) URL.
\<close>

theorem presentation_is_safe:
  "gp_TemplateID (loadGuestPresentation rt e d) \<in> set guestTemplates \<and>
   guestColorPattern (gp_PrimaryColor (loadGuestPresentation rt e d)) \<and>
   guestColorPattern (gp_SecondaryColor (loadGuestPresentation rt e d)) \<and>
   guestFontPattern (gp_Font (loadGuestPresentation rt e d)) \<and>
   length (gp_Font (loadGuestPresentation rt e d)) \<le> 100 \<and>
   safe_background rt (gp_BackgroundImage (loadGuestPresentation rt e d))"
proof (cases "select_row (\<lambda>r. ic_event_id r = e) (db_cards d)")
  case None
  then show ?thesis using default_values_safe
    by (simp add: loadGuestPresentation_def defaultGuestPresentation_def safe_background_def)
next
  case (Some r)
  then show ?thesis using default_values_safe
    by (simp add: loadGuestPresentation_def guestBackgroundImage_safe)
qed

end
