(* ===== verification/Invitation_Store.thy ===== *)
theory Invitation_Store
  imports Presentation
begin

text \<open>
  The invitation store (\<open>internal/invitation/store.go\<close>, \<open>event_store.go\<close>): creating and
  importing households, the lookups, rotation and revocation of capabilities, sessions, and
  the household view. Every operation takes the clock readings and the identifiers it
  generates as arguments.
\<close>

section \<open>Creating households\<close>

record ImportRecord =
  rec_Invitation :: Invitation
  rec_Guests :: "Guest list"

text \<open>
  The row written for an invitation: the contact columns with their normalised copies, no
  revocation, and the creation time in both time columns.
\<close>

definition invitation_values :: "'x runtime_scheme \<Rightarrow> time \<Rightarrow> Invitation \<Rightarrow> invitation_row" where
  "invitation_values rt now iv =
    Invitation.extend
      (iv\<lparr>inv_RevokedAt := None, inv_RevocationReason := None,
           inv_CreatedAt := now, inv_UpdatedAt := now\<rparr>)
      (invitation_row.fields (map_option (normalizeEmail rt) (inv_ContactEmail iv))
         (map_option normalizePhone (inv_ContactPhone iv)))"

definition guest_values :: "time \<Rightarrow> id \<Rightarrow> Guest \<Rightarrow> guest_row" where
  "guest_values now invitationID guest = \<lparr> g_id = guest_ID guest, g_invitation_id = invitationID,
     g_name = guest_Name guest, g_origin = guest_Origin guest,
     g_sort_order = guest_SortOrder guest, g_removed_at = None,
     g_created_at = now, g_updated_at = now \<rparr>"

definition response_values :: "time \<Rightarrow> id \<Rightarrow> id \<Rightarrow> Response" where
  "response_values now responseID invitationID = \<lparr> resp_ID = responseID,
     resp_InvitationID = invitationID, resp_Version = 1, resp_SubmittedAt = None,
     resp_CreatedAt = now, resp_UpdatedAt = now \<rparr>"

definition guest_response_values :: "time \<Rightarrow> id \<Rightarrow> id \<Rightarrow> string \<Rightarrow> guest_response_row" where
  "guest_response_values now responseID guestID attendance = \<lparr> gr_response_id = responseID,
     gr_guest_id = guestID, gr_attendance = attendance, gr_created_at = now, gr_updated_at = now \<rparr>"

text \<open>The loop body shared by the creating transactions: a guest and its pending response.\<close>

definition insert_guest_pending ::
  "string \<Rightarrow> time \<Rightarrow> id \<Rightarrow> id \<Rightarrow> db \<Rightarrow> Guest \<Rightarrow> db result" where
  "insert_guest_pending verb now invitationID responseID d guest =
    rbind (or_err (insert_guest (guest_values now invitationID guest) d) (Internal (verb @ '' guest'')))
      (\<lambda>d. or_err (insert_guest_response
               (guest_response_values now responseID (guest_ID guest) ''pending'') d)
             (Internal (verb @ '' guest response'')))"

text \<open>
  The statements of one household, which \<open>Create\<close> runs in a transaction of its own and
  \<open>Import\<close> once per record; \<open>verb\<close> is the first word of their error messages.
\<close>

definition insert_household ::
  "'x runtime_scheme \<Rightarrow> string \<Rightarrow> time \<Rightarrow> id \<Rightarrow> Invitation \<Rightarrow> Guest list \<Rightarrow> db \<Rightarrow> db result" where
  "insert_household rt verb now responseID iv guests d =
    rbind (or_err (insert_invitation (invitation_values rt now iv) d) (Internal (verb @ '' invitation'')))
      (\<lambda>d. rbind (or_err (insert_response (response_values now responseID (inv_ID iv)) d)
                    (Internal (verb @ '' response'')))
      (\<lambda>d. loop (insert_guest_pending verb now (inv_ID iv) responseID) d guests))"

text \<open>After the commit the caller's structs receive the stored times.\<close>

definition Create ::
  "'x runtime_scheme \<Rightarrow> time \<Rightarrow> id \<Rightarrow> Invitation \<Rightarrow> Guest list \<Rightarrow> db \<Rightarrow> (db \<times> Invitation \<times> Guest list) result"
where
  "Create rt now responseID iv guests d =
    rbind (insert_household rt ''create'' now responseID iv guests d)
      (\<lambda>d. Inr (d, iv\<lparr>inv_CreatedAt := now, inv_UpdatedAt := now\<rparr>,
                map (\<lambda>g. g\<lparr>guest_InvitationID := inv_ID iv, guest_Attendance := AttendancePending,
                            guest_CreatedAt := now, guest_UpdatedAt := now\<rparr>) guests))"

definition Import ::
  "'x runtime_scheme \<Rightarrow> time \<Rightarrow> (nat \<Rightarrow> id) \<Rightarrow> ImportRecord list \<Rightarrow> db \<Rightarrow> db result" where
  "Import rt now responseID records d =
    iloop (\<lambda>i d r. insert_household rt ''import'' now (responseID i) (rec_Invitation r) (rec_Guests r) d)
      0 d records"

section \<open>Lookups\<close>

definition scanInvitation :: "invitation_row \<Rightarrow> Invitation" where
  "scanInvitation r = Invitation.truncate r"

definition FindByID :: "id \<Rightarrow> db \<Rightarrow> Invitation option" where
  "FindByID i d = map_option scanInvitation (select_row (\<lambda>r. inv_ID r = i) (db_invitations d))"

definition FindByIDForEvent :: "id \<Rightarrow> id \<Rightarrow> db \<Rightarrow> Invitation option" where
  "FindByIDForEvent i eventID d = map_option scanInvitation
    (select_row (\<lambda>r. inv_ID r = i \<and> inv_EventID r = eventID) (db_invitations d))"

definition FindByAccessID :: "string \<Rightarrow> db \<Rightarrow> Invitation option" where
  "FindByAccessID accessID d = map_option scanInvitation
    (select_row (\<lambda>r. inv_AccessID r = accessID) (db_invitations d))"

text \<open>\<open>ORDER BY created_at, id\<close>.\<close>

definition by_created :: "invitation_row \<Rightarrow> invitation_row \<Rightarrow> bool" where
  "by_created a b \<longleftrightarrow> stamp_less (inv_CreatedAt a) (inv_CreatedAt b) \<or>
    inv_CreatedAt a = inv_CreatedAt b \<and> bytes_less (inv_ID a) (inv_ID b)"

definition EventExists :: "id \<Rightarrow> db \<Rightarrow> bool" where
  "EventExists eventID d \<longleftrightarrow> select_row (\<lambda>e. ev_ID e = eventID) (db_events d) \<noteq> None"

definition find_event :: "id \<Rightarrow> db \<Rightarrow> EventSummary result" where
  "find_event eventID d =
    or_err (select_row (\<lambda>e. ev_ID e = eventID) (db_events d)) (Internal ''scan invitation event'')"

section \<open>The household view\<close>

text \<open>A guest row joined with its response, \<open>COALESCE(attendance, 'pending')\<close>.\<close>

definition attendance_of :: "db \<Rightarrow> id \<Rightarrow> string" where
  "attendance_of d gid =
    (case select_row (\<lambda>r. gr_guest_id r = gid) (db_guest_responses d) of
       None \<Rightarrow> ''pending'' | Some r \<Rightarrow> gr_attendance r)"

definition scanGuest :: "db \<Rightarrow> guest_row \<Rightarrow> Guest" where
  "scanGuest d g = \<lparr> guest_ID = g_id g, guest_InvitationID = g_invitation_id g,
     guest_Name = g_name g, guest_Origin = g_origin g, guest_SortOrder = g_sort_order g,
     guest_Attendance = attendance_of d (g_id g), guest_RemovedAt = g_removed_at g,
     guest_CreatedAt = g_created_at g, guest_UpdatedAt = g_updated_at g \<rparr>"

definition active_guest :: "id \<Rightarrow> guest_row \<Rightarrow> bool" where
  "active_guest invitationID g \<longleftrightarrow> g_invitation_id g = invitationID \<and> g_removed_at g = None"

definition by_guest_order :: "guest_row \<Rightarrow> guest_row \<Rightarrow> bool" where
  "by_guest_order a b \<longleftrightarrow> g_sort_order a < g_sort_order b \<or>
    g_sort_order a = g_sort_order b \<and>
      (stamp_less (g_created_at a) (g_created_at b) \<or>
       g_created_at a = g_created_at b \<and> bytes_less (g_id a) (g_id b))"

definition listGuests :: "id \<Rightarrow> db \<Rightarrow> Guest list" where
  "listGuests invitationID d =
    map (scanGuest d) (order_by by_guest_order (filter (active_guest invitationID) (db_guests d)))"

definition by_question_order :: "question_row \<Rightarrow> question_row \<Rightarrow> bool" where
  "by_question_order a b \<longleftrightarrow> qr_sort_order a < qr_sort_order b \<or>
    qr_sort_order a = qr_sort_order b \<and> stamp_less (qr_created_at a) (qr_created_at b)"

definition scanQuestion :: "'x runtime_scheme \<Rightarrow> string \<Rightarrow> question_row \<Rightarrow> Question result" where
  "scanQuestion rt msg r = rbind (or_err (rt_json_strings rt (qr_options r)) (Internal msg))
    (\<lambda>options. Inr \<lparr> q_ID = qr_id r, q_Label = qr_label r, q_Type = qr_type r,
       q_Options = options, q_Required = qr_required r, q_Scope = qr_scope r,
       q_SortOrder = qr_sort_order r \<rparr>)"

definition scanQuestions :: "'x runtime_scheme \<Rightarrow> string \<Rightarrow> question_row list \<Rightarrow> Question list result" where
  "scanQuestions rt msg rows =
    loop (\<lambda>acc r. rbind (scanQuestion rt msg r) (\<lambda>q. Inr (acc @ [q]))) [] rows"

definition listQuestions :: "'x runtime_scheme \<Rightarrow> id \<Rightarrow> db \<Rightarrow> Question list result" where
  "listQuestions rt eventID d = scanQuestions rt ''parse question options''
    (order_by by_question_order
      (filter (\<lambda>r. qr_event_id r = eventID \<and> \<not> qr_deleted r) (db_questions d)))"

definition listAnswers :: "id \<Rightarrow> db \<Rightarrow> Answer list \<times> GuestAnswer list" where
  "listAnswers invitationID d =
    (map (\<lambda>r. \<lparr> ans_QuestionID = ia_question_id r, ans_Answer = ia_answer r \<rparr>)
       (filter (\<lambda>r. ia_invitation_id r = invitationID) (db_invitation_answers d)),
     map (\<lambda>r. \<lparr> ga_GuestID = gar_guest_id r, ga_QuestionID = gar_question_id r,
                ga_Answer = gar_answer r \<rparr>)
       (filter (\<lambda>r. list_ex (\<lambda>g. g_id g = gar_guest_id r \<and> active_guest invitationID g) (db_guests d))
         (db_guest_answers d)))"

definition LoadHousehold :: "'x runtime_scheme \<Rightarrow> id \<Rightarrow> db \<Rightarrow> Household result" where
  "LoadHousehold rt invitationID d =
    rbind (or_err (FindByID invitationID d) ErrNotFound) (\<lambda>iv.
    rbind (find_event (inv_EventID iv) d) (\<lambda>event.
    rbind (listQuestions rt (inv_EventID iv) d) (\<lambda>questions.
      let (invAnswers, guestAnswers) = listAnswers invitationID d in
      Inr \<lparr> hh_Invitation = iv, hh_Event = event,
        hh_Response = select_row (\<lambda>r. resp_InvitationID r = invitationID) (db_responses d),
        hh_Guests = listGuests invitationID d, hh_Questions = questions,
        hh_InvitationAnswers = invAnswers, hh_GuestAnswers = guestAnswers,
        hh_Presentation = Some (loadGuestPresentation rt (inv_EventID iv) d),
        hh_LatestDelivery = None \<rparr>)))"

section \<open>Delivery targets and messages\<close>

definition delivery_target :: "db \<Rightarrow> id \<Rightarrow> string \<Rightarrow> invitation_row \<Rightarrow> bool" where
  "delivery_target d eventID recipientGroup i \<longleftrightarrow>
    inv_EventID i = eventID \<and> inv_RevokedAt i = None \<and> inv_ContactEmail i \<noteq> None \<and>
    inv_PreferredDeliveryMethod i = ''email'' \<and>
    (recipientGroup \<noteq> ''all'' \<longrightarrow>
      list_ex (\<lambda>g. active_guest (inv_ID i) g \<and>
        list_ex (\<lambda>r. gr_guest_id r = g_id g \<and> gr_attendance r = recipientGroup) (db_guest_responses d))
      (db_guests d))"

definition ListDeliveryTargets :: "id \<Rightarrow> string \<Rightarrow> db \<Rightarrow> Invitation list" where
  "ListDeliveryTargets eventID recipientGroup d = map scanInvitation
    (order_by by_created (filter (delivery_target d eventID recipientGroup) (db_invitations d)))"

definition CreateMessage :: "time \<Rightarrow> id \<Rightarrow> InvitationMessage \<Rightarrow> db \<Rightarrow> (db \<times> InvitationMessage) result" where
  "CreateMessage now messageID message d =
    (let message = message\<lparr>msg_ID := messageID, msg_CreatedAt := now\<rparr> in
     rbind (or_err (insert_message message d) (Internal ''create invitation message''))
       (\<lambda>d. Inr (d, message)))"

section \<open>Rotation and revocation\<close>

definition live_invitation :: "id \<Rightarrow> id \<Rightarrow> invitation_row \<Rightarrow> bool" where
  "live_invitation i eventID r \<longleftrightarrow> inv_ID r = i \<and> inv_EventID r = eventID \<and> inv_RevokedAt r = None"

definition revoke_sessions :: "time \<Rightarrow> id \<Rightarrow> session_row list \<Rightarrow> session_row list" where
  "revoke_sessions now invitationID =
    update_where (\<lambda>s. ss_invitation_id s = invitationID \<and> ss_revoked_at s = None)
      (\<lambda>s. s\<lparr>ss_revoked_at := Some now\<rparr>)"

definition Rotate :: "time \<Rightarrow> id \<Rightarrow> id \<Rightarrow> db \<Rightarrow> (db \<times> Invitation option) result" where
  "Rotate now i eventID d =
    (if affected (live_invitation i eventID) (db_invitations d) \<noteq> 1 then Inl ErrNotFound
     else let d = d\<lparr>
         db_invitations := update_where (live_invitation i eventID)
           (\<lambda>r. r\<lparr>inv_TokenVersion := inv_TokenVersion r + 1, inv_UpdatedAt := now\<rparr>) (db_invitations d),
         db_sessions := revoke_sessions now i (db_sessions d)\<rparr>
       in Inr (d, FindByID i d))"

definition Revoke :: "time \<Rightarrow> id \<Rightarrow> id \<Rightarrow> string \<Rightarrow> db \<Rightarrow> db result" where
  "Revoke now i eventID reason d =
    (if affected (live_invitation i eventID) (db_invitations d) \<noteq> 1 then Inl ErrNotFound
     else Inr (d\<lparr>
         db_invitations := update_where (live_invitation i eventID)
           (\<lambda>r. r\<lparr>inv_RevokedAt := Some now, inv_RevocationReason := Some reason,
                  inv_UpdatedAt := now\<rparr>) (db_invitations d),
         db_sessions := revoke_sessions now i (db_sessions d)\<rparr>))"

section \<open>Sessions\<close>

definition session_values :: "time \<Rightarrow> id \<Rightarrow> string \<Rightarrow> int \<Rightarrow> time \<Rightarrow> session_row" where
  "session_values now invitationID tokenHash tokenVersion expiresAt = \<lparr>
     ss_invitation_id = invitationID, ss_token_hash = tokenHash,
     ss_issued_token_version = tokenVersion, ss_expires_at = expiresAt,
     ss_last_used_at = None, ss_revoked_at = None, ss_created_at = now \<rparr>"

definition CreateSession :: "time \<Rightarrow> id \<Rightarrow> string \<Rightarrow> int \<Rightarrow> time \<Rightarrow> db \<Rightarrow> db result" where
  "CreateSession now invitationID tokenHash tokenVersion expiresAt d =
    or_err (insert_session (session_values now invitationID tokenHash tokenVersion expiresAt) d)
      (Internal ''create invitation session'')"

text \<open>The rows of \<open>invitation_sessions JOIN invitations\<close> that a session token selects.\<close>

definition session_opens :: "time \<Rightarrow> string \<Rightarrow> session_row \<Rightarrow> invitation_row \<Rightarrow> bool" where
  "session_opens now tokenHash s i \<longleftrightarrow>
    inv_ID i = ss_invitation_id s \<and> ss_token_hash s = tokenHash \<and>
    stamp_less now (ss_expires_at s) \<and> ss_revoked_at s = None \<and>
    inv_RevokedAt i = None \<and> ss_issued_token_version s = inv_TokenVersion i"

definition InvitationForSession :: "time \<Rightarrow> string \<Rightarrow> db \<Rightarrow> db \<times> Invitation option" where
  "InvitationForSession now tokenHash d =
    (case select_row (\<lambda>(s, i). session_opens now tokenHash s i)
            (List.product (db_sessions d) (db_invitations d)) of
       None \<Rightarrow> (d, None)
     | Some (s, i) \<Rightarrow>
        (d\<lparr>db_sessions := update_where (\<lambda>s. ss_token_hash s = tokenHash)
             (\<lambda>s. s\<lparr>ss_last_used_at := Some now\<rparr>) (db_sessions d)\<rparr>, Some (scanInvitation i)))"

section \<open>Lemmas on creating households\<close>

lemma invitation_values_simps [simp]:
  "inv_ID (invitation_values rt now iv) = inv_ID iv"
  "inv_EventID (invitation_values rt now iv) = inv_EventID iv"
  "inv_AccessID (invitation_values rt now iv) = inv_AccessID iv"
  "inv_TokenVersion (invitation_values rt now iv) = inv_TokenVersion iv"
  "inv_OpenEnrollmentID (invitation_values rt now iv) = inv_OpenEnrollmentID iv"
  "inv_Source (invitation_values rt now iv) = inv_Source iv"
  "inv_CreatedByUserID (invitation_values rt now iv) = inv_CreatedByUserID iv"
  "inv_PreferredDeliveryMethod (invitation_values rt now iv) = inv_PreferredDeliveryMethod iv"
  "inv_AdditionalGuestAllowance (invitation_values rt now iv) = inv_AdditionalGuestAllowance iv"
  "inv_RevokedAt (invitation_values rt now iv) = None"
  "inv_Label (invitation_values rt now iv) = inv_Label iv"
  "inv_ContactEmail (invitation_values rt now iv) = inv_ContactEmail iv"
  "inv_ContactPhone (invitation_values rt now iv) = inv_ContactPhone iv"
  "inv_normalized_email (invitation_values rt now iv) = map_option (normalizeEmail rt) (inv_ContactEmail iv)"
  "inv_normalized_phone (invitation_values rt now iv) = map_option normalizePhone (inv_ContactPhone iv)"
  by (simp_all add: invitation_values_def Invitation.defs invitation_row.defs)

lemma row_values_simps [simp]:
  "g_id (guest_values now i g) = guest_ID g" "g_invitation_id (guest_values now i g) = i"
  "g_origin (guest_values now i g) = guest_Origin g" "g_removed_at (guest_values now i g) = None"
  "resp_ID (response_values now r i) = r" "resp_InvitationID (response_values now r i) = i"
  "resp_Version (response_values now r i) = 1" "resp_SubmittedAt (response_values now r i) = None"
  "gr_guest_id (guest_response_values now r gid a) = gid"
  "gr_response_id (guest_response_values now r gid a) = r"
  "gr_attendance (guest_response_values now r gid a) = a"
  by (simp_all add: guest_values_def response_values_def guest_response_values_def)

lemma scanInvitation_simps [simp]:
  "inv_ID (scanInvitation r) = inv_ID r" "inv_EventID (scanInvitation r) = inv_EventID r"
  "inv_RevokedAt (scanInvitation r) = inv_RevokedAt r"
  "inv_TokenVersion (scanInvitation r) = inv_TokenVersion r"
  "inv_AccessID (scanInvitation r) = inv_AccessID r"
  "inv_ContactEmail (scanInvitation r) = inv_ContactEmail r"
  "inv_ContactPhone (scanInvitation r) = inv_ContactPhone r"
  "inv_PreferredDeliveryMethod (scanInvitation r) = inv_PreferredDeliveryMethod r"
  by (simp_all add: scanInvitation_def Invitation.defs)

lemma insert_guest_pending_Inr:
  "insert_guest_pending verb now i r d g = Inr d2 \<longleftrightarrow>
    (\<exists>d1. insert_guest (guest_values now i g) d = Some d1 \<and>
      insert_guest_response (guest_response_values now r (guest_ID g) ''pending'') d1 = Some d2)"
  by (simp add: insert_guest_pending_def)

text \<open>What the guest loop leaves: the rows appended, nothing else touched.\<close>

lemma insert_guests_effect:
  assumes "loop (insert_guest_pending verb now i r) d guests = Inr d'"
  shows "d' = d\<lparr>db_guests := db_guests d @ map (guest_values now i) guests,
    db_guest_responses := db_guest_responses d @
      map (\<lambda>g. guest_response_values now r (guest_ID g) ''pending'') guests\<rparr>"
  using assms
proof (induction guests arbitrary: d)
  case Nil
  then show ?case by simp
next
  case (Cons g gs)
  then obtain d1 d2 where d1: "insert_guest (guest_values now i g) d = Some d1"
    and d2: "insert_guest_response (guest_response_values now r (guest_ID g) ''pending'') d1 = Some d2"
    and rest: "loop (insert_guest_pending verb now i r) d2 gs = Inr d'"
    by (auto simp: insert_guest_pending_Inr)
  have "d2 = d\<lparr>db_guests := db_guests d @ [guest_values now i g],
      db_guest_responses := db_guest_responses d @ [guest_response_values now r (guest_ID g) ''pending'']\<rparr>"
    using d1 d2 by (auto simp: insert_defs add_row_def split: if_splits)
  then show ?case using Cons.IH [OF rest] by simp
qed

lemma insert_household_effect:
  assumes "insert_household rt verb now r iv guests d = Inr d'"
  shows "d' = d\<lparr>db_invitations := db_invitations d @ [invitation_values rt now iv],
    db_responses := db_responses d @ [response_values now r (inv_ID iv)],
    db_guests := db_guests d @ map (guest_values now (inv_ID iv)) guests,
    db_guest_responses := db_guest_responses d @
      map (\<lambda>g. guest_response_values now r (guest_ID g) ''pending'') guests\<rparr>"
proof -
  obtain d1 d2 where d1: "insert_invitation (invitation_values rt now iv) d = Some d1"
    and d2: "insert_response (response_values now r (inv_ID iv)) d1 = Some d2"
    and rest: "loop (insert_guest_pending verb now (inv_ID iv) r) d2 guests = Inr d'"
    using assms by (auto simp: insert_household_def)
  have "d2 = d\<lparr>db_invitations := db_invitations d @ [invitation_values rt now iv],
      db_responses := db_responses d @ [response_values now r (inv_ID iv)]\<rparr>"
    using d1 d2 by (auto simp: insert_defs add_row_def split: if_splits)
  then show ?thesis using insert_guests_effect [OF rest] by simp
qed

lemma insert_guests_keys:
  assumes "loop (insert_guest_pending verb now i r) d guests = Inr d'" "keys_unique d" "refs_ok d"
  shows "keys_unique d' \<and> refs_ok d'"
  by (rule loop_invariant [OF assms(1), of "\<lambda>d. keys_unique d \<and> refs_ok d"])
    (auto simp: assms insert_guest_pending_Inr dest: insert_keys_unique insert_refs_ok)

text \<open>Creating a household keeps the schema invariant and gives the invitation its response.\<close>

lemma insert_household_wf:
  assumes "insert_household rt verb now r iv guests d = Inr d'" "wf_db d"
  shows "wf_db d'"
proof -
  obtain d1 d2 where d1: "insert_invitation (invitation_values rt now iv) d = Some d1"
    and d2: "insert_response (response_values now r (inv_ID iv)) d1 = Some d2"
    and rest: "loop (insert_guest_pending verb now (inv_ID iv) r) d2 guests = Inr d'"
    using assms(1) by (auto simp: insert_household_def)
  have "keys_unique d2 \<and> refs_ok d2"
    using d1 d2 assms(2) insert_keys_unique(1,3) insert_refs_ok(1,3) unfolding wf_db_def by blast
  then have "keys_unique d' \<and> refs_ok d'" using insert_guests_keys [OF rest] by blast
  moreover have "responses_total d'"
    using insert_household_effect [OF assms(1)] assms(2)
    by (auto simp: wf_db_def responses_total_def)
  ultimately show ?thesis by (simp add: wf_db_def)
qed

text \<open>
  The statements of a household succeed when the identifiers are fresh, the event and the
  creator exist and the row satisfies its checks.
\<close>

definition household_fresh :: "id \<Rightarrow> Invitation \<Rightarrow> Guest list \<Rightarrow> db \<Rightarrow> bool" where
  "household_fresh r iv guests d \<longleftrightarrow>
    inv_ID iv \<notin> invitation_ids d \<and> inv_AccessID iv \<notin> inv_AccessID ` set (db_invitations d) \<and>
    r \<notin> response_ids d \<and> inv_ID iv \<notin> resp_InvitationID ` set (db_responses d) \<and>
    distinct (map guest_ID guests) \<and>
    (\<forall>g \<in> set guests. guest_ID g \<notin> guest_ids d \<and> guest_ID g \<notin> gr_guest_id ` set (db_guest_responses d) \<and>
       guest_Origin g \<in> {''assigned'', ''additional''})"

lemma insert_guests_succeed:
  assumes "i \<in> invitation_ids d" "r \<in> response_ids d" "distinct (map guest_ID guests)"
    and "\<forall>g \<in> set guests. guest_ID g \<notin> guest_ids d \<and> guest_ID g \<notin> gr_guest_id ` set (db_guest_responses d) \<and>
       guest_Origin g \<in> {''assigned'', ''additional''}"
  shows "\<exists>d'. loop (insert_guest_pending verb now i r) d guests = Inr d'"
  using assms
proof (induction guests arbitrary: d)
  case Nil
  then show ?case by simp
next
  case (Cons g gs)
  let ?d2 = "d\<lparr>db_guests := db_guests d @ [guest_values now i g],
      db_guest_responses := db_guest_responses d @ [guest_response_values now r (guest_ID g) ''pending'']\<rparr>"
  have step: "insert_guest_pending verb now i r d g = Inr ?d2"
    using Cons.prems
    by (auto simp: insert_guest_pending_def insert_defs guest_response_ok_def id_set_defs add_row_def
        validAttendance_def model_consts)
  have "\<exists>d'. loop (insert_guest_pending verb now i r) ?d2 gs = Inr d'"
  proof (rule Cons.IH)
    show "i \<in> invitation_ids ?d2" "r \<in> response_ids ?d2" "distinct (map guest_ID gs)"
      using Cons.prems(1-3) by (simp_all add: id_set_defs)
    have "guest_ID x \<noteq> guest_ID g" if "x \<in> set gs" for x
      using Cons.prems(3) that by (metis distinct.simps(2) image_eqI list.simps(9) set_map)
    then show "\<forall>x \<in> set gs. guest_ID x \<notin> guest_ids ?d2 \<and>
        guest_ID x \<notin> gr_guest_id ` set (db_guest_responses ?d2) \<and>
        guest_Origin x \<in> {''assigned'', ''additional''}"
      using Cons.prems(4) by (simp add: id_set_defs)
  qed
  then show ?case using step by simp
qed

lemma insert_household_succeeds:
  assumes "household_fresh r iv guests d" "inv_EventID iv \<in> event_ids d"
    and "user_ref_ok d (inv_CreatedByUserID iv)" "invitation_checks (invitation_values rt now iv)"
    and "inv_OpenEnrollmentID iv = None"
  shows "\<exists>d'. insert_household rt verb now r iv guests d = Inr d'"
proof -
  let ?d1 = "d\<lparr>db_invitations := db_invitations d @ [invitation_values rt now iv]\<rparr>"
  let ?d2 = "?d1\<lparr>db_responses := db_responses d @ [response_values now r (inv_ID iv)]\<rparr>"
  have "insert_invitation (invitation_values rt now iv) d = Some ?d1"
    using assms by (simp add: insert_invitation_def household_fresh_def add_row_def)
  moreover have "insert_response (response_values now r (inv_ID iv)) ?d1 = Some ?d2"
    using assms(1) by (simp add: insert_response_def household_fresh_def id_set_defs add_row_def)
  moreover have "\<exists>d'. loop (insert_guest_pending verb now (inv_ID iv) r) ?d2 guests = Inr d'"
    by (rule insert_guests_succeed) (use assms(1) in \<open>auto simp: household_fresh_def id_set_defs\<close>)
  ultimately show ?thesis by (auto simp: insert_household_def)
qed

section \<open>Lemmas on rotation, revocation and sessions\<close>

lemma session_lookup_D:
  assumes "InvitationForSession t h d = (d', Some iv)"
  obtains s r where "s \<in> set (db_sessions d)" "r \<in> set (db_invitations d)" "session_opens t h s r"
    "iv = scanInvitation r"
  using assms
  by (auto simp: InvitationForSession_def split: option.splits prod.splits dest!: select_row_SomeD)

lemma session_lookup_None:
  "snd (InvitationForSession t h d) = None \<longleftrightarrow>
    (\<forall>s \<in> set (db_sessions d). \<forall>r \<in> set (db_invitations d). \<not> session_opens t h s r)"
proof (cases "select_row (\<lambda>(s, i). session_opens t h s i)
    (List.product (db_sessions d) (db_invitations d))")
  case None
  then have "snd (InvitationForSession t h d) = None" by (simp add: InvitationForSession_def)
  moreover have "\<not> session_opens t h s r" if "s \<in> set (db_sessions d)" "r \<in> set (db_invitations d)" for s r
    using None that by (auto simp: select_row_None_iff)
  ultimately show ?thesis by blast
next
  case (Some p)
  then have "p \<in> set (List.product (db_sessions d) (db_invitations d)) \<and> session_opens t h (fst p) (snd p)"
    using select_row_SomeD [OF Some] by (cases p) simp
  moreover have "snd (InvitationForSession t h d) \<noteq> None"
    using Some by (cases p) (simp add: InvitationForSession_def)
  ultimately show ?thesis by (cases p) auto
qed

lemma session_lookup_Some:
  assumes "keys_unique d" "s \<in> set (db_sessions d)" "r \<in> set (db_invitations d)" "session_opens t h s r"
  shows "snd (InvitationForSession t h d) = Some (scanInvitation r)"
proof (cases "InvitationForSession t h d")
  case (Pair d' res)
  then obtain iv where iv: "res = Some iv"
    using assms session_lookup_None [of t h d] by (cases res) auto
  then obtain s' r' where "s' \<in> set (db_sessions d)" "r' \<in> set (db_invitations d)"
    "session_opens t h s' r'" "iv = scanInvitation r'"
    using Pair session_lookup_D by blast
  moreover from this have "s' = s"
    using assms by (auto simp: keys_unique_def session_opens_def intro: unique_row)
  ultimately have "r' = r"
    using assms unique_row [of inv_ID "db_invitations d" r' r]
    by (auto simp: keys_unique_def session_opens_def)
  with \<open>iv = scanInvitation r'\<close> iv Pair show ?thesis by simp
qed

text \<open>A lookup writes nothing but the last use of the session it found.\<close>

lemma lookup_frame:
  "InvitationForSession t h d = (d', res) \<Longrightarrow> d' = d\<lparr>db_sessions := db_sessions d'\<rparr>"
  by (auto simp: InvitationForSession_def split: option.splits prod.splits)

lemma revoke_sessions_dead:
  "\<forall>s \<in> set (revoke_sessions now i ss). ss_invitation_id s = i \<longrightarrow> ss_revoked_at s \<noteq> None"
  unfolding revoke_sessions_def by (induction ss) simp_all

lemma revoke_sessions_keys:
  "map ss_token_hash (revoke_sessions now i ss) = map ss_token_hash ss"
  "map ss_invitation_id (revoke_sessions now i ss) = map ss_invitation_id ss"
  unfolding revoke_sessions_def by (rule map_update_where, simp)+

lemma revoke_sessions_other:
  "filter (\<lambda>s. ss_invitation_id s \<noteq> i) (revoke_sessions now i ss) = filter (\<lambda>s. ss_invitation_id s \<noteq> i) ss"
  unfolding revoke_sessions_def by (rule filter_update_where) auto

lemma update_keys [simp]:
  "(\<And>r. k (f r) = k r) \<Longrightarrow> map k (update_where p f rows) = map k rows"
  by (rule map_update_where)

lemma rotate_wf:
  assumes "Rotate now i e d = Inr (d', r)" "wf_db d"
  shows "wf_db d'"
proof (rule same_shape_wf [OF _ assms(2)])
  show "same_shape d' d" using assms(1)
    by (auto simp: Rotate_def Let_def same_shape_def key_defs revoke_sessions_def split: if_splits)
qed

lemma revoke_wf:
  assumes "Revoke now i e reason d = Inr d'" "wf_db d"
  shows "wf_db d'"
proof (rule same_shape_wf [OF _ assms(2)])
  show "same_shape d' d" using assms(1)
    by (auto simp: Revoke_def same_shape_def key_defs revoke_sessions_def split: if_splits)
qed

lemma insert_session_wf: "insert_session r d = Some d' \<Longrightarrow> wf_db d \<Longrightarrow> wf_db d'"
  using insert_keys_unique(5) [of d r d'] insert_refs_ok(5) [of d r d']
  by (auto simp: wf_db_def responses_total_def insert_session_def split: if_splits)

lemma create_session_wf: "CreateSession now i h v e d = Inr d' \<Longrightarrow> wf_db d \<Longrightarrow> wf_db d'"
  by (simp add: CreateSession_def insert_session_wf)

lemma lookup_shape: "InvitationForSession t h d = (d', res) \<Longrightarrow> same_shape d' d"
  by (auto simp: InvitationForSession_def same_shape_def key_defs split: option.splits prod.splits)

lemma lookup_wf: "InvitationForSession t h d = (d', res) \<Longrightarrow> wf_db d \<Longrightarrow> wf_db d'"
  using lookup_shape same_shape_wf by blast

text \<open>The single row that a live invitation's update changes.\<close>

lemma live_row:
  assumes "affected (live_invitation i e) (db_invitations d) = 1" "keys_unique d"
  obtains r where "r \<in> set (db_invitations d)" "live_invitation i e r"
    "\<And>r'. r' \<in> set (db_invitations d) \<Longrightarrow> inv_ID r' = i \<Longrightarrow> r' = r"
proof -
  obtain r where r: "r \<in> set (db_invitations d)" "live_invitation i e r"
    using affected_one_ex [OF assms(1)] by blast
  moreover have "r' = r" if "r' \<in> set (db_invitations d)" "inv_ID r' = i" for r'
    using assms(2) r that by (auto simp: keys_unique_def live_invitation_def intro: unique_row)
  ultimately show ?thesis using that by blast
qed

lemma session_lookup_snd_D:
  assumes "snd (InvitationForSession t h d) = Some iv"
  obtains s r where "s \<in> set (db_sessions d)" "r \<in> set (db_invitations d)" "session_opens t h s r"
    "iv = scanInvitation r"
  using assms by (cases "InvitationForSession t h d") (auto elim: session_lookup_D)

lemma no_session_for:
  assumes "\<forall>s \<in> set (db_sessions d). ss_invitation_id s = i \<longrightarrow> ss_revoked_at s \<noteq> None"
  shows "\<forall>t h iv. snd (InvitationForSession t h d) = Some iv \<longrightarrow> inv_ID iv \<noteq> i"
proof (intro allI impI)
  fix t h iv assume "snd (InvitationForSession t h d) = Some iv"
  then obtain s r where "s \<in> set (db_sessions d)" "session_opens t h s r" "iv = scanInvitation r"
    by (rule session_lookup_snd_D)
  then show "inv_ID iv \<noteq> i" using assms by (auto simp: session_opens_def)
qed

text \<open>What rotation and revocation do to the invitation's row and to the rest of the table.\<close>

lemma live_update_row:
  assumes "affected (live_invitation i e) (db_invitations d) = 1" "keys_unique d"
  obtains r where "r \<in> set (db_invitations d)" "live_invitation i e r"
    "select_row (\<lambda>x. inv_ID x = i) (db_invitations d) = Some r"
proof -
  obtain r where r: "r \<in> set (db_invitations d)" "live_invitation i e r"
    and uniq: "\<And>r'. r' \<in> set (db_invitations d) \<Longrightarrow> inv_ID r' = i \<Longrightarrow> r' = r"
    using live_row [OF assms] by blast
  have "select_row (\<lambda>x. inv_ID x = i) (db_invitations d) = Some r"
  proof (rule select_row_unique [of inv_ID])
    show "distinct (map inv_ID (db_invitations d))" using assms(2) by (simp add: keys_unique_def)
    show "r \<in> set (db_invitations d)" "inv_ID r = i" using r by (simp_all add: live_invitation_def)
  qed (use r in \<open>simp add: live_invitation_def\<close>)
  then show ?thesis using that r by blast
qed

lemma others_untouched:
  assumes "\<And>r. inv_ID (f r) = inv_ID r"
  shows "filter (\<lambda>r. inv_ID r \<noteq> i) (update_where (live_invitation i e) f rows) = filter (\<lambda>r. inv_ID r \<noteq> i) rows"
  by (rule filter_update_where) (use assms in \<open>auto simp: live_invitation_def\<close>)

lemma revoke_marks:
  assumes "wf_db d" "Revoke now i e reason d = Inr d'"
  shows "\<exists>r \<in> set (db_invitations d'). inv_ID r = i \<and> inv_RevokedAt r \<noteq> None"
proof -
  let ?f = "\<lambda>r. r\<lparr>inv_RevokedAt := Some now, inv_RevocationReason := Some reason, inv_UpdatedAt := now\<rparr>"
  have one: "affected (live_invitation i e) (db_invitations d) = 1"
    and d': "db_invitations d' = update_where (live_invitation i e) ?f (db_invitations d)"
    using assms(2) by (auto simp: Revoke_def split: if_splits)
  obtain r where r: "r \<in> set (db_invitations d)" "live_invitation i e r" using affected_one_ex [OF one] by blast
  then have "?f r \<in> set (db_invitations d')" by (auto simp: d' set_update_where)
  then show ?thesis by (rule bexI [rotated]) (use r(2) in \<open>simp add: live_invitation_def\<close>)
qed

lemma rotate_bumps:
  assumes "wf_db d" "Rotate now i e d = Inr (d', res)" "r \<in> set (db_invitations d)" "inv_ID r = i"
  shows "\<exists>r' \<in> set (db_invitations d'). inv_AccessID r' = inv_AccessID r \<and> inv_TokenVersion r < inv_TokenVersion r'"
proof -
  let ?f = "\<lambda>r. r\<lparr>inv_TokenVersion := inv_TokenVersion r + 1, inv_UpdatedAt := now\<rparr>"
  have one: "affected (live_invitation i e) (db_invitations d) = 1"
    and d': "db_invitations d' = update_where (live_invitation i e) ?f (db_invitations d)"
    using assms(2) by (auto simp: Rotate_def Let_def split: if_splits)
  have keys: "keys_unique d" using assms(1) by (simp add: wf_db_def)
  obtain r0 where r0: "live_invitation i e r0"
    and uniq: "\<And>x. x \<in> set (db_invitations d) \<Longrightarrow> inv_ID x = i \<Longrightarrow> x = r0"
    using live_row [OF one keys] by blast
  have "r = r0" by (rule uniq [OF assms(3,4)])
  then have "?f r \<in> set (db_invitations d')" using assms(3) r0 by (auto simp: d' set_update_where)
  then show ?thesis by (rule bexI [rotated]) simp
qed

section \<open>Properties\<close>

text \<open>
  Rotation invalidates access. A successful rotation returns the invitation with the next
  token version, after it no session opens that invitation at any time, and the rows and
  sessions of all other invitations are as before.
\<close>

theorem rotate_invalidates_sessions:
  assumes "wf_db d" "Rotate now i e d = Inr (d', res)"
  shows "(\<exists>r \<in> set (db_invitations d). live_invitation i e r \<and>
      res = Some (scanInvitation (r\<lparr>inv_TokenVersion := inv_TokenVersion r + 1, inv_UpdatedAt := now\<rparr>))) \<and>
    (\<forall>t h iv. snd (InvitationForSession t h d') = Some iv \<longrightarrow> inv_ID iv \<noteq> i) \<and>
    filter (\<lambda>r. inv_ID r \<noteq> i) (db_invitations d') = filter (\<lambda>r. inv_ID r \<noteq> i) (db_invitations d) \<and>
    filter (\<lambda>s. ss_invitation_id s \<noteq> i) (db_sessions d') = filter (\<lambda>s. ss_invitation_id s \<noteq> i) (db_sessions d)"
proof -
  let ?f = "\<lambda>r. r\<lparr>inv_TokenVersion := inv_TokenVersion r + 1, inv_UpdatedAt := now\<rparr>"
  have one: "affected (live_invitation i e) (db_invitations d) = 1"
    and d': "d' = d\<lparr>db_invitations := update_where (live_invitation i e) ?f (db_invitations d),
       db_sessions := revoke_sessions now i (db_sessions d)\<rparr>" and res: "res = FindByID i d'"
    using assms(2) by (auto simp: Rotate_def Let_def split: if_splits)
  have keys: "keys_unique d" using assms(1) by (simp add: wf_db_def)
  obtain r where r: "r \<in> set (db_invitations d)" "live_invitation i e r"
    and sel: "select_row (\<lambda>x. inv_ID x = i) (db_invitations d) = Some r"
    by (rule live_update_row [OF one keys])
  have "select_row (\<lambda>x. inv_ID x = i) (db_invitations d') = Some (?f r)"
    using sel r(2) by (simp add: d' select_row_update_where)
  then have "res = Some (scanInvitation (?f r))" by (simp add: res FindByID_def)
  moreover have "\<forall>t h iv. snd (InvitationForSession t h d') = Some iv \<longrightarrow> inv_ID iv \<noteq> i"
    by (rule no_session_for) (simp add: d' revoke_sessions_dead)
  ultimately show ?thesis using r others_untouched [of ?f] by (auto simp: d' revoke_sessions_other)
qed

text \<open>
  Revocation closes a household. After a successful revocation the invitation is marked
  with the time and reason, no session opens it at any time, a second revocation and a rotation
  find nothing to change, and the other invitations and their sessions are as before.
\<close>

theorem revoke_closes_household:
  assumes "wf_db d" "Revoke now i e reason d = Inr d'"
  shows "(\<exists>r \<in> set (db_invitations d'). inv_ID r = i \<and> inv_RevokedAt r = Some now \<and> inv_RevocationReason r = Some reason) \<and>
    (\<forall>t h iv. snd (InvitationForSession t h d') = Some iv \<longrightarrow> inv_ID iv \<noteq> i) \<and>
    Revoke now2 i e2 reason2 d' = Inl ErrNotFound \<and> Rotate now2 i e2 d' = Inl ErrNotFound \<and>
    filter (\<lambda>r. inv_ID r \<noteq> i) (db_invitations d') = filter (\<lambda>r. inv_ID r \<noteq> i) (db_invitations d) \<and>
    filter (\<lambda>s. ss_invitation_id s \<noteq> i) (db_sessions d') = filter (\<lambda>s. ss_invitation_id s \<noteq> i) (db_sessions d)"
proof -
  let ?f = "\<lambda>r. r\<lparr>inv_RevokedAt := Some now, inv_RevocationReason := Some reason, inv_UpdatedAt := now\<rparr>"
  have one: "affected (live_invitation i e) (db_invitations d) = 1"
    and d': "d' = d\<lparr>db_invitations := update_where (live_invitation i e) ?f (db_invitations d),
       db_sessions := revoke_sessions now i (db_sessions d)\<rparr>"
    using assms(2) by (simp_all add: Revoke_def split: if_splits)
  have keys: "keys_unique d" using assms(1) by (simp add: wf_db_def)
  obtain r where r: "r \<in> set (db_invitations d)" "live_invitation i e r"
    and uniq: "\<And>r'. r' \<in> set (db_invitations d) \<Longrightarrow> inv_ID r' = i \<Longrightarrow> r' = r"
    using live_row [OF one keys] by blast
  have "?f r \<in> set (db_invitations d')" using r by (auto simp: d' set_update_where)
  moreover have "\<not> live_invitation i e2 x" if mem: "x \<in> set (db_invitations d')" for x e2
  proof -
    obtain y where y: "y \<in> set (db_invitations d)" "x = (if live_invitation i e y then ?f y else y)"
      using mem by (auto simp: d' set_update_where)
    then show ?thesis using r(2) uniq [of y] by (auto simp: live_invitation_def)
  qed
  moreover from this have "affected (live_invitation i e2) (db_invitations d') = 0" for e2
    by (simp add: affected_zero_iff)
  moreover have "\<forall>t h iv. snd (InvitationForSession t h d') = Some iv \<longrightarrow> inv_ID iv \<noteq> i"
    by (rule no_session_for) (simp add: d' revoke_sessions_dead)
  ultimately show ?thesis using r others_untouched [of ?f]
    by (auto simp: d' revoke_sessions_other Revoke_def Rotate_def live_invitation_def intro!: bexI [of _ "?f r"])
qed

text \<open>
  Sessions end on time, to the second. A session token opens an invitation only while the
  session is not revoked, the invitation is not revoked, the versions agree and less than one
  second has passed since the expiry; and with these conditions it does open it at every time
  at least one second before the expiry. (The comparison is made on timestamp texts.)
\<close>

theorem session_expiry_to_the_second:
  assumes "wf_db d"
  shows "(\<forall>iv. snd (InvitationForSession t h d) = Some iv \<longrightarrow>
      (\<exists>s \<in> set (db_sessions d). ss_token_hash s = h \<and> ss_invitation_id s = inv_ID iv \<and>
        ss_revoked_at s = None \<and> inv_RevokedAt iv = None \<and>
        ss_issued_token_version s = inv_TokenVersion iv \<and> t < ss_expires_at s + second)) \<and>
    (\<forall>s \<in> set (db_sessions d). \<forall>r \<in> set (db_invitations d).
      ss_token_hash s = h \<and> ss_invitation_id s = inv_ID r \<and> ss_revoked_at s = None \<and>
      inv_RevokedAt r = None \<and> ss_issued_token_version s = inv_TokenVersion r \<and>
      t + second \<le> ss_expires_at s \<longrightarrow>
      snd (InvitationForSession t h d) = Some (scanInvitation r))"
proof (intro conjI allI ballI impI)
  fix iv assume "snd (InvitationForSession t h d) = Some iv"
  then obtain s r where "s \<in> set (db_sessions d)" "session_opens t h s r" "iv = scanInvitation r"
    by (rule session_lookup_snd_D)
  then show "\<exists>s \<in> set (db_sessions d). ss_token_hash s = h \<and> ss_invitation_id s = inv_ID iv \<and>
        ss_revoked_at s = None \<and> inv_RevokedAt iv = None \<and>
        ss_issued_token_version s = inv_TokenVersion iv \<and> t < ss_expires_at s + second"
    by (intro bexI [of _ s]) (auto simp: session_opens_def stamp_less_bound)
next
  fix s r assume "s \<in> set (db_sessions d)" "r \<in> set (db_invitations d)"
    and cond: "ss_token_hash s = h \<and> ss_invitation_id s = inv_ID r \<and> ss_revoked_at s = None \<and>
      inv_RevokedAt r = None \<and> ss_issued_token_version s = inv_TokenVersion r \<and>
      t + second \<le> ss_expires_at s"
  moreover from cond have "session_opens t h s r" by (simp add: session_opens_def stamp_less_if)
  moreover have "keys_unique d" using assms by (simp add: wf_db_def)
  ultimately show "snd (InvitationForSession t h d) = Some (scanInvitation r)"
    using session_lookup_Some by blast
qed

end
