(* ===== verification/Invitation_Response.thy ===== *)
theory Invitation_Response
  imports Invitation_Store
begin

text \<open>
  Submitting a household response (\<open>internal/invitation/response_store.go\<close>): the optimistic
  version check, attendance of assigned guests, creation, renaming and removal of additional
  guests within the allowance, and the validation and replacement of answers, all in one
  transaction.
\<close>

section \<open>Helpers of the transaction\<close>

definition updateGuestAttendance :: "id \<Rightarrow> id \<Rightarrow> string \<Rightarrow> time \<Rightarrow> db \<Rightarrow> db result" where
  "updateGuestAttendance responseID guestID attendance now d =
    (if list_ex (\<lambda>r. gr_guest_id r = guestID) (db_guest_responses d)
     then (if validAttendance attendance
           then Inr (d\<lparr>db_guest_responses := update_where (\<lambda>r. gr_guest_id r = guestID)
                  (\<lambda>r. r\<lparr>gr_attendance := attendance, gr_updated_at := now\<rparr>) (db_guest_responses d)\<rparr>)
           else Inl (Internal ''update guest attendance''))
     else or_err (insert_guest_response (guest_response_values now responseID guestID attendance) d)
            (Internal ''update guest attendance''))"

definition loadActiveGuestsTx :: "id \<Rightarrow> db \<Rightarrow> Guest list" where
  "loadActiveGuestsTx invitationID d =
    map (scanGuest d) (filter (active_guest invitationID) (db_guests d))"

definition loadQuestionsTx :: "'x runtime_scheme \<Rightarrow> id \<Rightarrow> db \<Rightarrow> Question list result" where
  "loadQuestionsTx rt eventID d = scanQuestions rt ''parse response question options''
    (filter (\<lambda>r. qr_event_id r = eventID \<and> \<not> qr_deleted r) (db_questions d))"

section \<open>Answers\<close>

definition validateAnswer :: "'x runtime_scheme \<Rightarrow> Question \<Rightarrow> string \<Rightarrow> unit result" where
  "validateAnswer rt q answer =
    (if length answer > 1000
     then Inl (Validation (''answer for '' @ rt_quote rt (q_Label q) @ '' exceeds 1000 characters''))
     else if q_Type q = ''text'' then Inr ()
     else if q_Type q = ''select'' then
       (if answer = [] \<or> answer \<in> set (q_Options q) then Inr ()
        else Inl (Validation (''invalid option for '' @ rt_quote rt (q_Label q))))
     else if q_Type q = ''checkbox'' then
       (if answer = [] then Inr ()
        else case rt_json_strings rt answer of
            None \<Rightarrow> Inl (Validation (''checkbox answer for '' @ rt_quote rt (q_Label q) @ '' must be an array''))
          | Some selected \<Rightarrow>
              guard (list_all (\<lambda>option. option \<in> set (q_Options q)) selected)
                (Validation (''invalid option for '' @ rt_quote rt (q_Label q))))
     else Inl (Validation ''invalid question type''))"

text \<open>The Go maps \<open>questionByID\<close> and \<open>guestByID\<close>: the last entry of an id wins.\<close>

definition questionByID :: "Question list \<Rightarrow> id \<Rightarrow> Question option" where
  "questionByID questions qid = find (\<lambda>q. q_ID q = qid) (rev questions)"

definition check_scoped_answer ::
  "'x runtime_scheme \<Rightarrow> Question list \<Rightarrow> string \<Rightarrow> string \<Rightarrow> unit \<Rightarrow> id \<times> string \<Rightarrow> unit result" where
  "check_scoped_answer rt questions scope msg u qa =
    (case questionByID questions (fst qa) of
       None \<Rightarrow> Inl (Validation msg)
     | Some q \<Rightarrow> if q_Scope q \<noteq> scope then Inl (Validation msg) else validateAnswer rt q (snd qa))"

definition require_invitation_answer :: "(id \<times> string) list \<Rightarrow> unit \<Rightarrow> Question \<Rightarrow> unit result" where
  "require_invitation_answer answers u q =
    guard (\<not> (q_Scope q = QuestionScopeInvitation \<and> q_Required q \<and>
              trim_space (map_get answers (q_ID q)) = []))
      (Validation (''answer required for question: '' @ q_Label q))"

definition require_guest_answers ::
  "Question list \<Rightarrow> (id \<times> (id \<times> string) list) list \<Rightarrow> unit \<Rightarrow> Guest \<Rightarrow> unit result" where
  "require_guest_answers questions answers u guest =
    (if guest_Attendance guest \<noteq> AttendanceAttending then Inr ()
     else loop (\<lambda>u q. guard (\<not> (q_Scope q = QuestionScopeGuest \<and> q_Required q \<and>
                trim_space (map_get (map_get answers (guest_ID guest)) (q_ID q)) = []))
              (Validation (''answer required for '' @ guest_Name guest @ '': '' @ q_Label q)))
            () questions)"

definition validateResponseAnswers ::
  "'x runtime_scheme \<Rightarrow> Question list \<Rightarrow> Guest list \<Rightarrow> (id \<times> string) list \<Rightarrow>
   (id \<times> (id \<times> string) list) list \<Rightarrow> unit result" where
  "validateResponseAnswers rt questions guests invitationAnswers guestAnswers =
    rbind (loop (require_invitation_answer invitationAnswers) () questions) (\<lambda>_.
    rbind (loop (require_guest_answers questions guestAnswers) () guests) (\<lambda>_.
    rbind (loop (check_scoped_answer rt questions QuestionScopeInvitation
                   ''invalid invitation-scoped question'') () invitationAnswers) (\<lambda>_.
    loop (\<lambda>u (guestID, answers).
        if \<not> list_ex (\<lambda>g. guest_ID g = guestID) guests
        then Inl (Validation ''guest answer does not belong to this invitation'')
        else loop (check_scoped_answer rt questions QuestionScopeGuest
                     ''invalid guest-scoped question'') () answers)
      () guestAnswers)))"

definition save_invitation_answer :: "time \<Rightarrow> id \<Rightarrow> db \<Rightarrow> id \<times> string \<Rightarrow> db result" where
  "save_invitation_answer now invitationID d qa =
    or_err (insert_invitation_answer \<lparr> ia_invitation_id = invitationID, ia_question_id = fst qa,
        ia_answer = snd qa, ia_created_at = now \<rparr> d)
      (Internal ''save invitation answer'')"

definition save_guest_answer :: "time \<Rightarrow> id \<Rightarrow> db \<Rightarrow> id \<times> string \<Rightarrow> db result" where
  "save_guest_answer now guestID d qa =
    or_err (insert_guest_answer \<lparr> gar_guest_id = guestID, gar_question_id = fst qa,
        gar_answer = snd qa, gar_created_at = now \<rparr> d)
      (Internal ''save guest answer'')"

definition replaceAnswers ::
  "id \<Rightarrow> Guest list \<Rightarrow> (id \<times> string) list \<Rightarrow> (id \<times> (id \<times> string) list) list \<Rightarrow> time \<Rightarrow> db \<Rightarrow> db result"
where
  "replaceAnswers invitationID guests invitationAnswers guestAnswers now d =
    rbind (loop (save_invitation_answer now invitationID)
        (d\<lparr>db_invitation_answers :=
             delete_where (\<lambda>r. ia_invitation_id r = invitationID) (db_invitation_answers d)\<rparr>)
        invitationAnswers) (\<lambda>d.
    let d = d\<lparr>db_guest_answers := fold (\<lambda>guest. delete_where (\<lambda>r. gar_guest_id r = guest_ID guest))
               guests (db_guest_answers d)\<rparr> in
    loop (\<lambda>d (guestID, answers).
        if \<not> list_ex (\<lambda>g. guest_ID g = guestID) guests
        then Inl (Validation ''guest answer does not belong to this invitation'')
        else loop (save_guest_answer now guestID) d answers)
      d guestAnswers)"

section \<open>The transaction\<close>

definition unlocked :: "id \<Rightarrow> invitation_row \<Rightarrow> bool" where
  "unlocked invitationID r \<longleftrightarrow> inv_ID r = invitationID \<and> inv_RevokedAt r = None"

text \<open>The optimistic version update, \<open>WHERE invitation_id = ? AND version = ?\<close>.\<close>

definition at_version :: "id \<Rightarrow> int \<Rightarrow> Response \<Rightarrow> bool" where
  "at_version invitationID version r \<longleftrightarrow>
    resp_InvitationID r = invitationID \<and> resp_Version r = version"

definition advance_version :: "time \<Rightarrow> Response \<Rightarrow> Response" where
  "advance_version now r = r\<lparr>resp_Version := resp_Version r + 1,
     resp_SubmittedAt := (case resp_SubmittedAt r of None \<Rightarrow> Some now | Some t \<Rightarrow> Some t),
     resp_UpdatedAt := now\<rparr>"

definition apply_assigned ::
  "time \<Rightarrow> id \<Rightarrow> Guest list \<Rightarrow> db \<Rightarrow> GuestAttendanceInput \<Rightarrow> db result" where
  "apply_assigned now responseID assigned d update =
    (if \<not> list_ex (\<lambda>g. guest_ID g = gai_GuestID update) assigned
     then Inl (Validation ''assigned guest does not belong to this invitation'')
     else if \<not> validAttendance (gai_Attendance update) then Inl (Validation ''invalid attendance'')
     else updateGuestAttendance responseID (gai_GuestID update) (gai_Attendance update) now d)"

record submit_state =
  st_db :: db
  st_kept :: "id list" \<comment> \<open>keptAdditional\<close>
  st_client_keys :: "string list" \<comment> \<open>clientKeys\<close>
  st_guest_answers :: "(id \<times> (id \<times> string) list) list" \<comment> \<open>req.GuestAnswers\<close>

definition additional_values :: "time \<Rightarrow> id \<Rightarrow> id \<Rightarrow> string \<Rightarrow> int \<Rightarrow> guest_row" where
  "additional_values now guestID invitationID name sortOrder = \<lparr> g_id = guestID,
     g_invitation_id = invitationID, g_name = name, g_origin = ''additional'',
     g_sort_order = sortOrder, g_removed_at = None, g_created_at = now, g_updated_at = now \<rparr>"

text \<open>The branch for a guest without an id: client key checks and the new guest row.\<close>

definition create_additional ::
  "time \<Rightarrow> id \<Rightarrow> Guest list \<Rightarrow> Guest list \<Rightarrow> id \<Rightarrow> nat \<Rightarrow> string \<Rightarrow> string \<Rightarrow> submit_state \<Rightarrow> submit_state result"
where
  "create_additional now invitationID assigned additional guestID i clientKey name st =
    rbind (if clientKey = [] then Inr (st_client_keys st)
           else if length clientKey > 100
             then Inl (Validation ''additional guest client key must be 100 characters or fewer'')
           else if clientKey \<in> set (st_client_keys st) \<or>
                   list_ex (\<lambda>g. guest_ID g = clientKey) (assigned @ additional)
             then Inl (Validation ''additional guest client key is invalid or duplicated'')
           else Inr (clientKey # st_client_keys st)) (\<lambda>keys.
    rbind (or_err (insert_guest (additional_values now guestID invitationID name
                     (int (length assigned) + int i)) (st_db st)) (Internal ''create additional guest'')) (\<lambda>d.
    Inr (st\<lparr>st_db := d, st_client_keys := keys,
      st_guest_answers := (case map_of (st_guest_answers st) clientKey of
          Some answers \<Rightarrow> if clientKey \<noteq> [] then map_put guestID answers (map_delete clientKey (st_guest_answers st))
                         else st_guest_answers st
        | None \<Rightarrow> st_guest_answers st)\<rparr>)))"

text \<open>The branch for a guest with an id.\<close>

definition additional_row :: "id \<Rightarrow> id \<Rightarrow> guest_row \<Rightarrow> bool" where
  "additional_row guestID invitationID r \<longleftrightarrow> g_id r = guestID \<and> g_invitation_id r = invitationID \<and>
     g_origin r = ''additional'' \<and> g_removed_at r = None"

definition rename_additional ::
  "time \<Rightarrow> id \<Rightarrow> Guest list \<Rightarrow> id \<Rightarrow> string \<Rightarrow> string \<Rightarrow> submit_state \<Rightarrow> submit_state result" where
  "rename_additional now invitationID additional guestID clientKey name st =
    (if clientKey \<noteq> []
     then Inl (Validation ''persisted additional guests must not include a client key'')
     else if \<not> list_ex (\<lambda>g. guest_ID g = guestID) additional
     then Inl (Validation ''additional guest does not belong to this invitation'')
     else Inr (st\<lparr>st_db := (st_db st)\<lparr>db_guests := update_where (additional_row guestID invitationID)
            (\<lambda>r. r\<lparr>g_name := name, g_updated_at := now\<rparr>) (db_guests (st_db st))\<rparr>\<rparr>))"

definition apply_additional ::
  "time \<Rightarrow> (nat \<Rightarrow> id) \<Rightarrow> id \<Rightarrow> id \<Rightarrow> Guest list \<Rightarrow> Guest list \<Rightarrow> nat \<Rightarrow> submit_state \<Rightarrow>
   AdditionalGuestInput \<Rightarrow> submit_state result" where
  "apply_additional now uuid invitationID responseID assigned additional i st input =
    (let name = trim_space (agi_Name input);
         clientKey = trim_space (agi_ClientKey input);
         guestID = (if agi_ID input = [] then uuid i else agi_ID input) in
     if name = [] then Inl (Validation ''additional guest name is required'')
     else if length name > 200
       then Inl (Validation ''additional guest name must be 200 characters or fewer'')
     else if \<not> validAttendance (agi_Attendance input) then Inl (Validation ''invalid attendance'')
     else rbind (if agi_ID input = []
             then create_additional now invitationID assigned additional guestID i clientKey name st
             else rename_additional now invitationID additional guestID clientKey name st) (\<lambda>st.
       rbind (updateGuestAttendance responseID guestID (agi_Attendance input) now (st_db st)) (\<lambda>d.
       Inr (st\<lparr>st_db := d, st_kept := guestID # st_kept st\<rparr>))))"

text \<open>The loop over the map \<open>additional\<close> that soft-removes the guests that were not kept.\<close>

definition remove_additional :: "time \<Rightarrow> id \<Rightarrow> id list \<Rightarrow> Guest list \<Rightarrow> db \<Rightarrow> db" where
  "remove_additional now invitationID kept additional d =
    d\<lparr>db_guests := fold (\<lambda>g rows. if guest_ID g \<in> set kept then rows
         else update_where (additional_row (guest_ID g) invitationID)
                (\<lambda>r. r\<lparr>g_removed_at := Some now, g_updated_at := now\<rparr>) rows)
       additional (db_guests d)\<rparr>"

definition SubmitResponse ::
  "'x runtime_scheme \<Rightarrow> time \<Rightarrow> (nat \<Rightarrow> id) \<Rightarrow> id \<Rightarrow> SubmitRequest \<Rightarrow> db \<Rightarrow> db result" where
  "SubmitResponse rt now uuid invitationID req d =
    (if affected (unlocked invitationID) (db_invitations d) \<noteq> 1 then Inl ErrNotFound
     else rbind (or_err (select_row (\<lambda>r. inv_ID r = invitationID) (db_invitations d))
                   (Internal ''load invitation allowance'')) (\<lambda>iv.
     if int (length (sr_AdditionalGuests req)) > inv_AdditionalGuestAllowance iv then Inl ErrAllowance
     else if affected (at_version invitationID (sr_Version req)) (db_responses d) \<noteq> 1 then Inl ErrConflict
     else let d = d\<lparr>db_responses := update_where (at_version invitationID (sr_Version req))
                     (advance_version now) (db_responses d)\<rparr> in
     rbind (or_err (select_row (\<lambda>r. resp_InvitationID r = invitationID) (db_responses d))
              (Internal ''load response id'')) (\<lambda>resp.
     let existing = loadActiveGuestsTx invitationID d;
         assigned = filter (\<lambda>g. guest_Origin g = GuestOriginAssigned) existing;
         additional = filter (\<lambda>g. guest_Origin g \<noteq> GuestOriginAssigned) existing in
     rbind (loop (apply_assigned now (resp_ID resp) assigned) d (sr_AssignedGuests req)) (\<lambda>d.
     rbind (iloop (apply_additional now uuid invitationID (resp_ID resp) assigned additional) 0
              \<lparr> st_db = d, st_kept = [], st_client_keys = [], st_guest_answers = sr_GuestAnswers req \<rparr>
              (sr_AdditionalGuests req)) (\<lambda>st.
     let d = remove_additional now invitationID (st_kept st) additional (st_db st);
         activeGuests = loadActiveGuestsTx invitationID d in
     rbind (loadQuestionsTx rt (inv_EventID iv) d) (\<lambda>questions.
     rbind (validateResponseAnswers rt questions activeGuests (sr_InvitationAnswers req)
              (st_guest_answers st)) (\<lambda>_.
     replaceAnswers invitationID activeGuests (sr_InvitationAnswers req) (st_guest_answers st) now d)))))))"

section \<open>The transaction taken apart\<close>

text \<open>What a successful submission has passed through, step by step.\<close>

lemma SubmitResponse_E:
  assumes "SubmitResponse rt now uuid i req d = Inr d'"
  obtains iv resp d0 d1 st questions where
    "affected (unlocked i) (db_invitations d) = 1"
    "select_row (\<lambda>r. inv_ID r = i) (db_invitations d) = Some iv"
    "int (length (sr_AdditionalGuests req)) \<le> inv_AdditionalGuestAllowance iv"
    "affected (at_version i (sr_Version req)) (db_responses d) = 1"
    "d0 = d\<lparr>db_responses := update_where (at_version i (sr_Version req)) (advance_version now) (db_responses d)\<rparr>"
    "select_row (\<lambda>r. resp_InvitationID r = i) (db_responses d0) = Some resp"
    "loop (apply_assigned now (resp_ID resp)
       (filter (\<lambda>g. guest_Origin g = GuestOriginAssigned) (loadActiveGuestsTx i d0))) d0 (sr_AssignedGuests req) = Inr d1"
    "iloop (apply_additional now uuid i (resp_ID resp)
       (filter (\<lambda>g. guest_Origin g = GuestOriginAssigned) (loadActiveGuestsTx i d0))
       (filter (\<lambda>g. guest_Origin g \<noteq> GuestOriginAssigned) (loadActiveGuestsTx i d0))) 0
       \<lparr> st_db = d1, st_kept = [], st_client_keys = [], st_guest_answers = sr_GuestAnswers req \<rparr>
       (sr_AdditionalGuests req) = Inr st"
    "loadQuestionsTx rt (inv_EventID iv) (remove_additional now i (st_kept st)
       (filter (\<lambda>g. guest_Origin g \<noteq> GuestOriginAssigned) (loadActiveGuestsTx i d0)) (st_db st)) = Inr questions"
    "validateResponseAnswers rt questions (loadActiveGuestsTx i (remove_additional now i (st_kept st)
       (filter (\<lambda>g. guest_Origin g \<noteq> GuestOriginAssigned) (loadActiveGuestsTx i d0)) (st_db st)))
       (sr_InvitationAnswers req) (st_guest_answers st) = Inr ()"
    "replaceAnswers i (loadActiveGuestsTx i (remove_additional now i (st_kept st)
       (filter (\<lambda>g. guest_Origin g \<noteq> GuestOriginAssigned) (loadActiveGuestsTx i d0)) (st_db st)))
       (sr_InvitationAnswers req) (st_guest_answers st) now
       (remove_additional now i (st_kept st)
       (filter (\<lambda>g. guest_Origin g \<noteq> GuestOriginAssigned) (loadActiveGuestsTx i d0)) (st_db st)) = Inr d'"
proof -
  have lock: "affected (unlocked i) (db_invitations d) = 1"
    using assms by (simp add: SubmitResponse_def split: if_splits)
  note body = assms [unfolded SubmitResponse_def Let_def]
  from body lock obtain iv where iv: "select_row (\<lambda>r. inv_ID r = i) (db_invitations d) = Some iv"
    by (cases "select_row (\<lambda>r. inv_ID r = i) (db_invitations d)") simp_all
  note body = body [unfolded iv or_err_simps rbind.simps]
  have allowance: "int (length (sr_AdditionalGuests req)) \<le> inv_AdditionalGuestAllowance iv"
    and version: "affected (at_version i (sr_Version req)) (db_responses d) = 1"
    using body lock by (simp_all split: if_splits)
  let ?d0 = "d\<lparr>db_responses := update_where (at_version i (sr_Version req)) (advance_version now) (db_responses d)\<rparr>"
  let ?asg = "filter (\<lambda>g. guest_Origin g = GuestOriginAssigned) (loadActiveGuestsTx i ?d0)"
  let ?add = "filter (\<lambda>g. guest_Origin g \<noteq> GuestOriginAssigned) (loadActiveGuestsTx i ?d0)"
  let ?rm = "\<lambda>st. remove_additional now i (st_kept st) ?add (st_db st)"
  obtain resp d1 st questions where
    steps: "select_row (\<lambda>r. resp_InvitationID r = i) (db_responses ?d0) = Some resp"
      "loop (apply_assigned now (resp_ID resp) ?asg) ?d0 (sr_AssignedGuests req) = Inr d1"
      "iloop (apply_additional now uuid i (resp_ID resp) ?asg ?add) 0
         \<lparr> st_db = d1, st_kept = [], st_client_keys = [], st_guest_answers = sr_GuestAnswers req \<rparr>
         (sr_AdditionalGuests req) = Inr st"
      "loadQuestionsTx rt (inv_EventID iv) (?rm st) = Inr questions"
      "validateResponseAnswers rt questions (loadActiveGuestsTx i (?rm st))
         (sr_InvitationAnswers req) (st_guest_answers st) = Inr ()"
      "replaceAnswers i (loadActiveGuestsTx i (?rm st)) (sr_InvitationAnswers req)
         (st_guest_answers st) now (?rm st) = Inr d'"
    using body lock allowance version by auto
  show thesis by (rule that [OF lock iv allowance version refl steps])
qed

section \<open>What a submission leaves alone\<close>

text \<open>
  \<open>foreign_ids i d\<close> are the guests of other households, and \<open>frame i F\<close> relates two databases
  that differ at most in the response, guests and answers of household \<open>i\<close>, where \<open>F\<close> is the set
  of foreign guests.
\<close>

definition foreign_ids :: "id \<Rightarrow> db \<Rightarrow> id set" where
  "foreign_ids i d = g_id ` {g \<in> set (db_guests d). g_invitation_id g \<noteq> i}"

definition frame :: "id \<Rightarrow> id set \<Rightarrow> db \<Rightarrow> db \<Rightarrow> bool" where
  "frame i F d d' \<longleftrightarrow>
    d' = d\<lparr>db_responses := db_responses d', db_guests := db_guests d',
      db_guest_responses := db_guest_responses d', db_invitation_answers := db_invitation_answers d',
      db_guest_answers := db_guest_answers d'\<rparr> \<and>
    filter (\<lambda>r. resp_InvitationID r \<noteq> i) (db_responses d') = filter (\<lambda>r. resp_InvitationID r \<noteq> i) (db_responses d) \<and>
    filter (\<lambda>g. g_invitation_id g \<noteq> i) (db_guests d') = filter (\<lambda>g. g_invitation_id g \<noteq> i) (db_guests d) \<and>
    filter (\<lambda>r. gr_guest_id r \<in> F) (db_guest_responses d') = filter (\<lambda>r. gr_guest_id r \<in> F) (db_guest_responses d) \<and>
    filter (\<lambda>r. ia_invitation_id r \<noteq> i) (db_invitation_answers d') =
      filter (\<lambda>r. ia_invitation_id r \<noteq> i) (db_invitation_answers d) \<and>
    filter (\<lambda>r. gar_guest_id r \<in> F) (db_guest_answers d') = filter (\<lambda>r. gar_guest_id r \<in> F) (db_guest_answers d)"

lemma frame_refl: "frame i F d d"
  by (simp add: frame_def)

definition own_tables :: "db \<Rightarrow> db \<Rightarrow> db" where
  "own_tables d' d = d\<lparr>db_responses := db_responses d', db_guests := db_guests d',
      db_guest_responses := db_guest_responses d', db_invitation_answers := db_invitation_answers d',
      db_guest_answers := db_guest_answers d'\<rparr>"

lemma frame_trans:
  assumes "frame i F d d1" "frame i F d1 d2"
  shows "frame i F d d2"
proof -
  have eq1: "d1 = own_tables d1 d" and eq2: "d2 = own_tables d2 d1"
    using assms by (simp_all add: frame_def own_tables_def)
  from trans [OF eq2 arg_cong [OF eq1, of "own_tables d2"]]
  have "d2 = own_tables d2 d" by (simp add: own_tables_def)
  then show ?thesis using assms by (simp add: frame_def own_tables_def)
qed

lemma frame_foreign: "frame i F d d' \<Longrightarrow> foreign_ids i d' = foreign_ids i d"
proof -
  assume "frame i F d d'"
  then have "set (filter (\<lambda>g. g_invitation_id g \<noteq> i) (db_guests d')) = set (filter (\<lambda>g. g_invitation_id g \<noteq> i) (db_guests d))"
    by (simp add: frame_def)
  then show ?thesis by (auto simp: foreign_ids_def)
qed

text \<open>The rows of the household's own guests are not foreign.\<close>

lemma own_not_foreign:
  assumes "keys_unique d" "g \<in> set (db_guests d)" "g_invitation_id g = i"
  shows "g_id g \<notin> foreign_ids i d"
proof
  assume "g_id g \<in> foreign_ids i d"
  then obtain g' where "g' \<in> set (db_guests d)" "g_invitation_id g' \<noteq> i" "g_id g' = g_id g"
    by (auto simp: foreign_ids_def)
  then show False using assms unique_row [of g_id "db_guests d" g g'] by (auto simp: keys_unique_def)
qed

text \<open>
  A step of household \<open>i\<close>: it keeps the invariant and everything of the other households.
  Steps compose, because they do not change which guests are foreign.
\<close>

definition household_step :: "id \<Rightarrow> db \<Rightarrow> db \<Rightarrow> bool" where
  "household_step i d d' \<longleftrightarrow> frame i (foreign_ids i d) d d' \<and> (wf_db d \<longrightarrow> wf_db d')"

lemma household_step_refl: "household_step i d d"
  by (simp add: household_step_def frame_refl)

lemma household_step_trans:
  "household_step i d d' \<Longrightarrow> household_step i d' d'' \<Longrightarrow> household_step i d d''"
  unfolding household_step_def using frame_foreign frame_trans by metis

lemma household_step_foreign: "household_step i d d' \<Longrightarrow> foreign_ids i d' = foreign_ids i d"
  by (auto simp: household_step_def dest: frame_foreign)

lemma insert_wf:
  assumes "wf_db d"
  shows "insert_guest gr d = Some d' \<Longrightarrow> wf_db d'"
    and "insert_guest_response xr d = Some d' \<Longrightarrow> wf_db d'"
proof -
  have ok: "keys_unique d" "refs_ok d" "responses_total d" using assms by (simp_all add: wf_db_def)
  have total: "responses_total d'"
    if "db_responses d' = db_responses d" "db_invitations d' = db_invitations d" for d'
    using ok(3) that by (simp add: responses_total_def)
  show "wf_db d'" if "insert_guest gr d = Some d'"
    using insert_keys_unique(2) [OF ok(1) that] insert_refs_ok(2) [OF ok(2) that]
      total [of d'] insert_guest_D(1) [OF that] by (simp add: wf_db_def)
  show "wf_db d'" if "insert_guest_response xr d = Some d'"
    using insert_keys_unique(4) [OF ok(1) that] insert_refs_ok(4) [OF ok(2) that]
      total [of d'] insert_guest_response_D(1) [OF that] by (simp add: wf_db_def)
qed

lemma advance_version_simps [simp]:
  "resp_ID (advance_version now r) = resp_ID r"
  "resp_InvitationID (advance_version now r) = resp_InvitationID r"
  "resp_Version (advance_version now r) = resp_Version r + 1"
  by (simp_all add: advance_version_def)

lemma version_step:
  "household_step i d (d\<lparr>db_responses := update_where (at_version i v) (advance_version now) (db_responses d)\<rparr>)"
    (is "household_step i d ?d'")
proof -
  have "filter (\<lambda>r. resp_InvitationID r \<noteq> i) (update_where (at_version i v) (advance_version now) (db_responses d))
      = filter (\<lambda>r. resp_InvitationID r \<noteq> i) (db_responses d)"
    by (rule filter_update_where) (simp_all add: at_version_def)
  moreover have "same_shape ?d' d" by (simp add: same_shape_def key_defs)
  ultimately show ?thesis using same_shape_wf by (auto simp: household_step_def frame_def)
qed

lemma attendance_step:
  assumes "updateGuestAttendance r gid a now d = Inr d'" "gid \<notin> foreign_ids i d"
  shows "household_step i d d'" and "db_guests d' = db_guests d" and "db_responses d' = db_responses d"
proof -
  have "household_step i d d' \<and> db_guests d' = db_guests d \<and> db_responses d' = db_responses d"
  proof (cases "list_ex (\<lambda>r. gr_guest_id r = gid) (db_guest_responses d)")
    case True
    let ?rows = "update_where (\<lambda>r. gr_guest_id r = gid)
      (\<lambda>r. r\<lparr>gr_attendance := a, gr_updated_at := now\<rparr>) (db_guest_responses d)"
    have d': "d' = d\<lparr>db_guest_responses := ?rows\<rparr>"
      using assms(1) True by (simp add: updateGuestAttendance_def split: if_splits)
    have "filter (\<lambda>r. gr_guest_id r \<in> foreign_ids i d) ?rows =
        filter (\<lambda>r. gr_guest_id r \<in> foreign_ids i d) (db_guest_responses d)"
      by (rule filter_update_where) (use assms(2) in auto)
    moreover have "same_shape d' d" by (simp add: d' same_shape_def)
    ultimately show ?thesis using same_shape_wf by (auto simp: d' household_step_def frame_def)
  next
    case False
    then have ins: "insert_guest_response (guest_response_values now r gid a) d = Some d'"
      using assms(1) by (simp add: updateGuestAttendance_def)
    then show ?thesis using insert_guest_response_D(1) [OF ins] insert_wf(2) assms(2)
      by (auto simp: household_step_def frame_def filter_add_row)
  qed
  then show "household_step i d d'" and "db_guests d' = db_guests d" and "db_responses d' = db_responses d"
    by simp_all
qed

lemma assigned_step:
  assumes "loop (apply_assigned now r assigned) d xs = Inr d'"
    and "\<forall>g \<in> set assigned. guest_ID g \<notin> foreign_ids i d"
  shows "household_step i d d' \<and> db_guests d' = db_guests d \<and> db_responses d' = db_responses d"
proof (rule loop_invariant [OF assms(1), of "\<lambda>x. household_step i d x \<and> db_guests x = db_guests d \<and> db_responses x = db_responses d"])
  show "household_step i d d \<and> db_guests d = db_guests d \<and> db_responses d = db_responses d"
    by (simp add: household_step_refl)
  fix x u x'
  assume x: "household_step i d x \<and> db_guests x = db_guests d \<and> db_responses x = db_responses d"
    and step: "apply_assigned now r assigned x u = Inr x'"
  have att: "updateGuestAttendance r (gai_GuestID u) (gai_Attendance u) now x = Inr x'"
    and own: "list_ex (\<lambda>g. guest_ID g = gai_GuestID u) assigned"
    using step by (simp_all add: apply_assigned_def split: if_splits)
  have "gai_GuestID u \<notin> foreign_ids i x"
    using own assms(2) household_step_foreign x by (fastforce simp: list_ex_iff)
  from attendance_step [OF att this] show
    "household_step i d x' \<and> db_guests x' = db_guests d \<and> db_responses x' = db_responses d"
    using x household_step_trans by auto
qed

lemma insert_own_guest_step:
  assumes "insert_guest r d = Some d'" "g_invitation_id r = i"
  shows "household_step i d d'" and "g_id r \<notin> foreign_ids i d'"
proof -
  note d' = insert_guest_D [OF assms(1)]
  have foreign: "foreign_ids i d' = foreign_ids i d" using assms(2) by (auto simp: d'(1) foreign_ids_def)
  show "household_step i d d'" using assms(2) insert_wf(1) assms(1)
    by (auto simp: household_step_def frame_def d'(1) filter_add_row)
  have "g_id r \<notin> foreign_ids i d" using d'(2) by (auto simp: foreign_ids_def)
  then show "g_id r \<notin> foreign_ids i d'" by (simp add: foreign)
qed

lemma create_additional_step:
  assumes "create_additional now i assigned additional gid k clientKey name st = Inr st'"
  shows "household_step i (st_db st) (st_db st')" "gid \<notin> foreign_ids i (st_db st')"
    "db_responses (st_db st') = db_responses (st_db st)" "st_kept st' = st_kept st"
    "db_guests (st_db st') = add_row (additional_values now gid i name (int (length assigned) + int k))
       (db_guests (st_db st))"
proof -
  from assms have ins: "insert_guest (additional_values now gid i name (int (length assigned) + int k)) (st_db st)
      = Some (st_db st')" and kept: "st_kept st' = st_kept st"
    by (auto simp: create_additional_def split: if_splits)
  show "household_step i (st_db st) (st_db st')" "gid \<notin> foreign_ids i (st_db st')"
    using insert_own_guest_step [OF ins, of i] by (simp_all add: additional_values_def)
  show "db_responses (st_db st') = db_responses (st_db st)" "st_kept st' = st_kept st"
    "db_guests (st_db st') = add_row (additional_values now gid i name (int (length assigned) + int k))
       (db_guests (st_db st))"
    using insert_guest_D(1) [OF ins] kept by simp_all
qed

lemma update_own_guests_step:
  assumes "\<And>r. p r \<Longrightarrow> g_invitation_id r = i" "\<And>r. g_id (f r) = g_id r"
    "\<And>r. g_invitation_id (f r) = g_invitation_id r"
  shows "household_step i d (d\<lparr>db_guests := update_where p f (db_guests d)\<rparr>)" (is "household_step i d ?d'")
proof -
  have "filter (\<lambda>g. g_invitation_id g \<noteq> i) (update_where p f (db_guests d)) =
      filter (\<lambda>g. g_invitation_id g \<noteq> i) (db_guests d)"
    by (rule filter_update_where) (use assms in auto)
  moreover have "same_shape ?d' d" using assms(2,3) by (simp add: same_shape_def key_defs)
  ultimately show ?thesis using same_shape_wf by (auto simp: household_step_def frame_def)
qed

lemma rename_additional_step:
  assumes "rename_additional now i additional gid clientKey name st = Inr st'"
  shows "household_step i (st_db st) (st_db st')" "list_ex (\<lambda>g. guest_ID g = gid) additional"
    "db_responses (st_db st') = db_responses (st_db st)" "st_kept st' = st_kept st"
    "db_guests (st_db st') = update_where (additional_row gid i)
       (\<lambda>r. r\<lparr>g_name := name, g_updated_at := now\<rparr>) (db_guests (st_db st))"
proof -
  from assms have st': "st' = st\<lparr>st_db := (st_db st)\<lparr>db_guests := update_where (additional_row gid i)
      (\<lambda>r. r\<lparr>g_name := name, g_updated_at := now\<rparr>) (db_guests (st_db st))\<rparr>\<rparr>"
    and own: "list_ex (\<lambda>g. guest_ID g = gid) additional"
    by (simp_all add: rename_additional_def split: if_splits)
  have "household_step i (st_db st) ((st_db st)\<lparr>db_guests := update_where (additional_row gid i)
      (\<lambda>r. r\<lparr>g_name := name, g_updated_at := now\<rparr>) (db_guests (st_db st))\<rparr>)"
    by (rule update_own_guests_step) (simp_all add: additional_row_def)
  then show "household_step i (st_db st) (st_db st')" by (simp add: st')
  show "list_ex (\<lambda>g. guest_ID g = gid) additional" by (rule own)
  show "db_responses (st_db st') = db_responses (st_db st)" "st_kept st' = st_kept st"
    "db_guests (st_db st') = update_where (additional_row gid i)
       (\<lambda>r. r\<lparr>g_name := name, g_updated_at := now\<rparr>) (db_guests (st_db st))"
    by (simp_all add: st')
qed

text \<open>
  The invariant of the loop over the additional guests: the active additional guests of the
  household are among those there before and those kept so far.
\<close>

definition additional_inv :: "id \<Rightarrow> db \<Rightarrow> Guest list \<Rightarrow> nat \<Rightarrow> submit_state \<Rightarrow> bool" where
  "additional_inv i d additional k st \<longleftrightarrow>
    household_step i d (st_db st) \<and> db_responses (st_db st) = db_responses d \<and>
    length (st_kept st) = k \<and>
    (\<forall>g \<in> set (db_guests (st_db st)). active_guest i g \<and> g_origin g = ''additional'' \<longrightarrow>
       g_id g \<in> guest_ID ` set additional \<union> set (st_kept st))"

lemma apply_additional_E:
  assumes "apply_additional now uuid i r assigned additional k st input = Inr st'"
  obtains st1 gid d' where
    "create_additional now i assigned additional gid k (trim_space (agi_ClientKey input)) (trim_space (agi_Name input)) st = Inr st1 \<or>
     rename_additional now i additional gid (trim_space (agi_ClientKey input)) (trim_space (agi_Name input)) st = Inr st1"
    "updateGuestAttendance r gid (agi_Attendance input) now (st_db st1) = Inr d'"
    "st' = st1\<lparr>st_db := d', st_kept := gid # st_kept st1\<rparr>"
proof (cases "agi_ID input = []")
  case True
  with assms obtain st1 d' where
    "create_additional now i assigned additional (uuid k) k (trim_space (agi_ClientKey input)) (trim_space (agi_Name input)) st = Inr st1"
    "updateGuestAttendance r (uuid k) (agi_Attendance input) now (st_db st1) = Inr d'"
    "st' = st1\<lparr>st_db := d', st_kept := uuid k # st_kept st1\<rparr>"
    by (auto simp: apply_additional_def Let_def split: if_splits)
  then show thesis using that by blast
next
  case False
  with assms obtain st1 d' where
    "rename_additional now i additional (agi_ID input) (trim_space (agi_ClientKey input)) (trim_space (agi_Name input)) st = Inr st1"
    "updateGuestAttendance r (agi_ID input) (agi_Attendance input) now (st_db st1) = Inr d'"
    "st' = st1\<lparr>st_db := d', st_kept := agi_ID input # st_kept st1\<rparr>"
    by (auto simp: apply_additional_def Let_def split: if_splits)
  then show thesis using that by blast
qed

lemma additional_inv_step:
  assumes "additional_inv i d additional k st" "\<forall>g \<in> set additional. guest_ID g \<notin> foreign_ids i d"
    and "apply_additional now uuid i r assigned additional k' st input = Inr st'"
  shows "additional_inv i d additional (Suc k) st'"
proof -
  note ok = assms(1) [unfolded additional_inv_def]
  from assms(3) obtain st1 gid d' where
    branch: "create_additional now i assigned additional gid k' (trim_space (agi_ClientKey input)) (trim_space (agi_Name input)) st = Inr st1 \<or>
     rename_additional now i additional gid (trim_space (agi_ClientKey input)) (trim_space (agi_Name input)) st = Inr st1"
    and att: "updateGuestAttendance r gid (agi_Attendance input) now (st_db st1) = Inr d'"
    and st': "st' = st1\<lparr>st_db := d', st_kept := gid # st_kept st1\<rparr>"
    by (rule apply_additional_E)
  have st1: "household_step i (st_db st) (st_db st1)" "gid \<notin> foreign_ids i (st_db st1)"
    "db_responses (st_db st1) = db_responses (st_db st)" "st_kept st1 = st_kept st"
    "\<forall>g \<in> set (db_guests (st_db st1)). active_guest i g \<and> g_origin g = ''additional'' \<longrightarrow>
       g_id g \<in> guest_ID ` set additional \<union> set (gid # st_kept st)"
  proof -
    have "household_step i (st_db st) (st_db st1) \<and> gid \<notin> foreign_ids i (st_db st1) \<and>
      db_responses (st_db st1) = db_responses (st_db st) \<and> st_kept st1 = st_kept st \<and>
      (\<forall>g \<in> set (db_guests (st_db st1)). active_guest i g \<and> g_origin g = ''additional'' \<longrightarrow>
        g_id g \<in> guest_ID ` set additional \<union> set (gid # st_kept st))"
      using branch
    proof
      assume "create_additional now i assigned additional gid k' (trim_space (agi_ClientKey input)) (trim_space (agi_Name input)) st = Inr st1"
      from create_additional_step [OF this] show ?thesis using ok by (auto simp: additional_values_def)
    next
      assume "rename_additional now i additional gid (trim_space (agi_ClientKey input)) (trim_space (agi_Name input)) st = Inr st1"
      note ren = rename_additional_step [OF this]
      have "gid \<notin> foreign_ids i d" using ren(2) assms(2) by (auto simp: list_ex_iff)
      then have "gid \<notin> foreign_ids i (st_db st1)"
        using ok ren(1) household_step_foreign by metis
      then show ?thesis using ok ren by (auto simp: set_update_where active_guest_def split: if_splits)
    qed
    then show "household_step i (st_db st) (st_db st1)" "gid \<notin> foreign_ids i (st_db st1)"
      "db_responses (st_db st1) = db_responses (st_db st)" "st_kept st1 = st_kept st"
      "\<forall>g \<in> set (db_guests (st_db st1)). active_guest i g \<and> g_origin g = ''additional'' \<longrightarrow>
       g_id g \<in> guest_ID ` set additional \<union> set (gid # st_kept st)"
      by blast+
  qed
  note att' = attendance_step [OF att st1(2)]
  have "household_step i d d'" using ok st1(1) att'(1) household_step_trans by metis
  then show ?thesis using ok st1 att' by (simp add: additional_inv_def st')
qed

lemma remove_additional_step:
  "household_step i d (remove_additional now i kept additional d)"
proof -
  have "household_step i d (d\<lparr>db_guests := fold (\<lambda>g rows. if guest_ID g \<in> set kept then rows
         else update_where (additional_row (guest_ID g) i)
                (\<lambda>r. r\<lparr>g_removed_at := Some now, g_updated_at := now\<rparr>) rows) gs (db_guests d)\<rparr>)" for gs
  proof (induction gs arbitrary: d)
    case Nil
    then show ?case by (simp add: household_step_refl)
  next
    case (Cons g gs)
    let ?d1 = "d\<lparr>db_guests := if guest_ID g \<in> set kept then db_guests d
         else update_where (additional_row (guest_ID g) i)
                (\<lambda>r. r\<lparr>g_removed_at := Some now, g_updated_at := now\<rparr>) (db_guests d)\<rparr>"
    have "household_step i d ?d1"
      by (cases "guest_ID g \<in> set kept")
        (auto simp: household_step_refl additional_row_def intro!: update_own_guests_step)
    from household_step_trans [OF this Cons.IH [of ?d1]] show ?case by simp
  qed
  then show ?thesis by (simp add: remove_additional_def)
qed

lemma remove_additional_responses [simp]:
  "db_responses (remove_additional now i kept additional d) = db_responses d"
  by (simp add: remove_additional_def)

text \<open>After the removals, an active additional guest of the household is one that was kept.\<close>

lemma removed_rows:
  assumes "g \<in> set (fold (\<lambda>g rows. if guest_ID g \<in> set kept then rows
         else update_where (additional_row (guest_ID g) i)
                (\<lambda>r. r\<lparr>g_removed_at := Some now, g_updated_at := now\<rparr>) rows) gs rows)"
    and "active_guest i g" "g_origin g = ''additional''"
  shows "g_id g \<in> set kept \<or> g_id g \<notin> guest_ID ` set gs"
    and "g \<in> set rows"
proof -
  have "(g_id g \<in> set kept \<or> g_id g \<notin> guest_ID ` set gs) \<and> g \<in> set rows" using assms(1)
  proof (induction gs arbitrary: rows)
    case Nil
    then show ?case by simp
  next
    case (Cons x gs)
    show ?case
    proof (cases "guest_ID x \<in> set kept")
      case True
      then have "g \<in> set (fold (\<lambda>g rows. if guest_ID g \<in> set kept then rows
         else update_where (additional_row (guest_ID g) i)
                (\<lambda>r. r\<lparr>g_removed_at := Some now, g_updated_at := now\<rparr>) rows) gs rows)"
        using Cons.prems by simp
      from Cons.IH [OF this] True show ?thesis by auto
    next
      case False
      let ?rows = "update_where (additional_row (guest_ID x) i)
                (\<lambda>r. r\<lparr>g_removed_at := Some now, g_updated_at := now\<rparr>) rows"
      have ih: "g_id g \<in> set kept \<or> g_id g \<notin> guest_ID ` set gs" "g \<in> set ?rows"
        using Cons.IH [of ?rows] Cons.prems False by auto
      from ih(2) obtain r where r: "r \<in> set rows"
        "g = (if additional_row (guest_ID x) i r then r\<lparr>g_removed_at := Some now, g_updated_at := now\<rparr> else r)"
        by (auto simp: set_update_where)
      have "\<not> additional_row (guest_ID x) i r" using r(2) assms(2) by (auto simp: active_guest_def)
      then have g: "g = r" "g_id g \<noteq> guest_ID x"
        using r(2) assms(2,3) by (auto simp: additional_row_def active_guest_def)
      then show ?thesis using ih(1) r(1) by auto
    qed
  qed
  then show "g_id g \<in> set kept \<or> g_id g \<notin> guest_ID ` set gs" and "g \<in> set rows" by auto
qed

section \<open>Replacing answers\<close>

text \<open>A loop of saves appends a row per answer and touches nothing else.\<close>

definition answer_row :: "time \<Rightarrow> id \<Rightarrow> id \<times> string \<Rightarrow> invitation_answer_row" where
  "answer_row now i qa = \<lparr> ia_invitation_id = i, ia_question_id = fst qa, ia_answer = snd qa, ia_created_at = now \<rparr>"

definition guest_answer_row :: "time \<Rightarrow> id \<Rightarrow> id \<times> string \<Rightarrow> guest_answer_row" where
  "guest_answer_row now gid qa =
    \<lparr> gar_guest_id = gid, gar_question_id = fst qa, gar_answer = snd qa, gar_created_at = now \<rparr>"

lemma answer_row_simps [simp]:
  "ia_invitation_id (answer_row now i qa) = i" "ia_question_id (answer_row now i qa) = fst qa"
  "ia_answer (answer_row now i qa) = snd qa"
  "gar_guest_id (guest_answer_row now gid qa) = gid" "gar_question_id (guest_answer_row now gid qa) = fst qa"
  "gar_answer (guest_answer_row now gid qa) = snd qa"
  by (simp_all add: answer_row_def guest_answer_row_def)

lemma save_invitation_answers:
  assumes "loop (save_invitation_answer now i) d qas = Inr d'"
  shows "d' = d\<lparr>db_invitation_answers := db_invitation_answers d @ map (answer_row now i) qas\<rparr>"
  using assms
proof (induction qas arbitrary: d)
  case Nil
  then show ?case by simp
next
  case (Cons qa qas)
  then obtain d1 where ins: "insert_invitation_answer (answer_row now i qa) d = Some d1"
    and rest: "loop (save_invitation_answer now i) d1 qas = Inr d'"
    by (auto simp: save_invitation_answer_def [of now i d] answer_row_def)
  show ?case using Cons.IH [OF rest] insert_invitation_answer_D(1) [OF ins] by (simp add: add_row_def)
qed

lemma save_guest_answers:
  assumes "loop (save_guest_answer now gid) d qas = Inr d'"
  shows "d' = d\<lparr>db_guest_answers := db_guest_answers d @ map (guest_answer_row now gid) qas\<rparr>"
  using assms
proof (induction qas arbitrary: d)
  case Nil
  then show ?case by simp
next
  case (Cons qa qas)
  then obtain d1 where ins: "insert_guest_answer (guest_answer_row now gid qa) d = Some d1"
    and rest: "loop (save_guest_answer now gid) d1 qas = Inr d'"
    by (auto simp: save_guest_answer_def [of now gid d] guest_answer_row_def)
  show ?case using Cons.IH [OF rest] insert_guest_answer_D(1) [OF ins] by (simp add: add_row_def)
qed

lemma save_all_guest_answers:
  assumes "loop (\<lambda>d (gid, answers). if \<not> list_ex (\<lambda>g. guest_ID g = gid) guests
        then Inl (Validation ''guest answer does not belong to this invitation'')
        else loop (save_guest_answer now gid) d answers) d gas = Inr d'"
  shows "d' = d\<lparr>db_guest_answers := db_guest_answers d @
      concat (map (\<lambda>(gid, answers). map (guest_answer_row now gid) answers) gas)\<rparr>"
    and "fst ` set gas \<subseteq> guest_ID ` set guests"
  using assms
proof (induction gas arbitrary: d)
  case Nil
  {
    case 1
    then show ?case by simp
  next
    case 2
    then show ?case by simp
  }
next
  case (Cons ga gas)
  obtain gid answers where ga: "ga = (gid, answers)" by (cases ga)
  {
    case 1
    then obtain d1 where first: "loop (save_guest_answer now gid) d answers = Inr d1"
      and rest: "loop (\<lambda>d (gid, answers). if \<not> list_ex (\<lambda>g. guest_ID g = gid) guests
        then Inl (Validation ''guest answer does not belong to this invitation'')
        else loop (save_guest_answer now gid) d answers) d1 gas = Inr d'"
      by (auto simp: ga split: if_splits)
    show ?case using Cons.IH(1) [OF rest] save_guest_answers [OF first] by (simp add: ga)
  next
    case 2
    then obtain d1 where "list_ex (\<lambda>g. guest_ID g = gid) guests"
      and rest: "loop (\<lambda>d (gid, answers). if \<not> list_ex (\<lambda>g. guest_ID g = gid) guests
        then Inl (Validation ''guest answer does not belong to this invitation'')
        else loop (save_guest_answer now gid) d answers) d1 gas = Inr d'"
      by (auto simp: ga split: if_splits)
    then show ?case using Cons.IH(2) [OF rest] by (auto simp: ga list_ex_iff)
  }
qed

lemma fold_delete_guest_answers:
  "fold (\<lambda>guest. delete_where (\<lambda>r. gar_guest_id r = guest_ID guest)) guests rows =
    filter (\<lambda>r. gar_guest_id r \<notin> guest_ID ` set guests) rows"
  by (induction guests arbitrary: rows) (auto simp: delete_where_def conj_commute intro: filter_cong)

text \<open>The answers of the household and of its active guests become exactly the submitted ones.\<close>

lemma replaceAnswers_effect:
  assumes "replaceAnswers i guests ias gas now d = Inr d'"
  shows "d' = d\<lparr>
      db_invitation_answers := filter (\<lambda>r. ia_invitation_id r \<noteq> i) (db_invitation_answers d) @ map (answer_row now i) ias,
      db_guest_answers := filter (\<lambda>r. gar_guest_id r \<notin> guest_ID ` set guests) (db_guest_answers d) @
        concat (map (\<lambda>(gid, answers). map (guest_answer_row now gid) answers) gas)\<rparr>"
    and "fst ` set gas \<subseteq> guest_ID ` set guests"
proof -
  obtain d1 where d1: "loop (save_invitation_answer now i) (d\<lparr>db_invitation_answers :=
       delete_where (\<lambda>r. ia_invitation_id r = i) (db_invitation_answers d)\<rparr>) ias = Inr d1"
    and d': "loop (\<lambda>d (gid, answers). if \<not> list_ex (\<lambda>g. guest_ID g = gid) guests
        then Inl (Validation ''guest answer does not belong to this invitation'')
        else loop (save_guest_answer now gid) d answers)
      (d1\<lparr>db_guest_answers := fold (\<lambda>guest. delete_where (\<lambda>r. gar_guest_id r = guest_ID guest))
         guests (db_guest_answers d1)\<rparr>) gas = Inr d'"
    using assms by (auto simp: replaceAnswers_def Let_def)
  show "fst ` set gas \<subseteq> guest_ID ` set guests" by (rule save_all_guest_answers(2) [OF d'])
  show "d' = d\<lparr>
      db_invitation_answers := filter (\<lambda>r. ia_invitation_id r \<noteq> i) (db_invitation_answers d) @ map (answer_row now i) ias,
      db_guest_answers := filter (\<lambda>r. gar_guest_id r \<notin> guest_ID ` set guests) (db_guest_answers d) @
        concat (map (\<lambda>(gid, answers). map (guest_answer_row now gid) answers) gas)\<rparr>"
    using save_all_guest_answers(1) [OF d'] save_invitation_answers [OF d1]
    by (simp add: fold_delete_guest_answers delete_where_def)
qed

lemma replaceAnswers_step:
  assumes "replaceAnswers i guests ias gas now d = Inr d'"
    and "\<forall>g \<in> set guests. guest_ID g \<notin> foreign_ids i d"
  shows "household_step i d d'"
proof -
  note d' = replaceAnswers_effect [OF assms(1)]
  let ?rows = "concat (map (\<lambda>(gid, answers). map (guest_answer_row now gid) answers) gas)"
  have own: "gar_guest_id r \<in> guest_ID ` set guests" if "r \<in> set ?rows" for r
    using d'(2) that by force
  have "filter (\<lambda>r. gar_guest_id r \<in> foreign_ids i d) (db_guest_answers d') =
      filter (\<lambda>r. gar_guest_id r \<in> foreign_ids i d) (db_guest_answers d)"
  proof -
    have "filter (\<lambda>r. gar_guest_id r \<in> foreign_ids i d) ?rows = []"
      using own assms(2) unfolding filter_empty_conv by (metis imageE)
    moreover have "filter (\<lambda>r. gar_guest_id r \<in> foreign_ids i d)
        (filter (\<lambda>r. gar_guest_id r \<notin> guest_ID ` set guests) (db_guest_answers d)) =
      filter (\<lambda>r. gar_guest_id r \<in> foreign_ids i d) (db_guest_answers d)"
      using assms(2) by (auto intro!: filter_cong)
    ultimately show ?thesis by (simp add: d'(1))
  qed
  moreover have "filter (\<lambda>r. ia_invitation_id r \<noteq> i) (db_invitation_answers d') =
      filter (\<lambda>r. ia_invitation_id r \<noteq> i) (db_invitation_answers d)"
    by (simp add: d'(1) filter_empty_conv)
  moreover have "same_shape d' d" by (simp add: d'(1) same_shape_def)
  moreover have "d' = d\<lparr>db_responses := db_responses d', db_guests := db_guests d',
      db_guest_responses := db_guest_responses d', db_invitation_answers := db_invitation_answers d',
      db_guest_answers := db_guest_answers d'\<rparr>" "db_responses d' = db_responses d"
    "db_guests d' = db_guests d" "db_guest_responses d' = db_guest_responses d"
    by (simp_all add: d'(1))
  ultimately have "frame i (foreign_ids i d) d d'"
    unfolding frame_def by (intro conjI) (assumption | simp only:)+
  then show ?thesis using same_shape_wf \<open>same_shape d' d\<close> by (auto simp: household_step_def)
qed

section \<open>The submission as a whole\<close>

lemma active_guests_own:
  assumes "keys_unique d" "g \<in> set (loadActiveGuestsTx i d)"
  shows "guest_ID g \<notin> foreign_ids i d"
proof -
  obtain r where "r \<in> set (db_guests d)" "active_guest i r" "g = scanGuest d r"
    using assms(2) by (auto simp: loadActiveGuestsTx_def)
  then show ?thesis using own_not_foreign [OF assms(1)] by (simp add: scanGuest_def active_guest_def)
qed

lemma active_additional_listed:
  assumes "g \<in> set (db_guests d)" "active_guest i g" "g_origin g = ''additional''"
  shows "g_id g \<in> guest_ID ` set (filter (\<lambda>g. guest_Origin g \<noteq> GuestOriginAssigned) (loadActiveGuestsTx i d))"
proof (rule image_eqI)
  show "g_id g = guest_ID (scanGuest d g)" by (simp add: scanGuest_def)
  show "scanGuest d g \<in> set (filter (\<lambda>g. guest_Origin g \<noteq> GuestOriginAssigned) (loadActiveGuestsTx i d))"
    using assms by (simp add: loadActiveGuestsTx_def) (simp add: scanGuest_def GuestOriginAssigned_def)
qed

text \<open>
  One pass over the transaction: it is a step of its household, its only change to the
  responses is the version update, and the active additional guests are among those submitted.
\<close>

lemma submit_core:
  assumes "SubmitResponse rt now uuid i req d = Inr d'" "wf_db d"
  shows "household_step i d d' \<and>
    db_responses d' = update_where (at_version i (sr_Version req)) (advance_version now) (db_responses d) \<and>
    (\<exists>kept. length kept = length (sr_AdditionalGuests req) \<and>
      (\<forall>g \<in> set (db_guests d'). active_guest i g \<and> g_origin g = ''additional'' \<longrightarrow> g_id g \<in> set kept))"
  using assms(1)
proof (rule SubmitResponse_E)
  fix iv resp d0 d1 and st :: submit_state and questions
  let ?act = "loadActiveGuestsTx i d0"
  let ?asg = "filter (\<lambda>g. guest_Origin g = GuestOriginAssigned) ?act"
  let ?add = "filter (\<lambda>g. guest_Origin g \<noteq> GuestOriginAssigned) ?act"
  let ?dr = "remove_additional now i (st_kept st) ?add (st_db st)"
  assume d0: "d0 = d\<lparr>db_responses := update_where (at_version i (sr_Version req)) (advance_version now) (db_responses d)\<rparr>"
    and asg: "loop (apply_assigned now (resp_ID resp) ?asg) d0 (sr_AssignedGuests req) = Inr d1"
    and add: "iloop (apply_additional now uuid i (resp_ID resp) ?asg ?add) 0
       \<lparr> st_db = d1, st_kept = [], st_client_keys = [], st_guest_answers = sr_GuestAnswers req \<rparr>
       (sr_AdditionalGuests req) = Inr st"
    and rep: "replaceAnswers i (loadActiveGuestsTx i ?dr) (sr_InvitationAnswers req) (st_guest_answers st) now ?dr = Inr d'"
  have s0: "household_step i d d0" unfolding d0 by (rule version_step)
  then have "wf_db d0" using assms(2) by (simp add: household_step_def)
  then have own: "\<forall>g \<in> set ?act. guest_ID g \<notin> foreign_ids i d0"
    using active_guests_own by (auto simp: wf_db_def)
  have s1: "household_step i d0 d1" "db_guests d1 = db_guests d0" "db_responses d1 = db_responses d0"
    using assigned_step [OF asg] own by auto
  have own1: "\<forall>g \<in> set ?add. guest_ID g \<notin> foreign_ids i d1"
    using own household_step_foreign [OF s1(1)] by simp
  have "additional_inv i d1 ?add (0 + length (sr_AdditionalGuests req)) st"
  proof (rule iloop_indexed [OF add, of "additional_inv i d1 ?add"])
    show "additional_inv i d1 ?add 0 \<lparr> st_db = d1, st_kept = [], st_client_keys = [], st_guest_answers = sr_GuestAnswers req \<rparr>"
      using active_additional_listed [of _ d0 i]
      by (simp add: additional_inv_def household_step_refl s1(2))
  qed (use additional_inv_step [OF _ own1] in blast)
  note inv = this [unfolded additional_inv_def]
  have s2: "household_step i d ?dr"
    using s0 s1(1) inv remove_additional_step household_step_trans by meson
  then have "wf_db ?dr" using assms(2) by (simp add: household_step_def)
  then have s3: "household_step i ?dr d'"
    using replaceAnswers_step [OF rep] active_guests_own by (auto simp: wf_db_def)
  have guests: "db_guests d' = db_guests ?dr" and resps: "db_responses d' = db_responses ?dr"
    using replaceAnswers_effect(1) [OF rep] by simp_all
  have "g_id g \<in> set (st_kept st)"
    if "g \<in> set (db_guests d')" "active_guest i g" "g_origin g = ''additional''" for g
    using removed_rows [of g "st_kept st" i now ?add "db_guests (st_db st)"] that inv
    by (auto simp: guests remove_additional_def)
  then show "household_step i d d' \<and>
      db_responses d' = update_where (at_version i (sr_Version req)) (advance_version now) (db_responses d) \<and>
      (\<exists>kept. length kept = length (sr_AdditionalGuests req) \<and>
      (\<forall>g \<in> set (db_guests d'). active_guest i g \<and> g_origin g = ''additional'' \<longrightarrow> g_id g \<in> set kept))"
    using household_step_trans [OF s2 s3] inv resps s1(3) by (auto simp: d0)
qed

lemma household_step_tables:
  assumes "household_step i d d'"
  shows "db_invitations d' = db_invitations d" "db_questions d' = db_questions d"
proof -
  have eq: "d' = d\<lparr>db_responses := db_responses d', db_guests := db_guests d',
      db_guest_responses := db_guest_responses d', db_invitation_answers := db_invitation_answers d',
      db_guest_answers := db_guest_answers d'\<rparr>" using assms by (simp add: household_step_def frame_def)
  show "db_invitations d' = db_invitations d" using arg_cong [OF eq, of db_invitations] by simp
  show "db_questions d' = db_questions d" using arg_cong [OF eq, of db_questions] by simp
qed

section \<open>Validation of answers\<close>

lemma loop_checks:
  assumes "loop f () xs = Inr u" "x \<in> set xs"
  shows "f () x = Inr ()"
  using assms by (induction xs) auto

lemma scanQuestions_mem:
  assumes "scanQuestions rt msg rows = Inr qs" "r \<in> set rows"
  shows "\<exists>q \<in> set qs. scanQuestion rt msg r = Inr q"
proof -
  have "(\<forall>r \<in> set rows. \<exists>q \<in> set qs. scanQuestion rt msg r = Inr q) \<and> set acc \<subseteq> set qs"
    if "loop (\<lambda>acc r. rbind (scanQuestion rt msg r) (\<lambda>q. Inr (acc @ [q]))) acc rows = Inr qs" for acc
    using that
  proof (induction rows arbitrary: acc)
    case Nil
    then show ?case by simp
  next
    case (Cons r rows)
    then obtain q where "scanQuestion rt msg r = Inr q"
      "loop (\<lambda>acc r. rbind (scanQuestion rt msg r) (\<lambda>q. Inr (acc @ [q]))) (acc @ [q]) rows = Inr qs"
      by auto
    then show ?case using Cons.IH [of "acc @ [q]"] by auto
  qed
  then show ?thesis using assms by (auto simp: scanQuestions_def)
qed

lemma scanQuestion_fields:
  "scanQuestion rt msg r = Inr q \<Longrightarrow> q_ID q = qr_id r \<and> q_Scope q = qr_scope r \<and> q_Required q = qr_required r"
  by (auto simp: scanQuestion_def)

lemma map_get_mem: "map_get m k \<noteq> [] \<Longrightarrow> (k, map_get m k) \<in> set m"
  by (auto simp: map_get_def split: option.splits dest: map_of_SomeD)

lemma trim_not_Nil: "trim_space s \<noteq> [] \<Longrightarrow> s \<noteq> []"
  by auto

lemma validate_required:
  assumes "validateResponseAnswers rt questions guests ias gas = Inr ()" "q \<in> set questions" "q_Required q"
  shows "q_Scope q = ''invitation'' \<Longrightarrow> \<exists>a. (q_ID q, a) \<in> set ias \<and> trim_space a \<noteq> []"
    and "q_Scope q = ''guest'' \<Longrightarrow> g \<in> set guests \<Longrightarrow> guest_Attendance g = ''attending'' \<Longrightarrow>
      \<exists>as a. (guest_ID g, as) \<in> set gas \<and> (q_ID q, a) \<in> set as \<and> trim_space a \<noteq> []"
proof -
  from assms(1) have loops: "loop (require_invitation_answer ias) () questions = Inr ()"
    "loop (require_guest_answers questions gas) () guests = Inr ()"
    by (auto simp: validateResponseAnswers_def)
  show "\<exists>a. (q_ID q, a) \<in> set ias \<and> trim_space a \<noteq> []" if "q_Scope q = ''invitation''"
  proof -
    have "trim_space (map_get ias (q_ID q)) \<noteq> []"
      using loop_checks [OF loops(1) assms(2)] that assms(3)
      by (simp add: require_invitation_answer_def QuestionScopeInvitation_def)
    then show ?thesis using map_get_mem [OF trim_not_Nil, of ias "q_ID q"] by blast
  qed
  show "\<exists>as a. (guest_ID g, as) \<in> set gas \<and> (q_ID q, a) \<in> set as \<and> trim_space a \<noteq> []"
    if "q_Scope q = ''guest''" "g \<in> set guests" "guest_Attendance g = ''attending''"
  proof -
    let ?as = "map_get gas (guest_ID g)"
    have "loop (\<lambda>u q. guard (\<not> (q_Scope q = QuestionScopeGuest \<and> q_Required q \<and>
                trim_space (map_get ?as (q_ID q)) = []))
              (Validation (''answer required for '' @ guest_Name g @ '': '' @ q_Label q))) () questions = Inr ()"
      using loop_checks [OF loops(2) that(2)] that(3)
      by (simp add: require_guest_answers_def AttendanceAttending_def)
    then have nonempty: "trim_space (map_get ?as (q_ID q)) \<noteq> []"
      using loop_checks [OF _ assms(2)] that(1) assms(3) by (fastforce simp: QuestionScopeGuest_def)
    then have mem: "(q_ID q, map_get ?as (q_ID q)) \<in> set ?as" by (rule map_get_mem [OF trim_not_Nil])
    moreover have "(guest_ID g, ?as) \<in> set gas" using mem by (intro map_get_mem) auto
    ultimately show ?thesis using nonempty by blast
  qed
qed

section \<open>Properties\<close>

text \<open>
  C1: no lost update. A successful submission moves the household's response from the version
  it was based on to the next one and keeps the time of the first submission, and any other
  submission based on the same version is then refused with a conflict (or, before that,
  because it exceeds the allowance): of two edits of one version at most one is stored.
\<close>

theorem submit_no_lost_update:
  assumes "wf_db d" "SubmitResponse rt now uuid i req d = Inr d1" "sr_Version req2 = sr_Version req"
  shows "(\<exists>r \<in> set (db_responses d). at_version i (sr_Version req) r \<and> advance_version now r \<in> set (db_responses d1)) \<and>
    (\<forall>r \<in> set (db_responses d1). resp_InvitationID r = i \<longrightarrow> resp_Version r = sr_Version req + 1) \<and>
    (SubmitResponse rt2 now2 uuid2 i req2 d1 = Inl ErrConflict \<or>
     SubmitResponse rt2 now2 uuid2 i req2 d1 = Inl ErrAllowance)"
proof -
  note core = submit_core [OF assms(2,1)]
  let ?v = "sr_Version req"
  from assms(2) obtain iv where lock: "affected (unlocked i) (db_invitations d) = 1"
    and iv: "select_row (\<lambda>r. inv_ID r = i) (db_invitations d) = Some iv"
    and one: "affected (at_version i ?v) (db_responses d) = 1"
    by (rule SubmitResponse_E)
  from affected_one_ex [OF one] obtain r where r: "r \<in> set (db_responses d)" "at_version i ?v r" by blast
  have resps: "db_responses d1 = update_where (at_version i ?v) (advance_version now) (db_responses d)"
    and invs: "db_invitations d1 = db_invitations d"
    using core household_step_tables by auto
  have "advance_version now r \<in> set (db_responses d1)" using r by (auto simp: resps set_update_where)
  moreover have later: "resp_Version x = ?v + 1" if "x \<in> set (db_responses d1)" "resp_InvitationID x = i" for x
  proof -
    obtain y where y: "y \<in> set (db_responses d)" "x = (if at_version i ?v y then advance_version now y else y)"
      using \<open>x \<in> set (db_responses d1)\<close> by (auto simp: resps set_update_where)
    then have "resp_InvitationID y = i" using that(2) by (auto split: if_splits)
    then have "y = r" using unique_row [of resp_InvitationID "db_responses d" y r] y(1) r assms(1)
      by (auto simp: wf_db_def keys_unique_def at_version_def)
    then show ?thesis using y(2) r(2) by (simp add: at_version_def)
  qed
  moreover have "affected (at_version i ?v) (db_responses d1) = 0"
    using later by (fastforce simp: affected_zero_iff at_version_def)
  ultimately show ?thesis
    using r lock iv invs assms(3) by (auto simp: SubmitResponse_def)
qed

text \<open>
  C8: the allowance holds. After a successful submission the household has at most as many
  active additional guests as its invitation allows.
\<close>

theorem submit_respects_allowance:
  assumes "wf_db d" "SubmitResponse rt now uuid i req d = Inr d'"
  shows "\<exists>iv \<in> set (db_invitations d'). inv_ID iv = i \<and>
    int (length (filter (\<lambda>g. active_guest i g \<and> g_origin g = ''additional'') (db_guests d')))
      \<le> inv_AdditionalGuestAllowance iv"
proof -
  note core = submit_core [OF assms(2,1)]
  from assms(2) obtain iv where iv: "select_row (\<lambda>r. inv_ID r = i) (db_invitations d) = Some iv"
    and len: "int (length (sr_AdditionalGuests req)) \<le> inv_AdditionalGuestAllowance iv"
    by (rule SubmitResponse_E)
  let ?rows = "filter (\<lambda>g. active_guest i g \<and> g_origin g = ''additional'') (db_guests d')"
  obtain kept where kept: "length kept = length (sr_AdditionalGuests req)" "g_id ` set ?rows \<subseteq> set kept"
    using core by auto
  have "household_step i d d'" using core by blast
  then have "wf_db d'" using assms(1) by (simp add: household_step_def)
  then have "distinct (map g_id (db_guests d'))" by (simp add: wf_db_def keys_unique_def)
  then have "distinct (map g_id ?rows)" by (rule distinct_map_filter_key)
  then have "length ?rows = card (g_id ` set ?rows)"
    using distinct_card [of "map g_id ?rows"] by simp
  also have "\<dots> \<le> length kept" using card_mono [OF _ kept(2)] card_length [of kept] by simp
  finally have "int (length ?rows) \<le> inv_AdditionalGuestAllowance iv" using kept(1) len by linarith
  moreover have "iv \<in> set (db_invitations d')" "inv_ID iv = i"
    using select_row_SomeD [OF iv] core household_step_tables by auto
  ultimately show ?thesis by blast
qed

text \<open>
  C7: households are isolated. A successful submission keeps the schema invariant and leaves
  the invitations, sessions, tokens and every other table alone, and in the tables it writes,
  the rows of every other household (responses, guests, attendances and answers) unchanged.
\<close>

theorem submit_isolates_households:
  assumes "wf_db d" "SubmitResponse rt now uuid i req d = Inr d'"
  shows "wf_db d' \<and> frame i (foreign_ids i d) d d'"
  using submit_core [OF assms(2,1)] assms(1) by (simp add: household_step_def)

text \<open>
  Required questions are answered. After a successful submission every required, not
  deleted question of the invitation's event has a stored answer that is not blank: one of the
  household for a question of invitation scope, and one of every active guest whose stored
  attendance is attending for a question of guest scope.
\<close>

theorem submit_answers_required_questions:
  assumes "wf_db d" "SubmitResponse rt now uuid i req d = Inr d'"
    and "iv \<in> set (db_invitations d)" "inv_ID iv = i"
    and "q \<in> set (db_questions d)" "qr_event_id q = inv_EventID iv" "\<not> qr_deleted q" "qr_required q"
  shows "(qr_scope q = ''invitation'' \<longrightarrow> (\<exists>r \<in> set (db_invitation_answers d').
      ia_invitation_id r = i \<and> ia_question_id r = qr_id q \<and> trim_space (ia_answer r) \<noteq> [])) \<and>
    (qr_scope q = ''guest'' \<longrightarrow> (\<forall>g \<in> set (db_guests d').
      active_guest i g \<and> attendance_of d' (g_id g) = ''attending'' \<longrightarrow>
      (\<exists>r \<in> set (db_guest_answers d'). gar_guest_id r = g_id g \<and> gar_question_id r = qr_id q \<and>
         trim_space (gar_answer r) \<noteq> [])))"
  using assms(2)
proof (rule SubmitResponse_E)
  fix iv' d0 and st :: submit_state and questions
  let ?add = "filter (\<lambda>g. guest_Origin g \<noteq> GuestOriginAssigned) (loadActiveGuestsTx i d0)"
  let ?dr = "remove_additional now i (st_kept st) ?add (st_db st)"
  assume iv': "select_row (\<lambda>r. inv_ID r = i) (db_invitations d) = Some iv'"
    and qs: "loadQuestionsTx rt (inv_EventID iv') ?dr = Inr questions"
    and val: "validateResponseAnswers rt questions (loadActiveGuestsTx i ?dr) (sr_InvitationAnswers req)
       (st_guest_answers st) = Inr ()"
    and rep: "replaceAnswers i (loadActiveGuestsTx i ?dr) (sr_InvitationAnswers req) (st_guest_answers st) now ?dr = Inr d'"
  have "iv' = iv" using select_row_SomeD [OF iv'] assms(1,3,4) unique_row [of inv_ID "db_invitations d" iv' iv]
    by (auto simp: wf_db_def keys_unique_def)
  have step: "household_step i d d'" using submit_core [OF assms(2,1)] by blast
  note d' = replaceAnswers_effect [OF rep]
  have "db_questions ?dr = db_questions d"
    using arg_cong [OF d'(1), of db_questions] household_step_tables(2) [OF step] by simp
  then have "q \<in> set (filter (\<lambda>r. qr_event_id r = inv_EventID iv' \<and> \<not> qr_deleted r) (db_questions ?dr))"
    unfolding \<open>iv' = iv\<close> using assms(5-7) by simp
  from scanQuestions_mem [OF qs [unfolded loadQuestionsTx_def] this] obtain q' where
    mem: "q' \<in> set questions" and scan: "scanQuestion rt ''parse response question options'' q = Inr q'" by blast
  then have q': "q' \<in> set questions" "q_ID q' = qr_id q" "q_Scope q' = qr_scope q" "q_Required q'"
    using scanQuestion_fields [OF scan] assms(8) by simp_all
  note req = validate_required [OF val q'(1,4), unfolded q'(2,3)]
  show ?thesis
  proof (intro conjI impI ballI)
    assume "qr_scope q = ''invitation''"
    from req(1) [OF this] obtain a where "(qr_id q, a) \<in> set (sr_InvitationAnswers req)" "trim_space a \<noteq> []" by blast
    then show "\<exists>r \<in> set (db_invitation_answers d').
      ia_invitation_id r = i \<and> ia_question_id r = qr_id q \<and> trim_space (ia_answer r) \<noteq> []"
      by (intro bexI [of _ "answer_row now i (qr_id q, a)"]) (auto simp: d'(1))
  next
    fix g assume scope: "qr_scope q = ''guest''" and g: "g \<in> set (db_guests d')"
      and act: "active_guest i g \<and> attendance_of d' (g_id g) = ''attending''"
    have "scanGuest ?dr g \<in> set (loadActiveGuestsTx i ?dr)" using g act by (simp add: d'(1) loadActiveGuestsTx_def)
    moreover have "guest_Attendance (scanGuest ?dr g) = ''attending''" "guest_ID (scanGuest ?dr g) = g_id g"
      using act by (simp_all add: d'(1) scanGuest_def attendance_of_def)
    ultimately obtain as a where "(g_id g, as) \<in> set (st_guest_answers st)" "(qr_id q, a) \<in> set as" "trim_space a \<noteq> []"
      using req(2) [OF scope] by metis
    then show "\<exists>r \<in> set (db_guest_answers d'). gar_guest_id r = g_id g \<and> gar_question_id r = qr_id q \<and>
         trim_space (gar_answer r) \<noteq> []"
      by (intro bexI [of _ "guest_answer_row now (g_id g) (qr_id q, a)"]) (force simp: d'(1))+
  qed
qed

end
