(* ===== verification/Invitation_Recovery.thy ===== *)
theory Invitation_Recovery
  imports Invitation_Store
begin

text \<open>
  Recovery of a lost invitation (\<open>internal/invitation/recovery_store.go\<close>): the hourly budgets
  on recovery attempts, the search by contact, and recovery tokens, which are consumed by the
  transaction that opens the session.
\<close>

section \<open>Recovery budgets\<close>

text \<open>\<open>database.DB.Dialect\<close>: the two engines, and any other text.\<close>

definition supported_dialect :: "string \<Rightarrow> bool" where
  "supported_dialect dialect \<longleftrightarrow> dialect \<in> set [''postgres'', ''sqlite'']"

definition attempts_since :: "(recovery_attempt_row \<Rightarrow> bool) \<Rightarrow> time \<Rightarrow> db \<Rightarrow> nat" where
  "attempts_since p cutoff d =
    affected (\<lambda>r. p r \<and> stamp_less cutoff (ra_created_at r)) (db_recovery_attempts d)"

text \<open>
  The two clock readings of \<open>AllowRecovery\<close> are \<open>now1\<close> (for the cutoff, one hour before) and \<open>now2\<close>
  (for the recorded attempt). The result is the new database and the verdict.
\<close>

definition AllowRecovery ::
  "string \<Rightarrow> time \<Rightarrow> time \<Rightarrow> id \<Rightarrow> string \<Rightarrow> string \<Rightarrow> db \<Rightarrow> (db \<times> bool) result" where
  "AllowRecovery dialect now1 now2 eventID sourceFingerprint destinationFingerprint d =
    (if \<not> supported_dialect dialect then Inl (Internal ''lock recovery budget'')
     else let cutoff = now1 - hour in
       if attempts_since (\<lambda>r. ra_source_fingerprint r = sourceFingerprint) cutoff d \<ge> 5 \<or>
          attempts_since (\<lambda>r. ra_destination_fingerprint r = destinationFingerprint) cutoff d \<ge> 3 \<or>
          attempts_since (\<lambda>r. ra_event_id r = eventID) cutoff d \<ge> 30
       then Inr (d, False)
       else rbind (or_err (insert_recovery_attempt \<lparr> ra_event_id = eventID,
                     ra_source_fingerprint = sourceFingerprint,
                     ra_destination_fingerprint = destinationFingerprint, ra_created_at = now2 \<rparr> d)
                   (Internal ''record recovery attempt''))
              (\<lambda>d. Inr (d, True)))"

section \<open>Finding invitations by contact\<close>

definition recovery_match :: "id \<Rightarrow> string \<Rightarrow> invitation_row \<Rightarrow> bool" where
  "recovery_match eventID normalizedContact r \<longleftrightarrow>
    inv_EventID r = eventID \<and> inv_RevokedAt r = None \<and>
    (inv_normalized_email r = Some normalizedContact \<or> inv_normalized_phone r = Some normalizedContact)"

definition FindRecoveryMatches :: "id \<Rightarrow> string \<Rightarrow> db \<Rightarrow> Invitation list" where
  "FindRecoveryMatches eventID normalizedContact d =
    map scanInvitation (order_by by_created
      (filter (recovery_match eventID normalizedContact) (db_invitations d)))"

section \<open>Recovery tokens\<close>

definition CreateRecoveryToken :: "time \<Rightarrow> id \<Rightarrow> string \<Rightarrow> string \<Rightarrow> time \<Rightarrow> db \<Rightarrow> db result" where
  "CreateRecoveryToken now invitationID tokenHash destination expiresAt d =
    or_err (insert_recovery_token \<lparr> rk_invitation_id = invitationID, rk_token_hash = tokenHash,
        rk_destination = destination, rk_expires_at = expiresAt, rk_consumed_at = None,
        rk_created_at = now \<rparr> d)
      (Internal ''create recovery token'')"

definition live_token :: "time \<Rightarrow> string \<Rightarrow> recovery_token_row \<Rightarrow> bool" where
  "live_token now tokenHash r \<longleftrightarrow>
    rk_token_hash r = tokenHash \<and> rk_consumed_at r = None \<and> stamp_less now (rk_expires_at r)"

definition ConsumeRecoveryAndCreateSession ::
  "time \<Rightarrow> string \<Rightarrow> string \<Rightarrow> time \<Rightarrow> db \<Rightarrow> (db \<times> Invitation option) result" where
  "ConsumeRecoveryAndCreateSession now recoveryHash sessionHash sessionExpiresAt d =
    (case select_row (\<lambda>(t, i). inv_ID i = rk_invitation_id t \<and> live_token now recoveryHash t \<and>
              inv_RevokedAt i = None)
            (List.product (db_recovery_tokens d) (db_invitations d)) of
       None \<Rightarrow> Inl ErrInvalidCapability
     | Some (t, i) \<Rightarrow>
        if affected (live_token now recoveryHash) (db_recovery_tokens d) \<noteq> 1 then Inl ErrInvalidCapability
        else rbind (or_err (insert_session
                 (session_values now (inv_ID i) sessionHash (inv_TokenVersion i) sessionExpiresAt)
                 (d\<lparr>db_recovery_tokens := update_where (live_token now recoveryHash)
                      (\<lambda>r. r\<lparr>rk_consumed_at := Some now\<rparr>) (db_recovery_tokens d)\<rparr>))
               (Internal ''create recovery session''))
             (\<lambda>d. Inr (d, FindByID (inv_ID i) d)))"

section \<open>Lemmas\<close>

lemma attempts_add:
  "attempts_since p cutoff (d\<lparr>db_recovery_attempts := add_row r (db_recovery_attempts d)\<rparr>) \<le>
    Suc (attempts_since p cutoff d)"
  by (simp add: attempts_since_def affected_def filter_add_row)

text \<open>What a successful exchange of a recovery token has found and done.\<close>

lemma consume_D:
  assumes "ConsumeRecoveryAndCreateSession now h sh expiry d = Inr (d', res)"
  obtains t r where "t \<in> set (db_recovery_tokens d)" "r \<in> set (db_invitations d)"
    "live_token now h t" "inv_ID r = rk_invitation_id t" "inv_RevokedAt r = None"
    "insert_session (session_values now (inv_ID r) sh (inv_TokenVersion r) expiry)
       (d\<lparr>db_recovery_tokens := update_where (live_token now h) (\<lambda>r. r\<lparr>rk_consumed_at := Some now\<rparr>)
          (db_recovery_tokens d)\<rparr>) = Some d'"
    "res = FindByID (inv_ID r) d'"
proof (cases "select_row (\<lambda>(t, i). inv_ID i = rk_invitation_id t \<and> live_token now h t \<and> inv_RevokedAt i = None)
            (List.product (db_recovery_tokens d) (db_invitations d))")
  case None
  then show thesis using assms by (simp add: ConsumeRecoveryAndCreateSession_def)
next
  case (Some p)
  obtain t r where p: "p = (t, r)" by (cases p)
  have tr: "t \<in> set (db_recovery_tokens d)" "r \<in> set (db_invitations d)" "inv_ID r = rk_invitation_id t"
    "live_token now h t" "inv_RevokedAt r = None"
    using select_row_SomeD [OF Some] by (auto simp: p)
  show thesis
    by (rule that [OF tr(1,2,4,3,5)])
      (use assms Some in \<open>auto simp: ConsumeRecoveryAndCreateSession_def p split: if_splits\<close>)
qed

lemma consume_wf:
  assumes "ConsumeRecoveryAndCreateSession now h sh expiry d = Inr (d', res)" "wf_db d"
  shows "wf_db d'"
  using assms(1)
proof (rule consume_D)
  fix r
  let ?d1 = "d\<lparr>db_recovery_tokens := update_where (live_token now h) (\<lambda>r. r\<lparr>rk_consumed_at := Some now\<rparr>)
          (db_recovery_tokens d)\<rparr>"
  assume ins: "insert_session (session_values now (inv_ID r) sh (inv_TokenVersion r) expiry) ?d1 = Some d'"
  have "same_shape ?d1 d" by (simp add: same_shape_def key_defs)
  then have "wf_db ?d1" using same_shape_wf assms(2) by blast
  then show ?thesis using insert_session_wf [OF ins] by blast
qed

lemma create_token_wf:
  assumes "CreateRecoveryToken now i h dest expiry d = Inr d'" "wf_db d"
  shows "wf_db d'"
proof -
  obtain r where ins: "insert_recovery_token r d = Some d'"
    using assms(1) by (auto simp: CreateRecoveryToken_def)
  then have "keys_unique d'" "refs_ok d'"
    using insert_keys_unique(6) insert_refs_ok(6) assms(2) by (auto simp: wf_db_def)
  moreover have "responses_total d'"
    using insert_recovery_token_D(1) [OF ins] assms(2) by (simp add: wf_db_def responses_total_def)
  ultimately show ?thesis by (simp add: wf_db_def)
qed

lemma allow_recovery_shape:
  "AllowRecovery dialect n1 n2 e src dst d = Inr (d', ok) \<Longrightarrow> same_shape d' d"
  by (auto simp: AllowRecovery_def Let_def insert_recovery_attempt_def same_shape_def split: if_splits)

text \<open>A token is spent when a row with its hash is marked as consumed.\<close>

definition token_spent :: "string \<Rightarrow> db \<Rightarrow> bool" where
  "token_spent h d \<longleftrightarrow> (\<exists>r \<in> set (db_recovery_tokens d). rk_token_hash r = h \<and> rk_consumed_at r \<noteq> None)"

lemma consume_spends:
  assumes "ConsumeRecoveryAndCreateSession now h sh expiry d = Inr (d', res)"
  shows "token_spent h d'"
  using assms
proof (rule consume_D)
  fix t r assume t: "t \<in> set (db_recovery_tokens d)" "live_token now h t"
    and ins: "insert_session (session_values now (inv_ID r) sh (inv_TokenVersion r) expiry)
       (d\<lparr>db_recovery_tokens := update_where (live_token now h) (\<lambda>r. r\<lparr>rk_consumed_at := Some now\<rparr>)
          (db_recovery_tokens d)\<rparr>) = Some d'"
  have "db_recovery_tokens d' = update_where (live_token now h) (\<lambda>r. r\<lparr>rk_consumed_at := Some now\<rparr>)
          (db_recovery_tokens d)" using insert_session_D(1) [OF ins] by simp
  then have "t\<lparr>rk_consumed_at := Some now\<rparr> \<in> set (db_recovery_tokens d')"
    using t by (auto simp: set_update_where)
  then show ?thesis unfolding token_spent_def
    by (rule bexI [rotated]) (use t(2) in \<open>simp add: live_token_def\<close>)
qed

lemma spent_refused:
  assumes "keys_unique d" "token_spent h d"
  shows "ConsumeRecoveryAndCreateSession now h sh expiry d = Inl ErrInvalidCapability"
proof -
  obtain r where r: "r \<in> set (db_recovery_tokens d)" "rk_token_hash r = h" "rk_consumed_at r \<noteq> None"
    using assms(2) by (auto simp: token_spent_def)
  have "\<not> live_token now h t" if "t \<in> set (db_recovery_tokens d)" for t
    using unique_row [of rk_token_hash "db_recovery_tokens d" t r] that r assms(1)
    by (auto simp: keys_unique_def live_token_def)
  then have "select_row (\<lambda>(t, i). inv_ID i = rk_invitation_id t \<and> live_token now h t \<and> inv_RevokedAt i = None)
            (List.product (db_recovery_tokens d) (db_invitations d)) = None"
    by (auto simp: select_row_None_iff)
  then show ?thesis by (simp add: ConsumeRecoveryAndCreateSession_def)
qed

section \<open>Properties\<close>

text \<open>
  Recovery attempts stay within their hourly budgets. An attempt that is allowed is
  recorded, and with it at most 5 attempts of its source, 3 to its destination and 30 for its
  event are in the window that was counted; an attempt that is refused changes nothing and is
  refused only because one of the three budgets was used up.
\<close>

theorem recovery_within_budgets:
  assumes "AllowRecovery dialect n1 n2 e src dst d = Inr (d', ok)"
  shows "(ok \<longrightarrow> db_recovery_attempts d' = db_recovery_attempts d @ [\<lparr> ra_event_id = e,
        ra_source_fingerprint = src, ra_destination_fingerprint = dst, ra_created_at = n2 \<rparr>] \<and>
      attempts_since (\<lambda>r. ra_source_fingerprint r = src) (n1 - hour) d' \<le> 5 \<and>
      attempts_since (\<lambda>r. ra_destination_fingerprint r = dst) (n1 - hour) d' \<le> 3 \<and>
      attempts_since (\<lambda>r. ra_event_id r = e) (n1 - hour) d' \<le> 30) \<and>
    (\<not> ok \<longrightarrow> d' = d \<and>
      (5 \<le> attempts_since (\<lambda>r. ra_source_fingerprint r = src) (n1 - hour) d \<or>
       3 \<le> attempts_since (\<lambda>r. ra_destination_fingerprint r = dst) (n1 - hour) d \<or>
       30 \<le> attempts_since (\<lambda>r. ra_event_id r = e) (n1 - hour) d))"
proof (cases ok)
  case True
  let ?row = "\<lparr> ra_event_id = e, ra_source_fingerprint = src, ra_destination_fingerprint = dst, ra_created_at = n2 \<rparr>"
  have d': "d' = d\<lparr>db_recovery_attempts := add_row ?row (db_recovery_attempts d)\<rparr>"
    and under: "attempts_since (\<lambda>r. ra_source_fingerprint r = src) (n1 - hour) d < 5"
      "attempts_since (\<lambda>r. ra_destination_fingerprint r = dst) (n1 - hour) d < 3"
      "attempts_since (\<lambda>r. ra_event_id r = e) (n1 - hour) d < 30"
    using assms True by (auto simp: AllowRecovery_def Let_def insert_recovery_attempt_def split: if_splits)
  have "attempts_since p (n1 - hour) d' \<le> Suc (attempts_since p (n1 - hour) d)" for p
    unfolding d' by (rule attempts_add)
  from this [of "\<lambda>r. ra_source_fingerprint r = src"] this [of "\<lambda>r. ra_destination_fingerprint r = dst"]
    this [of "\<lambda>r. ra_event_id r = e"]
  have "attempts_since (\<lambda>r. ra_source_fingerprint r = src) (n1 - hour) d' \<le> 5"
    "attempts_since (\<lambda>r. ra_destination_fingerprint r = dst) (n1 - hour) d' \<le> 3"
    "attempts_since (\<lambda>r. ra_event_id r = e) (n1 - hour) d' \<le> 30" using under by linarith+
  then show ?thesis using True by (simp add: d' add_row_def)
next
  case False
  then show ?thesis using assms
    by (auto simp: AllowRecovery_def Let_def split: if_splits)
qed

end
