(* ===== verification/Invitation_Open.thy ===== *)
theory Invitation_Open
  imports Invitation_Store
begin

text \<open>
  Open enrollment (\<open>internal/invitation/open_store.go\<close>): the enrollment configuration of an
  event, its rotation, and the transaction that enrolls a new household within the party and
  capacity limits.
\<close>

definition scanOpenEnrollment :: "open_enrollment_row \<Rightarrow> OpenEnrollmentConfig" where
  "scanOpenEnrollment r = OpenEnrollmentConfig.truncate r"

definition FindOpenByEvent :: "id \<Rightarrow> db \<Rightarrow> OpenEnrollmentConfig option" where
  "FindOpenByEvent eventID d =
    map_option scanOpenEnrollment (select_row (\<lambda>r. oe_EventID r = eventID) (db_open d))"

definition FindOpenByAccessID :: "string \<Rightarrow> db \<Rightarrow> OpenEnrollmentConfig option" where
  "FindOpenByAccessID accessID d =
    map_option scanOpenEnrollment (select_row (\<lambda>r. oe_AccessID r = accessID) (db_open d))"

text \<open>
  The upsert of the configuration. On a conflict on the event the listed columns are updated;
  otherwise the row is inserted. The CHECK constraints hold of the inserted row in both cases,
  and the id, access id and user reference are checked when the row is really inserted.
\<close>

definition open_values :: "time \<Rightarrow> id \<Rightarrow> OpenEnrollmentConfig \<Rightarrow> open_enrollment_row" where
  "open_values now creatorUserID config =
    OpenEnrollmentConfig.extend
      (config\<lparr>oe_RevokedAt := None, oe_CreatedAt := now, oe_UpdatedAt := now\<rparr>)
      (open_enrollment_row.fields (Some creatorUserID))"

definition ConfigureOpen :: "time \<Rightarrow> OpenEnrollmentConfig \<Rightarrow> id \<Rightarrow> db \<Rightarrow> db result" where
  "ConfigureOpen now config creatorUserID d =
    (let r = open_values now creatorUserID config in
     if \<not> open_checks r then Inl (Internal ''configure open enrollment'')
     else if list_ex (\<lambda>x. oe_EventID x = oe_EventID r) (db_open d)
     then Inr (d\<lparr>db_open := update_where (\<lambda>x. oe_EventID x = oe_EventID r)
            (\<lambda>x. x\<lparr>oe_Enabled := oe_Enabled r, oe_OpensAt := oe_OpensAt r,
                   oe_ClosesAt := oe_ClosesAt r, oe_MaxPartySize := oe_MaxPartySize r,
                   oe_Capacity := oe_Capacity r, oe_UpdatedAt := now\<rparr>) (db_open d)\<rparr>)
     else if oe_ID r \<notin> oe_ID ` set (db_open d) \<and> oe_AccessID r \<notin> oe_AccessID ` set (db_open d) \<and>
             oe_EventID r \<in> event_ids d \<and> user_ref_ok d (Some creatorUserID)
     then Inr (d\<lparr>db_open := add_row r (db_open d)\<rparr>)
     else Inl (Internal ''configure open enrollment''))"

definition RotateOpen :: "time \<Rightarrow> id \<Rightarrow> db \<Rightarrow> (db \<times> OpenEnrollmentConfig option) result" where
  "RotateOpen now eventID d =
    (let p = (\<lambda>r. oe_EventID r = eventID \<and> oe_RevokedAt r = None) in
     if affected p (db_open d) \<noteq> 1 then Inl ErrNotFound
     else let d = d\<lparr>db_open := update_where p
              (\<lambda>r. r\<lparr>oe_TokenVersion := oe_TokenVersion r + 1, oe_UpdatedAt := now\<rparr>) (db_open d)\<rparr>
       in Inr (d, FindOpenByEvent eventID d))"

section \<open>Enrolling\<close>

text \<open>The seats taken by active guests of the enrollment's live invitations.\<close>

definition allocated :: "id \<Rightarrow> db \<Rightarrow> nat" where
  "allocated openID d =
    affected (\<lambda>(g, i). inv_ID i = g_invitation_id g \<and> inv_OpenEnrollmentID i = Some openID \<and>
        inv_RevokedAt i = None \<and> g_removed_at g = None)
      (List.product (db_guests d) (db_invitations d))"

definition open_row_matches :: "OpenEnrollmentConfig \<Rightarrow> open_enrollment_row \<Rightarrow> bool" where
  "open_row_matches config r \<longleftrightarrow> oe_ID r = oe_ID config \<and> oe_AccessID r = oe_AccessID config \<and>
     oe_TokenVersion r = oe_TokenVersion config \<and> oe_Enabled r \<and> oe_RevokedAt r = None"

text \<open>The checks of \<open>EnrollOpen\<close> on the locked row.\<close>

definition enroll_limits :: "time \<Rightarrow> nat \<Rightarrow> open_enrollment_row \<Rightarrow> db \<Rightarrow> unit result" where
  "enroll_limits now party r d =
    (if party < 1 \<or> int party > oe_MaxPartySize r then Inl ErrAllowance
     else if (case oe_OpensAt r of Some t \<Rightarrow> now < t | None \<Rightarrow> False) then Inl ErrInvalidCapability
     else if (case oe_ClosesAt r of Some t \<Rightarrow> \<not> now < t | None \<Rightarrow> False) then Inl ErrInvalidCapability
     else if (case oe_Capacity r of Some c \<Rightarrow> int (allocated (oe_ID r) d + party) > c | None \<Rightarrow> False)
     then Inl ErrCapacity
     else Inr ())"

text \<open>
  The invitation row of an enrollment: the statement itself fixes the allowance at 0, the
  source at \<open>open\<close>, the token version at 1 and the enrollment id.
\<close>

definition open_invitation_values :: "'x runtime_scheme \<Rightarrow> time \<Rightarrow> id \<Rightarrow> Invitation \<Rightarrow> invitation_row" where
  "open_invitation_values rt now openID iv = invitation_values rt now
    (iv\<lparr>inv_AdditionalGuestAllowance := 0, inv_Source := ''open'',
        inv_OpenEnrollmentID := Some openID, inv_TokenVersion := 1, inv_CreatedByUserID := None\<rparr>)"

definition EnrollOpen ::
  "'x runtime_scheme \<Rightarrow> time \<Rightarrow> id \<Rightarrow> OpenEnrollmentConfig \<Rightarrow> Invitation \<Rightarrow> Guest list \<Rightarrow> string \<Rightarrow>
   time \<Rightarrow> db \<Rightarrow> (db \<times> Response \<times> Invitation \<times> Guest list) result" where
  "EnrollOpen rt now responseID config iv guests sessionHash sessionExpiresAt d =
    (if affected (open_row_matches config) (db_open d) \<noteq> 1 then Inl ErrInvalidCapability
     else rbind (or_err (select_row (\<lambda>r. oe_ID r = oe_ID config) (db_open d))
                   (Internal ''load open enrollment limits'')) (\<lambda>r.
     rbind (enroll_limits now (length guests) r d) (\<lambda>_.
     rbind (or_err (insert_invitation (open_invitation_values rt now (oe_ID config) iv) d)
              (Internal ''create open invitation'')) (\<lambda>d.
     rbind (or_err (insert_response (response_values now responseID (inv_ID iv)) d)
              (Internal ''create open response'')) (\<lambda>d.
     rbind (loop (insert_guest_pending ''create open'' now (inv_ID iv) responseID) d
              (map (\<lambda>g. g\<lparr>guest_Origin := ''assigned''\<rparr>) guests)) (\<lambda>d.
     rbind (or_err (insert_session (session_values now (inv_ID iv) sessionHash 1 sessionExpiresAt) d)
              (Internal ''create open invitation session'')) (\<lambda>d.
     Inr (d, response_values now responseID (inv_ID iv),
          iv\<lparr>inv_CreatedAt := now, inv_UpdatedAt := now\<rparr>,
          map (\<lambda>g. g\<lparr>guest_InvitationID := inv_ID iv, guest_Attendance := AttendancePending,
                      guest_CreatedAt := now, guest_UpdatedAt := now\<rparr>) guests))))))))"

section \<open>Counting seats\<close>

definition seat :: "id \<Rightarrow> guest_row \<Rightarrow> invitation_row \<Rightarrow> bool" where
  "seat openID g r \<longleftrightarrow> inv_ID r = g_invitation_id g \<and> inv_OpenEnrollmentID r = Some openID \<and>
     inv_RevokedAt r = None \<and> g_removed_at g = None"

definition seats :: "id \<Rightarrow> invitation_row list \<Rightarrow> guest_row list \<Rightarrow> nat" where
  "seats openID invs guests = sum_list (map (\<lambda>g. length (filter (seat openID g) invs)) guests)"

lemma filter_product_length:
  "length (filter P (List.product xs ys)) = sum_list (map (\<lambda>x. length (filter (\<lambda>y. P (x, y)) ys)) xs)"
  by (induction xs) (simp_all add: filter_map comp_def)

lemma allocated_seats: "allocated openID d = seats openID (db_invitations d) (db_guests d)"
proof -
  have "(\<lambda>y. (\<lambda>(g, i). inv_ID i = g_invitation_id g \<and> inv_OpenEnrollmentID i = Some openID \<and>
        inv_RevokedAt i = None \<and> g_removed_at g = None) (g, y)) = seat openID g" for g
    by (auto simp: seat_def fun_eq_iff)
  then show ?thesis by (simp add: allocated_def affected_def filter_product_length seats_def)
qed

text \<open>A new household with a fresh id takes one seat per guest, and the others keep theirs.\<close>

lemma seats_new_household:
  assumes "\<forall>g \<in> set guests. g_invitation_id g \<noteq> inv_ID r"
    and "\<forall>x \<in> set invs. inv_ID x \<noteq> inv_ID r"
    and "\<forall>g \<in> set new. g_invitation_id g = inv_ID r \<and> g_removed_at g = None"
    and "inv_OpenEnrollmentID r = Some openID" "inv_RevokedAt r = None"
  shows "seats openID (invs @ [r]) (guests @ new) = seats openID invs guests + length new"
proof -
  have old: "length (filter (seat openID g) (invs @ [r])) = length (filter (seat openID g) invs)"
    if "g \<in> set guests" for g
    using assms(1) that by (auto simp: seat_def)
  have fresh: "length (filter (seat openID g) (invs @ [r])) = 1" if "g \<in> set new" for g
  proof -
    have "filter (seat openID g) invs = []" using assms(2,3) that by (auto simp: filter_empty_conv seat_def)
    then show ?thesis using assms(3-5) that by (simp add: seat_def)
  qed
  have "seats openID (invs @ [r]) guests = seats openID invs guests"
    unfolding seats_def using old by (simp cong: map_cong)
  moreover have "seats openID (invs @ [r]) new = length new"
  proof -
    have "map (\<lambda>g. length (filter (seat openID g) (invs @ [r]))) new = map (\<lambda>_. 1) new"
      using fresh by (simp cong: map_cong)
    then show ?thesis unfolding seats_def by (simp only: sum_list_triv) simp
  qed
  ultimately show ?thesis by (simp add: seats_def)
qed

section \<open>Enrollment taken apart\<close>

text \<open>What a successful enrollment has checked and done.\<close>

lemma EnrollOpen_D:
  assumes "EnrollOpen rt now rid config iv guests sh expiry d = Inr (d', out)"
  obtains r d1 d2 where "affected (open_row_matches config) (db_open d) = 1"
    "select_row (\<lambda>r. oe_ID r = oe_ID config) (db_open d) = Some r"
    "enroll_limits now (length guests) r d = Inr ()"
    "insert_invitation (open_invitation_values rt now (oe_ID config) iv) d = Some d1"
    "insert_response (response_values now rid (inv_ID iv)) d1 = Some d2"
    "insert_session (session_values now (inv_ID iv) sh 1 expiry)
       (d2\<lparr>db_guests := db_guests d @ map (guest_values now (inv_ID iv)) (map (\<lambda>g. g\<lparr>guest_Origin := ''assigned''\<rparr>) guests),
          db_guest_responses := db_guest_responses d @
            map (\<lambda>g. guest_response_values now rid (guest_ID g) ''pending'') guests\<rparr>) = Some d'"
    "\<exists>d3. loop (insert_guest_pending ''create open'' now (inv_ID iv) rid) d2 (map (\<lambda>g. g\<lparr>guest_Origin := ''assigned''\<rparr>) guests) = Inr d3
       \<and> insert_session (session_values now (inv_ID iv) sh 1 expiry) d3 = Some d'"
proof -
  let ?guests = "map (\<lambda>g. g\<lparr>guest_Origin := ''assigned''\<rparr>) guests"
  obtain r d1 d2 d3 where steps: "affected (open_row_matches config) (db_open d) = 1"
    "select_row (\<lambda>r. oe_ID r = oe_ID config) (db_open d) = Some r"
    "enroll_limits now (length guests) r d = Inr ()"
    "insert_invitation (open_invitation_values rt now (oe_ID config) iv) d = Some d1"
    "insert_response (response_values now rid (inv_ID iv)) d1 = Some d2"
    and d3: "loop (insert_guest_pending ''create open'' now (inv_ID iv) rid) d2 ?guests = Inr d3"
    and ses: "insert_session (session_values now (inv_ID iv) sh 1 expiry) d3 = Some d'"
    using assms by (auto simp: EnrollOpen_def split: if_splits)
  have "db_guests d2 = db_guests d" "db_guest_responses d2 = db_guest_responses d"
    using insert_invitation_D(1) [OF steps(4)] insert_response_D(1) [OF steps(5)] by simp_all
  then have "d3 = d2\<lparr>db_guests := db_guests d @ map (guest_values now (inv_ID iv)) ?guests,
     db_guest_responses := db_guest_responses d @ map (\<lambda>g. guest_response_values now rid (guest_ID g) ''pending'') guests\<rparr>"
    using insert_guests_effect [OF d3] by (simp add: comp_def)
  then show thesis using that [OF steps] ses d3 by blast
qed

lemma enroll_wf:
  assumes "EnrollOpen rt now rid config iv guests sh expiry d = Inr (d', out)" "wf_db d"
  shows "wf_db d'"
  using assms(1)
proof (rule EnrollOpen_D)
  fix d1 d2
  assume d1: "insert_invitation (open_invitation_values rt now (oe_ID config) iv) d = Some d1"
    and d2: "insert_response (response_values now rid (inv_ID iv)) d1 = Some d2"
    and d3: "\<exists>d3. loop (insert_guest_pending ''create open'' now (inv_ID iv) rid) d2 (map (\<lambda>g. g\<lparr>guest_Origin := ''assigned''\<rparr>) guests) = Inr d3
       \<and> insert_session (session_values now (inv_ID iv) sh 1 expiry) d3 = Some d'"
  have ok: "keys_unique d" "refs_ok d" "responses_total d" using assms(2) by (simp_all add: wf_db_def)
  have k2: "keys_unique d2" "refs_ok d2"
    using insert_keys_unique(1) [OF ok(1) d1] insert_refs_ok(1) [OF ok(2) d1]
      insert_keys_unique(3) [OF _ d2] insert_refs_ok(3) [OF _ d2] by auto
  have t2: "responses_total d2"
    using ok(3) by (simp add: responses_total_def insert_invitation_D(1) [OF d1] insert_response_D(1) [OF d2]
        open_invitation_values_def)
  from d3 obtain d3 where d3: "loop (insert_guest_pending ''create open'' now (inv_ID iv) rid) d2 (map (\<lambda>g. g\<lparr>guest_Origin := ''assigned''\<rparr>) guests) = Inr d3"
    and ses: "insert_session (session_values now (inv_ID iv) sh 1 expiry) d3 = Some d'" by blast
  have "responses_total d3" using t2 insert_guests_effect [OF d3] by (simp add: responses_total_def)
  then have "wf_db d3" using insert_guests_keys [OF d3 k2] by (simp add: wf_db_def)
  then show ?thesis using insert_session_wf [OF ses] by blast
qed

lemma configure_wf:
  assumes "ConfigureOpen now config u d = Inr d'" "wf_db d"
  shows "wf_db d'"
proof -
  let ?r = "open_values now u config"
  show ?thesis
  proof (cases "list_ex (\<lambda>x. oe_EventID x = oe_EventID ?r) (db_open d)")
    case True
    then have "same_shape d' d"
      using assms(1) by (auto simp: ConfigureOpen_def Let_def same_shape_def key_defs split: if_splits)
    then show ?thesis using same_shape_wf assms(2) by blast
  next
    case False
    then have d': "d' = d\<lparr>db_open := add_row ?r (db_open d)\<rparr>" "oe_ID ?r \<notin> oe_ID ` set (db_open d)"
      "oe_AccessID ?r \<notin> oe_AccessID ` set (db_open d)"
      using assms(1) by (simp_all add: ConfigureOpen_def Let_def split: if_splits)
    have "oe_EventID ?r \<notin> oe_EventID ` set (db_open d)" using False by (auto simp: list_ex_iff)
    then show ?thesis using d'(2,3) assms(2)
      by (simp add: d'(1) wf_db_def keys_unique_def refs_ok_def responses_total_def id_set_defs)
  qed
qed

lemma rotate_open_shape: "RotateOpen now e d = Inr (d', res) \<Longrightarrow> same_shape d' d"
  by (auto simp: RotateOpen_def Let_def same_shape_def key_defs split: if_splits)

section \<open>Properties\<close>

text \<open>
  C3: open enrollment respects its limits. A successful enrollment happens under an enabled,
  unrevoked configuration with the presented version, inside its time window, with a party
  between one and the party limit; it takes exactly one seat per guest; and if the enrollment
  has a capacity, the seats taken afterwards do not exceed it.
\<close>

theorem enrollment_within_capacity:
  assumes "wf_db d" "EnrollOpen rt now rid config iv guests sh expiry d = Inr (d', out)"
  shows "\<exists>r \<in> set (db_open d). open_row_matches config r \<and>
    1 \<le> length guests \<and> int (length guests) \<le> oe_MaxPartySize r \<and>
    (\<forall>t. oe_OpensAt r = Some t \<longrightarrow> t \<le> now) \<and> (\<forall>t. oe_ClosesAt r = Some t \<longrightarrow> now < t) \<and>
    allocated (oe_ID config) d' = allocated (oe_ID config) d + length guests \<and>
    (\<forall>c. oe_Capacity r = Some c \<longrightarrow> int (allocated (oe_ID config) d') \<le> c)"
  using assms(2)
proof (rule EnrollOpen_D)
  fix r d1 d2
  let ?row = "open_invitation_values rt now (oe_ID config) iv"
  let ?new = "map (guest_values now (inv_ID iv)) (map (\<lambda>g. g\<lparr>guest_Origin := ''assigned''\<rparr>) guests)"
  assume one: "affected (open_row_matches config) (db_open d) = 1"
    and sel: "select_row (\<lambda>r. oe_ID r = oe_ID config) (db_open d) = Some r"
    and lim: "enroll_limits now (length guests) r d = Inr ()"
    and d1: "insert_invitation ?row d = Some d1"
    and d2: "insert_response (response_values now rid (inv_ID iv)) d1 = Some d2"
    and ses: "insert_session (session_values now (inv_ID iv) sh 1 expiry)
       (d2\<lparr>db_guests := db_guests d @ ?new, db_guest_responses := db_guest_responses d @
            map (\<lambda>g. guest_response_values now rid (guest_ID g) ''pending'') guests\<rparr>) = Some d'"
  obtain r' where r': "r' \<in> set (db_open d)" "open_row_matches config r'" using affected_one_ex [OF one] by blast
  have r: "r \<in> set (db_open d)" "oe_ID r = oe_ID config" using select_row_SomeD [OF sel] by auto
  have "r' = r" using r' r assms(1) unique_row [of oe_ID "db_open d" r' r]
    by (auto simp: wf_db_def keys_unique_def open_row_matches_def)
  have tables: "db_invitations d' = db_invitations d @ [?row]" "db_guests d' = db_guests d @ ?new"
    using insert_session_D(1) [OF ses] insert_response_D(1) [OF d2] insert_invitation_D(1) [OF d1]
    by (simp_all add: add_row_def)
  have row: "inv_ID ?row = inv_ID iv" "inv_OpenEnrollmentID ?row = Some (oe_ID config)" "inv_RevokedAt ?row = None"
    by (simp_all add: open_invitation_values_def)
  have fresh: "inv_ID iv \<notin> inv_ID ` set (db_invitations d)" using insert_invitation_D(2) [OF d1] row(1) by simp
  have "seats (oe_ID config) (db_invitations d @ [?row]) (db_guests d @ ?new) =
      seats (oe_ID config) (db_invitations d) (db_guests d) + length ?new"
  proof (rule seats_new_household)
    show "\<forall>g \<in> set (db_guests d). g_invitation_id g \<noteq> inv_ID ?row"
    proof
      fix g assume "g \<in> set (db_guests d)"
      then have "g_invitation_id g \<in> inv_ID ` set (db_invitations d)"
        using assms(1) by (simp add: wf_db_def refs_ok_def id_set_defs)
      then show "g_invitation_id g \<noteq> inv_ID ?row" using fresh row(1) by metis
    qed
    show "\<forall>x \<in> set (db_invitations d). inv_ID x \<noteq> inv_ID ?row" using fresh row(1) by force
  qed (simp_all add: row)
  then have "allocated (oe_ID config) d' = allocated (oe_ID config) d + length guests"
    by (simp add: allocated_seats tables)
  then show ?thesis using r'(2) r lim \<open>r' = r\<close>
    by (intro bexI [of _ r]) (auto simp: enroll_limits_def Suc_le_eq split: if_splits option.splits)
qed

end
