(* ===== verification/Invitation_Management.thy ===== *)
theory Invitation_Management
  imports Invitation_Store
begin

text \<open>
  The organizer's view and edits of a household (\<open>internal/invitation/management_store.go\<close>).
\<close>

definition by_newest :: "notification_row \<Rightarrow> notification_row \<Rightarrow> bool" where
  "by_newest a b \<longleftrightarrow> stamp_less (nl_created_at b) (nl_created_at a) \<or>
    nl_created_at a = nl_created_at b \<and> bytes_less (nl_id b) (nl_id a)"

definition loadLatestDelivery :: "id \<Rightarrow> db \<Rightarrow> DeliverySummary option" where
  "loadLatestDelivery invitationID d =
    (case order_by by_newest (filter (\<lambda>r. nl_invitation_id r = Some invitationID) (db_notifications d)) of
       [] \<Rightarrow> None
     | r # _ \<Rightarrow> Some \<lparr> ds_Status = nl_status r, ds_DeliveryStatus = nl_delivery_status r,
         ds_Provider = nl_provider r,
         ds_Error = (case nl_error r of None \<Rightarrow> [] | Some e \<Rightarrow> e),
         ds_AttemptedAt = nl_created_at r, ds_SentAt = nl_sent_at r \<rparr>)"

definition LoadOrganizerHousehold :: "'x runtime_scheme \<Rightarrow> id \<Rightarrow> db \<Rightarrow> Household result" where
  "LoadOrganizerHousehold rt invitationID d =
    rbind (LoadHousehold rt invitationID d)
      (\<lambda>h. Inr (h\<lparr>hh_LatestDelivery := loadLatestDelivery invitationID d\<rparr>))"

text \<open>\<open>ListByEvent\<close> of \<open>store.go\<close>, which loads every household of the event in creation order.\<close>

definition ListByEvent :: "'x runtime_scheme \<Rightarrow> id \<Rightarrow> db \<Rightarrow> Household list result" where
  "ListByEvent rt eventID d =
    loop (\<lambda>acc iv. rbind (LoadOrganizerHousehold rt (inv_ID iv) d) (\<lambda>h. Inr (acc @ [h]))) []
      (map scanInvitation (order_by by_created
        (filter (\<lambda>r. inv_EventID r = eventID) (db_invitations d))))"

section \<open>Editing an invitation\<close>

definition edit_values :: "'x runtime_scheme \<Rightarrow> time \<Rightarrow> UpdateInvitationRequest \<Rightarrow> invitation_row \<Rightarrow> invitation_row"
where
  "edit_values rt now req r = r\<lparr>inv_Label := ur_Label req,
     inv_ContactEmail := ur_ContactEmail req,
     inv_normalized_email := map_option (normalizeEmail rt) (ur_ContactEmail req),
     inv_ContactPhone := ur_ContactPhone req,
     inv_normalized_phone := map_option normalizePhone (ur_ContactPhone req),
     inv_PreferredDeliveryMethod := ur_PreferredDeliveryMethod req,
     inv_AdditionalGuestAllowance := ur_AdditionalGuestAllowance req,
     inv_UpdatedAt := now\<rparr>"

definition assigned_row :: "id \<Rightarrow> id \<Rightarrow> guest_row \<Rightarrow> bool" where
  "assigned_row guestID invitationID r \<longleftrightarrow> g_id r = guestID \<and> g_invitation_id r = invitationID \<and>
     g_origin r = ''assigned'' \<and> g_removed_at r = None"

text \<open>One iteration of the loop over the edited guests; the state is the database and \<open>kept\<close>.\<close>

definition edit_assigned ::
  "time \<Rightarrow> (nat \<Rightarrow> id) \<Rightarrow> id \<Rightarrow> id \<Rightarrow> id list \<Rightarrow> nat \<Rightarrow> db \<times> id list \<Rightarrow> AssignedGuestEdit \<Rightarrow> (db \<times> id list) result"
where
  "edit_assigned now uuid invitationID responseID existing index st guest =
    (let (d, kept) = st in
     if age_ID guest = []
     then rbind (or_err (insert_guest \<lparr> g_id = uuid index, g_invitation_id = invitationID,
               g_name = age_Name guest, g_origin = ''assigned'', g_sort_order = int index,
               g_removed_at = None, g_created_at = now, g_updated_at = now \<rparr> d)
             (Internal ''add assigned guest'')) (\<lambda>d.
          rbind (or_err (insert_guest_response
               (guest_response_values now responseID (uuid index) ''pending'') d)
             (Internal ''add assigned guest response'')) (\<lambda>d.
          Inr (d, uuid index # kept)))
     else if age_ID guest \<notin> set existing
     then Inl (Validation ''assigned guest does not belong to this invitation'')
     else Inr (d\<lparr>db_guests := update_where (assigned_row (age_ID guest) invitationID)
            (\<lambda>r. r\<lparr>g_name := age_Name guest, g_sort_order := int index, g_updated_at := now\<rparr>)
            (db_guests d)\<rparr>, age_ID guest # kept))"

definition remove_assigned :: "time \<Rightarrow> id \<Rightarrow> id list \<Rightarrow> id list \<Rightarrow> db \<Rightarrow> db" where
  "remove_assigned now invitationID kept existing d =
    d\<lparr>db_guests := fold (\<lambda>gid rows. if gid \<in> set kept then rows
         else update_where (assigned_row gid invitationID)
                (\<lambda>r. r\<lparr>g_removed_at := Some now, g_updated_at := now\<rparr>) rows)
       existing (db_guests d)\<rparr>"

definition StoreUpdateInvitation ::
  "'x runtime_scheme \<Rightarrow> time \<Rightarrow> (nat \<Rightarrow> id) \<Rightarrow> id \<Rightarrow> id \<Rightarrow> UpdateInvitationRequest \<Rightarrow> db \<Rightarrow> db result" where
  "StoreUpdateInvitation rt now uuid eventID invitationID req d =
    (if list_ex (\<lambda>r. live_invitation invitationID eventID r \<and>
                     \<not> invitation_checks (edit_values rt now req r)) (db_invitations d)
     then Inl (Internal ''update invitation metadata'')
     else if affected (live_invitation invitationID eventID) (db_invitations d) \<noteq> 1 then Inl ErrNotFound
     else let d = d\<lparr>db_invitations := update_where (live_invitation invitationID eventID)
                     (edit_values rt now req) (db_invitations d)\<rparr> in
     rbind (or_err (select_row (\<lambda>r. resp_InvitationID r = invitationID) (db_responses d))
              (Internal ''load invitation response for update'')) (\<lambda>resp.
     let existing = map g_id (filter (\<lambda>g. g_invitation_id g = invitationID \<and>
              g_origin g = ''assigned'' \<and> g_removed_at g = None) (db_guests d)) in
     rbind (iloop (edit_assigned now uuid invitationID (resp_ID resp) existing) 0 (d, [])
              (ur_AssignedGuests req)) (\<lambda>(d, kept).
     Inr (remove_assigned now invitationID kept existing d))))"

section \<open>Lemmas on edits\<close>

text \<open>What the loop over the edited guests keeps: everything but the guests and their responses.\<close>

definition edit_frame :: "db \<Rightarrow> db \<Rightarrow> bool" where
  "edit_frame d d' \<longleftrightarrow>
    d' = d\<lparr>db_guests := db_guests d', db_guest_responses := db_guest_responses d'\<rparr> \<and>
    (keys_unique d \<longrightarrow> keys_unique d') \<and> (refs_ok d \<longrightarrow> refs_ok d')"

lemma edit_frame_refl: "edit_frame d d"
  by (simp add: edit_frame_def)

lemma edit_frame_tables:
  assumes "edit_frame d d'"
  shows "db_invitations d' = db_invitations d" "db_responses d' = db_responses d"
    "db_recovery_tokens d' = db_recovery_tokens d"
proof -
  have eq: "d' = d\<lparr>db_guests := db_guests d', db_guest_responses := db_guest_responses d'\<rparr>"
    using assms by (simp add: edit_frame_def)
  show "db_invitations d' = db_invitations d" using arg_cong [OF eq, of db_invitations] by simp
  show "db_responses d' = db_responses d" using arg_cong [OF eq, of db_responses] by simp
  show "db_recovery_tokens d' = db_recovery_tokens d" using arg_cong [OF eq, of db_recovery_tokens] by simp
qed

lemma edit_frame_trans:
  assumes "edit_frame d d1" "edit_frame d1 d2"
  shows "edit_frame d d2"
proof -
  have eq1: "d1 = d\<lparr>db_guests := db_guests d1, db_guest_responses := db_guest_responses d1\<rparr>"
    and eq2: "d2 = d1\<lparr>db_guests := db_guests d2, db_guest_responses := db_guest_responses d2\<rparr>"
    using assms by (simp_all add: edit_frame_def)
  from trans [OF eq2 arg_cong [OF eq1, of
      "\<lambda>x. x\<lparr>db_guests := db_guests d2, db_guest_responses := db_guest_responses d2\<rparr>"]]
  have "d2 = d\<lparr>db_guests := db_guests d2, db_guest_responses := db_guest_responses d2\<rparr>" by simp
  then show ?thesis using assms by (simp add: edit_frame_def)
qed

lemma shape_parts:
  assumes "same_shape d' d"
  shows "keys_unique d \<Longrightarrow> keys_unique d'"
  using assms same_shape_maps [OF assms] by (simp add: keys_unique_def same_shape_def)

lemma update_guests_frame:
  assumes "\<And>r. guest_key (f r) = guest_key r"
  shows "edit_frame d (d\<lparr>db_guests := update_where p f (db_guests d)\<rparr>)" (is "edit_frame d ?d'")
proof -
  have shape: "same_shape ?d' d" using assms by (simp add: same_shape_def)
  have "\<forall>r \<in> set (update_where p f (db_guests d)). g_invitation_id r \<in> invitation_ids d"
    if "refs_ok d"
  proof -
    have "g_invitation_id (f r) = g_invitation_id r" for r using assms [of r] by (simp add: guest_key_def)
    then show ?thesis using that by (auto simp: set_update_where refs_ok_def)
  qed
  moreover have "guest_ids ?d' = guest_ids d" by (rule same_shape_ids(3) [OF shape])
  ultimately have "refs_ok d \<Longrightarrow> refs_ok ?d'"
    by (simp add: refs_ok_def id_set_defs)
  then show ?thesis using shape_parts [OF shape] by (simp add: edit_frame_def)
qed

lemma edit_assigned_frame:
  assumes "edit_assigned now uuid i r existing k (d, kept) g = Inr (d', kept')"
  shows "edit_frame d d'"
proof (cases "age_ID g = []")
  case True
  obtain gr d1 xr where d1: "insert_guest gr d = Some d1" and d2: "insert_guest_response xr d1 = Some d'"
    using assms True by (auto simp: edit_assigned_def)
  have "edit_frame d d1" using insert_guest_D(1) [OF d1] insert_keys_unique(2) [OF _ d1] insert_refs_ok(2) [OF _ d1]
    by (simp add: edit_frame_def)
  moreover have "edit_frame d1 d'"
    using insert_guest_response_D(1) [OF d2] insert_keys_unique(4) [OF _ d2] insert_refs_ok(4) [OF _ d2]
    by (simp add: edit_frame_def)
  ultimately show ?thesis by (rule edit_frame_trans)
next
  case False
  then have "d' = d\<lparr>db_guests := update_where (assigned_row (age_ID g) i)
      (\<lambda>r. r\<lparr>g_name := age_Name g, g_sort_order := int k, g_updated_at := now\<rparr>) (db_guests d)\<rparr>"
    using assms by (simp add: edit_assigned_def split: if_splits)
  then show ?thesis using update_guests_frame by (simp add: guest_key_def)
qed

lemma remove_assigned_frame: "edit_frame d (remove_assigned now i kept existing d)"
proof -
  have "edit_frame d (d\<lparr>db_guests := fold (\<lambda>gid rows. if gid \<in> set kept then rows
         else update_where (assigned_row gid i)
                (\<lambda>r. r\<lparr>g_removed_at := Some now, g_updated_at := now\<rparr>) rows) gids (db_guests d)\<rparr>)" for gids
  proof (induction gids arbitrary: d)
    case Nil
    then show ?case by (simp add: edit_frame_refl)
  next
    case (Cons gid gids)
    let ?d1 = "d\<lparr>db_guests := if gid \<in> set kept then db_guests d
         else update_where (assigned_row gid i)
                (\<lambda>r. r\<lparr>g_removed_at := Some now, g_updated_at := now\<rparr>) (db_guests d)\<rparr>"
    have "edit_frame d ?d1"
      by (cases "gid \<in> set kept") (simp_all add: edit_frame_refl update_guests_frame guest_key_def)
    from edit_frame_trans [OF this Cons.IH [of ?d1]] show ?case by simp
  qed
  then show ?thesis by (simp add: remove_assigned_def)
qed

text \<open>What a successful edit has passed through.\<close>

lemma StoreUpdateInvitation_D:
  assumes "StoreUpdateInvitation rt now uuid e i req d = Inr d'"
  obtains d1 where
    "affected (live_invitation i e) (db_invitations d) = 1"
    "edit_frame (d\<lparr>db_invitations := update_where (live_invitation i e) (edit_values rt now req) (db_invitations d)\<rparr>) d'"
proof -
  let ?d0 = "d\<lparr>db_invitations := update_where (live_invitation i e) (edit_values rt now req) (db_invitations d)\<rparr>"
  have one: "affected (live_invitation i e) (db_invitations d) = 1"
    using assms by (simp add: StoreUpdateInvitation_def Let_def split: if_splits)
  obtain r existing d1 kept where
    lp: "iloop (edit_assigned now uuid i r existing) 0 (?d0, []) (ur_AssignedGuests req) = Inr (d1, kept)"
    and d': "d' = remove_assigned now i kept existing d1"
    using assms by (auto simp: StoreUpdateInvitation_def Let_def split: if_splits)
  have "edit_frame ?d0 (fst (d1, kept))"
  proof (rule iloop_invariant [OF lp, of "\<lambda>st. edit_frame ?d0 (fst st)"])
    fix k st g st' assume st: "edit_frame ?d0 (fst st)" "edit_assigned now uuid i r existing k st g = Inr st'"
    obtain x xs y ys where "st = (x, xs)" "st' = (y, ys)" by (cases st; cases st')
    with st have "edit_frame ?d0 x" "edit_frame x y" using edit_assigned_frame by auto
    then show "edit_frame ?d0 (fst st')" using edit_frame_trans \<open>st' = (y, ys)\<close> by auto
  qed (simp add: edit_frame_refl)
  then have "edit_frame ?d0 d'" using remove_assigned_frame edit_frame_trans unfolding d' by fastforce
  then show thesis using that one by blast
qed

lemma edit_values_key [simp]: "invitation_key (edit_values rt now req r) = invitation_key r"
  by (simp add: edit_values_def invitation_key_def)

lemma store_update_wf:
  assumes "StoreUpdateInvitation rt now uuid e i req d = Inr d'" "wf_db d"
  shows "wf_db d'"
  using assms(1)
proof (rule StoreUpdateInvitation_D)
  let ?d0 = "d\<lparr>db_invitations := update_where (live_invitation i e) (edit_values rt now req) (db_invitations d)\<rparr>"
  assume fr: "edit_frame ?d0 d'"
  have "same_shape ?d0 d" by (simp add: same_shape_def)
  then have "wf_db ?d0" using same_shape_wf assms(2) by blast
  then have "keys_unique d'" "refs_ok d'" "responses_total ?d0"
    using fr by (simp_all add: wf_db_def edit_frame_def)
  then show ?thesis using edit_frame_tables(1,2) [OF fr] by (simp add: wf_db_def responses_total_def)
qed

end
