(* ===== verification/Invitation_Service.thy ===== *)
theory Invitation_Service
  imports Capability Invitation_Response Invitation_Recovery Invitation_Open Invitation_Management
begin

text \<open>
  The invitation service (\<open>internal/invitation/service.go\<close>, \<open>management.go\<close>). A service
  operation runs queries, transactions and deliveries one after the other, and a failure after
  a committed transaction does not undo it. It is an action: a function from the world (the
  database and the messages handed to the senders) to the world and a result.

  Clock readings, random tokens and UUIDs come from the argument \<open>en\<close>: the k-th reading of the
  clock and the k-th random token of the operation, and UUIDs indexed by row and position.
\<close>

section \<open>Actions\<close>

datatype outgoing =
    Email id id string string string string \<comment> \<open>event, invitation, to, subject, html, plain\<close>
  | SMS id id string string \<comment> \<open>event, invitation, to, body\<close>

record world =
  w_db :: db
  w_out :: "outgoing list"

type_synonym 'a action = "world \<Rightarrow> world \<times> 'a result"

definition ret :: "'a \<Rightarrow> 'a action" where "ret x w = (w, Inr x)"
definition fail :: "inv_error \<Rightarrow> 'a action" where "fail e w = (w, Inl e)"

definition bind :: "'a action \<Rightarrow> ('a \<Rightarrow> 'b action) \<Rightarrow> 'b action" where
  "bind m f w = (case m w of (w', Inl e) \<Rightarrow> (w', Inl e) | (w', Inr x) \<Rightarrow> f x w')"

text \<open>A value computed without the database, and the early return \<open>if !c { return e }\<close>.\<close>

definition lift :: "'a result \<Rightarrow> 'a action" where "lift r w = (w, r)"
definition ensure :: "bool \<Rightarrow> inv_error \<Rightarrow> unit action" where "ensure c e = lift (guard c e)"

definition query :: "(db \<Rightarrow> 'a result) \<Rightarrow> 'a action" where
  "query q w = (w, q (w_db w))"

text \<open>A transaction: committed with its result, or rolled back.\<close>

definition transact :: "(db \<Rightarrow> (db \<times> 'a) result) \<Rightarrow> 'a action" where
  "transact t w = (case t (w_db w) of Inl e \<Rightarrow> (w, Inl e) | Inr (d, x) \<Rightarrow> (w\<lparr>w_db := d\<rparr>, Inr x))"

definition commit :: "(db \<Rightarrow> db result) \<Rightarrow> unit action" where
  "commit t = transact (\<lambda>d. rbind (t d) (\<lambda>d'. Inr (d', ())))"

text \<open>A message handed to a sender, which returns nil (\<open>None\<close>) or an error.\<close>

definition send :: "(outgoing \<Rightarrow> inv_error option) \<Rightarrow> outgoing \<Rightarrow> inv_error option action" where
  "send sender m w = (w\<lparr>w_out := w_out w @ [m]\<rparr>, Inr (sender m))"

fun for_each :: "('s \<Rightarrow> 'a \<Rightarrow> 's action) \<Rightarrow> 's \<Rightarrow> 'a list \<Rightarrow> 's action" where
  "for_each f s [] = ret s"
| "for_each f s (x # xs) = bind (f s x) (\<lambda>s'. for_each f s' xs)"

lemmas action_defs = ret_def fail_def bind_def lift_def ensure_def query_def transact_def
  commit_def send_def

section \<open>The service\<close>

record env =
  en_clock :: "nat \<Rightarrow> time"
  en_rand :: "nat \<Rightarrow> entropy"
  en_uuid :: "nat \<Rightarrow> nat \<Rightarrow> id"

text \<open>
  The service's fields. The senders are set by the caller and may be absent. The execution of
  the HTML template of the invitation email (title, date, location, URL) and the formatting of
  the event date in its time zone are functions of Go's html/template and time packages; the
  dialect is the database's.
\<close>

record Service =
  svc_signer :: CapabilitySigner
  svc_baseURL :: string
  svc_sessionExpiry :: duration
  svc_recoveryExpiry :: duration
  svc_sendEmail :: "(outgoing \<Rightarrow> inv_error option) option"
  svc_sendSMS :: "(outgoing \<Rightarrow> inv_error option) option"
  svc_smsSenderName :: string
  svc_render_html :: "string \<Rightarrow> string \<Rightarrow> string \<Rightarrow> string \<Rightarrow> string result"
  svc_format_date :: "time \<Rightarrow> string \<Rightarrow> string"
  svc_dialect :: string

definition NewService ::
  "string \<Rightarrow> string \<Rightarrow> duration \<Rightarrow> duration \<Rightarrow> Service \<Rightarrow> Service result" where
  "NewService secretKey baseURL sessionExpiry recoveryExpiry collaborators =
    rbind (NewCapabilitySigner secretKey) (\<lambda>signer.
    if sessionExpiry \<le> 0 then Inl (Internal ''invitation session expiry must be positive'')
    else if recoveryExpiry \<le> 0 then Inl (Internal ''invitation recovery expiry must be positive'')
    else Inr (collaborators\<lparr>svc_signer := signer, svc_baseURL := trim_right (CHR ''/'') baseURL,
      svc_sessionExpiry := sessionExpiry, svc_recoveryExpiry := recoveryExpiry,
      svc_sendEmail := None, svc_sendSMS := None, svc_smsSenderName := []\<rparr>))"

definition SetSMSSenderName :: "string \<Rightarrow> Service \<Rightarrow> Service" where
  "SetSMSSenderName name s = s\<lparr>svc_smsSenderName := trim_space name\<rparr>"

definition privateAccessURL :: "'x runtime_scheme \<Rightarrow> Service \<Rightarrow> Invitation \<Rightarrow> string" where
  "privateAccessURL rt s iv = svc_baseURL s @ ''/invitation/accept#'' @
     Private rt (svc_signer s) (inv_AccessID iv) (inv_TokenVersion iv)"

definition openAccessURL :: "'x runtime_scheme \<Rightarrow> Service \<Rightarrow> OpenEnrollmentConfig \<Rightarrow> string" where
  "openAccessURL rt s config = svc_baseURL s @ ''/enroll#'' @
     Open rt (svc_signer s) (oe_AccessID config) (oe_TokenVersion config)"

section \<open>Validation\<close>

definition given :: "string option \<Rightarrow> bool" where
  "given v = (case v of None \<Rightarrow> False | Some t \<Rightarrow> trim_space t \<noteq> [])"

definition validateContact ::
  "'x runtime_scheme \<Rightarrow> string option \<Rightarrow> string option \<Rightarrow> string \<Rightarrow>
   (string option \<times> string option \<times> string) result" where
  "validateContact rt emailInput phoneInput rawMethod =
    (let trimmed = trim_space rawMethod;
         method = (if trimmed = [] then ''email'' else trimmed);
         email = (if given emailInput then map_option (normalizeEmail rt) emailInput else None);
         phone = (if given phoneInput then map_option normalizePhone phoneInput else None) in
     if method \<noteq> ''email'' \<and> method \<noteq> ''sms'' \<and> method \<noteq> ''none''
     then Inl (Validation ''invalid preferred delivery method'')
     else if (case email of Some v \<Rightarrow> \<not> rt_mail_ok rt v | None \<Rightarrow> False)
     then Inl (Validation ''invalid contact email'')
     else if (case phone of Some v \<Rightarrow> length (trim_prefix ''+'' v) < 7 | None \<Rightarrow> False)
     then Inl (Validation ''invalid contact phone'')
     else if method = ''email'' \<and> email = None
     then Inl (Validation ''contact email is required for email delivery'')
     else if method = ''sms'' \<and> phone = None
     then Inl (Validation ''contact phone is required for SMS delivery'')
     else Inr (email, phone, method))"

definition parseOptionalTime :: "'x runtime_scheme \<Rightarrow> string option \<Rightarrow> string \<Rightarrow> time option result" where
  "parseOptionalTime rt raw msg =
    (if \<not> given raw then Inr None
     else case raw of None \<Rightarrow> Inr None
       | Some v \<Rightarrow> (case rt_parse_rfc3339 rt v of None \<Rightarrow> Inl (Validation msg) | Some t \<Rightarrow> Inr (Some t)))"

definition validateRecipientGroup :: "string \<Rightarrow> string result" where
  "validateRecipientGroup raw =
    (let trimmed = trim_space raw; group = (if trimmed = [] then ''all'' else trimmed) in
     if \<not> validAttendance group \<and> group \<noteq> ''all'' then Inl (Validation ''invalid recipient group'')
     else Inr group)"

section \<open>Delivery\<close>

definition zero_time :: time where "zero_time = - 62135596800 * second"

definition sms_body :: "Service \<Rightarrow> string \<Rightarrow> string \<Rightarrow> string" where
  "sms_body s title url =
    (if svc_smsSenderName s = [] then ''Owl Invites'' else svc_smsSenderName s) @
    '': You'' @ [byte 39] @ ''re invited to '' @ title @ ''. View and RSVP: '' @ url @
    [byte 10, byte 10] @ ''Private household link - don'' @ [byte 39] @ ''t share it.'' @ [byte 10] @
    ''Msg frequency varies. Msg & data rates may apply. Reply STOP to opt out; HELP for help.''"

definition raise_opt :: "inv_error option \<Rightarrow> unit action" where
  "raise_opt e = (case e of None \<Rightarrow> ret () | Some err \<Rightarrow> fail err)"

text \<open>The availability checks of \<open>Deliver\<close>, made before the household is loaded.\<close>

definition delivery_available :: "Service \<Rightarrow> Invitation \<Rightarrow> unit result" where
  "delivery_available s iv =
    (if inv_PreferredDeliveryMethod iv = ''email'' then
       (if inv_ContactEmail iv = None
        then Inl (Validation ''email delivery is not available for this invitation'')
        else if svc_sendEmail s = None
        then Inl (Internal ''invitation email delivery is not configured'') else Inr ())
     else if inv_PreferredDeliveryMethod iv = ''sms'' then
       (if inv_ContactPhone iv = None
        then Inl (Validation ''SMS delivery is not available for this invitation'')
        else if svc_sendSMS s = None
        then Inl (Internal ''invitation SMS delivery is not configured'') else Inr ())
     else Inl (Validation ''delivery is not available for this invitation''))"

definition event_date_text :: "Service \<Rightarrow> EventSummary \<Rightarrow> string" where
  "event_date_text s e = (if ev_EventDate e = zero_time then []
     else svc_format_date s (ev_EventDate e) (ev_Timezone e))"

text \<open>\<open>templates.RenderHouseholdInvitation\<close>: the executed HTML template and the plain text.\<close>

definition invitation_plain :: "string \<Rightarrow> string \<Rightarrow> string \<Rightarrow> string \<Rightarrow> string" where
  "invitation_plain eventTitle eventDate location invitationURL =
    (let nl = [byte 10]; q = [byte 39] in
     ''You'' @ q @ ''re invited'' @ nl @ nl @
     ''You'' @ q @ ''re invited to '' @ eventTitle @ ''.'' @ nl @ nl @
     ''View your invitation for the event details and RSVP for your household.'' @ nl @ nl @
     (if eventDate \<noteq> [] then ''Date: '' @ eventDate @ nl else []) @
     (if location \<noteq> [] then ''Location: '' @ location @ nl else []) @
     (if eventDate \<noteq> [] \<or> location \<noteq> [] then nl else []) @
     ''View invitation & RSVP:'' @ nl @ invitationURL @ nl @ nl @
     ''This invitation link is unique to your household. Please don'' @ q @ ''t share it.'' @ nl @
     ''If you weren'' @ q @ ''t expecting this invitation, you can safely ignore this email.'' @ nl)"

definition RenderHouseholdInvitation ::
  "Service \<Rightarrow> string \<Rightarrow> string \<Rightarrow> string \<Rightarrow> string \<Rightarrow> (string \<times> string) result" where
  "RenderHouseholdInvitation s eventTitle eventDate location invitationURL =
    rbind (svc_render_html s eventTitle eventDate location invitationURL)
      (\<lambda>html. Inr (html, invitation_plain eventTitle eventDate location invitationURL))"

definition Deliver :: "'x runtime_scheme \<Rightarrow> Service \<Rightarrow> id \<Rightarrow> unit action" where
  "Deliver rt s invitationID =
    bind (query (\<lambda>d. or_err (FindByID invitationID d) ErrNotFound)) (\<lambda>iv.
    bind (ensure (inv_RevokedAt iv = None) ErrNotFound) (\<lambda>_.
    bind (lift (delivery_available s iv)) (\<lambda>_.
    bind (query (LoadHousehold rt (inv_ID iv))) (\<lambda>household.
    let url = privateAccessURL rt s iv; event = hh_Event household in
    if inv_PreferredDeliveryMethod iv = ''sms''
    then bind (send (the (svc_sendSMS s)) (SMS (inv_EventID iv) (inv_ID iv)
            (the (inv_ContactPhone iv)) (sms_body s (ev_Title event) url))) raise_opt
    else bind (lift (RenderHouseholdInvitation s (ev_Title event) (event_date_text s event) (ev_Location event) url)) (\<lambda>(html, plain).
      bind (send (the (svc_sendEmail s)) (Email (inv_EventID iv) (inv_ID iv)
            (the (inv_ContactEmail iv)) (''You'' @ [byte 39] @ ''re invited to '' @ ev_Title event) html plain))
        raise_opt)))))"

definition attemptDelivery :: "'x runtime_scheme \<Rightarrow> Service \<Rightarrow> id \<Rightarrow> string \<Rightarrow> DeliveryResult action" where
  "attemptDelivery rt s invitationID warning w =
    (case Deliver rt s invitationID w of
       (w', Inl e) \<Rightarrow> (w', Inr \<lparr> dr_Status = DeliveryFailed, dr_Warning = warning, dr_err = Some e \<rparr>)
     | (w', Inr _) \<Rightarrow> (w', Inr \<lparr> dr_Status = DeliverySent, dr_Warning = [], dr_err = None \<rparr>))"

definition not_requested :: DeliveryResult where
  "not_requested = \<lparr> dr_Status = DeliveryNotRequested, dr_Warning = [], dr_err = None \<rparr>"

section \<open>Creating private invitations\<close>

text \<open>The loop that builds the assigned guests of \<open>CreatePrivate\<close>; UUID 0 is the invitation's.\<close>

definition assigned_guest :: "id \<Rightarrow> string \<Rightarrow> nat \<Rightarrow> Guest" where
  "assigned_guest gid name i = \<lparr> guest_ID = gid, guest_InvitationID = [], guest_Name = name,
     guest_Origin = GuestOriginAssigned, guest_SortOrder = int i, guest_Attendance = [],
     guest_RemovedAt = None, guest_CreatedAt = zero_time, guest_UpdatedAt = zero_time \<rparr>"

definition new_private ::
  "id \<Rightarrow> id \<Rightarrow> string \<Rightarrow> string option \<Rightarrow> string option \<Rightarrow> string \<Rightarrow> int \<Rightarrow> string \<Rightarrow> id \<Rightarrow> Invitation" where
  "new_private iid eventID label email phone method allowance accessID creator = \<lparr>
     inv_ID = iid, inv_EventID = eventID, inv_Label = label, inv_ContactEmail = email,
     inv_ContactPhone = phone, inv_PreferredDeliveryMethod = method,
     inv_AdditionalGuestAllowance = allowance, inv_Source = SourcePrivate,
     inv_OpenEnrollmentID = None, inv_AccessID = accessID, inv_TokenVersion = 1,
     inv_CreatedByUserID = Some creator, inv_RevokedAt = None, inv_RevocationReason = None,
     inv_CreatedAt = zero_time, inv_UpdatedAt = zero_time \<rparr>"

definition build_guests :: "(nat \<Rightarrow> id) \<Rightarrow> string list \<Rightarrow> Guest list result" where
  "build_guests gid names = iloop (\<lambda>i acc rawName.
     let name = trim_space rawName in
     if name = [] then Inl (Validation ''assigned guest names cannot be empty'')
     else if length name > 200
       then Inl (Validation ''assigned guest names must be 200 characters or fewer'')
     else Inr (acc @ [assigned_guest (gid i) name i])) 0 [] names"

definition send_possible :: "string \<Rightarrow> string option \<Rightarrow> string option \<Rightarrow> unit result" where
  "send_possible method email phone =
    (if method = ''email'' then guard (email \<noteq> None) (Validation ''send requires a valid contact email'')
     else if method = ''sms'' then guard (phone \<noteq> None) (Validation ''send requires a valid contact phone'')
     else Inl (Validation ''send requires email or SMS delivery''))"

definition CreatePrivate ::
  "'x runtime_scheme \<Rightarrow> Service \<Rightarrow> env \<Rightarrow> id \<Rightarrow> id \<Rightarrow> CreateRequest \<Rightarrow> CreateResult action" where
  "CreatePrivate rt s en eventID creatorUserID req =
    (let label = trim_space (cr_Label req) in
     bind (ensure (label \<noteq> []) (Validation ''label is required'')) (\<lambda>_.
     bind (ensure (length label \<le> 200) (Validation ''label must be 200 characters or fewer'')) (\<lambda>_.
     bind (ensure (0 \<le> cr_AdditionalGuestAllowance req \<and> cr_AdditionalGuestAllowance req \<le> 50)
        (Validation ''additional guest allowance must be between 0 and 50'')) (\<lambda>_.
     bind (ensure (cr_AssignedGuestNames req \<noteq> [] \<and> length (cr_AssignedGuestNames req) \<le> 100)
        (Validation ''at least one assigned guest is required'')) (\<lambda>_.
     bind (lift (validateContact rt (cr_ContactEmail req) (cr_ContactPhone req)
                   (cr_PreferredDeliveryMethod req))) (\<lambda>(email, phone, method).
     bind (if cr_Send req then lift (send_possible method email phone) else ret ()) (\<lambda>_.
     bind (lift (randomToken (en_rand en 0) 18)) (\<lambda>accessID.
     bind (lift (build_guests (\<lambda>i. en_uuid en 0 (Suc i)) (cr_AssignedGuestNames req))) (\<lambda>guests.
     bind (transact (Create rt (en_clock en 0) (en_uuid en 1 0)
             (new_private (en_uuid en 0 0) eventID label email phone method
                (cr_AdditionalGuestAllowance req) accessID creatorUserID) guests)) (\<lambda>(iv, guests).
     bind (if cr_Send req
           then attemptDelivery rt s (inv_ID iv)
             ''Invitation created, but delivery failed. Use the private link or retry delivery.''
           else ret not_requested) (\<lambda>delivery.
     ret \<lparr> cres_Invitation = iv, cres_Guests = guests, cres_AccessURL = privateAccessURL rt s iv,
           cres_Delivery = delivery \<rparr>)))))))))))"

section \<open>Rotation and revocation\<close>

definition ServiceRotate :: "'x runtime_scheme \<Rightarrow> Service \<Rightarrow> env \<Rightarrow> id \<Rightarrow> id \<Rightarrow> CreateResult action" where
  "ServiceRotate rt s en eventID invitationID =
    bind (transact (Rotate (en_clock en 0) invitationID eventID)) (\<lambda>iv.
    bind (query (LoadHousehold rt invitationID)) (\<lambda>household.
    bind (lift (or_err iv (Internal ''nil invitation''))) (\<lambda>iv.
    ret \<lparr> cres_Invitation = iv, cres_Guests = hh_Guests household,
          cres_AccessURL = privateAccessURL rt s iv, cres_Delivery = not_requested \<rparr>)))"

definition ServiceRevoke :: "env \<Rightarrow> id \<Rightarrow> id \<Rightarrow> string \<Rightarrow> unit action" where
  "ServiceRevoke en eventID invitationID rawReason =
    (let reason = trim_space rawReason in
     bind (ensure (length reason \<le> 500) (Validation ''revocation reason must be 500 characters or fewer''))
       (\<lambda>_. commit (Revoke (en_clock en 0) invitationID eventID reason)))"

section \<open>Guest sessions\<close>

definition ExchangePrivate ::
  "'x runtime_scheme \<Rightarrow> Service \<Rightarrow> env \<Rightarrow> string \<Rightarrow> (string \<times> Household) action" where
  "ExchangePrivate rt s en rawCapability =
    bind (lift (ParsePrivate rt (svc_signer s) rawCapability)) (\<lambda>(accessID, version).
    bind (query (\<lambda>d. or_err (FindByAccessID accessID d) ErrInvalidCapability)) (\<lambda>iv.
    bind (ensure (inv_RevokedAt iv = None \<and> inv_TokenVersion iv = version) ErrInvalidCapability) (\<lambda>_.
    bind (lift (randomToken (en_rand en 0) 32)) (\<lambda>rawSession.
    bind (commit (CreateSession (en_clock en 1) (inv_ID iv) (hashToken rt rawSession) version
            (en_clock en 0 + svc_sessionExpiry s))) (\<lambda>_.
    bind (query (LoadHousehold rt (inv_ID iv))) (\<lambda>household.
    ret (rawSession, household)))))))"

definition session_invitation :: "'x runtime_scheme \<Rightarrow> env \<Rightarrow> string \<Rightarrow> Invitation action" where
  "session_invitation rt en rawSession =
    bind (transact (\<lambda>d. Inr (InvitationForSession (en_clock en 0) (hashToken rt rawSession) d)))
      (\<lambda>iv. lift (or_err iv ErrInvalidCapability))"

definition HouseholdForSession :: "'x runtime_scheme \<Rightarrow> env \<Rightarrow> string \<Rightarrow> Household action" where
  "HouseholdForSession rt en rawSession =
    (if rawSession = [] then fail ErrInvalidCapability
     else bind (session_invitation rt en rawSession) (\<lambda>iv. query (LoadHousehold rt (inv_ID iv))))"

definition SubmitForSession ::
  "'x runtime_scheme \<Rightarrow> env \<Rightarrow> string \<Rightarrow> SubmitRequest \<Rightarrow> Household action" where
  "SubmitForSession rt en rawSession req =
    bind (session_invitation rt en rawSession) (\<lambda>iv.
    bind (ensure (1 \<le> sr_Version req) (Validation ''response version is required'')) (\<lambda>_.
    bind (commit (SubmitResponse rt (en_clock en 1) (en_uuid en 0) (inv_ID iv) req)) (\<lambda>_.
    query (LoadHousehold rt (inv_ID iv)))))"

end
