(* ===== verification/Invitation_Flows.thy ===== *)
theory Invitation_Flows
  imports Invitation_Service
begin

text \<open>
  The remaining operations of the invitation service: recovery by contact, open enrollment,
  broadcasts to households (\<open>internal/invitation/service.go\<close>), and the organizer's list and
  edit of households (\<open>management.go\<close>).
\<close>

section \<open>Recovery\<close>

definition recovery_url :: "Service \<Rightarrow> string \<Rightarrow> string" where
  "recovery_url s raw = svc_baseURL s @ ''/invitation/recover#'' @ raw"

definition recovery_minutes :: "Service \<Rightarrow> string" where
  "recovery_minutes s = itoa (svc_recoveryExpiry s div minute)"

definition recovery_mail :: "Service \<Rightarrow> Invitation \<Rightarrow> string \<Rightarrow> string \<Rightarrow> outgoing" where
  "recovery_mail s iv title raw =
    (let url = recovery_url s raw; nl = [byte 10]; dq = [byte 34] in
     Email (inv_EventID iv) (inv_ID iv) (the (inv_ContactEmail iv))
       (''Recover your invitation '' @ [byte 226, byte 128, byte 148] @ '' '' @ title)
       (''<p>Use this one-time link to recover your invitation:</p><p><a href='' @ dq @
          escape_string url @ dq @ ''>Recover invitation</a></p><p>It expires in '' @
          recovery_minutes s @ '' minutes.</p>'')
       (''Use this one-time link to recover your invitation:'' @ nl @ url @ nl @ nl @
          ''It expires in '' @ recovery_minutes s @ '' minutes.''))"

text \<open>
  One iteration over the matching invitations. The state is the index of the iteration, which
  selects its random token and clock readings.
\<close>

definition recovery_step ::
  "'x runtime_scheme \<Rightarrow> Service \<Rightarrow> env \<Rightarrow> string \<Rightarrow> nat \<Rightarrow> Invitation \<Rightarrow> nat action" where
  "recovery_step rt s en destinationKind k iv =
    (if destinationKind \<noteq> ''email'' \<or> inv_PreferredDeliveryMethod iv \<noteq> ''email'' \<or>
        inv_ContactEmail iv = None \<or> svc_sendEmail s = None
     then ret (Suc k)
     else bind (lift (randomToken (en_rand en k) 32)) (\<lambda>raw.
       bind (commit (CreateRecoveryToken (en_clock en (2 * k + 3)) (inv_ID iv) (hashToken rt raw) ''email''
               (en_clock en (2 * k + 2) + svc_recoveryExpiry s))) (\<lambda>_.
       bind (query (LoadHousehold rt (inv_ID iv))) (\<lambda>household.
       bind (send (the (svc_sendEmail s)) (recovery_mail s iv (ev_Title (hh_Event household)) raw)) (\<lambda>e.
       bind (raise_opt e) (\<lambda>_. ret (Suc k)))))))"

definition RequestRecovery ::
  "'x runtime_scheme \<Rightarrow> Service \<Rightarrow> env \<Rightarrow> string \<Rightarrow> string \<Rightarrow> string \<Rightarrow> unit action" where
  "RequestRecovery rt s en rawEventID rawContact sourceIdentity =
    (let eventID = trim_space rawEventID; contact = trim_space rawContact;
         is_email = CHR ''@'' \<in> set contact;
         normalized = (if is_email then normalizeEmail rt contact else normalizePhone contact);
         destinationKind = (if is_email then ''email'' else ''sms'') in
     if eventID = [] \<or> contact = [] \<or> normalized = [] then ret ()
     else bind (query (\<lambda>d. Inr (EventExists eventID d))) (\<lambda>exists.
       if \<not> exists then ret ()
       else bind (transact (AllowRecovery (svc_dialect s) (en_clock en 0) (en_clock en 1) eventID
                    (fingerprint rt (svc_signer s) [''source'', sourceIdentity])
                    (fingerprint rt (svc_signer s) [''destination'', eventID, normalized]))) (\<lambda>allowed.
       if \<not> allowed then ret ()
       else bind (query (\<lambda>d. Inr (FindRecoveryMatches eventID normalized d))) (\<lambda>matches.
         bind (for_each (recovery_step rt s en destinationKind) 0 matches) (\<lambda>_. ret ())))))"

definition ExchangeRecovery ::
  "'x runtime_scheme \<Rightarrow> Service \<Rightarrow> env \<Rightarrow> string \<Rightarrow> (string \<times> Household) action" where
  "ExchangeRecovery rt s en rawRecovery =
    (if length rawRecovery < 32 then fail ErrInvalidCapability
     else bind (lift (randomToken (en_rand en 0) 32)) (\<lambda>rawSession.
       bind (transact (ConsumeRecoveryAndCreateSession (en_clock en 1) (hashToken rt rawRecovery)
               (hashToken rt rawSession) (en_clock en 0 + svc_sessionExpiry s))) (\<lambda>iv.
       bind (lift (or_err iv (Internal ''nil invitation''))) (\<lambda>iv.
       bind (query (LoadHousehold rt (inv_ID iv))) (\<lambda>household.
       ret (rawSession, household))))))"

section \<open>Open enrollment\<close>

definition ServiceConfigureOpen ::
  "'x runtime_scheme \<Rightarrow> Service \<Rightarrow> env \<Rightarrow> id \<Rightarrow> id \<Rightarrow> ConfigureOpenRequest \<Rightarrow>
   (OpenEnrollmentConfig \<times> string) action" where
  "ServiceConfigureOpen rt s en eventID creatorUserID req =
    bind (ensure (1 \<le> co_MaxPartySize req \<and> co_MaxPartySize req \<le> 50)
       (Validation ''max party size must be between 1 and 50'')) (\<lambda>_.
    bind (ensure (case co_Capacity req of None \<Rightarrow> True | Some c \<Rightarrow> 1 \<le> c)
       (Validation ''capacity must be positive'')) (\<lambda>_.
    bind (lift (parseOptionalTime rt (co_OpensAt req) ''opensAt must be RFC3339'')) (\<lambda>opensAt.
    bind (lift (parseOptionalTime rt (co_ClosesAt req) ''closesAt must be RFC3339'')) (\<lambda>closesAt.
    bind (ensure (case (opensAt, closesAt) of (Some a, Some b) \<Rightarrow> a < b | _ \<Rightarrow> True)
       (Validation ''opensAt must be before closesAt'')) (\<lambda>_.
    bind (query (\<lambda>d. Inr (FindOpenByEvent eventID d))) (\<lambda>found.
    bind (case found of
        Some config \<Rightarrow> ret config
      | None \<Rightarrow> bind (lift (randomToken (en_rand en 0) 18)) (\<lambda>accessID.
          ret \<lparr> oe_ID = en_uuid en 0 0, oe_EventID = eventID, oe_Enabled = False, oe_OpensAt = None,
                oe_ClosesAt = None, oe_MaxPartySize = 0, oe_Capacity = None, oe_TokenVersion = 1,
                oe_RevokedAt = None, oe_CreatedAt = zero_time, oe_UpdatedAt = zero_time,
                oe_AccessID = accessID \<rparr>)) (\<lambda>config.
    bind (commit (ConfigureOpen (en_clock en 0)
            (config\<lparr>oe_Enabled := co_Enabled req, oe_OpensAt := opensAt, oe_ClosesAt := closesAt,
                    oe_MaxPartySize := co_MaxPartySize req, oe_Capacity := co_Capacity req\<rparr>)
            creatorUserID)) (\<lambda>_.
    bind (query (\<lambda>d. or_err (FindOpenByEvent eventID d) (Internal ''nil open enrollment''))) (\<lambda>config.
    ret (config, openAccessURL rt s config))))))))))"

definition ServiceRotateOpen ::
  "'x runtime_scheme \<Rightarrow> Service \<Rightarrow> env \<Rightarrow> id \<Rightarrow> (OpenEnrollmentConfig \<times> string) action" where
  "ServiceRotateOpen rt s en eventID =
    bind (transact (RotateOpen (en_clock en 0) eventID)) (\<lambda>found.
    bind (lift (or_err found (Internal ''nil open enrollment''))) (\<lambda>config.
    ret (config, openAccessURL rt s config)))"

definition open_now :: "time \<Rightarrow> OpenEnrollmentConfig \<Rightarrow> bool" where
  "open_now now config \<longleftrightarrow> oe_Enabled config \<and> oe_RevokedAt config = None \<and>
    \<not> (case oe_OpensAt config of Some t \<Rightarrow> now < t | None \<Rightarrow> False) \<and>
    \<not> (case oe_ClosesAt config of Some t \<Rightarrow> \<not> now < t | None \<Rightarrow> False)"

definition validOpen ::
  "'x runtime_scheme \<Rightarrow> Service \<Rightarrow> time \<Rightarrow> string \<Rightarrow> OpenEnrollmentConfig action" where
  "validOpen rt s now raw =
    bind (lift (ParseOpen rt (svc_signer s) raw)) (\<lambda>(accessID, version).
    bind (query (\<lambda>d. or_err (FindOpenByAccessID accessID d) ErrInvalidCapability)) (\<lambda>config.
    bind (ensure (oe_TokenVersion config = version \<and> open_now now config) ErrInvalidCapability) (\<lambda>_.
    ret config)))"

definition InspectOpen ::
  "'x runtime_scheme \<Rightarrow> Service \<Rightarrow> env \<Rightarrow> string \<Rightarrow> (OpenEnrollmentConfig \<times> EventSummary) action" where
  "InspectOpen rt s en raw =
    bind (validOpen rt s (en_clock en 0) raw) (\<lambda>config.
    bind (query (find_event (oe_EventID config))) (\<lambda>event. ret (config, event)))"

definition build_open_guests :: "(nat \<Rightarrow> id) \<Rightarrow> string list \<Rightarrow> Guest list result" where
  "build_open_guests gid names = iloop (\<lambda>i acc rawName.
     let name = trim_space rawName in
     if name = [] \<or> length name > 200
     then Inl (Validation ''guest names must be between 1 and 200 characters'')
     else Inr (acc @ [assigned_guest (gid i) name i])) 0 [] names"

definition new_open ::
  "id \<Rightarrow> OpenEnrollmentConfig \<Rightarrow> string \<Rightarrow> string option \<Rightarrow> string option \<Rightarrow> string \<Rightarrow> string \<Rightarrow> Invitation"
where
  "new_open iid config label email phone method accessID = \<lparr>
     inv_ID = iid, inv_EventID = oe_EventID config, inv_Label = label, inv_ContactEmail = email,
     inv_ContactPhone = phone, inv_PreferredDeliveryMethod = method,
     inv_AdditionalGuestAllowance = 0, inv_Source = SourceOpen,
     inv_OpenEnrollmentID = Some (oe_ID config), inv_AccessID = accessID, inv_TokenVersion = 1,
     inv_CreatedByUserID = None, inv_RevokedAt = None, inv_RevocationReason = None,
     inv_CreatedAt = zero_time, inv_UpdatedAt = zero_time \<rparr>"

definition ServiceEnrollOpen ::
  "'x runtime_scheme \<Rightarrow> Service \<Rightarrow> env \<Rightarrow> OpenEnrollmentRequest \<Rightarrow> (string \<times> Household \<times> DeliveryResult) action"
where
  "ServiceEnrollOpen rt s en req =
    bind (validOpen rt s (en_clock en 0) (or_Capability req)) (\<lambda>config.
    let label = trim_space (or_Label req); party = length (or_GuestNames req) in
    bind (ensure (label \<noteq> []) (Validation ''label is required'')) (\<lambda>_.
    bind (ensure (1 \<le> party \<and> int party \<le> oe_MaxPartySize config)
       (Validation ''party size is outside the open invitation limit'')) (\<lambda>_.
    bind (query (find_event (oe_EventID config))) (\<lambda>event.
    bind (query (listQuestions rt (oe_EventID config))) (\<lambda>questions.
    bind (ensure (trim_space (or_PreferredDeliveryMethod req) = ''email'')
       (Validation ''open enrollment requires email delivery'')) (\<lambda>_.
    bind (lift (validateContact rt (or_ContactEmail req) (or_ContactPhone req) ''email''))
      (\<lambda>(email, phone, method).
    bind (lift (randomToken (en_rand en 0) 18)) (\<lambda>accessID.
    bind (lift (build_open_guests (\<lambda>i. en_uuid en 0 (Suc i)) (or_GuestNames req))) (\<lambda>guests.
    bind (lift (randomToken (en_rand en 1) 32)) (\<lambda>rawSession.
    bind (transact (EnrollOpen rt (en_clock en 2) (en_uuid en 1 0) config
            (new_open (en_uuid en 0 0) config label email phone method accessID) guests
            (hashToken rt rawSession) (en_clock en 1 + svc_sessionExpiry s))) (\<lambda>(response, iv, guests).
    bind (attemptDelivery rt s (inv_ID iv)
       ''Enrollment succeeded, but the management email could not be sent. Keep this browser session open or request recovery later.'')
      (\<lambda>delivery.
    ret (rawSession,
      \<lparr> hh_Invitation = iv, hh_Event = event, hh_Response = Some response, hh_Guests = guests,
        hh_Questions = questions, hh_InvitationAnswers = [], hh_GuestAnswers = [],
        hh_Presentation = None, hh_LatestDelivery = None \<rparr>, delivery)))))))))))))"

section \<open>Messages to households\<close>

definition message_html :: "string \<Rightarrow> string \<Rightarrow> string" where
  "message_html body url = ''<p>'' @ escape_string body @ ''</p><p><a href='' @ [byte 34] @
     escape_string url @ [byte 34] @ ''>Manage your private invitation</a></p>''"

definition message_plain :: "string \<Rightarrow> string \<Rightarrow> string" where
  "message_plain body url = body @ [byte 10, byte 10] @ ''Manage your private invitation:'' @ [byte 10] @ url"

definition broadcast_step ::
  "'x runtime_scheme \<Rightarrow> Service \<Rightarrow> id \<Rightarrow> string \<Rightarrow> string \<Rightarrow> MessageResult \<Rightarrow> Invitation \<Rightarrow> MessageResult action"
where
  "broadcast_step rt s eventID subject body result iv =
    (if inv_PreferredDeliveryMethod iv \<noteq> ''email'' \<or> inv_ContactEmail iv = None
     then ret (result\<lparr>mres_Skipped := Suc (mres_Skipped result)\<rparr>)
     else let result = result\<lparr>mres_Attempted := Suc (mres_Attempted result)\<rparr>;
              url = privateAccessURL rt s iv in
       bind (send (the (svc_sendEmail s)) (Email eventID (inv_ID iv) (the (inv_ContactEmail iv))
               subject (message_html body url) (message_plain body url))) (\<lambda>e.
       ret (case e of
           None \<Rightarrow> result\<lparr>mres_Accepted := Suc (mres_Accepted result)\<rparr>
         | Some err \<Rightarrow> if err = ErrDeliverySuppressed
             then result\<lparr>mres_Skipped := Suc (mres_Skipped result)\<rparr>
             else result\<lparr>mres_Failed := Suc (mres_Failed result)\<rparr>)))"

definition no_result :: MessageResult where
  "no_result = \<lparr> mres_Attempted = 0, mres_Accepted = 0, mres_Failed = 0, mres_Skipped = 0 \<rparr>"

definition BroadcastDetailed ::
  "'x runtime_scheme \<Rightarrow> Service \<Rightarrow> env \<Rightarrow> id \<Rightarrow> id option \<Rightarrow> MessageRequest \<Rightarrow> MessageResult action" where
  "BroadcastDetailed rt s en eventID senderUserID req =
    bind (lift (validateRecipientGroup (trim_space (mr_RecipientGroup req)))) (\<lambda>group.
    let subject = trim_space (mr_Subject req); body = trim_space (mr_Body req) in
    bind (ensure (subject \<noteq> [] \<and> length subject \<le> 200)
       (Validation ''subject is required and must be 200 characters or fewer'')) (\<lambda>_.
    bind (ensure (body \<noteq> [] \<and> length body \<le> 10000)
       (Validation ''body is required and must be 10000 characters or fewer'')) (\<lambda>_.
    bind (ensure (svc_sendEmail s \<noteq> None)
       (Internal ''invitation email delivery is not configured'')) (\<lambda>_.
    bind (query (\<lambda>d. Inr (ListDeliveryTargets eventID group d))) (\<lambda>targets.
    bind (transact (CreateMessage (en_clock en 0) (en_uuid en 0 0)
            \<lparr> msg_ID = [], msg_EventID = eventID, msg_SenderUserID = senderUserID,
              msg_RecipientGroup = group, msg_Subject = subject, msg_Body = body,
              msg_CreatedAt = zero_time \<rparr>)) (\<lambda>message.
    for_each (broadcast_step rt s eventID subject body) no_result targets))))))"

definition Broadcast ::
  "'x runtime_scheme \<Rightarrow> Service \<Rightarrow> env \<Rightarrow> id \<Rightarrow> id option \<Rightarrow> MessageRequest \<Rightarrow> nat action" where
  "Broadcast rt s en eventID senderUserID req =
    bind (BroadcastDetailed rt s en eventID senderUserID req) (\<lambda>result.
    bind (ensure (mres_Failed result = 0)
       (Internal (itoa (int (mres_Failed result)) @ '' invitation deliveries failed''))) (\<lambda>_.
    ret (mres_Accepted result)))"

definition PreviewBroadcast :: "id \<Rightarrow> string \<Rightarrow> MessagePreview action" where
  "PreviewBroadcast eventID recipientGroup =
    bind (lift (validateRecipientGroup recipientGroup)) (\<lambda>group.
    bind (query (\<lambda>d. Inr (ListDeliveryTargets eventID group d))) (\<lambda>targets.
    ret \<lparr> mp_RecipientGroup = group, mp_RecipientHouseholds = length targets \<rparr>))"

section \<open>The organizer's list and edits\<close>

record InvitationListFilter =
  fl_Search :: string
  fl_Response :: string
  fl_Attendance :: string

definition stringValue :: "string option \<Rightarrow> string" where
  "stringValue v = (case v of None \<Rightarrow> [] | Some t \<Rightarrow> t)"

text \<open>The dereference of a missing response is a panic of the handler; it is an error here.\<close>

definition matchesOrganizerFilter ::
  "'x runtime_scheme \<Rightarrow> InvitationListFilter \<Rightarrow> Household \<Rightarrow> bool result" where
  "matchesOrganizerFilter rt flt household =
    (let search_values = [inv_Label (hh_Invitation household),
            stringValue (inv_ContactEmail (hh_Invitation household)),
            stringValue (inv_ContactPhone (hh_Invitation household))] @
            map guest_Name (hh_Guests household) in
     if (fl_Response flt = ''submitted'' \<or> fl_Response flt = ''not_submitted'') \<and> hh_Response household = None
     then Inl (Internal ''nil response'')
     else Inr (
       \<not> (fl_Response flt = ''submitted'' \<and> resp_SubmittedAt (the (hh_Response household)) = None) \<and>
       \<not> (fl_Response flt = ''not_submitted'' \<and> resp_SubmittedAt (the (hh_Response household)) \<noteq> None) \<and>
       (fl_Attendance flt \<noteq> [] \<longrightarrow>
         list_ex (\<lambda>g. guest_Attendance g = fl_Attendance flt) (hh_Guests household)) \<and>
       (fl_Search flt = [] \<or> list_ex (\<lambda>v. contains_str (fl_Search flt) (to_lower rt v)) search_values)))"

definition ListOrganizerHouseholds ::
  "'x runtime_scheme \<Rightarrow> id \<Rightarrow> InvitationListFilter \<Rightarrow> Household list action" where
  "ListOrganizerHouseholds rt eventID raw =
    (let flt = raw\<lparr>fl_Search := to_lower rt (trim_space (fl_Search raw))\<rparr> in
     bind (ensure (length (fl_Search flt) \<le> 200) (Validation ''search must be 200 characters or fewer'')) (\<lambda>_.
     bind (ensure (fl_Response flt \<in> set [[], ''submitted'', ''not_submitted''])
        (Validation ''invalid response filter'')) (\<lambda>_.
     bind (ensure (fl_Attendance flt = [] \<or> validAttendance (fl_Attendance flt))
        (Validation ''invalid attendance filter'')) (\<lambda>_.
     bind (query (ListByEvent rt eventID)) (\<lambda>items.
     lift (loop (\<lambda>acc h. rbind (matchesOrganizerFilter rt flt h)
              (\<lambda>m. Inr (if m then acc @ [h] else acc))) [] items))))))"

definition MaxHouseholdGuests :: nat where "MaxHouseholdGuests = 100"

text \<open>The loop that trims the edited guests and refuses a repeated id.\<close>

definition check_edit ::
  "nat \<Rightarrow> string list \<times> AssignedGuestEdit list \<Rightarrow> AssignedGuestEdit \<Rightarrow>
   (string list \<times> AssignedGuestEdit list) result" where
  "check_edit index st guest =
    (let (seenIDs, acc) = st;
         gid = trim_space (age_ID guest); name = trim_space (age_Name guest) in
     if name = [] \<or> length name > 200
     then Inl (Validation (''assigned guest '' @ itoa (int index + 1) @
            '' requires a name of 200 characters or fewer''))
     else if gid \<noteq> [] \<and> gid \<in> set seenIDs
     then Inl (Validation ''assigned guest appears more than once'')
     else Inr (if gid \<noteq> [] then gid # seenIDs else seenIDs, acc @ [\<lparr> age_ID = gid, age_Name = name \<rparr>]))"

definition UpdateInvitation ::
  "'x runtime_scheme \<Rightarrow> env \<Rightarrow> id \<Rightarrow> id \<Rightarrow> UpdateInvitationRequest \<Rightarrow> Household action" where
  "UpdateInvitation rt en eventID invitationID req =
    (let label = trim_space (ur_Label req) in
     bind (ensure (label \<noteq> [] \<and> length label \<le> 200)
        (Validation ''label is required and must be 200 characters or fewer'')) (\<lambda>_.
     bind (ensure (0 \<le> ur_AdditionalGuestAllowance req \<and> ur_AdditionalGuestAllowance req \<le> 50)
        (Validation ''additional guest allowance must be between 0 and 50'')) (\<lambda>_.
     bind (ensure (ur_AssignedGuests req \<noteq> [] \<and> length (ur_AssignedGuests req) \<le> MaxHouseholdGuests)
        (Validation (''between 1 and '' @ itoa (int MaxHouseholdGuests) @ '' assigned guests are required''))) (\<lambda>_.
     bind (lift (validateContact rt (ur_ContactEmail req) (ur_ContactPhone req)
                   (ur_PreferredDeliveryMethod req))) (\<lambda>(email, phone, method).
     bind (lift (iloop check_edit 0 ([], []) (ur_AssignedGuests req))) (\<lambda>(seenIDs, guests).
     bind (commit (StoreUpdateInvitation rt (en_clock en 0) (en_uuid en 0) eventID invitationID
             (req\<lparr>ur_Label := label, ur_ContactEmail := email, ur_ContactPhone := phone,
                  ur_PreferredDeliveryMethod := method, ur_AssignedGuests := guests\<rparr>))) (\<lambda>_.
     query (LoadOrganizerHousehold rt invitationID))))))))"

end
