(* ===== verification/Import_CSV.thy ===== *)
theory Import_CSV
  imports Invitation_Flows
begin

text \<open>
  Importing households from a CSV file (\<open>internal/invitation/csv.go\<close>): the preview, which
  groups and validates the rows and reports every issue, and the commit, which validates the
  reviewed households again and creates them in one transaction.
\<close>

section \<open>Limits and columns\<close>

definition MaxImportBytes :: nat where "MaxImportBytes = 512 * 1024"
definition MaxImportRows :: nat where "MaxImportRows = 5000"
definition MaxImportHouseholds :: nat where "MaxImportHouseholds = 1000"

definition importColumns :: "string list" where
  "importColumns = [''household_key'', ''household_label'', ''contact_email'', ''contact_phone'',
     ''preferred_delivery'', ''additional_guest_allowance'', ''guest_name'']"

definition requiredImportColumns :: "string list" where
  "requiredImportColumns = [''household_key'', ''household_label'', ''preferred_delivery'',
     ''additional_guest_allowance'', ''guest_name'']"

definition issue :: "nat \<Rightarrow> string \<Rightarrow> string \<Rightarrow> ImportIssue" where
  "issue row field msg = \<lparr> ii_Row = row, ii_Field = field, ii_Message = msg \<rparr>"

definition emptyImportPreview :: ImportPreview where
  "emptyImportPreview = \<lparr> ip_HouseholdCount = 0, ip_AssignedGuestCount = 0, ip_Households = [],
     ip_Errors = [], ip_Warnings = [] \<rparr>"

section \<open>Header and rows\<close>

text \<open>The loop over the header: the issues so far and the column indexes.\<close>

definition header_step ::
  "'x runtime_scheme \<Rightarrow> ImportIssue list \<times> (string \<times> nat) list \<Rightarrow> nat \<times> string \<Rightarrow>
   ImportIssue list \<times> (string \<times> nat) list" where
  "header_step rt st ir =
    (let (errors, indexes) = st; (index, raw) = ir; column = trim_space (to_lower rt raw) in
     if column = [] then (errors @ [issue 0 [] ''CSV contains a blank header''], indexes)
     else if column \<notin> set importColumns
     then (errors @ [issue 0 column ''unsupported CSV column''], indexes)
     else if map_of indexes column \<noteq> None
     then (errors @ [issue 0 column ''duplicate CSV header''], indexes)
     else (errors, indexes @ [(column, index)]))"

definition validateImportHeader ::
  "'x runtime_scheme \<Rightarrow> string list \<Rightarrow> ImportIssue list \<times> (string \<times> nat) list" where
  "validateImportHeader rt header =
    (let (errors, indexes) = foldl (header_step rt) ([], []) (enumerate 0 header) in
     (errors @ map (\<lambda>column. issue 0 column ''required CSV column is missing'')
        (filter (\<lambda>column. map_of indexes column = None) requiredImportColumns), indexes))"

definition err_text :: "inv_error \<Rightarrow> string" where
  "err_text e = (case e of
      Validation m \<Rightarrow> m | Internal m \<Rightarrow> m
    | ErrNotFound \<Rightarrow> ''invitation not found''
    | ErrConflict \<Rightarrow> ''response version conflict''
    | ErrAllowance \<Rightarrow> ''additional guest allowance exceeded''
    | ErrCapacity \<Rightarrow> ''open enrollment capacity exceeded''
    | ErrDeliverySuppressed \<Rightarrow> ''invitation delivery suppressed''
    | ErrInvalidCapability \<Rightarrow> ''invalid capability'')"

definition length_issue :: "nat \<Rightarrow> string \<Rightarrow> string \<Rightarrow> nat \<Rightarrow> string \<Rightarrow> ImportIssue list" where
  "length_issue row field what limit v =
    (if v = [] then [issue row field (what @ '' is required'')]
     else if length v > limit
     then [issue row field (what @ '' must be '' @ itoa (int limit) @ '' characters or fewer'')]
     else [])"

definition some_if_given :: "string \<Rightarrow> string option" where
  "some_if_given v = (if v = [] then None else Some v)"

definition validateImportRow ::
  "'x runtime_scheme \<Rightarrow> nat \<Rightarrow> string \<Rightarrow> string \<Rightarrow> string \<Rightarrow> string \<Rightarrow> string \<Rightarrow> string \<Rightarrow> string \<Rightarrow> ImportIssue list"
where
  "validateImportRow rt row hkey label email phone method allowanceRaw guestName =
    length_issue row ''household_key'' ''household key'' 100 hkey @
    length_issue row ''household_label'' ''household label'' 200 label @
    length_issue row ''guest_name'' ''guest name'' 200 guestName @
    (case atoi allowanceRaw of
       Some n \<Rightarrow> if n < 0 \<or> n > 50
         then [issue row ''additional_guest_allowance''
                 ''additional guest allowance must be an integer between 0 and 50''] else []
     | None \<Rightarrow> [issue row ''additional_guest_allowance''
                 ''additional guest allowance must be an integer between 0 and 50'']) @
    (case validateContact rt (some_if_given email) (some_if_given phone) method of
       Inl e \<Rightarrow> [issue row ''preferred_delivery'' (err_text e)] | Inr _ \<Rightarrow> [])"

definition householdConflicts :: "ImportHousehold \<Rightarrow> ImportHousehold \<Rightarrow> string list" where
  "householdConflicts first next =
    (if ih_HouseholdLabel first \<noteq> ih_HouseholdLabel next then [''household_label''] else []) @
    (if stringValue (ih_ContactEmail first) \<noteq> stringValue (ih_ContactEmail next)
     then [''contact_email''] else []) @
    (if stringValue (ih_ContactPhone first) \<noteq> stringValue (ih_ContactPhone next)
     then [''contact_phone''] else []) @
    (if ih_PreferredDelivery first \<noteq> ih_PreferredDelivery next then [''preferred_delivery''] else []) @
    (if ih_AdditionalGuestAllowance first \<noteq> ih_AdditionalGuestAllowance next
     then [''additional_guest_allowance''] else [])"

section \<open>The preview\<close>

text \<open>
  The state of the loop over the data rows: the issues, the households by key in the order of
  their first row (the maps \<open>byKey\<close> and the list \<open>order\<close>), with that row's number, and the
  household keys of every email address.
\<close>

record preview_state =
  pv_errors :: "ImportIssue list"
  pv_households :: "(string \<times> ImportHousehold \<times> nat) list"
  pv_email_keys :: "(string \<times> string list) list"

definition note_email :: "string option \<Rightarrow> string \<Rightarrow> (string \<times> string list) list \<Rightarrow> (string \<times> string list) list"
where
  "note_email email hkey m = (case email of
      None \<Rightarrow> m
    | Some e \<Rightarrow> (case map_of m e of
         None \<Rightarrow> m @ [(e, [hkey])]
       | Some keys \<Rightarrow> map (\<lambda>(e', ks). if e' = e then (e', List.insert hkey ks) else (e', ks)) m))"

definition add_guest_name :: "string \<Rightarrow> string \<Rightarrow> (string \<times> ImportHousehold \<times> nat) list \<Rightarrow> (string \<times> ImportHousehold \<times> nat) list"
where
  "add_guest_name hkey guestName = map (\<lambda>(k, h, row). if k = hkey
     then (k, h\<lparr>ih_AssignedGuestNames := ih_AssignedGuestNames h @ [guestName]\<rparr>, row) else (k, h, row))"

definition accumulate ::
  "'x runtime_scheme \<Rightarrow> nat \<Rightarrow> string \<Rightarrow> ImportHousehold \<Rightarrow> string \<Rightarrow> preview_state \<Rightarrow> preview_state" where
  "accumulate rt rowNumber hkey normalized guestName st =
    (let st_ok = (\<lambda>hs. st\<lparr>pv_households := hs,
           pv_email_keys := note_email (ih_ContactEmail normalized) hkey (pv_email_keys st)\<rparr>) in
     case map_of (pv_households st) hkey of
       None \<Rightarrow>
         if length (pv_households st) \<ge> MaxImportHouseholds
         then st\<lparr>pv_errors := pv_errors st @ [issue rowNumber ''household_key''
                (''CSV exceeds the '' @ itoa (int MaxImportHouseholds) @ '' household limit'')]\<rparr>
         else st_ok (pv_households st @ [(hkey, normalized, rowNumber)])
     | Some (first, firstRow) \<Rightarrow>
         if householdConflicts first normalized \<noteq> []
         then st\<lparr>pv_errors := pv_errors st @ map (\<lambda>field. issue rowNumber field
                (''conflicts with household '' @ rt_quote rt hkey @ '' first defined on row '' @
                 itoa (int firstRow))) (householdConflicts first normalized)\<rparr>
         else if length (ih_AssignedGuestNames first) \<ge> MaxHouseholdGuests
         then st\<lparr>pv_errors := pv_errors st @ [issue rowNumber ''guest_name''
                (''household '' @ rt_quote rt hkey @ '' exceeds the '' @ itoa (int MaxHouseholdGuests) @
                 '' assigned guest limit'')]\<rparr>
         else st_ok (add_guest_name hkey guestName (pv_households st)))"

definition column_value :: "(string \<times> nat) list \<Rightarrow> string list \<Rightarrow> string \<Rightarrow> string" where
  "column_value indexes rec column = (case map_of indexes column of
      None \<Rightarrow> [] | Some index \<Rightarrow> trim_space (rec ! index))"

definition preview_row ::
  "'x runtime_scheme \<Rightarrow> (string \<times> nat) list \<Rightarrow> nat \<Rightarrow> string list \<Rightarrow> preview_state \<Rightarrow> preview_state" where
  "preview_row rt indexes rowNumber rec st =
    (let val = column_value indexes rec;
         hkey = val ''household_key''; label = val ''household_label'';
         emailRaw = val ''contact_email''; phoneRaw = val ''contact_phone'';
         method = to_lower rt (val ''preferred_delivery'');
         allowanceRaw = val ''additional_guest_allowance''; guestName = val ''guest_name'';
         rowErrors = validateImportRow rt rowNumber hkey label emailRaw phoneRaw method allowanceRaw guestName in
     if rowErrors \<noteq> [] then st\<lparr>pv_errors := pv_errors st @ rowErrors\<rparr>
     else accumulate rt rowNumber hkey
       \<lparr> ih_HouseholdKey = hkey, ih_HouseholdLabel = label,
         ih_ContactEmail = map_option (normalizeEmail rt) (some_if_given emailRaw),
         ih_ContactPhone = map_option normalizePhone (some_if_given phoneRaw),
         ih_PreferredDelivery = method,
         ih_AdditionalGuestAllowance = (case atoi allowanceRaw of None \<Rightarrow> 0 | Some n \<Rightarrow> n),
         ih_AssignedGuestNames = [guestName] \<rparr> guestName st)"

text \<open>The loop over \<open>parser.Read\<close>; \<open>rowNumber\<close> is the number of the row read last.\<close>

fun preview_rows ::
  "'x runtime_scheme \<Rightarrow> (string \<times> nat) list \<Rightarrow> nat \<Rightarrow> nat \<Rightarrow> csv_outcome list \<Rightarrow> preview_state \<Rightarrow> preview_state"
where
  "preview_rows rt indexes width rowNumber [] st = st"
| "preview_rows rt indexes width rowNumber (CsvError msg # rest) st =
    st\<lparr>pv_errors := pv_errors st @ [issue (Suc rowNumber) [] (''malformed CSV: '' @ msg)]\<rparr>"
| "preview_rows rt indexes width rowNumber (CsvRecord rec # rest) st =
    (if Suc rowNumber - 1 > MaxImportRows
     then st\<lparr>pv_errors := pv_errors st @ [issue 0 []
            (''CSV exceeds the '' @ itoa (int MaxImportRows) @ '' data row limit'')]\<rparr>
     else if length rec \<noteq> width
     then preview_rows rt indexes width (Suc rowNumber) rest
       (st\<lparr>pv_errors := pv_errors st @ [issue (Suc rowNumber) [] (''expected '' @ itoa (int width) @
            '' columns, found '' @ itoa (int (length rec)))]\<rparr>)
     else preview_rows rt indexes width (Suc rowNumber) rest (preview_row rt indexes (Suc rowNumber) rec st))"

definition finish_preview :: "preview_state \<Rightarrow> ImportPreview" where
  "finish_preview st =
    (let households = map (\<lambda>(k, h, row). h) (pv_households st) in
     \<lparr> ip_HouseholdCount = length households,
       ip_AssignedGuestCount = sum_list (map (\<lambda>h. length (ih_AssignedGuestNames h)) households),
       ip_Households = households, ip_Errors = pv_errors st,
       ip_Warnings = map (\<lambda>(email, keys). issue 0 ''contact_email'' (email @ '' is used by '' @
           itoa (int (length keys)) @ '' households; they will remain separate invitations''))
         (filter (\<lambda>(email, keys). length keys > 1) (pv_email_keys st)) \<rparr>)"

definition bom :: string where "bom = [byte 239, byte 187, byte 191]"

text \<open>The reader's content is \<open>content\<close>; \<open>None\<close> is a read error.\<close>

definition PreviewImportCSV :: "'x runtime_scheme \<Rightarrow> string option \<Rightarrow> ImportPreview result" where
  "PreviewImportCSV rt content = (case content of
      None \<Rightarrow> Inl (Internal ''read invitation import'')
    | Some full \<Rightarrow>
       (let raw = take (MaxImportBytes + 1) full;
            report = (\<lambda>issues. emptyImportPreview\<lparr>ip_Errors := issues\<rparr>) in
        if length raw > MaxImportBytes
        then Inr (report [issue 0 [] (''CSV file exceeds the '' @ itoa (int MaxImportBytes) @ '' byte limit'')])
        else let data = trim_prefix bom raw in
        if \<not> rt_utf8_valid rt data then Inr (report [issue 0 [] ''CSV must be valid UTF-8''])
        else case rt_csv_read rt data of
            [] \<Rightarrow> Inr (report [issue 0 [] ''CSV is empty''])
          | CsvError msg # _ \<Rightarrow> Inr (report [issue 0 [] (''malformed CSV header: '' @ msg)])
          | CsvRecord header # rest \<Rightarrow>
             (let (errors, indexes) = validateImportHeader rt header in
              if errors \<noteq> [] then Inr (report errors)
              else Inr (finish_preview (preview_rows rt indexes (length header) 1 rest
                     \<lparr> pv_errors = [], pv_households = [], pv_email_keys = [] \<rparr>)))))"

section \<open>The commit\<close>

record commit_state =
  ct_seen :: "string list"
  ct_total :: nat
  ct_validated :: "ImportHousehold list"

definition trim_names :: "nat \<Rightarrow> string list \<Rightarrow> string list result" where
  "trim_names index names = iloop (\<lambda>guestIndex acc rawName.
     let name = trim_space rawName in
     if name = [] \<or> length name > 200
     then Inl (Validation (''invalid assigned guest name at household '' @ itoa (int index + 1) @
            '' guest '' @ itoa (int guestIndex + 1)))
     else Inr (acc @ [name])) 0 [] names"

definition commit_step ::
  "'x runtime_scheme \<Rightarrow> nat \<Rightarrow> commit_state \<Rightarrow> ImportHousehold \<Rightarrow> commit_state result" where
  "commit_step rt index st raw =
    (let hkey = trim_space (ih_HouseholdKey raw); label = trim_space (ih_HouseholdLabel raw);
         delivery = to_lower rt (trim_space (ih_PreferredDelivery raw));
         at = itoa (int index + 1) in
     rbind (guard (hkey \<notin> set (ct_seen st)) (Validation (''duplicate household key at household '' @ at))) (\<lambda>_.
     rbind (guard (hkey \<noteq> [] \<and> length hkey \<le> 100) (Validation (''invalid household key at household '' @ at))) (\<lambda>_.
     rbind (guard (label \<noteq> [] \<and> length label \<le> 200) (Validation (''invalid household label at household '' @ at))) (\<lambda>_.
     rbind (guard (0 \<le> ih_AdditionalGuestAllowance raw \<and> ih_AdditionalGuestAllowance raw \<le> 50)
        (Validation (''invalid additional guest allowance at household '' @ at))) (\<lambda>_.
     rbind (guard (ih_AssignedGuestNames raw \<noteq> [] \<and> length (ih_AssignedGuestNames raw) \<le> MaxHouseholdGuests)
        (Validation (''household '' @ at @ '' must contain between 1 and '' @ itoa (int MaxHouseholdGuests) @
           '' assigned guests''))) (\<lambda>_.
     rbind (case validateContact rt (ih_ContactEmail raw) (ih_ContactPhone raw) delivery of
          Inl e \<Rightarrow> Inl (Validation (''household '' @ at @ '': '' @ err_text e)) | Inr x \<Rightarrow> Inr x)
       (\<lambda>(email, phone, method).
     rbind (trim_names index (ih_AssignedGuestNames raw)) (\<lambda>names.
     let total = ct_total st + length names in
     rbind (guard (total \<le> MaxImportRows)
        (Validation (''import exceeds the '' @ itoa (int MaxImportRows) @ '' assigned guest limit''))) (\<lambda>_.
     Inr \<lparr> ct_seen = hkey # ct_seen st, ct_total = total,
           ct_validated = ct_validated st @ [\<lparr> ih_HouseholdKey = hkey, ih_HouseholdLabel = label,
             ih_ContactEmail = email, ih_ContactPhone = phone, ih_PreferredDelivery = method,
             ih_AdditionalGuestAllowance = ih_AdditionalGuestAllowance raw,
             ih_AssignedGuestNames = names \<rparr>] \<rparr>)))))))))"

definition validateImportCommit ::
  "'x runtime_scheme \<Rightarrow> ImportHousehold list \<Rightarrow> ImportHousehold list result" where
  "validateImportCommit rt households =
    rbind (guard (households \<noteq> []) (Validation ''at least one household is required'')) (\<lambda>_.
    rbind (guard (length households \<le> MaxImportHouseholds)
       (Validation (''import exceeds the '' @ itoa (int MaxImportHouseholds) @ '' household limit''))) (\<lambda>_.
    rbind (iloop (commit_step rt) 0 \<lparr> ct_seen = [], ct_total = 0, ct_validated = [] \<rparr> households)
      (\<lambda>st. Inr (ct_validated st))))"

text \<open>
  The records built from the validated households: household \<open>k\<close> takes the k-th random token,
  the UUID \<open>(k, 0)\<close> for itself, and \<open>(k, i + 1)\<close> for its guests.
\<close>

definition import_record :: "env \<Rightarrow> id \<Rightarrow> id \<Rightarrow> nat \<Rightarrow> ImportHousehold \<Rightarrow> ImportRecord result" where
  "import_record en eventID creatorUserID k input =
    rbind (randomToken (en_rand en k) 18) (\<lambda>accessID.
    Inr \<lparr> rec_Invitation = new_private (en_uuid en k 0) eventID (ih_HouseholdLabel input)
            (ih_ContactEmail input) (ih_ContactPhone input) (ih_PreferredDelivery input)
            (ih_AdditionalGuestAllowance input) accessID creatorUserID,
          rec_Guests = map (\<lambda>(i, name). assigned_guest (en_uuid en k (Suc i)) name i)
            (enumerate 0 (ih_AssignedGuestNames input)) \<rparr>)"

definition CommitImport ::
  "'x runtime_scheme \<Rightarrow> env \<Rightarrow> (nat \<Rightarrow> id) \<Rightarrow> id \<Rightarrow> id \<Rightarrow> ImportHousehold list \<Rightarrow> ImportCommitResult action" where
  "CommitImport rt en responseID eventID creatorUserID households =
    bind (lift (validateImportCommit rt households)) (\<lambda>validated.
    bind (lift (iloop (\<lambda>k acc input. rbind (import_record en eventID creatorUserID k input)
              (\<lambda>r. Inr (acc @ [r]))) 0 [] validated)) (\<lambda>records.
    bind (commit (Import rt (en_clock en 0) responseID records)) (\<lambda>_.
    ret \<lparr> icr_HouseholdCount = length validated,
          icr_AssignedGuestCount = sum_list (map (\<lambda>r. length (rec_Guests r)) records),
          icr_InvitationIDs = map (\<lambda>r. inv_ID (rec_Invitation r)) records \<rparr>)))"

end
