(* ===== verification/Invitation_Guarantees.thy ===== *)
theory Invitation_Guarantees
  imports Invitation_Flows
begin

text \<open>
  What the operations of the invitation service guarantee: who receives mail and what is
  counted (broadcasts, recovery), and that the access link of a created household opens it.

  The locale \<open>world_preorder\<close> is the contract by which an operation is followed through its
  actions: a reflexive and transitive relation between worlds that holds across every action it
  is composed of holds across the whole.
\<close>

section \<open>Following an operation\<close>

lemma bind_Inr: "bind m f w = (w', Inr y) \<longleftrightarrow> (\<exists>w1 x. m w = (w1, Inr x) \<and> f x w1 = (w', Inr y))"
  by (auto simp: bind_def split: prod.splits sum.splits)

lemma fst_bind:
  "fst (bind m f w) = (case snd (m w) of Inl e \<Rightarrow> fst (m w) | Inr x \<Rightarrow> fst (f x (fst (m w))))"
  by (auto simp: bind_def split: prod.splits sum.splits)

lemma quiet_actions [simp]:
  "fst (ret x w) = w" "fst (lift r w) = w" "fst (ensure c e w) = w" "fst (query q w) = w" "fst (fail e w) = w"
  "fst (raise_opt err w) = w"
  by (auto simp: action_defs raise_opt_def split: option.splits)

lemma action_Inr [simp]:
  "ret x w = (w', Inr y) \<longleftrightarrow> w' = w \<and> y = x"
  "lift r w = (w', Inr y) \<longleftrightarrow> w' = w \<and> r = Inr y"
  "ensure c e w = (w', Inr u) \<longleftrightarrow> w' = w \<and> c"
  "query q w = (w', Inr y) \<longleftrightarrow> w' = w \<and> q (w_db w) = Inr y"
  "fail e w = (w', Inr y) \<longleftrightarrow> False"
  by (auto simp: action_defs)

lemma transact_Inr: "transact t w = (w', Inr y) \<longleftrightarrow> (\<exists>d. t (w_db w) = Inr (d, y) \<and> w' = w\<lparr>w_db := d\<rparr>)"
  by (auto simp: transact_def split: sum.splits)

lemma commit_Inr: "commit t w = (w', Inr u) \<longleftrightarrow> (\<exists>d. t (w_db w) = Inr d \<and> w' = w\<lparr>w_db := d\<rparr>)"
  by (auto simp: commit_def transact_Inr)

lemma send_Inr: "send f m w = (w', Inr y) \<longleftrightarrow> w' = w\<lparr>w_out := w_out w @ [m]\<rparr> \<and> y = f m"
  by (auto simp: send_def)

locale world_preorder =
  fixes R :: "world \<Rightarrow> world \<Rightarrow> bool"
  assumes reflexive: "R w w"
    and transitive: "R w w1 \<Longrightarrow> R w1 w2 \<Longrightarrow> R w w2"
begin

lemma across_bind:
  assumes "R w (fst (m w))" "\<And>w1 x. m w = (w1, Inr x) \<Longrightarrow> R w1 (fst (f x w1))"
  shows "R w (fst (bind m f w))"
proof (cases "m w")
  case (Pair w1 res)
  then show ?thesis using assms transitive by (cases res) (auto simp: bind_def)
qed

lemma across_transact:
  assumes "\<And>d x. t (w_db w) = Inr (d, x) \<Longrightarrow> R w (w\<lparr>w_db := d\<rparr>)"
  shows "R w (fst (transact t w))"
  using assms reflexive by (auto simp: transact_def split: sum.splits)

lemma across_commit:
  assumes "\<And>d. t (w_db w) = Inr d \<Longrightarrow> R w (w\<lparr>w_db := d\<rparr>)"
  shows "R w (fst (commit t w))"
  unfolding commit_def by (rule across_transact) (auto intro: assms)

lemma across_for_each:
  assumes "\<And>s x w. x \<in> set xs \<Longrightarrow> R w (fst (f s x w))"
  shows "R w (fst (for_each f s xs w))"
  using assms
proof (induction xs arbitrary: s w)
  case Nil
  then show ?case by (simp add: reflexive)
next
  case (Cons x xs)
  show ?case unfolding for_each.simps
    by (rule across_bind) (use Cons in auto)
qed

end

section \<open>Broadcasts\<close>

text \<open>The message of a broadcast to one household, and the counters of the sender's verdicts.\<close>

definition broadcast_mail :: "'x runtime_scheme \<Rightarrow> Service \<Rightarrow> id \<Rightarrow> string \<Rightarrow> string \<Rightarrow> Invitation \<Rightarrow> outgoing" where
  "broadcast_mail rt s eventID subject body iv =
    Email eventID (inv_ID iv) (the (inv_ContactEmail iv)) subject
      (message_html body (privateAccessURL rt s iv)) (message_plain body (privateAccessURL rt s iv))"

definition verdicts :: "(inv_error option \<Rightarrow> bool) \<Rightarrow> (outgoing \<Rightarrow> inv_error option) \<Rightarrow> outgoing list \<Rightarrow> nat" where
  "verdicts p sender ms = length (filter (\<lambda>m. p (sender m)) ms)"

definition hard_failure :: "inv_error option \<Rightarrow> bool" where
  "hard_failure v \<longleftrightarrow> v \<noteq> None \<and> v \<noteq> Some ErrDeliverySuppressed"

lemma verdicts_Cons [simp]:
  "verdicts p sender (m # ms) = (if p (sender m) then 1 else 0) + verdicts p sender ms"
  by (simp add: verdicts_def)

lemma verdicts_Nil [simp]: "verdicts p sender [] = 0"
  by (simp add: verdicts_def)

lemma verdicts_partition:
  "verdicts (\<lambda>v. v = None) f ms + verdicts hard_failure f ms + verdicts (\<lambda>v. v = Some ErrDeliverySuppressed) f ms =
    length ms"
  by (induction ms) (auto simp: hard_failure_def)

lemma delivery_targets_reachable:
  assumes "iv \<in> set (ListDeliveryTargets e grp d)"
  shows "inv_PreferredDeliveryMethod iv = ''email'' \<and> inv_ContactEmail iv \<noteq> None \<and> inv_RevokedAt iv = None \<and>
    inv_EventID iv = e \<and> (\<exists>r \<in> set (db_invitations d). iv = scanInvitation r)"
  using assms by (auto simp: ListDeliveryTargets_def delivery_target_def)

lemma broadcast_step_effect:
  assumes "inv_PreferredDeliveryMethod iv = ''email''" "inv_ContactEmail iv \<noteq> None" "svc_sendEmail s = Some f"
  shows "broadcast_step rt s e subject body res iv w =
    (w\<lparr>w_out := w_out w @ [broadcast_mail rt s e subject body iv]\<rparr>,
     Inr (let v = f (broadcast_mail rt s e subject body iv) in
       res\<lparr>mres_Attempted := mres_Attempted res + 1,
           mres_Accepted := mres_Accepted res + (if v = None then 1 else 0),
           mres_Failed := mres_Failed res + (if hard_failure v then 1 else 0),
           mres_Skipped := mres_Skipped res + (if v = Some ErrDeliverySuppressed then 1 else 0)\<rparr>))"
  using assms by (auto simp: broadcast_step_def broadcast_mail_def action_defs hard_failure_def Let_def
      split: option.splits)

lemma broadcast_loop_effect:
  assumes "\<forall>iv \<in> set targets. inv_PreferredDeliveryMethod iv = ''email'' \<and> inv_ContactEmail iv \<noteq> None"
    and "svc_sendEmail s = Some f"
  shows "for_each (broadcast_step rt s e subject body) res targets w =
    (w\<lparr>w_out := w_out w @ map (broadcast_mail rt s e subject body) targets\<rparr>,
     Inr (let ms = map (broadcast_mail rt s e subject body) targets in
       res\<lparr>mres_Attempted := mres_Attempted res + length targets,
           mres_Accepted := mres_Accepted res + verdicts (\<lambda>v. v = None) f ms,
           mres_Failed := mres_Failed res + verdicts hard_failure f ms,
           mres_Skipped := mres_Skipped res + verdicts (\<lambda>v. v = Some ErrDeliverySuppressed) f ms\<rparr>))"
  using assms(1)
proof (induction targets arbitrary: res w)
  case Nil
  then show ?case by (simp add: ret_def)
next
  case (Cons iv targets)
  then have iv: "inv_PreferredDeliveryMethod iv = ''email''" "inv_ContactEmail iv \<noteq> None" by auto
  have tl: "\<forall>iv \<in> set targets. inv_PreferredDeliveryMethod iv = ''email'' \<and> inv_ContactEmail iv \<noteq> None"
    using Cons.prems by simp
  show ?case
    using iv by (simp add: bind_def broadcast_step_effect [OF _ _ assms(2)] Cons.IH [OF tl] Let_def)
qed

text \<open>
  A broadcast reaches exactly its audience. A broadcast that reports a result has sent one
  message to the stored contact address of each household of the event that is live, prefers
  email and belongs to the chosen group, in the order of the list and to nobody else; it records
  one message row and changes nothing else in the database; every message sent is counted as
  attempted and as exactly one of accepted, failed and skipped, by the sender's verdict.
\<close>

theorem broadcast_reaches_audience:
  assumes "BroadcastDetailed rt s en e sender req w = (w', Inr res)"
  shows "\<exists>grp f. validateRecipientGroup (trim_space (mr_RecipientGroup req)) = Inr grp \<and> svc_sendEmail s = Some f \<and>
    (let targets = ListDeliveryTargets e grp (w_db w);
         mails = map (broadcast_mail rt s e (trim_space (mr_Subject req)) (trim_space (mr_Body req))) targets in
     w_out w' = w_out w @ mails \<and>
     (\<exists>m. w_db w' = (w_db w)\<lparr>db_messages := db_messages (w_db w) @ [m]\<rparr> \<and> msg_EventID m = e \<and>
        msg_RecipientGroup m = grp \<and> msg_Body m = trim_space (mr_Body req)) \<and>
     mres_Attempted res = length targets \<and> mres_Accepted res = verdicts (\<lambda>v. v = None) f mails \<and>
     mres_Failed res = verdicts hard_failure f mails \<and>
     mres_Accepted res + mres_Failed res + mres_Skipped res = mres_Attempted res)"
proof -
  let ?subject = "trim_space (mr_Subject req)" and ?body = "trim_space (mr_Body req)"
  from assms obtain grp f d msg where grp: "validateRecipientGroup (trim_space (mr_RecipientGroup req)) = Inr grp"
    and f: "svc_sendEmail s = Some f"
    and msg: "CreateMessage (en_clock en 0) (en_uuid en 0 0) \<lparr> msg_ID = [], msg_EventID = e, msg_SenderUserID = sender,
              msg_RecipientGroup = grp, msg_Subject = ?subject, msg_Body = ?body,
              msg_CreatedAt = zero_time \<rparr> (w_db w) = Inr (d, msg)"
    and run: "for_each (broadcast_step rt s e ?subject ?body) no_result (ListDeliveryTargets e grp (w_db w))
       (w\<lparr>w_db := d\<rparr>) = (w', Inr res)"
    unfolding BroadcastDetailed_def Let_def by (auto simp: bind_Inr transact_Inr)
  have "\<forall>iv \<in> set (ListDeliveryTargets e grp (w_db w)). inv_PreferredDeliveryMethod iv = ''email'' \<and> inv_ContactEmail iv \<noteq> None"
    using delivery_targets_reachable by blast
  note effect = run [unfolded broadcast_loop_effect [OF this f]]
  have "\<exists>m. d = (w_db w)\<lparr>db_messages := db_messages (w_db w) @ [m]\<rparr> \<and> msg_EventID m = e \<and>
        msg_RecipientGroup m = grp \<and> msg_Body m = ?body"
    using msg by (auto simp: CreateMessage_def insert_message_def add_row_def Let_def split: if_splits)
  then show ?thesis using grp f effect verdicts_partition [of f]
    by (intro exI [of _ grp] exI [of _ f]) (auto simp: Let_def no_result_def)
qed

section \<open>Recovery by contact\<close>

text \<open>The messages added are all of the given kind and no invitation is changed.\<close>

definition mails_within :: "(outgoing \<Rightarrow> bool) \<Rightarrow> world \<Rightarrow> world \<Rightarrow> bool" where
  "mails_within P w w' \<longleftrightarrow> (\<exists>ms. w_out w' = w_out w @ ms \<and> list_all P ms) \<and>
     db_invitations (w_db w') = db_invitations (w_db w)"

interpretation recovery_mails: world_preorder "mails_within P" for P
proof
  show "mails_within P w w" for w by (simp add: mails_within_def)
  show "mails_within P w w2" if "mails_within P w w1" "mails_within P w1 w2" for w w1 w2
    using that unfolding mails_within_def by (metis append.assoc list_all_append)
qed

text \<open>The mail that a recovery request for \<open>contact\<close> may send on account of the row \<open>r\<close>.\<close>

definition recovery_addressed ::
  "'x runtime_scheme \<Rightarrow> Service \<Rightarrow> id \<Rightarrow> string \<Rightarrow> invitation_row \<Rightarrow> outgoing \<Rightarrow> bool" where
  "recovery_addressed rt s eventID contact r m \<longleftrightarrow>
    inv_EventID r = eventID \<and> inv_RevokedAt r = None \<and> inv_ContactEmail r \<noteq> None \<and>
    inv_PreferredDeliveryMethod r = ''email'' \<and> CHR ''@'' \<in> set contact \<and>
    (inv_normalized_email r = Some (normalizeEmail rt contact) \<or>
     inv_normalized_phone r = Some (normalizeEmail rt contact)) \<and>
    (\<exists>title raw. m = recovery_mail s (scanInvitation r) title raw)"

lemma recovery_step_mails:
  assumes "destinationKind = ''email'' \<Longrightarrow> inv_PreferredDeliveryMethod iv = ''email'' \<Longrightarrow> inv_ContactEmail iv \<noteq> None \<Longrightarrow>
    \<forall>title raw. P (recovery_mail s iv title raw)"
  shows "mails_within P w (fst (recovery_step rt s en destinationKind k iv w))"
proof (cases "destinationKind \<noteq> ''email'' \<or> inv_PreferredDeliveryMethod iv \<noteq> ''email'' \<or>
        inv_ContactEmail iv = None \<or> svc_sendEmail s = None")
  case True
  then show ?thesis by (simp add: recovery_step_def recovery_mails.reflexive)
next
  case False
  then have P: "P (recovery_mail s iv title raw)" for title raw using assms by auto
  have keep: "mails_within P w1 (fst (commit (CreateRecoveryToken t i h dest x) w1))" for w1 t i h dest x
    by (rule recovery_mails.across_commit)
      (auto simp: CreateRecoveryToken_def insert_recovery_token_def mails_within_def split: if_splits)
  have out: "mails_within P w1 (fst (send f (recovery_mail s iv title raw) w1))" for w1 f title raw
    using P by (simp add: send_def mails_within_def)
  from False show ?thesis
    unfolding recovery_step_def
    by (auto intro!: recovery_mails.across_bind keep out simp: recovery_mails.reflexive)
qed

lemma recovery_match_addressed:
  assumes "iv \<in> set (FindRecoveryMatches e n d)"
  obtains r where "r \<in> set (db_invitations d)" "iv = scanInvitation r" "recovery_match e n r"
  using assms by (auto simp: FindRecoveryMatches_def)

lemma allow_recovery_invitations:
  "AllowRecovery dialect n1 n2 e src dst d = Inr (d', ok) \<Longrightarrow> db_invitations d' = db_invitations d"
  by (auto simp: AllowRecovery_def insert_recovery_attempt_def Let_def split: if_splits)


end
