(* ===== verification/Invitation_Access.thy ===== *)
theory Invitation_Access
  imports Invitation_Guarantees
begin

text \<open>
  The way of a household into the system: the link that the creation of a private invitation
  returns opens exactly the created household, and the session it starts finds it again until
  the session expires.
\<close>

section \<open>The household after its creation\<close>

lemma order_by_sorted: "sorted_wrt (\<lambda>a b. \<not> lt b a) xs \<Longrightarrow> order_by lt xs = xs"
proof (induction xs)
  case (Cons x xs)
  then show ?case by (cases xs) auto
qed simp

definition increasing_order :: "Guest list \<Rightarrow> bool" where
  "increasing_order guests \<longleftrightarrow> sorted_wrt (<) (map guest_SortOrder guests)"

lemma new_guests_only:
  assumes "insert_household rt verb now r iv guests d = Inr d'" "wf_db d"
  shows "filter (active_guest (inv_ID iv)) (db_guests d') = map (guest_values now (inv_ID iv)) guests"
proof -
  have fresh: "inv_ID iv \<notin> invitation_ids d"
    using assms(1) by (auto simp: insert_household_def invitation_ids_def dest: insert_invitation_D(2))
  have "\<not> active_guest (inv_ID iv) g" if "g \<in> set (db_guests d)" for g
    using that fresh assms(2) by (auto simp: wf_db_def refs_ok_def active_guest_def)
  moreover have "active_guest (inv_ID iv) (guest_values now (inv_ID iv) g)" for g
    by (simp add: active_guest_def)
  ultimately show ?thesis using insert_household_effect [OF assms(1)] by (simp add: filter_empty_conv filter_id_conv)
qed

lemma new_guests_pending:
  assumes "insert_household rt verb now r iv guests d = Inr d'" "wf_db d" "g \<in> set guests"
  shows "attendance_of d' (guest_ID g) = ''pending''"
proof -
  let ?row = "guest_response_values now r (guest_ID g) ''pending''"
  have "wf_db d'" by (rule insert_household_wf [OF assms(1,2)])
  then have "distinct (map gr_guest_id (db_guest_responses d'))" by (simp add: wf_db_def keys_unique_def)
  moreover have "?row \<in> set (db_guest_responses d')"
    using insert_household_effect [OF assms(1)] assms(3) by simp
  ultimately have "select_row (\<lambda>x. gr_guest_id x = guest_ID g) (db_guest_responses d') = Some ?row"
    by (rule select_row_unique) (simp_all add: guest_response_values_def)
  then show ?thesis by (simp add: attendance_of_def guest_response_values_def)
qed

text \<open>The guests of a new household, as the views list them: in the given order and all pending.\<close>

lemma new_household_guests:
  assumes "insert_household rt verb now r iv guests d = Inr d'" "wf_db d" "increasing_order guests"
  shows "map guest_Name (listGuests (inv_ID iv) d') = map guest_Name guests \<and>
    (\<forall>g \<in> set (listGuests (inv_ID iv) d'). guest_Attendance g = ''pending'')"
proof -
  let ?rows = "map (guest_values now (inv_ID iv)) guests"
  have "sorted_wrt (\<lambda>a b. \<not> by_guest_order b a) ?rows"
    using assms(3) unfolding increasing_order_def sorted_wrt_map
    by (rule sorted_wrt_mono_rel [rotated]) (auto simp: by_guest_order_def guest_values_def)
  then have "listGuests (inv_ID iv) d' = map (scanGuest d') ?rows"
    using new_guests_only [OF assms(1,2)] by (simp add: listGuests_def order_by_sorted)
  then show ?thesis using new_guests_pending [OF assms(1,2)]
    by (auto simp: scanGuest_def guest_values_def comp_def)
qed

lemma build_guests_effect:
  assumes "build_guests gid names = Inr guests"
  shows "map guest_Name guests = map trim_space names \<and> map guest_SortOrder guests = map int [0..<length names]"
proof -
  let ?I = "\<lambda>j acc. map guest_Name acc = map trim_space (take j names) \<and> map guest_SortOrder acc = map int [0..<j]"
  have "?I (0 + length names) guests"
    using assms unfolding build_guests_def
    by (rule iloop_indexed)
      (auto simp: Let_def assigned_guest_def take_Suc_conv_app_nth split: if_splits)
  then show ?thesis by simp
qed

lemma build_guests_order: "build_guests gid names = Inr guests \<Longrightarrow> increasing_order guests"
  using build_guests_effect [of gid names guests] by (simp add: increasing_order_def sorted_wrt_map)

section \<open>Opening the household\<close>

text \<open>\<open>crypto/rand.Read\<close> fills the whole buffer or fails.\<close>

definition entropy_fills :: "entropy \<Rightarrow> bool" where
  "entropy_fills rand \<longleftrightarrow> (\<forall>n b. rand n = Some b \<longrightarrow> length b = n)"

lemma random_selector:
  assumes "randomToken rand n = Inr a" "entropy_fills rand" "0 < n"
  shows "selector a"
proof -
  obtain b where "rand n = Some b" "a = base64url b" using assms(1) by (auto simp: randomToken_def split: option.splits)
  moreover have "length (base64url b) > 0" if "length b = n" using that assms(3) by (simp add: length_base64url)
  ultimately show ?thesis using assms(2) base64url_no_dot by (auto simp: entropy_fills_def selector_def)
qed

interpretation db_kept: world_preorder "\<lambda>w w'. w_db w' = w_db w"
  by unfold_locales simp_all

lemma deliver_keeps_db: "w_db (fst (Deliver rt s i w)) = w_db w"
  unfolding Deliver_def Let_def
  by (auto intro!: db_kept.across_bind simp: send_def split: prod.splits)

lemma attempt_keeps_db: "attemptDelivery rt s i msg w = (w', res) \<Longrightarrow> w_db w' = w_db w"
  using deliver_keeps_db [of rt s i w] by (auto simp: attemptDelivery_def split: prod.splits sum.splits)

lemma if_quiet_Inr: "(if c then lift r else ret x) w = (w', Inr y) \<longleftrightarrow> w' = w \<and> (if c then r = Inr y else y = x)"
  by simp

text \<open>What a successful creation has done.\<close>

lemma CreatePrivate_E:
  assumes "CreatePrivate rt s en e u req w = (w1, Inr res)"
  obtains email phone mth accessID guests where
    "randomToken (en_rand en 0) 18 = Inr accessID"
    "build_guests (\<lambda>i. en_uuid en 0 (Suc i)) (cr_AssignedGuestNames req) = Inr guests"
    "insert_household rt ''create'' (en_clock en 0) (en_uuid en 1 0)
       (new_private (en_uuid en 0 0) e (trim_space (cr_Label req)) email phone mth
          (cr_AdditionalGuestAllowance req) accessID u) guests (w_db w) = Inr (w_db w1)"
    "cres_Invitation res = (new_private (en_uuid en 0 0) e (trim_space (cr_Label req)) email phone mth
          (cr_AdditionalGuestAllowance req) accessID u)\<lparr>inv_CreatedAt := en_clock en 0, inv_UpdatedAt := en_clock en 0\<rparr>"
    "cres_AccessURL res = privateAccessURL rt s (cres_Invitation res)"
proof -
  from assms obtain contact accessID guests made w0 delivery where
    contact: "validateContact rt (cr_ContactEmail req) (cr_ContactPhone req) (cr_PreferredDeliveryMethod req) = Inr contact"
    and accessID: "randomToken (en_rand en 0) 18 = Inr accessID"
    and guests: "build_guests (\<lambda>i. en_uuid en 0 (Suc i)) (cr_AssignedGuestNames req) = Inr guests"
    and made: "transact (Create rt (en_clock en 0) (en_uuid en 1 0) (new_private (en_uuid en 0 0) e (trim_space (cr_Label req))
       (fst contact) (fst (snd contact)) (snd (snd contact)) (cr_AdditionalGuestAllowance req) accessID u) guests) w = (w0, Inr made)"
    and delivery: "(if cr_Send req then attemptDelivery rt s (inv_ID (fst made))
             ''Invitation created, but delivery failed. Use the private link or retry delivery.''
           else ret not_requested) w0 = (w1, Inr delivery)"
    and res: "res = \<lparr> cres_Invitation = fst made, cres_Guests = snd made, cres_AccessURL = privateAccessURL rt s (fst made),
           cres_Delivery = delivery \<rparr>"
    unfolding CreatePrivate_def Let_def bind_Inr case_prod_unfold action_Inr if_quiet_Inr by blast
  have "w_db w1 = w_db w0" using delivery attempt_keeps_db by (auto split: if_splits)
  then show thesis
    using that [of accessID guests "fst contact" "fst (snd contact)" "snd (snd contact)"] accessID guests made res
    by (auto simp: transact_Inr Create_def new_private_def)
qed


lemma LoadHousehold_ok:
  assumes "FindByID i d = Some iv" "find_event (inv_EventID iv) d = Inr ev" "listQuestions rt (inv_EventID iv) d = Inr qs"
  shows "\<exists>hh. LoadHousehold rt i d = Inr hh \<and> hh_Invitation hh = iv \<and> hh_Guests hh = listGuests i d \<and> hh_Questions hh = qs"
  using assms by (cases "listAnswers i d") (simp add: LoadHousehold_def)

text \<open>The capability of an existing invitation opens a session for it.\<close>

lemma exchange_opens:
  assumes "wf_db (w_db w)" "r \<in> set (db_invitations (w_db w))" "inv_RevokedAt r = None"
    and "selector (inv_AccessID r)" "issuable (inv_TokenVersion r)"
    and "randomToken (en_rand en 0) 32 = Inr raw" "hashToken rt raw \<notin> ss_token_hash ` set (db_sessions (w_db w))"
    and "listQuestions rt (inv_EventID r) (w_db w) = Inr questions"
  shows "\<exists>w' household. ExchangePrivate rt s en (Private rt (svc_signer s) (inv_AccessID r) (inv_TokenVersion r)) w =
      (w', Inr (raw, household)) \<and> hh_Invitation household = scanInvitation r \<and>
      hh_Guests household = listGuests (inv_ID r) (w_db w) \<and> hh_Questions household = questions \<and>
      wf_db (w_db w') \<and> w_db w' = (w_db w)\<lparr>db_sessions := db_sessions (w_db w) @ [session_values (en_clock en 1) (inv_ID r) (hashToken rt raw)
        (inv_TokenVersion r) (en_clock en 0 + svc_sessionExpiry s)]\<rparr>"
proof -
  let ?d = "w_db w"
  let ?ses = "session_values (en_clock en 1) (inv_ID r) (hashToken rt raw) (inv_TokenVersion r) (en_clock en 0 + svc_sessionExpiry s)"
  let ?d' = "?d\<lparr>db_sessions := db_sessions ?d @ [?ses]\<rparr>"
  have keys: "distinct (map inv_AccessID (db_invitations ?d))" "distinct (map inv_ID (db_invitations ?d))"
    "distinct (map ev_ID (db_events ?d))"
    using assms(1) by (simp_all add: wf_db_def keys_unique_def)
  have parse: "ParsePrivate rt (svc_signer s) (Private rt (svc_signer s) (inv_AccessID r) (inv_TokenVersion r)) =
      Inr (inv_AccessID r, inv_TokenVersion r)"
    using private_codec.complete assms(4,5) by blast
  have found: "FindByAccessID (inv_AccessID r) ?d = Some (scanInvitation r)"
    using select_row_unique [OF keys(1) assms(2), of "\<lambda>x. inv_AccessID x = inv_AccessID r"]
    by (simp add: FindByAccessID_def)
  have byid: "FindByID (inv_ID r) ?d' = Some (scanInvitation r)"
    using select_row_unique [OF keys(2) assms(2), of "\<lambda>x. inv_ID x = inv_ID r"] by (simp add: FindByID_def)
  have ses: "CreateSession (en_clock en 1) (inv_ID r) (hashToken rt raw) (inv_TokenVersion r)
      (en_clock en 0 + svc_sessionExpiry s) ?d = Inr ?d'"
    using assms(2,5,7) by (simp add: CreateSession_def insert_session_def add_row_def invitation_ids_def
        issuable_def session_values_def)
  have "inv_EventID r \<in> ev_ID ` set (db_events ?d)"
    using assms(1,2) by (simp add: wf_db_def refs_ok_def event_ids_def)
  then have "\<exists>x \<in> set (db_events ?d). ev_ID x = inv_EventID r" by force
  then obtain ev where ev: "find_event (inv_EventID r) ?d' = Inr ev"
    using select_row_ex [of "\<lambda>e. ev_ID e = inv_EventID r" "db_events ?d"] by (auto simp: find_event_def)
  have same: "listQuestions rt (inv_EventID r) ?d' = Inr questions" "listGuests (inv_ID r) ?d' = listGuests (inv_ID r) ?d"
    using assms(8) by (simp_all add: listQuestions_def listGuests_def scanGuest_def attendance_of_def)
  obtain household where "LoadHousehold rt (inv_ID r) ?d' = Inr household" "hh_Invitation household = scanInvitation r"
    "hh_Guests household = listGuests (inv_ID r) ?d" "hh_Questions household = questions"
    using LoadHousehold_ok [OF byid _ _, of ev rt questions] ev same by auto
  then show ?thesis
    using parse found assms(3,6) ses create_session_wf [OF ses assms(1)]
    by (auto simp: ExchangePrivate_def bind_Inr commit_Inr)
qed


text \<open>A session opened for a live invitation finds it until a second before its expiry.\<close>

lemma session_finds:
  assumes "wf_db (w_db w)" "r \<in> set (db_invitations (w_db w))" "inv_RevokedAt r = None"
    and "ses \<in> set (db_sessions (w_db w))" "ss_token_hash ses = hashToken rt raw" "ss_invitation_id ses = inv_ID r"
    and "ss_revoked_at ses = None" "ss_issued_token_version ses = inv_TokenVersion r"
    and "en_clock en 0 + second \<le> ss_expires_at ses"
  shows "\<exists>w'. session_invitation rt en raw w = (w', Inr (scanInvitation r))"
proof -
  have "session_opens (en_clock en 0) (hashToken rt raw) ses r"
    using assms(3,5-9) by (simp add: session_opens_def stamp_less_if)
  then have "snd (InvitationForSession (en_clock en 0) (hashToken rt raw) (w_db w)) = Some (scanInvitation r)"
    using session_lookup_Some [OF _ assms(4,2)] assms(1) by (simp add: wf_db_def)
  then show ?thesis
    by (cases "InvitationForSession (en_clock en 0) (hashToken rt raw) (w_db w)")
      (auto simp: session_invitation_def bind_Inr transact_Inr)
qed

text \<open>
  C10: the link opens the household. When a private invitation has been created, the access link
  of the result carries a capability whose exchange succeeds and shows the created household:
  the invitation of the result, and its guests with the requested names, trimmed, in the
  requested order, all pending. The session it returns finds the invitation at every time until
  a second before the session expires. (The random source fills its buffers, the hash of the
  session token is new, and the stored options of the event's questions parse.)
\<close>

theorem created_link_opens_household:
  assumes "wf_db (w_db w)" "CreatePrivate rt s en e u req w = (w1, Inr res)" "entropy_fills (en_rand en 0)"
    and "randomToken (en_rand en2 0) 32 = Inr raw" "hashToken rt raw \<notin> ss_token_hash ` set (db_sessions (w_db w1))"
    and "listQuestions rt e (w_db w1) = Inr questions"
    and "en_clock en3 0 + second \<le> en_clock en2 0 + svc_sessionExpiry s"
  shows "\<exists>cap w2 household w3. cres_AccessURL res = svc_baseURL s @ ''/invitation/accept#'' @ cap \<and>
    ExchangePrivate rt s en2 cap w1 = (w2, Inr (raw, household)) \<and>
    hh_Invitation household = cres_Invitation res \<and>
    map guest_Name (hh_Guests household) = map trim_space (cr_AssignedGuestNames req) \<and>
    list_all (\<lambda>g. guest_Attendance g = ''pending'') (hh_Guests household) \<and>
    session_invitation rt en3 raw w2 = (w3, Inr (cres_Invitation res))"
  using assms(2)
proof (rule CreatePrivate_E)
  fix email phone mth accessID guests
  let ?iv = "new_private (en_uuid en 0 0) e (trim_space (cr_Label req)) email phone mth (cr_AdditionalGuestAllowance req) accessID u"
  let ?r = "invitation_values rt (en_clock en 0) ?iv"
  assume access: "randomToken (en_rand en 0) 18 = Inr accessID"
    and guests: "build_guests (\<lambda>i. en_uuid en 0 (Suc i)) (cr_AssignedGuestNames req) = Inr guests"
    and ins: "insert_household rt ''create'' (en_clock en 0) (en_uuid en 1 0) ?iv guests (w_db w) = Inr (w_db w1)"
    and res: "cres_Invitation res = ?iv\<lparr>inv_CreatedAt := en_clock en 0, inv_UpdatedAt := en_clock en 0\<rparr>"
    and url: "cres_AccessURL res = privateAccessURL rt s (cres_Invitation res)"
  have wf: "wf_db (w_db w1)" by (rule insert_household_wf [OF ins assms(1)])
  have r: "?r \<in> set (db_invitations (w_db w1))" using insert_household_effect [OF ins] by simp
  have row: "inv_RevokedAt ?r = None" "selector (inv_AccessID ?r)" "issuable (inv_TokenVersion ?r)" "inv_EventID ?r = e"
    using random_selector [OF access assms(3)] by (simp_all add: new_private_def issuable_def max_int_def)
  have scan: "scanInvitation ?r = cres_Invitation res"
    unfolding res by (simp add: scanInvitation_def invitation_values_def new_private_def Invitation.defs)
  note list = new_household_guests [OF ins assms(1) build_guests_order [OF guests]]
  have q: "listQuestions rt (inv_EventID ?r) (w_db w1) = Inr questions" using assms(6) row(4) by simp
  obtain w2 household where ex: "ExchangePrivate rt s en2 (Private rt (svc_signer s) (inv_AccessID ?r) (inv_TokenVersion ?r)) w1 =
      (w2, Inr (raw, household))" and hh: "hh_Invitation household = scanInvitation ?r" "hh_Guests household = listGuests (inv_ID ?r) (w_db w1)"
    and wf2: "wf_db (w_db w2)" and db2: "w_db w2 = (w_db w1)\<lparr>db_sessions := db_sessions (w_db w1) @ [session_values (en_clock en2 1) (inv_ID ?r) (hashToken rt raw)
        (inv_TokenVersion ?r) (en_clock en2 0 + svc_sessionExpiry s)]\<rparr>"
    using exchange_opens [OF wf r row(1-3) assms(4,5) q, of s] by blast
  from wf2 obtain w3 where "session_invitation rt en3 raw w2 = (w3, Inr (scanInvitation ?r))"
    using session_finds [of w2 ?r "session_values (en_clock en2 1) (inv_ID ?r) (hashToken rt raw)
        (inv_TokenVersion ?r) (en_clock en2 0 + svc_sessionExpiry s)" rt raw en3] r row(1) assms(7)
    by (auto simp: db2 session_values_def)
  then show ?thesis
    using ex hh list url scan build_guests_effect [OF guests] res
    by (intro exI [of _ "Private rt (svc_signer s) (inv_AccessID ?r) (inv_TokenVersion ?r)"] exI [of _ w2]
        exI [of _ household] exI [of _ w3]) (simp add: privateAccessURL_def list_all_iff)
qed

end
