(* ===== verification/Import_Roundtrip.thy ===== *)
theory Import_Roundtrip
  imports Import_CSV Invitation_Access
begin

text \<open>
  The two halves of a CSV import fit together: every household that a preview shows is accepted
  unchanged by the commit, and a commit creates exactly the validated households, all or none,
  without sending anything.
\<close>

section \<open>Contacts are stable under validation\<close>

text \<open>
  What is used of \<open>strings.ToLower\<close> and \<open>mail.ParseAddress\<close>: normalising an address twice
  changes nothing more, and the empty text is not an address.
\<close>

definition contact_stable :: "'x runtime_scheme \<Rightarrow> bool" where
  "contact_stable rt \<longleftrightarrow> (\<forall>v. normalizeEmail rt (normalizeEmail rt v) = normalizeEmail rt v) \<and> \<not> rt_mail_ok rt []"

text \<open>ASCII text that is trimmed stays trimmed when its letters are lowered.\<close>

lemma space_rune_cases:
  assumes "p \<in> set space_runes"
  shows "(\<exists>b \<in> {9, 10, 11, 12, 13, 32}. p = [byte b]) \<or> p \<noteq> [] \<and> \<not> ascii (hd p) \<and> \<not> ascii (last p)"
proof -
  have "p \<in> set (take 6 space_runes) \<union> set (drop 6 space_runes)"
    using assms by (metis append_take_drop_id set_append)
  moreover have "take 6 space_runes = map (\<lambda>b. [byte b]) [9, 10, 11, 12, 13, 32]"
    by (simp add: space_runes_def)
  moreover have "list_all (\<lambda>p. p \<noteq> [] \<and> \<not> ascii (hd p) \<and> \<not> ascii (last p)) (drop 6 space_runes)"
    by (simp add: space_runes_def ascii_def of_char_byte)
  ultimately show ?thesis unfolding list_all_iff by fastforce
qed

lemma ascii_lower_byte [simp]: "ascii (lower_byte c) = ascii c"
  by (auto simp: lower_byte_def ascii_def Let_def of_char_byte)

lemma lower_byte_space: "b < 65 \<Longrightarrow> lower_byte c = byte b \<Longrightarrow> c = byte b"
  by (auto simp: lower_byte_def Let_def byte_eq_iff of_char_byte split: if_splits)

lemma lower_byte_idem [simp]: "lower_byte (lower_byte c) = lower_byte c"
  by (auto simp: lower_byte_def Let_def of_char_byte)

lemma lowered_no_space_prefix:
  assumes "\<And>p. p \<in> set ps \<Longrightarrow> p \<noteq> [] \<Longrightarrow> \<not> prefix p t" "list_all ascii t" "p \<in> set ps"
    and "\<And>p. p \<in> set ps \<Longrightarrow> (\<exists>b \<in> {9, 10, 11, 12, 13, 32}. p = [byte b]) \<or> p \<noteq> [] \<and> \<not> ascii (hd p)"
  shows "\<not> prefix p (map lower_byte t)"
proof
  assume pre: "prefix p (map lower_byte t)"
  have "p \<noteq> []" using assms(3,4) by fastforce
  then obtain c cs where t: "t = c # cs" and hd: "hd p = lower_byte c" using pre prefix_hd [OF pre] by (cases t) auto
  from assms(4) [OF assms(3)] show False
  proof
    assume "\<exists>b \<in> {9, 10, 11, 12, 13, 32}. p = [byte b]"
    then obtain b where b: "b \<in> {9, 10, 11, 12, 13, 32}" "p = [byte b]" by blast
    then have "c = byte b" using hd lower_byte_space [of b c] by auto
    then show False using assms(1) [OF assms(3)] b(2) t by simp
  next
    assume "p \<noteq> [] \<and> \<not> ascii (hd p)"
    then show False using hd assms(2) t by simp
  qed
qed

lemma trim_space_lowered:
  assumes "list_all ascii (trim_space v)"
  shows "trim_space (map lower_byte (trim_space v)) = map lower_byte (trim_space v)"
proof -
  let ?t = "trim_space v"
  have "strip space_runes (map lower_byte ?t) = map lower_byte ?t"
    by (rule strip_id, rule lowered_no_space_prefix [of space_runes])
      (use assms trim_space_no_prefix space_rune_cases in blast)+
  moreover have "strip (map rev space_runes) (map lower_byte (rev ?t)) = map lower_byte (rev ?t)"
  proof (rule strip_id, rule lowered_no_space_prefix [of "map rev space_runes"])
    show "\<not> prefix p (rev ?t)" if "p \<in> set (map rev space_runes)" "p \<noteq> []" for p
      using that strip_no_prefix [of p "map rev space_runes"] by (simp add: trim_space_def)
    show "(\<exists>b \<in> {9, 10, 11, 12, 13, 32}. p = [byte b]) \<or> p \<noteq> [] \<and> \<not> ascii (hd p)"
      if "p \<in> set (map rev space_runes)" for p
      using that space_rune_cases by (fastforce simp: hd_rev)
  qed (use assms in auto)
  ultimately show ?thesis by (simp add: trim_space_def [of "map lower_byte ?t"] rev_map)
qed

lemma contact_stableI:
  assumes "\<And>v. \<not> list_all ascii v \<Longrightarrow> rt_lower rt v = v" "\<not> rt_mail_ok rt []"
  shows "contact_stable rt"
  using assms trim_space_lowered
  by (auto simp: contact_stable_def normalizeEmail_def to_lower_def list_all_iff comp_def)

definition phone_byte :: "char \<Rightarrow> bool" where
  "phone_byte c \<longleftrightarrow> is_digit c \<or> c = CHR ''+''"

lemma phone_byte_graphic: "phone_byte c \<Longrightarrow> graphic c"
  by (auto simp: phone_byte_def is_digit_def graphic_def)

lemma trim_space_phone: "list_all phone_byte s \<Longrightarrow> trim_space s = s"
  by (cases s) (auto simp: list_all_iff intro!: trim_space_graphic phone_byte_graphic)

lemma normalizePhone_shape:
  "\<exists>c cs. normalizePhone v = [] \<or> normalizePhone v = c # cs \<and> phone_byte c \<and> list_all is_digit cs"
proof (cases "trim_space v")
  case Nil
  then show ?thesis by (simp add: normalizePhone_def)
next
  case (Cons c cs)
  have all: "list_all is_digit (filter is_digit xs)" for xs by (simp add: list_all_iff)
  show ?thesis
  proof (cases "phone_byte c")
    case True
    then show ?thesis using Cons all by (auto simp: normalizePhone_def phone_byte_def)
  next
    case False
    then have "normalizePhone v = filter is_digit cs" using Cons by (simp add: normalizePhone_def phone_byte_def)
    then show ?thesis using all [of cs] by (cases "filter is_digit cs") (auto simp: phone_byte_def)
  qed
qed

lemma normalizePhone_idem [simp]: "normalizePhone (normalizePhone v) = normalizePhone v"
proof -
  obtain c cs where "normalizePhone v = [] \<or> normalizePhone v = c # cs \<and> phone_byte c \<and> list_all is_digit cs"
    using normalizePhone_shape by blast
  then show ?thesis
  proof
    assume "normalizePhone v = []"
    then show ?thesis by (simp add: normalizePhone_def [of "[]"])
  next
    assume v: "normalizePhone v = c # cs \<and> phone_byte c \<and> list_all is_digit cs"
    then have "list_all phone_byte (c # cs)" by (auto simp: list_all_iff phone_byte_def)
    then have "trim_space (c # cs) = c # cs" by (rule trim_space_phone)
    moreover have "filter is_digit cs = cs" using v by (simp add: filter_id_conv list_all_iff)
    ultimately show ?thesis using v by (auto simp: normalizePhone_def [of "c # cs"] phone_byte_def)
  qed
qed

lemma trim_space_normalizePhone [simp]: "trim_space (normalizePhone v) = normalizePhone v"
proof -
  obtain c cs where "normalizePhone v = [] \<or> normalizePhone v = c # cs \<and> phone_byte c \<and> list_all is_digit cs"
    using normalizePhone_shape by blast
  then have "list_all phone_byte (normalizePhone v)" by (auto simp: list_all_iff phone_byte_def)
  then show ?thesis by (rule trim_space_phone)
qed

definition settled_method :: "string \<Rightarrow> string" where
  "settled_method raw = (if trim_space raw = [] then ''email'' else trim_space raw)"

lemma to_lower_methods [simp]:
  "to_lower rt [] = []" "to_lower rt ''email'' = ''email''" "to_lower rt ''sms'' = ''sms''" "to_lower rt ''none'' = ''none''"
  by (simp_all add: to_lower_def ascii_def lower_byte_def Let_def)

lemma trim_space_methods [simp]:
  "trim_space ''email'' = ''email''" "trim_space ''sms'' = ''sms''" "trim_space ''none'' = ''none''"
  by (simp_all add: trim_space_graphic graphic_def)

text \<open>A contact that was accepted once is accepted again and comes out the same.\<close>

lemma validateContact_again:
  assumes "contact_stable rt" "validateContact rt e p method = Inr (e', p', m')"
  shows "m' = settled_method method"
    "validateContact rt e' p' (to_lower rt (trim_space method)) = Inr (e', p', m')"
proof -
  have out: "e' = (if given e then map_option (normalizeEmail rt) e else None)"
    "p' = (if given p then map_option normalizePhone p else None)" "m' = settled_method method"
    "m' \<in> {''email'', ''sms'', ''none''}"
    "case e' of Some v \<Rightarrow> rt_mail_ok rt v | None \<Rightarrow> True"
    "case p' of Some v \<Rightarrow> 7 \<le> length (trim_prefix ''+'' v) | None \<Rightarrow> True"
    "m' = ''email'' \<longrightarrow> e' \<noteq> None" "m' = ''sms'' \<longrightarrow> p' \<noteq> None"
    using assms(2) unfolding validateContact_def settled_method_def Let_def
    by (simp_all split: if_splits option.splits, auto)
  show "m' = settled_method method" by (rule out(3))
  have low: "settled_method (to_lower rt (trim_space method)) = m'"
    using out(3,4) by (auto simp: settled_method_def split: if_splits)
  have "given e'" "map_option (normalizeEmail rt) e' = e'" if ne: "e' \<noteq> None"
  proof -
    obtain v where v: "e' = Some v" using ne by blast
    then obtain raw where "v = normalizeEmail rt raw" using out(1) by (auto split: if_splits)
    then have idem: "normalizeEmail rt v = v" using assms(1) by (simp add: contact_stable_def)
    then show "map_option (normalizeEmail rt) e' = e'" using v by simp
    have "trim_space v \<noteq> []"
    proof
      assume "trim_space v = []"
      then have "v = []" using idem by (simp add: normalizeEmail_def)
      then show False using out(5) v assms(1) by (simp add: contact_stable_def)
    qed
    then show "given e'" using v by (simp add: given_def)
  qed
  then have e: "(if given e' then map_option (normalizeEmail rt) e' else None) = e'"
    by (cases e') (simp_all add: given_def)
  have p: "(if given p' then map_option normalizePhone p' else None) = p'"
  proof (cases p')
    case None
    then show ?thesis by (simp add: given_def)
  next
    case (Some v)
    then obtain raw where raw: "v = normalizePhone raw" using out(2) by (auto split: if_splits)
    have "v \<noteq> []" using out(6) Some by (auto simp: trim_prefix_def)
    then show ?thesis using Some raw by (simp add: given_def)
  qed
  show "validateContact rt e' p' (to_lower rt (trim_space method)) = Inr (e', p', m')"
    unfolding validateContact_def Let_def e p
    unfolding settled_method_def [symmetric] low
    using out(4-8) by (auto split: option.splits)
qed

section \<open>What a preview shows can be committed\<close>

definition name_ready :: "nat \<Rightarrow> string \<Rightarrow> bool" where
  "name_ready limit v \<longleftrightarrow> trim_space v = v \<and> v \<noteq> [] \<and> length v \<le> limit"

definition household_ready :: "'x runtime_scheme \<Rightarrow> ImportHousehold \<Rightarrow> bool" where
  "household_ready rt h \<longleftrightarrow> name_ready 100 (ih_HouseholdKey h) \<and> name_ready 200 (ih_HouseholdLabel h) \<and>
    0 \<le> ih_AdditionalGuestAllowance h \<and> ih_AdditionalGuestAllowance h \<le> 50 \<and>
    ih_AssignedGuestNames h \<noteq> [] \<and> length (ih_AssignedGuestNames h) \<le> MaxHouseholdGuests \<and>
    list_all (name_ready 200) (ih_AssignedGuestNames h) \<and>
    validateContact rt (ih_ContactEmail h) (ih_ContactPhone h) (to_lower rt (trim_space (ih_PreferredDelivery h))) =
      Inr (ih_ContactEmail h, ih_ContactPhone h, settled_method (ih_PreferredDelivery h))"

definition guest_total :: "(string \<times> ImportHousehold \<times> nat) list \<Rightarrow> nat" where
  "guest_total hs = sum_list (map (\<lambda>(k, h, row). length (ih_AssignedGuestNames h)) hs)"

definition preview_inv :: "'x runtime_scheme \<Rightarrow> nat \<Rightarrow> preview_state \<Rightarrow> bool" where
  "preview_inv rt n st \<longleftrightarrow> distinct (map fst (pv_households st)) \<and>
    length (pv_households st) \<le> MaxImportHouseholds \<and> guest_total (pv_households st) \<le> n \<and>
    list_all (\<lambda>(k, h, row). k = ih_HouseholdKey h \<and> household_ready rt h) (pv_households st)"

lemma column_value_trimmed [simp]: "trim_space (column_value idx rec c) = column_value idx rec c"
  by (simp add: column_value_def split: option.splits)

lemma length_issue_Nil: "length_issue row f w n v = [] \<longleftrightarrow> v \<noteq> [] \<and> length v \<le> n"
  by (auto simp: length_issue_def)

lemma add_guest_name_keys [simp]: "map fst (add_guest_name k n hs) = map fst hs"
  by (induction hs) (auto simp: add_guest_name_def)

lemma add_guest_name_length [simp]: "length (add_guest_name k n hs) = length hs"
  by (simp add: add_guest_name_def)

lemma guest_total_add_absent: "k \<notin> fst ` set hs \<Longrightarrow> add_guest_name k n hs = hs"
  by (induction hs) (auto simp: add_guest_name_def)

lemma guest_total_add: "distinct (map fst hs) \<Longrightarrow> guest_total (add_guest_name k n hs) \<le> Suc (guest_total hs)"
proof (induction hs)
  case Nil
  then show ?case by (simp add: guest_total_def add_guest_name_def)
next
  case (Cons x hs)
  obtain k' h row where x: "x = (k', h, row)" by (cases x)
  show ?case
  proof (cases "k' = k")
    case True
    then have "add_guest_name k n hs = hs" using Cons.prems x guest_total_add_absent by auto
    then show ?thesis using True by (simp add: x guest_total_def add_guest_name_def)
  next
    case False
    then show ?thesis using Cons by (simp add: x guest_total_def add_guest_name_def)
  qed
qed

lemma accumulate_inv:
  assumes "preview_inv rt n st" "household_ready rt h" "hkey = ih_HouseholdKey h" "ih_AssignedGuestNames h = [g]"
  shows "preview_inv rt (Suc n) (accumulate rt row hkey h g st)"
proof (cases "map_of (pv_households st) hkey")
  case None
  then have fresh: "hkey \<notin> fst ` set (pv_households st)" by (simp add: map_of_eq_None_iff)
  show ?thesis
    using assms None fresh by (auto simp: accumulate_def preview_inv_def Let_def guest_total_def)
next
  case (Some p)
  obtain first firstRow where p: "p = (first, firstRow)" by (cases p)
  have mem: "(hkey, first, firstRow) \<in> set (pv_households st)" using Some p by (simp add: map_of_SomeD)
  let ?hs = "add_guest_name hkey g (pv_households st)"
  have g: "name_ready 200 g" using assms(2,4) by (simp add: household_ready_def)
  have uniq: "h' = first" if "(hkey, h', row') \<in> set (pv_households st)" for h' row'
    using that mem assms(1) by (auto simp: preview_inv_def dest: eq_key_imp_eq_value)
  have "k = ih_HouseholdKey h' \<and> household_ready rt h'"
    if in_hs: "(k, h', row') \<in> set ?hs" and room: "length (ih_AssignedGuestNames first) < MaxHouseholdGuests" for k h' row'
  proof -
    obtain h0 where h0: "(k, h0, row') \<in> set (pv_households st)"
      "h' = (if k = hkey then h0\<lparr>ih_AssignedGuestNames := ih_AssignedGuestNames h0 @ [g]\<rparr> else h0)"
      using in_hs by (auto simp: add_guest_name_def split: if_splits)
    have ready: "k = ih_HouseholdKey h0 \<and> household_ready rt h0"
      using h0(1) assms(1) by (auto simp: preview_inv_def list_all_iff)
    show ?thesis
    proof (cases "k = hkey")
      case True
      then have "h0 = first" using uniq h0(1) by blast
      then show ?thesis using ready room g True h0(2) by (simp add: household_ready_def)
    next
      case False
      then show ?thesis using ready h0(2) by simp
    qed
  qed
  then show ?thesis
    using assms(1) Some p guest_total_add [of "pv_households st" hkey g]
    by (auto simp: accumulate_def preview_inv_def Let_def list_all_iff not_le)
qed

lemma preview_row_inv:
  assumes "contact_stable rt" "preview_inv rt n st"
  shows "preview_inv rt (Suc n) (preview_row rt idx row rec st)"
proof -
  let ?v = "column_value idx rec"
  let ?mth = "to_lower rt (?v ''preferred_delivery'')"
  let ?issues = "validateImportRow rt row (?v ''household_key'') (?v ''household_label'') (?v ''contact_email'')
     (?v ''contact_phone'') ?mth (?v ''additional_guest_allowance'') (?v ''guest_name'')"
  let ?h = "\<lparr> ih_HouseholdKey = ?v ''household_key'', ih_HouseholdLabel = ?v ''household_label'',
         ih_ContactEmail = map_option (normalizeEmail rt) (some_if_given (?v ''contact_email'')),
         ih_ContactPhone = map_option normalizePhone (some_if_given (?v ''contact_phone'')),
         ih_PreferredDelivery = ?mth,
         ih_AdditionalGuestAllowance = (case atoi (?v ''additional_guest_allowance'') of None \<Rightarrow> 0 | Some n \<Rightarrow> n),
         ih_AssignedGuestNames = [?v ''guest_name''] \<rparr>"
  show ?thesis
  proof (cases "?issues = []")
    case False
    then show ?thesis using assms(2) by (simp add: preview_row_def Let_def preview_inv_def)
  next
    case True
    then have lens: "?v ''household_key'' \<noteq> []" "length (?v ''household_key'') \<le> 100"
      "?v ''household_label'' \<noteq> []" "length (?v ''household_label'') \<le> 200"
      "?v ''guest_name'' \<noteq> []" "length (?v ''guest_name'') \<le> 200"
      and allowance: "\<exists>a. atoi (?v ''additional_guest_allowance'') = Some a \<and> 0 \<le> a \<and> a \<le> 50"
      by (auto simp: validateImportRow_def length_issue_Nil split: option.splits if_splits)
    from True obtain e' p' m' where c: "validateContact rt (some_if_given (?v ''contact_email'')) (some_if_given (?v ''contact_phone'')) ?mth = Inr (e', p', m')"
      by (auto simp: validateImportRow_def split: sum.splits)
    have "e' = map_option (normalizeEmail rt) (some_if_given (?v ''contact_email''))"
      "p' = map_option normalizePhone (some_if_given (?v ''contact_phone''))"
      using c by (auto simp: validateContact_def Let_def given_def some_if_given_def split: if_splits)
    then have "household_ready rt ?h"
      using validateContact_again [OF assms(1) c] lens allowance
      by (auto simp: household_ready_def name_ready_def MaxHouseholdGuests_def)
    then show ?thesis
      using accumulate_inv [OF assms(2), of ?h "?v ''household_key''" "?v ''guest_name''" row] True
      by (simp add: preview_row_def Let_def)
  qed
qed

lemma preview_inv_mono: "preview_inv rt n st \<Longrightarrow> n \<le> m \<Longrightarrow> preview_inv rt m (st\<lparr>pv_errors := es\<rparr>)"
  by (simp add: preview_inv_def)

lemma preview_rows_inv:
  assumes "contact_stable rt" "preview_inv rt (rowNumber - 1) st" "1 \<le> rowNumber" "rowNumber - 1 \<le> MaxImportRows"
  shows "preview_inv rt MaxImportRows (preview_rows rt idx width rowNumber rows st)"
  using assms(2-4)
proof (induction rows arbitrary: rowNumber st)
  case Nil
  then show ?case using preview_inv_mono [of rt "rowNumber - 1" st MaxImportRows "pv_errors st"] by simp
next
  case (Cons out rows)
  note keep = preview_inv_mono [OF Cons.prems(1)]
  show ?case
  proof (cases out)
    case (CsvError msg)
    then show ?thesis using keep Cons.prems by simp
  next
    case (CsvRecord rec)
    have row: "preview_inv rt (Suc rowNumber - 1) (preview_row rt idx (Suc rowNumber) rec st)"
      using preview_row_inv [OF assms(1) Cons.prems(1)] Cons.prems(2) by simp
    have bad: "preview_inv rt (Suc rowNumber - 1) (st\<lparr>pv_errors := es\<rparr>)" for es
      by (rule keep) simp
    show ?thesis
      using CsvRecord Cons.IH [OF row] Cons.IH [OF bad] keep Cons.prems(2,3) by (simp add: not_less)
  qed
qed

lemma preview_households_ready:
  assumes "contact_stable rt" "PreviewImportCSV rt content = Inr p"
  shows "distinct (map ih_HouseholdKey (ip_Households p)) \<and> length (ip_Households p) \<le> MaxImportHouseholds \<and>
    sum_list (map (\<lambda>h. length (ih_AssignedGuestNames h)) (ip_Households p)) \<le> MaxImportRows \<and>
    list_all (household_ready rt) (ip_Households p)"
proof -
  have inv: "?thesis" if p: "p = finish_preview st" and st: "preview_inv rt MaxImportRows st" for st
  proof -
    have hs: "ip_Households p = map (\<lambda>(k, h, row). h) (pv_households st)" by (simp add: p finish_preview_def Let_def)
    have keys: "map ih_HouseholdKey (ip_Households p) = map fst (pv_households st)"
      using st by (auto simp: hs preview_inv_def list_all_iff)
    have sizes: "map (\<lambda>h. length (ih_AssignedGuestNames h)) (ip_Households p) =
        map (\<lambda>(k, h, row). length (ih_AssignedGuestNames h)) (pv_households st)"
      by (auto simp: hs)
    have "distinct (map ih_HouseholdKey (ip_Households p))"
      "sum_list (map (\<lambda>h. length (ih_AssignedGuestNames h)) (ip_Households p)) \<le> MaxImportRows"
      unfolding keys sizes using st by (simp_all add: preview_inv_def guest_total_def)
    moreover have "length (ip_Households p) \<le> MaxImportHouseholds" "list_all (household_ready rt) (ip_Households p)"
      using st by (auto simp: hs preview_inv_def list_all_iff)
    ultimately show ?thesis by blast
  qed
  have start: "preview_inv rt (1 - 1) \<lparr> pv_errors = [], pv_households = [], pv_email_keys = [] \<rparr>"
    by (simp add: preview_inv_def guest_total_def)
  have "(\<exists>es. p = emptyImportPreview\<lparr>ip_Errors := es\<rparr>) \<or> (\<exists>st. p = finish_preview st \<and> preview_inv rt MaxImportRows st)"
    using assms(2) preview_rows_inv [OF assms(1) start]
    by (auto simp: PreviewImportCSV_def Let_def split: option.splits if_splits list.splits csv_outcome.splits prod.splits)
  then show ?thesis using inv by (auto simp: emptyImportPreview_def)
qed

section \<open>The commit accepts it\<close>

definition settle :: "ImportHousehold \<Rightarrow> ImportHousehold" where
  "settle h = h\<lparr>ih_PreferredDelivery := settled_method (ih_PreferredDelivery h)\<rparr>"

lemma trim_names_ready: "list_all (name_ready 200) names \<Longrightarrow> trim_names k names = Inr names"
proof -
  have "iloop (\<lambda>guestIndex acc rawName. let name = trim_space rawName in
     if name = [] \<or> length name > 200 then Inl (msg guestIndex) else Inr (acc @ [name])) i acc ns = Inr (acc @ ns)"
    if "list_all (name_ready 200) ns" for msg :: "nat \<Rightarrow> inv_error" and i acc ns
    using that by (induction ns arbitrary: i acc) (auto simp: name_ready_def Let_def)
  then show "list_all (name_ready 200) names \<Longrightarrow> trim_names k names = Inr names" by (simp add: trim_names_def)
qed

lemma commit_step_ready:
  assumes "household_ready rt h" "ih_HouseholdKey h \<notin> set (ct_seen st)"
    and "ct_total st + length (ih_AssignedGuestNames h) \<le> MaxImportRows"
  shows "commit_step rt k st h = Inr \<lparr> ct_seen = ih_HouseholdKey h # ct_seen st,
     ct_total = ct_total st + length (ih_AssignedGuestNames h), ct_validated = ct_validated st @ [settle h] \<rparr>"
  using assms trim_names_ready [of "ih_AssignedGuestNames h" k]
  by (simp add: commit_step_def household_ready_def name_ready_def settle_def Let_def)

lemma commit_loop_ready:
  assumes "list_all (household_ready rt) hs" "distinct (map ih_HouseholdKey hs)"
    and "set (map ih_HouseholdKey hs) \<inter> set (ct_seen st) = {}"
    and "ct_total st + sum_list (map (\<lambda>h. length (ih_AssignedGuestNames h)) hs) \<le> MaxImportRows"
  shows "\<exists>st'. iloop (commit_step rt) k st hs = Inr st' \<and> ct_validated st' = ct_validated st @ map settle hs"
  using assms
proof (induction hs arbitrary: k st)
  case Nil
  then show ?case by simp
next
  case (Cons h hs)
  let ?st = "\<lparr> ct_seen = ih_HouseholdKey h # ct_seen st,
     ct_total = ct_total st + length (ih_AssignedGuestNames h), ct_validated = ct_validated st @ [settle h] \<rparr>"
  have step: "commit_step rt k st h = Inr ?st" by (rule commit_step_ready) (use Cons.prems in auto)
  have "\<exists>st'. iloop (commit_step rt) (Suc k) ?st hs = Inr st' \<and> ct_validated st' = ct_validated ?st @ map settle hs"
    by (rule Cons.IH) (use Cons.prems in auto)
  then show ?case using step by auto
qed

text \<open>
  A previewed import can be committed. The households that a preview shows, if there are
  any, pass the validation of the commit, and come out of it as they were shown, with the
  delivery method that was left blank set to email. (Normalising an address twice changes
  nothing more, and the empty text is not an address.)
\<close>

theorem preview_can_be_committed:
  assumes "contact_stable rt" "PreviewImportCSV rt content = Inr p" "ip_Households p \<noteq> []"
  shows "validateImportCommit rt (ip_Households p) = Inr (map settle (ip_Households p))"
proof -
  note ready = preview_households_ready [OF assms(1,2)]
  have "\<exists>st'. iloop (commit_step rt) 0 \<lparr> ct_seen = [], ct_total = 0, ct_validated = [] \<rparr> (ip_Households p) = Inr st' \<and>
      ct_validated st' = ct_validated \<lparr> ct_seen = [], ct_total = 0, ct_validated = [] \<rparr> @ map settle (ip_Households p)"
    by (rule commit_loop_ready) (use ready in auto)
  then show ?thesis using ready assms(3) by (auto simp: validateImportCommit_def)
qed


section \<open>The commit\<close>

text \<open>The rows that one record adds.\<close>

definition household_rows ::
  "'x runtime_scheme \<Rightarrow> time \<Rightarrow> ImportRecord list \<Rightarrow> invitation_row list \<times> guest_row list" where
  "household_rows rt now rs = (map (\<lambda>r. invitation_values rt now (rec_Invitation r)) rs,
     concat (map (\<lambda>r. map (guest_values now (inv_ID (rec_Invitation r))) (rec_Guests r)) rs))"

lemma Import_effect:
  assumes "Import rt now rids records d = Inr d'"
  shows "db_invitations d' = db_invitations d @ fst (household_rows rt now records) \<and>
    db_guests d' = db_guests d @ snd (household_rows rt now records)"
proof -
  have "db_invitations d' = db_invitations d @ fst (household_rows rt now records) \<and>
    db_guests d' = db_guests d @ snd (household_rows rt now records)"
    if "iloop (\<lambda>i d r. insert_household rt ''import'' now (rids i) (rec_Invitation r) (rec_Guests r) d) k d records = Inr d'" for k
    using that
  proof (induction records arbitrary: k d)
    case Nil
    then show ?case by (simp add: household_rows_def)
  next
    case (Cons r rs)
    then obtain d1 where one: "insert_household rt ''import'' now (rids k) (rec_Invitation r) (rec_Guests r) d = Inr d1"
      and rest: "iloop (\<lambda>i d r. insert_household rt ''import'' now (rids i) (rec_Invitation r) (rec_Guests r) d) (Suc k) d1 rs = Inr d'"
      by auto
    show ?case using insert_household_effect [OF one] Cons.IH [OF rest] by (simp add: household_rows_def)
  qed
  then show ?thesis using assms by (simp add: Import_def)
qed

lemma import_records_effect:
  assumes "iloop (\<lambda>k acc input. rbind (import_record en e u k input) (\<lambda>r. Inr (acc @ [r]))) k acc hs = Inr records"
  shows "\<exists>rs. records = acc @ rs \<and> list_all2 (\<lambda>h r. inv_Label (rec_Invitation r) = ih_HouseholdLabel h \<and>
     inv_EventID (rec_Invitation r) = e \<and> inv_ContactEmail (rec_Invitation r) = ih_ContactEmail h \<and>
     inv_AdditionalGuestAllowance (rec_Invitation r) = ih_AdditionalGuestAllowance h \<and>
     map guest_Name (rec_Guests r) = ih_AssignedGuestNames h) hs rs"
  using assms
proof (induction hs arbitrary: k acc)
  case Nil
  then show ?case by simp
next
  case (Cons h hs)
  then obtain r where r: "import_record en e u k h = Inr r"
    and rest: "iloop (\<lambda>k acc input. rbind (import_record en e u k input) (\<lambda>r. Inr (acc @ [r]))) (Suc k) (acc @ [r]) hs = Inr records"
    by auto
  have "map guest_Name (rec_Guests r) = ih_AssignedGuestNames h"
    using r by (auto simp: import_record_def assigned_guest_def comp_def case_prod_unfold
        intro: map_snd_enumerate split: sum.splits)
  with r Cons.IH [OF rest] show ?case
    by (auto simp: import_record_def new_private_def)
qed

text \<open>
  An import is all or nothing and silent. A commit that fails leaves the database and the
  outbox as they were; a commit that succeeds has created, after the existing rows, one live
  private invitation of the event for each validated household, in order, with its label,
  contact and allowance, and their guests with the validated names, and has sent nothing.
\<close>

theorem import_atomic_and_silent:
  "case CommitImport rt en rid e u hs w of
     (w', Inl err) \<Rightarrow> w' = w
   | (w', Inr res) \<Rightarrow> w_out w' = w_out w \<and> (\<exists>validated invs guests. validateImportCommit rt hs = Inr validated \<and>
       db_invitations (w_db w') = db_invitations (w_db w) @ invs \<and> db_guests (w_db w') = db_guests (w_db w) @ guests \<and>
       list_all2 (\<lambda>h r. inv_Label r = ih_HouseholdLabel h \<and> inv_EventID r = e \<and> inv_ContactEmail r = ih_ContactEmail h \<and>
         inv_AdditionalGuestAllowance r = ih_AdditionalGuestAllowance h \<and> inv_RevokedAt r = None) validated invs \<and>
       map g_name guests = concat (map ih_AssignedGuestNames validated) \<and>
       icr_HouseholdCount res = length invs \<and> icr_InvitationIDs res = map inv_ID invs)"
proof (cases "CommitImport rt en rid e u hs w")
  case (Pair w' out)
  show ?thesis
  proof (cases out)
    case (Inl err)
    then show ?thesis using Pair by (auto simp: CommitImport_def action_defs split: sum.splits)
  next
    case (Inr res)
    from Pair [unfolded Inr] obtain validated records d where v: "validateImportCommit rt hs = Inr validated"
      and recs: "iloop (\<lambda>k acc input. rbind (import_record en e u k input) (\<lambda>r. Inr (acc @ [r]))) 0 [] validated = Inr records"
      and imp: "Import rt (en_clock en 0) rid records (w_db w) = Inr d" and w': "w' = w\<lparr>w_db := d\<rparr>"
      and res: "res = \<lparr> icr_HouseholdCount = length validated,
          icr_AssignedGuestCount = sum_list (map (\<lambda>r. length (rec_Guests r)) records),
          icr_InvitationIDs = map (\<lambda>r. inv_ID (rec_Invitation r)) records \<rparr>"
      unfolding CommitImport_def bind_Inr action_Inr commit_Inr by blast
    let ?invs = "fst (household_rows rt (en_clock en 0) records)"
    let ?guests = "snd (household_rows rt (en_clock en 0) records)"
    have all: "list_all2 (\<lambda>h r. inv_Label (rec_Invitation r) = ih_HouseholdLabel h \<and>
       inv_EventID (rec_Invitation r) = e \<and> inv_ContactEmail (rec_Invitation r) = ih_ContactEmail h \<and>
       inv_AdditionalGuestAllowance (rec_Invitation r) = ih_AdditionalGuestAllowance h \<and>
       map guest_Name (rec_Guests r) = ih_AssignedGuestNames h) validated records"
      using import_records_effect [OF recs] by simp
    have "list_all2 (\<lambda>h r. inv_Label r = ih_HouseholdLabel h \<and> inv_EventID r = e \<and> inv_ContactEmail r = ih_ContactEmail h \<and>
         inv_AdditionalGuestAllowance r = ih_AdditionalGuestAllowance h \<and> inv_RevokedAt r = None) validated ?invs"
      using all by (auto simp: household_rows_def list_all2_map2 invitation_values_def Invitation.defs elim: list_all2_mono)
    moreover have "map g_name ?guests = concat (map ih_AssignedGuestNames validated)"
      using all by (induction rule: list_all2_induct)
        (auto simp: household_rows_def guest_values_def comp_def)
    moreover have "length validated = length ?invs" using all by (simp add: household_rows_def list_all2_lengthD)
    ultimately show ?thesis
      using Pair Inr Import_effect [OF imp] v w' res by (auto simp: household_rows_def)
  qed
qed

end
