(* ===== verification/Export_CSV.thy ===== *)
theory Export_CSV
  imports Invitation_Flows
begin

text \<open>
  The organizer's CSV export (\<open>internal/invitation/export.go\<close>) and the parts of
  \<open>encoding/csv\<close>'s Writer that produce its text.
\<close>

section \<open>encoding/csv Writer\<close>

definition needs_quotes :: "string \<Rightarrow> bool" where
  "needs_quotes field \<longleftrightarrow> field \<noteq> [] \<and>
    (field = [byte 92, CHR ''.''] \<or>
     contains_any [CHR '','', byte 34, byte 13, byte 10] field \<or>
     list_ex (\<lambda>p. prefix p field) space_runes)"

definition quote_field :: "string \<Rightarrow> string" where
  "quote_field field = [byte 34] @
     concat (map (\<lambda>c. if c = byte 34 then [byte 34, byte 34] else [c]) field) @ [byte 34]"

definition write_field :: "string \<Rightarrow> string" where
  "write_field field = (if needs_quotes field then quote_field field else field)"

definition write_record :: "string list \<Rightarrow> string" where
  "write_record rec = join [CHR '',''] (map write_field rec) @ [byte 10]"

section \<open>The export\<close>

definition exportBaseColumns :: "string list" where
  "exportBaseColumns = [''invitation_id'', ''household_label'', ''contact_email'', ''contact_phone'',
     ''preferred_delivery'', ''invitation_source'', ''additional_guest_allowance'', ''guest_id'',
     ''guest_display_name'', ''guest_origin'', ''guest_attendance'', ''response_state'',
     ''first_submitted_at'', ''last_submitted_at'']"

definition left_blank :: "char \<Rightarrow> bool" where
  "left_blank c \<longleftrightarrow> c \<in> set [CHR '' '', byte 9, byte 13, byte 10]"

definition defangCSVCell :: "string \<Rightarrow> string" where
  "defangCSVCell v = (case dropWhile left_blank v of
      [] \<Rightarrow> v
    | c # _ \<Rightarrow> if c \<in> set ''=+-@'' then byte 39 # v else v)"

definition defangCSVRecord :: "string list \<Rightarrow> string list" where
  "defangCSVRecord rec = map defangCSVCell rec"

definition formatExportAnswer :: "'x runtime_scheme \<Rightarrow> Question \<Rightarrow> string \<Rightarrow> string" where
  "formatExportAnswer rt question v =
    (if q_Type question \<noteq> ''checkbox'' \<or> v = [] then v
     else case rt_json_strings rt v of None \<Rightarrow> v | Some selected \<Rightarrow> join '' | '' selected)"

definition exportQuestionColumn :: "Question \<Rightarrow> string" where
  "exportQuestionColumn question =
    (if q_Scope question = QuestionScopeGuest then ''guest_answer'' else ''invitation_answer'') @
    '':'' @ q_Label question @ '' ['' @ q_ID question @ '']''"

text \<open>A household without a response row would be a nil dereference; \<open>None\<close> stands for it.\<close>

definition exportBaseRecord :: "'x runtime_scheme \<Rightarrow> Household \<Rightarrow> Guest \<Rightarrow> string list option" where
  "exportBaseRecord rt household guest = (case hh_Response household of
      None \<Rightarrow> None
    | Some response \<Rightarrow>
       (let iv = hh_Invitation household;
            (state, firstSubmitted, lastSubmitted) = (case resp_SubmittedAt response of
               None \<Rightarrow> (''no_submitted_response'', [], [])
             | Some t \<Rightarrow> (''submitted'', rt_format_time rt t, rt_format_time rt (resp_UpdatedAt response))) in
        Some [inv_ID iv, inv_Label iv, stringValue (inv_ContactEmail iv),
          stringValue (inv_ContactPhone iv), inv_PreferredDeliveryMethod iv, inv_Source iv,
          itoa (inv_AdditionalGuestAllowance iv), guest_ID guest, guest_Name guest,
          guest_Origin guest, guest_Attendance guest, state, firstSubmitted, lastSubmitted]))"

text \<open>The maps built from the household's answers; a later row of the same key wins.\<close>

definition invitation_answer :: "Household \<Rightarrow> id \<Rightarrow> string" where
  "invitation_answer h qid =
    map_get (rev (map (\<lambda>a. (ans_QuestionID a, ans_Answer a)) (hh_InvitationAnswers h))) qid"

definition guest_answer :: "Household \<Rightarrow> id \<Rightarrow> id \<Rightarrow> string" where
  "guest_answer h gid qid =
    map_get (rev (map (\<lambda>a. ((ga_GuestID a, ga_QuestionID a), ga_Answer a)) (hh_GuestAnswers h))) (gid, qid)"

definition export_row :: "'x runtime_scheme \<Rightarrow> Question list \<Rightarrow> Household \<Rightarrow> Guest \<Rightarrow> string list result" where
  "export_row rt questions h guest =
    rbind (or_err (exportBaseRecord rt h guest) (Internal ''nil response'')) (\<lambda>base.
    Inr (base @ map (\<lambda>q. formatExportAnswer rt q
        (if q_Scope q = QuestionScopeInvitation then invitation_answer h (q_ID q)
         else guest_answer h (guest_ID guest) (q_ID q))) questions))"

definition by_export_order :: "Question \<Rightarrow> Question \<Rightarrow> bool" where
  "by_export_order a b \<longleftrightarrow> (if q_SortOrder a = q_SortOrder b then bytes_less (q_ID a) (q_ID b)
     else q_SortOrder a < q_SortOrder b)"

text \<open>The records handed to the CSV writer, header first, and the text of the export.\<close>

definition export_rows :: "'x runtime_scheme \<Rightarrow> Question list \<Rightarrow> Household list \<Rightarrow> string list list result" where
  "export_rows rt questions households =
    loop (\<lambda>acc h. loop (\<lambda>acc g. rbind (export_row rt questions h g) (\<lambda>r. Inr (acc @ [defangCSVRecord r])))
       acc (hh_Guests h)) [] households"

definition export_records :: "'x runtime_scheme \<Rightarrow> id \<Rightarrow> db \<Rightarrow> string list list result" where
  "export_records rt eventID d =
    rbind (ListByEvent rt eventID d) (\<lambda>households.
    rbind (listQuestions rt eventID d) (\<lambda>unordered.
    let questions = order_by by_export_order unordered;
        header = exportBaseColumns @ map exportQuestionColumn questions in
    rbind (export_rows rt questions households) (\<lambda>rows. Inr (defangCSVRecord header # rows))))"

definition ExportEventCSV :: "'x runtime_scheme \<Rightarrow> id \<Rightarrow> db \<Rightarrow> string result" where
  "ExportEventCSV rt eventID d =
    rbind (export_records rt eventID d) (\<lambda>records. Inr (concat (map write_record records)))"

section \<open>What the export contains\<close>

text \<open>A cell that no spreadsheet reads as a formula: its first byte after blanks is harmless.\<close>

definition inert_cell :: "string \<Rightarrow> bool" where
  "inert_cell v = (case dropWhile left_blank v of [] \<Rightarrow> True | c # _ \<Rightarrow> c \<notin> set ''=+-@'')"

lemma defang_inert: "inert_cell (defangCSVCell v)"
proof (cases "dropWhile left_blank v")
  case Nil
  then have "defangCSVCell v = v" unfolding defangCSVCell_def by (simp only: Nil list.case)
  then show ?thesis unfolding inert_cell_def by (simp only: Nil list.case)
next
  case (Cons c cs)
  then show ?thesis by (simp add: defangCSVCell_def inert_cell_def left_blank_def byte_eq_iff of_char_byte)
qed

lemma defang_value: "\<exists>pre. defangCSVCell v = pre @ v \<and> length pre \<le> 1"
  by (auto simp: defangCSVCell_def split: list.splits intro: exI [of _ "[]"] exI [of _ "[byte 39]"])

lemma export_row_width:
  assumes "export_row rt qs h g = Inr r"
  shows "length r = length exportBaseColumns + length qs"
  using assms by (auto simp: export_row_def exportBaseRecord_def exportBaseColumns_def Let_def
      split: option.splits prod.splits)

lemma export_row_identifies:
  assumes "export_row rt qs h g = Inr r"
  shows "r ! 0 = inv_ID (hh_Invitation h)" "r ! 7 = guest_ID g" "r ! 8 = guest_Name g"
  using assms by (auto simp: export_row_def exportBaseRecord_def Let_def nth_append
      split: option.splits prod.splits)

text \<open>The two nested loops append one record for each guest of each household.\<close>

definition guests_of :: "Household list \<Rightarrow> (Household \<times> Guest) list" where
  "guests_of hs = concat (map (\<lambda>h. map (Pair h) (hh_Guests h)) hs)"

lemma guests_of_Cons [simp]: "guests_of (h # hs) = map (Pair h) (hh_Guests h) @ guests_of hs"
  by (simp add: guests_of_def)

definition exports :: "'x runtime_scheme \<Rightarrow> Question list \<Rightarrow> Household \<times> Guest \<Rightarrow> string list \<Rightarrow> bool" where
  "exports rt qs hg row \<longleftrightarrow> (\<exists>r. export_row rt qs (fst hg) (snd hg) = Inr r \<and> row = defangCSVRecord r)"

lemma export_household_rows:
  assumes "loop (\<lambda>acc g. rbind (export_row rt qs h g) (\<lambda>r. Inr (acc @ [defangCSVRecord r]))) acc gs = Inr out"
  shows "\<exists>rows. out = acc @ rows \<and> list_all2 (exports rt qs) (map (Pair h) gs) rows"
  using assms
proof (induction gs arbitrary: acc)
  case Nil
  then show ?case by simp
next
  case (Cons g gs)
  then obtain r where r: "export_row rt qs h g = Inr r"
    and rest: "loop (\<lambda>acc g. rbind (export_row rt qs h g) (\<lambda>r. Inr (acc @ [defangCSVRecord r])))
      (acc @ [defangCSVRecord r]) gs = Inr out" by auto
  from Cons.IH [OF rest] r show ?case by (force simp: exports_def)
qed

lemma export_rows_effect:
  assumes "loop (\<lambda>acc h. loop (\<lambda>acc g. rbind (export_row rt qs h g) (\<lambda>r. Inr (acc @ [defangCSVRecord r])))
       acc (hh_Guests h)) acc hs = Inr out"
  shows "\<exists>rows. out = acc @ rows \<and> list_all2 (exports rt qs) (guests_of hs) rows"
  using assms
proof (induction hs arbitrary: acc)
  case Nil
  then show ?case by (simp add: guests_of_def)
next
  case (Cons h hs)
  then obtain mid where one: "loop (\<lambda>acc g. rbind (export_row rt qs h g) (\<lambda>r. Inr (acc @ [defangCSVRecord r]))) acc (hh_Guests h) = Inr mid"
    and rest: "loop (\<lambda>acc h. loop (\<lambda>acc g. rbind (export_row rt qs h g) (\<lambda>r. Inr (acc @ [defangCSVRecord r])))
       acc (hh_Guests h)) mid hs = Inr out" by auto
  obtain rows1 where "mid = acc @ rows1" "list_all2 (exports rt qs) (map (Pair h) (hh_Guests h)) rows1"
    using export_household_rows [OF one] by blast
  moreover obtain rows2 where "out = mid @ rows2" "list_all2 (exports rt qs) (guests_of hs) rows2"
    using Cons.IH [OF rest] by blast
  ultimately show ?case by (intro exI [of _ "rows1 @ rows2"]) (simp add: list_all2_appendI)
qed

text \<open>
  The export is complete and inert. The records of an export are a header and then one
  record for each guest of each household of the event, in the order of the list, carrying the
  invitation's id and the guest's id behind at most one added apostrophe; every record has as
  many cells as the header, and no cell starts, after blanks, with a formula character.
\<close>

theorem export_complete_and_inert:
  assumes "export_records rt e d = Inr records"
  shows "\<exists>households header rows. ListByEvent rt e d = Inr households \<and> records = header # rows \<and>
    list_all2 (\<lambda>(h, g) row. row ! 0 = defangCSVCell (inv_ID (hh_Invitation h)) \<and> row ! 7 = defangCSVCell (guest_ID g) \<and>
        row ! 8 = defangCSVCell (guest_Name g))
      (guests_of households) rows \<and>
    list_all (\<lambda>row. length row = length header \<and> list_all inert_cell row) records"
proof -
  from assms obtain households unordered rows where hs: "ListByEvent rt e d = Inr households"
    and rows: "export_rows rt (order_by by_export_order unordered) households = Inr rows"
    and rec: "records = defangCSVRecord (exportBaseColumns @ map exportQuestionColumn (order_by by_export_order unordered)) # rows"
    by (auto simp: export_records_def Let_def)
  let ?qs = "order_by by_export_order unordered"
  let ?header = "defangCSVRecord (exportBaseColumns @ map exportQuestionColumn ?qs)"
  have all: "list_all2 (exports rt ?qs) (guests_of households) rows"
    using export_rows_effect [OF rows [unfolded export_rows_def]] by simp
  have row: "row ! 0 = defangCSVCell (inv_ID (hh_Invitation (fst hg))) \<and> row ! 7 = defangCSVCell (guest_ID (snd hg)) \<and>
      row ! 8 = defangCSVCell (guest_Name (snd hg)) \<and> length row = length ?header \<and> list_all inert_cell row"
    if "exports rt ?qs hg row" for hg row
  proof -
    from that obtain r where r: "export_row rt ?qs (fst hg) (snd hg) = Inr r" "row = defangCSVRecord r"
      by (auto simp: exports_def)
    note width = export_row_width [OF r(1)]
    then have "0 < length r" "7 < length r" "8 < length r" by (simp_all add: exportBaseColumns_def)
    then show ?thesis using export_row_identifies [OF r(1)] width
      by (simp add: r(2) defangCSVRecord_def list_all_iff defang_inert)
  qed
  have "list_all2 (\<lambda>(h, g) row. row ! 0 = defangCSVCell (inv_ID (hh_Invitation h)) \<and> row ! 7 = defangCSVCell (guest_ID g) \<and>
        row ! 8 = defangCSVCell (guest_Name g)) (guests_of households) rows"
    by (rule list_all2_mono [OF all]) (use row in auto)
  moreover have "length r = length ?header \<and> list_all inert_cell r" if "r \<in> set rows" for r
    using that all row by (metis list_all2_conv_all_nth in_set_conv_nth)
  moreover have "list_all inert_cell ?header" by (auto simp: defangCSVRecord_def list_all_iff defang_inert)
  ultimately show ?thesis using hs rec by (auto simp: list_all_iff)
qed

end
