(* ===== verification/Invitation_Handler.thy ===== *)
theory Invitation_Handler
  imports Import_Roundtrip Export_CSV
begin

text \<open>
  The HTTP handlers of the invitation domain (\<open>internal/invitation/handler.go\<close>) and the strict
  JSON decoder (\<open>internal/httpx/json.go\<close>). A handler is a function from a request and the world
  to the world and a response.

  The router passes the handler the URL parameters, and the middleware the authenticated user;
  both are fields of the request. Log entries are not part of the response and are left out,
  and the encoding of the payload as JSON text is \<open>encoding/json\<close>'s.
\<close>

section \<open>Decoding bodies\<close>

text \<open>What a call of \<open>json.Decoder.Decode\<close> returns: a value, the end of the input, an error.\<close>

datatype 'a decoded = Decoded 'a | DecodeEOF | DecodeError string

text \<open>The outcomes of the first call, into the request type, and of the second call.\<close>

type_synonym 'a json_body = "'a decoded \<times> unit decoded"

definition DecodeJSON :: "'a json_body \<Rightarrow> string + 'a" where
  "DecodeJSON body = (case fst body of
      DecodeError e \<Rightarrow> Inl (''decode JSON: '' @ e)
    | DecodeEOF \<Rightarrow> Inl ''decode JSON: EOF''
    | Decoded v \<Rightarrow> (case snd body of
         DecodeEOF \<Rightarrow> Inr v
       | Decoded _ \<Rightarrow> Inl ''request body must contain exactly one JSON value''
       | DecodeError e \<Rightarrow> Inl (''decode trailing JSON: '' @ e)))"

definition DecodeOptionalJSON :: "'a \<Rightarrow> 'a json_body \<Rightarrow> string + 'a" where
  "DecodeOptionalJSON zero body = (case fst body of
      DecodeError e \<Rightarrow> Inl (''decode JSON: '' @ e)
    | DecodeEOF \<Rightarrow> Inr zero
    | Decoded v \<Rightarrow> (case snd body of
         DecodeEOF \<Rightarrow> Inr v
       | Decoded _ \<Rightarrow> Inl ''request body must contain at most one JSON value''
       | DecodeError e \<Rightarrow> Inl (''decode trailing JSON: '' @ e)))"

section \<open>Requests and responses\<close>

record request =
  rq_user :: "id option" \<comment> \<open>userFrom(r.Context())\<close>
  rq_eventId :: id \<comment> \<open>URL parameter eventId\<close>
  rq_invitationId :: id \<comment> \<open>URL parameter invitationId\<close>
  rq_cookie :: "string option" \<comment> \<open>the invitation session cookie\<close>
  rq_remote_host :: "string option" \<comment> \<open>net.SplitHostPort(RemoteAddr), None on an error\<close>
  rq_remote_addr :: string
  rq_ref :: string \<comment> \<open>what errcode.Ref returns\<close>

datatype payload =
    PNull
  | PHouseholds "Household list"
  | PHousehold Household
  | PCreated CreateResult
  | PImportPreview ImportPreview
  | PImportCommit ImportCommitResult
  | PMessageResult MessageResult
  | PMessagePreview MessagePreview
  | POpen OpenEnrollmentConfig string
  | PInspect EventSummary int
  | PEnrolled Household DeliveryResult
  | PNotice string

datatype resp_body =
    JsonData payload
  | JsonError string string \<comment> \<open>error code, message\<close>
  | CsvBody string string \<comment> \<open>file name, text\<close>
  | NoBody

record cookie =
  ck_Name :: string
  ck_Value :: string
  ck_Path :: string
  ck_HttpOnly :: bool
  ck_Secure :: bool
  ck_SameSiteStrict :: bool
  ck_MaxAge :: int

record response =
  rs_status :: nat
  rs_body :: resp_body
  rs_no_store :: bool \<comment> \<open>Cache-Control: no-store\<close>
  rs_cookie :: "cookie option"

type_synonym handler = "world \<Rightarrow> world \<times> response"

definition writeJSON :: "nat \<Rightarrow> payload \<Rightarrow> response" where
  "writeJSON status v = \<lparr> rs_status = status, rs_body = JsonData v, rs_no_store = True, rs_cookie = None \<rparr>"

definition writeError :: "nat \<Rightarrow> string \<Rightarrow> string \<Rightarrow> response" where
  "writeError status code msg = \<lparr> rs_status = status, rs_body = JsonError code msg, rs_no_store = True, rs_cookie = None \<rparr>"

definition writeCSV :: "string \<Rightarrow> string \<Rightarrow> response" where
  "writeCSV filename text_body = \<lparr> rs_status = 200, rs_body = CsvBody filename text_body, rs_no_store = False, rs_cookie = None \<rparr>"

definition noContent :: response where
  "noContent = \<lparr> rs_status = 204, rs_body = NoBody, rs_no_store = False, rs_cookie = None \<rparr>"

text \<open>
  The handler's fields: the service, and the collaborator that checks a user's access to an
  event (the event service's; \<open>None\<close> is the nil error).
\<close>

record Handler =
  hd_service :: Service
  hd_checkEventAccess :: "db \<Rightarrow> id \<Rightarrow> id \<Rightarrow> inv_error option"
  hd_secureCookies :: bool

section \<open>Errors\<close>

definition internal :: "request \<Rightarrow> response" where
  "internal rq = writeError 500 ''internal_error'' (''an internal error occurred (ref: '' @ rq_ref rq @ '')'')"

definition capabilityError :: "request \<Rightarrow> inv_error \<Rightarrow> response" where
  "capabilityError rq err =
    (if err = ErrInvalidCapability \<or> err = ErrNotFound
     then writeError 401 ''invalid_capability'' ''invalid or expired invitation''
     else internal rq)"

definition writeServiceError :: "request \<Rightarrow> inv_error \<Rightarrow> response" where
  "writeServiceError rq err = (case err of
      Validation msg \<Rightarrow> writeError 400 ''bad_request'' msg
    | ErrConflict \<Rightarrow> writeError 409 ''version_conflict'' ''the response changed; reload and try again''
    | ErrAllowance \<Rightarrow> writeError 409 ''allowance_exceeded'' ''additional guest allowance exceeded''
    | ErrCapacity \<Rightarrow> writeError 409 ''capacity_reached'' ''open invitation capacity reached''
    | ErrDeliverySuppressed \<Rightarrow> writeError 409 ''delivery_suppressed''
        ''the stored email destination is suppressed; update the destination or suppression settings before retrying''
    | ErrInvalidCapability \<Rightarrow> writeError 401 ''invalid_capability'' ''invalid or expired invitation''
    | ErrNotFound \<Rightarrow> writeError 404 ''not_found'' ''invitation not found''
    | Internal _ \<Rightarrow> internal rq)"

definition bad_json :: response where
  "bad_json = writeError 400 ''bad_request'' ''invalid JSON body''"

section \<open>Sessions and identities\<close>

definition invitationSessionCookie :: string where
  "invitationSessionCookie = ''owl_invitation_session''"

text \<open>\<open>int(sessionExpiry.Seconds())\<close>; the expiry is positive.\<close>

definition setSessionCookie :: "Handler \<Rightarrow> string \<Rightarrow> response \<Rightarrow> response" where
  "setSessionCookie h raw resp = resp\<lparr>rs_cookie := Some \<lparr> ck_Name = invitationSessionCookie, ck_Value = raw,
     ck_Path = ''/'', ck_HttpOnly = True, ck_Secure = hd_secureCookies h, ck_SameSiteStrict = True,
     ck_MaxAge = svc_sessionExpiry (hd_service h) div second \<rparr>\<rparr>"

definition sessionCookie :: "request \<Rightarrow> string" where
  "sessionCookie rq = (case rq_cookie rq of None \<Rightarrow> [] | Some v \<Rightarrow> v)"

definition remoteIdentity :: "request \<Rightarrow> string" where
  "remoteIdentity rq = (case rq_remote_host rq of Some host \<Rightarrow> host | None \<Rightarrow> trim_space (rq_remote_addr rq))"

definition eventActor :: "Handler \<Rightarrow> request \<Rightarrow> db \<Rightarrow> (id \<times> id) option" where
  "eventActor h rq d = (case rq_user rq of
      None \<Rightarrow> None
    | Some userID \<Rightarrow>
       if rq_eventId rq = [] \<or> hd_checkEventAccess h d (rq_eventId rq) userID \<noteq> None then None
       else Some (rq_eventId rq, userID))"

section \<open>Shapes shared by the handlers\<close>

definition event_not_found :: response where
  "event_not_found = writeError 404 ''not_found'' ''event not found''"

text \<open>An action answered by \<open>writeServiceError\<close>, or by its result.\<close>

definition respond :: "request \<Rightarrow> ('a \<Rightarrow> response) \<Rightarrow> 'a action \<Rightarrow> handler" where
  "respond rq ok act w = (case act w of (w', Inl e) \<Rightarrow> (w', writeServiceError rq e) | (w', Inr x) \<Rightarrow> (w', ok x))"

definition with_actor :: "Handler \<Rightarrow> request \<Rightarrow> (id \<Rightarrow> id \<Rightarrow> handler) \<Rightarrow> handler" where
  "with_actor h rq k w = (case eventActor h rq (w_db w) of
      None \<Rightarrow> (w, event_not_found) | Some (eventID, userID) \<Rightarrow> k eventID userID w)"

definition with_json :: "response \<Rightarrow> 'a json_body \<Rightarrow> ('a \<Rightarrow> handler) \<Rightarrow> handler" where
  "with_json bad body k w = (case DecodeJSON body of Inl _ \<Rightarrow> (w, bad) | Inr v \<Rightarrow> k v w)"

section \<open>Organizer handlers\<close>

definition importTemplateCSV :: string where
  "importTemplateCSV = (let nl = [byte 13, byte 10] in
     ''household_key,household_label,contact_email,contact_phone,preferred_delivery,additional_guest_allowance,guest_name'' @ nl @
     ''smith,Smith Family,smith@example.com,,email,1,Jane Smith'' @ nl @
     ''smith,Smith Family,smith@example.com,,email,1,John Smith'' @ nl @
     ''garcia,Garcia Family,maria@example.com,,email,0,Maria Garcia'' @ nl)"

definition importTemplate :: "Handler \<Rightarrow> request \<Rightarrow> handler" where
  "importTemplate h rq = with_actor h rq (\<lambda>eventID userID w.
     (w, writeCSV ''owl-invites-household-import-template.csv'' importTemplateCSV))"

text \<open>The multipart form: too large or malformed, without the file, or with the file's content.\<close>

datatype upload = UploadRejected | UploadMissing | Uploaded "string option"

definition previewImport :: "'x runtime_scheme \<Rightarrow> Handler \<Rightarrow> request \<Rightarrow> upload \<Rightarrow> handler" where
  "previewImport rt h rq form = with_actor h rq (\<lambda>eventID userID w. (w, case form of
      UploadRejected \<Rightarrow> writeError 413 ''import_too_large'' ''CSV upload exceeds the import size limit''
    | UploadMissing \<Rightarrow> writeError 400 ''bad_request'' ''CSV file is required''
    | Uploaded content \<Rightarrow> (case PreviewImportCSV rt content of
         Inl e \<Rightarrow> internal rq
       | Inr preview \<Rightarrow> writeJSON 200 (PImportPreview preview))))"

definition commitImport ::
  "'x runtime_scheme \<Rightarrow> Handler \<Rightarrow> env \<Rightarrow> (nat \<Rightarrow> id) \<Rightarrow> request \<Rightarrow> ImportHousehold list json_body \<Rightarrow> handler" where
  "commitImport rt h en rids rq body = with_actor h rq (\<lambda>eventID userID.
     with_json bad_json body (\<lambda>req.
     respond rq (\<lambda>r. writeJSON 201 (PImportCommit r)) (CommitImport rt en rids eventID userID req)))"

definition exportCSV :: "'x runtime_scheme \<Rightarrow> Handler \<Rightarrow> request \<Rightarrow> handler" where
  "exportCSV rt h rq = with_actor h rq (\<lambda>eventID userID w. (w, case ExportEventCSV rt eventID (w_db w) of
      Inl e \<Rightarrow> internal rq
    | Inr data \<Rightarrow> writeCSV ''owl-invites-event-responses.csv'' data))"

definition message :: "'x runtime_scheme \<Rightarrow> Handler \<Rightarrow> env \<Rightarrow> request \<Rightarrow> MessageRequest json_body \<Rightarrow> handler" where
  "message rt h en rq body = with_actor h rq (\<lambda>eventID userID.
     with_json bad_json body (\<lambda>req.
     respond rq (\<lambda>r. writeJSON 201 (PMessageResult r))
       (BroadcastDetailed rt (hd_service h) en eventID (Some userID) req)))"

definition previewMessage :: "Handler \<Rightarrow> request \<Rightarrow> string json_body \<Rightarrow> handler" where
  "previewMessage h rq body = with_actor h rq (\<lambda>eventID userID.
     with_json bad_json body (\<lambda>recipientGroup.
     respond rq (\<lambda>p. writeJSON 200 (PMessagePreview p)) (PreviewBroadcast eventID recipientGroup)))"

definition list_households :: "'x runtime_scheme \<Rightarrow> Handler \<Rightarrow> request \<Rightarrow> InvitationListFilter \<Rightarrow> handler" where
  "list_households rt h rq flt = with_actor h rq (\<lambda>eventID userID.
     respond rq (\<lambda>items. writeJSON 200 (PHouseholds items)) (ListOrganizerHouseholds rt eventID flt))"

definition create :: "'x runtime_scheme \<Rightarrow> Handler \<Rightarrow> env \<Rightarrow> request \<Rightarrow> CreateRequest json_body \<Rightarrow> handler" where
  "create rt h en rq body = with_actor h rq (\<lambda>eventID userID.
     with_json bad_json body (\<lambda>req.
     respond rq (\<lambda>r. writeJSON 201 (PCreated r)) (CreatePrivate rt (hd_service h) en eventID userID req)))"

definition get_household :: "'x runtime_scheme \<Rightarrow> Handler \<Rightarrow> request \<Rightarrow> handler" where
  "get_household rt h rq = with_actor h rq (\<lambda>eventID userID w. (w,
     case FindByIDForEvent (rq_invitationId rq) eventID (w_db w) of
       None \<Rightarrow> writeError 404 ''not_found'' ''invitation not found''
     | Some iv \<Rightarrow> (case LoadOrganizerHousehold rt (inv_ID iv) (w_db w) of
          Inl e \<Rightarrow> internal rq
        | Inr household \<Rightarrow> writeJSON 200 (PHousehold household))))"

definition update_household ::
  "'x runtime_scheme \<Rightarrow> Handler \<Rightarrow> env \<Rightarrow> request \<Rightarrow> UpdateInvitationRequest json_body \<Rightarrow> handler" where
  "update_household rt h en rq body = with_actor h rq (\<lambda>eventID userID.
     with_json bad_json body (\<lambda>req.
     respond rq (\<lambda>household. writeJSON 200 (PHousehold household))
       (UpdateInvitation rt en eventID (rq_invitationId rq) req)))"

definition deliver :: "'x runtime_scheme \<Rightarrow> Handler \<Rightarrow> request \<Rightarrow> handler" where
  "deliver rt h rq = with_actor h rq (\<lambda>eventID userID w.
     case FindByIDForEvent (rq_invitationId rq) eventID (w_db w) of
       None \<Rightarrow> (w, writeError 404 ''not_found'' ''invitation not found'')
     | Some iv \<Rightarrow> respond rq (\<lambda>_. noContent) (Deliver rt (hd_service h) (inv_ID iv)) w)"

definition rotate_handler :: "'x runtime_scheme \<Rightarrow> Handler \<Rightarrow> env \<Rightarrow> request \<Rightarrow> handler" where
  "rotate_handler rt h en rq = with_actor h rq (\<lambda>eventID userID.
     respond rq (\<lambda>r. writeJSON 200 (PCreated r))
       (ServiceRotate rt (hd_service h) en eventID (rq_invitationId rq)))"

definition revoke_handler :: "Handler \<Rightarrow> env \<Rightarrow> request \<Rightarrow> string json_body \<Rightarrow> handler" where
  "revoke_handler h en rq body = with_actor h rq (\<lambda>eventID userID.
     with_json bad_json body (\<lambda>reason.
     respond rq (\<lambda>_. noContent) (ServiceRevoke en eventID (rq_invitationId rq) reason)))"

definition getOpen :: "'x runtime_scheme \<Rightarrow> Handler \<Rightarrow> request \<Rightarrow> handler" where
  "getOpen rt h rq = with_actor h rq (\<lambda>eventID userID w. (w, case FindOpenByEvent eventID (w_db w) of
      None \<Rightarrow> writeJSON 200 PNull
    | Some config \<Rightarrow> writeJSON 200 (POpen config (openAccessURL rt (hd_service h) config))))"

definition configureOpen ::
  "'x runtime_scheme \<Rightarrow> Handler \<Rightarrow> env \<Rightarrow> request \<Rightarrow> ConfigureOpenRequest json_body \<Rightarrow> handler" where
  "configureOpen rt h en rq body = with_actor h rq (\<lambda>eventID userID.
     with_json bad_json body (\<lambda>req.
     respond rq (\<lambda>(config, url). writeJSON 200 (POpen config url))
       (ServiceConfigureOpen rt (hd_service h) en eventID userID req)))"

definition rotateOpen :: "'x runtime_scheme \<Rightarrow> Handler \<Rightarrow> env \<Rightarrow> request \<Rightarrow> handler" where
  "rotateOpen rt h en rq = with_actor h rq (\<lambda>eventID userID.
     respond rq (\<lambda>(config, url). writeJSON 200 (POpen config url))
       (ServiceRotateOpen rt (hd_service h) en eventID))"

section \<open>Public handlers\<close>

definition exchange :: "'x runtime_scheme \<Rightarrow> Handler \<Rightarrow> env \<Rightarrow> request \<Rightarrow> string json_body \<Rightarrow> handler" where
  "exchange rt h en rq body =
    with_json (writeError 401 ''invalid_capability'' ''invalid or expired invitation'') body (\<lambda>capability w.
    case ExchangePrivate rt (hd_service h) en capability w of
      (w', Inl e) \<Rightarrow> (w', capabilityError rq e)
    | (w', Inr (rawSession, household)) \<Rightarrow>
        (w', setSessionCookie h rawSession (writeJSON 200 (PHousehold household))))"

definition session :: "'x runtime_scheme \<Rightarrow> env \<Rightarrow> request \<Rightarrow> handler" where
  "session rt en rq w = (case HouseholdForSession rt en (sessionCookie rq) w of
      (w', Inl e) \<Rightarrow> (w', capabilityError rq e)
    | (w', Inr household) \<Rightarrow> (w', writeJSON 200 (PHousehold household)))"

definition submit :: "'x runtime_scheme \<Rightarrow> env \<Rightarrow> request \<Rightarrow> SubmitRequest json_body \<Rightarrow> handler" where
  "submit rt en rq body = with_json bad_json body (\<lambda>req.
     respond rq (\<lambda>household. writeJSON 200 (PHousehold household))
       (SubmitForSession rt en (sessionCookie rq) req))"

text \<open>
  \<open>requestRecovery\<close> answers before the work is done: its result is the response, the delay
  before it is written, and the arguments of the service call that a goroutine makes on its own.
\<close>

definition recoveryResponseFloor :: duration where "recoveryResponseFloor = 100000000"

definition recovery_delay :: "time \<Rightarrow> time \<Rightarrow> duration" where
  "recovery_delay started now = max 0 (recoveryResponseFloor - (now - started))"

definition requestRecovery ::
  "request \<Rightarrow> (id \<times> string) json_body \<Rightarrow> response \<times> (id \<times> string \<times> string) option" where
  "requestRecovery rq body =
    (writeJSON 200 (PNotice
       ''If a matching invitation exists, recovery instructions will be sent to its stored destination.''),
     case DecodeJSON body of
       Inl _ \<Rightarrow> None
     | Inr (eventID, contact) \<Rightarrow> Some (eventID, contact, remoteIdentity rq))"

definition exchangeRecovery :: "'x runtime_scheme \<Rightarrow> Handler \<Rightarrow> env \<Rightarrow> request \<Rightarrow> string json_body \<Rightarrow> handler" where
  "exchangeRecovery rt h en rq body =
    with_json (writeError 401 ''invalid_capability'' ''invalid or expired recovery link'') body (\<lambda>capability w.
    case ExchangeRecovery rt (hd_service h) en capability w of
      (w', Inl e) \<Rightarrow> (w', capabilityError rq e)
    | (w', Inr (rawSession, household)) \<Rightarrow>
        (w', setSessionCookie h rawSession (writeJSON 200 (PHousehold household))))"

definition inspectOpen :: "'x runtime_scheme \<Rightarrow> Handler \<Rightarrow> env \<Rightarrow> string json_body \<Rightarrow> handler" where
  "inspectOpen rt h en body =
    (let unavailable = writeError 404 ''not_found'' ''open invitation unavailable'' in
     with_json unavailable body (\<lambda>capability w.
     case InspectOpen rt (hd_service h) en capability w of
       (w', Inl e) \<Rightarrow> (w', unavailable)
     | (w', Inr (config, event)) \<Rightarrow> (w', writeJSON 200 (PInspect event (oe_MaxPartySize config)))))"

definition enrollOpen :: "'x runtime_scheme \<Rightarrow> Handler \<Rightarrow> env \<Rightarrow> request \<Rightarrow> OpenEnrollmentRequest json_body \<Rightarrow> handler" where
  "enrollOpen rt h en rq body = with_json bad_json body (\<lambda>req.
     respond rq (\<lambda>(rawSession, household, delivery).
         setSessionCookie h rawSession (writeJSON 201 (PEnrolled household delivery)))
       (ServiceEnrollOpen rt (hd_service h) en req))"

end
