(* ===== verification/Lifecycle.thy ===== *)
theory Lifecycle
  imports Invitation_Flows
begin

text \<open>
  The invitation domain over time. \<open>store_step\<close> has one rule for each operation of the store
  that writes to the database; a run of the server is a sequence of such steps in any order
  and with any arguments, since the single database connection serialises the transactions.
  The contracts of \<open>Owl_Prelude\<close> are interpreted for it: the schema invariant holds in every
  reachable state, a revoked invitation stays as it is, an outdated token version stays
  outdated, and a recovery token is redeemed at most once.
\<close>

inductive store_step :: "runtime \<Rightarrow> db \<Rightarrow> db \<Rightarrow> bool" for rt :: runtime where
  create: "Create rt now rid iv guests d = Inr (d', out) \<Longrightarrow> store_step rt d d'"
| import: "Import rt now rids records d = Inr d' \<Longrightarrow> store_step rt d d'"
| rotate: "Rotate now i e d = Inr (d', res) \<Longrightarrow> store_step rt d d'"
| revoke: "Revoke now i e reason d = Inr d' \<Longrightarrow> store_step rt d d'"
| open_session: "CreateSession now i h v expiry d = Inr d' \<Longrightarrow> store_step rt d d'"
| use_session: "InvitationForSession now h d = (d', found) \<Longrightarrow> store_step rt d d'"
| submit: "SubmitResponse rt now uuid i req d = Inr d' \<Longrightarrow> store_step rt d d'"
| edit: "StoreUpdateInvitation rt now uuid e i req2 d = Inr d' \<Longrightarrow> store_step rt d d'"
| allow: "AllowRecovery dialect now now2 e src dst d = Inr (d', ok) \<Longrightarrow> store_step rt d d'"
| issue_token: "CreateRecoveryToken now i h dest expiry d = Inr d' \<Longrightarrow> store_step rt d d'"
| redeem_token: "ConsumeRecoveryAndCreateSession now h sh expiry d = Inr (d', res) \<Longrightarrow> store_step rt d d'"
| configure: "ConfigureOpen now config u d = Inr d' \<Longrightarrow> store_step rt d d'"
| rotate_open: "RotateOpen now e d = Inr (d', ores) \<Longrightarrow> store_step rt d d'"
| enroll: "EnrollOpen rt now rid config iv guests sh expiry d = Inr (d', eout) \<Longrightarrow> store_step rt d d'"
| message: "CreateMessage now mid msg d = Inr (d', mout) \<Longrightarrow> store_step rt d d'"

section \<open>The schema invariant\<close>

lemma create_wf: "Create rt now rid iv guests d = Inr (d', out) \<Longrightarrow> wf_db d \<Longrightarrow> wf_db d'"
  by (auto simp: Create_def dest: insert_household_wf)

lemma import_wf:
  assumes "Import rt now rids records d = Inr d'" "wf_db d"
  shows "wf_db d'"
  using assms(1) [unfolded Import_def] assms(2)
  by (rule iloop_invariant) (rule insert_household_wf)

lemma submit_wf: "SubmitResponse rt now uuid i req d = Inr d' \<Longrightarrow> wf_db d \<Longrightarrow> wf_db d'"
  using submit_core [of rt now uuid i req d d'] by (simp add: household_step_def)

lemma message_shape: "CreateMessage now mid msg d = Inr (d', mout) \<Longrightarrow> same_shape d' d"
  by (auto simp: CreateMessage_def Let_def insert_message_def same_shape_def split: if_splits)

lemma store_step_wf: "store_step rt d d' \<Longrightarrow> wf_db d \<Longrightarrow> wf_db d'"
  by (induction rule: store_step.induct)
    (auto intro: create_wf import_wf rotate_wf revoke_wf create_session_wf lookup_wf submit_wf
      store_update_wf create_token_wf consume_wf configure_wf enroll_wf
      same_shape_wf dest: allow_recovery_shape rotate_open_shape message_shape)

section \<open>How invitations and tokens evolve\<close>

text \<open>
  Every step keeps every invitation, never lowers its token version, and does not touch the
  row of a revoked one.
\<close>

definition row_evolves :: "invitation_row \<Rightarrow> invitation_row \<Rightarrow> bool" where
  "row_evolves r r' \<longleftrightarrow> inv_ID r' = inv_ID r \<and> inv_AccessID r' = inv_AccessID r \<and>
     inv_TokenVersion r \<le> inv_TokenVersion r' \<and> (inv_RevokedAt r \<noteq> None \<longrightarrow> r' = r)"

definition evolves :: "db \<Rightarrow> db \<Rightarrow> bool" where
  "evolves d d' \<longleftrightarrow> (\<forall>r \<in> set (db_invitations d). \<exists>r' \<in> set (db_invitations d'). row_evolves r r')"

definition tokens_kept :: "db \<Rightarrow> db \<Rightarrow> bool" where
  "tokens_kept d d' \<longleftrightarrow> (\<forall>r \<in> set (db_recovery_tokens d). rk_consumed_at r \<noteq> None \<longrightarrow> r \<in> set (db_recovery_tokens d'))"

lemma row_evolves_refl: "row_evolves r r"
  by (simp add: row_evolves_def)

lemma row_evolves_trans: "row_evolves a b \<Longrightarrow> row_evolves b c \<Longrightarrow> row_evolves a c"
  by (auto simp: row_evolves_def)

lemma evolves_append: "set (db_invitations d) \<subseteq> set (db_invitations d') \<Longrightarrow> evolves d d'"
  unfolding evolves_def using row_evolves_refl by blast

lemma evolves_trans: "evolves d d1 \<Longrightarrow> evolves d1 d2 \<Longrightarrow> evolves d d2"
  unfolding evolves_def using row_evolves_trans by meson

lemma evolves_update:
  assumes "db_invitations d' = update_where p f (db_invitations d)" "\<And>r. p r \<Longrightarrow> row_evolves r (f r)"
  shows "evolves d d'"
  unfolding evolves_def
proof
  fix r assume r: "r \<in> set (db_invitations d)"
  have "(if p r then f r else r) \<in> set (db_invitations d')" using r by (auto simp: assms(1) set_update_where)
  then show "\<exists>r' \<in> set (db_invitations d'). row_evolves r r'"
    by (rule bexI [rotated]) (simp add: assms(2) row_evolves_refl)
qed

lemma household_rows:
  "insert_household rt verb now rid iv guests d = Inr d' \<Longrightarrow>
    set (db_invitations d) \<subseteq> set (db_invitations d') \<and> db_recovery_tokens d' = db_recovery_tokens d"
  by (auto dest: insert_household_effect)

lemma import_rows:
  assumes "Import rt now rids records d = Inr d'"
  shows "set (db_invitations d) \<subseteq> set (db_invitations d') \<and> db_recovery_tokens d' = db_recovery_tokens d"
  by (rule iloop_invariant [OF assms [unfolded Import_def],
        of "\<lambda>x. set (db_invitations d) \<subseteq> set (db_invitations x) \<and> db_recovery_tokens x = db_recovery_tokens d"])
    (auto dest: household_rows)

lemma submit_rows:
  assumes "SubmitResponse rt now uuid i req d = Inr d'" "wf_db d"
  shows "db_invitations d' = db_invitations d" "db_recovery_tokens d' = db_recovery_tokens d"
proof -
  have step: "household_step i d d'" using submit_core [OF assms] by blast
  then have "d' = own_tables d' d" by (simp add: household_step_def frame_def own_tables_def)
  from arg_cong [OF this, of db_invitations] arg_cong [OF this, of db_recovery_tokens]
  show "db_invitations d' = db_invitations d" "db_recovery_tokens d' = db_recovery_tokens d"
    by (simp_all add: own_tables_def)
qed

lemma enroll_rows:
  assumes "EnrollOpen rt now rid config iv guests sh expiry d = Inr (d', out)"
  shows "set (db_invitations d) \<subseteq> set (db_invitations d') \<and> db_recovery_tokens d' = db_recovery_tokens d"
  using assms
proof (rule EnrollOpen_D)
  fix d1 d2
  assume "insert_invitation (open_invitation_values rt now (oe_ID config) iv) d = Some d1"
    "insert_response (response_values now rid (inv_ID iv)) d1 = Some d2"
    and ses: "insert_session (session_values now (inv_ID iv) sh 1 expiry)
       (d2\<lparr>db_guests := db_guests d @ map (guest_values now (inv_ID iv)) (map (\<lambda>g. g\<lparr>guest_Origin := ''assigned''\<rparr>) guests),
          db_guest_responses := db_guest_responses d @
            map (\<lambda>g. guest_response_values now rid (guest_ID g) ''pending'') guests\<rparr>) = Some d'"
  note rows = insert_invitation_D(1) [OF this(1)] insert_response_D(1) [OF this(2)] insert_session_D(1) [OF ses]
  show ?thesis by (auto simp: rows)
qed

lemma consume_rows:
  assumes "ConsumeRecoveryAndCreateSession now h sh expiry d = Inr (d', res)"
  shows "db_invitations d' = db_invitations d" "tokens_kept d d'"
proof -
  have "db_invitations d' = db_invitations d \<and>
    db_recovery_tokens d' = update_where (live_token now h) (\<lambda>r. r\<lparr>rk_consumed_at := Some now\<rparr>) (db_recovery_tokens d)"
    using assms
  proof (rule consume_D)
    fix r
    assume ins: "insert_session (session_values now (inv_ID r) sh (inv_TokenVersion r) expiry)
       (d\<lparr>db_recovery_tokens := update_where (live_token now h) (\<lambda>r. r\<lparr>rk_consumed_at := Some now\<rparr>)
          (db_recovery_tokens d)\<rparr>) = Some d'"
    show ?thesis by (simp add: insert_session_D(1) [OF ins])
  qed
  then show "db_invitations d' = db_invitations d" "tokens_kept d d'"
    by (auto simp: tokens_kept_def set_update_where live_token_def image_iff)
qed

lemma edit_rows:
  assumes "StoreUpdateInvitation rt now uuid e i req d = Inr d'"
  shows "evolves d d'" "db_recovery_tokens d' = db_recovery_tokens d"
proof -
  let ?d0 = "d\<lparr>db_invitations := update_where (live_invitation i e) (edit_values rt now req) (db_invitations d)\<rparr>"
  have fr: "edit_frame ?d0 d'" using assms by (rule StoreUpdateInvitation_D)
  show "db_recovery_tokens d' = db_recovery_tokens d" using edit_frame_tables(3) [OF fr] by simp
  show "evolves d d'"
    by (rule evolves_update [OF edit_frame_tables(1) [OF fr, simplified]])
      (simp add: live_invitation_def row_evolves_def edit_values_def)
qed

lemma rotate_rows:
  assumes "Rotate now i e d = Inr (d', res)"
  shows "evolves d d'" "db_recovery_tokens d' = db_recovery_tokens d"
proof -
  let ?f = "\<lambda>r. r\<lparr>inv_TokenVersion := inv_TokenVersion r + 1, inv_UpdatedAt := now\<rparr>"
  have d': "d' = d\<lparr>db_invitations := update_where (live_invitation i e) ?f (db_invitations d),
       db_sessions := revoke_sessions now i (db_sessions d)\<rparr>"
    using assms by (auto simp: Rotate_def Let_def split: if_splits)
  show "db_recovery_tokens d' = db_recovery_tokens d" by (simp add: d')
  show "evolves d d'" by (rule evolves_update [of _ "live_invitation i e" ?f])
      (simp_all add: d' row_evolves_def live_invitation_def)
qed

lemma revoke_rows:
  assumes "Revoke now i e reason d = Inr d'"
  shows "evolves d d'" "db_recovery_tokens d' = db_recovery_tokens d"
proof -
  let ?f = "\<lambda>r. r\<lparr>inv_RevokedAt := Some now, inv_RevocationReason := Some reason, inv_UpdatedAt := now\<rparr>"
  have d': "d' = d\<lparr>db_invitations := update_where (live_invitation i e) ?f (db_invitations d),
       db_sessions := revoke_sessions now i (db_sessions d)\<rparr>"
    using assms by (auto simp: Revoke_def split: if_splits)
  show "db_recovery_tokens d' = db_recovery_tokens d" by (simp add: d')
  show "evolves d d'" by (rule evolves_update [of _ "live_invitation i e" ?f])
      (simp_all add: d' row_evolves_def live_invitation_def)
qed

text \<open>The operations that write neither invitations nor recovery tokens.\<close>

lemma other_rows:
  "CreateSession now i h v expiry d = Inr d' \<Longrightarrow>
    db_invitations d' = db_invitations d \<and> db_recovery_tokens d' = db_recovery_tokens d"
  "InvitationForSession now h d = (d', found) \<Longrightarrow>
    db_invitations d' = db_invitations d \<and> db_recovery_tokens d' = db_recovery_tokens d"
  "AllowRecovery dialect now now2 e src dst d = Inr (d', ok) \<Longrightarrow>
    db_invitations d' = db_invitations d \<and> db_recovery_tokens d' = db_recovery_tokens d"
  "ConfigureOpen now config u d = Inr d' \<Longrightarrow>
    db_invitations d' = db_invitations d \<and> db_recovery_tokens d' = db_recovery_tokens d"
  "RotateOpen now e d = Inr (d', ores) \<Longrightarrow>
    db_invitations d' = db_invitations d \<and> db_recovery_tokens d' = db_recovery_tokens d"
  "CreateMessage now mid msg d = Inr (d', mout) \<Longrightarrow>
    db_invitations d' = db_invitations d \<and> db_recovery_tokens d' = db_recovery_tokens d"
  by (auto simp: CreateSession_def insert_session_def InvitationForSession_def AllowRecovery_def Let_def
      insert_recovery_attempt_def ConfigureOpen_def RotateOpen_def CreateMessage_def insert_message_def
      split: if_splits option.splits prod.splits)

lemma create_token_rows:
  "CreateRecoveryToken now i h dest expiry d = Inr d' \<Longrightarrow>
    db_invitations d' = db_invitations d \<and> set (db_recovery_tokens d) \<subseteq> set (db_recovery_tokens d')"
  by (auto simp: CreateRecoveryToken_def insert_recovery_token_def split: if_splits)

lemma unchanged_rows:
  "db_invitations d' = db_invitations d \<and> db_recovery_tokens d' = db_recovery_tokens d \<Longrightarrow>
    evolves d d' \<and> tokens_kept d d'"
  by (auto simp: tokens_kept_def intro: evolves_append)

lemma appended_rows:
  "set (db_invitations d) \<subseteq> set (db_invitations d') \<and> db_recovery_tokens d' = db_recovery_tokens d \<Longrightarrow>
    evolves d d' \<and> tokens_kept d d'"
  by (auto simp: tokens_kept_def intro: evolves_append)

lemma store_step_evolves:
  assumes "store_step rt d d'" "wf_db d"
  shows "evolves d d' \<and> tokens_kept d d'"
  using assms
proof (induction rule: store_step.induct)
  case (create now rid iv guests d d' out)
  then show ?case by (intro appended_rows) (auto simp: Create_def dest: household_rows)
next
  case (import now rids records d d')
  then show ?case by (intro appended_rows import_rows)
next
  case (rotate now i e d d' res)
  then show ?case using rotate_rows by (auto simp: tokens_kept_def)
next
  case (revoke now i e reason d d')
  then show ?case using revoke_rows by (auto simp: tokens_kept_def)
next
  case (submit now uuid i req d d')
  then show ?case using submit_rows [OF submit] by (intro unchanged_rows) simp
next
  case (edit now uuid e i req2 d d')
  then show ?case using edit_rows [OF edit(1)] by (simp add: tokens_kept_def)
next
  case (issue_token now i h dest expiry d d')
  then show ?case using create_token_rows by (force simp: tokens_kept_def intro: evolves_append)
next
  case (redeem_token now h sh expiry d d' res)
  then show ?case using consume_rows [OF redeem_token(1)] by (auto intro: evolves_append)
next
  case (enroll now rid config iv guests sh expiry d d' eout)
  then show ?case by (intro appended_rows enroll_rows)
qed (auto intro!: unchanged_rows dest: other_rows)

section \<open>The contracts interpreted\<close>

definition revoked :: "id \<Rightarrow> db \<Rightarrow> bool" where
  "revoked i d \<longleftrightarrow> (\<exists>r \<in> set (db_invitations d). inv_ID r = i \<and> inv_RevokedAt r \<noteq> None)"

definition outdated :: "string \<times> int \<Rightarrow> db \<Rightarrow> bool" where
  "outdated av d \<longleftrightarrow> (\<exists>r \<in> set (db_invitations d). inv_AccessID r = fst av \<and> snd av < inv_TokenVersion r)"

definition redeems :: "string \<Rightarrow> db \<Rightarrow> db \<Rightarrow> bool" where
  "redeems h d d' \<longleftrightarrow>
    (\<exists>now sh expiry res. ConsumeRecoveryAndCreateSession now h sh expiry d = Inr (d', res))"

interpretation store: system_invariant "store_step rt" wf_db for rt
  by unfold_locales (rule store_step_wf)

interpretation revocation: absorbing "store_step rt" wf_db revoked for rt
proof
  fix d d' i assume "store_step rt d d'" "wf_db d" "revoked i d"
  then obtain r where r: "r \<in> set (db_invitations d)" "inv_ID r = i" "inv_RevokedAt r \<noteq> None"
    and ev: "evolves d d'" using store_step_evolves by (auto simp: revoked_def)
  then have "r \<in> set (db_invitations d')" by (auto simp: evolves_def row_evolves_def dest: bspec)
  then show "revoked i d'" using r by (auto simp: revoked_def)
qed

interpretation rotation: absorbing "store_step rt" wf_db outdated for rt
proof
  fix d d' av assume step: "store_step rt d d'" "wf_db d" and "outdated av d"
  then obtain r where r: "r \<in> set (db_invitations d)" "inv_AccessID r = fst av" "snd av < inv_TokenVersion r"
    by (auto simp: outdated_def)
  have "evolves d d'" using store_step_evolves [OF step] by blast
  then obtain r' where "r' \<in> set (db_invitations d')" "row_evolves r r'" using r(1) by (auto simp: evolves_def)
  then show "outdated av d'" unfolding outdated_def
    by (intro bexI [of _ r']) (use r in \<open>auto simp: row_evolves_def\<close>)
qed

interpretation recovery: single_use "store_step rt" wf_db token_spent redeems for rt
proof
  fix d d' h assume step: "store_step rt d d'" "wf_db d" and "token_spent h d"
  then show "token_spent h d'" using store_step_evolves [OF step] by (auto simp: token_spent_def tokens_kept_def)
next
  show "store_step rt d d'" if "redeems h d d'" for h d d'
    using that by (auto simp: redeems_def intro: store_step.redeem_token)
  show "token_spent h d'" if "redeems h d d'" "wf_db d" for h d d'
    using that consume_spends by (auto simp: redeems_def)
  show "\<not> redeems h d d'" if "wf_db d" "token_spent h d" for h d d'
    using that spent_refused by (auto simp: redeems_def wf_db_def)
qed

section \<open>Closed and outdated access\<close>

lemma revoked_row:
  assumes "keys_unique d" "revoked i d" "r \<in> set (db_invitations d)" "inv_ID r = i"
  shows "inv_RevokedAt r \<noteq> None"
proof -
  obtain r' where r': "r' \<in> set (db_invitations d)" "inv_ID r' = i" "inv_RevokedAt r' \<noteq> None"
    using assms(2) by (auto simp: revoked_def)
  have "r = r'" by (rule unique_row [of inv_ID "db_invitations d"])
      (use assms r' in \<open>simp_all add: keys_unique_def\<close>)
  then show ?thesis using r'(3) by simp
qed

lemma revoked_no_session:
  assumes "keys_unique d" "revoked i d" "snd (InvitationForSession t h d) = Some iv"
  shows "inv_ID iv \<noteq> i"
  using assms(3)
proof (rule session_lookup_snd_D)
  fix s r assume "r \<in> set (db_invitations d)" "session_opens t h s r" "iv = scanInvitation r"
  then show ?thesis using revoked_row [OF assms(1,2), of r] by (auto simp: session_opens_def)
qed

lemma revoked_no_submit:
  assumes "keys_unique d" "revoked i d"
  shows "SubmitResponse rt now uuid i req d = Inl ErrNotFound"
proof -
  have "affected (unlocked i) (db_invitations d) = 0"
    using revoked_row [OF assms] unfolding affected_zero_iff unlocked_def by blast
  then show ?thesis by (simp add: SubmitResponse_def)
qed

lemma revoked_no_recovery:
  assumes "keys_unique d" "revoked i d" "ConsumeRecoveryAndCreateSession now h sh expiry d = Inr (d', Some iv)"
  shows "inv_ID iv \<noteq> i"
  using assms(3)
proof (rule consume_D)
  fix t r assume r: "r \<in> set (db_invitations d)" "inv_RevokedAt r = None" and "Some iv = FindByID (inv_ID r) d'"
  then obtain x where "select_row (\<lambda>x. inv_ID x = inv_ID r) (db_invitations d') = Some x" "iv = scanInvitation x"
    by (cases "select_row (\<lambda>x. inv_ID x = inv_ID r) (db_invitations d')") (auto simp: FindByID_def)
  then have "inv_ID iv = inv_ID r" using select_row_SomeD by fastforce
  then show ?thesis using revoked_row [OF assms(1,2) r(1)] r(2) by auto
qed

lemma find_by_access:
  assumes "keys_unique d" "r \<in> set (db_invitations d)"
  shows "FindByAccessID (inv_AccessID r) d = Some (scanInvitation r)"
proof -
  have "select_row (\<lambda>x. inv_AccessID x = inv_AccessID r) (db_invitations d) = Some r"
    by (rule select_row_unique [of inv_AccessID]) (use assms in \<open>auto simp: keys_unique_def\<close>)
  then show ?thesis by (simp add: FindByAccessID_def)
qed

text \<open>A capability whose version is not the invitation's current one is refused.\<close>

lemma exchange_refused:
  assumes "keys_unique (w_db w)" "r \<in> set (db_invitations (w_db w))"
    and "inv_TokenVersion r \<noteq> v \<or> inv_RevokedAt r \<noteq> None"
  shows "ExchangePrivate rt s en (Private rt (svc_signer s) (inv_AccessID r) v) w = (w, Inl ErrInvalidCapability)"
proof (cases "ParsePrivate rt (svc_signer s) (Private rt (svc_signer s) (inv_AccessID r) v)")
  case (Inl err)
  then have "err = ErrInvalidCapability" by (rule private_codec.only_error)
  then show ?thesis using Inl by (simp add: ExchangePrivate_def action_defs)
next
  case (Inr av)
  obtain a v' where av: "av = (a, v')" by (cases av)
  have "Private rt (svc_signer s) (inv_AccessID r) v = Private rt (svc_signer s) a v'" "selector a" "issuable v'"
    using private_codec.sound Inr av by blast+
  then have parts: "inv_AccessID r = a" "v = v'"
    using Inr av private_parts [of rt "svc_signer s" "inv_AccessID r" v a v'] by blast+
  then show ?thesis using Inr av assms find_by_access [OF assms(1,2)]
    by (auto simp: ExchangePrivate_def action_defs)
qed

section \<open>Properties\<close>

text \<open>
  C6: the database stays well formed. Starting from an instance with any users, events and
  questions, every sequence of store operations leads to a database whose keys are unique,
  whose references resolve and in which every invitation has exactly one response.
\<close>

theorem reachable_database_well_formed:
  assumes "distinct (map ev_ID evs)" "(store_step rt)\<^sup>*\<^sup>* (empty_db us evs qs) d"
  shows "wf_db d \<and> (\<forall>r \<in> set (db_invitations d). \<exists>!x. x \<in> set (db_responses d) \<and> resp_InvitationID x = inv_ID r)"
proof -
  have wf: "wf_db d" by (rule store.invariant_reachable [OF assms(2) wf_empty_db [OF assms(1)]])
  moreover have "\<exists>!x. x \<in> set (db_responses d) \<and> resp_InvitationID x = inv_ID r" if mem: "r \<in> set (db_invitations d)" for r
  proof -
    have "inv_ID r \<in> resp_InvitationID ` set (db_responses d)"
      using wf mem by (simp add: wf_db_def responses_total_def)
    then obtain x where x: "x \<in> set (db_responses d)" "resp_InvitationID x = inv_ID r"
      by force
    moreover have "y = x" if "y \<in> set (db_responses d)" "resp_InvitationID y = inv_ID r" for y
      by (rule unique_row [of resp_InvitationID "db_responses d"])
        (use that x wf in \<open>simp_all add: wf_db_def keys_unique_def\<close>)
    ultimately show ?thesis by blast
  qed
  ultimately show ?thesis by blast
qed

text \<open>
  C2: revocation is final. Once an invitation is revoked, then after any further store
  operations no session opens it, no response can be submitted for it, no recovery token leads
  to it, and a capability for it of any version is refused.
\<close>

theorem revocation_is_final:
  assumes "wf_db d" "Revoke now i e reason d = Inr d1" "(store_step rt)\<^sup>*\<^sup>* d1 (w_db w)"
  shows "(\<forall>t h iv. snd (InvitationForSession t h (w_db w)) = Some iv \<longrightarrow> inv_ID iv \<noteq> i) \<and>
    SubmitResponse rt now2 uuid i req (w_db w) = Inl ErrNotFound \<and>
    (\<forall>t h sh x d' iv. ConsumeRecoveryAndCreateSession t h sh x (w_db w) = Inr (d', Some iv) \<longrightarrow> inv_ID iv \<noteq> i) \<and>
    (\<exists>r \<in> set (db_invitations (w_db w)). inv_ID r = i \<and> (\<forall>v.
      ExchangePrivate rt s en (Private rt (svc_signer s) (inv_AccessID r) v) w = (w, Inl ErrInvalidCapability)))"
proof -
  have wf1: "wf_db d1" by (rule revoke_wf [OF assms(2,1)])
  have "revoked i d1" using revoke_marks [OF assms(1,2)] by (auto simp: revoked_def)
  then have rv: "revoked i (w_db w)" by (rule revocation.absorbed_reachable [OF assms(3) wf1])
  have keys: "keys_unique (w_db w)"
    using store.invariant_reachable [OF assms(3) wf1] by (simp add: wf_db_def)
  obtain r where r: "r \<in> set (db_invitations (w_db w))" "inv_ID r = i" "inv_RevokedAt r \<noteq> None"
    using rv by (auto simp: revoked_def)
  then have "\<forall>v. ExchangePrivate rt s en (Private rt (svc_signer s) (inv_AccessID r) v) w = (w, Inl ErrInvalidCapability)"
    using exchange_refused [OF keys r(1), of _ rt s en] by blast
  then show ?thesis
    using r revoked_no_session [OF keys rv] revoked_no_submit [OF keys rv] revoked_no_recovery [OF keys rv] by blast
qed

text \<open>
  Rotation retires capabilities for good. Once an invitation has been rotated, every
  capability minted for it with its old version or an earlier one is refused, after any further
  store operations.
\<close>

theorem rotated_capability_stays_dead:
  assumes "wf_db d" "Rotate now i e d = Inr (d1, res)" "r \<in> set (db_invitations d)" "inv_ID r = i"
    and "v \<le> inv_TokenVersion r" "(store_step rt)\<^sup>*\<^sup>* d1 (w_db w)"
  shows "ExchangePrivate rt s en (Private rt (svc_signer s) (inv_AccessID r) v) w = (w, Inl ErrInvalidCapability)"
proof -
  have wf1: "wf_db d1" by (rule rotate_wf [OF assms(2,1)])
  have "outdated (inv_AccessID r, v) d1"
    using rotate_bumps [OF assms(1-4)] assms(5) by (auto simp: outdated_def)
  then have "outdated (inv_AccessID r, v) (w_db w)" by (rule rotation.absorbed_reachable [OF assms(6) wf1])
  then obtain r' where r': "r' \<in> set (db_invitations (w_db w))" "inv_AccessID r' = inv_AccessID r" "v < inv_TokenVersion r'"
    by (auto simp: outdated_def)
  have "keys_unique (w_db w)"
    using store.invariant_reachable [OF assms(6) wf1] by (simp add: wf_db_def)
  from exchange_refused [OF this r'(1), of v rt s en] show ?thesis using r'(2,3) by simp
qed

text \<open>
  C4: a recovery token works once. After a recovery token has been exchanged for a session, it
  is refused as invalid at any time and after any further store operations.
\<close>

theorem recovery_token_single_use:
  assumes "wf_db d" "ConsumeRecoveryAndCreateSession now h sh expiry d = Inr (d1, res)"
    and "(store_step rt)\<^sup>*\<^sup>* d1 d2"
  shows "ConsumeRecoveryAndCreateSession now2 h sh2 expiry2 d2 = Inl ErrInvalidCapability"
proof (cases "ConsumeRecoveryAndCreateSession now2 h sh2 expiry2 d2")
  case (Inl err)
  have "wf_db d1" by (rule consume_wf [OF assms(2,1)])
  then have "wf_db d2" "token_spent h d2"
    using assms(3) store.invariant_reachable recovery.absorbed_reachable consume_spends [OF assms(2)] by blast+
  then show ?thesis using spent_refused by (simp add: wf_db_def)
next
  case (Inr out)
  have "redeems h d d1" using assms(2) by (auto simp: redeems_def)
  from recovery.redeemed_once [OF assms(1) this assms(3)] Inr show ?thesis
    by (cases out) (auto simp: redeems_def)
qed

end
