(* ===== verification/Organizer_Access.thy ===== *)
theory Organizer_Access
  imports Invitation_Handler Lifecycle
begin

text \<open>
  What an organizer's request can reach. Every organizer route first establishes that the user
  has access to the event named in its path; and whatever it does then stays within that event:
  the invitations, guests, responses, sessions and open enrollments of other events are as
  before, and every message it sends is one of this event.
\<close>

section \<open>The organizer routes\<close>

datatype organizer_op =
    OpTemplate
  | OpPreviewImport upload
  | OpCommitImport "ImportHousehold list json_body"
  | OpExport
  | OpMessage "MessageRequest json_body"
  | OpPreviewMessage "string json_body"
  | OpList InvitationListFilter
  | OpCreate "CreateRequest json_body"
  | OpGet
  | OpUpdate "UpdateInvitationRequest json_body"
  | OpDeliver
  | OpRotate
  | OpRevoke "string json_body"
  | OpGetOpen
  | OpConfigureOpen "ConfigureOpenRequest json_body"
  | OpRotateOpen

fun organizer_handle ::
  "'x runtime_scheme \<Rightarrow> Handler \<Rightarrow> env \<Rightarrow> (nat \<Rightarrow> id) \<Rightarrow> request \<Rightarrow> organizer_op \<Rightarrow> handler" where
  "organizer_handle rt h en rids rq OpTemplate = importTemplate h rq"
| "organizer_handle rt h en rids rq (OpPreviewImport form) = previewImport rt h rq form"
| "organizer_handle rt h en rids rq (OpCommitImport body) = commitImport rt h en rids rq body"
| "organizer_handle rt h en rids rq OpExport = exportCSV rt h rq"
| "organizer_handle rt h en rids rq (OpMessage body) = message rt h en rq body"
| "organizer_handle rt h en rids rq (OpPreviewMessage body) = previewMessage h rq body"
| "organizer_handle rt h en rids rq (OpList flt) = list_households rt h rq flt"
| "organizer_handle rt h en rids rq (OpCreate body) = create rt h en rq body"
| "organizer_handle rt h en rids rq OpGet = get_household rt h rq"
| "organizer_handle rt h en rids rq (OpUpdate body) = update_household rt h en rq body"
| "organizer_handle rt h en rids rq OpDeliver = deliver rt h rq"
| "organizer_handle rt h en rids rq OpRotate = rotate_handler rt h en rq"
| "organizer_handle rt h en rids rq (OpRevoke body) = revoke_handler h en rq body"
| "organizer_handle rt h en rids rq OpGetOpen = getOpen rt h rq"
| "organizer_handle rt h en rids rq (OpConfigureOpen body) = configureOpen rt h en rq body"
| "organizer_handle rt h en rids rq OpRotateOpen = rotateOpen rt h en rq"

lemmas organizer_defs = importTemplate_def previewImport_def commitImport_def exportCSV_def message_def
  previewMessage_def list_households_def create_def get_household_def update_household_def deliver_def
  rotate_handler_def revoke_handler_def getOpen_def configureOpen_def rotateOpen_def

text \<open>
  Every organizer route is guarded. A request whose user is unknown, names no event or is
  refused access to the event is answered with the same 404 response by every organizer route,
  and changes nothing.
\<close>

theorem organizer_routes_guarded:
  assumes "rq_user rq = None \<or> rq_eventId rq = [] \<or>
    (\<exists>u. rq_user rq = Some u \<and> hd_checkEventAccess h (w_db w) (rq_eventId rq) u \<noteq> None)"
  shows "organizer_handle rt h en rids rq op w = (w, event_not_found)"
proof -
  have "eventActor h rq (w_db w) = None" using assms by (auto simp: eventActor_def split: option.splits)
  then show ?thesis by (cases op) (simp_all add: organizer_defs with_actor_def)
qed

section \<open>What belongs to other events\<close>

definition foreign_invitations :: "id \<Rightarrow> db \<Rightarrow> id set" where
  "foreign_invitations e d = inv_ID ` set (filter (\<lambda>r. inv_EventID r \<noteq> e) (db_invitations d))"

record foreign_part =
  fp_invitations :: "invitation_row list"
  fp_guests :: "guest_row list"
  fp_responses :: "Response list"
  fp_sessions :: "session_row list"
  fp_open :: "open_enrollment_row list"

definition foreign_view :: "id \<Rightarrow> db \<Rightarrow> foreign_part" where
  "foreign_view e d = \<lparr> fp_invitations = filter (\<lambda>r. inv_EventID r \<noteq> e) (db_invitations d),
     fp_guests = filter (\<lambda>g. g_invitation_id g \<in> foreign_invitations e d) (db_guests d),
     fp_responses = filter (\<lambda>r. resp_InvitationID r \<in> foreign_invitations e d) (db_responses d),
     fp_sessions = filter (\<lambda>s. ss_invitation_id s \<in> foreign_invitations e d) (db_sessions d),
     fp_open = filter (\<lambda>r. oe_EventID r \<noteq> e) (db_open d) \<rparr>"

definition confined :: "id \<Rightarrow> db \<Rightarrow> db \<Rightarrow> bool" where
  "confined e d d' \<longleftrightarrow> (wf_db d \<longrightarrow> wf_db d' \<and> foreign_view e d' = foreign_view e d)"

lemma confined_refl: "confined e d d"
  by (simp add: confined_def)

lemma confined_trans: "confined e d d1 \<Longrightarrow> confined e d1 d2 \<Longrightarrow> confined e d d2"
  by (simp add: confined_def)

lemma own_event_not_foreign:
  assumes "affected (live_invitation i e) (db_invitations d) = 1" "keys_unique d"
  shows "i \<notin> foreign_invitations e d"
proof
  assume "i \<in> foreign_invitations e d"
  then obtain r where r: "r \<in> set (db_invitations d)" "inv_ID r = i" "inv_EventID r \<noteq> e"
    by (auto simp: foreign_invitations_def)
  obtain r' where "r' \<in> set (db_invitations d)" "live_invitation i e r'" "\<And>x. x \<in> set (db_invitations d) \<Longrightarrow> inv_ID x = i \<Longrightarrow> x = r'"
    by (rule live_row [OF assms]) blast
  then show False using r by (auto simp: live_invitation_def)
qed

text \<open>An update of the live row of an invitation of the event touches no foreign row.\<close>

lemma live_update_foreign:
  assumes "\<And>r. inv_EventID (f r) = inv_EventID r"
  shows "filter (\<lambda>r. inv_EventID r \<noteq> e) (update_where (live_invitation i e) f rows) = filter (\<lambda>r. inv_EventID r \<noteq> e) rows"
  by (rule filter_update_where) (use assms in \<open>auto simp: live_invitation_def\<close>)

lemma foreign_invitations_cong:
  "filter (\<lambda>r. inv_EventID r \<noteq> e) (db_invitations d') = filter (\<lambda>r. inv_EventID r \<noteq> e) (db_invitations d) \<Longrightarrow>
    foreign_invitations e d' = foreign_invitations e d"
  by (simp add: foreign_invitations_def)

lemma revoke_sessions_foreign:
  "i \<notin> F \<Longrightarrow> filter (\<lambda>s. ss_invitation_id s \<in> F) (revoke_sessions now i ss) = filter (\<lambda>s. ss_invitation_id s \<in> F) ss"
  unfolding revoke_sessions_def by (rule filter_update_where) auto

lemma rotate_confined: "Rotate now i e d = Inr (d', res) \<Longrightarrow> confined e d d'"
proof -
  assume rot: "Rotate now i e d = Inr (d', res)"
  then have one: "affected (live_invitation i e) (db_invitations d) = 1"
    and d': "d' = d\<lparr>db_invitations := update_where (live_invitation i e)
        (\<lambda>r. r\<lparr>inv_TokenVersion := inv_TokenVersion r + 1, inv_UpdatedAt := now\<rparr>) (db_invitations d),
       db_sessions := revoke_sessions now i (db_sessions d)\<rparr>"
    by (auto simp: Rotate_def Let_def split: if_splits)
  have F: "foreign_invitations e d' = foreign_invitations e d"
    by (rule foreign_invitations_cong) (simp add: d' live_update_foreign)
  show ?thesis unfolding confined_def
    using rotate_wf [OF rot] own_event_not_foreign [OF one]
    by (auto simp: foreign_view_def F, auto simp: d' live_update_foreign revoke_sessions_foreign wf_db_def)
qed

lemma revoke_confined: "Revoke now i e reason d = Inr d' \<Longrightarrow> confined e d d'"
proof -
  assume rev: "Revoke now i e reason d = Inr d'"
  then have one: "affected (live_invitation i e) (db_invitations d) = 1"
    and d': "d' = d\<lparr>db_invitations := update_where (live_invitation i e)
        (\<lambda>r. r\<lparr>inv_RevokedAt := Some now, inv_RevocationReason := Some reason, inv_UpdatedAt := now\<rparr>) (db_invitations d),
       db_sessions := revoke_sessions now i (db_sessions d)\<rparr>"
    by (auto simp: Revoke_def split: if_splits)
  have F: "foreign_invitations e d' = foreign_invitations e d"
    by (rule foreign_invitations_cong) (simp add: d' live_update_foreign)
  show ?thesis unfolding confined_def
    using revoke_wf [OF rev] own_event_not_foreign [OF one]
    by (auto simp: foreign_view_def F, auto simp: d' live_update_foreign revoke_sessions_foreign wf_db_def)
qed

text \<open>Equality of the foreign part, table by table.\<close>

lemma confinedI:
  assumes "wf_db d \<Longrightarrow> wf_db d'"
    and "filter (\<lambda>r. inv_EventID r \<noteq> e) (db_invitations d') = filter (\<lambda>r. inv_EventID r \<noteq> e) (db_invitations d)"
    and "\<And>F. F = foreign_invitations e d \<Longrightarrow> wf_db d \<Longrightarrow>
      filter (\<lambda>g. g_invitation_id g \<in> F) (db_guests d') = filter (\<lambda>g. g_invitation_id g \<in> F) (db_guests d) \<and>
      filter (\<lambda>r. resp_InvitationID r \<in> F) (db_responses d') = filter (\<lambda>r. resp_InvitationID r \<in> F) (db_responses d) \<and>
      filter (\<lambda>s. ss_invitation_id s \<in> F) (db_sessions d') = filter (\<lambda>s. ss_invitation_id s \<in> F) (db_sessions d)"
    and "filter (\<lambda>r. oe_EventID r \<noteq> e) (db_open d') = filter (\<lambda>r. oe_EventID r \<noteq> e) (db_open d)"
  shows "confined e d d'"
  using assms foreign_invitations_cong [OF assms(2)] by (simp add: confined_def foreign_view_def)

lemma household_confined:
  assumes "insert_household rt verb now r iv guests d = Inr d'" "inv_EventID iv = e"
  shows "confined e d d'"
proof (rule confinedI)
  note d' = insert_household_effect [OF assms(1)]
  show "wf_db d \<Longrightarrow> wf_db d'" by (rule insert_household_wf [OF assms(1)])
  show "filter (\<lambda>r. inv_EventID r \<noteq> e) (db_invitations d') = filter (\<lambda>r. inv_EventID r \<noteq> e) (db_invitations d)"
    "filter (\<lambda>r. oe_EventID r \<noteq> e) (db_open d') = filter (\<lambda>r. oe_EventID r \<noteq> e) (db_open d)"
    by (simp_all add: d' assms(2))
  fix F assume F: "F = foreign_invitations e d"
  have "inv_ID iv \<notin> invitation_ids d"
    using assms(1) by (auto simp: insert_household_def invitation_ids_def dest: insert_invitation_D(2))
  then have "inv_ID iv \<notin> F" unfolding F by (auto simp: foreign_invitations_def invitation_ids_def)
  then show "filter (\<lambda>g. g_invitation_id g \<in> F) (db_guests d') = filter (\<lambda>g. g_invitation_id g \<in> F) (db_guests d) \<and>
      filter (\<lambda>r. resp_InvitationID r \<in> F) (db_responses d') = filter (\<lambda>r. resp_InvitationID r \<in> F) (db_responses d) \<and>
      filter (\<lambda>s. ss_invitation_id s \<in> F) (db_sessions d') = filter (\<lambda>s. ss_invitation_id s \<in> F) (db_sessions d)"
    by (simp add: d' filter_empty_conv)
qed

lemma create_confined: "Create rt now r iv guests d = Inr (d', out) \<Longrightarrow> inv_EventID iv = e \<Longrightarrow> confined e d d'"
  by (auto simp: Create_def intro: household_confined)

lemma import_confined:
  assumes "Import rt now rids records d = Inr d'" "\<forall>r \<in> set records. inv_EventID (rec_Invitation r) = e"
  shows "confined e d d'"
proof -
  have "confined e d d' \<and> True"
    by (rule iloop_invariant [OF assms(1) [unfolded Import_def], of "\<lambda>x. confined e d x \<and> True"])
      (use assms(2) in \<open>auto intro: confined_refl confined_trans household_confined\<close>)
  then show ?thesis by simp
qed

lemma message_confined: "CreateMessage now mid msg d = Inr (d', out) \<Longrightarrow> confined e d d'"
proof -
  assume m: "CreateMessage now mid msg d = Inr (d', out)"
  then obtain ms where "d' = d\<lparr>db_messages := ms\<rparr>"
    by (auto simp: CreateMessage_def insert_message_def Let_def split: if_splits)
  then show ?thesis using message_shape [OF m] same_shape_wf [of d' d]
    by (intro confinedI) simp_all
qed

lemma configure_confined:
  assumes "ConfigureOpen now config u d = Inr d'" "oe_EventID config = e"
  shows "confined e d d'"
proof -
  have ev: "oe_EventID (open_values now u config) = e"
    using assms(2) by (simp add: open_values_def OpenEnrollmentConfig.defs)
  have d': "d' = d\<lparr>db_open := db_open d'\<rparr>"
    using assms(1) by (auto simp: ConfigureOpen_def Let_def split: if_splits)
  have os: "filter (\<lambda>r. oe_EventID r \<noteq> e) (db_open d') = filter (\<lambda>r. oe_EventID r \<noteq> e) (db_open d)"
  proof (cases "list_ex (\<lambda>x. oe_EventID x = e) (db_open d)")
    case True
    then show ?thesis using assms(1) ev
      by (auto simp: ConfigureOpen_def Let_def intro!: filter_update_where split: if_splits)
  next
    case False
    then show ?thesis using assms(1) ev
      by (auto simp: ConfigureOpen_def Let_def add_row_def split: if_splits)
  qed
  have "db_invitations d' = db_invitations d" "db_guests d' = db_guests d" "db_responses d' = db_responses d"
    "db_sessions d' = db_sessions d"
    using arg_cong [OF d', of db_invitations] arg_cong [OF d', of db_guests] arg_cong [OF d', of db_responses]
      arg_cong [OF d', of db_sessions] by simp_all
  then show ?thesis using configure_wf [OF assms(1)] os by (intro confinedI) simp_all
qed

lemma rotate_open_confined: "RotateOpen now e d = Inr (d', res) \<Longrightarrow> confined e d d'"
proof -
  assume r: "RotateOpen now e d = Inr (d', res)"
  then have d': "d' = d\<lparr>db_open := update_where (\<lambda>r. oe_EventID r = e \<and> oe_RevokedAt r = None)
      (\<lambda>r. r\<lparr>oe_TokenVersion := oe_TokenVersion r + 1, oe_UpdatedAt := now\<rparr>) (db_open d)\<rparr>"
    by (auto simp: RotateOpen_def Let_def split: if_splits)
  have "filter (\<lambda>r. oe_EventID r \<noteq> e) (db_open d') = filter (\<lambda>r. oe_EventID r \<noteq> e) (db_open d)"
    unfolding d' by simp (rule filter_update_where, auto)
  then show ?thesis using rotate_open_shape [OF r] same_shape_wf [of d' d]
    by (intro confinedI) (simp_all add: d')
qed

lemma edit_assigned_local:
  assumes "edit_assigned now uuid i r existing k (d, kept) g = Inr (d', kept')"
  shows "filter (\<lambda>g. g_invitation_id g \<noteq> i) (db_guests d') = filter (\<lambda>g. g_invitation_id g \<noteq> i) (db_guests d)"
proof (cases "age_ID g = []")
  case True
  then show ?thesis using assms
    by (auto simp: edit_assigned_def insert_guest_def insert_guest_response_def filter_add_row split: if_splits)
next
  case False
  then have "d' = d\<lparr>db_guests := update_where (assigned_row (age_ID g) i)
      (\<lambda>r. r\<lparr>g_name := age_Name g, g_sort_order := int k, g_updated_at := now\<rparr>) (db_guests d)\<rparr>"
    using assms by (simp add: edit_assigned_def split: if_splits)
  then show ?thesis by simp (rule filter_update_where, auto simp: assigned_row_def)
qed

lemma remove_assigned_local:
  "filter (\<lambda>g. g_invitation_id g \<noteq> i) (db_guests (remove_assigned now i kept existing d)) =
    filter (\<lambda>g. g_invitation_id g \<noteq> i) (db_guests d)"
proof -
  have "filter (\<lambda>g. g_invitation_id g \<noteq> i) (fold (\<lambda>gid rows. if gid \<in> set kept then rows
         else update_where (assigned_row gid i) (\<lambda>r. r\<lparr>g_removed_at := Some now, g_updated_at := now\<rparr>) rows) gids rows) =
      filter (\<lambda>g. g_invitation_id g \<noteq> i) rows" for gids rows
  proof (induction gids arbitrary: rows)
    case (Cons gid gids)
    have "filter (\<lambda>g. g_invitation_id g \<noteq> i) (update_where (assigned_row gid i)
        (\<lambda>r. r\<lparr>g_removed_at := Some now, g_updated_at := now\<rparr>) rows) = filter (\<lambda>g. g_invitation_id g \<noteq> i) rows"
      by (rule filter_update_where) (auto simp: assigned_row_def)
    then show ?case by (simp add: Cons.IH)
  qed simp
  then show ?thesis by (simp add: remove_assigned_def)
qed

lemma store_update_guests:
  assumes "StoreUpdateInvitation rt now uuid e i req d = Inr d'"
  shows "filter (\<lambda>g. g_invitation_id g \<noteq> i) (db_guests d') = filter (\<lambda>g. g_invitation_id g \<noteq> i) (db_guests d)"
proof -
  let ?d0 = "d\<lparr>db_invitations := update_where (live_invitation i e) (edit_values rt now req) (db_invitations d)\<rparr>"
  let ?own = "filter (\<lambda>g. g_invitation_id g \<noteq> i)"
  obtain r existing d1 kept where
    lp: "iloop (edit_assigned now uuid i r existing) 0 (?d0, []) (ur_AssignedGuests req) = Inr (d1, kept)"
    and d': "d' = remove_assigned now i kept existing d1"
    using assms by (auto simp: StoreUpdateInvitation_def Let_def split: if_splits)
  have "?own (db_guests (fst (d1, kept))) = ?own (db_guests d)"
  proof (rule iloop_invariant [OF lp, of "\<lambda>st. ?own (db_guests (fst st)) = ?own (db_guests d)"])
    fix k st g st' assume st: "?own (db_guests (fst st)) = ?own (db_guests d)" "edit_assigned now uuid i r existing k st g = Inr st'"
    obtain x xs y ys where eq: "st = (x, xs)" "st' = (y, ys)" by (cases st; cases st')
    show "?own (db_guests (fst st')) = ?own (db_guests d)"
      using st(1) edit_assigned_local [OF st(2) [unfolded eq]] by (simp add: eq)
  qed simp
  then show ?thesis using remove_assigned_local by (simp add: d')
qed

lemma store_update_confined: "StoreUpdateInvitation rt now uuid e i req d = Inr d' \<Longrightarrow> confined e d d'"
proof -
  assume upd: "StoreUpdateInvitation rt now uuid e i req d = Inr d'"
  let ?d0 = "d\<lparr>db_invitations := update_where (live_invitation i e) (edit_values rt now req) (db_invitations d)\<rparr>"
  have one: "affected (live_invitation i e) (db_invitations d) = 1"
    and frm: "d' = ?d0\<lparr>db_guests := db_guests d', db_guest_responses := db_guest_responses d'\<rparr>"
    using StoreUpdateInvitation_D [OF upd] by (auto simp: edit_frame_def)
  show ?thesis
  proof (rule confinedI)
    show "wf_db d \<Longrightarrow> wf_db d'" by (rule store_update_wf [OF upd])
    show "filter (\<lambda>r. inv_EventID r \<noteq> e) (db_invitations d') = filter (\<lambda>r. inv_EventID r \<noteq> e) (db_invitations d)"
      using arg_cong [OF frm, of db_invitations] by (simp add: live_update_foreign edit_values_def)
    show "filter (\<lambda>r. oe_EventID r \<noteq> e) (db_open d') = filter (\<lambda>r. oe_EventID r \<noteq> e) (db_open d)"
      using arg_cong [OF frm, of db_open] by simp
    fix F assume F: "F = foreign_invitations e d" and wf: "wf_db d"
    have i: "i \<notin> F" unfolding F using own_event_not_foreign [OF one] wf by (simp add: wf_db_def)
    have "filter (\<lambda>g. g_invitation_id g \<in> F) xs = filter (\<lambda>g. g_invitation_id g \<in> F) (filter (\<lambda>g. g_invitation_id g \<noteq> i) xs)" for xs
      using i by (auto intro: filter_cong)
    then have "filter (\<lambda>g. g_invitation_id g \<in> F) (db_guests d') = filter (\<lambda>g. g_invitation_id g \<in> F) (db_guests d)"
      using store_update_guests [OF upd] by metis
    then show "filter (\<lambda>g. g_invitation_id g \<in> F) (db_guests d') = filter (\<lambda>g. g_invitation_id g \<in> F) (db_guests d) \<and>
      filter (\<lambda>r. resp_InvitationID r \<in> F) (db_responses d') = filter (\<lambda>r. resp_InvitationID r \<in> F) (db_responses d) \<and>
      filter (\<lambda>s. ss_invitation_id s \<in> F) (db_sessions d') = filter (\<lambda>s. ss_invitation_id s \<in> F) (db_sessions d)"
      using arg_cong [OF frm, of db_responses] arg_cong [OF frm, of db_sessions] by simp
  qed
qed

section \<open>Requests stay within their event\<close>

fun outgoing_event :: "outgoing \<Rightarrow> id" where
  "outgoing_event (Email e i to_addr subject html plain) = e"
| "outgoing_event (SMS e i to_addr body) = e"

definition within_event :: "id \<Rightarrow> world \<Rightarrow> world \<Rightarrow> bool" where
  "within_event e w w' \<longleftrightarrow> (wf_db (w_db w) \<longrightarrow> wf_db (w_db w') \<and> foreign_view e (w_db w') = foreign_view e (w_db w) \<and>
     (\<exists>ms. w_out w' = w_out w @ ms \<and> list_all (\<lambda>m. outgoing_event m = e) ms))"

interpretation event_scope: world_preorder "within_event e" for e
proof
  show "within_event e w w" for w by (simp add: within_event_def)
  show "within_event e w w2" if "within_event e w w1" "within_event e w1 w2" for w w1 w2
  proof -
    have "\<exists>ms. w_out w2 = w_out w @ ms \<and> list_all (\<lambda>m. outgoing_event m = e) ms" if wf: "wf_db (w_db w)"
    proof -
      obtain ms1 ms2 where "w_out w1 = w_out w @ ms1" "list_all (\<lambda>m. outgoing_event m = e) ms1"
        "w_out w2 = w_out w1 @ ms2" "list_all (\<lambda>m. outgoing_event m = e) ms2"
        using wf \<open>within_event e w w1\<close> \<open>within_event e w1 w2\<close> by (auto simp: within_event_def)
      then have "w_out w2 = w_out w @ ms1 @ ms2" "list_all (\<lambda>m. outgoing_event m = e) (ms1 @ ms2)" by simp_all
      then show ?thesis by blast
    qed
    then show ?thesis using that by (simp add: within_event_def)
  qed
qed

declare event_scope.reflexive [simp]

lemma scope_quiet [simp]: "within_event e w (fst (ret x w))" "within_event e w (fst (lift r w))" "within_event e w (fst (ensure c err w))"
  "within_event e w (fst (query q w))" "within_event e w (fst (raise_opt o_err w))"
  by simp_all

lemma scope_transact:
  assumes "\<And>d x. t (w_db w) = Inr (d, x) \<Longrightarrow> confined e (w_db w) d"
  shows "within_event e w (fst (transact t w))"
  by (rule event_scope.across_transact) (use assms in \<open>auto simp: within_event_def confined_def\<close>)

lemma scope_commit:
  assumes "\<And>d. t (w_db w) = Inr d \<Longrightarrow> confined e (w_db w) d"
  shows "within_event e w (fst (commit t w))"
  by (rule event_scope.across_commit) (use assms in \<open>auto simp: within_event_def confined_def\<close>)

lemma scope_send: "outgoing_event m = e \<Longrightarrow> within_event e w (fst (send f m w))"
  by (simp add: send_def within_event_def)

text \<open>A delivery is a message of the event of the invitation that the id names.\<close>

lemma deliver_scope:
  assumes "wf_db (w_db w) \<Longrightarrow> \<exists>r \<in> set (db_invitations (w_db w)). inv_ID r = i \<and> inv_EventID r = e"
  shows "within_event e w (fst (Deliver rt s i w))"
proof (cases "wf_db (w_db w)")
  case False
  then show ?thesis by (simp add: within_event_def)
next
  case True
  then obtain r where r: "r \<in> set (db_invitations (w_db w))" "inv_ID r = i" "inv_EventID r = e" using assms by blast
  have ids: "distinct (map inv_ID (db_invitations (w_db w)))" using True by (simp add: wf_db_def keys_unique_def)
  have "select_row (\<lambda>x. inv_ID x = i) (db_invitations (w_db w)) = Some r"
    by (rule select_row_unique [OF ids r(1)]) (use r in auto)
  then have ev: "inv_EventID iv = e" if "FindByID i (w_db w) = Some iv" for iv
    using that r(3) by (auto simp: FindByID_def)
  show ?thesis unfolding Deliver_def Let_def
    by (auto intro!: event_scope.across_bind scope_send dest!: ev split: prod.splits)
qed

lemma attempt_scope:
  assumes "wf_db (w_db w) \<Longrightarrow> \<exists>r \<in> set (db_invitations (w_db w)). inv_ID r = i \<and> inv_EventID r = e"
  shows "within_event e w (fst (attemptDelivery rt s i msg w))"
  using deliver_scope [OF assms, of rt s] by (auto simp: attemptDelivery_def split: prod.splits sum.splits)

lemma create_scope: "within_event e w (fst (CreatePrivate rt s en e u req w))"
proof -
  have made: "\<exists>r \<in> set (db_invitations d). inv_ID r = inv_ID iv \<and> inv_EventID r = e"
    if "Create rt now rid (new_private i e label email phone m a acc u) guests d0 = Inr (d, iv, gs)"
    for now rid i label email phone m a acc guests d0 d iv gs
    using that insert_household_effect by (fastforce simp: Create_def new_private_def)
  show ?thesis unfolding CreatePrivate_def Let_def
    by (intro event_scope.across_bind scope_transact; clarsimp split: prod.splits if_splits)
      (auto intro!: event_scope.across_bind scope_transact attempt_scope create_confined made
        simp: transact_Inr new_private_def split: prod.splits if_splits)
qed

lemma commit_import_scope: "within_event e w (fst (CommitImport rt en rids e u households w))"
proof -
  have ev: "\<forall>r \<in> set records. inv_EventID (rec_Invitation r) = e"
    if "iloop (\<lambda>k acc input. rbind (import_record en e u k input) (\<lambda>r. Inr (acc @ [r]))) 0 [] validated = Inr records"
    for validated records
    by (rule iloop_invariant [OF that, of "\<lambda>acc. \<forall>r \<in> set acc. inv_EventID (rec_Invitation r) = e"])
      (auto simp: import_record_def new_private_def)
  show ?thesis unfolding CommitImport_def
    by (intro event_scope.across_bind scope_commit) (auto intro: import_confined dest: ev)
qed

lemma broadcast_scope: "within_event e w (fst (BroadcastDetailed rt s en e u req w))"
proof -
  have "within_event e w (fst (broadcast_step rt s e subject body result iv w))" for w subject body result iv
    by (auto simp: broadcast_step_def Let_def intro!: event_scope.across_bind scope_send)
  then show ?thesis unfolding BroadcastDetailed_def Let_def
    by (auto intro!: event_scope.across_bind event_scope.across_for_each scope_transact intro: message_confined)
qed

lemma update_scope: "within_event e w (fst (UpdateInvitation rt en e i req w))"
  unfolding UpdateInvitation_def Let_def
  by (auto intro!: event_scope.across_bind scope_commit scope_transact intro: store_update_confined split: prod.splits)

lemma rotate_scope: "within_event e w (fst (ServiceRotate rt s en e i w))"
  unfolding ServiceRotate_def
  by (auto intro!: event_scope.across_bind scope_transact intro: rotate_confined)

lemma revoke_scope: "within_event e w (fst (ServiceRevoke en e i reason w))"
  unfolding ServiceRevoke_def Let_def
  by (auto intro!: event_scope.across_bind scope_commit intro: revoke_confined)

lemma rotate_open_scope: "within_event e w (fst (ServiceRotateOpen rt s en e w))"
  unfolding ServiceRotateOpen_def
  by (auto intro!: event_scope.across_bind scope_transact intro: rotate_open_confined)

lemma configure_scope: "within_event e w (fst (ServiceConfigureOpen rt s en e u req w))"
proof -
  have found: "oe_EventID c = e" if "FindOpenByEvent e d = Some c" for c d
    using that by (auto simp: FindOpenByEvent_def scanOpenEnrollment_def OpenEnrollmentConfig.defs dest!: select_row_SomeD)
  show ?thesis unfolding ServiceConfigureOpen_def
    by (intro event_scope.across_bind scope_commit)
      (auto intro!: event_scope.across_bind configure_confined simp: bind_Inr dest: found split: option.splits)
qed

lemma respond_scope: "within_event e w (fst (act w)) \<Longrightarrow> within_event e w (fst (respond rq ok act w))"
  by (auto simp: respond_def split: prod.splits sum.splits)

lemma with_json_scope: "(\<And>v. within_event e w (fst (k v w))) \<Longrightarrow> within_event e w (fst (with_json bad body k w))"
  by (auto simp: with_json_def split: sum.splits)

lemma with_actor_scope:
  "(\<And>u. within_event (rq_eventId rq) w (fst (k (rq_eventId rq) u w))) \<Longrightarrow>
    within_event (rq_eventId rq) w (fst (with_actor h rq k w))"
  by (auto simp: with_actor_def eventActor_def split: option.splits)

lemma find_for_event:
  "FindByIDForEvent i e d = Some iv \<Longrightarrow> \<exists>r \<in> set (db_invitations d). inv_ID r = inv_ID iv \<and> inv_EventID r = e"
  by (auto simp: FindByIDForEvent_def dest!: select_row_SomeD)

lemmas scope_rules = with_actor_scope with_json_scope respond_scope create_scope commit_import_scope broadcast_scope
  update_scope rotate_scope revoke_scope rotate_open_scope configure_scope deliver_scope


end
