(* ===== verification/Samples.thy ===== *)
theory Samples
  imports Organizer_Access
begin

text \<open>
  A small instance on which the hypotheses of the properties hold: one event with a required
  question, one private household with an assigned guest and one additional guest allowed, and
  an open enrollment. Each witness evaluates the operations on it and applies its property.
\<close>

section \<open>The instance\<close>

definition sample_rt :: runtime where
  "sample_rt = \<lparr> rt_hmac = (\<lambda>k m. take 6 m), rt_sha256 = (\<lambda>s. s), rt_lower = (\<lambda>s. s),
     rt_mail_ok = (\<lambda>s. CHR ''@'' \<in> set s), rt_quote = (\<lambda>s. s), rt_json_strings = (\<lambda>s. Some []),
     rt_json_background = (\<lambda>s. None), rt_url_scheme = (\<lambda>s. None), rt_utf8_valid = (\<lambda>s. True),
     rt_csv_read = (\<lambda>s. map (\<lambda>line. CsvRecord (split_on (CHR '','') line)) (split_on (byte 10) s)),
     rt_format_time = (\<lambda>t. []), rt_parse_rfc3339 = (\<lambda>s. None) \<rparr>"

definition sample_event :: EventSummary where
  "sample_event = \<lparr> ev_ID = ''e1'', ev_Title = ''Party'', ev_Description = [], ev_EventDate = 0,
     ev_EndDate = None, ev_Location = [], ev_Timezone = [], ev_Status = ''published'' \<rparr>"

definition sample_question :: question_row where
  "sample_question = \<lparr> qr_id = ''q1'', qr_event_id = ''e1'', qr_label = ''Song'', qr_type = ''text'',
     qr_options = ''[]'', qr_required = True, qr_scope = ''invitation'', qr_sort_order = 0,
     qr_deleted = False, qr_created_at = 0, qr_updated_at = 0 \<rparr>"

definition sample_db0 :: db where
  "sample_db0 = empty_db [''u1''] [sample_event] [sample_question]"

definition sample_guest :: Guest where
  "sample_guest = \<lparr> guest_ID = ''g1'', guest_InvitationID = [], guest_Name = ''Jane'',
     guest_Origin = ''assigned'', guest_SortOrder = 0, guest_Attendance = [], guest_RemovedAt = None,
     guest_CreatedAt = 0, guest_UpdatedAt = 0 \<rparr>"

definition sample_inv :: Invitation where
  "sample_inv = \<lparr> inv_ID = ''i1'', inv_EventID = ''e1'', inv_Label = ''Smith'',
     inv_ContactEmail = Some ''a@b'', inv_ContactPhone = None, inv_PreferredDeliveryMethod = ''email'',
     inv_AdditionalGuestAllowance = 1, inv_Source = ''private'', inv_OpenEnrollmentID = None,
     inv_AccessID = ''acc'', inv_TokenVersion = 1, inv_CreatedByUserID = Some ''u1'',
     inv_RevokedAt = None, inv_RevocationReason = None, inv_CreatedAt = 0, inv_UpdatedAt = 0 \<rparr>"

text \<open>The database after creating the household.\<close>

definition sample_db1 :: db where
  "sample_db1 = sample_db0\<lparr>
     db_invitations := [Invitation.extend sample_inv (invitation_row.fields (Some ''a@b'') None)],
     db_guests := [guest_values 0 ''i1'' sample_guest],
     db_responses := [response_values 0 ''r1'' ''i1''],
     db_guest_responses := [guest_response_values 0 ''r1'' ''g1'' ''pending'']\<rparr>"

definition sample_request :: SubmitRequest where
  "sample_request = \<lparr> sr_Version = 1,
     sr_AssignedGuests = [\<lparr> gai_GuestID = ''g1'', gai_Attendance = ''attending'' \<rparr>],
     sr_AdditionalGuests = [\<lparr> agi_ID = [], agi_ClientKey = ''k'', agi_Name = ''Bob'', agi_Attendance = ''maybe'' \<rparr>],
     sr_InvitationAnswers = [(''q1'', ''Waltz'')], sr_GuestAnswers = [] \<rparr>"

definition sample_db2 :: db where
  "sample_db2 = sample_db1\<lparr>
     db_guests := [guest_values 0 ''i1'' sample_guest, additional_values 5 ''g2'' ''i1'' ''Bob'' 1],
     db_responses := [advance_version 5 (response_values 0 ''r1'' ''i1'')],
     db_guest_responses := [(guest_response_values 0 ''r1'' ''g1'' ''attending'')\<lparr>gr_updated_at := 5\<rparr>,
       guest_response_values 5 ''r1'' ''g2'' ''maybe''],
     db_invitation_answers := [\<lparr> ia_invitation_id = ''i1'', ia_question_id = ''q1'', ia_answer = ''Waltz'',
       ia_created_at = 5 \<rparr>]\<rparr>"

named_theorems sample_defs \<open>the data of the instance\<close>

declare sample_rt_def [sample_defs] sample_event_def [sample_defs] sample_question_def [sample_defs]
  sample_db0_def [sample_defs] sample_guest_def [sample_defs] sample_inv_def [sample_defs]
  sample_db1_def [sample_defs] sample_request_def [sample_defs] empty_db_def [sample_defs]
  guest_values_def [sample_defs] response_values_def [sample_defs]
  guest_response_values_def [sample_defs] Invitation.defs [sample_defs] invitation_row.defs [sample_defs]

text \<open>Evaluation of the string functions and the statements on given rows.\<close>

lemmas string_eval = trim_space_graphic graphic_def to_lower_def ascii_def lower_byte_def byte_def Let_def

lemmas table_eval = select_row_def update_where_def affected_def add_row_def delete_where_def
  or_err_def guard_def insert_defs id_set_defs user_ref_ok_def invitation_checks_def
  guest_response_ok_def validAttendance_def

lemma sample_created:
  "Create sample_rt 0 ''r1'' sample_inv [sample_guest] sample_db0 =
    Inr (sample_db1, sample_inv, [sample_guest\<lparr>guest_InvitationID := ''i1'', guest_Attendance := ''pending''\<rparr>])"
  by (simp add: Create_def insert_household_def insert_guest_pending_def invitation_values_def
     normalizeEmail_def sample_defs string_eval table_eval AttendancePending_def)

lemma sample_db1_wf: "wf_db sample_db1"
  by (simp add: wf_db_def keys_unique_def refs_ok_def responses_total_def id_set_defs sample_defs)


lemmas submit_eval = updateGuestAttendance_def loadActiveGuestsTx_def loadQuestionsTx_def
  validateAnswer_def questionByID_def check_scoped_answer_def require_invitation_answer_def
  require_guest_answers_def validateResponseAnswers_def save_invitation_answer_def
  save_guest_answer_def replaceAnswers_def unlocked_def at_version_def advance_version_def
  apply_assigned_def additional_values_def create_additional_def additional_row_def
  rename_additional_def apply_additional_def remove_additional_def SubmitResponse_def
  scanGuest_def attendance_of_def active_guest_def scanQuestions_def scanQuestion_def map_get_def
  map_put_def map_delete_def AttendancePending_def AttendanceAttending_def AttendanceMaybe_def
  AttendanceDeclined_def GuestOriginAssigned_def GuestOriginAdditional_def
  QuestionScopeInvitation_def QuestionScopeGuest_def

lemma sample_submitted:
  "SubmitResponse sample_rt 5 (\<lambda>k. ''g2'') ''i1'' sample_request sample_db1 = Inr sample_db2"
  by (simp add: submit_eval sample_defs sample_db2_def string_eval table_eval)


section \<open>Submissions\<close>

theorem submit_no_lost_update_witness:
  "SubmitResponse sample_rt 5 (\<lambda>k. ''g2'') ''i1'' sample_request sample_db1 = Inr sample_db2 \<and>
   (SubmitResponse sample_rt 9 (\<lambda>k. ''g3'') ''i1'' sample_request sample_db2 = Inl ErrConflict \<or>
    SubmitResponse sample_rt 9 (\<lambda>k. ''g3'') ''i1'' sample_request sample_db2 = Inl ErrAllowance)"
  using submit_no_lost_update [OF sample_db1_wf sample_submitted refl, of sample_rt 9 "\<lambda>k. ''g3''"]
    sample_submitted by blast

theorem submit_respects_allowance_witness:
  "SubmitResponse sample_rt 5 (\<lambda>k. ''g2'') ''i1'' sample_request sample_db1 = Inr sample_db2 \<and>
   (\<exists>iv \<in> set (db_invitations sample_db2). inv_ID iv = ''i1'' \<and>
    int (length (filter (\<lambda>g. active_guest ''i1'' g \<and> g_origin g = ''additional'') (db_guests sample_db2)))
      \<le> inv_AdditionalGuestAllowance iv)"
  using submit_respects_allowance [OF sample_db1_wf sample_submitted] sample_submitted by blast

theorem submit_isolates_households_witness:
  "wf_db sample_db1 \<and> wf_db sample_db2 \<and> frame ''i1'' (foreign_ids ''i1'' sample_db1) sample_db1 sample_db2"
  using submit_isolates_households [OF sample_db1_wf sample_submitted] sample_db1_wf by blast

theorem submit_answers_required_questions_witness:
  "qr_required sample_question \<and> (\<exists>r \<in> set (db_invitation_answers sample_db2).
      ia_invitation_id r = ''i1'' \<and> ia_question_id r = ''q1'' \<and> trim_space (ia_answer r) \<noteq> [])"
  using submit_answers_required_questions [OF sample_db1_wf sample_submitted,
      of "hd (db_invitations sample_db1)" sample_question]
  by (simp add: sample_defs)

section \<open>Sessions, rotation and revocation\<close>

text \<open>The household with a session of its version 1, valid for ten hours.\<close>

definition sample_db3 :: db where
  "sample_db3 = sample_db1\<lparr>db_sessions := [session_values 0 ''i1'' ''h'' 1 (10 * hour)]\<rparr>"

definition sample_rotated :: "db \<times> Invitation option" where
  "sample_rotated = projr (Rotate 7 ''i1'' ''e1'' sample_db3)"

definition sample_revoked :: db where
  "sample_revoked = projr (Revoke 7 ''i1'' ''e1'' ''late'' sample_db3)"

lemma sample_session: "CreateSession 0 ''i1'' ''h'' 1 (10 * hour) sample_db1 = Inr sample_db3"
  by (simp add: CreateSession_def sample_db3_def sample_defs table_eval session_values_def)

lemma sample_db3_wf: "wf_db sample_db3"
  by (rule create_session_wf [OF sample_session sample_db1_wf])

lemma sample_rotated: "Rotate 7 ''i1'' ''e1'' sample_db3 = Inr (fst sample_rotated, snd sample_rotated)"
  by (simp add: sample_rotated_def Rotate_def sample_db3_def sample_defs table_eval live_invitation_def Let_def)

lemma sample_revoked: "Revoke 7 ''i1'' ''e1'' ''late'' sample_db3 = Inr sample_revoked"
  by (simp add: sample_revoked_def Revoke_def sample_db3_def sample_defs table_eval live_invitation_def)

theorem rotate_invalidates_sessions_witness:
  "Rotate 7 ''i1'' ''e1'' sample_db3 = Inr (fst sample_rotated, snd sample_rotated) \<and>
   (\<nexists>t h iv. snd (InvitationForSession t h (fst sample_rotated)) = Some iv \<and> inv_ID iv = ''i1'')"
  using rotate_invalidates_sessions [OF sample_db3_wf sample_rotated] sample_rotated by blast

theorem revoke_closes_household_witness:
  "Revoke 7 ''i1'' ''e1'' ''late'' sample_db3 = Inr sample_revoked \<and>
   Revoke 8 ''i1'' ''e1'' ''again'' sample_revoked = Inl ErrNotFound \<and>
   Rotate 8 ''i1'' ''e1'' sample_revoked = Inl ErrNotFound"
  using revoke_closes_household [OF sample_db3_wf sample_revoked, of 8 "''e1''" "''again''"] sample_revoked by blast

theorem session_expiry_to_the_second_witness:
  "snd (InvitationForSession (9 * hour) ''h'' sample_db3) = Some sample_inv \<and>
   snd (InvitationForSession (10 * hour + second) ''h'' sample_db3) = None"
proof -
  have "snd (InvitationForSession (9 * hour) ''h'' sample_db3) =
      Some (scanInvitation (hd (db_invitations sample_db3)))"
    using session_expiry_to_the_second [OF sample_db3_wf, of "9 * hour" "''h''"]
    by (simp add: sample_db3_def session_values_def sample_defs hour_def minute_def second_def)
  moreover have "snd (InvitationForSession (10 * hour + second) ''h'' sample_db3) = None"
    using session_expiry_to_the_second [OF sample_db3_wf, of "10 * hour + second" "''h''"]
    by (cases "snd (InvitationForSession (10 * hour + second) ''h'' sample_db3)")
      (simp_all add: sample_db3_def session_values_def sample_defs)
  ultimately show ?thesis by (simp add: scanInvitation_def sample_db3_def sample_defs)
qed


section \<open>Recovery\<close>

definition sample_attempt :: db where
  "sample_attempt = fst (projr (AllowRecovery ''sqlite'' 0 1 ''e1'' ''src'' ''dst'' sample_db1))"

lemma sample_attempt: "AllowRecovery ''sqlite'' 0 1 ''e1'' ''src'' ''dst'' sample_db1 = Inr (sample_attempt, True)"
  by (simp add: sample_attempt_def AllowRecovery_def attempts_since_def supported_dialect_def sample_defs
     table_eval Let_def)

theorem recovery_within_budgets_witness:
  "AllowRecovery ''sqlite'' 0 1 ''e1'' ''src'' ''dst'' sample_db1 = Inr (sample_attempt, True) \<and>
   attempts_since (\<lambda>r. ra_destination_fingerprint r = ''dst'') (- hour) sample_attempt \<le> 3"
  using recovery_within_budgets [OF sample_attempt] sample_attempt by simp

text \<open>The household with a recovery token, and the database after its exchange.\<close>

definition sample_db4 :: db where
  "sample_db4 = sample_db1\<lparr>db_recovery_tokens := [\<lparr> rk_invitation_id = ''i1'', rk_token_hash = ''t'',
     rk_destination = ''email'', rk_expires_at = hour, rk_consumed_at = None, rk_created_at = 0 \<rparr>]\<rparr>"

definition sample_redeemed :: "db \<times> Invitation option" where
  "sample_redeemed = projr (ConsumeRecoveryAndCreateSession 1 ''t'' ''h'' (10 * hour) sample_db4)"

lemma sample_token: "CreateRecoveryToken 0 ''i1'' ''t'' ''email'' hour sample_db1 = Inr sample_db4"
  by (simp add: CreateRecoveryToken_def sample_db4_def sample_defs table_eval)

lemma sample_redeemed:
  "ConsumeRecoveryAndCreateSession 1 ''t'' ''h'' (10 * hour) sample_db4 =
    Inr (fst sample_redeemed, snd sample_redeemed)"
  by (simp add: sample_redeemed_def ConsumeRecoveryAndCreateSession_def sample_db4_def sample_defs
     table_eval live_token_def session_values_def stamp_eval)

theorem recovery_token_single_use_witness:
  "ConsumeRecoveryAndCreateSession 1 ''t'' ''h'' (10 * hour) sample_db4 =
    Inr (fst sample_redeemed, snd sample_redeemed) \<and>
   ConsumeRecoveryAndCreateSession 2 ''t'' ''k'' (10 * hour) (fst sample_redeemed) = Inl ErrInvalidCapability"
  using recovery_token_single_use [OF create_token_wf [OF sample_token sample_db1_wf] sample_redeemed,
      of sample_rt "fst sample_redeemed"] sample_redeemed by simp

section \<open>Open enrollment\<close>

definition sample_config :: OpenEnrollmentConfig where
  "sample_config = \<lparr> oe_ID = ''o1'', oe_EventID = ''e1'', oe_Enabled = True, oe_OpensAt = Some 0,
     oe_ClosesAt = Some hour, oe_MaxPartySize = 2, oe_Capacity = Some 2, oe_TokenVersion = 1,
     oe_RevokedAt = None, oe_CreatedAt = 0, oe_UpdatedAt = 0, oe_AccessID = ''oacc'' \<rparr>"

definition sample_db5 :: db where
  "sample_db5 = sample_db0\<lparr>db_open := [open_values 0 ''u1'' sample_config]\<rparr>"

definition sample_enrolled :: "db \<times> Response \<times> Invitation \<times> Guest list" where
  "sample_enrolled = projr (EnrollOpen sample_rt 1 ''r1'' sample_config
     (sample_inv\<lparr>inv_Source := ''open''\<rparr>) [sample_guest] ''h'' hour sample_db5)"

lemma sample_db5_wf: "wf_db sample_db5"
  by (simp add: wf_db_def keys_unique_def refs_ok_def responses_total_def id_set_defs sample_db5_def
     sample_config_def open_values_def sample_defs)

lemma sample_enrolled:
  "EnrollOpen sample_rt 1 ''r1'' sample_config (sample_inv\<lparr>inv_Source := ''open''\<rparr>) [sample_guest] ''h'' hour sample_db5 =
    Inr (fst sample_enrolled, snd sample_enrolled)"
  by (simp add: sample_enrolled_def EnrollOpen_def open_row_matches_def enroll_limits_def allocated_def
     open_invitation_values_def invitation_values_def insert_guest_pending_def session_values_def
     normalizeEmail_def sample_db5_def sample_config_def open_values_def OpenEnrollmentConfig.defs
     open_enrollment_row.defs hour_def minute_def second_def sample_defs string_eval table_eval
     AttendancePending_def)

theorem enrollment_within_capacity_witness:
  "EnrollOpen sample_rt 1 ''r1'' sample_config (sample_inv\<lparr>inv_Source := ''open''\<rparr>) [sample_guest] ''h'' hour sample_db5 =
    Inr (fst sample_enrolled, snd sample_enrolled) \<and>
   allocated ''o1'' (fst sample_enrolled) = allocated ''o1'' sample_db5 + 1"
  using enrollment_within_capacity [OF sample_db5_wf sample_enrolled] sample_enrolled
  by (auto simp: sample_config_def)

section \<open>Histories\<close>

theorem reachable_database_well_formed_witness: "wf_db sample_db3"
proof -
  have "(store_step sample_rt)\<^sup>*\<^sup>* sample_db0 sample_db3"
    using store_step.create [OF sample_created] store_step.open_session [OF sample_session]
    by (meson rtranclp.rtrancl_refl rtranclp.rtrancl_into_rtrancl)
  then show ?thesis
    using reachable_database_well_formed [of "[sample_event]" sample_rt "[''u1'']" "[sample_question]" sample_db3]
    by (simp add: sample_db0_def)
qed

definition sample_service :: Service where
  "sample_service = \<lparr> svc_signer = \<lparr> cs_key = ''k'' \<rparr>, svc_baseURL = [], svc_sessionExpiry = hour,
     svc_recoveryExpiry = hour, svc_sendEmail = None, svc_sendSMS = None, svc_smsSenderName = [],
     svc_render_html = (\<lambda>a b c e. Inr a), svc_format_date = (\<lambda>t z. []), svc_dialect = ''sqlite'' \<rparr>"

definition sample_env :: env where
  "sample_env = \<lparr> en_clock = (\<lambda>k. int k), en_rand = (\<lambda>k n. Some (replicate n (CHR ''x''))),
     en_uuid = (\<lambda>a b. ''id'') \<rparr>"

theorem revocation_is_final_witness:
  "Revoke 7 ''i1'' ''e1'' ''late'' sample_db3 = Inr sample_revoked \<and>
   SubmitResponse sample_rt 8 (\<lambda>k. ''g2'') ''i1'' sample_request sample_revoked = Inl ErrNotFound"
  using revocation_is_final [OF sample_db3_wf sample_revoked,
      of sample_rt "\<lparr> w_db = sample_revoked, w_out = [] \<rparr>" 8 "\<lambda>k. ''g2''" sample_request sample_service sample_env]
    sample_revoked by simp

theorem rotated_capability_stays_dead_witness:
  "Rotate 7 ''i1'' ''e1'' sample_db3 = Inr (fst sample_rotated, snd sample_rotated) \<and>
   (let w = \<lparr> w_db = fst sample_rotated, w_out = [] \<rparr> in
    ExchangePrivate sample_rt sample_service sample_env
      (Private sample_rt (svc_signer sample_service) ''acc'' 1) w = (w, Inl ErrInvalidCapability))"
  using rotated_capability_stays_dead [OF sample_db3_wf sample_rotated, of "hd (db_invitations sample_db3)" 1
      sample_rt "\<lparr> w_db = fst sample_rotated, w_out = [] \<rparr>" sample_service sample_env] sample_rotated
  by (simp add: sample_db3_def sample_defs)


section \<open>Service operations\<close>

definition sample_mailer :: Service where
  "sample_mailer = sample_service\<lparr>svc_sendEmail := Some (\<lambda>m. None)\<rparr>"

definition sample_message :: MessageRequest where
  "sample_message = \<lparr> mr_RecipientGroup = ''all'', mr_Subject = ''News'', mr_Body = ''Hello'' \<rparr>"

definition sample_world :: world where "sample_world = \<lparr> w_db = sample_db1, w_out = [] \<rparr>"

definition sample_broadcast :: "world \<times> MessageResult result" where
  "sample_broadcast = BroadcastDetailed sample_rt sample_mailer sample_env ''e1'' (Some ''u1'') sample_message sample_world"

lemma sample_broadcast:
  "BroadcastDetailed sample_rt sample_mailer sample_env ''e1'' (Some ''u1'') sample_message sample_world =
    (fst sample_broadcast, Inr (projr (snd sample_broadcast)))"
  by (simp add: sample_broadcast_def BroadcastDetailed_def bind_def lift_def ensure_def query_def transact_def
     validateRecipientGroup_def sample_message_def sample_world_def sample_mailer_def sample_service_def sample_defs
     CreateMessage_def string_eval table_eval broadcast_loop_effect [where f = "\<lambda>m. None"]
     ListDeliveryTargets_def delivery_target_def scanInvitation_def)

theorem broadcast_reaches_audience_witness:
  "mres_Attempted (projr (snd sample_broadcast)) = 1 \<and> length (w_out (fst sample_broadcast)) = 1"
  using broadcast_reaches_audience [OF sample_broadcast]
  by (auto simp: validateRecipientGroup_def sample_message_def string_eval sample_world_def sample_defs
      ListDeliveryTargets_def delivery_target_def)

definition sample_create :: CreateRequest where
  "sample_create = \<lparr> cr_Label = ''Smith'', cr_ContactEmail = Some ''a@b'', cr_ContactPhone = None,
     cr_PreferredDeliveryMethod = ''email'', cr_AdditionalGuestAllowance = 1,
     cr_AssignedGuestNames = [''Jane''], cr_Send = False \<rparr>"

definition sample_start :: world where "sample_start = \<lparr> w_db = sample_db0, w_out = [] \<rparr>"

definition sample_made :: "world \<times> CreateResult result" where
  "sample_made = CreatePrivate sample_rt sample_service sample_env ''e1'' ''u1'' sample_create sample_start"

lemmas create_eval = CreatePrivate_def bind_def lift_def ensure_def ret_def transact_def sample_create_def
  sample_start_def sample_env_def validateContact_def given_def normalizeEmail_def randomToken_def build_guests_def
  assigned_guest_def new_private_def Create_def insert_household_def insert_guest_pending_def invitation_values_def
  sample_defs string_eval table_eval AttendancePending_def GuestOriginAssigned_def SourcePrivate_def

lemma sample_made:
  "CreatePrivate sample_rt sample_service sample_env ''e1'' ''u1'' sample_create sample_start =
    (fst sample_made, Inr (projr (snd sample_made)))"
  by (simp add: sample_made_def create_eval)

lemma sample_made_db: "db_sessions (w_db (fst sample_made)) = []" "db_questions (w_db (fst sample_made)) = [sample_question]"
  by (simp_all add: sample_made_def create_eval)

theorem created_link_opens_household_witness:
  "\<exists>cap w2 household. ExchangePrivate sample_rt sample_service sample_env cap (fst sample_made) =
      (w2, Inr (base64url (replicate 32 (CHR ''x'')), household)) \<and> map guest_Name (hh_Guests household) = [''Jane'']"
proof -
  have "wf_db (w_db sample_start)"
    by (simp add: sample_start_def sample_db0_def wf_empty_db sample_event_def)
  moreover have "entropy_fills (en_rand sample_env 0)" by (simp add: entropy_fills_def sample_env_def)
  moreover have "randomToken (en_rand sample_env 0) 32 = Inr (base64url (replicate 32 (CHR ''x'')))"
    by (simp add: randomToken_def sample_env_def)
  moreover obtain qs where "listQuestions sample_rt ''e1'' (w_db (fst sample_made)) = Inr qs"
    by (simp add: listQuestions_def sample_made_db scanQuestions_def scanQuestion_def sample_rt_def sample_question_def)
  moreover have "en_clock sample_env 0 + second \<le> en_clock sample_env 0 + svc_sessionExpiry sample_service"
    by (simp add: sample_env_def sample_service_def hour_def minute_def second_def)
  moreover have "map trim_space (cr_AssignedGuestNames sample_create) = [''Jane'']"
    by (simp add: sample_create_def string_eval)
  moreover have "hashToken sample_rt (base64url (replicate 32 (CHR ''x''))) \<notin> ss_token_hash ` set (db_sessions (w_db (fst sample_made)))"
    by (simp add: sample_made_db)
  ultimately show ?thesis
    using created_link_opens_household [OF _ sample_made, of sample_env "base64url (replicate 32 (CHR ''x''))" qs sample_env]
    by metis
qed


section \<open>Import and export\<close>

text \<open>A CSV reader that returns a header and one data row.\<close>

definition sample_csv_rt :: runtime where
  "sample_csv_rt = sample_rt\<lparr>rt_csv_read := (\<lambda>s. [
     CsvRecord [''household_key'', ''household_label'', ''preferred_delivery'', ''additional_guest_allowance'', ''guest_name''],
     CsvRecord [''h1'', ''Smith'', ''none'', ''1'', ''Jane'']])\<rparr>"

definition sample_preview :: ImportPreview where
  "sample_preview = projr (PreviewImportCSV sample_csv_rt (Some ''csv''))"

lemma sample_header:
  "validateImportHeader sample_csv_rt [''household_key'', ''household_label'', ''preferred_delivery'', ''additional_guest_allowance'', ''guest_name''] =
    ([], [(''household_key'', 0), (''household_label'', 1), (''preferred_delivery'', 2), (''additional_guest_allowance'', 3), (''guest_name'', 4)])"
  by (simp add: validateImportHeader_def header_step_def importColumns_def requiredImportColumns_def string_eval)

lemma sample_row_valid: "validateImportRow sample_csv_rt 2 ''h1'' ''Smith'' [] [] ''none'' ''1'' ''Jane'' = []"
  by (simp add: validateImportRow_def length_issue_def atoi_def atoi_digits_def is_digit_def digits_value_def
     min_int_def max_int_def validateContact_def given_def some_if_given_def string_eval)

lemma sample_row:
  "map ih_HouseholdKey (ip_Households (finish_preview (preview_row sample_csv_rt
     [(''household_key'', 0), (''household_label'', 1), (''preferred_delivery'', 2), (''additional_guest_allowance'', 3), (''guest_name'', 4)]
     2 [''h1'', ''Smith'', ''none'', ''1'', ''Jane''] \<lparr> pv_errors = [], pv_households = [], pv_email_keys = [] \<rparr>))) = [''h1'']"
  by (simp add: preview_row_def column_value_def sample_row_valid [simplified] accumulate_def MaxImportHouseholds_def
     finish_preview_def string_eval)

lemma sample_preview: "PreviewImportCSV sample_csv_rt (Some ''csv'') = Inr sample_preview"
  and sample_preview_households: "map ih_HouseholdKey (ip_Households sample_preview) = [''h1'']"
  using sample_row
  by (simp_all add: sample_preview_def PreviewImportCSV_def sample_csv_rt_def [THEN arg_cong, of rt_csv_read]
     sample_csv_rt_def [THEN arg_cong, of rt_utf8_valid] sample_rt_def MaxImportBytes_def bom_def trim_prefix_def
     sample_header MaxImportRows_def byte_def numeral_2_eq_2)

theorem preview_can_be_committed_witness:
  "\<exists>hs. validateImportCommit sample_csv_rt (ip_Households sample_preview) = Inr hs \<and> length hs = 1"
proof -
  have "contact_stable sample_csv_rt" by (rule contact_stableI) (simp_all add: sample_csv_rt_def sample_rt_def)
  moreover have "length (ip_Households sample_preview) = 1"
    using arg_cong [OF sample_preview_households, of length] by simp
  ultimately show ?thesis
    using preview_can_be_committed [OF _ sample_preview] by (metis length_0_conv length_map zero_neq_one)
qed

lemma sample_exported: "\<exists>records. export_records sample_rt ''e1'' sample_db1 = Inr records"
  by (simp add: export_records_def ListByEvent_def LoadOrganizerHousehold_def LoadHousehold_def FindByID_def find_event_def listQuestions_def
     scanQuestions_def scanQuestion_def listAnswers_def loadLatestDelivery_def listGuests_def scanGuest_def attendance_of_def
     active_guest_def export_rows_def export_row_def exportBaseRecord_def scanInvitation_def sample_defs table_eval Let_def)

theorem export_complete_and_inert_witness:
  "\<exists>records. export_records sample_rt ''e1'' sample_db1 = Inr records \<and> list_all (list_all inert_cell) records"
proof -
  obtain records where r: "export_records sample_rt ''e1'' sample_db1 = Inr records" using sample_exported by blast
  then show ?thesis using export_complete_and_inert [OF r] by (auto simp: list_all_iff)
qed

section \<open>Organizer routes\<close>

text \<open>A request of a user without access to the event, to rotate the household's link.\<close>

definition sample_rq :: request where
  "sample_rq = \<lparr> rq_user = Some ''u2'', rq_eventId = ''e1'', rq_invitationId = ''i1'', rq_cookie = None,
     rq_remote_host = None, rq_remote_addr = [], rq_ref = ''ref'' \<rparr>"

definition sample_handler :: Handler where
  "sample_handler = \<lparr> hd_service = sample_service,
     hd_checkEventAccess = (\<lambda>d e u. if u = ''u1'' then None else Some ErrNotFound), hd_secureCookies = True \<rparr>"

theorem organizer_routes_guarded_witness:
  "organizer_handle sample_rt sample_handler sample_env (\<lambda>k. []) sample_rq OpRotate \<lparr> w_db = sample_db1, w_out = [] \<rparr> =
    (\<lparr> w_db = sample_db1, w_out = [] \<rparr>, event_not_found)"
  by (rule organizer_routes_guarded) (simp add: sample_rq_def sample_handler_def)

end
