(* ===== verification/Rate_Limiter.thy ===== *)
theory Rate_Limiter
  imports Invitation_Handler
begin

text \<open>
  The in-memory sliding window limiter (\<open>internal/security/ratelimit.go\<close>) and its middleware.

  The limiter is refined against an abstract specification: a log of the requests that were
  allowed, in which a request is allowed when fewer than \<open>limit\<close> requests of its key are in the
  last window. The locale \<open>timed_simulation\<close> is the contract between an implementation and a
  specification that read the same clock; clocks are monotonic, as \<open>time.Now\<close> is under
  \<open>Time.Before\<close>.
\<close>

section \<open>The limiter\<close>

record RateLimiter =
  rl_windows :: "string \<rightharpoonup> time list"
  rl_limit :: int
  rl_window :: duration
  rl_stopped :: bool

definition NewRateLimiter :: "int \<Rightarrow> duration \<Rightarrow> RateLimiter" where
  "NewRateLimiter limit windowDuration =
    \<lparr> rl_windows = Map.empty, rl_limit = limit, rl_window = windowDuration, rl_stopped = False \<rparr>"

text \<open>
  \<open>pruneEntries\<close> compacts the slice in place: \<open>i\<close> is the position of the range loop and \<open>idx\<close> the
  position of the next entry that is kept.
\<close>

function prune_loop :: "time \<Rightarrow> nat \<Rightarrow> nat \<Rightarrow> time list \<Rightarrow> time list" where
  "prune_loop cutoff i idx entries =
    (if i < length entries
     then if \<not> entries ! i < cutoff
       then prune_loop cutoff (Suc i) (Suc idx) (entries[idx := entries ! i])
       else prune_loop cutoff (Suc i) idx entries
     else take idx entries)"
  by pat_completeness auto
termination
  by (relation "measure (\<lambda>(cutoff, i, idx, entries). length entries - i)") auto

declare prune_loop.simps [simp del]

definition pruneEntries :: "time list \<Rightarrow> time \<Rightarrow> time list" where
  "pruneEntries entries cutoff = prune_loop cutoff 0 0 entries"

definition entries_of :: "RateLimiter \<Rightarrow> string \<Rightarrow> time list" where
  "entries_of rl k = (case rl_windows rl k of None \<Rightarrow> [] | Some es \<Rightarrow> es)"

text \<open>The critical section of \<open>Allow\<close>; \<open>now\<close> is its clock reading.\<close>

definition Allow :: "time \<Rightarrow> string \<Rightarrow> RateLimiter \<Rightarrow> RateLimiter \<times> bool" where
  "Allow now k rl =
    (let es = pruneEntries (entries_of rl k) (now - rl_window rl) in
     if int (length es) \<ge> rl_limit rl then (rl\<lparr>rl_windows := (rl_windows rl)(k \<mapsto> es)\<rparr>, False)
     else (rl\<lparr>rl_windows := (rl_windows rl)(k \<mapsto> es @ [now])\<rparr>, True))"

definition Reset :: "string \<Rightarrow> RateLimiter \<Rightarrow> RateLimiter" where
  "Reset k rl = rl\<lparr>rl_windows := (rl_windows rl)(k := None)\<rparr>"

definition Cleanup :: "time \<Rightarrow> RateLimiter \<Rightarrow> RateLimiter" where
  "Cleanup now rl = rl\<lparr>rl_windows := (\<lambda>k. case rl_windows rl k of
      None \<Rightarrow> None
    | Some es \<Rightarrow> (let kept = pruneEntries es (now - rl_window rl) in if kept = [] then None else Some kept))\<rparr>"

text \<open>\<open>Stop\<close> closes the channel; closing it twice panics (\<open>None\<close>). The loop cleans up on a tick.\<close>

definition Stop :: "RateLimiter \<Rightarrow> RateLimiter option" where
  "Stop rl = (if rl_stopped rl then None else Some (rl\<lparr>rl_stopped := True\<rparr>))"

definition cleanup_tick :: "time \<Rightarrow> RateLimiter \<Rightarrow> RateLimiter" where
  "cleanup_tick now rl = (if rl_stopped rl then rl else Cleanup now rl)"

section \<open>The middleware\<close>

datatype 'r limited = Served 'r | RateLimited int \<comment> \<open>429 with the Retry-After value\<close>

definition rate_limit_key :: "request \<Rightarrow> string" where
  "rate_limit_key rq = (case rq_remote_host rq of Some host \<Rightarrow> host | None \<Rightarrow> rq_remote_addr rq)"

definition RateLimitMiddleware ::
  "time \<Rightarrow> (request \<Rightarrow> handler) \<Rightarrow> request \<Rightarrow> RateLimiter \<times> world \<Rightarrow> (RateLimiter \<times> world) \<times> response limited" where
  "RateLimitMiddleware now next_handler rq st =
    (let (rl, w) = st; (rl', allowed) = Allow now (rate_limit_key rq) rl in
     if \<not> allowed then ((rl', w), RateLimited (rl_window rl div second))
     else let (w', resp) = next_handler rq w in ((rl', w'), Served resp))"

section \<open>Compaction\<close>

lemma prune_loop_filter:
  "idx \<le> i \<Longrightarrow> i \<le> length entries \<Longrightarrow>
    prune_loop cutoff i idx entries = take idx entries @ filter (\<lambda>e. \<not> e < cutoff) (drop i entries)"
proof (induction cutoff i idx entries rule: prune_loop.induct)
  case (1 cutoff i idx entries)
  show ?case
  proof (cases "i < length entries")
    case True
    then have "drop i entries = entries ! i # drop (Suc i) entries" by (simp add: Cons_nth_drop_Suc)
    moreover have "take (Suc idx) (entries[idx := entries ! i]) = take idx entries @ [entries ! i]"
      using True 1(3) by (simp add: take_Suc_conv_app_nth)
    moreover have "drop (Suc i) (entries[idx := entries ! i]) = drop (Suc i) entries"
      using 1(3) by (simp add: drop_update_cancel)
    ultimately show ?thesis using True 1 by (subst prune_loop.simps) auto
  next
    case False
    then show ?thesis using 1(4) by (subst prune_loop.simps) simp
  qed
qed

lemma pruneEntries_filter: "pruneEntries entries cutoff = filter (\<lambda>e. cutoff \<le> e) entries"
  by (simp add: pruneEntries_def prune_loop_filter not_less)

section \<open>Simulation with a clock\<close>

fun run :: "('i \<Rightarrow> 's \<Rightarrow> 's \<times> 'o) \<Rightarrow> 's \<Rightarrow> 'i list \<Rightarrow> 'o list" where
  "run step s [] = []"
| "run step s (x # xs) = snd (step x s) # run step (fst (step x s)) xs"

lemma length_run [simp]: "length (run step s xs) = length xs"
  by (induction xs arbitrary: s) simp_all

locale timed_simulation =
  fixes cstep :: "time \<times> 'i \<Rightarrow> 'c \<Rightarrow> 'c \<times> 'o"
    and astep :: "time \<times> 'i \<Rightarrow> 'a \<Rightarrow> 'a \<times> 'o"
    and R :: "time \<Rightarrow> 'c \<Rightarrow> 'a \<Rightarrow> bool"
  assumes advance: "R t c a \<Longrightarrow> t \<le> t' \<Longrightarrow> R t' c a"
    and agree: "R t c a \<Longrightarrow> snd (cstep (t, i) c) = snd (astep (t, i) a)"
    and simulate: "R t c a \<Longrightarrow> R t (fst (cstep (t, i) c)) (fst (astep (t, i) a))"
begin

lemma runs_agree: "R t c a \<Longrightarrow> sorted (t # map fst ops) \<Longrightarrow> run cstep c ops = run astep a ops"
proof (induction ops arbitrary: t c a)
  case (Cons x ops)
  obtain t' i where x: "x = (t', i)" by (cases x)
  have R': "R t' c a" using Cons.prems advance by (simp add: x)
  then have "run cstep (fst (cstep (t', i) c)) ops = run astep (fst (astep (t', i) a)) ops"
    using Cons.IH [OF simulate [OF R']] Cons.prems by (simp add: x)
  then show ?case using agree [OF R'] by (simp add: x)
qed simp

end

section \<open>The specification\<close>

datatype limiter_op = LAllow string | LReset string | LCleanup

fun limiter_step :: "time \<times> limiter_op \<Rightarrow> RateLimiter \<Rightarrow> RateLimiter \<times> bool option" where
  "limiter_step (now, LAllow k) rl = map_prod id Some (Allow now k rl)"
| "limiter_step (now, LReset k) rl = (Reset k rl, None)"
| "limiter_step (now, LCleanup) rl = (cleanup_tick now rl, None)"

text \<open>The specification keeps the log of allowed requests, \<open>(time, key)\<close>, and never cleans it up.\<close>

definition log_times :: "string \<Rightarrow> (time \<times> string) list \<Rightarrow> time list" where
  "log_times k log = map fst (filter (\<lambda>e. snd e = k) log)"

definition recent :: "duration \<Rightarrow> time \<Rightarrow> time list \<Rightarrow> time list" where
  "recent wnd now ts = filter (\<lambda>t. now - wnd \<le> t) ts"

fun window_step ::
  "int \<Rightarrow> duration \<Rightarrow> time \<times> limiter_op \<Rightarrow> (time \<times> string) list \<Rightarrow> (time \<times> string) list \<times> bool option" where
  "window_step lim wnd (now, LAllow k) log =
    (if int (length (recent wnd now (log_times k log))) < lim then (log @ [(now, k)], Some True) else (log, Some False))"
| "window_step lim wnd (now, LReset k) log = (filter (\<lambda>e. snd e \<noteq> k) log, None)"
| "window_step lim wnd (now, LCleanup) log = (log, None)"

lemma log_times_simps [simp]:
  "log_times k [] = []"
  "log_times k (log @ [(t, k')]) = log_times k log @ (if k' = k then [t] else [])"
  by (simp_all add: log_times_def)

lemma log_times_reset [simp]:
  "log_times k (filter (\<lambda>e. snd e \<noteq> k') log) = (if k' = k then [] else log_times k log)"
  by (induction log) (auto simp: log_times_def)

definition tracks :: "int \<Rightarrow> duration \<Rightarrow> time \<Rightarrow> RateLimiter \<Rightarrow> (time \<times> string) list \<Rightarrow> bool" where
  "tracks lim wnd t rl log \<longleftrightarrow> rl_limit rl = lim \<and> rl_window rl = wnd \<and>
    (\<forall>k. recent wnd t (entries_of rl k) = recent wnd t (log_times k log))"

lemma recent_append [simp]: "recent wnd t (xs @ ys) = recent wnd t xs @ recent wnd t ys"
  by (simp add: recent_def)

lemma recent_idem [simp]: "recent wnd t (recent wnd t xs) = recent wnd t xs"
  by (simp add: recent_def)

lemma recent_later: "t \<le> t' \<Longrightarrow> recent wnd t' (recent wnd t xs) = recent wnd t' xs"
  by (auto simp: recent_def intro: filter_cong)

lemma prune_recent: "pruneEntries es (t - wnd) = recent wnd t es"
  by (simp add: pruneEntries_filter recent_def)

lemma entries_simps [simp]:
  "entries_of (rl\<lparr>rl_windows := (rl_windows rl)(k \<mapsto> es)\<rparr>) k' = (if k' = k then es else entries_of rl k')"
  "entries_of (Reset k rl) k' = (if k' = k then [] else entries_of rl k')"
  "entries_of (Cleanup t rl) k' = recent (rl_window rl) t (entries_of rl k')"
  by (auto simp: entries_of_def Reset_def Cleanup_def Let_def prune_recent recent_def split: option.splits)

lemma limiter_constants [simp]:
  "rl_limit (fst (limiter_step x rl)) = rl_limit rl" "rl_window (fst (limiter_step x rl)) = rl_window rl"
  by (cases "(x, rl)" rule: limiter_step.cases;
      simp add: Allow_def Reset_def Cleanup_def cleanup_tick_def Let_def)+

interpretation sliding_window: timed_simulation limiter_step "window_step lim wnd" "tracks lim wnd" for lim wnd
proof
  show "tracks lim wnd t' rl log" if "tracks lim wnd t rl log" "t \<le> t'" for t rl log t'
    using that recent_later [OF that(2)] unfolding tracks_def by metis
  show "snd (limiter_step (t, i) rl) = snd (window_step lim wnd (t, i) log)" if "tracks lim wnd t rl log" for t rl log i
    using that by (cases i) (auto simp: tracks_def Allow_def Let_def prune_recent)
  show "tracks lim wnd t (fst (limiter_step (t, i) rl)) (fst (window_step lim wnd (t, i) log))"
    if tr: "tracks lim wnd t rl log" for t rl log i
  proof (cases i)
    case (LAllow k)
    then show ?thesis using tr by (auto simp: tracks_def Allow_def Let_def prune_recent recent_def)
  next
    case (LReset k)
    then show ?thesis using tr limiter_constants [of "(t, i)" rl] by (auto simp: tracks_def recent_def)
  next
    case LCleanup
    then show ?thesis using tr limiter_constants [of "(t, i)" rl] by (auto simp: tracks_def cleanup_tick_def)
  qed
qed

lemma limiter_runs_agree:
  assumes "sorted (map fst ops)"
  shows "run limiter_step (NewRateLimiter limit wnd) ops = run (window_step limit wnd) [] ops"
proof (cases ops)
  case (Cons x xs)
  have "tracks limit wnd (fst x) (NewRateLimiter limit wnd) []"
    by (simp add: tracks_def NewRateLimiter_def entries_of_def)
  then show ?thesis by (rule sliding_window.runs_agree) (use assms Cons in simp)
qed simp

text \<open>
  C16: the rate limiter implements its specification. From a new limiter, any sequence of requests,
  resets and clean-ups with a monotonic clock is answered as the specification answers it: a request
  is allowed exactly when fewer than \<open>limit\<close> requests of its key were allowed within the last window
  and since the last reset. In particular the clean-up, which frees memory, changes no answer.
\<close>

theorem rate_limiter_refines_window:
  assumes "sorted (map fst ops)"
  shows "run limiter_step (NewRateLimiter limit wnd) ops = run (window_step limit wnd) [] ops"
  by (rule limiter_runs_agree [OF assms])

section \<open>The bound on every window\<close>

text \<open>The times at which requests of a key were allowed, read off the operations and their answers.\<close>

definition allowed_times :: "string \<Rightarrow> (time \<times> limiter_op) list \<Rightarrow> bool option list \<Rightarrow> time list" where
  "allowed_times k ops answers =
    map (fst \<circ> fst) (filter (\<lambda>(op, answer). snd op = LAllow k \<and> answer = Some True) (zip ops answers))"

lemma allowed_times_Cons [simp]:
  "allowed_times k [] [] = []"
  "allowed_times k (op # ops) (v # vs) =
    (if snd op = LAllow k \<and> v = Some True then fst op # allowed_times k ops vs else allowed_times k ops vs)"
  by (simp_all add: allowed_times_def)

definition window_bounded :: "int \<Rightarrow> duration \<Rightarrow> time list \<Rightarrow> bool" where
  "window_bounded lim wnd ts \<longleftrightarrow> (\<forall>a. int (length (filter (\<lambda>t. a \<le> t \<and> t \<le> a + wnd) ts)) \<le> lim)"

lemma window_bounded_snoc:
  assumes "window_bounded lim wnd ts" "int (length (recent wnd now ts)) < lim"
  shows "window_bounded lim wnd (ts @ [now])"
proof -
  have "int (length (filter (\<lambda>t. a \<le> t \<and> t \<le> a + wnd) (ts @ [now]))) \<le> lim" for a
  proof (cases "a \<le> now \<and> now \<le> a + wnd")
    case True
    have "filter (\<lambda>t. a \<le> t \<and> t \<le> a + wnd) ts = filter (\<lambda>t. a \<le> t \<and> t \<le> a + wnd) (recent wnd now ts)"
      using True by (auto simp: recent_def intro: filter_cong)
    then have "length (filter (\<lambda>t. a \<le> t \<and> t \<le> a + wnd) ts) \<le> length (recent wnd now ts)" by simp
    then show ?thesis using True assms(2) by simp
  next
    case False
    then have "filter (\<lambda>t. a \<le> t \<and> t \<le> a + wnd) [now] = []" by auto
    then show ?thesis using assms(1) by (simp add: window_bounded_def)
  qed
  then show ?thesis by (simp add: window_bounded_def)
qed

lemma window_run_bounded:
  "window_bounded lim wnd (log_times k log) \<Longrightarrow> LReset k \<notin> snd ` set ops \<Longrightarrow>
    window_bounded lim wnd (log_times k log @ allowed_times k ops (run (window_step lim wnd) log ops))"
proof (induction ops arbitrary: log)
  case (Cons x ops)
  obtain now op where x: "x = (now, op)" by (cases x)
  show ?case
  proof (cases "op = LAllow k \<and> int (length (recent wnd now (log_times k log))) < lim")
    case True
    then have "window_bounded lim wnd (log_times k (log @ [(now, k)]))"
      using window_bounded_snoc [OF Cons.prems(1)] by simp
    from Cons.IH [OF this] show ?thesis using True Cons.prems(2) by (simp add: x)
  next
    case False
    then have "log_times k (fst (window_step lim wnd (now, op) log)) = log_times k log"
      using Cons.prems(2) by (cases op) (auto simp: x)
    moreover have "\<not> (op = LAllow k \<and> snd (window_step lim wnd (now, op) log) = Some True)"
      using False by (cases op) auto
    ultimately show ?thesis
      using Cons.IH [of "fst (window_step lim wnd (now, op) log)"] Cons.prems
      by (auto simp: x simp del: window_step.simps)
  qed
qed simp

text \<open>
  The rate limit holds in every window. With a monotonic clock and unless the key is reset, no
  interval as long as the window, wherever it begins, contains more than \<open>limit\<close> allowed requests of
  one key.
\<close>

theorem rate_limit_every_window:
  assumes "sorted (map fst ops)" "LReset k \<notin> snd ` set ops" "0 \<le> limit"
  shows "int (length (filter (\<lambda>t. a \<le> t \<and> t \<le> a + wnd)
      (allowed_times k ops (run limiter_step (NewRateLimiter limit wnd) ops)))) \<le> limit"
proof -
  have "window_bounded limit wnd (log_times k [])" using assms(3) by (simp add: window_bounded_def)
  then show ?thesis using window_run_bounded [of limit wnd k "[]" ops] assms(2)
    by (simp add: window_bounded_def limiter_runs_agree [OF assms(1)])
qed

end
