(* ===== verification/Placeholder_Rewrite.thy ===== *)
theory Placeholder_Rewrite
  imports Go_Lib
begin

text \<open>
  The rewriting of SQLite placeholders \<open>?\<close> to PostgreSQL's \<open>$1, $2, ...\<close>, through which every
  statement of the stores passes on PostgreSQL (\<open>internal/database/rewrite.go\<close>).
\<close>

section \<open>The state machine\<close>

datatype sql_state = Normal | InSingleQuote | InDoubleQuote | InLineComment | InBlockComment

definition single_quote :: char where "single_quote = CHR 0x27"
definition double_quote :: char where "double_quote = CHR 0x22"
definition newline :: char where "newline = CHR 0x0A"

text \<open>The state after a character \<open>c\<close> that is copied; \<open>next_char\<close> is the character that follows it.\<close>

definition next_state :: "sql_state \<Rightarrow> char \<Rightarrow> char option \<Rightarrow> sql_state" where
  "next_state st c next_char = (case st of
      Normal \<Rightarrow>
        if c = single_quote then InSingleQuote
        else if c = double_quote then InDoubleQuote
        else if c = CHR ''-'' \<and> next_char = Some (CHR ''-'') then InLineComment
        else if c = CHR ''/'' \<and> next_char = Some (CHR ''*'') then InBlockComment
        else Normal
    | InSingleQuote \<Rightarrow> if c = single_quote then Normal else InSingleQuote
    | InDoubleQuote \<Rightarrow> if c = double_quote then Normal else InDoubleQuote
    | InLineComment \<Rightarrow> if c = newline then Normal else InLineComment
    | InBlockComment \<Rightarrow> InBlockComment)"

definition emit :: "char \<Rightarrow> string option \<Rightarrow> string option" where
  "emit c b = map_option (\<lambda>b. b @ [c]) b"

definition char_at :: "string \<Rightarrow> nat \<Rightarrow> char option" where
  "char_at q i = (if i < length q then Some (q ! i) else None)"

text \<open>
  The loop over the index \<open>i\<close>, with the number \<open>n\<close> of placeholders seen and the buffer \<open>b\<close>, which is
  nil until the first placeholder.
\<close>

function rewrite_loop :: "string \<Rightarrow> nat \<Rightarrow> sql_state \<Rightarrow> nat \<Rightarrow> string option \<Rightarrow> string option" where
  "rewrite_loop q i st n b =
    (if i < length q
     then let c = q ! i in
       if st = Normal \<and> c = CHR ''?''
       then rewrite_loop q (Suc i) Normal (Suc n)
              (Some ((case b of None \<Rightarrow> take i q | Some b \<Rightarrow> b) @ ''$'' @ itoa (int (Suc n))))
       else if st = InBlockComment \<and> c = CHR ''*'' \<and> char_at q (Suc i) = Some (CHR ''/'')
       then rewrite_loop q (Suc (Suc i)) Normal n (emit (CHR ''/'') (emit c b))
       else rewrite_loop q (Suc i) (next_state st c (char_at q (Suc i))) n (emit c b)
     else b)"
  by pat_completeness auto
termination
  by (relation "measure (\<lambda>(q, i, st, n, b). length q - i)") auto

declare rewrite_loop.simps [simp del]

definition rewritePlaceholders :: "string \<Rightarrow> string" where
  "rewritePlaceholders q = (case rewrite_loop q 0 Normal 0 None of None \<Rightarrow> q | Some b \<Rightarrow> b)"

section \<open>Reference: one pass over the text\<close>

fun rewrite_text :: "sql_state \<Rightarrow> nat \<Rightarrow> string \<Rightarrow> string" where
  "rewrite_text st n [] = []"
| "rewrite_text st n (c # s) =
    (if st = Normal \<and> c = CHR ''?'' then ''$'' @ itoa (int (Suc n)) @ rewrite_text Normal (Suc n) s
     else if st = InBlockComment \<and> c = CHR ''*'' \<and> s \<noteq> [] \<and> hd s = CHR ''/''
     then c # hd s # rewrite_text Normal n (tl s)
     else c # rewrite_text (next_state st c (char_at s 0)) n s)"

lemma char_at_drop: "char_at (drop i q) 0 = char_at q i"
  by (auto simp: char_at_def)

lemma rewrite_loop_text:
  "i \<le> length q \<Longrightarrow> (b = None \<longrightarrow> n = 0) \<Longrightarrow>
    (case rewrite_loop q i st n b of None \<Rightarrow> q | Some r \<Rightarrow> r) =
      (case b of None \<Rightarrow> take i q | Some r \<Rightarrow> r) @ rewrite_text st n (drop i q)"
proof (induction q i st n b rule: rewrite_loop.induct)
  case (1 q i st n b)
  let ?out = "case b of None \<Rightarrow> take i q | Some r \<Rightarrow> r"
  let ?done = "\<lambda>r. case r of None \<Rightarrow> q | Some r \<Rightarrow> r"
  show ?case
  proof (cases "i < length q")
    case True
    then have dr: "drop i q = q ! i # drop (Suc i) q" by (simp add: Cons_nth_drop_Suc)
    have tk: "take (Suc i) q = take i q @ [q ! i]" using True by (simp add: take_Suc_conv_app_nth)
    have step: "(case emit (q ! i) b of None \<Rightarrow> take (Suc i) q | Some r \<Rightarrow> r) = ?out @ [q ! i]"
      by (simp add: emit_def tk split: option.splits)
    show ?thesis
    proof (cases "st = Normal \<and> q ! i = CHR ''?''")
      case slot: True
      have "?done (rewrite_loop q (Suc i) Normal (Suc n) (Some (?out @ ''$'' @ itoa (int (Suc n))))) =
          (?out @ ''$'' @ itoa (int (Suc n))) @ rewrite_text Normal (Suc n) (drop (Suc i) q)"
        using 1(1) [OF True refl slot] True by simp
      then show ?thesis using True slot by (subst rewrite_loop.simps) (simp add: dr)
    next
      case no_slot: False
      show ?thesis
      proof (cases "st = InBlockComment \<and> q ! i = CHR ''*'' \<and> char_at q (Suc i) = Some (CHR ''/'')")
        case close: True
        then have i1: "Suc i < length q" "q ! Suc i = CHR ''/''" by (auto simp: char_at_def split: if_splits)
        then have dr1: "drop (Suc i) q = CHR ''/'' # drop (Suc (Suc i)) q" by (simp add: Cons_nth_drop_Suc [symmetric])
        have "take (Suc (Suc i)) q = take i q @ [q ! i, CHR ''/'']"
          using i1 tk by (simp add: take_Suc_conv_app_nth)
        then have "(case emit (CHR ''/'') (emit (q ! i) b) of None \<Rightarrow> take (Suc (Suc i)) q | Some r \<Rightarrow> r) = ?out @ [q ! i, CHR ''/'']"
          by (simp add: emit_def split: option.splits)
        then have "?done (rewrite_loop q (Suc (Suc i)) Normal n (emit (CHR ''/'') (emit (q ! i) b))) =
            (?out @ [q ! i, CHR ''/'']) @ rewrite_text Normal n (drop (Suc (Suc i)) q)"
          using 1(2) [OF True refl no_slot close] i1 1(5) by (auto simp: emit_def)
        then show ?thesis using True no_slot close by (subst rewrite_loop.simps) (simp add: dr dr1)
      next
        case copy: False
        have "?done (rewrite_loop q (Suc i) (next_state st (q ! i) (char_at q (Suc i))) n (emit (q ! i) b)) =
            (?out @ [q ! i]) @ rewrite_text (next_state st (q ! i) (char_at q (Suc i))) n (drop (Suc i) q)"
          using 1(3) [OF True refl no_slot copy] True 1(5) step by (auto simp: emit_def)
        moreover have "rewrite_loop q i st n b =
            rewrite_loop q (Suc i) (next_state st (q ! i) (char_at q (Suc i))) n (emit (q ! i) b)"
          using True no_slot copy by (subst rewrite_loop.simps) (auto simp: Let_def)
        moreover have "\<not> (st = InBlockComment \<and> q ! i = CHR ''*'' \<and> drop (Suc i) q \<noteq> [] \<and> hd (drop (Suc i) q) = CHR ''/'')"
          using copy by (auto simp: char_at_def hd_drop_conv_nth)
        then have "rewrite_text st n (drop i q) = q ! i # rewrite_text (next_state st (q ! i) (char_at q (Suc i))) n (drop (Suc i) q)"
          unfolding dr rewrite_text.simps char_at_drop using no_slot by auto
        ultimately show ?thesis by simp
      qed
    qed
  next
    case False
    then show ?thesis using 1(4) by (subst rewrite_loop.simps) (simp split: option.splits)
  qed
qed

lemma rewritePlaceholders_text: "rewritePlaceholders q = rewrite_text Normal 0 q"
  unfolding rewritePlaceholders_def using rewrite_loop_text [of 0 q None 0 Normal] by simp

section \<open>Queries as segments\<close>

text \<open>
  The pieces of SQL text: placeholders, other characters outside quotes and comments, literals,
  quoted identifiers and comments. A doubled quote inside a literal is two adjacent literals.
\<close>

datatype segment = Slot | Code char | Literal string | Identifier string | LineComment string | BlockComment string

fun spell_segment :: "string \<Rightarrow> segment \<Rightarrow> string" where
  "spell_segment slot Slot = slot"
| "spell_segment slot (Code c) = [c]"
| "spell_segment slot (Literal s) = single_quote # s @ [single_quote]"
| "spell_segment slot (Identifier s) = double_quote # s @ [double_quote]"
| "spell_segment slot (LineComment s) = ''--'' @ s @ [newline]"
| "spell_segment slot (BlockComment s) = ''/*'' @ s @ ''*/''"

definition spell :: "segment list \<Rightarrow> string" where
  "spell segs = concat (map (spell_segment ''?'') segs)"

text \<open>The same text with its placeholders numbered from \<open>n + 1\<close>.\<close>

fun number_slots :: "nat \<Rightarrow> segment list \<Rightarrow> string" where
  "number_slots n [] = []"
| "number_slots n (Slot # segs) = ''$'' @ itoa (int (Suc n)) @ number_slots (Suc n) segs"
| "number_slots n (seg # segs) = spell_segment ''?'' seg @ number_slots n segs"

text \<open>
  Segments that are read back as themselves. The condition that a block comment does not begin
  with a slash is particular to this scanner, which already accepts the \<open>*\<close> of the opening \<open>/*\<close>
  as the one of the closing \<open>*/\<close>.
\<close>

fun wf_segments :: "segment list \<Rightarrow> bool" where
  "wf_segments [] \<longleftrightarrow> True"
| "wf_segments (Slot # segs) \<longleftrightarrow> wf_segments segs"
| "wf_segments (Code c # segs) \<longleftrightarrow> c \<notin> {CHR ''?'', single_quote, double_quote} \<and>
    (c = CHR ''-'' \<longrightarrow> char_at (spell segs) 0 \<noteq> Some (CHR ''-'')) \<and>
    (c = CHR ''/'' \<longrightarrow> char_at (spell segs) 0 \<noteq> Some (CHR ''*'')) \<and> wf_segments segs"
| "wf_segments (Literal s # segs) \<longleftrightarrow> single_quote \<notin> set s \<and> wf_segments segs"
| "wf_segments (Identifier s # segs) \<longleftrightarrow> double_quote \<notin> set s \<and> wf_segments segs"
| "wf_segments (LineComment s # segs) \<longleftrightarrow> newline \<notin> set s \<and> wf_segments segs"
| "wf_segments (BlockComment s # segs) \<longleftrightarrow> \<not> contains_str ''*/'' s \<and> char_at s 0 \<noteq> Some (CHR ''/'') \<and> wf_segments segs"

lemma spell_simps [simp]: "spell [] = []" "spell (seg # segs) = spell_segment ''?'' seg @ spell segs"
  by (simp_all add: spell_def)

lemma char_at_simps [simp]: "char_at [] i = None" "char_at (c # s) 0 = Some c"
  by (simp_all add: char_at_def)

lemma special_chars [simp]:
  "single_quote \<noteq> CHR ''?''" "double_quote \<noteq> CHR ''?''" "double_quote \<noteq> single_quote" "single_quote \<noteq> double_quote"
  "single_quote \<noteq> CHR ''-''" "double_quote \<noteq> CHR ''-''" "single_quote \<noteq> CHR ''/''" "double_quote \<noteq> CHR ''/''"
  "CHR ''-'' \<noteq> single_quote" "CHR ''-'' \<noteq> double_quote" "CHR ''/'' \<noteq> single_quote" "CHR ''/'' \<noteq> double_quote"
  "CHR ''-'' \<noteq> newline" "CHR ''*'' \<noteq> newline"
  by (simp_all add: single_quote_def double_quote_def newline_def)

lemma rewrite_literal:
  "single_quote \<notin> set s \<Longrightarrow> rewrite_text InSingleQuote n (s @ single_quote # rest) = s @ single_quote # rewrite_text Normal n rest"
  by (induction s) (auto simp: next_state_def)

lemma rewrite_identifier:
  "double_quote \<notin> set s \<Longrightarrow> rewrite_text InDoubleQuote n (s @ double_quote # rest) = s @ double_quote # rewrite_text Normal n rest"
  by (induction s) (auto simp: next_state_def)

lemma rewrite_line_comment:
  "newline \<notin> set s \<Longrightarrow> rewrite_text InLineComment n (s @ newline # rest) = s @ newline # rewrite_text Normal n rest"
  by (induction s) (auto simp: next_state_def)

lemma contains_close_Cons:
  "contains_str ''*/'' (c # s) \<longleftrightarrow> (c = CHR ''*'' \<and> char_at s 0 = Some (CHR ''/'')) \<or> contains_str ''*/'' s"
  by (cases s) auto

lemma rewrite_block_comment:
  "\<not> contains_str ''*/'' s \<Longrightarrow> rewrite_text InBlockComment n (s @ ''*/'' @ rest) = s @ ''*/'' @ rewrite_text Normal n rest"
proof (induction s)
  case (Cons c s)
  have "hd (s @ ''*/'' @ rest) = CHR ''/'' \<longleftrightarrow> char_at s 0 = Some (CHR ''/'')" by (cases s) auto
  then show ?case using Cons by (auto simp: contains_close_Cons next_state_def simp del: contains_str.simps)
qed (simp add: next_state_def)

lemma rewrite_segments: "wf_segments segs \<Longrightarrow> rewrite_text Normal n (spell segs) = number_slots n segs"
proof (induction segs arbitrary: n rule: wf_segments.induct)
  case (7 s segs)
  have "hd (s @ CHR ''*'' # CHR ''/'' # spell segs) \<noteq> CHR ''/''" using 7(2) by (cases s) auto
  then show ?case using 7 rewrite_block_comment [of s n "spell segs"] by (simp add: next_state_def)
qed (auto simp: next_state_def rewrite_literal rewrite_identifier rewrite_line_comment)

text \<open>
  Placeholder rewriting numbers exactly the placeholders. A query made of placeholders, code,
  string literals, quoted identifiers and comments comes out with its placeholders replaced by
  \<open>$1, $2, ...\<close> from left to right, and with everything else, question marks in literals,
  identifiers and comments included, as it was. Block comments that begin with a slash are excepted.
\<close>

theorem rewrite_numbers_placeholders:
  assumes "wf_segments segs"
  shows "rewritePlaceholders (spell segs) = number_slots 0 segs"
  by (simp add: rewritePlaceholders_text rewrite_segments [OF assms])


text \<open>
  The exception is real: the comment \<open>/*/ ? */\<close> is taken to end at its third character, and the
  question mark inside it is rewritten.
\<close>

theorem slash_comment_is_rewritten:
  "spell [BlockComment ''/ ? ''] = ''/*/ ? */'' \<and> rewritePlaceholders ''/*/ ? */'' = ''/*/ $1 */''"
proof -
  have "itoa 1 = ''1''" by (simp add: itoa_def nat_digits.simps digit_char_def byte_def char_of_def)
  then show ?thesis by (simp add: rewritePlaceholders_text next_state_def single_quote_def double_quote_def)
qed

theorem rewrite_numbers_placeholders_witness:
  "rewritePlaceholders (spell [Code (CHR ''a''), Slot, Literal ''?'', Slot]) =
    number_slots 0 [Code (CHR ''a''), Slot, Literal ''?'', Slot]"
  by (rule rewrite_numbers_placeholders) (simp add: single_quote_def double_quote_def)

end
