(* ===== verification/Trusted_Proxy.thy ===== *)
theory Trusted_Proxy
  imports Go_Lib "HOL-Library.Word"
begin

text \<open>
  Client identity behind proxies (\<open>internal/security/trustedproxy.go\<close>) and what the other
  middleware derive from it: whether a request was made over HTTPS (\<open>csrf.go\<close>) and the security
  headers of the response (\<open>headers.go\<close>).

  Addresses and networks are those of Go's \<open>net\<close> package, down to the mask arithmetic of
  \<open>IPNet.Contains\<close>. The grammar of their text form is a parameter, the record \<open>netlib\<close>.
\<close>

unbundle bit_operations_syntax

section \<open>Addresses\<close>

type_synonym ip = "8 word list" \<comment> \<open>4 or 16 bytes\<close>

record ip_net =
  net_IP :: ip
  net_Mask :: ip

record netlib =
  nl_parse_ip :: "string \<Rightarrow> ip option" \<comment> \<open>net.ParseIP, 16 bytes\<close>
  nl_parse_cidr :: "string \<Rightarrow> ip_net option" \<comment> \<open>the network of net.ParseCIDR\<close>
  nl_ip_string :: "ip \<Rightarrow> string" \<comment> \<open>IP.String\<close>

definition v4_prefix :: ip where
  "v4_prefix = replicate 10 0 @ [255, 255]"

definition to4 :: "ip \<Rightarrow> ip option" where
  "to4 a = (if length a = 4 then Some a
     else if length a = 16 \<and> take 12 a = v4_prefix then Some (drop 12 a) else None)"

definition cidr_mask_full :: "nat \<Rightarrow> ip" where
  "cidr_mask_full bits = replicate (bits div 8) 255"

text \<open>\<open>networkNumberAndMask\<close> and \<open>IPNet.Contains\<close>.\<close>

definition network_number_and_mask :: "ip_net \<Rightarrow> (ip \<times> ip) option" where
  "network_number_and_mask n =
    (let nip = (case to4 (net_IP n) of Some a \<Rightarrow> Some a | None \<Rightarrow> if length (net_IP n) = 16 then Some (net_IP n) else None) in
     case nip of None \<Rightarrow> None
     | Some a \<Rightarrow>
        if length (net_Mask n) = 4 then (if length a = 4 then Some (a, net_Mask n) else None)
        else if length (net_Mask n) = 16 then Some (a, if length a = 4 then drop 12 (net_Mask n) else net_Mask n)
        else None)"

definition net_contains :: "ip_net \<Rightarrow> ip \<Rightarrow> bool" where
  "net_contains n x =
    (let a = (case to4 x of Some v4 \<Rightarrow> v4 | None \<Rightarrow> x) in
     case network_number_and_mask n of None \<Rightarrow> a = []
     | Some (nn, m) \<Rightarrow> length a = length nn \<and>
         list_all (\<lambda>i. nn ! i AND m ! i = a ! i AND m ! i) [0..<length a])"

section \<open>Host and port\<close>

definition index_of :: "char \<Rightarrow> string \<Rightarrow> nat option" where
  "index_of c s = (if c \<in> set s then Some (length (takeWhile (\<lambda>d. d \<noteq> c) s)) else None)"

definition last_index_of :: "char \<Rightarrow> string \<Rightarrow> nat option" where
  "last_index_of c s = map_option (\<lambda>i. length s - 1 - i) (index_of c (rev s))"

definition split_host_port :: "string \<Rightarrow> (string \<times> string) option" where
  "split_host_port hp = (case last_index_of (CHR '':'') hp of
      None \<Rightarrow> None
    | Some i \<Rightarrow>
       if hd hp = CHR ''['' then
         (case index_of (CHR '']'') hp of
            None \<Rightarrow> None
          | Some e \<Rightarrow>
             if Suc e \<noteq> i \<or> CHR ''['' \<in> set (drop 1 hp) \<or> CHR '']'' \<in> set (drop (Suc e) hp) then None
             else Some (drop 1 (take e hp), drop (Suc i) hp))
       else if CHR '':'' \<in> set (take i hp) \<or> CHR ''['' \<in> set hp \<or> CHR '']'' \<in> set hp then None
       else Some (take i hp, drop (Suc i) hp))"

definition join_host_port :: "string \<Rightarrow> string \<Rightarrow> string" where
  "join_host_port host port =
    (if CHR '':'' \<in> set host then ''['' @ host @ '']:'' @ port else host @ '':'' @ port)"

definition trim_brackets :: "string \<Rightarrow> string" where
  "trim_brackets s = (let p = (\<lambda>c. c = CHR ''['' \<or> c = CHR '']'') in rev (dropWhile p (rev (dropWhile p s))))"

section \<open>Requests\<close>

text \<open>
  \<open>hr_header\<close> gives the values of a header, in the order of its lines. Go looks headers up by a
  canonical spelling of their name; the model names each header by one spelling throughout.
  \<open>Header.Get\<close> is the first value or the empty string.
\<close>

record http_request =
  hr_method :: string
  hr_path :: string
  hr_header :: "string \<Rightarrow> string list"
  hr_cookie :: "string \<rightharpoonup> string"
  hr_remote_addr :: string
  hr_tls :: bool
  hr_trusted :: bool \<comment> \<open>the context value of the trusted proxy middleware\<close>

definition header_get :: "http_request \<Rightarrow> string \<Rightarrow> string" where
  "header_get r name = (case hr_header r name of [] \<Rightarrow> [] | v # _ \<Rightarrow> v)"

definition ForwardedHeadersTrusted :: "http_request \<Rightarrow> bool" where
  "ForwardedHeadersTrusted r = hr_trusted r"

definition trusted_network :: "netlib \<Rightarrow> string \<Rightarrow> ip_net list" where
  "trusted_network nl entry =
    (let entry = trim_space entry in
     if entry = [] then []
     else case nl_parse_ip nl entry of
        Some a \<Rightarrow> [\<lparr> net_IP = a, net_Mask = cidr_mask_full (if to4 a \<noteq> None then 32 else 128) \<rparr>]
      | None \<Rightarrow> (case nl_parse_cidr nl entry of Some n \<Rightarrow> [n] | None \<Rightarrow> []))"

definition trustedNetworks :: "netlib \<Rightarrow> string list \<Rightarrow> ip_net list" where
  "trustedNetworks nl entries = concat (map (trusted_network nl) entries)"

definition remoteIPAndPort :: "netlib \<Rightarrow> string \<Rightarrow> ip option \<times> string" where
  "remoteIPAndPort nl remoteAddr = (case split_host_port remoteAddr of
      None \<Rightarrow> (nl_parse_ip nl (trim_brackets remoteAddr), [])
    | Some (host, port) \<Rightarrow> (nl_parse_ip nl (trim_brackets host), port))"

definition ipInNetworks :: "ip \<Rightarrow> ip_net list \<Rightarrow> bool" where
  "ipInNetworks a networks = list_ex (\<lambda>n. net_contains n a) networks"

text \<open>The loop from the closest proxy towards the client, over the reversed list.\<close>

definition first_untrusted :: "ip_net list \<Rightarrow> ip list \<Rightarrow> ip option" where
  "first_untrusted trusted parsed = find (\<lambda>a. \<not> ipInNetworks a trusted) (rev parsed)"

definition parse_chain :: "netlib \<Rightarrow> string \<Rightarrow> ip list option" where
  "parse_chain nl raw = those (map (\<lambda>part. nl_parse_ip nl (trim_space part)) (split_on (CHR '','') raw))"

definition forwardedClientIP :: "netlib \<Rightarrow> http_request \<Rightarrow> ip_net list \<Rightarrow> ip option" where
  "forwardedClientIP nl r trusted =
    (case nl_parse_ip nl (trim_space (header_get r ''CF-Connecting-IP'')) of
       Some a \<Rightarrow> Some a
     | None \<Rightarrow>
        (let raw = header_get r ''X-Forwarded-For'';
             real_ip = nl_parse_ip nl (trim_space (header_get r ''X-Real-IP'')) in
         if raw \<noteq> [] then
           (case parse_chain nl raw of
              None \<Rightarrow> None
            | Some parsed \<Rightarrow> (case first_untrusted trusted parsed of
                 Some a \<Rightarrow> Some a
               | None \<Rightarrow> if parsed \<noteq> [] then Some (parsed ! 0) else real_ip))
         else real_ip))"

definition forwarded_names :: "string list" where
  "forwarded_names = [''CF-Connecting-IP'', ''Forwarded'', ''X-Forwarded-For'', ''X-Forwarded-Host'',
     ''X-Forwarded-Proto'', ''X-Real-IP'']"

definition stripForwardedHeaders :: "http_request \<Rightarrow> http_request" where
  "stripForwardedHeaders r = r\<lparr>hr_header := (\<lambda>n. if n \<in> set forwarded_names then [] else hr_header r n)\<rparr>"

text \<open>The request that \<open>TrustedProxyMiddleware\<close> passes on.\<close>

definition TrustedProxyMiddleware :: "netlib \<Rightarrow> string list \<Rightarrow> http_request \<Rightarrow> http_request" where
  "TrustedProxyMiddleware nl entries r =
    (let networks = trustedNetworks nl entries; (peer, port) = remoteIPAndPort nl (hr_remote_addr r) in
     case peer of
       None \<Rightarrow> stripForwardedHeaders r
     | Some p \<Rightarrow>
        if \<not> ipInNetworks p networks then stripForwardedHeaders r
        else (case forwardedClientIP nl r networks of
            None \<Rightarrow> r\<lparr>hr_trusted := True\<rparr>
          | Some a \<Rightarrow> r\<lparr>hr_trusted := True,
               hr_remote_addr := join_host_port (nl_ip_string nl a) (if port = [] then ''0'' else port)\<rparr>))"

section \<open>Secure requests and response headers\<close>

text \<open>
  \<open>strings.EqualFold\<close> against a text of ASCII letters: besides the ASCII cases, the long s and the
  Kelvin sign fold to ASCII letters.
\<close>

fun fold_text :: "string \<Rightarrow> string" where
  "fold_text [] = []"
| "fold_text (c # s) =
    (if c = CHR 0xC5 \<and> take 1 s = [CHR 0xBF] then CHR ''s'' # fold_text (drop 1 s)
     else if c = CHR 0xE2 \<and> take 2 s = [CHR 0x84, CHR 0xAA] then CHR ''k'' # fold_text (drop 2 s)
     else lower_byte c # fold_text s)"

definition equal_fold :: "string \<Rightarrow> string \<Rightarrow> bool" where
  "equal_fold s t \<longleftrightarrow> fold_text s = fold_text t"

definition isSecureRequest :: "http_request \<Rightarrow> bool" where
  "isSecureRequest r \<longleftrightarrow> hr_tls r \<or>
    (ForwardedHeadersTrusted r \<and> equal_fold (header_get r ''X-Forwarded-Proto'') ''https'')"

definition SecurityHeadersMiddleware :: "http_request \<Rightarrow> (string \<times> string) list" where
  "SecurityHeadersMiddleware r =
    [(''X-Content-Type-Options'', ''nosniff''), (''X-Frame-Options'', ''DENY''),
     (''Referrer-Policy'', ''no-referrer''), (''Cross-Origin-Opener-Policy'', ''same-origin'')] @
    (if isSecureRequest r then [(''Strict-Transport-Security'', ''max-age=31536000; includeSubDomains'')] else [])"

section \<open>What a client can claim\<close>

lemma those_append: "those (xs @ ys) = (case those xs of None \<Rightarrow> None | Some as \<Rightarrow> map_option ((@) as) (those ys))"
  by (induction xs) (cases "those ys"; auto split: option.splits)+

lemma split_on_append_sep: "split_on d (p @ d # rest) = split_on d p @ split_on d rest"
proof (induction p)
  case (Cons c p)
  then show ?case by (cases "split_on d p") auto
qed simp

lemma split_on_join: "\<forall>p \<in> set ps. d \<notin> set p \<Longrightarrow> ps \<noteq> [] \<Longrightarrow> split_on d (join [d] ps) = ps"
proof (induction ps rule: induct_list012)
  case (2 p)
  then show ?case by (simp add: split_on_no_sep)
next
  case (3 p q ps)
  then show ?case by (simp add: split_on_append)
qed simp

text \<open>The chain of a request that reached a proxy from an untrusted address and then only trusted ones.\<close>

lemma those_trusted:
  "\<forall>p \<in> set ps. \<exists>a. nl_parse_ip nl (trim_space p) = Some a \<and> ipInNetworks a trusted \<Longrightarrow>
    \<exists>as. those (map (\<lambda>p. nl_parse_ip nl (trim_space p)) ps) = Some as \<and> (\<forall>a \<in> set as. ipInNetworks a trusted)"
  by (induction ps) auto

lemma find_last_untrusted:
  "\<not> P x \<Longrightarrow> \<forall>a \<in> set post. P a \<Longrightarrow> find (\<lambda>a. \<not> P a) (rev (pre @ x # post)) = Some x"
proof (induction post rule: rev_induct)
  case Nil
  then show ?case by simp
next
  case (snoc y ys)
  then show ?case by simp
qed

lemma chain_client:
  assumes cf: "nl_parse_ip nl (trim_space (header_get r ''CF-Connecting-IP'')) = None"
    and hdr: "header_get r ''X-Forwarded-For'' = spoofed @ '','' @ join '','' (client # proxies)"
    and parts: "\<forall>p \<in> set (client # proxies). CHR '','' \<notin> set p"
    and client: "nl_parse_ip nl (trim_space client) = Some a" "\<not> ipInNetworks a trusted"
    and proxies: "\<forall>p \<in> set proxies. \<exists>b. nl_parse_ip nl (trim_space p) = Some b \<and> ipInNetworks b trusted"
  shows "forwardedClientIP nl r trusted = (if parse_chain nl spoofed = None then None else Some a)"
proof -
  let ?parse = "map (\<lambda>p. nl_parse_ip nl (trim_space p))"
  have split: "split_on (CHR '','') (header_get r ''X-Forwarded-For'') = split_on (CHR '','') spoofed @ client # proxies"
    using split_on_join [OF parts] by (simp add: hdr split_on_append_sep)
  obtain bs where bs: "those (?parse proxies) = Some bs" "\<forall>b \<in> set bs. ipInNetworks b trusted"
    using those_trusted [OF proxies] by blast
  have "parse_chain nl (header_get r ''X-Forwarded-For'') = map_option (\<lambda>pre. pre @ a # bs) (parse_chain nl spoofed)"
    by (simp add: parse_chain_def split those_append client(1) bs(1) split: option.splits)
  moreover have "first_untrusted trusted (pre @ a # bs) = Some a" for pre
    unfolding first_untrusted_def by (rule find_last_untrusted [OF client(2) bs(2)])
  ultimately show ?thesis using hdr by (auto simp: forwardedClientIP_def cf Let_def)
qed


lemma untrusted_peer:
  assumes "case remoteIPAndPort nl (hr_remote_addr r) of (None, _) \<Rightarrow> True
      | (Some p, _) \<Rightarrow> \<not> ipInNetworks p (trustedNetworks nl entries)"
  shows "TrustedProxyMiddleware nl entries r = stripForwardedHeaders r"
  using assms by (auto simp: TrustedProxyMiddleware_def Let_def split: option.splits prod.splits)

text \<open>
  Forwarded headers of untrusted peers have no effect. A request whose immediate peer is not a
  trusted proxy is handled as if it carried none of the forwarded headers: it keeps its address, is
  not marked as trusted, and counts as secure only when it arrived over TLS.
\<close>

theorem untrusted_forwarding_ignored:
  assumes "case remoteIPAndPort nl (hr_remote_addr r) of (None, _) \<Rightarrow> True
      | (Some p, _) \<Rightarrow> \<not> ipInNetworks p (trustedNetworks nl entries)"
    and "\<not> hr_trusted r"
  shows "TrustedProxyMiddleware nl entries r = TrustedProxyMiddleware nl entries (stripForwardedHeaders r) \<and>
    hr_remote_addr (TrustedProxyMiddleware nl entries r) = hr_remote_addr r \<and>
    isSecureRequest (TrustedProxyMiddleware nl entries r) = hr_tls r \<and>
    list_all (\<lambda>n. header_get (TrustedProxyMiddleware nl entries r) n = []) forwarded_names"
proof -
  have same: "hr_remote_addr (stripForwardedHeaders r) = hr_remote_addr r"
    "stripForwardedHeaders (stripForwardedHeaders r) = stripForwardedHeaders r"
    by (auto simp: stripForwardedHeaders_def fun_eq_iff intro!: http_request.equality)
  have "TrustedProxyMiddleware nl entries (stripForwardedHeaders r) = stripForwardedHeaders r"
    using untrusted_peer [where r = "stripForwardedHeaders r" and nl = nl and entries = entries] assms(1) by (simp add: same)
  then show ?thesis using untrusted_peer [OF assms(1)] assms(2)
    by (simp add: isSecureRequest_def ForwardedHeadersTrusted_def stripForwardedHeaders_def header_get_def list_all_iff)
qed

text \<open>
  Only the first \<open>X-Forwarded-For\<close> line is read. A proxy that adds a line of its own after the
  client's leaves the choice of the address to the client.
\<close>

lemma forwarded_reads_first_line:
  "hr_header r ''X-Forwarded-For'' = line # others \<Longrightarrow>
    forwardedClientIP nl (r\<lparr>hr_header := (hr_header r)(''X-Forwarded-For'' := line # others')\<rparr>) trusted =
    forwardedClientIP nl r trusted"
  by (simp add: forwardedClientIP_def header_get_def cong: option.case_cong)

end
