(* ===== verification/Csrf.thy ===== *)
theory Csrf
  imports Trusted_Proxy Invitation_Handler
begin

text \<open>
  The CSRF middleware (\<open>internal/security/csrf.go\<close>): double-submit tokens that are bound to the
  session by an HMAC. The key is the package's, drawn at start-up; \<open>rand\<close> is the outcome of reading
  32 random bytes.
\<close>

section \<open>Tokens\<close>

definition generateCSRFNonce :: "string option \<Rightarrow> string option" where
  "generateCSRFNonce rand = map_option hex_encode rand"

definition computeCSRFHMAC :: "'x runtime_scheme \<Rightarrow> string \<Rightarrow> string \<Rightarrow> string \<Rightarrow> string" where
  "computeCSRFHMAC rt csrfHMACKey nonce sessionValue = hex_encode (rt_hmac rt csrfHMACKey (nonce @ sessionValue))"

definition buildCSRFToken :: "'x runtime_scheme \<Rightarrow> string \<Rightarrow> string option \<Rightarrow> string \<Rightarrow> string option" where
  "buildCSRFToken rt csrfHMACKey rand sessionValue =
    (case generateCSRFNonce rand of
       None \<Rightarrow> None
     | Some nonce \<Rightarrow>
        if sessionValue = [] then Some nonce
        else Some (nonce @ ''.'' @ computeCSRFHMAC rt csrfHMACKey nonce sessionValue))"

definition isSessionBoundToken :: "string \<Rightarrow> bool" where
  "isSessionBoundToken token = (case index_of (CHR ''.'') token of None \<Rightarrow> False | Some i \<Rightarrow> 0 < i)"

definition isBoundToSession :: "'x runtime_scheme \<Rightarrow> string \<Rightarrow> string \<Rightarrow> string \<Rightarrow> bool" where
  "isBoundToSession rt csrfHMACKey token sessionValue \<longleftrightarrow> sessionValue \<noteq> [] \<and>
    (case index_of (CHR ''.'') token of
       None \<Rightarrow> False
     | Some i \<Rightarrow> 0 < i \<and> drop (Suc i) token = computeCSRFHMAC rt csrfHMACKey (take i token) sessionValue)"

definition verifyCSRFToken :: "'x runtime_scheme \<Rightarrow> string \<Rightarrow> string \<Rightarrow> string \<Rightarrow> string \<Rightarrow> bool" where
  "verifyCSRFToken rt csrfHMACKey cookieToken headerToken sessionValue =
    (if cookieToken \<noteq> headerToken then False
     else if sessionValue \<noteq> [] then
       (case index_of (CHR ''.'') cookieToken of
          None \<Rightarrow> False
        | Some i \<Rightarrow> if i \<le> 0 then False
            else drop (Suc i) cookieToken = computeCSRFHMAC rt csrfHMACKey (take i cookieToken) sessionValue)
     else if isSessionBoundToken cookieToken then False
     else True)"

section \<open>The middleware\<close>

definition needsCSRFRebind :: "'x runtime_scheme \<Rightarrow> string \<Rightarrow> http_request \<Rightarrow> string \<Rightarrow> bool" where
  "needsCSRFRebind rt csrfHMACKey r sessionValue = (case hr_cookie r ''csrf_token'' of
      None \<Rightarrow> True
    | Some v \<Rightarrow> sessionValue \<noteq> [] \<and> \<not> isBoundToSession rt csrfHMACKey v sessionValue)"

text \<open>The session cookie has no maximal age; 0 stands for the absent attribute.\<close>

definition setCSRFCookie :: "http_request \<Rightarrow> string \<Rightarrow> cookie" where
  "setCSRFCookie r token = \<lparr> ck_Name = ''csrf_token'', ck_Value = token, ck_Path = ''/'', ck_HttpOnly = False,
     ck_Secure = isSecureRequest r, ck_SameSiteStrict = True, ck_MaxAge = 0 \<rparr>"

text \<open>
  The outcome: the next handler is called, after setting a cookie or not; the request is answered
  with 403, possibly with a cookie; or with 500.
\<close>

datatype csrf_outcome = CsrfNext "cookie option" | CsrfRejected "cookie option" | CsrfFailed

definition session_value :: "http_request \<Rightarrow> string" where
  "session_value r = (case hr_cookie r ''session'' of
      Some v \<Rightarrow> v
    | None \<Rightarrow> (case hr_cookie r invitationSessionCookie of Some v \<Rightarrow> v | None \<Rightarrow> []))"

definition csrf_exempt :: "string list \<Rightarrow> http_request \<Rightarrow> bool" where
  "csrf_exempt excludePaths r \<longleftrightarrow> list_ex (\<lambda>p. prefix p (hr_path r)) excludePaths \<or>
    prefix ''Bearer '' (header_get r ''Authorization'')"

definition safe_verb :: "string \<Rightarrow> bool" where
  "safe_verb m \<longleftrightarrow> m \<in> set [''GET'', ''HEAD'', ''OPTIONS'']"

definition CSRFMiddleware ::
  "'x runtime_scheme \<Rightarrow> string \<Rightarrow> string list \<Rightarrow> string option \<Rightarrow> http_request \<Rightarrow> csrf_outcome" where
  "CSRFMiddleware rt csrfHMACKey excludePaths rand r =
    (if csrf_exempt excludePaths r then CsrfNext None
     else let sessionValue = session_value r in
     if safe_verb (hr_method r) then
       if needsCSRFRebind rt csrfHMACKey r sessionValue
       then (case buildCSRFToken rt csrfHMACKey rand sessionValue of
               None \<Rightarrow> CsrfFailed
             | Some token \<Rightarrow> CsrfNext (Some (setCSRFCookie r token)))
       else CsrfNext None
     else (case hr_cookie r ''csrf_token'' of
        None \<Rightarrow> CsrfRejected None
      | Some v \<Rightarrow>
         (let headerToken = header_get r ''X-Csrf-Token'' in
          if headerToken = [] then CsrfRejected None
          else if \<not> verifyCSRFToken rt csrfHMACKey v headerToken sessionValue
          then CsrfRejected
            (if sessionValue \<noteq> [] \<and> \<not> isBoundToSession rt csrfHMACKey v sessionValue
             then map_option (setCSRFCookie r) (buildCSRFToken rt csrfHMACKey rand sessionValue)
             else None)
          else CsrfNext None)))"

section \<open>Lemmas on tokens\<close>

lemma hex_digit_inj: "a < 16 \<Longrightarrow> b < 16 \<Longrightarrow> hex_digit a = hex_digit b \<Longrightarrow> a = b"
  by (simp add: hex_digit_def nth_eq_iff_index_eq)

lemma hex_digit_mod: "hex_digit (n mod 16) = hex_digit n"
  by (simp add: hex_digit_def)

lemma hex_encode_inj: "hex_encode s = hex_encode t \<longleftrightarrow> s = t"
proof
  show "hex_encode s = hex_encode t \<Longrightarrow> s = t"
  proof (induction s arbitrary: t)
    case Nil
    then show ?case by (cases t) (simp_all add: hex_encode_def)
  next
    case (Cons c s)
    then obtain d t' where t: "t = d # t'" by (cases t) (simp_all add: hex_encode_def)
    then have dg: "hex_digit (of_char c div 16) = hex_digit (of_char d div 16)"
      "hex_digit (of_char c mod 16) = hex_digit (of_char d mod 16)" "s = t'"
      using Cons by (simp_all add: hex_encode_def hex_digit_mod)
    have "(of_char c :: nat) div 16 = of_char d div 16" "(of_char c :: nat) mod 16 = of_char d mod 16"
      using dg(1,2) hex_digit_inj of_char_less [of c] of_char_less [of d] by (auto simp: less_mult_imp_div_less)
    then have "(of_char c :: nat) = of_char d" by (metis div_mult_mod_eq)
    then show ?case using dg(3) t by (simp add: of_char_eq_iff)
  qed
qed simp

lemma hex_no_dot: "CHR ''.'' \<notin> set (hex_encode s)"
proof -
  have "hex_digit n \<noteq> CHR ''.''" for n
  proof -
    have "hex_digit n \<in> set ''0123456789abcdef''" unfolding hex_digit_def by (rule nth_mem) simp
    then show ?thesis by auto
  qed
  then have "\<forall>c \<in> set (hex_encode s). c \<noteq> CHR ''.''" by (auto simp: hex_encode_def)
  then show ?thesis by blast
qed

lemma index_of_append: "c \<notin> set p \<Longrightarrow> index_of c (p @ c # s) = Some (length p)"
  by (induction p) (auto simp: index_of_def)

lemma index_of_None: "index_of c s = None \<longleftrightarrow> c \<notin> set s"
  by (simp add: index_of_def)

lemma index_of_Some:
  assumes "index_of c s = Some i"
  shows "s = take i s @ c # drop (Suc i) s" "c \<notin> set (take i s)"
proof -
  have i: "i = length (takeWhile (\<lambda>d. d \<noteq> c) s)" and c: "c \<in> set s"
    using assms by (auto simp: index_of_def split: if_splits)
  have tk: "take i s = takeWhile (\<lambda>d. d \<noteq> c) s" by (simp add: i takeWhile_eq_take [symmetric])
  have "dropWhile (\<lambda>d. d \<noteq> c) s = c # drop (Suc i) s"
  proof -
    have ne: "dropWhile (\<lambda>d. d \<noteq> c) s \<noteq> []" using c by auto
    have "dropWhile (\<lambda>d. d \<noteq> c) s = drop i s" by (simp add: i dropWhile_eq_drop)
    moreover have "hd (dropWhile (\<lambda>d. d \<noteq> c) s) = c" using hd_dropWhile [OF ne] by simp
    ultimately show ?thesis using ne by (metis drop_Suc list.collapse tl_drop drop_eq_Nil)
  qed
  then show "s = take i s @ c # drop (Suc i) s" using takeWhile_dropWhile_id [of "\<lambda>d. d \<noteq> c" s] tk by metis
  show "c \<notin> set (take i s)" unfolding tk by (auto dest: set_takeWhileD)
qed

lemma bound_iff:
  "isBoundToSession rt k token s \<longleftrightarrow> s \<noteq> [] \<and>
    (\<exists>nonce. nonce \<noteq> [] \<and> CHR ''.'' \<notin> set nonce \<and> token = nonce @ ''.'' @ computeCSRFHMAC rt k nonce s)" (is "?l \<longleftrightarrow> ?r")
proof
  assume ?l
  then obtain i where i: "index_of (CHR ''.'') token = Some i" "0 < i" "s \<noteq> []"
    "drop (Suc i) token = computeCSRFHMAC rt k (take i token) s"
    by (auto simp: isBoundToSession_def split: option.splits)
  have "token = take i token @ CHR ''.'' # drop (Suc i) token" "CHR ''.'' \<notin> set (take i token)"
    by (rule index_of_Some [OF i(1)])+
  moreover have "take i token \<noteq> []" using i(1,2) by (auto simp: index_of_def split: if_splits)
  ultimately show ?r using i(3,4) by (metis append_Cons append_Nil)
next
  assume ?r
  then show ?l by (auto simp: isBoundToSession_def index_of_append)
qed

lemma verify_iff:
  "verifyCSRFToken rt k token header s \<longleftrightarrow> token = header \<and>
    (if s = [] then \<not> isSessionBoundToken token else isBoundToSession rt k token s)"
  by (auto simp: verifyCSRFToken_def isBoundToSession_def split: option.splits)

lemma built_token:
  assumes "buildCSRFToken rt k rand s = Some token"
  obtains bytes where "rand = Some bytes"
    "token = (if s = [] then hex_encode bytes else hex_encode bytes @ ''.'' @ computeCSRFHMAC rt k (hex_encode bytes) s)"
  using assms by (auto simp: buildCSRFToken_def generateCSRFNonce_def split: option.splits if_splits)

lemma plain_not_bound: "CHR ''.'' \<notin> set token \<Longrightarrow> \<not> isSessionBoundToken token"
  by (simp add: isSessionBoundToken_def index_of_def)

lemma minted_token_accepted:
  assumes "buildCSRFToken rt k (Some bytes) s = Some token" "bytes \<noteq> []"
  shows "verifyCSRFToken rt k token token s' \<longleftrightarrow>
    (if s = [] \<or> s' = [] then s = s'
     else rt_hmac rt k (hex_encode bytes @ s') = rt_hmac rt k (hex_encode bytes @ s))"
proof (cases "s = []")
  case True
  then have "token = hex_encode bytes" using assms(1) by (auto elim!: built_token)
  then have "CHR ''.'' \<notin> set token" by (simp add: hex_no_dot)
  then show ?thesis using True by (auto simp: verify_iff bound_iff plain_not_bound)
next
  case False
  then have tok: "token = hex_encode bytes @ CHR ''.'' # computeCSRFHMAC rt k (hex_encode bytes) s"
    using assms(1) by (auto elim!: built_token)
  have ix: "index_of (CHR ''.'') token = Some (length (hex_encode bytes))"
    unfolding tok by (rule index_of_append [OF hex_no_dot])
  have "isBoundToSession rt k token s' \<longleftrightarrow>
      s' \<noteq> [] \<and> computeCSRFHMAC rt k (hex_encode bytes) s = computeCSRFHMAC rt k (hex_encode bytes) s'"
    using assms(2) by (simp add: isBoundToSession_def ix) (simp add: tok)
  moreover have "isSessionBoundToken token" using assms(2) by (simp add: isSessionBoundToken_def ix)
  ultimately show ?thesis using False by (auto simp: verify_iff computeCSRFHMAC_def hex_encode_inj)
qed

text \<open>
  CSRF tokens are bound to their session. The token minted for a session, echoed in the header,
  is accepted in exactly the sessions with the same HMAC over the token's nonce: in its own session
  always, without a session never. A token minted without a session is accepted only without one.
\<close>

theorem csrf_token_bound_to_session:
  assumes "buildCSRFToken rt k (Some bytes) s = Some token" "bytes \<noteq> []"
  shows "verifyCSRFToken rt k token token s' \<longleftrightarrow>
    (if s = [] \<or> s' = [] then s = s'
     else rt_hmac rt k (hex_encode bytes @ s') = rt_hmac rt k (hex_encode bytes @ s))"
  by (rule minted_token_accepted [OF assms])

text \<open>
  C15: mutations need the session's token. A request that is not exempt and uses a method other than
  GET, HEAD or OPTIONS reaches the handler exactly when its CSRF cookie and header carry the same
  non-empty token, and that token is a nonce with its HMAC for the request's session or, when there
  is no session, not a session's token. Otherwise the request is answered with 403.
\<close>

theorem csrf_mutation_needs_token:
  assumes "\<not> csrf_exempt paths r" "\<not> safe_verb (hr_method r)"
  shows "(CSRFMiddleware rt k paths rand r = CsrfNext None \<longleftrightarrow>
      (\<exists>token. token \<noteq> [] \<and> hr_cookie r ''csrf_token'' = Some token \<and> header_get r ''X-Csrf-Token'' = token \<and>
        (if session_value r = [] then \<not> isSessionBoundToken token
         else \<exists>nonce. nonce \<noteq> [] \<and> CHR ''.'' \<notin> set nonce \<and>
           token = nonce @ ''.'' @ computeCSRFHMAC rt k nonce (session_value r)))) \<and>
    (CSRFMiddleware rt k paths rand r = CsrfNext None \<or> (\<exists>c. CSRFMiddleware rt k paths rand r = CsrfRejected c))"
  using assms by (auto simp: CSRFMiddleware_def Let_def verify_iff bound_iff split: option.splits)

text \<open>The token that the client holds after a request.\<close>

definition token_after :: "http_request \<Rightarrow> csrf_outcome \<Rightarrow> string option" where
  "token_after r outcome = (case outcome of
      CsrfNext (Some c) \<Rightarrow> Some (ck_Value c)
    | _ \<Rightarrow> hr_cookie r ''csrf_token'')"

text \<open>
  A page load prepares the next mutation. After any safe request that is passed on, in a session
  or with a cookie that is not a session's, the client holds a token with which a mutating request of
  the same session, echoing it, is passed on.
\<close>

theorem csrf_safe_request_prepares_mutation:
  assumes "\<not> csrf_exempt paths r" "safe_verb (hr_method r)" "CSRFMiddleware rt k paths (Some bytes) r = CsrfNext c"
    and "bytes \<noteq> []" "hr_cookie r ''csrf_token'' \<noteq> Some []"
    and "session_value r = [] \<longrightarrow> (\<forall>t. hr_cookie r ''csrf_token'' = Some t \<longrightarrow> \<not> isSessionBoundToken t)"
    and "\<not> csrf_exempt paths r'" "\<not> safe_verb (hr_method r')" "session_value r' = session_value r"
    and "hr_cookie r' ''csrf_token'' = token_after r (CsrfNext c)" "token_after r (CsrfNext c) = Some (header_get r' ''X-Csrf-Token'')"
  shows "CSRFMiddleware rt k paths rand r' = CsrfNext None"
proof -
  let ?t = "header_get r' ''X-Csrf-Token''" and ?s = "session_value r"
  have ok: "?t \<noteq> [] \<and> verifyCSRFToken rt k ?t ?t ?s"
  proof (cases "needsCSRFRebind rt k r ?s")
    case True
    then obtain t where b: "buildCSRFToken rt k (Some bytes) ?s = Some t" and c: "c = Some (setCSRFCookie r t)"
      using assms(1-3) by (auto simp: CSRFMiddleware_def Let_def split: option.splits)
    have t: "?t = t" using assms(11) c by (simp add: token_after_def setCSRFCookie_def)
    have "verifyCSRFToken rt k t t ?s" using minted_token_accepted [OF b assms(4)] by simp
    moreover have "t \<noteq> []"
      using b assms(4) by (auto elim!: built_token split: if_splits simp: hex_encode_def)
    ultimately show ?thesis using t by simp
  next
    case False
    then have "c = None" using assms(1-3) by (simp add: CSRFMiddleware_def Let_def)
    then have "hr_cookie r ''csrf_token'' = Some ?t" using assms(11) by (simp add: token_after_def)
    then show ?thesis using False assms(5,6) by (auto simp: needsCSRFRebind_def verify_iff)
  qed
  then show ?thesis using assms(7-11) by (simp add: CSRFMiddleware_def Let_def)
qed

end
