(* ===== verification/Identity_Schema.thy ===== *)
theory Identity_Schema
  imports Go_Lib
begin

text \<open>
  The identity tables: users, magic links, sessions, account invites, events with their
  memberships, and the audit log (\<open>internal/auth/model.go\<close>, \<open>internal/useradmin/model.go\<close>,
  \<open>internal/event/model.go\<close>, and the constraints of the migrations).

  These stores write timestamps with second precision (\<open>time.RFC3339\<close> in UTC): a column holds the
  time truncated to the second, and the order of the texts is the order of the times.
\<close>

section \<open>Data\<close>

abbreviation InstanceRoleAdmin :: string where "InstanceRoleAdmin \<equiv> ''admin''"
abbreviation InstanceRoleUser :: string where "InstanceRoleUser \<equiv> ''user''"
abbreviation UserStatusInvited :: string where "UserStatusInvited \<equiv> ''invited''"
abbreviation UserStatusActive :: string where "UserStatusActive \<equiv> ''active''"
abbreviation UserStatusDisabled :: string where "UserStatusDisabled \<equiv> ''disabled''"

record User =
  u_ID :: id
  u_Email :: string
  u_NormalizedEmail :: string
  u_Name :: string
  u_Timezone :: string
  u_InstanceRole :: string
  u_Status :: string
  u_InvitedByUserID :: "id option"
  u_ActivatedAt :: "time option"
  u_LastLoginAt :: "time option"
  u_CreatedAt :: time
  u_UpdatedAt :: time

text \<open>The field \<open>IsAdmin\<close> is computed when a row is read.\<close>

definition IsAdmin :: "User \<Rightarrow> bool" where
  "IsAdmin u \<longleftrightarrow> u_InstanceRole u = InstanceRoleAdmin"

record MagicLink =
  ml_ID :: id
  ml_TokenHash :: string
  ml_OrganizerID :: id
  ml_ExpiresAt :: time
  ml_UsedAt :: "time option"
  ml_CreatedAt :: time

record Session =
  se_ID :: id
  se_TokenHash :: string
  se_OrganizerID :: id
  se_ExpiresAt :: time
  se_CreatedAt :: time

record AccountInvite =
  ai_ID :: id
  ai_TargetUserID :: id
  ai_Email :: string
  ai_InvitedByUserID :: id
  ai_EventID :: "id option"
  ai_EventRole :: "string option"
  ai_ExpiresAt :: time
  ai_AcceptedAt :: "time option"
  ai_RevokedAt :: "time option"
  ai_CreatedAt :: time

record invite_row = AccountInvite +
  ai_token_hash :: string

record event_row =
  e_ID :: id
  e_Title :: string
  e_Description :: string
  e_EventDate :: time
  e_EndDate :: "time option"
  e_Location :: string
  e_Timezone :: string
  e_RetentionDays :: int
  e_Status :: string
  e_ShowHeadcount :: bool
  e_ShowGuestList :: bool
  e_RSVPDeadline :: "time option"
  e_SeriesID :: "id option"
  e_SeriesIndex :: "int option"
  e_SeriesOverride :: bool
  e_CreatedAt :: time
  e_UpdatedAt :: time

record EventSeries =
  es_ID :: id
  es_OrganizerID :: id
  es_Title :: string
  es_Description :: string
  es_Location :: string
  es_Timezone :: string
  es_EventTime :: string
  es_DurationMinutes :: "int option"
  es_RecurrenceRule :: string
  es_RecurrenceEnd :: "time option"
  es_MaxOccurrences :: "int option"
  es_SeriesStatus :: string
  es_RetentionDays :: int
  es_ShowHeadcount :: bool
  es_ShowGuestList :: bool
  es_RSVPDeadlineOffsetHours :: "int option"
  es_CreatedAt :: time
  es_UpdatedAt :: time

record membership_row =
  mb_id :: id
  mb_event_id :: id
  mb_user_id :: id
  mb_role :: string
  mb_granted_by_user_id :: id
  mb_created_at :: time
  mb_updated_at :: time

record AuditEntry =
  ae_ID :: id
  ae_ActorUserID :: "id option"
  ae_ActorKind :: string
  ae_Action :: string
  ae_TargetUserID :: "id option"
  ae_EventID :: "id option"
  ae_Metadata :: "(string \<times> string) list"
  ae_CreatedAt :: time

record idb =
  id_users :: "User list"
  id_magic_links :: "MagicLink list"
  id_sessions :: "Session list"
  id_invites :: "invite_row list"
  id_events :: "event_row list"
  id_series :: "EventSeries list"
  id_memberships :: "membership_row list"
  id_audit :: "AuditEntry list"

definition trunc_sec :: "time \<Rightarrow> time" where
  "trunc_sec t = t div second * second"

section \<open>Errors\<close>

datatype id_error =
    ErrInvalidEmail
  | ErrInvalidToken
  | ErrSessionNotFound
  | ErrInvalidInvite
  | ErrUserExists
  | ErrUserNotFound
  | ErrLastAdmin
  | ErrInvalidTransition
  | ErrEmailUnavailable
  | ErrCohostLimit
  | IdValidation string
  | IdForbidden
  | IdNotFound
  | IdInternal string

type_synonym 'a id_result = "id_error + 'a"

section \<open>Inserts, with the constraints of the schema\<close>

definition user_ids :: "idb \<Rightarrow> id set" where "user_ids d = u_ID ` set (id_users d)"
definition known_events :: "idb \<Rightarrow> id set" where "known_events d = e_ID ` set (id_events d)"

definition user_checks :: "User \<Rightarrow> bool" where
  "user_checks u \<longleftrightarrow> u_InstanceRole u \<in> {InstanceRoleAdmin, InstanceRoleUser} \<and>
    u_Status u \<in> {UserStatusInvited, UserStatusActive, UserStatusDisabled}"

definition insert_user :: "User \<Rightarrow> idb \<Rightarrow> idb option" where
  "insert_user u d =
    (if u_ID u \<in> user_ids d \<or> list_ex (\<lambda>x. u_NormalizedEmail x = u_NormalizedEmail u) (id_users d) \<or> \<not> user_checks u \<or>
        (case u_InvitedByUserID u of None \<Rightarrow> False | Some i \<Rightarrow> i \<notin> user_ids d)
     then None else Some (d\<lparr>id_users := add_row u (id_users d)\<rparr>))"

definition insert_magic_link :: "MagicLink \<Rightarrow> idb \<Rightarrow> idb option" where
  "insert_magic_link m d =
    (if list_ex (\<lambda>x. ml_ID x = ml_ID m \<or> ml_TokenHash x = ml_TokenHash m) (id_magic_links d) \<or> ml_OrganizerID m \<notin> user_ids d
     then None else Some (d\<lparr>id_magic_links := add_row m (id_magic_links d)\<rparr>))"

definition insert_id_session :: "Session \<Rightarrow> idb \<Rightarrow> idb option" where
  "insert_id_session s d =
    (if list_ex (\<lambda>x. se_ID x = se_ID s \<or> se_TokenHash x = se_TokenHash s) (id_sessions d) \<or> se_OrganizerID s \<notin> user_ids d
     then None else Some (d\<lparr>id_sessions := add_row s (id_sessions d)\<rparr>))"

definition insert_invite :: "invite_row \<Rightarrow> idb \<Rightarrow> idb option" where
  "insert_invite r d =
    (if list_ex (\<lambda>x. ai_ID x = ai_ID r \<or> ai_token_hash x = ai_token_hash r) (id_invites d) \<or>
        ai_TargetUserID r \<notin> user_ids d \<or> ai_InvitedByUserID r \<notin> user_ids d \<or>
        (case ai_EventID r of None \<Rightarrow> False | Some e \<Rightarrow> e \<notin> known_events d) \<or>
        \<not> (ai_EventRole r = None \<or> ai_EventRole r = Some ''cohost'')
     then None else Some (d\<lparr>id_invites := add_row r (id_invites d)\<rparr>))"

definition event_checks :: "idb \<Rightarrow> 'x event_row_scheme \<Rightarrow> bool" where
  "event_checks d e \<longleftrightarrow> e_Status e \<in> {''draft'', ''published'', ''cancelled'', ''archived'', ''retention_warning''} \<and>
    (case e_SeriesID e of None \<Rightarrow> True | Some s \<Rightarrow> s \<in> es_ID ` set (id_series d))"

definition insert_event :: "event_row \<Rightarrow> idb \<Rightarrow> idb option" where
  "insert_event e d = (if e_ID e \<in> known_events d \<or> \<not> event_checks d e then None
     else Some (d\<lparr>id_events := add_row e (id_events d)\<rparr>))"

definition series_checks :: "EventSeries \<Rightarrow> bool" where
  "series_checks es \<longleftrightarrow> es_RecurrenceRule es \<in> {''weekly'', ''biweekly'', ''monthly''} \<and> es_SeriesStatus es \<in> {''active'', ''stopped''}"

definition insert_series :: "EventSeries \<Rightarrow> idb \<Rightarrow> idb option" where
  "insert_series es d =
    (if es_ID es \<in> es_ID ` set (id_series d) \<or> es_OrganizerID es \<notin> user_ids d \<or> \<not> series_checks es then None
     else Some (d\<lparr>id_series := add_row es (id_series d)\<rparr>))"

definition insert_membership :: "membership_row \<Rightarrow> idb \<Rightarrow> idb option" where
  "insert_membership m d =
    (if list_ex (\<lambda>x. mb_id x = mb_id m \<or> (mb_event_id x = mb_event_id m \<and> mb_user_id x = mb_user_id m) \<or>
           (mb_role m = ''owner'' \<and> mb_role x = ''owner'' \<and> mb_event_id x = mb_event_id m)) (id_memberships d) \<or>
        mb_event_id m \<notin> known_events d \<or> mb_user_id m \<notin> user_ids d \<or> mb_granted_by_user_id m \<notin> user_ids d \<or>
        mb_role m \<notin> {''owner'', ''cohost''}
     then None else Some (d\<lparr>id_memberships := add_row m (id_memberships d)\<rparr>))"

definition insert_audit :: "AuditEntry \<Rightarrow> idb \<Rightarrow> idb option" where
  "insert_audit a d =
    (if list_ex (\<lambda>x. ae_ID x = ae_ID a) (id_audit d) \<or>
        (case ae_ActorUserID a of None \<Rightarrow> False | Some i \<Rightarrow> i \<notin> user_ids d) \<or>
        (case ae_TargetUserID a of None \<Rightarrow> False | Some i \<Rightarrow> i \<notin> user_ids d)
     then None else Some (d\<lparr>id_audit := add_row a (id_audit d)\<rparr>))"

lemmas id_insert_defs = insert_user_def insert_magic_link_def insert_id_session_def insert_invite_def insert_event_def
  insert_membership_def insert_audit_def

section \<open>The invariant of the tables\<close>

definition id_wf :: "idb \<Rightarrow> bool" where
  "id_wf d \<longleftrightarrow>
    distinct (map u_ID (id_users d)) \<and> distinct (map u_NormalizedEmail (id_users d)) \<and> list_all user_checks (id_users d) \<and>
    distinct (map ml_ID (id_magic_links d)) \<and> distinct (map ml_TokenHash (id_magic_links d)) \<and>
    distinct (map se_ID (id_sessions d)) \<and> distinct (map se_TokenHash (id_sessions d)) \<and>
    distinct (map ai_ID (id_invites d)) \<and> distinct (map ai_token_hash (id_invites d)) \<and>
    distinct (map e_ID (id_events d)) \<and> distinct (map (\<lambda>m. (mb_event_id m, mb_user_id m)) (id_memberships d)) \<and>
    distinct (map mb_event_id (filter (\<lambda>m. mb_role m = ''owner'') (id_memberships d)))"

end
