(* ===== verification/Auth_Service.thy ===== *)
theory Auth_Service
  imports Identity_Schema Trusted_Proxy
begin

text \<open>
  Passwordless authentication (\<open>internal/auth/store.go\<close>, \<open>service.go\<close>, \<open>middleware.go\<close>,
  \<open>handler.go\<close>): magic links, sessions and the account they belong to.

  An operation takes the clock readings, the fresh UUIDs and the random bytes it draws, in the
  order of the code. A login reads its magic link before it opens the transaction that consumes
  it; the two parts are \<open>verify_lookup\<close> and \<open>verify_commit\<close>, so that other requests may come between.
\<close>

section \<open>Configuration and collaborators\<close>

record config =
  cfg_AllowSignups :: bool
  cfg_MagicLinkExpiry :: duration
  cfg_SessionExpiry :: duration
  cfg_AccountInviteExpiry :: duration
  cfg_BaseURL :: string
  cfg_DefaultTimezone :: string
  cfg_InstanceName :: string
  cfg_MaxCoHostsPerEvent :: int
  cfg_development :: bool

record id_mail =
  im_to :: string
  im_subject :: string
  im_html :: string
  im_plain :: string

text \<open>
  The mail template is executed by \<open>html/template\<close>: base URL, token and minutes to the two bodies.
  The sender reports whether it accepted the mail.
\<close>

record auth_service =
  as_cfg :: config
  as_sendEmail :: "(id_mail \<Rightarrow> bool) option"
  as_RenderMagicLink :: "string \<Rightarrow> string \<Rightarrow> int \<Rightarrow> (string \<times> string) option"

section \<open>The store\<close>

definition auth_normalizeEmail :: "'x runtime_scheme \<Rightarrow> string \<Rightarrow> string" where
  "auth_normalizeEmail rt email = to_lower rt (trim_space email)"

definition auth_hashToken :: "'x runtime_scheme \<Rightarrow> string \<Rightarrow> string" where
  "auth_hashToken rt token = hex_encode (rt_sha256 rt token)"

definition FindOrganizerByEmail :: "'x runtime_scheme \<Rightarrow> string \<Rightarrow> idb \<Rightarrow> User option" where
  "FindOrganizerByEmail rt email d = select_row (\<lambda>u. u_NormalizedEmail u = auth_normalizeEmail rt email) (id_users d)"

definition FindOrganizerByID :: "id \<Rightarrow> idb \<Rightarrow> User option" where
  "FindOrganizerByID i d = select_row (\<lambda>u. u_ID u = i) (id_users d)"

definition new_user ::
  "'x runtime_scheme \<Rightarrow> id \<Rightarrow> time \<Rightarrow> string \<Rightarrow> string \<Rightarrow> string \<Rightarrow> string \<Rightarrow> string \<Rightarrow> id option \<Rightarrow> User" where
  "new_user rt uid now rawEmail name timezone role status invitedBy =
    (let email = trim_space rawEmail in
     \<lparr> u_ID = uid, u_Email = email, u_NormalizedEmail = auth_normalizeEmail rt email, u_Name = name,
       u_Timezone = (if timezone = [] then ''UTC'' else timezone), u_InstanceRole = role, u_Status = status,
       u_InvitedByUserID = invitedBy, u_ActivatedAt = (if status = UserStatusActive then Some (trunc_sec now) else None),
       u_LastLoginAt = None, u_CreatedAt = trunc_sec now, u_UpdatedAt = trunc_sec now \<rparr>)"

definition createUser ::
  "'x runtime_scheme \<Rightarrow> id \<Rightarrow> time \<Rightarrow> string \<Rightarrow> string \<Rightarrow> string \<Rightarrow> string \<Rightarrow> string \<Rightarrow> id option \<Rightarrow> idb \<Rightarrow>
   (idb \<times> User) id_result" where
  "createUser rt uid now email name timezone role status invitedBy d =
    rbind (or_err (insert_user (new_user rt uid now email name timezone role status invitedBy) d) (IdInternal ''create user'')) (\<lambda>d.
    rbind (or_err (FindOrganizerByID uid d) (IdInternal ''nil user'')) (\<lambda>u. Inr (d, u)))"

definition CreateOrganizer :: "'x runtime_scheme \<Rightarrow> id \<Rightarrow> time \<Rightarrow> string \<Rightarrow> idb \<Rightarrow> (idb \<times> User) id_result" where
  "CreateOrganizer rt uid now email d = createUser rt uid now email [] ''UTC'' InstanceRoleUser UserStatusActive None d"

definition UpdateOrganizer :: "time \<Rightarrow> User \<Rightarrow> idb \<Rightarrow> idb" where
  "UpdateOrganizer now organizer d = d\<lparr>id_users := update_where (\<lambda>u. u_ID u = u_ID organizer)
     (\<lambda>u. u\<lparr>u_Name := u_Name organizer, u_Timezone := u_Timezone organizer, u_UpdatedAt := trunc_sec now\<rparr>) (id_users d)\<rparr>"

definition CreateMagicLink :: "id \<Rightarrow> time \<Rightarrow> string \<Rightarrow> id \<Rightarrow> time \<Rightarrow> idb \<Rightarrow> idb id_result" where
  "CreateMagicLink mid now tokenHash organizerID expiresAt d =
    or_err (insert_magic_link \<lparr> ml_ID = mid, ml_TokenHash = tokenHash, ml_OrganizerID = organizerID,
      ml_ExpiresAt = trunc_sec expiresAt, ml_UsedAt = None, ml_CreatedAt = trunc_sec now \<rparr> d)
      (IdInternal ''create magic link'')"

definition FindMagicLinkByHash :: "string \<Rightarrow> idb \<Rightarrow> MagicLink option" where
  "FindMagicLinkByHash tokenHash d = select_row (\<lambda>m. ml_TokenHash m = tokenHash) (id_magic_links d)"

definition unused_link :: "id \<Rightarrow> time \<Rightarrow> MagicLink \<Rightarrow> bool" where
  "unused_link i now m \<longleftrightarrow> ml_ID m = i \<and> ml_UsedAt m = None \<and> trunc_sec now < ml_ExpiresAt m"

definition markMagicLinkUsed :: "id \<Rightarrow> time \<Rightarrow> idb \<Rightarrow> idb id_result" where
  "markMagicLinkUsed i now d =
    (if affected (unused_link i now) (id_magic_links d) \<noteq> 1 then Inl ErrInvalidToken
     else Inr (d\<lparr>id_magic_links := update_where (unused_link i now) (\<lambda>m. m\<lparr>ml_UsedAt := Some (trunc_sec now)\<rparr>) (id_magic_links d)\<rparr>))"

definition createSession :: "id \<Rightarrow> time \<Rightarrow> string \<Rightarrow> id \<Rightarrow> time \<Rightarrow> idb \<Rightarrow> idb id_result" where
  "createSession sid now tokenHash organizerID expiresAt d =
    or_err (insert_id_session \<lparr> se_ID = sid, se_TokenHash = tokenHash, se_OrganizerID = organizerID,
      se_ExpiresAt = trunc_sec expiresAt, se_CreatedAt = trunc_sec now \<rparr> d) (IdInternal ''create session'')"

definition FindSessionByHash :: "string \<Rightarrow> idb \<Rightarrow> Session option" where
  "FindSessionByHash tokenHash d = select_row (\<lambda>s. se_TokenHash s = tokenHash) (id_sessions d)"

definition DeleteSession :: "id \<Rightarrow> idb \<Rightarrow> idb" where
  "DeleteSession i d = d\<lparr>id_sessions := delete_where (\<lambda>s. se_ID s = i) (id_sessions d)\<rparr>"

definition DeleteExpiredSessions :: "time \<Rightarrow> idb \<Rightarrow> idb" where
  "DeleteExpiredSessions now d = d\<lparr>id_sessions := delete_where (\<lambda>s. se_ExpiresAt s < trunc_sec now) (id_sessions d)\<rparr>"

definition DeleteExpiredMagicLinks :: "time \<Rightarrow> idb \<Rightarrow> idb" where
  "DeleteExpiredMagicLinks now d = d\<lparr>id_magic_links := delete_where (\<lambda>m. ml_ExpiresAt m < trunc_sec now) (id_magic_links d)\<rparr>"

definition SetAdminStatus :: "time \<Rightarrow> id \<Rightarrow> bool \<Rightarrow> idb \<Rightarrow> idb" where
  "SetAdminStatus now i isAdmin d = d\<lparr>id_users := update_where (\<lambda>u. u_ID u = i)
     (\<lambda>u. u\<lparr>u_InstanceRole := (if isAdmin then InstanceRoleAdmin else InstanceRoleUser), u_UpdatedAt := trunc_sec now\<rparr>) (id_users d)\<rparr>"

definition active_user :: "id \<Rightarrow> User \<Rightarrow> bool" where
  "active_user i u \<longleftrightarrow> u_ID u = i \<and> u_Status u = UserStatusActive"

definition TouchLastLoginTx :: "id \<Rightarrow> time \<Rightarrow> idb \<Rightarrow> idb id_result" where
  "TouchLastLoginTx i at d =
    (if affected (active_user i) (id_users d) \<noteq> 1 then Inl ErrInvalidToken
     else Inr (d\<lparr>id_users := update_where (active_user i)
        (\<lambda>u. u\<lparr>u_LastLoginAt := Some (trunc_sec at), u_UpdatedAt := trunc_sec at\<rparr>) (id_users d)\<rparr>))"

definition promoted_row :: "string \<Rightarrow> string \<Rightarrow> time \<Rightarrow> User \<Rightarrow> User" where
  "promoted_row name timezone at u = u\<lparr>u_Name := name, u_Timezone := (if timezone = [] then ''UTC'' else timezone),
     u_InstanceRole := InstanceRoleAdmin, u_Status := UserStatusActive,
     u_ActivatedAt := (case u_ActivatedAt u of Some t \<Rightarrow> Some t | None \<Rightarrow> Some (trunc_sec at)), u_UpdatedAt := trunc_sec at\<rparr>"

definition PromoteBootstrapAdminTx :: "id \<Rightarrow> string \<Rightarrow> string \<Rightarrow> time \<Rightarrow> idb \<Rightarrow> (idb \<times> User) id_result" where
  "PromoteBootstrapAdminTx i name timezone at d =
    (if affected (\<lambda>u. u_ID u = i) (id_users d) \<noteq> 1 then Inl (IdInternal ''promote bootstrap admin: user not found'')
     else let d = d\<lparr>id_users := update_where (\<lambda>u. u_ID u = i) (promoted_row name timezone at) (id_users d)\<rparr> in
     rbind (or_err (FindOrganizerByID i d) (IdInternal ''nil user'')) (\<lambda>u. Inr (d, u)))"

definition invited_user :: "id \<Rightarrow> User \<Rightarrow> bool" where
  "invited_user i u \<longleftrightarrow> u_ID u = i \<and> u_Status u = UserStatusInvited"

definition ActivateInvitedUserTx :: "id \<Rightarrow> time \<Rightarrow> idb \<Rightarrow> (idb \<times> User) id_result" where
  "ActivateInvitedUserTx i at d =
    (if affected (invited_user i) (id_users d) \<noteq> 1 then Inl ErrInvalidToken
     else let d = d\<lparr>id_users := update_where (invited_user i)
        (\<lambda>u. u\<lparr>u_Status := UserStatusActive, u_ActivatedAt := Some (trunc_sec at), u_UpdatedAt := trunc_sec at\<rparr>) (id_users d)\<rparr> in
     rbind (or_err (FindOrganizerByID i d) (IdInternal ''nil user'')) (\<lambda>u. Inr (d, u)))"

section \<open>The service\<close>

record AuthResponse =
  ar_Token :: string
  ar_Organizer :: User

definition magic_link_mail :: "auth_service \<Rightarrow> string \<Rightarrow> string \<Rightarrow> id_mail list" where
  "magic_link_mail s email tokenHex =
    (case as_sendEmail s of
       None \<Rightarrow> []
     | Some send \<Rightarrow> (case as_RenderMagicLink s (cfg_BaseURL (as_cfg s)) tokenHex (cfg_MagicLinkExpiry (as_cfg s) div minute) of
          None \<Rightarrow> []
        | Some (html, plain) \<Rightarrow> [\<lparr> im_to = email, im_subject = ''Sign in to Owl Invites'', im_html = html, im_plain = plain \<rparr>]))"

text \<open>The result: the database, the mails handed to the sender, and the error if any.\<close>

definition RequestMagicLink ::
  "'x runtime_scheme \<Rightarrow> auth_service \<Rightarrow> (nat \<Rightarrow> time) \<Rightarrow> (nat \<Rightarrow> id) \<Rightarrow> string option \<Rightarrow> string \<Rightarrow> idb \<Rightarrow>
   idb \<times> id_mail list \<times> id_error option" where
  "RequestMagicLink rt s clk uuid rand email d =
    (if \<not> rt_mail_ok rt email then (d, [], Some ErrInvalidEmail)
     else if FindOrganizerByEmail rt email d = None \<and> \<not> cfg_AllowSignups (as_cfg s) then (d, [], None)
     else case (case FindOrganizerByEmail rt email d of
           Some u \<Rightarrow> Inr (d, u) | None \<Rightarrow> CreateOrganizer rt (uuid 0) (clk 0) email d) of
       Inl e \<Rightarrow> (d, [], Some e)
     | Inr (d, organizer) \<Rightarrow>
        if u_Status organizer \<noteq> UserStatusActive then (d, [], None)
        else case rand of
          None \<Rightarrow> (d, [], Some (IdInternal ''generate token''))
        | Some bytes \<Rightarrow>
           let tokenHex = hex_encode bytes in
           case CreateMagicLink (uuid 1) (clk 2) (auth_hashToken rt tokenHex) (u_ID organizer)
                  (clk 1 + cfg_MagicLinkExpiry (as_cfg s)) d of
             Inl e \<Rightarrow> (d, [], Some e)
           | Inr d \<Rightarrow> (d, magic_link_mail s email tokenHex, None))"

definition verify_lookup :: "'x runtime_scheme \<Rightarrow> time \<Rightarrow> string \<Rightarrow> idb \<Rightarrow> MagicLink id_result" where
  "verify_lookup rt now rawToken d =
    rbind (or_err (FindMagicLinkByHash (auth_hashToken rt rawToken) d) ErrInvalidToken) (\<lambda>ml.
    rbind (guard (ml_UsedAt ml = None) ErrInvalidToken) (\<lambda>_.
    rbind (guard (\<not> ml_ExpiresAt ml < now) ErrInvalidToken) (\<lambda>_. Inr ml)))"

definition verify_commit ::
  "'x runtime_scheme \<Rightarrow> auth_service \<Rightarrow> (nat \<Rightarrow> time) \<Rightarrow> (nat \<Rightarrow> id) \<Rightarrow> string option \<Rightarrow> MagicLink \<Rightarrow> idb \<Rightarrow>
   (idb \<times> AuthResponse) id_result" where
  "verify_commit rt s clk uuid rand ml d =
    rbind (or_err rand (IdInternal ''generate session token'')) (\<lambda>bytes.
    let sessionTokenHex = hex_encode bytes; expiresAt = clk 1 + cfg_SessionExpiry (as_cfg s); loginAt = clk 2 in
    rbind (or_err (FindOrganizerByID (ml_OrganizerID ml) d) ErrInvalidToken) (\<lambda>organizer.
    rbind (guard (u_Status organizer = UserStatusActive) ErrInvalidToken) (\<lambda>_.
    rbind (markMagicLinkUsed (ml_ID ml) loginAt d) (\<lambda>d.
    rbind (createSession (uuid 0) (clk 3) (auth_hashToken rt sessionTokenHex) (ml_OrganizerID ml) expiresAt d) (\<lambda>d.
    rbind (TouchLastLoginTx (ml_OrganizerID ml) loginAt d) (\<lambda>d.
    Inr (d, \<lparr> ar_Token = sessionTokenHex, ar_Organizer = organizer\<lparr>u_LastLoginAt := Some loginAt\<rparr> \<rparr>)))))))"

definition VerifyMagicLink ::
  "'x runtime_scheme \<Rightarrow> auth_service \<Rightarrow> (nat \<Rightarrow> time) \<Rightarrow> (nat \<Rightarrow> id) \<Rightarrow> string option \<Rightarrow> string \<Rightarrow> idb \<Rightarrow>
   (idb \<times> AuthResponse) id_result" where
  "VerifyMagicLink rt s clk uuid rand rawToken d =
    rbind (verify_lookup rt (clk 0) rawToken d) (\<lambda>ml. verify_commit rt s clk uuid rand ml d)"

definition ValidateSession :: "'x runtime_scheme \<Rightarrow> time \<Rightarrow> string \<Rightarrow> idb \<Rightarrow> idb \<times> User id_result" where
  "ValidateSession rt now rawToken d =
    (case FindSessionByHash (auth_hashToken rt rawToken) d of
       None \<Rightarrow> (d, Inl ErrSessionNotFound)
     | Some session \<Rightarrow>
        if se_ExpiresAt session < now then (DeleteSession (se_ID session) d, Inl ErrSessionNotFound)
        else (case FindOrganizerByID (se_OrganizerID session) d of
            None \<Rightarrow> (DeleteSession (se_ID session) d, Inl ErrSessionNotFound)
          | Some organizer \<Rightarrow>
             if u_Status organizer \<noteq> UserStatusActive then (DeleteSession (se_ID session) d, Inl ErrSessionNotFound)
             else (d, Inr organizer)))"

definition Logout :: "'x runtime_scheme \<Rightarrow> string \<Rightarrow> idb \<Rightarrow> idb \<times> unit id_result" where
  "Logout rt rawToken d =
    (case FindSessionByHash (auth_hashToken rt rawToken) d of
       None \<Rightarrow> (d, Inl ErrSessionNotFound)
     | Some session \<Rightarrow> (DeleteSession (se_ID session) d, Inr ()))"

section \<open>Requests\<close>

definition extractToken :: "http_request \<Rightarrow> string" where
  "extractToken r = (case hr_cookie r ''session'' of
      Some v \<Rightarrow> if v \<noteq> [] then v
        else if prefix ''Bearer '' (header_get r ''Authorization'') then trim_prefix ''Bearer '' (header_get r ''Authorization'') else []
    | None \<Rightarrow> if prefix ''Bearer '' (header_get r ''Authorization'') then trim_prefix ''Bearer '' (header_get r ''Authorization'') else [])"

text \<open>\<open>RequireAuth\<close>: the user stored in the context, or \<open>None\<close> for the answer 401.\<close>

definition RequireAuth :: "'x runtime_scheme \<Rightarrow> time \<Rightarrow> http_request \<Rightarrow> idb \<Rightarrow> idb \<times> User option" where
  "RequireAuth rt now r d =
    (let token = extractToken r in
     if token = [] then (d, None)
     else case ValidateSession rt now token d of (d, Inl _) \<Rightarrow> (d, None) | (d, Inr u) \<Rightarrow> (d, Some u))"

definition RequireAdmin :: "User option \<Rightarrow> bool" where
  "RequireAdmin organizer = (case organizer of None \<Rightarrow> False | Some u \<Rightarrow> IsAdmin u)"

end
