(* ===== verification/User_Admin.thy ===== *)
theory User_Admin
  imports Auth_Service
begin

text \<open>
  Administration of users (\<open>internal/useradmin\<close>): account invites, co-host sponsorship, status and
  role changes with their audit entries; and the host-side recovery of an administrator
  (\<open>internal/admincli/service.go\<close>). Every operation is one transaction, which other requests see
  entirely or not at all; mail is handed over after the commit.
\<close>

section \<open>The store\<close>

definition CreateInviteTx ::
  "id \<Rightarrow> User \<Rightarrow> id \<Rightarrow> string \<Rightarrow> id option \<Rightarrow> string option \<Rightarrow> time \<Rightarrow> time \<Rightarrow> idb \<Rightarrow> (idb \<times> AccountInvite) id_result" where
  "CreateInviteTx iid target actorID tokenHash eventID eventRole expiresAt now d =
    (let invite = \<lparr> ai_ID = iid, ai_TargetUserID = u_ID target, ai_Email = u_NormalizedEmail target, ai_InvitedByUserID = actorID,
           ai_EventID = eventID, ai_EventRole = eventRole, ai_ExpiresAt = expiresAt, ai_AcceptedAt = None, ai_RevokedAt = None,
           ai_CreatedAt = now \<rparr> in
     rbind (or_err (insert_invite (AccountInvite.extend (invite\<lparr>ai_ExpiresAt := trunc_sec expiresAt, ai_CreatedAt := trunc_sec now\<rparr>)
         (invite_row.fields tokenHash)) d) (IdInternal ''create account invite'')) (\<lambda>d. Inr (d, invite)))"

definition LockEventTx :: "id \<Rightarrow> idb \<Rightarrow> idb id_result" where
  "LockEventTx eventID d = (if affected (\<lambda>e. e_ID e = eventID) (id_events d) \<noteq> 1 then Inl ErrUserNotFound else Inr d)"

definition IsEventOwnerTx :: "id \<Rightarrow> id \<Rightarrow> idb \<Rightarrow> bool" where
  "IsEventOwnerTx eventID userID d \<longleftrightarrow>
    affected (\<lambda>m. mb_event_id m = eventID \<and> mb_user_id m = userID \<and> mb_role m = ''owner'') (id_memberships d) = 1"

definition cohost_of :: "id \<Rightarrow> membership_row \<Rightarrow> bool" where
  "cohost_of eventID m \<longleftrightarrow> mb_event_id m = eventID \<and> mb_role m = ''cohost''"

definition pending_invite :: "time \<Rightarrow> invite_row \<Rightarrow> bool" where
  "pending_invite now r \<longleftrightarrow> ai_AcceptedAt r = None \<and> ai_RevokedAt r = None \<and> trunc_sec now < ai_ExpiresAt r"

definition CountCohostCommitmentsTx :: "id \<Rightarrow> time \<Rightarrow> idb \<Rightarrow> nat" where
  "CountCohostCommitmentsTx eventID now d = affected (cohost_of eventID) (id_memberships d) +
    affected (\<lambda>r. ai_EventID r = Some eventID \<and> ai_EventRole r = Some ''cohost'' \<and> pending_invite now r) (id_invites d)"

definition CreateCohostMembershipTx :: "id \<Rightarrow> id \<Rightarrow> id \<Rightarrow> id \<Rightarrow> time \<Rightarrow> idb \<Rightarrow> idb id_result" where
  "CreateCohostMembershipTx mid eventID userID grantedBy now d =
    or_err (insert_membership \<lparr> mb_id = mid, mb_event_id = eventID, mb_user_id = userID, mb_role = ''cohost'',
      mb_granted_by_user_id = grantedBy, mb_created_at = trunc_sec now, mb_updated_at = trunc_sec now \<rparr> d)
      (IdInternal ''create cohost membership'')"

definition HasEventMembershipTx :: "id \<Rightarrow> id \<Rightarrow> idb \<Rightarrow> bool" where
  "HasEventMembershipTx eventID userID d \<longleftrightarrow> 0 < affected (\<lambda>m. mb_event_id m = eventID \<and> mb_user_id m = userID) (id_memberships d)"

definition open_invite_of :: "id \<Rightarrow> invite_row \<Rightarrow> bool" where
  "open_invite_of targetUserID r \<longleftrightarrow> ai_TargetUserID r = targetUserID \<and> ai_AcceptedAt r = None \<and> ai_RevokedAt r = None"

definition RevokePendingInvitesTx :: "id \<Rightarrow> time \<Rightarrow> idb \<Rightarrow> idb" where
  "RevokePendingInvitesTx targetUserID now d = d\<lparr>id_invites := update_where (open_invite_of targetUserID)
     (\<lambda>r. r\<lparr>ai_RevokedAt := Some (trunc_sec now)\<rparr>) (id_invites d)\<rparr>"

definition open_invite :: "id \<Rightarrow> invite_row \<Rightarrow> bool" where
  "open_invite i r \<longleftrightarrow> ai_ID r = i \<and> ai_AcceptedAt r = None \<and> ai_RevokedAt r = None"

definition RevokeInviteByIDTx :: "id \<Rightarrow> time \<Rightarrow> idb \<Rightarrow> (idb \<times> AccountInvite) id_result" where
  "RevokeInviteByIDTx i now d =
    rbind (or_err (select_row (open_invite i) (id_invites d)) ErrInvalidInvite) (\<lambda>r.
    rbind (guard (affected (open_invite i) (id_invites d) = 1) ErrInvalidInvite) (\<lambda>_.
    Inr (d\<lparr>id_invites := update_where (open_invite i) (\<lambda>r. r\<lparr>ai_RevokedAt := Some (trunc_sec now)\<rparr>) (id_invites d)\<rparr>,
         AccountInvite.truncate r)))"

definition FindLiveInviteByHashTx :: "string \<Rightarrow> time \<Rightarrow> idb \<Rightarrow> AccountInvite option" where
  "FindLiveInviteByHashTx tokenHash now d =
    map_option AccountInvite.truncate (select_row (\<lambda>r. ai_token_hash r = tokenHash \<and> pending_invite now r) (id_invites d))"

definition ConsumeInviteTx :: "id \<Rightarrow> time \<Rightarrow> idb \<Rightarrow> idb id_result" where
  "ConsumeInviteTx i now d =
    (if affected (\<lambda>r. ai_ID r = i \<and> pending_invite now r) (id_invites d) \<noteq> 1 then Inl ErrInvalidInvite
     else Inr (d\<lparr>id_invites := update_where (\<lambda>r. ai_ID r = i \<and> pending_invite now r)
            (\<lambda>r. r\<lparr>ai_AcceptedAt := Some (trunc_sec now)\<rparr>) (id_invites d)\<rparr>))"

text \<open>The statement of \<open>LockAdminMutationTx\<close> writes back what the row holds.\<close>

definition LockAdminMutationTx :: "idb \<Rightarrow> idb" where
  "LockAdminMutationTx d = d"

definition active_admin :: "User \<Rightarrow> bool" where
  "active_admin u \<longleftrightarrow> u_InstanceRole u = InstanceRoleAdmin \<and> u_Status u = UserStatusActive"

definition CountActiveAdminsTx :: "idb \<Rightarrow> nat" where
  "CountActiveAdminsTx d = affected active_admin (id_users d)"

definition UpdateStatusTx :: "id \<Rightarrow> string \<Rightarrow> time \<Rightarrow> idb \<Rightarrow> idb id_result" where
  "UpdateStatusTx userID status now d =
    (if affected (\<lambda>u. u_ID u = userID) (id_users d) \<noteq> 1 then Inl ErrUserNotFound
     else let d = d\<lparr>id_users := update_where (\<lambda>u. u_ID u = userID)
              (\<lambda>u. u\<lparr>u_Status := status, u_UpdatedAt := trunc_sec now\<rparr>) (id_users d)\<rparr> in
       if status = UserStatusDisabled
       then Inr (RevokePendingInvitesTx userID now (d\<lparr>id_sessions := delete_where (\<lambda>s. se_OrganizerID s = userID) (id_sessions d)\<rparr>))
       else Inr d)"

definition UpdateRoleTx :: "id \<Rightarrow> string \<Rightarrow> time \<Rightarrow> idb \<Rightarrow> idb id_result" where
  "UpdateRoleTx userID role now d =
    (if affected (\<lambda>u. u_ID u = userID) (id_users d) \<noteq> 1 then Inl ErrUserNotFound
     else Inr (d\<lparr>id_users := update_where (\<lambda>u. u_ID u = userID)
            (\<lambda>u. u\<lparr>u_InstanceRole := role, u_UpdatedAt := trunc_sec now\<rparr>) (id_users d)\<rparr>))"

definition InsertAuditTx :: "id \<Rightarrow> id option \<Rightarrow> string \<Rightarrow> string \<Rightarrow> id \<Rightarrow> (string \<times> string) list \<Rightarrow> time \<Rightarrow> idb \<Rightarrow> idb id_result" where
  "InsertAuditTx aid actorID kind action targetID metadata now d =
    or_err (insert_audit \<lparr> ae_ID = aid, ae_ActorUserID = actorID, ae_ActorKind = kind, ae_Action = action,
      ae_TargetUserID = Some targetID, ae_EventID = None, ae_Metadata = metadata, ae_CreatedAt = trunc_sec now \<rparr> d)
      (IdInternal ''insert admin audit'')"

section \<open>The service\<close>

record admin_service =
  ua_cfg :: config
  ua_sendEmail :: "(id_mail \<Rightarrow> bool) option"
  ua_parse_address :: "string \<Rightarrow> string option" \<comment> \<open>the address of mail.ParseAddress\<close>
  ua_format_time :: "time \<Rightarrow> string" \<comment> \<open>Format(time.RFC3339)\<close>

definition tokenDigest :: "'x runtime_scheme \<Rightarrow> string \<Rightarrow> string" where
  "tokenDigest rt raw = hex_encode (rt_sha256 rt raw)"

definition generateToken :: "'x runtime_scheme \<Rightarrow> string option \<Rightarrow> (string \<times> string) id_result" where
  "generateToken rt rand = rbind (or_err rand (IdInternal ''generate token''))
     (\<lambda>b. let raw = hex_encode b in Inr (raw, tokenDigest rt raw))"

definition check_address :: "admin_service \<Rightarrow> string \<Rightarrow> unit id_result" where
  "check_address s email = guard (ua_parse_address s email = Some email \<and> length email \<le> 320) ErrInvalidEmail"

definition renderInviteEmail :: "admin_service \<Rightarrow> string \<Rightarrow> time \<Rightarrow> string \<times> string" where
  "renderInviteEmail s rawToken expiresAt =
    (let url = trim_right (CHR ''/'') (cfg_BaseURL (ua_cfg s)) @ ''/auth/accept-invite#token='' @ rawToken;
         trimmed = trim_space (cfg_InstanceName (ua_cfg s));
         instanceName = (if trimmed = [] \<or> trimmed = ''OpenRSVP'' then ''Owl Invites'' else trimmed);
         expires = ua_format_time s expiresAt; nl = [byte 10]; dq = [byte 34] in
     (''<p>You have been invited to manage events on '' @ escape_string instanceName @ ''.</p><p><a href='' @ dq @ escape_string url @ dq @
        ''>Accept invitation</a></p><p>This invitation expires at '' @ expires @ ''.</p>'',
      ''You have been invited to manage events on '' @ instanceName @ ''.'' @ nl @ nl @ ''Accept invitation:'' @ nl @ url @ nl @ nl @
        ''This invitation expires at '' @ expires @ ''.''))"

definition is_active_admin :: "User \<Rightarrow> bool" where
  "is_active_admin u \<longleftrightarrow> IsAdmin u \<and> u_Status u = UserStatusActive"

text \<open>The check of the acting administrator, in the request and again in the transaction.\<close>

definition admin_actor :: "User option \<Rightarrow> idb \<Rightarrow> User id_result" where
  "admin_actor actor d = (case actor of
      None \<Rightarrow> Inl ErrUserNotFound
    | Some a \<Rightarrow> if \<not> is_active_admin a then Inl ErrUserNotFound
        else (case FindOrganizerByID (u_ID a) d of
            None \<Rightarrow> Inl ErrUserNotFound
          | Some p \<Rightarrow> if is_active_admin p then Inr p else Inl ErrUserNotFound))"

definition email_subject_invite :: string where
  "email_subject_invite = ''You'' @ [byte 39] @ ''re invited to Owl Invites''"

definition email_subject_cohost :: string where
  "email_subject_cohost = ''You'' @ [byte 39] @ ''re invited to cohost on Owl Invites''"

definition email_subject_added :: string where
  "email_subject_added = ''You'' @ [byte 39] @ ''ve been added as an Owl Invites cohost''"

definition invite_user_tx ::
  "'x runtime_scheme \<Rightarrow> admin_service \<Rightarrow> (nat \<Rightarrow> time) \<Rightarrow> (nat \<Rightarrow> id) \<Rightarrow> string option \<Rightarrow> User option \<Rightarrow> string \<Rightarrow> idb \<Rightarrow>
   (idb \<times> AccountInvite \<times> string) id_result" where
  "invite_user_tx rt s clk uuid rand actor email d =
    rbind (admin_actor actor d) (\<lambda>actor.
    rbind (case FindOrganizerByEmail rt email d of
        None \<Rightarrow> createUser rt (uuid 0) (clk 0) email [] (cfg_DefaultTimezone (ua_cfg s)) InstanceRoleUser UserStatusInvited (Some (u_ID actor)) d
      | Some t \<Rightarrow> if u_Status t \<noteq> UserStatusInvited then Inl ErrUserExists else Inr (d, t)) (\<lambda>(d, target).
    let now = clk 1; d = RevokePendingInvitesTx (u_ID target) now d in
    rbind (generateToken rt rand) (\<lambda>(rawToken, tokenHash).
    rbind (CreateInviteTx (uuid 1) target (u_ID actor) tokenHash None None (now + cfg_AccountInviteExpiry (ua_cfg s)) now d) (\<lambda>(d, invite).
    rbind (InsertAuditTx (uuid 2) (Some (u_ID actor)) ''user'' ''account_invite_issued'' (u_ID target)
             [(''email'', u_NormalizedEmail target)] now d) (\<lambda>d.
    Inr (d, invite, rawToken))))))"

text \<open>The result: the database, the mail handed over, and the invite or the error.\<close>

definition InviteUser ::
  "'x runtime_scheme \<Rightarrow> admin_service \<Rightarrow> (nat \<Rightarrow> time) \<Rightarrow> (nat \<Rightarrow> id) \<Rightarrow> string option \<Rightarrow> User option \<Rightarrow> string \<Rightarrow> idb \<Rightarrow>
   idb \<times> id_mail list \<times> AccountInvite id_result" where
  "InviteUser rt s clk uuid rand actor rawEmail d =
    (if \<not> (case actor of None \<Rightarrow> False | Some a \<Rightarrow> is_active_admin a) then (d, [], Inl ErrUserNotFound)
     else case ua_sendEmail s of
       None \<Rightarrow> (d, [], Inl ErrEmailUnavailable)
     | Some send \<Rightarrow>
        let email = to_lower rt (trim_space rawEmail) in
        case rbind (check_address s email) (\<lambda>_. invite_user_tx rt s clk uuid rand actor email d) of
          Inl e \<Rightarrow> (d, [], Inl e)
        | Inr (d', invite, rawToken) \<Rightarrow>
           let (html, plain) = renderInviteEmail s rawToken (ai_ExpiresAt invite);
               m = \<lparr> im_to = ai_Email invite, im_subject = email_subject_invite, im_html = html, im_plain = plain \<rparr> in
           (d', [m], if send m then Inr invite else Inl (IdInternal ''deliver account invite'')))"

text \<open>
  The transaction of \<open>InviteEventCohost\<close>: the mail to send, and whether an account invite is
  pending.
\<close>

definition invite_cohost_tx ::
  "'x runtime_scheme \<Rightarrow> admin_service \<Rightarrow> (nat \<Rightarrow> time) \<Rightarrow> (nat \<Rightarrow> id) \<Rightarrow> string option \<Rightarrow> id \<Rightarrow> id \<Rightarrow> string \<Rightarrow> idb \<Rightarrow>
   (idb \<times> id_mail \<times> bool) id_result" where
  "invite_cohost_tx rt s clk uuid rand actorID eventID email d =
    rbind (LockEventTx eventID d) (\<lambda>d.
    rbind (or_err (FindOrganizerByID actorID d) ErrUserNotFound) (\<lambda>actor.
    rbind (guard (u_Status actor = UserStatusActive) ErrUserNotFound) (\<lambda>_.
    rbind (guard (IsEventOwnerTx eventID (u_ID actor) d) ErrUserNotFound) (\<lambda>_.
    let found = FindOrganizerByEmail rt email d;
        d = (case found of Some t \<Rightarrow> if u_Status t = UserStatusInvited then RevokePendingInvitesTx (u_ID t) (clk 0) d else d | None \<Rightarrow> d);
        now = clk 1 in
    rbind (guard (int (CountCohostCommitmentsTx eventID now d) < cfg_MaxCoHostsPerEvent (ua_cfg s)) ErrCohostLimit) (\<lambda>_.
    rbind (case found of
        Some t \<Rightarrow> Inr (d, t)
      | None \<Rightarrow> createUser rt (uuid 0) (clk 2) email [] (cfg_DefaultTimezone (ua_cfg s)) InstanceRoleUser UserStatusInvited (Some (u_ID actor)) d)
      (\<lambda>(d, target).
    if u_Status target = UserStatusActive then
      rbind (guard (\<not> HasEventMembershipTx eventID (u_ID target) d) ErrUserExists) (\<lambda>_.
      rbind (CreateCohostMembershipTx (uuid 1) eventID (u_ID target) (u_ID actor) now d) (\<lambda>d.
      Inr (d, \<lparr> im_to = u_Email target, im_subject = email_subject_added,
                im_html = ''<p>You have been added as a cohost on Owl Invites.</p>'',
                im_plain = ''You have been added as a cohost on Owl Invites. Sign in to view the event.'' \<rparr>, False)))
    else
      rbind (guard (u_Status target = UserStatusInvited) ErrUserExists) (\<lambda>_.
      rbind (generateToken rt rand) (\<lambda>(rawToken, tokenHash).
      rbind (CreateInviteTx (uuid 1) target (u_ID actor) tokenHash (Some eventID) (Some ''cohost'')
               (now + cfg_AccountInviteExpiry (ua_cfg s)) now d) (\<lambda>(d, invite).
      let (html, plain) = renderInviteEmail s rawToken (ai_ExpiresAt invite) in
      Inr (d, \<lparr> im_to = ai_Email invite, im_subject = email_subject_cohost, im_html = html, im_plain = plain \<rparr>, True))))))))))"

definition InviteEventCohost ::
  "'x runtime_scheme \<Rightarrow> admin_service \<Rightarrow> (nat \<Rightarrow> time) \<Rightarrow> (nat \<Rightarrow> id) \<Rightarrow> string option \<Rightarrow> User option \<Rightarrow> id \<Rightarrow> string \<Rightarrow> idb \<Rightarrow>
   idb \<times> id_mail list \<times> bool id_result" where
  "InviteEventCohost rt s clk uuid rand actor eventID rawEmail d =
    (case (actor, ua_sendEmail s) of
       (Some a, Some send) \<Rightarrow>
         if u_Status a \<noteq> UserStatusActive then (d, [], Inl ErrUserNotFound)
         else let email = to_lower rt (trim_space rawEmail) in
           (case rbind (check_address s email) (\<lambda>_. invite_cohost_tx rt s clk uuid rand (u_ID a) eventID email d) of
              Inl e \<Rightarrow> (d, [], Inl e)
            | Inr (d', m, pending) \<Rightarrow>
                (d', [m], if send m then Inr pending else Inl (IdInternal ''deliver cohost notification'')))
     | _ \<Rightarrow> (d, [], Inl ErrUserNotFound))"

definition AcceptInvite ::
  "'x runtime_scheme \<Rightarrow> admin_service \<Rightarrow> (nat \<Rightarrow> time) \<Rightarrow> (nat \<Rightarrow> id) \<Rightarrow> string option \<Rightarrow> string \<Rightarrow> idb \<Rightarrow>
   (idb \<times> AuthResponse) id_result" where
  "AcceptInvite rt s clk uuid rand rawInput d =
    (let rawToken = trim_space rawInput; now = clk 0; invalid = (\<lambda>r. case r of Inl _ \<Rightarrow> Inl ErrInvalidInvite | Inr x \<Rightarrow> Inr x) in
     rbind (guard (rawToken \<noteq> []) ErrInvalidInvite) (\<lambda>_.
     rbind (or_err (FindLiveInviteByHashTx (tokenDigest rt rawToken) now d) ErrInvalidInvite) (\<lambda>invite.
     rbind (ConsumeInviteTx (ai_ID invite) now d) (\<lambda>d.
     rbind (case ActivateInvitedUserTx (ai_TargetUserID invite) now d of Inl _ \<Rightarrow> Inl ErrInvalidInvite | Inr x \<Rightarrow> Inr x) (\<lambda>(d, user).
     rbind (case (ai_EventID invite, ai_EventRole invite) of
         (Some e, Some role) \<Rightarrow>
            if role = ''cohost''
            then invalid (rbind (LockEventTx e d) (CreateCohostMembershipTx (uuid 0) e (u_ID user) (ai_InvitedByUserID invite) now))
            else Inr d
       | _ \<Rightarrow> Inr d) (\<lambda>d.
     rbind (generateToken rt rand) (\<lambda>(sessionToken, sessionHash).
     rbind (createSession (uuid 1) (clk 1) sessionHash (u_ID user) (now + cfg_SessionExpiry (ua_cfg s)) d) (\<lambda>d.
     rbind (TouchLastLoginTx (u_ID user) now d) (\<lambda>d.
     Inr (d, \<lparr> ar_Token = sessionToken, ar_Organizer = user\<lparr>u_LastLoginAt := Some now\<rparr> \<rparr>))))))))))"

definition RevokeInvite :: "(nat \<Rightarrow> time) \<Rightarrow> (nat \<Rightarrow> id) \<Rightarrow> User option \<Rightarrow> id \<Rightarrow> idb \<Rightarrow> idb id_result" where
  "RevokeInvite clk uuid actor inviteID d =
    rbind (admin_actor actor d) (\<lambda>actor.
    rbind (RevokeInviteByIDTx inviteID (clk 0) d) (\<lambda>(d, invite).
    InsertAuditTx (uuid 0) (Some (u_ID actor)) ''user'' ''account_invite_revoked'' (ai_TargetUserID invite)
      [(''inviteId'', ai_ID invite)] (clk 0) d))"

record userChange =
  uc_target :: User
  uc_activeAdmins :: nat
  uc_now :: time

definition changeUser :: "time \<Rightarrow> User option \<Rightarrow> id \<Rightarrow> (userChange \<Rightarrow> idb \<Rightarrow> idb id_result) \<Rightarrow> idb \<Rightarrow> idb id_result" where
  "changeUser now actor userID apply d =
    (let d = LockAdminMutationTx d in
     rbind (admin_actor actor d) (\<lambda>_.
     rbind (or_err (FindOrganizerByID userID d) ErrUserNotFound) (\<lambda>target.
     apply \<lparr> uc_target = target, uc_activeAdmins = CountActiveAdminsTx d, uc_now = now \<rparr> d)))"

definition SetUserStatus :: "time \<Rightarrow> id \<Rightarrow> User option \<Rightarrow> id \<Rightarrow> string \<Rightarrow> idb \<Rightarrow> idb id_result" where
  "SetUserStatus now aid actor userID status d =
    (if status \<noteq> UserStatusActive \<and> status \<noteq> UserStatusDisabled then Inl ErrInvalidTransition
     else changeUser now actor userID (\<lambda>ch d.
       if u_Status (uc_target ch) = status then Inr d
       else if u_Status (uc_target ch) = UserStatusInvited \<and> status = UserStatusActive then Inl ErrInvalidTransition
       else if IsAdmin (uc_target ch) \<and> u_Status (uc_target ch) = UserStatusActive \<and> status = UserStatusDisabled \<and> uc_activeAdmins ch \<le> 1
       then Inl ErrLastAdmin
       else rbind (UpdateStatusTx userID status (uc_now ch) d) (\<lambda>d.
         InsertAuditTx aid (map_option u_ID actor) ''user'' (if status = UserStatusDisabled then ''user_disabled'' else ''user_enabled'') userID
           [(''from'', u_Status (uc_target ch)), (''to'', status)] (uc_now ch) d)) d)"

definition SetUserRole :: "time \<Rightarrow> id \<Rightarrow> User option \<Rightarrow> id \<Rightarrow> string \<Rightarrow> idb \<Rightarrow> idb id_result" where
  "SetUserRole now aid actor userID role d =
    (if role \<noteq> InstanceRoleAdmin \<and> role \<noteq> InstanceRoleUser then Inl ErrInvalidTransition
     else changeUser now actor userID (\<lambda>ch d.
       if u_InstanceRole (uc_target ch) = role then Inr d
       else if IsAdmin (uc_target ch) \<and> u_Status (uc_target ch) = UserStatusActive \<and> role \<noteq> InstanceRoleAdmin \<and> uc_activeAdmins ch \<le> 1
       then Inl ErrLastAdmin
       else rbind (UpdateRoleTx userID role (uc_now ch) d) (\<lambda>d.
         InsertAuditTx aid (map_option u_ID actor) ''user'' ''instance_role_changed'' userID
           [(''from'', u_InstanceRole (uc_target ch)), (''to'', role)] (uc_now ch) d)) d)"

text \<open>\<open>ListAudit\<close>, newest first.\<close>

definition audit_newer :: "AuditEntry \<Rightarrow> AuditEntry \<Rightarrow> bool" where
  "audit_newer a b \<longleftrightarrow> ae_CreatedAt b < ae_CreatedAt a \<or> (ae_CreatedAt a = ae_CreatedAt b \<and> bytes_less (ae_ID b) (ae_ID a))"

definition ListAudit :: "int \<Rightarrow> idb \<Rightarrow> AuditEntry list" where
  "ListAudit limit d = take (nat (if limit \<le> 0 \<or> 200 < limit then 50 else limit)) (order_by audit_newer (id_audit d))"

definition PromoteAdmin :: "'x runtime_scheme \<Rightarrow> time \<Rightarrow> id \<Rightarrow> string \<Rightarrow> idb \<Rightarrow> (idb \<times> User) id_result" where
  "PromoteAdmin rt now aid rawEmail d =
    (let email = to_lower rt (trim_space rawEmail) in
     rbind (guard (email \<noteq> []) ErrUserNotFound) (\<lambda>_.
     rbind (or_err (FindOrganizerByEmail rt email d) ErrUserNotFound) (\<lambda>before.
     rbind (PromoteBootstrapAdminTx (u_ID before) (u_Name before) (u_Timezone before) now d) (\<lambda>(d, user).
     rbind (InsertAuditTx aid None ''cli'' ''emergency_role_recovery'' (u_ID user)
              [(''fromRole'', u_InstanceRole before), (''fromStatus'', u_Status before), (''toRole'', InstanceRoleAdmin)] now d) (\<lambda>d.
     Inr (d, user))))))"

end
