(* ===== verification/Account_Safety.thy ===== *)
theory Account_Safety
  imports User_Admin
begin

text \<open>
  Accounts over time. \<open>account_step\<close> has one rule for each operation on the identity tables; its
  label says which magic link it issues, or which user's status or role it sets. The contracts of
  \<open>Owl_Prelude\<close> are interpreted for it: magic links and account invites are redeemed once, a
  disabled user stays locked out until an administrator acts, and there is always an administrator.
\<close>

section \<open>Steps\<close>

datatype account_event = Issued id | Changed id | OtherEvent

inductive account_step :: "runtime \<Rightarrow> account_event \<Rightarrow> idb \<Rightarrow> idb \<Rightarrow> bool" for rt :: runtime where
  request: "RequestMagicLink rt s clk uuid rand email d = (d', out) \<Longrightarrow> account_step rt (Issued (uuid 1)) d d'"
| login: "verify_commit rt s clk uuid rand ml d = Inr (d', resp) \<Longrightarrow> account_step rt OtherEvent d d'"
| validate: "ValidateSession rt now raw d = (d', res) \<Longrightarrow> account_step rt OtherEvent d d'"
| logout: "Logout rt raw d = (d', ores) \<Longrightarrow> account_step rt OtherEvent d d'"
| profile: "account_step rt OtherEvent d (UpdateOrganizer now u d)"
| clean_sessions: "account_step rt OtherEvent d (DeleteExpiredSessions now d)"
| clean_links: "account_step rt OtherEvent d (DeleteExpiredMagicLinks now d)"
| invite: "InviteUser rt ad clk uuid rand actor email d = (d', iout) \<Longrightarrow> account_step rt OtherEvent d d'"
| cohost: "InviteEventCohost rt ad clk uuid rand actor e email d = (d', cout) \<Longrightarrow> account_step rt OtherEvent d d'"
| accept: "AcceptInvite rt ad clk uuid rand raw d = Inr (d', resp) \<Longrightarrow> account_step rt OtherEvent d d'"
| revoke: "RevokeInvite clk uuid actor i d = Inr d' \<Longrightarrow> account_step rt OtherEvent d d'"
| status: "SetUserStatus now aid actor i st d = Inr d' \<Longrightarrow> account_step rt (Changed i) d d'"
| role: "SetUserRole now aid actor i r d = Inr d' \<Longrightarrow> account_step rt (Changed i) d d'"
| promote: "PromoteAdmin rt now aid email d = Inr (d', u) \<Longrightarrow> account_step rt (Changed (u_ID u)) d d'"

section \<open>Effects on the tables\<close>

text \<open>Which tables an operation leaves alone.\<close>

lemma insert_effects:
  "insert_user u d = Some d' \<Longrightarrow> d' = d\<lparr>id_users := add_row u (id_users d)\<rparr> \<and> u_ID u \<notin> u_ID ` set (id_users d)"
  "insert_magic_link m d = Some d' \<Longrightarrow> d' = d\<lparr>id_magic_links := add_row m (id_magic_links d)\<rparr> \<and> ml_ID m \<notin> ml_ID ` set (id_magic_links d)"
  "insert_id_session s d = Some d' \<Longrightarrow> d' = d\<lparr>id_sessions := add_row s (id_sessions d)\<rparr> \<and> (\<forall>x \<in> set (id_sessions d). se_TokenHash x \<noteq> se_TokenHash s)"
  "insert_invite r d = Some d' \<Longrightarrow> d' = d\<lparr>id_invites := add_row r (id_invites d)\<rparr> \<and>
     (\<forall>x \<in> set (id_invites d). ai_ID x \<noteq> ai_ID r \<and> ai_token_hash x \<noteq> ai_token_hash r)"
  "insert_membership b d = Some d' \<Longrightarrow> d' = d\<lparr>id_memberships := add_row b (id_memberships d)\<rparr>"
  "insert_audit a d = Some d' \<Longrightarrow> d' = d\<lparr>id_audit := add_row a (id_audit d)\<rparr>"
  by (auto simp: id_insert_defs user_ids_def list_ex_iff split: if_splits option.splits)

lemma createUser_effect:
  assumes "createUser rt uid now email name tz role st inviter d = Inr (d', u)"
  shows "d' = d\<lparr>id_users := add_row (new_user rt uid now email name tz role st inviter) (id_users d)\<rparr>" "uid \<notin> u_ID ` set (id_users d)"
    "u_ID u = uid"
  using assms by (auto simp: createUser_def new_user_def Let_def FindOrganizerByID_def dest!: insert_effects(1) select_row_SomeD)

lemma sub_effects:
  "createSession sid now h o_id ex d = Inr d' \<Longrightarrow> \<exists>s. d' = d\<lparr>id_sessions := add_row s (id_sessions d)\<rparr> \<and> se_TokenHash s = h \<and>
     se_OrganizerID s = o_id \<and> se_ExpiresAt s = trunc_sec ex \<and> (\<forall>x \<in> set (id_sessions d). se_TokenHash x \<noteq> h)"
  "CreateCohostMembershipTx mid e u g now d = Inr d' \<Longrightarrow> \<exists>m. d' = d\<lparr>id_memberships := add_row m (id_memberships d)\<rparr> \<and>
     mb_event_id m = e \<and> mb_role m = ''cohost''"
  "InsertAuditTx aid actor kind act tgt meta now d = Inr d' \<Longrightarrow> \<exists>a. d' = d\<lparr>id_audit := add_row a (id_audit d)\<rparr>"
  by (fastforce simp: createSession_def CreateCohostMembershipTx_def InsertAuditTx_def dest: insert_effects(3,5,6))+

lemma createInvite_effect:
  assumes "CreateInviteTx iid t a h e r ex now d = Inr (d', iv)"
  shows "\<exists>x. d' = d\<lparr>id_invites := add_row x (id_invites d)\<rparr> \<and> ai_EventID x = e \<and> ai_AcceptedAt x = None \<and>
    (\<forall>y \<in> set (id_invites d). ai_ID y \<noteq> ai_ID x \<and> ai_token_hash y \<noteq> ai_token_hash x)"
proof -
  obtain x where "insert_invite x d = Some d'" "ai_EventID x = e" "ai_AcceptedAt x = None"
    using assms by (auto simp: CreateInviteTx_def Let_def AccountInvite.defs invite_row.defs)
  then show ?thesis using insert_effects(4) by blast
qed

section \<open>How users evolve\<close>

text \<open>
  The users after an operation that sets no one's status or role: every user keeps id and role, and
  its status, unless an invited user became active; new users are ordinary users.
\<close>

definition carries :: "User \<Rightarrow> User \<Rightarrow> bool" where
  "carries u u' \<longleftrightarrow> u_ID u' = u_ID u \<and> u_InstanceRole u' = u_InstanceRole u \<and>
    (u_Status u' = u_Status u \<or> (u_Status u = UserStatusInvited \<and> u_Status u' = UserStatusActive))"

definition users_evolve :: "idb \<Rightarrow> idb \<Rightarrow> bool" where
  "users_evolve d d' \<longleftrightarrow> (\<forall>u \<in> set (id_users d). \<exists>u' \<in> set (id_users d'). carries u u') \<and>
    (\<forall>u' \<in> set (id_users d'). (\<exists>u \<in> set (id_users d). carries u u') \<or>
       (u_ID u' \<notin> u_ID ` set (id_users d) \<and> u_InstanceRole u' = InstanceRoleUser)) \<and>
    (distinct (map u_ID (id_users d)) \<longrightarrow> distinct (map u_ID (id_users d')))"

lemma carries_refl [simp, intro]: "carries u u"
  by (simp add: carries_def)

lemma carries_trans: "carries u v \<Longrightarrow> carries v w \<Longrightarrow> carries u w"
  by (auto simp: carries_def)

lemma users_same: "id_users d' = id_users d \<Longrightarrow> users_evolve d d'"
  by (auto simp: users_evolve_def)

lemma users_trans:
  assumes "users_evolve d d1" "users_evolve d1 d2"
  shows "users_evolve d d2"
proof -
  have ids: "u_ID ` set (id_users d) \<subseteq> u_ID ` set (id_users d1)"
  proof (rule image_subsetI)
    fix u assume "u \<in> set (id_users d)"
    then obtain u' where "u' \<in> set (id_users d1)" "carries u u'" using assms(1) by (auto simp: users_evolve_def)
    then show "u_ID u \<in> u_ID ` set (id_users d1)" by (auto simp: carries_def image_iff intro: bexI [of _ u'])
  qed
  have "(\<exists>u \<in> set (id_users d). carries u w) \<or> (u_ID w \<notin> u_ID ` set (id_users d) \<and> u_InstanceRole w = InstanceRoleUser)"
    if w: "w \<in> set (id_users d2)" for w
  proof (cases "\<exists>v \<in> set (id_users d1). carries v w")
    case True
    then obtain v where v: "v \<in> set (id_users d1)" "carries v w" by blast
    then have "u_ID w = u_ID v" "u_InstanceRole w = u_InstanceRole v" by (simp_all add: carries_def)
    moreover have "(\<exists>u \<in> set (id_users d). carries u v) \<or> (u_ID v \<notin> u_ID ` set (id_users d) \<and> u_InstanceRole v = InstanceRoleUser)"
      using assms(1) v(1) by (simp add: users_evolve_def)
    ultimately show ?thesis using carries_trans [OF _ v(2)] by auto
  next
    case False
    then have "u_ID w \<notin> u_ID ` set (id_users d1) \<and> u_InstanceRole w = InstanceRoleUser"
      using assms(2) w by (simp add: users_evolve_def) blast
    then show ?thesis using ids by blast
  qed
  moreover have "\<forall>u \<in> set (id_users d). \<exists>w \<in> set (id_users d2). carries u w"
    using assms carries_trans unfolding users_evolve_def by meson
  ultimately show ?thesis using assms by (simp add: users_evolve_def)
qed

lemma users_add:
  assumes "id_users d' = add_row u (id_users d)" "u_ID u \<notin> u_ID ` set (id_users d)" "u_InstanceRole u = InstanceRoleUser"
  shows "users_evolve d d'"
  using assms by (force simp: users_evolve_def)

lemma users_update:
  assumes "\<And>u. p u \<Longrightarrow> carries u (f u)"
  shows "users_evolve d (d\<lparr>id_users := update_where p f (id_users d)\<rparr>)"
proof -
  have "map u_ID (update_where p f (id_users d)) = map u_ID (id_users d)"
    by (rule map_update_where) (use assms in \<open>simp add: carries_def\<close>)
  moreover have "\<exists>u' \<in> set (update_where p f (id_users d)). carries u u'" if "u \<in> set (id_users d)" for u
    using that assms [of u] by (cases "p u") (auto simp: set_update_where)
  moreover have "\<exists>u \<in> set (id_users d). carries u u'" if "u' \<in> set (update_where p f (id_users d))" for u'
    using that assms by (auto simp: set_update_where)
  ultimately show ?thesis by (simp add: users_evolve_def)
qed

lemma create_evolves:
  "createUser rt uid now email name tz InstanceRoleUser st inviter d = Inr (d', u) \<Longrightarrow> users_evolve d d'"
  using createUser_effect [of rt uid now email name tz InstanceRoleUser st inviter d d' u]
  by (intro users_add) (auto simp: new_user_def Let_def)

lemma quiet_ops [simp]:
  "id_users (RevokePendingInvitesTx i now d) = id_users d" "id_users (DeleteSession i d) = id_users d"
  "id_magic_links (RevokePendingInvitesTx i now d) = id_magic_links d" "id_magic_links (DeleteSession i d) = id_magic_links d"
  "id_invites (DeleteSession i d) = id_invites d"
  by (simp_all add: RevokePendingInvitesTx_def DeleteSession_def)

lemma touch_evolves: "TouchLastLoginTx i at d = Inr d' \<Longrightarrow> users_evolve d d'"
  by (auto simp: TouchLastLoginTx_def carries_def intro: users_update split: if_splits)

lemma activate_evolves: "ActivateInvitedUserTx i at d = Inr (d', u) \<Longrightarrow> users_evolve d d'"
  by (auto simp: ActivateInvitedUserTx_def Let_def carries_def invited_user_def intro: users_update split: if_splits)

lemma users_unchanged:
  "createSession sid now h o_id ex d = Inr d' \<Longrightarrow> id_users d' = id_users d"
  "CreateCohostMembershipTx mid e u g now d = Inr d' \<Longrightarrow> id_users d' = id_users d"
  "InsertAuditTx aid actor kind act tgt meta now d = Inr d' \<Longrightarrow> id_users d' = id_users d"
  "CreateInviteTx iid t a h e2 r ex now d = Inr (d', iv) \<Longrightarrow> id_users d' = id_users d"
  "markMagicLinkUsed i now d = Inr d' \<Longrightarrow> id_users d' = id_users d"
  "ConsumeInviteTx i now d = Inr d' \<Longrightarrow> id_users d' = id_users d"
  "CreateMagicLink mid now h o_id ex d = Inr d' \<Longrightarrow> id_users d' = id_users d"
  "LockEventTx e d = Inr d' \<Longrightarrow> id_users d' = id_users d"
  "RevokeInviteByIDTx i now d = Inr (d', iv) \<Longrightarrow> id_users d' = id_users d"
  by (auto simp: markMagicLinkUsed_def ConsumeInviteTx_def CreateMagicLink_def LockEventTx_def RevokeInviteByIDTx_def
      dest!: sub_effects createInvite_effect insert_effects(2) split: if_splits)

lemmas users_facts = users_unchanged [THEN users_same] touch_evolves activate_evolves create_evolves

lemma users_refl [simp, intro]: "users_evolve d d"
  by (simp add: users_same)

lemma users_revoke_pending [simp]: "users_evolve (RevokePendingInvitesTx i now d) d' \<longleftrightarrow> users_evolve d d'"
  by (simp add: users_evolve_def)

text \<open>What a successful transaction has passed through.\<close>

lemma request_E:
  assumes "RequestMagicLink rt s clk uuid rand email d = (d', out)"
  obtains "d' = d"
  | d1 u where "FindOrganizerByEmail rt email d = Some u \<and> d1 = d \<or> CreateOrganizer rt (uuid 0) (clk 0) email d = Inr (d1, u)" "d' = d1"
  | d1 u bytes where "FindOrganizerByEmail rt email d = Some u \<and> d1 = d \<or> CreateOrganizer rt (uuid 0) (clk 0) email d = Inr (d1, u)"
      "rand = Some bytes" "u_Status u = UserStatusActive"
      "CreateMagicLink (uuid 1) (clk 2) (auth_hashToken rt (hex_encode bytes)) (u_ID u) (clk 1 + cfg_MagicLinkExpiry (as_cfg s)) d1 = Inr d'"
proof -
  let ?found = "case FindOrganizerByEmail rt email d of Some u \<Rightarrow> Inr (d, u) | None \<Rightarrow> CreateOrganizer rt (uuid 0) (clk 0) email d"
  show thesis
  proof (cases "\<not> rt_mail_ok rt email \<or> FindOrganizerByEmail rt email d = None \<and> \<not> cfg_AllowSignups (as_cfg s) \<or> isl ?found")
    case True
    then have "d' = d" using assms by (auto simp: RequestMagicLink_def split: option.splits sum.splits if_splits)
    then show thesis by (rule that(1))
  next
    case False
    then obtain d1 u where f: "?found = Inr (d1, u)" by (cases ?found) auto
    then have g: "FindOrganizerByEmail rt email d = Some u \<and> d1 = d \<or> CreateOrganizer rt (uuid 0) (clk 0) email d = Inr (d1, u)"
      by (auto split: option.splits)
    have "d' = d1 \<or> (\<exists>bytes. rand = Some bytes \<and> u_Status u = UserStatusActive \<and> CreateMagicLink (uuid 1) (clk 2)
        (auth_hashToken rt (hex_encode bytes)) (u_ID u) (clk 1 + cfg_MagicLinkExpiry (as_cfg s)) d1 = Inr d')"
      using assms False unfolding RequestMagicLink_def f by (auto simp: Let_def split: if_splits option.splits sum.splits)
    then show thesis using that(2,3) g by blast
  qed
qed

lemma login_E:
  assumes "verify_commit rt s clk uuid rand ml d = Inr (d', resp)"
  obtains bytes organizer d1 d2 where "rand = Some bytes" "FindOrganizerByID (ml_OrganizerID ml) d = Some organizer"
    "u_Status organizer = UserStatusActive" "markMagicLinkUsed (ml_ID ml) (clk 2) d = Inr d1"
    "createSession (uuid 0) (clk 3) (auth_hashToken rt (hex_encode bytes)) (ml_OrganizerID ml) (clk 1 + cfg_SessionExpiry (as_cfg s)) d1 = Inr d2"
    "TouchLastLoginTx (ml_OrganizerID ml) (clk 2) d2 = Inr d'"
    "resp = \<lparr> ar_Token = hex_encode bytes, ar_Organizer = organizer\<lparr>u_LastLoginAt := Some (clk 2)\<rparr> \<rparr>"
  using assms by (auto simp: verify_commit_def Let_def)

lemma invite_tx_E:
  assumes "invite_user_tx rt s clk uuid rand actor email d = Inr (d', out)"
  obtains a d1 target h d2 iv where "admin_actor actor d = Inr a"
    "d1 = d \<or> createUser rt (uuid 0) (clk 0) email [] (cfg_DefaultTimezone (ua_cfg s)) InstanceRoleUser UserStatusInvited (Some (u_ID a)) d = Inr (d1, target)"
    "CreateInviteTx (uuid 1) target (u_ID a) h None None (clk 1 + cfg_AccountInviteExpiry (ua_cfg s)) (clk 1)
       (RevokePendingInvitesTx (u_ID target) (clk 1) d1) = Inr (d2, iv)"
    "InsertAuditTx (uuid 2) (Some (u_ID a)) ''user'' ''account_invite_issued'' (u_ID target) [(''email'', u_NormalizedEmail target)] (clk 1) d2 = Inr d'"
proof -
  obtain a where a: "admin_actor actor d = Inr a" using assms by (auto simp: invite_user_tx_def)
  let ?found = "case FindOrganizerByEmail rt email d of
        None \<Rightarrow> createUser rt (uuid 0) (clk 0) email [] (cfg_DefaultTimezone (ua_cfg s)) InstanceRoleUser UserStatusInvited (Some (u_ID a)) d
      | Some t \<Rightarrow> if u_Status t \<noteq> UserStatusInvited then Inl ErrUserExists else Inr (d, t)"
  obtain d1 target where f: "?found = Inr (d1, target)" using assms by (auto simp: invite_user_tx_def a)
  then have g: "d1 = d \<or> createUser rt (uuid 0) (clk 0) email [] (cfg_DefaultTimezone (ua_cfg s)) InstanceRoleUser UserStatusInvited (Some (u_ID a)) d = Inr (d1, target)"
    by (auto split: option.splits if_splits)
  show thesis using assms unfolding invite_user_tx_def a rbind.simps f by (auto simp: Let_def intro: that [OF a g])
qed

lemma accept_E:
  assumes "AcceptInvite rt s clk uuid rand raw d = Inr (d', resp)"
  obtains iv d1 d2 user d3 h d4 where "FindLiveInviteByHashTx (tokenDigest rt (trim_space raw)) (clk 0) d = Some iv"
    "ConsumeInviteTx (ai_ID iv) (clk 0) d = Inr d1" "ActivateInvitedUserTx (ai_TargetUserID iv) (clk 0) d1 = Inr (d2, user)"
    "d3 = d2 \<or> (\<exists>e. ai_EventID iv = Some e \<and> ai_EventRole iv = Some ''cohost'' \<and>
       CreateCohostMembershipTx (uuid 0) e (u_ID user) (ai_InvitedByUserID iv) (clk 0) d2 = Inr d3)"
    "createSession (uuid 1) (clk 1) h (u_ID user) (clk 0 + cfg_SessionExpiry (ua_cfg s)) d3 = Inr d4"
    "TouchLastLoginTx (u_ID user) (clk 0) d4 = Inr d'"
proof -
  obtain iv d1 where iv: "FindLiveInviteByHashTx (tokenDigest rt (trim_space raw)) (clk 0) d = Some iv"
    "ConsumeInviteTx (ai_ID iv) (clk 0) d = Inr d1" using assms by (auto simp: AcceptInvite_def Let_def)
  obtain d2 user where u: "ActivateInvitedUserTx (ai_TargetUserID iv) (clk 0) d1 = Inr (d2, user)"
    using assms by (auto simp: AcceptInvite_def Let_def iv split: sum.splits)
  have "\<exists>d3. (d3 = d2 \<or> (\<exists>e. ai_EventID iv = Some e \<and> ai_EventRole iv = Some ''cohost'' \<and>
       CreateCohostMembershipTx (uuid 0) e (u_ID user) (ai_InvitedByUserID iv) (clk 0) d2 = Inr d3)) \<and>
     (\<exists>h d4. createSession (uuid 1) (clk 1) h (u_ID user) (clk 0 + cfg_SessionExpiry (ua_cfg s)) d3 = Inr d4 \<and>
        TouchLastLoginTx (u_ID user) (clk 0) d4 = Inr d')"
    using assms unfolding AcceptInvite_def Let_def
    by (cases "ai_EventID iv"; cases "ai_EventRole iv")
      (auto simp: iv u LockEventTx_def generateToken_def Let_def split: sum.splits if_splits)
  then show thesis using that iv u by blast
qed

lemma request_users: "RequestMagicLink rt s clk uuid rand email d = (d', out) \<Longrightarrow> users_evolve d d'"
  by (erule request_E) (auto simp: CreateOrganizer_def intro: users_facts users_trans [OF create_evolves])

lemma login_users: "verify_commit rt s clk uuid rand ml d = Inr (d', resp) \<Longrightarrow> users_evolve d d'"
  by (erule login_E, rule users_trans [OF users_facts(5) users_trans [OF users_facts(1) touch_evolves]], assumption+)

lemma invite_users: "InviteUser rt s clk uuid rand actor email d = (d', out) \<Longrightarrow> users_evolve d d'"
proof -
  have "users_evolve d d2" if "invite_user_tx rt s clk uuid rand actor em d = Inr (d2, x)" for em d2 x
    using that
  proof (rule invite_tx_E)
    fix a d1 target h d3 iv
    assume *: "d1 = d \<or> createUser rt (uuid 0) (clk 0) em [] (cfg_DefaultTimezone (ua_cfg s)) InstanceRoleUser UserStatusInvited (Some (u_ID a)) d = Inr (d1, target)"
      "CreateInviteTx (uuid 1) target (u_ID a) h None None (clk 1 + cfg_AccountInviteExpiry (ua_cfg s)) (clk 1)
       (RevokePendingInvitesTx (u_ID target) (clk 1) d1) = Inr (d3, iv)"
      "InsertAuditTx (uuid 2) (Some (u_ID a)) ''user'' ''account_invite_issued'' (u_ID target) [(''email'', u_NormalizedEmail target)] (clk 1) d3 = Inr d2"
    have "users_evolve d d1" using *(1) by (auto intro: users_facts)
    moreover have "users_evolve d1 d3" using users_facts(4) [OF *(2)] by simp
    moreover have "users_evolve d3 d2" by (rule users_facts(3) [OF *(3)])
    ultimately show ?thesis by (blast intro: users_trans)
  qed
  then show "InviteUser rt s clk uuid rand actor email d = (d', out) \<Longrightarrow> users_evolve d d'"
    by (auto simp: InviteUser_def Let_def split: if_splits option.splits sum.splits prod.splits)
qed

lemma accept_users: "AcceptInvite rt s clk uuid rand raw d = Inr (d', resp) \<Longrightarrow> users_evolve d d'"
proof (erule accept_E)
  fix iv d1 d2 user d3 h d4
  assume *: "ConsumeInviteTx (ai_ID iv) (clk 0) d = Inr d1" "ActivateInvitedUserTx (ai_TargetUserID iv) (clk 0) d1 = Inr (d2, user)"
    "d3 = d2 \<or> (\<exists>e. ai_EventID iv = Some e \<and> ai_EventRole iv = Some ''cohost'' \<and>
       CreateCohostMembershipTx (uuid 0) e (u_ID user) (ai_InvitedByUserID iv) (clk 0) d2 = Inr d3)"
    "createSession (uuid 1) (clk 1) h (u_ID user) (clk 0 + cfg_SessionExpiry (ua_cfg s)) d3 = Inr d4"
    "TouchLastLoginTx (u_ID user) (clk 0) d4 = Inr d'"
  have "users_evolve d2 d3" using *(3) by (auto intro: users_facts)
  then have "users_evolve d d3" using users_trans [OF users_facts(6) [OF *(1)] activate_evolves [OF *(2)]] users_trans by blast
  then show ?thesis using users_trans [OF users_facts(1) [OF *(4)] touch_evolves [OF *(5)]] users_trans by blast
qed

lemma revoke_users: "RevokeInvite clk uuid actor i d = Inr d' \<Longrightarrow> users_evolve d d'"
  by (auto simp: RevokeInvite_def dest!: users_facts intro: users_trans)

lemma other_users:
  "ValidateSession rt now raw d = (d', res) \<Longrightarrow> users_evolve d d'"
  "Logout rt raw d = (d', ores) \<Longrightarrow> users_evolve d d'"
  "users_evolve d (UpdateOrganizer now u d)"
  "users_evolve d (DeleteExpiredSessions now d)"
  "users_evolve d (DeleteExpiredMagicLinks now d)"
  by (auto simp: ValidateSession_def Logout_def UpdateOrganizer_def DeleteExpiredSessions_def DeleteExpiredMagicLinks_def
      carries_def intro: users_same users_update split: option.splits if_splits)


lemma cohost_tx_E:
  assumes "invite_cohost_tx rt s clk uuid rand actorID e email d = Inr (d', m, pending)"
  obtains d0 d1 target where
    "d0 = d \<or> (\<exists>i. d0 = RevokePendingInvitesTx i (clk 0) d)"
    "int (CountCohostCommitmentsTx e (clk 1) d0) < cfg_MaxCoHostsPerEvent (ua_cfg s)"
    "d1 = d0 \<or> (\<exists>i. createUser rt (uuid 0) (clk 2) email [] (cfg_DefaultTimezone (ua_cfg s)) InstanceRoleUser UserStatusInvited i d0 = Inr (d1, target))"
    "(\<exists>g. CreateCohostMembershipTx (uuid 1) e (u_ID target) g (clk 1) d1 = Inr d') \<or>
     (\<exists>g h iv. CreateInviteTx (uuid 1) target g h (Some e) (Some ''cohost'') (clk 1 + cfg_AccountInviteExpiry (ua_cfg s)) (clk 1) d1 = Inr (d', iv))"
proof -
  let ?found = "FindOrganizerByEmail rt email d"
  let ?d0 = "case ?found of Some t \<Rightarrow> if u_Status t = UserStatusInvited then RevokePendingInvitesTx (u_ID t) (clk 0) d else d | None \<Rightarrow> d"
  have lock: "LockEventTx e d = Inr d" using assms by (auto simp: invite_cohost_tx_def LockEventTx_def split: if_splits)
  obtain actor where a: "FindOrganizerByID actorID d = Some actor" "u_Status actor = UserStatusActive" "IsEventOwnerTx e (u_ID actor) d"
    "int (CountCohostCommitmentsTx e (clk 1) ?d0) < cfg_MaxCoHostsPerEvent (ua_cfg s)"
    using assms unfolding invite_cohost_tx_def lock by (auto simp: Let_def)
  let ?made = "case ?found of Some t \<Rightarrow> Inr (?d0, t)
      | None \<Rightarrow> createUser rt (uuid 0) (clk 2) email [] (cfg_DefaultTimezone (ua_cfg s)) InstanceRoleUser UserStatusInvited (Some (u_ID actor)) ?d0"
  obtain d1 target where f: "?made = Inr (d1, target)"
    using assms unfolding invite_cohost_tx_def lock by (auto simp: Let_def a)
  have "?d0 = d \<or> (\<exists>i. ?d0 = RevokePendingInvitesTx i (clk 0) d)" by (auto split: option.splits)
  moreover have "d1 = ?d0 \<or> (\<exists>i. createUser rt (uuid 0) (clk 2) email [] (cfg_DefaultTimezone (ua_cfg s)) InstanceRoleUser UserStatusInvited i ?d0 = Inr (d1, target))"
    using f by (auto split: option.splits)
  moreover have "(\<exists>g. CreateCohostMembershipTx (uuid 1) e (u_ID target) g (clk 1) d1 = Inr d') \<or>
     (\<exists>g h iv. CreateInviteTx (uuid 1) target g h (Some e) (Some ''cohost'') (clk 1 + cfg_AccountInviteExpiry (ua_cfg s)) (clk 1) d1 = Inr (d', iv))"
    using assms a f unfolding invite_cohost_tx_def lock Let_def
    by (auto simp: a f case_prod_beta split: if_splits)
  ultimately show thesis using that a(4) by blast
qed

lemma cohost_users: "InviteEventCohost rt s clk uuid rand actor e email d = (d', out) \<Longrightarrow> users_evolve d d'"
proof -
  have "users_evolve d d2" if "invite_cohost_tx rt s clk uuid rand a e em d = Inr (d2, m, pending)" for a em d2 m pending
    using that
  proof (rule cohost_tx_E)
    fix d0 d1 target
    assume *: "d0 = d \<or> (\<exists>i. d0 = RevokePendingInvitesTx i (clk 0) d)"
      "d1 = d0 \<or> (\<exists>i. createUser rt (uuid 0) (clk 2) em [] (cfg_DefaultTimezone (ua_cfg s)) InstanceRoleUser UserStatusInvited i d0 = Inr (d1, target))"
      "(\<exists>g. CreateCohostMembershipTx (uuid 1) e (u_ID target) g (clk 1) d1 = Inr d2) \<or>
       (\<exists>g h iv. CreateInviteTx (uuid 1) target g h (Some e) (Some ''cohost'') (clk 1 + cfg_AccountInviteExpiry (ua_cfg s)) (clk 1) d1 = Inr (d2, iv))"
    have "users_evolve d d0" using *(1) by (auto intro: users_same)
    moreover have "users_evolve d0 d1" using *(2) by (auto intro: users_facts)
    moreover have "users_evolve d1 d2" using *(3) by (auto intro: users_facts)
    ultimately show ?thesis by (blast intro: users_trans)
  qed
  then show "InviteEventCohost rt s clk uuid rand actor e email d = (d', out) \<Longrightarrow> users_evolve d d'"
    by (auto simp: InviteEventCohost_def Let_def split: if_splits option.splits sum.splits prod.splits)
qed

lemma step_users: "account_step rt ev d d' \<Longrightarrow> (\<And>i. ev \<noteq> Changed i) \<Longrightarrow> users_evolve d d'"
  by (induction rule: account_step.induct)
    (auto intro: request_users login_users invite_users cohost_users accept_users revoke_users other_users)

section \<open>There is always an administrator\<close>

lemma evolve_admin: "users_evolve d d' \<Longrightarrow> list_ex active_admin (id_users d) \<Longrightarrow> list_ex active_admin (id_users d')"
proof -
  assume ev: "users_evolve d d'" and "list_ex active_admin (id_users d)"
  then obtain u where u: "u \<in> set (id_users d)" "active_admin u" by (auto simp: list_ex_iff)
  then obtain u' where u': "u' \<in> set (id_users d')" "carries u u'" using ev by (auto simp: users_evolve_def)
  then have "active_admin u'" using u(2) by (auto simp: carries_def active_admin_def)
  then show ?thesis using u'(1) by (auto simp: list_ex_iff)
qed

lemma find_unique:
  "distinct (map u_ID (id_users d)) \<Longrightarrow> u \<in> set (id_users d) \<Longrightarrow> FindOrganizerByID (u_ID u) d = Some u"
  unfolding FindOrganizerByID_def by (rule select_row_unique [of u_ID]) auto

lemma find_row: "FindOrganizerByID i d = Some u \<Longrightarrow> u \<in> set (id_users d) \<and> u_ID u = i"
  by (auto simp: FindOrganizerByID_def dest: select_row_SomeD)

lemma admin_actor_row:
  "admin_actor actor d = Inr p \<Longrightarrow> p \<in> set (id_users d) \<and> active_admin p"
  by (auto simp: admin_actor_def is_active_admin_def IsAdmin_def active_admin_def dest: find_row split: option.splits if_splits)

lemma second_admin:
  assumes "distinct (map u_ID (id_users d))" "1 < CountActiveAdminsTx d"
  shows "\<exists>u \<in> set (id_users d). active_admin u \<and> u_ID u \<noteq> i"
proof (rule ccontr)
  assume "\<not> ?thesis"
  then have "\<forall>u \<in> set (filter active_admin (id_users d)). u_ID u = i" by auto
  then have "set (map u_ID (filter active_admin (id_users d))) \<subseteq> {i}" by auto
  moreover have "distinct (map u_ID (filter active_admin (id_users d)))" by (rule distinct_map_filter_key [OF assms(1)])
  ultimately have "length (map u_ID (filter active_admin (id_users d))) \<le> card {i}"
    by (metis card_mono distinct_card finite.emptyI finite_insert)
  then show False using assms(2) by (simp add: CountActiveAdminsTx_def affected_def)
qed

text \<open>A change of one user keeps an administrator with another id.\<close>

lemma other_admin_kept:
  assumes "u \<in> set (id_users d)" "active_admin u" "u_ID u \<noteq> i"
    and "id_users d' = update_where (\<lambda>u. u_ID u = i) f (id_users d)"
  shows "list_ex active_admin (id_users d')"
  using assms by (auto simp: list_ex_iff set_update_where)

lemma update_status_users:
  "UpdateStatusTx i st now d = Inr d' \<Longrightarrow> id_users d' = update_where (\<lambda>u. u_ID u = i) (\<lambda>u. u\<lparr>u_Status := st, u_UpdatedAt := trunc_sec now\<rparr>) (id_users d)"
  by (auto simp: UpdateStatusTx_def Let_def split: if_splits)

lemma update_role_users:
  "UpdateRoleTx i r now d = Inr d' \<Longrightarrow> id_users d' = update_where (\<lambda>u. u_ID u = i) (\<lambda>u. u\<lparr>u_InstanceRole := r, u_UpdatedAt := trunc_sec now\<rparr>) (id_users d)"
  by (auto simp: UpdateRoleTx_def split: if_splits)

lemma status_cases:
  assumes "SetUserStatus now aid actor i st d = Inr d'"
  obtains p target where "admin_actor actor d = Inr p" "FindOrganizerByID i d = Some target" "st = UserStatusActive \<or> st = UserStatusDisabled"
    "d' = d \<and> u_Status target = st \<or>
     (u_Status target \<noteq> st \<and> \<not> (active_admin target \<and> st = UserStatusDisabled \<and> CountActiveAdminsTx d \<le> 1) \<and>
      (\<exists>d1. UpdateStatusTx i st now d = Inr d1 \<and> id_users d' = id_users d1 \<and> id_sessions d' = id_sessions d1 \<and>
         id_invites d' = id_invites d1 \<and> id_magic_links d' = id_magic_links d1))"
  using assms
  by (auto simp: SetUserStatus_def changeUser_def LockAdminMutationTx_def Let_def active_admin_def IsAdmin_def
      dest!: sub_effects(3) split: if_splits)

lemma role_cases:
  assumes "SetUserRole now aid actor i r d = Inr d'"
  obtains p target where "admin_actor actor d = Inr p" "FindOrganizerByID i d = Some target"
    "d' = d \<or> (\<not> (active_admin target \<and> CountActiveAdminsTx d \<le> 1) \<or> r = InstanceRoleAdmin) \<and>
      (\<exists>d1. UpdateRoleTx i r now d = Inr d1 \<and> id_users d' = id_users d1)"
  using assms
  by (auto simp: SetUserRole_def changeUser_def LockAdminMutationTx_def Let_def active_admin_def IsAdmin_def
      dest!: sub_effects(3) split: if_splits)

lemma status_admin:
  assumes "SetUserStatus now aid actor i st d = Inr d'" "distinct (map u_ID (id_users d))"
  shows "list_ex active_admin (id_users d')"
  using assms(1)
proof (rule status_cases)
  fix p target
  assume *: "admin_actor actor d = Inr p" "FindOrganizerByID i d = Some target" "st = UserStatusActive \<or> st = UserStatusDisabled"
    "d' = d \<and> u_Status target = st \<or>
     (u_Status target \<noteq> st \<and> \<not> (active_admin target \<and> st = UserStatusDisabled \<and> CountActiveAdminsTx d \<le> 1) \<and>
      (\<exists>d1. UpdateStatusTx i st now d = Inr d1 \<and> id_users d' = id_users d1 \<and> id_sessions d' = id_sessions d1 \<and>
         id_invites d' = id_invites d1 \<and> id_magic_links d' = id_magic_links d1))"
  have p: "p \<in> set (id_users d)" "active_admin p" using admin_actor_row [OF *(1)] by auto
  show ?thesis
  proof (cases "d' = d")
    case True
    then show ?thesis using p by (auto simp: list_ex_iff)
  next
    case False
    then have us: "id_users d' = update_where (\<lambda>u. u_ID u = i) (\<lambda>u. u\<lparr>u_Status := st, u_UpdatedAt := trunc_sec now\<rparr>) (id_users d)"
      and more: "u_Status target \<noteq> st" "\<not> (active_admin target \<and> st = UserStatusDisabled \<and> CountActiveAdminsTx d \<le> 1)"
      using *(4) update_status_users by auto
    have "\<exists>u \<in> set (id_users d). active_admin u \<and> u_ID u \<noteq> i"
    proof (cases "active_admin target")
      case True
      then have "1 < CountActiveAdminsTx d" using more *(3) by (auto simp: active_admin_def)
      then show ?thesis by (rule second_admin [OF assms(2)])
    next
      case False
      have "u_ID p \<noteq> i" using find_unique [OF assms(2) p(1)] *(2) p(2) False by auto
      then show ?thesis using p by blast
    qed
    then show ?thesis using other_admin_kept us by blast
  qed
qed

lemma role_admin:
  assumes "SetUserRole now aid actor i r d = Inr d'" "distinct (map u_ID (id_users d))"
  shows "list_ex active_admin (id_users d')"
  using assms(1)
proof (rule role_cases)
  fix p target
  assume *: "admin_actor actor d = Inr p" "FindOrganizerByID i d = Some target"
    "d' = d \<or> (\<not> (active_admin target \<and> CountActiveAdminsTx d \<le> 1) \<or> r = InstanceRoleAdmin) \<and>
      (\<exists>d1. UpdateRoleTx i r now d = Inr d1 \<and> id_users d' = id_users d1)"
  have p: "p \<in> set (id_users d)" "active_admin p" using admin_actor_row [OF *(1)] by auto
  show ?thesis
  proof (cases "d' = d")
    case True
    then show ?thesis using p by (auto simp: list_ex_iff)
  next
    case False
    then have us: "id_users d' = update_where (\<lambda>u. u_ID u = i) (\<lambda>u. u\<lparr>u_InstanceRole := r, u_UpdatedAt := trunc_sec now\<rparr>) (id_users d)"
      and more: "\<not> (active_admin target \<and> CountActiveAdminsTx d \<le> 1) \<or> r = InstanceRoleAdmin"
      using *(3) update_role_users by auto
    show ?thesis
    proof (cases "u_ID p = i \<and> r = InstanceRoleAdmin")
      case True
      then have "active_admin (p\<lparr>u_InstanceRole := r, u_UpdatedAt := trunc_sec now\<rparr>)" using p(2) by (simp add: active_admin_def)
      then show ?thesis using True p(1) by (auto simp: us list_ex_iff set_update_where)
    next
      case False
      have "\<exists>u \<in> set (id_users d). active_admin u \<and> u_ID u \<noteq> i"
      proof (cases "u_ID p = i")
        case True
        then have "target = p" using find_unique [OF assms(2) p(1)] *(2) by simp
        then have "1 < CountActiveAdminsTx d" using more False True p(2) by auto
        then show ?thesis by (rule second_admin [OF assms(2)])
      qed (use p in blast)
      then show ?thesis using other_admin_kept us by blast
    qed
  qed
qed

lemma update_ids:
  "id_users d' = update_where (\<lambda>u. u_ID u = i) f (id_users d) \<Longrightarrow> (\<And>u. u_ID (f u) = u_ID u) \<Longrightarrow>
    map u_ID (id_users d') = map u_ID (id_users d)"
  by (simp add: map_update_where)

lemma promoted_row_simps [simp]: "u_ID (promoted_row name tz at x) = u_ID x" "active_admin (promoted_row name tz at x)"
  by (simp_all add: promoted_row_def active_admin_def)

lemma promote_users:
  assumes "PromoteAdmin rt now aid email d = Inr (d', u)"
  obtains name tz where "id_users d' = update_where (\<lambda>x. u_ID x = u_ID u) (promoted_row name tz now) (id_users d)"
    "u_ID u \<in> u_ID ` set (id_users d)"
proof -
  obtain before d1 where b: "FindOrganizerByEmail rt (to_lower rt (trim_space email)) d = Some before"
    and p: "PromoteBootstrapAdminTx (u_ID before) (u_Name before) (u_Timezone before) now d = Inr (d1, u)"
    and d': "id_users d' = id_users d1"
    using assms by (auto simp: PromoteAdmin_def Let_def dest: users_unchanged(3))
  have "id_users d1 = update_where (\<lambda>x. u_ID x = u_ID before) (promoted_row (u_Name before) (u_Timezone before) now) (id_users d)"
    "u_ID u = u_ID before"
    using p by (auto simp: PromoteBootstrapAdminTx_def Let_def dest: find_row split: if_splits)
  moreover have "before \<in> set (id_users d)" using b by (auto simp: FindOrganizerByEmail_def dest: select_row_SomeD)
  ultimately show thesis using that d' by auto
qed

lemma changed_step:
  assumes "account_step rt (Changed i) d d'"
  obtains "d' = d" | f where "id_users d' = update_where (\<lambda>x. u_ID x = i) f (id_users d)" "\<And>x. u_ID (f x) = u_ID x"
  using assms
proof (cases rule: account_step.cases)
  case (status now aid actor st)
  from this(1) show thesis
  proof (rule status_cases)
    fix p target
    assume "d' = d \<and> u_Status target = st \<or>
     (u_Status target \<noteq> st \<and> \<not> (active_admin target \<and> st = UserStatusDisabled \<and> CountActiveAdminsTx d \<le> 1) \<and>
      (\<exists>d1. UpdateStatusTx i st now d = Inr d1 \<and> id_users d' = id_users d1 \<and> id_sessions d' = id_sessions d1 \<and>
         id_invites d' = id_invites d1 \<and> id_magic_links d' = id_magic_links d1))"
    then show thesis using that update_status_users by fastforce
  qed
next
  case (role now aid actor r)
  from this(1) show thesis
  proof (rule role_cases)
    fix p target
    assume "d' = d \<or> (\<not> (active_admin target \<and> CountActiveAdminsTx d \<le> 1) \<or> r = InstanceRoleAdmin) \<and>
      (\<exists>d1. UpdateRoleTx i r now d = Inr d1 \<and> id_users d' = id_users d1)"
    then show thesis using that update_role_users by fastforce
  qed
next
  case (promote now aid email u)
  from promote(2) show thesis by (rule promote_users) (use promote(1) that(2) in auto)
qed

lemma step_ids_distinct:
  assumes "account_step rt ev d d'" "distinct (map u_ID (id_users d))"
  shows "distinct (map u_ID (id_users d'))"
proof (cases "\<exists>i. ev = Changed i")
  case True
  then obtain i where "account_step rt (Changed i) d d'" using assms(1) by auto
  then show ?thesis by (rule changed_step) (use assms(2) in \<open>auto simp: map_update_where\<close>)
next
  case False
  then show ?thesis using step_users [OF assms(1)] assms(2) by (auto simp: users_evolve_def)
qed

text \<open>Unique user ids and an administrator, kept by every step.\<close>

definition administered :: "idb \<Rightarrow> bool" where
  "administered d \<longleftrightarrow> distinct (map u_ID (id_users d)) \<and> list_ex active_admin (id_users d)"

interpretation administration: system_invariant "\<lambda>d d'. \<exists>ev. account_step rt ev d d'" administered for rt
proof
  fix d d' assume step: "\<exists>ev. account_step rt ev d d'" and adm: "administered d"
  then obtain ev where ev: "account_step rt ev d d'" by blast
  have ids: "distinct (map u_ID (id_users d))" using adm by (simp add: administered_def)
  have "list_ex active_admin (id_users d')"
  proof (cases "\<exists>i. ev = Changed i")
    case True
    then obtain i where "account_step rt (Changed i) d d'" using ev by auto
    then show ?thesis
    proof (cases rule: account_step.cases)
      case (promote now aid email u)
      from promote(2) show ?thesis
      proof (rule promote_users)
        fix name tz
        assume us: "id_users d' = update_where (\<lambda>x. u_ID x = u_ID u) (promoted_row name tz now) (id_users d)"
          "u_ID u \<in> u_ID ` set (id_users d)"
        then obtain x where x: "x \<in> set (id_users d)" "u_ID x = u_ID u" by auto
        then have "promoted_row name tz now x \<in> set (id_users d')" unfolding us(1) set_update_where by auto
        then show ?thesis unfolding list_ex_iff by (rule bexI [rotated]) simp
      qed
    qed (auto intro: status_admin [OF _ ids] role_admin [OF _ ids])
  next
    case False
    then show ?thesis using step_users [OF ev] evolve_admin adm by (auto simp: administered_def)
  qed
  then show "administered d'" using step_ids_distinct [OF ev ids] by (simp add: administered_def)
qed

text \<open>
  C12: the instance never loses its last administrator to administration. From a database with an
  active administrator, whatever logins, invitations, acceptances, status and role changes follow,
  in any order, there is an active administrator.
\<close>

theorem administrator_remains:
  assumes "(\<lambda>d d'. \<exists>ev. account_step rt ev d d')\<^sup>*\<^sup>* d d'" "distinct (map u_ID (id_users d))" "1 \<le> CountActiveAdminsTx d"
  shows "1 \<le> CountActiveAdminsTx d'"
proof -
  have count: "1 \<le> CountActiveAdminsTx x \<longleftrightarrow> list_ex active_admin (id_users x)" for x
    using affected_pos_iff [of active_admin "id_users x"] by (auto simp: CountActiveAdminsTx_def list_ex_iff)
  have "administered d'"
    by (rule administration.invariant_reachable [OF assms(1)]) (use assms count in \<open>simp add: administered_def\<close>)
  then show ?thesis using count by (simp add: administered_def)
qed

section \<open>Magic links are used once\<close>

text \<open>What an operation that issues no link with the given id does to the links with it.\<close>

definition links_spend :: "id \<Rightarrow> idb \<Rightarrow> idb \<Rightarrow> bool" where
  "links_spend i d d' \<longleftrightarrow> (\<forall>m' \<in> set (id_magic_links d'). ml_ID m' = i \<longrightarrow>
    (\<exists>m \<in> set (id_magic_links d). ml_ID m = i \<and> (ml_UsedAt m \<noteq> None \<longrightarrow> ml_UsedAt m' \<noteq> None)))"

lemma links_same: "id_magic_links d' = id_magic_links d \<Longrightarrow> links_spend i d d'"
  by (auto simp: links_spend_def)

lemma links_unchanged:
  "createSession sid now h o_id ex d = Inr d' \<Longrightarrow> id_magic_links d' = id_magic_links d"
  "CreateCohostMembershipTx mid e u g now d = Inr d' \<Longrightarrow> id_magic_links d' = id_magic_links d"
  "InsertAuditTx aid actor kind act tgt meta now d = Inr d' \<Longrightarrow> id_magic_links d' = id_magic_links d"
  "CreateInviteTx iid t a h e2 r ex now d = Inr (d', iv) \<Longrightarrow> id_magic_links d' = id_magic_links d"
  "ConsumeInviteTx i now d = Inr d' \<Longrightarrow> id_magic_links d' = id_magic_links d"
  "RevokeInviteByIDTx i now d = Inr (d', iv) \<Longrightarrow> id_magic_links d' = id_magic_links d"
  "createUser rt uid now email name tz rl st inviter d = Inr (d', u2) \<Longrightarrow> id_magic_links d' = id_magic_links d"
  "TouchLastLoginTx i now d = Inr d' \<Longrightarrow> id_magic_links d' = id_magic_links d"
  "ActivateInvitedUserTx i now d = Inr (d', u2) \<Longrightarrow> id_magic_links d' = id_magic_links d"
  "UpdateStatusTx i st now d = Inr d' \<Longrightarrow> id_magic_links d' = id_magic_links d"
  "UpdateRoleTx i rl now d = Inr d' \<Longrightarrow> id_magic_links d' = id_magic_links d"
  "PromoteBootstrapAdminTx i name tz now d = Inr (d', u2) \<Longrightarrow> id_magic_links d' = id_magic_links d"
  by (auto simp: ConsumeInviteTx_def RevokeInviteByIDTx_def TouchLastLoginTx_def ActivateInvitedUserTx_def UpdateStatusTx_def
      UpdateRoleTx_def PromoteBootstrapAdminTx_def Let_def
      dest!: sub_effects createInvite_effect createUser_effect(1) split: if_splits)

lemma mark_links:
  assumes "markMagicLinkUsed i now d = Inr d'"
  shows "id_magic_links d' = update_where (unused_link i now) (\<lambda>m. m\<lparr>ml_UsedAt := Some (trunc_sec now)\<rparr>) (id_magic_links d)"
    "\<exists>m \<in> set (id_magic_links d). ml_ID m = i \<and> ml_UsedAt m = None"
  using assms affected_one_ex [of "unused_link i now" "id_magic_links d"]
  by (auto simp: markMagicLinkUsed_def unused_link_def split: if_splits)

lemma login_links:
  assumes "verify_commit rt s clk uuid rand ml d = Inr (d', resp)"
  shows "id_magic_links d' = update_where (unused_link (ml_ID ml) (clk 2)) (\<lambda>m. m\<lparr>ml_UsedAt := Some (trunc_sec (clk 2))\<rparr>) (id_magic_links d)"
    "\<exists>m \<in> set (id_magic_links d). ml_ID m = ml_ID ml \<and> ml_UsedAt m = None"
  using assms by (auto elim!: login_E dest!: links_unchanged dest: mark_links)

lemma request_links:
  "RequestMagicLink rt s clk uuid rand email d = (d', out) \<Longrightarrow> i \<noteq> uuid 1 \<Longrightarrow> links_spend i d d'"
proof (erule request_E)
  fix d1 u bytes
  assume *: "FindOrganizerByEmail rt email d = Some u \<and> d1 = d \<or> CreateOrganizer rt (uuid 0) (clk 0) email d = Inr (d1, u)"
    "CreateMagicLink (uuid 1) (clk 2) (auth_hashToken rt (hex_encode bytes)) (u_ID u) (clk 1 + cfg_MagicLinkExpiry (as_cfg s)) d1 = Inr d'"
    "i \<noteq> uuid 1"
  have "id_magic_links d1 = id_magic_links d" using *(1) by (auto simp: CreateOrganizer_def dest: links_unchanged)
  moreover obtain m where "id_magic_links d' = add_row m (id_magic_links d1)" "ml_ID m = uuid 1"
    using *(2) by (auto simp: CreateMagicLink_def dest!: insert_effects(2))
  ultimately show ?thesis using *(3) by (auto simp: links_spend_def)
qed (auto intro!: links_same simp: CreateOrganizer_def dest: links_unchanged)

lemma invite_links: "InviteUser rt s clk uuid rand actor email d = (d', out) \<Longrightarrow> id_magic_links d' = id_magic_links d"
  by (auto simp: InviteUser_def Let_def elim!: invite_tx_E dest!: links_unchanged split: if_splits option.splits sum.splits prod.splits)

lemma cohost_links: "InviteEventCohost rt s clk uuid rand actor e email d = (d', out) \<Longrightarrow> id_magic_links d' = id_magic_links d"
  by (auto simp: InviteEventCohost_def Let_def elim!: cohost_tx_E dest!: links_unchanged split: if_splits option.splits sum.splits prod.splits)

lemma accept_links: "AcceptInvite rt s clk uuid rand raw d = Inr (d', resp) \<Longrightarrow> id_magic_links d' = id_magic_links d"
  by (auto elim!: accept_E dest!: links_unchanged)

lemma status_links: "SetUserStatus now aid actor i st d = Inr d' \<Longrightarrow> id_magic_links d' = id_magic_links d"
  by (auto elim!: status_cases dest: links_unchanged(10))

lemma other_links:
  "RevokeInvite clk uuid actor i d = Inr d' \<Longrightarrow> id_magic_links d' = id_magic_links d"
  "SetUserRole now aid actor i r d = Inr d' \<Longrightarrow> id_magic_links d' = id_magic_links d"
  "PromoteAdmin rt now aid email d = Inr (d', u) \<Longrightarrow> id_magic_links d' = id_magic_links d"
  "ValidateSession rt now raw d = (d', res) \<Longrightarrow> id_magic_links d' = id_magic_links d"
  "Logout rt raw d = (d', ores) \<Longrightarrow> id_magic_links d' = id_magic_links d"
  "id_magic_links (UpdateOrganizer now u d) = id_magic_links d"
  "id_magic_links (DeleteExpiredSessions now d) = id_magic_links d"
  by (auto simp: RevokeInvite_def SetUserRole_def changeUser_def LockAdminMutationTx_def PromoteAdmin_def ValidateSession_def Logout_def
      UpdateOrganizer_def DeleteExpiredSessions_def Let_def dest!: links_unchanged split: option.splits if_splits)

lemma step_links: "account_step rt ev d d' \<Longrightarrow> ev \<noteq> Issued i \<Longrightarrow> links_spend i d d'"
proof (induction rule: account_step.induct)
  case (login s clk uuid rand ml d d' resp)
  then show ?case using login_links(1) [OF login(1)] by (fastforce simp: links_spend_def set_update_where unused_link_def)
next
  case (clean_links d now)
  then show ?case by (auto simp: links_spend_def DeleteExpiredMagicLinks_def)
qed (auto intro: request_links links_same simp: other_links(6,7) dest: invite_links cohost_links accept_links status_links other_links(1-5))

lemma request_link_ids:
  "RequestMagicLink rt s clk uuid rand email d = (d', out) \<Longrightarrow> distinct (map ml_ID (id_magic_links d)) \<Longrightarrow>
    distinct (map ml_ID (id_magic_links d'))"
proof (erule request_E)
  fix d1 u bytes
  assume *: "FindOrganizerByEmail rt email d = Some u \<and> d1 = d \<or> CreateOrganizer rt (uuid 0) (clk 0) email d = Inr (d1, u)"
    "CreateMagicLink (uuid 1) (clk 2) (auth_hashToken rt (hex_encode bytes)) (u_ID u) (clk 1 + cfg_MagicLinkExpiry (as_cfg s)) d1 = Inr d'"
    "distinct (map ml_ID (id_magic_links d))"
  have "id_magic_links d1 = id_magic_links d" using *(1) by (auto simp: CreateOrganizer_def dest: links_unchanged)
  then show ?thesis using *(2,3) by (auto simp: CreateMagicLink_def dest!: insert_effects(2))
qed (auto simp: CreateOrganizer_def dest: links_unchanged)

lemma step_link_ids:
  "account_step rt ev d d' \<Longrightarrow> distinct (map ml_ID (id_magic_links d)) \<Longrightarrow> distinct (map ml_ID (id_magic_links d'))"
proof (induction rule: account_step.induct)
  case (login s clk uuid rand ml d d' resp)
  then show ?case using login_links(1) [OF login(1)] by (simp add: map_update_where)
next
  case (clean_links d now)
  then show ?case by (simp add: DeleteExpiredMagicLinks_def)
qed (auto simp: other_links(6,7) dest: invite_links cohost_links accept_links status_links other_links(1-5) intro: request_link_ids)

definition link_spent :: "id \<Rightarrow> idb \<Rightarrow> bool" where
  "link_spent i d \<longleftrightarrow> (\<forall>m \<in> set (id_magic_links d). ml_ID m = i \<longrightarrow> ml_UsedAt m \<noteq> None)"

definition logs_in :: "runtime \<Rightarrow> id \<Rightarrow> idb \<Rightarrow> idb \<Rightarrow> bool" where
  "logs_in rt i d d' \<longleftrightarrow> (\<exists>s clk uuid rand ml resp. ml_ID ml = i \<and> verify_commit rt s clk uuid rand ml d = Inr (d', resp))"

lemma login_spends:
  assumes "logs_in rt i d d'" "distinct (map ml_ID (id_magic_links d))"
  shows "link_spent i d'"
proof -
  obtain s clk uuid rand ml resp where l: "ml_ID ml = i" "verify_commit rt s clk uuid rand ml d = Inr (d', resp)"
    using assms(1) by (auto simp: logs_in_def)
  obtain d1 where mk: "markMagicLinkUsed i (clk 2) d = Inr d1" using l by (auto elim!: login_E)
  then obtain m where m: "m \<in> set (id_magic_links d)" "unused_link i (clk 2) m"
    using affected_one_ex [of "unused_link i (clk 2)" "id_magic_links d"] by (auto simp: markMagicLinkUsed_def split: if_splits)
  have "x = m" if "x \<in> set (id_magic_links d)" "ml_ID x = i" for x
    using assms(2) m that by (auto simp: distinct_map unused_link_def dest: inj_onD)
  then show ?thesis using login_links(1) [OF l(2)] m(2) by (auto simp: link_spent_def set_update_where l(1))
qed

interpretation magic_link: single_use "\<lambda>d d'. \<exists>ev. ev \<noteq> Issued i \<and> account_step rt ev d d'"
  "\<lambda>d. distinct (map ml_ID (id_magic_links d))" "\<lambda>k :: unit. link_spent i" "\<lambda>k. logs_in rt i" for rt i
proof
  show "\<exists>ev. ev \<noteq> Issued i \<and> account_step rt ev d d' \<Longrightarrow> distinct (map ml_ID (id_magic_links d)) \<Longrightarrow> distinct (map ml_ID (id_magic_links d'))" for d d'
    using step_link_ids by blast
  show "link_spent i d'" if "\<exists>ev. ev \<noteq> Issued i \<and> account_step rt ev d d'" "link_spent i d" for d d'
    using that step_links unfolding link_spent_def links_spend_def by metis
  show "\<exists>ev. ev \<noteq> Issued i \<and> account_step rt ev d d'" if "logs_in rt i d d'" for d d'
    using that unfolding logs_in_def by (metis account_event.distinct(3) account_step.login)
  show "logs_in rt i d d' \<Longrightarrow> distinct (map ml_ID (id_magic_links d)) \<Longrightarrow> link_spent i d'" for d d' by (rule login_spends)
  show "link_spent i d \<Longrightarrow> \<not> logs_in rt i d d'" for d d' using login_links(2) by (fastforce simp: logs_in_def link_spent_def)
qed

text \<open>
  C13: a magic link logs in once. After a login with a magic link has been committed, no further login
  with that link is, whatever operations come between and even if the second request had read the
  link before the first was committed, provided no new link is issued under the same id.
\<close>

theorem magic_link_single_use:
  assumes "distinct (map ml_ID (id_magic_links d))" "verify_commit rt s clk uuid rand ml d = Inr (d1, resp)"
    and "(\<lambda>d d'. \<exists>ev. ev \<noteq> Issued (ml_ID ml) \<and> account_step rt ev d d')\<^sup>*\<^sup>* d1 d2" "ml_ID ml' = ml_ID ml"
  shows "\<exists>e. verify_commit rt s' clk' uuid' rand' ml' d2 = Inl e"
proof -
  have "logs_in rt (ml_ID ml) d d1" unfolding logs_in_def using assms(2) by blast
  then have "\<not> logs_in rt (ml_ID ml) d2 d3" for d3 using magic_link.redeemed_once [OF assms(1) _ assms(3)] by blast
  then show ?thesis using assms(4) by (cases "verify_commit rt s' clk' uuid' rand' ml' d2") (auto simp: logs_in_def)
qed

section \<open>Sessions\<close>

lemma trunc_sec_le: "trunc_sec t \<le> t"
  by (simp add: trunc_sec_def second_def)

text \<open>
  A login opens a session of its user. The token of a successful login is accepted, as the user
  of the magic link, up to the configured expiry to the second, and refused after it.
\<close>

theorem login_opens_session:
  assumes "verify_commit rt s clk uuid rand ml d = Inr (d', resp)"
  shows "(\<exists>u. snd (ValidateSession rt t (ar_Token resp) d') = Inr u \<and> u_ID u = ml_OrganizerID ml \<and> u_Status u = UserStatusActive) \<longleftrightarrow>
    t \<le> trunc_sec (clk 1 + cfg_SessionExpiry (as_cfg s))"
  using assms
proof (rule login_E)
  fix bytes organizer d1 d2
  assume *: "markMagicLinkUsed (ml_ID ml) (clk 2) d = Inr d1"
    "createSession (uuid 0) (clk 3) (auth_hashToken rt (hex_encode bytes)) (ml_OrganizerID ml) (clk 1 + cfg_SessionExpiry (as_cfg s)) d1 = Inr d2"
    "TouchLastLoginTx (ml_OrganizerID ml) (clk 2) d2 = Inr d'"
    "resp = \<lparr> ar_Token = hex_encode bytes, ar_Organizer = organizer\<lparr>u_LastLoginAt := Some (clk 2)\<rparr> \<rparr>"
    "FindOrganizerByID (ml_OrganizerID ml) d = Some organizer" "u_Status organizer = UserStatusActive"
  obtain se where se: "d2 = d1\<lparr>id_sessions := add_row se (id_sessions d1)\<rparr>" "se_TokenHash se = auth_hashToken rt (hex_encode bytes)"
    "se_OrganizerID se = ml_OrganizerID ml" "se_ExpiresAt se = trunc_sec (clk 1 + cfg_SessionExpiry (as_cfg s))"
    "\<forall>x \<in> set (id_sessions d1). se_TokenHash x \<noteq> auth_hashToken rt (hex_encode bytes)"
    using sub_effects(1) [OF *(2)] by blast
  have d': "d' = d2\<lparr>id_users := update_where (active_user (ml_OrganizerID ml))
      (\<lambda>u. u\<lparr>u_LastLoginAt := Some (trunc_sec (clk 2)), u_UpdatedAt := trunc_sec (clk 2)\<rparr>) (id_users d2)\<rparr>"
    using *(3) by (auto simp: TouchLastLoginTx_def split: if_splits)
  have us: "id_users d2 = id_users d" using users_unchanged(5) [OF *(1)] se(1) by simp
  have "select_row (\<lambda>x. se_TokenHash x = auth_hashToken rt (hex_encode bytes)) (id_sessions d1) = None"
    using se(5) by (simp add: select_row_None_iff)
  then have ses: "FindSessionByHash (auth_hashToken rt (ar_Token resp)) d' = Some se"
    by (simp add: FindSessionByHash_def d' se(1,2) *(4) select_row_add_row)
  have usr: "FindOrganizerByID (ml_OrganizerID ml) d' =
      Some (organizer\<lparr>u_LastLoginAt := Some (trunc_sec (clk 2)), u_UpdatedAt := trunc_sec (clk 2)\<rparr>)"
    using *(5,6) find_row [OF *(5)]
    by (simp add: FindOrganizerByID_def d' us select_row_update_where active_user_def)
  show ?thesis using ses usr se(3,4) find_row [OF *(5)] *(6) by (auto simp: ValidateSession_def not_less)
qed

section \<open>Disabled users\<close>

definition locked_out :: "id \<Rightarrow> idb \<Rightarrow> bool" where
  "locked_out i d \<longleftrightarrow> i \<in> u_ID ` set (id_users d) \<and> (\<forall>u \<in> set (id_users d). u_ID u = i \<longrightarrow> u_Status u = UserStatusDisabled)"

lemma evolve_locked: "users_evolve d d' \<Longrightarrow> locked_out i d \<Longrightarrow> locked_out i d'"
proof -
  assume ev: "users_evolve d d'" and lk: "locked_out i d"
  obtain u where u: "u \<in> set (id_users d)" "u_ID u = i" using lk by (auto simp: locked_out_def)
  then obtain u' where "u' \<in> set (id_users d')" "carries u u'" using ev by (auto simp: users_evolve_def)
  then have "i \<in> u_ID ` set (id_users d')" using u(2) by (auto simp: carries_def image_iff intro!: bexI [of _ u'])
  moreover have "u_Status w = UserStatusDisabled" if "w \<in> set (id_users d')" "u_ID w = i" for w
  proof -
    have "\<exists>v \<in> set (id_users d). carries v w" using ev that lk by (auto simp: users_evolve_def locked_out_def)
    then show ?thesis using lk that(2) by (auto simp: locked_out_def carries_def)
  qed
  ultimately show ?thesis by (simp add: locked_out_def)
qed

lemma step_locked:
  assumes "account_step rt ev d d'" "ev \<noteq> Changed i" "locked_out i d"
  shows "locked_out i d'"
proof (cases "\<exists>j. ev = Changed j")
  case True
  then obtain j where "account_step rt (Changed j) d d'" "j \<noteq> i" using assms(1,2) by auto
  from this(1) show ?thesis
  proof (rule changed_step)
    fix f assume us: "id_users d' = update_where (\<lambda>x. u_ID x = j) f (id_users d)" "\<And>x. u_ID (f x) = u_ID x"
    have "u_ID ` set (id_users d') = u_ID ` set (id_users d)"
      using us(2) by (metis image_set map_update_where us(1))
    then show ?thesis using assms(3) us \<open>j \<noteq> i\<close> by (auto simp: locked_out_def set_update_where)
  qed (use assms(3) in simp)
next
  case False
  then show ?thesis using step_users [OF assms(1)] assms(3) evolve_locked by blast
qed

interpretation lockout: absorbing "\<lambda>d d'. \<exists>ev. ev \<noteq> Changed i \<and> account_step rt ev d d'" "\<lambda>d. True" "\<lambda>k :: unit. locked_out i" for rt i
  by unfold_locales (auto intro: step_locked)

lemma locked_find: "locked_out i d \<Longrightarrow> FindOrganizerByID i d = Some u \<Longrightarrow> u_Status u = UserStatusDisabled"
  by (auto simp: locked_out_def dest: find_row)

lemma locked_no_session: "locked_out i d \<Longrightarrow> snd (ValidateSession rt t raw d) = Inr u \<Longrightarrow> u_ID u \<noteq> i"
  by (auto simp: ValidateSession_def locked_out_def dest!: find_row split: option.splits if_splits)

lemma locked_no_login: "locked_out i d \<Longrightarrow> ml_OrganizerID ml = i \<Longrightarrow> verify_commit rt s clk uuid rand ml d \<noteq> Inr r"
  by (cases r) (auto elim!: login_E dest: locked_find)

lemma locked_no_accept:
  assumes "locked_out i d" "AcceptInvite rt ad clk uuid rand raw d = Inr (d', resp)" "ai_TargetUserID iv = i"
  shows "FindLiveInviteByHashTx (tokenDigest rt (trim_space raw)) (clk 0) d \<noteq> Some iv"
  using assms(2)
proof (rule accept_E)
  fix iv' d1 d2 user
  assume *: "FindLiveInviteByHashTx (tokenDigest rt (trim_space raw)) (clk 0) d = Some iv'"
    "ConsumeInviteTx (ai_ID iv') (clk 0) d = Inr d1" "ActivateInvitedUserTx (ai_TargetUserID iv') (clk 0) d1 = Inr (d2, user)"
  obtain x where "x \<in> set (id_users d)" "invited_user (ai_TargetUserID iv') x"
    using *(3) users_unchanged(6) [OF *(2)] affected_one_ex [of "invited_user (ai_TargetUserID iv')" "id_users d1"]
    by (auto simp: ActivateInvitedUserTx_def split: if_splits)
  then have "ai_TargetUserID iv' \<noteq> i" using assms(1) by (auto simp: locked_out_def invited_user_def)
  then show ?thesis using *(1) assms(3) by auto
qed

lemma disabled_locked: "SetUserStatus now aid actor i UserStatusDisabled d = Inr d' \<Longrightarrow> distinct (map u_ID (id_users d)) \<Longrightarrow> locked_out i d'"
proof (erule status_cases)
  fix p target
  assume *: "distinct (map u_ID (id_users d))" "FindOrganizerByID i d = Some target"
    "d' = d \<and> u_Status target = UserStatusDisabled \<or>
     (u_Status target \<noteq> UserStatusDisabled \<and> \<not> (active_admin target \<and> UserStatusDisabled = UserStatusDisabled \<and> CountActiveAdminsTx d \<le> 1) \<and>
      (\<exists>d1. UpdateStatusTx i UserStatusDisabled now d = Inr d1 \<and> id_users d' = id_users d1 \<and> id_sessions d' = id_sessions d1 \<and>
         id_invites d' = id_invites d1 \<and> id_magic_links d' = id_magic_links d1))"
  have t: "target \<in> set (id_users d)" "u_ID target = i" using find_row [OF *(2)] by auto
  have uniq: "u = target" if "u \<in> set (id_users d)" "u_ID u = i" for u
    using find_unique [OF *(1) that(1)] that(2) *(2) by simp
  show ?thesis using *(3)
  proof (elim disjE conjE exE)
    assume d: "d' = d" "u_Status target = UserStatusDisabled"
    have "i \<in> u_ID ` set (id_users d)" using t by blast
    moreover have "\<forall>u \<in> set (id_users d). u_ID u = i \<longrightarrow> u_Status u = UserStatusDisabled"
      using uniq d(2) by metis
    ultimately show ?thesis using d(1) by (simp add: locked_out_def)
  next
    fix d1 assume d1: "UpdateStatusTx i UserStatusDisabled now d = Inr d1" "id_users d' = id_users d1"
    let ?f = "\<lambda>u. u\<lparr>u_Status := UserStatusDisabled, u_UpdatedAt := trunc_sec now\<rparr>"
    have us: "id_users d' = update_where (\<lambda>u. u_ID u = i) ?f (id_users d)" using update_status_users [OF d1(1)] d1(2) by simp
    have "?f target \<in> set (id_users d')" "u_ID (?f target) = i" using t unfolding us set_update_where by auto
    then have "i \<in> u_ID ` set (id_users d')" by (rule rev_image_eqI [OF _ sym])
    moreover have "\<forall>u \<in> set (id_users d'). u_ID u = i \<longrightarrow> u_Status u = UserStatusDisabled"
      unfolding us set_update_where ball_simps by (intro ballI) (simp split: if_split)
    ultimately show ?thesis by (simp add: locked_out_def)
  qed
qed

text \<open>
  C14: a disabled user is locked out. After an administrator has disabled a user, and until the
  user's status or role is set again, no session token is accepted as the user, no magic link of the
  user logs in, and no account invite of the user is accepted, whatever operations come between.
\<close>

theorem disabled_user_locked_out:
  assumes "SetUserStatus now aid actor i UserStatusDisabled d = Inr d1" "distinct (map u_ID (id_users d))"
    and "(\<lambda>d d'. \<exists>ev. ev \<noteq> Changed i \<and> account_step rt ev d d')\<^sup>*\<^sup>* d1 d2"
  shows "(snd (ValidateSession rt t raw d2) = Inr u \<longrightarrow> u_ID u \<noteq> i) \<and>
    (verify_commit rt s clk uuid rand ml d2 = Inr r \<longrightarrow> ml_OrganizerID ml \<noteq> i) \<and>
    (AcceptInvite rt ad clk uuid rand raw d2 = Inr r' \<and> FindLiveInviteByHashTx (tokenDigest rt (trim_space raw)) (clk 0) d2 = Some iv \<longrightarrow>
      ai_TargetUserID iv \<noteq> i)"
proof -
  have "locked_out i d2" by (rule lockout.absorbed_reachable [OF assms(3)]) (simp_all add: disabled_locked [OF assms(1,2)])
  note lk = this
  show ?thesis
  proof (intro conjI impI)
    show "u_ID u \<noteq> i" if "snd (ValidateSession rt t raw d2) = Inr u" by (rule locked_no_session [OF lk that])
    show "ml_OrganizerID ml \<noteq> i" if v: "verify_commit rt s clk uuid rand ml d2 = Inr r"
    proof
      assume "ml_OrganizerID ml = i"
      from locked_no_login [OF lk this, of rt s clk uuid rand r] v show False by simp
    qed
    show "ai_TargetUserID iv \<noteq> i" if a: "AcceptInvite rt ad clk uuid rand raw d2 = Inr r' \<and>
        FindLiveInviteByHashTx (tokenDigest rt (trim_space raw)) (clk 0) d2 = Some iv"
    proof
      assume "ai_TargetUserID iv = i"
      from locked_no_accept [OF lk _ this, of rt ad clk uuid rand raw "fst r'" "snd r'"] a show False by simp
    qed
  qed
qed

end
