(* ===== verification/Security_Samples.thy ===== *)
theory Security_Samples
  imports Samples Rate_Limiter Placeholder_Rewrite Csrf Account_Safety
begin

text \<open>
  Instances on which the hypotheses of the properties of the security and account components hold:
  a limiter with two requests of one key, a proxy chain, CSRF tokens of a session, and a small set
  of accounts with two administrators.
\<close>

section \<open>Rate limits\<close>

definition sample_ops :: "(time \<times> limiter_op) list" where
  "sample_ops = [(0, LAllow ''a''), (5, LAllow ''a''), (6, LCleanup), (20, LAllow ''a'')]"

theorem rate_limiter_refines_window_witness:
  "sorted (map fst sample_ops) \<and>
   run limiter_step (NewRateLimiter 1 10) sample_ops = run (window_step 1 10) [] sample_ops \<and>
   run (window_step 1 10) [] sample_ops = [Some True, Some False, None, Some True]"
  using rate_limiter_refines_window [of sample_ops 1 10]
  by (simp add: sample_ops_def recent_def log_times_def)

theorem rate_limit_every_window_witness:
  "sorted (map fst sample_ops) \<and>
   int (length (filter (\<lambda>t. 0 \<le> t \<and> t \<le> 0 + 10)
      (allowed_times ''a'' sample_ops (run limiter_step (NewRateLimiter 1 10) sample_ops)))) \<le> 1"
  using rate_limit_every_window [of sample_ops "''a''" 1 0 10] by (simp add: sample_ops_def)

section \<open>Proxies\<close>

text \<open>A network library that reads three addresses: the proxy, a client, and an address the client claims.\<close>

definition sample_net :: netlib where
  "sample_net = \<lparr> nl_parse_ip = (\<lambda>s. if s = ''P'' then Some [10, 0, 0, 1] else if s = ''C'' then Some [192, 0, 2, 7]
       else if s = ''X'' then Some [8, 8, 8, 8] else None),
     nl_parse_cidr = (\<lambda>s. None), nl_ip_string = (\<lambda>a. if a = [192, 0, 2, 7] then ''C'' else ''X'') \<rparr>"

definition sample_http :: http_request where
  "sample_http = \<lparr> hr_method = ''POST'', hr_path = ''/api/v1/events'',
     hr_header = (\<lambda>n. if n = ''X-Forwarded-For'' then [''X,C''] else []),
     hr_cookie = Map.empty, hr_remote_addr = ''P:80'', hr_tls = False, hr_trusted = False \<rparr>"

lemma full_mask: "cidr_mask_full 32 = [255, 255, 255, 255]"
proof -
  have "32 div 8 = Suc (Suc (Suc (Suc 0)))" by simp
  then show ?thesis by (simp only: cidr_mask_full_def replicate.simps)
qed

lemma sample_networks: "trustedNetworks sample_net [''P''] = [\<lparr> net_IP = [10, 0, 0, 1], net_Mask = [255, 255, 255, 255] \<rparr>]"
  by (simp add: trustedNetworks_def trusted_network_def sample_net_def to4_def full_mask string_eval)

lemmas net_eval = ipInNetworks_def net_contains_def network_number_and_mask_def to4_def Let_def upt_rec


theorem untrusted_forwarding_ignored_witness:
  "isSecureRequest (TrustedProxyMiddleware sample_net [''X''] sample_http) = False \<and>
   hr_remote_addr (TrustedProxyMiddleware sample_net [''X''] sample_http) = ''P:80''"
proof -
  have nets: "trustedNetworks sample_net [''X''] = [\<lparr> net_IP = [8, 8, 8, 8], net_Mask = [255, 255, 255, 255] \<rparr>]"
    by (simp add: trustedNetworks_def trusted_network_def sample_net_def to4_def full_mask string_eval)
  have peer: "remoteIPAndPort sample_net ''P:80'' = (Some [10, 0, 0, 1], ''80'')"
    by (simp add: remoteIPAndPort_def sample_net_def split_host_port_def last_index_of_def index_of_def trim_brackets_def Let_def)
  have req: "hr_remote_addr sample_http = ''P:80''" "\<not> hr_trusted sample_http" "\<not> hr_tls sample_http"
    by (simp_all add: sample_http_def)
  have "case remoteIPAndPort sample_net (hr_remote_addr sample_http) of (None, _) \<Rightarrow> True
      | (Some p, _) \<Rightarrow> \<not> ipInNetworks p (trustedNetworks sample_net [''X''])"
    unfolding req(1) nets peer by (simp add: net_eval)
  from untrusted_forwarding_ignored [OF this req(2), THEN conjunct2] show ?thesis unfolding req(1) using req(3) by simp
qed

section \<open>CSRF tokens\<close>

text \<open>A token minted for the session \<open>s1\<close>, and the requests that carry it.\<close>

definition sample_token :: string where
  "sample_token = ''6162.'' @ hex_encode ''6162s1''"

definition page_load :: http_request where
  "page_load = sample_http\<lparr>hr_method := ''GET'', hr_cookie := [''session'' \<mapsto> ''s1'']\<rparr>"

definition mutation :: http_request where
  "mutation = sample_http\<lparr>hr_cookie := [''session'' \<mapsto> ''s1'', ''csrf_token'' \<mapsto> sample_token],
     hr_header := (\<lambda>n. if n = ''X-Csrf-Token'' then [sample_token] else [])\<rparr>"

lemma hex_sample: "hex_encode ''ab'' = ''6162''"
  by (simp add: hex_encode_def hex_digit_def)

lemma sample_built: "buildCSRFToken sample_rt ''key'' (Some ''ab'') ''s1'' = Some sample_token"
  by (simp add: buildCSRFToken_def generateCSRFNonce_def computeCSRFHMAC_def sample_token_def sample_rt_def hex_sample)

theorem csrf_token_bound_to_session_witness:
  "buildCSRFToken sample_rt ''key'' (Some ''ab'') ''s1'' = Some sample_token \<and>
   verifyCSRFToken sample_rt ''key'' sample_token sample_token ''s1'' \<and>
   \<not> verifyCSRFToken sample_rt ''key'' sample_token sample_token ''s2'' \<and>
   \<not> verifyCSRFToken sample_rt ''key'' sample_token sample_token []"
  using csrf_token_bound_to_session [OF sample_built] sample_built by (simp add: sample_rt_def hex_sample)

lemma sample_requests: "session_value page_load = ''s1''" "session_value mutation = ''s1''"
  "\<not> csrf_exempt [] page_load" "\<not> csrf_exempt [] mutation" "safe_verb (hr_method page_load)" "\<not> safe_verb (hr_method mutation)"
  by (simp_all add: session_value_def page_load_def mutation_def csrf_exempt_def header_get_def safe_verb_def sample_http_def)

theorem csrf_mutation_needs_token_witness: "CSRFMiddleware sample_rt ''key'' [] None mutation = CsrfNext None"
proof -
  have "\<exists>token. token \<noteq> [] \<and> hr_cookie mutation ''csrf_token'' = Some token \<and> header_get mutation ''X-Csrf-Token'' = token \<and>
        (\<exists>nonce. nonce \<noteq> [] \<and> CHR ''.'' \<notin> set nonce \<and> token = nonce @ ''.'' @ computeCSRFHMAC sample_rt ''key'' nonce ''s1'')"
    by (intro exI [of _ sample_token] conjI exI [of _ "''6162''"])
      (simp_all add: mutation_def header_get_def sample_token_def computeCSRFHMAC_def sample_rt_def)
  then show ?thesis
    using csrf_mutation_needs_token [OF sample_requests(4,6), of sample_rt "''key''" None] by (simp add: sample_requests(2))
qed

theorem csrf_safe_request_prepares_mutation_witness:
  "CSRFMiddleware sample_rt ''key'' [] (Some ''ab'') page_load = CsrfNext (Some (setCSRFCookie page_load sample_token)) \<and>
   CSRFMiddleware sample_rt ''key'' [] None mutation = CsrfNext None"
proof -
  have load: "CSRFMiddleware sample_rt ''key'' [] (Some ''ab'') page_load = CsrfNext (Some (setCSRFCookie page_load sample_token))"
    using sample_requests by (simp add: CSRFMiddleware_def needsCSRFRebind_def sample_built page_load_def)
  have "CSRFMiddleware sample_rt ''key'' [] None mutation = CsrfNext None"
    by (rule csrf_safe_request_prepares_mutation [OF sample_requests(3,5) load _ _ _ sample_requests(4,6)])
      (simp_all add: sample_requests, simp_all add: page_load_def mutation_def token_after_def setCSRFCookie_def header_get_def)
  with load show ?thesis by blast
qed

section \<open>Accounts\<close>

definition sample_user :: "id \<Rightarrow> string \<Rightarrow> User" where
  "sample_user i role = \<lparr> u_ID = i, u_Email = i, u_NormalizedEmail = i, u_Name = [], u_Timezone = ''UTC'',
     u_InstanceRole = role, u_Status = UserStatusActive, u_InvitedByUserID = None, u_ActivatedAt = Some 0,
     u_LastLoginAt = None, u_CreatedAt = 0, u_UpdatedAt = 0 \<rparr>"

text \<open>Two administrators, a user, and a magic link of the user that was used by no one yet.\<close>

definition sample_link :: MagicLink where
  "sample_link = \<lparr> ml_ID = ''m1'', ml_TokenHash = ''h'', ml_OrganizerID = ''u3'', ml_ExpiresAt = 900 * second,
     ml_UsedAt = None, ml_CreatedAt = 0 \<rparr>"

definition sample_ids :: idb where
  "sample_ids = \<lparr> id_users = [sample_user ''u1'' ''admin'', sample_user ''u2'' ''admin'', sample_user ''u3'' ''user''],
     id_magic_links = [sample_link], id_sessions = [], id_invites = [], id_events = [], id_series = [], id_memberships = [], id_audit = [] \<rparr>"

definition sample_auth :: auth_service where
  "sample_auth = \<lparr> as_cfg = \<lparr> cfg_AllowSignups = False, cfg_MagicLinkExpiry = 900 * second, cfg_SessionExpiry = 3600 * second,
       cfg_AccountInviteExpiry = 3600 * second, cfg_BaseURL = ''https://x'', cfg_DefaultTimezone = ''UTC'',
       cfg_InstanceName = ''Owl'', cfg_MaxCoHostsPerEvent = 2, cfg_development = False \<rparr>,
     as_sendEmail = None, as_RenderMagicLink = (\<lambda>u t m. None) \<rparr>"

definition disabled_ids :: "id \<Rightarrow> idb" where
  "disabled_ids i = sample_ids\<lparr>id_users := map (\<lambda>u. if u_ID u = i then u\<lparr>u_Status := UserStatusDisabled, u_UpdatedAt := 0\<rparr> else u) (id_users sample_ids),
     id_audit := [\<lparr> ae_ID = ''a1'', ae_ActorUserID = Some ''u1'', ae_ActorKind = ''user'', ae_Action = ''user_disabled'',
        ae_TargetUserID = Some i, ae_EventID = None, ae_Metadata = [(''from'', ''active''), (''to'', ''disabled'')], ae_CreatedAt = 0 \<rparr>]\<rparr>"

lemmas account_eval = SetUserStatus_def changeUser_def LockAdminMutationTx_def admin_actor_def FindOrganizerByID_def
  is_active_admin_def IsAdmin_def CountActiveAdminsTx_def active_admin_def UpdateStatusTx_def RevokePendingInvitesTx_def
  InsertAuditTx_def id_insert_defs user_ids_def trunc_sec_def select_row_def update_where_def affected_def delete_where_def
  add_row_def or_err_def sample_user_def sample_ids_def Let_def

lemma sample_disabled:
  "i \<in> {''u2'', ''u3''} \<Longrightarrow> SetUserStatus 0 ''a1'' (Some (sample_user ''u1'' ''admin'')) i UserStatusDisabled sample_ids = Inr (disabled_ids i)"
  by (auto simp: account_eval disabled_ids_def)

lemma sample_ids_distinct: "distinct (map u_ID (id_users sample_ids))"
  by (simp add: sample_ids_def sample_user_def)

theorem administrator_remains_witness:
  "(\<lambda>d d'. \<exists>ev. account_step sample_rt ev d d')\<^sup>*\<^sup>* sample_ids (disabled_ids ''u2'') \<and> 1 \<le> CountActiveAdminsTx (disabled_ids ''u2'')"
proof -
  have "account_step sample_rt (Changed ''u2'') sample_ids (disabled_ids ''u2'')"
    by (rule account_step.status [OF sample_disabled]) simp
  then have r: "(\<lambda>d d'. \<exists>ev. account_step sample_rt ev d d')\<^sup>*\<^sup>* sample_ids (disabled_ids ''u2'')" by blast
  moreover have "1 \<le> CountActiveAdminsTx sample_ids" by (simp add: account_eval)
  ultimately show ?thesis using administrator_remains [OF r sample_ids_distinct] by blast
qed

theorem disabled_user_locked_out_witness:
  "SetUserStatus 0 ''a1'' (Some (sample_user ''u1'' ''admin'')) ''u3'' UserStatusDisabled sample_ids = Inr (disabled_ids ''u3'') \<and>
   (\<forall>r. verify_commit sample_rt sample_auth (\<lambda>k. 0) (\<lambda>k. ''s'') (Some ''ab'') sample_link (disabled_ids ''u3'') \<noteq> Inr r)"
proof -
  have d: "SetUserStatus 0 ''a1'' (Some (sample_user ''u1'' ''admin'')) ''u3'' UserStatusDisabled sample_ids = Inr (disabled_ids ''u3'')"
    by (rule sample_disabled) simp
  have l: "ml_OrganizerID sample_link = ''u3''" by (simp add: sample_link_def)
  have "verify_commit sample_rt sample_auth (\<lambda>k. 0) (\<lambda>k. ''s'') (Some ''ab'') sample_link (disabled_ids ''u3'') \<noteq> Inr r" for r
    using disabled_user_locked_out [OF d sample_ids_distinct rtranclp.rtrancl_refl, THEN conjunct2, THEN conjunct1] l
    by (cases r) metis
  with d show ?thesis by blast
qed

definition logged_in :: idb where
  "logged_in = sample_ids\<lparr>id_magic_links := [sample_link\<lparr>ml_UsedAt := Some 0\<rparr>],
     id_sessions := [\<lparr> se_ID = ''s'', se_TokenHash = auth_hashToken sample_rt ''6162'', se_OrganizerID = ''u3'',
        se_ExpiresAt = 3600 * second, se_CreatedAt = 0 \<rparr>],
     id_users := [sample_user ''u1'' ''admin'', sample_user ''u2'' ''admin'', (sample_user ''u3'' ''user'')\<lparr>u_LastLoginAt := Some 0\<rparr>]\<rparr>"

lemma sample_login:
  "verify_commit sample_rt sample_auth (\<lambda>k. 0) (\<lambda>k. ''s'') (Some ''ab'') sample_link sample_ids =
    Inr (logged_in, \<lparr> ar_Token = ''6162'', ar_Organizer = (sample_user ''u3'' ''user'')\<lparr>u_LastLoginAt := Some 0\<rparr> \<rparr>)"
  by (simp add: verify_commit_def markMagicLinkUsed_def createSession_def TouchLastLoginTx_def active_user_def unused_link_def account_eval
    sample_link_def sample_auth_def logged_in_def hex_sample second_def)

theorem magic_link_single_use_witness:
  "(\<exists>r. verify_commit sample_rt sample_auth (\<lambda>k. 0) (\<lambda>k. ''s'') (Some ''ab'') sample_link sample_ids = Inr (logged_in, r)) \<and>
   (\<exists>e. verify_commit sample_rt sample_auth (\<lambda>k. 1) (\<lambda>k. ''t'') (Some ''cd'') sample_link logged_in = Inl e)"
proof -
  have "distinct (map ml_ID (id_magic_links sample_ids))" by (simp add: sample_ids_def)
  from magic_link_single_use [OF this sample_login rtranclp.rtrancl_refl refl] sample_login show ?thesis by blast
qed

theorem login_opens_session_witness:
  "verify_commit sample_rt sample_auth (\<lambda>k. 0) (\<lambda>k. ''s'') (Some ''ab'') sample_link sample_ids =
    Inr (logged_in, \<lparr> ar_Token = ''6162'', ar_Organizer = (sample_user ''u3'' ''user'')\<lparr>u_LastLoginAt := Some 0\<rparr> \<rparr>) \<and>
   (\<exists>u. snd (ValidateSession sample_rt 1 ''6162'' logged_in) = Inr u \<and> u_ID u = ''u3'' \<and> u_Status u = UserStatusActive)"
  using login_opens_session [OF sample_login, of 1] sample_login
  by (simp add: sample_link_def sample_auth_def trunc_sec_def second_def)

end
