(* ===== verification/Event_Service.thy ===== *)
theory Event_Service
  imports Auth_Service
begin

text \<open>
  Events and their members: the stores and the service of \<open>internal/event\<close> (\<open>store.go\<close>,
  \<open>cohost_store.go\<close>, \<open>service.go\<close>).

  An event read from the database carries its owner, which the query takes from the memberships;
  an event without an owner cannot be scanned. The operations of the service read the event, check
  the access and write the whole row back, each with a statement of its own: the reading part is
  \<open>managed_event\<close> or \<open>owned_event\<close>, the writing part \<open>StoreUpdateEvent\<close>. Callbacks that the server
  registers are the last component of a result, in the order of the calls.
\<close>

section \<open>Data\<close>

record Event = event_row +
  e_OrganizerID :: id

record CreateEventRequest =
  cer_Title :: string
  cer_Description :: string
  cer_EventDate :: string
  cer_EndDate :: "string option"
  cer_Location :: string
  cer_Timezone :: string
  cer_RetentionDays :: "int option"
  cer_ShowHeadcount :: "bool option"
  cer_ShowGuestList :: "bool option"
  cer_RSVPDeadline :: "string option"

record UpdateEventRequest =
  uer_Title :: "string option"
  uer_Description :: "string option"
  uer_EventDate :: "string option"
  uer_EndDate :: "string option"
  uer_Location :: "string option"
  uer_Timezone :: "string option"
  uer_RetentionDays :: "int option"
  uer_ShowHeadcount :: "bool option"
  uer_ShowGuestList :: "bool option"
  uer_RSVPDeadline :: "string option"

record CoHost =
  ch_ID :: id
  ch_EventID :: id
  ch_UserID :: id
  ch_OrganizerID :: id
  ch_Role :: string
  ch_GrantedByUserID :: id
  ch_AddedBy :: id
  ch_CreatedAt :: time
  ch_Email :: string
  ch_Name :: string
  ch_OrganizerEmail :: string
  ch_OrganizerName :: string

datatype event_call = OnPublish Event | OnDuplicate id id | OnCancel Event

text \<open>
  \<open>evs_time_parse\<close> is \<open>time.Parse\<close>, layout first. The callbacks are registered or not.
\<close>

record event_service =
  evs_defaultRetention :: int
  evs_onPublish :: bool
  evs_onDuplicate :: bool
  evs_onCancel :: bool
  evs_time_parse :: "string \<Rightarrow> string \<Rightarrow> time option"

section \<open>The event store\<close>

definition is_owner_row :: "id \<Rightarrow> membership_row \<Rightarrow> bool" where
  "is_owner_row eventID m \<longleftrightarrow> mb_event_id m = eventID \<and> mb_role m = ''owner''"

definition owner_of :: "id \<Rightarrow> idb \<Rightarrow> id option" where
  "owner_of eventID d = map_option mb_user_id (select_row (is_owner_row eventID) (id_memberships d))"

definition scanEvent :: "idb \<Rightarrow> event_row \<Rightarrow> Event id_result" where
  "scanEvent d r = rbind (or_err (owner_of (e_ID r) d) (IdInternal ''scan event''))
     (\<lambda>owner. Inr (event_row.extend r (Event.fields owner)))"

definition FindEventByID :: "id \<Rightarrow> idb \<Rightarrow> Event option id_result" where
  "FindEventByID i d = (case select_row (\<lambda>r. e_ID r = i) (id_events d) of
      None \<Rightarrow> Inr None
    | Some r \<Rightarrow> rbind (scanEvent d r) (\<lambda>e. Inr (Some e)))"

fun scan_events :: "idb \<Rightarrow> event_row list \<Rightarrow> Event list id_result" where
  "scan_events d [] = Inr []"
| "scan_events d (r # rs) = rbind (scanEvent d r) (\<lambda>e. rbind (scan_events d rs) (\<lambda>es. Inr (e # es)))"

text \<open>The columns that the store writes: times are formatted to the second.\<close>

definition stored_event :: "'x event_row_scheme \<Rightarrow> time \<Rightarrow> time \<Rightarrow> event_row" where
  "stored_event e created now =
    (event_row.truncate e)\<lparr>e_EventDate := trunc_sec (e_EventDate e), e_EndDate := map_option trunc_sec (e_EndDate e),
      e_RSVPDeadline := map_option trunc_sec (e_RSVPDeadline e), e_CreatedAt := created, e_UpdatedAt := now\<rparr>"

definition owner_membership :: "id \<Rightarrow> time \<Rightarrow> Event \<Rightarrow> membership_row" where
  "owner_membership mid now e = \<lparr> mb_id = mid, mb_event_id = e_ID e, mb_user_id = e_OrganizerID e, mb_role = ''owner'',
     mb_granted_by_user_id = e_OrganizerID e, mb_created_at = trunc_sec now, mb_updated_at = trunc_sec now \<rparr>"

definition createEvent :: "id \<Rightarrow> time \<Rightarrow> Event \<Rightarrow> idb \<Rightarrow> (idb \<times> Event) id_result" where
  "createEvent mid now e d =
    rbind (or_err (insert_event (stored_event e (trunc_sec now) (trunc_sec now)) d) (IdInternal ''create event'')) (\<lambda>d.
    rbind (or_err (insert_membership (owner_membership mid now e) d) (IdInternal ''create owner membership'')) (\<lambda>d.
    Inr (d, e\<lparr>e_CreatedAt := trunc_sec now, e_UpdatedAt := trunc_sec now\<rparr>)))"

definition newest_first :: "event_row \<Rightarrow> event_row \<Rightarrow> bool" where
  "newest_first a b \<longleftrightarrow> e_EventDate b < e_EventDate a"

definition oldest_first :: "event_row \<Rightarrow> event_row \<Rightarrow> bool" where
  "oldest_first a b \<longleftrightarrow> e_EventDate a < e_EventDate b"

definition FindByOrganizerID :: "id \<Rightarrow> idb \<Rightarrow> Event list id_result" where
  "FindByOrganizerID organizerID d =
    (let member = (\<lambda>i. list_ex (\<lambda>m. mb_event_id m = i \<and> mb_user_id m = organizerID) (id_memberships d)) in
     scan_events d (order_by newest_first (filter (\<lambda>r. member (e_ID r) \<and> e_Status r \<noteq> ''archived'') (id_events d))))"

definition active_member :: "idb \<Rightarrow> id \<Rightarrow> id \<Rightarrow> membership_row \<Rightarrow> bool" where
  "active_member d eventID userID m \<longleftrightarrow> mb_event_id m = eventID \<and> mb_user_id m = userID \<and>
    list_ex (\<lambda>u. u_ID u = userID \<and> u_Status u = UserStatusActive) (id_users d)"

definition FindMembershipRole :: "id \<Rightarrow> id \<Rightarrow> idb \<Rightarrow> string" where
  "FindMembershipRole eventID userID d =
    (case select_row (active_member d eventID userID) (id_memberships d) of None \<Rightarrow> [] | Some m \<Rightarrow> mb_role m)"

definition FindByIDs :: "id list \<Rightarrow> idb \<Rightarrow> Event list id_result" where
  "FindByIDs ids d = (if ids = [] then Inr []
     else scan_events d (order_by newest_first (filter (\<lambda>r. e_ID r \<in> set ids \<and> e_Status r \<noteq> ''archived'') (id_events d))))"

definition StoreUpdateEvent :: "time \<Rightarrow> Event \<Rightarrow> idb \<Rightarrow> (idb \<times> Event) id_result" where
  "StoreUpdateEvent now e d =
    (if list_ex (\<lambda>r. e_ID r = e_ID e) (id_events d) \<and> \<not> event_checks d e then Inl (IdInternal ''update event'')
     else Inr (d\<lparr>id_events := update_where (\<lambda>r. e_ID r = e_ID e) (\<lambda>r. stored_event e (e_CreatedAt r) (trunc_sec now)) (id_events d)\<rparr>,
               e\<lparr>e_UpdatedAt := trunc_sec now\<rparr>))"

text \<open>The rows that go, or lose their reference, with a deleted event.\<close>

definition cascade_event :: "(id \<Rightarrow> bool) \<Rightarrow> idb \<Rightarrow> idb" where
  "cascade_event gone d = d\<lparr>id_events := delete_where (\<lambda>r. gone (e_ID r)) (id_events d),
     id_memberships := delete_where (\<lambda>m. gone (mb_event_id m)) (id_memberships d),
     id_invites := delete_where (\<lambda>r. case ai_EventID r of None \<Rightarrow> False | Some i \<Rightarrow> gone i) (id_invites d),
     id_audit := update_where (\<lambda>a. case ae_EventID a of None \<Rightarrow> False | Some i \<Rightarrow> gone i) (\<lambda>a. a\<lparr>ae_EventID := None\<rparr>) (id_audit d)\<rparr>"

definition StoreDeleteEvent :: "id \<Rightarrow> idb \<Rightarrow> idb" where
  "StoreDeleteEvent i d = cascade_event (\<lambda>x. x = i) d"

definition future_of_series :: "id \<Rightarrow> time \<Rightarrow> event_row \<Rightarrow> bool" where
  "future_of_series seriesID now r \<longleftrightarrow> e_SeriesID r = Some seriesID \<and> trunc_sec now < e_EventDate r \<and>
    e_Status r \<noteq> ''cancelled'' \<and> e_Status r \<noteq> ''archived''"

definition FindFutureBySeriesID :: "id \<Rightarrow> time \<Rightarrow> idb \<Rightarrow> Event list id_result" where
  "FindFutureBySeriesID seriesID now d = scan_events d (order_by oldest_first (filter (future_of_series seriesID now) (id_events d)))"

definition CountBySeriesID :: "id \<Rightarrow> idb \<Rightarrow> nat" where
  "CountBySeriesID seriesID d = affected (\<lambda>r. e_SeriesID r = Some seriesID) (id_events d)"

definition FindBySeriesID :: "id \<Rightarrow> idb \<Rightarrow> Event list id_result" where
  "FindBySeriesID seriesID d = scan_events d (order_by oldest_first (filter (\<lambda>r. e_SeriesID r = Some seriesID) (id_events d)))"

section \<open>The co-host store\<close>

definition cohost_view :: "membership_row \<Rightarrow> string \<Rightarrow> string \<Rightarrow> CoHost" where
  "cohost_view m email name = \<lparr> ch_ID = mb_id m, ch_EventID = mb_event_id m, ch_UserID = mb_user_id m, ch_OrganizerID = mb_user_id m,
     ch_Role = mb_role m, ch_GrantedByUserID = mb_granted_by_user_id m, ch_AddedBy = mb_granted_by_user_id m, ch_CreatedAt = mb_created_at m,
     ch_Email = email, ch_Name = name, ch_OrganizerEmail = email, ch_OrganizerName = name \<rparr>"

definition CreateCoHost :: "time \<Rightarrow> CoHost \<Rightarrow> idb \<Rightarrow> (idb \<times> CoHost) id_result" where
  "CreateCoHost now ch d =
    (let userID = (if ch_UserID ch = [] then ch_OrganizerID ch else ch_UserID ch);
         grantedBy = (if ch_GrantedByUserID ch = [] then ch_AddedBy ch else ch_GrantedByUserID ch) in
     rbind (or_err (insert_membership \<lparr> mb_id = ch_ID ch, mb_event_id = ch_EventID ch, mb_user_id = userID, mb_role = ch_Role ch,
         mb_granted_by_user_id = grantedBy, mb_created_at = trunc_sec now, mb_updated_at = trunc_sec now \<rparr> d) (IdInternal ''create co-host'')) (\<lambda>d.
     Inr (d, ch\<lparr>ch_CreatedAt := trunc_sec now, ch_UserID := userID, ch_OrganizerID := userID, ch_GrantedByUserID := grantedBy, ch_AddedBy := grantedBy\<rparr>)))"

definition FindCoHostsByEventID :: "id \<Rightarrow> idb \<Rightarrow> CoHost list" where
  "FindCoHostsByEventID eventID d = List.map_filter
     (\<lambda>m. map_option (\<lambda>u. cohost_view m (u_Email u) (u_Name u)) (FindOrganizerByID (mb_user_id m) d))
     (order_by (\<lambda>a b. mb_created_at a < mb_created_at b) (filter (\<lambda>m. mb_event_id m = eventID \<and> mb_role m = ''cohost'') (id_memberships d)))"

definition FindByEventAndOrganizer :: "id \<Rightarrow> id \<Rightarrow> idb \<Rightarrow> CoHost option" where
  "FindByEventAndOrganizer eventID organizerID d = map_option (\<lambda>m. cohost_view m [] [])
     (select_row (\<lambda>m. mb_event_id m = eventID \<and> mb_user_id m = organizerID \<and> mb_role m = ''cohost'') (id_memberships d))"

definition FindCoHostByID :: "id \<Rightarrow> idb \<Rightarrow> CoHost option" where
  "FindCoHostByID i d = map_option (\<lambda>m. cohost_view m [] [])
     (select_row (\<lambda>m. mb_id m = i \<and> mb_role m = ''cohost'') (id_memberships d))"

definition FindCohostedEventIDs :: "id \<Rightarrow> idb \<Rightarrow> id list" where
  "FindCohostedEventIDs organizerID d =
    map mb_event_id (filter (\<lambda>m. mb_user_id m = organizerID \<and> mb_role m = ''cohost'') (id_memberships d))"

definition DeleteCoHost :: "id \<Rightarrow> idb \<Rightarrow> idb" where
  "DeleteCoHost i d = d\<lparr>id_memberships := delete_where (\<lambda>m. mb_id m = i \<and> mb_role m = ''cohost'') (id_memberships d)\<rparr>"

definition CountCoHostsByEventID :: "id \<Rightarrow> idb \<Rightarrow> nat" where
  "CountCoHostsByEventID eventID d = affected (\<lambda>m. mb_event_id m = eventID \<and> mb_role m = ''cohost'') (id_memberships d)"

section \<open>Access\<close>

definition CanManageEvent :: "id \<Rightarrow> id \<Rightarrow> idb \<Rightarrow> bool id_result" where
  "CanManageEvent eventID organizerID d =
    rbind (FindEventByID eventID d) (\<lambda>ev. case ev of
        None \<Rightarrow> Inr False
      | Some _ \<Rightarrow> (let role = FindMembershipRole eventID organizerID d in Inr (role = ''owner'' \<or> role = ''cohost'')))"

definition IsEventOwner :: "id \<Rightarrow> id \<Rightarrow> idb \<Rightarrow> bool id_result" where
  "IsEventOwner eventID organizerID d =
    rbind (FindEventByID eventID d) (\<lambda>ev. case ev of
        None \<Rightarrow> Inr False
      | Some _ \<Rightarrow> Inr (FindMembershipRole eventID organizerID d = ''owner''))"

text \<open>The beginning of the operations of members, and of those of the owner.\<close>

definition managed_event :: "id \<Rightarrow> id \<Rightarrow> idb \<Rightarrow> Event id_result" where
  "managed_event eventID organizerID d =
    rbind (FindEventByID eventID d) (\<lambda>ev.
    rbind (or_err ev IdNotFound) (\<lambda>e.
    rbind (CanManageEvent eventID organizerID d) (\<lambda>canManage.
    rbind (guard canManage IdForbidden) (\<lambda>_. Inr e))))"

definition owned_event :: "id \<Rightarrow> id \<Rightarrow> idb \<Rightarrow> Event id_result" where
  "owned_event eventID organizerID d =
    rbind (FindEventByID eventID d) (\<lambda>ev.
    rbind (or_err ev IdNotFound) (\<lambda>e.
    rbind (IsEventOwner eventID organizerID d) (\<lambda>isOwner.
    rbind (guard isOwner IdForbidden) (\<lambda>_. Inr e))))"

section \<open>Operations of the service\<close>

definition maxTitleLen :: nat where "maxTitleLen = 200"
definition maxDescriptionLen :: nat where "maxDescriptionLen = 5000"
definition maxLocationLen :: nat where "maxLocationLen = 500"

definition too_long :: "string \<Rightarrow> nat \<Rightarrow> id_error" where
  "too_long field limit = IdValidation (field @ '' must be '' @ itoa (int limit) @ '' characters or less'')"

definition flexible_layouts :: "string list" where
  "flexible_layouts = [''2006-01-02T15:04:05Z07:00'', ''2006-01-02T15:04:05'', ''2006-01-02T15:04'']"

definition parseFlexibleTime :: "event_service \<Rightarrow> string \<Rightarrow> time id_result" where
  "parseFlexibleTime s text =
    or_err (case List.map_filter (\<lambda>f. evs_time_parse s f text) flexible_layouts of [] \<Rightarrow> None | t # _ \<Rightarrow> Some t)
      (IdValidation (''unrecognized datetime format: '' @ text))"

text \<open>An error of the parser, wrapped with the name of the field; it stays a validation error.\<close>

definition parse_field :: "event_service \<Rightarrow> string \<Rightarrow> string \<Rightarrow> time id_result" where
  "parse_field s field text = (case parseFlexibleTime s text of
      Inl (IdValidation msg) \<Rightarrow> Inl (IdValidation (''invalid '' @ field @ '' format: '' @ msg))
    | r \<Rightarrow> r)"

definition optional_time :: "event_service \<Rightarrow> string \<Rightarrow> string option \<Rightarrow> time option id_result" where
  "optional_time s field text = (case text of
      None \<Rightarrow> Inr None
    | Some v \<Rightarrow> if v = [] then Inr None else rbind (parse_field s field v) (\<lambda>t. Inr (Some t)))"

definition check_deadline :: "time \<Rightarrow> time option \<Rightarrow> unit id_result" where
  "check_deadline eventDate deadline =
    guard (case deadline of None \<Rightarrow> True | Some t \<Rightarrow> \<not> eventDate < t) (IdValidation ''RSVP deadline must be on or before the event date'')"

definition CreateEvent ::
  "event_service \<Rightarrow> (nat \<Rightarrow> id) \<Rightarrow> time \<Rightarrow> id \<Rightarrow> CreateEventRequest \<Rightarrow> idb \<Rightarrow> (idb \<times> Event \<times> event_call list) id_result" where
  "CreateEvent s uuid now organizerID req d =
    rbind (guard (cer_Title req \<noteq> []) (IdValidation ''title is required'')) (\<lambda>_.
    rbind (guard (length (cer_Title req) \<le> maxTitleLen) (too_long ''title'' maxTitleLen)) (\<lambda>_.
    rbind (guard (length (cer_Description req) \<le> maxDescriptionLen) (too_long ''description'' maxDescriptionLen)) (\<lambda>_.
    rbind (guard (length (cer_Location req) \<le> maxLocationLen) (too_long ''location'' maxLocationLen)) (\<lambda>_.
    rbind (guard (cer_EventDate req \<noteq> []) (IdValidation ''eventDate is required'')) (\<lambda>_.
    rbind (parse_field s ''eventDate'' (cer_EventDate req)) (\<lambda>eventDate.
    rbind (optional_time s ''endDate'' (cer_EndDate req)) (\<lambda>endDate.
    rbind (optional_time s ''rsvpDeadline'' (cer_RSVPDeadline req)) (\<lambda>rsvpDeadline.
    rbind (check_deadline eventDate rsvpDeadline) (\<lambda>_.
    let e = \<lparr> e_ID = uuid 0, e_Title = cer_Title req, e_Description = cer_Description req, e_EventDate = eventDate, e_EndDate = endDate,
          e_Location = cer_Location req, e_Timezone = (if cer_Timezone req = [] then ''America/New_York'' else cer_Timezone req),
          e_RetentionDays = (case cer_RetentionDays req of Some n \<Rightarrow> if 0 < n then n else evs_defaultRetention s | None \<Rightarrow> evs_defaultRetention s),
          e_Status = ''draft'', e_ShowHeadcount = (cer_ShowHeadcount req = Some True), e_ShowGuestList = (cer_ShowGuestList req = Some True),
          e_RSVPDeadline = rsvpDeadline, e_SeriesID = None, e_SeriesIndex = None, e_SeriesOverride = False,
          e_CreatedAt = 0, e_UpdatedAt = 0, e_OrganizerID = organizerID \<rparr> in
    rbind (createEvent (uuid 1) now e d) (\<lambda>(d, e). Inr (d, e, [])))))))))))"

definition GetByID :: "id \<Rightarrow> idb \<Rightarrow> Event id_result" where
  "GetByID i d = rbind (FindEventByID i d) (\<lambda>e. or_err e IdNotFound)"

definition ListByOrganizer :: "id \<Rightarrow> idb \<Rightarrow> Event list id_result" where
  "ListByOrganizer organizerID d = FindByOrganizerID organizerID d"

text \<open>A field of the request, checked and set if it is present; the fields in the order of the code.\<close>

definition set_field :: "'a option \<Rightarrow> ('a \<Rightarrow> Event \<Rightarrow> Event id_result) \<Rightarrow> Event \<Rightarrow> Event id_result" where
  "set_field v f e = (case v of None \<Rightarrow> Inr e | Some x \<Rightarrow> f x e)"

definition apply_update :: "event_service \<Rightarrow> UpdateEventRequest \<Rightarrow> Event \<Rightarrow> Event id_result" where
  "apply_update s req e = loop (\<lambda>e set. set e) e
    [set_field (uer_Title req) (\<lambda>v e. if maxTitleLen < length v then Inl (too_long ''title'' maxTitleLen) else Inr (e\<lparr>e_Title := v\<rparr>)),
     set_field (uer_Description req) (\<lambda>v e. if maxDescriptionLen < length v then Inl (too_long ''description'' maxDescriptionLen)
        else Inr (e\<lparr>e_Description := v\<rparr>)),
     set_field (uer_EventDate req) (\<lambda>v e. rbind (parse_field s ''eventDate'' v) (\<lambda>t. Inr (e\<lparr>e_EventDate := t\<rparr>))),
     set_field (uer_EndDate req) (\<lambda>v e. if v = [] then Inr (e\<lparr>e_EndDate := None\<rparr>)
        else rbind (parse_field s ''endDate'' v) (\<lambda>t. Inr (e\<lparr>e_EndDate := Some t\<rparr>))),
     set_field (uer_Location req) (\<lambda>v e. if maxLocationLen < length v then Inl (too_long ''location'' maxLocationLen)
        else Inr (e\<lparr>e_Location := v\<rparr>)),
     set_field (uer_Timezone req) (\<lambda>v e. Inr (e\<lparr>e_Timezone := v\<rparr>)),
     set_field (uer_RetentionDays req) (\<lambda>v e. Inr (e\<lparr>e_RetentionDays := v\<rparr>)),
     set_field (uer_ShowHeadcount req) (\<lambda>v e. Inr (e\<lparr>e_ShowHeadcount := v\<rparr>)),
     set_field (uer_ShowGuestList req) (\<lambda>v e. Inr (e\<lparr>e_ShowGuestList := v\<rparr>)),
     set_field (uer_RSVPDeadline req) (\<lambda>v e. if v = [] then Inr (e\<lparr>e_RSVPDeadline := None\<rparr>)
        else rbind (parse_field s ''rsvpDeadline'' v) (\<lambda>t.
             rbind (check_deadline (e_EventDate e) (Some t)) (\<lambda>_. Inr (e\<lparr>e_RSVPDeadline := Some t\<rparr>))))]"

definition UpdateEvent ::
  "event_service \<Rightarrow> time \<Rightarrow> id \<Rightarrow> id \<Rightarrow> UpdateEventRequest \<Rightarrow> idb \<Rightarrow> (idb \<times> Event \<times> event_call list) id_result" where
  "UpdateEvent s now eventID organizerID req d =
    rbind (managed_event eventID organizerID d) (\<lambda>e.
    rbind (apply_update s req e) (\<lambda>e.
    rbind (StoreUpdateEvent now e d) (\<lambda>(d, e). Inr (d, e, []))))"

definition wrong_status :: "string \<Rightarrow> string \<Rightarrow> Event \<Rightarrow> id_error" where
  "wrong_status verb source e =
    IdValidation (''event can only be '' @ verb @ '' from '' @ source @ '' status, current status: '' @ e_Status e)"

definition PublishEvent :: "event_service \<Rightarrow> time \<Rightarrow> id \<Rightarrow> id \<Rightarrow> idb \<Rightarrow> (idb \<times> Event \<times> event_call list) id_result" where
  "PublishEvent s now eventID organizerID d =
    rbind (managed_event eventID organizerID d) (\<lambda>e.
    rbind (guard (e_Status e = ''draft'') (wrong_status ''published'' ''draft'' e)) (\<lambda>_.
    rbind (StoreUpdateEvent now (e\<lparr>e_Status := ''published''\<rparr>) d) (\<lambda>(d, e).
    Inr (d, e, if evs_onPublish s then [OnPublish e] else []))))"

definition CancelEvent :: "event_service \<Rightarrow> time \<Rightarrow> id \<Rightarrow> id \<Rightarrow> bool \<Rightarrow> idb \<Rightarrow> (idb \<times> Event \<times> event_call list) id_result" where
  "CancelEvent s now eventID organizerID notifyInvitees d =
    rbind (managed_event eventID organizerID d) (\<lambda>e.
    rbind (guard (e_Status e = ''published'') (wrong_status ''cancelled'' ''published'' e)) (\<lambda>_.
    rbind (StoreUpdateEvent now (e\<lparr>e_Status := ''cancelled''\<rparr>) d) (\<lambda>(d, e).
    Inr (d, e, if notifyInvitees \<and> evs_onCancel s then [OnCancel e] else []))))"

definition ReopenEvent :: "event_service \<Rightarrow> time \<Rightarrow> id \<Rightarrow> id \<Rightarrow> idb \<Rightarrow> (idb \<times> Event \<times> event_call list) id_result" where
  "ReopenEvent s now eventID organizerID d =
    rbind (managed_event eventID organizerID d) (\<lambda>e.
    rbind (guard (e_Status e = ''cancelled'') (wrong_status ''reopened'' ''cancelled'' e)) (\<lambda>_.
    rbind (StoreUpdateEvent now (e\<lparr>e_Status := ''draft''\<rparr>) d) (\<lambda>(d, e). Inr (d, e, []))))"

definition DuplicateEvent ::
  "event_service \<Rightarrow> (nat \<Rightarrow> id) \<Rightarrow> time \<Rightarrow> id \<Rightarrow> id \<Rightarrow> idb \<Rightarrow> (idb \<times> Event \<times> event_call list) id_result" where
  "DuplicateEvent s uuid now eventID organizerID d =
    rbind (owned_event eventID organizerID d) (\<lambda>e.
    let newEvent = e\<lparr>e_ID := uuid 0, e_OrganizerID := organizerID, e_Title := ''Copy of '' @ e_Title e, e_Status := ''draft'',
          e_SeriesID := None, e_SeriesIndex := None, e_SeriesOverride := False\<rparr> in
    rbind (createEvent (uuid 1) now newEvent d) (\<lambda>(d, newEvent).
    Inr (d, newEvent, if evs_onDuplicate s then [OnDuplicate eventID (e_ID newEvent)] else [])))"

definition DeleteEvent :: "time \<Rightarrow> id \<Rightarrow> id \<Rightarrow> idb \<Rightarrow> idb id_result" where
  "DeleteEvent now eventID organizerID d =
    rbind (owned_event eventID organizerID d) (\<lambda>e.
    rbind (StoreUpdateEvent now (e\<lparr>e_Status := ''archived''\<rparr>) d) (\<lambda>(d, e). Inr d))"

definition CreateFromSeries :: "id \<Rightarrow> time \<Rightarrow> Event \<Rightarrow> idb \<Rightarrow> (idb \<times> Event) id_result" where
  "CreateFromSeries mid now e d = createEvent mid now e d"

end
