(* ===== verification/Go_Time.thy ===== *)
theory Go_Time
  imports Go_Lib
begin

text \<open>
  Calendar arithmetic of Go's \<open>time\<close> package in UTC, as far as the event series use it:
  \<open>Time.Date\<close>, \<open>Time.Clock\<close>, the function \<open>time.Date\<close> with its normalisation of months and days out of
  range, and \<open>Time.AddDate\<close>. The calendar is the proleptic Gregorian one. Days are numbered from the
  epoch.
\<close>

section \<open>The calendar\<close>

definition leap_year :: "int \<Rightarrow> bool" where
  "leap_year y \<longleftrightarrow> y mod 4 = 0 \<and> (y mod 100 \<noteq> 0 \<or> y mod 400 = 0)"

definition days_in_month :: "int \<Rightarrow> int \<Rightarrow> int" where
  "days_in_month y m =
    (if m = 2 then if leap_year y then 29 else 28
     else if m \<in> {4, 6, 9, 11} then 30 else 31)"

text \<open>The days of the years before \<open>y\<close>, counted from the first of January of the year 1.\<close>

definition days_before_year :: "int \<Rightarrow> int" where
  "days_before_year y = 365 * (y - 1) + (y - 1) div 4 - (y - 1) div 100 + (y - 1) div 400"

function days_before_month :: "int \<Rightarrow> int \<Rightarrow> int" where
  "days_before_month y m = (if m \<le> 1 then 0 else days_before_month y (m - 1) + days_in_month y (m - 1))"
  by pat_completeness auto
termination
  by (relation "measure (\<lambda>(y, m). nat m)") auto

declare days_before_month.simps [simp del]

definition epoch_day :: int where
  "epoch_day = 719162" \<comment> \<open>the days before 1970\<close>

definition day_number :: "int \<Rightarrow> int \<Rightarrow> int \<Rightarrow> int" where
  "day_number y m d = days_before_year y + days_before_month y m + (d - 1) - epoch_day"

definition year_of :: "int \<Rightarrow> int" where
  "year_of n = (let y = 400 * n div 146097 + 1 in if days_before_year (y + 1) \<le> n then y + 1 else y)"

function month_day :: "int \<Rightarrow> int \<Rightarrow> int \<Rightarrow> int \<times> int" where
  "month_day y m k =
    (if m < 12 \<and> days_in_month y m \<le> k then month_day y (m + 1) (k - days_in_month y m) else (m, k + 1))"
  by pat_completeness auto
termination
  by (relation "measure (\<lambda>(y, m, k). nat (12 - m))") auto

declare month_day.simps [simp del]

definition civil_of :: "int \<Rightarrow> int \<times> int \<times> int" where
  "civil_of n = (let k = n + epoch_day; y = year_of k; (m, d) = month_day y 1 (k - days_before_year y) in (y, m, d))"

section \<open>Times\<close>

definition day_seconds :: int where "day_seconds = 86400"

definition day_of :: "time \<Rightarrow> int" where
  "day_of t = secs t div day_seconds"

definition clock_of :: "time \<Rightarrow> int" where
  "clock_of t = secs t mod day_seconds"

definition Time_Date :: "time \<Rightarrow> int \<times> int \<times> int" where
  "Time_Date t = civil_of (day_of t)"

definition Time_Day :: "time \<Rightarrow> int" where
  "Time_Day t = snd (snd (Time_Date t))"

text \<open>
  \<open>time.Date\<close> at UTC, with the time of day given in seconds: months out of range move the year, days
  out of range the month.
\<close>

definition make_time :: "int \<Rightarrow> int \<Rightarrow> int \<Rightarrow> int \<Rightarrow> int \<Rightarrow> time" where
  "make_time y m d clock nsec =
    (day_number (y + (m - 1) div 12) ((m - 1) mod 12 + 1) d * day_seconds + clock) * second + nsec"

definition AddDate :: "time \<Rightarrow> int \<Rightarrow> int \<Rightarrow> int \<Rightarrow> time" where
  "AddDate t years months days =
    (let (y, m, d) = Time_Date t in make_time (y + years) (m + months) (d + days) (clock_of t) (nanos t))"

section \<open>Dates and day numbers\<close>

definition valid_date :: "int \<Rightarrow> int \<Rightarrow> int \<Rightarrow> bool" where
  "valid_date y m d \<longleftrightarrow> 1 \<le> m \<and> m \<le> 12 \<and> 1 \<le> d \<and> d \<le> days_in_month y m"

lemma days_in_month_range: "28 \<le> days_in_month y m \<and> days_in_month y m \<le> 31"
  by (simp add: days_in_month_def)

lemma before_month_simps [simp]:
  "days_before_month y 1 = 0"
  "1 \<le> m \<Longrightarrow> days_before_month y (m + 1) = days_before_month y m + days_in_month y m"
  by (simp_all add: days_before_month.simps [of y 1] days_before_month.simps [of y "m + 1"])

lemma div_step:
  fixes y k :: int
  assumes "0 < k"
  shows "y div k = (y - 1) div k + (if y mod k = 0 then 1 else 0)"
proof (cases "y mod k = 0")
  case True
  then have "y - 1 = k * (y div k - 1) + (k - 1)" by (simp add: algebra_simps minus_mod_eq_mult_div [symmetric])
  then have "(y - 1) div k = y div k - 1" by (rule int_div_pos_eq) (use assms in simp_all)
  then show ?thesis using True by simp
next
  case False
  have "y - 1 = k * (y div k) + (y mod k - 1)" by simp
  then have "(y - 1) div k = y div k"
    by (rule int_div_pos_eq) (use False assms pos_mod_bound [of k y] pos_mod_sign [of k y] in linarith)+
  then show ?thesis using False by simp
qed

lemma leap_day:
  "y div 4 - y div 100 + y div 400 = (y - 1) div 4 - (y - 1) div 100 + (y - 1) div 400 + (if leap_year y then 1 else 0)" for y :: int
proof -
  have "y mod 400 = 0 \<Longrightarrow> y mod 100 = 0" "y mod 100 = 0 \<Longrightarrow> y mod 4 = 0" 
    using mod_mod_cancel [of 100 400 y] mod_mod_cancel [of 4 100 y] by simp_all
  moreover have "y div 4 = (y - 1) div 4 + (if y mod 4 = 0 then 1 else 0)" "y div 100 = (y - 1) div 100 + (if y mod 100 = 0 then 1 else 0)"
    "y div 400 = (y - 1) div 400 + (if y mod 400 = 0 then 1 else 0)" by (rule div_step; simp)+
  ultimately show ?thesis unfolding leap_year_def
    by (cases "y mod 4 = 0"; cases "y mod 100 = 0"; cases "y mod 400 = 0"; simp only: simp_thms if_True if_False not_False_eq_True; linarith)
qed

lemma year_sum: "a4 - a100 + a400 = b4 - b100 + b400 + k \<Longrightarrow> 365 * y + a4 - a100 + a400 = 365 * (y - 1) + b4 - b100 + b400 + (365 + k)" for y :: int
  by simp

lemma year_length: "days_before_year (y + 1) = days_before_year y + (if leap_year y then 366 else 365)"
proof -
  have "(if leap_year y then 366 else 365) = 365 + (if leap_year y then 1 else 0 :: int)" by simp
  then show ?thesis using year_sum [OF leap_day, of y y] unfolding days_before_year_def add_diff_cancel_right' by (simp only:)
qed

lemma months_of_year: "days_before_month y 12 + days_in_month y 12 = (if leap_year y then 366 else 365)"
  by (simp add: days_before_month.simps days_in_month_def)

lemma before_month_bound:
  assumes "1 \<le> m" "m \<le> 12"
  shows "0 \<le> days_before_month y m" "days_before_month y m + days_in_month y m \<le> (if leap_year y then 366 else 365)"
proof -
  have "m \<in> {1, 2, 3, 4, 5, 6, 7, 8, 9, 10, 11, 12}" using assms by simp presburger
  then have "0 \<le> days_before_month y m \<and> days_before_month y m + days_in_month y m \<le> (if leap_year y then 366 else 365)"
    by (elim insertE emptyE) (simp_all add: days_before_month.simps days_in_month_def)
  then show "0 \<le> days_before_month y m" "days_before_month y m + days_in_month y m \<le> (if leap_year y then 366 else 365)" by blast+
qed

lemma year_bracket: "days_before_year (year_of n) \<le> n \<and> n < days_before_year (year_of n + 1)"
proof -
  define Y where "Y = 400 * n div 146097"
  have n: "146097 * Y \<le> 400 * n" "400 * n < 146097 * (Y + 1)"
    unfolding Y_def using mult_div_mod_eq [of 146097 "400 * n"] pos_mod_bound [of 146097 "400 * n"] pos_mod_sign [of 146097 "400 * n"]
    by (simp_all add: algebra_simps)
  have f: "146097 * Z - 800 < 400 * days_before_year (Z + 1)" "400 * days_before_year (Z + 1) < 146097 * Z + 400" for Z
  proof -
    have "4 * (Z div 4) \<le> Z" "Z < 4 * (Z div 4) + 4" "100 * (Z div 100) \<le> Z" "Z < 100 * (Z div 100) + 100"
      "400 * (Z div 400) \<le> Z" "Z < 400 * (Z div 400) + 400" by linarith+
    then show "146097 * Z - 800 < 400 * days_before_year (Z + 1)" "400 * days_before_year (Z + 1) < 146097 * Z + 400"
      unfolding days_before_year_def by simp_all
  qed
  have "days_before_year (Y + 1) \<le> n" using f(2) [of Y] n(1) by linarith
  moreover have "n < days_before_year (Y + 1 + 1 + 1)"
  proof -
    have "400 * n < 146097 * (Y + 1 + 1) - 800" using n(2) by simp
    then show ?thesis using f(1) [of "Y + 1 + 1"] by linarith
  qed
  ultimately show ?thesis by (auto simp: year_of_def Y_def Let_def)
qed

lemma month_day_bracket:
  "1 \<le> m \<Longrightarrow> m \<le> 12 \<Longrightarrow> 0 \<le> k \<Longrightarrow> k < days_before_month y 12 + days_in_month y 12 - days_before_month y m \<Longrightarrow>
    month_day y m k = (m', d) \<Longrightarrow>
    valid_date y m' d \<and> days_before_month y m' + d - 1 = days_before_month y m + k"
proof (induction y m k rule: month_day.induct)
  case (1 y m k)
  show ?case
  proof (cases "m < 12 \<and> days_in_month y m \<le> k")
    case True
    then show ?thesis using 1 by (subst (asm) month_day.simps) auto
  next
    case False
    have "m = 12 \<or> k < days_in_month y m" using False 1(2-5) by auto
    then have "k < days_in_month y m" using 1(5) by auto
    then show ?thesis using 1(2-6) False by (simp add: month_day.simps [of y m k]) (auto simp: valid_date_def)
  qed
qed

lemma civil_of_inverse: "civil_of n = (y, m, d) \<Longrightarrow> valid_date y m d \<and> day_number y m d = n"
proof -
  assume c: "civil_of n = (y, m, d)"
  let ?k = "n + epoch_day - days_before_year y"
  have y: "y = year_of (n + epoch_day)" and md: "month_day y 1 ?k = (m, d)"
    using c by (auto simp: civil_of_def Let_def split: prod.splits)
  have "0 \<le> ?k" "?k < days_before_month y 12 + days_in_month y 12"
    using year_bracket [of "n + epoch_day"] year_length [of y] unfolding y [symmetric] months_of_year by auto
  then have "valid_date y m d \<and> days_before_month y m + d - 1 = ?k" using month_day_bracket [OF _ _ _ _ md] by simp
  then show ?thesis by (simp add: day_number_def)
qed

lemma before_year_mono: "y \<le> y' \<Longrightarrow> days_before_year y \<le> days_before_year y'"
proof (induction y' rule: int_ge_induct)
  case (step i)
  then show ?case by (simp add: year_length)
qed simp

lemma before_month_mono: "m \<le> m' \<Longrightarrow> 1 \<le> m \<Longrightarrow> days_before_month y m \<le> days_before_month y m'"
proof (induction m' rule: int_ge_induct)
  case (step i)
  then show ?case using days_in_month_range [of y i] by simp
qed simp

text \<open>Dates in order have day numbers in order, the rest of a month or year included.\<close>

lemma month_of_day:
  assumes "valid_date y m d"
  shows "days_before_year y \<le> day_number y m d + epoch_day" "day_number y m d + epoch_day < days_before_year (y + 1)"
    "days_before_month y m \<le> day_number y m d + epoch_day - days_before_year y"
    "day_number y m d + epoch_day - days_before_year y < days_before_month y (m + 1)"
  using assms before_month_bound [of m y] year_length [of y] by (auto simp: valid_date_def day_number_def)

lemma day_number_inj:
  assumes "valid_date y m d" "valid_date y' m' d'" "day_number y m d = day_number y' m' d'"
  shows "y = y' \<and> m = m' \<and> d = d'"
proof -
  have y: "y = y'"
  proof (rule ccontr)
    assume "y \<noteq> y'"
    then have "y + 1 \<le> y' \<or> y' + 1 \<le> y" by linarith
    then show False using before_year_mono [of "y + 1" y'] before_year_mono [of "y' + 1" y]
        month_of_day(1,2) [OF assms(1)] month_of_day(1,2) [OF assms(2)] assms(3) by auto
  qed
  moreover have "m = m'"
  proof (rule ccontr)
    assume "m \<noteq> m'"
    then have "m + 1 \<le> m' \<or> m' + 1 \<le> m" by linarith
    then show False using before_month_mono [of "m + 1" m' y] before_month_mono [of "m' + 1" m y] assms
        month_of_day(3,4) [OF assms(1)] month_of_day(3,4) [OF assms(2)] y by (auto simp: valid_date_def)
  qed
  ultimately show ?thesis using assms(3) by (simp add: day_number_def)
qed

lemma civil_of_day_number: "valid_date y m d \<Longrightarrow> civil_of (day_number y m d) = (y, m, d)"
  using civil_of_inverse [of "day_number y m d"] day_number_inj [of _ _ _ y m d] by (cases "civil_of (day_number y m d)") blast

lemma civil_of_valid: "civil_of n = (y, m, d) \<Longrightarrow> valid_date y m d"
  using civil_of_inverse by blast

section \<open>Times and their parts\<close>

lemma time_parts: "t = (day_of t * day_seconds + clock_of t) * second + nanos t"
  by (simp add: day_of_def clock_of_def secs_def nanos_def second_def)

lemma clock_range: "0 \<le> clock_of t" "clock_of t < day_seconds"
  by (simp_all add: clock_of_def day_seconds_def)

lemma parts_of_time:
  assumes "0 \<le> c" "c < day_seconds" "0 \<le> ns" "ns < second"
  shows "day_of ((n * day_seconds + c) * second + ns) = n" "clock_of ((n * day_seconds + c) * second + ns) = c"
    "nanos ((n * day_seconds + c) * second + ns) = ns"
proof -
  let ?k = "n * day_seconds + c"
  have "?k * second + ns = second * ?k + ns" "?k = day_seconds * n + c" by simp_all
  then have "secs (?k * second + ns) = ?k" "nanos (?k * second + ns) = ns" "?k div day_seconds = n" "?k mod day_seconds = c"
    unfolding secs_def nanos_def using assms by (metis int_div_pos_eq int_mod_pos_eq)+
  then show "day_of (?k * second + ns) = n" "clock_of (?k * second + ns) = c" "nanos (?k * second + ns) = ns"
    by (simp_all add: day_of_def clock_of_def)
qed

lemma later_day: "day_of s < day_of t \<Longrightarrow> s < t"
proof (rule ccontr)
  assume "day_of s < day_of t" "\<not> s < t"
  then have "secs t \<le> secs s" by (simp add: secs_mono)
  then have "day_of t \<le> day_of s" unfolding day_of_def by (rule zdiv_mono1) (simp add: day_seconds_def)
  then show False using \<open>day_of s < day_of t\<close> by simp
qed

lemma make_time_month:
  assumes "1 \<le> m" "m \<le> 12"
  shows "make_time y m d c ns = (day_number y m d * day_seconds + c) * second + ns"
    "make_time y (m + 1) d c ns = (day_number (if m = 12 then y + 1 else y) (if m = 12 then 1 else m + 1) d * day_seconds + c) * second + ns"
  using assms by (auto simp: make_time_def)

text \<open>Day 0 of a month is the last day of the month before.\<close>

lemma month_end:
  assumes "1 \<le> m" "m \<le> 12"
  shows "Time_Day (make_time y (m + 1) 0 0 0) = days_in_month y m"
proof -
  have "day_number (if m = 12 then y + 1 else y) (if m = 12 then 1 else m + 1) 0 = day_number y m (days_in_month y m)"
    using assms months_of_year [of y] by (auto simp: day_number_def year_length)
  moreover have "valid_date y m (days_in_month y m)" using assms days_in_month_range [of y m] by (simp add: valid_date_def)
  ultimately show ?thesis
    using parts_of_time(1) [of 0 0 "day_number y m (days_in_month y m)"]
    by (simp add: Time_Day_def Time_Date_def make_time_month(2) [OF assms] civil_of_day_number day_seconds_def second_def)
qed

lemma AddDate_days: "AddDate t 0 0 n = t + n * day_seconds * second"
proof -
  obtain y m d where c: "civil_of (day_of t) = (y, m, d)" by (metis prod_cases3)
  then have "valid_date y m d" "day_number y m d = day_of t" using civil_of_inverse by blast+
  moreover have "day_number y m (d + n) = day_number y m d + n" by (simp add: day_number_def)
  ultimately have "AddDate t 0 0 n = ((day_of t + n) * day_seconds + clock_of t) * second + nanos t"
    by (simp add: AddDate_def Time_Date_def c make_time_month(1) valid_date_def)
  then show ?thesis using time_parts [of t] by (simp add: algebra_simps)
qed

end
