(* ===== verification/Event_Series.thy ===== *)
theory Event_Series
  imports Event_Service Go_Time
begin

text \<open>
  Recurring events (\<open>internal/event/series_store.go\<close>, \<open>series_service.go\<close>). A series is a template
  from which occurrences are generated, four at a time. Generating commits each occurrence on its
  own, so that an error leaves the earlier ones in place: the loops return the database, the
  callbacks made so far and the error, if any.

  The operations take the clock readings and fresh UUIDs of their successive steps as functions of
  the position of the occurrence.
\<close>

section \<open>Data\<close>

record CreateSeriesRequest =
  csr_Title :: string
  csr_Description :: string
  csr_Location :: string
  csr_Timezone :: string
  csr_StartDate :: string
  csr_EventTime :: string
  csr_DurationMinutes :: "int option"
  csr_RecurrenceRule :: string
  csr_RecurrenceEnd :: "string option"
  csr_MaxOccurrences :: "int option"
  csr_RetentionDays :: "int option"
  csr_ShowHeadcount :: "bool option"
  csr_ShowGuestList :: "bool option"
  csr_RSVPDeadlineOffsetHours :: "int option"

record UpdateSeriesRequest =
  usr_Title :: "string option"
  usr_Description :: "string option"
  usr_Location :: "string option"
  usr_Timezone :: "string option"
  usr_EventTime :: "string option"
  usr_DurationMinutes :: "int option"
  usr_RecurrenceEnd :: "string option"
  usr_MaxOccurrences :: "int option"
  usr_RetentionDays :: "int option"
  usr_ShowHeadcount :: "bool option"
  usr_ShowGuestList :: "bool option"
  usr_RSVPDeadlineOffsetHours :: "int option"

datatype series_call = OnCreateOccurrence id id | EventCall event_call

record series_service =
  ss_events :: event_service
  ss_defaultRetention :: int
  ss_onCreateOccurrence :: bool

section \<open>The store\<close>

definition stored_series :: "EventSeries \<Rightarrow> time \<Rightarrow> time \<Rightarrow> EventSeries" where
  "stored_series es created now =
    es\<lparr>es_RecurrenceEnd := map_option trunc_sec (es_RecurrenceEnd es), es_CreatedAt := created, es_UpdatedAt := now\<rparr>"

definition CreateSeriesRow :: "time \<Rightarrow> EventSeries \<Rightarrow> idb \<Rightarrow> (idb \<times> EventSeries) id_result" where
  "CreateSeriesRow now es d =
    rbind (or_err (insert_series (stored_series es (trunc_sec now) (trunc_sec now)) d) (IdInternal ''create event series'')) (\<lambda>d.
    Inr (d, es\<lparr>es_CreatedAt := trunc_sec now, es_UpdatedAt := trunc_sec now\<rparr>))"

definition FindSeriesByID :: "id \<Rightarrow> idb \<Rightarrow> EventSeries option" where
  "FindSeriesByID i d = select_row (\<lambda>es. es_ID es = i) (id_series d)"

definition FindSeriesByOrganizerID :: "id \<Rightarrow> idb \<Rightarrow> EventSeries list" where
  "FindSeriesByOrganizerID organizerID d =
    order_by (\<lambda>a b. es_CreatedAt b < es_CreatedAt a) (filter (\<lambda>es. es_OrganizerID es = organizerID) (id_series d))"

definition FindAllActive :: "idb \<Rightarrow> EventSeries list" where
  "FindAllActive d = filter (\<lambda>es. es_SeriesStatus es = ''active'') (id_series d)"

text \<open>The owner is not among the columns that an update writes.\<close>

definition UpdateSeriesRow :: "time \<Rightarrow> EventSeries \<Rightarrow> idb \<Rightarrow> (idb \<times> EventSeries) id_result" where
  "UpdateSeriesRow now es d =
    (if list_ex (\<lambda>r. es_ID r = es_ID es) (id_series d) \<and> \<not> series_checks es then Inl (IdInternal ''update event series'')
     else Inr (d\<lparr>id_series := update_where (\<lambda>r. es_ID r = es_ID es)
            (\<lambda>r. (stored_series es (es_CreatedAt r) (trunc_sec now))\<lparr>es_OrganizerID := es_OrganizerID r\<rparr>) (id_series d)\<rparr>,
          es\<lparr>es_UpdatedAt := trunc_sec now\<rparr>))"

definition DeleteSeriesRow :: "id \<Rightarrow> idb \<Rightarrow> idb" where
  "DeleteSeriesRow i d = d\<lparr>id_series := delete_where (\<lambda>es. es_ID es = i) (id_series d),
     id_events := update_where (\<lambda>r. e_SeriesID r = Some i) (\<lambda>r. r\<lparr>e_SeriesID := None\<rparr>) (id_events d)\<rparr>"

section \<open>Dates\<close>

definition isValidRecurrenceRule :: "string \<Rightarrow> bool" where
  "isValidRecurrenceRule s \<longleftrightarrow> s \<in> {''weekly'', ''biweekly'', ''monthly''}"

definition calculateNextOccurrence :: "time \<Rightarrow> string \<Rightarrow> int \<Rightarrow> time" where
  "calculateNextOccurrence start rule originalDay =
    (if rule = ''weekly'' then AddDate start 0 0 7
     else if rule = ''biweekly'' then AddDate start 0 0 14
     else if rule = ''monthly'' then
       (let (y, m, _) = Time_Date start;
            (nextYear, nextMonth) = (if 12 < m + 1 then (y + 1, 1) else (y, m + 1));
            lastDay = Time_Day (make_time nextYear (nextMonth + 1) 0 0 0) in
        make_time nextYear nextMonth (if lastDay < originalDay then lastDay else originalDay) (clock_of start) 0)
     else start)"

definition buildOccurrenceFromSeries :: "id \<Rightarrow> EventSeries \<Rightarrow> time \<Rightarrow> int \<Rightarrow> Event" where
  "buildOccurrenceFromSeries occ series eventDate index =
    \<lparr> e_ID = occ, e_Title = es_Title series, e_Description = es_Description series, e_EventDate = eventDate,
      e_EndDate = (case es_DurationMinutes series of Some n \<Rightarrow> if 0 < n then Some (eventDate + n * minute) else None | None \<Rightarrow> None),
      e_Location = es_Location series, e_Timezone = es_Timezone series, e_RetentionDays = es_RetentionDays series,
      e_Status = ''published'', e_ShowHeadcount = es_ShowHeadcount series, e_ShowGuestList = es_ShowGuestList series,
      e_RSVPDeadline = (case es_RSVPDeadlineOffsetHours series of Some n \<Rightarrow> if 0 < n then Some (eventDate - n * hour) else None | None \<Rightarrow> None),
      e_SeriesID = Some (es_ID series), e_SeriesIndex = Some index, e_SeriesOverride = False,
      e_CreatedAt = 0, e_UpdatedAt = 0, e_OrganizerID = es_OrganizerID series \<rparr>"

section \<open>Generating occurrences\<close>

type_synonym generated = "idb \<times> series_call list \<times> id_error option"

definition reached_max :: "EventSeries \<Rightarrow> int \<Rightarrow> bool" where
  "reached_max series n = (case es_MaxOccurrences series of None \<Rightarrow> False | Some k \<Rightarrow> k \<le> n)"

definition past_end :: "EventSeries \<Rightarrow> time \<Rightarrow> bool" where
  "past_end series t = (case es_RecurrenceEnd series of None \<Rightarrow> False | Some stop \<Rightarrow> stop < t)"

definition created_call :: "series_service \<Rightarrow> EventSeries \<Rightarrow> id \<Rightarrow> series_call list" where
  "created_call s series occ = (if ss_onCreateOccurrence s then [OnCreateOccurrence (es_ID series) occ] else [])"

text \<open>The first loop: \<open>n\<close> iterations are left, \<open>i\<close> is the loop variable, \<open>cur\<close> the date of the next occurrence.\<close>

fun initial_loop ::
  "series_service \<Rightarrow> (nat \<Rightarrow> id) \<Rightarrow> (nat \<Rightarrow> time) \<Rightarrow> EventSeries \<Rightarrow> int \<Rightarrow> nat \<Rightarrow> nat \<Rightarrow> time \<Rightarrow> idb \<Rightarrow> series_call list \<Rightarrow> generated" where
  "initial_loop s uuid clk series originalDay 0 i cur d calls = (d, calls, None)"
| "initial_loop s uuid clk series originalDay (Suc n) i cur d calls =
    (if reached_max series (int i) \<or> past_end series cur then (d, calls, None)
     else case CreateFromSeries (uuid (2 * i + 1)) (clk i) (buildOccurrenceFromSeries (uuid (2 * i)) series cur (int i + 1)) d of
       Inl e \<Rightarrow> (d, calls, Some e)
     | Inr (d, occ) \<Rightarrow> initial_loop s uuid clk series originalDay n (Suc i)
           (calculateNextOccurrence cur (es_RecurrenceRule series) originalDay) d (calls @ created_call s series (e_ID occ)))"

definition first_occurrence :: "series_service \<Rightarrow> EventSeries \<Rightarrow> string \<Rightarrow> time id_result" where
  "first_occurrence s series startDate =
    (case parseFlexibleTime (ss_events s) (startDate @ ''T'' @ es_EventTime series) of
       Inr t \<Rightarrow> Inr t
     | Inl _ \<Rightarrow> parse_field (ss_events s) ''startDate'' startDate)"

definition generateInitialOccurrences ::
  "series_service \<Rightarrow> (nat \<Rightarrow> id) \<Rightarrow> (nat \<Rightarrow> time) \<Rightarrow> EventSeries \<Rightarrow> string \<Rightarrow> idb \<Rightarrow> generated" where
  "generateInitialOccurrences s uuid clk series startDate d =
    (case first_occurrence s series startDate of
       Inl e \<Rightarrow> (d, [], Some e)
     | Inr firstDate \<Rightarrow> initial_loop s uuid clk series (Time_Day firstDate) 4 0 firstDate d [])"

text \<open>The loop of the background job: \<open>prev\<close> is the date of the last occurrence, \<open>so_far\<close> their number.\<close>

fun generate_loop ::
  "series_service \<Rightarrow> (nat \<Rightarrow> id) \<Rightarrow> (nat \<Rightarrow> time) \<Rightarrow> EventSeries \<Rightarrow> int \<Rightarrow> nat \<Rightarrow> nat \<Rightarrow> time \<Rightarrow> int \<Rightarrow> idb \<Rightarrow> series_call list \<Rightarrow> generated" where
  "generate_loop s uuid clk series originalDay 0 i prev so_far d calls = (d, calls, None)"
| "generate_loop s uuid clk series originalDay (Suc n) i prev so_far d calls =
    (let nextDate = calculateNextOccurrence prev (es_RecurrenceRule series) originalDay in
     if reached_max series so_far \<or> past_end series nextDate then (d, calls, None)
     else case CreateFromSeries (uuid (2 * i + 1)) (clk i) (buildOccurrenceFromSeries (uuid (2 * i)) series nextDate (so_far + 1)) d of
       Inl e \<Rightarrow> (d, calls, Some e)
     | Inr (d, occ) \<Rightarrow> generate_loop s uuid clk series originalDay n (Suc i) nextDate (so_far + 1) d
           (calls @ created_call s series (e_ID occ)))"

definition last_date :: "time \<Rightarrow> id \<Rightarrow> Event list \<Rightarrow> idb \<Rightarrow> time id_result" where
  "last_date now seriesID existing d =
    (if existing \<noteq> [] then Inr (e_EventDate (last existing))
     else rbind (FindBySeriesID seriesID d) (\<lambda>allEvents.
       Inr (if allEvents \<noteq> [] then e_EventDate (last allEvents) else now)))"

definition GenerateOccurrences ::
  "series_service \<Rightarrow> (nat \<Rightarrow> id) \<Rightarrow> time \<Rightarrow> (nat \<Rightarrow> time) \<Rightarrow> id \<Rightarrow> idb \<Rightarrow> generated" where
  "GenerateOccurrences s uuid now clk seriesID d =
    (case FindSeriesByID seriesID d of
       None \<Rightarrow> (d, [], None)
     | Some series \<Rightarrow>
        if es_SeriesStatus series \<noteq> ''active'' then (d, [], None)
        else case FindFutureBySeriesID seriesID now d of
          Inl e \<Rightarrow> (d, [], Some e)
        | Inr existing \<Rightarrow>
           if 4 \<le> length existing then (d, [], None)
           else case last_date now seriesID existing d of
             Inl e \<Rightarrow> (d, [], Some e)
           | Inr lastDate \<Rightarrow>
               generate_loop s uuid clk series (Time_Day lastDate) (4 - length existing) 0 lastDate (int (CountBySeriesID seriesID d)) d [])"

text \<open>Errors of one series are logged; \<open>k\<close> numbers the series.\<close>

fun generate_all ::
  "series_service \<Rightarrow> (nat \<Rightarrow> nat \<Rightarrow> id) \<Rightarrow> (nat \<Rightarrow> time) \<Rightarrow> (nat \<Rightarrow> nat \<Rightarrow> time) \<Rightarrow> nat \<Rightarrow> EventSeries list \<Rightarrow> idb \<Rightarrow> idb \<times> series_call list" where
  "generate_all s uuid now clk k [] d = (d, [])"
| "generate_all s uuid now clk k (series # rest) d =
    (let (d, calls, _) = GenerateOccurrences s (uuid k) (now k) (clk k) (es_ID series) d;
         (d, more_calls) = generate_all s uuid now clk (Suc k) rest d in (d, calls @ more_calls))"

definition GenerateOccurrencesForAll ::
  "series_service \<Rightarrow> (nat \<Rightarrow> nat \<Rightarrow> id) \<Rightarrow> (nat \<Rightarrow> time) \<Rightarrow> (nat \<Rightarrow> nat \<Rightarrow> time) \<Rightarrow> idb \<Rightarrow> idb \<times> series_call list" where
  "GenerateOccurrencesForAll s uuid now clk d = generate_all s uuid now clk 0 (FindAllActive d) d"

section \<open>Operations of the service\<close>

definition CreateSeries ::
  "series_service \<Rightarrow> id \<Rightarrow> (nat \<Rightarrow> id) \<Rightarrow> time \<Rightarrow> (nat \<Rightarrow> time) \<Rightarrow> id \<Rightarrow> CreateSeriesRequest \<Rightarrow> idb \<Rightarrow>
   (idb \<times> EventSeries \<times> series_call list) id_result" where
  "CreateSeries s sid uuid now clk organizerID req d =
    rbind (guard (csr_Title req \<noteq> []) (IdValidation ''title is required'')) (\<lambda>_.
    rbind (guard (csr_StartDate req \<noteq> []) (IdValidation ''startDate is required'')) (\<lambda>_.
    rbind (guard (csr_EventTime req \<noteq> []) (IdValidation ''eventTime is required'')) (\<lambda>_.
    rbind (guard (isValidRecurrenceRule (csr_RecurrenceRule req))
      (IdValidation ''invalid recurrenceRule: must be weekly, biweekly, or monthly'')) (\<lambda>_.
    rbind (optional_time (ss_events s) ''recurrenceEnd'' (csr_RecurrenceEnd req)) (\<lambda>recurrenceEnd.
    let series = \<lparr> es_ID = sid, es_OrganizerID = organizerID, es_Title = csr_Title req, es_Description = csr_Description req,
          es_Location = csr_Location req, es_Timezone = (if csr_Timezone req = [] then ''America/New_York'' else csr_Timezone req),
          es_EventTime = csr_EventTime req, es_DurationMinutes = csr_DurationMinutes req, es_RecurrenceRule = csr_RecurrenceRule req,
          es_RecurrenceEnd = recurrenceEnd, es_MaxOccurrences = csr_MaxOccurrences req, es_SeriesStatus = ''active'',
          es_RetentionDays = (case csr_RetentionDays req of Some n \<Rightarrow> if 0 < n then n else ss_defaultRetention s | None \<Rightarrow> ss_defaultRetention s),
          es_ShowHeadcount = (csr_ShowHeadcount req = Some True), es_ShowGuestList = (csr_ShowGuestList req = Some True),
          es_RSVPDeadlineOffsetHours = csr_RSVPDeadlineOffsetHours req, es_CreatedAt = 0, es_UpdatedAt = 0 \<rparr> in
    rbind (CreateSeriesRow now series d) (\<lambda>(d, series).
    let (d, calls, _) = generateInitialOccurrences s uuid clk series (csr_StartDate req) d in
    Inr (d, series, calls)))))))"

definition owned_series :: "id \<Rightarrow> id \<Rightarrow> idb \<Rightarrow> EventSeries id_result" where
  "owned_series seriesID organizerID d =
    rbind (or_err (FindSeriesByID seriesID d) IdNotFound) (\<lambda>series.
    rbind (guard (es_OrganizerID series = organizerID) IdForbidden) (\<lambda>_. Inr series))"

definition apply_series_update :: "series_service \<Rightarrow> UpdateSeriesRequest \<Rightarrow> EventSeries \<Rightarrow> EventSeries id_result" where
  "apply_series_update s req series =
    (let keep_opt = (\<lambda>v old. case v of None \<Rightarrow> old | Some x \<Rightarrow> Some x) in
     rbind (case usr_RecurrenceEnd req of
         None \<Rightarrow> Inr (es_RecurrenceEnd series)
       | Some v \<Rightarrow> if v = [] then Inr None else rbind (parse_field (ss_events s) ''recurrenceEnd'' v) (\<lambda>t. Inr (Some t))) (\<lambda>recurrenceEnd.
     Inr (series\<lparr>es_Title := (case usr_Title req of None \<Rightarrow> es_Title series | Some v \<Rightarrow> v),
       es_Description := (case usr_Description req of None \<Rightarrow> es_Description series | Some v \<Rightarrow> v),
       es_Location := (case usr_Location req of None \<Rightarrow> es_Location series | Some v \<Rightarrow> v),
       es_Timezone := (case usr_Timezone req of None \<Rightarrow> es_Timezone series | Some v \<Rightarrow> v),
       es_EventTime := (case usr_EventTime req of None \<Rightarrow> es_EventTime series | Some v \<Rightarrow> v),
       es_DurationMinutes := keep_opt (usr_DurationMinutes req) (es_DurationMinutes series),
       es_RecurrenceEnd := recurrenceEnd,
       es_MaxOccurrences := keep_opt (usr_MaxOccurrences req) (es_MaxOccurrences series),
       es_RetentionDays := (case usr_RetentionDays req of None \<Rightarrow> es_RetentionDays series | Some v \<Rightarrow> v),
       es_ShowHeadcount := (case usr_ShowHeadcount req of None \<Rightarrow> es_ShowHeadcount series | Some v \<Rightarrow> v),
       es_ShowGuestList := (case usr_ShowGuestList req of None \<Rightarrow> es_ShowGuestList series | Some v \<Rightarrow> v),
       es_RSVPDeadlineOffsetHours := keep_opt (usr_RSVPDeadlineOffsetHours req) (es_RSVPDeadlineOffsetHours series)\<rparr>)))"

definition from_template :: "EventSeries \<Rightarrow> Event \<Rightarrow> Event" where
  "from_template series ev = ev\<lparr>e_Title := es_Title series, e_Description := es_Description series, e_Location := es_Location series,
     e_Timezone := es_Timezone series, e_RetentionDays := es_RetentionDays series, e_ShowHeadcount := es_ShowHeadcount series,
     e_ShowGuestList := es_ShowGuestList series\<rparr>"

text \<open>A failing update is logged and leaves the database as it is.\<close>

definition try_update :: "time \<Rightarrow> Event \<Rightarrow> idb \<Rightarrow> idb" where
  "try_update now ev d = (case StoreUpdateEvent now ev d of Inl _ \<Rightarrow> d | Inr (d, _) \<Rightarrow> d)"

fun update_future :: "(nat \<Rightarrow> time) \<Rightarrow> nat \<Rightarrow> EventSeries \<Rightarrow> Event list \<Rightarrow> idb \<Rightarrow> idb" where
  "update_future clk k series [] d = d"
| "update_future clk k series (ev # evs) d =
    update_future clk (Suc k) series evs (if e_SeriesOverride ev then d else try_update (clk k) (from_template series ev) d)"

definition updateFutureOccurrences :: "time \<Rightarrow> (nat \<Rightarrow> time) \<Rightarrow> EventSeries \<Rightarrow> idb \<Rightarrow> idb \<times> id_error option" where
  "updateFutureOccurrences now clk series d = (case FindFutureBySeriesID (es_ID series) now d of
      Inl e \<Rightarrow> (d, Some e)
    | Inr futureEvents \<Rightarrow> (update_future clk 0 series futureEvents d, None))"

definition UpdateSeries ::
  "series_service \<Rightarrow> time \<Rightarrow> time \<Rightarrow> (nat \<Rightarrow> time) \<Rightarrow> id \<Rightarrow> id \<Rightarrow> UpdateSeriesRequest \<Rightarrow> idb \<Rightarrow> (idb \<times> EventSeries) id_result" where
  "UpdateSeries s now now' clk seriesID organizerID req d =
    rbind (owned_series seriesID organizerID d) (\<lambda>series.
    rbind (apply_series_update s req series) (\<lambda>series.
    rbind (UpdateSeriesRow now series d) (\<lambda>(d, series).
    Inr (fst (updateFutureOccurrences now' clk series d), series))))"

text \<open>Published occurrences are cancelled through the event service, the others directly.\<close>

fun stop_future :: "series_service \<Rightarrow> (nat \<Rightarrow> time) \<Rightarrow> nat \<Rightarrow> EventSeries \<Rightarrow> Event list \<Rightarrow> idb \<Rightarrow> idb \<times> series_call list" where
  "stop_future s clk k series [] d = (d, [])"
| "stop_future s clk k series (ev # evs) d =
    (if e_SeriesOverride ev then stop_future s clk (Suc k) series evs d
     else if e_Status ev = ''published'' then
       (case CancelEvent (ss_events s) (clk k) (e_ID ev) (es_OrganizerID series) True d of
          Inl _ \<Rightarrow> stop_future s clk (Suc k) series evs d
        | Inr (d, _, calls) \<Rightarrow> (let (d, more_calls) = stop_future s clk (Suc k) series evs d in (d, map EventCall calls @ more_calls)))
     else stop_future s clk (Suc k) series evs (try_update (clk k) (ev\<lparr>e_Status := ''cancelled''\<rparr>) d))"

definition StopSeries ::
  "series_service \<Rightarrow> time \<Rightarrow> time \<Rightarrow> (nat \<Rightarrow> time) \<Rightarrow> id \<Rightarrow> id \<Rightarrow> idb \<Rightarrow> (idb \<times> EventSeries \<times> series_call list) id_result" where
  "StopSeries s now now' clk seriesID organizerID d =
    rbind (owned_series seriesID organizerID d) (\<lambda>series.
    rbind (UpdateSeriesRow now (series\<lparr>es_SeriesStatus := ''stopped''\<rparr>) d) (\<lambda>(d, series).
    case FindFutureBySeriesID seriesID now' d of
      Inl _ \<Rightarrow> Inr (d, series, [])
    | Inr futureEvents \<Rightarrow> (let (d, calls) = stop_future s clk 0 series futureEvents d in Inr (d, series, calls))))"

definition GetSeriesWithOccurrences :: "id \<Rightarrow> id \<Rightarrow> idb \<Rightarrow> (EventSeries \<times> Event list) id_result" where
  "GetSeriesWithOccurrences seriesID organizerID d =
    rbind (owned_series seriesID organizerID d) (\<lambda>series.
    rbind (FindBySeriesID seriesID d) (\<lambda>occurrences. Inr (series, occurrences)))"

definition ListSeriesByOrganizer :: "id \<Rightarrow> idb \<Rightarrow> EventSeries list" where
  "ListSeriesByOrganizer organizerID d = FindSeriesByOrganizerID organizerID d"

definition DeleteSeries :: "id \<Rightarrow> id \<Rightarrow> idb \<Rightarrow> idb id_result" where
  "DeleteSeries seriesID organizerID d =
    rbind (owned_series seriesID organizerID d) (\<lambda>series. Inr (DeleteSeriesRow seriesID d))"

end
