(* ===== verification/Event_Handler.thy ===== *)
theory Event_Handler
  imports Event_Series Rate_Limiter
begin

text \<open>
  The HTTP handlers of events and co-hosts (\<open>internal/event/handler.go\<close>). The authentication
  middleware has put the user into the request; the router passes the URL parameters. A handler
  takes its own state (the notification throttle and the rate limiter) and the database to new
  ones, a response and the callbacks it makes. Log entries and the padding of the response time are
  left out.
\<close>

section \<open>Requests, responses and state\<close>

record ev_request =
  er_organizer :: "id option" \<comment> \<open>organizerFrom(r.Context())\<close>
  er_eventId :: id
  er_cohostId :: id
  er_remote_addr :: string
  er_ref :: string \<comment> \<open>what errcode.Ref returns\<close>

datatype ev_payload = EvEvent Event | EvEvents "Event list" | EvCoHosts "CoHost list" | EvCoHost CoHost | EvMessage string | EvStatus string

datatype ev_response = EvOK nat ev_payload | EvError nat string string \<comment> \<open>status, error code, message\<close>

datatype ev_call = ServiceCall event_call | NotifyCoHost string id id

record ev_state =
  es_seen :: "string \<rightharpoonup> time" \<comment> \<open>coHostNotifyThrottle\<close>
  es_windows :: "string \<rightharpoonup> time list" \<comment> \<open>coHostRateLimiter\<close>

text \<open>
  The fields of the handler. The lookup of organizers and the sponsor of co-hosts are functions of
  other components, registered by the server or not.
\<close>

record ev_handler =
  eh_service :: event_service
  eh_cohostStore :: bool
  eh_lookupByEmail :: "(string \<Rightarrow> idb \<Rightarrow> (id \<times> string) option) option"
  eh_notifyCoHost :: bool
  eh_maxCoHosts :: int
  eh_cohostSponsor :: "(id \<Rightarrow> id \<Rightarrow> string \<Rightarrow> idb \<Rightarrow> idb \<times> bool id_result) option"

type_synonym ev_result = "ev_state \<times> idb \<times> ev_response \<times> ev_call list"

section \<open>Throttling\<close>

definition throttle_allow :: "time \<Rightarrow> id \<Rightarrow> string \<Rightarrow> ev_state \<Rightarrow> ev_state \<times> bool" where
  "throttle_allow now eventID email st =
    (let k = eventID @ '':'' @ email in
     if (case es_seen st k of None \<Rightarrow> False | Some t \<Rightarrow> now - t < hour) then (st, False)
     else (st\<lparr>es_seen := (es_seen st)(k \<mapsto> now)\<rparr>, True))"

definition throttle_cleanup :: "time \<Rightarrow> ev_state \<Rightarrow> ev_state" where
  "throttle_cleanup now st = st\<lparr>es_seen := (\<lambda>k. case es_seen st k of
      None \<Rightarrow> None | Some t \<Rightarrow> if t < now - hour then None else Some t)\<rparr>"

definition cohost_limit :: int where "cohost_limit = 10"
definition cohost_window :: duration where "cohost_window = minute"

text \<open>The limiter prunes with the loop of the general rate limiter.\<close>

definition cohost_allow :: "time \<Rightarrow> string \<Rightarrow> ev_state \<Rightarrow> ev_state \<times> bool" where
  "cohost_allow now k st =
    (let es = prune_loop (now - cohost_window) 0 0 (case es_windows st k of None \<Rightarrow> [] | Some es \<Rightarrow> es) in
     if cohost_limit \<le> int (length es) then (st\<lparr>es_windows := (es_windows st)(k \<mapsto> es)\<rparr>, False)
     else (st\<lparr>es_windows := (es_windows st)(k \<mapsto> es @ [now])\<rparr>, True))"

section \<open>Errors\<close>

definition ev_internal :: "ev_request \<Rightarrow> ev_response" where
  "ev_internal rq = EvError 500 ''internal_error'' (''an internal error occurred (ref: '' @ er_ref rq @ '')'')"

definition ev_bad :: "string \<Rightarrow> ev_response" where "ev_bad msg = EvError 400 ''bad_request'' msg"
definition ev_not_found :: ev_response where "ev_not_found = EvError 404 ''not_found'' ''event not found''"
definition ev_unauthorized :: ev_response where "ev_unauthorized = EvError 401 ''unauthorized'' ''authentication required''"

definition create_error :: "ev_request \<Rightarrow> id_error \<Rightarrow> ev_response" where
  "create_error rq err = (case err of IdValidation msg \<Rightarrow> ev_bad msg | _ \<Rightarrow> ev_internal rq)"

definition event_error :: "ev_request \<Rightarrow> id_error \<Rightarrow> ev_response" where
  "event_error rq err = (case err of
      IdNotFound \<Rightarrow> ev_not_found
    | IdForbidden \<Rightarrow> EvError 403 ''forbidden'' ''you do not own this event''
    | IdValidation msg \<Rightarrow> ev_bad msg
    | _ \<Rightarrow> ev_internal rq)"

definition delete_error :: "ev_request \<Rightarrow> id_error \<Rightarrow> ev_response" where
  "delete_error rq err = (case err of
      IdNotFound \<Rightarrow> ev_not_found
    | IdForbidden \<Rightarrow> EvError 403 ''forbidden'' ''you do not own this event''
    | _ \<Rightarrow> ev_internal rq)"

definition ev_forbidden :: ev_response where
  "ev_forbidden = EvError 403 ''forbidden'' ''forbidden: you do not own this event''"

section \<open>Events\<close>

text \<open>Every handler first asks for the user.\<close>

definition authenticated :: "ev_request \<Rightarrow> (id \<Rightarrow> ev_state \<Rightarrow> idb \<Rightarrow> ev_result) \<Rightarrow> ev_state \<Rightarrow> idb \<Rightarrow> ev_result" where
  "authenticated rq h st d = (case er_organizer rq of None \<Rightarrow> (st, d, ev_unauthorized, []) | Some u \<Rightarrow> h u st d)"

text \<open>The end of the handlers that change an event.\<close>

definition answer_event ::
  "nat \<Rightarrow> (id_error \<Rightarrow> ev_response) \<Rightarrow> (idb \<times> Event \<times> event_call list) id_result \<Rightarrow> ev_state \<Rightarrow> idb \<Rightarrow> ev_result" where
  "answer_event status on_error r st d = (case r of
      Inl err \<Rightarrow> (st, d, on_error err, [])
    | Inr (d', e, calls) \<Rightarrow> (st, d', EvOK status (EvEvent e), map ServiceCall calls))"

definition handleCreate ::
  "ev_handler \<Rightarrow> (nat \<Rightarrow> id) \<Rightarrow> time \<Rightarrow> ev_request \<Rightarrow> CreateEventRequest json_body \<Rightarrow> ev_state \<Rightarrow> idb \<Rightarrow> ev_result" where
  "handleCreate h uuid now rq body = authenticated rq (\<lambda>u st d. case DecodeJSON body of
      Inl _ \<Rightarrow> (st, d, ev_bad ''invalid JSON body'', [])
    | Inr req \<Rightarrow> answer_event 201 (create_error rq) (CreateEvent (eh_service h) uuid now u req d) st d)"

definition handleList :: "ev_handler \<Rightarrow> ev_request \<Rightarrow> ev_state \<Rightarrow> idb \<Rightarrow> ev_result" where
  "handleList h rq = authenticated rq (\<lambda>u st d. case ListByOrganizer u d of
      Inl _ \<Rightarrow> (st, d, ev_internal rq, [])
    | Inr events \<Rightarrow> (st, d, EvOK 200 (EvEvents events), []))"

definition handleGet :: "ev_handler \<Rightarrow> ev_request \<Rightarrow> ev_state \<Rightarrow> idb \<Rightarrow> ev_result" where
  "handleGet h rq = authenticated rq (\<lambda>u st d. case GetByID (er_eventId rq) d of
      Inl err \<Rightarrow> (st, d, if err = IdNotFound then ev_not_found else ev_internal rq, [])
    | Inr ev \<Rightarrow> (case CanManageEvent (er_eventId rq) u d of
         Inr True \<Rightarrow> (st, d, EvOK 200 (EvEvent ev), [])
       | _ \<Rightarrow> (st, d, ev_not_found, [])))"

definition handleUpdate ::
  "ev_handler \<Rightarrow> time \<Rightarrow> ev_request \<Rightarrow> UpdateEventRequest json_body \<Rightarrow> ev_state \<Rightarrow> idb \<Rightarrow> ev_result" where
  "handleUpdate h now rq body = authenticated rq (\<lambda>u st d. case DecodeJSON body of
      Inl _ \<Rightarrow> (st, d, ev_bad ''invalid JSON body'', [])
    | Inr req \<Rightarrow> answer_event 200 (event_error rq) (UpdateEvent (eh_service h) now (er_eventId rq) u req d) st d)"

definition handlePublish :: "ev_handler \<Rightarrow> time \<Rightarrow> ev_request \<Rightarrow> ev_state \<Rightarrow> idb \<Rightarrow> ev_result" where
  "handlePublish h now rq = authenticated rq (\<lambda>u st d.
    answer_event 200 (event_error rq) (PublishEvent (eh_service h) now (er_eventId rq) u d) st d)"

text \<open>The body holds the optional flag \<open>notifyInvitees\<close> and may be absent.\<close>

definition handleCancel :: "ev_handler \<Rightarrow> time \<Rightarrow> ev_request \<Rightarrow> bool option json_body \<Rightarrow> ev_state \<Rightarrow> idb \<Rightarrow> ev_result" where
  "handleCancel h now rq body = authenticated rq (\<lambda>u st d. case DecodeOptionalJSON None body of
      Inl _ \<Rightarrow> (st, d, ev_bad ''invalid JSON body'', [])
    | Inr notify \<Rightarrow> answer_event 200 (event_error rq) (CancelEvent (eh_service h) now (er_eventId rq) u (notify = Some True) d) st d)"

definition handleReopen :: "ev_handler \<Rightarrow> time \<Rightarrow> ev_request \<Rightarrow> ev_state \<Rightarrow> idb \<Rightarrow> ev_result" where
  "handleReopen h now rq = authenticated rq (\<lambda>u st d.
    answer_event 200 (event_error rq) (ReopenEvent (eh_service h) now (er_eventId rq) u d) st d)"

definition handleDuplicate :: "ev_handler \<Rightarrow> (nat \<Rightarrow> id) \<Rightarrow> time \<Rightarrow> ev_request \<Rightarrow> ev_state \<Rightarrow> idb \<Rightarrow> ev_result" where
  "handleDuplicate h uuid now rq = authenticated rq (\<lambda>u st d.
    answer_event 201 (event_error rq) (DuplicateEvent (eh_service h) uuid now (er_eventId rq) u d) st d)"

definition handleDelete :: "ev_handler \<Rightarrow> time \<Rightarrow> ev_request \<Rightarrow> ev_state \<Rightarrow> idb \<Rightarrow> ev_result" where
  "handleDelete h now rq = authenticated rq (\<lambda>u st d. case DeleteEvent now (er_eventId rq) u d of
      Inl err \<Rightarrow> (st, d, delete_error rq err, [])
    | Inr d' \<Rightarrow> (st, d', EvOK 200 (EvMessage ''event deleted''), []))"

section \<open>Co-hosts\<close>

definition handleListCoHosts :: "ev_handler \<Rightarrow> ev_request \<Rightarrow> ev_state \<Rightarrow> idb \<Rightarrow> ev_result" where
  "handleListCoHosts h rq = authenticated rq (\<lambda>u st d. case CanManageEvent (er_eventId rq) u d of
      Inl _ \<Rightarrow> (st, d, ev_not_found, [])
    | Inr canManage \<Rightarrow>
       if \<not> canManage then (st, d, ev_forbidden, [])
       else (st, d, EvOK 200 (EvCoHosts (if eh_cohostStore h then FindCoHostsByEventID (er_eventId rq) d else [])), []))"

definition cohost_generic :: string where
  "cohost_generic = ''Unable to add co-host. Ensure the email belongs to an eligible Owl Invites account.''"

text \<open>
  Adding a co-host without a sponsor: by the email of an existing organizer, under the mutex of the
  event.
\<close>

definition add_existing ::
  "ev_handler \<Rightarrow> id \<Rightarrow> time \<Rightarrow> ev_request \<Rightarrow> id \<Rightarrow> string \<Rightarrow> ev_state \<Rightarrow> idb \<Rightarrow> ev_result" where
  "add_existing h uuid now rq u email st d =
    (let eventID = er_eventId rq; refused = (st, d, ev_bad cohost_generic, []) in
     case eh_lookupByEmail h of
       None \<Rightarrow> refused
     | Some look \<Rightarrow>
        if \<not> eh_cohostStore h then refused
        else case look email d of
          None \<Rightarrow> refused
        | Some (targetID, targetName) \<Rightarrow>
           if targetID = [] \<or> targetID = u then refused
           else if FindByEventAndOrganizer eventID targetID d \<noteq> None then refused
           else if eh_maxCoHosts h \<le> int (CountCoHostsByEventID eventID d)
           then (st, d, ev_bad (''Maximum '' @ itoa (eh_maxCoHosts h) @ '' co-hosts per event''), [])
           else case CreateCoHost now \<lparr> ch_ID = uuid, ch_EventID = eventID, ch_UserID = targetID, ch_OrganizerID = targetID,
                   ch_Role = ''cohost'', ch_GrantedByUserID = u, ch_AddedBy = u, ch_CreatedAt = 0, ch_Email = [], ch_Name = [],
                   ch_OrganizerEmail = [], ch_OrganizerName = [] \<rparr> d of
             Inl _ \<Rightarrow> (st, d, ev_internal rq, [])
           | Inr (d', ch) \<Rightarrow>
              (let (st', notify) = (if eh_notifyCoHost h then throttle_allow now eventID email st else (st, False)) in
               (st', d', EvOK 201 (EvCoHost (ch\<lparr>ch_OrganizerEmail := email, ch_OrganizerName := targetName, ch_Email := email, ch_Name := targetName\<rparr>)),
                if notify then [NotifyCoHost email eventID u] else [])))"

definition handleAddCoHost ::
  "ev_handler \<Rightarrow> id \<Rightarrow> time \<Rightarrow> ev_request \<Rightarrow> string json_body \<Rightarrow> ev_state \<Rightarrow> idb \<Rightarrow> ev_result" where
  "handleAddCoHost h uuid now rq body = authenticated rq (\<lambda>u st d.
    let eventID = er_eventId rq;
        ip = (case split_host_port (er_remote_addr rq) of None \<Rightarrow> er_remote_addr rq | Some (host, _) \<Rightarrow> if host = [] then er_remote_addr rq else host);
        (st, allowed) = cohost_allow now ip st in
    if \<not> allowed then (st, d, EvError 429 ''rate_limited'' ''too many requests, please try again later'', [])
    else case IsEventOwner eventID u d of
      Inl _ \<Rightarrow> (st, d, ev_not_found, [])
    | Inr isOwner \<Rightarrow>
       if \<not> isOwner then (st, d, ev_forbidden, [])
       else case DecodeJSON body of
         Inl _ \<Rightarrow> (st, d, ev_bad ''invalid JSON body'', [])
       | Inr email \<Rightarrow>
          if email = [] then (st, d, ev_bad ''email is required'', [])
          else case eh_cohostSponsor h of
            None \<Rightarrow> add_existing h uuid now rq u email st d
          | Some sponsor \<Rightarrow> (case sponsor u eventID email d of
               (d', Inl _) \<Rightarrow> (st, d', ev_bad ''Unable to add co-host. Ensure the email is eligible and the event has capacity.'', [])
             | (d', Inr pending) \<Rightarrow>
                (st, d', if pending then EvOK 202 (EvStatus ''account_invitation_sent'') else EvOK 201 (EvStatus ''membership_created''), [])))"

definition handleRemoveCoHost :: "ev_handler \<Rightarrow> ev_request \<Rightarrow> ev_state \<Rightarrow> idb \<Rightarrow> ev_result" where
  "handleRemoveCoHost h rq = authenticated rq (\<lambda>u st d.
    let missing = (st, d, EvError 404 ''not_found'' ''co-host not found'', []) in
    if \<not> eh_cohostStore h then missing
    else case FindCoHostByID (er_cohostId rq) d of
      None \<Rightarrow> missing
    | Some ch \<Rightarrow>
       if ch_EventID ch \<noteq> er_eventId rq then missing
       else case IsEventOwner (er_eventId rq) u d of
         Inl _ \<Rightarrow> (st, d, ev_not_found, [])
       | Inr isOwner \<Rightarrow>
          if \<not> isOwner \<and> ch_OrganizerID ch \<noteq> u then (st, d, ev_forbidden, [])
          else (st, DeleteCoHost (er_cohostId rq) d, EvOK 200 (EvMessage ''co-host removed''), []))"

section \<open>Routes\<close>

datatype event_op =
    EvCreate "CreateEventRequest json_body"
  | EvList
  | EvGet
  | EvUpdate "UpdateEventRequest json_body"
  | EvPublish
  | EvCancel "bool option json_body"
  | EvReopen
  | EvDuplicate
  | EvDelete
  | EvListCoHosts
  | EvAddCoHost "string json_body"
  | EvRemoveCoHost

fun event_handle :: "ev_handler \<Rightarrow> (nat \<Rightarrow> id) \<Rightarrow> time \<Rightarrow> event_op \<Rightarrow> ev_request \<Rightarrow> ev_state \<Rightarrow> idb \<Rightarrow> ev_result" where
  "event_handle h uuid now (EvCreate body) rq st d = handleCreate h uuid now rq body st d"
| "event_handle h uuid now EvList rq st d = handleList h rq st d"
| "event_handle h uuid now EvGet rq st d = handleGet h rq st d"
| "event_handle h uuid now (EvUpdate body) rq st d = handleUpdate h now rq body st d"
| "event_handle h uuid now EvPublish rq st d = handlePublish h now rq st d"
| "event_handle h uuid now (EvCancel body) rq st d = handleCancel h now rq body st d"
| "event_handle h uuid now EvReopen rq st d = handleReopen h now rq st d"
| "event_handle h uuid now EvDuplicate rq st d = handleDuplicate h uuid now rq st d"
| "event_handle h uuid now EvDelete rq st d = handleDelete h now rq st d"
| "event_handle h uuid now EvListCoHosts rq st d = handleListCoHosts h rq st d"
| "event_handle h uuid now (EvAddCoHost body) rq st d = handleAddCoHost h (uuid 0) now rq body st d"
| "event_handle h uuid now EvRemoveCoHost rq st d = handleRemoveCoHost h rq st d"

end
