(* ===== verification/Event_Safety.thy ===== *)
theory Event_Safety
  imports Event_Handler Account_Safety
begin

text \<open>
  Events over time. \<open>event_step\<close> has one rule for each operation on events, their series and members,
  and one for the operations on accounts. Events follow a lifecycle, given as an abstract automaton,
  and every event has exactly one owner, who stays the same.
\<close>

section \<open>Lifecycle\<close>

text \<open>
  The automaton: drafts are published, cancelled events reopened as drafts, and every event can be
  archived. Only published events are cancelled on their own; stopping a series cancels its
  occurrences in every other state too.
\<close>

inductive life :: "string \<Rightarrow> string \<Rightarrow> bool" where
  publish: "life ''draft'' ''published''"
| cancel: "s \<noteq> ''cancelled'' \<Longrightarrow> s \<noteq> ''archived'' \<Longrightarrow> life s ''cancelled''"
| reopen: "life ''cancelled'' ''draft''"
| archive: "life s ''archived''"

inductive_cases life_archivedE: "life ''archived'' s"

lemma life_archived: "life\<^sup>*\<^sup>* ''archived'' s \<Longrightarrow> s = ''archived''"
  by (induction rule: rtranclp_induct) (auto elim: life_archivedE)

definition status_of :: "id \<Rightarrow> idb \<Rightarrow> string option" where
  "status_of i d = map_option e_Status (select_row (\<lambda>r. e_ID r = i) (id_events d))"

section \<open>How the tables of events evolve\<close>

definition owner_rows :: "idb \<Rightarrow> membership_row list" where
  "owner_rows d = filter (\<lambda>m. mb_role m = ''owner'') (id_memberships d)"

definition row_step :: "event_row \<Rightarrow> event_row \<Rightarrow> bool" where
  "row_step r r' \<longleftrightarrow> e_ID r' = e_ID r \<and> life\<^sup>*\<^sup>* (e_Status r) (e_Status r')"

text \<open>Rows keep their place and follow the automaton; new events have new ids and bring an owner each.\<close>

definition evolves :: "idb \<Rightarrow> idb \<Rightarrow> bool" where
  "evolves d d' \<longleftrightarrow> (\<exists>old new owners. id_events d' = old @ new \<and> list_all2 row_step (id_events d) old \<and>
     owner_rows d' = owner_rows d @ owners \<and> map mb_event_id owners = map e_ID new \<and>
     distinct (map e_ID new) \<and> e_ID ` set new \<inter> known_events d = {})"

definition one_owner :: "idb \<Rightarrow> bool" where
  "one_owner d \<longleftrightarrow> distinct (map e_ID (id_events d)) \<and>
    mset (map mb_event_id (owner_rows d)) = mset (map e_ID (id_events d))"

lemma row_step_refl [simp]: "row_step r r"
  by (simp add: row_step_def)

lemma row_step_trans: "row_step r s \<Longrightarrow> row_step s t \<Longrightarrow> row_step r t"
  by (auto simp: row_step_def)

lemma row_steps_ids: "list_all2 row_step rs rs' \<Longrightarrow> map e_ID rs' = map e_ID rs"
  by (induction rule: list_all2_induct) (auto simp: row_step_def)

lemma same_keys: "map f xs = map f ys \<Longrightarrow> f ` set xs = f ` set ys"
  unfolding set_map [symmetric] by (rule arg_cong)

lemma evolves_same: "id_events d' = id_events d \<Longrightarrow> owner_rows d' = owner_rows d \<Longrightarrow> evolves d d'"
  unfolding evolves_def by (intro exI [of _ "id_events d"] exI [of _ "[]"]) (simp add: list_all2_refl)

lemma evolves_refl [simp, intro]: "evolves d d"
  by (simp add: evolves_same)

lemma event_evolves_trans:
  assumes "evolves d d1" "evolves d1 d2"
  shows "evolves d d2"
proof -
  obtain old1 new1 own1 where 1: "id_events d1 = old1 @ new1" "list_all2 row_step (id_events d) old1" "owner_rows d1 = owner_rows d @ own1"
    "map mb_event_id own1 = map e_ID new1" "distinct (map e_ID new1)" "e_ID ` set new1 \<inter> known_events d = {}"
    using assms(1) by (auto simp: evolves_def)
  obtain old2 new2 own2 where 2: "id_events d2 = old2 @ new2" "list_all2 row_step (id_events d1) old2" "owner_rows d2 = owner_rows d1 @ own2"
    "map mb_event_id own2 = map e_ID new2" "distinct (map e_ID new2)" "e_ID ` set new2 \<inter> known_events d1 = {}"
    using assms(2) by (auto simp: evolves_def)
  obtain old2a old2b where s: "old2 = old2a @ old2b" "list_all2 row_step old1 old2a" "list_all2 row_step new1 old2b"
    using 2(2) unfolding 1(1) by (auto simp: list_all2_append1)
  have "list_all2 row_step (id_events d) old2a"
    by (rule list_all2_trans [OF _ 1(2) s(2)]) (rule row_step_trans)
  moreover have ids: "map e_ID old2b = map e_ID new1" "map e_ID old1 = map e_ID (id_events d)"
    using row_steps_ids [OF s(3)] row_steps_ids [OF 1(2)] by simp_all
  moreover have "known_events d1 = known_events d \<union> e_ID ` set new1"
    unfolding known_events_def 1(1) set_append image_Un same_keys [OF ids(2)] ..
  moreover have "e_ID ` set old2b = e_ID ` set new1" by (rule same_keys [OF ids(1)])
  ultimately show ?thesis unfolding evolves_def using 1 2 s
    by (intro exI [of _ old2a] exI [of _ "old2b @ new2"] exI [of _ "own1 @ own2"]) auto
qed

lemma evolves_one_owner: "evolves d d' \<Longrightarrow> one_owner d \<Longrightarrow> one_owner d'"
proof -
  assume "evolves d d'" "one_owner d"
  then obtain old new own where e: "id_events d' = old @ new" "list_all2 row_step (id_events d) old" "owner_rows d' = owner_rows d @ own"
    "map mb_event_id own = map e_ID new" "distinct (map e_ID new)" "e_ID ` set new \<inter> known_events d = {}"
    by (auto simp: evolves_def)
  have ids: "map e_ID old = map e_ID (id_events d)" by (rule row_steps_ids [OF e(2)])
  have "e_ID ` set old = known_events d" unfolding known_events_def by (rule same_keys [OF ids])
  then have "distinct (map e_ID (id_events d'))"
    using \<open>one_owner d\<close> e(5,6) by (simp add: e(1) ids one_owner_def known_events_def Int_commute)
  moreover have "mset (map mb_event_id (owner_rows d')) = mset (map e_ID (id_events d'))"
    using \<open>one_owner d\<close> by (simp add: e(1,3,4) ids one_owner_def)
  ultimately show ?thesis by (simp add: one_owner_def)
qed

lemma evolves_status:
  assumes "evolves d d'" "status_of i d = Some s"
  obtains s' where "status_of i d' = Some s'" "life\<^sup>*\<^sup>* s s'"
proof -
  obtain old new where e: "id_events d' = old @ new" "list_all2 row_step (id_events d) old"
    using assms(1) by (auto simp: evolves_def)
  have "\<exists>r'. select_row (\<lambda>r. e_ID r = i) (old @ new) = Some r' \<and> life\<^sup>*\<^sup>* s (e_Status r')"
    using e(2) assms(2) unfolding status_of_def
    by (induction rule: list_all2_induct) (auto simp: select_row_def row_step_def split: if_splits)
  then show thesis using that e(1) by (auto simp: status_of_def)
qed

section \<open>Operations on events\<close>

lemma owner_rows_simps [simp]:
  "owner_rows (d\<lparr>id_users := us\<rparr>) = owner_rows d" "owner_rows (d\<lparr>id_events := es\<rparr>) = owner_rows d"
  "owner_rows (d\<lparr>id_series := ss\<rparr>) = owner_rows d" "owner_rows (d\<lparr>id_sessions := se\<rparr>) = owner_rows d"
  "owner_rows (d\<lparr>id_magic_links := ml\<rparr>) = owner_rows d" "owner_rows (d\<lparr>id_invites := iv\<rparr>) = owner_rows d"
  "owner_rows (d\<lparr>id_audit := au\<rparr>) = owner_rows d"
  by (simp_all add: owner_rows_def)

lemma stored_event_simps [simp]:
  "e_ID (stored_event e c n) = e_ID e" "e_Status (stored_event e c n) = e_Status e"
  by (simp_all add: stored_event_def event_row.defs)

lemma create_evolves_events: "createEvent mid now e d = Inr (d', e') \<Longrightarrow> evolves d d'"
  unfolding evolves_def
  by (intro exI [of _ "id_events d"] exI [of _ "[stored_event e (trunc_sec now) (trunc_sec now)]"] exI [of _ "[owner_membership mid now e]"])
    (auto simp: createEvent_def insert_event_def insert_membership_def owner_rows_def owner_membership_def add_row_def list_all2_refl
      split: if_splits)

lemma update_evolves_events:
  assumes "StoreUpdateEvent now e d = Inr (d', e')" "\<And>r. r \<in> set (id_events d) \<Longrightarrow> e_ID r = e_ID e \<Longrightarrow> life\<^sup>*\<^sup>* (e_Status r) (e_Status e)"
  shows "evolves d d'"
proof -
  let ?f = "\<lambda>r. stored_event e (e_CreatedAt r) (trunc_sec now)"
  have d': "d' = d\<lparr>id_events := update_where (\<lambda>r. e_ID r = e_ID e) ?f (id_events d)\<rparr>"
    using assms(1) by (auto simp: StoreUpdateEvent_def split: if_splits)
  have "list_all2 row_step (id_events d) (update_where (\<lambda>r. e_ID r = e_ID e) ?f (id_events d))"
    unfolding update_where_def list_all2_map2 using assms(2) by (auto simp: row_step_def intro!: list_all2_refl list.rel_refl_strong)
  then show ?thesis unfolding evolves_def d'
    by (intro exI [of _ "update_where (\<lambda>r. e_ID r = e_ID e) ?f (id_events d)"] exI [of _ "[]"]) simp
qed

text \<open>Events that were read are rows of the table, with an owner.\<close>

lemma scanEvent_row: "scanEvent d r = Inr e \<Longrightarrow> event_row.truncate e = r \<and> owner_of (e_ID r) d = Some (e_OrganizerID e)"
  by (auto simp: scanEvent_def event_row.defs Event.defs)

lemma truncate_simps [simp]: "e_ID (event_row.truncate e) = e_ID e" "e_Status (event_row.truncate e) = e_Status e"
  by (simp_all add: event_row.defs)

lemma found_event:
  assumes "FindEventByID i d = Inr (Some e)"
  shows "event_row.truncate e \<in> set (id_events d)" "e_ID e = i"
proof -
  obtain r where r: "select_row (\<lambda>r. e_ID r = i) (id_events d) = Some r" "scanEvent d r = Inr e"
    using assms by (auto simp: FindEventByID_def split: option.splits)
  then show "event_row.truncate e \<in> set (id_events d)" "e_ID e = i"
    using scanEvent_row [OF r(2)] select_row_SomeD [OF r(1)] truncate_simps(1) [of e] by auto
qed

lemma scanned_events: "scan_events d rs = Inr es \<Longrightarrow> map event_row.truncate es = rs"
  by (induction rs arbitrary: es) (auto dest!: scanEvent_row)

lemma managed_row: "managed_event i u d = Inr e \<Longrightarrow> event_row.truncate e \<in> set (id_events d) \<and> e_ID e = i"
  by (rule conjI; rule found_event [of i d e]; auto simp: managed_event_def split: option.splits)

lemma owned_row: "owned_event i u d = Inr e \<Longrightarrow> event_row.truncate e \<in> set (id_events d) \<and> e_ID e = i"
  by (rule conjI; rule found_event [of i d e]; auto simp: owned_event_def split: option.splits)

lemma row_status:
  assumes "one_owner d" "event_row.truncate e \<in> set (id_events d)" "r \<in> set (id_events d)" "e_ID r = e_ID e"
  shows "e_Status r = e_Status e"
proof -
  have "inj_on e_ID (set (id_events d))" using assms(1) by (simp add: one_owner_def distinct_map)
  then have "r = event_row.truncate e" by (rule inj_onD) (use assms in simp_all)
  then show ?thesis by simp
qed

lemma apply_update_simps:
  assumes "apply_update s req e = Inr e'"
  shows "e_ID e' = e_ID e" "e_Status e' = e_Status e"
proof -
  have "e_ID e' = e_ID e \<and> e_Status e' = e_Status e"
    using assms unfolding apply_update_def
    by (rule loop_invariant [where I = "\<lambda>x. e_ID x = e_ID e \<and> e_Status x = e_Status e"])
      (auto simp: set_field_def split: option.splits if_splits)
  then show "e_ID e' = e_ID e" "e_Status e' = e_Status e" by simp_all
qed

lemma store_moves:
  assumes "one_owner d" "event_row.truncate e \<in> set (id_events d)" "e_ID e2 = e_ID e" "life\<^sup>*\<^sup>* (e_Status e) (e_Status e2)"
    and "StoreUpdateEvent now e2 d = Inr (d', e3)"
  shows "evolves d d'"
proof (rule update_evolves_events [OF assms(5)])
  fix r assume "r \<in> set (id_events d)" "e_ID r = e_ID e2"
  then show "life\<^sup>*\<^sup>* (e_Status r) (e_Status e2)" using row_status [OF assms(1,2)] assms(3,4) by metis
qed

lemma store_status:
  "one_owner d \<Longrightarrow> event_row.truncate e \<in> set (id_events d) \<Longrightarrow> StoreUpdateEvent now (e\<lparr>e_Status := st\<rparr>) d = Inr (d', e3) \<Longrightarrow>
    life\<^sup>*\<^sup>* (e_Status e) st \<Longrightarrow> evolves d d'"
  by (rule store_moves [of d e "e\<lparr>e_Status := st\<rparr>"]) simp_all

lemma transition_evolves:
  "one_owner d \<Longrightarrow> managed_event i u d = Inr e \<Longrightarrow> e_Status e = st \<Longrightarrow>
    StoreUpdateEvent now (e\<lparr>e_Status := st'\<rparr>) d = Inr (d', e3) \<Longrightarrow> life\<^sup>*\<^sup>* st st' \<Longrightarrow> evolves d d'"
  by (rule store_status) (auto dest: managed_row)

lemma life_steps [intro]:
  "life\<^sup>*\<^sup>* ''draft'' ''published''" "life\<^sup>*\<^sup>* ''published'' ''cancelled''" "life\<^sup>*\<^sup>* ''cancelled'' ''draft''"
  "life\<^sup>*\<^sup>* st ''archived''"
  by (rule r_into_rtranclp, simp add: life.intros)+

lemma op_evolves:
  "CreateEvent s uuid now u creq d = Inr (d', e', calls) \<Longrightarrow> evolves d d'"
  "one_owner d \<Longrightarrow> UpdateEvent s now i u req d = Inr (d', e', calls) \<Longrightarrow> evolves d d'"
  "one_owner d \<Longrightarrow> PublishEvent s now i u d = Inr (d', e', calls) \<Longrightarrow> evolves d d'"
  "one_owner d \<Longrightarrow> CancelEvent s now i u n d = Inr (d', e', calls) \<Longrightarrow> evolves d d'"
  "one_owner d \<Longrightarrow> ReopenEvent s now i u d = Inr (d', e', calls) \<Longrightarrow> evolves d d'"
  "DuplicateEvent s uuid now i u d = Inr (d', e', calls) \<Longrightarrow> evolves d d'"
  "one_owner d \<Longrightarrow> DeleteEvent now i u d = Inr d' \<Longrightarrow> evolves d d'"
proof -
  show "evolves d d'" if "CreateEvent s uuid now u creq d = Inr (d', e', calls)"
    using that by (auto simp: CreateEvent_def Let_def intro: create_evolves_events)
  show "evolves d d'" if "DuplicateEvent s uuid now i u d = Inr (d', e', calls)"
    using that by (auto simp: DuplicateEvent_def Let_def intro: create_evolves_events)
  show "evolves d d'" if wf: "one_owner d" and up: "UpdateEvent s now i u req d = Inr (d', e', calls)"
  proof -
    obtain e e2 where e: "managed_event i u d = Inr e" "apply_update s req e = Inr e2" "StoreUpdateEvent now e2 d = Inr (d', e')"
      using up by (auto simp: UpdateEvent_def)
    show ?thesis by (rule store_moves [OF wf _ apply_update_simps(1) [OF e(2)] _ e(3)])
      (use managed_row [OF e(1)] apply_update_simps(2) [OF e(2)] in simp_all)
  qed
  show "evolves d d'" if "one_owner d" "PublishEvent s now i u d = Inr (d', e', calls)"
    using that by (auto simp: PublishEvent_def intro: transition_evolves)
  show "evolves d d'" if "one_owner d" "CancelEvent s now i u n d = Inr (d', e', calls)"
    using that by (auto simp: CancelEvent_def intro: transition_evolves)
  show "evolves d d'" if "one_owner d" "ReopenEvent s now i u d = Inr (d', e', calls)"
    using that by (auto simp: ReopenEvent_def intro: transition_evolves)
  show "evolves d d'" if "one_owner d" "DeleteEvent now i u d = Inr d'"
    using that by (auto simp: DeleteEvent_def dest!: owned_row intro: store_status)
qed

section \<open>Operations on series\<close>

lemma initial_evolves:
  "initial_loop s uuid clk series od n i cur d calls = (d', calls', err) \<Longrightarrow> evolves d d'"
proof (induction n arbitrary: i cur d calls)
  case (Suc n)
  then show ?case
    by (auto simp: CreateFromSeries_def split: if_splits sum.splits intro: event_evolves_trans [OF create_evolves_events])
qed simp

lemma initial_fst: "evolves d (fst (initial_loop s uuid clk series od n i cur d calls))"
  using initial_evolves by (cases "initial_loop s uuid clk series od n i cur d calls") fastforce

lemma generate_evolves:
  "generate_loop s uuid clk series od n i prev k d calls = (d', calls', err) \<Longrightarrow> evolves d d'"
proof (induction n arbitrary: i prev k d calls)
  case (Suc n)
  then show ?case
    by (auto simp: CreateFromSeries_def Let_def split: if_splits sum.splits intro: event_evolves_trans [OF create_evolves_events])
qed simp

lemma GenerateOccurrences_evolves: "GenerateOccurrences s uuid now clk i d = (d', calls, err) \<Longrightarrow> evolves d d'"
  by (auto simp: GenerateOccurrences_def split: option.splits if_splits sum.splits intro: generate_evolves)

lemma generate_all_evolves: "generate_all s uuid now clk k ss d = (d', calls) \<Longrightarrow> evolves d d'"
proof (induction ss arbitrary: k d calls)
  case (Cons es ss)
  then show ?case
    by (auto simp: Let_def split: prod.splits intro: event_evolves_trans [OF GenerateOccurrences_evolves])
qed simp

lemma CreateSeries_evolves: "CreateSeries s sid uuid now clk u req d = Inr (d', series, calls) \<Longrightarrow> evolves d d'"
proof -
  assume "CreateSeries s sid uuid now clk u req d = Inr (d', series, calls)"
  then obtain es d1 es1 where c: "CreateSeriesRow now es d = Inr (d1, es1)"
    "d' = fst (generateInitialOccurrences s uuid clk es1 (csr_StartDate req) d1)"
    by (auto simp: CreateSeries_def Let_def case_prod_beta)
  have "evolves d d1" using c(1) by (auto simp: CreateSeriesRow_def insert_series_def split: if_splits intro: evolves_same)
  moreover have "evolves d1 d'"
    unfolding c(2) generateInitialOccurrences_def by (auto split: sum.splits intro: initial_fst)
  ultimately show ?thesis by (rule event_evolves_trans)
qed

text \<open>
  Updating the future occurrences writes back the status that was read; no status changes meanwhile.
\<close>

definition same_statuses :: "idb \<Rightarrow> idb \<Rightarrow> bool" where
  "same_statuses d d' \<longleftrightarrow> map (\<lambda>r. (e_ID r, e_Status r)) (id_events d') = map (\<lambda>r. (e_ID r, e_Status r)) (id_events d) \<and>
    owner_rows d' = owner_rows d"

lemma same_statuses_evolves: "same_statuses d d' \<Longrightarrow> evolves d d'"
proof -
  assume s: "same_statuses d d'"
  then have "list_all2 (\<lambda>r r'. (e_ID r', e_Status r') = (e_ID r, e_Status r)) (id_events d) (id_events d')"
    unfolding same_statuses_def by (auto simp: list_all2_conv_all_nth list_eq_iff_nth_eq)
  then have "list_all2 row_step (id_events d) (id_events d')" by (rule list_all2_mono) (simp add: row_step_def)
  then show ?thesis unfolding evolves_def using s by (intro exI [of _ "id_events d'"] exI [of _ "[]"]) (simp add: same_statuses_def)
qed

lemma try_update_same:
  assumes "\<forall>r \<in> set (id_events d). e_ID r = e_ID ev \<longrightarrow> e_Status r = e_Status ev"
  shows "same_statuses d (try_update now ev d)"
proof -
  have "map (\<lambda>r. (e_ID r, e_Status r)) (update_where (\<lambda>r. e_ID r = e_ID ev) (\<lambda>r. stored_event ev (e_CreatedAt r) (trunc_sec now)) (id_events d)) =
      map (\<lambda>r. (e_ID r, e_Status r)) (id_events d)"
    using assms by (auto simp: update_where_def)
  then show ?thesis by (auto simp: try_update_def StoreUpdateEvent_def same_statuses_def split: if_splits)
qed

lemma same_statuses_status:
  assumes "same_statuses d d'" "\<forall>r \<in> set (id_events d). e_ID r = i \<longrightarrow> e_Status r = st"
  shows "\<forall>r \<in> set (id_events d'). e_ID r = i \<longrightarrow> e_Status r = st"
proof (intro ballI impI)
  fix r assume "r \<in> set (id_events d')" "e_ID r = i"
  then have "(i, e_Status r) \<in> (\<lambda>r. (e_ID r, e_Status r)) ` set (id_events d')" by (intro rev_image_eqI [of r]) simp_all
  then have "(i, e_Status r) \<in> (\<lambda>r. (e_ID r, e_Status r)) ` set (id_events d)"
    unfolding same_keys [OF assms(1) [unfolded same_statuses_def, THEN conjunct1]] .
  then show "e_Status r = st" using assms(2) by auto
qed

lemma update_future_same:
  assumes "\<forall>ev \<in> set evs. \<forall>r \<in> set (id_events d). e_ID r = e_ID ev \<longrightarrow> e_Status r = e_Status ev"
  shows "same_statuses d (update_future clk k series evs d)"
  using assms
proof (induction evs arbitrary: k d)
  case Nil
  then show ?case by (simp add: same_statuses_def)
next
  case (Cons ev evs)
  let ?d = "if e_SeriesOverride ev then d else try_update (clk k) (from_template series ev) d"
  have "same_statuses d (try_update (clk k) (from_template series ev) d)"
    by (rule try_update_same) (use Cons.prems in \<open>simp add: from_template_def\<close>)
  then have d: "same_statuses d ?d" by (simp add: same_statuses_def)
  have "\<forall>r \<in> set (id_events ?d). e_ID r = e_ID x \<longrightarrow> e_Status r = e_Status x" if "x \<in> set evs" for x
    by (rule same_statuses_status [OF d]) (use Cons.prems that in simp)
  then have "same_statuses ?d (update_future clk (Suc k) series evs ?d)" by (intro Cons.IH) blast
  then show ?case using d by (simp only: same_statuses_def update_future.simps)
qed

lemma future_rows:
  assumes "FindFutureBySeriesID i now d = Inr evs" "ev \<in> set evs"
  shows "event_row.truncate ev \<in> set (id_events d)" "e_Status ev \<noteq> ''cancelled''" "e_Status ev \<noteq> ''archived''"
proof -
  have "event_row.truncate ev \<in> set (order_by oldest_first (filter (future_of_series i now) (id_events d)))"
    using scanned_events [of d _ evs] assms by (metis FindFutureBySeriesID_def image_eqI set_map)
  then show "event_row.truncate ev \<in> set (id_events d)" "e_Status ev \<noteq> ''cancelled''" "e_Status ev \<noteq> ''archived''"
    by (auto simp: future_of_series_def)
qed

text \<open>Stopping a series: each occurrence that was read still has the status it had, or was cancelled.\<close>

definition stoppable :: "idb \<Rightarrow> Event \<Rightarrow> bool" where
  "stoppable d ev \<longleftrightarrow> e_Status ev \<noteq> ''cancelled'' \<and> e_Status ev \<noteq> ''archived'' \<and>
    (\<forall>r \<in> set (id_events d). e_ID r = e_ID ev \<longrightarrow> e_Status r = e_Status ev \<or> e_Status r = ''cancelled'')"

lemma store_rows:
  "StoreUpdateEvent now e d = Inr (d', e') \<Longrightarrow> r \<in> set (id_events d') \<Longrightarrow>
    (r \<in> set (id_events d) \<and> e_ID r \<noteq> e_ID e) \<or> (e_ID r = e_ID e \<and> e_Status r = e_Status e)"
  by (auto simp: StoreUpdateEvent_def set_update_where split: if_splits)

lemma cancelled_stoppable:
  assumes "StoreUpdateEvent now e d = Inr (d', e')" "e_Status e = ''cancelled''" "stoppable d ev"
  shows "stoppable d' ev"
  using assms(2,3) store_rows [OF assms(1)] unfolding stoppable_def by metis

lemma cancel_stoppable: "CancelEvent s now i u n d = Inr (d', e', calls) \<Longrightarrow> stoppable d ev \<Longrightarrow> stoppable d' ev"
  by (auto simp: CancelEvent_def elim!: cancelled_stoppable)

lemma stop_one:
  assumes "one_owner d" "stoppable d ev"
  shows "evolves d (try_update now (ev\<lparr>e_Status := ''cancelled''\<rparr>) d)"
    "stoppable d x \<Longrightarrow> stoppable (try_update now (ev\<lparr>e_Status := ''cancelled''\<rparr>) d) x"
proof -
  have life: "life\<^sup>*\<^sup>* (e_Status r) ''cancelled''" if "r \<in> set (id_events d)" "e_ID r = e_ID ev" for r
  proof -
    have st: "e_Status r = e_Status ev \<or> e_Status r = ''cancelled''" "e_Status ev \<noteq> ''cancelled''" "e_Status ev \<noteq> ''archived''"
      using assms(2) that unfolding stoppable_def by blast+
    then show ?thesis using life.cancel [OF st(2,3)] by (metis r_into_rtranclp rtranclp.rtrancl_refl)
  qed
  show "evolves d (try_update now (ev\<lparr>e_Status := ''cancelled''\<rparr>) d)"
    unfolding try_update_def by (auto split: sum.splits elim!: update_evolves_events simp: life)
  show "stoppable d x \<Longrightarrow> stoppable (try_update now (ev\<lparr>e_Status := ''cancelled''\<rparr>) d) x"
    unfolding try_update_def by (auto split: sum.splits elim!: cancelled_stoppable)
qed

lemma stop_evolves:
  assumes "one_owner d" "\<forall>ev \<in> set evs. stoppable d ev"
  shows "evolves d (fst (stop_future s clk k series evs d))"
  using assms
proof (induction evs arbitrary: k d)
  case (Cons ev evs)
  show ?case
  proof (cases "e_SeriesOverride ev")
    case True
    then show ?thesis using Cons by simp
  next
    case False
    show ?thesis
    proof (cases "e_Status ev = ''published''")
      case pub: True
      show ?thesis
      proof (cases "CancelEvent (ss_events s) (clk k) (e_ID ev) (es_OrganizerID series) True d")
        case (Inl e)
        then show ?thesis using Cons False pub by simp
      next
        case (Inr x)
        then obtain d1 e1 c1 where x: "CancelEvent (ss_events s) (clk k) (e_ID ev) (es_OrganizerID series) True d = Inr (d1, e1, c1)"
          by (cases x) auto
        have ev: "evolves d d1" by (rule op_evolves(4) [OF Cons.prems(1) x])
        then have "evolves d1 (fst (stop_future s clk (Suc k) series evs d1))"
          using Cons.prems by (intro Cons.IH) (auto intro: evolves_one_owner cancel_stoppable [OF x])
        then show ?thesis using event_evolves_trans [OF ev] False pub x by (simp add: case_prod_beta)
      qed
    next
      case npub: False
      let ?d = "try_update (clk k) (ev\<lparr>e_Status := ''cancelled''\<rparr>) d"
      have st: "stoppable d ev" using Cons.prems(2) by simp
      have "evolves ?d (fst (stop_future s clk (Suc k) series evs ?d))"
        using Cons.prems stop_one [OF Cons.prems(1) st] by (intro Cons.IH) (auto intro: evolves_one_owner)
      then show ?thesis using event_evolves_trans [OF stop_one(1) [OF Cons.prems(1) st]] False npub by simp
    qed
  qed
qed simp

lemma series_row_evolves: "UpdateSeriesRow now es d = Inr (d', es') \<Longrightarrow> id_events d' = id_events d \<and> owner_rows d' = owner_rows d"
  by (auto simp: UpdateSeriesRow_def split: if_splits)

lemma StopSeries_evolves:
  assumes "one_owner d" "StopSeries s now now' clk i u d = Inr (d', series, calls)"
  shows "evolves d d'"
proof -
  obtain es d1 es1 where 1: "UpdateSeriesRow now es d = Inr (d1, es1)"
    "(case FindFutureBySeriesID i now' d1 of Inl _ \<Rightarrow> Inr (d1, es1, [])
      | Inr evs \<Rightarrow> (let (d, calls) = stop_future s clk 0 es1 evs d1 in Inr (d, es1, calls))) = (Inr (d', series, calls) :: (idb \<times> EventSeries \<times> series_call list) id_result)"
    using assms(2) by (auto simp: StopSeries_def)
  have d1: "evolves d d1" using series_row_evolves [OF 1(1)] by (auto intro: evolves_same)
  have wf: "one_owner d1" by (rule evolves_one_owner [OF d1 assms(1)])
  have "evolves d1 d'"
  proof (cases "FindFutureBySeriesID i now' d1")
    case (Inr evs)
    have "\<forall>ev \<in> set evs. stoppable d1 ev"
      using future_rows [OF Inr] row_status [OF wf] unfolding stoppable_def by blast
    then show ?thesis using stop_evolves [OF wf, of evs s clk 0 es1] 1(2) Inr by (auto simp: case_prod_beta)
  qed (use 1(2) in simp)
  then show ?thesis by (rule event_evolves_trans [OF d1])
qed

lemma UpdateSeries_evolves:
  assumes "one_owner d" "UpdateSeries s now now' clk i u req d = Inr (d', series)"
  shows "evolves d d'"
proof -
  obtain es d1 es1 where 1: "UpdateSeriesRow now es d = Inr (d1, es1)" "d' = fst (updateFutureOccurrences now' clk es1 d1)"
    using assms(2) by (auto simp: UpdateSeries_def)
  have d1: "evolves d d1" using series_row_evolves [OF 1(1)] by (auto intro: evolves_same)
  have wf: "one_owner d1" by (rule evolves_one_owner [OF d1 assms(1)])
  have "evolves d1 d'"
  proof (cases "FindFutureBySeriesID (es_ID es1) now' d1")
    case (Inr evs)
    have "same_statuses d1 (update_future clk 0 es1 evs d1)"
      by (rule update_future_same) (use future_rows(1) [OF Inr] row_status [OF wf] in blast)
    then show ?thesis using 1(2) Inr by (simp add: updateFutureOccurrences_def same_statuses_evolves)
  qed (use 1(2) in \<open>simp add: updateFutureOccurrences_def\<close>)
  then show ?thesis by (rule event_evolves_trans [OF d1])
qed

lemma DeleteSeries_evolves: "DeleteSeries i u d = Inr d' \<Longrightarrow> evolves d d'"
  by (rule same_statuses_evolves)
    (auto simp: DeleteSeries_def DeleteSeriesRow_def same_statuses_def update_where_def owner_rows_def)

section \<open>Members and accounts\<close>

text \<open>What an operation that touches neither events nor owners leaves alone.\<close>

definition same_events :: "idb \<Rightarrow> idb \<Rightarrow> bool" where
  "same_events d d' \<longleftrightarrow> id_events d' = id_events d \<and> owner_rows d' = owner_rows d"

lemma same_events_refl [simp]: "same_events d d"
  by (simp add: same_events_def)

lemma same_events_trans: "same_events d d1 \<Longrightarrow> same_events d1 d2 \<Longrightarrow> same_events d d2"
  by (simp add: same_events_def)

lemma owner_rows_cohost: "mb_role m \<noteq> ''owner'' \<Longrightarrow> owner_rows (d\<lparr>id_memberships := add_row m (id_memberships d)\<rparr>) = owner_rows d"
  by (simp add: owner_rows_def add_row_def)

lemma same_primitives:
  "createUser rt uid now email name tz rl st inviter d = Inr (d', u) \<Longrightarrow> same_events d d'"
  "createSession sid now h o_id ex d = Inr d' \<Longrightarrow> same_events d d'"
  "CreateCohostMembershipTx mid e uid g now d = Inr d' \<Longrightarrow> same_events d d'"
  "InsertAuditTx aid actor kind act tgt meta now d = Inr d' \<Longrightarrow> same_events d d'"
  "CreateInviteTx iid t a h e2 r ex now d = Inr (d', iv) \<Longrightarrow> same_events d d'"
  "markMagicLinkUsed i now d = Inr d' \<Longrightarrow> same_events d d'"
  "ConsumeInviteTx i now d = Inr d' \<Longrightarrow> same_events d d'"
  "CreateMagicLink mid now h o_id ex d = Inr d' \<Longrightarrow> same_events d d'"
  "RevokeInviteByIDTx i now d = Inr (d', iv2) \<Longrightarrow> same_events d d'"
  "TouchLastLoginTx i now d = Inr d' \<Longrightarrow> same_events d d'"
  "ActivateInvitedUserTx i now d = Inr (d', u2) \<Longrightarrow> same_events d d'"
  "UpdateStatusTx i st now d = Inr d' \<Longrightarrow> same_events d d'"
  "UpdateRoleTx i rl now d = Inr d' \<Longrightarrow> same_events d d'"
  "PromoteBootstrapAdminTx i name tz now d = Inr (d', u3) \<Longrightarrow> same_events d d'"
  by (auto simp: same_events_def markMagicLinkUsed_def ConsumeInviteTx_def CreateMagicLink_def RevokeInviteByIDTx_def TouchLastLoginTx_def
      ActivateInvitedUserTx_def UpdateStatusTx_def UpdateRoleTx_def PromoteBootstrapAdminTx_def RevokePendingInvitesTx_def Let_def owner_rows_cohost
      dest!: sub_effects createInvite_effect createUser_effect(1) insert_effects(2) split: if_splits)

lemma same_revoke_pending: "same_events d (RevokePendingInvitesTx i now d)"
  by (simp add: same_events_def RevokePendingInvitesTx_def)

lemma same_request: "RequestMagicLink rt s clk uuid rand email d = (d', out) \<Longrightarrow> same_events d d'"
  by (erule request_E) (auto simp: CreateOrganizer_def dest!: same_primitives intro: same_events_trans)

lemma same_login: "verify_commit rt s clk uuid rand ml d = Inr (d', resp) \<Longrightarrow> same_events d d'"
  by (erule login_E, rule same_events_trans [OF same_primitives(6) same_events_trans [OF same_primitives(2) same_primitives(10)]], assumption+)

lemma same_accept: "AcceptInvite rt s clk uuid rand raw d = Inr (d', resp) \<Longrightarrow> same_events d d'"
  by (erule accept_E) (auto simp: same_events_def dest!: same_primitives)

lemma same_invite: "InviteUser rt s clk uuid rand actor email d = (d', out) \<Longrightarrow> same_events d d'"
proof -
  have "same_events d d2" if "invite_user_tx rt s clk uuid rand actor em d = Inr (d2, x)" for em d2 x
    using that same_revoke_pending by (elim invite_tx_E) (auto simp: same_events_def dest!: same_primitives)
  then show "InviteUser rt s clk uuid rand actor email d = (d', out) \<Longrightarrow> same_events d d'"
    by (auto simp: InviteUser_def Let_def split: if_splits option.splits sum.splits prod.splits)
qed

lemma same_cohost: "InviteEventCohost rt s clk uuid rand actor e email d = (d', out) \<Longrightarrow> same_events d d'"
proof -
  have "same_events d d2" if "invite_cohost_tx rt s clk uuid rand a e em d = Inr (d2, m, pending)" for a em d2 m pending
    using that
  proof (rule cohost_tx_E)
    fix d0 d1 target
    assume *: "d0 = d \<or> (\<exists>i. d0 = RevokePendingInvitesTx i (clk 0) d)"
      "d1 = d0 \<or> (\<exists>i. createUser rt (uuid 0) (clk 2) em [] (cfg_DefaultTimezone (ua_cfg s)) InstanceRoleUser UserStatusInvited i d0 = Inr (d1, target))"
      "(\<exists>g. CreateCohostMembershipTx (uuid 1) e (u_ID target) g (clk 1) d1 = Inr d2) \<or>
       (\<exists>g h iv. CreateInviteTx (uuid 1) target g h (Some e) (Some ''cohost'') (clk 1 + cfg_AccountInviteExpiry (ua_cfg s)) (clk 1) d1 = Inr (d2, iv))"
    have "same_events d d0" using *(1) same_revoke_pending by auto
    moreover have "same_events d0 d1" using *(2) by (auto dest: same_primitives)
    moreover have "same_events d1 d2" using *(3) by (auto dest: same_primitives)
    ultimately show ?thesis by (blast intro: same_events_trans)
  qed
  then show "InviteEventCohost rt s clk uuid rand actor e email d = (d', out) \<Longrightarrow> same_events d d'"
    by (auto simp: InviteEventCohost_def Let_def split: if_splits option.splits sum.splits prod.splits)
qed

lemma same_others:
  "ValidateSession rt now raw d = (d', res) \<Longrightarrow> same_events d d'"
  "Logout rt raw d = (d', ores) \<Longrightarrow> same_events d d'"
  "same_events d (UpdateOrganizer now u d)" "same_events d (DeleteExpiredSessions now d)" "same_events d (DeleteExpiredMagicLinks now d)"
  by (auto simp: ValidateSession_def Logout_def UpdateOrganizer_def DeleteExpiredSessions_def DeleteExpiredMagicLinks_def
      same_events_def DeleteSession_def split: option.splits if_splits)

lemma same_administration:
  "RevokeInvite clk uuid actor i d = Inr d' \<Longrightarrow> same_events d d'"
  "SetUserStatus now aid actor i st d = Inr d' \<Longrightarrow> same_events d d'"
  "SetUserRole now aid actor i rl d = Inr d' \<Longrightarrow> same_events d d'"
  "PromoteAdmin rt now aid email d = Inr (d', u) \<Longrightarrow> same_events d d'"
  by (auto simp: RevokeInvite_def SetUserStatus_def SetUserRole_def PromoteAdmin_def changeUser_def LockAdminMutationTx_def Let_def
      dest!: same_primitives intro: same_events_trans split: if_splits)

lemma account_same_events: "account_step rt ev d d' \<Longrightarrow> same_events d d'"
  by (induction rule: account_step.induct)
    (auto intro: same_request same_login same_invite same_cohost same_accept same_others same_administration)

lemma add_cohost_same: "CreateCoHost now ch d = Inr (d', ch') \<Longrightarrow> ch_Role ch = ''cohost'' \<Longrightarrow> same_events d d'"
  by (auto simp: CreateCoHost_def Let_def same_events_def owner_rows_cohost dest!: insert_effects(5))

lemma remove_cohost_same: "same_events d (DeleteCoHost i d)"
  by (auto simp: DeleteCoHost_def same_events_def owner_rows_def delete_where_def intro!: filter_cong)

section \<open>Steps\<close>

inductive event_step :: "runtime \<Rightarrow> idb \<Rightarrow> idb \<Rightarrow> bool" for rt :: runtime where
  create: "CreateEvent s uuid now u creq d = Inr (d', e, calls) \<Longrightarrow> event_step rt d d'"
| update: "UpdateEvent s now i u req d = Inr (d', e, calls) \<Longrightarrow> event_step rt d d'"
| publish: "PublishEvent s now i u d = Inr (d', e, calls) \<Longrightarrow> event_step rt d d'"
| cancel: "CancelEvent s now i u n d = Inr (d', e, calls) \<Longrightarrow> event_step rt d d'"
| reopen: "ReopenEvent s now i u d = Inr (d', e, calls) \<Longrightarrow> event_step rt d d'"
| duplicate: "DuplicateEvent s uuid now i u d = Inr (d', e, calls) \<Longrightarrow> event_step rt d d'"
| delete: "DeleteEvent now i u d = Inr d' \<Longrightarrow> event_step rt d d'"
| create_series: "CreateSeries ss sid uuid now clk u sreq d = Inr (d', es, scalls) \<Longrightarrow> event_step rt d d'"
| generate: "GenerateOccurrences ss uuid now clk i d = (d', scalls, err) \<Longrightarrow> event_step rt d d'"
| update_series: "UpdateSeries ss now now' clk i u ureq d = Inr (d', es) \<Longrightarrow> event_step rt d d'"
| stop_series: "StopSeries ss now now' clk i u d = Inr (d', es, scalls) \<Longrightarrow> event_step rt d d'"
| delete_series: "DeleteSeries i u d = Inr d' \<Longrightarrow> event_step rt d d'"
| add_cohost: "CreateCoHost now ch d = Inr (d', ch') \<Longrightarrow> ch_Role ch = ''cohost'' \<Longrightarrow> event_step rt d d'"
| remove_cohost: "event_step rt d (DeleteCoHost i d)"
| account: "account_step rt ev d d' \<Longrightarrow> event_step rt d d'"

lemma same_evolves: "same_events d d' \<Longrightarrow> evolves d d'"
  by (simp add: same_events_def evolves_same)

lemma step_evolves: "event_step rt d d' \<Longrightarrow> one_owner d \<Longrightarrow> evolves d d'"
  by (induction rule: event_step.induct)
    (auto intro: op_evolves CreateSeries_evolves GenerateOccurrences_evolves UpdateSeries_evolves StopSeries_evolves DeleteSeries_evolves
      same_evolves [OF add_cohost_same] same_evolves [OF remove_cohost_same] same_evolves [OF account_same_events])

interpretation ownership: system_invariant "event_step rt" one_owner for rt
  by unfold_locales (blast intro: evolves_one_owner step_evolves)

lemma steps_evolve: "(event_step rt)\<^sup>*\<^sup>* d d' \<Longrightarrow> one_owner d \<Longrightarrow> evolves d d'"
proof (induction rule: rtranclp_induct)
  case (step d1 d2)
  then show ?case using ownership.invariant_reachable event_evolves_trans step_evolves by blast
qed simp


lemma owner_of_rows: "owner_of i d = map_option mb_user_id (find (\<lambda>m. mb_event_id m = i) (owner_rows d))"
proof -
  have "find (is_owner_row i) ms = find (\<lambda>m. mb_event_id m = i) (filter (\<lambda>m. mb_role m = ''owner'') ms)" for ms
    by (induction ms) (auto simp: is_owner_row_def)
  then show ?thesis by (simp add: owner_of_def owner_rows_def select_row_def)
qed

lemma find_append_Some: "find p xs = Some x \<Longrightarrow> find p (xs @ ys) = Some x"
  by (induction xs) (auto split: if_splits)

lemma owned_events_readable:
  assumes "one_owner d" "r \<in> set (id_events d)"
  shows "\<exists>e. FindEventByID (e_ID r) d = Inr (Some e) \<and> event_row.truncate e = r"
proof -
  have "e_ID r \<in># mset (map mb_event_id (owner_rows d))" using assms by (simp add: one_owner_def)
  then obtain m where "m \<in> set (owner_rows d)" "mb_event_id m = e_ID r" by auto
  then have "find (\<lambda>m. mb_event_id m = e_ID r) (owner_rows d) \<noteq> None" by (auto simp: find_None_iff)
  then obtain u where u: "owner_of (e_ID r) d = Some u" by (auto simp: owner_of_rows)
  have sel: "select_row (\<lambda>x. e_ID x = e_ID r) (id_events d) = Some r"
    using assms by (intro select_row_unique [where k = e_ID]) (simp_all add: one_owner_def)
  show ?thesis
    by (rule exI [of _ "event_row.extend r (Event.fields u)"])
      (simp add: FindEventByID_def sel scanEvent_def u event_row.defs Event.defs)
qed


text \<open>
  The operations are not protected against one another: each reads the event and writes the whole
  row back, without a transaction. A publication that has read a draft undoes a deletion that comes
  between its reading and its writing.
\<close>

lemma stale_write_undoes_deletion:
  assumes "managed_event i u d = Inr e" "e_Status e = ''draft''" "DeleteEvent now i u' d = Inr d1"
    and "StoreUpdateEvent now' (e\<lparr>e_Status := ''published''\<rparr>) d1 = Inr (d2, e2)"
  shows "status_of i d1 = Some ''archived'' \<and> status_of i d2 = Some ''published''"
proof -
  have upd: "status_of (e_ID x) d'' = Some (e_Status x)"
    if "StoreUpdateEvent t x d' = Inr (d'', y)" "list_ex (\<lambda>r. e_ID r = e_ID x) (id_events d')" for t x d' d'' y
  proof -
    have "\<exists>r. select_row (\<lambda>r. e_ID r = e_ID x) (update_where (\<lambda>r. e_ID r = e_ID x) (\<lambda>r. stored_event x (e_CreatedAt r) (trunc_sec t)) rows) = Some r \<and>
        e_Status r = e_Status x" if "list_ex (\<lambda>r. e_ID r = e_ID x) rows" for rows
      using that by (induction rows) (auto simp: select_row_def)
    then show ?thesis using that by (auto simp: StoreUpdateEvent_def status_of_def split: if_splits)
  qed
  obtain e1 y where del: "owned_event i u' d = Inr e1" "StoreUpdateEvent now (e1\<lparr>e_Status := ''archived''\<rparr>) d = Inr (d1, y)"
    using assms(3) by (auto simp: DeleteEvent_def)
  have i: "e_ID e1 = i" "e_ID e = i" "list_ex (\<lambda>r. e_ID r = i) (id_events d)"
    using owned_row [OF del(1)] managed_row [OF assms(1)] bexI [of _ "event_row.truncate e1" "set (id_events d)"] by (auto simp: list_ex_iff)
  have 1: "status_of i d1 = Some ''archived''" using upd [OF del(2)] i by simp
  then have "list_ex (\<lambda>r. e_ID r = i) (id_events d1)"
    by (auto simp: status_of_def list_ex_iff dest: select_row_SomeD)
  then show ?thesis using upd [OF assms(4)] i 1 by simp
qed

section \<open>Access\<close>

text \<open>The right that a route of an event asks for.\<close>

definition event_role :: "ev_request \<Rightarrow> id \<Rightarrow> idb \<Rightarrow> string" where
  "event_role rq u d = FindMembershipRole (er_eventId rq) u d"

definition permitted :: "event_op \<Rightarrow> ev_request \<Rightarrow> id \<Rightarrow> idb \<Rightarrow> bool" where
  "permitted op rq u d \<longleftrightarrow> (case op of
      EvCreate _ \<Rightarrow> True
    | EvList \<Rightarrow> True
    | EvDuplicate \<Rightarrow> event_role rq u d = ''owner''
    | EvDelete \<Rightarrow> event_role rq u d = ''owner''
    | EvAddCoHost _ \<Rightarrow> event_role rq u d = ''owner''
    | EvRemoveCoHost \<Rightarrow> event_role rq u d = ''owner'' \<or>
        list_ex (\<lambda>m. mb_id m = er_cohostId rq \<and> mb_event_id m = er_eventId rq \<and> mb_user_id m = u) (id_memberships d)
    | _ \<Rightarrow> event_role rq u d \<in> {''owner'', ''cohost''})"

lemma no_role:
  "FindMembershipRole i u d \<notin> {''owner'', ''cohost''} \<Longrightarrow> CanManageEvent i u d \<noteq> Inr True"
  "FindMembershipRole i u d \<notin> {''owner'', ''cohost''} \<Longrightarrow> \<exists>err. managed_event i u d = Inl err"
  "FindMembershipRole i u d \<noteq> ''owner'' \<Longrightarrow> IsEventOwner i u d \<noteq> Inr True"
  "FindMembershipRole i u d \<noteq> ''owner'' \<Longrightarrow> \<exists>err. owned_event i u d = Inl err"
proof -
  show 1: "CanManageEvent i u d \<noteq> Inr True" if "FindMembershipRole i u d \<notin> {''owner'', ''cohost''}"
    using that by (auto simp: CanManageEvent_def split: option.splits)
  show "\<exists>err. managed_event i u d = Inl err" if "FindMembershipRole i u d \<notin> {''owner'', ''cohost''}"
    using 1 [OF that] by (cases "managed_event i u d") (auto simp: managed_event_def)
  show 2: "IsEventOwner i u d \<noteq> Inr True" if "FindMembershipRole i u d \<noteq> ''owner''"
    using that by (auto simp: IsEventOwner_def split: option.splits)
  show "\<exists>err. owned_event i u d = Inl err" if "FindMembershipRole i u d \<noteq> ''owner''"
    using 2 [OF that] by (cases "owned_event i u d") (auto simp: owned_event_def)
qed

definition refused :: "ev_result \<Rightarrow> idb \<Rightarrow> bool" where
  "refused r d \<longleftrightarrow> (\<exists>st status code msg. r = (st, d, EvError status code msg, []))"

lemma refused_intros [simp]:
  "refused (st, d, EvError status code msg, []) d" "refused (st, d, ev_bad msg, []) d" "refused (st, d, ev_internal rq, []) d"
  "refused (st, d, ev_not_found, []) d" "refused (st, d, ev_forbidden, []) d" "refused (st, d, ev_unauthorized, []) d"
  "refused (st, d, event_error rq err, []) d" "refused (st, d, delete_error rq err, []) d"
  by (auto simp: refused_def ev_bad_def ev_internal_def ev_not_found_def ev_forbidden_def ev_unauthorized_def event_error_def delete_error_def
      split: id_error.splits)

lemmas route_defs = handleCreate_def handleList_def handleGet_def handleUpdate_def handlePublish_def handleCancel_def handleReopen_def
  handleDuplicate_def handleDelete_def handleListCoHosts_def handleAddCoHost_def handleRemoveCoHost_def authenticated_def

lemma member_routes_refused:
  assumes "er_organizer rq = Some u" "event_role rq u d \<notin> {''owner'', ''cohost''}"
    and "op \<in> {EvGet, EvPublish, EvReopen, EvListCoHosts} \<or> (\<exists>b. op = EvUpdate b) \<or> (\<exists>b. op = EvCancel b)"
  shows "refused (event_handle h uuid now op rq st d) d"
proof -
  obtain err where err: "managed_event (er_eventId rq) u d = Inl err"
    using no_role(2) assms(2) unfolding event_role_def by blast
  have can: "CanManageEvent (er_eventId rq) u d \<noteq> Inr True"
    using no_role(1) assms(2) unfolding event_role_def by blast
  show ?thesis using assms(1,3) err can
    by (auto simp: route_defs answer_event_def UpdateEvent_def PublishEvent_def CancelEvent_def ReopenEvent_def split: sum.splits bool.splits)
qed

lemma owner_routes_refused:
  assumes "er_organizer rq = Some u" "event_role rq u d \<noteq> ''owner''" "op \<in> {EvDuplicate, EvDelete} \<or> (\<exists>b. op = EvAddCoHost b)"
  shows "refused (event_handle h uuid now op rq st d) d"
proof -
  obtain err where err: "owned_event (er_eventId rq) u d = Inl err"
    using no_role(4) assms(2) unfolding event_role_def by blast
  have own: "IsEventOwner (er_eventId rq) u d \<noteq> Inr True" using no_role(3) assms(2) unfolding event_role_def by blast
  show ?thesis using assms(1,3) err own
    by (auto simp: route_defs answer_event_def DuplicateEvent_def DeleteEvent_def Let_def case_prod_beta split: sum.splits)
qed

lemma removal_refused:
  assumes "er_organizer rq = Some u" "\<not> permitted EvRemoveCoHost rq u d"
  shows "refused (event_handle h uuid now EvRemoveCoHost rq st d) d"
proof -
  have own: "IsEventOwner (er_eventId rq) u d \<noteq> Inr True" using no_role(3) assms(2) by (simp add: permitted_def event_role_def)
  have "ch_OrganizerID ch \<noteq> u" if "FindCoHostByID (er_cohostId rq) d = Some ch" "ch_EventID ch = er_eventId rq" for ch
    using that assms(2) by (auto simp: permitted_def FindCoHostByID_def cohost_view_def list_ex_iff dest!: select_row_SomeD)
  then show ?thesis using own assms(1) by (auto simp: route_defs Let_def split: option.splits sum.splits)
qed

text \<open>
  Event routes are guarded. A request without a user, or of a user who is neither an active
  member of the event nor, where the route is the owner's, its owner, is answered with an error; it
  changes nothing in the database and calls nothing back. The instance role plays no part: an
  administrator has no access to the events of others. A co-host can remove only itself.
\<close>

theorem event_routes_guarded:
  assumes "case er_organizer rq of None \<Rightarrow> True | Some u \<Rightarrow> \<not> permitted op rq u d"
  shows "\<exists>st' status code msg. event_handle h uuid now op rq st d = (st', d, EvError status code msg, [])"
proof (cases "er_organizer rq")
  case None
  then have "refused (event_handle h uuid now op rq st d) d" by (cases op) (simp_all add: route_defs)
  then show ?thesis by (simp add: refused_def)
next
  case (Some u)
  then have np: "\<not> permitted op rq u d" using assms by simp
  then have "(event_role rq u d \<notin> {''owner'', ''cohost''} \<and>
        (op \<in> {EvGet, EvPublish, EvReopen, EvListCoHosts} \<or> (\<exists>b. op = EvUpdate b) \<or> (\<exists>b. op = EvCancel b))) \<or>
      (event_role rq u d \<noteq> ''owner'' \<and> (op \<in> {EvDuplicate, EvDelete} \<or> (\<exists>b. op = EvAddCoHost b))) \<or> op = EvRemoveCoHost"
    by (cases op) (simp_all add: permitted_def)
  then have "refused (event_handle h uuid now op rq st d) d"
  proof (elim disjE [of "_ \<and> _"] conjE)
    assume "op = EvRemoveCoHost"
    then show ?thesis using removal_refused [OF Some] np by simp
  qed (erule (1) member_routes_refused [OF Some] owner_routes_refused [OF Some])+
  then show ?thesis by (simp add: refused_def)
qed

end
