(* ===== verification/Series_Schedule.thy ===== *)
theory Series_Schedule
  imports Event_Safety
begin

text \<open>
  The dates of recurring events: each occurrence falls on the next date of the rule, with the day
  clamped to the length of the month, and the generation of occurrences stays within the limits of
  the series and fills its window of four.
\<close>

section \<open>The next occurrence\<close>

lemma day_of_shift: "day_of (t + n * day_seconds * second) = day_of t + n" "clock_of (t + n * day_seconds * second) = clock_of t"
proof -
  have "t + n * day_seconds * second = ((day_of t + n) * day_seconds + clock_of t) * second + nanos t"
    using time_parts [of t] by (simp add: algebra_simps)
  moreover have "0 \<le> nanos t" "nanos t < second" by (simp_all add: nanos_def second_def)
  ultimately show "day_of (t + n * day_seconds * second) = day_of t + n" "clock_of (t + n * day_seconds * second) = clock_of t"
    using parts_of_time [OF clock_range [of t], of "nanos t" "day_of t + n"] by simp_all
qed

text \<open>The month after \<open>m\<close> of the year \<open>y\<close>.\<close>

definition next_month :: "int \<Rightarrow> int \<Rightarrow> int \<times> int" where
  "next_month y m = (if m = 12 then (y + 1, 1) else (y, m + 1))"

lemma next_month_later:
  assumes "valid_date y m d" "next_month y m = (y', m')" "valid_date y' m' d'"
  shows "day_number y m d < day_number y' m' d'"
proof (cases "m = 12")
  case True
  then show ?thesis using assms month_of_day(2) [OF assms(1)] month_of_day(1) [OF assms(3)] by (auto simp: next_month_def)
next
  case False
  then show ?thesis using assms month_of_day(4) [OF assms(1)] month_of_day(3) [OF assms(3)] by (auto simp: next_month_def)
qed

lemma monthly_next:
  assumes "Time_Date t = (y, m, d)" "1 \<le> originalDay" "next_month y m = (y', m')"
  shows "calculateNextOccurrence t ''monthly'' originalDay =
    (day_number y' m' (min originalDay (days_in_month y' m')) * day_seconds + clock_of t) * second"
proof -
  have v: "valid_date y m d" using assms(1) civil_of_valid by (simp add: Time_Date_def)
  then have m': "1 \<le> m'" "m' \<le> 12" using assms(3) by (auto simp: next_month_def valid_date_def split: if_splits)
  have nm: "(if 12 < m + 1 then (y + 1, 1) else (y, m + 1)) = (y', m')"
    using assms(3) v by (auto simp: next_month_def valid_date_def split: if_splits)
  have rule: "''monthly'' \<noteq> ''weekly''" "''monthly'' \<noteq> ''biweekly''" by simp_all
  have clamp: "(if days_in_month y' m' < originalDay then days_in_month y' m' else originalDay) = min originalDay (days_in_month y' m')" by simp
  show ?thesis
    unfolding calculateNextOccurrence_def assms(1) Let_def prod.case nm month_end [OF m'] clamp
    using rule make_time_month(1) [OF m'] by simp
qed

lemma monthly_parts:
  assumes "Time_Date t = (y, m, d)" "1 \<le> originalDay" "next_month y m = (y', m')"
  shows "Time_Date (calculateNextOccurrence t ''monthly'' originalDay) = (y', m', min originalDay (days_in_month y' m'))"
    "clock_of (calculateNextOccurrence t ''monthly'' originalDay) = clock_of t"
    "day_of t < day_of (calculateNextOccurrence t ''monthly'' originalDay)"
proof -
  let ?n = "day_number y' m' (min originalDay (days_in_month y' m'))"
  have v: "valid_date y m d" "day_number y m d = day_of t" using assms(1) civil_of_inverse by (simp_all add: Time_Date_def)
  have v': "valid_date y' m' (min originalDay (days_in_month y' m'))"
    using assms(2,3) v(1) days_in_month_range [of y' m'] by (auto simp: next_month_def valid_date_def split: if_splits)
  have t: "calculateNextOccurrence t ''monthly'' originalDay = (?n * day_seconds + clock_of t) * second + 0"
    using monthly_next [OF assms] by simp
  have parts: "day_of ((?n * day_seconds + clock_of t) * second + 0) = ?n" "clock_of ((?n * day_seconds + clock_of t) * second + 0) = clock_of t"
    by (rule parts_of_time [OF clock_range]; simp add: second_def)+
  show "Time_Date (calculateNextOccurrence t ''monthly'' originalDay) = (y', m', min originalDay (days_in_month y' m'))"
    unfolding t Time_Date_def parts(1) by (rule civil_of_day_number [OF v'])
  show "clock_of (calculateNextOccurrence t ''monthly'' originalDay) = clock_of t" unfolding t by (rule parts(2))
  show "day_of t < day_of (calculateNextOccurrence t ''monthly'' originalDay)"
    unfolding t parts(1) using next_month_later [OF v(1) assms(3) v'] v(2) by simp
qed

lemma next_day_later:
  assumes "isValidRecurrenceRule rule" "1 \<le> originalDay"
  shows "day_of t < day_of (calculateNextOccurrence t rule originalDay)"
proof -
  obtain y m d where c: "Time_Date t = (y, m, d)" by (metis prod_cases3)
  obtain y' m' where n: "next_month y m = (y', m')" by (metis surj_pair)
  show ?thesis using assms monthly_parts(3) [OF c assms(2) n]
    by (auto simp: isValidRecurrenceRule_def calculateNextOccurrence_def AddDate_days day_of_shift simp del: mult_numeral_1)
qed

text \<open>
  Occurrences fall on the dates of the rule. The next occurrence is seven or fourteen days later,
  or in the following month on the day of the schedule, or on the last day of that month when it is
  shorter; it keeps the time of day and is always later.
\<close>

theorem next_occurrence_on_schedule:
  assumes "isValidRecurrenceRule rule" "1 \<le> originalDay" "Time_Date t = (y, m, d)" "next_month y m = (y', m')"
  shows "t < calculateNextOccurrence t rule originalDay \<and>
    clock_of (calculateNextOccurrence t rule originalDay) = clock_of t \<and>
    (if rule = ''monthly'' then Time_Date (calculateNextOccurrence t rule originalDay) = (y', m', min originalDay (days_in_month y' m'))
     else calculateNextOccurrence t rule originalDay = t + (if rule = ''weekly'' then 7 else 14) * (24 * hour))"
proof (intro conjI)
  show "t < calculateNextOccurrence t rule originalDay" by (rule later_day [OF next_day_later [OF assms(1,2)]])
  have day: "n * day_seconds * second = n * (24 * hour)" for n by (simp add: day_seconds_def hour_def minute_def)
  show "clock_of (calculateNextOccurrence t rule originalDay) = clock_of t"
    using assms(1) monthly_parts(2) [OF assms(3,2,4)] by (auto simp: isValidRecurrenceRule_def calculateNextOccurrence_def AddDate_days day_of_shift)
  show "if rule = ''monthly'' then Time_Date (calculateNextOccurrence t rule originalDay) = (y', m', min originalDay (days_in_month y' m'))
     else calculateNextOccurrence t rule originalDay = t + (if rule = ''weekly'' then 7 else 14) * (24 * hour)"
    using assms(1) monthly_parts(1) [OF assms(3,2,4)]
    by (auto simp: isValidRecurrenceRule_def calculateNextOccurrence_def AddDate_days day [symmetric])
qed

text \<open>
  The generator takes the day of the schedule from the last occurrence instead of the first: once a
  short month has clamped it, the day of a monthly series does not return to where it was.
\<close>

lemma monthly_day_never_grows: "Time_Day (calculateNextOccurrence t ''monthly'' (Time_Day t)) \<le> Time_Day t"
proof -
  obtain y m d where c: "Time_Date t = (y, m, d)" by (metis prod_cases3)
  obtain y' m' where n: "next_month y m = (y', m')" by (metis surj_pair)
  have "1 \<le> d" using civil_of_valid c by (simp add: Time_Date_def valid_date_def)
  then show ?thesis using monthly_parts(1) [OF c _ n, of d] c by (simp add: Time_Day_def)
qed

section \<open>Generating occurrences\<close>

text \<open>
  What one run of the generator adds, as a specification: successive dates of the rule, numbered on,
  each within the limits of the series.
\<close>

fun scheduled :: "EventSeries \<Rightarrow> int \<Rightarrow> time \<Rightarrow> int \<Rightarrow> event_row list \<Rightarrow> bool" where
  "scheduled series od prev k [] = True"
| "scheduled series od prev k (r # rs) \<longleftrightarrow> (let t = calculateNextOccurrence prev (es_RecurrenceRule series) od in
     e_SeriesID r = Some (es_ID series) \<and> e_SeriesIndex r = Some (k + 1) \<and> e_Status r = ''published'' \<and> e_EventDate r = trunc_sec t \<and>
     \<not> reached_max series k \<and> \<not> past_end series t \<and> scheduled series od t (k + 1) rs)"

lemma created_row:
  "CreateFromSeries mid now e d = Inr (d', e') \<Longrightarrow> id_events d' = id_events d @ [stored_event e (trunc_sec now) (trunc_sec now)]"
  by (auto simp: CreateFromSeries_def createEvent_def insert_event_def insert_membership_def add_row_def split: if_splits)

lemma stored_event_fields [simp]:
  "e_SeriesID (stored_event e c n) = e_SeriesID e" "e_SeriesIndex (stored_event e c n) = e_SeriesIndex e"
  "e_EventDate (stored_event e c n) = trunc_sec (e_EventDate e)"
  by (simp_all add: stored_event_def event_row.defs)

lemma generate_scheduled:
  "generate_loop s uuid clk series od n i prev k d calls = (d', calls', err) \<Longrightarrow>
    \<exists>new. id_events d' = id_events d @ new \<and> scheduled series od prev k new \<and> length new \<le> n \<and>
      (err = None \<longrightarrow> es_MaxOccurrences series = None \<longrightarrow> es_RecurrenceEnd series = None \<longrightarrow> length new = n)"
proof (induction n arbitrary: i prev k d calls)
  case (Suc n)
  let ?t = "calculateNextOccurrence prev (es_RecurrenceRule series) od"
  let ?e = "buildOccurrenceFromSeries (uuid (2 * i)) series ?t (k + 1)"
  show ?case
  proof (cases "reached_max series k \<or> past_end series ?t")
    case True
    then show ?thesis using Suc.prems by (intro exI [of _ "[]"]) (auto simp: Let_def reached_max_def past_end_def split: option.splits)
  next
    case False
    show ?thesis
    proof (cases "CreateFromSeries (uuid (2 * i + 1)) (clk i) ?e d")
      case (Inl e)
      then show ?thesis using Suc.prems False by (intro exI [of _ "[]"]) (auto simp: Let_def)
    next
      case (Inr x)
      obtain d1 e1 where c: "CreateFromSeries (uuid (2 * i + 1)) (clk i) ?e d = Inr (d1, e1)" using Inr by (cases x) simp
      have "generate_loop s uuid clk series od n (Suc i) ?t (k + 1) d1 (calls @ created_call s series (e_ID e1)) = (d', calls', err)"
        using Suc.prems False c by (simp add: Let_def)
      from Suc.IH [OF this] obtain new where new: "id_events d' = id_events d1 @ new \<and> scheduled series od ?t (k + 1) new \<and> length new \<le> n \<and>
        (err = None \<longrightarrow> es_MaxOccurrences series = None \<longrightarrow> es_RecurrenceEnd series = None \<longrightarrow> length new = n)" by (rule exE)
      have "scheduled series od prev k (stored_event ?e (trunc_sec (clk i)) (trunc_sec (clk i)) # new)"
        using False new by (simp add: Let_def buildOccurrenceFromSeries_def)
      then show ?thesis using new created_row [OF c]
        by (intro exI [of _ "stored_event ?e (trunc_sec (clk i)) (trunc_sec (clk i)) # new"]) simp
    qed
  qed
qed simp

lemma day_of_trunc [simp]: "day_of (trunc_sec t) = day_of t"
  by (simp add: day_of_def trunc_sec_def secs_def second_def)

text \<open>The dates of a run: a day apart at least, after the previous one, and not past the end.\<close>

lemma scheduled_dates:
  assumes "isValidRecurrenceRule (es_RecurrenceRule series)" "1 \<le> od" "scheduled series od prev k new"
  shows "sorted_wrt (\<lambda>r r'. day_of (e_EventDate r) < day_of (e_EventDate r')) new \<and>
    (\<forall>r \<in> set new. day_of prev < day_of (e_EventDate r) \<and> \<not> past_end series (e_EventDate r) \<and>
      e_SeriesID r = Some (es_ID series) \<and> e_Status r = ''published'')"
  using assms(3)
proof (induction new arbitrary: prev k)
  case (Cons r new)
  let ?t = "calculateNextOccurrence prev (es_RecurrenceRule series) od"
  have r: "e_EventDate r = trunc_sec ?t" "\<not> past_end series ?t" "e_SeriesID r = Some (es_ID series)" "e_Status r = ''published''"
    "scheduled series od ?t (k + 1) new" using Cons.prems by (simp_all add: Let_def)
  have "\<not> past_end series (e_EventDate r)" using r(1,2) trunc_sec_le [of ?t] by (auto simp: past_end_def split: option.splits)
  moreover have "day_of prev < day_of (e_EventDate r)" "day_of (e_EventDate r) = day_of ?t"
    using next_day_later [OF assms(1,2), of prev] r(1) by simp_all
  ultimately show ?case using Cons.IH [OF r(5)] r(3,4) by fastforce
qed simp

lemma scheduled_count:
  "scheduled series od prev k new \<Longrightarrow> map e_SeriesIndex new = map (\<lambda>j. Some (k + 1 + int j)) [0..<length new] \<and>
    (new = [] \<or> (case es_MaxOccurrences series of None \<Rightarrow> True | Some m \<Rightarrow> k + int (length new) \<le> m))"
proof (induction new arbitrary: prev k)
  case (Cons r new)
  have "[0..<length (r # new)] = 0 # map Suc [0..<length new]" by (simp add: map_Suc_upt upt_conv_Cons del: upt_Suc)
  then show ?case using Cons.IH [of "calculateNextOccurrence prev (es_RecurrenceRule series) od" "k + 1"] Cons.prems
    by (auto simp: Let_def reached_max_def algebra_simps split: option.splits)
qed simp

lemma oldest_first_sorted: "sorted (map e_EventDate (order_by oldest_first rs))"
proof (induction rs)
  case (Cons r rs)
  have "sorted (map e_EventDate xs) \<Longrightarrow> sorted (map e_EventDate (insert_by oldest_first r xs)) \<and>
      set (insert_by oldest_first r xs) = insert r (set xs)" for xs
    by (induction xs) (auto simp: oldest_first_def)
  then show ?case using Cons by simp
qed simp

lemma sorted_ends: "sorted xs \<Longrightarrow> x \<in> set xs \<Longrightarrow> x \<le> last xs" for xs :: "int list"
  by (induction xs) auto

lemma scanned_dates:
  assumes "scan_events d (order_by oldest_first rs) = Inr es"
  shows "length es = length rs" "r \<in> set rs \<Longrightarrow> e_EventDate r \<le> e_EventDate (last es)"
proof -
  have rows: "map event_row.truncate es = order_by oldest_first rs" by (rule scanned_events [OF assms])
  then show "length es = length rs" by (metis length_map length_order_by)
  have dates: "map e_EventDate es = map e_EventDate (order_by oldest_first rs)" by (simp add: rows [symmetric] event_row.defs)
  show "e_EventDate r \<le> e_EventDate (last es)" if "r \<in> set rs"
  proof -
    have "es \<noteq> []" using that rows by (metis empty_iff empty_set list.map_disc_iff set_order_by)
    moreover have "e_EventDate r \<in> set (map e_EventDate es)" using that unfolding dates by simp
    moreover have "sorted (map e_EventDate es)" unfolding dates by (rule oldest_first_sorted)
    ultimately show ?thesis by (metis sorted_ends last_map map_is_Nil_conv)
  qed
qed

lemma Time_Day_pos: "1 \<le> Time_Day t"
  using civil_of_valid by (cases "civil_of (day_of t)") (auto simp: Time_Day_def Time_Date_def valid_date_def)

text \<open>One run of the generator on an active series.\<close>

lemma generated:
  assumes "GenerateOccurrences s uuid now clk i d = (d', calls, err)" "FindSeriesByID i d = Some series"
  obtains "id_events d' = id_events d" "es_SeriesStatus series = ''active'' \<Longrightarrow> err = None \<Longrightarrow> 4 \<le> length (filter (future_of_series i now) (id_events d))"
  | prev new where "id_events d' = id_events d @ new" "scheduled series (Time_Day prev) prev (int (CountBySeriesID i d)) new"
      "length new + length (filter (future_of_series i now) (id_events d)) \<le> 4" "es_SeriesStatus series = ''active''"
      "\<And>r. r \<in> set (id_events d) \<Longrightarrow> future_of_series i now r \<Longrightarrow> e_EventDate r \<le> prev"
      "err = None \<Longrightarrow> es_MaxOccurrences series = None \<Longrightarrow> es_RecurrenceEnd series = None \<Longrightarrow>
         length new + length (filter (future_of_series i now) (id_events d)) = 4"
proof (cases "es_SeriesStatus series = ''active''")
  case active: True
  let ?fs = "filter (future_of_series i now) (id_events d)"
  show thesis
  proof (cases "FindFutureBySeriesID i now d")
    case (Inl e)
    then have "d = d' \<and> err = Some e" using assms active by (simp add: GenerateOccurrences_def)
    then show ?thesis by (intro that(1)) simp_all
  next
    case (Inr existing)
    then have ex: "length existing = length ?fs" "\<And>r. r \<in> set ?fs \<Longrightarrow> e_EventDate r \<le> e_EventDate (last existing)"
      using scanned_dates unfolding FindFutureBySeriesID_def by blast+
    show ?thesis
    proof (cases "4 \<le> length existing")
      case True
      then show ?thesis using assms active Inr ex(1) that(1) by (simp add: GenerateOccurrences_def)
    next
      case few: False
      show ?thesis
      proof (cases "last_date now i existing d")
        case (Inl e)
        then have "d = d' \<and> err = Some e" using assms active few \<open>FindFutureBySeriesID i now d = Inr existing\<close>
          by (simp add: GenerateOccurrences_def)
        then show ?thesis by (intro that(1)) simp_all
      next
        case (Inr prev)
        have loop: "generate_loop s uuid clk series (Time_Day prev) (4 - length existing) 0 prev (int (CountBySeriesID i d)) d [] = (d', calls, err)"
          using assms active \<open>FindFutureBySeriesID i now d = Inr existing\<close> few Inr by (simp add: GenerateOccurrences_def)
        have "\<And>r. r \<in> set ?fs \<Longrightarrow> e_EventDate r \<le> prev" using ex Inr
          by (cases "existing = []") (auto simp: last_date_def filter_empty_conv)
        then show ?thesis using generate_scheduled [OF loop] ex(1) few active that(2) [of _ prev] by (force simp: le_diff_conv)
      qed
    qed
  qed
next
  case False
  then show ?thesis using assms that(1) by (simp add: GenerateOccurrences_def)
qed


end
