(* ===== verification/Series_Override.thy ===== *)
theory Series_Override
  imports Series_Schedule
begin

text \<open>
  Occurrences that were edited on their own. Updating and stopping a series leave occurrences with the
  mark \<open>SeriesOverride\<close> alone, but no operation sets the mark: an update of the series replaces
  what was edited.
\<close>

section \<open>The mark is never set\<close>

definition no_override :: "idb \<Rightarrow> bool" where
  "no_override d \<longleftrightarrow> (\<forall>r \<in> set (id_events d). \<not> e_SeriesOverride r)"

lemma no_override_same: "no_override d \<Longrightarrow> id_events d' = id_events d \<Longrightarrow> no_override d'"
  by (simp add: no_override_def)

lemma stored_override [simp]: "e_SeriesOverride (stored_event e c n) = e_SeriesOverride e"
  by (simp add: stored_event_def event_row.defs)

lemma truncate_override [simp]: "e_SeriesOverride (event_row.truncate e) = e_SeriesOverride e"
  by (simp add: event_row.defs)

lemma read_override:
  "no_override d \<Longrightarrow> managed_event i u d = Inr e \<Longrightarrow> \<not> e_SeriesOverride e"
  "no_override d \<Longrightarrow> owned_event i u d = Inr e \<Longrightarrow> \<not> e_SeriesOverride e"
  "no_override d \<Longrightarrow> FindFutureBySeriesID i now d = Inr evs \<Longrightarrow> ev \<in> set evs \<Longrightarrow> \<not> e_SeriesOverride ev"
  using truncate_override unfolding no_override_def by (metis managed_row, metis owned_row, metis future_rows(1))

lemma create_override: "createEvent mid now e d = Inr (d', e') \<Longrightarrow> \<not> e_SeriesOverride e \<Longrightarrow> no_override d \<Longrightarrow> no_override d'"
  using created_row unfolding CreateFromSeries_def no_override_def by fastforce

lemma store_override: "StoreUpdateEvent now e d = Inr (d', e') \<Longrightarrow> \<not> e_SeriesOverride e \<Longrightarrow> no_override d \<Longrightarrow> no_override d'"
  by (auto simp: StoreUpdateEvent_def no_override_def set_update_where split: if_splits)

lemma try_override: "\<not> e_SeriesOverride ev \<Longrightarrow> no_override d \<Longrightarrow> no_override (try_update now ev d)"
  by (auto simp: try_update_def split: sum.splits intro: store_override)

lemma apply_update_override:
  assumes "apply_update s req e = Inr e'"
  shows "e_SeriesOverride e' = e_SeriesOverride e"
  using assms unfolding apply_update_def
  by (rule loop_invariant [where I = "\<lambda>x. e_SeriesOverride x = e_SeriesOverride e"])
    (auto simp: set_field_def split: option.splits if_splits)

lemma op_override:
  "CreateEvent s uuid now u creq d = Inr (d', e', calls) \<Longrightarrow> no_override d \<Longrightarrow> no_override d'"
  "UpdateEvent s now i u req d = Inr (d', e', calls) \<Longrightarrow> no_override d \<Longrightarrow> no_override d'"
  "PublishEvent s now i u d = Inr (d', e', calls) \<Longrightarrow> no_override d \<Longrightarrow> no_override d'"
  "CancelEvent s now i u n d = Inr (d', e', calls) \<Longrightarrow> no_override d \<Longrightarrow> no_override d'"
  "ReopenEvent s now i u d = Inr (d', e', calls) \<Longrightarrow> no_override d \<Longrightarrow> no_override d'"
  "DuplicateEvent s uuid now i u d = Inr (d', e', calls) \<Longrightarrow> no_override d \<Longrightarrow> no_override d'"
  "DeleteEvent now i u d = Inr d' \<Longrightarrow> no_override d \<Longrightarrow> no_override d'"
  by (auto simp: CreateEvent_def UpdateEvent_def PublishEvent_def CancelEvent_def ReopenEvent_def DuplicateEvent_def DeleteEvent_def Let_def
      dest: read_override apply_update_override elim!: create_override store_override)

lemma initial_override: "no_override d \<Longrightarrow> no_override (fst (initial_loop s uuid clk series od n i cur d calls))"
proof (induction n arbitrary: i cur d calls)
  case (Suc n)
  then show ?case
    by (auto simp: CreateFromSeries_def buildOccurrenceFromSeries_def split: sum.splits intro!: Suc.IH elim: create_override)
qed simp

lemma generate_override: "no_override d \<Longrightarrow> no_override (fst (generate_loop s uuid clk series od n i prev k d calls))"
proof (induction n arbitrary: i prev k d calls)
  case (Suc n)
  then show ?case
    by (auto simp: CreateFromSeries_def buildOccurrenceFromSeries_def Let_def split: sum.splits intro!: Suc.IH elim: create_override)
qed simp

lemma update_future_override:
  "no_override d \<Longrightarrow> \<forall>ev \<in> set evs. \<not> e_SeriesOverride ev \<Longrightarrow> no_override (update_future clk k series evs d)"
  by (induction evs arbitrary: k d) (simp_all add: try_override from_template_def)

lemma stop_override:
  "no_override d \<Longrightarrow> \<forall>ev \<in> set evs. \<not> e_SeriesOverride ev \<Longrightarrow> no_override (fst (stop_future s clk k series evs d))"
proof (induction evs arbitrary: k d)
  case (Cons ev evs)
  have ev: "\<not> e_SeriesOverride ev" "\<forall>ev \<in> set evs. \<not> e_SeriesOverride ev" using Cons.prems(2) by simp_all
  note rest = Cons.IH [OF _ ev(2)]
  show ?case
  proof (cases "CancelEvent (ss_events s) (clk k) (e_ID ev) (es_OrganizerID series) True d")
    case (Inl e)
    then show ?thesis using rest [OF Cons.prems(1)] rest [OF try_override [OF _ Cons.prems(1)]] ev(1) by simp
  next
    case (Inr x)
    obtain d1 e1 c1 where x: "x = (d1, e1, c1)" by (metis prod_cases3)
    show ?thesis using rest [OF op_override(4) [OF Inr [unfolded x] Cons.prems(1)]] rest [OF try_override [OF _ Cons.prems(1)]] ev(1) Inr x
      by (simp add: case_prod_beta)
  qed
qed simp

lemma series_override:
  "CreateSeries ss sid uuid now clk u sreq d = Inr (d', es, calls) \<Longrightarrow> no_override d \<Longrightarrow> no_override d'"
  "GenerateOccurrences ss uuid now clk i d = (d', calls, err) \<Longrightarrow> no_override d \<Longrightarrow> no_override d'"
  "UpdateSeries ss now now' clk i u ureq d = Inr (d', es) \<Longrightarrow> no_override d \<Longrightarrow> no_override d'"
  "StopSeries ss now now' clk i u d = Inr (d', es, calls) \<Longrightarrow> no_override d \<Longrightarrow> no_override d'"
  "DeleteSeries i u d = Inr d' \<Longrightarrow> no_override d \<Longrightarrow> no_override d'"
proof -
  assume d: "no_override d"
  show "no_override d'" if "CreateSeries ss sid uuid now clk u sreq d = Inr (d', es, calls)"
    using that no_override_same [OF d] initial_override
    by (auto simp: CreateSeries_def Let_def case_prod_beta CreateSeriesRow_def insert_series_def generateInitialOccurrences_def
      split: if_splits sum.splits)
  show "no_override d'" if "GenerateOccurrences ss uuid now clk i d = (d', calls, err)"
    using that d generate_override [OF d] by (auto simp: GenerateOccurrences_def split: option.splits if_splits sum.splits) (metis fst_conv)
  show "no_override d'" if up: "UpdateSeries ss now now' clk i u ureq d = Inr (d', es)"
  proof -
    obtain es0 d1 where 1: "UpdateSeriesRow now es0 d = Inr (d1, es)" "d' = fst (updateFutureOccurrences now' clk es d1)"
      using up by (auto simp: UpdateSeries_def)
    have "no_override d1" using no_override_same [OF d] series_row_evolves [OF 1(1)] by blast
    then show ?thesis using read_override(3) unfolding 1(2) updateFutureOccurrences_def
      by (auto split: sum.splits intro!: update_future_override)
  qed
  show "no_override d'" if stop: "StopSeries ss now now' clk i u d = Inr (d', es, calls)"
  proof -
    obtain es0 d1 es1 where 1: "UpdateSeriesRow now es0 d = Inr (d1, es1)"
      "(case FindFutureBySeriesID i now' d1 of Inl _ \<Rightarrow> Inr (d1, es1, [])
        | Inr evs \<Rightarrow> (let (d, calls) = stop_future ss clk 0 es1 evs d1 in Inr (d, es1, calls))) = (Inr (d', es, calls) :: (idb \<times> EventSeries \<times> series_call list) id_result)"
      using stop by (auto simp: StopSeries_def)
    have d1: "no_override d1" using no_override_same [OF d] series_row_evolves [OF 1(1)] by blast
    show ?thesis
    proof (cases "FindFutureBySeriesID i now' d1")
      case (Inr evs)
      have "no_override (fst (stop_future ss clk 0 es1 evs d1))" using read_override(3) [OF d1 Inr] by (intro stop_override [OF d1]) blast
      then show ?thesis using 1(2) Inr by (auto simp: case_prod_beta)
    qed (use 1(2) d1 in simp)
  qed
  show "no_override d'" if "DeleteSeries i u d = Inr d'"
    using that d by (auto simp: DeleteSeries_def DeleteSeriesRow_def no_override_def set_update_where)
qed

lemma step_override: "event_step rt d d' \<Longrightarrow> no_override d \<Longrightarrow> no_override d'"
  by (induction rule: event_step.induct)
    (auto intro: op_override series_override
      dest!: add_cohost_same account_same_events simp: same_events_def DeleteCoHost_def elim: no_override_same)

interpretation override: system_invariant "event_step rt" no_override for rt
  by unfold_locales (rule step_override)

section \<open>Updating a series\<close>

definition template_fields :: "EventSeries \<Rightarrow> event_row \<Rightarrow> bool" where
  "template_fields series r \<longleftrightarrow> e_Title r = es_Title series \<and> e_Description r = es_Description series \<and> e_Location r = es_Location series \<and>
    e_Timezone r = es_Timezone series \<and> e_RetentionDays r = es_RetentionDays series \<and> e_ShowHeadcount r = es_ShowHeadcount series \<and>
    e_ShowGuestList r = es_ShowGuestList series"

lemma template_stored: "template_fields series (stored_event (from_template series ev) c n)"
  by (simp add: template_fields_def stored_event_def from_template_def event_row.defs)

text \<open>The rows of the occurrences in \<open>seen\<close> have the fields of the template.\<close>

definition templated :: "EventSeries \<Rightarrow> id set \<Rightarrow> idb \<Rightarrow> bool" where
  "templated series seen d \<longleftrightarrow> (\<forall>r \<in> set (id_events d). e_ID r \<in> seen \<longrightarrow> template_fields series r)"

lemma from_template_simps [simp]:
  "e_ID (from_template series ev) = e_ID ev" "e_Status (from_template series ev) = e_Status ev"
  "e_SeriesID (from_template series ev) = e_SeriesID ev"
  by (simp_all add: from_template_def)

lemma template_update:
  assumes "templated series seen d" "event_checks d ev"
  shows "templated series (insert (e_ID ev) seen) (try_update now (from_template series ev) d)"
  using assms template_stored [of series ev]
  by (auto simp: try_update_def StoreUpdateEvent_def event_checks_def templated_def set_update_where)

lemma try_update_series: "id_series (try_update now ev d) = id_series d"
  by (auto simp: try_update_def StoreUpdateEvent_def split: sum.splits if_splits)

lemma checks_same_series: "es_ID ` set (id_series d') = es_ID ` set (id_series d) \<Longrightarrow> event_checks d' ev = event_checks d ev"
  by (cases "e_SeriesID ev") (simp_all add: event_checks_def)

lemma checks_try_update: "event_checks (try_update now e d) ev = event_checks d ev"
  by (rule checks_same_series) (simp add: try_update_series)

lemma series_row_ids:
  assumes "UpdateSeriesRow now es d = Inr (d1, es1)"
  shows "es_ID ` set (id_series d1) = es_ID ` set (id_series d)"
proof -
  have "map es_ID (id_series d1) = map es_ID (id_series d)"
    using assms by (auto simp: UpdateSeriesRow_def stored_series_def update_where_def split: if_splits)
  then show ?thesis by (rule same_keys)
qed

lemma update_future_templated:
  "templated series seen d \<Longrightarrow> \<forall>ev \<in> set evs. event_checks d ev \<and> \<not> e_SeriesOverride ev \<Longrightarrow>
    templated series (seen \<union> e_ID ` set evs) (update_future clk k series evs d)"
proof (induction evs arbitrary: seen k d)
  case (Cons ev evs)
  let ?d = "try_update (clk k) (from_template series ev) d"
  have "templated series (insert (e_ID ev) seen) ?d" using template_update Cons.prems by simp
  moreover have "\<forall>ev \<in> set evs. event_checks ?d ev \<and> \<not> e_SeriesOverride ev"
    using Cons.prems(2) by (simp add: checks_try_update)
  ultimately show ?case using Cons.IH [of "insert (e_ID ev) seen" ?d "Suc k"] Cons.prems(2) by simp
qed simp

lemma scan_readable:
  assumes "one_owner d" "set rs \<subseteq> set (id_events d)"
  shows "\<exists>es. scan_events d rs = Inr es \<and> map event_row.truncate es = rs"
proof -
  have "\<exists>e. scanEvent d r = Inr e" if r: "r \<in> set (id_events d)" for r
  proof -
    obtain e where "FindEventByID (e_ID r) d = Inr (Some e)" using owned_events_readable [OF assms(1) r] by blast
    moreover have "select_row (\<lambda>x. e_ID x = e_ID r) (id_events d) = Some r"
      using assms(1) r by (intro select_row_unique [where k = e_ID]) (simp_all add: one_owner_def)
    ultimately show ?thesis by (auto simp: FindEventByID_def)
  qed
  then have "\<exists>es. scan_events d rs = Inr es" using assms(2) by (induction rs) fastforce+
  then show ?thesis using scanned_events by blast
qed

text \<open>
  An update of a series replaces what was edited on its occurrences. No operation marks an
  occurrence as edited on its own, so that after any sequence of operations an update of the series
  by its owner gives every upcoming occurrence the title, description, place, time zone, retention
  and display settings of the series, even one whose own title was changed before.
\<close>

theorem series_update_overwrites_edits:
  assumes "(event_step rt)\<^sup>*\<^sup>* d0 d" "one_owner d0" "no_override d0"
    and "UpdateSeries s now now' clk i u req d = Inr (d', series)"
    and "r \<in> set (id_events d)" "future_of_series i now' r"
    and "\<And>x. x \<in> set (id_events d) \<Longrightarrow> future_of_series i now' x \<Longrightarrow> event_checks d x"
  shows "no_override d' \<and> (\<exists>r' \<in> set (id_events d'). e_ID r' = e_ID r) \<and>
    (\<forall>r' \<in> set (id_events d'). e_ID r' = e_ID r \<longrightarrow> template_fields series r')"
proof -
  have d: "one_owner d" "no_override d"
    using ownership.invariant_reachable [OF assms(1,2)] override.invariant_reachable [OF assms(1,3)] by blast+
  obtain es0 es d1 where 1: "owned_series i u d = Inr es0" "apply_series_update s req es0 = Inr es" "UpdateSeriesRow now es d = Inr (d1, series)"
    "d' = fst (updateFutureOccurrences now' clk series d1)" using assms(4) by (auto simp: UpdateSeries_def)
  have rows: "id_events d1 = id_events d" "owner_rows d1 = owner_rows d" using series_row_evolves [OF 1(3)] by simp_all
  have d1: "one_owner d1" "no_override d1" using d rows by (simp_all add: one_owner_def no_override_def)
  have i: "es_ID series = i"
    using 1(1-3) by (auto simp: owned_series_def FindSeriesByID_def apply_series_update_def UpdateSeriesRow_def Let_def
      dest!: select_row_SomeD split: if_splits)
  have checks: "event_checks d1 x = event_checks d x" for x :: event_row by (rule checks_same_series [OF series_row_ids [OF 1(3)]])
  let ?rs = "order_by oldest_first (filter (future_of_series i now') (id_events d1))"
  obtain evs where evs: "scan_events d1 ?rs = Inr evs" "map event_row.truncate evs = ?rs"
    using scan_readable [OF d1(1), of ?rs] by auto
  have trunc: "set (map event_row.truncate evs) = {x \<in> set (id_events d). future_of_series i now' x}" unfolding evs(2) by (simp add: rows)
  have "\<forall>ev \<in> set evs. event_checks d1 ev \<and> \<not> e_SeriesOverride ev"
  proof
    fix ev assume "ev \<in> set evs"
    then have "event_row.truncate ev \<in> set (id_events d)" "future_of_series i now' (event_row.truncate ev)" using trunc by auto
    then have "event_checks d1 (event_row.truncate ev)" "\<not> e_SeriesOverride (event_row.truncate ev)"
      using assms(7) checks d(2) unfolding no_override_def by blast+
    then show "event_checks d1 ev \<and> \<not> e_SeriesOverride ev" by (simp add: event_checks_def event_row.defs)
  qed
  then have t: "templated series ({} \<union> e_ID ` set evs) (update_future clk 0 series evs d1)"
    by (intro update_future_templated) (simp_all add: templated_def)
  have d': "d' = update_future clk 0 series evs d1"
    using evs(1) by (simp add: 1(4) updateFutureOccurrences_def FindFutureBySeriesID_def i)
  have "r \<in> set (map event_row.truncate evs)" using trunc assms(5,6) by simp
  then have "e_ID r \<in> e_ID ` set evs" by auto
  then have "\<forall>r' \<in> set (id_events d'). e_ID r' = e_ID r \<longrightarrow> template_fields series r'" using t unfolding d' templated_def by auto
  moreover have "\<exists>r' \<in> set (id_events d'). e_ID r' = e_ID r"
  proof -
    obtain old new where "id_events d' = old @ new" "list_all2 row_step (id_events d) old"
      using UpdateSeries_evolves [OF d(1) assms(4)] by (auto simp: evolves_def)
    then show ?thesis using same_keys [OF row_steps_ids] assms(5) by (metis (no_types, lifting) UnI1 image_iff set_append)
  qed
  moreover have "no_override d'" by (rule series_override(3) [OF assms(4) d(2)])
  ultimately show ?thesis by blast
qed

end
