(* ===== verification/Event_Samples.thy ===== *)
theory Event_Samples
  imports Security_Samples Series_Override
begin

text \<open>
  Instances on which the hypotheses of the properties of events and series hold: a draft of the user
  \<open>u3\<close>, and a weekly series of the same user with at most one occurrence.
\<close>

section \<open>Events\<close>

definition sample_draft :: event_row where
  "sample_draft = \<lparr> e_ID = ''e1'', e_Title = ''Party'', e_Description = [], e_EventDate = 500 * second, e_EndDate = None,
     e_Location = [], e_Timezone = ''UTC'', e_RetentionDays = 30, e_Status = ''draft'', e_ShowHeadcount = False, e_ShowGuestList = False,
     e_RSVPDeadline = None, e_SeriesID = None, e_SeriesIndex = None, e_SeriesOverride = False, e_CreatedAt = 0, e_UpdatedAt = 0 \<rparr>"

definition sample_owner :: membership_row where
  "sample_owner = \<lparr> mb_id = ''m1'', mb_event_id = ''e1'', mb_user_id = ''u3'', mb_role = ''owner'',
     mb_granted_by_user_id = ''u3'', mb_created_at = 0, mb_updated_at = 0 \<rparr>"

definition event_ids_db :: idb where
  "event_ids_db = sample_ids\<lparr>id_events := [sample_draft], id_memberships := [sample_owner]\<rparr>"

definition published_db :: idb where
  "published_db = event_ids_db\<lparr>id_events := [sample_draft\<lparr>e_Status := ''published''\<rparr>]\<rparr>"

definition sample_evs :: event_service where
  "sample_evs = \<lparr> evs_defaultRetention = 30, evs_onPublish = False, evs_onDuplicate = False, evs_onCancel = False,
     evs_time_parse = (\<lambda>layout text. None) \<rparr>"

lemmas event_eval = FindEventByID_def scanEvent_def owner_of_def is_owner_row_def FindMembershipRole_def active_member_def
  managed_event_def CanManageEvent_def select_row_def update_where_def or_err_def guard_def
  event_ids_db_def sample_draft_def sample_owner_def sample_ids_def sample_user_def event_row.defs Event.defs

lemma sample_publish: "\<exists>e. PublishEvent sample_evs 0 ''e1'' ''u3'' event_ids_db = Inr (published_db, e, [])"
  by (simp add: PublishEvent_def StoreUpdateEvent_def stored_event_def event_checks_def published_db_def sample_evs_def event_eval trunc_sec_def second_def)

lemma sample_published: "(event_step sample_rt)\<^sup>*\<^sup>* event_ids_db published_db"
  using sample_publish by (blast intro: event_step.publish)

lemma sample_one_owner: "one_owner event_ids_db"
  by (simp add: one_owner_def owner_rows_def event_ids_db_def sample_draft_def sample_owner_def)



text \<open>The administrator \<open>u1\<close> has no access to the event of \<open>u3\<close>.\<close>

definition admin_request :: ev_request where
  "admin_request = \<lparr> er_organizer = Some ''u1'', er_eventId = ''e1'', er_cohostId = [], er_remote_addr = ''C:80'', er_ref = ''r'' \<rparr>"

definition sample_evh :: ev_handler where
  "sample_evh = \<lparr> eh_service = sample_evs, eh_cohostStore = True, eh_lookupByEmail = None, eh_notifyCoHost = False, eh_maxCoHosts = 2,
     eh_cohostSponsor = None \<rparr>"

theorem event_routes_guarded_witness:
  "\<exists>st' status code msg. event_handle sample_evh (\<lambda>k. ''x'') 0 EvDelete admin_request
     \<lparr> es_seen = Map.empty, es_windows = Map.empty \<rparr> event_ids_db = (st', event_ids_db, EvError status code msg, [])"
  by (rule event_routes_guarded) (simp add: admin_request_def permitted_def event_role_def event_eval)

section \<open>Series\<close>

lemma epoch_date: "Time_Date 0 = (1970, 1, 1)"
proof -
  have "day_of 0 = day_number 1970 1 1"
    by (simp add: day_of_def secs_def day_number_def days_before_year_def epoch_day_def)
  moreover have "valid_date 1970 1 1" by (simp add: valid_date_def days_in_month_def)
  ultimately show ?thesis by (simp add: Time_Date_def civil_of_day_number)
qed

theorem next_occurrence_on_schedule_witness:
  "Time_Date (calculateNextOccurrence 0 ''monthly'' 31) = (1970, 2, 28) \<and> 0 < calculateNextOccurrence 0 ''monthly'' 31"
proof -
  have "isValidRecurrenceRule ''monthly''" "next_month 1970 1 = (1970, 2)" "days_in_month 1970 2 = 28"
    by (simp_all add: isValidRecurrenceRule_def next_month_def days_in_month_def leap_year_def)
  then show ?thesis using next_occurrence_on_schedule [OF _ _ epoch_date, of "''monthly''" 31] by simp
qed

definition sample_series :: EventSeries where
  "sample_series = \<lparr> es_ID = ''s1'', es_OrganizerID = ''u3'', es_Title = ''Club'', es_Description = [], es_Location = [], es_Timezone = ''UTC'',
     es_EventTime = ''20:00'', es_DurationMinutes = None, es_RecurrenceRule = ''weekly'', es_RecurrenceEnd = None,
     es_MaxOccurrences = Some 1, es_SeriesStatus = ''active'', es_RetentionDays = 30, es_ShowHeadcount = False, es_ShowGuestList = False,
     es_RSVPDeadlineOffsetHours = None, es_CreatedAt = 0, es_UpdatedAt = 0 \<rparr>"

definition series_db :: idb where
  "series_db = event_ids_db\<lparr>id_series := [sample_series]\<rparr>"

definition sample_ss :: series_service where
  "sample_ss = \<lparr> ss_events = sample_evs, ss_defaultRetention = 30, ss_onCreateOccurrence = True \<rparr>"

definition sample_uuid :: "nat \<Rightarrow> id" where
  "sample_uuid k = (if k = 0 then ''o1'' else ''n1'')"

lemma sample_occurrence:
  "\<exists>d' e. CreateFromSeries ''n1'' 0 (buildOccurrenceFromSeries ''o1'' sample_series t 1) series_db = Inr (d', e)"
  by (simp add: CreateFromSeries_def createEvent_def insert_event_def insert_membership_def event_checks_def known_events_def user_ids_def
    stored_event_def owner_membership_def buildOccurrenceFromSeries_def series_db_def sample_series_def event_eval)

lemma sample_generated:
  "\<exists>d' calls. GenerateOccurrences sample_ss sample_uuid 0 (\<lambda>k. 0) ''s1'' series_db = (d', calls, None) \<and> id_events d' \<noteq> id_events series_db"
proof -
  have tables: "FindSeriesByID ''s1'' series_db = Some sample_series" "FindFutureBySeriesID ''s1'' 0 series_db = Inr []"
    "last_date 0 ''s1'' [] series_db = Inr 0" "CountBySeriesID ''s1'' series_db = 0"
    by (simp_all add: FindSeriesByID_def FindFutureBySeriesID_def future_of_series_def last_date_def FindBySeriesID_def CountBySeriesID_def
      affected_def series_db_def sample_series_def event_eval)
  obtain d' e where c: "CreateFromSeries ''n1'' 0 (buildOccurrenceFromSeries ''o1'' sample_series
      (calculateNextOccurrence 0 ''weekly'' (Time_Day 0)) 1) series_db = Inr (d', e)" using sample_occurrence by blast
  have limits: "reached_max sample_series 0 = False" "past_end sample_series t = False" "reached_max sample_series 1" for t
    by (simp_all add: reached_max_def past_end_def sample_series_def)
  have "es_SeriesStatus sample_series = ''active''" "es_RecurrenceRule sample_series = ''weekly''" by (simp_all add: sample_series_def)
  then have "GenerateOccurrences sample_ss sample_uuid 0 (\<lambda>k. 0) ''s1'' series_db = (d', created_call sample_ss sample_series (e_ID e), None)"
    using c by (simp add: GenerateOccurrences_def tables numeral_eq_Suc Let_def limits sample_uuid_def)
  then show ?thesis using created_row [OF c] by simp
qed


text \<open>An upcoming occurrence of the series whose title was changed by its owner.\<close>

definition edited_db :: idb where
  "edited_db = series_db\<lparr>id_events := [sample_draft\<lparr>e_Title := ''Special'', e_Status := ''published'', e_SeriesID := Some ''s1'', e_SeriesIndex := Some 1\<rparr>]\<rparr>"

definition no_changes :: UpdateSeriesRequest where
  "no_changes = \<lparr> usr_Title = None, usr_Description = None, usr_Location = None, usr_Timezone = None, usr_EventTime = None,
     usr_DurationMinutes = None, usr_RecurrenceEnd = None, usr_MaxOccurrences = None, usr_RetentionDays = None, usr_ShowHeadcount = None,
     usr_ShowGuestList = None, usr_RSVPDeadlineOffsetHours = None \<rparr>"

lemma sample_series_update: "\<exists>d'. UpdateSeries sample_ss 0 0 (\<lambda>k. 0) ''s1'' ''u3'' no_changes edited_db = Inr (d', sample_series)"
  by (simp add: UpdateSeries_def owned_series_def FindSeriesByID_def apply_series_update_def UpdateSeriesRow_def series_checks_def no_changes_def
    edited_db_def series_db_def sample_series_def event_eval trunc_sec_def Let_def)

theorem series_update_overwrites_edits_witness:
  "\<exists>d' r'. UpdateSeries sample_ss 0 0 (\<lambda>k. 0) ''s1'' ''u3'' no_changes edited_db = Inr (d', sample_series) \<and>
     r' \<in> set (id_events d') \<and> e_ID r' = ''e1'' \<and> e_Title r' = ''Club''"
proof -
  obtain d' where u: "UpdateSeries sample_ss 0 0 (\<lambda>k. 0) ''s1'' ''u3'' no_changes edited_db = Inr (d', sample_series)"
    using sample_series_update by blast
  let ?r = "sample_draft\<lparr>e_Title := ''Special'', e_Status := ''published'', e_SeriesID := Some ''s1'', e_SeriesIndex := Some 1\<rparr>"
  have rows: "id_events edited_db = [?r]" "id_series edited_db = [sample_series]" by (simp_all add: edited_db_def series_db_def)
  have "one_owner edited_db" "no_override edited_db"
    by (simp_all add: one_owner_def owner_rows_def no_override_def edited_db_def series_db_def event_ids_db_def sample_draft_def sample_owner_def)
  moreover have "future_of_series ''s1'' 0 ?r" by (simp add: future_of_series_def sample_draft_def trunc_sec_def second_def)
  moreover have "event_checks edited_db ?r" by (simp add: event_checks_def rows sample_series_def)
  ultimately have "no_override d' \<and> (\<exists>r' \<in> set (id_events d'). e_ID r' = e_ID ?r) \<and>
      (\<forall>r' \<in> set (id_events d'). e_ID r' = e_ID ?r \<longrightarrow> template_fields sample_series r')"
    by (intro series_update_overwrites_edits [OF rtranclp.rtrancl_refl _ _ u, where r = ?r]) (simp_all add: rows)
  moreover have "e_ID ?r = ''e1''" by (simp add: sample_draft_def)
  ultimately show ?thesis using u by (auto simp: template_fields_def sample_series_def)
qed

end
