(* ===== verification/Reminders.thy ===== *)
theory Reminders
  imports Event_Handler
begin

text \<open>
  Scheduled reminders (\<open>internal/scheduler/reminder_store.go\<close>, \<open>reminder.go\<close>, \<open>handler.go\<close>): the
  table, the background job that delivers due reminders, and the routes of organizers. Several
  instances of the job and the routes run side by side; \<open>reminder_step\<close> interleaves their statements.
\<close>

section \<open>The store\<close>

record Reminder =
  rm_ID :: id
  rm_EventID :: id
  rm_RemindAt :: time
  rm_TargetGroup :: string
  rm_Message :: string
  rm_Status :: string
  rm_CreatedAt :: time
  rm_UpdatedAt :: time

type_synonym reminders = "Reminder list"

definition reminder_groups :: "string list" where
  "reminder_groups = [''all'', ''attending'', ''maybe'', ''declined'', ''pending'']"

definition reminder_checks :: "Reminder \<Rightarrow> bool" where
  "reminder_checks r \<longleftrightarrow> rm_TargetGroup r \<in> set reminder_groups \<and>
    rm_Status r \<in> {''scheduled'', ''processing'', ''sent'', ''cancelled'', ''failed''}"

text \<open>The event must exist: the database of events is read for the foreign key.\<close>

definition CreateReminder :: "time \<Rightarrow> Reminder \<Rightarrow> idb \<Rightarrow> reminders \<Rightarrow> (reminders \<times> Reminder) id_result" where
  "CreateReminder now r d rs =
    (let stored = r\<lparr>rm_RemindAt := trunc_sec (rm_RemindAt r), rm_CreatedAt := trunc_sec now, rm_UpdatedAt := trunc_sec now\<rparr> in
     if rm_ID r \<in> rm_ID ` set rs \<or> rm_EventID r \<notin> known_events d \<or> \<not> reminder_checks r then Inl (IdInternal ''create reminder'')
     else Inr (add_row stored rs, r\<lparr>rm_CreatedAt := trunc_sec now, rm_UpdatedAt := trunc_sec now\<rparr>))"

definition FindReminderByID :: "id \<Rightarrow> reminders \<Rightarrow> Reminder option" where
  "FindReminderByID i rs = select_row (\<lambda>r. rm_ID r = i) rs"

definition remind_earlier :: "Reminder \<Rightarrow> Reminder \<Rightarrow> bool" where
  "remind_earlier a b \<longleftrightarrow> rm_RemindAt a < rm_RemindAt b"

definition FindRemindersByEventID :: "id \<Rightarrow> reminders \<Rightarrow> Reminder list" where
  "FindRemindersByEventID eventID rs = order_by remind_earlier (filter (\<lambda>r. rm_EventID r = eventID) rs)"

definition reminder_due :: "time \<Rightarrow> Reminder \<Rightarrow> bool" where
  "reminder_due now r \<longleftrightarrow> rm_RemindAt r \<le> trunc_sec now \<and> rm_Status r = ''scheduled''"

definition FindDue :: "time \<Rightarrow> reminders \<Rightarrow> Reminder list" where
  "FindDue now rs = order_by remind_earlier (filter (reminder_due now) rs)"

definition UpdateReminder :: "time \<Rightarrow> Reminder \<Rightarrow> reminders \<Rightarrow> (reminders \<times> Reminder) id_result" where
  "UpdateReminder now r rs =
    (if list_ex (\<lambda>x. rm_ID x = rm_ID r) rs \<and> \<not> reminder_checks r then Inl (IdInternal ''update reminder'')
     else Inr (update_where (\<lambda>x. rm_ID x = rm_ID r) (\<lambda>x. x\<lparr>rm_RemindAt := trunc_sec (rm_RemindAt r), rm_TargetGroup := rm_TargetGroup r,
            rm_Message := rm_Message r, rm_Status := rm_Status r, rm_UpdatedAt := trunc_sec now\<rparr>) rs,
          r\<lparr>rm_UpdatedAt := trunc_sec now\<rparr>))"

definition scheduled_row :: "id \<Rightarrow> Reminder \<Rightarrow> bool" where
  "scheduled_row i r \<longleftrightarrow> rm_ID r = i \<and> rm_Status r = ''scheduled''"

definition CancelReminder :: "time \<Rightarrow> id \<Rightarrow> reminders \<Rightarrow> reminders id_result" where
  "CancelReminder now i rs =
    (if affected (scheduled_row i) rs = 0 then Inl IdNotFound
     else Inr (update_where (scheduled_row i) (\<lambda>r. r\<lparr>rm_Status := ''cancelled'', rm_UpdatedAt := trunc_sec now\<rparr>) rs))"

definition ClaimForProcessing :: "time \<Rightarrow> id \<Rightarrow> reminders \<Rightarrow> reminders \<times> bool" where
  "ClaimForProcessing now i rs =
    (update_where (scheduled_row i) (\<lambda>r. r\<lparr>rm_Status := ''processing'', rm_UpdatedAt := trunc_sec now\<rparr>) rs,
     0 < affected (scheduled_row i) rs)"

definition SetReminderStatus :: "time \<Rightarrow> id \<Rightarrow> string \<Rightarrow> reminders \<Rightarrow> reminders" where
  "SetReminderStatus now i status rs =
    update_where (\<lambda>r. rm_ID r = i) (\<lambda>r. r\<lparr>rm_Status := status, rm_UpdatedAt := trunc_sec now\<rparr>) rs"

section \<open>The job\<close>

text \<open>
  \<open>deliver\<close> is the callback that mails the households of the group, if it is registered; it returns
  the number of mails or an error. The calls made are returned.
\<close>

datatype delivery = Deliver id string string string \<comment> \<open>event, group, subject, body\<close>

type_synonym deliver_func = "delivery \<Rightarrow> int id_result"

definition reminder_body :: "Reminder \<Rightarrow> string" where
  "reminder_body r = (if rm_Message r = [] then ''You have an upcoming event. Don'' @ [CHR 0x27] @ ''t forget!'' else rm_Message r)"

definition reminder_delivery :: "Reminder \<Rightarrow> delivery" where
  "reminder_delivery r = Deliver (rm_EventID r) (rm_TargetGroup r) ''Event reminder'' (reminder_body r)"

definition processReminder ::
  "deliver_func option \<Rightarrow> (nat \<Rightarrow> time) \<Rightarrow> Reminder \<Rightarrow> reminders \<Rightarrow> reminders \<times> delivery list \<times> id_error option" where
  "processReminder dlv clk r rs =
    (case ClaimForProcessing (clk 0) (rm_ID r) rs of
       (rs, False) \<Rightarrow> (rs, [], None)
     | (rs, True) \<Rightarrow> (case dlv of
          None \<Rightarrow> (SetReminderStatus (clk 1) (rm_ID r) ''failed'' rs, [], Some (IdInternal ''invitation reminder delivery is not configured''))
        | Some f \<Rightarrow> (case f (reminder_delivery r) of
             Inl err \<Rightarrow> (SetReminderStatus (clk 1) (rm_ID r) ''failed'' rs, [reminder_delivery r], Some err)
           | Inr sent \<Rightarrow> (SetReminderStatus (clk 1) (rm_ID r) ''sent'' rs, [reminder_delivery r], None))))"

text \<open>Errors of one reminder are logged; \<open>k\<close> numbers the reminders.\<close>

fun process_all ::
  "deliver_func option \<Rightarrow> (nat \<Rightarrow> nat \<Rightarrow> time) \<Rightarrow> nat \<Rightarrow> Reminder list \<Rightarrow> reminders \<Rightarrow> reminders \<times> delivery list" where
  "process_all dlv clk k [] rs = (rs, [])"
| "process_all dlv clk k (r # due) rs =
    (let (rs, calls, _) = processReminder dlv (clk k) r rs;
         (rs, more_calls) = process_all dlv clk (Suc k) due rs in (rs, calls @ more_calls))"

definition RunReminders :: "deliver_func option \<Rightarrow> time \<Rightarrow> (nat \<Rightarrow> nat \<Rightarrow> time) \<Rightarrow> reminders \<Rightarrow> reminders \<times> delivery list" where
  "RunReminders dlv now clk rs = process_all dlv clk 0 (FindDue now rs) rs"

section \<open>The routes\<close>

record CreateReminderRequest =
  crr_RemindAt :: string
  crr_TargetGroup :: string
  crr_Message :: string

record UpdateReminderRequest =
  urr_RemindAt :: "string option"
  urr_TargetGroup :: "string option"
  urr_Message :: "string option"

text \<open>\<open>rq_parse\<close> is \<open>time.Parse\<close> with the layout RFC 3339.\<close>

record rm_request =
  rq_organizer :: "id option"
  rq_param :: id \<comment> \<open>eventId or reminderId of the route\<close>
  rq_ref :: string
  rq_parse :: "string \<Rightarrow> time option"

datatype rm_response = RmOK nat "Reminder list" | RmError nat string string

definition rm_internal :: "rm_request \<Rightarrow> rm_response" where
  "rm_internal rq = RmError 500 ''internal_error'' (''an internal error occurred (ref: '' @ rq_ref rq @ '')'')"

definition rm_bad :: "string \<Rightarrow> rm_response" where "rm_bad msg = RmError 400 ''bad_request'' msg"
definition rm_missing :: "string \<Rightarrow> rm_response" where "rm_missing msg = RmError 404 ''not_found'' msg"
definition rm_unauthorized :: rm_response where "rm_unauthorized = RmError 401 ''unauthorized'' ''authentication required''"

text \<open>The access check that the server registers.\<close>

definition checkEventOwner :: "id \<Rightarrow> id \<Rightarrow> idb \<Rightarrow> unit id_result" where
  "checkEventOwner eventID organizerID d =
    rbind (CanManageEvent eventID organizerID d) (\<lambda>canManage. guard canManage IdNotFound)"

definition parse_remind_at :: "rm_request \<Rightarrow> time \<Rightarrow> string \<Rightarrow> string + time" where
  "parse_remind_at rq now text = (case rq_parse rq text of
      None \<Rightarrow> Inl ''remindAt must be in RFC3339 format''
    | Some t \<Rightarrow> if t < now then Inl ''remindAt must be in the future'' else Inr t)"

definition check_group :: "string \<Rightarrow> string + string" where
  "check_group g = (if g \<in> set reminder_groups then Inr g else Inl ''targetGroup must be one of: all, attending, maybe, declined, pending'')"

definition check_message :: "string \<Rightarrow> string + string" where
  "check_message msg = (let m = trim_space msg in
     if 10000 < length m then Inl ''message must be 10000 characters or fewer'' else Inr m)"

definition create_fields :: "rm_request \<Rightarrow> time \<Rightarrow> CreateReminderRequest \<Rightarrow> string + time \<times> string \<times> string" where
  "create_fields rq now req =
    rbind (guard (crr_RemindAt req \<noteq> []) ''remindAt is required'') (\<lambda>_.
    rbind (parse_remind_at rq now (crr_RemindAt req)) (\<lambda>t.
    rbind (check_group (if crr_TargetGroup req = [] then ''all'' else crr_TargetGroup req)) (\<lambda>g.
    rbind (check_message (crr_Message req)) (\<lambda>m. Inr (t, g, m)))))"

definition createReminder ::
  "id \<Rightarrow> time \<Rightarrow> rm_request \<Rightarrow> CreateReminderRequest json_body \<Rightarrow> idb \<Rightarrow> reminders \<Rightarrow> reminders \<times> rm_response" where
  "createReminder uuid now rq body d rs = (case rq_organizer rq of
      None \<Rightarrow> (rs, rm_unauthorized)
    | Some u \<Rightarrow> (case checkEventOwner (rq_param rq) u d of
         Inl _ \<Rightarrow> (rs, rm_missing ''event not found'')
       | Inr _ \<Rightarrow> (case DecodeJSON body of
            Inl _ \<Rightarrow> (rs, rm_bad ''invalid JSON body'')
          | Inr req \<Rightarrow> (case create_fields rq now req of
               Inl msg \<Rightarrow> (rs, rm_bad msg)
             | Inr (t, g, m) \<Rightarrow>
                (case CreateReminder now \<lparr> rm_ID = uuid, rm_EventID = rq_param rq, rm_RemindAt = t, rm_TargetGroup = g, rm_Message = m,
                     rm_Status = ''scheduled'', rm_CreatedAt = 0, rm_UpdatedAt = 0 \<rparr> d rs of
                   Inl _ \<Rightarrow> (rs, rm_internal rq)
                 | Inr (rs', r) \<Rightarrow> (rs', RmOK 201 [r]))))))"

definition listReminders :: "rm_request \<Rightarrow> idb \<Rightarrow> reminders \<Rightarrow> rm_response" where
  "listReminders rq d rs = (case rq_organizer rq of
      None \<Rightarrow> rm_unauthorized
    | Some u \<Rightarrow> (case checkEventOwner (rq_param rq) u d of
         Inl _ \<Rightarrow> rm_missing ''event not found''
       | Inr _ \<Rightarrow> RmOK 200 (FindRemindersByEventID (rq_param rq) rs)))"

definition optional_field :: "string option \<Rightarrow> (string \<Rightarrow> string + 'a) \<Rightarrow> 'a \<Rightarrow> string + 'a" where
  "optional_field v f old = (case v of None \<Rightarrow> Inr old | Some x \<Rightarrow> f x)"

text \<open>The part of the update before its write: what is to be written, or the answer.\<close>

definition update_read ::
  "time \<Rightarrow> rm_request \<Rightarrow> UpdateReminderRequest json_body \<Rightarrow> idb \<Rightarrow> reminders \<Rightarrow> rm_response + Reminder" where
  "update_read now rq body d rs = (case rq_organizer rq of
      None \<Rightarrow> Inl rm_unauthorized
    | Some u \<Rightarrow> (case DecodeJSON body of
         Inl _ \<Rightarrow> Inl (rm_bad ''invalid JSON body'')
       | Inr req \<Rightarrow> (case FindReminderByID (rq_param rq) rs of
            None \<Rightarrow> Inl (rm_missing ''reminder not found'')
          | Some r \<Rightarrow> (case checkEventOwner (rm_EventID r) u d of
               Inl _ \<Rightarrow> Inl (rm_missing ''reminder not found'')
             | Inr _ \<Rightarrow>
                if rm_Status r \<noteq> ''scheduled'' then Inl (rm_bad ''only scheduled reminders can be updated'')
                else case rbind (optional_field (urr_RemindAt req) (parse_remind_at rq now) (rm_RemindAt r)) (\<lambda>t.
                   rbind (optional_field (urr_TargetGroup req) check_group (rm_TargetGroup r)) (\<lambda>g.
                   rbind (optional_field (urr_Message req) check_message (rm_Message r)) (\<lambda>m. Inr (t, g, m)))) of
                  Inl msg \<Rightarrow> Inl (rm_bad msg)
                | Inr (t, g, m) \<Rightarrow> Inr (r\<lparr>rm_RemindAt := t, rm_TargetGroup := g, rm_Message := m\<rparr>)))))"

definition updateReminder ::
  "time \<Rightarrow> rm_request \<Rightarrow> UpdateReminderRequest json_body \<Rightarrow> idb \<Rightarrow> reminders \<Rightarrow> reminders \<times> rm_response" where
  "updateReminder now rq body d rs = (case update_read now rq body d rs of
      Inl answer \<Rightarrow> (rs, answer)
    | Inr r \<Rightarrow> (case UpdateReminder now r rs of
         Inl _ \<Rightarrow> (rs, rm_internal rq)
       | Inr (rs', r') \<Rightarrow> (rs', RmOK 200 [r'])))"

definition cancelReminder :: "time \<Rightarrow> rm_request \<Rightarrow> idb \<Rightarrow> reminders \<Rightarrow> reminders \<times> rm_response" where
  "cancelReminder now rq d rs =
    (let missing = (rs, rm_missing ''reminder not found or not in scheduled status'') in
     case rq_organizer rq of
       None \<Rightarrow> (rs, rm_unauthorized)
     | Some u \<Rightarrow> (case FindReminderByID (rq_param rq) rs of
          None \<Rightarrow> missing
        | Some r \<Rightarrow> (case checkEventOwner (rm_EventID r) u d of
             Inl _ \<Rightarrow> missing
           | Inr _ \<Rightarrow> (case CancelReminder now (rq_param rq) rs of
                Inl _ \<Rightarrow> missing
              | Inr rs' \<Rightarrow> (rs', RmOK 200 [])))))"

end
