(* ===== verification/Reminder_Safety.thy ===== *)
theory Reminder_Safety
  imports Reminders
begin

text \<open>
  Reminders under concurrency. Workers of the job and the routes of organizers interleave statement by
  statement; a worker that has claimed a reminder may be interrupted before it delivers or records the
  outcome. The contract \<open>absorbing\<close> is interpreted on this system.
\<close>

section \<open>The interleaved system\<close>

text \<open>
  The table, the claims that workers hold, the deliveries made so far, the outcomes that are still to
  be recorded, and every identifier ever given to a reminder.
\<close>

record rem_state =
  rs_rows :: reminders
  rs_claimed :: "id list"
  rs_log :: "id list"
  rs_open :: "(id \<times> string) list"
  rs_ids :: "id list"

inductive reminder_step :: "idb \<Rightarrow> rem_state \<Rightarrow> rem_state \<Rightarrow> bool" for d :: idb where
  create: "createReminder i now rq cbody d (rs_rows s) = (rows, resp) \<Longrightarrow> i \<notin> set (rs_ids s) \<Longrightarrow>
    reminder_step d s (s\<lparr>rs_rows := rows, rs_ids := i # rs_ids s\<rparr>)"
| update: "updateReminder now rq ubody d (rs_rows s) = (rows, resp) \<Longrightarrow> reminder_step d s (s\<lparr>rs_rows := rows\<rparr>)"
| cancel: "cancelReminder now rq d (rs_rows s) = (rows, resp) \<Longrightarrow> reminder_step d s (s\<lparr>rs_rows := rows\<rparr>)"
| claim: "ClaimForProcessing now i (rs_rows s) = (rows, True) \<Longrightarrow>
    reminder_step d s (s\<lparr>rs_rows := rows, rs_claimed := i # rs_claimed s\<rparr>)"
| deliver: "i \<in> set (rs_claimed s) \<Longrightarrow> st \<in> {''sent'', ''failed''} \<Longrightarrow>
    reminder_step d s (s\<lparr>rs_claimed := remove1 i (rs_claimed s), rs_log := rs_log s @ [i], rs_open := (i, st) # rs_open s\<rparr>)"
| unconfigured: "i \<in> set (rs_claimed s) \<Longrightarrow>
    reminder_step d s (s\<lparr>rs_claimed := remove1 i (rs_claimed s), rs_open := (i, ''failed'') # rs_open s\<rparr>)"
| record_outcome: "(i, st) \<in> set (rs_open s) \<Longrightarrow>
    reminder_step d s (s\<lparr>rs_rows := SetReminderStatus now i st (rs_rows s), rs_open := remove1 (i, st) (rs_open s)\<rparr>)"
| event_gone: "reminder_step d s (s\<lparr>rs_rows := delete_where (\<lambda>r. rm_EventID r = e) (rs_rows s)\<rparr>)"

definition in_flight :: "rem_state \<Rightarrow> id set" where
  "in_flight s = set (rs_claimed s) \<union> fst ` set (rs_open s)"

lemma in_flight_simps [simp]:
  "in_flight (s\<lparr>rs_rows := x\<rparr>) = in_flight s" "in_flight (s\<lparr>rs_ids := y\<rparr>) = in_flight s"
  "in_flight (s\<lparr>rs_rows := x, rs_ids := y\<rparr>) = in_flight s"
  "in_flight (s\<lparr>rs_rows := x, rs_claimed := j # rs_claimed s\<rparr>) = insert j (in_flight s)"
  by (simp_all add: in_flight_def)

definition reminders_ok :: "rem_state \<Rightarrow> bool" where
  "reminders_ok s \<longleftrightarrow> distinct (map rm_ID (rs_rows s)) \<and> distinct (rs_claimed s @ rs_log s) \<and>
    (\<forall>r \<in> set (rs_rows s). rm_Status r = ''scheduled'' \<longrightarrow> rm_ID r \<notin> in_flight s \<union> set (rs_log s)) \<and>
    (\<forall>(i, st) \<in> set (rs_open s). st \<noteq> ''scheduled'') \<and>
    rm_ID ` set (rs_rows s) \<union> in_flight s \<union> set (rs_log s) \<subseteq> set (rs_ids s)"

text \<open>A reminder that was cancelled, or is gone, without a worker holding it.\<close>

definition settled :: "id \<Rightarrow> rem_state \<Rightarrow> bool" where
  "settled i s \<longleftrightarrow> i \<in> set (rs_ids s) \<and> i \<notin> in_flight s \<union> set (rs_log s) \<and>
    (\<forall>r \<in> set (rs_rows s). rm_ID r = i \<longrightarrow> rm_Status r \<noteq> ''scheduled'')"

section \<open>Statements\<close>

text \<open>Which rows a change of the table may touch: identifiers stay, and no row becomes scheduled.\<close>

definition calms :: "reminders \<Rightarrow> reminders \<Rightarrow> bool" where
  "calms rs rs' \<longleftrightarrow> list_all2 (\<lambda>r r'. rm_ID r' = rm_ID r \<and> (rm_Status r' = ''scheduled'' \<longrightarrow> rm_Status r = ''scheduled'')) rs rs'"

lemma calms_refl [simp]: "calms rs rs"
  by (simp add: calms_def list_all2_refl)

lemma calms_ids: "calms rs rs' \<Longrightarrow> map rm_ID rs' = map rm_ID rs"
  unfolding calms_def by (induction rule: list_all2_induct) auto

lemma calms_rows:
  assumes "calms rs rs'" "r' \<in> set rs'"
  obtains r where "r \<in> set rs" "rm_ID r' = rm_ID r" "rm_Status r' = ''scheduled'' \<Longrightarrow> rm_Status r = ''scheduled''"
proof -
  obtain n where "n < length rs'" "r' = rs' ! n" using assms(2) by (auto simp: in_set_conv_nth)
  then show thesis using assms(1) by (intro that [of "rs ! n"]) (auto simp: calms_def list_all2_conv_all_nth)
qed

lemma calms_update_where:
  "(\<And>r. r \<in> set rs \<Longrightarrow> P r \<Longrightarrow> rm_ID (f r) = rm_ID r \<and> (rm_Status (f r) = ''scheduled'' \<longrightarrow> rm_Status r = ''scheduled'')) \<Longrightarrow>
    calms rs (update_where P f rs)"
  unfolding calms_def update_where_def list_all2_map2 by (rule list.rel_refl_strong) auto

lemma claim_calms: "ClaimForProcessing now i rs = (rs', ok) \<Longrightarrow> calms rs rs'"
  by (auto simp: ClaimForProcessing_def intro!: calms_update_where)

lemma set_status_calms: "st \<noteq> ''scheduled'' \<Longrightarrow> calms rs (SetReminderStatus now i st rs)"
  by (auto simp: SetReminderStatus_def intro!: calms_update_where)

lemma cancel_calms: "cancelReminder now rq d rs = (rs', resp) \<Longrightarrow> calms rs rs'"
  by (auto simp: cancelReminder_def CancelReminder_def Let_def split: option.splits sum.splits if_splits intro!: calms_update_where)

lemma update_read_D:
  assumes "update_read now rq body d rs = Inr r"
  shows "rm_Status r = ''scheduled''" "\<exists>r0 \<in> set rs. rm_ID r0 = rm_ID r \<and> rm_Status r0 = ''scheduled''"
  using assms by (auto simp: update_read_def FindReminderByID_def split: option.splits sum.splits if_splits dest!: select_row_SomeD)

lemma update_calms:
  assumes "updateReminder now rq body d rs = (rs', resp)" "distinct (map rm_ID rs)"
  shows "calms rs rs'"
proof (cases "update_read now rq body d rs")
  case (Inl answer)
  then show ?thesis using assms(1) by (simp add: updateReminder_def)
next
  case (Inr r)
  obtain r0 where r0: "r0 \<in> set rs" "rm_ID r0 = rm_ID r" "rm_Status r0 = ''scheduled''" using update_read_D [OF Inr] by blast
  have "rm_Status x = ''scheduled''" if "x \<in> set rs" "rm_ID x = rm_ID r" for x
    using assms(2) r0 that by (metis distinct_map inj_onD)
  then show ?thesis using assms(1) Inr
    by (auto simp: updateReminder_def UpdateReminder_def split: if_splits intro!: calms_update_where)
qed

lemma store_create: "CreateReminder now r d rs = Inr (rs', r') \<Longrightarrow> \<exists>x. rs' = rs @ [x] \<and> rm_ID x = rm_ID r \<and> rm_ID r \<notin> rm_ID ` set rs"
  by (auto simp: CreateReminder_def add_row_def Let_def split: if_splits)

lemma create_rows:
  assumes "createReminder i now rq body d rs = (rs', resp)"
  shows "rs' = rs \<or> (\<exists>r. rs' = rs @ [r] \<and> rm_ID r = i \<and> i \<notin> rm_ID ` set rs)"
proof -
  let ?new = "\<lambda>t g m. \<lparr> rm_ID = i, rm_EventID = rq_param rq, rm_RemindAt = t, rm_TargetGroup = g, rm_Message = m,
    rm_Status = ''scheduled'', rm_CreatedAt = 0, rm_UpdatedAt = 0 \<rparr>"
  have "rs' = rs \<or> (\<exists>t g m r'. CreateReminder now (?new t g m) d rs = Inr (rs', r'))"
  proof (cases "rq_organizer rq")
    case (Some u)
    show ?thesis
      using assms Some
      by (cases "checkEventOwner (rq_param rq) u d"; cases "DecodeJSON body"; cases "create_fields rq now (projr (DecodeJSON body))")
        (auto simp: createReminder_def split: sum.splits prod.splits)
  qed (use assms in \<open>simp add: createReminder_def\<close>)
  then show ?thesis using store_create by fastforce
qed

lemma claimed_row:
  assumes "ClaimForProcessing now i rs = (rs', True)"
  shows "\<exists>r \<in> set rs. rm_ID r = i \<and> rm_Status r = ''scheduled''"
    "\<forall>r' \<in> set rs'. rm_ID r' = i \<longrightarrow> rm_Status r' \<noteq> ''scheduled''"
proof -
  have c: "rs' = update_where (scheduled_row i) (\<lambda>r. r\<lparr>rm_Status := ''processing'', rm_UpdatedAt := trunc_sec now\<rparr>) rs" "0 < affected (scheduled_row i) rs"
    using assms by (simp_all add: ClaimForProcessing_def)
  show "\<exists>r \<in> set rs. rm_ID r = i \<and> rm_Status r = ''scheduled''" using c(2) by (simp add: affected_pos_iff scheduled_row_def)
  show "\<forall>r' \<in> set rs'. rm_ID r' = i \<longrightarrow> rm_Status r' \<noteq> ''scheduled''"
  proof (intro ballI impI)
    fix r' assume "r' \<in> set rs'" "rm_ID r' = i"
    then obtain r where "r' = (if scheduled_row i r then r\<lparr>rm_Status := ''processing'', rm_UpdatedAt := trunc_sec now\<rparr> else r)"
      unfolding c(1) set_update_where by blast
    then have "rm_Status r' = ''processing'' \<or> \<not> scheduled_row i r'" by (cases "scheduled_row i r") simp_all
    then show "rm_Status r' \<noteq> ''scheduled''" using \<open>rm_ID r' = i\<close> unfolding scheduled_row_def by force
  qed
qed

section \<open>The invariant\<close>

lemma calm_ok:
  assumes "calms (rs_rows s) rows" "reminders_ok s"
  shows "reminders_ok (s\<lparr>rs_rows := rows\<rparr>)" "settled i s \<Longrightarrow> settled i (s\<lparr>rs_rows := rows\<rparr>)"
proof -
  have ids: "rm_ID ` set rows = rm_ID ` set (rs_rows s)" using calms_ids [OF assms(1)] by (metis set_map)
  have "rm_ID r' \<notin> in_flight s \<union> set (rs_log s)" if "r' \<in> set rows" "rm_Status r' = ''scheduled''" for r'
  proof -
    obtain r where "r \<in> set (rs_rows s)" "rm_ID r' = rm_ID r" "rm_Status r = ''scheduled''"
      using calms_rows [OF assms(1) \<open>r' \<in> set rows\<close>] \<open>rm_Status r' = ''scheduled''\<close> by blast
    then show ?thesis using assms(2) by (simp add: reminders_ok_def)
  qed
  then show "reminders_ok (s\<lparr>rs_rows := rows\<rparr>)"
    using assms(2) calms_ids [OF assms(1)] ids by (simp add: reminders_ok_def)
  show "settled i (s\<lparr>rs_rows := rows\<rparr>)" if st: "settled i s"
  proof -
    have "rm_Status r' \<noteq> ''scheduled''" if r': "r' \<in> set rows" "rm_ID r' = i" for r'
    proof
      assume "rm_Status r' = ''scheduled''"
      then obtain r where "r \<in> set (rs_rows s)" "rm_ID r = i" "rm_Status r = ''scheduled''"
        using calms_rows [OF assms(1) r'(1)] r'(2) by metis
      then show False using st by (simp add: settled_def)
    qed
    then show ?thesis using st by (simp add: settled_def)
  qed
qed

lemma claim_ok:
  assumes "ClaimForProcessing now j (rs_rows s) = (rows, True)" "reminders_ok s"
  shows "reminders_ok (s\<lparr>rs_rows := rows, rs_claimed := j # rs_claimed s\<rparr>)"
    "settled i s \<Longrightarrow> settled i (s\<lparr>rs_rows := rows, rs_claimed := j # rs_claimed s\<rparr>)"
proof -
  let ?s = "s\<lparr>rs_rows := rows\<rparr>"
  have dist: "distinct (map rm_ID (rs_rows s))" using assms(2) by (simp add: reminders_ok_def)
  obtain r where r: "r \<in> set (rs_rows s)" "rm_ID r = j" "rm_Status r = ''scheduled''" using claimed_row(1) [OF assms(1)] by blast
  have free: "j \<notin> in_flight s \<union> set (rs_log s)" "j \<in> set (rs_ids s)" using r assms(2) by (auto simp: reminders_ok_def)
  note calm = calm_ok [OF claim_calms [OF assms(1)] assms(2)]
  show "reminders_ok (s\<lparr>rs_rows := rows, rs_claimed := j # rs_claimed s\<rparr>)"
    using calm(1) free claimed_row(2) [OF assms(1)] unfolding reminders_ok_def by (auto simp: in_flight_def)
  show "settled i (s\<lparr>rs_rows := rows, rs_claimed := j # rs_claimed s\<rparr>)" if "settled i s"
    using calm(2) [OF that] that r by (auto simp: settled_def in_flight_def)
qed

lemma worker_ok:
  assumes "j \<in> set (rs_claimed s)" "reminders_ok s" "st \<noteq> ''scheduled''" "extra = [] \<or> extra = [j]"
  shows "reminders_ok (s\<lparr>rs_claimed := remove1 j (rs_claimed s), rs_log := rs_log s @ extra, rs_open := (j, st) # rs_open s\<rparr>)"
    "settled i s \<Longrightarrow> settled i (s\<lparr>rs_claimed := remove1 j (rs_claimed s), rs_log := rs_log s @ extra, rs_open := (j, st) # rs_open s\<rparr>)"
  using assms by (auto simp: reminders_ok_def settled_def in_flight_def set_remove1_eq)

lemma open_status: "reminders_ok s \<Longrightarrow> (j, st) \<in> set (rs_open s) \<Longrightarrow> st \<noteq> ''scheduled''"
  by (auto simp: reminders_ok_def)

lemma outcome_ok:
  assumes "reminders_ok s"
  shows "reminders_ok (s\<lparr>rs_open := remove1 x (rs_open s)\<rparr>)" "settled i s \<Longrightarrow> settled i (s\<lparr>rs_open := remove1 x (rs_open s)\<rparr>)"
proof -
  have "set (remove1 x (rs_open s)) \<subseteq> set (rs_open s)" by (rule set_remove1_subset)
  moreover from this have "in_flight (s\<lparr>rs_open := remove1 x (rs_open s)\<rparr>) \<subseteq> in_flight s" by (auto simp: in_flight_def)
  ultimately show "reminders_ok (s\<lparr>rs_open := remove1 x (rs_open s)\<rparr>)" "settled i s \<Longrightarrow> settled i (s\<lparr>rs_open := remove1 x (rs_open s)\<rparr>)"
    using assms unfolding reminders_ok_def settled_def by auto
qed

lemma create_ok:
  assumes "createReminder j now rq body d (rs_rows s) = (rows, resp)" "j \<notin> set (rs_ids s)" "reminders_ok s"
  shows "reminders_ok (s\<lparr>rs_rows := rows, rs_ids := j # rs_ids s\<rparr>)" "settled i s \<Longrightarrow> settled i (s\<lparr>rs_rows := rows, rs_ids := j # rs_ids s\<rparr>)"
proof -
  have "j \<notin> in_flight s \<union> set (rs_log s)" using assms(2,3) by (auto simp: reminders_ok_def)
  then show "reminders_ok (s\<lparr>rs_rows := rows, rs_ids := j # rs_ids s\<rparr>)"
    using create_rows [OF assms(1)]
  proof (elim disjE exE conjE)
    assume "rows = rs_rows s"
    then show ?thesis using assms(3) by (auto simp: reminders_ok_def)
  next
    fix r assume r: "rows = rs_rows s @ [r]" "rm_ID r = j" "j \<notin> rm_ID ` set (rs_rows s)"
    moreover have "rm_ID ` set (rs_rows s) \<union> in_flight s \<union> set (rs_log s) \<subseteq> insert j (set (rs_ids s))" using assms(3) by (auto simp: reminders_ok_def)
    ultimately show ?thesis using assms(3) \<open>j \<notin> in_flight s \<union> set (rs_log s)\<close> by (simp add: reminders_ok_def)
  qed
  show "settled i (s\<lparr>rs_rows := rows, rs_ids := j # rs_ids s\<rparr>)" if "settled i s"
    using that create_rows [OF assms(1)] assms(2) unfolding settled_def by auto
qed

lemma gone_ok:
  assumes "reminders_ok s"
  shows "reminders_ok (s\<lparr>rs_rows := delete_where P (rs_rows s)\<rparr>)" "settled i s \<Longrightarrow> settled i (s\<lparr>rs_rows := delete_where P (rs_rows s)\<rparr>)"
  using assms by (auto simp: reminders_ok_def settled_def in_flight_def delete_where_def distinct_map_filter)

lemma reminder_step_ok:
  assumes "reminder_step d s s'" "reminders_ok s"
  shows "reminders_ok s' \<and> (settled i s \<longrightarrow> settled i s')"
  using assms
proof (induction rule: reminder_step.induct)
  case (record_outcome j st s now)
  have "calms (rs_rows s) (SetReminderStatus now j st (rs_rows s))"
    by (rule set_status_calms [OF open_status [OF record_outcome(2,1)]])
  note calm = calm_ok [OF this record_outcome(2)]
  show ?case using outcome_ok [OF calm(1)] calm(2) by simp
next
  case (deliver j s st)
  then show ?case using worker_ok [of j s st "[j]"] by auto
next
  case (unconfigured j s)
  then show ?case using worker_ok [of j s "''failed''" "[]"] by simp
qed (auto intro: create_ok claim_ok gone_ok calm_ok [OF cancel_calms] calm_ok [OF update_calms] simp: reminders_ok_def [THEN iffD1, THEN conjunct1])

interpretation deliveries: absorbing "reminder_step d" reminders_ok settled for d
  by unfold_locales (use reminder_step_ok in blast)+


section \<open>The job as steps\<close>

text \<open>Processing a reminder without interruption is a sequence of these steps, with the same table and deliveries.\<close>

lemma process_is_steps:
  assumes "processReminder dlv clk r (rs_rows s) = (rows, calls, err)"
  shows "\<exists>s'. (reminder_step d)\<^sup>*\<^sup>* s s' \<and> rs_rows s' = rows \<and> rs_log s' = rs_log s @ map (\<lambda>_. rm_ID r) calls"
proof (cases "ClaimForProcessing (clk 0) (rm_ID r) (rs_rows s)")
  case (Pair rs1 ok)
  show ?thesis
  proof (cases ok)
    case False
    have "rs1 = rs_rows s" using Pair False unfolding ClaimForProcessing_def
      by (auto simp: affected_zero_iff update_where_def intro!: map_idI)
    then show ?thesis using assms Pair False by (intro exI [of _ s]) (simp add: processReminder_def)
  next
    case True
    let ?i = "rm_ID r"
    let ?s1 = "s\<lparr>rs_rows := rs1, rs_claimed := ?i # rs_claimed s\<rparr>"
    have c: "reminder_step d s ?s1" using Pair True by (intro reminder_step.claim) simp
    show ?thesis
    proof (cases dlv)
      case None
      let ?s2 = "?s1\<lparr>rs_claimed := remove1 ?i (rs_claimed ?s1), rs_open := (?i, ''failed'') # rs_open ?s1\<rparr>"
      have "reminder_step d ?s1 ?s2" by (rule reminder_step.unconfigured) simp
      moreover have "reminder_step d ?s2 (?s2\<lparr>rs_rows := SetReminderStatus (clk 1) ?i ''failed'' (rs_rows ?s2), rs_open := remove1 (?i, ''failed'') (rs_open ?s2)\<rparr>)"
        by (rule reminder_step.record_outcome) simp
      ultimately have "(reminder_step d)\<^sup>*\<^sup>* s (?s2\<lparr>rs_rows := SetReminderStatus (clk 1) ?i ''failed'' (rs_rows ?s2), rs_open := remove1 (?i, ''failed'') (rs_open ?s2)\<rparr>)"
        using c by (meson converse_rtranclp_into_rtranclp rtranclp.rtrancl_refl)
      then show ?thesis using assms Pair True None by (fastforce simp: processReminder_def)
    next
      case (Some f)
      obtain st where st: "rows = SetReminderStatus (clk 1) ?i st rs1" "st \<in> {''sent'', ''failed''}" "calls = [reminder_delivery r]"
        using assms Pair True Some by (auto simp: processReminder_def split: sum.splits)
      let ?s2 = "?s1\<lparr>rs_claimed := remove1 ?i (rs_claimed ?s1), rs_log := rs_log ?s1 @ [?i], rs_open := (?i, st) # rs_open ?s1\<rparr>"
      have "reminder_step d ?s1 ?s2" by (rule reminder_step.deliver) (use st(2) in simp_all)
      moreover have "reminder_step d ?s2 (?s2\<lparr>rs_rows := SetReminderStatus (clk 1) ?i st (rs_rows ?s2), rs_open := remove1 (?i, st) (rs_open ?s2)\<rparr>)"
        by (rule reminder_step.record_outcome) simp
      ultimately have "(reminder_step d)\<^sup>*\<^sup>* s (?s2\<lparr>rs_rows := SetReminderStatus (clk 1) ?i st (rs_rows ?s2), rs_open := remove1 (?i, st) (rs_open ?s2)\<rparr>)"
        using c by (meson converse_rtranclp_into_rtranclp rtranclp.rtrancl_refl)
      then show ?thesis using st by fastforce
    qed
  qed
qed

text \<open>
  An update that was interrupted between its reading and its writing is not a step of this system: it
  writes back the status it has read. A reminder that was delivered in between can then be claimed and
  delivered again.
\<close>

lemma stale_update_resends:
  assumes "update_read now rq body d rs = Inr r" "processReminder dlv clk r0 rs = (rs1, calls, err)" "rm_ID r0 = rm_ID r"
    and "UpdateReminder now' r rs1 = Inr (rs2, r')"
  shows "snd (ClaimForProcessing t (rm_ID r) rs2)"
proof -
  obtain x where "x \<in> set rs" "rm_ID x = rm_ID r" "rm_Status r = ''scheduled''" using update_read_D [OF assms(1)] by blast
  moreover have "rm_ID ` set rs1 = rm_ID ` set rs"
  proof -
    have "map rm_ID rs1 = map rm_ID rs"
      using assms(2) by (auto simp: processReminder_def ClaimForProcessing_def SetReminderStatus_def update_where_def
        split: prod.splits bool.splits option.splits sum.splits)
    then show ?thesis by (metis set_map)
  qed
  ultimately obtain y where "y \<in> set rs1" "rm_ID y = rm_ID r" by (metis image_iff)
  moreover have "\<exists>f. rs2 = update_where (\<lambda>x. rm_ID x = rm_ID r) f rs1 \<and> (\<forall>x. rm_ID (f x) = rm_ID x \<and> rm_Status (f x) = ''scheduled'')"
    using assms(4) \<open>rm_Status r = ''scheduled''\<close> by (fastforce simp: UpdateReminder_def split: if_splits)
  ultimately obtain f where f: "rs2 = update_where (\<lambda>x. rm_ID x = rm_ID r) f rs1" "rm_ID (f y) = rm_ID r" "rm_Status (f y) = ''scheduled''"
    "y \<in> set rs1" "rm_ID y = rm_ID r" by metis
  then have "f y \<in> set rs2" unfolding set_update_where f(1) by (intro image_eqI [of _ _ y]) simp_all
  then show ?thesis using f(2,3) by (auto simp: ClaimForProcessing_def affected_pos_iff scheduled_row_def)
qed

end
