(* ===== verification/Retention.thy ===== *)
theory Retention
  imports Event_Safety Go_Time
begin

text \<open>
  The clean-up job (\<open>internal/scheduler/cleanup.go\<close>): it warns the owners of events that are about to
  expire, once each, and deletes events whose retention period is over, with everything that
  refers to them.
\<close>

section \<open>The job\<close>

text \<open>The state of the job, and its callbacks, which are registered or not.\<close>

record CleanupJob =
  cj_warnedEvents :: "id set"
  cj_retentionNotify :: bool
  cj_onDeleteEvent :: bool

datatype cleanup_call = RetentionNotify string string time | OnDeleteEvent id

record warningEvent =
  we_id :: id
  we_title :: string
  we_organizerEmail :: string
  we_expiresAt :: time

definition expires_at :: "event_row \<Rightarrow> time" where
  "expires_at r = AddDate (e_EventDate r) 0 0 (e_RetentionDays r)"

definition warningThreshold :: duration where
  "warningThreshold = 7 * 24 * hour"

text \<open>The join of an event with its owner.\<close>

definition owners_of :: "idb \<Rightarrow> event_row \<Rightarrow> User list" where
  "owners_of d r = concat (map (\<lambda>m. filter (\<lambda>u. u_ID u = mb_user_id m) (id_users d)) (filter (is_owner_row (e_ID r)) (id_memberships d)))"

definition expires_soon :: "time \<Rightarrow> event_row \<Rightarrow> bool" where
  "expires_soon now r \<longleftrightarrow> 0 < expires_at r - now \<and> expires_at r - now \<le> warningThreshold"

definition to_warn :: "time \<Rightarrow> idb \<Rightarrow> warningEvent list" where
  "to_warn now d = concat (map (\<lambda>r. map (\<lambda>u. \<lparr> we_id = e_ID r, we_title = e_Title r, we_organizerEmail = u_Email u, we_expiresAt = expires_at r \<rparr>)
      (owners_of d r)) (filter (\<lambda>r. e_Status r \<noteq> ''archived'' \<and> expires_soon now r) (id_events d)))"

fun warn_loop :: "CleanupJob \<Rightarrow> warningEvent list \<Rightarrow> CleanupJob \<times> cleanup_call list" where
  "warn_loop j [] = (j, [])"
| "warn_loop j (ev # evs) =
    (if we_id ev \<in> cj_warnedEvents j then warn_loop j evs
     else let (j', calls) = warn_loop (j\<lparr>cj_warnedEvents := insert (we_id ev) (cj_warnedEvents j)\<rparr>) evs in
       (j', (if cj_retentionNotify j \<and> we_organizerEmail ev \<noteq> [] then [RetentionNotify (we_organizerEmail ev) (we_title ev) (we_expiresAt ev)]
             else []) @ calls))"

definition warnExpiring :: "time \<Rightarrow> CleanupJob \<Rightarrow> idb \<Rightarrow> CleanupJob \<times> cleanup_call list" where
  "warnExpiring now j d = warn_loop j (to_warn now d)"

definition expired :: "time \<Rightarrow> event_row \<Rightarrow> bool" where
  "expired now r \<longleftrightarrow> e_Status r \<noteq> ''archived'' \<and> expires_at r < now"

fun delete_loop :: "CleanupJob \<Rightarrow> id list \<Rightarrow> idb \<Rightarrow> idb \<times> cleanup_call list" where
  "delete_loop j [] d = (d, [])"
| "delete_loop j (i # ids) d =
    (let (d', calls) = delete_loop j ids (cascade_event (\<lambda>x. x = i) d) in
     (d', (if cj_onDeleteEvent j then [OnDeleteEvent i] else []) @ calls))"

definition deleteExpired :: "time \<Rightarrow> CleanupJob \<Rightarrow> idb \<Rightarrow> idb \<times> cleanup_call list" where
  "deleteExpired now j d = delete_loop j (map e_ID (filter (expired now) (id_events d))) d"

definition RunCleanup :: "time \<Rightarrow> time \<Rightarrow> CleanupJob \<Rightarrow> idb \<Rightarrow> CleanupJob \<times> idb \<times> cleanup_call list" where
  "RunCleanup now now' j d =
    (let (j', warnings) = warnExpiring now j d; (d', deletions) = deleteExpired now' j' d in (j', d', warnings @ deletions))"

section \<open>Deletion\<close>

lemma cascade_cascade: "cascade_event p (cascade_event q d) = cascade_event (\<lambda>i. q i \<or> p i) d"
proof -
  have audit: "update_where (\<lambda>a. case ae_EventID a of None \<Rightarrow> False | Some i \<Rightarrow> p i) (\<lambda>a. a\<lparr>ae_EventID := None\<rparr>)
      (update_where (\<lambda>a. case ae_EventID a of None \<Rightarrow> False | Some i \<Rightarrow> q i) (\<lambda>a. a\<lparr>ae_EventID := None\<rparr>) as) =
    update_where (\<lambda>a. case ae_EventID a of None \<Rightarrow> False | Some i \<Rightarrow> q i \<or> p i) (\<lambda>a. a\<lparr>ae_EventID := None\<rparr>) as" for as
    by (induction as) (auto simp: update_where_def split: option.splits)
  show ?thesis unfolding cascade_event_def
    by (simp add: audit) (auto simp: delete_where_def split: option.splits intro!: filter_cong)
qed

lemma cascade_nothing: "cascade_event (\<lambda>i. False) d = d"
proof -
  have "update_where (\<lambda>a. case ae_EventID a of None \<Rightarrow> False | Some i \<Rightarrow> False) (\<lambda>a. a\<lparr>ae_EventID := None\<rparr>) as = as" for as :: "AuditEntry list"
    by (induction as) (auto simp: update_where_def split: option.splits)
  then show ?thesis by (simp add: cascade_event_def delete_where_def option.case_eq_if)
qed

lemma delete_loop_cascade:
  "delete_loop j ids d = (cascade_event (\<lambda>i. i \<in> set ids) d, if cj_onDeleteEvent j then map OnDeleteEvent ids else [])"
  by (induction ids arbitrary: d) (auto simp: cascade_nothing cascade_cascade Let_def case_prod_beta)

lemma warn_loop_keeps: "fst (warn_loop j evs) = j\<lparr>cj_warnedEvents := cj_warnedEvents j \<union> we_id ` set evs\<rparr>"
proof (induction evs arbitrary: j)
  case (Cons ev evs)
  then show ?case by (auto simp: Let_def case_prod_beta insert_absorb intro!: arg_cong [of _ _ "\<lambda>w. j\<lparr>cj_warnedEvents := w\<rparr>"])
qed simp

text \<open>An event that was warned about is not warned about again in the life of the job.\<close>

lemma warned_once:
  assumes "\<forall>ev \<in> set evs. we_id ev \<in> cj_warnedEvents j"
  shows "warn_loop j evs = (j, [])"
  using assms by (induction evs) auto

lemma warning_recipients:
  "RetentionNotify email title t \<in> set (snd (warn_loop j evs)) \<Longrightarrow>
    \<exists>ev \<in> set evs. email = we_organizerEmail ev \<and> title = we_title ev \<and> t = we_expiresAt ev \<and> we_id ev \<notin> cj_warnedEvents j"
proof (induction evs arbitrary: j)
  case (Cons ev evs)
  then show ?case by (fastforce simp: Let_def case_prod_beta split: if_splits)
qed simp

lemma warnings_only: "OnDeleteEvent i \<notin> set (snd (warn_loop j evs))"
  by (induction evs arbitrary: j) (auto simp: Let_def case_prod_beta)


end
