(* ===== verification/Notification.thy ===== *)
theory Notification
  imports Reminders
begin

text \<open>
  Outgoing notifications (\<open>internal/notification/service.go\<close>, \<open>tracking.go\<close>, \<open>handler.go\<close>) and the list
  of suppressed addresses with its unsubscribe links (\<open>internal/suppression\<close>). Providers are
  parameters: what the provider answers to each attempt.
\<close>

section \<open>The suppression list\<close>

definition ReasonUnsubscribe :: string where "ReasonUnsubscribe = ''unsubscribe''"
definition ReasonBounce :: string where "ReasonBounce = ''bounce''"
definition ReasonComplaint :: string where "ReasonComplaint = ''complaint''"

definition ValidReasons :: "string list" where
  "ValidReasons = [ReasonUnsubscribe, ReasonBounce, ReasonComplaint]"

record Suppression =
  sp_ID :: id
  sp_Email :: string
  sp_EventID :: "id option"
  sp_Reason :: string
  sp_CreatedAt :: time

record unsubscribe_token =
  ut_id :: id
  ut_token_hash :: string
  ut_email :: string
  ut_event_id :: "id option"
  ut_created_at :: time

record LogEntry =
  le_ID :: id
  le_EventID :: id
  le_InvitationID :: string
  le_Channel :: string
  le_Provider :: string
  le_Status :: string
  le_DeliveryStatus :: string
  le_Error :: string
  le_Recipient :: string
  le_Subject :: string
  le_MessageID :: string
  le_SentAt :: "time option"
  le_DeliveredAt :: "time option"
  le_OpenedAt :: "time option"
  le_ClickedAt :: "time option"
  le_BouncedAt :: "time option"
  le_BounceType :: string
  le_ComplaintAt :: "time option"
  le_CreatedAt :: time

record ndb =
  nd_suppressions :: "Suppression list"
  nd_tokens :: "unsubscribe_token list"
  nd_log :: "LogEntry list"

text \<open>The events that exist: foreign keys refer to them.\<close>

type_synonym known = "id set"

definition known_event :: "known \<Rightarrow> id option \<Rightarrow> bool" where
  "known_event k e = (case e of None \<Rightarrow> True | Some i \<Rightarrow> i \<in> k)"

definition StoreIsSuppressed :: "string \<Rightarrow> id option \<Rightarrow> ndb \<Rightarrow> bool" where
  "StoreIsSuppressed email event d = (case event of
      None \<Rightarrow> 0 < affected (\<lambda>r. sp_Email r = email \<and> sp_EventID r = None) (nd_suppressions d)
    | Some e \<Rightarrow>
       if e = [] then 0 < affected (\<lambda>r. sp_Email r = email \<and> sp_EventID r = None) (nd_suppressions d)
       else 0 < affected (\<lambda>r. sp_Email r = email \<and> (sp_EventID r = None \<or> sp_EventID r = Some e)) (nd_suppressions d))"

text \<open>The argument for the column: an empty event is \<open>NULL\<close>.\<close>

definition event_arg :: "id option \<Rightarrow> id option" where
  "event_arg event = (case event of Some e \<Rightarrow> if e = [] then None else Some e | None \<Rightarrow> None)"

definition existsExact :: "string \<Rightarrow> id option \<Rightarrow> ndb \<Rightarrow> bool" where
  "existsExact email event d \<longleftrightarrow> 0 < affected (\<lambda>r. sp_Email r = email \<and> sp_EventID r = event_arg event) (nd_suppressions d)"

definition insert_suppression :: "known \<Rightarrow> Suppression \<Rightarrow> ndb \<Rightarrow> ndb option" where
  "insert_suppression k r d =
    (if sp_ID r \<in> sp_ID ` set (nd_suppressions d) \<or> \<not> known_event k (sp_EventID r) \<or>
        (sp_EventID r \<noteq> None \<and> list_ex (\<lambda>x. sp_Email x = sp_Email r \<and> sp_EventID x = sp_EventID r) (nd_suppressions d)) then None
     else Some (d\<lparr>nd_suppressions := add_row r (nd_suppressions d)\<rparr>))"

definition StoreSuppress :: "known \<Rightarrow> id \<Rightarrow> time \<Rightarrow> string \<Rightarrow> id option \<Rightarrow> string \<Rightarrow> ndb \<Rightarrow> ndb \<times> string option" where
  "StoreSuppress k i now email event reason d =
    (if existsExact email event d then (d, None)
     else case insert_suppression k \<lparr> sp_ID = i, sp_Email = email, sp_EventID = event_arg event, sp_Reason = reason, sp_CreatedAt = trunc_sec now \<rparr> d of
       Some d' \<Rightarrow> (d', None)
     | None \<Rightarrow> if existsExact email event d then (d, None) else (d, Some ''insert suppression''))"

definition CreateToken :: "known \<Rightarrow> id \<Rightarrow> time \<Rightarrow> string \<Rightarrow> string \<Rightarrow> id option \<Rightarrow> ndb \<Rightarrow> string + ndb" where
  "CreateToken k i now hash email event d =
    (if i \<in> ut_id ` set (nd_tokens d) \<or> hash \<in> ut_token_hash ` set (nd_tokens d) \<or> \<not> known_event k (event_arg event)
     then Inl ''insert unsubscribe token''
     else Inr (d\<lparr>nd_tokens := add_row \<lparr> ut_id = i, ut_token_hash = hash, ut_email = email, ut_event_id = event_arg event,
            ut_created_at = trunc_sec now \<rparr> (nd_tokens d)\<rparr>))"

definition FindTokenByHash :: "string \<Rightarrow> ndb \<Rightarrow> (string \<times> id option) option" where
  "FindTokenByHash hash d = map_option (\<lambda>r. (ut_email r, ut_event_id r)) (select_row (\<lambda>r. ut_token_hash r = hash) (nd_tokens d))"

definition suppression_normalizeEmail :: "'x runtime_scheme \<Rightarrow> string \<Rightarrow> string" where
  "suppression_normalizeEmail rt email = to_lower rt (trim_space email)"

definition normalizeEventID :: "string \<Rightarrow> id option" where
  "normalizeEventID eventID = (if trim_space eventID = [] then None else Some eventID)"

definition IsSuppressed :: "'x runtime_scheme \<Rightarrow> string \<Rightarrow> string \<Rightarrow> ndb \<Rightarrow> bool" where
  "IsSuppressed rt email eventID d = StoreIsSuppressed (suppression_normalizeEmail rt email) (normalizeEventID eventID) d"

definition Suppress :: "'x runtime_scheme \<Rightarrow> known \<Rightarrow> id \<Rightarrow> time \<Rightarrow> string \<Rightarrow> string \<Rightarrow> string \<Rightarrow> ndb \<Rightarrow> ndb \<times> string option" where
  "Suppress rt k i now email eventID reason d =
    (if reason \<notin> set ValidReasons then (d, Some (''invalid suppression reason: '' @ rt_quote rt reason))
     else StoreSuppress k i now (suppression_normalizeEmail rt email) (normalizeEventID eventID) reason d)"

definition suppression_hashToken :: "'x runtime_scheme \<Rightarrow> string \<Rightarrow> string" where
  "suppression_hashToken rt token = hex_encode (rt_sha256 rt token)"

definition GenerateUnsubscribeToken ::
  "'x runtime_scheme \<Rightarrow> known \<Rightarrow> id \<Rightarrow> time \<Rightarrow> string option \<Rightarrow> string \<Rightarrow> string \<Rightarrow> ndb \<Rightarrow> string + (ndb \<times> string)" where
  "GenerateUnsubscribeToken rt k i now raw email eventID d = (case raw of
      None \<Rightarrow> Inl ''generate unsubscribe token''
    | Some bytes \<Rightarrow>
       rbind (CreateToken k i now (suppression_hashToken rt (hex_encode bytes)) (suppression_normalizeEmail rt email) (normalizeEventID eventID) d)
         (\<lambda>d'. Inr (d', hex_encode bytes)))"

definition VerifyUnsubscribeToken :: "'x runtime_scheme \<Rightarrow> string \<Rightarrow> ndb \<Rightarrow> (string \<times> id option) option" where
  "VerifyUnsubscribeToken rt token d = (if trim_space token = [] then None else FindTokenByHash (suppression_hashToken rt token) d)"

section \<open>Unsubscribe routes\<close>

datatype un_response = UnScope string "id option" | UnDone | UnError nat string string

definition un_internal :: "string \<Rightarrow> un_response" where
  "un_internal ref = UnError 500 ''internal_error'' (''an internal error occurred (ref: '' @ ref @ '')'')"

definition handleResolve :: "'x runtime_scheme \<Rightarrow> string \<Rightarrow> ndb \<Rightarrow> un_response" where
  "handleResolve rt token d =
    (if token = [] then UnError 400 ''bad_request'' ''token is required''
     else case VerifyUnsubscribeToken rt token d of
       None \<Rightarrow> UnError 404 ''not_found'' ''invalid or expired unsubscribe link''
     | Some (email, event) \<Rightarrow> UnScope email event)"

definition handleUnsubscribe ::
  "'x runtime_scheme \<Rightarrow> known \<Rightarrow> id \<Rightarrow> time \<Rightarrow> string \<Rightarrow> string json_body \<Rightarrow> ndb \<Rightarrow> ndb \<times> un_response" where
  "handleUnsubscribe rt k i now ref body d = (case DecodeJSON body of
      Inl _ \<Rightarrow> (d, UnError 400 ''bad_request'' ''invalid JSON body'')
    | Inr token \<Rightarrow>
       if token = [] then (d, UnError 400 ''bad_request'' ''token is required'')
       else case VerifyUnsubscribeToken rt token d of
         None \<Rightarrow> (d, UnError 404 ''not_found'' ''invalid or expired unsubscribe link'')
       | Some (email, event) \<Rightarrow>
          (case Suppress rt k i now email (case event of None \<Rightarrow> [] | Some e \<Rightarrow> e) ReasonUnsubscribe d of
             (d', Some _) \<Rightarrow> (d', un_internal ref)
           | (d', None) \<Rightarrow> (d', UnDone)))"

section \<open>Messages\<close>

record Message =
  ms_To :: string
  ms_Subject :: string
  ms_Body :: string
  ms_Plain :: string
  ms_Attachments :: "(string \<times> string \<times> string) list"

text \<open>
  What the provider answers to the attempts, numbered from 1: an error or the identifier of the
  message, if it returns one. \<open>pv_SendBatch\<close> answers for each message.
\<close>

record provider =
  pv_Name :: string
  pv_Send :: "Message \<Rightarrow> nat \<Rightarrow> string + string option"
  pv_SendBatch :: "Message list \<Rightarrow> (string + string option) list"

record notif_options =
  no_BaseURL :: string
  no_OpenTrackingEnabled :: bool
  no_Suppression :: bool

type_synonym registry = "string \<rightharpoonup> provider"

definition registry_Register :: "string \<Rightarrow> provider \<Rightarrow> registry \<Rightarrow> registry" where
  "registry_Register ch p r = r(ch \<mapsto> p)"

definition registry_Get :: "registry \<Rightarrow> string \<Rightarrow> string + provider" where
  "registry_Get r ch = or_err (r ch) (''no provider registered for channel: '' @ ch)"

definition registry_Has :: "registry \<Rightarrow> string \<Rightarrow> bool" where
  "registry_Has r ch \<longleftrightarrow> r ch \<noteq> None"

definition ChannelEmail :: string where "ChannelEmail = ''email''"
definition ChannelSMS :: string where "ChannelSMS = ''sms''"

text \<open>\<open>strings.LastIndex\<close>.\<close>

definition last_index_str :: "string \<Rightarrow> string \<Rightarrow> nat option" where
  "last_index_str needle s = find (\<lambda>i. prefix needle (drop i s)) (rev [0..<Suc (length s)])"

text \<open>
  Text inserted before the closing tag of the body. The position is found in the text after
  \<open>strings.ToLower\<close>; when this is past the end of the original text, slicing panics (\<open>None\<close>).
\<close>

definition insert_in_body :: "'x runtime_scheme \<Rightarrow> string \<Rightarrow> string \<Rightarrow> string option" where
  "insert_in_body rt extra body = (case last_index_str ''</body>'' (to_lower rt body) of
      None \<Rightarrow> Some (body @ extra)
    | Some i \<Rightarrow> if length body < i then None else Some (take i body @ extra @ drop i body))"

definition open_pixel :: "string \<Rightarrow> string \<Rightarrow> string" where
  "open_pixel base logID = ''<img src='' @ [CHR 0x22] @ trim_right (CHR ''/'') base @ ''/api/v1/notifications/track/open/'' @ logID @ [CHR 0x22] @
     '' width='' @ [CHR 0x22] @ ''1'' @ [CHR 0x22] @ '' height='' @ [CHR 0x22] @ ''1'' @ [CHR 0x22] @ '' alt='' @ [CHR 0x22, CHR 0x22] @
     '' style='' @ [CHR 0x22] @ ''display:none'' @ [CHR 0x22] @ '' />''"

definition embedOpenPixel :: "'x runtime_scheme \<Rightarrow> notif_options \<Rightarrow> Message \<Rightarrow> id \<Rightarrow> Message option" where
  "embedOpenPixel rt opts msg logID =
    (if \<not> no_OpenTrackingEnabled opts \<or> no_BaseURL opts = [] \<or> ms_Body msg = [] then Some msg
     else map_option (\<lambda>b. msg\<lparr>ms_Body := b\<rparr>) (insert_in_body rt (open_pixel (no_BaseURL opts) logID) (ms_Body msg)))"

definition unsubscribe_link :: "string \<Rightarrow> string \<Rightarrow> string" where
  "unsubscribe_link base token = trim_right (CHR ''/'') base @ ''/unsubscribe?token='' @ token"

definition footer_html :: "string \<Rightarrow> string" where
  "footer_html link = ''<div style='' @ [CHR 0x22] @ ''margin-top:24px;font-size:12px;color:#A8A29E;text-align:center'' @ [CHR 0x22] @ ''>'' @
     ''<a href='' @ [CHR 0x22] @ link @ [CHR 0x22] @ '' style='' @ [CHR 0x22] @ ''color:#A8A29E'' @ [CHR 0x22] @ ''>Unsubscribe from these emails</a></div>''"

definition footer_plain :: "string \<Rightarrow> string" where
  "footer_plain link = [CHR 0x0A, CHR 0x0A] @ ''---'' @ [CHR 0x0A] @ ''Unsubscribe from these emails: '' @ link @ [CHR 0x0A]"

definition add_footer :: "'x runtime_scheme \<Rightarrow> string \<Rightarrow> Message \<Rightarrow> Message option" where
  "add_footer rt link msg =
    map_option (\<lambda>b. msg\<lparr>ms_Body := b, ms_Plain := (if ms_Plain msg \<noteq> [] then ms_Plain msg @ footer_plain link else ms_Plain msg)\<rparr>)
      (if ms_Body msg = [] then Some [] else insert_in_body rt (footer_html link) (ms_Body msg))"

definition applyUnsubscribeFooter ::
  "'x runtime_scheme \<Rightarrow> notif_options \<Rightarrow> known \<Rightarrow> id \<Rightarrow> time \<Rightarrow> string option \<Rightarrow> Message \<Rightarrow> string \<Rightarrow> ndb \<Rightarrow> ndb \<times> Message option" where
  "applyUnsubscribeFooter rt opts k i now raw msg eventID d =
    (if \<not> no_Suppression opts \<or> no_BaseURL opts = [] \<or> ms_To msg = [] then (d, Some msg)
     else case GenerateUnsubscribeToken rt k i now raw (ms_To msg) eventID d of
       Inl _ \<Rightarrow> (d, Some msg)
     | Inr (d', token) \<Rightarrow> (d', add_footer rt (unsubscribe_link (no_BaseURL opts) token) msg))"

section \<open>The log\<close>

text \<open>
  Errors of the log are only logged themselves, so that a failing statement leaves the table as it is.
  The invitation that an entry refers to is taken to exist.
\<close>

definition insertLog :: "known \<Rightarrow> LogEntry \<Rightarrow> ndb \<Rightarrow> ndb" where
  "insertLog k e d =
    (if le_ID e \<in> le_ID ` set (nd_log d) \<or> le_EventID e \<notin> k \<or> le_Channel e \<notin> {''email'', ''sms''} \<or> le_Status e \<notin> {''pending'', ''sent'', ''failed''}
     then d else d\<lparr>nd_log := add_row e (nd_log d)\<rparr>)"

definition pending_entry :: "id \<Rightarrow> id \<Rightarrow> string \<Rightarrow> string \<Rightarrow> string \<Rightarrow> Message \<Rightarrow> time \<Rightarrow> LogEntry" where
  "pending_entry i eventID invitationID ch name msg now = \<lparr> le_ID = i, le_EventID = eventID, le_InvitationID = invitationID, le_Channel = ch,
     le_Provider = name, le_Status = ''pending'', le_DeliveryStatus = ''unknown'', le_Error = [], le_Recipient = ms_To msg, le_Subject = ms_Subject msg,
     le_MessageID = [], le_SentAt = None, le_DeliveredAt = None, le_OpenedAt = None, le_ClickedAt = None, le_BouncedAt = None, le_BounceType = [],
     le_ComplaintAt = None, le_CreatedAt = trunc_sec now \<rparr>"

definition updateLog :: "id \<Rightarrow> string \<Rightarrow> string \<Rightarrow> string \<Rightarrow> time option \<Rightarrow> ndb \<Rightarrow> ndb" where
  "updateLog i status err messageID sentAt d = d\<lparr>nd_log := update_where (\<lambda>e. le_ID e = i)
     (\<lambda>e. e\<lparr>le_Status := status, le_Error := err, le_MessageID := messageID, le_SentAt := map_option trunc_sec sentAt\<rparr>) (nd_log d)\<rparr>"

definition GetLogByID :: "id \<Rightarrow> ndb \<Rightarrow> LogEntry option" where
  "GetLogByID i d = select_row (\<lambda>e. le_ID e = i) (nd_log d)"

definition GetLogsByEvent :: "id \<Rightarrow> ndb \<Rightarrow> LogEntry list" where
  "GetLogsByEvent eventID d = order_by (\<lambda>a b. le_CreatedAt b < le_CreatedAt a) (filter (\<lambda>e. le_EventID e = eventID) (nd_log d))"

section \<open>Sending\<close>

definition maxSendAttempts :: nat where "maxSendAttempts = 3"

text \<open>
  The attempts from number \<open>attempt\<close> on, \<open>n\<close> of them at most: the number of calls of the provider and
  the last answer. \<open>go a\<close> tells whether the context allows a retry after attempt \<open>a\<close> and its wait.
\<close>

fun send_attempts :: "provider \<Rightarrow> (nat \<Rightarrow> bool) \<Rightarrow> Message \<Rightarrow> nat \<Rightarrow> nat \<Rightarrow> nat \<times> (string + string option)" where
  "send_attempts pv go msg attempt 0 = (0, Inr None)"
| "send_attempts pv go msg attempt (Suc n) = (case pv_Send pv msg attempt of
      Inr r \<Rightarrow> (1, Inr r)
    | Inl err \<Rightarrow>
       if attempt < maxSendAttempts \<and> go attempt \<and> n \<noteq> 0
       then (let (calls, r) = send_attempts pv go msg (Suc attempt) n in (Suc calls, r))
       else (1, Inl err))"

datatype send_outcome = Sent | SendError string | SendPanic

definition isSuppressedEmail :: "'x runtime_scheme \<Rightarrow> notif_options \<Rightarrow> string \<Rightarrow> string \<Rightarrow> string \<Rightarrow> ndb \<Rightarrow> bool" where
  "isSuppressedEmail rt opts ch email eventID d =
    (if ch \<noteq> ChannelEmail \<or> \<not> no_Suppression opts \<or> email = [] then False else IsSuppressed rt email eventID d)"

text \<open>The footer and the pixel of an email; other messages are left as they are.\<close>

definition dress ::
  "'x runtime_scheme \<Rightarrow> notif_options \<Rightarrow> known \<Rightarrow> id \<Rightarrow> id \<Rightarrow> time \<Rightarrow> string option \<Rightarrow> string \<Rightarrow> Message \<Rightarrow> string \<Rightarrow> ndb \<Rightarrow> ndb \<times> Message option" where
  "dress rt opts k logID tid now raw ch msg eventID d =
    (if ch \<noteq> ChannelEmail then (d, Some msg)
     else let (d', m) = applyUnsubscribeFooter rt opts k tid now raw msg eventID d in
       (d', Option.bind m (\<lambda>m. embedOpenPixel rt opts m logID)))"

text \<open>
  The database afterwards, the message handed to the provider with the number of attempts, and the
  outcome.
\<close>

definition Send ::
  "'x runtime_scheme \<Rightarrow> notif_options \<Rightarrow> registry \<Rightarrow> known \<Rightarrow> (nat \<Rightarrow> id) \<Rightarrow> (nat \<Rightarrow> time) \<Rightarrow> string option \<Rightarrow> (nat \<Rightarrow> bool) \<Rightarrow>
   string \<Rightarrow> string \<Rightarrow> string \<Rightarrow> Message \<Rightarrow> ndb \<Rightarrow> ndb \<times> (Message \<times> nat) list \<times> send_outcome" where
  "Send rt opts reg k uuid clk raw go eventID invitationID ch msg d = (case registry_Get reg ch of
      Inl e \<Rightarrow> (d, [], SendError (''get provider: '' @ e))
    | Inr pv \<Rightarrow>
       if isSuppressedEmail rt opts ch (ms_To msg) eventID d then (d, [], Sent)
       else case dress rt opts k (uuid 0) (uuid 1) (clk 1) raw ch msg eventID d of
         (d, None) \<Rightarrow> (d, [], SendPanic)
       | (d, Some m) \<Rightarrow>
          (let d = insertLog k (pending_entry (uuid 0) eventID invitationID ch (pv_Name pv) m (clk 0)) d;
               (calls, r) = send_attempts pv go m 1 maxSendAttempts in
           case r of
             Inl err \<Rightarrow> (updateLog (uuid 0) ''failed'' err [] None d, [(m, calls)], SendError (''send notification: '' @ err))
           | Inr res \<Rightarrow> (updateLog (uuid 0) ''sent'' [] (case res of None \<Rightarrow> [] | Some i \<Rightarrow> i) (Some (clk 2)) d, [(m, calls)], Sent)))"

text \<open>The batch: no message is checked against the suppression list.\<close>

fun batch_prepare ::
  "'x runtime_scheme \<Rightarrow> notif_options \<Rightarrow> known \<Rightarrow> string \<Rightarrow> (nat \<Rightarrow> id) \<Rightarrow> time \<Rightarrow> (nat \<Rightarrow> string option) \<Rightarrow> string \<Rightarrow> string \<Rightarrow> string \<Rightarrow>
   nat \<Rightarrow> Message list \<Rightarrow> ndb \<Rightarrow> ndb \<times> Message list option" where
  "batch_prepare rt opts k name uuid now raw eventID invitationID ch i [] d = (d, Some [])"
| "batch_prepare rt opts k name uuid now raw eventID invitationID ch i (msg # msgs) d =
    (case dress rt opts k (uuid (2 * i)) (uuid (2 * i + 1)) now (raw i) ch msg eventID d of
       (d, None) \<Rightarrow> (d, None)
     | (d, Some m) \<Rightarrow>
        (let d = insertLog k (pending_entry (uuid (2 * i)) eventID invitationID ch name m now) d;
             (d, ms) = batch_prepare rt opts k name uuid now raw eventID invitationID ch (Suc i) msgs d in
         (d, map_option ((#) m) ms)))"

fun batch_record :: "(nat \<Rightarrow> id) \<Rightarrow> (nat \<Rightarrow> time) \<Rightarrow> nat \<Rightarrow> (string + string option) list \<Rightarrow> ndb \<Rightarrow> ndb" where
  "batch_record uuid clk i [] d = d"
| "batch_record uuid clk i (r # rs) d = batch_record uuid clk (Suc i) rs (case r of
      Inl err \<Rightarrow> updateLog (uuid (2 * i)) ''failed'' err [] None d
    | Inr res \<Rightarrow> updateLog (uuid (2 * i)) ''sent'' [] (case res of None \<Rightarrow> [] | Some m \<Rightarrow> m) (Some (clk i)) d)"

definition SendBatch ::
  "'x runtime_scheme \<Rightarrow> notif_options \<Rightarrow> registry \<Rightarrow> known \<Rightarrow> (nat \<Rightarrow> id) \<Rightarrow> time \<Rightarrow> (nat \<Rightarrow> time) \<Rightarrow> (nat \<Rightarrow> string option) \<Rightarrow>
   string \<Rightarrow> string \<Rightarrow> string \<Rightarrow> Message list \<Rightarrow> ndb \<Rightarrow> ndb \<times> Message list \<times> string option list option" where
  "SendBatch rt opts reg k uuid now clk raw eventID invitationID ch msgs d = (case registry_Get reg ch of
      Inl e \<Rightarrow> (d, [], Some (replicate (length msgs) (Some (''get provider: '' @ e))))
    | Inr pv \<Rightarrow> (case batch_prepare rt opts k (pv_Name pv) uuid now raw eventID invitationID ch 0 msgs d of
         (d, None) \<Rightarrow> (d, [], None)
       | (d, Some ms) \<Rightarrow>
          (let answers = pv_SendBatch pv ms in
           (batch_record uuid clk 0 answers d, ms, Some (map (case_sum Some (\<lambda>_. None)) answers)))))"

section \<open>Tracking\<close>

record DeliveryEvent =
  de_MessageID :: string
  de_EventType :: string
  de_Timestamp :: time
  de_BounceType :: string

definition delivery_order :: "string \<rightharpoonup> nat" where
  "delivery_order = [''unknown'' \<mapsto> 0, ''delivered'' \<mapsto> 1, ''opened'' \<mapsto> 2, ''clicked'' \<mapsto> 3, ''bounced'' \<mapsto> 4, ''complained'' \<mapsto> 5]"

text \<open>A missing key of the map reads as 0.\<close>

definition status_rank :: "string \<Rightarrow> nat" where
  "status_rank s = (case delivery_order s of None \<Rightarrow> 0 | Some n \<Rightarrow> n)"

definition record_delivery :: "DeliveryEvent \<Rightarrow> LogEntry \<Rightarrow> LogEntry" where
  "record_delivery ev e =
    (let ts = Some (trunc_sec (de_Timestamp ev)) in
     if de_EventType ev = ''delivered'' then e\<lparr>le_DeliveryStatus := ''delivered'', le_DeliveredAt := ts\<rparr>
     else if de_EventType ev = ''opened'' then e\<lparr>le_DeliveryStatus := ''opened'', le_OpenedAt := ts\<rparr>
     else if de_EventType ev = ''clicked'' then e\<lparr>le_DeliveryStatus := ''clicked'', le_ClickedAt := ts\<rparr>
     else if de_EventType ev = ''bounced'' then e\<lparr>le_DeliveryStatus := ''bounced'', le_BouncedAt := ts, le_BounceType := de_BounceType ev\<rparr>
     else if de_EventType ev = ''complained'' then e\<lparr>le_DeliveryStatus := ''complained'', le_ComplaintAt := ts\<rparr>
     else e)"

definition ProcessDeliveryEvent :: "DeliveryEvent \<Rightarrow> ndb \<Rightarrow> string + ndb" where
  "ProcessDeliveryEvent ev d =
    (if delivery_order (de_EventType ev) = None then Inl (''invalid delivery event type: '' @ de_EventType ev)
     else case select_row (\<lambda>e. le_MessageID e = de_MessageID ev \<and> le_MessageID e \<noteq> []) (nd_log d) of
       None \<Rightarrow> Inl (''no notification log entry for message_id: '' @ de_MessageID ev)
     | Some e \<Rightarrow>
        if de_EventType ev \<noteq> ''bounced'' \<and> de_EventType ev \<noteq> ''complained'' \<and> status_rank (de_EventType ev) \<le> status_rank (le_DeliveryStatus e)
        then Inr d
        else Inr (d\<lparr>nd_log := update_where (\<lambda>x. le_ID x = le_ID e) (record_delivery ev) (nd_log d)\<rparr>))"

definition RecordOpen :: "time \<Rightarrow> id \<Rightarrow> ndb \<Rightarrow> ndb" where
  "RecordOpen now i d = d\<lparr>nd_log := update_where (\<lambda>e. le_ID e = i \<and> le_DeliveryStatus e \<in> {''unknown'', ''delivered''})
     (\<lambda>e. e\<lparr>le_DeliveryStatus := ''opened'', le_OpenedAt := Some (trunc_sec now)\<rparr>) (nd_log d)\<rparr>"

record EmailStats =
  st_TotalSent :: nat
  st_Delivered :: nat
  st_Opened :: nat
  st_Clicked :: nat
  st_Bounced :: nat
  st_Complained :: nat
  st_Failed :: nat
  st_Pending :: nat

definition GetEmailStats :: "id \<Rightarrow> ndb \<Rightarrow> EmailStats" where
  "GetEmailStats eventID d =
    (let rows = filter (\<lambda>e. le_EventID e = eventID \<and> le_Channel e = ''email'') (nd_log d);
         by_status = (\<lambda>s. affected (\<lambda>e. le_Status e = s) rows);
         by_delivery = (\<lambda>s. affected (\<lambda>e. le_DeliveryStatus e = s) rows) in
     \<lparr> st_TotalSent = by_status ''sent'', st_Delivered = by_delivery ''delivered'', st_Opened = by_delivery ''opened'',
       st_Clicked = by_delivery ''clicked'', st_Bounced = by_delivery ''bounced'', st_Complained = by_delivery ''complained'',
       st_Failed = by_status ''failed'', st_Pending = by_status ''pending'' \<rparr>)"

section \<open>Reports of providers\<close>

text \<open>
  The routes that receive these reports are not mounted; the handlers exist. JSON is decoded by the
  library: a report is given as its fields.
\<close>

record sendGridEvent =
  sg_Email :: string
  sg_Event :: string
  sg_Type :: string
  sg_SGMessageID :: string
  sg_Timestamp :: int

record sesEvent =
  ses_NotificationType :: string
  ses_MessageID :: string
  ses_BounceType :: string
  ses_BouncedRecipients :: "string list"
  ses_ComplainedRecipients :: "string list"

definition mapSendGridEvent :: "sendGridEvent \<Rightarrow> string \<times> string" where
  "mapSendGridEvent e =
    (if sg_Event e = ''delivered'' then (''delivered'', [])
     else if sg_Event e = ''open'' then (''opened'', [])
     else if sg_Event e = ''click'' then (''clicked'', [])
     else if sg_Event e = ''bounce'' then (''bounced'', ''hard'')
     else if sg_Event e = ''blocked'' then (''bounced'', ''soft'')
     else if sg_Event e = ''dropped'' then (''bounced'', ''hard'')
     else if sg_Event e = ''spamreport'' then (''complained'', [])
     else ([], []))"

definition mapSESEvent :: "sesEvent \<Rightarrow> string \<times> string \<times> string list" where
  "mapSESEvent ses =
    (if ses_NotificationType ses = ''Delivery'' then (''delivered'', [], [])
     else if ses_NotificationType ses = ''Bounce''
     then (''bounced'', if ses_BounceType ses = ''Permanent'' then ''hard'' else ''soft'', filter (\<lambda>r. r \<noteq> []) (ses_BouncedRecipients ses))
     else if ses_NotificationType ses = ''Complaint'' then (''complained'', [], filter (\<lambda>r. r \<noteq> []) (ses_ComplainedRecipients ses))
     else ([], [], []))"

definition suppressOnFailure ::
  "'x runtime_scheme \<Rightarrow> bool \<Rightarrow> known \<Rightarrow> id \<Rightarrow> time \<Rightarrow> string \<Rightarrow> string \<Rightarrow> string \<Rightarrow> ndb \<Rightarrow> ndb" where
  "suppressOnFailure rt suppressor k i now eventType bounceType email d =
    (if \<not> suppressor \<or> email = [] then d
     else if eventType = ''bounced'' \<and> bounceType = ''hard'' then fst (Suppress rt k i now email [] ''bounce'' d)
     else if eventType = ''complained'' then fst (Suppress rt k i now email [] ''complaint'' d)
     else d)"

definition try_delivery :: "string \<Rightarrow> DeliveryEvent \<Rightarrow> ndb \<Rightarrow> ndb" where
  "try_delivery messageID ev d = (if messageID = [] then d else case ProcessDeliveryEvent ev d of Inl _ \<Rightarrow> d | Inr d' \<Rightarrow> d')"

fun sendgrid_loop :: "'x runtime_scheme \<Rightarrow> bool \<Rightarrow> known \<Rightarrow> (nat \<Rightarrow> id) \<Rightarrow> (nat \<Rightarrow> time) \<Rightarrow> nat \<Rightarrow> sendGridEvent list \<Rightarrow> ndb \<Rightarrow> ndb" where
  "sendgrid_loop rt suppressor k uuid clk i [] d = d"
| "sendgrid_loop rt suppressor k uuid clk i (e # es) d =
    (let (eventType, bounceType) = mapSendGridEvent e in
     sendgrid_loop rt suppressor k uuid clk (Suc i) es
       (if eventType = [] then d
        else suppressOnFailure rt suppressor k (uuid i) (clk i) eventType bounceType (sg_Email e)
          (try_delivery (sg_SGMessageID e) \<lparr> de_MessageID = sg_SGMessageID e, de_EventType = eventType,
             de_Timestamp = (if 0 < sg_Timestamp e then sg_Timestamp e * second else clk i), de_BounceType = bounceType \<rparr> d)))"

definition handleSendGridWebhook ::
  "'x runtime_scheme \<Rightarrow> bool \<Rightarrow> known \<Rightarrow> (nat \<Rightarrow> id) \<Rightarrow> (nat \<Rightarrow> time) \<Rightarrow> sendGridEvent list decoded \<Rightarrow> ndb \<Rightarrow> ndb \<times> nat" where
  "handleSendGridWebhook rt suppressor k uuid clk body d = (case body of
      Decoded events \<Rightarrow> (sendgrid_loop rt suppressor k uuid clk 0 events d, 200)
    | _ \<Rightarrow> (d, 400))"

fun suppress_all ::
  "'x runtime_scheme \<Rightarrow> bool \<Rightarrow> known \<Rightarrow> (nat \<Rightarrow> id) \<Rightarrow> time \<Rightarrow> nat \<Rightarrow> string \<Rightarrow> string \<Rightarrow> string list \<Rightarrow> ndb \<Rightarrow> ndb" where
  "suppress_all rt suppressor k uuid now i eventType bounceType [] d = d"
| "suppress_all rt suppressor k uuid now i eventType bounceType (email # emails) d =
    suppress_all rt suppressor k uuid now (Suc i) eventType bounceType emails
      (suppressOnFailure rt suppressor k (uuid i) now eventType bounceType email d)"

text \<open>The envelope decodes to the message of SES, which is decoded in turn.\<close>

definition handleSESWebhook ::
  "'x runtime_scheme \<Rightarrow> bool \<Rightarrow> known \<Rightarrow> (nat \<Rightarrow> id) \<Rightarrow> time \<Rightarrow> sesEvent option decoded \<Rightarrow> ndb \<Rightarrow> ndb \<times> nat" where
  "handleSESWebhook rt suppressor k uuid now body d = (case body of
      Decoded (Some ses) \<Rightarrow>
       (let (eventType, bounceType, recipients) = mapSESEvent ses in
        if eventType = [] then (d, 200)
        else (suppress_all rt suppressor k uuid now 0 eventType bounceType recipients
          (try_delivery (ses_MessageID ses) \<lparr> de_MessageID = ses_MessageID ses, de_EventType = eventType, de_Timestamp = now, de_BounceType = bounceType \<rparr> d), 200))
    | _ \<Rightarrow> (d, 400))"

section \<open>Routes of organizers\<close>

datatype nt_response = NtStats EmailStats | NtLog "LogEntry list" | NtError nat string

definition notif_owner :: "id option \<Rightarrow> id \<Rightarrow> idb \<Rightarrow> nt_response option" where
  "notif_owner organizer eventID e = (case organizer of
      None \<Rightarrow> Some (NtError 401 ''unauthorized'')
    | Some u \<Rightarrow> (case checkEventOwner eventID u e of Inl _ \<Rightarrow> Some (NtError 404 ''event not found'') | Inr _ \<Rightarrow> None))"

definition handleGetStats :: "id option \<Rightarrow> id \<Rightarrow> idb \<Rightarrow> ndb \<Rightarrow> nt_response" where
  "handleGetStats organizer eventID e d = (case notif_owner organizer eventID e of Some r \<Rightarrow> r | None \<Rightarrow> NtStats (GetEmailStats eventID d))"

definition handleGetLog :: "id option \<Rightarrow> id \<Rightarrow> idb \<Rightarrow> ndb \<Rightarrow> nt_response" where
  "handleGetLog organizer eventID e d = (case notif_owner organizer eventID e of Some r \<Rightarrow> r | None \<Rightarrow> NtLog (GetLogsByEvent eventID d))"

end
