(* ===== verification/Calendar_Reader.thy ===== *)
theory Calendar_Reader
  imports Calendar "HOL-Library.Sublist"
begin

text \<open>
  A reader of calendar files after RFC 5545 and what it makes of the generated ones: continuation lines
  are joined, lines end at CRLF, and values of type TEXT are unescaped.
\<close>

section \<open>The reader\<close>

fun unfold :: "string \<Rightarrow> string" where
  "unfold (a # b # c # s) = (if a = cr \<and> b = lf \<and> c = CHR '' '' then unfold s else a # unfold (b # c # s))"
| "unfold s = s"

fun next_line :: "string \<Rightarrow> string \<times> string" where
  "next_line (a # b # s) = (if a = cr \<and> b = lf then ([], s) else let (l, r) = next_line (b # s) in (a # l, r))"
| "next_line s = (s, [])"

lemma next_line_shorter: "length (snd (next_line (a # s))) < Suc (length s)"
proof (induction s arbitrary: a)
  case (Cons b s)
  show ?case using Cons.IH [of b] by (simp add: case_prod_beta Let_def less_SucI)
qed simp

function physical_lines :: "string \<Rightarrow> string list" where
  "physical_lines s = (if s = [] then [] else fst (next_line s) # physical_lines (snd (next_line s)))"
  by pat_completeness auto
termination
proof (relation "measure length")
  fix s :: string
  assume "s \<noteq> []"
  then show "(snd (next_line s), s) \<in> measure length" using next_line_shorter by (cases s) auto
qed simp

declare physical_lines.simps [simp del]

definition read_lines :: "string \<Rightarrow> string list" where
  "read_lines s = physical_lines (unfold s)"

text \<open>The values of a property, given with its delimiter.\<close>

definition values_of :: "string \<Rightarrow> string list \<Rightarrow> string list" where
  "values_of name ls = map (drop (length name)) (filter (prefix name) ls)"

fun unescapeText :: "string \<Rightarrow> string" where
  "unescapeText (a # b # s) =
    (if a = backslash then (if b = CHR ''n'' \<or> b = CHR ''N'' then lf else b) # unescapeText s else a # unescapeText (b # s))"
| "unescapeText s = s"

section \<open>Escaping\<close>

definition ics_byte :: "char \<Rightarrow> string" where
  "ics_byte c =
    (if c = backslash \<or> c = CHR '';'' \<or> c = CHR '','' then [backslash, c] else if c = lf then [backslash, CHR ''n''] else if c = cr then [] else [c])"

lemma replace_byte_simps [simp]:
  "replace_byte c r [] = []" "replace_byte c r (x # s) = (if x = c then r else [x]) @ replace_byte c r s"
  "replace_byte c r (s @ t) = replace_byte c r s @ replace_byte c r t"
  by (simp_all add: replace_byte_def)

lemma ics_bytewise: "escapeICSText s = concat (map ics_byte s)"
  by (induction s) (auto simp: escapeICSText_def ics_byte_def Let_def backslash_def lf_def cr_def)

lemma unescape_plain: "a \<noteq> backslash \<Longrightarrow> unescapeText (a # s) = a # unescapeText s"
  by (cases s) auto

lemma unescape_escape: "unescapeText (escapeICSText s) = filter (\<lambda>c. c \<noteq> cr) s"
proof -
  have "unescapeText (concat (map ics_byte s)) = filter (\<lambda>c. c \<noteq> cr) s"
    by (induction s) (auto simp: ics_byte_def unescape_plain backslash_def lf_def cr_def)
  then show ?thesis by (simp add: ics_bytewise)
qed

lemma escape_no_breaks: "cr \<notin> set (escapeICSText s) \<and> lf \<notin> set (escapeICSText s)"
  by (auto simp: ics_bytewise ics_byte_def backslash_def lf_def cr_def split: if_splits)

section \<open>Folding\<close>

lemma unfold_step: "a \<noteq> cr \<Longrightarrow> unfold (a # s) = a # unfold s"
  by (cases s rule: unfold.cases) auto

lemma unfold_text: "cr \<notin> set l \<Longrightarrow> unfold (l @ s) = l @ unfold s"
  by (induction l) (auto simp: unfold_step)

lemma unfold_continuation: "unfold (crlf @ CHR '' '' # s) = unfold s"
  by (simp add: crlf_def)

lemma unfold_break:
  assumes "s = [] \<or> hd s \<noteq> CHR '' ''"
  shows "unfold (crlf @ s) = crlf @ unfold s"
proof (cases s)
  case (Cons c t)
  have "lf \<noteq> cr" by (simp add: lf_def cr_def)
  then show ?thesis using assms Cons by (simp add: crlf_def unfold_step)
qed (simp add: crlf_def)

lemma unfold_continuations:
  assumes "cr \<notin> set l" "l \<noteq> []"
  shows "unfold (crlf @ continuation_lines l @ s) = l @ unfold (crlf @ s)"
  using assms
proof (induction l rule: continuation_lines.induct)
  case (1 line)
  let ?n = "min (maxLineLen - 1) (length line)"
  have no: "cr \<notin> set (take ?n line)" "cr \<notin> set (drop ?n line)" using 1(2) by (auto dest: in_set_takeD in_set_dropD)
  have c: "continuation_lines line = '' '' @ take ?n line @ crlf @ continuation_lines (drop ?n line)"
    using 1(3) by (subst continuation_lines.simps) (simp add: Let_def)
  show ?case
  proof (cases "drop ?n line = []")
    case True
    then have "take ?n line = line" by simp
    moreover have "continuation_lines [] = []" by (simp add: continuation_lines.simps)
    ultimately show ?thesis using True 1(2) unfolding c by (simp add: unfold_continuation unfold_text)
  next
    case False
    then show ?thesis using 1(1) [OF 1(3) refl no(2)] no(1) unfolding c
      by (simp add: unfold_continuation unfold_text)
  qed
qed

lemma unfold_folded:
  assumes "cr \<notin> set l"
  shows "unfold (writeFoldedLine l @ s) = l @ unfold (crlf @ s)"
proof (cases "length l \<le> maxLineLen")
  case False
  have "cr \<notin> set (take maxLineLen l)" "cr \<notin> set (drop maxLineLen l)" using assms by (auto dest: in_set_takeD in_set_dropD)
  moreover have "drop maxLineLen l \<noteq> []" using False by simp
  ultimately show ?thesis using False unfold_continuations [of "drop maxLineLen l" s]
    by (simp add: writeFoldedLine_def unfold_text)
qed (simp add: writeFoldedLine_def unfold_text assms)

section \<open>Lines\<close>

lemma next_line_text: "cr \<notin> set l \<Longrightarrow> next_line (l @ crlf @ s) = (l, s)"
proof (induction l)
  case Nil
  then show ?case by (simp add: crlf_def)
next
  case (Cons a l)
  obtain b t where "l @ crlf @ s = b # t" by (cases l) (auto simp: crlf_def)
  then show ?case using Cons by auto
qed

lemma physical_line: "cr \<notin> set l \<Longrightarrow> physical_lines (l @ crlf @ s) = l # physical_lines s"
  by (subst physical_lines.simps) (simp add: next_line_text crlf_def [symmetric], simp add: crlf_def)

text \<open>A line of the file is given with the mark whether it is folded.\<close>

definition render_line :: "bool \<times> string \<Rightarrow> string" where
  "render_line = (\<lambda>(folded, l). if folded then writeFoldedLine l else l @ crlf)"

definition render :: "(bool \<times> string) list \<Rightarrow> string" where
  "render ls = concat (map render_line ls)"

text \<open>A line that neither breaks nor is taken for a continuation.\<close>

definition plain_line :: "string \<Rightarrow> bool" where
  "plain_line l \<longleftrightarrow> l \<noteq> [] \<and> hd l \<noteq> CHR '' '' \<and> cr \<notin> set l \<and> lf \<notin> set l"

lemma render_head:
  assumes "list_all (\<lambda>x. plain_line (snd x)) ls"
  shows "render ls = [] \<or> hd (render ls) \<noteq> CHR '' ''"
proof (cases ls)
  case (Cons x ls')
  then have "snd x \<noteq> []" "hd (snd x) \<noteq> CHR '' ''" using assms by (simp_all add: plain_line_def)
  then have "hd (render_line x @ t) = hd (snd x)" for t
    by (cases x) (auto simp: render_line_def writeFoldedLine_def hd_append maxLineLen_def)
  then show ?thesis using Cons \<open>hd (snd x) \<noteq> CHR '' ''\<close> by (simp add: render_def)
qed (simp add: render_def)

lemma read_render: "list_all (\<lambda>x. plain_line (snd x)) ls \<Longrightarrow> read_lines (render ls) = map snd ls"
proof (induction ls)
  case Nil
  then show ?case by (simp add: render_def read_lines_def physical_lines.simps)
next
  case (Cons x ls)
  obtain f l where x: "x = (f, l)" by fastforce
  have no: "cr \<notin> set l" using Cons.prems by (simp add: x plain_line_def)
  have "render (x # ls) = render_line x @ render ls" by (simp add: render_def)
  moreover have "unfold (render_line x @ render ls) = l @ unfold (crlf @ render ls)"
    using no by (simp add: x render_line_def unfold_folded unfold_text)
  moreover have "unfold (crlf @ render ls) = crlf @ unfold (render ls)"
    using Cons.prems by (intro unfold_break render_head) simp
  ultimately show ?case using Cons no by (simp add: read_lines_def physical_line x)
qed

lemma physical_folded:
  assumes "cr \<notin> set l"
  obtains ps where "\<And>s. physical_lines (writeFoldedLine l @ s) = ps @ physical_lines s" "\<forall>p \<in> set ps. length p \<le> maxLineLen"
proof -
  have more: "\<exists>ps. (\<forall>s. physical_lines (continuation_lines l @ s) = ps @ physical_lines s) \<and> (\<forall>p \<in> set ps. length p \<le> maxLineLen)"
    if "cr \<notin> set l" for l
    using that
  proof (induction l rule: continuation_lines.induct)
    case (1 line)
    let ?n = "min (maxLineLen - 1) (length line)"
    show ?case
    proof (cases "line = []")
      case True
      then show ?thesis by (intro exI [of _ "[]"]) (simp add: continuation_lines.simps)
    next
      case False
      have no: "cr \<notin> set ('' '' @ take ?n line)" "cr \<notin> set (drop ?n line)"
        using 1(2) by (auto simp: cr_def dest: in_set_takeD in_set_dropD)
      obtain ps where ps: "\<forall>s. physical_lines (continuation_lines (drop ?n line) @ s) = ps @ physical_lines s" "\<forall>p \<in> set ps. length p \<le> maxLineLen"
        using 1(1) [OF False refl no(2)] by blast
      have "continuation_lines line = ('' '' @ take ?n line) @ crlf @ continuation_lines (drop ?n line)"
        using False by (subst continuation_lines.simps) (simp add: Let_def)
      then have "physical_lines (continuation_lines line @ s) = ('' '' @ take ?n line) # ps @ physical_lines s" for s
        using physical_line [OF no(1)] ps(1) by (metis append.assoc)
      then show ?thesis using ps(2) by (intro exI [of _ "('' '' @ take ?n line) # ps"]) (auto simp: maxLineLen_def)
    qed
  qed
  show thesis
  proof (cases "length l \<le> maxLineLen")
    case True
    then show ?thesis using assms by (intro that [of "[l]"]) (simp_all add: writeFoldedLine_def physical_line)
  next
    case False
    have no: "cr \<notin> set (take maxLineLen l)" "cr \<notin> set (drop maxLineLen l)" using assms by (auto dest: in_set_takeD in_set_dropD)
    obtain ps where "\<forall>s. physical_lines (continuation_lines (drop maxLineLen l) @ s) = ps @ physical_lines s" "\<forall>p \<in> set ps. length p \<le> maxLineLen"
      using more [OF no(2)] by blast
    then show ?thesis using False no(1) by (intro that [of "take maxLineLen l # ps"]) (auto simp: writeFoldedLine_def physical_line)
  qed
qed

lemma physical_render:
  assumes "list_all (\<lambda>x. plain_line (snd x)) ls" "list_all (\<lambda>(f, l). f \<or> length l \<le> maxLineLen) ls"
  shows "\<forall>p \<in> set (physical_lines (render ls)). length p \<le> maxLineLen"
  using assms
proof (induction ls)
  case Nil
  then show ?case by (simp add: render_def physical_lines.simps)
next
  case (Cons x ls)
  obtain f l where x: "x = (f, l)" by fastforce
  have no: "cr \<notin> set l" using Cons.prems by (simp add: x plain_line_def)
  obtain ps where ps: "\<And>s. physical_lines (writeFoldedLine l @ s) = ps @ physical_lines s" "\<forall>p \<in> set ps. length p \<le> maxLineLen"
    using physical_folded [OF no] by blast
  have "render (x # ls) = render_line x @ render ls" by (simp add: render_def)
  then show ?case using Cons no ps by (cases f) (auto simp: x render_line_def physical_line)
qed

section \<open>The generated file\<close>

definition name_items :: "string \<Rightarrow> (bool \<times> string) list" where
  "name_items n = (if n = [] then [] else [(False, ''TZNAME:'' @ n)])"

definition zone_items :: "string \<Rightarrow> zone \<Rightarrow> time \<Rightarrow> (bool \<times> string) list" where
  "zone_items tz z t =
    (let (jo, jn) = z (date_in z (year_in z t) 1 1 12); (ko, kn) = z (date_in z (year_in z t) 7 1 12);
         (so, sn, do, dn) = (if jo < ko then (jo, jn, ko, kn) else (ko, kn, jo, jn)) in
     [(False, ''BEGIN:VTIMEZONE''), (False, ''TZID:'' @ tz)] @
     (if jo = ko
      then [(False, ''BEGIN:STANDARD''), (False, ''DTSTART:19700101T000000''), (False, ''TZOFFSETFROM:'' @ formatUTCOffset jo),
            (False, ''TZOFFSETTO:'' @ formatUTCOffset jo)] @ name_items jn @ [(False, ''END:STANDARD'')]
      else [(False, ''BEGIN:STANDARD''), (False, ''DTSTART:19701101T020000''), (False, ''RRULE:FREQ=YEARLY;BYDAY=1SU;BYMONTH=11''),
            (False, ''TZOFFSETFROM:'' @ formatUTCOffset do), (False, ''TZOFFSETTO:'' @ formatUTCOffset so)] @ name_items sn @
           [(False, ''END:STANDARD''), (False, ''BEGIN:DAYLIGHT''), (False, ''DTSTART:19700308T020000''), (False, ''RRULE:FREQ=YEARLY;BYDAY=2SU;BYMONTH=3''),
            (False, ''TZOFFSETFROM:'' @ formatUTCOffset so), (False, ''TZOFFSETTO:'' @ formatUTCOffset do)] @ name_items dn @ [(False, ''END:DAYLIGHT'')]) @
     [(False, ''END:VTIMEZONE'')])"

definition text_item :: "string \<Rightarrow> string \<Rightarrow> (bool \<times> string) list" where
  "text_item name v = (if v = [] then [] else [(True, name @ v)])"

definition ics_items :: "load_location \<Rightarrow> time \<Rightarrow> EventData \<Rightarrow> (bool \<times> string) list" where
  "ics_items load now e =
    (let (tz, z) = event_zone load e in
     [(False, ''BEGIN:VCALENDAR''), (False, ''VERSION:2.0''), (False, ''PRODID:'' @ legacyICSProductID), (False, ''CALSCALE:GREGORIAN''),
      (False, ''METHOD:PUBLISH'')] @ zone_items tz z (cd_EventDate e) @
     [(False, ''BEGIN:VEVENT''), (True, ''UID:'' @ cd_ID e @ legacyICSUIDSuffix), (True, ''DTSTAMP:'' @ format_utc now),
      (True, ''DTSTART;TZID='' @ tz @ '':'' @ format_local z (cd_EventDate e)), (True, ''DTEND;TZID='' @ tz @ '':'' @ format_local z (event_end e)),
      (True, ''SUMMARY:'' @ escapeICSText (cd_Title e))] @
     (if cd_Description e = [] then [] else [(True, ''DESCRIPTION:'' @ escapeICSText (cd_Description e))]) @
     (if cd_Location e = [] then [] else [(True, ''LOCATION:'' @ escapeICSText (cd_Location e))]) @
     text_item ''URL:'' (cd_URL e) @ [(False, ''STATUS:CONFIRMED''), (False, ''END:VEVENT''), (False, ''END:VCALENDAR'')])"

lemma render_simps [simp]:
  "render [] = []" "render ((False, l) # ls) = l @ crlf @ render ls" "render ((True, l) # ls) = writeFoldedLine l @ render ls"
  "render (ls @ ls') = render ls @ render ls'"
  by (simp_all add: render_def render_line_def)

lemma render_name: "render (name_items n) = tz_name n"
  by (simp add: name_items_def tz_name_def)

lemma render_zone: "render (zone_items tz z t) = generateVTIMEZONE tz z t"
  by (simp add: zone_items_def generateVTIMEZONE_def Let_def case_prod_beta render_name)

lemma generated_file: "GenerateICS load now e = render (ics_items load now e)"
  by (simp add: GenerateICS_def ics_items_def text_item_def render_zone case_prod_beta)

lemma breaks_not_digits: "\<not> is_digit cr" "\<not> is_digit lf" "cr \<noteq> CHR ''-''" "lf \<noteq> CHR ''-''"
  by (simp_all add: is_digit_def cr_def lf_def)

definition unbroken :: "string \<Rightarrow> bool" where
  "unbroken s \<longleftrightarrow> cr \<notin> set s \<and> lf \<notin> set s"

lemma unbroken_simps [simp]:
  "unbroken []" "unbroken (c # s) \<longleftrightarrow> c \<noteq> cr \<and> c \<noteq> lf \<and> unbroken s" "unbroken (s @ t) \<longleftrightarrow> unbroken s \<and> unbroken t"
  "unbroken (escapeICSText s)"
  using escape_no_breaks by (auto simp: unbroken_def)

lemma unbroken_itoa [simp]: "unbroken (itoa n)"
  using nat_digits_digits breaks_not_digits by (auto simp: unbroken_def itoa_def list_all_iff)

lemma unbroken_pad [simp]: "unbroken (pad w n)"
proof -
  have "unbroken (replicate k (CHR ''0''))" for k by (induction k) (simp_all add: cr_def lf_def)
  then show ?thesis by (simp add: pad_def)
qed

lemma unbroken_times [simp]: "unbroken (format_local z t)" "unbroken (format_utc t)" "unbroken (formatUTCOffset n)"
  by (simp_all add: format_utc_def format_local_def format_year_def formatUTCOffset_def Let_def case_prod_beta cr_def lf_def)

lemma plain_line_iff: "plain_line l \<longleftrightarrow> l \<noteq> [] \<and> hd l \<noteq> CHR '' '' \<and> unbroken l"
  by (auto simp: plain_line_def unbroken_def)

text \<open>What the time zone database is taken to give: short names without line breaks, offsets below a hundred hours.\<close>

definition sane_zone :: "string \<Rightarrow> zone \<Rightarrow> bool" where
  "sane_zone tz z \<longleftrightarrow> unbroken tz \<and> length tz \<le> 70 \<and> (\<forall>t. unbroken (snd (z t)) \<and> length (snd (z t)) \<le> 68 \<and> \<bar>fst (z t)\<bar> < 360000)"

lemma plain_zone:
  assumes "sane_zone tz z"
  shows "list_all (\<lambda>x. plain_line (snd x)) (zone_items tz z t)"
proof -
  have "list_all (\<lambda>x. plain_line (snd x)) (name_items (snd (z t')))" for t'
    using assms by (simp add: name_items_def plain_line_iff sane_zone_def cr_def lf_def)
  then show ?thesis using assms by (simp add: zone_items_def plain_line_iff sane_zone_def Let_def case_prod_beta cr_def lf_def)
qed

lemma pad_length: "0 \<le> n \<Longrightarrow> n < 100 \<Longrightarrow> length (pad 2 n) = 2"
proof -
  assume "0 \<le> n" "n < 100"
  then have "nat n div 10 < 10" by simp
  then show ?thesis using \<open>0 \<le> n\<close> \<open>n < 100\<close>
    by (cases "nat n < 10") (simp_all add: pad_def itoa_def nat_digits.simps [of "nat n"] nat_digits.simps [of "nat n div 10"])
qed

lemma offset_length:
  assumes "\<bar>n\<bar> < 360000"
  shows "length (formatUTCOffset n) = 5"
proof -
  have "0 \<le> \<bar>n\<bar> div 3600" "\<bar>n\<bar> div 3600 < 100" "0 \<le> \<bar>n\<bar> mod 3600 div 60" "\<bar>n\<bar> mod 3600 div 60 < 100"
    using assms by (simp_all add: pos_imp_zdiv_nonneg_iff div_less_iff_less_mult)
  then show ?thesis by (simp add: formatUTCOffset_def Let_def pad_length)
qed

lemma short_zone:
  assumes "sane_zone tz z"
  shows "list_all (\<lambda>(f, l). f \<or> length l \<le> maxLineLen) (zone_items tz z t)"
proof -
  have "list_all (\<lambda>(f, l). f \<or> length l \<le> maxLineLen) (name_items (snd (z t')))" for t'
    using assms by (simp add: name_items_def sane_zone_def maxLineLen_def)
  moreover have "length (formatUTCOffset (fst (z t'))) = 5" for t' using assms by (simp add: sane_zone_def offset_length)
  ultimately show ?thesis using assms by (simp add: zone_items_def sane_zone_def maxLineLen_def Let_def case_prod_beta)
qed

lemma values_of_simps [simp]:
  "values_of n [] = []" "values_of n (l # ls) = (if prefix n l then [drop (length n) l] else []) @ values_of n ls"
  "values_of n (ls @ ls') = values_of n ls @ values_of n ls'"
  by (simp_all add: values_of_def)

lemma zone_names: "list_all (\<lambda>x. hd (snd x) \<in> set ''BTRE'' \<or> prefix ''DT'' (snd x)) (zone_items tz z t)"
proof -
  have "list_all (\<lambda>x. hd (snd x) \<in> set ''BTRE'' \<or> prefix ''DT'' (snd x)) (name_items x)" for x by (simp add: name_items_def)
  then show ?thesis by (simp add: zone_items_def Let_def case_prod_beta)
qed

lemma zone_values:
  assumes "n \<noteq> []" "hd n \<notin> set ''BTRE''" "\<not> prefix ''DT'' n" "2 \<le> length n"
  shows "values_of n (map snd (zone_items tz z t)) = []"
proof -
  have "\<not> prefix n (snd x)" if "x \<in> set (zone_items tz z t)" for x
  proof
    assume p: "prefix n (snd x)"
    then have "hd (snd x) = hd n" using assms(1) by (auto simp: prefix_def)
    then have "prefix ''DT'' (snd x)" using zone_names [of tz z t] that assms(2) unfolding list_all_iff by auto
    then show False using p assms(3,4) prefix_length_prefix by fastforce
  qed
  then show ?thesis by (auto simp: values_of_def filter_empty_conv)
qed

lemma zone_begins: "filter (\<lambda>l. l = ''BEGIN:VEVENT'') (map snd (zone_items tz z t)) = []"
proof -
  have "list_all (\<lambda>x. snd x \<noteq> ''BEGIN:VEVENT'') (name_items x)" for x by (simp add: name_items_def)
  then have "list_all (\<lambda>x. snd x \<noteq> ''BEGIN:VEVENT'') (zone_items tz z t)" by (simp add: zone_items_def Let_def case_prod_beta)
  then show ?thesis by (auto simp: list_all_iff filter_empty_conv)
qed

text \<open>
  C30: the text of an event survives the calendar file, and cannot add anything to it. A reader
  of the generated file finds one event with exactly one identifier and summary, and a description, a location and
  a link when the event has them; unescaped, they are the texts of the event without carriage returns,
  whatever line breaks, separators, backslashes and long lines they have. No line of the file is longer
  than 75 octets. Identifier and link have no line breaks, and the time zone has short names.
\<close>

theorem calendar_file_readable:
  assumes "unbroken (cd_ID e)" "unbroken (cd_URL e)" "event_zone load e = (tz, z)" "sane_zone tz z"
  shows "(\<forall>p \<in> set (physical_lines (GenerateICS load now e)). length p \<le> 75) \<and>
    (let ls = read_lines (GenerateICS load now e); shown = filter (\<lambda>c. c \<noteq> cr) in
     filter (\<lambda>l. l = ''BEGIN:VEVENT'') ls = [''BEGIN:VEVENT''] \<and>
     values_of ''UID:'' ls = [cd_ID e @ ''@openrsvp''] \<and>
     map unescapeText (values_of ''SUMMARY:'' ls) = [shown (cd_Title e)] \<and>
     map unescapeText (values_of ''DESCRIPTION:'' ls) = (if cd_Description e = [] then [] else [shown (cd_Description e)]) \<and>
     map unescapeText (values_of ''LOCATION:'' ls) = (if cd_Location e = [] then [] else [shown (cd_Location e)]) \<and>
     values_of ''URL:'' ls = (if cd_URL e = [] then [] else [cd_URL e]))"
proof -
  have plain: "list_all (\<lambda>x. plain_line (snd x)) (ics_items load now e)"
    using assms plain_zone [OF assms(4)]
    by (simp add: ics_items_def text_item_def plain_line_iff sane_zone_def legacyICSProductID_def legacyICSUIDSuffix_def cr_def lf_def)
  have short: "list_all (\<lambda>(f, l). f \<or> length l \<le> maxLineLen) (ics_items load now e)"
    using assms(3) short_zone [OF assms(4)]
    by (simp add: ics_items_def text_item_def legacyICSProductID_def) (simp add: maxLineLen_def)
  have "\<forall>p \<in> set (physical_lines (GenerateICS load now e)). length p \<le> 75"
    using physical_render [OF plain short] by (simp add: generated_file maxLineLen_def)
  moreover have "read_lines (GenerateICS load now e) = map snd (ics_items load now e)"
    using read_render [OF plain] by (simp add: generated_file)
  ultimately show ?thesis using assms(3)
    by (simp add: ics_items_def text_item_def zone_values zone_begins unescape_escape legacyICSProductID_def legacyICSUIDSuffix_def)
qed

end
