(* ===== verification/Instance_Admin.thy ===== *)
theory Instance_Admin
  imports Event_Handler User_Admin
begin

text \<open>
  The instance record with its one-time setup (\<open>internal/instanceconfig\<close>), and the recovery of events
  by administrators (\<open>internal/eventadmin\<close>).
\<close>

section \<open>The instance record\<close>

record Instance =
  in_ID :: string
  in_Name :: string
  in_DefaultTimezone :: string
  in_AllowSignups :: bool
  in_SupportEmail :: string
  in_SetupCompletedAt :: "time option"
  in_CreatedAt :: time
  in_UpdatedAt :: time

record Settings =
  sg_InstanceName :: string
  sg_DefaultTimezone :: string
  sg_AllowSignups :: bool
  sg_SupportEmail :: string
  sg_Configured :: bool

record PublicConfig =
  pc_InstanceName :: string
  pc_DefaultTimezone :: string
  pc_AllowSignups :: bool
  pc_SupportEmail :: string

record BootstrapRequest =
  br_BootstrapToken :: string
  br_AdminEmail :: string
  br_AdminName :: string
  br_InstanceName :: string
  br_DefaultTimezone :: string
  br_AllowSignups :: bool
  br_SupportEmail :: string

text \<open>The table of instances beside the tables of accounts and events.\<close>

record inst_db =
  ib_instances :: "Instance list"
  ib_ids :: idb

datatype inst_error = ErrBootstrapUnauthorized | ErrSetupComplete | InstInternal id_error

definition inst_lift :: "'a id_result \<Rightarrow> inst_error + 'a" where
  "inst_lift r = (case r of Inl e \<Rightarrow> Inl (InstInternal e) | Inr x \<Rightarrow> Inr x)"

definition singletonInstanceID :: string where "singletonInstanceID = ''default''"

definition GetInstance :: "inst_db \<Rightarrow> Instance id_result" where
  "GetInstance st = or_err (select_row (\<lambda>i. in_ID i = singletonInstanceID) (ib_instances st)) (IdInternal ''scan instance'')"

definition IsConfigured :: "inst_db \<Rightarrow> bool id_result" where
  "IsConfigured st = rbind (GetInstance st) (\<lambda>i. Inr (in_SetupCompletedAt i \<noteq> None))"

definition boolToString :: "bool \<Rightarrow> string" where
  "boolToString b = (if b then ''true'' else ''false'')"

definition GetAll :: "inst_db \<Rightarrow> (string \<rightharpoonup> string) id_result" where
  "GetAll st = rbind (GetInstance st) (\<lambda>i. Inr [''instance_name'' \<mapsto> in_Name i, ''default_timezone'' \<mapsto> in_DefaultTimezone i,
     ''allow_signups'' \<mapsto> boolToString (in_AllowSignups i), ''support_email'' \<mapsto> in_SupportEmail i,
     ''configured'' \<mapsto> boolToString (in_SetupCompletedAt i \<noteq> None)])"

definition UpdateSettings :: "time \<Rightarrow> Settings \<Rightarrow> inst_db \<Rightarrow> inst_db" where
  "UpdateSettings now s st = st\<lparr>ib_instances := update_where (\<lambda>i. in_ID i = singletonInstanceID)
     (\<lambda>i. i\<lparr>in_Name := sg_InstanceName s, in_DefaultTimezone := sg_DefaultTimezone s, in_AllowSignups := sg_AllowSignups s,
        in_SupportEmail := sg_SupportEmail s, in_UpdatedAt := trunc_sec now\<rparr>) (ib_instances st)\<rparr>"

text \<open>The condition of the claiming statement: not set up, and no active administrator.\<close>

definition claimable :: "inst_db \<Rightarrow> Instance \<Rightarrow> bool" where
  "claimable st i \<longleftrightarrow> in_ID i = singletonInstanceID \<and> in_SetupCompletedAt i = None \<and> \<not> list_ex active_admin (id_users (ib_ids st))"

definition ClaimBootstrapTx :: "time \<Rightarrow> BootstrapRequest \<Rightarrow> inst_db \<Rightarrow> inst_db \<times> bool" where
  "ClaimBootstrapTx now req st =
    (st\<lparr>ib_instances := update_where (claimable st)
       (\<lambda>i. i\<lparr>in_Name := br_InstanceName req, in_DefaultTimezone := br_DefaultTimezone req, in_AllowSignups := br_AllowSignups req,
          in_SupportEmail := br_SupportEmail req, in_SetupCompletedAt := Some (trunc_sec now), in_UpdatedAt := trunc_sec now\<rparr>) (ib_instances st)\<rparr>,
     affected (claimable st) (ib_instances st) = 1)"

definition AuditTx ::
  "id \<Rightarrow> id option \<Rightarrow> string \<Rightarrow> string \<Rightarrow> id option \<Rightarrow> id option \<Rightarrow> (string \<times> string) list \<Rightarrow> time \<Rightarrow> idb \<Rightarrow> idb id_result" where
  "AuditTx aid actorID kind action target event metadata now d =
    rbind (guard (case event of None \<Rightarrow> True | Some e \<Rightarrow> e \<in> known_events d) (IdInternal ''insert admin audit'')) (\<lambda>_.
    or_err (insert_audit \<lparr> ae_ID = aid, ae_ActorUserID = actorID, ae_ActorKind = kind, ae_Action = action, ae_TargetUserID = target,
      ae_EventID = event, ae_Metadata = metadata, ae_CreatedAt = trunc_sec now \<rparr> d) (IdInternal ''insert admin audit''))"

section \<open>Settings\<close>

definition GetSettings :: "inst_db \<Rightarrow> Settings id_result" where
  "GetSettings st = rbind (GetInstance st) (\<lambda>i. Inr \<lparr> sg_InstanceName = in_Name i, sg_DefaultTimezone = in_DefaultTimezone i,
     sg_AllowSignups = in_AllowSignups i, sg_SupportEmail = in_SupportEmail i, sg_Configured = in_SetupCompletedAt i \<noteq> None \<rparr>)"

definition SaveSettings :: "time \<Rightarrow> Settings \<Rightarrow> inst_db \<Rightarrow> inst_db" where
  "SaveSettings now s st = UpdateSettings now s st"

definition GetPublicConfig :: "inst_db \<Rightarrow> PublicConfig id_result" where
  "GetPublicConfig st = rbind (GetInstance st) (\<lambda>i. Inr \<lparr> pc_InstanceName = in_Name i, pc_DefaultTimezone = in_DefaultTimezone i,
     pc_AllowSignups = in_AllowSignups i, pc_SupportEmail = in_SupportEmail i \<rparr>)"

section \<open>Setup\<close>

record bootstrap_service =
  bs_cfg :: config
  bs_BootstrapToken :: string

text \<open>The hashes of the two tokens are compared.\<close>

definition constantTimeTokenEqual :: "'x runtime_scheme \<Rightarrow> string \<Rightarrow> string \<Rightarrow> bool" where
  "constantTimeTokenEqual rt provided expected \<longleftrightarrow> rt_sha256 rt provided = rt_sha256 rt expected"

definition newToken :: "'x runtime_scheme \<Rightarrow> string option \<Rightarrow> (string \<times> string) option" where
  "newToken rt rand = map_option (\<lambda>b. (hex_encode b, hex_encode (rt_sha256 rt (hex_encode b)))) rand"

definition first_admin ::
  "'x runtime_scheme \<Rightarrow> id \<Rightarrow> time \<Rightarrow> time \<Rightarrow> BootstrapRequest \<Rightarrow> idb \<Rightarrow> (idb \<times> User) id_result" where
  "first_admin rt uid created now req d =
    (let email = to_lower rt (trim_space (br_AdminEmail req)) in
     case FindOrganizerByEmail rt email d of
       None \<Rightarrow> createUser rt uid created email (br_AdminName req) (br_DefaultTimezone req) InstanceRoleAdmin UserStatusActive None d
     | Some u \<Rightarrow> PromoteBootstrapAdminTx (u_ID u) (br_AdminName req) (br_DefaultTimezone req) now d)"

text \<open>The token of the session and the administrator are returned.\<close>

definition Bootstrap ::
  "'x runtime_scheme \<Rightarrow> bootstrap_service \<Rightarrow> (nat \<Rightarrow> time) \<Rightarrow> (nat \<Rightarrow> id) \<Rightarrow> string option \<Rightarrow> BootstrapRequest \<Rightarrow> inst_db \<Rightarrow>
   inst_error + (inst_db \<times> string \<times> User)" where
  "Bootstrap rt s clk uuid rand req st =
    rbind (guard (constantTimeTokenEqual rt (br_BootstrapToken req) (bs_BootstrapToken s) \<and> bs_BootstrapToken s \<noteq> []) ErrBootstrapUnauthorized) (\<lambda>_.
    let now = clk 0; (st, claimed) = ClaimBootstrapTx now req st in
    rbind (guard claimed ErrSetupComplete) (\<lambda>_.
    rbind (inst_lift (first_admin rt (uuid 0) (clk 1) now req (ib_ids st))) (\<lambda>(d, user).
    rbind (or_err (newToken rt rand) (InstInternal (IdInternal ''generate bootstrap session''))) (\<lambda>(rawSession, sessionHash).
    rbind (inst_lift (createSession (uuid 1) (clk 2) sessionHash (u_ID user) (now + cfg_SessionExpiry (bs_cfg s)) d)) (\<lambda>d.
    rbind (inst_lift (TouchLastLoginTx (u_ID user) now d)) (\<lambda>d.
    rbind (inst_lift (AuditTx (uuid 2) (Some (u_ID user)) ''user'' ''bootstrap_completed'' (Some (u_ID user)) None
             [(''instanceRole'', InstanceRoleAdmin)] now d)) (\<lambda>d.
    Inr (st\<lparr>ib_ids := d\<rparr>, rawSession, user\<lparr>u_LastLoginAt := Some now\<rparr>))))))))"

section \<open>Routes of the setup\<close>

record saveConfigRequest =
  sc_InstanceName :: string
  sc_DefaultTimezone :: string
  sc_AllowSignups :: bool
  sc_SupportEmail :: string

text \<open>The cookies are given by the session token and whether they are marked secure.\<close>

datatype inst_response =
    InStatus bool
  | InCreated User string bool int \<comment> \<open>user, session cookie, secure, max age\<close>
  | InSettings Settings
  | InError nat string string

definition in_internal :: "string \<Rightarrow> inst_response" where
  "in_internal ref = InError 500 ''internal_error'' (''an internal error occurred (ref: '' @ ref @ '')'')"

definition handleStatus :: "string \<Rightarrow> inst_db \<Rightarrow> inst_response" where
  "handleStatus ref st = (case IsConfigured st of Inl _ \<Rightarrow> in_internal ref | Inr c \<Rightarrow> InStatus c)"

definition trimBootstrapRequest :: "'x runtime_scheme \<Rightarrow> BootstrapRequest \<Rightarrow> BootstrapRequest" where
  "trimBootstrapRequest rt req = req\<lparr>br_AdminEmail := to_lower rt (trim_space (br_AdminEmail req)), br_AdminName := trim_space (br_AdminName req),
     br_InstanceName := trim_space (br_InstanceName req), br_DefaultTimezone := trim_space (br_DefaultTimezone req),
     br_SupportEmail := trim_space (br_SupportEmail req)\<rparr>"

text \<open>\<open>addr\<close> gives the address of \<open>mail.ParseAddress\<close>.\<close>

definition validateBootstrapRequest :: "(string \<rightharpoonup> string) \<Rightarrow> BootstrapRequest \<Rightarrow> string" where
  "validateBootstrapRequest addr req =
    (if br_BootstrapToken req = [] then ''bootstrapToken is required''
     else if addr (br_AdminEmail req) \<noteq> Some (br_AdminEmail req) \<or> 320 < length (br_AdminEmail req) then ''adminEmail must be a valid email address''
     else if br_AdminName req = [] \<or> 200 < length (br_AdminName req) then ''adminName is required and must be 200 characters or fewer''
     else if br_InstanceName req = [] \<or> 200 < length (br_InstanceName req) then ''instanceName is required and must be 200 characters or fewer''
     else if br_DefaultTimezone req = [] \<or> 100 < length (br_DefaultTimezone req)
     then ''defaultTimezone is required and must be 100 characters or fewer''
     else if 320 < length (br_SupportEmail req) then ''supportEmail must be 320 characters or fewer''
     else if br_SupportEmail req \<noteq> [] \<and> addr (br_SupportEmail req) \<noteq> Some (br_SupportEmail req) then ''supportEmail must be a valid email address''
     else [])"

definition handleBootstrap ::
  "'x runtime_scheme \<Rightarrow> bootstrap_service \<Rightarrow> (string \<rightharpoonup> string) \<Rightarrow> (nat \<Rightarrow> time) \<Rightarrow> (nat \<Rightarrow> id) \<Rightarrow> string option \<Rightarrow> string \<Rightarrow>
   BootstrapRequest json_body \<Rightarrow> inst_db \<Rightarrow> inst_db \<times> inst_response" where
  "handleBootstrap rt s addr clk uuid rand ref body st = (case IsConfigured st of
      Inl _ \<Rightarrow> (st, in_internal ref)
    | Inr True \<Rightarrow> (st, InError 404 ''not_found'' ''not found'')
    | Inr False \<Rightarrow> (case DecodeJSON body of
         Inl _ \<Rightarrow> (st, InError 400 ''bad_request'' ''invalid JSON body'')
       | Inr raw \<Rightarrow>
          (let req = trimBootstrapRequest rt raw; msg = validateBootstrapRequest addr req in
           if msg \<noteq> [] then (st, InError 400 ''bad_request'' msg)
           else case Bootstrap rt s clk uuid rand req st of
             Inl ErrBootstrapUnauthorized \<Rightarrow> (st, InError 401 ''bootstrap_unauthorized'' ''bootstrap authorization failed'')
           | Inl ErrSetupComplete \<Rightarrow> (st, InError 404 ''not_found'' ''not found'')
           | Inl (InstInternal _) \<Rightarrow> (st, in_internal ref)
           | Inr (st', token, user) \<Rightarrow>
              (st', InCreated user token (\<not> cfg_development (bs_cfg s)) (cfg_SessionExpiry (bs_cfg s) div second)))))"

definition handleGetConfig :: "string \<Rightarrow> inst_db \<Rightarrow> inst_response" where
  "handleGetConfig ref st = (case GetSettings st of Inl _ \<Rightarrow> in_internal ref | Inr s \<Rightarrow> InSettings s)"

definition config_problem :: "saveConfigRequest \<Rightarrow> string" where
  "config_problem req =
    (if sc_InstanceName req = [] then ''instanceName is required''
     else if 200 < length (sc_InstanceName req) then ''instanceName must be 200 characters or fewer''
     else if sc_DefaultTimezone req = [] then ''defaultTimezone is required''
     else if 100 < length (sc_DefaultTimezone req) then ''defaultTimezone must be 100 characters or fewer''
     else if 320 < length (sc_SupportEmail req) then ''supportEmail must be 320 characters or fewer''
     else [])"

definition handleSaveConfig :: "time \<Rightarrow> string \<Rightarrow> saveConfigRequest json_body \<Rightarrow> inst_db \<Rightarrow> inst_db \<times> inst_response" where
  "handleSaveConfig now ref body st = (case DecodeJSON body of
      Inl _ \<Rightarrow> (st, InError 400 ''bad_request'' ''invalid JSON body'')
    | Inr raw \<Rightarrow>
       (let req = raw\<lparr>sc_InstanceName := trim_space (sc_InstanceName raw), sc_DefaultTimezone := trim_space (sc_DefaultTimezone raw),
              sc_SupportEmail := trim_space (sc_SupportEmail raw)\<rparr>;
            settings = \<lparr> sg_InstanceName = sc_InstanceName req, sg_DefaultTimezone = sc_DefaultTimezone req,
              sg_AllowSignups = sc_AllowSignups req, sg_SupportEmail = sc_SupportEmail req, sg_Configured = False \<rparr> in
        if config_problem req \<noteq> [] then (st, InError 400 ''bad_request'' (config_problem req))
        else let st' = SaveSettings now settings st in
          case IsConfigured st' of
            Inl _ \<Rightarrow> (st', in_internal ref)
          | Inr c \<Rightarrow> (st', InSettings (settings\<lparr>sg_Configured := c\<rparr>))))"

section \<open>Recovery of events by administrators\<close>

datatype ea_error = ErrEventNotFound | ErrEligibleUserNotFound | ErrEaForbidden | EaInternal id_error

definition ea_lift :: "'a id_result \<Rightarrow> ea_error + 'a" where
  "ea_lift r = (case r of Inl e \<Rightarrow> Inl (EaInternal e) | Inr x \<Rightarrow> Inr x)"

text \<open>The lock writes back what the row of the event holds.\<close>

definition beginAuthorized :: "User option \<Rightarrow> id \<Rightarrow> idb \<Rightarrow> ea_error + User" where
  "beginAuthorized actor eventID d = (case actor of
      None \<Rightarrow> Inl ErrEaForbidden
    | Some a \<Rightarrow>
       if affected (\<lambda>e. e_ID e = eventID) (id_events d) \<noteq> 1 then Inl ErrEventNotFound
       else case FindOrganizerByID (u_ID a) d of
         None \<Rightarrow> Inl ErrEaForbidden
       | Some p \<Rightarrow> if \<not> IsAdmin p \<or> u_Status p \<noteq> UserStatusActive then Inl ErrEaForbidden else Inr p)"

definition member_of :: "id \<Rightarrow> id \<Rightarrow> membership_row \<Rightarrow> bool" where
  "member_of eventID userID m \<longleftrightarrow> mb_event_id m = eventID \<and> mb_user_id m = userID"

definition granted_row :: "id \<Rightarrow> id \<Rightarrow> id \<Rightarrow> string \<Rightarrow> id \<Rightarrow> time \<Rightarrow> membership_row" where
  "granted_row mid eventID userID role granter now = \<lparr> mb_id = mid, mb_event_id = eventID, mb_user_id = userID, mb_role = role,
     mb_granted_by_user_id = granter, mb_created_at = trunc_sec now, mb_updated_at = trunc_sec now \<rparr>"

definition AddSelf :: "(nat \<Rightarrow> id) \<Rightarrow> time \<Rightarrow> User option \<Rightarrow> id \<Rightarrow> idb \<Rightarrow> ea_error + idb" where
  "AddSelf uuid now actor eventID d =
    rbind (beginAuthorized actor eventID d) (\<lambda>p.
    case select_row (member_of eventID (u_ID p)) (id_memberships d) of
      Some _ \<Rightarrow> Inr d
    | None \<Rightarrow>
       rbind (or_err (insert_membership (granted_row (uuid 0) eventID (u_ID p) ''cohost'' (u_ID p) now) d)
         (EaInternal (IdInternal ''add administrator event membership''))) (\<lambda>d.
       ea_lift (AuditTx (uuid 1) (Some (u_ID p)) ''user'' ''administrator_joined_event'' (Some (u_ID p)) (Some eventID) [(''role'', ''cohost'')] now d)))"

text \<open>A change of roles; the index on owners refuses a second owner of an event.\<close>

definition set_role :: "(membership_row \<Rightarrow> bool) \<Rightarrow> string \<Rightarrow> id \<Rightarrow> time \<Rightarrow> idb \<Rightarrow> idb id_result" where
  "set_role p role granter now d =
    (let ms = update_where p (\<lambda>m. m\<lparr>mb_role := role, mb_granted_by_user_id := granter, mb_updated_at := trunc_sec now\<rparr>) (id_memberships d) in
     if distinct (map mb_event_id (filter (\<lambda>m. mb_role m = ''owner'') ms)) then Inr (d\<lparr>id_memberships := ms\<rparr>)
     else Inl (IdInternal ''update event membership''))"

definition TransferOwnership :: "(nat \<Rightarrow> id) \<Rightarrow> time \<Rightarrow> User option \<Rightarrow> id \<Rightarrow> id \<Rightarrow> idb \<Rightarrow> ea_error + idb" where
  "TransferOwnership uuid now actor eventID newOwner d =
    rbind (beginAuthorized actor eventID d) (\<lambda>p.
    rbind (or_err (FindOrganizerByID newOwner d) ErrEligibleUserNotFound) (\<lambda>u.
    rbind (guard (u_Status u = UserStatusActive) ErrEligibleUserNotFound) (\<lambda>_.
    rbind (or_err (select_row (is_owner_row eventID) (id_memberships d)) ErrEventNotFound) (\<lambda>m.
    let oldOwner = mb_user_id m in
    if oldOwner = newOwner then Inr d
    else
      rbind (ea_lift (set_role (\<lambda>x. member_of eventID oldOwner x \<and> mb_role x = ''owner'') ''cohost'' (u_ID p) now d)) (\<lambda>d.
      rbind (ea_lift (set_role (member_of eventID newOwner) ''owner'' (u_ID p) now d)) (\<lambda>d'.
      rbind (if affected (member_of eventID newOwner) (id_memberships d) = 0
             then or_err (insert_membership (granted_row (uuid 0) eventID newOwner ''owner'' (u_ID p) now) d')
               (EaInternal (IdInternal ''create new owner membership''))
             else Inr d') (\<lambda>d.
      ea_lift (AuditTx (uuid 1) (Some (u_ID p)) ''user'' ''event_ownership_transferred'' (Some newOwner) (Some eventID)
        [(''fromUserId'', oldOwner), (''toUserId'', newOwner)] now d))))))))"

text \<open>The routes.\<close>

datatype ea_response = EaNoContent | EaError nat string

definition writeServiceError :: "ea_error \<Rightarrow> ea_response" where
  "writeServiceError e = (case e of
      ErrEventNotFound \<Rightarrow> EaError 404 ''event_not_found''
    | ErrEligibleUserNotFound \<Rightarrow> EaError 400 ''eligible_user_not_found''
    | ErrEaForbidden \<Rightarrow> EaError 403 ''forbidden''
    | EaInternal _ \<Rightarrow> EaError 500 ''internal_error'')"

definition ea_answer :: "idb \<Rightarrow> ea_error + idb \<Rightarrow> idb \<times> ea_response" where
  "ea_answer d r = (case r of Inl e \<Rightarrow> (d, writeServiceError e) | Inr d' \<Rightarrow> (d', EaNoContent))"

definition handleAddSelf :: "(nat \<Rightarrow> id) \<Rightarrow> time \<Rightarrow> User option \<Rightarrow> id \<Rightarrow> idb \<Rightarrow> idb \<times> ea_response" where
  "handleAddSelf uuid now actor eventID d = ea_answer d (AddSelf uuid now actor eventID d)"

definition handleTransfer :: "(nat \<Rightarrow> id) \<Rightarrow> time \<Rightarrow> User option \<Rightarrow> id \<Rightarrow> string json_body \<Rightarrow> idb \<Rightarrow> idb \<times> ea_response" where
  "handleTransfer uuid now actor eventID body d = (case DecodeJSON body of
      Inl _ \<Rightarrow> (d, EaError 400 ''bad_request'')
    | Inr newOwner \<Rightarrow>
       if newOwner = [] then (d, EaError 400 ''bad_request'')
       else ea_answer d (TransferOwnership uuid now actor eventID newOwner d))"

end
