(* ===== verification/Account_Handler.thy ===== *)
theory Account_Handler
  imports Instance_Admin Event_Series
begin

text \<open>
  The routes of accounts: sign-in, profile and deletion of the own account (\<open>internal/auth/handler.go\<close>
  and the deletion of \<open>internal/auth/store.go\<close>), the routes of administrators
  (\<open>internal/useradmin/handler.go\<close>), and the routes of series (\<open>internal/event/series_handler.go\<close>).
\<close>

section \<open>Deletion of an account\<close>

definition owned_by :: "id \<Rightarrow> idb \<Rightarrow> id \<Rightarrow> bool" where
  "owned_by u d i \<longleftrightarrow> list_ex (\<lambda>m. mb_event_id m = i \<and> mb_user_id m = u \<and> mb_role m = ''owner'') (id_memberships d)"

definition granted_by :: "id \<Rightarrow> membership_row \<Rightarrow> bool" where
  "granted_by u m \<longleftrightarrow> mb_granted_by_user_id m = u \<and> mb_user_id m \<noteq> u"

text \<open>Memberships that the user granted are attributed to the owner; an event without owner has none to put there.\<close>

definition regrant :: "id \<Rightarrow> idb \<Rightarrow> idb id_result" where
  "regrant u d =
    (if list_ex (\<lambda>m. granted_by u m \<and> owner_of (mb_event_id m) d = None) (id_memberships d) then Inl (IdInternal ''cascade delete'')
     else Inr (d\<lparr>id_memberships := update_where (granted_by u)
       (\<lambda>m. m\<lparr>mb_granted_by_user_id := the (owner_of (mb_event_id m) d)\<rparr>) (id_memberships d)\<rparr>))"

definition delete_series_of :: "id \<Rightarrow> idb \<Rightarrow> idb" where
  "delete_series_of u d =
    (let gone = es_ID ` set (filter (\<lambda>es. es_OrganizerID es = u) (id_series d)) in
     d\<lparr>id_series := delete_where (\<lambda>es. es_OrganizerID es = u) (id_series d),
       id_events := update_where (\<lambda>r. case e_SeriesID r of None \<Rightarrow> False | Some s \<Rightarrow> s \<in> gone) (\<lambda>r. r\<lparr>e_SeriesID := None\<rparr>) (id_events d)\<rparr>)"

text \<open>The user's row goes with its memberships; audit entries lose the reference.\<close>

definition delete_user_row :: "id \<Rightarrow> idb \<Rightarrow> idb" where
  "delete_user_row u d = d\<lparr>id_users := delete_where (\<lambda>x. u_ID x = u) (id_users d),
     id_memberships := delete_where (\<lambda>m. mb_user_id m = u) (id_memberships d),
     id_audit := map (\<lambda>a. a\<lparr>ae_ActorUserID := (if ae_ActorUserID a = Some u then None else ae_ActorUserID a),
        ae_TargetUserID := (if ae_TargetUserID a = Some u then None else ae_TargetUserID a)\<rparr>) (id_audit d)\<rparr>"

definition delete_account_rows :: "id \<Rightarrow> idb \<Rightarrow> idb" where
  "delete_account_rows u d = d\<lparr>id_magic_links := delete_where (\<lambda>m. ml_OrganizerID m = u) (id_magic_links d),
     id_sessions := delete_where (\<lambda>s. se_OrganizerID s = u) (id_sessions d),
     id_invites := delete_where (\<lambda>v. ai_TargetUserID v = u \<or> ai_InvitedByUserID v = u) (id_invites d),
     id_users := update_where (\<lambda>x. u_InvitedByUserID x = Some u) (\<lambda>x. x\<lparr>u_InvitedByUserID := None\<rparr>) (id_users d)\<rparr>"

definition DeleteOrganizerCascade :: "id \<Rightarrow> idb \<Rightarrow> idb id_result" where
  "DeleteOrganizerCascade u d =
    rbind (regrant u (cascade_event (owned_by u d) d)) (\<lambda>d. Inr (delete_user_row u (delete_account_rows u (delete_series_of u d))))"

definition DeleteAccount :: "id \<Rightarrow> idb \<Rightarrow> idb id_result" where
  "DeleteAccount u d = DeleteOrganizerCascade u d"

definition UpdateProfile :: "time \<Rightarrow> User \<Rightarrow> idb \<Rightarrow> idb" where
  "UpdateProfile now organizer d = UpdateOrganizer now organizer d"

section \<open>Routes of authentication\<close>

record UpdateProfileRequest =
  up_Name :: "string option"
  up_Timezone :: "string option"

datatype au_body = AuMessage string | AuError string | AuLogin AuthResponse | AuUser User | AuNothing

record au_response =
  au_status :: nat
  au_body :: au_body
  au_cookies :: "cookie list"

definition au_answer :: "nat \<Rightarrow> au_body \<Rightarrow> au_response" where
  "au_answer status b = \<lparr> au_status = status, au_body = b, au_cookies = [] \<rparr>"

definition au_internal :: "string \<Rightarrow> au_response" where
  "au_internal ref = au_answer 500 (AuError (''an internal error occurred (ref: '' @ ref @ '')''))"

definition session_cookie :: "config \<Rightarrow> string \<Rightarrow> int \<Rightarrow> cookie" where
  "session_cookie cfg v age = \<lparr> ck_Name = ''session'', ck_Value = v, ck_Path = ''/'', ck_HttpOnly = True,
     ck_Secure = (\<not> cfg_development cfg), ck_SameSiteStrict = False, ck_MaxAge = age \<rparr>"

definition csrf_cleared :: "config \<Rightarrow> cookie" where
  "csrf_cleared cfg = \<lparr> ck_Name = ''csrf_token'', ck_Value = [], ck_Path = ''/'', ck_HttpOnly = False,
     ck_Secure = (\<not> cfg_development cfg), ck_SameSiteStrict = True, ck_MaxAge = -1 \<rparr>"

definition login_cookies :: "config \<Rightarrow> string \<Rightarrow> cookie list" where
  "login_cookies cfg token = [session_cookie cfg token (cfg_SessionExpiry cfg div second), csrf_cleared cfg]"

definition magic_link_message :: string where
  "magic_link_message = ''If an account exists for this email, a magic link has been sent. Please check your inbox.''"

definition handleMagicLink ::
  "'x runtime_scheme \<Rightarrow> auth_service \<Rightarrow> (nat \<Rightarrow> time) \<Rightarrow> (nat \<Rightarrow> id) \<Rightarrow> string option \<Rightarrow> string json_body \<Rightarrow> idb \<Rightarrow>
   idb \<times> id_mail list \<times> au_response" where
  "handleMagicLink rt s clk uuid rand body d = (case DecodeJSON body of
      Inl _ \<Rightarrow> (d, [], au_answer 400 (AuError ''invalid request body''))
    | Inr raw \<Rightarrow>
       (let email = trim_space (to_lower rt raw) in
        if email = [] then (d, [], au_answer 400 (AuError ''email is required''))
        else case RequestMagicLink rt s clk uuid rand email d of
          (d', mails, Some ErrInvalidEmail) \<Rightarrow> (d', mails, au_answer 400 (AuError ''invalid email address''))
        | (d', mails, _) \<Rightarrow> (d', mails, au_answer 200 (AuMessage magic_link_message))))"

definition handleVerify ::
  "'x runtime_scheme \<Rightarrow> auth_service \<Rightarrow> (nat \<Rightarrow> time) \<Rightarrow> (nat \<Rightarrow> id) \<Rightarrow> string option \<Rightarrow> string \<Rightarrow> string json_body \<Rightarrow> idb \<Rightarrow>
   idb \<times> au_response" where
  "handleVerify rt s clk uuid rand ref body d = (case DecodeJSON body of
      Inl _ \<Rightarrow> (d, au_answer 400 (AuError ''invalid request body''))
    | Inr raw \<Rightarrow>
       (let token = trim_space raw in
        if token = [] then (d, au_answer 400 (AuError ''token is required''))
        else case VerifyMagicLink rt s clk uuid rand token d of
          Inl err \<Rightarrow> (d, if err = ErrInvalidToken then au_answer 401 (AuError ''invalid or expired token'') else au_internal ref)
        | Inr (d', resp) \<Rightarrow> (d', (au_answer 200 (AuLogin resp))\<lparr>au_cookies := login_cookies (as_cfg s) (ar_Token resp)\<rparr>)))"

definition handleLogout :: "'x runtime_scheme \<Rightarrow> auth_service \<Rightarrow> http_request \<Rightarrow> idb \<Rightarrow> idb \<times> au_response" where
  "handleLogout rt s r d =
    (let token = extractToken r in
     if token = [] then (d, au_answer 401 (AuError ''unauthorized''))
     else case Logout rt token d of
       (d', Inl _) \<Rightarrow> (d', au_answer 401 (AuError ''unauthorized''))
     | (d', Inr _) \<Rightarrow> (d', (au_answer 200 (AuMessage ''logged out''))\<lparr>au_cookies := [session_cookie (as_cfg s) [] (- 1)]\<rparr>))"

text \<open>The routes behind \<open>RequireAuth\<close> get the user of the session.\<close>

definition with_user :: "User option \<Rightarrow> (User \<Rightarrow> idb \<Rightarrow> idb \<times> au_response) \<Rightarrow> idb \<Rightarrow> idb \<times> au_response" where
  "with_user organizer h d = (case organizer of None \<Rightarrow> (d, au_answer 401 (AuError ''unauthorized'')) | Some u \<Rightarrow> h u d)"

definition handleMe :: "User option \<Rightarrow> idb \<Rightarrow> idb \<times> au_response" where
  "handleMe organizer = with_user organizer (\<lambda>u d. (d, au_answer 200 (AuUser u)))"

definition handleUpdateMe :: "time \<Rightarrow> User option \<Rightarrow> UpdateProfileRequest json_body \<Rightarrow> idb \<Rightarrow> idb \<times> au_response" where
  "handleUpdateMe now organizer body = with_user organizer (\<lambda>u d. case DecodeJSON body of
      Inl _ \<Rightarrow> (d, au_answer 400 (AuError ''invalid request body''))
    | Inr req \<Rightarrow>
       (let u = u\<lparr>u_Name := (case up_Name req of None \<Rightarrow> u_Name u | Some n \<Rightarrow> n),
              u_Timezone := (case up_Timezone req of None \<Rightarrow> u_Timezone u | Some t \<Rightarrow> t)\<rparr> in
        (UpdateProfile now u d, au_answer 200 (AuUser u))))"

definition handleDeleteMe :: "auth_service \<Rightarrow> string \<Rightarrow> User option \<Rightarrow> idb \<Rightarrow> idb \<times> au_response" where
  "handleDeleteMe s ref organizer = with_user organizer (\<lambda>u d. case DeleteAccount (u_ID u) d of
      Inl _ \<Rightarrow> (d, au_internal ref)
    | Inr d' \<Rightarrow> (d', (au_answer 204 AuNothing)\<lparr>au_cookies := [session_cookie (as_cfg s) [] (- 1)]\<rparr>))"

section \<open>Routes of administrators\<close>

definition user_older :: "User \<Rightarrow> User \<Rightarrow> bool" where
  "user_older a b \<longleftrightarrow> u_CreatedAt a < u_CreatedAt b \<or> (u_CreatedAt a = u_CreatedAt b \<and> bytes_less (u_ID a) (u_ID b))"

definition ListUsers :: "idb \<Rightarrow> User list" where
  "ListUsers d = order_by user_older (id_users d)"

definition invite_newer :: "invite_row \<Rightarrow> invite_row \<Rightarrow> bool" where
  "invite_newer a b \<longleftrightarrow> ai_CreatedAt b < ai_CreatedAt a \<or> (ai_CreatedAt a = ai_CreatedAt b \<and> bytes_less (ai_ID b) (ai_ID a))"

definition ListPendingInvites :: "time \<Rightarrow> idb \<Rightarrow> AccountInvite list" where
  "ListPendingInvites now d = map AccountInvite.truncate (order_by invite_newer (filter (pending_invite now) (id_invites d)))"

datatype ad_response =
    AdUsers "User list"
  | AdInvites "AccountInvite list"
  | AdInvite AccountInvite
  | AdEntries "AuditEntry list"
  | AdAccepted User "cookie list"
  | AdNoContent
  | AdError nat string string

definition ad_internal :: "string \<Rightarrow> ad_response" where
  "ad_internal ref = AdError 500 ''internal_error'' (''an internal error occurred (ref: '' @ ref @ '')'')"

definition ad_bad :: ad_response where "ad_bad = AdError 400 ''bad_request'' ''invalid JSON body''"

definition writeChangeError :: "string \<Rightarrow> id_error \<Rightarrow> ad_response" where
  "writeChangeError ref err = (case err of
      ErrUserNotFound \<Rightarrow> AdError 404 ''user_not_found'' ''user not found''
    | ErrLastAdmin \<Rightarrow> AdError 409 ''last_admin'' ''the last active administrator cannot be changed''
    | ErrInvalidTransition \<Rightarrow> AdError 400 ''invalid_transition'' ''invalid user role or status transition''
    | _ \<Rightarrow> ad_internal ref)"

definition invite_error :: "string \<Rightarrow> id_error \<Rightarrow> ad_response" where
  "invite_error ref err = (case err of
      ErrInvalidEmail \<Rightarrow> AdError 400 ''invalid_email'' ''email must be a valid email address''
    | ErrUserExists \<Rightarrow> AdError 409 ''user_exists'' ''an active or disabled user with that email already exists''
    | ErrEmailUnavailable \<Rightarrow> AdError 503 ''email_unavailable'' ''account invitation email is not configured''
    | _ \<Rightarrow> ad_internal ref)"

definition handleInviteUser ::
  "'x runtime_scheme \<Rightarrow> admin_service \<Rightarrow> (nat \<Rightarrow> time) \<Rightarrow> (nat \<Rightarrow> id) \<Rightarrow> string option \<Rightarrow> string \<Rightarrow> User option \<Rightarrow> string json_body \<Rightarrow> idb \<Rightarrow>
   idb \<times> id_mail list \<times> ad_response" where
  "handleInviteUser rt s clk uuid rand ref actor body d = (case DecodeJSON body of
      Inl _ \<Rightarrow> (d, [], ad_bad)
    | Inr email \<Rightarrow> (case InviteUser rt s clk uuid rand actor email d of
         (d', mails, Inl err) \<Rightarrow> (d', mails, invite_error ref err)
       | (d', mails, Inr invite) \<Rightarrow> (d', mails, AdInvite invite)))"

definition handleAcceptInvite ::
  "'x runtime_scheme \<Rightarrow> admin_service \<Rightarrow> (nat \<Rightarrow> time) \<Rightarrow> (nat \<Rightarrow> id) \<Rightarrow> string option \<Rightarrow> string \<Rightarrow> string json_body \<Rightarrow> idb \<Rightarrow> idb \<times> ad_response" where
  "handleAcceptInvite rt s clk uuid rand ref body d = (case DecodeJSON body of
      Inl _ \<Rightarrow> (d, ad_bad)
    | Inr token \<Rightarrow> (case AcceptInvite rt s clk uuid rand token d of
         Inl err \<Rightarrow> (d, if err = ErrInvalidInvite then AdError 401 ''invalid_invite'' ''invalid or expired account invitation'' else ad_internal ref)
       | Inr (d', resp) \<Rightarrow> (d', AdAccepted (ar_Organizer resp) (login_cookies (ua_cfg s) (ar_Token resp)))))"

definition handleRevokeInvite :: "(nat \<Rightarrow> time) \<Rightarrow> (nat \<Rightarrow> id) \<Rightarrow> string \<Rightarrow> User option \<Rightarrow> id \<Rightarrow> idb \<Rightarrow> idb \<times> ad_response" where
  "handleRevokeInvite clk uuid ref actor i d = (case RevokeInvite clk uuid actor i d of
      Inl err \<Rightarrow> (d, if err = ErrInvalidInvite then AdError 404 ''invite_not_found'' ''account invitation not found'' else writeChangeError ref err)
    | Inr d' \<Rightarrow> (d', AdNoContent))"

definition handleSetStatus :: "time \<Rightarrow> id \<Rightarrow> string \<Rightarrow> User option \<Rightarrow> id \<Rightarrow> string json_body \<Rightarrow> idb \<Rightarrow> idb \<times> ad_response" where
  "handleSetStatus now aid ref actor i body d = (case DecodeJSON body of
      Inl _ \<Rightarrow> (d, ad_bad)
    | Inr status \<Rightarrow> (case SetUserStatus now aid actor i (trim_space status) d of
         Inl err \<Rightarrow> (d, writeChangeError ref err) | Inr d' \<Rightarrow> (d', AdNoContent)))"

definition handleSetRole :: "time \<Rightarrow> id \<Rightarrow> string \<Rightarrow> User option \<Rightarrow> id \<Rightarrow> string json_body \<Rightarrow> idb \<Rightarrow> idb \<times> ad_response" where
  "handleSetRole now aid ref actor i body d = (case DecodeJSON body of
      Inl _ \<Rightarrow> (d, ad_bad)
    | Inr role \<Rightarrow> (case SetUserRole now aid actor i (trim_space role) d of
         Inl err \<Rightarrow> (d, writeChangeError ref err) | Inr d' \<Rightarrow> (d', AdNoContent)))"

text \<open>A limit that is no number reads as 0.\<close>

definition handleListAudit :: "string \<Rightarrow> idb \<Rightarrow> ad_response" where
  "handleListAudit limit d = AdEntries (ListAudit (case atoi limit of None \<Rightarrow> 0 | Some n \<Rightarrow> n) d)"

datatype admin_op =
    AdListUsers | AdListInvites | AdInviteUser "string json_body" | AdRevokeInvite id
  | AdSetStatus id "string json_body" | AdSetRole id "string json_body" | AdListAudit string
  | AdAddSelf id | AdTransfer id "string json_body"

definition ea_to_ad :: "idb \<times> ea_response \<Rightarrow> idb \<times> id_mail list \<times> ad_response" where
  "ea_to_ad r = (case r of (d, EaNoContent) \<Rightarrow> (d, [], AdNoContent) | (d, EaError n c) \<Rightarrow> (d, [], AdError n c []))"

text \<open>The routes behind the two middlewares.\<close>

definition admin_serve ::
  "'x runtime_scheme \<Rightarrow> admin_service \<Rightarrow> (nat \<Rightarrow> time) \<Rightarrow> (nat \<Rightarrow> id) \<Rightarrow> string option \<Rightarrow> string \<Rightarrow> admin_op \<Rightarrow> User option \<Rightarrow> idb \<Rightarrow>
   idb \<times> id_mail list \<times> ad_response" where
  "admin_serve rt s clk uuid rand ref rq actor d = (case rq of
      AdListUsers \<Rightarrow> (d, [], AdUsers (ListUsers d))
    | AdListInvites \<Rightarrow> (d, [], AdInvites (ListPendingInvites (clk 0) d))
    | AdInviteUser body \<Rightarrow> handleInviteUser rt s clk uuid rand ref actor body d
    | AdRevokeInvite i \<Rightarrow> (case handleRevokeInvite clk uuid ref actor i d of (d', r) \<Rightarrow> (d', [], r))
    | AdSetStatus i body \<Rightarrow> (case handleSetStatus (clk 0) (uuid 0) ref actor i body d of (d', r) \<Rightarrow> (d', [], r))
    | AdSetRole i body \<Rightarrow> (case handleSetRole (clk 0) (uuid 0) ref actor i body d of (d', r) \<Rightarrow> (d', [], r))
    | AdListAudit limit \<Rightarrow> (d, [], handleListAudit limit d)
    | AdAddSelf i \<Rightarrow> ea_to_ad (handleAddSelf uuid (clk 0) actor i d)
    | AdTransfer i body \<Rightarrow> ea_to_ad (handleTransfer uuid (clk 0) actor i body d))"

definition admin_handle ::
  "'x runtime_scheme \<Rightarrow> admin_service \<Rightarrow> time \<Rightarrow> (nat \<Rightarrow> time) \<Rightarrow> (nat \<Rightarrow> id) \<Rightarrow> string option \<Rightarrow> string \<Rightarrow> http_request \<Rightarrow> admin_op \<Rightarrow> idb \<Rightarrow>
   idb \<times> id_mail list \<times> ad_response" where
  "admin_handle rt s now clk uuid rand ref r rq d = (case RequireAuth rt now r d of
      (d', None) \<Rightarrow> (d', [], AdError 401 ''unauthorized'' [])
    | (d', Some u) \<Rightarrow>
       if \<not> RequireAdmin (Some u) then (d', [], AdError 403 ''forbidden'' [])
       else admin_serve rt s clk uuid rand ref rq (Some u) d')"

section \<open>Routes of series\<close>

datatype sr_response =
    SrSeries nat EventSeries
  | SrList "EventSeries list"
  | SrOccurrences EventSeries "Event list"
  | SrDeleted
  | SrError nat string string

definition sr_internal :: sr_response where
  "sr_internal = SrError 500 ''internal_error'' ''an internal error occurred''"

definition series_error :: "bool \<Rightarrow> id_error \<Rightarrow> sr_response" where
  "series_error validates err = (case err of
      IdNotFound \<Rightarrow> SrError 404 ''not_found'' ''series not found''
    | IdForbidden \<Rightarrow> SrError 403 ''forbidden'' ''forbidden: you do not own this series''
    | IdValidation msg \<Rightarrow> if validates then SrError 400 ''bad_request'' msg else sr_internal
    | _ \<Rightarrow> sr_internal)"

definition for_organizer :: "id option \<Rightarrow> (id \<Rightarrow> idb \<Rightarrow> idb \<times> sr_response \<times> series_call list) \<Rightarrow> idb \<Rightarrow> idb \<times> sr_response \<times> series_call list" where
  "for_organizer organizer h d = (case organizer of
      None \<Rightarrow> (d, SrError 401 ''unauthorized'' ''authentication required'', []) | Some u \<Rightarrow> h u d)"

definition handleCreateSeries ::
  "series_service \<Rightarrow> id \<Rightarrow> (nat \<Rightarrow> id) \<Rightarrow> time \<Rightarrow> (nat \<Rightarrow> time) \<Rightarrow> id option \<Rightarrow> CreateSeriesRequest json_body \<Rightarrow> idb \<Rightarrow> idb \<times> sr_response \<times> series_call list" where
  "handleCreateSeries s sid uuid now clk organizer body = for_organizer organizer (\<lambda>u d. case DecodeJSON body of
      Inl _ \<Rightarrow> (d, SrError 400 ''bad_request'' ''invalid JSON body'', [])
    | Inr req \<Rightarrow> (case CreateSeries s sid uuid now clk u req d of
         Inl (IdValidation msg) \<Rightarrow> (d, SrError 400 ''bad_request'' msg, [])
       | Inl _ \<Rightarrow> (d, sr_internal, [])
       | Inr (d', series, calls) \<Rightarrow> (d', SrSeries 201 series, calls)))"

definition handleListSeries :: "id option \<Rightarrow> idb \<Rightarrow> idb \<times> sr_response \<times> series_call list" where
  "handleListSeries organizer = for_organizer organizer (\<lambda>u d. (d, SrList (ListSeriesByOrganizer u d), []))"

definition handleGetSeries :: "id option \<Rightarrow> id \<Rightarrow> idb \<Rightarrow> idb \<times> sr_response \<times> series_call list" where
  "handleGetSeries organizer i = for_organizer organizer (\<lambda>u d. case GetSeriesWithOccurrences i u d of
      Inl err \<Rightarrow> (d, series_error False err, [])
    | Inr (series, occurrences) \<Rightarrow> (d, SrOccurrences series occurrences, []))"

definition handleUpdateSeries ::
  "series_service \<Rightarrow> time \<Rightarrow> time \<Rightarrow> (nat \<Rightarrow> time) \<Rightarrow> id option \<Rightarrow> id \<Rightarrow> UpdateSeriesRequest json_body \<Rightarrow> idb \<Rightarrow> idb \<times> sr_response \<times> series_call list" where
  "handleUpdateSeries s now now' clk organizer i body = for_organizer organizer (\<lambda>u d. case DecodeJSON body of
      Inl _ \<Rightarrow> (d, SrError 400 ''bad_request'' ''invalid JSON body'', [])
    | Inr req \<Rightarrow> (case UpdateSeries s now now' clk i u req d of
         Inl err \<Rightarrow> (d, series_error True err, [])
       | Inr (d', series) \<Rightarrow> (d', SrSeries 200 series, [])))"

definition handleStopSeries ::
  "series_service \<Rightarrow> time \<Rightarrow> time \<Rightarrow> (nat \<Rightarrow> time) \<Rightarrow> id option \<Rightarrow> id \<Rightarrow> idb \<Rightarrow> idb \<times> sr_response \<times> series_call list" where
  "handleStopSeries s now now' clk organizer i = for_organizer organizer (\<lambda>u d. case StopSeries s now now' clk i u d of
      Inl err \<Rightarrow> (d, series_error True err, [])
    | Inr (d', series, calls) \<Rightarrow> (d', SrSeries 200 series, calls))"

definition handleDeleteSeries :: "id option \<Rightarrow> id \<Rightarrow> idb \<Rightarrow> idb \<times> sr_response \<times> series_call list" where
  "handleDeleteSeries organizer i = for_organizer organizer (\<lambda>u d. case DeleteSeries i u d of
      Inl err \<Rightarrow> (d, series_error False err, []) | Inr d' \<Rightarrow> (d', SrDeleted, []))"

end
