(* ===== verification/Instance_Safety.thy ===== *)
theory Instance_Safety
  imports Instance_Admin Event_Safety
begin

text \<open>
  What the setup and the recovery of events guarantee: an instance is set up once, by someone who has the
  token, and gets an administrator; a transfer moves the ownership of one event and nothing else.
\<close>

section \<open>Setup\<close>

text \<open>The instance after its setup, whatever accounts do and whatever settings are saved.\<close>

inductive instance_step :: "runtime \<Rightarrow> inst_db \<Rightarrow> inst_db \<Rightarrow> bool" for rt :: runtime where
  bootstrap: "Bootstrap rt s clk uuid rand req st = Inr (st', token, u) \<Longrightarrow> instance_step rt st st'"
| settings: "handleSaveConfig now ref body st = (st', resp) \<Longrightarrow> instance_step rt st st'"
| accounts: "account_step rt ev (ib_ids st) d \<Longrightarrow> instance_step rt st (st\<lparr>ib_ids := d\<rparr>)"

definition set_up :: "inst_db \<Rightarrow> bool" where
  "set_up st \<longleftrightarrow> (\<forall>i \<in> set (ib_instances st). in_ID i = singletonInstanceID \<longrightarrow> in_SetupCompletedAt i \<noteq> None)"

lemma claim_refused: "set_up st \<Longrightarrow> \<not> snd (ClaimBootstrapTx now req st)"
  by (auto simp: ClaimBootstrapTx_def affected_def set_up_def claimable_def filter_empty_conv)

lemma lift_iffs [simp]:
  "inst_lift r = Inr x \<longleftrightarrow> r = Inr x" "ea_lift q = Inr y \<longleftrightarrow> q = Inr y"
  by (auto simp: inst_lift_def ea_lift_def split: sum.splits)

lemma bootstrap_elim:
  assumes "Bootstrap rt s clk uuid rand req st = Inr (st', token, u)"
  obtains d1 d2 d3 d4 user hash where
    "constantTimeTokenEqual rt (br_BootstrapToken req) (bs_BootstrapToken s)" "bs_BootstrapToken s \<noteq> []"
    "snd (ClaimBootstrapTx (clk 0) req st)"
    "first_admin rt (uuid 0) (clk 1) (clk 0) req (ib_ids st) = Inr (d1, user)"
    "createSession (uuid 1) (clk 2) hash (u_ID user) (clk 0 + cfg_SessionExpiry (bs_cfg s)) d1 = Inr d2"
    "TouchLastLoginTx (u_ID user) (clk 0) d2 = Inr d3"
    "AuditTx (uuid 2) (Some (u_ID user)) ''user'' ''bootstrap_completed'' (Some (u_ID user)) None [(''instanceRole'', ''admin'')] (clk 0) d3 = Inr d4"
    "st' = (fst (ClaimBootstrapTx (clk 0) req st))\<lparr>ib_ids := d4\<rparr>"
proof -
  obtain st1 claimed where c: "ClaimBootstrapTx (clk 0) req st = (st1, claimed)" by fastforce
  then have ids: "ib_ids st1 = ib_ids st" by (auto simp: ClaimBootstrapTx_def)
  show thesis using assms unfolding Bootstrap_def Let_def c prod.case
    by (clarsimp simp: ids case_prod_beta) (rule that, auto simp: c)
qed

lemma AuditTx_effect: "AuditTx aid a kind act t e md now d = Inr d' \<Longrightarrow> \<exists>x. d' = d\<lparr>id_audit := add_row x (id_audit d)\<rparr>"
  by (auto simp: AuditTx_def dest!: insert_effects(6))

lemma first_admin_effect:
  assumes "first_admin rt uid created now req d = Inr (d', u)" "distinct (map u_ID (id_users d))"
  shows "distinct (map u_ID (id_users d')) \<and> (\<exists>x \<in> set (id_users d'). u_ID x = u_ID u \<and> active_admin x)"
proof (cases "FindOrganizerByEmail rt (to_lower rt (trim_space (br_AdminEmail req))) d")
  case None
  then obtain email name tz where c: "createUser rt uid created email name tz ''admin'' ''active'' None d = Inr (d', u)"
    using assms(1) by (auto simp: first_admin_def Let_def)
  show ?thesis using createUser_effect [OF c] assms(2) by (simp add: new_user_def Let_def active_admin_def add_row_def)
next
  case (Some x)
  then have p: "PromoteBootstrapAdminTx (u_ID x) (br_AdminName req) (br_DefaultTimezone req) now d = Inr (d', u)"
    using assms(1) by (simp add: first_admin_def Let_def)
  have x: "x \<in> set (id_users d)" using Some by (auto simp: FindOrganizerByEmail_def dest: select_row_SomeD)
  let ?f = "promoted_row (br_AdminName req) (br_DefaultTimezone req) now"
  have us: "id_users d' = update_where (\<lambda>y. u_ID y = u_ID x) ?f (id_users d)" "u_ID u = u_ID x"
    using p by (auto simp: PromoteBootstrapAdminTx_def Let_def FindOrganizerByID_def split: if_splits dest!: select_row_SomeD)
  have "?f x \<in> set (id_users d')" unfolding us(1) set_update_where using x by (intro image_eqI [of _ _ x]) simp_all
  then have "\<exists>y \<in> set (id_users d'). u_ID y = u_ID u \<and> active_admin y"
    by (rule bexI [rotated]) (simp add: us(2) promoted_row_def active_admin_def)
  moreover have "map u_ID (id_users d') = map u_ID (id_users d)" unfolding us(1) by (simp add: map_update_where promoted_row_def)
  ultimately show ?thesis using assms(2) by simp
qed

lemma touch_admin:
  assumes "TouchLastLoginTx i at d = Inr d'" "list_ex active_admin (id_users d)" "distinct (map u_ID (id_users d))"
  shows "administered d'"
proof -
  let ?f = "\<lambda>u. u\<lparr>u_LastLoginAt := Some (trunc_sec at), u_UpdatedAt := trunc_sec at\<rparr>"
  have us: "id_users d' = update_where (active_user i) ?f (id_users d)" using assms(1) by (auto simp: TouchLastLoginTx_def split: if_splits)
  have "map u_ID (id_users d') = map u_ID (id_users d)" unfolding us by (simp add: map_update_where)
  moreover have "list_ex active_admin (id_users d')"
    using assms(2) unfolding us update_where_def list_ex_iff set_map
    by (elim bexE) (intro bexI [OF _ imageI], simp add: active_admin_def)
  ultimately show ?thesis using assms(3) by (simp add: administered_def)
qed

definition governed :: "inst_db \<Rightarrow> bool" where
  "governed st \<longleftrightarrow> set_up st \<and> administered (ib_ids st)"

lemma bootstrap_governs:
  assumes "Bootstrap rt s clk uuid rand req st = Inr (st', token, u)" "distinct (map u_ID (id_users (ib_ids st)))"
  shows "governed st'"
  using assms(1)
proof (rule bootstrap_elim)
  fix d1 d2 d3 d4 user hash
  assume f: "first_admin rt (uuid 0) (clk 1) (clk 0) req (ib_ids st) = Inr (d1, user)"
    and c: "createSession (uuid 1) (clk 2) hash (u_ID user) (clk 0 + cfg_SessionExpiry (bs_cfg s)) d1 = Inr d2"
    and t: "TouchLastLoginTx (u_ID user) (clk 0) d2 = Inr d3"
    and a: "AuditTx (uuid 2) (Some (u_ID user)) ''user'' ''bootstrap_completed'' (Some (u_ID user)) None [(''instanceRole'', ''admin'')] (clk 0) d3 = Inr d4"
    and cl: "snd (ClaimBootstrapTx (clk 0) req st)" and st': "st' = (fst (ClaimBootstrapTx (clk 0) req st))\<lparr>ib_ids := d4\<rparr>"
  have "id_users d2 = id_users d1" using sub_effects(1) [OF c] by auto
  then have "administered d3" using first_admin_effect [OF f assms(2)] by (intro touch_admin [OF t]) (auto simp: list_ex_iff)
  then have "administered d4" using AuditTx_effect [OF a] by (auto simp: administered_def)
  moreover have "\<not> list_ex active_admin (id_users (ib_ids st))"
    using cl by (auto simp: ClaimBootstrapTx_def affected_def claimable_def)
  then have "set_up st'" unfolding st' by (auto simp: set_up_def ClaimBootstrapTx_def claimable_def update_where_def)
  ultimately show ?thesis unfolding governed_def by (simp add: st')
qed

lemma settings_keep: "handleSaveConfig now ref body st = (st', resp) \<Longrightarrow> ib_ids st' = ib_ids st \<and> (set_up st \<longrightarrow> set_up st')"
  by (auto simp: handleSaveConfig_def SaveSettings_def UpdateSettings_def set_up_def update_where_def Let_def split: sum.splits if_splits)

interpretation governance: system_invariant "instance_step rt" governed for rt
proof
  fix st st'
  assume "instance_step rt st st'" "governed st"
  then show "governed st'"
  proof (cases rule: instance_step.cases)
    case (bootstrap s clk uuid rand req token u)
    then show ?thesis using \<open>governed st\<close> by (intro bootstrap_governs) (auto simp: governed_def administered_def)
  next
    case (settings now ref body resp)
    then show ?thesis using settings_keep \<open>governed st\<close> by (auto simp: governed_def)
  next
    case (accounts ev d)
    then have "administered d" using administration.preserved \<open>governed st\<close> by (auto simp: governed_def)
    then show ?thesis using accounts(1) \<open>governed st\<close> by (simp add: governed_def set_up_def)
  qed
qed

text \<open>
  C28: an instance is set up once. Setup succeeds only for the holder of the configured token and only
  while there is no active administrator. Afterwards, whatever logins, invitations, status and role changes follow
  and whatever settings are saved, the instance is set up, has an active administrator, and refuses every further
  setup. (The deletion of one's own account is not among these steps: the last administrator can leave.)
\<close>

theorem instance_set_up_once:
  assumes "Bootstrap rt s clk uuid rand req st = Inr (st1, token, u)" "(instance_step rt)\<^sup>*\<^sup>* st1 st2"
    and "distinct (map u_ID (id_users (ib_ids st)))"
  shows "rt_sha256 rt (br_BootstrapToken req) = rt_sha256 rt (bs_BootstrapToken s) \<and> bs_BootstrapToken s \<noteq> [] \<and>
    \<not> list_ex active_admin (id_users (ib_ids st)) \<and> list_ex active_admin (id_users (ib_ids st2)) \<and>
    (\<forall>s' clk' uuid' rand' req'. Bootstrap rt s' clk' uuid' rand' req' st2 \<in> {Inl ErrBootstrapUnauthorized, Inl ErrSetupComplete})"
proof -
  have "governed st2" by (rule governance.invariant_reachable [OF assms(2)]) (rule bootstrap_governs [OF assms(1,3)])
  then have g: "set_up st2" "list_ex active_admin (id_users (ib_ids st2))" by (simp_all add: governed_def administered_def)
  have "Bootstrap rt s' clk' uuid' rand' req' st2 \<in> {Inl ErrBootstrapUnauthorized, Inl ErrSetupComplete}" for s' clk' uuid' rand' req'
    using claim_refused [OF g(1), of "clk' 0" req'] by (auto simp: Bootstrap_def Let_def case_prod_beta guard_def)
  moreover have "constantTimeTokenEqual rt (br_BootstrapToken req) (bs_BootstrapToken s) \<and> bs_BootstrapToken s \<noteq> [] \<and>
      \<not> list_ex active_admin (id_users (ib_ids st))"
    using assms(1) by (rule bootstrap_elim) (auto simp: ClaimBootstrapTx_def affected_def claimable_def)
  ultimately show ?thesis using g(2) by (simp add: constantTimeTokenEqual_def)
qed

section \<open>Transfer of ownership\<close>

lemma one_owner_alt:
  "one_owner d \<longleftrightarrow> distinct (map e_ID (id_events d)) \<and> distinct (map mb_event_id (owner_rows d)) \<and>
    mb_event_id ` set (owner_rows d) = known_events d"
proof
  assume o: "one_owner d"
  then have m: "mset (map mb_event_id (owner_rows d)) = mset (map e_ID (id_events d))" by (simp add: one_owner_def)
  then have "distinct (map mb_event_id (owner_rows d))" using o mset_eq_imp_distinct_iff [OF m] by (simp add: one_owner_def)
  then show "distinct (map e_ID (id_events d)) \<and> distinct (map mb_event_id (owner_rows d)) \<and> mb_event_id ` set (owner_rows d) = known_events d"
    using o mset_eq_setD [OF m] by (simp add: one_owner_def known_events_def)
next
  assume "distinct (map e_ID (id_events d)) \<and> distinct (map mb_event_id (owner_rows d)) \<and> mb_event_id ` set (owner_rows d) = known_events d"
  then show "one_owner d"
    using set_eq_iff_mset_eq_distinct [of "map mb_event_id (owner_rows d)" "map e_ID (id_events d)"] by (auto simp: one_owner_def known_events_def)
qed

lemma owner_unique:
  assumes "distinct (map mb_event_id (owner_rows d))" "m \<in> set (id_memberships d)" "is_owner_row e m"
  shows "owner_of e d = Some (mb_user_id m)"
proof -
  obtain r where r: "select_row (is_owner_row e) (id_memberships d) = Some r"
    using assms(2,3) by (cases "select_row (is_owner_row e) (id_memberships d)") (auto simp: select_row_def find_None_iff)
  then have "r \<in> set (id_memberships d)" "is_owner_row e r" by (auto dest: select_row_SomeD)
  moreover have "inj_on mb_event_id (set (owner_rows d))" using assms(1) by (simp add: distinct_map)
  ultimately have "r = m" using assms(2,3) by (auto simp: owner_rows_def is_owner_row_def inj_on_def)
  then show ?thesis by (simp add: owner_of_def r)
qed

definition elsewhere :: "id \<Rightarrow> membership_row list \<Rightarrow> membership_row list" where
  "elsewhere e ms = filter (\<lambda>m. mb_event_id m \<noteq> e) ms"

lemma elsewhere_update:
  assumes "\<And>m. p m \<Longrightarrow> mb_event_id m = e" "\<And>m. mb_event_id (f m) = mb_event_id m"
  shows "elsewhere e (update_where p f ms) = elsewhere e ms"
  using assms by (induction ms) (auto simp: elsewhere_def)

lemma set_role_effect:
  assumes "set_role p role g now d = Inr d'" "\<And>m. p m \<Longrightarrow> mb_event_id m = e"
  shows "\<exists>f. id_memberships d' = update_where p f (id_memberships d) \<and> (\<forall>m. mb_event_id (f m) = mb_event_id m \<and> mb_user_id (f m) = mb_user_id m \<and>
      mb_role (f m) = role) \<and> elsewhere e (id_memberships d') = elsewhere e (id_memberships d)" "distinct (map mb_event_id (owner_rows d'))"
    "id_events d' = id_events d" "id_users d' = id_users d"
proof -
  let ?f = "\<lambda>m. m\<lparr>mb_role := role, mb_granted_by_user_id := g, mb_updated_at := trunc_sec now\<rparr>"
  have d': "d' = d\<lparr>id_memberships := update_where p ?f (id_memberships d)\<rparr>" "distinct (map mb_event_id (owner_rows d'))"
    using assms(1) by (auto simp: set_role_def owner_rows_def Let_def split: if_splits)
  then show "\<exists>f. id_memberships d' = update_where p f (id_memberships d) \<and> (\<forall>m. mb_event_id (f m) = mb_event_id m \<and> mb_user_id (f m) = mb_user_id m \<and>
      mb_role (f m) = role) \<and> elsewhere e (id_memberships d') = elsewhere e (id_memberships d)"
    using elsewhere_update [of p e ?f] assms(2) by (intro exI [of _ ?f]) simp
qed (use assms(1) in \<open>auto simp: set_role_def owner_rows_def Let_def split: if_splits\<close>)

text \<open>A database whose memberships agree elsewhere, with one owner of the event.\<close>

lemma one_owner_elsewhere:
  assumes "one_owner d" "e \<in> known_events d" "id_events d' = id_events d" "elsewhere e (id_memberships d') = elsewhere e (id_memberships d)"
    and "distinct (map mb_event_id (owner_rows d'))" "m \<in> set (id_memberships d')" "is_owner_row e m"
  shows "one_owner d'"
proof -
  have same: "i \<in> mb_event_id ` set (owner_rows d') \<longleftrightarrow> i \<in> mb_event_id ` set (owner_rows d)" if "i \<noteq> e" for i
  proof -
    have "i \<in> mb_event_id ` set (owner_rows x) \<longleftrightarrow> (\<exists>r \<in> set (elsewhere e (id_memberships x)). mb_event_id r = i \<and> mb_role r = ''owner'')" for x
      using that by (auto simp: elsewhere_def owner_rows_def)
    then show ?thesis by (simp add: assms(4))
  qed
  moreover have "e \<in> mb_event_id ` set (owner_rows d')" using assms(6,7) by (auto simp: owner_rows_def is_owner_row_def)
  ultimately have "mb_event_id ` set (owner_rows d') = known_events d"
    using assms(1,2) unfolding one_owner_alt by (intro set_eqI) metis
  then show ?thesis using assms(1,3,5) by (simp add: one_owner_alt known_events_def)
qed

lemma begin_authorized:
  assumes "beginAuthorized actor e d = Inr p"
  shows "p \<in> set (id_users d)" "active_admin p" "map_option u_ID actor = Some (u_ID p)" "e \<in> known_events d"
proof -
  have "affected (\<lambda>x. e_ID x = e) (id_events d) = 1"
    using assms by (auto simp: beginAuthorized_def split: option.splits if_splits)
  then show "e \<in> known_events d" using affected_pos_iff [of "\<lambda>x. e_ID x = e" "id_events d"] by (auto simp: known_events_def)
qed (use assms in \<open>auto simp: beginAuthorized_def active_admin_def IsAdmin_def FindOrganizerByID_def
  split: option.splits if_splits dest!: select_row_SomeD\<close>)

text \<open>The three statements that move the ownership, before the audit entry.\<close>

lemma moves_ownership:
  assumes own: "one_owner d" "e \<in> known_events d" "select_row (is_owner_row e) (id_memberships d) = Some m" "mb_user_id m \<noteq> new"
    and demote: "set_role (\<lambda>x. member_of e (mb_user_id m) x \<and> mb_role x = ''owner'') ''cohost'' g now d = Inr d1"
    and promote: "set_role (member_of e new) ''owner'' g now d1 = Inr d2"
    and ins: "(if affected (member_of e new) (id_memberships d1) = 0
       then or_err (insert_membership (granted_row mid e new ''owner'' g now) d2) err else Inr d2) = Inr d3"
  shows "one_owner d3 \<and> owner_of e d3 = Some new \<and> (\<exists>x \<in> set (id_memberships d3). member_of e (mb_user_id m) x \<and> mb_role x = ''cohost'') \<and>
    elsewhere e (id_memberships d3) = elsewhere e (id_memberships d) \<and> id_events d3 = id_events d \<and> id_users d3 = id_users d"
proof -
  have at_e: "(\<And>x. member_of e (mb_user_id m) x \<and> mb_role x = ''owner'' \<Longrightarrow> mb_event_id x = e)" "(\<And>x. member_of e new x \<Longrightarrow> mb_event_id x = e)"
    by (simp_all add: member_of_def)
  obtain f where f: "id_memberships d1 = update_where (\<lambda>x. member_of e (mb_user_id m) x \<and> mb_role x = ''owner'') f (id_memberships d)"
    "\<forall>x. mb_event_id (f x) = mb_event_id x \<and> mb_user_id (f x) = mb_user_id x \<and> mb_role (f x) = ''cohost''"
    "elsewhere e (id_memberships d1) = elsewhere e (id_memberships d)" using set_role_effect(1) [OF demote at_e(1)] by blast
  obtain h where h: "id_memberships d2 = update_where (member_of e new) h (id_memberships d1)"
    "\<forall>x. mb_event_id (h x) = mb_event_id x \<and> mb_user_id (h x) = mb_user_id x \<and> mb_role (h x) = ''owner''"
    "elsewhere e (id_memberships d2) = elsewhere e (id_memberships d1)" using set_role_effect(1) [OF promote at_e(2)] by blast
  have m: "m \<in> set (id_memberships d)" "is_owner_row e m" using select_row_SomeD [OF own(3)] by auto
  have "f m \<in> set (id_memberships d1)" unfolding f(1) set_update_where
    using m by (intro image_eqI [of _ _ m]) (simp_all add: member_of_def is_owner_row_def)
  then have fm: "f m \<in> set (id_memberships d2)" unfolding h(1) set_update_where
    using own(4) f(2) by (intro image_eqI [of _ _ "f m"]) (simp_all add: member_of_def)
  have tables: "id_events d2 = id_events d" "id_users d2 = id_users d" "distinct (map mb_event_id (owner_rows d2))"
    using set_role_effect(2-4) [OF demote at_e(1)] set_role_effect(2-4) [OF promote at_e(2)] by simp_all
  have d3: "id_events d3 = id_events d" "id_users d3 = id_users d" "distinct (map mb_event_id (owner_rows d3))"
    "elsewhere e (id_memberships d3) = elsewhere e (id_memberships d)" "f m \<in> set (id_memberships d3)"
    "\<exists>x \<in> set (id_memberships d3). is_owner_row e x \<and> mb_user_id x = new"
  proof -
    consider (promoted) "affected (member_of e new) (id_memberships d1) \<noteq> 0" "d3 = d2"
      | (inserted) "insert_membership (granted_row mid e new ''owner'' g now) d2 = Some d3"
      using ins by (auto split: if_splits)
    then have "id_events d3 = id_events d \<and> id_users d3 = id_users d \<and> distinct (map mb_event_id (owner_rows d3)) \<and>
      elsewhere e (id_memberships d3) = elsewhere e (id_memberships d) \<and> f m \<in> set (id_memberships d3) \<and>
      (\<exists>x \<in> set (id_memberships d3). is_owner_row e x \<and> mb_user_id x = new)"
    proof cases
      case promoted
      then obtain x where x: "x \<in> set (id_memberships d1)" "member_of e new x"
        using affected_pos_iff [of "member_of e new" "id_memberships d1"] by auto
      then have "h x \<in> set (id_memberships d2)" unfolding h(1) set_update_where by (intro image_eqI [of _ _ x]) simp_all
      then have "\<exists>y \<in> set (id_memberships d2). is_owner_row e y \<and> mb_user_id y = new"
        using x(2) h(2) by (intro bexI [of _ "h x"]) (auto simp: is_owner_row_def member_of_def)
      then show ?thesis using promoted(2) tables f(3) h(3) fm by simp
    next
      case inserted
      then show ?thesis using tables f(3) h(3) fm
        by (auto simp: insert_membership_def granted_row_def elsewhere_def owner_rows_def is_owner_row_def add_row_def list_ex_iff split: if_splits)
    qed
    then show "id_events d3 = id_events d" "id_users d3 = id_users d" "distinct (map mb_event_id (owner_rows d3))"
      "elsewhere e (id_memberships d3) = elsewhere e (id_memberships d)" "f m \<in> set (id_memberships d3)"
      "\<exists>x \<in> set (id_memberships d3). is_owner_row e x \<and> mb_user_id x = new" by simp_all
  qed
  obtain x where x: "x \<in> set (id_memberships d3)" "is_owner_row e x" "mb_user_id x = new" using d3(6) by blast
  have "one_owner d3" by (rule one_owner_elsewhere [OF own(1,2) d3(1,4,3) x(1,2)])
  moreover have "owner_of e d3 = Some new" using owner_unique [OF d3(3) x(1,2)] x(3) by simp
  moreover have "member_of e (mb_user_id m) (f m) \<and> mb_role (f m) = ''cohost''" using f(2) m(2) by (simp add: member_of_def is_owner_row_def)
  ultimately show ?thesis using d3 by blast
qed

text \<open>
  A transfer moves the ownership of one event and nothing else. Only an active administrator can
  transfer, and only to an active user. Afterwards the event has exactly one owner, the new one, the
  previous owner is a co-host, and the memberships of other events, the events and the users are what they were.
\<close>

theorem transfer_moves_ownership:
  assumes "TransferOwnership uuid now actor e new d = Inr d'" "one_owner d"
  shows "(\<exists>p \<in> set (id_users d). active_admin p \<and> map_option u_ID actor = Some (u_ID p)) \<and>
    (\<exists>u \<in> set (id_users d). u_ID u = new \<and> u_Status u = ''active'') \<and>
    one_owner d' \<and> owner_of e d' = Some new \<and>
    (\<forall>old. owner_of e d = Some old \<and> old \<noteq> new \<longrightarrow> (\<exists>x \<in> set (id_memberships d'). member_of e old x \<and> mb_role x = ''cohost'')) \<and>
    elsewhere e (id_memberships d') = elsewhere e (id_memberships d) \<and> id_events d' = id_events d \<and> id_users d' = id_users d"
proof -
  obtain p u m where s: "beginAuthorized actor e d = Inr p" "FindOrganizerByID new d = Some u" "u_Status u = ''active''"
    "select_row (is_owner_row e) (id_memberships d) = Some m"
    using assms(1) by (auto simp: TransferOwnership_def)
  note p = begin_authorized [OF s(1)]
  have u: "u \<in> set (id_users d)" "u_ID u = new" using s(2) by (auto simp: FindOrganizerByID_def dest!: select_row_SomeD)
  have old: "owner_of e d = Some (mb_user_id m)" by (simp add: owner_of_def s(4))
  have "one_owner d' \<and> owner_of e d' = Some new \<and>
    (mb_user_id m \<noteq> new \<longrightarrow> (\<exists>x \<in> set (id_memberships d'). member_of e (mb_user_id m) x \<and> mb_role x = ''cohost'')) \<and>
    elsewhere e (id_memberships d') = elsewhere e (id_memberships d) \<and> id_events d' = id_events d \<and> id_users d' = id_users d"
  proof (cases "mb_user_id m = new")
    case True
    then show ?thesis using assms s old by (auto simp: TransferOwnership_def)
  next
    case False
    obtain d1 d2 d3 where t: "set_role (\<lambda>x. member_of e (mb_user_id m) x \<and> mb_role x = ''owner'') ''cohost'' (u_ID p) now d = Inr d1"
      "set_role (member_of e new) ''owner'' (u_ID p) now d1 = Inr d2"
      "(if affected (member_of e new) (id_memberships d1) = 0
        then or_err (insert_membership (granted_row (uuid 0) e new ''owner'' (u_ID p) now) d2) (EaInternal (IdInternal ''create new owner membership''))
        else Inr d2) = Inr d3"
      "AuditTx (uuid 1) (Some (u_ID p)) ''user'' ''event_ownership_transferred'' (Some new) (Some e)
        [(''fromUserId'', mb_user_id m), (''toUserId'', new)] now d3 = Inr d'"
      using assms(1) s False by (auto simp: TransferOwnership_def Let_def)
    obtain a where "d' = d3\<lparr>id_audit := a\<rparr>" using AuditTx_effect [OF t(4)] by blast
    then have "one_owner d' = one_owner d3" "owner_of e d' = owner_of e d3" "id_memberships d' = id_memberships d3"
      "id_events d' = id_events d3" "id_users d' = id_users d3"
      by (simp_all add: one_owner_def owner_rows_def owner_of_def)
    then show ?thesis using moves_ownership [OF assms(2) p(4) s(4) False t(1-3)] by simp
  qed
  then show ?thesis using p(1-3) u s(3) old by auto
qed

end
