(* ===== verification/Account_Routes.thy ===== *)
theory Account_Routes
  imports Account_Handler Instance_Safety
begin

text \<open>
  What the routes of accounts guarantee: deleting an account removes every trace of the user and nothing
  of others, and the routes of administrators do nothing for anybody else.
\<close>

section \<open>Deletion of an account\<close>

text \<open>Under one owner per event, the events of a user are those it is the owner of.\<close>

lemma owned_by_iff: "one_owner d \<Longrightarrow> owned_by u d i \<longleftrightarrow> owner_of i d = Some u"
proof
  assume wf: "one_owner d" and "owned_by u d i"
  then obtain m where m: "m \<in> set (id_memberships d)" "mb_event_id m = i" "mb_user_id m = u" "mb_role m = ''owner''"
    by (auto simp: owned_by_def list_ex_iff)
  then show "owner_of i d = Some u" using owner_unique [of d m i] wf by (simp add: one_owner_alt is_owner_row_def)
next
  assume "owner_of i d = Some u"
  then show "owned_by u d i" by (auto simp: owner_of_def owned_by_def list_ex_iff is_owner_row_def dest!: select_row_SomeD)
qed

lemma select_row_delete: "(\<And>m. m \<in> set ms \<Longrightarrow> p m \<Longrightarrow> \<not> q m) \<Longrightarrow> select_row p (delete_where q ms) = select_row p ms"
  by (induction ms) (auto simp: select_row_def delete_where_def)

text \<open>The owner of an event that stays, after each of the statements.\<close>

lemma owner_after_cascade: "\<not> gone i \<Longrightarrow> owner_of i (cascade_event gone d) = owner_of i d"
  by (auto simp: owner_of_def cascade_event_def is_owner_row_def intro!: arg_cong [where f = "map_option mb_user_id"] select_row_delete)

lemma owner_in_gone: "gone i \<Longrightarrow> owner_of i (cascade_event gone d) = None"
  by (auto simp: owner_of_def cascade_event_def is_owner_row_def select_row_None_iff delete_where_def)

lemma owner_after_regrant:
  assumes "regrant u d = Inr d'"
  shows "owner_of i d' = owner_of i d"
proof -
  let ?f = "\<lambda>m. m\<lparr>mb_granted_by_user_id := the (owner_of (mb_event_id m) d)\<rparr>"
  have "id_memberships d' = update_where (granted_by u) ?f (id_memberships d)" using assms by (auto simp: regrant_def split: if_splits)
  moreover have "map_option mb_user_id (select_row (is_owner_row i) (update_where (granted_by u) ?f ms)) = map_option mb_user_id (select_row (is_owner_row i) ms)" for ms
    by (induction ms) (auto simp: select_row_def is_owner_row_def)
  ultimately show ?thesis by (simp add: owner_of_def)
qed

lemma owner_known:
  assumes "one_owner d" "i \<in> known_events d"
  shows "\<exists>u. owner_of i d = Some u"
proof -
  obtain m where "m \<in> set (id_memberships d)" "is_owner_row i m"
    using assms by (auto simp: one_owner_alt owner_rows_def is_owner_row_def dest!: equalityD2 [THEN subsetD])
  then show ?thesis using owner_unique assms(1) unfolding one_owner_alt by blast
qed

lemma regrant_succeeds:
  assumes "one_owner d" "\<forall>m \<in> set (id_memberships d). mb_event_id m \<in> known_events d"
  obtains d' where "regrant u (cascade_event (owned_by u d) d) = Inr d'"
proof -
  have "owner_of (mb_event_id m) (cascade_event (owned_by u d) d) \<noteq> None" if "m \<in> set (id_memberships (cascade_event (owned_by u d) d))" for m
  proof -
    have "m \<in> set (id_memberships d)" "\<not> owned_by u d (mb_event_id m)" using that by (simp_all add: cascade_event_def)
    then show ?thesis using owner_after_cascade owner_known [OF assms(1)] assms(2) by fastforce
  qed
  then show thesis using that by (auto simp: regrant_def list_ex_iff)
qed

lemma regrant_rows:
  assumes "regrant u d = Inr d'" "m \<in> set (id_memberships d')"
  shows "\<exists>m0 \<in> set (id_memberships d). mb_event_id m0 = mb_event_id m \<and> mb_user_id m0 = mb_user_id m \<and> mb_role m0 = mb_role m"
proof -
  have "id_memberships d' = update_where (granted_by u) (\<lambda>m. m\<lparr>mb_granted_by_user_id := the (owner_of (mb_event_id m) d)\<rparr>) (id_memberships d)"
    using assms(1) by (auto simp: regrant_def split: if_splits)
  then show ?thesis using assms(2) by (force simp: set_update_where)
qed

text \<open>The tables after the deletion.\<close>

lemma owner_rows_left:
  assumes "\<And>m. m \<in> set ms \<Longrightarrow> mb_role m = ''owner'' \<Longrightarrow> mb_user_id m = u \<Longrightarrow> gone (mb_event_id m)"
    and "\<And>m. mb_event_id (f m) = mb_event_id m \<and> mb_user_id (f m) = mb_user_id m \<and> mb_role (f m) = mb_role m"
  shows "map mb_event_id (filter (\<lambda>m. mb_role m = ''owner'') (delete_where (\<lambda>m. mb_user_id m = u) (update_where g f (delete_where (\<lambda>m. gone (mb_event_id m)) ms)))) =
    filter (\<lambda>i. \<not> gone i) (map mb_event_id (filter (\<lambda>m. mb_role m = ''owner'') ms))"
  using assms(1) by (induction ms) (auto simp: delete_where_def assms(2))

lemma deleted_tables:
  assumes "regrant u (cascade_event (owned_by u d) d) = Inr d2" "d' = delete_user_row u (delete_account_rows u (delete_series_of u d2))"
  shows "map e_ID (id_events d') = filter (\<lambda>i. \<not> owned_by u d i) (map e_ID (id_events d))"
    "map mb_event_id (owner_rows d') = filter (\<lambda>i. \<not> owned_by u d i) (map mb_event_id (owner_rows d))"
    "map u_ID (id_users d') = filter (\<lambda>i. i \<noteq> u) (map u_ID (id_users d))"
proof -
  let ?d1 = "cascade_event (owned_by u d) d"
  let ?f = "\<lambda>m. m\<lparr>mb_granted_by_user_id := the (owner_of (mb_event_id m) ?d1)\<rparr>"
  have d2: "d2 = ?d1\<lparr>id_memberships := update_where (granted_by u) ?f (id_memberships ?d1)\<rparr>"
    using assms(1) by (auto simp: regrant_def split: if_splits)
  have "map e_ID (id_events d') = map e_ID (delete_where (\<lambda>r. owned_by u d (e_ID r)) (id_events d))"
    unfolding assms(2) d2 by (simp add: delete_user_row_def delete_account_rows_def delete_series_of_def cascade_event_def Let_def map_update_where)
  then show "map e_ID (id_events d') = filter (\<lambda>i. \<not> owned_by u d i) (map e_ID (id_events d))"
    by (simp add: delete_where_def filter_map comp_def)
  have "id_memberships d' = delete_where (\<lambda>m. mb_user_id m = u) (update_where (granted_by u) ?f (delete_where (\<lambda>m. owned_by u d (mb_event_id m)) (id_memberships d)))"
    unfolding assms(2) d2 by (simp add: delete_user_row_def delete_account_rows_def delete_series_of_def cascade_event_def Let_def)
  then show "map mb_event_id (owner_rows d') = filter (\<lambda>i. \<not> owned_by u d i) (map mb_event_id (owner_rows d))"
    unfolding owner_rows_def using owner_rows_left [of "id_memberships d" u "owned_by u d" ?f "granted_by u"]
    by (auto simp: owned_by_def list_ex_iff)
  have "id_users d' = delete_where (\<lambda>x. u_ID x = u) (update_where (\<lambda>x. u_InvitedByUserID x = Some u) (\<lambda>x. x\<lparr>u_InvitedByUserID := None\<rparr>) (id_users d))"
    unfolding assms(2) d2 by (simp add: delete_user_row_def delete_account_rows_def delete_series_of_def cascade_event_def Let_def)
  moreover have "map u_ID (delete_where (\<lambda>x. u_ID x = u) xs) = filter (\<lambda>i. i \<noteq> u) (map u_ID xs)" for xs :: "User list"
    by (simp add: delete_where_def filter_map comp_def)
  ultimately show "map u_ID (id_users d') = filter (\<lambda>i. i \<noteq> u) (map u_ID (id_users d))" by (simp add: map_update_where)
qed

lemma no_trace:
  assumes "regrant u (cascade_event (owned_by u d) d) = Inr d2" "d' = delete_user_row u (delete_account_rows u (delete_series_of u d2))" "one_owner d"
  shows "\<forall>m \<in> set (id_memberships d'). mb_user_id m \<noteq> u \<and> mb_granted_by_user_id m \<noteq> u"
    "\<forall>x \<in> set (id_sessions d'). se_OrganizerID x \<noteq> u" "\<forall>x \<in> set (id_magic_links d'). ml_OrganizerID x \<noteq> u"
    "\<forall>x \<in> set (id_invites d'). ai_TargetUserID x \<noteq> u \<and> ai_InvitedByUserID x \<noteq> u" "\<forall>x \<in> set (id_series d'). es_OrganizerID x \<noteq> u"
    "\<forall>x \<in> set (id_users d'). u_ID x \<noteq> u \<and> u_InvitedByUserID x \<noteq> Some u"
    "\<forall>x \<in> set (id_audit d'). ae_ActorUserID x \<noteq> Some u \<and> ae_TargetUserID x \<noteq> Some u"
proof -
  let ?d1 = "cascade_event (owned_by u d) d"
  have d2: "d2 = ?d1\<lparr>id_memberships := update_where (granted_by u) (\<lambda>m. m\<lparr>mb_granted_by_user_id := the (owner_of (mb_event_id m) ?d1)\<rparr>) (id_memberships ?d1)\<rparr>"
    and some: "\<forall>m \<in> set (id_memberships ?d1). granted_by u m \<longrightarrow> owner_of (mb_event_id m) ?d1 \<noteq> None"
    using assms(1) by (auto simp: regrant_def list_ex_iff split: if_splits)
  have new: "the (owner_of (mb_event_id m) ?d1) \<noteq> u" if m: "m \<in> set (id_memberships ?d1)" "granted_by u m" for m
  proof -
    obtain w where w: "owner_of (mb_event_id m) ?d1 = Some w" using some m by blast
    moreover have "\<not> owned_by u d (mb_event_id m)" using m(1) by (simp add: cascade_event_def)
    ultimately have "owner_of (mb_event_id m) d = Some w" using owner_after_cascade by metis
    then show ?thesis using w \<open>\<not> owned_by u d (mb_event_id m)\<close> owned_by_iff [OF assms(3)] by auto
  qed
  have "mb_granted_by_user_id m \<noteq> u" if m: "m \<in> set (id_memberships d2)" "mb_user_id m \<noteq> u" for m
  proof -
    obtain x where x: "x \<in> set (id_memberships ?d1)" "m = (if granted_by u x then x\<lparr>mb_granted_by_user_id := the (owner_of (mb_event_id x) ?d1)\<rparr> else x)"
      using m(1) unfolding d2 by (auto simp: set_update_where)
    show ?thesis
    proof (cases "granted_by u x")
      case True
      then show ?thesis using x new by simp
    next
      case False
      then have "m = x" using x(2) by simp
      then show ?thesis using False m(2) by (simp add: granted_by_def)
    qed
  qed
  then show "\<forall>m \<in> set (id_memberships d'). mb_user_id m \<noteq> u \<and> mb_granted_by_user_id m \<noteq> u"
    by (simp add: assms(2) delete_user_row_def delete_account_rows_def delete_series_of_def Let_def)
qed (auto simp: assms(2) delete_user_row_def delete_account_rows_def delete_series_of_def Let_def set_update_where)


text \<open>
  The deletion does not ask whether the user is the last administrator, as the changes of status and role do:
  afterwards nobody can administer the instance, and setup is refused.
\<close>

lemma last_admin_can_leave:
  assumes "one_owner d" "\<forall>m \<in> set (id_memberships d). mb_event_id m \<in> known_events d"
    and "\<forall>x \<in> set (id_users d). active_admin x \<longrightarrow> u_ID x = u"
  shows "\<exists>d'. DeleteOrganizerCascade u d = Inr d' \<and> CountActiveAdminsTx d' = 0"
proof -
  obtain d2 where d2: "regrant u (cascade_event (owned_by u d) d) = Inr d2" using regrant_succeeds [OF assms(1,2)] by blast
  then have us: "id_users d2 = id_users d" by (auto simp: regrant_def cascade_event_def split: if_splits)
  let ?d' = "delete_user_row u (delete_account_rows u (delete_series_of u d2))"
  have "\<not> active_admin x" if x: "x \<in> set (id_users ?d')" for x
  proof -
    obtain y where "y \<in> set (id_users d)" "u_ID x = u_ID y" "u_InstanceRole x = u_InstanceRole y" "u_Status x = u_Status y" "u_ID x \<noteq> u"
      using x by (auto simp: delete_user_row_def delete_account_rows_def delete_series_of_def Let_def set_update_where us)
    then show ?thesis using assms(3) by (auto simp: active_admin_def)
  qed
  then have "CountActiveAdminsTx ?d' = 0" by (auto simp: CountActiveAdminsTx_def affected_zero_iff)
  then show ?thesis by (auto simp: DeleteOrganizerCascade_def d2)
qed

section \<open>Routes of administrators\<close>

text \<open>Sessions may only disappear.\<close>

definition only_sessions_end :: "idb \<Rightarrow> idb \<Rightarrow> bool" where
  "only_sessions_end d d' \<longleftrightarrow> d' = d\<lparr>id_sessions := id_sessions d'\<rparr> \<and> set (id_sessions d') \<subseteq> set (id_sessions d)"

lemma require_auth:
  assumes "RequireAuth rt now r d = (d', u)"
  shows "only_sessions_end d d'" "\<And>x. u = Some x \<Longrightarrow> d' = d \<and> x \<in> set (id_users d) \<and> u_Status x = ''active'' \<and>
    (\<exists>s \<in> set (id_sessions d). se_TokenHash s = auth_hashToken rt (extractToken r) \<and> se_OrganizerID s = u_ID x \<and> now \<le> se_ExpiresAt s)"
  using assms
  by (auto simp: RequireAuth_def ValidateSession_def only_sessions_end_def DeleteSession_def FindSessionByHash_def FindOrganizerByID_def Let_def
    split: if_splits option.splits prod.splits sum.splits dest!: select_row_SomeD)

text \<open>
  The routes of administrators serve administrators only. A request whose token is no live session of an active
  administrator is answered with 401 or 403, sends no mail, and changes nothing but that an expired
  session may end. What a served request asks for is done in the name of the user of its session.
\<close>

theorem admin_routes_guarded:
  assumes "admin_handle rt s now clk uuid rand ref r rq d = (d', mails, resp)"
  shows "(\<exists>u \<in> set (id_users d). active_admin u \<and> (\<exists>x \<in> set (id_sessions d). se_TokenHash x = auth_hashToken rt (extractToken r) \<and>
        se_OrganizerID x = u_ID u \<and> now \<le> se_ExpiresAt x) \<and> (d', mails, resp) = admin_serve rt s clk uuid rand ref rq (Some u) d) \<or>
    (only_sessions_end d d' \<and> mails = [] \<and> (\<exists>status code. resp = AdError status code [] \<and> status \<in> {401, 403}))"
proof -
  obtain d1 u where ra: "RequireAuth rt now r d = (d1, u)" by fastforce
  show ?thesis
  proof (cases u)
    case None
    then show ?thesis using assms ra require_auth(1) [OF ra] by (auto simp: admin_handle_def)
  next
    case (Some x)
    note x = require_auth(2) [OF ra Some]
    show ?thesis
    proof (cases "IsAdmin x")
      case True
      then have "active_admin x" using x by (simp add: active_admin_def IsAdmin_def)
      moreover have "(d', mails, resp) = admin_serve rt s clk uuid rand ref rq (Some x) d"
        using assms ra Some x True by (simp add: admin_handle_def RequireAdmin_def)
      ultimately show ?thesis using x by auto
    next
      case False
      then show ?thesis using assms ra Some require_auth(1) [OF ra] by (auto simp: admin_handle_def RequireAdmin_def)
    qed
  qed
qed

end
