(* ===== verification/Webhook.thy ===== *)
theory Webhook
  imports Reminders
begin

text \<open>
  Webhooks (\<open>internal/webhook\<close>): registration with its limits and secrets, the store of webhooks and
  deliveries, the dispatcher with signatures, retries and the refusal of private addresses, and the routes.
\<close>

unbundle bit_operations_syntax

section \<open>Data\<close>

definition ValidEventTypes :: "string list" where
  "ValidEventTypes = [''event.published'', ''event.cancelled'']"

record Webhook =
  wh_ID :: id
  wh_EventID :: id
  wh_URL :: string
  wh_Secret :: string
  wh_EventTypes :: "string list"
  wh_Description :: string
  wh_Enabled :: bool
  wh_CreatedAt :: time
  wh_UpdatedAt :: time

record CreateWebhookRequest =
  cwr_URL :: string
  cwr_EventTypes :: "string list"
  cwr_Description :: string

record UpdateWebhookRequest =
  uwr_URL :: "string option"
  uwr_EventTypes :: "string list option"
  uwr_Description :: "string option"
  uwr_Enabled :: "bool option"

record Delivery =
  dl_ID :: id
  dl_WebhookID :: id
  dl_EventType :: string
  dl_Payload :: string
  dl_ResponseStatus :: "int option"
  dl_ResponseBody :: "string option"
  dl_Error :: "string option"
  dl_Attempt :: nat
  dl_DeliveredAt :: "time option"
  dl_CreatedAt :: time

record wdb =
  wd_webhooks :: "Webhook list"
  wd_deliveries :: "Delivery list"

section \<open>The store\<close>

text \<open>
  The list of event types is stored as JSON and read back as it was. Events exist in the other
  tables: \<open>k\<close> gives their identifiers.
\<close>

definition StoreCreateWebhook :: "id set \<Rightarrow> time \<Rightarrow> Webhook \<Rightarrow> wdb \<Rightarrow> string + (wdb \<times> Webhook)" where
  "StoreCreateWebhook k now w d =
    (let w = w\<lparr>wh_CreatedAt := trunc_sec now, wh_UpdatedAt := trunc_sec now\<rparr> in
     if wh_ID w \<in> wh_ID ` set (wd_webhooks d) \<or> wh_EventID w \<notin> k then Inl ''create webhook''
     else Inr (d\<lparr>wd_webhooks := add_row w (wd_webhooks d)\<rparr>, w))"

definition FindWebhookByID :: "id \<Rightarrow> wdb \<Rightarrow> Webhook option" where
  "FindWebhookByID i d = select_row (\<lambda>w. wh_ID w = i) (wd_webhooks d)"

definition FindWebhooksByEventID :: "id \<Rightarrow> wdb \<Rightarrow> Webhook list" where
  "FindWebhooksByEventID eventID d = order_by (\<lambda>a b. wh_CreatedAt a < wh_CreatedAt b) (filter (\<lambda>w. wh_EventID w = eventID) (wd_webhooks d))"

definition FindEnabledByEventAndType :: "id \<Rightarrow> string \<Rightarrow> wdb \<Rightarrow> Webhook list" where
  "FindEnabledByEventAndType eventID eventType d =
    filter (\<lambda>w. eventType \<in> set (wh_EventTypes w)) (filter (\<lambda>w. wh_EventID w = eventID \<and> wh_Enabled w) (wd_webhooks d))"

definition StoreUpdateWebhook :: "time \<Rightarrow> Webhook \<Rightarrow> wdb \<Rightarrow> wdb \<times> Webhook" where
  "StoreUpdateWebhook now w d =
    (d\<lparr>wd_webhooks := update_where (\<lambda>x. wh_ID x = wh_ID w) (\<lambda>x. x\<lparr>wh_URL := wh_URL w, wh_Secret := wh_Secret w, wh_EventTypes := wh_EventTypes w,
         wh_Description := wh_Description w, wh_Enabled := wh_Enabled w, wh_UpdatedAt := trunc_sec now\<rparr>) (wd_webhooks d)\<rparr>,
     w\<lparr>wh_UpdatedAt := trunc_sec now\<rparr>)"

definition StoreDeleteWebhook :: "id \<Rightarrow> wdb \<Rightarrow> wdb" where
  "StoreDeleteWebhook i d = d\<lparr>wd_webhooks := delete_where (\<lambda>w. wh_ID w = i) (wd_webhooks d),
     wd_deliveries := delete_where (\<lambda>x. dl_WebhookID x = i) (wd_deliveries d)\<rparr>"

definition CountWebhooksByEvent :: "id \<Rightarrow> wdb \<Rightarrow> nat" where
  "CountWebhooksByEvent eventID d = affected (\<lambda>w. wh_EventID w = eventID) (wd_webhooks d)"

definition CreateDelivery :: "time \<Rightarrow> Delivery \<Rightarrow> wdb \<Rightarrow> string + (wdb \<times> Delivery)" where
  "CreateDelivery now x d =
    (let x = x\<lparr>dl_CreatedAt := trunc_sec now\<rparr> in
     if dl_ID x \<in> dl_ID ` set (wd_deliveries d) \<or> dl_WebhookID x \<notin> wh_ID ` set (wd_webhooks d) then Inl ''create delivery''
     else Inr (d\<lparr>wd_deliveries := add_row (x\<lparr>dl_DeliveredAt := map_option trunc_sec (dl_DeliveredAt x)\<rparr>) (wd_deliveries d)\<rparr>, x))"

definition UpdateDelivery :: "Delivery \<Rightarrow> wdb \<Rightarrow> wdb" where
  "UpdateDelivery x d = d\<lparr>wd_deliveries := update_where (\<lambda>y. dl_ID y = dl_ID x) (\<lambda>y. y\<lparr>dl_ResponseStatus := dl_ResponseStatus x,
     dl_ResponseBody := dl_ResponseBody x, dl_Error := dl_Error x, dl_Attempt := dl_Attempt x,
     dl_DeliveredAt := map_option trunc_sec (dl_DeliveredAt x)\<rparr>) (wd_deliveries d)\<rparr>"

definition FindDeliveriesByWebhook :: "id \<Rightarrow> nat \<Rightarrow> wdb \<Rightarrow> Delivery list" where
  "FindDeliveriesByWebhook i limit d =
    take limit (order_by (\<lambda>a b. dl_CreatedAt b < dl_CreatedAt a) (filter (\<lambda>x. dl_WebhookID x = i) (wd_deliveries d)))"

section \<open>Addresses\<close>

definition privateRanges :: "ip_net list" where
  "privateRanges =
    [\<lparr> net_IP = [10, 0, 0, 0], net_Mask = [255, 0, 0, 0] \<rparr>,
     \<lparr> net_IP = [172, 16, 0, 0], net_Mask = [255, 240, 0, 0] \<rparr>,
     \<lparr> net_IP = [192, 168, 0, 0], net_Mask = [255, 255, 0, 0] \<rparr>,
     \<lparr> net_IP = [127, 0, 0, 0], net_Mask = [255, 0, 0, 0] \<rparr>,
     \<lparr> net_IP = [169, 254, 0, 0], net_Mask = [255, 255, 0, 0] \<rparr>,
     \<lparr> net_IP = [0, 0, 0, 0], net_Mask = [255, 0, 0, 0] \<rparr>,
     \<lparr> net_IP = replicate 15 0 @ [1], net_Mask = replicate 16 255 \<rparr>,
     \<lparr> net_IP = 252 # replicate 15 0, net_Mask = 254 # replicate 15 0 \<rparr>,
     \<lparr> net_IP = [254, 128] @ replicate 14 0, net_Mask = [255, 192] @ replicate 14 0 \<rparr>]"

text \<open>The predicates of \<open>net.IP\<close>.\<close>

definition IsUnspecified :: "ip \<Rightarrow> bool" where
  "IsUnspecified x \<longleftrightarrow> to4 x = Some [0, 0, 0, 0] \<or> x = replicate 16 0"

definition IsLoopback :: "ip \<Rightarrow> bool" where
  "IsLoopback x = (case to4 x of Some v \<Rightarrow> v ! 0 = 127 | None \<Rightarrow> x = replicate 15 0 @ [1])"

definition IsLinkLocalUnicast :: "ip \<Rightarrow> bool" where
  "IsLinkLocalUnicast x = (case to4 x of Some v \<Rightarrow> v ! 0 = 169 \<and> v ! 1 = 254
     | None \<Rightarrow> length x = 16 \<and> x ! 0 = 254 \<and> x ! 1 AND 192 = 128)"

definition IsLinkLocalMulticast :: "ip \<Rightarrow> bool" where
  "IsLinkLocalMulticast x = (case to4 x of Some v \<Rightarrow> v ! 0 = 224 \<and> v ! 1 = 0 \<and> v ! 2 = 0
     | None \<Rightarrow> length x = 16 \<and> x ! 0 = 255 \<and> x ! 1 AND 15 = 2)"

definition isPrivateIP :: "ip option \<Rightarrow> bool" where
  "isPrivateIP x = (case x of
      None \<Rightarrow> True
    | Some a \<Rightarrow> IsUnspecified a \<or> IsLoopback a \<or> IsLinkLocalUnicast a \<or> IsLinkLocalMulticast a \<or> list_ex (\<lambda>n. net_contains n a) privateRanges)"

text \<open>The address that the dialer connects to; \<open>lookup\<close> is the resolver.\<close>

definition ssrfSafeDialer :: "netlib \<Rightarrow> (string \<Rightarrow> ip list option) \<Rightarrow> string \<Rightarrow> string + (ip \<times> string)" where
  "ssrfSafeDialer nl lookup addr = (case split_host_port addr of
      None \<Rightarrow> Inl ''invalid address''
    | Some (host, port) \<Rightarrow> (case lookup host of
         None \<Rightarrow> Inl ''DNS lookup failed''
       | Some [] \<Rightarrow> Inl ''no IP addresses found for host''
       | Some (a # as) \<Rightarrow> (case find (\<lambda>x. isPrivateIP (Some x)) (a # as) of
            Some x \<Rightarrow> Inl (''webhook URL resolves to private IP '' @ nl_ip_string nl x)
          | None \<Rightarrow> Inr (a, join_host_port (nl_ip_string nl a) port))))"

definition isValidWebhookURL :: "string \<Rightarrow> bool \<Rightarrow> bool" where
  "isValidWebhookURL rawURL requireHTTPS =
    (if rawURL = [] then False else if 2048 < length rawURL then False
     else if prefix ''https://'' rawURL then True
     else if prefix ''http://'' rawURL then \<not> requireHTTPS else False)"

section \<open>Delivery\<close>

definition maxResponseBodySize :: nat where "maxResponseBodySize = 4096"
definition maxRetries :: nat where "maxRetries = 3"

record wh_request =
  wq_URL :: string
  wq_Signature :: string
  wq_Event :: string
  wq_Delivery :: id
  wq_Body :: string

definition signed_request :: "'x runtime_scheme \<Rightarrow> Webhook \<Rightarrow> Delivery \<Rightarrow> string \<Rightarrow> wh_request" where
  "signed_request rt w x payload = \<lparr> wq_URL = wh_URL w, wq_Signature = ''sha256='' @ hex_encode (rt_hmac rt (wh_Secret w) payload),
     wq_Event = dl_EventType x, wq_Delivery = dl_ID x, wq_Body = payload \<rparr>"

text \<open>
  The client: which URLs make a request, what each attempt gives (an error, or status and body), and
  whether the context is still alive after the attempts below the given number.
\<close>

record wh_client =
  wc_accepts :: "string \<Rightarrow> bool"
  wc_Do :: "wh_request \<Rightarrow> nat \<Rightarrow> string + (int \<times> string)"
  wc_alive :: "nat \<Rightarrow> bool"

text \<open>
  The attempts from \<open>attempt\<close> on, at most \<open>n\<close>: the delivery, the requests made, and whether the
  context is alive at the end, without which the record is not written.
\<close>

fun deliver_loop ::
  "'x runtime_scheme \<Rightarrow> wh_client \<Rightarrow> (nat \<Rightarrow> time) \<Rightarrow> Webhook \<Rightarrow> string \<Rightarrow> nat \<Rightarrow> nat \<Rightarrow> string option \<Rightarrow> Delivery \<Rightarrow> Delivery \<times> wh_request list \<times> bool" where
  "deliver_loop rt c clk w payload attempt 0 lastErr x =
    ((case lastErr of None \<Rightarrow> x | Some e \<Rightarrow> x\<lparr>dl_Error := Some (''all 3 attempts failed: '' @ e)\<rparr>), [], wc_alive c attempt)"
| "deliver_loop rt c clk w payload attempt (Suc n) lastErr x =
    (let x = x\<lparr>dl_Attempt := attempt\<rparr>; rq = signed_request rt w x payload in
     if 1 < attempt \<and> \<not> wc_alive c attempt then (x\<lparr>dl_Error := Some ''context cancelled during backoff''\<rparr>, [], False)
     else if \<not> wc_accepts c (wh_URL w) then (x\<lparr>dl_Error := Some ''create request''\<rparr>, [], wc_alive c (Suc attempt))
     else case wc_Do c rq attempt of
       Inl err \<Rightarrow> (let (y, rqs, alive) = deliver_loop rt c clk w payload (Suc attempt) n (Some err) x in (y, rq # rqs, alive))
     | Inr (status, body) \<Rightarrow>
        (let x = x\<lparr>dl_ResponseStatus := Some status, dl_ResponseBody := Some (take maxResponseBodySize body)\<rparr> in
         if 200 \<le> status \<and> status < 300 then (x\<lparr>dl_DeliveredAt := Some (clk attempt), dl_Error := None\<rparr>, [rq], wc_alive c (Suc attempt))
         else if 400 \<le> status \<and> status < 500 then (x\<lparr>dl_Error := Some (''HTTP '' @ itoa status @ '' (not retryable)'')\<rparr>, [rq], wc_alive c (Suc attempt))
         else let (y, rqs, alive) = deliver_loop rt c clk w payload (Suc attempt) n (Some (''HTTP '' @ itoa status)) x in (y, rq # rqs, alive)))"

definition deliver_webhook ::
  "'x runtime_scheme \<Rightarrow> wh_client \<Rightarrow> (nat \<Rightarrow> time) \<Rightarrow> Webhook \<Rightarrow> string \<Rightarrow> Delivery \<Rightarrow> wdb \<Rightarrow> wdb \<times> Delivery \<times> wh_request list \<times> bool" where
  "deliver_webhook rt c clk w payload x d =
    (let (y, rqs, alive) = deliver_loop rt c clk w payload 1 maxRetries None x in
     (if alive then UpdateDelivery y d else d, y, rqs, alive))"

text \<open>The records of a dispatch; a webhook whose record cannot be written is skipped.\<close>

fun dispatch_records ::
  "(nat \<Rightarrow> id) \<Rightarrow> (nat \<Rightarrow> time) \<Rightarrow> nat \<Rightarrow> string \<Rightarrow> string \<Rightarrow> Webhook list \<Rightarrow> wdb \<Rightarrow> wdb \<times> (Webhook \<times> Delivery) list" where
  "dispatch_records uuid clk i eventType payload [] d = (d, [])"
| "dispatch_records uuid clk i eventType payload (w # ws) d =
    (case CreateDelivery (clk i) \<lparr> dl_ID = uuid i, dl_WebhookID = wh_ID w, dl_EventType = eventType, dl_Payload = payload, dl_ResponseStatus = None,
          dl_ResponseBody = None, dl_Error = None, dl_Attempt = 0, dl_DeliveredAt = None, dl_CreatedAt = 0 \<rparr> d of
       Inl _ \<Rightarrow> dispatch_records uuid clk (Suc i) eventType payload ws d
     | Inr (d', x) \<Rightarrow> (let (d'', jobs) = dispatch_records uuid clk (Suc i) eventType payload ws d' in (d'', (w, x) # jobs)))"

text \<open>
  The deliveries run beside each other, with a context that is never cancelled. Each writes its own row
  once, at its end, so that their order does not matter; \<open>clients\<close> gives what each of them meets.
\<close>

fun run_deliveries ::
  "'x runtime_scheme \<Rightarrow> (nat \<Rightarrow> wh_client) \<Rightarrow> (nat \<Rightarrow> nat \<Rightarrow> time) \<Rightarrow> nat \<Rightarrow> string \<Rightarrow> (Webhook \<times> Delivery) list \<Rightarrow> wdb \<Rightarrow> wdb \<times> wh_request list" where
  "run_deliveries rt clients clk i payload [] d = (d, [])"
| "run_deliveries rt clients clk i payload ((w, x) # jobs) d =
    (let (d, _, rqs, _) = deliver_webhook rt ((clients i)\<lparr>wc_alive := \<lambda>_. True\<rparr>) (clk i) w payload x d;
         (d, more_rqs) = run_deliveries rt clients clk (Suc i) payload jobs d in
     (d, rqs @ more_rqs))"

text \<open>\<open>marshal\<close> is the JSON of the payload at the given time.\<close>

definition Dispatch ::
  "'x runtime_scheme \<Rightarrow> (nat \<Rightarrow> wh_client) \<Rightarrow> (nat \<Rightarrow> id) \<Rightarrow> time \<Rightarrow> (nat \<Rightarrow> time) \<Rightarrow> (nat \<Rightarrow> nat \<Rightarrow> time) \<Rightarrow> (time \<Rightarrow> string option) \<Rightarrow>
   id \<Rightarrow> string \<Rightarrow> wdb \<Rightarrow> wdb \<times> wh_request list" where
  "Dispatch rt clients uuid now clk dclk marshal eventID eventType d =
    (let ws = FindEnabledByEventAndType eventID eventType d in
     if ws = [] then (d, [])
     else case marshal now of
       None \<Rightarrow> (d, [])
     | Some payload \<Rightarrow>
        (let (d, jobs) = dispatch_records uuid clk 0 eventType payload ws d in run_deliveries rt clients dclk 0 payload jobs d))"

section \<open>The service\<close>

definition maxWebhooksPerEvent :: nat where "maxWebhooksPerEvent = 10"

definition url_problem :: "bool \<Rightarrow> string" where
  "url_problem requireHTTPS = (if requireHTTPS then ''invalid webhook URL: must be an https:// URL''
     else ''invalid webhook URL: must be an http:// or https:// URL'')"

definition check_types :: "string list \<Rightarrow> string + unit" where
  "check_types ts =
    rbind (guard (ts \<noteq> []) ''at least one event type is required'') (\<lambda>_.
    case find (\<lambda>t. t \<notin> set ValidEventTypes) ts of None \<Rightarrow> Inr () | Some t \<Rightarrow> Inl (''invalid event type: '' @ t))"

definition generateSecret :: "string option \<Rightarrow> string option" where
  "generateSecret rand = map_option (\<lambda>b. ''whsec_'' @ hex_encode b) rand"

definition CreateWebhook ::
  "bool \<Rightarrow> id set \<Rightarrow> id \<Rightarrow> time \<Rightarrow> string option \<Rightarrow> id \<Rightarrow> CreateWebhookRequest \<Rightarrow> wdb \<Rightarrow> string + (wdb \<times> Webhook)" where
  "CreateWebhook requireHTTPS k uuid now rand eventID req d =
    (let url = trim_space (cwr_URL req) in
     rbind (guard (isValidWebhookURL url requireHTTPS) (url_problem requireHTTPS)) (\<lambda>_.
     rbind (check_types (cwr_EventTypes req)) (\<lambda>_.
     rbind (guard (CountWebhooksByEvent eventID d < maxWebhooksPerEvent) ''maximum 10 webhooks per event'') (\<lambda>_.
     rbind (or_err (generateSecret rand) ''generate secret'') (\<lambda>secret.
     StoreCreateWebhook k now \<lparr> wh_ID = uuid, wh_EventID = eventID, wh_URL = url, wh_Secret = secret, wh_EventTypes = cwr_EventTypes req,
       wh_Description = trim_space (cwr_Description req), wh_Enabled = True, wh_CreatedAt = 0, wh_UpdatedAt = 0 \<rparr> d)))))"

definition GetWebhook :: "id \<Rightarrow> wdb \<Rightarrow> string + Webhook" where
  "GetWebhook i d = or_err (FindWebhookByID i d) ''webhook not found''"

definition ListWebhooksByEvent :: "id \<Rightarrow> wdb \<Rightarrow> Webhook list" where
  "ListWebhooksByEvent eventID d = FindWebhooksByEventID eventID d"

definition UpdateWebhook :: "bool \<Rightarrow> time \<Rightarrow> id \<Rightarrow> UpdateWebhookRequest \<Rightarrow> wdb \<Rightarrow> string + (wdb \<times> Webhook)" where
  "UpdateWebhook requireHTTPS now i req d =
    rbind (GetWebhook i d) (\<lambda>w.
    rbind (case uwr_URL req of None \<Rightarrow> Inr w
      | Some raw \<Rightarrow> rbind (guard (isValidWebhookURL (trim_space raw) requireHTTPS) (url_problem requireHTTPS)) (\<lambda>_. Inr (w\<lparr>wh_URL := trim_space raw\<rparr>))) (\<lambda>w.
    rbind (case uwr_EventTypes req of None \<Rightarrow> Inr w | Some ts \<Rightarrow> rbind (check_types ts) (\<lambda>_. Inr (w\<lparr>wh_EventTypes := ts\<rparr>))) (\<lambda>w.
    Inr (StoreUpdateWebhook now (w\<lparr>wh_Description := (case uwr_Description req of None \<Rightarrow> wh_Description w | Some t \<Rightarrow> trim_space t),
      wh_Enabled := (case uwr_Enabled req of None \<Rightarrow> wh_Enabled w | Some b \<Rightarrow> b)\<rparr>) d))))"

definition DeleteWebhook :: "id \<Rightarrow> wdb \<Rightarrow> string + wdb" where
  "DeleteWebhook i d = rbind (GetWebhook i d) (\<lambda>_. Inr (StoreDeleteWebhook i d))"

definition RotateSecret :: "time \<Rightarrow> string option \<Rightarrow> id \<Rightarrow> wdb \<Rightarrow> string + (wdb \<times> Webhook)" where
  "RotateSecret now rand i d =
    rbind (GetWebhook i d) (\<lambda>w.
    rbind (or_err (generateSecret rand) ''generate secret'') (\<lambda>secret. Inr (StoreUpdateWebhook now (w\<lparr>wh_Secret := secret\<rparr>) d)))"

definition GetDeliveries :: "id \<Rightarrow> wdb \<Rightarrow> Delivery list" where
  "GetDeliveries i d = FindDeliveriesByWebhook i 100 d"

definition getDeliveryByID :: "id \<Rightarrow> wdb \<Rightarrow> Delivery option" where
  "getDeliveryByID i d = select_row (\<lambda>x. dl_ID x = i) (wd_deliveries d)"

definition SendTest ::
  "'x runtime_scheme \<Rightarrow> wh_client \<Rightarrow> id \<Rightarrow> time \<Rightarrow> (nat \<Rightarrow> time) \<Rightarrow> (time \<Rightarrow> string option) \<Rightarrow> id \<Rightarrow> wdb \<Rightarrow> wdb \<times> wh_request list \<times> (string + Delivery)" where
  "SendTest rt c uuid now clk marshal i d = (case GetWebhook i d of
      Inl e \<Rightarrow> (d, [], Inl e)
    | Inr w \<Rightarrow> (case marshal now of
         None \<Rightarrow> (d, [], Inl ''marshal test payload'')
       | Some payload \<Rightarrow> (case CreateDelivery (clk 0) \<lparr> dl_ID = uuid, dl_WebhookID = wh_ID w, dl_EventType = ''test'', dl_Payload = payload,
              dl_ResponseStatus = None, dl_ResponseBody = None, dl_Error = None, dl_Attempt = 0, dl_DeliveredAt = None, dl_CreatedAt = 0 \<rparr> d of
            Inl e \<Rightarrow> (d, [], Inl (''create test delivery: '' @ e))
          | Inr (d, x) \<Rightarrow>
             (let (d, y, rqs, alive) = deliver_webhook rt c clk w payload x d in
              (d, rqs, Inr (case (alive, getDeliveryByID uuid d) of (True, Some z) \<Rightarrow> z | _ \<Rightarrow> y))))))"

section \<open>The routes\<close>

datatype wh_response =
    WhSecret nat Webhook \<comment> \<open>status, webhook with its secret\<close>
  | WhHook Webhook
  | WhHooks "Webhook list"
  | WhDeliveries "Delivery list"
  | WhDelivery Delivery
  | WhDeleted
  | WhError nat string string

definition wh_internal :: "string \<Rightarrow> wh_response" where
  "wh_internal ref = WhError 500 ''internal_error'' (''an internal error occurred (ref: '' @ ref @ '')'')"

definition wh_bad :: "string \<Rightarrow> wh_response" where "wh_bad msg = WhError 400 ''bad_request'' msg"

text \<open>The checks of the user and the event, or of the webhook and its event; \<open>e\<close> holds the tables of events.\<close>

definition for_event :: "id option \<Rightarrow> id \<Rightarrow> idb \<Rightarrow> (wdb \<Rightarrow> wdb \<times> wh_response) \<Rightarrow> wdb \<Rightarrow> wdb \<times> wh_response" where
  "for_event organizer eventID e h d = (case organizer of
      None \<Rightarrow> (d, WhError 401 ''unauthorized'' ''authentication required'')
    | Some u \<Rightarrow> (case checkEventOwner eventID u e of
         Inl _ \<Rightarrow> (d, WhError 404 ''not_found'' ''event not found'')
       | Inr _ \<Rightarrow> h d))"

definition for_webhook :: "id option \<Rightarrow> id \<Rightarrow> idb \<Rightarrow> (Webhook \<Rightarrow> wdb \<Rightarrow> wdb \<times> wh_response) \<Rightarrow> wdb \<Rightarrow> wdb \<times> wh_response" where
  "for_webhook organizer i e h d = (case organizer of
      None \<Rightarrow> (d, WhError 401 ''unauthorized'' ''authentication required'')
    | Some u \<Rightarrow> (case GetWebhook i d of
         Inl _ \<Rightarrow> (d, WhError 404 ''not_found'' ''webhook not found'')
       | Inr w \<Rightarrow> (case checkEventOwner (wh_EventID w) u e of
            Inl _ \<Rightarrow> (d, WhError 404 ''not_found'' ''webhook not found'')
          | Inr _ \<Rightarrow> h w d)))"

definition handleCreateWebhook ::
  "bool \<Rightarrow> id \<Rightarrow> time \<Rightarrow> string option \<Rightarrow> id option \<Rightarrow> id \<Rightarrow> CreateWebhookRequest json_body \<Rightarrow> idb \<Rightarrow> wdb \<Rightarrow> wdb \<times> wh_response" where
  "handleCreateWebhook requireHTTPS uuid now rand organizer i body e = for_event organizer i e (\<lambda>d. case DecodeJSON body of
      Inl _ \<Rightarrow> (d, wh_bad ''invalid JSON body'')
    | Inr req \<Rightarrow> (case CreateWebhook requireHTTPS (known_events e) uuid now rand i req d of
         Inl msg \<Rightarrow> (d, wh_bad msg) | Inr (d', w) \<Rightarrow> (d', WhSecret 201 w)))"

definition handleListWebhooks :: "id option \<Rightarrow> id \<Rightarrow> idb \<Rightarrow> wdb \<Rightarrow> wdb \<times> wh_response" where
  "handleListWebhooks organizer i e = for_event organizer i e (\<lambda>d. (d, WhHooks (ListWebhooksByEvent i d)))"

definition handleGetWebhook :: "id option \<Rightarrow> id \<Rightarrow> idb \<Rightarrow> wdb \<Rightarrow> wdb \<times> wh_response" where
  "handleGetWebhook organizer i e = for_webhook organizer i e (\<lambda>w d. (d, WhHook w))"

definition handleUpdateWebhook ::
  "bool \<Rightarrow> time \<Rightarrow> id option \<Rightarrow> id \<Rightarrow> UpdateWebhookRequest json_body \<Rightarrow> idb \<Rightarrow> wdb \<Rightarrow> wdb \<times> wh_response" where
  "handleUpdateWebhook requireHTTPS now organizer i body e = for_webhook organizer i e (\<lambda>_ d. case DecodeJSON body of
      Inl _ \<Rightarrow> (d, wh_bad ''invalid JSON body'')
    | Inr req \<Rightarrow> (case UpdateWebhook requireHTTPS now i req d of Inl msg \<Rightarrow> (d, wh_bad msg) | Inr (d', w) \<Rightarrow> (d', WhHook w)))"

definition handleDeleteWebhook :: "string \<Rightarrow> id option \<Rightarrow> id \<Rightarrow> idb \<Rightarrow> wdb \<Rightarrow> wdb \<times> wh_response" where
  "handleDeleteWebhook ref organizer i e = for_webhook organizer i e (\<lambda>_ d. case DeleteWebhook i d of
      Inl _ \<Rightarrow> (d, wh_internal ref) | Inr d' \<Rightarrow> (d', WhDeleted))"

definition handleRotateSecret :: "time \<Rightarrow> string option \<Rightarrow> string \<Rightarrow> id option \<Rightarrow> id \<Rightarrow> idb \<Rightarrow> wdb \<Rightarrow> wdb \<times> wh_response" where
  "handleRotateSecret now rand ref organizer i e = for_webhook organizer i e (\<lambda>_ d. case RotateSecret now rand i d of
      Inl _ \<Rightarrow> (d, wh_internal ref) | Inr (d', w) \<Rightarrow> (d', WhSecret 200 w))"

definition handleGetDeliveries :: "id option \<Rightarrow> id \<Rightarrow> idb \<Rightarrow> wdb \<Rightarrow> wdb \<times> wh_response" where
  "handleGetDeliveries organizer i e = for_webhook organizer i e (\<lambda>_ d. (d, WhDeliveries (GetDeliveries i d)))"

definition handleSendTest ::
  "'x runtime_scheme \<Rightarrow> wh_client \<Rightarrow> id \<Rightarrow> time \<Rightarrow> (nat \<Rightarrow> time) \<Rightarrow> (time \<Rightarrow> string option) \<Rightarrow> string \<Rightarrow> id option \<Rightarrow> id \<Rightarrow> idb \<Rightarrow>
   wdb \<Rightarrow> wdb \<times> wh_response" where
  "handleSendTest rt c uuid now clk marshal ref organizer i e = for_webhook organizer i e (\<lambda>_ d. case SendTest rt c uuid now clk marshal i d of
      (d', _, Inl _) \<Rightarrow> (d', wh_internal ref) | (d', _, Inr x) \<Rightarrow> (d', WhDelivery x))"

datatype webhook_op =
    WhCreate id "CreateWebhookRequest json_body" | WhList id | WhGet id | WhUpdate id "UpdateWebhookRequest json_body" | WhDelete id
  | WhRotate id | WhGetDeliveries id | WhTest id

definition webhook_handle ::
  "'x runtime_scheme \<Rightarrow> bool \<Rightarrow> wh_client \<Rightarrow> id \<Rightarrow> time \<Rightarrow> (nat \<Rightarrow> time) \<Rightarrow> string option \<Rightarrow> (time \<Rightarrow> string option) \<Rightarrow> string \<Rightarrow> id option \<Rightarrow>
   webhook_op \<Rightarrow> idb \<Rightarrow> wdb \<Rightarrow> wdb \<times> wh_response" where
  "webhook_handle rt requireHTTPS c uuid now clk rand marshal ref organizer rq e = (case rq of
      WhCreate i body \<Rightarrow> handleCreateWebhook requireHTTPS uuid now rand organizer i body e
    | WhList i \<Rightarrow> handleListWebhooks organizer i e
    | WhGet i \<Rightarrow> handleGetWebhook organizer i e
    | WhUpdate i body \<Rightarrow> handleUpdateWebhook requireHTTPS now organizer i body e
    | WhDelete i \<Rightarrow> handleDeleteWebhook ref organizer i e
    | WhRotate i \<Rightarrow> handleRotateSecret now rand ref organizer i e
    | WhGetDeliveries i \<Rightarrow> handleGetDeliveries organizer i e
    | WhTest i \<Rightarrow> handleSendTest rt c uuid now clk marshal ref organizer i e)"

end
