(* ===== verification/Webhook_Safety.thy ===== *)
theory Webhook_Safety
  imports Webhook
begin

text \<open>
  Which addresses webhooks can connect to, and what a dispatch sends, repeats and records.
\<close>

unbundle bit_operations_syntax

section \<open>Reserved addresses\<close>

lemma every_byte:
  assumes "list_all P (map word_of_int [0..255])"
  shows "P (b :: 8 word)"
proof -
  have "uint b \<in> {0..255}" using unsigned_greater_eq [of b] unsigned_less [where ?'b = 8 and ?'a = int, of b] by simp
  then have "b \<in> word_of_int ` {0..255}" by (intro image_eqI [of _ _ "uint b"]) auto
  then show ?thesis using assms by (auto simp: list_all_iff)
qed

lemma mask_240: "16 = b AND 240 \<longleftrightarrow> 16 \<le> b \<and> b \<le> (31 :: 8 word)"
  by (rule every_byte [of "\<lambda>b. 16 = b AND 240 \<longleftrightarrow> 16 \<le> b \<and> b \<le> 31"]) code_simp

lemma mask_192: "b AND 192 = 128 \<longleftrightarrow> 128 \<le> b \<and> b \<le> (191 :: 8 word)"
  by (rule every_byte [of "\<lambda>b. b AND 192 = 128 \<longleftrightarrow> 128 \<le> b \<and> b \<le> 191"]) code_simp

lemma mask_254: "252 = b AND 254 \<longleftrightarrow> b = 252 \<or> b = (253 :: 8 word)"
  by (rule every_byte [of "\<lambda>b. 252 = b AND 254 \<longleftrightarrow> b = 252 \<or> b = 253"]) code_simp

lemma mask_255: "b AND 255 = (b :: 8 word)"
proof -
  have "(255 :: 8 word) = - 1" by simp
  then show ?thesis by (metis and.right_neutral)
qed

lemmas byte_masks = mask_240 mask_192 mask_254 mask_255

text \<open>The reserved blocks, as intervals of the first bytes.\<close>

fun reserved_v4 :: "ip \<Rightarrow> bool" where
  "reserved_v4 (a # b # c # r) \<longleftrightarrow>
    a \<in> {0, 10, 127} \<or> a = 172 \<and> 16 \<le> b \<and> b \<le> 31 \<or> a = 192 \<and> b = 168 \<or> a = 169 \<and> b = 254 \<or> a = 224 \<and> b = 0 \<and> c = 0"
| "reserved_v4 _ \<longleftrightarrow> False"

fun reserved_v6 :: "ip \<Rightarrow> bool" where
  "reserved_v6 (a # b # r) \<longleftrightarrow>
    a # b # r = replicate 16 0 \<or> a # b # r = replicate 15 0 @ [1] \<or>
    length r = 14 \<and> (a \<in> {252, 253} \<or> a = 254 \<and> 128 \<le> b \<and> b \<le> 191 \<or> a = 255 \<and> b AND 15 = 2)"
| "reserved_v6 _ \<longleftrightarrow> False"

definition reserved_address :: "ip \<Rightarrow> bool" where
  "reserved_address x = (case to4 x of Some v \<Rightarrow> reserved_v4 v | None \<Rightarrow> reserved_v6 x)"

lemma bytes_4: "length x = 4 \<Longrightarrow> \<exists>a b c e. x = [a, b, c, e]"
  by (auto simp: numeral_eq_Suc length_Suc_conv)

lemma to4_length: "to4 x = Some v \<Longrightarrow> length v = 4"
  by (auto simp: to4_def split: if_splits)

text \<open>Containment in a block, once the block is known to be well formed.\<close>

lemma in_v4_block:
  assumes "to4 x = Some [a, b, c, e]"
  shows "net_contains \<lparr> net_IP = [p, q, r, s], net_Mask = [k, l, m, n] \<rparr> x \<longleftrightarrow>
    p AND k = a AND k \<and> q AND l = b AND l \<and> r AND m = c AND m \<and> s AND n = e AND n"
  using assms by (simp add: net_contains_def network_number_and_mask_def to4_def [of "[p, q, r, s]"] upt_rec)

lemma v4_not_in_v6_block:
  assumes "to4 x = Some v" "length i = 16" "to4 i = None" "length m = 16"
  shows "\<not> net_contains \<lparr> net_IP = i, net_Mask = m \<rparr> x"
  using assms to4_length [OF assms(1)] by (simp add: net_contains_def network_number_and_mask_def)

lemma v6_not_in_v4_block:
  assumes "to4 x = None"
  shows "\<not> net_contains \<lparr> net_IP = [p, q, r, s], net_Mask = [k, l, m, n] \<rparr> x"
  using assms by (auto simp: net_contains_def network_number_and_mask_def to4_def)

lemma in_v6_block:
  assumes "to4 x = None" "length i = 16" "to4 i = None" "length m = 16"
  shows "net_contains \<lparr> net_IP = i, net_Mask = m \<rparr> x \<longleftrightarrow> length x = 16 \<and> list_all (\<lambda>j. i ! j AND m ! j = x ! j AND m ! j) [0..<16]"
  using assms by (auto simp: net_contains_def network_number_and_mask_def)

lemma v6_blocks: "to4 (replicate 15 0 @ [1]) = None" "to4 (252 # replicate 15 0) = None" "to4 ([254, 128] @ replicate 14 0) = None"
  by code_simp+

lemma bytes_16:
  "length (x :: ip) = 16 \<Longrightarrow> \<exists>a0 a1 a2 a3 a4 a5 a6 a7 a8 a9 b0 b1 b2 b3 b4 b5. x = [a0, a1, a2, a3, a4, a5, a6, a7, a8, a9, b0, b1, b2, b3, b4, b5]"
  by (simp add: numeral_eq_Suc length_Suc_conv) blast

lemma v6_private:
  assumes "to4 x = None"
  shows "isPrivateIP (Some x) \<longleftrightarrow> reserved_v6 x"
proof (cases "length x = 16")
  case True
  then obtain a0 a1 a2 a3 a4 a5 a6 a7 a8 a9 b0 b1 b2 b3 b4 b5 where
    x: "x = [a0, a1, a2, a3, a4, a5, a6, a7, a8, a9, b0, b1, b2, b3, b4, b5]" using bytes_16 [OF True] by (elim exE) (rule that)
  have idx: "[0..<16] = [0, 1, 2, 3, 4, 5, 6, 7, 8, 9, 10, 11, 12, 13, 14, 15]" by (simp add: upt_rec)
  show ?thesis
    using assms v6_blocks
    by (auto simp: isPrivateIP_def IsUnspecified_def IsLoopback_def IsLinkLocalUnicast_def IsLinkLocalMulticast_def privateRanges_def
        v6_not_in_v4_block in_v6_block x idx byte_masks numeral_eq_Suc)
next
  case False
  then have "\<not> reserved_v6 x" by (cases x rule: reserved_v6.cases) (auto dest: arg_cong [where f = length])
  then show ?thesis
    using assms False v6_blocks
    by (auto simp: isPrivateIP_def IsUnspecified_def IsLoopback_def IsLinkLocalUnicast_def IsLinkLocalMulticast_def privateRanges_def
        v6_not_in_v4_block in_v6_block)
qed

lemma v4_private:
  assumes "to4 x = Some v"
  shows "isPrivateIP (Some x) \<longleftrightarrow> reserved_v4 v"
proof -
  obtain a b c e where v: "v = [a, b, c, e]" using to4_length [OF assms] bytes_4 by blast
  have "to4 (replicate 16 0) = None" by code_simp
  then have "x \<noteq> replicate 16 0" using assms by auto
  then show ?thesis
    using assms v6_blocks
    by (auto simp: isPrivateIP_def IsUnspecified_def IsLoopback_def IsLinkLocalUnicast_def IsLinkLocalMulticast_def privateRanges_def
        v4_not_in_v6_block in_v4_block v byte_masks)
qed

text \<open>
  C26: webhooks connect to public addresses only. The dialer connects exactly when the host resolves
  and no address it resolves to lies in a reserved block (the IPv4 blocks 0/8, 10/8, 127/8, 172.16/12,
  192.168/16, 169.254/16 and 224.0.0/24, also when written as IPv6; the IPv6 blocks ::/128, ::1/128, fc00::/7,
  fe80::/10 and the link-local multicast), and then to the first of these addresses and not to the name,
  which could resolve differently a second time.
\<close>

theorem webhook_connects_public_only:
  "ssrfSafeDialer nl lookup addr = Inr (a, target) \<longleftrightarrow>
    (\<exists>host port as. split_host_port addr = Some (host, port) \<and> lookup host = Some (a # as) \<and>
       (\<forall>x \<in> set (a # as). \<not> reserved_address x) \<and> target = join_host_port (nl_ip_string nl a) port)"
proof -
  have exact: "isPrivateIP (Some x) \<longleftrightarrow> reserved_address x" for x
    using v4_private v6_private by (cases "to4 x") (auto simp: reserved_address_def)
  show ?thesis
    by (auto simp: ssrfSafeDialer_def exact find_None_iff find_Some_iff split: option.splits list.splits)
qed

section \<open>Deliveries\<close>

text \<open>An answer that ends the attempts, and one that is a success.\<close>

fun succeeded :: "string + (int \<times> string) \<Rightarrow> bool" where
  "succeeded (Inr (status, _)) \<longleftrightarrow> 200 \<le> status \<and> status < 300"
| "succeeded (Inl _) \<longleftrightarrow> False"

fun refused :: "string + (int \<times> string) \<Rightarrow> bool" where
  "refused (Inr (status, _)) \<longleftrightarrow> 400 \<le> status \<and> status < 500"
| "refused (Inl _) \<longleftrightarrow> False"

lemma signed_request_row [simp]:
  "signed_request rt w (x\<lparr>dl_Attempt := n\<rparr>) payload = signed_request rt w x payload"
  "signed_request rt w (x\<lparr>dl_Attempt := n, dl_ResponseStatus := st, dl_ResponseBody := bd\<rparr>) payload = signed_request rt w x payload"
  by (simp_all add: signed_request_def)

text \<open>What attempts number \<open>a\<close> to \<open>a + m - 1\<close> of at most \<open>n\<close> leave in the record.\<close>

definition attempts_made :: "wh_client \<Rightarrow> (nat \<Rightarrow> time) \<Rightarrow> wh_request \<Rightarrow> nat \<Rightarrow> nat \<Rightarrow> nat \<Rightarrow> Delivery \<Rightarrow> Delivery \<Rightarrow> bool" where
  "attempts_made c clk q a n m x y \<longleftrightarrow>
    m \<le> n \<and> (\<forall>i. a \<le> i \<and> Suc i < a + m \<longrightarrow> \<not> succeeded (wc_Do c q i) \<and> \<not> refused (wc_Do c q i)) \<and>
    (m < n \<longrightarrow> 0 < m \<and> (succeeded (wc_Do c q (a + m - 1)) \<or> refused (wc_Do c q (a + m - 1)))) \<and>
    dl_DeliveredAt y = (if 0 < m \<and> succeeded (wc_Do c q (a + m - 1)) then Some (clk (a + m - 1)) else dl_DeliveredAt x) \<and>
    dl_Attempt y = (if 0 < m then a + m - 1 else dl_Attempt x) \<and>
    (\<forall>bd. dl_ResponseBody y = Some bd \<longrightarrow> length bd \<le> 4096 \<or> dl_ResponseBody x = Some bd) \<and>
    dl_ID y = dl_ID x \<and> dl_WebhookID y = dl_WebhookID x \<and> dl_EventType y = dl_EventType x \<and> dl_Payload y = dl_Payload x \<and> dl_CreatedAt y = dl_CreatedAt x"

lemma attempts_made_0: "attempts_made c clk q a 0 0 x (case e of None \<Rightarrow> x | Some m \<Rightarrow> x\<lparr>dl_Error := Some (g m)\<rparr>)"
  by (auto simp: attempts_made_def split: option.splits)

lemma attempts_made_last:
  assumes "wc_Do c q a = Inr (status, body)" "succeeded (Inr (status, body)) \<or> refused (Inr (status, body))"
    and "dl_DeliveredAt y = (if succeeded (Inr (status, body)) then Some (clk a) else dl_DeliveredAt x)" "dl_Attempt y = a"
    and "dl_ResponseBody y = Some (take maxResponseBodySize body)"
    and "dl_ID y = dl_ID x" "dl_WebhookID y = dl_WebhookID x" "dl_EventType y = dl_EventType x" "dl_Payload y = dl_Payload x" "dl_CreatedAt y = dl_CreatedAt x"
  shows "attempts_made c clk q a (Suc n) 1 x y"
  using assms by (auto simp: attempts_made_def maxResponseBodySize_def)

lemma attempts_made_Suc:
  assumes "\<not> succeeded (wc_Do c q a)" "\<not> refused (wc_Do c q a)" "attempts_made c clk q (Suc a) n m x' y"
    and "dl_Attempt x' = a" "dl_ID x' = dl_ID x" "dl_WebhookID x' = dl_WebhookID x" "dl_EventType x' = dl_EventType x" "dl_Payload x' = dl_Payload x"
    and "dl_CreatedAt x' = dl_CreatedAt x" "dl_DeliveredAt x' = dl_DeliveredAt x" "\<forall>bd. dl_ResponseBody x' = Some bd \<longrightarrow> length bd \<le> 4096 \<or> dl_ResponseBody x = Some bd"
  shows "attempts_made c clk q a (Suc n) (Suc m) x y"
  using assms unfolding attempts_made_def
  by (intro conjI allI impI) (auto simp: Suc_le_eq le_less_Suc_eq less_Suc_eq_le intro: le_neq_implies_less)

lemma deliver_loop_made:
  assumes "deliver_loop rt c clk w payload a n e x = (y, rqs, alive)" "wc_accepts c (wh_URL w)" "\<forall>i. wc_alive c i"
  shows "alive \<and> (\<exists>m. rqs = replicate m (signed_request rt w x payload) \<and> attempts_made c clk (signed_request rt w x payload) a n m x y)"
  using assms
proof (induction n arbitrary: a e x y rqs)
  case 0
  then show ?case by (auto intro!: exI [of _ 0] attempts_made_0)
next
  case (Suc n)
  let ?q = "signed_request rt w x payload"
  have again: ?case if r: "\<not> succeeded (wc_Do c ?q a)" "\<not> refused (wc_Do c ?q a)"
    and l: "deliver_loop rt c clk w payload (Suc a) n e' x' = (y, rqs', alive)" "rqs = ?q # rqs'"
    and x': "x' = x\<lparr>dl_Attempt := a\<rparr> \<or> (\<exists>st bd. x' = x\<lparr>dl_Attempt := a, dl_ResponseStatus := st, dl_ResponseBody := Some (take 4096 bd)\<rparr>)"
    for e' x' rqs'
  proof -
    have q: "signed_request rt w x' payload = ?q" using x' by auto
    obtain m where m: "alive" "rqs' = replicate m ?q" "attempts_made c clk ?q (Suc a) n m x' y"
      using Suc.IH [OF l(1) Suc.prems(2,3)] unfolding q by blast
    have "attempts_made c clk ?q a (Suc n) (Suc m) x y"
      by (rule attempts_made_Suc [OF r m(3)]) (use x' in auto)
    then show ?thesis using m(1,2) l(2) by (metis replicate_Suc)
  qed
  show ?case
  proof (cases "wc_Do c ?q a")
    case (Inl err)
    obtain y' rqs' al where l: "deliver_loop rt c clk w payload (Suc a) n (Some err) (x\<lparr>dl_Attempt := a\<rparr>) = (y', rqs', al)" by (metis prod_cases3)
    then have eq: "y' = y" "rqs = ?q # rqs'" "al = alive" using Suc.prems Inl by (auto simp: Let_def)
    show ?thesis by (rule again [OF _ _ l [unfolded eq(1,3)] eq(2)]) (use Inl in auto)
  next
    case (Inr r)
    obtain st bd where r: "r = (st, bd)" by force
    show ?thesis
    proof (cases "succeeded (Inr r) \<or> refused (Inr r)")
      case True
      have "rqs = replicate 1 ?q" "alive" "attempts_made c clk ?q a (Suc n) 1 x y"
        using True Suc.prems Inr r
        by (auto simp: Let_def split: if_splits
            intro!: attempts_made_last [where status = st and body = bd, unfolded One_nat_def])
      then show ?thesis by blast
    next
      case False
      let ?x = "x\<lparr>dl_Attempt := a, dl_ResponseStatus := Some st, dl_ResponseBody := Some (take maxResponseBodySize bd)\<rparr>"
      obtain y' rqs' al where l: "deliver_loop rt c clk w payload (Suc a) n (Some (''HTTP '' @ itoa st)) ?x = (y', rqs', al)" by (metis prod_cases3)
      then have eq: "y' = y" "rqs = ?q # rqs'" "al = alive" using Suc.prems Inr False r by (auto simp: Let_def)
      show ?thesis by (rule again [OF _ _ l [unfolded eq(1,3)] eq(2)]) (use Inr False r in \<open>auto simp: maxResponseBodySize_def\<close>)
    qed
  qed
qed

text \<open>The row that a dispatch writes first for its \<open>i\<close>-th webhook, and the request it makes.\<close>

definition new_delivery :: "(nat \<Rightarrow> id) \<Rightarrow> (nat \<Rightarrow> time) \<Rightarrow> string \<Rightarrow> string \<Rightarrow> nat \<times> Webhook \<Rightarrow> Delivery" where
  "new_delivery uuid clk eventType payload = (\<lambda>(i, w). \<lparr> dl_ID = uuid i, dl_WebhookID = wh_ID w, dl_EventType = eventType, dl_Payload = payload,
     dl_ResponseStatus = None, dl_ResponseBody = None, dl_Error = None, dl_Attempt = 0, dl_DeliveredAt = None, dl_CreatedAt = trunc_sec (clk i) \<rparr>)"

definition webhook_request :: "'x runtime_scheme \<Rightarrow> (nat \<Rightarrow> id) \<Rightarrow> string \<Rightarrow> string \<Rightarrow> nat \<times> Webhook \<Rightarrow> wh_request" where
  "webhook_request rt uuid eventType payload = (\<lambda>(i, w). \<lparr> wq_URL = wh_URL w, wq_Signature = ''sha256='' @ hex_encode (rt_hmac rt (wh_Secret w) payload),
     wq_Event = eventType, wq_Delivery = uuid i, wq_Body = payload \<rparr>)"

lemma dispatch_records_fresh:
  assumes "inj uuid" "\<forall>j\<ge>i. uuid j \<notin> dl_ID ` set (wd_deliveries d)" "wh_ID ` set ws \<subseteq> wh_ID ` set (wd_webhooks d)"
  shows "dispatch_records uuid clk i et payload ws d =
    (d\<lparr>wd_deliveries := wd_deliveries d @ map (new_delivery uuid clk et payload) (enumerate i ws)\<rparr>,
     zip ws (map (new_delivery uuid clk et payload) (enumerate i ws)))"
  using assms
proof (induction ws arbitrary: i d)
  case (Cons w ws)
  let ?x = "new_delivery uuid clk et payload (i, w)" and ?d = "d\<lparr>wd_deliveries := wd_deliveries d @ [new_delivery uuid clk et payload (i, w)]\<rparr>"
  have "\<forall>j\<ge>Suc i. uuid j \<notin> dl_ID ` set (wd_deliveries ?d)"
    using Cons.prems(2) inj_eq [OF Cons.prems(1)] by (auto simp: new_delivery_def)
  from Cons.IH [OF Cons.prems(1) this] Cons.prems show ?case
    by (simp add: CreateDelivery_def add_row_def new_delivery_def Let_def)
qed simp

text \<open>What a dispatch promises for one webhook: one to three requests, repeated only when it makes sense, and the row that says so.\<close>

definition delivery_outcome :: "wh_client \<Rightarrow> wh_request \<Rightarrow> id \<Rightarrow> nat \<Rightarrow> Delivery \<Rightarrow> bool" where
  "delivery_outcome c q webhookID m y \<longleftrightarrow>
    1 \<le> m \<and> m \<le> 3 \<and> (\<forall>a. 1 \<le> a \<and> a < m \<longrightarrow> \<not> succeeded (wc_Do c q a) \<and> \<not> refused (wc_Do c q a)) \<and>
    (m < 3 \<longrightarrow> succeeded (wc_Do c q m) \<or> refused (wc_Do c q m)) \<and>
    dl_ID y = wq_Delivery q \<and> dl_WebhookID y = webhookID \<and> dl_EventType y = wq_Event q \<and> dl_Payload y = wq_Body q \<and> dl_Attempt y = m \<and>
    (dl_DeliveredAt y \<noteq> None \<longleftrightarrow> succeeded (wc_Do c q m)) \<and> (\<forall>body. dl_ResponseBody y = Some body \<longrightarrow> length body \<le> 4096)"

lemma attempts_outcome:
  assumes "attempts_made c clk q 1 maxRetries m x y" "dl_DeliveredAt x = None" "dl_ResponseBody x = None"
    "dl_ID x = wq_Delivery q" "dl_EventType x = wq_Event q" "dl_Payload x = wq_Body q"
  shows "delivery_outcome c q (dl_WebhookID x) m (x\<lparr>dl_ResponseStatus := dl_ResponseStatus y, dl_ResponseBody := dl_ResponseBody y, dl_Error := dl_Error y,
    dl_Attempt := dl_Attempt y, dl_DeliveredAt := map_option trunc_sec (dl_DeliveredAt y)\<rparr>)"
proof -
  have "1 \<le> m" using assms(1) by (cases m) (auto simp: attempts_made_def maxRetries_def)
  then show ?thesis using assms by (auto simp: attempts_made_def delivery_outcome_def maxRetries_def split: if_splits)
qed

lemma update_where_one:
  assumes "\<And>r. r \<in> set pre \<Longrightarrow> \<not> P r" "P x" "\<And>r. r \<in> set post \<Longrightarrow> \<not> P r"
  shows "update_where P f (pre @ x # post) = pre @ f x # post"
  using assms by (auto simp: update_where_def intro!: map_idI)

lemma run_deliveries_outcomes:
  assumes "run_deliveries rt clients clk i payload (zip ws (map (new_delivery uuid rclk et payload) (enumerate i ws))) d = (d', rqs)"
    and "wd_deliveries d = pre @ map (new_delivery uuid rclk et payload) (enumerate i ws)"
    and "inj uuid" "\<forall>j\<ge>i. uuid j \<notin> dl_ID ` set pre" "\<forall>j. \<forall>w \<in> set ws. wc_accepts (clients j) (wh_URL w)"
  shows "\<exists>ms rows. length ms = length ws \<and> length rows = length ws \<and> d' = d\<lparr>wd_deliveries := pre @ rows\<rparr> \<and>
    rqs = concat (map2 replicate ms (map (webhook_request rt uuid et payload) (enumerate i ws))) \<and>
    (\<forall>k<length ws. delivery_outcome (clients (i + k)) (webhook_request rt uuid et payload (i + k, ws ! k)) (wh_ID (ws ! k)) (ms ! k) (rows ! k))"
  using assms
proof (induction ws arbitrary: i d pre d' rqs)
  case (Cons w ws)
  let ?x = "new_delivery uuid rclk et payload (i, w)" and ?q = "webhook_request rt uuid et payload (i, w)"
  let ?rest = "map (new_delivery uuid rclk et payload) (enumerate (Suc i) ws)"
  let ?c = "(clients i)\<lparr>wc_alive := \<lambda>_. True\<rparr>"
  obtain y rq1 al where l: "deliver_loop rt ?c (clk i) w payload 1 maxRetries None ?x = (y, rq1, al)" by (metis prod_cases3)
  have q: "signed_request rt w ?x payload = ?q" by (simp add: signed_request_def webhook_request_def new_delivery_def)
  obtain m where m: "al" "rq1 = replicate m ?q" "attempts_made ?c (clk i) ?q 1 maxRetries m ?x y"
    using deliver_loop_made [OF l] Cons.prems(5) unfolding q by auto
  let ?y = "?x\<lparr>dl_ResponseStatus := dl_ResponseStatus y, dl_ResponseBody := dl_ResponseBody y, dl_Error := dl_Error y,
    dl_Attempt := dl_Attempt y, dl_DeliveredAt := map_option trunc_sec (dl_DeliveredAt y)\<rparr>"
  have "delivery_outcome ?c ?q (dl_WebhookID ?x) m ?y"
    by (rule attempts_outcome [OF m(3)]) (simp_all add: new_delivery_def webhook_request_def)
  then have out: "delivery_outcome (clients i) ?q (wh_ID w) m ?y" by (simp add: delivery_outcome_def new_delivery_def)
  have ids: "dl_ID y = uuid i" using m(3) by (simp add: attempts_made_def new_delivery_def)
  have others: "\<And>r. r \<in> set pre \<Longrightarrow> dl_ID r \<noteq> uuid i" "\<And>r. r \<in> set ?rest \<Longrightarrow> dl_ID r \<noteq> uuid i"
    using Cons.prems(4) by (metis image_eqI order_refl) (auto simp: new_delivery_def in_set_enumerate_eq inj_eq [OF Cons.prems(3)])
  have "update_where (\<lambda>r. dl_ID r = uuid i) f (pre @ ?x # ?rest) = pre @ f ?x # ?rest" for f
    by (rule update_where_one) (use others in \<open>auto simp: new_delivery_def\<close>)
  then have upd: "UpdateDelivery y d = d\<lparr>wd_deliveries := (pre @ [?y]) @ ?rest\<rparr>"
    using Cons.prems(2) ids by (simp add: UpdateDelivery_def)
  obtain d2 rqs2 where r: "run_deliveries rt clients clk (Suc i) payload (zip ws ?rest) (UpdateDelivery y d) = (d2, rqs2)" by fastforce
  have eq: "d' = d2" "rqs = rq1 @ rqs2" using Cons.prems(1) l m(1) r by (auto simp: deliver_webhook_def)
  have "\<forall>j\<ge>Suc i. uuid j \<notin> dl_ID ` set (pre @ [?y])"
    using Cons.prems(4) inj_eq [OF Cons.prems(3)] by (auto simp: new_delivery_def)
  then obtain ms rows where IH: "length ms = length ws" "length rows = length ws" "d2 = (UpdateDelivery y d)\<lparr>wd_deliveries := (pre @ [?y]) @ rows\<rparr>"
    "rqs2 = concat (map2 replicate ms (map (webhook_request rt uuid et payload) (enumerate (Suc i) ws)))"
    "\<forall>k<length ws. delivery_outcome (clients (Suc i + k)) (webhook_request rt uuid et payload (Suc i + k, ws ! k)) (wh_ID (ws ! k)) (ms ! k) (rows ! k)"
    using Cons.IH [OF r _ Cons.prems(3), of "pre @ [?y]"] Cons.prems(5) unfolding upd by auto
  show ?case
  proof (intro exI [of _ "m # ms"] exI [of _ "?y # rows"] conjI)
    show "d' = d\<lparr>wd_deliveries := pre @ ?y # rows\<rparr>" using eq(1) IH(3) upd by simp
    show "\<forall>k<length (w # ws). delivery_outcome (clients (i + k)) (webhook_request rt uuid et payload (i + k, (w # ws) ! k)) (wh_ID ((w # ws) ! k))
        ((m # ms) ! k) ((?y # rows) ! k)"
      using IH(5) out by (auto simp: nth_Cons split: nat.splits)
  qed (use IH eq m in simp_all)
qed simp


section \<open>What is stored\<close>

definition webhook_valid :: "bool \<Rightarrow> Webhook \<Rightarrow> bool" where
  "webhook_valid requireHTTPS w \<longleftrightarrow> isValidWebhookURL (wh_URL w) requireHTTPS \<and> wh_EventTypes w \<noteq> [] \<and>
     (\<forall>t \<in> set (wh_EventTypes w). t \<in> set ValidEventTypes) \<and> prefix ''whsec_'' (wh_Secret w)"

definition webhooks_ok :: "bool \<Rightarrow> wdb \<Rightarrow> bool" where
  "webhooks_ok requireHTTPS d \<longleftrightarrow> distinct (map wh_ID (wd_webhooks d)) \<and> (\<forall>w \<in> set (wd_webhooks d). webhook_valid requireHTTPS w) \<and>
     distinct (map dl_ID (wd_deliveries d)) \<and> (\<forall>x \<in> set (wd_deliveries d). dl_WebhookID x \<in> wh_ID ` set (wd_webhooks d))"

inductive webhook_step :: "runtime \<Rightarrow> bool \<Rightarrow> wdb \<Rightarrow> wdb \<Rightarrow> bool" for rt :: runtime and requireHTTPS :: bool where
  route: "webhook_handle rt requireHTTPS c uuid now clk rand marshal ref organizer rq e d = (d', resp) \<Longrightarrow> webhook_step rt requireHTTPS d d'"
| dispatch: "Dispatch rt clients uuids now clk dclk marshal eventID eventType d = (d', rqs) \<Longrightarrow> webhook_step rt requireHTTPS d d'"

lemma check_types_ok: "check_types ts = Inr u \<longleftrightarrow> ts \<noteq> [] \<and> (\<forall>t \<in> set ts. t \<in> set ValidEventTypes)"
  by (auto simp: check_types_def guard_def find_None_iff find_Some_iff split: option.splits)

lemma UpdateDelivery_ok:
  assumes "webhooks_ok h d"
  shows "webhooks_ok h (UpdateDelivery x d)"
proof -
  let ?f = "\<lambda>y. y\<lparr>dl_ResponseStatus := dl_ResponseStatus x, dl_ResponseBody := dl_ResponseBody x, dl_Error := dl_Error x, dl_Attempt := dl_Attempt x,
     dl_DeliveredAt := map_option trunc_sec (dl_DeliveredAt x)\<rparr>"
  let ?rows = "update_where (\<lambda>y. dl_ID y = dl_ID x) ?f (wd_deliveries d)"
  have ids: "map dl_ID ?rows = map dl_ID (wd_deliveries d)" by (rule map_update_where) simp
  have "map dl_WebhookID ?rows = map dl_WebhookID (wd_deliveries d)" by (rule map_update_where) simp
  from arg_cong [OF this, of set] have "dl_WebhookID ` set ?rows = dl_WebhookID ` set (wd_deliveries d)" by (simp only: list.set_map)
  moreover have "dl_WebhookID ` set (wd_deliveries d) \<subseteq> wh_ID ` set (wd_webhooks d)" using assms by (auto simp: webhooks_ok_def)
  ultimately have "\<forall>y \<in> set ?rows. dl_WebhookID y \<in> wh_ID ` set (wd_webhooks d)" by blast
  then show ?thesis using assms ids by (simp add: webhooks_ok_def UpdateDelivery_def)
qed

lemma deliver_webhook_ok: "deliver_webhook rt c clk w payload x d = (d', r) \<Longrightarrow> webhooks_ok h d \<Longrightarrow> webhooks_ok h d'"
  by (auto simp: deliver_webhook_def UpdateDelivery_ok split: prod.splits if_splits)

lemma CreateDelivery_ok: "CreateDelivery now x d = Inr (d', y) \<Longrightarrow> webhooks_ok h d \<Longrightarrow> webhooks_ok h d'"
  by (auto simp: CreateDelivery_def Let_def webhooks_ok_def add_row_def split: if_splits)

lemma dispatch_records_ok: "dispatch_records uuid clk i et payload ws d = (d', jobs) \<Longrightarrow> webhooks_ok h d \<Longrightarrow> webhooks_ok h d'"
  by (induction uuid clk i et payload ws d arbitrary: d' jobs rule: dispatch_records.induct)
    (auto split: sum.splits prod.splits dest: CreateDelivery_ok)

lemma run_deliveries_ok: "run_deliveries rt clients clk i payload jobs d = (d', rqs) \<Longrightarrow> webhooks_ok h d \<Longrightarrow> webhooks_ok h d'"
  by (induction rt clients clk i payload jobs d arbitrary: d' rqs rule: run_deliveries.induct)
    (auto split: prod.splits dest: deliver_webhook_ok)

lemma Dispatch_ok: "Dispatch rt clients uuids now clk dclk marshal eventID eventType d = (d', rqs) \<Longrightarrow> webhooks_ok h d \<Longrightarrow> webhooks_ok h d'"
  by (auto simp: Dispatch_def Let_def split: if_splits option.splits prod.splits dest: dispatch_records_ok run_deliveries_ok)

lemma SendTest_ok: "SendTest rt c uuid now clk marshal i d = (d', r) \<Longrightarrow> webhooks_ok h d \<Longrightarrow> webhooks_ok h d'"
  by (auto simp: SendTest_def Let_def split: sum.splits option.splits prod.splits dest: CreateDelivery_ok deliver_webhook_ok)

lemma CreateWebhook_ok: "CreateWebhook h k uuid now rand eventID req d = Inr (d', w) \<Longrightarrow> webhooks_ok h d \<Longrightarrow> webhooks_ok h d'"
  by (auto simp: CreateWebhook_def StoreCreateWebhook_def Let_def webhooks_ok_def webhook_valid_def add_row_def check_types_ok guard_def or_err_def
      generateSecret_def split: if_splits option.splits)

lemma StoreUpdateWebhook_ok:
  assumes "webhooks_ok h d" "webhook_valid h w"
  shows "webhooks_ok h (fst (StoreUpdateWebhook now w d))"
proof -
  let ?P = "\<lambda>x. wh_ID x = wh_ID w" and ?f = "\<lambda>x. x\<lparr>wh_URL := wh_URL w, wh_Secret := wh_Secret w, wh_EventTypes := wh_EventTypes w,
         wh_Description := wh_Description w, wh_Enabled := wh_Enabled w, wh_UpdatedAt := trunc_sec now\<rparr>"
  have ids: "map wh_ID (update_where ?P ?f (wd_webhooks d)) = map wh_ID (wd_webhooks d)" by (simp add: update_where_def)
  then have set: "wh_ID ` set (update_where ?P ?f (wd_webhooks d)) = wh_ID ` set (wd_webhooks d)" by (metis list.set_map)
  have "\<forall>x \<in> set (update_where ?P ?f (wd_webhooks d)). webhook_valid h x"
    using assms by (auto simp: update_where_def webhooks_ok_def webhook_valid_def)
  then show ?thesis using assms(1) ids set by (simp add: StoreUpdateWebhook_def webhooks_ok_def)
qed

lemma GetWebhook_ok: "GetWebhook i d = Inr w \<Longrightarrow> webhooks_ok h d \<Longrightarrow> webhook_valid h w"
  by (auto simp: GetWebhook_def FindWebhookByID_def webhooks_ok_def or_err_def split: option.splits dest: select_row_SomeD)

lemma UpdateWebhook_ok:
  assumes "UpdateWebhook h now i req d = Inr (d', w)" "webhooks_ok h d"
  shows "webhooks_ok h d'"
proof -
  obtain w0 w1 w2 where u: "Inr w0 = GetWebhook i d"
    "(case uwr_URL req of None \<Rightarrow> Inr w0
      | Some raw \<Rightarrow> rbind (guard (isValidWebhookURL (trim_space raw) h) (url_problem h)) (\<lambda>_. Inr (w0\<lparr>wh_URL := trim_space raw\<rparr>))) = Inr w1"
    "(case uwr_EventTypes req of None \<Rightarrow> Inr w1 | Some ts \<Rightarrow> rbind (check_types ts) (\<lambda>_. Inr (w1\<lparr>wh_EventTypes := ts\<rparr>))) = Inr w2"
    "\<exists>t b. StoreUpdateWebhook now (w2\<lparr>wh_Description := t, wh_Enabled := b\<rparr>) d = (d', w)"
    using assms(1) unfolding UpdateWebhook_def rbind_Inr_iff by (elim exE conjE) (rule that, auto simp only: sum.inject)
  have "webhook_valid h w0" by (rule GetWebhook_ok [OF u(1) [symmetric] assms(2)])
  then have "webhook_valid h w1" using u(2) by (auto simp: webhook_valid_def guard_def split: option.splits if_splits)
  then have "webhook_valid h w2" using u(3) by (auto simp: webhook_valid_def check_types_ok split: option.splits)
  then have "webhook_valid h (w2\<lparr>wh_Description := t, wh_Enabled := b\<rparr>)" for t b by (simp add: webhook_valid_def)
  from StoreUpdateWebhook_ok [OF assms(2) this, of now] show ?thesis using u(4) by (metis fst_conv)
qed

lemma RotateSecret_ok:
  assumes "RotateSecret now rand i d = Inr (d', w)" "webhooks_ok h d"
  shows "webhooks_ok h d'"
proof -
  obtain w0 b where r: "GetWebhook i d = Inr w0" "StoreUpdateWebhook now (w0\<lparr>wh_Secret := ''whsec_'' @ hex_encode b\<rparr>) d = (d', w)"
    using assms(1) by (auto simp: RotateSecret_def generateSecret_def or_err_def split: option.splits)
  have "webhook_valid h (w0\<lparr>wh_Secret := ''whsec_'' @ hex_encode b\<rparr>)"
    using GetWebhook_ok [OF r(1) assms(2)] by (simp add: webhook_valid_def)
  from StoreUpdateWebhook_ok [OF assms(2) this, of now] show ?thesis using r(2) by simp
qed

lemma DeleteWebhook_ok: "DeleteWebhook i d = Inr d' \<Longrightarrow> webhooks_ok h d \<Longrightarrow> webhooks_ok h d'"
  by (fastforce simp: DeleteWebhook_def StoreDeleteWebhook_def webhooks_ok_def delete_where_def distinct_map intro: inj_on_subset)

lemmas webhook_routes = webhook_handle_def for_event_def for_webhook_def handleCreateWebhook_def handleListWebhooks_def handleGetWebhook_def
  handleUpdateWebhook_def handleDeleteWebhook_def handleRotateSecret_def handleGetDeliveries_def handleSendTest_def

interpretation hooks: system_invariant "webhook_step rt h" "webhooks_ok h" for rt h
proof
  fix d d'
  assume "webhook_step rt h d d'" "webhooks_ok h d"
  then show "webhooks_ok h d'"
  proof (cases rule: webhook_step.cases)
    case (route c uuid now clk rand marshal ref organizer rq e resp)
    then show ?thesis using \<open>webhooks_ok h d\<close>
      by (cases rq)
        (auto simp: webhook_routes split: option.splits sum.splits prod.splits
          dest: CreateWebhook_ok UpdateWebhook_ok DeleteWebhook_ok RotateSecret_ok SendTest_ok)
  next
    case dispatch
    then show ?thesis using \<open>webhooks_ok h d\<close> Dispatch_ok by blast
  qed
qed

text \<open>
  The webhook tables stay well formed. Whatever requests and dispatches follow, in any order, the
  identifiers of webhooks and deliveries are unique, every delivery belongs to a webhook, and every webhook
  has a URL that the configured policy admits (only https URLs in production), a secret that the program made,
  and at least one event type, all of them known.
\<close>

theorem webhook_tables_stay_valid:
  assumes "(webhook_step rt requireHTTPS)\<^sup>*\<^sup>* d d'" "webhooks_ok requireHTTPS d"
  shows "webhooks_ok requireHTTPS d' \<and> (requireHTTPS \<longrightarrow> (\<forall>w \<in> set (wd_webhooks d'). prefix ''https://'' (wh_URL w)))"
proof -
  have ok: "webhooks_ok requireHTTPS d'" by (rule hooks.invariant_reachable [OF assms])
  then have "requireHTTPS \<Longrightarrow> \<forall>w \<in> set (wd_webhooks d'). prefix ''https://'' (wh_URL w)"
    by (auto simp: webhooks_ok_def webhook_valid_def isValidWebhookURL_def split: if_splits)
  with ok show ?thesis by blast
qed

end
