(* ===== verification/Service_Samples.thy ===== *)
theory Service_Samples
  imports Event_Samples Reminder_Safety Retention Notification_Safety Calendar_Reader Account_Routes Webhook_Safety
begin

text \<open>
  Instances on which the hypotheses of the properties of reminders, retention, notifications, calendar files, the
  setup of the instance, accounts and webhooks hold.
\<close>

section \<open>Reminders\<close>

definition sample_reminder :: Reminder where
  "sample_reminder = \<lparr> rm_ID = ''r1'', rm_EventID = ''e1'', rm_RemindAt = 10, rm_TargetGroup = ''all'', rm_Message = [],
     rm_Status = ''scheduled'', rm_CreatedAt = 0, rm_UpdatedAt = 0 \<rparr>"

definition reminder_start :: rem_state where
  "reminder_start = \<lparr> rs_rows = [sample_reminder, sample_reminder\<lparr>rm_ID := ''r2''\<rparr>], rs_claimed = [], rs_log = [], rs_open = [],
     rs_ids = [''r1'', ''r2''] \<rparr>"

definition reminder_end :: rem_state where
  "reminder_end = reminder_start\<lparr>rs_rows := [sample_reminder\<lparr>rm_Status := ''processing''\<rparr>, sample_reminder\<lparr>rm_ID := ''r2''\<rparr>],
     rs_log := [''r1''], rs_open := [(''r1'', ''sent'')]\<rparr>"

lemma sample_delivery: "(reminder_step event_ids_db)\<^sup>*\<^sup>* reminder_start reminder_end"
proof -
  let ?s = "reminder_start\<lparr>rs_rows := [sample_reminder\<lparr>rm_Status := ''processing''\<rparr>, sample_reminder\<lparr>rm_ID := ''r2''\<rparr>], rs_claimed := [''r1'']\<rparr>"
  have "ClaimForProcessing 0 ''r1'' (rs_rows reminder_start) = (rs_rows ?s, True)"
    by (simp add: ClaimForProcessing_def update_where_def affected_def scheduled_row_def reminder_start_def sample_reminder_def trunc_sec_def)
  from reminder_step.claim [OF this] have "reminder_step event_ids_db reminder_start ?s" by (simp add: reminder_start_def)
  moreover have "reminder_step event_ids_db ?s reminder_end"
    using reminder_step.deliver [of "''r1''" ?s "''sent''" event_ids_db] by (simp add: reminder_end_def reminder_start_def)
  ultimately show ?thesis by (meson rtranclp.rtrancl_refl rtranclp.rtrancl_into_rtrancl)
qed

lemma sample_cancel:
  "CancelReminder 0 ''r2'' (rs_rows reminder_end) =
    Inr [sample_reminder\<lparr>rm_Status := ''processing''\<rparr>, sample_reminder\<lparr>rm_ID := ''r2'', rm_Status := ''cancelled''\<rparr>]"
  by (simp add: CancelReminder_def update_where_def affected_def scheduled_row_def reminder_end_def reminder_start_def sample_reminder_def trunc_sec_def)


section \<open>Retention\<close>

definition sample_job :: CleanupJob where
  "sample_job = \<lparr> cj_warnedEvents = {}, cj_retentionNotify = True, cj_onDeleteEvent = True \<rparr>"

text \<open>Thirty days and ten minutes after the start of 1970 the retention period of the draft is over.\<close>

lemma sample_expiry: "expires_at sample_draft = 30 * day_seconds * second + 500 * second"
  by (simp add: expires_at_def AddDate_days sample_draft_def)


section \<open>Notifications\<close>

definition empty_ndb :: ndb where
  "empty_ndb = \<lparr> nd_suppressions = [], nd_tokens = [], nd_log = [] \<rparr>"

lemma sample_unsubscribe_token:
  "\<exists>d. GenerateUnsubscribeToken sample_rt {''e1''} ''t1'' 0 (Some ''K'') ''Ann@B.c'' ''e1'' empty_ndb = Inr (d, hex_encode ''K'') \<and>
     length (nd_tokens d) = 1 \<and> nd_suppressions d = []"
  by (simp add: GenerateUnsubscribeToken_def CreateToken_def empty_ndb_def known_event_def event_arg_def normalizeEventID_def add_row_def
    trim_space_graphic graphic_def)

theorem unsubscribe_link_suppresses_scope_witness:
  "\<exists>d1 d3. GenerateUnsubscribeToken sample_rt {''e1''} ''t1'' 0 (Some ''K'') ''Ann@B.c'' ''e1'' empty_ndb = Inr (d1, hex_encode ''K'') \<and>
     handleUnsubscribe sample_rt {''e1''} ''s1'' 5 ''r'' (Decoded (hex_encode ''K''), DecodeEOF) d1 = (d3, UnDone) \<and>
     IsSuppressed sample_rt ''ANN@B.c'' ''e1'' d3 \<and> \<not> IsSuppressed sample_rt ''ANN@B.c'' ''e2'' d3"
proof -
  obtain d1 where d1: "GenerateUnsubscribeToken sample_rt {''e1''} ''t1'' 0 (Some ''K'') ''Ann@B.c'' ''e1'' empty_ndb = Inr (d1, hex_encode ''K'')"
    "length (nd_tokens d1) = 1" "nd_suppressions d1 = []" using sample_unsubscribe_token by blast
  have names: "suppression_normalizeEmail sample_rt ''Ann@B.c'' = ''ann@b.c''" "suppression_normalizeEmail sample_rt ''ANN@B.c'' = ''ann@b.c''"
    "suppression_normalizeEmail sample_rt ''ann@b.c'' = ''ann@b.c''" "normalizeEventID ''e1'' = Some ''e1''" "normalizeEventID ''e2'' = Some ''e2''"
    by (simp_all add: suppression_normalizeEmail_def normalizeEventID_def string_eval sample_rt_def char_of_eq_iff)
  have none: "\<not> IsSuppressed sample_rt m e d1" for m e by (simp add: suppressed_iff d1(3))
  have one: "distinct (map ut_token_hash (nd_tokens d1))" using d1(2) by (auto simp: length_Suc_conv)
  show ?thesis
    using unsubscribe_link_suppresses_scope [OF d1(1), of d1 "''s1''" 5 "''r''"] one d1 none by (auto simp: names)
qed

definition flaky :: provider where
  "flaky = \<lparr> pv_Name = ''smtp'', pv_Send = (\<lambda>m a. if a < 2 then Inl ''timeout'' else Inr (Some ''id'')), pv_SendBatch = (\<lambda>ms. []) \<rparr>"

definition sample_mail :: Message where
  "sample_mail = \<lparr> ms_To = ''a@b.c'', ms_Subject = ''S'', ms_Body = [], ms_Plain = ''hello'', ms_Attachments = [] \<rparr>"

definition plain_options :: notif_options where
  "plain_options = \<lparr> no_BaseURL = [], no_OpenTrackingEnabled = False, no_Suppression = True \<rparr>"

lemma sample_send:
  "\<exists>d'. Send sample_rt plain_options [''email'' \<mapsto> flaky] {''e1''} sample_uuid (\<lambda>k. 0) None (\<lambda>a. True) ''e1'' [] ''email'' sample_mail empty_ndb =
    (d', [(sample_mail, 2)], Sent)"
  by (simp add: Send_def registry_Get_def or_err_def isSuppressedEmail_def suppressed_iff empty_ndb_def dress_def applyUnsubscribeFooter_def
    embedOpenPixel_def plain_options_def flaky_def maxSendAttempts_def numeral_eq_Suc Let_def)


section \<open>Calendar\<close>

definition calendar_event :: EventData where
  "calendar_event = \<lparr> cd_ID = ''e1'', cd_Title = ''A;B'' @ [lf] @ ''END:VEVENT'', cd_Description = [], cd_Location = ''Here, there'', cd_EventDate = 0,
     cd_EndDate = None, cd_Timezone = ''Mars'', cd_URL = ''https://x'' \<rparr>"

theorem calendar_file_readable_witness:
  "(let ls = read_lines (GenerateICS (\<lambda>n. None) 0 calendar_event) in
    filter (\<lambda>l. l = ''BEGIN:VEVENT'') ls = [''BEGIN:VEVENT''] \<and>
    map unescapeText (values_of ''SUMMARY:'' ls) = [''A;B'' @ [lf] @ ''END:VEVENT''] \<and> map unescapeText (values_of ''LOCATION:'' ls) = [''Here, there''])"
proof -
  have z: "event_zone (\<lambda>n. None) calendar_event = (''UTC'', utc_zone)" by (simp add: event_zone_def)
  have "unbroken (cd_ID calendar_event)" "unbroken (cd_URL calendar_event)" "sane_zone ''UTC'' utc_zone"
    by (simp_all add: calendar_event_def sane_zone_def utc_zone_def cr_def lf_def)
  from calendar_file_readable [OF this(1,2) z this(3), of 0] show ?thesis
    by (simp add: Let_def calendar_event_def cr_def lf_def)
qed

section \<open>Administration of the instance\<close>

definition fresh_instance :: inst_db where
  "fresh_instance = \<lparr> ib_instances = [\<lparr> in_ID = ''default'', in_Name = [], in_DefaultTimezone = ''UTC'', in_AllowSignups = False,
     in_SupportEmail = [], in_SetupCompletedAt = None, in_CreatedAt = 0, in_UpdatedAt = 0 \<rparr>],
     ib_ids = \<lparr> id_users = [], id_magic_links = [], id_sessions = [], id_invites = [], id_events = [], id_series = [], id_memberships = [], id_audit = [] \<rparr> \<rparr>"

definition setup_service :: bootstrap_service where
  "setup_service = \<lparr> bs_cfg = as_cfg sample_auth, bs_BootstrapToken = ''secret'' \<rparr>"

definition setup_request :: BootstrapRequest where
  "setup_request = \<lparr> br_BootstrapToken = ''secret'', br_AdminEmail = ''a@b.c'', br_AdminName = ''Ann'', br_InstanceName = ''Owl'', br_DefaultTimezone = ''UTC'',
     br_AllowSignups = False, br_SupportEmail = [] \<rparr>"

lemma sample_setup: "\<exists>st u. Bootstrap sample_rt setup_service (\<lambda>k. 0) (\<lambda>k. ''u1'') (Some ''K'') setup_request fresh_instance = Inr (st, hex_encode ''K'', u)"
  by (simp add: Bootstrap_def constantTimeTokenEqual_def ClaimBootstrapTx_def claimable_def singletonInstanceID_def first_admin_def FindOrganizerByEmail_def
    createUser_def new_user_def FindOrganizerByID_def newToken_def createSession_def TouchLastLoginTx_def active_user_def AuditTx_def inst_lift_def
    id_insert_defs user_ids_def user_checks_def setup_service_def setup_request_def fresh_instance_def table_eval Let_def)

theorem instance_set_up_once_witness:
  "\<exists>st u. Bootstrap sample_rt setup_service (\<lambda>k. 0) (\<lambda>k. ''u1'') (Some ''K'') setup_request fresh_instance = Inr (st, hex_encode ''K'', u) \<and>
     list_ex active_admin (id_users (ib_ids st)) \<and>
     Bootstrap sample_rt setup_service (\<lambda>k. 9) (\<lambda>k. ''u2'') (Some ''L'') setup_request st \<in> {Inl ErrBootstrapUnauthorized, Inl ErrSetupComplete}"
proof -
  obtain st u where b: "Bootstrap sample_rt setup_service (\<lambda>k. 0) (\<lambda>k. ''u1'') (Some ''K'') setup_request fresh_instance = Inr (st, hex_encode ''K'', u)"
    using sample_setup by blast
  have "distinct (map u_ID (id_users (ib_ids fresh_instance)))" by (simp add: fresh_instance_def)
  from instance_set_up_once [OF b rtranclp.rtrancl_refl this] b show ?thesis by blast
qed

lemma sample_transfer:
  "\<exists>d. TransferOwnership (\<lambda>k. ''x'') 0 (Some (sample_user ''u1'' ''admin'')) ''e1'' ''u1'' event_ids_db = Inr d"
  by (simp add: TransferOwnership_def beginAuthorized_def set_role_def member_of_def granted_row_def AuditTx_def known_events_def account_eval event_eval)

theorem transfer_moves_ownership_witness:
  "\<exists>d. TransferOwnership (\<lambda>k. ''x'') 0 (Some (sample_user ''u1'' ''admin'')) ''e1'' ''u1'' event_ids_db = Inr d \<and>
     one_owner d \<and> owner_of ''e1'' d = Some ''u1''"
  using sample_transfer transfer_moves_ownership [OF _ sample_one_owner] by blast

section \<open>Accounts\<close>


definition anonymous :: http_request where
  "anonymous = \<lparr> hr_method = ''POST'', hr_path = ''/'', hr_header = (\<lambda>n. []), hr_cookie = Map.empty, hr_remote_addr = ''C:80'', hr_tls = True, hr_trusted = False \<rparr>"

theorem admin_routes_guarded_witness:
  "\<exists>d mails status code. admin_handle sample_rt \<lparr> ua_cfg = as_cfg sample_auth, ua_sendEmail = None, ua_parse_address = Some, ua_format_time = (\<lambda>t. []) \<rparr> 0 (\<lambda>k. 0)
     (\<lambda>k. ''x'') None ''r'' anonymous (AdTransfer ''e1'' (Decoded ''u1'', DecodeEOF)) event_ids_db = (d, mails, AdError status code []) \<and>
     only_sessions_end event_ids_db d \<and> mails = [] \<and> status \<in> {401, 403}"
proof -
  obtain d mails resp where h: "admin_handle sample_rt \<lparr> ua_cfg = as_cfg sample_auth, ua_sendEmail = None, ua_parse_address = Some, ua_format_time = (\<lambda>t. []) \<rparr> 0 (\<lambda>k. 0)
     (\<lambda>k. ''x'') None ''r'' anonymous (AdTransfer ''e1'' (Decoded ''u1'', DecodeEOF)) event_ids_db = (d, mails, resp)" by (metis prod_cases3)
  have "id_sessions event_ids_db = []" by (simp add: event_ids_db_def sample_ids_def)
  then show ?thesis using admin_routes_guarded [OF h] h by auto
qed

section \<open>Webhooks\<close>

text \<open>A resolver that knows a public host, and one that has both a public and a private address.\<close>

definition sample_lookup :: "string \<Rightarrow> ip list option" where
  "sample_lookup h = (if h = ''h'' then Some [[192, 0, 2, 7]] else if h = ''x'' then Some [[192, 0, 2, 7], [10, 0, 0, 1]] else None)"

lemma sample_targets: "split_host_port ''h:443'' = Some (''h'', ''443'')" "split_host_port ''x:443'' = Some (''x'', ''443'')"
  "join_host_port ''C'' ''443'' = ''C:443''"
  by (simp_all add: split_host_port_def join_host_port_def last_index_of_def index_of_def trim_brackets_def string_eval Let_def)

theorem webhook_connects_public_only_witness:
  "ssrfSafeDialer sample_net sample_lookup ''h:443'' = Inr ([192, 0, 2, 7], ''C:443'') \<and>
   ssrfSafeDialer sample_net sample_lookup ''x:443'' \<noteq> Inr ([192, 0, 2, 7], ''C:443'')"
proof
  have "\<not> reserved_address [192, 0, 2, 7]" "reserved_address [10, 0, 0, 1]" by (simp_all add: reserved_address_def to4_def)
  then show "ssrfSafeDialer sample_net sample_lookup ''h:443'' = Inr ([192, 0, 2, 7], ''C:443'')"
    "ssrfSafeDialer sample_net sample_lookup ''x:443'' \<noteq> Inr ([192, 0, 2, 7], ''C:443'')"
    by (simp_all add: webhook_connects_public_only sample_targets sample_lookup_def sample_net_def)
qed

definition sample_webhook :: Webhook where
  "sample_webhook = \<lparr> wh_ID = ''w1'', wh_EventID = ''e1'', wh_URL = ''https://h/'', wh_Secret = ''whsec_0'', wh_EventTypes = [''event.published''],
     wh_Description = [], wh_Enabled = True, wh_CreatedAt = 0, wh_UpdatedAt = 0 \<rparr>"

definition webhook_db :: wdb where
  "webhook_db = \<lparr> wd_webhooks = [sample_webhook, sample_webhook\<lparr>wh_ID := ''w2'', wh_Enabled := False\<rparr>], wd_deliveries = [] \<rparr>"

text \<open>A receiver that fails once and then accepts.\<close>

definition sample_receiver :: wh_client where
  "sample_receiver = \<lparr> wc_accepts = (\<lambda>u. True), wc_Do = (\<lambda>q n. if n = 1 then Inr (503, ''busy'') else Inr (204, [])), wc_alive = (\<lambda>n. True) \<rparr>"

definition sample_dispatch :: "wdb \<times> wh_request list" where
  "sample_dispatch = Dispatch sample_rt (\<lambda>i. sample_receiver) (\<lambda>i. replicate i CHR ''d'') 0 (\<lambda>i. 0) (\<lambda>i n. 0) (\<lambda>t. Some ''{}'') ''e1'' ''event.published'' webhook_db"


theorem webhook_tables_stay_valid_witness:
  "webhooks_ok True (fst sample_dispatch) \<and> list_all (\<lambda>w. prefix ''https://'' (wh_URL w)) (wd_webhooks (fst sample_dispatch))"
proof -
  have "webhooks_ok True webhook_db"
    by (simp add: webhooks_ok_def webhook_valid_def webhook_db_def sample_webhook_def isValidWebhookURL_def ValidEventTypes_def)
  moreover have "(webhook_step sample_rt True)\<^sup>*\<^sup>* webhook_db (fst sample_dispatch)"
    unfolding sample_dispatch_def by (rule r_into_rtranclp, rule webhook_step.dispatch, rule surjective_pairing)
  ultimately show ?thesis using webhook_tables_stay_valid unfolding list_all_iff by blast
qed

end
