(* ===== verification/Questions.thy ===== *)
theory Questions
  imports Reminders Invitation_Response
begin

text \<open>
  Custom questions of an event (\<open>internal/question\<close>): the store over the table that the invitations
  read, the service with its limits, and the routes of organizers. \<open>enc\<close> is \<open>json.Marshal\<close> of a list
  of strings; the decoder is \<open>rt_json_strings\<close>.
\<close>

section \<open>Data\<close>

record EventQuestion =
  eq_ID :: id
  eq_EventID :: id
  eq_Label :: string
  eq_Type :: string
  eq_Options :: "string list"
  eq_Required :: bool
  eq_Scope :: string
  eq_SortOrder :: int
  eq_Deleted :: bool
  eq_CreatedAt :: time
  eq_UpdatedAt :: time

record CreateQuestionRequest =
  cqr_Label :: string
  cqr_Type :: string
  cqr_Options :: "string list"
  cqr_Required :: "bool option"
  cqr_Scope :: string
  cqr_SortOrder :: "int option"

record UpdateQuestionRequest =
  uqr_Label :: "string option"
  uqr_Type :: "string option"
  uqr_Options :: "string list option"
  uqr_Required :: "bool option"
  uqr_Scope :: "string option"
  uqr_SortOrder :: "int option"

definition maxQuestionsPerEvent :: nat where "maxQuestionsPerEvent = 10"
definition maxOptionsPerQuestion :: nat where "maxOptionsPerQuestion = 20"
definition maxLabelLength :: nat where "maxLabelLength = 500"
definition maxOptionLength :: nat where "maxOptionLength = 200"
definition validTypes :: "string list" where "validTypes = [''text'', ''select'', ''checkbox'']"
definition validScopes :: "string list" where "validScopes = [''invitation'', ''guest'']"

section \<open>The store\<close>

text \<open>The checks of the table.\<close>

definition question_checks :: "EventQuestion \<Rightarrow> bool" where
  "question_checks q \<longleftrightarrow> eq_Type q \<in> set validTypes \<and> eq_Scope q \<in> set validScopes"

definition question_row_of :: "(string list \<Rightarrow> string) \<Rightarrow> time \<Rightarrow> EventQuestion \<Rightarrow> question_row" where
  "question_row_of enc now q = \<lparr> qr_id = eq_ID q, qr_event_id = eq_EventID q, qr_label = eq_Label q, qr_type = eq_Type q,
     qr_options = enc (eq_Options q), qr_required = eq_Required q, qr_scope = eq_Scope q, qr_sort_order = eq_SortOrder q,
     qr_deleted = False, qr_created_at = now, qr_updated_at = now \<rparr>"

definition StoreCreateQuestion :: "(string list \<Rightarrow> string) \<Rightarrow> time \<Rightarrow> EventQuestion \<Rightarrow> db \<Rightarrow> string + (db \<times> EventQuestion)" where
  "StoreCreateQuestion enc now q d =
    (if eq_ID q \<in> question_ids d \<or> eq_EventID q \<notin> event_ids d \<or> \<not> question_checks q then Inl ''create question''
     else Inr (d\<lparr>db_questions := add_row (question_row_of enc (trunc_sec now) q) (db_questions d)\<rparr>,
       q\<lparr>eq_CreatedAt := trunc_sec now, eq_UpdatedAt := trunc_sec now\<rparr>))"

definition parseQuestion :: "'x runtime_scheme \<Rightarrow> question_row \<Rightarrow> string + EventQuestion" where
  "parseQuestion rt r =
    rbind (if qr_options r = [] then Inr [] else or_err (rt_json_strings rt (qr_options r)) ''parse options'') (\<lambda>options.
    Inr \<lparr> eq_ID = qr_id r, eq_EventID = qr_event_id r, eq_Label = qr_label r, eq_Type = qr_type r, eq_Options = options,
      eq_Required = qr_required r, eq_Scope = qr_scope r, eq_SortOrder = qr_sort_order r, eq_Deleted = qr_deleted r,
      eq_CreatedAt = qr_created_at r, eq_UpdatedAt = qr_updated_at r \<rparr>)"

definition live_question :: "id \<Rightarrow> question_row \<Rightarrow> bool" where
  "live_question eventID r \<longleftrightarrow> qr_event_id r = eventID \<and> \<not> qr_deleted r"

definition by_sort_order :: "question_row \<Rightarrow> question_row \<Rightarrow> bool" where
  "by_sort_order a b \<longleftrightarrow> qr_sort_order a < qr_sort_order b"

definition FindQuestionsByEventID :: "'x runtime_scheme \<Rightarrow> id \<Rightarrow> db \<Rightarrow> string + EventQuestion list" where
  "FindQuestionsByEventID rt eventID d =
    loop (\<lambda>acc r. rbind (parseQuestion rt r) (\<lambda>q. Inr (acc @ [q]))) []
      (order_by by_sort_order (filter (live_question eventID) (db_questions d)))"

definition FindQuestionByID :: "'x runtime_scheme \<Rightarrow> id \<Rightarrow> db \<Rightarrow> string + EventQuestion option" where
  "FindQuestionByID rt i d = (case select_row (\<lambda>r. qr_id r = i) (db_questions d) of
      None \<Rightarrow> Inr None | Some r \<Rightarrow> rbind (parseQuestion rt r) (\<lambda>q. Inr (Some q)))"

definition StoreUpdateQuestion :: "(string list \<Rightarrow> string) \<Rightarrow> time \<Rightarrow> EventQuestion \<Rightarrow> db \<Rightarrow> string + (db \<times> EventQuestion)" where
  "StoreUpdateQuestion enc now q d =
    (if \<not> question_checks q then Inl ''update question''
     else Inr (d\<lparr>db_questions := update_where (\<lambda>r. qr_id r = eq_ID q) (\<lambda>r. r\<lparr>qr_label := eq_Label q, qr_type := eq_Type q,
          qr_options := enc (eq_Options q), qr_required := eq_Required q, qr_scope := eq_Scope q, qr_sort_order := eq_SortOrder q,
          qr_updated_at := trunc_sec now\<rparr>) (db_questions d)\<rparr>,
        q\<lparr>eq_UpdatedAt := trunc_sec now\<rparr>))"

definition SoftDelete :: "time \<Rightarrow> id \<Rightarrow> db \<Rightarrow> db" where
  "SoftDelete now i d = d\<lparr>db_questions := update_where (\<lambda>r. qr_id r = i)
     (\<lambda>r. r\<lparr>qr_deleted := True, qr_updated_at := trunc_sec now\<rparr>) (db_questions d)\<rparr>"

definition CountQuestionsByEventID :: "id \<Rightarrow> db \<Rightarrow> nat" where
  "CountQuestionsByEventID eventID d = affected (live_question eventID) (db_questions d)"

text \<open>The batch of updates of the sort order, one transaction.\<close>

definition set_sort_order :: "time \<Rightarrow> id \<Rightarrow> int \<Rightarrow> id \<Rightarrow> question_row list \<Rightarrow> question_row list" where
  "set_sort_order now eventID i qid rows = update_where (\<lambda>r. qr_id r = qid \<and> live_question eventID r)
     (\<lambda>r. r\<lparr>qr_sort_order := i, qr_updated_at := trunc_sec now\<rparr>) rows"

fun sort_order_loop :: "time \<Rightarrow> id \<Rightarrow> int \<Rightarrow> id list \<Rightarrow> question_row list \<Rightarrow> question_row list" where
  "sort_order_loop now eventID i [] rows = rows"
| "sort_order_loop now eventID i (qid # ids) rows = sort_order_loop now eventID (i + 1) ids (set_sort_order now eventID i qid rows)"

definition UpdateSortOrders :: "time \<Rightarrow> id \<Rightarrow> id list \<Rightarrow> db \<Rightarrow> db" where
  "UpdateSortOrders now eventID orderedIDs d = d\<lparr>db_questions := sort_order_loop now eventID 0 orderedIDs (db_questions d)\<rparr>"

section \<open>The service\<close>

definition check_label :: "string \<Rightarrow> string + string" where
  "check_label raw =
    (let label = trim_space raw in
     rbind (guard (label \<noteq> []) ''label is required'') (\<lambda>_.
     rbind (guard (length label \<le> maxLabelLength) ''label must be 500 characters or fewer'') (\<lambda>_. Inr label)))"

definition check_type :: "string \<Rightarrow> string + unit" where
  "check_type t = guard (t \<in> set validTypes) ''invalid question type: must be text, select, or checkbox''"

definition check_option :: "unit \<Rightarrow> string \<Rightarrow> string + unit" where
  "check_option u opt =
    rbind (guard (trim_space opt \<noteq> []) ''option values cannot be empty'') (\<lambda>_.
    guard (length opt \<le> maxOptionLength) ''option values must be 200 characters or fewer'')"

definition check_options :: "string list \<Rightarrow> string + unit" where
  "check_options options = loop check_option () options"

definition check_option_count :: "string \<Rightarrow> string list \<Rightarrow> string + unit" where
  "check_option_count t options =
    rbind (guard (\<not> ((t = ''select'' \<or> t = ''checkbox'') \<and> length options < 2)) ''select and checkbox questions require at least 2 options'') (\<lambda>_.
    guard (length options \<le> maxOptionsPerQuestion) ''maximum 20 options per question'')"

definition check_scope :: "string \<Rightarrow> string + unit" where
  "check_scope s = guard (s \<in> set validScopes) ''invalid question scope: must be invitation or guest''"

definition CreateQuestion ::
  "(string list \<Rightarrow> string) \<Rightarrow> id \<Rightarrow> time \<Rightarrow> id \<Rightarrow> CreateQuestionRequest \<Rightarrow> db \<Rightarrow> string + (db \<times> EventQuestion)" where
  "CreateQuestion enc uuid now eventID req d =
    rbind (check_label (cqr_Label req)) (\<lambda>label.
    rbind (check_type (cqr_Type req)) (\<lambda>_.
    rbind (check_option_count (cqr_Type req) (cqr_Options req)) (\<lambda>_.
    rbind (check_options (cqr_Options req)) (\<lambda>_.
    let n = CountQuestionsByEventID eventID d; scope = (if cqr_Scope req = [] then ''guest'' else cqr_Scope req) in
    rbind (guard (n < maxQuestionsPerEvent) ''maximum 10 questions per event'') (\<lambda>_.
    rbind (check_scope scope) (\<lambda>_.
    StoreCreateQuestion enc now \<lparr> eq_ID = uuid, eq_EventID = eventID, eq_Label = label, eq_Type = cqr_Type req, eq_Options = cqr_Options req,
      eq_Required = (cqr_Required req = Some True), eq_Scope = scope,
      eq_SortOrder = (case cqr_SortOrder req of None \<Rightarrow> int n | Some i \<Rightarrow> i), eq_Deleted = False, eq_CreatedAt = 0, eq_UpdatedAt = 0 \<rparr> d))))))"

definition find_question :: "'x runtime_scheme \<Rightarrow> id \<Rightarrow> db \<Rightarrow> string + EventQuestion" where
  "find_question rt i d = rbind (FindQuestionByID rt i d) (\<lambda>found. case found of
      None \<Rightarrow> Inl ''question not found''
    | Some q \<Rightarrow> if eq_Deleted q then Inl ''question not found'' else Inr q)"

text \<open>The parts of an update that a request may leave out.\<close>

definition with_field :: "'v option \<Rightarrow> ('v \<Rightarrow> 'q \<Rightarrow> string + 'q) \<Rightarrow> 'q \<Rightarrow> string + 'q" where
  "with_field v f q = (case v of None \<Rightarrow> Inr q | Some x \<Rightarrow> f x q)"

definition apply_question_update :: "UpdateQuestionRequest \<Rightarrow> EventQuestion \<Rightarrow> string + EventQuestion" where
  "apply_question_update req q =
    rbind (with_field (uqr_Label req) (\<lambda>raw q. rbind (check_label raw) (\<lambda>label. Inr (q\<lparr>eq_Label := label\<rparr>))) q) (\<lambda>q.
    rbind (with_field (uqr_Type req) (\<lambda>t q. rbind (check_type t) (\<lambda>_. Inr (q\<lparr>eq_Type := t\<rparr>))) q) (\<lambda>q.
    rbind (with_field (uqr_Options req) (\<lambda>options q. rbind (check_options options) (\<lambda>_. Inr (q\<lparr>eq_Options := options\<rparr>))) q) (\<lambda>q.
    rbind (check_option_count (eq_Type q) (eq_Options q)) (\<lambda>_.
    rbind (with_field (uqr_Required req) (\<lambda>b q. Inr (q\<lparr>eq_Required := b\<rparr>)) q) (\<lambda>q.
    rbind (with_field (uqr_Scope req) (\<lambda>s q. rbind (check_scope s) (\<lambda>_. Inr (q\<lparr>eq_Scope := s\<rparr>))) q) (\<lambda>q.
    with_field (uqr_SortOrder req) (\<lambda>i q. Inr (q\<lparr>eq_SortOrder := i\<rparr>)) q))))))"

definition UpdateQuestion ::
  "'x runtime_scheme \<Rightarrow> (string list \<Rightarrow> string) \<Rightarrow> time \<Rightarrow> id \<Rightarrow> UpdateQuestionRequest \<Rightarrow> db \<Rightarrow> string + (db \<times> EventQuestion)" where
  "UpdateQuestion rt enc now i req d =
    rbind (find_question rt i d) (\<lambda>q. rbind (apply_question_update req q) (\<lambda>q. StoreUpdateQuestion enc now q d))"

definition DeleteQuestion :: "'x runtime_scheme \<Rightarrow> time \<Rightarrow> id \<Rightarrow> db \<Rightarrow> string + db" where
  "DeleteQuestion rt now i d = rbind (find_question rt i d) (\<lambda>_. Inr (SoftDelete now i d))"

definition ListQuestionsByEvent :: "'x runtime_scheme \<Rightarrow> id \<Rightarrow> db \<Rightarrow> string + EventQuestion list" where
  "ListQuestionsByEvent rt eventID d = FindQuestionsByEventID rt eventID d"

definition Reorder :: "time \<Rightarrow> id \<Rightarrow> id list \<Rightarrow> db \<Rightarrow> db" where
  "Reorder now eventID orderedIDs d = UpdateSortOrders now eventID orderedIDs d"

section \<open>The routes\<close>

datatype qu_response =
    QuQuestion nat EventQuestion
  | QuQuestions "EventQuestion list"
  | QuMessage string
  | QuError nat string string

definition qu_internal :: qu_response where "qu_internal = QuError 500 ''internal_error'' ''an internal error occurred''"
definition qu_bad :: "string \<Rightarrow> qu_response" where "qu_bad msg = QuError 400 ''bad_request'' msg"

definition for_question_event :: "id option \<Rightarrow> id \<Rightarrow> idb \<Rightarrow> (db \<Rightarrow> db \<times> qu_response) \<Rightarrow> db \<Rightarrow> db \<times> qu_response" where
  "for_question_event organizer eventID e h d = (case organizer of
      None \<Rightarrow> (d, QuError 401 ''unauthorized'' ''authentication required'')
    | Some u \<Rightarrow> (case checkEventOwner eventID u e of
         Inl _ \<Rightarrow> (d, QuError 404 ''not_found'' ''event not found'')
       | Inr _ \<Rightarrow> h d))"

text \<open>The check that the question belongs to the event of the path.\<close>

definition for_question :: "'x runtime_scheme \<Rightarrow> id \<Rightarrow> id \<Rightarrow> (db \<Rightarrow> db \<times> qu_response) \<Rightarrow> db \<Rightarrow> db \<times> qu_response" where
  "for_question rt eventID qid h d = (case FindQuestionByID rt qid d of
      Inl _ \<Rightarrow> (d, qu_internal)
    | Inr None \<Rightarrow> (d, QuError 404 ''not_found'' ''question not found'')
    | Inr (Some q) \<Rightarrow>
        if eq_Deleted q \<or> eq_EventID q \<noteq> eventID then (d, QuError 404 ''not_found'' ''question not found'') else h d)"

definition handleListQuestions :: "'x runtime_scheme \<Rightarrow> id option \<Rightarrow> id \<Rightarrow> idb \<Rightarrow> db \<Rightarrow> db \<times> qu_response" where
  "handleListQuestions rt organizer eventID e = for_question_event organizer eventID e (\<lambda>d. (d, case ListQuestionsByEvent rt eventID d of
      Inl _ \<Rightarrow> qu_internal | Inr qs \<Rightarrow> QuQuestions qs))"

definition handleCreateQuestion ::
  "(string list \<Rightarrow> string) \<Rightarrow> id \<Rightarrow> time \<Rightarrow> id option \<Rightarrow> id \<Rightarrow> CreateQuestionRequest json_body \<Rightarrow> idb \<Rightarrow> db \<Rightarrow> db \<times> qu_response" where
  "handleCreateQuestion enc uuid now organizer eventID body e = for_question_event organizer eventID e (\<lambda>d. case DecodeJSON body of
      Inl _ \<Rightarrow> (d, qu_bad ''invalid JSON body'')
    | Inr req \<Rightarrow> (case CreateQuestion enc uuid now eventID req d of Inl msg \<Rightarrow> (d, qu_bad msg) | Inr (d', q) \<Rightarrow> (d', QuQuestion 201 q)))"

definition handleUpdateQuestion ::
  "'x runtime_scheme \<Rightarrow> (string list \<Rightarrow> string) \<Rightarrow> time \<Rightarrow> id option \<Rightarrow> id \<Rightarrow> id \<Rightarrow> UpdateQuestionRequest json_body \<Rightarrow> idb \<Rightarrow> db \<Rightarrow> db \<times> qu_response" where
  "handleUpdateQuestion rt enc now organizer eventID qid body e = for_question_event organizer eventID e (for_question rt eventID qid (\<lambda>d.
     case DecodeJSON body of
       Inl _ \<Rightarrow> (d, qu_bad ''invalid JSON body'')
     | Inr req \<Rightarrow> (case UpdateQuestion rt enc now qid req d of Inl msg \<Rightarrow> (d, qu_bad msg) | Inr (d', q) \<Rightarrow> (d', QuQuestion 200 q))))"

definition handleDeleteQuestion :: "'x runtime_scheme \<Rightarrow> time \<Rightarrow> id option \<Rightarrow> id \<Rightarrow> id \<Rightarrow> idb \<Rightarrow> db \<Rightarrow> db \<times> qu_response" where
  "handleDeleteQuestion rt now organizer eventID qid e = for_question_event organizer eventID e (for_question rt eventID qid (\<lambda>d.
     case DeleteQuestion rt now qid d of Inl _ \<Rightarrow> (d, qu_internal) | Inr d' \<Rightarrow> (d', QuMessage ''question deleted'')))"

definition handleReorder :: "time \<Rightarrow> id option \<Rightarrow> id \<Rightarrow> id list json_body \<Rightarrow> idb \<Rightarrow> db \<Rightarrow> db \<times> qu_response" where
  "handleReorder now organizer eventID body e = for_question_event organizer eventID e (\<lambda>d. case DecodeJSON body of
      Inl _ \<Rightarrow> (d, qu_bad ''invalid JSON body'')
    | Inr ids \<Rightarrow>
        if ids = [] then (d, qu_bad ''questionIds is required'')
        else if maxQuestionsPerEvent < length ids then (d, qu_bad ''too many question IDs (max 10)'')
        else (Reorder now eventID ids d, QuMessage ''questions reordered''))"

datatype question_op =
    QuList | QuCreate "CreateQuestionRequest json_body" | QuUpdate id "UpdateQuestionRequest json_body" | QuDelete id | QuReorder "id list json_body"

definition question_handle ::
  "'x runtime_scheme \<Rightarrow> (string list \<Rightarrow> string) \<Rightarrow> id \<Rightarrow> time \<Rightarrow> id option \<Rightarrow> id \<Rightarrow> question_op \<Rightarrow> idb \<Rightarrow> db \<Rightarrow> db \<times> qu_response" where
  "question_handle rt enc uuid now organizer eventID rq e = (case rq of
      QuList \<Rightarrow> handleListQuestions rt organizer eventID e
    | QuCreate body \<Rightarrow> handleCreateQuestion enc uuid now organizer eventID body e
    | QuUpdate qid body \<Rightarrow> handleUpdateQuestion rt enc now organizer eventID qid body e
    | QuDelete qid \<Rightarrow> handleDeleteQuestion rt now organizer eventID qid e
    | QuReorder body \<Rightarrow> handleReorder now organizer eventID body e)"

end
