(* ===== verification/Question_Safety.thy ===== *)
theory Question_Safety
  imports Questions
begin

text \<open>
  What the editing of questions guarantees to guests: the questions they see are within the limits, can
  be answered, and come in the order the organizer gave them.
\<close>

section \<open>Sorting and collecting\<close>

text \<open>\<open>ORDER BY\<close> a column is the library's sort by this key.\<close>

lemma insert_by_key:
  fixes f :: "'r \<Rightarrow> 'k :: linorder"
  assumes "\<And>y. y \<in> set xs \<Longrightarrow> lt y r \<longleftrightarrow> f y < f r"
  shows "insert_by lt r xs = insort_key f r xs"
  using assms by (induction xs) auto

lemma order_by_key:
  fixes f :: "'r \<Rightarrow> 'k :: linorder"
  assumes "\<And>x y. x \<in> set xs \<Longrightarrow> y \<in> set xs \<Longrightarrow> x \<noteq> y \<Longrightarrow> lt x y \<longleftrightarrow> f x < f y" "distinct xs"
  shows "order_by lt xs = sort_key f xs"
  using assms
proof (induction xs)
  case (Cons x xs)
  have "insert_by lt x (sort_key f xs) = insort_key f x (sort_key f xs)"
    using Cons.prems by (intro insert_by_key) auto
  then show ?case using Cons by simp
qed simp

text \<open>Rows whose keys are their positions in a list come out as that list.\<close>

lemma sort_key_positions:
  fixes f :: "'r \<Rightarrow> int"
  assumes "distinct (map k rows)" "distinct ids" "k ` set rows = set ids"
    and "\<And>i r. i < length ids \<Longrightarrow> r \<in> set rows \<Longrightarrow> k r = ids ! i \<Longrightarrow> f r = int i"
  shows "map k (sort_key f rows) = ids"
proof -
  let ?xs = "sort_key f rows"
  have pos: "\<exists>i<length ids. k r = ids ! i \<and> f r = int i" if "r \<in> set rows" for r
    using that assms(3,4) by (metis image_eqI in_set_conv_nth)
  have len: "length rows = length ids" using assms(1-3) by (metis distinct_card length_map list.set_map)
  have dist: "distinct (map f rows)"
    unfolding distinct_map inj_on_def
  proof (intro conjI ballI impI)
    show "distinct rows" using assms(1) by (simp add: distinct_map)
    fix a b assume ab: "a \<in> set rows" "b \<in> set rows" "f a = f b"
    then have "k a = k b" using pos by (metis nat_int)
    then show "a = b" using assms(1) ab by (auto simp: distinct_map dest: inj_onD)
  qed
  have "set (map f rows) = set (map int [0..<length ids])"
  proof (rule card_subset_eq)
    show "set (map f rows) \<subseteq> set (map int [0..<length ids])" using pos by fastforce
    show "card (set (map f rows)) = card (set (map int [0..<length ids]))"
      using dist len by (subst (1 2) distinct_card) (auto simp: distinct_map)
  qed simp
  then have "set (map f ?xs) = set (map int [0..<length ids])" by simp
  moreover have "distinct (map f ?xs)" using dist by (metis distinct_map distinct_sort set_sort)
  moreover have "sorted (map int [0..<length ids])" "distinct (map int [0..<length ids])"
    by (auto simp: sorted_iff_nth_mono distinct_map)
  ultimately have "map f ?xs = map int [0..<length ids]" using sorted_sort_key [of f rows] by (intro sorted_distinct_set_unique)
  then have "\<forall>i<length ids. f (?xs ! i) = int i" using len by (metis add_0 length_map length_sort length_upt minus_nat.diff_0 nth_map nth_upt)
  moreover have "\<forall>i<length ids. ?xs ! i \<in> set rows" using len by (metis length_sort nth_mem set_sort)
  ultimately have "\<forall>i<length ids. k (?xs ! i) = ids ! i" using pos by (metis nat_int)
  then show ?thesis using len by (intro nth_equalityI) auto
qed

text \<open>A loop that parses every row and appends the result.\<close>

lemma collect_rows:
  assumes "\<And>r. r \<in> set rows \<Longrightarrow> \<exists>q. p r = Inr q"
  shows "\<exists>qs. loop (\<lambda>acc r. rbind (p r) (\<lambda>q. Inr (acc @ [q]))) acc rows = Inr (acc @ qs) \<and> list_all2 (\<lambda>r q. p r = Inr q) rows qs"
  using assms
proof (induction rows arbitrary: acc)
  case (Cons r rows)
  obtain q where "p r = Inr q" using Cons.prems by auto
  with Cons.IH [of "acc @ [q]"] Cons.prems show ?case by fastforce
qed simp

lemma list_all2_right: "list_all2 R xs ys \<Longrightarrow> y \<in> set ys \<Longrightarrow> \<exists>x \<in> set xs. R x y"
  by (induction rule: list_all2_induct) auto

lemma list_all2_map_eq: "list_all2 R xs ys \<Longrightarrow> (\<And>x y. R x y \<Longrightarrow> g y = f x) \<Longrightarrow> map g ys = map f xs"
  by (induction rule: list_all2_induct) auto

section \<open>Reordering\<close>

definition position :: "'a list \<Rightarrow> 'a \<Rightarrow> nat" where
  "position xs x = length (takeWhile (\<lambda>y. y \<noteq> x) xs)"

lemma position_Cons: "position (y # ys) x = (if y = x then 0 else Suc (position ys x))"
  by (simp add: position_def)

lemma position_nth: "distinct xs \<Longrightarrow> i < length xs \<Longrightarrow> position xs (xs ! i) = i"
  by (induction xs arbitrary: i) (auto simp: position_Cons nth_Cons position_def [of "[]"] split: nat.splits)

definition renumbered :: "time \<Rightarrow> id \<Rightarrow> int \<Rightarrow> id list \<Rightarrow> question_row \<Rightarrow> question_row" where
  "renumbered now e i ids r =
    (if live_question e r \<and> qr_id r \<in> set ids
     then r\<lparr>qr_sort_order := i + int (position ids (qr_id r)), qr_updated_at := trunc_sec now\<rparr> else r)"

lemma sort_order_loop_rows:
  assumes "distinct ids"
  shows "sort_order_loop now e i ids rows = map (renumbered now e i ids) rows"
  using assms
proof (induction ids arbitrary: i rows)
  case Nil
  then show ?case by (simp add: renumbered_def)
next
  case (Cons qid ids)
  have "renumbered now e (i + 1) ids (if qr_id r = qid \<and> live_question e r then r\<lparr>qr_sort_order := i, qr_updated_at := trunc_sec now\<rparr> else r) =
      renumbered now e i (qid # ids) r" for r
    using Cons.prems by (cases "qr_id r = qid") (simp_all add: renumbered_def position_Cons live_question_def)
  then show ?case using Cons by (simp add: set_sort_order_def update_where_def)
qed

lemma renumbered_fields [simp]:
  "qr_id (renumbered now e i ids r) = qr_id r" "qr_event_id (renumbered now e i ids r) = qr_event_id r"
  "qr_deleted (renumbered now e i ids r) = qr_deleted r" "qr_label (renumbered now e i ids r) = qr_label r"
  "qr_type (renumbered now e i ids r) = qr_type r" "qr_options (renumbered now e i ids r) = qr_options r"
  "qr_scope (renumbered now e i ids r) = qr_scope r" "live_question e' (renumbered now e i ids r) = live_question e' r"
  by (simp_all add: renumbered_def live_question_def)

section \<open>Well-formed questions\<close>

text \<open>
  The limits that the service sets. \<open>json_codec\<close> is what is used of \<open>encoding/json\<close>: lists of strings are read back as
  they were written, the empty text is not a value, and \<open>[]\<close> is the empty list. Reading back holds for valid UTF-8, which
  the texts of a decoded request are.
\<close>

definition json_codec :: "'x runtime_scheme \<Rightarrow> (string list \<Rightarrow> string) \<Rightarrow> bool" where
  "json_codec rt enc \<longleftrightarrow> (\<forall>xs. rt_json_strings rt (enc xs) = Some xs) \<and> rt_json_strings rt [] = None \<and> rt_json_strings rt ''[]'' = Some []"

definition options_ok :: "string \<Rightarrow> string list \<Rightarrow> bool" where
  "options_ok t options \<longleftrightarrow> (\<forall>x \<in> set options. trim_space x \<noteq> [] \<and> length x \<le> 200) \<and> length options \<le> 20 \<and>
     (t \<in> {''select'', ''checkbox''} \<longrightarrow> 2 \<le> length options)"

definition question_ok :: "'x runtime_scheme \<Rightarrow> question_row \<Rightarrow> bool" where
  "question_ok rt r \<longleftrightarrow> qr_label r \<noteq> [] \<and> length (qr_label r) \<le> 500 \<and> qr_type r \<in> {''text'', ''select'', ''checkbox''} \<and>
     qr_scope r \<in> {''invitation'', ''guest''} \<and> (\<exists>options. rt_json_strings rt (qr_options r) = Some options \<and> options_ok (qr_type r) options)"

definition questions_ok :: "'x runtime_scheme \<Rightarrow> db \<Rightarrow> bool" where
  "questions_ok rt d \<longleftrightarrow> distinct (map qr_id (db_questions d)) \<and> (\<forall>r \<in> set (db_questions d). question_ok rt r) \<and>
     (\<forall>e. CountQuestionsByEventID e d \<le> 10)"

lemma check_label_ok: "check_label raw = Inr label \<Longrightarrow> label \<noteq> [] \<and> length label \<le> 500"
  by (auto simp: check_label_def Let_def maxLabelLength_def)

lemma check_options_ok: "check_options options = Inr u \<Longrightarrow> x \<in> set options \<Longrightarrow> trim_space x \<noteq> [] \<and> length x \<le> 200"
  unfolding check_options_def
  by (induction options) (auto simp: check_option_def maxOptionLength_def)

lemma check_option_count_ok:
  "check_option_count t options = Inr u \<longleftrightarrow> length options \<le> 20 \<and> (t \<in> {''select'', ''checkbox''} \<longrightarrow> 2 \<le> length options)"
  by (auto simp: check_option_count_def maxOptionsPerQuestion_def)

lemmas check_simps = check_type_def check_scope_def validTypes_def validScopes_def check_option_count_ok

text \<open>A question as the service holds it.\<close>

definition held_ok :: "EventQuestion \<Rightarrow> bool" where
  "held_ok q \<longleftrightarrow> eq_Label q \<noteq> [] \<and> length (eq_Label q) \<le> 500 \<and> eq_Type q \<in> {''text'', ''select'', ''checkbox''} \<and>
     eq_Scope q \<in> {''invitation'', ''guest''} \<and> options_ok (eq_Type q) (eq_Options q)"

lemma row_of_ok: "json_codec rt enc \<Longrightarrow> held_ok q \<Longrightarrow> question_ok rt (question_row_of enc now q)"
  by (simp add: question_ok_def held_ok_def question_row_of_def json_codec_def)

lemma parseQuestion_ok:
  assumes "json_codec rt enc" "question_ok rt r"
  shows "\<exists>q. parseQuestion rt r = Inr q \<and> held_ok q"
proof -
  have "qr_options r \<noteq> []" using assms by (auto simp: json_codec_def question_ok_def)
  then show ?thesis using assms(2) by (auto simp: parseQuestion_def question_ok_def held_ok_def)
qed

lemma parseQuestion_fields:
  "parseQuestion rt r = Inr q \<Longrightarrow> eq_ID q = qr_id r \<and> eq_EventID q = qr_event_id r \<and> eq_Deleted q = qr_deleted r"
  by (auto simp: parseQuestion_def)

lemma with_field_Inr: "with_field v f q = Inr q' \<longleftrightarrow> (case v of None \<Rightarrow> q' = q | Some x \<Rightarrow> f x q = Inr q')"
  by (auto simp: with_field_def split: option.splits)

lemma apply_question_update_ok:
  assumes "apply_question_update req q = Inr q'" "held_ok q"
  shows "held_ok q' \<and> eq_ID q' = eq_ID q"
proof -
  obtain q1 q2 q3 q4 q5 where s:
    "with_field (uqr_Label req) (\<lambda>raw q. rbind (check_label raw) (\<lambda>label. Inr (q\<lparr>eq_Label := label\<rparr>))) q = Inr q1"
    "with_field (uqr_Type req) (\<lambda>t q. rbind (check_type t) (\<lambda>_. Inr (q\<lparr>eq_Type := t\<rparr>))) q1 = Inr q2"
    "with_field (uqr_Options req) (\<lambda>options q. rbind (check_options options) (\<lambda>_. Inr (q\<lparr>eq_Options := options\<rparr>))) q2 = Inr q3"
    "check_option_count (eq_Type q3) (eq_Options q3) = Inr ()"
    "with_field (uqr_Required req) (\<lambda>b q. Inr (q\<lparr>eq_Required := b\<rparr>)) q3 = Inr q4"
    "with_field (uqr_Scope req) (\<lambda>s q. rbind (check_scope s) (\<lambda>_. Inr (q\<lparr>eq_Scope := s\<rparr>))) q4 = Inr q5"
    "with_field (uqr_SortOrder req) (\<lambda>i q. Inr (q\<lparr>eq_SortOrder := i\<rparr>)) q5 = Inr q'"
    using assms(1) unfolding apply_question_update_def rbind_Inr_iff by (elim exE conjE) (rule that, assumption+, simp_all)
  let ?opts = "\<lambda>q. \<forall>x \<in> set (eq_Options q). trim_space x \<noteq> [] \<and> length x \<le> 200"
  let ?named = "\<lambda>q. eq_Label q \<noteq> [] \<and> length (eq_Label q) \<le> 500"
  have q1: "?named q1" "eq_ID q1 = eq_ID q" "eq_Type q1 = eq_Type q" "eq_Options q1 = eq_Options q" "eq_Scope q1 = eq_Scope q"
    using s(1) assms(2) by (auto simp: with_field_Inr held_ok_def split: option.splits dest: check_label_ok)
  have q2: "?named q2" "eq_ID q2 = eq_ID q" "eq_Type q2 \<in> {''text'', ''select'', ''checkbox''}" "eq_Options q2 = eq_Options q" "eq_Scope q2 = eq_Scope q"
    using s(2) q1 assms(2) by (auto simp: with_field_Inr held_ok_def check_simps split: option.splits)
  have "?opts q2" using q2(4) assms(2) by (simp add: held_ok_def options_ok_def)
  then have q3: "?named q3" "eq_ID q3 = eq_ID q" "eq_Type q3 = eq_Type q2" "?opts q3" "eq_Scope q3 = eq_Scope q"
    using s(3) q2 check_options_ok by (auto simp: with_field_Inr split: option.splits)
  then have "held_ok q3" using s(4) q2(3) assms(2) by (simp add: held_ok_def options_ok_def check_simps)
  then have "held_ok q4 \<and> eq_ID q4 = eq_ID q" using s(5) q3(2) by (auto simp: with_field_Inr held_ok_def split: option.splits)
  then have "held_ok q5 \<and> eq_ID q5 = eq_ID q" using s(6) by (auto simp: with_field_Inr held_ok_def check_simps split: option.splits)
  then show ?thesis using s(7) by (auto simp: with_field_Inr held_ok_def split: option.splits)
qed

section \<open>Every route keeps the questions well formed\<close>

text \<open>A change of rows that keeps identifiers and brings no question to life.\<close>

lemma rows_changed_ok:
  assumes "questions_ok rt d" "\<And>r. r \<in> set (db_questions d) \<Longrightarrow> question_ok rt (f r) \<and> qr_id (f r) = qr_id r"
    and "\<And>e r. r \<in> set (db_questions d) \<Longrightarrow> live_question e (f r) \<Longrightarrow> live_question e r"
  shows "questions_ok rt (d\<lparr>db_questions := map f (db_questions d)\<rparr>)"
proof -
  have "length (filter (live_question e) (map f (db_questions d))) \<le> length (filter (live_question e) (db_questions d))" for e
  proof -
    have "filter (live_question e \<circ> f) (db_questions d) = filter (live_question e \<circ> f) (filter (live_question e) (db_questions d))"
      unfolding filter_filter using assms(3) by (intro filter_cong) auto
    then show ?thesis by (metis filter_map length_filter_le length_map)
  qed
  then have "CountQuestionsByEventID e (d\<lparr>db_questions := map f (db_questions d)\<rparr>) \<le> 10" for e
    using assms(1) by (fastforce simp: questions_ok_def CountQuestionsByEventID_def affected_def intro: order_trans)
  moreover have "map qr_id (map f (db_questions d)) = map qr_id (db_questions d)" using assms(2) by simp
  moreover have "\<forall>r \<in> set (map f (db_questions d)). question_ok rt r" using assms(2) by simp
  ultimately show ?thesis using assms(1) by (simp add: questions_ok_def del: map_map)
qed

lemma CreateQuestion_ok:
  assumes "CreateQuestion enc uuid now e req d = Inr (d', q)" "json_codec rt enc" "questions_ok rt d"
  shows "questions_ok rt d'"
proof -
  obtain q0 where c: "held_ok q0" "eq_ID q0 \<notin> question_ids d" "eq_EventID q0 = e" "CountQuestionsByEventID e d < 10"
    "d' = d\<lparr>db_questions := add_row (question_row_of enc (trunc_sec now) q0) (db_questions d)\<rparr>"
  proof -
    let ?scope = "if cqr_Scope req = [] then ''guest'' else cqr_Scope req"
    obtain label q0 u1 u2 u3 u4 where s: "check_label (cqr_Label req) = Inr label" "check_type (cqr_Type req) = Inr u1"
      "check_option_count (cqr_Type req) (cqr_Options req) = Inr u2" "check_options (cqr_Options req) = Inr u3"
      "CountQuestionsByEventID e d < maxQuestionsPerEvent" "check_scope ?scope = Inr u4" "StoreCreateQuestion enc now q0 d = Inr (d', q)"
      "eq_Label q0 = label" "eq_Type q0 = cqr_Type req" "eq_Options q0 = cqr_Options req" "eq_Scope q0 = ?scope" "eq_EventID q0 = e"
      using assms(1) unfolding CreateQuestion_def Let_def rbind_Inr_iff guard_Inr_iff
      by (elim exE conjE) (rule that, assumption+, (rule EventQuestion.select_convs)+)
    then have "held_ok q0" using check_label_ok [OF s(1)] check_options_ok [OF s(4)] by (simp add: held_ok_def options_ok_def check_simps)
    moreover have "eq_ID q0 \<notin> question_ids d" "d' = d\<lparr>db_questions := add_row (question_row_of enc (trunc_sec now) q0) (db_questions d)\<rparr>"
      using s(7) by (auto simp: StoreCreateQuestion_def split: if_splits)
    ultimately show thesis using s(5,12) by (intro that) (simp_all add: maxQuestionsPerEvent_def)
  qed
  have "CountQuestionsByEventID x d' \<le> 10" for x
    using assms(3) c(3,4) by (auto simp: c(5) questions_ok_def CountQuestionsByEventID_def affected_def add_row_def question_row_of_def live_question_def)
  then show ?thesis
    using assms(3) c(2) row_of_ok [OF assms(2) c(1)]
    by (auto simp: c(5) questions_ok_def add_row_def question_ids_def question_row_of_def)
qed

lemma find_question_ok:
  assumes "find_question rt i d = Inr q" "json_codec rt enc" "questions_ok rt d"
  shows "held_ok q \<and> eq_ID q = i"
proof -
  obtain r where r: "select_row (\<lambda>r. qr_id r = i) (db_questions d) = Some r" "parseQuestion rt r = Inr q"
    using assms(1) by (auto simp: find_question_def FindQuestionByID_def split: option.splits if_splits)
  have "r \<in> set (db_questions d)" "qr_id r = i" using select_row_SomeD [OF r(1)] by auto
  then have "question_ok rt r" using assms(3) by (auto simp: questions_ok_def)
  from parseQuestion_ok [OF assms(2) this] r(2) show ?thesis using parseQuestion_fields [OF r(2)] \<open>qr_id r = i\<close> by auto
qed

lemma UpdateQuestion_ok:
  assumes "UpdateQuestion rt enc now i req d = Inr (d', q)" "json_codec rt enc" "questions_ok rt d"
  shows "questions_ok rt d'"
proof -
  obtain q0 q1 where u: "find_question rt i d = Inr q0" "apply_question_update req q0 = Inr q1" "StoreUpdateQuestion enc now q1 d = Inr (d', q)"
    using assms(1) by (auto simp: UpdateQuestion_def)
  have q1: "held_ok q1" using apply_question_update_ok [OF u(2)] find_question_ok [OF u(1) assms(2,3)] by blast
  let ?f = "\<lambda>r. if qr_id r = eq_ID q1 then r\<lparr>qr_label := eq_Label q1, qr_type := eq_Type q1, qr_options := enc (eq_Options q1), qr_required := eq_Required q1,
    qr_scope := eq_Scope q1, qr_sort_order := eq_SortOrder q1, qr_updated_at := trunc_sec now\<rparr> else r"
  have "d' = d\<lparr>db_questions := map ?f (db_questions d)\<rparr>"
    using u(3) by (auto simp: StoreUpdateQuestion_def update_where_def split: if_splits)
  moreover have "questions_ok rt (d\<lparr>db_questions := map ?f (db_questions d)\<rparr>)"
  proof (rule rows_changed_ok [OF assms(3)])
    fix r assume "r \<in> set (db_questions d)"
    then have "question_ok rt r" using assms(3) by (simp add: questions_ok_def)
    then show "question_ok rt (?f r) \<and> qr_id (?f r) = qr_id r"
      using q1 assms(2) by (simp add: question_ok_def held_ok_def json_codec_def)
    show "live_question e (?f r) \<Longrightarrow> live_question e r" for e by (auto simp: live_question_def split: if_splits)
  qed
  ultimately show ?thesis by simp
qed

lemma DeleteQuestion_ok:
  assumes "DeleteQuestion rt now i d = Inr d'" "questions_ok rt d"
  shows "questions_ok rt d'"
proof -
  let ?f = "\<lambda>r. if qr_id r = i then r\<lparr>qr_deleted := True, qr_updated_at := trunc_sec now\<rparr> else r"
  have "d' = d\<lparr>db_questions := map ?f (db_questions d)\<rparr>"
    using assms(1) by (auto simp: DeleteQuestion_def SoftDelete_def update_where_def)
  moreover have "questions_ok rt (d\<lparr>db_questions := map ?f (db_questions d)\<rparr>)"
    by (rule rows_changed_ok [OF assms(2)])
      (use assms(2) in \<open>auto simp: questions_ok_def question_ok_def live_question_def split: if_splits\<close>)
  ultimately show ?thesis by simp
qed

text \<open>Identifiers that are named twice end up with their last position; either way only sort orders change.\<close>

lemma sort_order_loop_ok:
  "questions_ok rt d \<Longrightarrow> questions_ok rt (d\<lparr>db_questions := sort_order_loop now e i ids (db_questions d)\<rparr>)"
proof (induction ids arbitrary: i d)
  case (Cons qid ids)
  let ?f = "\<lambda>r. if qr_id r = qid \<and> live_question e r then r\<lparr>qr_sort_order := i, qr_updated_at := trunc_sec now\<rparr> else r"
  have "questions_ok rt (d\<lparr>db_questions := map ?f (db_questions d)\<rparr>)"
    by (rule rows_changed_ok [OF Cons.prems])
      (use Cons.prems in \<open>auto simp: questions_ok_def question_ok_def live_question_def split: if_splits\<close>)
  from Cons.IH [OF this, of "i + 1"] show ?case by (simp add: set_sort_order_def update_where_def)
qed simp

text \<open>Steps of the routes, beside operations of other components, which do not write questions.\<close>

inductive question_step :: "runtime \<Rightarrow> (string list \<Rightarrow> string) \<Rightarrow> db \<Rightarrow> db \<Rightarrow> bool" for rt :: runtime and enc :: "string list \<Rightarrow> string" where
  route: "question_handle rt enc uuid now organizer eventID rq e d = (d', resp) \<Longrightarrow> question_step rt enc d d'"
| elsewhere: "db_questions d' = db_questions d \<Longrightarrow> question_step rt enc d d'"

lemmas question_routes = question_handle_def handleListQuestions_def handleCreateQuestion_def handleUpdateQuestion_def handleDeleteQuestion_def
  handleReorder_def for_question_event_def for_question_def Reorder_def UpdateSortOrders_def

interpretation questions: system_invariant "question_step rt enc" "\<lambda>d. json_codec rt enc \<and> questions_ok rt d" for rt enc
proof
  fix d d'
  assume step: "question_step rt enc d d'" and ok: "json_codec rt enc \<and> questions_ok rt d"
  from step have "questions_ok rt d'"
  proof (cases rule: question_step.cases)
    case (route uuid now organizer eventID rq e resp)
    then show ?thesis using ok
      by (cases rq)
        (auto simp: question_routes split: option.splits sum.splits prod.splits if_splits
          dest: CreateQuestion_ok UpdateQuestion_ok DeleteQuestion_ok intro: sort_order_loop_ok)
  next
    case elsewhere
    then show ?thesis using ok by (simp add: questions_ok_def CountQuestionsByEventID_def)
  qed
  with ok show "json_codec rt enc \<and> questions_ok rt d'" by simp
qed

section \<open>What guests can answer\<close>

text \<open>The questions as the invitations load them.\<close>

lemma loaded_questions:
  assumes "questions_ok rt d"
  shows "\<exists>qs. scanQuestions rt msg (filter (live_question e) (db_questions d)) = Inr qs \<and> length qs \<le> 10 \<and> distinct (map q_ID qs) \<and>
    (\<forall>q \<in> set qs. q_Scope q \<in> {''invitation'', ''guest''} \<and> q_Type q \<in> {''text'', ''select'', ''checkbox''} \<and> options_ok (q_Type q) (q_Options q))"
proof -
  let ?rows = "filter (live_question e) (db_questions d)"
  have ok: "question_ok rt r" if "r \<in> set ?rows" for r using that assms by (auto simp: questions_ok_def)
  have "\<exists>q. scanQuestion rt msg r = Inr q" if "r \<in> set ?rows" for r
    using ok [OF that] by (auto simp: scanQuestion_def question_ok_def)
  from collect_rows [of ?rows "scanQuestion rt msg" "[]", OF this]
  obtain qs where qs: "scanQuestions rt msg ?rows = Inr qs" "list_all2 (\<lambda>r q. scanQuestion rt msg r = Inr q) ?rows qs"
    by (auto simp: scanQuestions_def)
  have len: "length qs \<le> 10"
    using list_all2_lengthD [OF qs(2)] assms by (metis CountQuestionsByEventID_def affected_def questions_ok_def)
  have "map q_ID qs = map qr_id ?rows" by (rule list_all2_map_eq [OF qs(2)]) (auto dest: scanQuestion_fields)
  moreover have "distinct (map qr_id ?rows)" using assms by (auto simp: questions_ok_def intro: distinct_map_filter)
  ultimately have dist: "distinct (map q_ID qs)" by simp
  have "q_Scope q \<in> {''invitation'', ''guest''} \<and> q_Type q \<in> {''text'', ''select'', ''checkbox''} \<and> options_ok (q_Type q) (q_Options q)"
    if q: "q \<in> set qs" for q
  proof -
    obtain r where r: "r \<in> set ?rows" "scanQuestion rt msg r = Inr q" using list_all2_right [OF qs(2) q] by blast
    then show ?thesis using ok [OF r(1)] by (auto simp: scanQuestion_def question_ok_def)
  qed
  with qs(1) len dist show ?thesis by blast
qed

text \<open>An answer that every valid question accepts. For check boxes it is the empty selection.\<close>

definition some_answer :: "Question \<Rightarrow> string" where
  "some_answer q = (if q_Type q = ''text'' then ''x'' else if q_Type q = ''select'' then hd (q_Options q) else ''[]'')"

lemma some_answer_accepted:
  assumes "rt_json_strings rt ''[]'' = Some []" "q_Type q \<in> {''text'', ''select'', ''checkbox''}" "options_ok (q_Type q) (q_Options q)"
  shows "trim_space (some_answer q) \<noteq> []" "validateAnswer rt q (some_answer q) = Inr ()"
proof -
  have short: "trim_space ''x'' = ''x''" "trim_space ''[]'' = ''[]''" by (simp_all add: trim_space_graphic graphic_def)
  have opts: "hd (q_Options q) \<in> set (q_Options q)" if "q_Type q = ''select''"
    using that assms(3) by (cases "q_Options q") (auto simp: options_ok_def)
  then show "trim_space (some_answer q) \<noteq> []"
    using assms(2,3) short by (auto simp: some_answer_def options_ok_def)
  show "validateAnswer rt q (some_answer q) = Inr ()"
    using assms opts by (fastforce simp: some_answer_def validateAnswer_def options_ok_def)
qed

lemma loop_unit: "(\<And>x. x \<in> set xs \<Longrightarrow> f () x = Inr ()) \<Longrightarrow> loop f () xs = Inr ()"
  by (induction xs) auto

lemma questionByID_mem:
  assumes "distinct (map q_ID qs)" "q \<in> set qs"
  shows "questionByID qs (q_ID q) = Some q"
proof -
  have "select_row (\<lambda>x. q_ID x = q_ID q) (rev qs) = Some q"
    using assms by (intro select_row_unique [where k = q_ID]) (auto simp: rev_map [symmetric])
  then show ?thesis by (simp add: questionByID_def select_row_def)
qed

definition scoped_answers :: "string \<Rightarrow> Question list \<Rightarrow> (id \<times> string) list" where
  "scoped_answers scope qs = map (\<lambda>q. (q_ID q, some_answer q)) (filter (\<lambda>q. q_Scope q = scope) qs)"

lemma scoped_answers_keys: "distinct (map q_ID qs) \<Longrightarrow> distinct (map fst (scoped_answers scope qs))"
  by (simp add: scoped_answers_def comp_def distinct_map_filter)

lemma scoped_answers_get:
  assumes "distinct (map q_ID qs)" "q \<in> set qs" "q_Scope q = scope"
  shows "map_get (scoped_answers scope qs) (q_ID q) = some_answer q"
proof -
  have "(q_ID q, some_answer q) \<in> set (scoped_answers scope qs)" using assms(2,3) by (auto simp: scoped_answers_def)
  then show ?thesis using map_of_is_SomeI [OF scoped_answers_keys [OF assms(1)]] by (simp add: map_get_def)
qed

lemma household_can_answer:
  assumes "distinct (map q_ID qs)" "rt_json_strings rt ''[]'' = Some []"
    and "\<And>q. q \<in> set qs \<Longrightarrow> q_Scope q \<in> {''invitation'', ''guest''} \<and> q_Type q \<in> {''text'', ''select'', ''checkbox''} \<and> options_ok (q_Type q) (q_Options q)"
  shows "validateResponseAnswers rt qs guests (scoped_answers ''invitation'' qs)
    (map (\<lambda>i. (i, scoped_answers ''guest'' qs)) (remdups (map guest_ID guests))) = Inr ()"
proof -
  let ?gas = "map (\<lambda>i. (i, scoped_answers ''guest'' qs)) (remdups (map guest_ID guests))"
  have nonblank: "trim_space (some_answer q) \<noteq> []" if "q \<in> set qs" for q using some_answer_accepted(1) [OF assms(2)] assms(3) [OF that] by blast
  have accepted: "loop (check_scoped_answer rt qs scope msg) () (scoped_answers scope qs) = Inr ()" for scope msg
  proof (rule loop_unit)
    fix x assume "x \<in> set (scoped_answers scope qs)"
    then obtain q where q: "q \<in> set qs" "q_Scope q = scope" "x = (q_ID q, some_answer q)" by (auto simp: scoped_answers_def)
    then show "check_scoped_answer rt qs scope msg () x = Inr ()"
      using questionByID_mem [OF assms(1) q(1)] some_answer_accepted(2) [OF assms(2)] assms(3) [OF q(1)] by (simp add: check_scoped_answer_def)
  qed
  have inv: "loop (require_invitation_answer (scoped_answers ''invitation'' qs)) () qs = Inr ()"
    by (rule loop_unit) (use nonblank scoped_answers_get [OF assms(1)] in \<open>auto simp: require_invitation_answer_def QuestionScopeInvitation_def\<close>)
  have get: "map_get ?gas (guest_ID g) = scoped_answers ''guest'' qs" if "g \<in> set guests" for g
    using that by (simp add: map_get_def map_of_map_restrict [of _ "remdups _", simplified] map_of_is_SomeI comp_def)
  have gst: "loop (require_guest_answers qs ?gas) () guests = Inr ()"
  proof (rule loop_unit)
    fix g assume g: "g \<in> set guests"
    have "loop (\<lambda>u q. guard (\<not> (q_Scope q = QuestionScopeGuest \<and> q_Required q \<and> trim_space (map_get (map_get ?gas (guest_ID g)) (q_ID q)) = []))
        (Validation (''answer required for '' @ guest_Name g @ '': '' @ q_Label q))) () qs = Inr ()"
      unfolding get [OF g] by (rule loop_unit) (use nonblank scoped_answers_get [OF assms(1)] in \<open>auto simp: QuestionScopeGuest_def\<close>)
    then show "require_guest_answers qs ?gas () g = Inr ()" by (simp add: require_guest_answers_def)
  qed
  have "loop (\<lambda>u (guestID, answers). if \<not> list_ex (\<lambda>g. guest_ID g = guestID) guests then Inl (Validation ''guest answer does not belong to this invitation'')
      else loop (check_scoped_answer rt qs QuestionScopeGuest ''invalid guest-scoped question'') () answers) () ?gas = Inr ()"
    by (rule loop_unit) (use accepted in \<open>auto simp: list_ex_iff QuestionScopeGuest_def\<close>)
  then show ?thesis using inv gst accepted by (simp add: validateResponseAnswers_def QuestionScopeInvitation_def)
qed

text \<open>
  C31: whatever organizers do to the questions of an event, every household can answer them. After any sequence
  of requests to the question routes, in between any operations that do not write questions, the questions of an
  event can be loaded, are at most ten, and for every list of guests there are answers, with one entry per guest and
  question, that pass the validation of a submission; a text question takes any text of at most 1000 bytes, and
  a selection takes any of its options, of which there are at least two.
\<close>

theorem questions_stay_answerable:
  assumes "(question_step rt enc)\<^sup>*\<^sup>* d d'" "questions_ok rt d" "json_codec rt enc"
  shows "questions_ok rt d' \<and> (\<exists>qs. loadQuestionsTx rt e d' = Inr qs \<and> length qs \<le> 10 \<and>
    (\<exists>ias gas. distinct (map fst ias) \<and> map fst gas = remdups (map guest_ID guests) \<and> validateResponseAnswers rt qs guests ias gas = Inr ()) \<and>
    (\<forall>q \<in> set qs. q_Type q = ''text'' \<longrightarrow> (\<forall>a. length a \<le> 1000 \<longrightarrow> validateAnswer rt q a = Inr ())) \<and>
    (\<forall>q \<in> set qs. q_Type q = ''select'' \<longrightarrow> 2 \<le> length (q_Options q) \<and> (\<forall>a \<in> set (q_Options q). trim_space a \<noteq> [] \<and> validateAnswer rt q a = Inr ())))"
proof -
  have ok: "questions_ok rt d'" using questions.invariant_reachable [OF assms(1)] assms(2,3) by blast
  obtain qs where qs: "loadQuestionsTx rt e d' = Inr qs" "length qs \<le> 10" "distinct (map q_ID qs)"
    "\<And>q. q \<in> set qs \<Longrightarrow> q_Scope q \<in> {''invitation'', ''guest''} \<and> q_Type q \<in> {''text'', ''select'', ''checkbox''} \<and> options_ok (q_Type q) (q_Options q)"
    using loaded_questions [OF ok, of _ e] unfolding loadQuestionsTx_def live_question_def by blast
  have "rt_json_strings rt ''[]'' = Some []" using assms(3) by (simp add: json_codec_def)
  from household_can_answer [OF qs(3) this qs(4), of guests] scoped_answers_keys [OF qs(3)]
  have "\<exists>ias gas. distinct (map fst ias) \<and> map fst gas = remdups (map guest_ID guests) \<and> validateResponseAnswers rt qs guests ias gas = Inr ()"
    by (intro exI [of _ "scoped_answers ''invitation'' qs"] exI [of _ "map (\<lambda>i. (i, scoped_answers ''guest'' qs)) (remdups (map guest_ID guests))"])
      (simp add: comp_def)
  moreover have "\<forall>q \<in> set qs. q_Type q = ''text'' \<longrightarrow> (\<forall>a. length a \<le> 1000 \<longrightarrow> validateAnswer rt q a = Inr ())"
    by (simp add: validateAnswer_def)
  moreover have "\<forall>q \<in> set qs. q_Type q = ''select'' \<longrightarrow> 2 \<le> length (q_Options q) \<and> (\<forall>a \<in> set (q_Options q). trim_space a \<noteq> [] \<and> validateAnswer rt q a = Inr ())"
    using qs(4) by (fastforce simp: validateAnswer_def options_ok_def)
  ultimately show ?thesis using ok qs(1,2) by blast
qed

text \<open>The validation takes a check box question that is required as answered when nothing is selected.\<close>

lemma empty_selection_answers_required:
  assumes "rt_json_strings rt ''[]'' = Some []" "q_Type q = ''checkbox''"
  shows "require_invitation_answer [(q_ID q, ''[]'')] () q = Inr () \<and> validateAnswer rt q ''[]'' = Inr ()"
proof -
  have "trim_space ''[]'' = ''[]''" by (simp add: trim_space_graphic graphic_def)
  then show ?thesis using assms by (simp add: require_invitation_answer_def map_get_def validateAnswer_def)
qed

text \<open>
  The order that an organizer gives is the order that everybody sees. When the request names the questions
  of the event, each once, both the organizer and the guests get exactly these questions in this order;
  everything but the sort orders and the times of the update is as it was, and so are the questions of other events.
\<close>

theorem reorder_shown_to_everybody:
  assumes "handleReorder now (Some u) eventID (Decoded ids, DecodeEOF) e d = (d', QuMessage m)" "questions_ok rt d" "json_codec rt enc"
    and "distinct ids" "set ids = qr_id ` set (filter (live_question eventID) (db_questions d))"
  shows "(\<exists>qs. ListQuestionsByEvent rt eventID d' = Inr qs \<and> map eq_ID qs = ids) \<and>
    (\<exists>qs. listQuestions rt eventID d' = Inr qs \<and> map q_ID qs = ids) \<and>
    d' = d\<lparr>db_questions := db_questions d'\<rparr> \<and>
    map (\<lambda>r. r\<lparr>qr_sort_order := 0, qr_updated_at := 0\<rparr>) (db_questions d') = map (\<lambda>r. r\<lparr>qr_sort_order := 0, qr_updated_at := 0\<rparr>) (db_questions d) \<and>
    filter (\<lambda>r. qr_event_id r \<noteq> eventID) (db_questions d') = filter (\<lambda>r. qr_event_id r \<noteq> eventID) (db_questions d)"
proof -
  let ?f = "renumbered now eventID 0 ids" and ?live = "live_question eventID"
  have d': "d' = d\<lparr>db_questions := map ?f (db_questions d)\<rparr>"
    using assms(1) sort_order_loop_rows [OF assms(4)] by (auto simp: question_routes qu_bad_def DecodeJSON_def split: sum.splits if_splits)
  let ?rows = "filter ?live (db_questions d')"
  have rows: "?rows = map ?f (filter ?live (db_questions d))" by (simp add: d' filter_map comp_def)
  have keys: "map qr_id ?rows = map qr_id (filter ?live (db_questions d))" by (simp add: rows)
  have dist: "distinct (map qr_id ?rows)" unfolding keys using assms(2) by (auto simp: questions_ok_def intro: distinct_map_filter)
  have ids: "qr_id ` set ?rows = set ids" unfolding assms(5) list.set_map [symmetric] keys ..
  have pos: "qr_sort_order r = int i" if i: "i < length ids" "r \<in> set ?rows" "qr_id r = ids ! i" for i r
  proof -
    obtain r0 where r0: "r0 \<in> set (db_questions d)" "?live r0" "r = ?f r0" using i(2) unfolding rows by auto
    then have "qr_id r0 = ids ! i" using i(3) by simp
    then show ?thesis using r0 i(1) position_nth [OF assms(4) i(1)] by (simp add: renumbered_def)
  qed
  have shown: "map qr_id (order_by lt ?rows) = ids"
    if "\<And>a b. a \<in> set ?rows \<Longrightarrow> b \<in> set ?rows \<Longrightarrow> a \<noteq> b \<Longrightarrow> lt a b \<longleftrightarrow> qr_sort_order a < qr_sort_order b" for lt
  proof -
    have "distinct ?rows" using dist by (simp only: distinct_map)
    with that have "order_by lt ?rows = sort_key qr_sort_order ?rows" by (rule order_by_key)
    moreover have "map qr_id (sort_key qr_sort_order ?rows) = ids" by (rule sort_key_positions [OF dist assms(4) ids]) (rule pos)
    ultimately show ?thesis by (simp only:)
  qed
  have neq: "qr_sort_order a \<noteq> qr_sort_order b" if ab: "a \<in> set ?rows" "b \<in> set ?rows" "a \<noteq> b" for a b
  proof -
    obtain i j where ij: "i < length ids" "j < length ids" "qr_id a = ids ! i" "qr_id b = ids ! j"
      using ab ids by (metis image_eqI in_set_conv_nth)
    moreover have "qr_id a \<noteq> qr_id b" using ab dist by (auto simp: distinct_map dest: inj_onD)
    ultimately show ?thesis using pos [OF ij(1) ab(1) ij(3)] pos [OF ij(2) ab(2) ij(4)] by auto
  qed
  have ok: "questions_ok rt d'" using sort_order_loop_ok [OF assms(2), of now eventID 0 ids] sort_order_loop_rows [OF assms(4)] by (simp add: d')
  then have row_ok: "question_ok rt r" if "r \<in> set ?rows" for r using that by (auto simp: questions_ok_def)
  have organizer: "\<exists>qs. ListQuestionsByEvent rt eventID d' = Inr qs \<and> map eq_ID qs = ids"
  proof -
    have "\<exists>q. parseQuestion rt r = Inr q" if "r \<in> set (order_by by_sort_order ?rows)" for r
      using parseQuestion_ok [OF assms(3) row_ok] that by auto
    from collect_rows [of "order_by by_sort_order ?rows" "parseQuestion rt" "[]", OF this] obtain qs where
      qs: "ListQuestionsByEvent rt eventID d' = Inr qs" "list_all2 (\<lambda>r q. parseQuestion rt r = Inr q) (order_by by_sort_order ?rows) qs"
      by (auto simp: ListQuestionsByEvent_def FindQuestionsByEventID_def)
    have "map eq_ID qs = map qr_id (order_by by_sort_order ?rows)" by (rule list_all2_map_eq [OF qs(2)]) (auto dest: parseQuestion_fields)
    then show ?thesis using qs(1) shown [of by_sort_order] by (simp add: by_sort_order_def)
  qed
  have guests: "\<exists>qs. listQuestions rt eventID d' = Inr qs \<and> map q_ID qs = ids"
  proof -
    let ?msg = "''parse question options''"
    have "\<exists>q. scanQuestion rt ?msg r = Inr q" if "r \<in> set (order_by by_question_order ?rows)" for r
      using row_ok that by (auto simp: scanQuestion_def question_ok_def)
    from collect_rows [of "order_by by_question_order ?rows" "scanQuestion rt ?msg" "[]", OF this] obtain qs where
      qs: "listQuestions rt eventID d' = Inr qs" "list_all2 (\<lambda>r q. scanQuestion rt ?msg r = Inr q) (order_by by_question_order ?rows) qs"
      by (auto simp: listQuestions_def scanQuestions_def live_question_def [abs_def])
    have "map q_ID qs = map qr_id (order_by by_question_order ?rows)" by (rule list_all2_map_eq [OF qs(2)]) (auto dest: scanQuestion_fields)
    then show ?thesis using qs(1) shown [of by_question_order] neq by (auto simp: by_question_order_def)
  qed
  have "map (\<lambda>r. r\<lparr>qr_sort_order := 0, qr_updated_at := 0\<rparr>) (db_questions d') = map (\<lambda>r. r\<lparr>qr_sort_order := 0, qr_updated_at := 0\<rparr>) (db_questions d)"
    by (simp add: d' renumbered_def)
  moreover have "filter (\<lambda>r. qr_event_id r \<noteq> eventID) (db_questions d') = filter (\<lambda>r. qr_event_id r \<noteq> eventID) (db_questions d)"
    by (simp add: d' filter_map comp_def, rule map_idI) (auto simp: renumbered_def live_question_def)
  moreover have "d' = d\<lparr>db_questions := db_questions d'\<rparr>" by (simp add: d')
  ultimately show ?thesis using organizer guests by blast
qed

end
