(* ===== verification/Json_Values.thy ===== *)
theory Json_Values
  imports Go_Lib
begin

text \<open>
  Decoded JSON, as \<open>encoding/json\<close> gives it to code that works on \<open>any\<close>: the values and the two
  functions of the package, which are parameters.
\<close>

section \<open>JSON values\<close>

text \<open>A decoded \<open>any\<close>: numbers keep their text, an object is a map listed without duplicate keys.\<close>

datatype json = JNull | JBool bool | JNumber string | JString string | JArray "json list" | JObject "(string \<times> json) list"

record json_lib =
  jl_unmarshal :: "string \<Rightarrow> json option" \<comment> \<open>json.Unmarshal into any; None is an error\<close>
  jl_marshal :: "json \<Rightarrow> string option" \<comment> \<open>json.Marshal\<close>

text \<open>\<open>json.Unmarshal\<close> into a \<open>map[string]any\<close>: \<open>null\<close> leaves the map nil, other values than objects are errors.\<close>

definition unmarshal_object :: "json_lib \<Rightarrow> string \<Rightarrow> (string \<times> json) list option option" where
  "unmarshal_object js raw = (case jl_unmarshal js raw of
      Some (JObject flds) \<Rightarrow> Some (Some flds)
    | Some JNull \<Rightarrow> Some None
    | _ \<Rightarrow> None)"

definition string_field :: "string \<Rightarrow> (string \<times> json) list option \<Rightarrow> string option" where
  "string_field k data = (case data of
      None \<Rightarrow> None
    | Some flds \<Rightarrow> (case map_of flds k of Some (JString v) \<Rightarrow> Some v | _ \<Rightarrow> None))"

definition marshal_object :: "json_lib \<Rightarrow> (string \<times> json) list option \<Rightarrow> string option" where
  "marshal_object js data = jl_marshal js (case data of None \<Rightarrow> JNull | Some flds \<Rightarrow> JObject flds)"

end
