(* ===== verification/Invite_Design.thy ===== *)
theory Invite_Design
  imports Questions Presentation Event_Series Json_Values
begin

text \<open>
  The invite card editor (\<open>internal/invite\<close>): the stored card of an event, the values accepted for it,
  the uploaded background images and the routes of organizers; the callbacks with which
  \<open>internal/server/server.go\<close> copies cards and removes images, and the public route that serves them.
  JSON is taken through \<open>json_lib\<close>; the uploads directory is part of the state.
\<close>

section \<open>Data\<close>

record InviteCard =
  card_ID :: id
  card_EventID :: id
  card_TemplateID :: string
  card_Heading :: string
  card_Body :: string
  card_Footer :: string
  card_PrimaryColor :: string
  card_SecondaryColor :: string
  card_Font :: string
  card_CustomData :: string
  card_CreatedAt :: time
  card_UpdatedAt :: time

record Template =
  t_ID :: string
  t_Name :: string
  t_Description :: string

record SaveInviteRequest =
  sir_TemplateID :: string
  sir_Heading :: string
  sir_Body :: string
  sir_Footer :: string
  sir_PrimaryColor :: string
  sir_SecondaryColor :: string
  sir_Font :: string
  sir_CustomData :: string

text \<open>
  The uploads directory: its path, its regular files (\<open>None\<close> when it does not exist) and whether
  the process may change it. It holds no subdirectories: nothing in the program creates one.
\<close>

record uploads =
  up_dir :: string
  up_files :: "(string \<times> string) list option"
  up_writable :: bool

section \<open>The store\<close>

definition scanInviteCard :: "invite_card_row \<Rightarrow> InviteCard" where
  "scanInviteCard r = \<lparr> card_ID = ic_id r, card_EventID = ic_event_id r, card_TemplateID = ic_template_id r, card_Heading = ic_heading r,
     card_Body = ic_body r, card_Footer = ic_footer r, card_PrimaryColor = ic_primary_color r, card_SecondaryColor = ic_secondary_color r,
     card_Font = ic_font r, card_CustomData = ic_custom_data r, card_CreatedAt = ic_created_at r, card_UpdatedAt = ic_updated_at r \<rparr>"

definition FindCardByEventID :: "id \<Rightarrow> db \<Rightarrow> InviteCard option" where
  "FindCardByEventID eventID d = map_option scanInviteCard (select_row (\<lambda>r. ic_event_id r = eventID) (db_cards d))"

definition card_row :: "time \<Rightarrow> InviteCard \<Rightarrow> invite_card_row" where
  "card_row now c = \<lparr> ic_id = card_ID c, ic_event_id = card_EventID c, ic_template_id = card_TemplateID c, ic_heading = card_Heading c,
     ic_body = card_Body c, ic_footer = card_Footer c, ic_primary_color = card_PrimaryColor c, ic_secondary_color = card_SecondaryColor c,
     ic_font = card_Font c, ic_custom_data = card_CustomData c, ic_created_at = now, ic_updated_at = now \<rparr>"

definition set_card :: "time \<Rightarrow> InviteCard \<Rightarrow> invite_card_row \<Rightarrow> invite_card_row" where
  "set_card now c r = r\<lparr> ic_template_id := card_TemplateID c, ic_heading := card_Heading c, ic_body := card_Body c, ic_footer := card_Footer c,
     ic_primary_color := card_PrimaryColor c, ic_secondary_color := card_SecondaryColor c, ic_font := card_Font c,
     ic_custom_data := card_CustomData c, ic_updated_at := now \<rparr>"

definition Upsert :: "time \<Rightarrow> InviteCard \<Rightarrow> db \<Rightarrow> string + (db \<times> InviteCard)" where
  "Upsert t crd d = (let now = trunc_sec t in
    case FindCardByEventID (card_EventID crd) d of
      Some existing \<Rightarrow> (let crd' = crd\<lparr>card_ID := card_ID existing\<rparr> in
        Inr (d\<lparr>db_cards := update_where (\<lambda>r. ic_id r = card_ID crd') (set_card now crd') (db_cards d)\<rparr>,
          crd'\<lparr>card_CreatedAt := card_CreatedAt existing, card_UpdatedAt := now\<rparr>))
    | None \<Rightarrow>
        if card_ID crd \<in> ic_id ` set (db_cards d) \<or> card_EventID crd \<notin> event_ids d then Inl ''insert invite card''
        else Inr (d\<lparr>db_cards := add_row (card_row now crd) (db_cards d)\<rparr>, crd\<lparr>card_CreatedAt := now, card_UpdatedAt := now\<rparr>))"

section \<open>The accepted values\<close>

text \<open>\<open>colorPattern\<close> and \<open>fontPattern\<close> are the expressions that the guest side uses again.\<close>

definition sanitizeColor :: "string \<Rightarrow> string" where
  "sanitizeColor raw = (let c = trim_space raw in if c = [] then [] else if guestColorPattern c then c else [])"

definition sanitizeFont :: "string \<Rightarrow> string" where
  "sanitizeFont raw = (let f = trim_space raw in if f = [] \<or> 100 < length f then [] else if guestFontPattern f then f else [])"

definition sanitizeBackgroundURL :: "'x runtime_scheme \<Rightarrow> string \<Rightarrow> string" where
  "sanitizeBackgroundURL rt raw = (let s = trim_space raw in
     if s = [] then []
     else if contains_any css_breaking s then []
     else if prefix ''/'' s then s
     else case rt_url_scheme rt s of
         None \<Rightarrow> []
       | Some scheme \<Rightarrow> if scheme \<noteq> ''http'' \<and> scheme \<noteq> ''https'' then [] else s)"

definition background_key :: string where "background_key = ''backgroundImage''"

definition sanitizeCustomData :: "'x runtime_scheme \<Rightarrow> json_lib \<Rightarrow> string \<Rightarrow> string" where
  "sanitizeCustomData rt js raw = (if raw = [] then ''{}'' else case unmarshal_object js raw of
      None \<Rightarrow> ''{}''
    | Some data \<Rightarrow>
       (let data' = (case string_field background_key data of
             None \<Rightarrow> data
           | Some bg \<Rightarrow> (let cleaned = sanitizeBackgroundURL rt bg in
               if cleaned = [] then map_option (map_delete background_key) data
               else map_option (map_put background_key (JString cleaned)) data))
        in case marshal_object js data' of None \<Rightarrow> ''{}'' | Some out \<Rightarrow> out))"

definition builtInTemplates :: "Template list" where
  "builtInTemplates =
    [\<lparr> t_ID = ''balloon-party'', t_Name = ''Balloon Party'', t_Description = ''Colorful balloons and festive decorations for a fun celebration.'' \<rparr>,
     \<lparr> t_ID = ''confetti'', t_Name = ''Confetti'', t_Description = ''Bright confetti bursts for a joyful and lively event.'' \<rparr>,
     \<lparr> t_ID = ''unicorn-magic'', t_Name = ''Unicorn Magic'', t_Description = ''Whimsical unicorns and rainbow colors for a magical gathering.'' \<rparr>,
     \<lparr> t_ID = ''superhero'', t_Name = ''Superhero'', t_Description = ''Bold superhero theme with dynamic comic-style graphics.'' \<rparr>,
     \<lparr> t_ID = ''garden-picnic'', t_Name = ''Garden Picnic'', t_Description = ''Relaxed garden vibes with floral accents for outdoor events.'' \<rparr>,
     \<lparr> t_ID = ''elegant-affair'', t_Name = ''Elegant Affair'', t_Description = ''Thin border, italic heading, and subtle shadow for a refined look.'' \<rparr>,
     \<lparr> t_ID = ''clean-minimal'', t_Name = ''Clean Minimal'', t_Description = ''No frills, white background, and clean lines for a modern feel.'' \<rparr>,
     \<lparr> t_ID = ''tropical-vibes'', t_Name = ''Tropical Vibes'', t_Description = ''Warm colors and wave decorations for a beachy, tropical event.'' \<rparr>,
     \<lparr> t_ID = ''vintage-retro'', t_Name = ''Vintage Retro'', t_Description = ''Double border, uppercase heading, and sepia tones for a classic vibe.'' \<rparr>,
     \<lparr> t_ID = ''chalkboard'', t_Name = ''Chalkboard'', t_Description = ''Dark background with chalk-style text for a cozy, handwritten feel.'' \<rparr>]"

section \<open>The service\<close>

definition GetCardByEventID :: "id \<Rightarrow> db \<Rightarrow> string + InviteCard" where
  "GetCardByEventID eventID d = or_err (FindCardByEventID eventID d) ''invite card not found''"

definition extractBackgroundImage :: "json_lib \<Rightarrow> string \<Rightarrow> string" where
  "extractBackgroundImage js customData = (if customData = [] \<or> customData = ''{}'' then [] else case unmarshal_object js customData of
      None \<Rightarrow> []
    | Some data \<Rightarrow> (case string_field background_key data of None \<Rightarrow> [] | Some bg \<Rightarrow> bg))"

text \<open>
  \<open>os.Remove(filepath.Join(uploadsDir, name))\<close> for a name without a slash. The empty name and \<open>.\<close> are the
  directory itself, which can be removed when it is empty; \<open>..\<close> is its parent, which is not empty.
\<close>

definition remove_upload :: "string \<Rightarrow> uploads \<Rightarrow> uploads" where
  "remove_upload name u = (case up_files u of
      None \<Rightarrow> u
    | Some files \<Rightarrow>
        if \<not> up_writable u \<or> name = ''..'' then u
        else if name = [] \<or> name = ''.'' then (if files = [] then u\<lparr>up_files := None\<rparr> else u)
        else u\<lparr>up_files := Some (map_delete name files)\<rparr>)"

definition cleanupOldImage :: "json_lib \<Rightarrow> id \<Rightarrow> string \<Rightarrow> db \<Rightarrow> uploads \<Rightarrow> uploads" where
  "cleanupOldImage js eventID newCustomData d u = (if up_dir u = [] then u else case FindCardByEventID eventID d of
      None \<Rightarrow> u
    | Some old \<Rightarrow> (let oldURL = extractBackgroundImage js (card_CustomData old); newURL = extractBackgroundImage js newCustomData in
        if oldURL \<noteq> [] \<and> oldURL \<noteq> newURL then remove_upload (last (split_on (CHR ''/'') oldURL)) u else u))"

definition default_if_empty :: "string \<Rightarrow> string \<Rightarrow> string" where
  "default_if_empty s dflt = (if s = [] then dflt else s)"

definition new_card :: "'x runtime_scheme \<Rightarrow> json_lib \<Rightarrow> id \<Rightarrow> id \<Rightarrow> string \<Rightarrow> SaveInviteRequest \<Rightarrow> InviteCard" where
  "new_card rt js uuid eventID templateID req =
    \<lparr> card_ID = uuid, card_EventID = eventID, card_TemplateID = templateID, card_Heading = sir_Heading req, card_Body = sir_Body req,
      card_Footer = sir_Footer req, card_PrimaryColor = default_if_empty (sanitizeColor (sir_PrimaryColor req)) ''#6366f1'',
      card_SecondaryColor = default_if_empty (sanitizeColor (sir_SecondaryColor req)) ''#f0abfc'',
      card_Font = default_if_empty (sanitizeFont (sir_Font req)) ''Inter'',
      card_CustomData = default_if_empty (sanitizeCustomData rt js (sir_CustomData req)) ''{}'', card_CreatedAt = 0, card_UpdatedAt = 0 \<rparr>"

text \<open>The image is removed before the card is written, so the files change even when the write fails.\<close>

definition SaveCard ::
  "'x runtime_scheme \<Rightarrow> json_lib \<Rightarrow> id \<Rightarrow> time \<Rightarrow> id \<Rightarrow> SaveInviteRequest \<Rightarrow> db \<times> uploads \<Rightarrow> (db \<times> uploads) \<times> (string + InviteCard)" where
  "SaveCard rt js uuid now eventID req s = (case s of (d, u) \<Rightarrow>
    let templateID = default_if_empty (sir_TemplateID req) ''balloon-party'' in
    if \<not> list_ex (\<lambda>t. t_ID t = templateID) builtInTemplates then ((d, u), Inl (''invalid templateId: '' @ templateID))
    else let crd = new_card rt js uuid eventID templateID req;
             u' = cleanupOldImage js eventID (card_CustomData crd) d u
         in case Upsert now crd d of
              Inl e \<Rightarrow> ((d, u'), Inl e)
            | Inr (d', crd') \<Rightarrow> ((d', u'), Inr crd'))"

definition GetPreview :: "id \<Rightarrow> db \<Rightarrow> InviteCard" where
  "GetPreview eventID d = (case FindCardByEventID eventID d of
      Some crd \<Rightarrow> crd
    | None \<Rightarrow> \<lparr> card_ID = [], card_EventID = eventID, card_TemplateID = ''balloon-party'', card_Heading = [], card_Body = [], card_Footer = [],
        card_PrimaryColor = ''#6366f1'', card_SecondaryColor = ''#f0abfc'', card_Font = ''Inter'', card_CustomData = ''{}'',
        card_CreatedAt = 0, card_UpdatedAt = 0 \<rparr>)"

section \<open>Uploaded images\<close>

definition maxUploadSize :: nat where "maxUploadSize = 2 * 1024 * 1024"

definition allowedImageTypes :: "(string \<times> string) list" where
  "allowedImageTypes = [(''image/jpeg'', ''.jpg''), (''image/png'', ''.png''), (''image/webp'', ''.webp'')]"

definition png_signature :: string where
  "png_signature = map byte [137, 80, 78, 71, 13, 10, 26, 10]"

text \<open>
  \<open>http.DetectContentType\<close> on the types of the table: its signatures for them exclude one another and
  those of the other types, which \<open>application/octet-stream\<close> stands for.
\<close>

definition detectContentType :: "string \<Rightarrow> string" where
  "detectContentType data =
    (if prefix png_signature data then ''image/png''
     else if prefix (map byte [255, 216, 255]) data then ''image/jpeg''
     else if prefix ''RIFF'' data \<and> prefix ''WEBPVP'' (drop 8 data) then ''image/webp''
     else ''application/octet-stream'')"

definition verifyImageSignature :: "string \<Rightarrow> string \<Rightarrow> bool" where
  "verifyImageSignature mime data =
    (if mime = ''image/png'' then length png_signature \<le> length data \<and> take (length png_signature) data = png_signature
     else if mime = ''image/jpeg'' then
       (if length data < 4 \<or> data ! 0 \<noteq> byte 255 \<or> data ! 1 \<noteq> byte 216 \<or> data ! 2 \<noteq> byte 255 then False
        else data ! (length data - 2) = byte 255 \<and> data ! (length data - 1) = byte 217)
     else if mime = ''image/webp'' then 12 \<le> length data \<and> take 4 data = ''RIFF'' \<and> take 4 (drop 8 data) = ''WEBP''
     else False)"

definition detectImageType :: "string \<Rightarrow> string \<times> string" where
  "detectImageType data = (let ct = detectContentType data in
     case map_of allowedImageTypes ct of
       None \<Rightarrow> ([], [])
     | Some e \<Rightarrow> if verifyImageSignature ct data then (ct, e) else ([], []))"

section \<open>The routes\<close>

datatype card_response = CardData InviteCard | CardTemplates "Template list" | CardImage string | CardError nat string string

text \<open>
  The body of an upload: its size, the image part of the form (\<open>None\<close> when the body is no multipart form,
  \<open>Some None\<close> when it has no such part) and whether the part can be read back.
\<close>

record upload_body =
  ub_size :: nat
  ub_form :: "string option option"
  ub_readable :: bool

definition card_unauthorized :: card_response where "card_unauthorized = CardError 401 ''unauthorized'' ''authentication required''"
definition card_internal :: card_response where "card_internal = CardError 500 ''internal_error'' ''an internal error occurred''"
definition card_bad :: "string \<Rightarrow> card_response" where "card_bad msg = CardError 400 ''bad_request'' msg"

definition for_card_event :: "id option \<Rightarrow> id \<Rightarrow> idb \<Rightarrow> (db \<times> uploads \<Rightarrow> (db \<times> uploads) \<times> card_response) \<Rightarrow> db \<times> uploads \<Rightarrow> (db \<times> uploads) \<times> card_response" where
  "for_card_event organizer eventID e h s = (case organizer of
      None \<Rightarrow> (s, card_unauthorized)
    | Some o' \<Rightarrow> (case checkEventOwner eventID o' e of
         Inl _ \<Rightarrow> (s, CardError 404 ''not_found'' ''event not found'')
       | Inr _ \<Rightarrow> h s))"

definition handleListTemplates :: card_response where
  "handleListTemplates = CardTemplates builtInTemplates"

definition handleGetByEvent :: "id option \<Rightarrow> id \<Rightarrow> idb \<Rightarrow> db \<times> uploads \<Rightarrow> (db \<times> uploads) \<times> card_response" where
  "handleGetByEvent organizer eventID e = for_card_event organizer eventID e (\<lambda>s. (s,
     case GetCardByEventID eventID (fst s) of Inl msg \<Rightarrow> CardError 404 ''not_found'' msg | Inr crd \<Rightarrow> CardData crd))"

definition handleSave ::
  "'x runtime_scheme \<Rightarrow> json_lib \<Rightarrow> id \<Rightarrow> time \<Rightarrow> id option \<Rightarrow> id \<Rightarrow> SaveInviteRequest json_body \<Rightarrow> idb \<Rightarrow> db \<times> uploads \<Rightarrow> (db \<times> uploads) \<times> card_response" where
  "handleSave rt js uuid now organizer eventID body e = for_card_event organizer eventID e (\<lambda>s. case DecodeJSON body of
      Inl _ \<Rightarrow> (s, card_bad ''invalid JSON body'')
    | Inr req \<Rightarrow> (case SaveCard rt js uuid now eventID req s of
         (s', Inl msg) \<Rightarrow> (s', if prefix ''invalid templateId:'' msg then card_bad msg else card_internal)
       | (s', Inr crd) \<Rightarrow> (s', CardData crd)))"

definition handlePreview :: "id option \<Rightarrow> id \<Rightarrow> idb \<Rightarrow> db \<times> uploads \<Rightarrow> (db \<times> uploads) \<times> card_response" where
  "handlePreview organizer eventID e = for_card_event organizer eventID e (\<lambda>s. (s, CardData (GetPreview eventID (fst s))))"

text \<open>The loop over \<open>os.ReadDir\<close>, also run by the server for events deleted by the retention job.\<close>

definition remove_event_files :: "id \<Rightarrow> uploads \<Rightarrow> uploads" where
  "remove_event_files eventID u = (case up_files u of
      None \<Rightarrow> u
    | Some files \<Rightarrow> fold remove_upload (filter (prefix (eventID @ ''_'')) (map fst files)) u)"

definition cleanupEventImages :: "id \<Rightarrow> uploads \<Rightarrow> uploads" where
  "cleanupEventImages eventID u = (if up_dir u = [] then u else remove_event_files eventID u)"

definition upload_name :: "id \<Rightarrow> time \<Rightarrow> string \<Rightarrow> string" where
  "upload_name eventID now ext = eventID @ ''_'' @ itoa (secs now) @ ext"

text \<open>\<open>os.WriteFile\<close> of a file of the directory.\<close>

definition write_upload :: "string \<Rightarrow> string \<Rightarrow> uploads \<Rightarrow> uploads option" where
  "write_upload name data u = (case up_files u of
      None \<Rightarrow> None
    | Some files \<Rightarrow> if up_writable u then Some (u\<lparr>up_files := Some (map_put name data files)\<rparr>) else None)"

definition handleUploadImage :: "time \<Rightarrow> id option \<Rightarrow> id \<Rightarrow> upload_body \<Rightarrow> idb \<Rightarrow> db \<times> uploads \<Rightarrow> (db \<times> uploads) \<times> card_response" where
  "handleUploadImage now organizer eventID body e = for_card_event organizer eventID e (\<lambda>(d, u).
     if maxUploadSize < ub_size body then ((d, u), card_bad ''file too large (max 2MB)'')
     else case ub_form body of
       None \<Rightarrow> ((d, u), card_bad ''file too large (max 2MB)'')
     | Some None \<Rightarrow> ((d, u), card_bad ''missing image file'')
     | Some (Some data) \<Rightarrow>
         if \<not> ub_readable body then ((d, u), card_bad ''failed to read file'')
         else let ext = snd (detectImageType data) in
           if ext = [] then ((d, u), card_bad ''invalid image type (allowed: JPEG, PNG, WebP)'')
           else let u' = cleanupEventImages eventID u; filename = upload_name eventID now ext in
             (case write_upload filename data u' of
                None \<Rightarrow> ((d, u'), CardError 500 ''internal_error'' ''failed to save image'')
              | Some u'' \<Rightarrow> ((d, u''), CardImage (''/api/v1/uploads/'' @ filename))))"

datatype card_op = CoTemplates | CoGet | CoSave "SaveInviteRequest json_body" | CoPreview | CoUpload upload_body

definition card_handle ::
  "'x runtime_scheme \<Rightarrow> json_lib \<Rightarrow> id \<Rightarrow> time \<Rightarrow> id option \<Rightarrow> id \<Rightarrow> card_op \<Rightarrow> idb \<Rightarrow> db \<times> uploads \<Rightarrow> (db \<times> uploads) \<times> card_response" where
  "card_handle rt js uuid now organizer eventID rq e s = (case rq of
      CoTemplates \<Rightarrow> (s, handleListTemplates)
    | CoGet \<Rightarrow> handleGetByEvent organizer eventID e s
    | CoSave body \<Rightarrow> handleSave rt js uuid now organizer eventID body e s
    | CoPreview \<Rightarrow> handlePreview organizer eventID e s
    | CoUpload body \<Rightarrow> handleUploadImage now organizer eventID body e s)"

section \<open>Callbacks of the server\<close>

definition request_of_card :: "InviteCard \<Rightarrow> SaveInviteRequest" where
  "request_of_card c = \<lparr> sir_TemplateID = card_TemplateID c, sir_Heading = card_Heading c, sir_Body = card_Body c, sir_Footer = card_Footer c,
     sir_PrimaryColor = card_PrimaryColor c, sir_SecondaryColor = card_SecondaryColor c, sir_Font = card_Font c, sir_CustomData = card_CustomData c \<rparr>"

definition copy_card_on_duplicate :: "'x runtime_scheme \<Rightarrow> json_lib \<Rightarrow> id \<Rightarrow> time \<Rightarrow> id \<Rightarrow> id \<Rightarrow> db \<times> uploads \<Rightarrow> db \<times> uploads" where
  "copy_card_on_duplicate rt js uuid now srcEventID newEventID s = (case GetCardByEventID srcEventID (fst s) of
      Inl _ \<Rightarrow> s
    | Inr crd \<Rightarrow> fst (SaveCard rt js uuid now newEventID (request_of_card crd) s))"

fun copy_first_card :: "'x runtime_scheme \<Rightarrow> json_lib \<Rightarrow> id \<Rightarrow> time \<Rightarrow> id \<Rightarrow> id list \<Rightarrow> db \<times> uploads \<Rightarrow> db \<times> uploads" where
  "copy_first_card rt js uuid now occurrenceID [] s = s"
| "copy_first_card rt js uuid now occurrenceID (e # es) s =
    (if e = occurrenceID then copy_first_card rt js uuid now occurrenceID es s
     else case GetCardByEventID e (fst s) of
         Inl _ \<Rightarrow> copy_first_card rt js uuid now occurrenceID es s
       | Inr crd \<Rightarrow> fst (SaveCard rt js uuid now occurrenceID (request_of_card crd) s))"

definition copy_card_on_occurrence :: "'x runtime_scheme \<Rightarrow> json_lib \<Rightarrow> id \<Rightarrow> time \<Rightarrow> id \<Rightarrow> id \<Rightarrow> idb \<Rightarrow> db \<times> uploads \<Rightarrow> db \<times> uploads" where
  "copy_card_on_occurrence rt js uuid now seriesID occurrenceID e s = (case FindBySeriesID seriesID e of
      Inl _ \<Rightarrow> s
    | Inr evs \<Rightarrow> copy_first_card rt js uuid now occurrenceID (map e_ID evs) s)"

section \<open>Serving uploaded files\<close>

datatype served = ServedFile string | ServedListing "string list" | ServedRedirect | ServedMissing | ServedBadPath

text \<open>\<open>filepath.Base\<close>.\<close>

definition path_base :: "string \<Rightarrow> string" where
  "path_base p = (if p = [] then ''.''
     else let q = trim_right (CHR ''/'') p in if q = [] then ''/'' else last (split_on (CHR ''/'') q))"

text \<open>
  The file route, with \<open>http.ServeFile\<close>: a path with a \<open>..\<close> element is refused, one that ends in
  \<open>/index.html\<close> is redirected, and a directory is listed when the path ends in a slash.
\<close>

definition serve_upload :: "string \<Rightarrow> uploads \<Rightarrow> served" where
  "serve_upload path u = (let name = path_base (trim_prefix ''/api/v1/uploads/'' path) in
    if ''..'' \<in> set (split_on (CHR ''/'') (map (\<lambda>c. if c = byte 92 then CHR ''/'' else c) path)) then ServedBadPath
    else if suffix ''/index.html'' path then ServedRedirect
    else case up_files u of
      None \<Rightarrow> ServedMissing
    | Some files \<Rightarrow>
        if name = ''.'' \<or> name = ''/'' then
          (if path = [] \<or> last path \<noteq> CHR ''/'' then ServedRedirect
           else case map_of files ''index.html'' of Some data \<Rightarrow> ServedFile data | None \<Rightarrow> ServedListing (map fst files))
        else (case map_of files name of None \<Rightarrow> ServedMissing | Some data \<Rightarrow> ServedFile data))"

end
