(* ===== verification/Invite_Safety.thy ===== *)
theory Invite_Safety
  imports Invite_Design
begin

text \<open>
  The card editor and the guests: every card that the editor, a duplication or a series stores has safe
  values and is shown to guests as the organizer sees it in the preview; an upload replaces the image of
  its event and of no other event. Two lemmas record where the image handling reaches too far.
\<close>

section \<open>Accepted values\<close>

lemma sanitizeColor_ok: "sanitizeColor c = [] \<or> guestColorPattern (sanitizeColor c)"
  by (simp add: sanitizeColor_def Let_def)

lemma sanitizeFont_ok: "sanitizeFont f = [] \<or> guestFontPattern (sanitizeFont f) \<and> length (sanitizeFont f) \<le> 100"
  by (simp add: sanitizeFont_def Let_def)

lemma defaults_ok:
  "guestColorPattern ''#6366f1''" "guestColorPattern ''#f0abfc''" "guestFontPattern ''Inter''"
  by (simp_all add: guestColorPattern_def guestFontPattern_def hex_byte_def is_digit_def font_byte_def letter_def)

lemma builtIn_guest: "list_ex (\<lambda>t. t_ID t = i) builtInTemplates \<longleftrightarrow> i \<in> set guestTemplates"
  by (auto simp: builtInTemplates_def guestTemplates_def)

text \<open>A background that the editor stores, and the part of these that guests are shown.\<close>

definition stored_background :: "'x runtime_scheme \<Rightarrow> string \<Rightarrow> bool" where
  "stored_background rt v \<longleftrightarrow> v = [] \<or> \<not> contains_any css_breaking v \<and> trim_space v = v \<and>
    (prefix ''/'' v \<or> rt_url_scheme rt v \<in> {Some ''http'', Some ''https''})"

definition shown_background :: "'x runtime_scheme \<Rightarrow> string \<Rightarrow> bool" where
  "shown_background rt v \<longleftrightarrow> prefix ''/api/v1/uploads/'' v \<and> \<not> contains_str ''..'' v \<or> rt_url_scheme rt v \<in> {Some ''http'', Some ''https''}"

lemma sanitizeBackgroundURL_ok: "stored_background rt (sanitizeBackgroundURL rt raw)"
  by (auto simp: sanitizeBackgroundURL_def stored_background_def Let_def split: option.splits)

lemma guest_background:
  assumes "rt_json_background rt t = Some v" "stored_background rt v"
  shows "guestBackgroundImage rt t = (if shown_background rt v then v else [])"
proof (cases "v = []")
  case True
  then show ?thesis using assms(1) by (simp add: guestBackgroundImage_def)
next
  case False
  then show ?thesis using assms by (simp add: guestBackgroundImage_def stored_background_def shown_background_def Let_def split: option.split)
qed

text \<open>
  What is used of \<open>encoding/json\<close>: an encoded object decodes to the same map, \<open>null\<close> to itself; and
  decoding into a struct with the one field \<open>backgroundImage\<close> reads the same text as the map has, when
  no other key of the object is equal to that name up to case.
\<close>

definition plain_keys :: "(string \<times> json) list \<Rightarrow> bool" where
  "plain_keys flds \<longleftrightarrow> list_all (\<lambda>(k, v). k = background_key \<or> list_all ascii k \<and> map lower_byte k \<noteq> map lower_byte background_key) flds"

definition json_laws :: "'x runtime_scheme \<Rightarrow> json_lib \<Rightarrow> bool" where
  "json_laws rt js \<longleftrightarrow>
    (\<forall>flds t. jl_marshal js (JObject flds) = Some t \<longrightarrow> (\<exists>flds'. jl_unmarshal js t = Some (JObject flds') \<and> map_of flds' = map_of flds)) \<and>
    (\<forall>t. jl_marshal js JNull = Some t \<longrightarrow> jl_unmarshal js t = Some JNull) \<and>
    (\<forall>t flds v. jl_unmarshal js t = Some (JObject flds) \<longrightarrow> plain_keys flds \<longrightarrow> map_of flds background_key = Some (JString v) \<longrightarrow>
       rt_json_background rt t = Some v)"

lemma map_of_map_delete: "map_of (map_delete k m) j = (if j = k then None else map_of m j)"
  by (induction m) (auto simp: map_delete_def)

lemma map_of_map_put: "map_of (map_put k v m) j = (if j = k then Some v else map_of m j)"
  by (auto simp: map_put_def map_add_def map_of_map_delete split: option.splits)

lemma string_field_cong: "map_of a k = map_of b k \<Longrightarrow> string_field k (Some a) = string_field k (Some b)"
  by (simp add: string_field_def)

lemma json_laws_object:
  assumes "json_laws rt js" "jl_marshal js (JObject flds) = Some t"
  shows "\<exists>flds'. jl_unmarshal js t = Some (JObject flds') \<and> map_of flds' = map_of flds"
  using assms unfolding json_laws_def by blast

lemma marshal_object_reads:
  assumes "json_laws rt js" "marshal_object js data = Some t"
  shows "\<exists>data'. unmarshal_object js t = Some data' \<and> string_field k data' = string_field k data"
proof (cases data)
  case None
  then have "jl_unmarshal js t = Some JNull" using assms by (simp add: marshal_object_def json_laws_def)
  then show ?thesis using None by (simp add: unmarshal_object_def)
next
  case (Some flds)
  then obtain flds' where "jl_unmarshal js t = Some (JObject flds')" "map_of flds' = map_of flds"
    using assms json_laws_object [OF assms(1), of flds t] by (auto simp: marshal_object_def)
  then have "unmarshal_object js t = Some (Some flds')" "string_field k (Some flds') = string_field k (Some flds)"
    by (simp_all add: unmarshal_object_def string_field_def)
  then show ?thesis using Some by blast
qed

lemma sanitized_background:
  assumes "json_laws rt js"
  shows "stored_background rt (extractBackgroundImage js (sanitizeCustomData rt js raw))"
proof -
  define data' where "data' data = (case string_field background_key data of None \<Rightarrow> data
    | Some bg \<Rightarrow> (let cleaned = sanitizeBackgroundURL rt bg in
        if cleaned = [] then map_option (map_delete background_key) data else map_option (map_put background_key (JString cleaned)) data))" for data
  have nil: "stored_background rt []" by (simp add: stored_background_def)
  have field: "case string_field background_key (data' data) of None \<Rightarrow> True | Some bg \<Rightarrow> stored_background rt bg" for data
    using sanitizeBackgroundURL_ok [of rt]
    by (cases data; cases "string_field background_key data")
      (auto simp: data'_def Let_def string_field_def map_of_map_delete map_of_map_put split: option.splits json.splits)
  show ?thesis
  proof (cases "\<exists>data t. unmarshal_object js raw = Some data \<and> raw \<noteq> [] \<and> marshal_object js (data' data) = Some t")
    case True
    then obtain data t where d: "unmarshal_object js raw = Some data" "raw \<noteq> []" "marshal_object js (data' data) = Some t" by blast
    then have san: "sanitizeCustomData rt js raw = t" by (simp add: sanitizeCustomData_def data'_def)
    obtain data2 where "unmarshal_object js t = Some data2" "string_field background_key data2 = string_field background_key (data' data)"
      using marshal_object_reads [OF assms d(3), of background_key] by blast
    then have "stored_background rt (extractBackgroundImage js t)"
      using field [of data] nil by (simp add: extractBackgroundImage_def split: option.splits)
    then show ?thesis using san by simp
  next
    case False
    then have "sanitizeCustomData rt js raw = ''{}''"
      by (auto simp: sanitizeCustomData_def data'_def Let_def split: option.splits)
    then show ?thesis using nil by (simp add: extractBackgroundImage_def)
  qed
qed

section \<open>Stored cards\<close>

definition card_ok :: "'x runtime_scheme \<Rightarrow> json_lib \<Rightarrow> invite_card_row \<Rightarrow> bool" where
  "card_ok rt js r \<longleftrightarrow> ic_template_id r \<in> set guestTemplates \<and> guestColorPattern (ic_primary_color r) \<and> guestColorPattern (ic_secondary_color r) \<and>
    guestFontPattern (ic_font r) \<and> length (ic_font r) \<le> 100 \<and> stored_background rt (extractBackgroundImage js (ic_custom_data r))"

definition cards_ok :: "'x runtime_scheme \<Rightarrow> json_lib \<Rightarrow> db \<Rightarrow> bool" where
  "cards_ok rt js d \<longleftrightarrow> distinct (map ic_id (db_cards d)) \<and> distinct (map ic_event_id (db_cards d)) \<and> (\<forall>r \<in> set (db_cards d). card_ok rt js r)"

definition holds_ok :: "'x runtime_scheme \<Rightarrow> json_lib \<Rightarrow> InviteCard \<Rightarrow> bool" where
  "holds_ok rt js c \<longleftrightarrow> card_ok rt js (card_row 0 c)"

lemma default_if_empty_ok: "s = [] \<or> P s \<Longrightarrow> P v \<Longrightarrow> P (default_if_empty s v)"
  by (auto simp: default_if_empty_def)

lemma new_card_ok:
  assumes "json_laws rt js" "t \<in> set guestTemplates"
  shows "holds_ok rt js (new_card rt js uuid e t req)"
proof -
  let ?c = "new_card rt js uuid e t req"
  have "guestColorPattern (card_PrimaryColor ?c)" "guestColorPattern (card_SecondaryColor ?c)"
    using sanitizeColor_ok defaults_ok by (auto simp: new_card_def intro: default_if_empty_ok)
  moreover have "guestFontPattern (card_Font ?c) \<and> length (card_Font ?c) \<le> 100"
    unfolding new_card_def InviteCard.select_convs
    by (rule default_if_empty_ok [where P = "\<lambda>f. guestFontPattern f \<and> length f \<le> 100"]) (use sanitizeFont_ok defaults_ok in auto)
  moreover have "stored_background rt (extractBackgroundImage js (card_CustomData ?c))"
    unfolding new_card_def InviteCard.select_convs
    by (rule default_if_empty_ok [where P = "\<lambda>t. stored_background rt (extractBackgroundImage js t)"])
      (use sanitized_background [OF assms(1)] in \<open>auto simp: extractBackgroundImage_def stored_background_def\<close>)
  moreover have "card_TemplateID ?c = t" by (simp add: new_card_def)
  ultimately show ?thesis using assms(2) by (simp add: holds_ok_def card_ok_def card_row_def)
qed

lemma set_card_ok: "holds_ok rt js c \<Longrightarrow> card_ok rt js (set_card now c r)" "holds_ok rt js c \<Longrightarrow> card_ok rt js (card_row now c)"
  by (simp_all add: holds_ok_def card_ok_def set_card_def card_row_def)

lemma holds_ok_id [simp]: "holds_ok rt js (c\<lparr>card_ID := i\<rparr>) = holds_ok rt js c"
  by (simp add: holds_ok_def card_ok_def card_row_def)

lemma Upsert_ok:
  assumes "Upsert now c d = Inr (d', c')" "holds_ok rt js c" "cards_ok rt js d"
  shows "cards_ok rt js d'"
proof (cases "FindCardByEventID (card_EventID c) d")
  case None
  then have "card_EventID c \<notin> ic_event_id ` set (db_cards d)" by (auto simp: FindCardByEventID_def select_row_None_iff)
  moreover from None assms(1) have "card_ID c \<notin> ic_id ` set (db_cards d)"
    "db_cards d' = db_cards d @ [card_row (trunc_sec now) c]" by (auto simp: Upsert_def Let_def add_row_def split: if_splits)
  ultimately show ?thesis using assms(3) set_card_ok(2) [OF assms(2)] by (auto simp: cards_ok_def card_row_def)
next
  case (Some old)
  let ?c = "c\<lparr>card_ID := card_ID old\<rparr>" and ?p = "\<lambda>r. ic_id r = card_ID old"
  from Some assms(1) have d': "db_cards d' = update_where ?p (set_card (trunc_sec now) ?c) (db_cards d)"
    by (auto simp: Upsert_def Let_def)
  have keep: "map ic_id (db_cards d') = map ic_id (db_cards d)" "map ic_event_id (db_cards d') = map ic_event_id (db_cards d)"
    unfolding d' by (rule map_update_where, simp add: set_card_def)+
  have "card_ok rt js r" if "r \<in> set (db_cards d')" for r
    using that assms(3) set_card_ok(1) [of rt js ?c] assms(2) by (auto simp: d' update_where_def cards_ok_def)
  then show ?thesis using assms(3) keep by (simp add: cards_ok_def)
qed

lemma SaveCard_ok:
  assumes "json_laws rt js" "cards_ok rt js (fst s)"
  shows "cards_ok rt js (fst (fst (SaveCard rt js uuid now e req s)))"
proof (cases s)
  case (Pair d u)
  let ?t = "default_if_empty (sir_TemplateID req) ''balloon-party''"
  show ?thesis
  proof (cases "?t \<in> set guestTemplates")
    case True
    from Upsert_ok [OF _ new_card_ok [OF assms(1) True]] assms(2) show ?thesis
      by (auto simp: SaveCard_def Pair Let_def builtIn_guest split: sum.splits prod.splits)
  next
    case False
    then show ?thesis using assms(2) by (simp add: SaveCard_def Pair Let_def builtIn_guest)
  qed
qed

text \<open>The writers of cards; other components only delete them, with their events, and the directory may change freely.\<close>

inductive card_step :: "runtime \<Rightarrow> json_lib \<Rightarrow> db \<times> uploads \<Rightarrow> db \<times> uploads \<Rightarrow> bool" for rt :: runtime and js :: json_lib where
  route: "card_handle rt js uuid now organizer eventID rq e s = (s', resp) \<Longrightarrow> card_step rt js s s'"
| duplicated: "copy_card_on_duplicate rt js uuid now src dst s = s' \<Longrightarrow> card_step rt js s s'"
| occurrence: "copy_card_on_occurrence rt js uuid now series occ e s = s' \<Longrightarrow> card_step rt js s s'"
| elsewhere: "db_cards d' = filter P (db_cards d) \<Longrightarrow> card_step rt js (d, u) (d', u')"

lemma copy_first_card_ok: "json_laws rt js \<Longrightarrow> cards_ok rt js (fst s) \<Longrightarrow> cards_ok rt js (fst (copy_first_card rt js uuid now occ es s))"
  by (induction es) (auto split: sum.splits intro: SaveCard_ok)

lemma card_handle_ok:
  assumes "json_laws rt js" "cards_ok rt js (fst s)"
  shows "cards_ok rt js (fst (fst (card_handle rt js uuid now organizer eventID rq e s)))"
proof (cases rq)
  case (CoSave body)
  then show ?thesis using assms(2) SaveCard_ok [OF assms, of uuid now eventID]
    by (auto simp: card_handle_def handleSave_def for_card_event_def case_prod_beta split: option.splits sum.splits)
next
  case (CoUpload body)
  then show ?thesis using assms(2)
    by (cases s) (auto simp: card_handle_def handleUploadImage_def for_card_event_def Let_def split: option.splits sum.splits)
qed (use assms(2) in \<open>auto simp: card_handle_def handleGetByEvent_def handlePreview_def for_card_event_def split: option.splits sum.splits\<close>)

interpretation cards: system_invariant "card_step rt js" "\<lambda>s. json_laws rt js \<and> cards_ok rt js (fst s)" for rt js
proof
  fix s s'
  assume "card_step rt js s s'" "json_laws rt js \<and> cards_ok rt js (fst s)"
  then show "json_laws rt js \<and> cards_ok rt js (fst s')"
  proof (cases rule: card_step.cases)
    case (route uuid now organizer eventID rq e resp)
    then show ?thesis using card_handle_ok [of rt js s uuid now organizer eventID rq e] \<open>json_laws rt js \<and> _\<close> by simp
  next
    case (duplicated uuid now src dst)
    then show ?thesis using \<open>json_laws rt js \<and> _\<close> SaveCard_ok [of rt js s]
      by (auto simp: copy_card_on_duplicate_def split: sum.splits)
  next
    case (occurrence uuid now series occ e)
    then show ?thesis using \<open>json_laws rt js \<and> _\<close> copy_first_card_ok [of rt js s]
      by (auto simp: copy_card_on_occurrence_def split: sum.splits)
  next
    case (elsewhere d' P d u u')
    then show ?thesis using \<open>json_laws rt js \<and> _\<close> by (auto simp: cards_ok_def distinct_map_filter)
  qed
qed


text \<open>Without a card the two sides use different defaults.\<close>

lemma default_preview_differs:
  assumes "FindCardByEventID e d = None"
  shows "gp_TemplateID (loadGuestPresentation rt e d) \<noteq> card_TemplateID (GetPreview e d) \<and>
    gp_PrimaryColor (loadGuestPresentation rt e d) \<noteq> card_PrimaryColor (GetPreview e d)"
  using assms by (simp add: FindCardByEventID_def GetPreview_def loadGuestPresentation_def defaultGuestPresentation_def)

section \<open>Uploaded images\<close>

definition uuid_text :: "string \<Rightarrow> bool" where
  "uuid_text e \<longleftrightarrow> e \<noteq> [] \<and> list_all (\<lambda>c. hex_byte c \<or> c = CHR ''-'') e"

definition event_file :: "id \<Rightarrow> string \<times> string \<Rightarrow> bool" where
  "event_file e f \<longleftrightarrow> prefix (e @ ''_'') (fst f)"

lemma backslash: "byte 92 = CHR 0x5C"
  by (simp add: byte_def char_of_eq_iff)

lemma uuid_text_chars: "uuid_text e \<Longrightarrow> CHR ''_'' \<notin> set e \<and> CHR ''/'' \<notin> set e \<and> byte 92 \<notin> set e"
  by (auto simp: uuid_text_def list_all_iff hex_byte_def is_digit_def backslash)

lemma prefix_sep:
  assumes "prefix (a @ [x]) n" "prefix (b @ [x]) n" "x \<notin> set a" "x \<notin> set b"
  shows "a = b"
proof -
  from assms(1) obtain p where p: "n = a @ x # p" by (auto simp: prefix_def)
  from assms(2) obtain q where q: "n = b @ x # q" by (auto simp: prefix_def)
  have "takeWhile (\<lambda>c. c \<noteq> x) n = a" unfolding p using assms(3) by (subst takeWhile_append2) auto
  moreover have "takeWhile (\<lambda>c. c \<noteq> x) n = b" unfolding q using assms(4) by (subst takeWhile_append2) auto
  ultimately show ?thesis by simp
qed

lemma event_file_one: "event_file a f \<Longrightarrow> event_file b f \<Longrightarrow> uuid_text a \<Longrightarrow> uuid_text b \<Longrightarrow> a = b"
  using prefix_sep [of a "CHR ''_''" "fst f" b] uuid_text_chars by (simp add: event_file_def)

lemma remove_all:
  assumes "up_writable u" "up_files u = Some files" "\<And>n. n \<in> set ns \<Longrightarrow> n \<notin> {[], ''.'', ''..''}"
  shows "fold remove_upload ns u = u\<lparr>up_files := Some (filter (\<lambda>f. fst f \<notin> set ns) files)\<rparr>"
  using assms
proof (induction ns arbitrary: u files)
  case Nil
  then show ?case by (cases u) simp
next
  case (Cons n ns)
  have "remove_upload n u = u\<lparr>up_files := Some (map_delete n files)\<rparr>"
    using Cons.prems by (simp add: remove_upload_def)
  then have "fold remove_upload (n # ns) u = u\<lparr>up_files := Some (filter (\<lambda>f. fst f \<notin> set ns) (map_delete n files))\<rparr>"
    using Cons.IH [of "u\<lparr>up_files := Some (map_delete n files)\<rparr>" "map_delete n files"] Cons.prems by simp
  also have "filter (\<lambda>f. fst f \<notin> set ns) (map_delete n files) = filter (\<lambda>f. fst f \<notin> set (n # ns)) files"
    by (auto simp: map_delete_def case_prod_beta intro!: filter_cong)
  finally show ?case .
qed

lemma event_names_plain: "prefix (e @ ''_'') n \<Longrightarrow> n \<notin> {[], ''.'', ''..''}"
  by (cases e) (auto simp: prefix_Cons)

lemma cleanup_removes_event_files:
  assumes "up_writable u" "up_files u = Some files" "up_dir u \<noteq> []"
  shows "cleanupEventImages e u = u\<lparr>up_files := Some (filter (\<lambda>f. \<not> event_file e f) files)\<rparr>"
proof -
  let ?ns = "filter (prefix (e @ ''_'')) (map fst files)"
  have "cleanupEventImages e u = u\<lparr>up_files := Some (filter (\<lambda>f. fst f \<notin> set ?ns) files)\<rparr>"
    using remove_all [of u files ?ns] assms event_names_plain by (auto simp: cleanupEventImages_def remove_event_files_def)
  also have "filter (\<lambda>f. fst f \<notin> set ?ns) files = filter (\<lambda>f. \<not> event_file e f) files"
    by (auto simp: event_file_def intro!: filter_cong)
  finally show ?thesis .
qed

lemma remove_upload_keeps: "up_writable (remove_upload n u) = up_writable u"
  by (simp add: remove_upload_def split: option.splits)

lemma cleanup_keeps_writable: "up_writable (cleanupEventImages e u) = up_writable u"
proof -
  have "up_writable (fold remove_upload ns u) = up_writable u" for ns
    by (induction ns arbitrary: u) (simp_all add: remove_upload_keeps)
  then show ?thesis by (simp add: cleanupEventImages_def remove_event_files_def split: option.splits)
qed

lemma image_extension: "snd (detectImageType data) \<noteq> [] \<Longrightarrow> snd (detectImageType data) \<in> {''.jpg'', ''.png'', ''.webp''}"
  by (auto simp: detectImageType_def Let_def allowedImageTypes_def split: option.splits if_splits)

lemma itoa_chars: "c \<in> set (itoa n) \<Longrightarrow> is_digit c \<or> c = CHR ''-''"
  using nat_digits_digits by (auto simp: itoa_def list_all_iff split: if_splits)

lemma upload_name_served:
  assumes "uuid_text e" "ext \<in> {''.jpg'', ''.png'', ''.webp''}" "up_files u = Some files" "map_of files (upload_name e now ext) = Some data"
  shows "serve_upload (''/api/v1/uploads/'' @ upload_name e now ext) u = ServedFile data"
proof -
  let ?n = "upload_name e now ext"
  have ch: "CHR ''/'' \<notin> set ?n" "byte 92 \<notin> set ?n"
    using uuid_text_chars [OF assms(1)] assms(2) by (auto simp: upload_name_def backslash is_digit_def dest!: itoa_chars)
  have ends: "?n \<noteq> []" "last ?n \<in> set ''gp''" using assms(2) by (auto simp: upload_name_def)
  have base: "path_base ?n = ?n"
  proof -
    have "last ?n \<noteq> CHR ''/''" using ends(2) by (intro notI) simp
    then have "dropWhile (\<lambda>x. x = CHR ''/'') (rev ?n) = rev ?n" by (simp add: dropWhile_eq_self_iff hd_rev)
    then have "trim_right (CHR ''/'') ?n = ?n" by (simp add: trim_right_def)
    then show ?thesis using ends(1) split_on_no_sep [OF ch(1)] by (simp add: path_base_def)
  qed
  have long: "?n \<notin> {''.'', ''/'', ''..''}" using ends(2) by auto
  have dots: "''..'' \<noteq> ?n" using long not_sym [of ?n "''..''"] by (metis insertCI)
  have "map (\<lambda>c. if c = byte 92 then CHR ''/'' else c) (''/api/v1/uploads/'' @ ?n) = ''/api/v1/uploads/'' @ ?n"
    using ch(2) by (auto simp: backslash intro!: map_idI)
  then have nodots: "''..'' \<notin> set (split_on (CHR ''/'') (map (\<lambda>c. if c = byte 92 then CHR ''/'' else c) (''/api/v1/uploads/'' @ ?n)))"
    using dots split_on_no_sep [OF ch(1)] by simp
  have noindex: "\<not> suffix ''/index.html'' (''/api/v1/uploads/'' @ ?n)"
    using ends by (auto simp: suffix_def dest!: arg_cong [where f = last] split: if_splits)
  show ?thesis
    using base long nodots noindex assms(3,4) by (simp add: serve_upload_def trim_prefix_def Let_def)
qed

text \<open>
  C33: an accepted upload replaces the image of its event and only that. After an upload by somebody who manages
  the event, the body was at most 2 MB with an image of an allowed type; the directory has exactly one file of
  the event, with the uploaded bytes, the files of every other event are as before, and the returned URL serves
  the uploaded bytes.
\<close>

theorem upload_replaces_image:
  assumes "handleUploadImage now organizer e body ev (d, u) = ((d', u'), CardImage url)"
    and "up_files u = Some files" "up_dir u \<noteq> []" "distinct (map fst files)" "uuid_text e"
  shows "\<exists>who data files' name. organizer = Some who \<and> checkEventOwner e who ev = Inr () \<and> ub_size body \<le> 2097152 \<and>
    ub_form body = Some (Some data) \<and> snd (detectImageType data) \<noteq> [] \<and> d' = d \<and> up_files u' = Some files' \<and>
    distinct (map fst files') \<and> filter (event_file e) files' = [(name, data)] \<and> url = ''/api/v1/uploads/'' @ name \<and>
    serve_upload url u' = ServedFile data \<and>
    (\<forall>e2. uuid_text e2 \<and> e2 \<noteq> e \<longrightarrow> filter (event_file e2) files' = filter (event_file e2) files)"
proof -
  obtain who where who: "organizer = Some who" "checkEventOwner e who ev = Inr ()"
    using assms(1) by (auto simp: handleUploadImage_def for_card_event_def card_unauthorized_def split: option.splits sum.splits)
  obtain data where b: "ub_size body \<le> maxUploadSize" "ub_form body = Some (Some data)" "snd (detectImageType data) \<noteq> []"
    and out: "write_upload (upload_name e now (snd (detectImageType data))) data (cleanupEventImages e u) = Some u'" "d' = d"
      "url = ''/api/v1/uploads/'' @ upload_name e now (snd (detectImageType data))"
    using assms(1) who by (auto simp: handleUploadImage_def for_card_event_def card_bad_def Let_def split: option.splits if_splits)
  let ?n = "upload_name e now (snd (detectImageType data))" and ?rest = "filter (\<lambda>f. \<not> event_file e f) files"
  have w: "up_writable u" using out(1) by (auto simp: write_upload_def cleanup_keeps_writable split: option.splits if_splits)
  have u': "up_files u' = Some (map_put ?n data ?rest)"
    using out(1) by (auto simp: cleanup_removes_event_files [OF w assms(2,3)] write_upload_def split: option.splits if_splits)
  have mine: "event_file e (?n, x)" for x by (simp add: event_file_def upload_name_def)
  have "map_delete ?n ?rest = ?rest"
    using mine unfolding map_delete_def by (intro filter_True) (auto simp: event_file_def)
  then have files': "up_files u' = Some (?rest @ [(?n, data)])" using u' by (simp add: map_put_def)
  have "?n \<notin> fst ` set ?rest" using mine by (auto simp: event_file_def)
  then have dist: "distinct (map fst (?rest @ [(?n, data)]))" using assms(4) by (auto simp: distinct_map_filter)
  have one: "filter (event_file e) (?rest @ [(?n, data)]) = [(?n, data)]" using mine by simp
  have other: "filter (event_file e2) (?rest @ [(?n, data)]) = filter (event_file e2) files" if "uuid_text e2 \<and> e2 \<noteq> e" for e2
  proof -
    have "\<not> event_file e2 (?n, data)" using mine event_file_one assms(5) that by blast
    moreover have "filter (event_file e2) ?rest = filter (event_file e2) files"
      unfolding filter_filter using event_file_one assms(5) that by (intro filter_cong) auto
    ultimately show ?thesis by simp
  qed
  have "serve_upload url u' = ServedFile data"
    unfolding out(3) by (rule upload_name_served [OF assms(5) image_extension [OF b(3)] files']) (rule map_of_is_SomeI [OF dist], simp)
  then show ?thesis using who b out(2,3) files' dist one other by (auto simp: maxUploadSize_def)
qed

section \<open>Where the image handling reaches too far\<close>

text \<open>
  Changing the background of a card removes the file that the last segment of its old URL names, also when it
  is the image of another event: a duplicated event starts with the URL of its original.
\<close>

lemma changed_background_removes_any_file:
  assumes "FindCardByEventID e d = Some old" "extractBackgroundImage js (card_CustomData old) = ''/api/v1/uploads/'' @ name"
    and "extractBackgroundImage js new \<noteq> extractBackgroundImage js (card_CustomData old)"
    and "up_dir u \<noteq> []" "up_writable u" "up_files u = Some files" "CHR ''/'' \<notin> set name" "name \<notin> {[], ''.'', ''..''}"
  shows "up_files (cleanupOldImage js e new d u) = Some (filter (\<lambda>f. fst f \<noteq> name) files)"
  using assms split_on_no_sep [OF assms(7)]
  by (auto simp: cleanupOldImage_def remove_upload_def map_delete_def Let_def intro!: filter_cong)

text \<open>A background URL that ends in a slash makes the next change remove an empty uploads directory.\<close>

lemma changed_background_removes_directory:
  assumes "FindCardByEventID e d = Some old" "extractBackgroundImage js (card_CustomData old) = ''/''"
    and "extractBackgroundImage js new \<noteq> ''/''" "up_dir u \<noteq> []" "up_writable u" "up_files u = Some []"
  shows "up_files (cleanupOldImage js e new d u) = None"
  using assms by (auto simp: cleanupOldImage_def remove_upload_def Let_def)

text \<open>The public file route lists the directory, and with it the identifiers of the events that have images.\<close>

lemma uploads_listed:
  "up_files u = Some files \<Longrightarrow> map_of files ''index.html'' = None \<Longrightarrow> serve_upload ''/api/v1/uploads/'' u = ServedListing (map fst files)"
  by (simp add: serve_upload_def trim_prefix_def path_base_def backslash suffix_to_prefix)

end
