(* ===== verification/Configuration.thy ===== *)
theory Configuration
  imports Trusted_Proxy Invitation_Service Auth_Service
begin

text \<open>
  The configuration of an instance (\<open>internal/config/config.go\<close>), the fingerprint of its secret
  (\<open>internal/secretkey\<close>), error references (\<open>internal/errcode\<close>) and the providers that the server
  registers from it (\<open>internal/server/notification_registry.go\<close>).
\<close>

section \<open>The host\<close>

text \<open>
  What the process sees: the environment after \<open>godotenv.Load\<close>, the file system, and \<open>time.ParseDuration\<close>.
\<close>

datatype stat_result = StatFound | StatMissing | StatFailed

record host =
  h_env :: "string \<Rightarrow> string option" \<comment> \<open>os.LookupEnv\<close>
  h_stat :: "string \<Rightarrow> stat_result" \<comment> \<open>os.Stat\<close>
  h_read :: "string \<Rightarrow> string option" \<comment> \<open>os.ReadFile; None is an error\<close>
  h_duration :: "string \<Rightarrow> duration option" \<comment> \<open>time.ParseDuration; None is an error\<close>

definition getEnv :: "host \<Rightarrow> string \<Rightarrow> string \<Rightarrow> string" where
  "getEnv h k fallback = (case h_env h k of Some v \<Rightarrow> if v \<noteq> [] then v else fallback | None \<Rightarrow> fallback)"

record Config =
  c_Port :: string
  c_Env :: string
  c_DBDriver :: string
  c_DBDSN :: string
  c_DBDSNWarning :: string
  c_MagicLinkExpiry :: duration
  c_SessionExpiry :: duration
  c_AccountInviteExpiry :: duration
  c_InvitationSessionExpiry :: duration
  c_InvitationRecoveryExpiry :: duration
  c_InvitationSecretKey :: string
  c_BaseURL :: string
  c_NotificationEmailProvider :: string
  c_NotificationSMSProvider :: string
  c_NotificationSMSSenderName :: string
  c_SMTPHost :: string
  c_SMTPPort :: int
  c_SMTPUsername :: string
  c_SMTPPassword :: string
  c_SMTPFrom :: string
  c_SendGridAPIKey :: string
  c_SendGridFrom :: string
  c_SESRegion :: string
  c_SESUsername :: string
  c_SESPassword :: string
  c_SESFrom :: string
  c_TwilioAccountSID :: string
  c_TwilioAuthToken :: string
  c_TwilioFromNumber :: string
  c_VonageAPIKey :: string
  c_VonageAPISecret :: string
  c_VonageFrom :: string
  c_SNSRegion :: string
  c_SNSAccessKeyID :: string
  c_SNSSecretAccessKey :: string
  c_FeedbackGitHubToken :: string
  c_FeedbackGitHubRepo :: string
  c_FeedbackEmail :: string
  c_UploadsDir :: string
  c_DefaultRetentionDays :: int
  c_TrustedProxies :: "string list"
  c_MaxCoHostsPerEvent :: int
  c_EmailOpenTrackingEnabled :: bool
  c_EmailClickTrackingEnabled :: bool
  c_BootstrapToken :: string
  c_InstanceName :: string
  c_DefaultTimezone :: string
  c_AllowSignups :: bool
  c_SupportEmail :: string

section \<open>The database\<close>

definition DefaultSQLiteDSN :: string where "DefaultSQLiteDSN = ''/data/owl-invites.db''"
definition LegacyDefaultSQLiteDSN :: string where "LegacyDefaultSQLiteDSN = ''/data/openrsvp.db''"
definition legacyInstanceName :: string where "legacyInstanceName = ''OpenRSVP''"

definition regularPathExists :: "host \<Rightarrow> string \<Rightarrow> string + bool" where
  "regularPathExists h path = (case h_stat h path of
      StatFound \<Rightarrow> Inr True | StatMissing \<Rightarrow> Inr False | StatFailed \<Rightarrow> Inl ''stat failed'')"

definition ResolveSQLiteDefaultDSN :: "host \<Rightarrow> string \<Rightarrow> string \<Rightarrow> string + string \<times> string" where
  "ResolveSQLiteDefaultDSN h canonicalPath legacyPath =
    rbind (regularPathExists h canonicalPath) (\<lambda>canonicalExists.
    rbind (regularPathExists h legacyPath) (\<lambda>legacyExists.
    if canonicalExists \<and> legacyExists then
      Inl (''both SQLite defaults exist ('' @ canonicalPath @ '' and '' @ legacyPath @ ''); set DB_DSN explicitly to choose one'')
    else if canonicalExists \<or> \<not> legacyExists then Inr (canonicalPath, [])
    else Inr (legacyPath, ''using legacy SQLite default '' @ legacyPath @ '' because '' @ canonicalPath @
      '' does not exist; set DB_DSN explicitly or perform the documented offline path migration'')))"

definition resolveDatabaseDSN :: "host \<Rightarrow> string \<Rightarrow> string + string \<times> string" where
  "resolveDatabaseDSN h driver = (case h_env h ''DB_DSN'' of
      Some explicit \<Rightarrow> if explicit = [] then Inl ''DB_DSN is explicitly set but empty'' else Inr (explicit, [])
    | None \<Rightarrow>
        if driver = ''postgres'' then Inl ''DB_DSN is required when DB_DRIVER=postgres''
        else ResolveSQLiteDefaultDSN h DefaultSQLiteDSN LegacyDefaultSQLiteDSN)"

section \<open>The secret\<close>

definition trim_suffix :: "string \<Rightarrow> string \<Rightarrow> string" where
  "trim_suffix e s = (if suffix e s then take (length s - length e) s else s)"

definition trimOneTrailingLineEnding :: "string \<Rightarrow> string" where
  "trimOneTrailingLineEnding v =
    (if suffix [byte 13, byte 10] v then trim_suffix [byte 13, byte 10] v else trim_suffix [byte 10] v)"

definition placeholder_markers :: "string list" where
  "placeholder_markers = [''change-me'', ''changeme'', ''replace-me'', ''replace_me'', ''replace-this'', ''replace_this'',
     ''your-secret'', ''your_secret'', ''example'', ''placeholder'', ''development-only'', ''test-only'']"

definition isObviousSecretPlaceholder :: "'x runtime_scheme \<Rightarrow> string \<Rightarrow> bool" where
  "isObviousSecretPlaceholder rt v = list_ex (\<lambda>m. contains_str m (to_lower rt (trim_space v))) placeholder_markers"

definition loadInvitationSecret :: "'x runtime_scheme \<Rightarrow> host \<Rightarrow> string \<Rightarrow> string + string" where
  "loadInvitationSecret rt h environment =
    (let direct = h_env h ''OWL_INVITES_SECRET_KEY''; filePath = h_env h ''OWL_INVITES_SECRET_KEY_FILE'' in
     if direct \<noteq> None \<and> filePath \<noteq> None then
       Inl ''exactly one of OWL_INVITES_SECRET_KEY and OWL_INVITES_SECRET_KEY_FILE may be set''
     else
       rbind (case filePath of
           None \<Rightarrow> Inr (case direct of None \<Rightarrow> [] | Some s \<Rightarrow> s)
         | Some path \<Rightarrow>
             if path = [] then Inl ''OWL_INVITES_SECRET_KEY_FILE must name a readable file''
             else map_sum id trimOneTrailingLineEnding (or_err (h_read h path) ''read OWL_INVITES_SECRET_KEY_FILE'')) (\<lambda>secret.
       if direct = None \<and> filePath = None \<or> length secret < 32 then
         Inl ''OWL_INVITES_SECRET_KEY is required and must contain at least 32 bytes''
       else if environment = ''production'' \<and> isObviousSecretPlaceholder rt secret then
         Inl ''OWL_INVITES_SECRET_KEY must not use a placeholder value in production''
       else Inr secret))"

text \<open>\<open>secretkey.Fingerprint\<close>.\<close>

definition fingerprintDomain :: string where "fingerprintDomain = ''owl-invites-secret-fingerprint:v1''"

definition Fingerprint :: "'x runtime_scheme \<Rightarrow> string \<Rightarrow> string" where
  "Fingerprint rt secret = ''oi-secret-v1:'' @ hex_encode (take 16 (rt_hmac rt secret fingerprintDomain))"

section \<open>Load\<close>

definition parse_duration_env :: "host \<Rightarrow> string \<Rightarrow> string \<Rightarrow> string + duration" where
  "parse_duration_env h k fallback = or_err (h_duration h (getEnv h k fallback)) (''invalid '' @ k)"

definition positive_duration_env :: "host \<Rightarrow> string \<Rightarrow> string \<Rightarrow> string + duration" where
  "positive_duration_env h k fallback = rbind (parse_duration_env h k fallback) (\<lambda>v.
     if v \<le> 0 then Inl (''invalid '' @ k) else Inr v)"

definition int_env :: "host \<Rightarrow> string \<Rightarrow> string \<Rightarrow> string + int" where
  "int_env h k fallback = or_err (atoi (getEnv h k fallback)) (''invalid '' @ k)"

text \<open>The loop over the entries of \<open>TRUSTED_PROXIES\<close>.\<close>

definition proxy_entry :: "netlib \<Rightarrow> string list \<Rightarrow> string \<Rightarrow> string + string list" where
  "proxy_entry nl acc raw = (let entry = trim_space raw in
     if entry = [] then Inr acc
     else if nl_parse_ip nl entry = None \<and> nl_parse_cidr nl entry = None then Inl ''invalid TRUSTED_PROXIES entry''
     else Inr (acc @ [entry]))"

definition parse_proxies :: "netlib \<Rightarrow> string \<Rightarrow> string + string list" where
  "parse_proxies nl raw = (if raw = [] then Inr [] else loop (proxy_entry nl) [] (split_on (CHR '','') raw))"

text \<open>The literal \<open>&Config{...}\<close> at the end of \<open>Load\<close>.\<close>

definition new_config ::
  "host \<Rightarrow> string \<Rightarrow> string \<Rightarrow> string \<Rightarrow> string \<times> string \<Rightarrow> duration \<Rightarrow> duration \<Rightarrow> duration \<Rightarrow> duration \<Rightarrow> duration \<Rightarrow>
   string \<Rightarrow> int \<Rightarrow> int \<Rightarrow> string list \<Rightarrow> int \<Rightarrow> Config" where
  "new_config h port env dbDriver dsn magicLinkExpiry sessionExpiry accountInviteExpiry invitationSessionExpiry
     invitationRecoveryExpiry invitationSecretKey smtpPort retentionDays trustedProxies maxCoHosts =
    \<lparr> c_Port = port, c_Env = env, c_DBDriver = dbDriver, c_DBDSN = fst dsn, c_DBDSNWarning = snd dsn,
      c_MagicLinkExpiry = magicLinkExpiry, c_SessionExpiry = sessionExpiry, c_AccountInviteExpiry = accountInviteExpiry,
      c_InvitationSessionExpiry = invitationSessionExpiry, c_InvitationRecoveryExpiry = invitationRecoveryExpiry,
      c_InvitationSecretKey = invitationSecretKey, c_BaseURL = getEnv h ''BASE_URL'' ''http://localhost:8080'',
      c_NotificationEmailProvider = getEnv h ''NOTIFICATION_EMAIL_PROVIDER'' ''smtp'',
      c_NotificationSMSProvider = getEnv h ''NOTIFICATION_SMS_PROVIDER'' [],
      c_NotificationSMSSenderName = getEnv h ''NOTIFICATION_SMS_SENDER_NAME'' ''Owl Invites'',
      c_SMTPHost = getEnv h ''SMTP_HOST'' ''localhost'', c_SMTPPort = smtpPort, c_SMTPUsername = getEnv h ''SMTP_USERNAME'' [],
      c_SMTPPassword = getEnv h ''SMTP_PASSWORD'' [], c_SMTPFrom = getEnv h ''SMTP_FROM'' ''noreply@owl-invites.local'',
      c_SendGridAPIKey = getEnv h ''SENDGRID_API_KEY'' [], c_SendGridFrom = getEnv h ''SENDGRID_FROM'' [],
      c_SESRegion = getEnv h ''SES_REGION'' [], c_SESUsername = getEnv h ''SES_USERNAME'' [],
      c_SESPassword = getEnv h ''SES_PASSWORD'' [], c_SESFrom = getEnv h ''SES_FROM'' [],
      c_TwilioAccountSID = getEnv h ''TWILIO_ACCOUNT_SID'' [], c_TwilioAuthToken = getEnv h ''TWILIO_AUTH_TOKEN'' [],
      c_TwilioFromNumber = getEnv h ''TWILIO_FROM_NUMBER'' [], c_VonageAPIKey = getEnv h ''VONAGE_API_KEY'' [],
      c_VonageAPISecret = getEnv h ''VONAGE_API_SECRET'' [], c_VonageFrom = getEnv h ''VONAGE_FROM'' [],
      c_SNSRegion = getEnv h ''SNS_SMS_REGION'' [], c_SNSAccessKeyID = getEnv h ''SNS_SMS_ACCESS_KEY_ID'' [],
      c_SNSSecretAccessKey = getEnv h ''SNS_SMS_SECRET_ACCESS_KEY'' [],
      c_FeedbackGitHubToken = getEnv h ''FEEDBACK_GITHUB_TOKEN'' [], c_FeedbackGitHubRepo = getEnv h ''FEEDBACK_GITHUB_REPO'' [],
      c_FeedbackEmail = getEnv h ''FEEDBACK_EMAIL'' [], c_UploadsDir = getEnv h ''UPLOADS_DIR'' ''/data/uploads'',
      c_DefaultRetentionDays = retentionDays, c_TrustedProxies = trustedProxies, c_MaxCoHostsPerEvent = maxCoHosts,
      c_EmailOpenTrackingEnabled = (getEnv h ''EMAIL_OPEN_TRACKING_ENABLED'' ''true'' = ''true''),
      c_EmailClickTrackingEnabled = (getEnv h ''EMAIL_CLICK_TRACKING_ENABLED'' ''false'' = ''true''),
      c_BootstrapToken = (case h_env h ''OWL_INVITES_BOOTSTRAP_TOKEN'' of None \<Rightarrow> [] | Some v \<Rightarrow> v),
      c_InstanceName = getEnv h ''INSTANCE_NAME'' ''Owl Invites'', c_DefaultTimezone = getEnv h ''DEFAULT_TIMEZONE'' ''UTC'',
      c_AllowSignups = (getEnv h ''ALLOW_SIGNUPS'' ''false'' = ''true''), c_SupportEmail = getEnv h ''SUPPORT_EMAIL'' [] \<rparr>"

definition Load :: "'x runtime_scheme \<Rightarrow> netlib \<Rightarrow> host \<Rightarrow> string + Config" where
  "Load rt nl h =
    (let port = getEnv h ''PORT'' ''8080''; env = getEnv h ''ENV'' ''development''; dbDriver = getEnv h ''DB_DRIVER'' ''sqlite'' in
    rbind (guard (dbDriver = ''sqlite'' \<or> dbDriver = ''postgres'') (''unsupported DB_DRIVER: '' @ dbDriver)) (\<lambda>_.
    rbind (resolveDatabaseDSN h dbDriver) (\<lambda>dsn.
    rbind (parse_duration_env h ''MAGIC_LINK_EXPIRY'' ''15m'') (\<lambda>magicLinkExpiry.
    rbind (parse_duration_env h ''SESSION_EXPIRY'' ''168h'') (\<lambda>sessionExpiry.
    rbind (positive_duration_env h ''OWL_INVITES_ACCOUNT_INVITE_EXPIRY'' ''72h'') (\<lambda>accountInviteExpiry.
    rbind (positive_duration_env h ''OWL_INVITES_INVITATION_SESSION_EXPIRY'' ''720h'') (\<lambda>invitationSessionExpiry.
    rbind (positive_duration_env h ''OWL_INVITES_INVITATION_RECOVERY_EXPIRY'' ''15m'') (\<lambda>invitationRecoveryExpiry.
    rbind (loadInvitationSecret rt h env) (\<lambda>invitationSecretKey.
    rbind (int_env h ''SMTP_PORT'' ''587'') (\<lambda>smtpPort.
    rbind (guard (env = ''development'' \<or> env = ''production'') (''invalid ENV: '' @ env)) (\<lambda>_.
    rbind (or_err (atoi port) (''invalid PORT: '' @ port)) (\<lambda>portInt.
    rbind (guard (1 \<le> portInt \<and> portInt \<le> 65535) (''invalid PORT: '' @ port)) (\<lambda>_.
    rbind (int_env h ''DEFAULT_RETENTION_DAYS'' ''30'') (\<lambda>retentionDays.
    rbind (guard (0 < retentionDays) ''invalid DEFAULT_RETENTION_DAYS'') (\<lambda>_.
    rbind (parse_proxies nl (getEnv h ''TRUSTED_PROXIES'' [])) (\<lambda>trustedProxies.
    rbind (int_env h ''MAX_COHOSTS_PER_EVENT'' ''10'') (\<lambda>maxCoHosts.
    rbind (guard (1 \<le> maxCoHosts) ''invalid MAX_COHOSTS_PER_EVENT'') (\<lambda>_.
    Inr (new_config h port env dbDriver dsn magicLinkExpiry sessionExpiry accountInviteExpiry invitationSessionExpiry
      invitationRecoveryExpiry invitationSecretKey smtpPort retentionDays trustedProxies maxCoHosts)
    ))))))))))))))))))"

definition IsDevelopment :: "Config \<Rightarrow> bool" where "IsDevelopment c \<longleftrightarrow> c_Env c = ''development''"
definition SMSEnabled :: "Config \<Rightarrow> bool" where "SMSEnabled c \<longleftrightarrow> c_NotificationSMSProvider c \<noteq> []"

section \<open>Settings of the database\<close>

definition override :: "(string \<times> string) list \<Rightarrow> string \<Rightarrow> (string \<Rightarrow> Config \<Rightarrow> Config) \<Rightarrow> Config \<Rightarrow> Config" where
  "override overrides k f c = (case map_of overrides k of Some v \<Rightarrow> if v \<noteq> [] then f v c else c | None \<Rightarrow> c)"

definition ApplyInstanceOverrides :: "(string \<times> string) list \<Rightarrow> Config \<Rightarrow> Config" where
  "ApplyInstanceOverrides overrides c =
    override overrides ''support_email'' (\<lambda>v c. c\<lparr>c_SupportEmail := v\<rparr>)
    (override overrides ''allow_signups'' (\<lambda>v c. c\<lparr>c_AllowSignups := (v = ''true'')\<rparr>)
    (override overrides ''default_timezone'' (\<lambda>v c. c\<lparr>c_DefaultTimezone := v\<rparr>)
    (override overrides ''instance_name'' (\<lambda>v c. c\<lparr>c_InstanceName := (if v = legacyInstanceName then ''Owl Invites'' else v)\<rparr>) c)))"

text \<open>The part of the configuration that the account services keep.\<close>

definition account_config :: "Config \<Rightarrow> config" where
  "account_config c = \<lparr> cfg_AllowSignups = c_AllowSignups c, cfg_MagicLinkExpiry = c_MagicLinkExpiry c,
     cfg_SessionExpiry = c_SessionExpiry c, cfg_AccountInviteExpiry = c_AccountInviteExpiry c, cfg_BaseURL = c_BaseURL c,
     cfg_DefaultTimezone = c_DefaultTimezone c, cfg_InstanceName = c_InstanceName c, cfg_MaxCoHostsPerEvent = c_MaxCoHostsPerEvent c,
     cfg_development = IsDevelopment c \<rparr>"

section \<open>The registered providers\<close>

datatype chosen_provider =
    SMTPProvider string string string string string
  | SendGridProvider string string
  | SESProvider string string string string
  | TwilioProvider string string string
  | VonageProvider string string string
  | SNSProvider string string string

definition sender_address :: "string \<Rightarrow> Config \<Rightarrow> string" where
  "sender_address own c = (if own = [] then c_SMTPFrom c else own)"

definition email_provider :: "'x runtime_scheme \<Rightarrow> Config \<Rightarrow> chosen_provider option" where
  "email_provider rt c = (let name = to_lower rt (trim_space (c_NotificationEmailProvider c)) in
     if name = [] \<or> name = ''smtp'' then
       (if c_SMTPHost c \<noteq> [] then Some (SMTPProvider (c_SMTPHost c) (itoa (c_SMTPPort c)) (c_SMTPUsername c) (c_SMTPPassword c) (c_SMTPFrom c)) else None)
     else if name = ''sendgrid'' then
       (let sender = sender_address (c_SendGridFrom c) c in
        if c_SendGridAPIKey c = [] \<or> sender = [] then None else Some (SendGridProvider (c_SendGridAPIKey c) sender))
     else if name = ''ses'' then
       (let sender = sender_address (c_SESFrom c) c in
        if c_SESRegion c = [] \<or> c_SESUsername c = [] \<or> c_SESPassword c = [] \<or> sender = [] then None
        else Some (SESProvider (c_SESRegion c) (c_SESUsername c) (c_SESPassword c) sender))
     else None)"

text \<open>\<open>sns_ok\<close>: the client library of the SNS provider could be set up.\<close>

definition sms_provider :: "'x runtime_scheme \<Rightarrow> bool \<Rightarrow> Config \<Rightarrow> chosen_provider option" where
  "sms_provider rt sns_ok c = (let name = to_lower rt (trim_space (c_NotificationSMSProvider c)) in
     if name = [] \<or> name = ''none'' then None
     else if name = ''twilio'' then
       (if c_TwilioAccountSID c = [] \<or> c_TwilioAuthToken c = [] \<or> c_TwilioFromNumber c = [] then None
        else Some (TwilioProvider (c_TwilioAccountSID c) (c_TwilioAuthToken c) (c_TwilioFromNumber c)))
     else if name = ''vonage'' then
       (if c_VonageAPIKey c = [] \<or> c_VonageAPISecret c = [] \<or> c_VonageFrom c = [] then None
        else Some (VonageProvider (c_VonageAPIKey c) (c_VonageAPISecret c) (c_VonageFrom c)))
     else if name = ''sns'' then
       (if c_SNSRegion c = [] \<or> c_SNSAccessKeyID c = [] \<or> c_SNSSecretAccessKey c = [] \<or> \<not> sns_ok then None
        else Some (SNSProvider (c_SNSRegion c) (c_SNSAccessKeyID c) (c_SNSSecretAccessKey c)))
     else None)"

definition buildNotificationRegistry :: "'x runtime_scheme \<Rightarrow> bool \<Rightarrow> Config \<Rightarrow> (string \<times> chosen_provider) list" where
  "buildNotificationRegistry rt sns_ok c =
    (case email_provider rt c of None \<Rightarrow> [] | Some p \<Rightarrow> [(''email'', p)]) @
    (case sms_provider rt sns_ok c of None \<Rightarrow> [] | Some p \<Rightarrow> [(''sms'', p)])"

section \<open>Error references\<close>

definition upper_hex_digit :: "nat \<Rightarrow> char" where
  "upper_hex_digit n = ''0123456789ABCDEF'' ! (n mod 16)"

text \<open>\<open>errcode.Ref\<close> on the four random bytes.\<close>

definition Ref :: "string \<Rightarrow> string" where
  "Ref b = ''ERR-'' @ concat (map (\<lambda>c. [upper_hex_digit (of_char c div 16), upper_hex_digit (of_char c)]) b)"

end
