(* ===== verification/Configuration_Safety.thy ===== *)
theory Configuration_Safety
  imports Configuration
begin

text \<open>
  A configuration that loads is one with which the server starts: the constructors that the server
  calls with it accept it, and every setting is in its range.
\<close>

section \<open>Trusted proxies\<close>

definition proxy_ok :: "netlib \<Rightarrow> string \<Rightarrow> bool" where
  "proxy_ok nl entry \<longleftrightarrow> trim_space entry = entry \<and> entry \<noteq> [] \<and> (nl_parse_ip nl entry \<noteq> None \<or> nl_parse_cidr nl entry \<noteq> None)"

lemma parse_proxies_ok:
  assumes "parse_proxies nl raw = Inr ps"
  shows "list_all (proxy_ok nl) ps"
proof (cases "raw = []")
  case False
  with assms have "loop (proxy_entry nl) [] (split_on (CHR '','') raw) = Inr ps" by (simp add: parse_proxies_def)
  then show ?thesis
    by (rule loop_invariant) (auto simp: proxy_entry_def proxy_ok_def Let_def split: if_splits)
qed (use assms in \<open>simp add: parse_proxies_def\<close>)

lemma proxies_all_effective: "list_all (proxy_ok nl) ps \<Longrightarrow> length (trustedNetworks nl ps) = length ps"
  by (induction ps) (auto simp: trustedNetworks_def trusted_network_def proxy_ok_def split: option.splits)

section \<open>The secret\<close>

lemma loadInvitationSecret_ok:
  assumes "loadInvitationSecret rt h env = Inr secret"
  shows "32 \<le> length secret \<and> (env = ''production'' \<longrightarrow> \<not> isObviousSecretPlaceholder rt secret)"
  using assms by (auto simp: loadInvitationSecret_def Let_def split: if_splits)

lemma resolveDatabaseDSN_ok: "resolveDatabaseDSN h driver = Inr (dsn, warning) \<Longrightarrow> dsn \<noteq> []"
  by (auto simp: resolveDatabaseDSN_def ResolveSQLiteDefaultDSN_def DefaultSQLiteDSN_def LegacyDefaultSQLiteDSN_def split: option.splits if_splits)

section \<open>Loaded configurations\<close>

definition config_ok :: "'x runtime_scheme \<Rightarrow> netlib \<Rightarrow> Config \<Rightarrow> bool" where
  "config_ok rt nl c \<longleftrightarrow>
    c_Env c \<in> {''development'', ''production''} \<and> c_DBDriver c \<in> {''sqlite'', ''postgres''} \<and> c_DBDSN c \<noteq> [] \<and>
    (\<exists>p. atoi (c_Port c) = Some p \<and> 1 \<le> p \<and> p \<le> 65535) \<and> 0 < c_AccountInviteExpiry c \<and> 0 < c_InvitationSessionExpiry c \<and>
    0 < c_InvitationRecoveryExpiry c \<and> 32 \<le> length (c_InvitationSecretKey c) \<and>
    (c_Env c = ''production'' \<longrightarrow> \<not> isObviousSecretPlaceholder rt (c_InvitationSecretKey c)) \<and>
    0 < c_DefaultRetentionDays c \<and> 1 \<le> c_MaxCoHostsPerEvent c \<and> c_UploadsDir c \<noteq> [] \<and> list_all (proxy_ok nl) (c_TrustedProxies c)"

lemma getEnv_nonempty: "fallback \<noteq> [] \<Longrightarrow> getEnv h k fallback \<noteq> []"
  by (simp add: getEnv_def split: option.splits)

lemma positive_duration_envD: "positive_duration_env h k f = Inr v \<Longrightarrow> 0 < v"
  by (auto simp: positive_duration_env_def split: if_splits)

lemma Load_ok:
  assumes "Load rt nl h = Inr c"
  shows "config_ok rt nl c"
proof -
  obtain dsn ml se ai isx ir secret smtp port days proxies hosts where
    c: "c = new_config h (getEnv h ''PORT'' ''8080'') (getEnv h ''ENV'' ''development'') (getEnv h ''DB_DRIVER'' ''sqlite'') dsn ml se ai isx ir
      secret smtp days proxies hosts"
    and steps: "getEnv h ''DB_DRIVER'' ''sqlite'' = ''sqlite'' \<or> getEnv h ''DB_DRIVER'' ''sqlite'' = ''postgres''"
      "resolveDatabaseDSN h (getEnv h ''DB_DRIVER'' ''sqlite'') = Inr dsn"
      "positive_duration_env h ''OWL_INVITES_ACCOUNT_INVITE_EXPIRY'' ''72h'' = Inr ai"
      "positive_duration_env h ''OWL_INVITES_INVITATION_SESSION_EXPIRY'' ''720h'' = Inr isx"
      "positive_duration_env h ''OWL_INVITES_INVITATION_RECOVERY_EXPIRY'' ''15m'' = Inr ir"
      "loadInvitationSecret rt h (getEnv h ''ENV'' ''development'') = Inr secret"
      "getEnv h ''ENV'' ''development'' = ''development'' \<or> getEnv h ''ENV'' ''development'' = ''production''"
      "or_err (atoi (getEnv h ''PORT'' ''8080'')) (''invalid PORT: '' @ getEnv h ''PORT'' ''8080'') = Inr port" "1 \<le> port" "port \<le> 65535"
      "0 < days" "parse_proxies nl (getEnv h ''TRUSTED_PROXIES'' []) = Inr proxies" "1 \<le> hosts"
    using assms unfolding Load_def Let_def rbind_Inr_iff guard_Inr_iff sum.inject(2)
    by (elim exE conjE) (rule that, erule sym, assumption+)
  have s: "c_Env c = getEnv h ''ENV'' ''development''" "c_DBDriver c = getEnv h ''DB_DRIVER'' ''sqlite''" "c_DBDSN c = fst dsn"
    "c_Port c = getEnv h ''PORT'' ''8080''" "c_AccountInviteExpiry c = ai" "c_InvitationSessionExpiry c = isx" "c_InvitationRecoveryExpiry c = ir"
    "c_InvitationSecretKey c = secret" "c_DefaultRetentionDays c = days" "c_TrustedProxies c = proxies" "c_MaxCoHostsPerEvent c = hosts"
    "c_UploadsDir c = getEnv h ''UPLOADS_DIR'' ''/data/uploads''"
    unfolding c new_config_def by (rule Config.select_convs)+
  have "c_UploadsDir c \<noteq> []" using s(12) getEnv_nonempty by simp
  moreover have "c_DBDSN c \<noteq> []" using s(3) steps(2) resolveDatabaseDSN_ok [of h "getEnv h ''DB_DRIVER'' ''sqlite''" "fst dsn" "snd dsn"] by simp
  moreover have "c_Env c \<in> {''development'', ''production''}" "c_DBDriver c \<in> {''sqlite'', ''postgres''}" using s(1,2) steps(1,7) by simp_all
  moreover have "\<exists>p. atoi (c_Port c) = Some p \<and> 1 \<le> p \<and> p \<le> 65535" using s(4) steps(8,9,10) by simp
  ultimately show ?thesis
    using s steps(11,13) loadInvitationSecret_ok [OF steps(6)] positive_duration_envD [OF steps(3)] positive_duration_envD [OF steps(4)]
      positive_duration_envD [OF steps(5)] parse_proxies_ok [OF steps(12)]
    unfolding config_ok_def by simp
qed

text \<open>Settings stored in the database change only presentation and sign-up policy.\<close>

lemma override_keeps:
  assumes "P c" "\<And>v c. P c \<Longrightarrow> P (f v c)"
  shows "P (override ov k f c)"
  using assms by (simp add: override_def split: option.splits)

lemma ApplyInstanceOverrides_ok: assumes "config_ok rt nl c" shows "config_ok rt nl (ApplyInstanceOverrides ov c)"
  unfolding ApplyInstanceOverrides_def
  by (intro override_keeps [where P = "config_ok rt nl"] assms) (simp_all add: config_ok_def)

text \<open>
  C34: a configuration that loads is one the server can start with. Its environment, driver, port, periods,
  limits and upload directory are in range; its secret has 32 bytes or more and is no placeholder in production,
  so that the invitation service, whose refusal makes the server panic, is created from it; every trusted proxy
  entry is one that the proxy middleware turns into a network, none is ignored; and the settings read from the
  database afterwards keep all this, the secret included.
\<close>

theorem loaded_configuration_starts:
  assumes "Load rt nl h = Inr c0" "c = ApplyInstanceOverrides overrides c0"
  shows "config_ok rt nl c \<and> c_InvitationSecretKey c = c_InvitationSecretKey c0 \<and> c_Env c = c_Env c0 \<and>
    (\<exists>svc. NewService (c_InvitationSecretKey c) (c_BaseURL c) (c_InvitationSessionExpiry c) (c_InvitationRecoveryExpiry c) collaborators = Inr svc \<and>
       cs_key (svc_signer svc) = c_InvitationSecretKey c0) \<and>
    length (trustedNetworks nl (c_TrustedProxies c)) = length (c_TrustedProxies c0)"
proof -
  have ok: "config_ok rt nl c" using Load_ok [OF assms(1)] ApplyInstanceOverrides_ok assms(2) by simp
  have same: "c_InvitationSecretKey c = c_InvitationSecretKey c0" "c_Env c = c_Env c0" "c_TrustedProxies c = c_TrustedProxies c0"
    unfolding assms(2) ApplyInstanceOverrides_def by (simp_all add: override_def split: option.splits)
  moreover have "length (trustedNetworks nl (c_TrustedProxies c)) = length (c_TrustedProxies c)"
    using ok proxies_all_effective by (simp add: config_ok_def)
  moreover have "\<exists>svc. NewService (c_InvitationSecretKey c) (c_BaseURL c) (c_InvitationSessionExpiry c) (c_InvitationRecoveryExpiry c) collaborators = Inr svc \<and>
      cs_key (svc_signer svc) = c_InvitationSecretKey c0"
    using ok same(1) by (auto simp: config_ok_def NewService_def NewCapabilitySigner_def)
  ultimately show ?thesis using ok by simp
qed

section \<open>Where the configuration and the registry differ\<close>

text \<open>The provider name \<open>none\<close> counts as enabled in the public configuration, and registers no provider.\<close>

lemma sms_none_is_enabled:
  assumes "c_NotificationSMSProvider c = ''none''"
  shows "SMSEnabled c \<and> sms_provider rt sns_ok c = None"
proof -
  have "trim_space ''none'' = ''none''" "map lower_byte ''none'' = ''none''" "list_all ascii ''none''"
    by (simp_all add: trim_space_graphic graphic_def lower_byte_def ascii_def)
  then show ?thesis using assms by (simp add: SMSEnabled_def sms_provider_def to_lower_def)
qed

end
