(* ===== verification/Statistics.thy ===== *)
theory Statistics
  imports Complex_Main Notification Invitation_Store
begin

text \<open>
  The statistics of the instance for administrators (\<open>internal/stats\<close>): the aggregate queries, the
  loops over their rows and the cache in front of them. Averages are rationals.
\<close>

section \<open>Data\<close>

record EventStats =
  evt_Total :: nat
  evt_Draft :: nat
  evt_Published :: nat
  evt_Cancelled :: nat
  evt_Archived :: nat

record GuestStats =
  gst_Total :: nat
  gst_TotalHeadcount :: nat
  gst_Attending :: nat
  gst_Maybe :: nat
  gst_Declined :: nat
  gst_Pending :: nat
  gst_AvgPerEvent :: rat

record FeatureAdoption =
  fa_OpenEnrollmentEvents :: nat
  fa_CohostedEvents :: nat
  fa_EventsWithQuestions :: nat
  fa_EventsWithCapacity :: nat
  fa_SeriesEvents :: nat

record NotificationStats =
  nst_Total :: nat
  nst_Sent :: nat
  nst_Failed :: nat
  nst_Delivered :: nat
  nst_Opened :: nat
  nst_Bounced :: nat
  nst_Complained :: nat

record InstanceStats =
  is_Events :: EventStats
  is_Guests :: GuestStats
  is_Users :: nat
  is_Features :: FeatureAdoption
  is_Notifications :: NotificationStats

record tables =
  tb_identity :: idb
  tb_invitations :: db
  tb_notifications :: ndb

section \<open>The store\<close>

text \<open>\<open>SELECT k, COUNT(*) ... GROUP BY k\<close> over the keys of the rows.\<close>

definition group_count :: "'k list \<Rightarrow> ('k \<times> nat) list" where
  "group_count ks = map (\<lambda>k. (k, count_list ks k)) (remdups ks)"

definition count_distinct :: "'k list \<Rightarrow> nat" where
  "count_distinct ks = length (remdups ks)"

definition event_stats_row :: "string \<times> nat \<Rightarrow> EventStats \<Rightarrow> EventStats" where
  "event_stats_row row out = (case row of (status, n) \<Rightarrow>
    let out = out\<lparr>evt_Total := evt_Total out + n\<rparr> in
    if status = ''draft'' then out\<lparr>evt_Draft := n\<rparr>
    else if status = ''published'' then out\<lparr>evt_Published := n\<rparr>
    else if status = ''cancelled'' then out\<lparr>evt_Cancelled := n\<rparr>
    else if status = ''archived'' then out\<lparr>evt_Archived := n\<rparr>
    else out)"

definition loadEventStats :: "tables \<Rightarrow> EventStats" where
  "loadEventStats t = fold event_stats_row (group_count (map e_Status (id_events (tb_identity t))))
     \<lparr> evt_Total = 0, evt_Draft = 0, evt_Published = 0, evt_Cancelled = 0, evt_Archived = 0 \<rparr>"

text \<open>The rows of the left join of the guests that are not removed with their responses.\<close>

definition live_guests :: "db \<Rightarrow> guest_row list" where
  "live_guests d = filter (\<lambda>g. g_removed_at g = None) (db_guests d)"

definition attendance_rows :: "db \<Rightarrow> string list" where
  "attendance_rows d = concat (map (\<lambda>g. case filter (\<lambda>r. gr_guest_id r = g_id g) (db_guest_responses d) of
      [] \<Rightarrow> [''pending''] | rs \<Rightarrow> map gr_attendance rs) (live_guests d))"

definition guest_stats_row :: "string \<times> nat \<Rightarrow> GuestStats \<Rightarrow> GuestStats" where
  "guest_stats_row row out = (case row of (status, n) \<Rightarrow>
    let out = out\<lparr>gst_Total := gst_Total out + n, gst_TotalHeadcount := gst_TotalHeadcount out + n\<rparr> in
    if status = ''attending'' then out\<lparr>gst_Attending := n\<rparr>
    else if status = ''maybe'' then out\<lparr>gst_Maybe := n\<rparr>
    else if status = ''declined'' then out\<lparr>gst_Declined := n\<rparr>
    else if status = ''pending'' then out\<lparr>gst_Pending := n\<rparr>
    else out)"

definition events_with_guests :: "db \<Rightarrow> nat" where
  "events_with_guests d = count_distinct (concat (map (\<lambda>g. map inv_EventID (filter (\<lambda>i. inv_ID i = g_invitation_id g) (db_invitations d))) (live_guests d)))"

definition loadGuestStats :: "tables \<Rightarrow> GuestStats" where
  "loadGuestStats t = (let d = tb_invitations t;
     out = fold guest_stats_row (group_count (attendance_rows d))
       \<lparr> gst_Total = 0, gst_TotalHeadcount = 0, gst_Attending = 0, gst_Maybe = 0, gst_Declined = 0, gst_Pending = 0, gst_AvgPerEvent = 0 \<rparr>;
     n = events_with_guests d in
     if 0 < n then out\<lparr>gst_AvgPerEvent := of_nat (gst_Total out) / of_nat n\<rparr> else out)"

definition loadUserStats :: "tables \<Rightarrow> nat" where
  "loadUserStats t = length (id_users (tb_identity t))"

definition loadFeatureAdoption :: "tables \<Rightarrow> FeatureAdoption" where
  "loadFeatureAdoption t =
    \<lparr> fa_OpenEnrollmentEvents = affected oe_Enabled (db_open (tb_invitations t)),
      fa_CohostedEvents = count_distinct (map mb_event_id (filter (\<lambda>m. mb_role m = ''cohost'') (id_memberships (tb_identity t)))),
      fa_EventsWithQuestions = count_distinct (map qr_event_id (db_questions (tb_invitations t))),
      fa_EventsWithCapacity = affected (\<lambda>r. oe_Capacity r \<noteq> None) (db_open (tb_invitations t)),
      fa_SeriesEvents = affected (\<lambda>e. e_SeriesID e \<noteq> None) (id_events (tb_identity t)) \<rparr>"

definition notification_stats_row :: "(string \<times> string) \<times> nat \<Rightarrow> NotificationStats \<Rightarrow> NotificationStats" where
  "notification_stats_row row out = (case row of ((status, deliveryStatus), n) \<Rightarrow>
    let out = out\<lparr>nst_Total := nst_Total out + n\<rparr>;
        out = (if status = ''sent'' then out\<lparr>nst_Sent := nst_Sent out + n\<rparr>
               else if status = ''failed'' then out\<lparr>nst_Failed := nst_Failed out + n\<rparr> else out) in
    if deliveryStatus = ''delivered'' then out\<lparr>nst_Delivered := nst_Delivered out + n\<rparr>
    else if deliveryStatus = ''opened'' then out\<lparr>nst_Opened := nst_Opened out + n\<rparr>
    else if deliveryStatus = ''bounced'' then out\<lparr>nst_Bounced := nst_Bounced out + n\<rparr>
    else if deliveryStatus = ''complained'' then out\<lparr>nst_Complained := nst_Complained out + n\<rparr>
    else out)"

definition loadNotificationStats :: "tables \<Rightarrow> NotificationStats" where
  "loadNotificationStats t = fold notification_stats_row
     (group_count (map (\<lambda>l. (le_Status l, le_DeliveryStatus l)) (nd_log (tb_notifications t))))
     \<lparr> nst_Total = 0, nst_Sent = 0, nst_Failed = 0, nst_Delivered = 0, nst_Opened = 0, nst_Bounced = 0, nst_Complained = 0 \<rparr>"

definition store_GetInstanceStats :: "tables \<Rightarrow> InstanceStats" where
  "store_GetInstanceStats t = \<lparr> is_Events = loadEventStats t, is_Guests = loadGuestStats t, is_Users = loadUserStats t,
     is_Features = loadFeatureAdoption t, is_Notifications = loadNotificationStats t \<rparr>"

section \<open>The cache\<close>

definition cacheTTL :: duration where "cacheTTL = 5 * minute"

record stats_service =
  sts_cached :: "InstanceStats option"
  sts_cachedAt :: time

text \<open>
  A request: the clock when the cache is tested and after the queries, and the tables the queries
  read, \<open>None\<close> when one of them fails. The mutex makes requests run one after the other.
\<close>

record stats_request =
  sq_now :: time
  sq_done :: time
  sq_tables :: "tables option"

definition GetInstanceStats :: "stats_request \<Rightarrow> stats_service \<Rightarrow> stats_service \<times> (string + InstanceStats)" where
  "GetInstanceStats rq s =
    (if sts_cached s \<noteq> None \<and> sq_now rq - sts_cachedAt s < cacheTTL then (s, Inr (the (sts_cached s)))
     else case sq_tables rq of
         None \<Rightarrow> (s, Inl ''stats'')
       | Some t \<Rightarrow> (let stats = store_GetInstanceStats t in (s\<lparr>sts_cached := Some stats, sts_cachedAt := sq_done rq\<rparr>, Inr stats)))"

datatype stats_response = StatsData InstanceStats | StatsError nat string

definition handleGetInstanceStats :: "string \<Rightarrow> stats_request \<Rightarrow> stats_service \<Rightarrow> stats_service \<times> stats_response" where
  "handleGetInstanceStats ref rq s = (case GetInstanceStats rq s of
      (s', Inl _) \<Rightarrow> (s', StatsError 500 (''an internal error occurred (ref: '' @ ref @ '')''))
    | (s', Inr stats) \<Rightarrow> (s', StatsData stats))"

fun serve_stats :: "string \<Rightarrow> stats_request list \<Rightarrow> stats_service \<Rightarrow> stats_response list" where
  "serve_stats ref [] s = []"
| "serve_stats ref (rq # rqs) s = (case handleGetInstanceStats ref rq s of (s', answer) \<Rightarrow> answer # serve_stats ref rqs s')"

section \<open>The loops count rows\<close>

lemma sum_group_count: "sum_list (map snd (filter (\<lambda>p. P (fst p)) (group_count ks))) = length (filter P ks)"
proof -
  have "sum_list (map snd (filter (\<lambda>p. P (fst p)) (group_count ks))) = sum_list (map (count_list ks) (filter P (remdups ks)))"
    by (simp add: group_count_def filter_map comp_def)
  also have "\<dots> = sum (count_list ks) (set (filter P ks))"
    by (simp add: sum_list_distinct_conv_sum_set)
  also have "\<dots> = sum (count_list (filter P ks)) (set (filter P ks))"
    by (intro sum.cong) (auto simp: count_list_eq_length_filter intro!: arg_cong [where f = length] filter_cong)
  finally show ?thesis by (simp add: sum_count_set)
qed

lemma sum_group_count_all: "sum_list (map snd (group_count ks)) = length ks"
  using sum_group_count [of "\<lambda>_. True" ks] by simp

text \<open>A loop that assigns the count of its one row with a given key.\<close>

lemma fold_assign:
  assumes "\<And>k n out. field (step (k, n) out) = (if k = key' then n else field out)" "distinct (map fst gs)"
  shows "field (fold step gs out) = (if key' \<in> fst ` set gs then sum_list (map snd (filter (\<lambda>p. fst p = key') gs)) else field out)"
  using assms(2)
proof (induction gs arbitrary: out)
  case (Cons g gs)
  obtain k n where g: "g = (k, n)" by (cases g)
  show ?case
  proof (cases "k = key'")
    case True
    then have no: "key' \<notin> fst ` set gs" using Cons.prems g by auto
    then have "filter (\<lambda>p. fst p = key') gs = []" by (auto simp: filter_empty_conv)
    then show ?thesis using Cons.IH [of "step g out"] Cons.prems assms(1) True no g by simp
  next
    case False
    then show ?thesis using Cons.IH [of "step g out"] Cons.prems assms(1) g by simp
  qed
qed simp

lemma fold_sum:
  assumes "\<And>k n out. field (step (k, n) out) = field out + (if P k then n else (0::nat))"
  shows "field (fold step gs out) = field out + sum_list (map snd (filter (\<lambda>p. P (fst p)) gs))"
  using assms by (induction gs arbitrary: out) auto

lemma group_keys: "map fst (group_count ks) = remdups ks"
  by (simp add: group_count_def comp_def)

lemma assigned_count:
  assumes "\<And>k n out. field (step (k, n) out) = (if k = key' then n else field out)" "field out = (0::nat)"
  shows "field (fold step (group_count ks) out) = length (filter (\<lambda>k. k = key') ks)"
proof (cases "key' \<in> fst ` set (group_count ks)")
  case True
  have "distinct (map fst (group_count ks))" by (simp add: group_keys)
  from fold_assign [OF assms(1) this] True show ?thesis
    using sum_group_count [of "\<lambda>k. k = key'" ks] by simp
next
  case False
  then have "key' \<notin> set ks" by (metis group_keys image_set set_remdups)
  then have "filter (\<lambda>k. k = key') ks = []" by (auto simp: filter_empty_conv)
  moreover have "distinct (map fst (group_count ks))" by (simp add: group_keys)
  ultimately show ?thesis using fold_assign [OF assms(1), of "group_count ks" out] False assms(2) by simp
qed

lemma summed_count:
  assumes "\<And>k n out. field (step (k, n) out) = field out + (if P k then n else 0)" "field out = (0::nat)"
  shows "field (fold step (group_count ks) out) = length (filter P ks)"
  using fold_sum [of field step P "group_count ks" out] assms by (simp add: sum_group_count)

lemma event_stats_count:
  "evt_Total (loadEventStats t) = length (id_events (tb_identity t))"
  "evt_Draft (loadEventStats t) = affected (\<lambda>e. e_Status e = ''draft'') (id_events (tb_identity t))"
  "evt_Published (loadEventStats t) = affected (\<lambda>e. e_Status e = ''published'') (id_events (tb_identity t))"
  "evt_Cancelled (loadEventStats t) = affected (\<lambda>e. e_Status e = ''cancelled'') (id_events (tb_identity t))"
  "evt_Archived (loadEventStats t) = affected (\<lambda>e. e_Status e = ''archived'') (id_events (tb_identity t))"
  unfolding loadEventStats_def
  by (subst summed_count [where P = "\<lambda>_. True" and field = evt_Total] assigned_count [where key' = "''draft''" and field = evt_Draft]
      assigned_count [where key' = "''published''" and field = evt_Published] assigned_count [where key' = "''cancelled''" and field = evt_Cancelled]
      assigned_count [where key' = "''archived''" and field = evt_Archived]; simp add: event_stats_row_def Let_def affected_def filter_map comp_def)+

lemma notification_stats_count:
  "nst_Total (loadNotificationStats t) = length (nd_log (tb_notifications t))"
  "nst_Sent (loadNotificationStats t) = affected (\<lambda>l. le_Status l = ''sent'') (nd_log (tb_notifications t))"
  "nst_Failed (loadNotificationStats t) = affected (\<lambda>l. le_Status l = ''failed'') (nd_log (tb_notifications t))"
  "nst_Delivered (loadNotificationStats t) = affected (\<lambda>l. le_DeliveryStatus l = ''delivered'') (nd_log (tb_notifications t))"
  "nst_Opened (loadNotificationStats t) = affected (\<lambda>l. le_DeliveryStatus l = ''opened'') (nd_log (tb_notifications t))"
  "nst_Bounced (loadNotificationStats t) = affected (\<lambda>l. le_DeliveryStatus l = ''bounced'') (nd_log (tb_notifications t))"
  "nst_Complained (loadNotificationStats t) = affected (\<lambda>l. le_DeliveryStatus l = ''complained'') (nd_log (tb_notifications t))"
  unfolding loadNotificationStats_def
  by (subst summed_count [where P = "\<lambda>_. True" and field = nst_Total] summed_count [where P = "\<lambda>k. fst k = ''sent''" and field = nst_Sent]
      summed_count [where P = "\<lambda>k. fst k = ''failed''" and field = nst_Failed] summed_count [where P = "\<lambda>k. snd k = ''delivered''" and field = nst_Delivered]
      summed_count [where P = "\<lambda>k. snd k = ''opened''" and field = nst_Opened] summed_count [where P = "\<lambda>k. snd k = ''bounced''" and field = nst_Bounced]
      summed_count [where P = "\<lambda>k. snd k = ''complained''" and field = nst_Complained];
      simp add: notification_stats_row_def Let_def affected_def filter_map comp_def case_prod_beta)+

lemma guest_stats_count:
  "gst_Total (loadGuestStats t) = length (attendance_rows (tb_invitations t))"
  "gst_TotalHeadcount (loadGuestStats t) = length (attendance_rows (tb_invitations t))"
  "gst_Attending (loadGuestStats t) = affected (\<lambda>a. a = ''attending'') (attendance_rows (tb_invitations t))"
  "gst_Maybe (loadGuestStats t) = affected (\<lambda>a. a = ''maybe'') (attendance_rows (tb_invitations t))"
  "gst_Declined (loadGuestStats t) = affected (\<lambda>a. a = ''declined'') (attendance_rows (tb_invitations t))"
  "gst_Pending (loadGuestStats t) = affected (\<lambda>a. a = ''pending'') (attendance_rows (tb_invitations t))"
  unfolding loadGuestStats_def Let_def
  by (simp_all add: affected_def, (subst summed_count [where P = "\<lambda>_. True" and field = gst_Total] summed_count [where P = "\<lambda>_. True" and field = gst_TotalHeadcount]
      assigned_count [where key' = "''attending''" and field = gst_Attending] assigned_count [where key' = "''maybe''" and field = gst_Maybe]
      assigned_count [where key' = "''declined''" and field = gst_Declined] assigned_count [where key' = "''pending''" and field = gst_Pending];
      simp add: guest_stats_row_def Let_def)+)

section \<open>The guests\<close>

lemma filter_unique:
  "distinct (map k xs) \<Longrightarrow> filter (\<lambda>x. k x = v) xs = (case select_row (\<lambda>x. k x = v) xs of None \<Rightarrow> [] | Some x \<Rightarrow> [x])"
proof (induction xs)
  case (Cons x xs)
  have "find (\<lambda>y. k y = k x) xs = None" using Cons.prems by (auto simp: find_None_iff image_iff dest: sym)
  then show ?case using Cons by (auto simp: select_row_def)
qed (simp add: select_row_def)

lemma attendance_rows_map:
  assumes "wf_db d"
  shows "attendance_rows d = map (\<lambda>g. attendance_of d (g_id g)) (live_guests d)"
proof -
  have dist: "distinct (map gr_guest_id (db_guest_responses d))" using assms by (simp add: wf_db_def keys_unique_def)
  have "(case filter (\<lambda>r. gr_guest_id r = g_id g) (db_guest_responses d) of [] \<Rightarrow> [''pending''] | rs \<Rightarrow> map gr_attendance rs) = [attendance_of d (g_id g)]" for g :: guest_row
    by (simp add: filter_unique [OF dist] attendance_of_def split: option.splits)
  then show ?thesis by (simp only: attendance_rows_def concat_map_singleton)
qed

lemma attendance_partition:
  assumes "\<And>a. a \<in> set as \<Longrightarrow> a \<in> {''pending'', ''attending'', ''maybe'', ''declined''}"
  shows "affected (\<lambda>a. a = ''attending'') as + affected (\<lambda>a. a = ''maybe'') as + affected (\<lambda>a. a = ''declined'') as +
    affected (\<lambda>a. a = ''pending'') as = length as"
  using assms by (induction as) (auto simp: affected_def)

text \<open>
  The statistics are counts of the tables. On a database with its constraints, the total of the guests
  is the number of guests that are not removed, each counted once under the attendance that the invitations
  show, and the four counts add up to the total; the counts of events and of notifications by status are the
  numbers of rows with that status.
\<close>

theorem statistics_count_rows:
  assumes "wf_db (tb_invitations t)" "\<forall>r \<in> set (db_guest_responses (tb_invitations t)). validAttendance (gr_attendance r)"
  shows "gst_Total (is_Guests (store_GetInstanceStats t)) = length (live_guests (tb_invitations t)) \<and>
    gst_Attending (is_Guests (store_GetInstanceStats t)) =
      affected (\<lambda>g. attendance_of (tb_invitations t) (g_id g) = ''attending'') (live_guests (tb_invitations t)) \<and>
    gst_Attending (is_Guests (store_GetInstanceStats t)) + gst_Maybe (is_Guests (store_GetInstanceStats t)) +
      gst_Declined (is_Guests (store_GetInstanceStats t)) + gst_Pending (is_Guests (store_GetInstanceStats t)) =
      gst_Total (is_Guests (store_GetInstanceStats t)) \<and>
    evt_Total (is_Events (store_GetInstanceStats t)) = length (id_events (tb_identity t)) \<and>
    evt_Published (is_Events (store_GetInstanceStats t)) = affected (\<lambda>e. e_Status e = ''published'') (id_events (tb_identity t)) \<and>
    nst_Failed (is_Notifications (store_GetInstanceStats t)) = affected (\<lambda>l. le_Status l = ''failed'') (nd_log (tb_notifications t)) \<and>
    nst_Opened (is_Notifications (store_GetInstanceStats t)) = affected (\<lambda>l. le_DeliveryStatus l = ''opened'') (nd_log (tb_notifications t))"
proof -
  let ?d = "tb_invitations t"
  have rows: "attendance_rows ?d = map (\<lambda>g. attendance_of ?d (g_id g)) (live_guests ?d)" by (rule attendance_rows_map [OF assms(1)])
  have "attendance_of ?d (g_id g) \<in> {''pending'', ''attending'', ''maybe'', ''declined''}" for g
    using assms(2) by (auto simp: attendance_of_def validAttendance_def AttendancePending_def AttendanceAttending_def AttendanceMaybe_def
        AttendanceDeclined_def dest!: select_row_SomeD split: option.splits)
  then have "affected (\<lambda>a. a = ''attending'') (attendance_rows ?d) + affected (\<lambda>a. a = ''maybe'') (attendance_rows ?d) +
      affected (\<lambda>a. a = ''declined'') (attendance_rows ?d) + affected (\<lambda>a. a = ''pending'') (attendance_rows ?d) = length (attendance_rows ?d)"
    by (intro attendance_partition) (auto simp: rows)
  moreover have "affected (\<lambda>a. a = ''attending'') (attendance_rows ?d) = affected (\<lambda>g. attendance_of ?d (g_id g) = ''attending'') (live_guests ?d)"
    by (simp add: rows affected_def filter_map comp_def)
  moreover have "length (attendance_rows ?d) = length (live_guests ?d)" by (simp add: rows)
  ultimately show ?thesis
    by (simp add: store_GetInstanceStats_def guest_stats_count event_stats_count notification_stats_count)
qed

section \<open>Staleness\<close>

text \<open>What the cache holds was computed by an earlier request, at the time the cache notes.\<close>

definition computed_by :: "stats_request \<Rightarrow> InstanceStats \<Rightarrow> time \<Rightarrow> bool" where
  "computed_by rq stats tm \<longleftrightarrow> (\<exists>t. sq_tables rq = Some t \<and> stats = store_GetInstanceStats t \<and> tm = sq_done rq)"

lemma serve_stats_fresh:
  assumes "\<And>stats. sts_cached s = Some stats \<Longrightarrow> \<exists>rq \<in> set past. computed_by rq stats (sts_cachedAt s)"
    and "i < length rqs" "serve_stats ref rqs s ! i = StatsData stats"
  shows "\<exists>rq \<in> set past \<union> set (take (Suc i) rqs). \<exists>tm. computed_by rq stats tm \<and> (rq = rqs ! i \<or> sq_now (rqs ! i) - tm < cacheTTL)"
  using assms
proof (induction rqs arbitrary: s i past)
  case (Cons rq rqs)
  obtain s' answer where step: "handleGetInstanceStats ref rq s = (s', answer)" by fastforce
  have next_cache: "\<exists>x \<in> set (past @ [rq]). computed_by x st (sts_cachedAt s')" if "sts_cached s' = Some st" for st
    using step that Cons.prems(1)
    by (auto simp: handleGetInstanceStats_def GetInstanceStats_def computed_by_def Let_def split: if_splits option.splits sum.splits)
  show ?case
  proof (cases i)
    case 0
    then have "answer = StatsData stats" using Cons.prems(3) step by simp
    then have "\<exists>x \<in> set past \<union> {rq}. \<exists>tm. computed_by x stats tm \<and> (x = rq \<or> sq_now rq - tm < cacheTTL)"
      using step Cons.prems(1)
      by (fastforce simp: handleGetInstanceStats_def GetInstanceStats_def computed_by_def Let_def split: if_splits option.splits sum.splits)
    then show ?thesis using 0 by simp
  next
    case (Suc j)
    then have "j < length rqs" "serve_stats ref rqs s' ! j = StatsData stats" using Cons.prems(2,3) step by simp_all
    from Cons.IH [OF next_cache this] Suc show ?thesis by auto
  qed
qed simp

text \<open>
  The statistics shown are at most five minutes old. In every sequence of requests to a new service,
  each answer with data is what the store computes from the tables of that request or of an earlier one that
  finished less than five minutes before it; a failed query is reported and never cached.
\<close>

theorem stats_at_most_five_minutes_old:
  assumes "i < length rqs" "serve_stats ref rqs \<lparr> sts_cached = None, sts_cachedAt = t0 \<rparr> ! i = StatsData stats"
  shows "\<exists>j \<le> i. \<exists>t. sq_tables (rqs ! j) = Some t \<and> stats = store_GetInstanceStats t \<and>
    (j = i \<or> sq_now (rqs ! i) - sq_done (rqs ! j) < 300000000000)"
proof -
  obtain rq tm where rq: "rq \<in> set (take (Suc i) rqs)" "computed_by rq stats tm" "rq = rqs ! i \<or> sq_now (rqs ! i) - tm < cacheTTL"
    using serve_stats_fresh [of "\<lparr> sts_cached = None, sts_cachedAt = t0 \<rparr>" "[]", OF _ assms] by auto
  then obtain j where j: "j < Suc i" "rqs ! j = rq" using assms(1) by (auto simp: in_set_conv_nth)
  show ?thesis
  proof (cases "rq = rqs ! i")
    case True
    then show ?thesis using rq(2) by (auto simp: computed_by_def)
  next
    case False
    then show ?thesis using rq j by (auto simp: computed_by_def cacheTTL_def minute_def second_def less_Suc_eq_le)
  qed
qed

text \<open>An event whose questions are all deleted still counts as one with questions.\<close>

lemma deleted_questions_counted:
  assumes "db_questions (tb_invitations t) = [q]" "qr_deleted q"
  shows "fa_EventsWithQuestions (loadFeatureAdoption t) = 1"
  using assms by (simp add: loadFeatureAdoption_def count_distinct_def)

end
