(* ===== verification/Input_Filters.thy ===== *)
theory Input_Filters
  imports Json_Values Trusted_Proxy
begin

text \<open>
  The filters in front of the API handlers (\<open>internal/security/bodylimit.go\<close>, \<open>sanitize.go\<close>, \<open>honeypot.go\<close>,
  mounted by \<open>internal/server/router.go\<close>): the limit on request bodies, the sanitizing of JSON bodies
  and the honeypot field. The HTML policy of bluemonday and \<open>html.UnescapeString\<close> are parameters.
\<close>

section \<open>Request bodies\<close>

text \<open>
  What reading the body gives: no body, bytes that can be read up to an optional limit, or an error.
  \<open>http.MaxBytesReader\<close> sets the limit; a reader that ran into it keeps failing.
\<close>

datatype body_reader = NilBody | Bytes "nat option" string | FailingBody

record api_request = http_request +
  ar_body :: body_reader
  ar_content_length :: int

definition content_type :: "api_request \<Rightarrow> string" where
  "content_type r = header_get (http_request.truncate r) ''Content-Type''"

definition max_bytes_reader :: "nat \<Rightarrow> body_reader \<Rightarrow> body_reader" where
  "max_bytes_reader n b = (case b of
      Bytes None s \<Rightarrow> Bytes (Some n) s
    | Bytes (Some m) s \<Rightarrow> Bytes (Some (min n m)) s
    | _ \<Rightarrow> b)"

text \<open>\<open>io.ReadAll\<close>; \<open>None\<close> is the error.\<close>

definition read_all :: "body_reader \<Rightarrow> string option" where
  "read_all b = (case b of
      Bytes None s \<Rightarrow> Some s
    | Bytes (Some n) s \<Rightarrow> if n < length s then None else Some s
    | NilBody \<Rightarrow> Some []
    | FailingBody \<Rightarrow> None)"

definition BodyLimitMiddleware :: "nat \<Rightarrow> api_request \<Rightarrow> api_request" where
  "BodyLimitMiddleware maxBytes r =
    (if \<not> prefix ''multipart/'' (content_type r) then r\<lparr>ar_body := max_bytes_reader maxBytes (ar_body r)\<rparr> else r)"

section \<open>Sanitizing\<close>

record html_lib =
  hl_strict :: "string \<Rightarrow> string" \<comment> \<open>Sanitize of bluemonday's strict policy\<close>
  hl_unescape :: "string \<Rightarrow> string" \<comment> \<open>html.UnescapeString\<close>

definition SanitizeStrict :: "html_lib \<Rightarrow> string \<Rightarrow> string" where
  "SanitizeStrict hl input = hl_unescape hl (hl_strict hl input)"

fun sanitizeValue :: "html_lib \<Rightarrow> json \<Rightarrow> json" where
  "sanitizeValue hl (JString s) = JString (SanitizeStrict hl s)"
| "sanitizeValue hl (JObject flds) = JObject (map (\<lambda>(k, v). (k, sanitizeValue hl v)) flds)"
| "sanitizeValue hl (JArray vs) = JArray (map (sanitizeValue hl) vs)"
| "sanitizeValue hl v = v"

definition SanitizeMiddleware :: "html_lib \<Rightarrow> json_lib \<Rightarrow> api_request \<Rightarrow> api_request" where
  "SanitizeMiddleware hl js r =
    (if \<not> prefix ''application/json'' (content_type r) \<or> ar_body r = NilBody then r
     else case read_all (ar_body r) of
       None \<Rightarrow> r\<lparr>ar_body := FailingBody\<rparr>
     | Some body \<Rightarrow>
        if body = [] then r\<lparr>ar_body := Bytes None body\<rparr>
        else case jl_unmarshal js body of
          None \<Rightarrow> r\<lparr>ar_body := Bytes None body\<rparr>
        | Some data \<Rightarrow> (case jl_marshal js (sanitizeValue hl data) of
             None \<Rightarrow> r\<lparr>ar_body := Bytes None body\<rparr>
           | Some newBody \<Rightarrow> r\<lparr>ar_body := Bytes None newBody, ar_content_length := int (length newBody)\<rparr>))"

text \<open>The two filters in the order of the router, with its limit of 1 MB.\<close>

definition api_filters :: "html_lib \<Rightarrow> json_lib \<Rightarrow> api_request \<Rightarrow> api_request" where
  "api_filters hl js r = SanitizeMiddleware hl js (BodyLimitMiddleware (1024 * 1024) r)"

section \<open>The honeypot\<close>

text \<open>\<open>form\<close>: the value of \<open>website\<close> in the parsed form, \<open>None\<close> when parsing fails.\<close>

definition ValidateHoneypot :: "json_lib \<Rightarrow> string option \<Rightarrow> api_request \<Rightarrow> api_request \<times> bool" where
  "ValidateHoneypot js form r =
    (if prefix ''application/json'' (content_type r) then
       (if ar_body r = NilBody then (r, False)
        else case read_all (ar_body r) of
          None \<Rightarrow> (r\<lparr>ar_body := FailingBody\<rparr>, False)
        | Some body \<Rightarrow> (r\<lparr>ar_body := Bytes None body\<rparr>,
            case unmarshal_object js body of
              None \<Rightarrow> False
            | Some data \<Rightarrow> (case string_field ''website'' data of None \<Rightarrow> False | Some v \<Rightarrow> v \<noteq> [])))
     else (r, case form of None \<Rightarrow> False | Some v \<Rightarrow> v \<noteq> []))"

text \<open>\<open>Inl\<close> is the feigned success, \<open>Inr\<close> the request passed on.\<close>

definition HoneypotMiddleware :: "json_lib \<Rightarrow> string option \<Rightarrow> api_request \<Rightarrow> unit + api_request" where
  "HoneypotMiddleware js form r =
    (if hr_method r \<notin> {''POST'', ''PUT'', ''PATCH''} then Inr r
     else let (r', bot) = ValidateHoneypot js form r in if bot then Inl () else Inr r')"

section \<open>Formats\<close>

definition ascii_letter :: "char \<Rightarrow> bool" where
  "ascii_letter c = (let n = (of_char c :: nat) in 65 \<le> n \<and> n \<le> 90 \<or> 97 \<le> n \<and> n \<le> 122)"

text \<open>The expression \<open>^[a-zA-Z0-9._%+\-]+@[a-zA-Z0-9.\-]+\.[a-zA-Z]{2,}$\<close>: the last label is what follows the last dot.\<close>

definition emailRegexp :: "string \<Rightarrow> bool" where
  "emailRegexp s = (case split_on (CHR ''@'') s of
      [user, domain] \<Rightarrow>
        (let labels = split_on (CHR ''.'') domain; top = last labels; rest = join ''.'' (butlast labels) in
         user \<noteq> [] \<and> list_all (\<lambda>c. ascii_letter c \<or> is_digit c \<or> c \<in> set ''._%+-'') user \<and>
         2 \<le> length labels \<and> rest \<noteq> [] \<and> list_all (\<lambda>c. ascii_letter c \<or> is_digit c \<or> c \<in> set ''.-'') rest \<and>
         2 \<le> length top \<and> list_all ascii_letter top)
    | _ \<Rightarrow> False)"

definition ValidateEmail :: "string \<Rightarrow> bool" where
  "ValidateEmail email = (if 254 < length email then False else emailRegexp email)"

definition ValidatePhone :: "string \<Rightarrow> bool" where
  "ValidatePhone phone = (case phone of
      p # d # ds \<Rightarrow> p = CHR ''+'' \<and> is_digit d \<and> d \<noteq> CHR ''0'' \<and> 1 \<le> length ds \<and> length ds \<le> 14 \<and> list_all is_digit ds
    | _ \<Rightarrow> False)"

section \<open>What reaches the handlers\<close>

fun all_strings :: "(string \<Rightarrow> bool) \<Rightarrow> json \<Rightarrow> bool" where
  "all_strings P (JString s) = P s"
| "all_strings P (JObject flds) = list_all (\<lambda>(k, v). all_strings P v) flds"
| "all_strings P (JArray vs) = list_all (all_strings P) vs"
| "all_strings P v = True"

lemma sanitizeValue_strings: "all_strings (\<lambda>s. s \<in> range (SanitizeStrict hl)) (sanitizeValue hl v)"
  by (induction v) (auto simp: list_all_iff)

text \<open>The value with its texts left out.\<close>

fun json_shape :: "json \<Rightarrow> json" where
  "json_shape (JString s) = JString []"
| "json_shape (JObject flds) = JObject (map (\<lambda>(k, v). (k, json_shape v)) flds)"
| "json_shape (JArray vs) = JArray (map json_shape vs)"
| "json_shape v = v"

lemma sanitizeValue_shape: "json_shape (sanitizeValue hl v) = json_shape v"
  by (induction v) auto

lemma content_type_body [simp]:
  "content_type (r\<lparr>ar_body := b\<rparr>) = content_type r" "content_type (r\<lparr>ar_content_length := n\<rparr>) = content_type r"
  by (simp_all add: content_type_def http_request.truncate_def header_get_def)

text \<open>
  Handlers read sanitized JSON of bounded size. When a request declares a JSON body, what a handler can
  read of it is nothing (the body was larger than 1 MB), the body itself (empty, no JSON value, or one that
  cannot be encoded again), or the encoding of the decoded value with every string in it, at any depth,
  replaced by its sanitized form and nothing else changed; the body that was decoded had at most 1 MB.
\<close>

theorem json_bodies_filtered:
  assumes "prefix ''application/json'' (content_type r)" "ar_body r = Bytes None body"
  shows "if 1048576 < length body then ar_body (api_filters hl js r) = FailingBody
    else if body = [] \<or> jl_unmarshal js body = None then ar_body (api_filters hl js r) = Bytes None body
    else \<exists>v. jl_unmarshal js body = Some v \<and> all_strings (\<lambda>s. s \<in> range (SanitizeStrict hl)) (sanitizeValue hl v) \<and>
      json_shape (sanitizeValue hl v) = json_shape v \<and>
      (case jl_marshal js (sanitizeValue hl v) of
         None \<Rightarrow> ar_body (api_filters hl js r) = Bytes None body
       | Some t \<Rightarrow> ar_body (api_filters hl js r) = Bytes None t \<and> ar_content_length (api_filters hl js r) = int (length t))"
proof -
  have "\<not> prefix ''multipart/'' (content_type r)" using assms(1) by (auto simp: prefix_def)
  then have limited: "BodyLimitMiddleware 1048576 r = r\<lparr>ar_body := Bytes (Some 1048576) body\<rparr>"
    using assms(2) by (simp add: BodyLimitMiddleware_def max_bytes_reader_def)
  show ?thesis
    using assms(1) sanitizeValue_strings [of hl] sanitizeValue_shape [of hl]
    by (cases "jl_unmarshal js body") (auto simp: api_filters_def limited SanitizeMiddleware_def read_all_def split: option.splits)
qed

section \<open>What passes the filters\<close>

text \<open>
  The handlers decode JSON whatever the content type says: a body sent under another type reaches them as it
  was sent, and one sent as a multipart type without any limit.
\<close>

lemma other_types_pass_unchanged:
  assumes "\<not> prefix ''application/json'' (content_type r)" "prefix ''multipart/'' (content_type r)"
  shows "api_filters hl js r = r"
  using assms by (simp add: api_filters_def BodyLimitMiddleware_def SanitizeMiddleware_def)

lemma plain_text_not_sanitized:
  assumes "content_type r = ''text/plain''" "ar_body r = Bytes None body" "length body \<le> 1048576"
  shows "read_all (ar_body (api_filters hl js r)) = Some body"
  using assms by (simp add: api_filters_def BodyLimitMiddleware_def SanitizeMiddleware_def max_bytes_reader_def read_all_def)

text \<open>Tags that arrive as entities come out as tags: the policy leaves entities alone and they are unescaped last.\<close>

lemma entities_become_tags:
  assumes "hl_strict hl ''&lt;b&gt;'' = ''&lt;b&gt;''" "hl_unescape hl ''&lt;b&gt;'' = ''<b>''"
  shows "SanitizeStrict hl ''&lt;b&gt;'' = ''<b>''"
  using assms by (simp add: SanitizeStrict_def)

end
