(* ===== verification/Migrations.thy ===== *)
theory Migrations
  imports Go_Lib
begin

text \<open>
  Schema migrations (\<open>internal/database/migrate.go\<close>). The migration library is a parameter: the record
  \<open>migrator\<close> has the operations that the code calls, on a state of its own, and
  \<open>migration_laws\<close> states what its documentation promises of them.
\<close>

section \<open>The library\<close>

datatype 's up_result = UpDone 's | UpNoChange | UpFailed string 's

record 's migrator =
  mg_version :: "'s \<Rightarrow> string + (nat \<times> bool) option" \<comment> \<open>Version: version and dirty flag; None is ErrNilVersion\<close>
  mg_force :: "nat \<Rightarrow> 's \<Rightarrow> string + 's"
  mg_up :: "'s \<Rightarrow> 's up_result"
  mg_migrate :: "nat \<Rightarrow> 's \<Rightarrow> 's up_result"

section \<open>Versions\<close>

definition irreversibleGate2Version :: nat where "irreversibleGate2Version = 36"

text \<open>\<open>strings.Cut\<close> at the first underscore: the part before it.\<close>

definition cut_underscore :: "string \<Rightarrow> string option" where
  "cut_underscore name = (if CHR ''_'' \<in> set name then Some (takeWhile (\<lambda>c. c \<noteq> CHR ''_'') name) else None)"

text \<open>\<open>strconv.ParseUint\<close> with base 10 and 64 bits.\<close>

definition parse_uint :: "string \<Rightarrow> nat option" where
  "parse_uint s = (if s = [] \<or> \<not> list_all is_digit s \<or> 2 ^ 64 \<le> digits_value s then None else Some (digits_value s))"

text \<open>The loop over the entries of the embedded directory: a name and whether it is a directory.\<close>

definition latest_entry :: "nat \<Rightarrow> string \<times> bool \<Rightarrow> string + nat" where
  "latest_entry latest entry = (case entry of (name, is_dir) \<Rightarrow>
    if is_dir \<or> \<not> suffix ''.up.sql'' name then Inr latest
    else case cut_underscore name of
      None \<Rightarrow> Inl (''invalid migration filename: '' @ name)
    | Some p \<Rightarrow> (case parse_uint p of
        None \<Rightarrow> Inl (''invalid migration filename '' @ name)
      | Some version \<Rightarrow> Inr (if latest < version then version else latest)))"

definition LatestMigrationVersion :: "(string \<Rightarrow> (string \<times> bool) list option) \<Rightarrow> string \<Rightarrow> string + nat" where
  "LatestMigrationVersion migrationsFS dialect =
    rbind (or_err (migrationsFS dialect) (''read '' @ dialect @ '' migrations'')) (\<lambda>entries.
    rbind (loop latest_entry 0 entries) (\<lambda>latest.
    if latest = 0 then Inl (''no up migrations found for dialect '' @ dialect) else Inr latest))"

record MigrationStatus =
  mst_Current :: nat
  mst_Latest :: nat
  mst_Dirty :: bool
  mst_Pending :: bool

section \<open>The operations\<close>

text \<open>
  \<open>mk\<close> is \<open>newMigrator\<close>, which opens the library on the database or fails; the latest version is
  computed before.
\<close>

definition ReadMigrationStatus :: "string + 's migrator \<Rightarrow> string + nat \<Rightarrow> 's \<Rightarrow> string + MigrationStatus" where
  "ReadMigrationStatus mk latest s =
    rbind latest (\<lambda>latest.
    rbind mk (\<lambda>m.
    rbind (mg_version m s) (\<lambda>v.
    let (current, dirty) = (case v of None \<Rightarrow> (0, False) | Some p \<Rightarrow> p) in
    Inr \<lparr> mst_Current = current, mst_Latest = latest, mst_Dirty = dirty, mst_Pending = (current < latest \<or> dirty) \<rparr>)))"

text \<open>The state after the call and the error, if any.\<close>

definition RunMigrations :: "string + 's migrator \<Rightarrow> 's \<Rightarrow> 's \<times> string option" where
  "RunMigrations mk s = (case mk of
      Inl e \<Rightarrow> (s, Some e)
    | Inr m \<Rightarrow>
       (let forced = (case mg_version m s of
             Inr (Some (version, dirty)) \<Rightarrow> if dirty then map_sum (\<lambda>e. ''force dirty version'' @ e) id (mg_force m version s) else Inr s
           | _ \<Rightarrow> Inr s)
        in case forced of
             Inl e \<Rightarrow> (s, Some e)
           | Inr s1 \<Rightarrow> (case mg_up m s1 of
                UpDone s2 \<Rightarrow> (s2, None)
              | UpNoChange \<Rightarrow> (s1, None)
              | UpFailed e s2 \<Rightarrow> (s2, Some (''migrate up: '' @ e)))))"

definition MigrateUp :: "string + 's migrator \<Rightarrow> string + nat \<Rightarrow> 's \<Rightarrow> 's \<times> (string + MigrationStatus \<times> MigrationStatus)" where
  "MigrateUp mk latest s = (case ReadMigrationStatus mk latest s of
      Inl e \<Rightarrow> (s, Inl e)
    | Inr before \<Rightarrow> (case RunMigrations mk s of
         (s', Some e) \<Rightarrow> (s', Inl e)
       | (s', None) \<Rightarrow> (s', map_sum id (\<lambda>after. (before, after)) (ReadMigrationStatus mk latest s'))))"

definition RunMigrationsTo :: "string + 's migrator \<Rightarrow> nat \<Rightarrow> 's \<Rightarrow> 's \<times> string option" where
  "RunMigrationsTo mk target s = (case mk of
      Inl e \<Rightarrow> (s, Some e)
    | Inr m \<Rightarrow> (case mg_version m s of
         Inl e \<Rightarrow> (s, Some (''read migration version: '' @ e))
       | Inr v \<Rightarrow>
          if (case v of Some (current, _) \<Rightarrow> irreversibleGate2Version \<le> current | None \<Rightarrow> False) \<and> target < irreversibleGate2Version
          then (s, Some ''migration 36 is irreversible: restore a verified pre-upgrade backup to roll back Gate 2'')
          else (case mg_migrate m target s of
             UpDone s' \<Rightarrow> (s', None)
           | UpNoChange \<Rightarrow> (s, None)
           | UpFailed e s' \<Rightarrow> (s', Some (''migrate to'' @ e)))))"

section \<open>What the library promises\<close>

text \<open>
  \<open>applied\<close> is the list of migrations whose statements have been executed to the end. \<open>Force\<close> sets the
  version and clears the dirty flag and runs nothing; \<open>Up\<close> on a clean database runs the migrations after
  the current version, in order, up to the first that fails, which leaves its version dirty.
\<close>

definition migration_laws :: "'s migrator \<Rightarrow> ('s \<Rightarrow> nat list) \<Rightarrow> nat list \<Rightarrow> bool" where
  "migration_laws m applied versions \<longleftrightarrow>
    (\<forall>v s s'. mg_force m v s = Inr s' \<longrightarrow> mg_version m s' = Inr (Some (v, False)) \<and> applied s' = applied s) \<and>
    (\<forall>v s s'. mg_version m s = Inr (Some (v, False)) \<longrightarrow> mg_up m s = UpDone s' \<longrightarrow> applied s' = applied s @ filter (\<lambda>w. v < w) versions) \<and>
    (\<forall>v s. mg_version m s = Inr (Some (v, False)) \<longrightarrow> mg_up m s = UpNoChange \<longrightarrow> filter (\<lambda>w. v < w) versions = [])"

section \<open>Migrations and their order\<close>

lemma latest_loop:
  assumes "loop latest_entry n entries = Inr l"
  shows "n \<le> l \<and> (\<forall>name. (name, False) \<in> set entries \<longrightarrow> suffix ''.up.sql'' name \<longrightarrow>
    (\<exists>p v. cut_underscore name = Some p \<and> parse_uint p = Some v \<and> v \<le> l))"
  using assms
proof (induction entries arbitrary: n)
  case (Cons entry entries)
  obtain name is_dir where e: "entry = (name, is_dir)" by (cases entry)
  obtain n' where n': "latest_entry n entry = Inr n'" "loop latest_entry n' entries = Inr l" using Cons.prems by auto
  have IH: "n' \<le> l" "\<forall>name. (name, False) \<in> set entries \<longrightarrow> suffix ''.up.sql'' name \<longrightarrow>
      (\<exists>p v. cut_underscore name = Some p \<and> parse_uint p = Some v \<and> v \<le> l)"
    using Cons.IH [OF n'(2)] by auto
  have "n \<le> n'" "\<not> is_dir \<Longrightarrow> suffix ''.up.sql'' name \<Longrightarrow> \<exists>p v. cut_underscore name = Some p \<and> parse_uint p = Some v \<and> v \<le> n'"
    using n'(1) e by (auto simp: latest_entry_def split: if_splits option.splits)
  with IH e show ?case by fastforce
qed simp

text \<open>
  A database past the irreversible migration is never rolled back. Whatever the migration library does,
  asking for a version below 36 on a database at 36 or later changes nothing and is refused with the reason,
  and a status that reports nothing pending is one of a clean database at the highest version of an embedded
  migration, or beyond it.
\<close>

theorem gate2_never_rolled_back:
  assumes "mg_version m s = Inr (Some (current, dirty))" "36 \<le> current"
  shows "(\<forall>target < 36. RunMigrationsTo (Inr m) target s =
      (s, Some ''migration 36 is irreversible: restore a verified pre-upgrade backup to roll back Gate 2'')) \<and>
    (\<forall>migrationsFS dialect entries st name. migrationsFS dialect = Some entries \<and>
       ReadMigrationStatus (Inr m) (LatestMigrationVersion migrationsFS dialect) s = Inr st \<and> \<not> mst_Pending st \<and>
       (name, False) \<in> set entries \<and> suffix ''.up.sql'' name \<longrightarrow>
       \<not> dirty \<and> (\<exists>p v. cut_underscore name = Some p \<and> parse_uint p = Some v \<and> v \<le> current))"
proof -
  have "\<not> dirty \<and> (\<exists>p v. cut_underscore name = Some p \<and> parse_uint p = Some v \<and> v \<le> current)"
    if h: "migrationsFS dialect = Some entries" "ReadMigrationStatus (Inr m) (LatestMigrationVersion migrationsFS dialect) s = Inr st"
      "\<not> mst_Pending st" "(name, False) \<in> set entries" "suffix ''.up.sql'' name" for migrationsFS dialect entries st name
  proof -
    obtain l where l: "loop latest_entry 0 entries = Inr l" "st = \<lparr> mst_Current = current, mst_Latest = l, mst_Dirty = dirty, mst_Pending = (current < l \<or> dirty) \<rparr>"
      using h(1,2) assms(1) by (auto simp: ReadMigrationStatus_def LatestMigrationVersion_def split: if_splits)
    then have "l \<le> current \<and> \<not> dirty" using h(3) by simp
    then show ?thesis using latest_loop [OF l(1)] h(4,5) by (meson le_trans)
  qed
  then show ?thesis using assms by (auto simp: RunMigrationsTo_def irreversibleGate2Version_def)
qed

section \<open>An interrupted migration\<close>

text \<open>
  Starting from a dirty version, a run that succeeds has executed the later migrations and not that one:
  the recovery marks the interrupted migration as done.
\<close>

lemma interrupted_migration_skipped:
  assumes "migration_laws m applied versions" "mg_version m s = Inr (Some (v, True))" "RunMigrations (Inr m) s = (s', None)"
  shows "applied s' = applied s @ filter (\<lambda>w. v < w) versions"
proof -
  obtain s1 where f: "mg_force m v s = Inr s1" using assms(2,3) by (cases "mg_force m v s") (auto simp: RunMigrations_def)
  then have clean: "mg_version m s1 = Inr (Some (v, False))" "applied s1 = applied s" using assms(1) unfolding migration_laws_def by blast+
  show ?thesis
  proof (cases "mg_up m s1")
    case (UpDone s2)
    then have "applied s2 = applied s1 @ filter (\<lambda>w. v < w) versions" using assms(1) clean(1) unfolding migration_laws_def by blast
    then show ?thesis using UpDone assms(2,3) f clean by (simp add: RunMigrations_def)
  next
    case UpNoChange
    then have "filter (\<lambda>w. v < w) versions = []" using assms(1) clean(1) unfolding migration_laws_def by blast
    then show ?thesis using UpNoChange assms(2,3) f clean by (auto simp: RunMigrations_def)
  next
    case (UpFailed e s2)
    then show ?thesis using assms(2,3) f by (simp add: RunMigrations_def)
  qed
qed

end
