(* ===== verification/Feedback.thy ===== *)
theory Feedback
  imports Event_Handler
begin

text \<open>
  Feedback of organizers and guests (\<open>internal/feedback\<close>): the reports that leave the instance as a GitHub
  issue or as an email to the operator, and the confirmation. What the API and the mail provider answer
  are parameters.
\<close>

section \<open>The service\<close>

record github_issue =
  gi_Repo :: string
  gi_Title :: string
  gi_Body :: string
  gi_Labels :: "string list"

record feedback_mail =
  fm_to :: string
  fm_subject :: string
  fm_html :: string
  fm_plain :: string

datatype report = IssueReport github_issue | MailReport feedback_mail

text \<open>\<open>fb_post\<close>: whether the request could be sent and the status of its answer.\<close>

record feedback_service =
  fb_githubToken :: string
  fb_githubRepo :: string
  fb_feedbackEmail :: string
  fb_sendEmail :: "(feedback_mail \<Rightarrow> bool) option"
  fb_post :: "github_issue \<Rightarrow> nat option"
  fb_confirmation :: "string \<Rightarrow> (string \<times> string) option" \<comment> \<open>templates.RenderFeedbackConfirmation\<close>

definition truncate_text :: "string \<Rightarrow> nat \<Rightarrow> string" where
  "truncate_text s maxLen = (if length s \<le> maxLen then s else take maxLen s @ ''...'')"

definition nl :: string where "nl = [byte 10]"

definition createGitHubIssue :: "feedback_service \<Rightarrow> github_issue \<Rightarrow> report list \<times> string option" where
  "createGitHubIssue s i = ([IssueReport i], case fb_post s i of
      None \<Rightarrow> Some ''github api request''
    | Some status \<Rightarrow> if status \<noteq> 201 then Some (''github api returned status '' @ nat_digits status) else None)"

definition submitGitHub :: "feedback_service \<Rightarrow> string \<Rightarrow> string \<Rightarrow> string \<Rightarrow> report list \<times> string option" where
  "submitGitHub s organizerEmail feedbackType msg = createGitHubIssue s
    \<lparr> gi_Repo = fb_githubRepo s, gi_Title = ''[Feedback - '' @ feedbackType @ ''] '' @ truncate_text msg 80,
      gi_Body = ''**Type:** '' @ feedbackType @ nl @ ''**From:** '' @ organizerEmail @ nl @ nl @ ''---'' @ nl @ nl @ msg,
      gi_Labels = [''feedback'', feedbackType] \<rparr>"

definition send_mail :: "feedback_service \<Rightarrow> feedback_mail \<Rightarrow> report list \<times> string option" where
  "send_mail s m = (case fb_sendEmail s of
      None \<Rightarrow> ([], Some ''no sender'')
    | Some f \<Rightarrow> ([MailReport m], if f m then None else Some ''send email''))"

definition submitEmail :: "feedback_service \<Rightarrow> string \<Rightarrow> string \<Rightarrow> string \<Rightarrow> report list \<times> string option" where
  "submitEmail s organizerEmail feedbackType msg = send_mail s
    \<lparr> fm_to = fb_feedbackEmail s, fm_subject = ''[Owl Invites Feedback - '' @ feedbackType @ ''] '' @ truncate_text msg 60,
      fm_html = ''<p><strong>Type:</strong> '' @ escape_string feedbackType @ ''</p><p><strong>From:</strong> '' @ escape_string organizerEmail @
        ''</p><hr><pre>'' @ escape_string msg @ ''</pre>'',
      fm_plain = ''Type: '' @ feedbackType @ nl @ ''From: '' @ organizerEmail @ nl @ nl @ msg \<rparr>"

definition or_default :: "string \<Rightarrow> string \<Rightarrow> string" where
  "or_default s d = (if s = [] then d else s)"

definition submitGuestGitHub :: "feedback_service \<Rightarrow> string \<Rightarrow> string \<Rightarrow> string \<Rightarrow> report list \<times> string option" where
  "submitGuestGitHub s msg contactEmail src = createGitHubIssue s
    \<lparr> gi_Repo = fb_githubRepo s, gi_Title = ''[Guest Feedback] '' @ truncate_text msg 80,
      gi_Body = ''**From:** guest'' @ nl @ ''**Contact:** '' @ or_default contactEmail ''(anonymous)'' @ nl @ ''**Source:** '' @
        or_default src ''(unknown)'' @ nl @ nl @ ''---'' @ nl @ nl @ msg,
      gi_Labels = [''feedback'', ''guest feedback''] \<rparr>"

definition submitGuestEmail :: "feedback_service \<Rightarrow> string \<Rightarrow> string \<Rightarrow> string \<Rightarrow> report list \<times> string option" where
  "submitGuestEmail s msg contactEmail src = (let contact = or_default contactEmail ''(anonymous)''; src = or_default src ''(unknown)'' in send_mail s
    \<lparr> fm_to = fb_feedbackEmail s, fm_subject = ''[Owl Invites Guest Feedback] '' @ truncate_text msg 60,
      fm_html = ''<p><strong>From:</strong> guest</p><p><strong>Contact:</strong> '' @ escape_string contact @
        ''</p><p><strong>Source:</strong> '' @ escape_string src @ ''</p><hr><pre>'' @ escape_string msg @ ''</pre>'',
      fm_plain = ''From: guest'' @ nl @ ''Contact: '' @ contact @ nl @ ''Source: '' @ src @ nl @ nl @ msg \<rparr>)"

definition send_confirmation :: "feedback_service \<Rightarrow> string \<Rightarrow> string \<Rightarrow> bool \<Rightarrow> report list" where
  "send_confirmation s organizerEmail feedbackType allowFollowUp =
    (if allowFollowUp \<and> fb_sendEmail s \<noteq> None \<and> organizerEmail \<noteq> [] then
       (case fb_confirmation s feedbackType of
          None \<Rightarrow> []
        | Some (html_body, plain) \<Rightarrow> fst (send_mail s \<lparr> fm_to = organizerEmail, fm_subject = ''We received your feedback '' @ map byte [226, 128, 148] @ '' Owl Invites'', fm_html = html_body, fm_plain = plain \<rparr>))
     else [])"

definition SubmitFeedback :: "feedback_service \<Rightarrow> string \<Rightarrow> string \<Rightarrow> string \<Rightarrow> bool \<Rightarrow> report list \<times> string option" where
  "SubmitFeedback s organizerEmail feedbackType msg allowFollowUp =
    (let (sent, err) =
       (if fb_githubToken s \<noteq> [] \<and> fb_githubRepo s \<noteq> [] then submitGitHub s organizerEmail feedbackType msg
        else if fb_sendEmail s \<noteq> None \<and> fb_feedbackEmail s \<noteq> [] then submitEmail s organizerEmail feedbackType msg
        else ([], None))
     in case err of
          Some e \<Rightarrow> (sent, Some e)
        | None \<Rightarrow> (sent @ send_confirmation s organizerEmail feedbackType allowFollowUp, None))"

definition SubmitGuest :: "feedback_service \<Rightarrow> string \<Rightarrow> string \<Rightarrow> string \<Rightarrow> report list \<times> string option" where
  "SubmitGuest s msg contactEmail src =
    (if fb_githubToken s \<noteq> [] \<and> fb_githubRepo s \<noteq> [] then submitGuestGitHub s msg contactEmail src
     else if fb_sendEmail s \<noteq> None \<and> fb_feedbackEmail s \<noteq> [] then submitGuestEmail s msg contactEmail src
     else ([], None))"

section \<open>The routes\<close>

record submitRequest =
  fq_Type :: string
  fq_Message :: string
  fq_AllowFollowUp :: bool

record publicSubmitRequest =
  pq_Message :: string
  pq_Contact :: string
  pq_Source :: string

datatype fb_response = FbSubmitted | FbError nat string string

definition fb_bad :: "string \<Rightarrow> fb_response" where "fb_bad msg = FbError 400 ''bad_request'' msg"

definition fb_answer :: "string \<Rightarrow> report list \<times> string option \<Rightarrow> report list \<times> fb_response" where
  "fb_answer ref r = (fst r, case snd r of
      None \<Rightarrow> FbSubmitted
    | Some _ \<Rightarrow> FbError 500 ''internal_error'' (''an internal error occurred (ref: '' @ ref @ '')''))"

definition handleSubmit :: "feedback_service \<Rightarrow> string \<Rightarrow> string option \<Rightarrow> submitRequest json_body \<Rightarrow> report list \<times> fb_response" where
  "handleSubmit s ref organizer body = (case organizer of
      None \<Rightarrow> ([], FbError 401 ''unauthorized'' ''authentication required'')
    | Some email \<Rightarrow> (case DecodeJSON body of
         Inl _ \<Rightarrow> ([], fb_bad ''invalid JSON body'')
       | Inr req \<Rightarrow>
           if fq_Type req \<notin> {''bug'', ''feature'', ''general''} then ([], fb_bad ''type must be bug, feature, or general'')
           else if fq_Message req = [] then ([], fb_bad ''message is required'')
           else if 2000 < length (fq_Message req) then ([], fb_bad ''message must be 2000 characters or fewer'')
           else fb_answer ref (SubmitFeedback s email (fq_Type req) (fq_Message req) (fq_AllowFollowUp req))))"

definition handleSubmitPublic :: "feedback_service \<Rightarrow> string \<Rightarrow> publicSubmitRequest json_body \<Rightarrow> report list \<times> fb_response" where
  "handleSubmitPublic s ref body = (case DecodeJSON body of
      Inl _ \<Rightarrow> ([], fb_bad ''invalid JSON body'')
    | Inr req \<Rightarrow>
        if pq_Message req = [] then ([], fb_bad ''message is required'')
        else if 2000 < length (pq_Message req) then ([], fb_bad ''message must be 2000 characters or fewer'')
        else if 254 < length (pq_Contact req) then ([], fb_bad ''contact must be 254 characters or fewer'')
        else if 512 < length (pq_Source req) then ([], fb_bad ''source must be 512 characters or fewer'')
        else fb_answer ref (SubmitGuest s (pq_Message req) (pq_Contact req) (pq_Source req)))"

section \<open>What leaves the instance\<close>

text \<open>Markup that a reader of the mail would see: the angle brackets of a body.\<close>

definition markup :: "string \<Rightarrow> string" where
  "markup s = filter (\<lambda>c. c \<in> set ''<>'') s"

lemma markup_append [simp]: "markup (a @ b) = markup a @ markup b"
  by (simp add: markup_def)

lemma escape_byte_no_markup: "c' \<in> set (escape_byte c) \<Longrightarrow> c' \<noteq> CHR ''<'' \<and> c' \<noteq> CHR ''>''"
  by (auto simp: escape_byte_def split: if_splits)

lemma markup_escape [simp]: "markup (escape_string s) = []"
  using escape_byte_no_markup by (fastforce simp: markup_def escape_string_def filter_empty_conv)

text \<open>
  What a guest reports reaches the operator once and as text. An accepted report of a guest is at most
  one issue or one mail, exactly one when a channel is configured, to the operator's address or repository;
  it carries the whole message, and the HTML of a mail has the tags of its frame and no others, whatever the
  guest wrote.
\<close>

theorem guest_report_is_text:
  assumes "handleSubmitPublic s ref body = (sent, FbSubmitted)" "DecodeJSON body = Inr req"
  shows "length (pq_Message req) \<le> 2000 \<and> pq_Message req \<noteq> [] \<and>
    (if fb_githubToken s \<noteq> [] \<and> fb_githubRepo s \<noteq> [] then
       (\<exists>i before. sent = [IssueReport i] \<and> gi_Repo i = fb_githubRepo s \<and> gi_Body i = before @ pq_Message req \<and> fb_post s i = Some 201)
     else if fb_sendEmail s \<noteq> None \<and> fb_feedbackEmail s \<noteq> [] then
       (\<exists>m before. sent = [MailReport m] \<and> fm_to m = fb_feedbackEmail s \<and> fm_plain m = before @ pq_Message req \<and>
          markup (fm_html m) = markup ''<p><strong></strong></p><p><strong></strong></p><p><strong></strong></p><hr><pre></pre>'')
     else sent = [])"
proof -
  have sizes: "pq_Message req \<noteq> []" "length (pq_Message req) \<le> 2000"
    and out: "fb_answer ref (SubmitGuest s (pq_Message req) (pq_Contact req) (pq_Source req)) = (sent, FbSubmitted)"
    using assms by (auto simp: handleSubmitPublic_def fb_bad_def split: if_splits)
  have frame: "markup (''<p><strong>From:</strong> guest</p><p><strong>Contact:</strong> '' @ a @ ''</p><p><strong>Source:</strong> '' @ b @
      ''</p><hr><pre>'' @ c @ ''</pre>'') = markup ''<p><strong></strong></p><p><strong></strong></p><p><strong></strong></p><hr><pre></pre>''"
    if "markup a = []" "markup b = []" "markup c = []" for a b c
    unfolding markup_append that by (simp add: markup_def)
  show ?thesis
  proof (cases "fb_githubToken s \<noteq> [] \<and> fb_githubRepo s \<noteq> []")
    case True
    then show ?thesis using sizes out
      by (auto simp: fb_answer_def SubmitGuest_def submitGuestGitHub_def createGitHubIssue_def split: option.splits if_splits)
  next
    case False
    show ?thesis
    proof (cases "fb_sendEmail s \<noteq> None \<and> fb_feedbackEmail s \<noteq> []")
      case True
      let ?m = "\<lparr> fm_to = fb_feedbackEmail s, fm_subject = ''[Owl Invites Guest Feedback] '' @ truncate_text (pq_Message req) 60,
        fm_html = ''<p><strong>From:</strong> guest</p><p><strong>Contact:</strong> '' @ escape_string (or_default (pq_Contact req) ''(anonymous)'') @
          ''</p><p><strong>Source:</strong> '' @ escape_string (or_default (pq_Source req) ''(unknown)'') @ ''</p><hr><pre>'' @ escape_string (pq_Message req) @ ''</pre>'',
        fm_plain = (''From: guest'' @ nl @ ''Contact: '' @ or_default (pq_Contact req) ''(anonymous)'' @ nl @ ''Source: '' @
          or_default (pq_Source req) ''(unknown)'' @ nl @ nl) @ pq_Message req \<rparr>"
      have "sent = [MailReport ?m]"
        using out True False by (auto simp: fb_answer_def SubmitGuest_def submitGuestEmail_def send_mail_def Let_def split: option.splits if_splits)
      moreover have "markup (fm_html ?m) = markup ''<p><strong></strong></p><p><strong></strong></p><p><strong></strong></p><hr><pre></pre>''"
        unfolding feedback_mail.select_convs by (rule frame) simp_all
      moreover have "fm_to ?m = fb_feedbackEmail s" "\<exists>before. fm_plain ?m = before @ pq_Message req" by (simp, unfold feedback_mail.select_convs, blast)
      ultimately show ?thesis using sizes True False by auto
    next
      case False2: False
      then show ?thesis using sizes out False by (auto simp: fb_answer_def SubmitGuest_def split: if_splits)
    qed
  qed
qed

end
