(* ===== verification/Server_Lifecycle.thy ===== *)
theory Server_Lifecycle
  imports Reminder_Safety Trusted_Proxy
begin

text \<open>
  How the server starts, runs and stops (\<open>internal/server/server.go\<close>, \<open>router.go\<close>, \<open>internal/scheduler/scheduler.go\<close>):
  the background scheduler as a transition system of its jobs, the order of a shutdown, the requests refused
  meanwhile and the health routes; the build identity (\<open>internal/buildinfo\<close>) and the default reminders
  that publishing an event creates.
\<close>

section \<open>Build identity\<close>

record build_info =
  bi_Version :: string
  bi_Commit :: string
  bi_BuildState :: string

definition NormalizeInfo :: "build_info \<Rightarrow> build_info" where
  "NormalizeInfo i = \<lparr> bi_Version = (if bi_Version i = [] then ''dev'' else bi_Version i),
     bi_Commit = (if bi_Commit i = [] then ''unknown'' else bi_Commit i),
     bi_BuildState = (if bi_BuildState i = [] then ''unknown'' else bi_BuildState i) \<rparr>"

definition version_text :: "build_info \<Rightarrow> string" where
  "version_text info = (let i = NormalizeInfo info in
     ''Owl Invites '' @ bi_Version i @ [byte 10] @ ''commit: '' @ bi_Commit i @ [byte 10] @ ''build: '' @ bi_BuildState i @ [byte 10])"

text \<open>\<open>js\<close> is the JSON encoder of the identity. \<open>None\<close>: the arguments are not for this command.\<close>

definition RunVersionCommand :: "(build_info \<Rightarrow> string) \<Rightarrow> build_info \<Rightarrow> string list \<Rightarrow> (string + string) option" where
  "RunVersionCommand js current args = (case args of
      [] \<Rightarrow> None
    | a # rest \<Rightarrow>
        if a \<noteq> ''version'' then None
        else if 1 < length rest \<or> (length rest = 1 \<and> rest ! 0 \<noteq> ''--json'') then Some (Inl ''usage: version [--json]'')
        else Some (Inr (if length rest = 1 then js (NormalizeInfo current) else version_text current)))"

section \<open>The scheduler\<close>

text \<open>
  A job's goroutine is running an iteration, waiting for its ticker, or gone. \<open>sd_runs\<close> counts the
  iterations that were started. An iteration ends with success, an error or a panic, which is recovered.
\<close>

datatype job_state = JobRunning | JobWaiting | JobGone

record scheduler =
  sd_started :: bool
  sd_cancelled :: bool
  sd_jobs :: "job_state list"
  sd_runs :: "nat list"

definition RegisterJob :: "scheduler \<Rightarrow> scheduler" where
  "RegisterJob s = s\<lparr>sd_jobs := sd_jobs s @ [JobGone], sd_runs := sd_runs s @ [0]\<rparr>"

text \<open>\<open>Start\<close>: every job begins its first iteration.\<close>

definition StartScheduler :: "scheduler \<Rightarrow> scheduler" where
  "StartScheduler s = s\<lparr>sd_started := True, sd_cancelled := False, sd_jobs := map (\<lambda>_. JobRunning) (sd_jobs s), sd_runs := map Suc (sd_runs s)\<rparr>"

datatype iteration_end = JobSucceeded | JobFailed string | JobPanicked

definition executeJob :: "iteration_end \<Rightarrow> job_state" where
  "executeJob how = (case how of JobSucceeded \<Rightarrow> JobWaiting | JobFailed _ \<Rightarrow> JobWaiting | JobPanicked \<Rightarrow> JobWaiting)"

lemma executeJob_waits [simp]: "executeJob how = JobWaiting"
  by (cases how) (simp_all add: executeJob_def)

inductive scheduler_step :: "scheduler \<Rightarrow> scheduler \<Rightarrow> bool" where
  iteration_ends: "i < length (sd_jobs s) \<Longrightarrow> sd_jobs s ! i = JobRunning \<Longrightarrow>
     scheduler_step s (s\<lparr>sd_jobs := (sd_jobs s)[i := executeJob how]\<rparr>)"
| tick: "i < length (sd_jobs s) \<Longrightarrow> sd_jobs s ! i = JobWaiting \<Longrightarrow>
     scheduler_step s (s\<lparr>sd_jobs := (sd_jobs s)[i := JobRunning], sd_runs := (sd_runs s)[i := Suc (sd_runs s ! i)]\<rparr>)"
| job_stops: "i < length (sd_jobs s) \<Longrightarrow> sd_jobs s ! i = JobWaiting \<Longrightarrow> sd_cancelled s \<Longrightarrow>
     scheduler_step s (s\<lparr>sd_jobs := (sd_jobs s)[i := JobGone]\<rparr>)"
| cancel: "scheduler_step s (s\<lparr>sd_cancelled := True\<rparr>)"

text \<open>\<open>Stop\<close> cancels and returns when every goroutine is gone.\<close>

definition stop_returns :: "scheduler \<Rightarrow> bool" where
  "stop_returns s \<longleftrightarrow> sd_cancelled s \<and> list_all (\<lambda>j. j = JobGone) (sd_jobs s)"

definition scheduler_ok :: "scheduler \<Rightarrow> bool" where
  "scheduler_ok s \<longleftrightarrow> length (sd_runs s) = length (sd_jobs s) \<and> (\<forall>j \<in> set (sd_jobs s). j = JobGone \<longrightarrow> sd_cancelled s) \<and>
    (\<forall>n \<in> set (sd_runs s). 0 < n)"

lemma scheduler_step_ok: "scheduler_step s s' \<Longrightarrow> scheduler_ok s \<Longrightarrow> scheduler_ok s'"
  by (induction rule: scheduler_step.induct) (auto simp: scheduler_ok_def dest!: set_update_subset_insert [THEN subsetD])

text \<open>After \<open>Stop\<close> has returned nothing runs any more.\<close>

interpretation schedule: absorbing scheduler_step scheduler_ok "\<lambda>runs s. stop_returns s \<and> sd_runs s = runs"
proof
  show "scheduler_step s s' \<Longrightarrow> scheduler_ok s \<Longrightarrow> scheduler_ok s'" for s s' by (rule scheduler_step_ok)
  show "scheduler_step s s' \<Longrightarrow> scheduler_ok s \<Longrightarrow> stop_returns s \<and> sd_runs s = runs \<Longrightarrow> stop_returns s' \<and> sd_runs s' = runs" for s s' runs
    by (induction rule: scheduler_step.induct) (auto simp: stop_returns_def list_all_length)
qed

text \<open>From every cancelled state the jobs can finish: a run of steps leads to the return of \<open>Stop\<close>.\<close>

lemma one_job_finishes:
  assumes "sd_cancelled s" "i < length (sd_jobs s)"
  shows "scheduler_step\<^sup>*\<^sup>* s (s\<lparr>sd_jobs := (sd_jobs s)[i := JobGone]\<rparr>)"
proof (cases "sd_jobs s ! i")
  case JobRunning
  let ?s1 = "s\<lparr>sd_jobs := (sd_jobs s)[i := JobWaiting]\<rparr>"
  have "scheduler_step s ?s1" using iteration_ends [of i s JobSucceeded] JobRunning assms(2) by simp
  moreover have "scheduler_step ?s1 (s\<lparr>sd_jobs := (sd_jobs s)[i := JobGone]\<rparr>)" using job_stops [of i ?s1] assms by simp
  ultimately show ?thesis by (meson converse_rtranclp_into_rtranclp r_into_rtranclp)
next
  case JobWaiting
  then show ?thesis using job_stops [of i s] assms by auto
next
  case JobGone
  then have "(sd_jobs s)[i := JobGone] = sd_jobs s" by (metis list_update_id)
  then show ?thesis by simp
qed

lemma all_jobs_finish:
  assumes "sd_cancelled s" "n \<le> length (sd_jobs s)"
  shows "\<exists>s'. scheduler_step\<^sup>*\<^sup>* s s' \<and> sd_cancelled s' \<and> length (sd_jobs s') = length (sd_jobs s) \<and> (\<forall>i < n. sd_jobs s' ! i = JobGone) \<and> sd_runs s' = sd_runs s"
  using assms(2)
proof (induction n)
  case 0
  then show ?case using assms(1) by auto
next
  case (Suc n)
  then obtain s' where s': "scheduler_step\<^sup>*\<^sup>* s s'" "sd_cancelled s'" "length (sd_jobs s') = length (sd_jobs s)"
    "\<forall>i < n. sd_jobs s' ! i = JobGone" "sd_runs s' = sd_runs s" by auto
  let ?t = "s'\<lparr>sd_jobs := (sd_jobs s')[n := JobGone]\<rparr>"
  have "scheduler_step\<^sup>*\<^sup>* s' ?t" using one_job_finishes [OF s'(2), of n] Suc.prems s'(3) by simp
  then have "scheduler_step\<^sup>*\<^sup>* s ?t" using s'(1) by simp
  moreover have "\<forall>i < Suc n. sd_jobs ?t ! i = JobGone" using s'(3,4) Suc.prems by (auto simp: nth_list_update less_Suc_eq)
  ultimately show ?case using s'(2,3,5) by (intro exI [of _ ?t]) simp
qed


section \<open>Requests during a shutdown\<close>

datatype health_response = HealthOK | HealthShuttingDown | HealthNoDatabase | PassedOn

text \<open>\<open>db_ok\<close>: the query of the readiness check succeeds within its three seconds.\<close>

definition handleHealthReady :: "bool \<Rightarrow> bool \<Rightarrow> health_response" where
  "handleHealthReady shuttingDown db_ok =
    (if shuttingDown then HealthShuttingDown else if db_ok then HealthOK else HealthNoDatabase)"

definition rejectDuringShutdown :: "bool \<Rightarrow> http_request \<Rightarrow> health_response" where
  "rejectDuringShutdown shuttingDown r =
    (if \<not> shuttingDown \<or> hr_path r = ''/health'' \<or> hr_path r = ''/health/ready'' \<or> hr_path r = ''/api/v1/health'' then PassedOn
     else HealthShuttingDown)"

section \<open>Default reminders\<close>

definition day_ns :: duration where "day_ns = 24 * hour"

definition default_reminders :: "Event \<Rightarrow> (duration \<times> string) list" where
  "default_reminders e = [(7 * day_ns, ''Reminder: '' @ e_Title e @ '' is in 1 week!''), (3 * day_ns, ''Reminder: '' @ e_Title e @ '' is in 3 days!'')]"

text \<open>The loop of the callback; \<open>clk\<close> is the clock of the store's writes.\<close>

fun create_defaults :: "(nat \<Rightarrow> id) \<Rightarrow> time \<Rightarrow> (nat \<Rightarrow> time) \<Rightarrow> Event \<Rightarrow> idb \<Rightarrow> nat \<Rightarrow> (duration \<times> string) list \<Rightarrow> reminders \<Rightarrow> reminders" where
  "create_defaults uuid now clk e d i [] rs = rs"
| "create_defaults uuid now clk e d i ((offset, msg) # rest) rs =
    (let remindAt = e_EventDate e - offset in
     if remindAt < now then create_defaults uuid now clk e d (Suc i) rest rs
     else case CreateReminder (clk i) \<lparr> rm_ID = uuid i, rm_EventID = e_ID e, rm_RemindAt = remindAt, rm_TargetGroup = ''all'', rm_Message = msg,
            rm_Status = ''scheduled'', rm_CreatedAt = 0, rm_UpdatedAt = 0 \<rparr> d rs of
         Inl _ \<Rightarrow> create_defaults uuid now clk e d (Suc i) rest rs
       | Inr (rs', _) \<Rightarrow> create_defaults uuid now clk e d (Suc i) rest rs')"

definition on_publish :: "(nat \<Rightarrow> id) \<Rightarrow> time \<Rightarrow> (nat \<Rightarrow> time) \<Rightarrow> Event \<Rightarrow> idb \<Rightarrow> reminders \<Rightarrow> reminders" where
  "on_publish uuid now clk e d rs = create_defaults uuid now clk e d 0 (default_reminders e) rs"

text \<open>What a successful publication leaves: one scheduled reminder for each default that is not past.\<close>

lemma on_publish_adds:
  assumes "e_ID e \<in> known_events d" "uuid 0 \<notin> rm_ID ` set rs" "uuid 1 \<notin> rm_ID ` set rs" "uuid 0 \<noteq> uuid 1"
  shows "map (\<lambda>r. (rm_EventID r, rm_RemindAt r, rm_TargetGroup r, rm_Status r)) (on_publish uuid now clk e d rs) =
    map (\<lambda>r. (rm_EventID r, rm_RemindAt r, rm_TargetGroup r, rm_Status r)) rs @
    map (\<lambda>offset. (e_ID e, trunc_sec (e_EventDate e - offset), ''all'', ''scheduled'')) (filter (\<lambda>offset. now \<le> e_EventDate e - offset) [7 * day_ns, 3 * day_ns])"
  using assms
  by (auto simp: on_publish_def default_reminders_def CreateReminder_def reminder_checks_def reminder_groups_def add_row_def Let_def)

text \<open>
  A cancelled event that is reopened and published again gets its default reminders a second time: the
  callback does not look at those it created before.
\<close>

lemma republished_event_reminded_twice:
  assumes "e_ID e \<in> known_events d" "distinct [uuid 0, uuid 1, uuid' 0, uuid' 1]" "now \<le> now'" "now' \<le> e_EventDate e - 7 * day_ns"
  shows "length (filter (\<lambda>r. rm_RemindAt r = trunc_sec (e_EventDate e - 7 * day_ns) \<and> rm_Status r = ''scheduled'')
    (on_publish uuid' now' clk' e d (on_publish uuid now clk e d []))) = 2"
proof -
  have week: "now \<le> e_EventDate e - 7 * day_ns" "now \<le> e_EventDate e - 3 * day_ns" "now' \<le> e_EventDate e - 3 * day_ns"
    using assms(3,4) by (simp_all add: day_ns_def hour_def minute_def second_def)
  have apart: "trunc_sec (e_EventDate e - 3 * day_ns) \<noteq> trunc_sec (e_EventDate e - 7 * day_ns)"
    by (simp add: trunc_sec_def day_ns_def hour_def minute_def second_def)
  have ids: "rm_ID ` set (on_publish uuid now clk e d []) = {uuid 0, uuid 1}"
    using assms(1,2) week
    by (auto simp: on_publish_def default_reminders_def CreateReminder_def reminder_checks_def reminder_groups_def add_row_def Let_def not_less)
  have fresh: "uuid' 0 \<notin> rm_ID ` set (on_publish uuid now clk e d [])" "uuid' 1 \<notin> rm_ID ` set (on_publish uuid now clk e d [])" "uuid' 0 \<noteq> uuid' 1"
    unfolding ids using assms(2) by auto
  let ?v = "\<lambda>r. (rm_EventID r, rm_RemindAt r, rm_TargetGroup r, rm_Status r)"
  let ?P = "\<lambda>(i, t, g, s). t = trunc_sec (e_EventDate e - 7 * day_ns) \<and> s = ''scheduled''"
  have "map ?v (on_publish uuid' now' clk' e d (on_publish uuid now clk e d [])) =
    map (\<lambda>offset. (e_ID e, trunc_sec (e_EventDate e - offset), ''all'', ''scheduled'')) [7 * day_ns, 3 * day_ns, 7 * day_ns, 3 * day_ns]"
    using on_publish_adds [OF assms(1) fresh, of now' clk'] on_publish_adds [OF assms(1), of uuid "[]" now clk] assms(2,4) week by simp
  then have "length (filter ?P (map ?v (on_publish uuid' now' clk' e d (on_publish uuid now clk e d [])))) = 2"
    using apart by simp
  then show ?thesis by (simp add: filter_map comp_def)
qed

end
