(* ===== verification/Backup.thy ===== *)
theory Backup
  imports Configuration Migrations
begin

text \<open>
  Backups of a SQLite instance (\<open>internal/backup\<close>): the bundle of database, uploads and manifest, its
  verification and its restoration to new paths. Files are their bytes and a directory tree is the list of
  its entries in the order of \<open>filepath.WalkDir\<close>. SQLite's own checks, the JSON form of the manifest and
  the outcome of each input or output step are parameters.
\<close>

section \<open>Files\<close>

datatype node = RegularFile string | Directory | Symlink | SpecialFile

type_synonym tree = "(string \<times> node) list"

datatype top_entry = TopFile string | TopDirectory tree | TopSymlink | TopSpecial

text \<open>The bundle: a directory with its entries by name, or something else.\<close>

datatype backup_bundle = BundleDir "(string \<times> top_entry) list" | NotADirectory

text \<open>Absolute paths, as \<open>filepath.Abs\<close> returns them, by their segments.\<close>

type_synonym path = "string list"

record backup_io =
  io_ok :: "string \<Rightarrow> bool" \<comment> \<open>the named step succeeds\<close>
  io_lstat :: "nat \<Rightarrow> path \<Rightarrow> bool option" \<comment> \<open>the n-th os.Lstat: present, absent, or an error\<close>
  io_inspect :: "string \<Rightarrow> string + nat \<times> bool" \<comment> \<open>quick_check, foreign_key_check and the schema version of a file\<close>

definition step_ok :: "backup_io \<Rightarrow> string \<Rightarrow> string + unit" where
  "step_ok io name = (if io_ok io name then Inr () else Inl name)"

section \<open>The manifest\<close>

record FileArtifact =
  fa_Path :: string
  fa_SHA256 :: string
  fa_Size :: int

record UploadsSnapshot =
  us_Included :: bool
  us_Consistency :: string
  us_FileCount :: int
  us_TotalBytes :: int
  us_Files :: "FileArtifact list"

record SourceMetadata =
  sm_DatabaseType :: string
  sm_SchemaVersion :: nat
  sm_SchemaDirty :: bool
  sm_ApplicationVersion :: string
  sm_Commit :: string
  sm_BuildState :: string

record Manifest =
  mf_FormatVersion :: int
  mf_CreatedAt :: time
  mf_Source :: SourceMetadata
  mf_Database :: FileArtifact
  mf_SecretFingerprint :: string
  mf_Uploads :: UploadsSnapshot

text \<open>\<open>json.MarshalIndent\<close>, and the strict decoder that also refuses trailing data.\<close>

record manifest_codec =
  mc_encode :: "Manifest \<Rightarrow> string option"
  mc_decode :: "string \<Rightarrow> Manifest option"

definition FormatVersion :: int where "FormatVersion = 1"
definition databaseFilename :: string where "databaseFilename = ''database.sqlite''"
definition uploadsDirectory :: string where "uploadsDirectory = ''uploads''"
definition manifestFilename :: string where "manifestFilename = ''manifest.json''"
definition uploadsConsistency :: string where
  "uploadsConsistency = ''filesystem snapshot after database; not transactionally atomic''"

definition writeManifest :: "manifest_codec \<Rightarrow> backup_io \<Rightarrow> Manifest \<Rightarrow> string + string" where
  "writeManifest mc io m =
    rbind (or_err (mc_encode mc m) ''encode manifest'') (\<lambda>data.
    rbind (step_ok io ''write backup manifest'') (\<lambda>_. Inr (data @ [byte 10])))"

definition readManifest :: "manifest_codec \<Rightarrow> string \<Rightarrow> string + Manifest" where
  "readManifest mc data =
    (if 1024 * 1024 < length data then Inl ''manifest exceeds 1 MiB'' else or_err (mc_decode mc data) ''decode manifest'')"

text \<open>\<open>hex.DecodeString\<close> succeeds.\<close>

definition hex_ok :: "string \<Rightarrow> bool" where
  "hex_ok s \<longleftrightarrow> even (length s) \<and> list_all (\<lambda>c. is_digit c \<or> c \<in> set ''abcdefABCDEF'') s"

text \<open>\<open>filepath.Clean\<close> on the segments of a path; \<open>stack\<close> is the result so far, last segment first.\<close>

fun clean_segments :: "bool \<Rightarrow> string list \<Rightarrow> string list \<Rightarrow> string list" where
  "clean_segments rooted stack [] = rev stack"
| "clean_segments rooted stack (s # rest) =
    (if s = [] \<or> s = ''.'' then clean_segments rooted stack rest
     else if s = ''..'' then
       (case stack of
          [] \<Rightarrow> clean_segments rooted (if rooted then [] else [''..'']) rest
        | parent # below \<Rightarrow> clean_segments rooted (if parent = ''..'' then ''..'' # stack else below) rest)
     else clean_segments rooted (s # stack) rest)"

definition filepath_clean :: "string \<Rightarrow> string" where
  "filepath_clean p = (let rooted = prefix ''/'' p; segs = clean_segments rooted [] (split_on (CHR ''/'') p) in
     if rooted then CHR ''/'' # join ''/'' segs else if segs = [] then ''.'' else join ''/'' segs)"

definition upload_artifact_ok :: "FileArtifact \<Rightarrow> bool" where
  "upload_artifact_ok f \<longleftrightarrow> \<not> (fa_Path f = [] \<or> filepath_clean (fa_Path f) \<noteq> fa_Path f \<or> prefix ''../'' (filepath_clean (fa_Path f)) \<or>
     prefix ''/'' (fa_Path f) \<or> length (fa_SHA256 f) \<noteq> 64 \<or> fa_Size f < 0) \<and> hex_ok (fa_SHA256 f)"

definition fingerprint_prefix :: string where "fingerprint_prefix = ''oi-secret-v1:''"

definition validateManifest :: "Manifest \<Rightarrow> string + unit" where
  "validateManifest m =
    rbind (guard (mf_FormatVersion m = FormatVersion) ''unsupported backup format version'') (\<lambda>_.
    rbind (guard (\<not> (mf_CreatedAt m = zero_time \<or> sm_DatabaseType (mf_Source m) \<noteq> ''sqlite'' \<or> sm_SchemaDirty (mf_Source m)))
       ''invalid or dirty SQLite backup manifest'') (\<lambda>_.
    rbind (guard (\<not> (fa_Path (mf_Database m) \<noteq> databaseFilename \<or> fa_Size (mf_Database m) < 0 \<or> length (fa_SHA256 (mf_Database m)) \<noteq> 64))
       ''invalid database artifact metadata'') (\<lambda>_.
    rbind (guard (hex_ok (fa_SHA256 (mf_Database m))) ''invalid database checksum'') (\<lambda>_.
    rbind (guard (prefix fingerprint_prefix (mf_SecretFingerprint m) \<and> length (mf_SecretFingerprint m) = length fingerprint_prefix + 32)
       ''invalid secret fingerprint metadata'') (\<lambda>_.
    rbind (guard (hex_ok (trim_prefix fingerprint_prefix (mf_SecretFingerprint m))) ''invalid secret fingerprint metadata'') (\<lambda>_.
    rbind (guard (us_Included (mf_Uploads m) \<and> us_Consistency (mf_Uploads m) = uploadsConsistency \<and>
        us_FileCount (mf_Uploads m) = int (length (us_Files (mf_Uploads m)))) ''invalid uploads metadata'') (\<lambda>_.
    guard (list_all upload_artifact_ok (us_Files (mf_Uploads m))) ''invalid upload artifact metadata'')))))))"

section \<open>Hashes and copies\<close>

definition hashFile :: "'x runtime_scheme \<Rightarrow> string \<Rightarrow> string \<Rightarrow> FileArtifact" where
  "hashFile rt data manifestPath = \<lparr> fa_Path = manifestPath, fa_SHA256 = hex_encode (rt_sha256 rt data), fa_Size = int (length data) \<rparr>"

text \<open>The walk of \<open>copyTree\<close>; the copy of a file may fail.\<close>

definition copy_entry :: "backup_io \<Rightarrow> tree \<Rightarrow> string \<times> node \<Rightarrow> string + tree" where
  "copy_entry io acc entry = (case entry of (relative, n) \<Rightarrow> (case n of
      Symlink \<Rightarrow> Inl (''uploads snapshot refuses symbolic link: '' @ relative)
    | Directory \<Rightarrow> Inr (acc @ [entry])
    | SpecialFile \<Rightarrow> Inl (''uploads snapshot refuses non-regular file: '' @ relative)
    | RegularFile data \<Rightarrow> if io_ok io (''copy '' @ relative) then Inr (acc @ [entry]) else Inl (''copy '' @ relative)))"

definition copyTree :: "backup_io \<Rightarrow> tree \<Rightarrow> string + tree" where
  "copyTree io source = loop (copy_entry io) [] source"

definition inventory_entry :: "'x runtime_scheme \<Rightarrow> UploadsSnapshot \<Rightarrow> string \<times> node \<Rightarrow> string + UploadsSnapshot" where
  "inventory_entry rt snap entry = (case entry of (relative, n) \<Rightarrow> (case n of
      Symlink \<Rightarrow> Inl ''backup bundle contains symbolic link''
    | Directory \<Rightarrow> Inr snap
    | SpecialFile \<Rightarrow> Inl ''backup bundle contains non-regular upload''
    | RegularFile data \<Rightarrow> (let artifact = hashFile rt data relative in
        Inr (snap\<lparr>us_Files := us_Files snap @ [artifact], us_FileCount := us_FileCount snap + 1, us_TotalBytes := us_TotalBytes snap + fa_Size artifact\<rparr>))))"

definition inventoryUploads :: "'x runtime_scheme \<Rightarrow> tree \<Rightarrow> string + UploadsSnapshot" where
  "inventoryUploads rt root = loop (inventory_entry rt)
     \<lparr> us_Included = True, us_Consistency = uploadsConsistency, us_FileCount = 0, us_TotalBytes = 0, us_Files = [] \<rparr> root"

definition uploadsEqual :: "UploadsSnapshot \<Rightarrow> UploadsSnapshot \<Rightarrow> bool" where
  "uploadsEqual expected actual \<longleftrightarrow> us_Included expected = us_Included actual \<and> us_Consistency expected = us_Consistency actual \<and>
     us_FileCount expected = us_FileCount actual \<and> us_TotalBytes expected = us_TotalBytes actual \<and> us_Files expected = us_Files actual"

definition requireAbsent :: "backup_io \<Rightarrow> nat \<Rightarrow> path \<Rightarrow> string + unit" where
  "requireAbsent io n p = (case io_lstat io n p of
      Some True \<Rightarrow> Inl ''refusing to overwrite existing path''
    | Some False \<Rightarrow> Inr ()
    | None \<Rightarrow> Inl ''lstat'')"

text \<open>\<open>filepath.Rel\<close> of absolute paths stays inside the parent exactly when its segments are a prefix.\<close>

definition pathWithin :: "path \<Rightarrow> path \<Rightarrow> bool" where
  "pathWithin p parent \<longleftrightarrow> prefix parent p"

section \<open>Creating\<close>

record source_instance =
  si_dialect :: string
  si_status :: "string + MigrationStatus"
  si_snapshot :: string \<comment> \<open>the file that VACUUM INTO writes\<close>
  si_uploads :: "tree option" \<comment> \<open>None: the directory cannot be read\<close>
  si_uploads_path :: path
  si_build :: "string \<times> string \<times> string"

definition CreateSQLite ::
  "'x runtime_scheme \<Rightarrow> manifest_codec \<Rightarrow> backup_io \<Rightarrow> time \<Rightarrow> source_instance \<Rightarrow> path \<Rightarrow> string \<Rightarrow> string + backup_bundle \<times> Manifest" where
  "CreateSQLite rt mc io now src destination secret =
    rbind (guard (si_dialect src = ''sqlite'') ''sqlite backup requires DB_DRIVER=sqlite'') (\<lambda>_.
    rbind (si_status src) (\<lambda>status.
    rbind (guard (\<not> mst_Dirty status) ''refusing to back up a dirty migration state'') (\<lambda>_.
    rbind (or_err (si_uploads src) ''read uploads directory'') (\<lambda>uploadsDir.
    rbind (requireAbsent io 0 destination) (\<lambda>_.
    rbind (guard (\<not> pathWithin destination (si_uploads_path src)) ''backup destination must not be inside the uploads directory'') (\<lambda>_.
    rbind (step_ok io ''create stage'') (\<lambda>_.
    rbind (step_ok io ''create SQLite online snapshot'') (\<lambda>_.
    rbind (io_inspect io (si_snapshot src)) (\<lambda>(version, dirty).
    rbind (guard (version = mst_Current status \<and> dirty = mst_Dirty status) ''snapshot schema state changed'') (\<lambda>_.
    rbind (copyTree io uploadsDir) (\<lambda>copied.
    rbind (inventoryUploads rt copied) (\<lambda>uploads.
    let (bversion, commit, state) = si_build src;
        manifest = \<lparr> mf_FormatVersion = FormatVersion, mf_CreatedAt = now,
          mf_Source = \<lparr> sm_DatabaseType = ''sqlite'', sm_SchemaVersion = version, sm_SchemaDirty = dirty,
            sm_ApplicationVersion = bversion, sm_Commit = commit, sm_BuildState = state \<rparr>,
          mf_Database = hashFile rt (si_snapshot src) databaseFilename, mf_SecretFingerprint = Fingerprint rt secret, mf_Uploads = uploads \<rparr> in
    rbind (writeManifest mc io manifest) (\<lambda>text.
    rbind (requireAbsent io 1 destination) (\<lambda>_.
    rbind (step_ok io ''commit backup bundle'') (\<lambda>_.
    Inr (BundleDir [(databaseFilename, TopFile (si_snapshot src)), (manifestFilename, TopFile text), (uploadsDirectory, TopDirectory copied)], manifest))))))))))))))))"

section \<open>Verifying\<close>

definition layout_entry_ok :: "string \<times> top_entry \<Rightarrow> bool" where
  "layout_entry_ok e = (case e of (name, t) \<Rightarrow> (case t of
      TopSymlink \<Rightarrow> False
    | TopDirectory _ \<Rightarrow> name = uploadsDirectory
    | _ \<Rightarrow> name = manifestFilename \<or> name = databaseFilename))"

definition validateBundleLayout :: "backup_bundle \<Rightarrow> string + (string \<times> top_entry) list" where
  "validateBundleLayout b = (case b of
      NotADirectory \<Rightarrow> Inl ''backup bundle must be a directory, not a symbolic link''
    | BundleDir entries \<Rightarrow>
        if length entries \<noteq> 3 then Inl ''backup bundle contains unexpected top-level entries''
        else if \<not> list_all layout_entry_ok entries then Inl ''backup bundle has invalid top-level layout''
        else Inr entries)"

definition requireRegularFile :: "string \<Rightarrow> (string \<times> top_entry) list \<Rightarrow> string + string" where
  "requireRegularFile name entries = (case map_of entries name of
      Some (TopFile data) \<Rightarrow> Inr data
    | _ \<Rightarrow> Inl (''expected a regular file: '' @ name))"

definition bundle_uploads :: "(string \<times> top_entry) list \<Rightarrow> string + tree" where
  "bundle_uploads entries = (case map_of entries uploadsDirectory of Some (TopDirectory t) \<Rightarrow> Inr t | _ \<Rightarrow> Inl ''uploads'')"

definition VerifySQLite :: "'x runtime_scheme \<Rightarrow> manifest_codec \<Rightarrow> backup_io \<Rightarrow> backup_bundle \<Rightarrow> string + Manifest" where
  "VerifySQLite rt mc io b =
    rbind (validateBundleLayout b) (\<lambda>entries.
    rbind (requireRegularFile manifestFilename entries) (\<lambda>text.
    rbind (readManifest mc text) (\<lambda>manifest.
    rbind (validateManifest manifest) (\<lambda>_.
    rbind (requireRegularFile databaseFilename entries) (\<lambda>data.
    rbind (guard (hashFile rt data databaseFilename = mf_Database manifest) ''database checksum or size does not match manifest'') (\<lambda>_.
    rbind (io_inspect io data) (\<lambda>(version, dirty).
    rbind (guard (version = sm_SchemaVersion (mf_Source manifest) \<and> dirty = sm_SchemaDirty (mf_Source manifest))
       ''database schema state does not match manifest'') (\<lambda>_.
    rbind (bundle_uploads entries) (\<lambda>t.
    rbind (inventoryUploads rt t) (\<lambda>actual.
    rbind (guard (uploadsEqual (mf_Uploads manifest) actual) ''uploads checksum, size, or file inventory does not match manifest'') (\<lambda>_.
    Inr manifest)))))))))))"

section \<open>Restoring\<close>

text \<open>What the two destinations hold afterwards.\<close>

record restored =
  rs_database :: "string option"
  rs_uploads :: "tree option"

definition nothing_restored :: restored where "nothing_restored = \<lparr> rs_database = None, rs_uploads = None \<rparr>"

text \<open>The checks and the staging; the database and the tree are ready to be moved into place.\<close>

definition stage_restore ::
  "'x runtime_scheme \<Rightarrow> manifest_codec \<Rightarrow> backup_io \<Rightarrow> backup_bundle \<Rightarrow> path \<Rightarrow> path \<Rightarrow> path \<Rightarrow> string \<Rightarrow> string + Manifest \<times> string \<times> tree" where
  "stage_restore rt mc io b bundlePath databaseDestination uploadsDestination secret =
    rbind (VerifySQLite rt mc io b) (\<lambda>manifest.
    rbind (guard (Fingerprint rt secret = mf_SecretFingerprint manifest) ''secret fingerprint mismatch'') (\<lambda>_.
    rbind (guard (\<not> pathWithin databaseDestination uploadsDestination) ''database destination must not be inside uploads destination'') (\<lambda>_.
    rbind (guard (\<not> pathWithin databaseDestination bundlePath \<and> \<not> pathWithin uploadsDestination bundlePath)
       ''restore destinations must not be inside the backup bundle'') (\<lambda>_.
    rbind (requireAbsent io 0 databaseDestination) (\<lambda>_.
    rbind (requireAbsent io 1 uploadsDestination) (\<lambda>_.
    rbind (step_ok io ''create stage'') (\<lambda>_.
    rbind (validateBundleLayout b) (\<lambda>entries.
    rbind (requireRegularFile databaseFilename entries) (\<lambda>data.
    rbind (step_ok io ''copy database'') (\<lambda>_.
    rbind (io_inspect io data) (\<lambda>_.
    rbind (bundle_uploads entries) (\<lambda>t.
    rbind (copyTree io t) (\<lambda>copied.
    rbind (requireAbsent io 2 databaseDestination) (\<lambda>_.
    rbind (requireAbsent io 3 uploadsDestination) (\<lambda>_.
    Inr (manifest, data, copied))))))))))))))))"

text \<open>The two renames; when the second fails the database is removed again.\<close>

definition RestoreSQLite ::
  "'x runtime_scheme \<Rightarrow> manifest_codec \<Rightarrow> backup_io \<Rightarrow> backup_bundle \<Rightarrow> path \<Rightarrow> path \<Rightarrow> path \<Rightarrow> string \<Rightarrow> restored \<times> (string + Manifest)" where
  "RestoreSQLite rt mc io b bundlePath databaseDestination uploadsDestination secret =
    (case stage_restore rt mc io b bundlePath databaseDestination uploadsDestination secret of
       Inl e \<Rightarrow> (nothing_restored, Inl e)
     | Inr (manifest, data, copied) \<Rightarrow>
        if \<not> io_ok io ''commit restored database'' then (nothing_restored, Inl ''commit restored database'')
        else if \<not> io_ok io ''commit restored uploads'' then
          (\<lparr> rs_database = (if io_ok io ''remove database'' then None else Some data), rs_uploads = None \<rparr>, Inl ''commit restored uploads'')
        else (\<lparr> rs_database = Some data, rs_uploads = Some copied \<rparr>, Inr manifest))"

end
