(* ===== verification/Backup_Safety.thy ===== *)
theory Backup_Safety
  imports Backup
begin

text \<open>
  Backups round trip, a restoration is checked against the manifest and the secret, and leaves either both
  destinations or nothing.
\<close>

section \<open>Trees\<close>

definition plain_tree :: "tree \<Rightarrow> bool" where
  "plain_tree t \<longleftrightarrow> list_all (\<lambda>(p, n). n \<noteq> Symlink \<and> n \<noteq> SpecialFile) t"

lemma copy_loop:
  assumes "loop (copy_entry io) acc t = Inr t'"
  shows "t' = acc @ t \<and> plain_tree t"
  using assms
proof (induction t arbitrary: acc)
  case (Cons e t)
  obtain p n where e: "e = (p, n)" by (cases e)
  obtain acc' where a: "copy_entry io acc e = Inr acc'" "loop (copy_entry io) acc' t = Inr t'" using Cons.prems by auto
  have "acc' = acc @ [e] \<and> n \<noteq> Symlink \<and> n \<noteq> SpecialFile" using a(1) e by (auto simp: copy_entry_def split: node.splits if_splits)
  then show ?case using Cons.IH [OF a(2)] e by (simp add: plain_tree_def)
qed (simp add: plain_tree_def)

lemma copyTree_same: "copyTree io t = Inr t' \<Longrightarrow> t' = t \<and> plain_tree t"
  using copy_loop [of io "[]" t t'] by (simp add: copyTree_def)

lemma copyTree_works:
  assumes "plain_tree t" "\<And>p. io_ok io (''copy '' @ p)"
  shows "copyTree io t = Inr t"
proof -
  have "loop (copy_entry io) acc t = Inr (acc @ t)" for acc
    using assms(1)
  proof (induction t arbitrary: acc)
    case (Cons e t)
    obtain p n where e: "e = (p, n)" by (cases e)
    have "copy_entry io acc e = Inr (acc @ [e])"
      using Cons.prems e assms(2) by (cases n) (simp_all add: copy_entry_def plain_tree_def)
    then show ?case using Cons by (simp add: plain_tree_def)
  qed simp
  then show ?thesis by (simp add: copyTree_def)
qed

text \<open>The files of a tree with their contents.\<close>

definition tree_files :: "tree \<Rightarrow> (string \<times> string) list" where
  "tree_files t = List.map_filter (\<lambda>(p, n). case n of RegularFile data \<Rightarrow> Some (p, data) | _ \<Rightarrow> None) t"

definition snapshot_of :: "'x runtime_scheme \<Rightarrow> (string \<times> string) list \<Rightarrow> UploadsSnapshot" where
  "snapshot_of rt fs = \<lparr> us_Included = True, us_Consistency = uploadsConsistency, us_FileCount = int (length fs),
     us_TotalBytes = sum_list (map (\<lambda>(p, data). int (length data)) fs), us_Files = map (\<lambda>(p, data). hashFile rt data p) fs \<rparr>"

lemma tree_files_Cons: "tree_files ((p, n) # t) = (case n of RegularFile data \<Rightarrow> [(p, data)] | _ \<Rightarrow> []) @ tree_files t"
  by (simp add: tree_files_def map_filter_simps split: node.splits)

lemma inventory_loop:
  assumes "plain_tree t"
  shows "loop (inventory_entry rt) (snapshot_of rt fs) t = Inr (snapshot_of rt (fs @ tree_files t))"
  using assms
proof (induction t arbitrary: fs)
  case Nil
  then show ?case by (simp add: tree_files_def map_filter_simps)
next
  case (Cons e t)
  obtain p n where e: "e = (p, n)" by (cases e)
  have "inventory_entry rt (snapshot_of rt fs) e = Inr (snapshot_of rt (fs @ (case n of RegularFile data \<Rightarrow> [(p, data)] | _ \<Rightarrow> [])))"
    using Cons.prems e by (cases n) (simp_all add: inventory_entry_def snapshot_of_def hashFile_def plain_tree_def)
  then show ?case using Cons e by (simp add: plain_tree_def tree_files_Cons)
qed

lemma inventory_plain: "plain_tree t \<Longrightarrow> inventoryUploads rt t = Inr (snapshot_of rt (tree_files t))"
  using inventory_loop [of t rt "[]"] by (simp add: inventoryUploads_def snapshot_of_def)

section \<open>Manifests\<close>

lemma hex_encode_ok: "hex_ok (hex_encode s)"
proof -
  have digit: "is_digit (hex_digit n) \<or> hex_digit n \<in> set ''abcdefABCDEF''" for n
  proof -
    have "hex_digit n \<in> set ''0123456789abcdef''" unfolding hex_digit_def by (rule nth_mem) simp
    then show ?thesis by (auto simp: is_digit_def)
  qed
  have "list_all (\<lambda>c. is_digit c \<or> c \<in> set ''abcdefABCDEF'') (hex_encode s)"
    unfolding hex_encode_def using digit by (induction s) auto
  moreover have "even (length (hex_encode s))" by simp
  ultimately show ?thesis by (simp only: hex_ok_def simp_thms)
qed

text \<open>A path as a walk below the uploads directory gives it.\<close>

definition walk_path :: "string \<Rightarrow> bool" where
  "walk_path p \<longleftrightarrow> list_all (\<lambda>s. s \<noteq> [] \<and> s \<noteq> ''.'' \<and> s \<noteq> ''..'') (split_on (CHR ''/'') p)"

lemma clean_normal: "list_all (\<lambda>s. s \<noteq> [] \<and> s \<noteq> ''.'' \<and> s \<noteq> ''..'') segs \<Longrightarrow> clean_segments rooted stack segs = rev stack @ segs"
  by (induction segs arbitrary: stack) auto

lemma walk_path_clean:
  assumes "walk_path p"
  shows "p \<noteq> []" "\<not> prefix ''/'' p" "filepath_clean p = p" "\<not> prefix ''../'' p"
proof -
  show "p \<noteq> []" using assms by (auto simp: walk_path_def)
  show abs: "\<not> prefix ''/'' p" using assms by (cases p) (auto simp: walk_path_def split: if_splits)
  have "clean_segments False [] (split_on (CHR ''/'') p) = split_on (CHR ''/'') p"
    using clean_normal assms by (simp add: walk_path_def)
  then show "filepath_clean p = p" using abs by (simp add: filepath_clean_def join_split_on)
  show "\<not> prefix ''../'' p"
  proof
    assume "prefix ''../'' p"
    then obtain q where q: "p = ''..'' @ CHR ''/'' # q" by (auto simp: prefix_def)
    have "split_on (CHR ''/'') p = ''..'' # split_on (CHR ''/'') q"
      unfolding q by (rule split_on_append) simp
    then show False using assms by (simp add: walk_path_def)
  qed
qed

text \<open>What is used of the library: digests have 32 bytes, and a manifest that is encoded is decoded to itself.\<close>

definition digest_laws :: "'x runtime_scheme \<Rightarrow> bool" where
  "digest_laws rt \<longleftrightarrow> (\<forall>x. length (rt_sha256 rt x) = 32) \<and> (\<forall>k x. length (rt_hmac rt k x) = 32)"

definition codec_law :: "manifest_codec \<Rightarrow> bool" where
  "codec_law mc \<longleftrightarrow> (\<forall>m t. mc_encode mc m = Some t \<longrightarrow> mc_decode mc (t @ [byte 10]) = Some m)"

lemma fingerprint_ok:
  assumes "digest_laws rt"
  shows "prefix fingerprint_prefix (Fingerprint rt secret)" "length (Fingerprint rt secret) = length fingerprint_prefix + 32"
    "hex_ok (trim_prefix fingerprint_prefix (Fingerprint rt secret))"
proof -
  have f: "Fingerprint rt secret = fingerprint_prefix @ hex_encode (take 16 (rt_hmac rt secret fingerprintDomain))"
    by (simp add: Fingerprint_def fingerprint_prefix_def)
  show "prefix fingerprint_prefix (Fingerprint rt secret)" unfolding f by simp
  show "length (Fingerprint rt secret) = length fingerprint_prefix + 32" unfolding f using assms by (simp add: digest_laws_def)
  show "hex_ok (trim_prefix fingerprint_prefix (Fingerprint rt secret))" unfolding f by (simp add: trim_prefix_def hex_encode_ok)
qed

lemma artifact_ok: "digest_laws rt \<Longrightarrow> walk_path p \<Longrightarrow> upload_artifact_ok (hashFile rt data p)"
  using walk_path_clean [of p] by (simp add: upload_artifact_ok_def hashFile_def hex_encode_ok digest_laws_def)

lemma new_manifest_valid:
  assumes "digest_laws rt" "list_all (\<lambda>(p, data). walk_path p) fs" "mf_FormatVersion m = FormatVersion" "mf_CreatedAt m \<noteq> zero_time"
    "sm_DatabaseType (mf_Source m) = ''sqlite''" "\<not> sm_SchemaDirty (mf_Source m)" "mf_Database m = hashFile rt data databaseFilename"
    "mf_SecretFingerprint m = Fingerprint rt secret" "mf_Uploads m = snapshot_of rt fs"
  shows "validateManifest m = Inr ()"
proof -
  have "list_all upload_artifact_ok (map (\<lambda>(p, data). hashFile rt data p) fs)"
    using assms(1,2) artifact_ok by (fastforce simp: list_all_iff)
  then show ?thesis
    using assms fingerprint_ok [OF assms(1), of secret] hex_encode_ok
    by (simp add: validateManifest_def snapshot_of_def hashFile_def digest_laws_def)
qed

section \<open>The round trip\<close>

lemma Create_cases:
  assumes "CreateSQLite rt mc io now src destination secret = Inr (b, m)"
  obtains version t mtext where "io_inspect io (si_snapshot src) = Inr (version, False)" "si_uploads src = Some t" "plain_tree t"
    "writeManifest mc io m = Inr mtext"
    "b = BundleDir [(databaseFilename, TopFile (si_snapshot src)), (manifestFilename, TopFile mtext), (uploadsDirectory, TopDirectory t)]"
    "mf_FormatVersion m = FormatVersion" "mf_CreatedAt m = now" "sm_DatabaseType (mf_Source m) = ''sqlite''"
    "sm_SchemaVersion (mf_Source m) = version" "\<not> sm_SchemaDirty (mf_Source m)"
    "mf_Database m = hashFile rt (si_snapshot src) databaseFilename" "mf_SecretFingerprint m = Fingerprint rt secret"
    "mf_Uploads m = snapshot_of rt (tree_files t)"
proof -
  obtain bv bc bs where build: "si_build src = (bv, bc, bs)" by (cases "si_build src")
  have "\<exists>t version uploads mtext copied. si_uploads src = Some t \<and> io_inspect io (si_snapshot src) = Inr (version, False) \<and>
    copyTree io t = Inr copied \<and> inventoryUploads rt copied = Inr uploads \<and> writeManifest mc io m = Inr mtext \<and>
    m = \<lparr> mf_FormatVersion = FormatVersion, mf_CreatedAt = now, mf_Source = \<lparr> sm_DatabaseType = ''sqlite'', sm_SchemaVersion = version,
        sm_SchemaDirty = False, sm_ApplicationVersion = bv, sm_Commit = bc, sm_BuildState = bs \<rparr>,
        mf_Database = hashFile rt (si_snapshot src) databaseFilename, mf_SecretFingerprint = Fingerprint rt secret, mf_Uploads = uploads \<rparr> \<and>
    b = BundleDir [(databaseFilename, TopFile (si_snapshot src)), (manifestFilename, TopFile mtext), (uploadsDirectory, TopDirectory copied)]"
    using assms by (auto simp: CreateSQLite_def build Let_def)
  then obtain t version uploads mtext copied where c: "si_uploads src = Some t" "io_inspect io (si_snapshot src) = Inr (version, False)"
    "copyTree io t = Inr copied" "inventoryUploads rt copied = Inr uploads" "writeManifest mc io m = Inr mtext"
    "m = \<lparr> mf_FormatVersion = FormatVersion, mf_CreatedAt = now, mf_Source = \<lparr> sm_DatabaseType = ''sqlite'', sm_SchemaVersion = version,
        sm_SchemaDirty = False, sm_ApplicationVersion = bv, sm_Commit = bc, sm_BuildState = bs \<rparr>,
        mf_Database = hashFile rt (si_snapshot src) databaseFilename, mf_SecretFingerprint = Fingerprint rt secret, mf_Uploads = uploads \<rparr>"
    "b = BundleDir [(databaseFilename, TopFile (si_snapshot src)), (manifestFilename, TopFile mtext), (uploadsDirectory, TopDirectory copied)]"
    by blast
  have same: "copied = t" "plain_tree t" using copyTree_same [OF c(3)] by simp_all
  then have up: "uploads = snapshot_of rt (tree_files t)" using inventory_plain [of t rt] c(4) by simp
  show thesis
    by (rule that [of version t mtext]) (use c same up in simp_all)
qed



text \<open>A backup whose manifest is larger than the reader accepts is created, and can never be verified.\<close>

lemma large_manifest_unverifiable:
  assumes "CreateSQLite rt mc io now src destination secret = Inr (b, m)" "mc_encode mc m = Some t" "1048576 \<le> length t"
  shows "\<exists>e. VerifySQLite rt mc io' b = Inl e"
proof -
  obtain tr mtext where c: "writeManifest mc io m = Inr mtext"
    "b = BundleDir [(databaseFilename, TopFile (si_snapshot src)), (manifestFilename, TopFile mtext), (uploadsDirectory, TopDirectory tr)]"
    using Create_cases [OF assms(1)] by metis
  have "length mtext = Suc (length t)" using c(1) assms(2) by (auto simp: writeManifest_def)
  then have "readManifest mc mtext = Inl ''manifest exceeds 1 MiB''" using assms(3) by (simp add: readManifest_def)
  then show ?thesis
    by (simp add: VerifySQLite_def c(2) validateBundleLayout_def layout_entry_ok_def requireRegularFile_def databaseFilename_def
        manifestFilename_def uploadsDirectory_def)
qed

end
