(* ===== verification/Data_Export.thy ===== *)
theory Data_Export
  imports Notification Webhook Invitation_Store
begin

text \<open>
  The export of an organizer's data (\<open>ExportOrganizerData\<close> of \<open>internal/auth/store.go\<close> and its route in
  \<open>internal/auth/handler.go\<close>), over the tables of all components. A row is exported with all its columns.
\<close>

section \<open>The tables and the document\<close>

record all_tables =
  at_identity :: idb
  at_invitations :: db
  at_webhooks :: wdb
  at_reminders :: reminders
  at_notifications :: ndb

record ExportDocument =
  xd_ExportedAt :: time
  xd_Organizer :: User
  xd_Events :: "event_row list"
  xd_Series :: "EventSeries list"
  xd_Invitations :: "invitation_row list"
  xd_Guests :: "guest_row list"
  xd_Responses :: "Response list"
  xd_GuestResponses :: "guest_response_row list"
  xd_Questions :: "question_row list"
  xd_InvitationAnswers :: "invitation_answer_row list"
  xd_GuestAnswers :: "guest_answer_row list"
  xd_Messages :: "InvitationMessage list"
  xd_Webhooks :: "Webhook list"
  xd_Reminders :: "Reminder list"
  xd_InviteCards :: "invite_card_row list"
  xd_NotificationLog :: "LogEntry list"

section \<open>The queries\<close>

definition organizerEventIDs :: "id \<Rightarrow> idb \<Rightarrow> id list" where
  "organizerEventIDs organizerID d = map mb_event_id (filter (\<lambda>m. mb_user_id m = organizerID \<and> mb_role m = ''owner'') (id_memberships d))"

definition eventInvitationIDs :: "id list \<Rightarrow> db \<Rightarrow> id list" where
  "eventInvitationIDs eventIDs d = map inv_ID (filter (\<lambda>r. inv_EventID r \<in> set eventIDs) (db_invitations d))"

text \<open>The clause with its placeholders, and the arguments, one for each.\<close>

fun placeholders :: "'a list \<Rightarrow> string" where
  "placeholders [] = []"
| "placeholders [x] = ''?''"
| "placeholders (x # y # xs) = ''?,'' @ placeholders (y # xs)"

definition inClause :: "id list \<Rightarrow> string \<times> id list" where
  "inClause ids = (''('' @ placeholders ids @ '')'', ids)"

text \<open>\<open>SELECT * FROM t WHERE k IN (...)\<close> with the clause of the identifiers.\<close>

definition queryRows :: "('r \<Rightarrow> id) \<Rightarrow> string \<times> id list \<Rightarrow> 'r list \<Rightarrow> 'r list" where
  "queryRows k clause rows = filter (\<lambda>r. k r \<in> set (snd clause)) rows"

definition exported_guests :: "string \<times> id list \<Rightarrow> db \<Rightarrow> id list" where
  "exported_guests clause d = map g_id (filter (\<lambda>g. g_invitation_id g \<in> set (snd clause)) (db_guests d))"

definition empty_document :: "time \<Rightarrow> User \<Rightarrow> ExportDocument" where
  "empty_document now u = \<lparr> xd_ExportedAt = now, xd_Organizer = u, xd_Events = [], xd_Series = [], xd_Invitations = [], xd_Guests = [],
     xd_Responses = [], xd_GuestResponses = [], xd_Questions = [], xd_InvitationAnswers = [], xd_GuestAnswers = [], xd_Messages = [],
     xd_Webhooks = [], xd_Reminders = [], xd_InviteCards = [], xd_NotificationLog = [] \<rparr>"

definition export_event_children :: "id list \<Rightarrow> all_tables \<Rightarrow> ExportDocument \<Rightarrow> ExportDocument" where
  "export_event_children eventIDs t doc = (let c = inClause eventIDs; d = at_invitations t in doc\<lparr>
     xd_Invitations := queryRows inv_EventID c (db_invitations d), xd_Questions := queryRows qr_event_id c (db_questions d),
     xd_Messages := queryRows msg_EventID c (db_messages d), xd_Webhooks := queryRows wh_EventID c (wd_webhooks (at_webhooks t)),
     xd_Reminders := queryRows rm_EventID c (at_reminders t), xd_InviteCards := queryRows ic_event_id c (db_cards d),
     xd_NotificationLog := queryRows le_EventID c (nd_log (at_notifications t))\<rparr>)"

definition export_invitation_children :: "id list \<Rightarrow> all_tables \<Rightarrow> ExportDocument \<Rightarrow> ExportDocument" where
  "export_invitation_children invitationIDs t doc = (let c = inClause invitationIDs; d = at_invitations t; g = exported_guests c d in doc\<lparr>
     xd_Guests := queryRows g_invitation_id c (db_guests d), xd_Responses := queryRows resp_InvitationID c (db_responses d),
     xd_InvitationAnswers := queryRows ia_invitation_id c (db_invitation_answers d),
     xd_GuestResponses := filter (\<lambda>r. gr_guest_id r \<in> set g) (db_guest_responses d),
     xd_GuestAnswers := filter (\<lambda>r. gar_guest_id r \<in> set g) (db_guest_answers d)\<rparr>)"

text \<open>The document with the events and the series, before the tables below the events.\<close>

definition export_base :: "time \<Rightarrow> User \<Rightarrow> id \<Rightarrow> all_tables \<Rightarrow> ExportDocument" where
  "export_base now u organizerID t = (empty_document (trunc_sec now) u)\<lparr>
     xd_Events := order_by (\<lambda>a b. e_CreatedAt a < e_CreatedAt b)
       (filter (\<lambda>e. e_ID e \<in> set (organizerEventIDs organizerID (at_identity t))) (id_events (at_identity t))),
     xd_Series := order_by (\<lambda>a b. es_CreatedAt a < es_CreatedAt b) (filter (\<lambda>s. es_OrganizerID s = organizerID) (id_series (at_identity t)))\<rparr>"

definition ExportOrganizerData :: "time \<Rightarrow> id \<Rightarrow> all_tables \<Rightarrow> string + ExportDocument" where
  "ExportOrganizerData now organizerID t =
    (case FindOrganizerByID organizerID (at_identity t) of
       None \<Rightarrow> Inl ''no rows''
     | Some u \<Rightarrow>
        (let eventIDs = organizerEventIDs organizerID (at_identity t); doc = export_base now u organizerID t in
         Inr (if eventIDs = [] then doc
              else let doc = export_event_children eventIDs t doc; invitationIDs = eventInvitationIDs eventIDs (at_invitations t) in
                if invitationIDs = [] then doc else export_invitation_children invitationIDs t doc)))"

datatype export_response = ExportFile ExportDocument | ExportError nat string

text \<open>The route: the organizer of the session exports their own data.\<close>

definition handleExportMe :: "time \<Rightarrow> string \<Rightarrow> User option \<Rightarrow> all_tables \<Rightarrow> export_response" where
  "handleExportMe now ref organizer t = (case organizer of
      None \<Rightarrow> ExportError 401 ''unauthorized''
    | Some u \<Rightarrow> (case ExportOrganizerData now (u_ID u) t of
         Inl _ \<Rightarrow> ExportError 500 (''an internal error occurred (ref: '' @ ref @ '')'')
       | Inr doc \<Rightarrow> ExportFile doc))"

section \<open>What is exported\<close>

lemma set_insert_by [simp]: "set (insert_by lt x xs) = insert x (set xs)"
  by (induction xs) auto

lemma set_order_by_export: "set (order_by lt xs) = set xs"
  by (induction xs) auto

definition owns :: "id \<Rightarrow> id \<Rightarrow> all_tables \<Rightarrow> bool" where
  "owns organizerID eventID t \<longleftrightarrow> eventID \<in> set (organizerEventIDs organizerID (at_identity t))"

definition invitation_owned :: "id \<Rightarrow> id \<Rightarrow> all_tables \<Rightarrow> bool" where
  "invitation_owned organizerID invitationID t \<longleftrightarrow> (\<exists>r \<in> set (db_invitations (at_invitations t)). inv_ID r = invitationID \<and> owns organizerID (inv_EventID r) t)"

definition guest_owned :: "id \<Rightarrow> id \<Rightarrow> all_tables \<Rightarrow> bool" where
  "guest_owned organizerID guestID t \<longleftrightarrow> (\<exists>g \<in> set (db_guests (at_invitations t)). g_id g = guestID \<and> invitation_owned organizerID (g_invitation_id g) t)"

lemma in_invitation_ids: "i \<in> set (eventInvitationIDs (organizerEventIDs o' (at_identity t)) (at_invitations t)) \<longleftrightarrow> invitation_owned o' i t"
  by (auto simp: eventInvitationIDs_def invitation_owned_def owns_def)

lemma no_events_no_invitations: "organizerEventIDs o' (at_identity t) = [] \<Longrightarrow> \<not> invitation_owned o' i t"
  by (simp add: invitation_owned_def owns_def)


text \<open>The clause has as many placeholders as arguments.\<close>

lemma inClause_arity: "length (filter (\<lambda>c. c = CHR ''?'') (fst (inClause ids))) = length (snd (inClause ids))"
proof -
  have "length (filter (\<lambda>c. c = CHR ''?'') (placeholders ids)) = length ids" for ids :: "id list"
    by (induction ids rule: placeholders.induct) auto
  then show ?thesis by (simp add: inClause_def)
qed

end
