(* ===== verification/Providers.thy ===== *)
theory Providers
  imports Notification Configuration
begin

text \<open>
  The delivery providers (\<open>internal/notification/email\<close>, \<open>internal/notification/sms\<close>): the mail that the
  SMTP provider composes, the requests of the others, and how their answers are read. Encoders of Go's mime
  packages, the address parser and the answers of the servers are parameters.
\<close>

definition mail_crlf :: string where "mail_crlf = [byte 13, byte 10]"

definition has_crlf :: "string \<Rightarrow> bool" where
  "has_crlf s \<longleftrightarrow> byte 13 \<in> set s \<or> byte 10 \<in> set s"

definition stripCRLF :: "string \<Rightarrow> string" where
  "stripCRLF s = (if \<not> contains_any [byte 13, byte 10] s then s else filter (\<lambda>c. c \<noteq> byte 13 \<and> c \<noteq> byte 10) s)"

section \<open>SMTP\<close>

record mail_lib =
  ml_parse :: "string \<Rightarrow> (string \<times> string \<times> string) option" \<comment> \<open>mail.ParseAddress: name, address and String()\<close>
  ml_qword :: "string \<Rightarrow> string" \<comment> \<open>mime.QEncoding.Encode with utf-8\<close>
  ml_qprint :: "string \<Rightarrow> string" \<comment> \<open>quotedprintable.Writer\<close>
  ml_base64 :: "string \<Rightarrow> string" \<comment> \<open>base64.StdEncoding\<close>
  ml_date :: "time \<Rightarrow> string" \<comment> \<open>Format(time.RFC1123Z)\<close>

record smtp_provider =
  sp_host :: string
  sp_port :: string
  sp_username :: string
  sp_password :: string
  sp_from :: string

definition parseFromAddress :: "mail_lib \<Rightarrow> string \<Rightarrow> string + string \<times> string" where
  "parseFromAddress ml raw = (let raw = stripCRLF (trim_space raw) in
     if raw = [] then Inl ''SMTP from address is empty''
     else case ml_parse ml raw of
       None \<Rightarrow> Inl ''parse SMTP from address''
     | Some (name, address, full) \<Rightarrow> Inr (if name = [] then (address, address) else (full, address)))"

definition line :: "string \<Rightarrow> string" where "line s = s @ mail_crlf"

definition quoted :: "string \<Rightarrow> string" where "quoted s = [byte 34] @ s @ [byte 34]"

definition alternative_part :: "mail_lib \<Rightarrow> string \<Rightarrow> string \<Rightarrow> string \<Rightarrow> string" where
  "alternative_part ml boundary kind content =
    line (''--'' @ boundary) @ line (''Content-Type: '' @ kind @ ''; charset='' @ quoted ''utf-8'') @
    line ''Content-Transfer-Encoding: quoted-printable'' @ mail_crlf @ ml_qprint ml content @ mail_crlf"

definition writeAlternativeParts :: "mail_lib \<Rightarrow> Message \<Rightarrow> string \<Rightarrow> string" where
  "writeAlternativeParts ml msg boundary = (let plain = (if ms_Plain msg = [] then ms_Body msg else ms_Plain msg) in
     alternative_part ml boundary ''text/plain'' plain @
     (if ms_Body msg \<noteq> [] \<and> ms_Body msg \<noteq> plain then alternative_part ml boundary ''text/html'' (ms_Body msg) else []))"

text \<open>The lines of 76 characters of an attachment.\<close>

function wrap76 :: "string \<Rightarrow> string" where
  "wrap76 s = (if s = [] then [] else line (take 76 s) @ wrap76 (drop 76 s))"
  by pat_completeness auto
termination
  by (relation "measure length") auto

declare wrap76.simps [simp del]

definition attachment_part :: "mail_lib \<Rightarrow> string \<Rightarrow> string \<times> string \<times> string \<Rightarrow> string" where
  "attachment_part ml boundary att = (case att of (filename, contentType, data) \<Rightarrow>
    line (''--'' @ boundary) @ line (''Content-Type: '' @ contentType @ ''; name='' @ quoted filename) @
    line ''Content-Transfer-Encoding: base64'' @ line (''Content-Disposition: attachment; filename='' @ quoted filename) @ mail_crlf @
    wrap76 (ml_base64 ml data))"

definition alt_boundary :: "time \<Rightarrow> string" where "alt_boundary now = ''==OwlInvites-alt=='' @ itoa now @ ''==''"
definition mix_boundary :: "time \<Rightarrow> string" where "mix_boundary now = ''==OwlInvites-mix=='' @ itoa now @ ''==''"

text \<open>The body below the headers, with the value of its content type.\<close>

definition mail_body :: "mail_lib \<Rightarrow> time \<Rightarrow> time \<Rightarrow> Message \<Rightarrow> string \<times> string" where
  "mail_body ml t1 t2 msg = (let alt = alt_boundary t1; mixed = mix_boundary t2;
     alternative = writeAlternativeParts ml msg alt @ line (''--'' @ alt @ ''--'') in
     if ms_Attachments msg \<noteq> [] then
       (''multipart/mixed; boundary='' @ quoted mixed,
        line (''--'' @ mixed) @ line (''Content-Type: multipart/alternative; boundary='' @ quoted alt) @ mail_crlf @ alternative @
        concat (map (attachment_part ml mixed) (ms_Attachments msg)) @ line (''--'' @ mixed @ ''--''))
     else (''multipart/alternative; boundary='' @ quoted alt, alternative))"

definition mail_headers :: "mail_lib \<Rightarrow> time \<Rightarrow> string \<Rightarrow> Message \<Rightarrow> string \<Rightarrow> string list" where
  "mail_headers ml now fromHeader msg contentType =
    [''From: '' @ fromHeader, ''To: '' @ stripCRLF (ms_To msg), ''Subject: '' @ ml_qword ml (stripCRLF (ms_Subject msg)),
     ''MIME-Version: 1.0'', ''Date: '' @ ml_date ml now, ''Content-Type: '' @ contentType]"

text \<open>What is handed to \<open>smtp.SendMail\<close>: the server, the credentials, the envelope and the text.\<close>

record smtp_call =
  sc_addr :: string
  sc_auth :: "(string \<times> string) option"
  sc_from :: string
  sc_to :: "string list"
  sc_data :: string

definition smtp_compose :: "mail_lib \<Rightarrow> (nat \<Rightarrow> time) \<Rightarrow> smtp_provider \<Rightarrow> Message \<Rightarrow> string + smtp_call" where
  "smtp_compose ml clk p msg = rbind (parseFromAddress ml (sp_from p)) (\<lambda>(fromHeader, envelopeFrom).
     let (contentType, body) = mail_body ml (clk 1) (clk 2) msg in
     Inr \<lparr> sc_addr = join_host_port (sp_host p) (sp_port p),
       sc_auth = (if sp_username p \<noteq> [] \<and> sp_password p \<noteq> [] then Some (sp_username p, sp_password p) else None),
       sc_from = envelopeFrom, sc_to = [ms_To msg],
       sc_data = concat (map line (mail_headers ml (clk 0) fromHeader msg contentType)) @ mail_crlf @ body \<rparr>)"

definition smtp_send :: "mail_lib \<Rightarrow> (nat \<Rightarrow> time) \<Rightarrow> (smtp_call \<Rightarrow> bool) \<Rightarrow> smtp_provider \<Rightarrow> Message \<Rightarrow> string + string option" where
  "smtp_send ml clk server p msg = rbind (smtp_compose ml clk p msg) (\<lambda>c. if server c then Inr (Some []) else Inl ''smtp send'')"

definition NewSESProvider :: "string \<Rightarrow> string \<Rightarrow> string \<Rightarrow> string \<Rightarrow> smtp_provider" where
  "NewSESProvider region username password sender =
    \<lparr> sp_host = ''email-smtp.'' @ region @ ''.amazonaws.com'', sp_port = ''587'', sp_username = username, sp_password = password, sp_from = sender \<rparr>"

section \<open>The other providers\<close>

text \<open>The answer to a request: an error, or the status with what the code reads of the response.\<close>

datatype 'a http_answer = RequestFailed | Answered nat 'a

definition success_status :: "nat \<Rightarrow> bool" where "success_status n \<longleftrightarrow> 200 \<le> n \<and> n < 300"

record sendgrid_request =
  sg_to :: string
  sg_from :: string
  sg_subject :: string
  sg_content :: "(string \<times> string) list"
  sg_attachments :: "(string \<times> string \<times> string) list"

definition sendgrid_content :: "Message \<Rightarrow> (string \<times> string) list" where
  "sendgrid_content msg = (let plain = (if ms_Plain msg = [] then ms_Body msg else ms_Plain msg);
     content = (if plain \<noteq> [] then [(''text/plain'', plain)] else []) @
       (if ms_Body msg \<noteq> [] \<and> ms_Body msg \<noteq> plain then [(''text/html'', ms_Body msg)] else []) in
     if content = [] then [(''text/plain'', [])] else content)"

definition sendgrid_send :: "mail_lib \<Rightarrow> string \<Rightarrow> (sendgrid_request \<Rightarrow> string http_answer) \<Rightarrow> Message \<Rightarrow> string + string option" where
  "sendgrid_send ml sender api msg =
    (case api \<lparr> sg_to = ms_To msg, sg_from = sender, sg_subject = ms_Subject msg, sg_content = sendgrid_content msg,
        sg_attachments = map (\<lambda>(filename, contentType, data). (ml_base64 ml data, contentType, filename)) (ms_Attachments msg) \<rparr> of
       RequestFailed \<Rightarrow> Inl ''sendgrid request''
     | Answered status messageID \<Rightarrow> if \<not> success_status status then Inl ''sendgrid api error'' else Inr (Some messageID))"

definition sendgrid_health :: "string \<Rightarrow> string + unit" where
  "sendgrid_health apiKey =
    rbind (guard (apiKey \<noteq> []) ''sendgrid health check: api key is empty'') (\<lambda>_.
    rbind (guard (prefix ''SG.'' apiKey) ''sendgrid health check: api key does not start with SG.'') (\<lambda>_.
    guard (20 \<le> length apiKey) ''sendgrid health check: api key appears too short''))"

text \<open>Twilio: the form of the request, and the sid of the answer when it can be decoded.\<close>

definition twilio_send :: "chosen_provider \<Rightarrow> (string \<Rightarrow> (string \<times> string) list \<Rightarrow> string option http_answer) \<Rightarrow> Message \<Rightarrow> string + string option" where
  "twilio_send p api msg = (case p of
      TwilioProvider accountSID authToken fromNumber \<Rightarrow>
        (case api (''https://api.twilio.com/2010-04-01/Accounts/'' @ accountSID @ ''/Messages.json'')
            [(''To'', ms_To msg), (''From'', fromNumber), (''Body'', ms_Body msg)] of
           RequestFailed \<Rightarrow> Inl ''twilio request''
         | Answered status sid \<Rightarrow>
             if \<not> success_status status then Inl ''twilio api error''
             else Inr (Some (case sid of Some i \<Rightarrow> i | None \<Rightarrow> [])))
    | _ \<Rightarrow> Inl ''not twilio'')"

record vonageMessage =
  vm_Status :: string
  vm_MessageID :: string
  vm_ErrorText :: string

text \<open>The loop over the parts of a Vonage answer: the first that is not accepted is the error, the last identifier the result.\<close>

definition vonage_part :: "string \<Rightarrow> vonageMessage \<Rightarrow> string + string" where
  "vonage_part messageID m =
    (if vm_Status m \<noteq> ''0'' then Inl (''vonage message error (status '' @ vm_Status m @ ''): '' @ vm_ErrorText m)
     else Inr (if vm_MessageID m \<noteq> [] then vm_MessageID m else messageID))"

definition vonage_send :: "chosen_provider \<Rightarrow> (string list \<Rightarrow> vonageMessage list option http_answer) \<Rightarrow> Message \<Rightarrow> string + string option" where
  "vonage_send p api msg = (case p of
      VonageProvider apiKey apiSecret sender \<Rightarrow>
        (case api [apiKey, apiSecret, ms_To msg, sender, ms_Body msg] of
           RequestFailed \<Rightarrow> Inl ''vonage request''
         | Answered status reply \<Rightarrow>
             if \<not> success_status status then Inl ''vonage api error''
             else case reply of
               None \<Rightarrow> Inl ''vonage decode response''
             | Some parts \<Rightarrow> map_sum id Some (loop vonage_part [] parts))
    | _ \<Rightarrow> Inl ''not vonage'')"

text \<open>SNS through its client library: an error, or the identifier if the answer has one.\<close>

definition sns_send :: "(string \<times> string \<Rightarrow> string + string option) \<Rightarrow> Message \<Rightarrow> string + string option" where
  "sns_send publish msg = rbind (publish (ms_To msg, ms_Body msg)) (\<lambda>i. Inr (Some (case i of Some x \<Rightarrow> x | None \<Rightarrow> [])))"

text \<open>\<open>SendBatch\<close> of every provider: one message after the other.\<close>

definition send_each :: "(Message \<Rightarrow> string + string option) \<Rightarrow> Message list \<Rightarrow> (string + string option) list" where
  "send_each f msgs = map f msgs"

section \<open>Headers\<close>

lemma strip_no_crlf [simp]: "\<not> has_crlf (stripCRLF s)"
  by (auto simp: has_crlf_def stripCRLF_def contains_any_def list_ex_iff)

lemma stripCRLF_plain: "\<not> has_crlf s \<Longrightarrow> stripCRLF s = s"
  by (auto simp: has_crlf_def stripCRLF_def contains_any_def list_ex_iff)

lemma has_crlf_append [simp]: "has_crlf (a @ b) \<longleftrightarrow> has_crlf a \<or> has_crlf b"
  by (auto simp: has_crlf_def)

text \<open>What is used of the encoders: they add no line breaks to a text without them.\<close>

definition mail_laws :: "mail_lib \<Rightarrow> bool" where
  "mail_laws ml \<longleftrightarrow> (\<forall>s. \<not> has_crlf s \<longrightarrow> \<not> has_crlf (ml_qword ml s)) \<and> (\<forall>t. \<not> has_crlf (ml_date ml t)) \<and>
    (\<forall>s name address full. \<not> has_crlf s \<longrightarrow> ml_parse ml s = Some (name, address, full) \<longrightarrow> \<not> has_crlf address \<and> \<not> has_crlf full)"

lemma parseFromAddress_clean:
  assumes "mail_laws ml" "parseFromAddress ml raw = Inr (h, e)"
  shows "\<not> has_crlf h \<and> \<not> has_crlf e"
proof -
  let ?r = "stripCRLF (trim_space raw)"
  obtain name address full where p: "ml_parse ml ?r = Some (name, address, full)" "(h, e) = (if name = [] then (address, address) else (full, address))"
    using assms(2) by (auto simp: parseFromAddress_def Let_def split: if_splits option.splits)
  have "\<not> has_crlf address \<and> \<not> has_crlf full" using assms(1) p(1) strip_no_crlf [of "trim_space raw"] unfolding mail_laws_def by blast
  then show ?thesis using p(2) by (cases "name = []") auto
qed

lemma literals_clean:
  "\<not> has_crlf ''From: ''" "\<not> has_crlf ''To: ''" "\<not> has_crlf ''Subject: ''" "\<not> has_crlf ''MIME-Version: 1.0''" "\<not> has_crlf ''Date: ''"
  "\<not> has_crlf ''Content-Type: ''" "\<not> has_crlf ''multipart/mixed; boundary=''" "\<not> has_crlf ''multipart/alternative; boundary=''"
  "\<not> has_crlf ''==OwlInvites-alt==''" "\<not> has_crlf ''==OwlInvites-mix==''" "\<not> has_crlf ''==''" "\<not> has_crlf [byte 34]"
  by (simp_all add: has_crlf_def byte_def char_of_eq_iff)

lemma itoa_clean: "\<not> has_crlf (itoa n)"
proof -
  have "c \<noteq> byte 13 \<and> c \<noteq> byte 10" if c: "c \<in> set (itoa n)" for c
  proof -
    have "is_digit c \<or> c = CHR ''-''" using c nat_digits_digits by (auto simp: itoa_def list_all_iff split: if_splits)
    moreover have "\<not> is_digit (byte 13)" "\<not> is_digit (byte 10)" "byte 13 \<noteq> CHR ''-''" "byte 10 \<noteq> CHR ''-''"
      by (simp_all add: is_digit_def byte_def char_of_eq_iff)
    ultimately show ?thesis by metis
  qed
  then show ?thesis by (auto simp: has_crlf_def)
qed

lemma content_type_clean: "\<not> has_crlf (fst (mail_body ml t1 t2 msg))"
proof -
  have "\<not> has_crlf (''multipart/mixed; boundary='' @ quoted (mix_boundary t2))" "\<not> has_crlf (''multipart/alternative; boundary='' @ quoted (alt_boundary t1))"
    unfolding quoted_def mix_boundary_def alt_boundary_def has_crlf_append using literals_clean itoa_clean by blast+
  then show ?thesis unfolding mail_body_def Let_def by (simp only: fst_conv split: if_split) blast
qed

text \<open>
  C39: nobody can add headers to an email. Whatever recipient and subject a message has, line breaks
  included, the text given to the server begins with exactly six header lines, none of which has a line
  break inside, then an empty line, and then the body; there is one envelope recipient, the sender of the
  envelope has no line break, and credentials are used only when both are configured.
\<close>

theorem mail_headers_fixed:
  assumes "mail_laws ml" "smtp_compose ml clk p msg = Inr c"
  shows "\<exists>h1 h2 h3 h4 h5 h6 body. sc_data c = concat (map line [h1, h2, h3, h4, h5, h6]) @ mail_crlf @ body \<and>
    list_all (\<lambda>h. \<not> has_crlf h) [h1, h2, h3, h4, h5, h6] \<and> prefix ''From: '' h1 \<and> h2 = ''To: '' @ stripCRLF (ms_To msg) \<and>
    prefix ''Subject: '' h3 \<and> h4 = ''MIME-Version: 1.0'' \<and> prefix ''Date: '' h5 \<and> prefix ''Content-Type: multipart/'' h6 \<and>
    sc_to c = [ms_To msg] \<and> \<not> has_crlf (sc_from c) \<and> (sc_auth c \<noteq> None \<longrightarrow> sp_username p \<noteq> [] \<and> sp_password p \<noteq> [])"
proof -
  obtain h e where from_addr: "parseFromAddress ml (sp_from p) = Inr (h, e)"
    using assms(2) by (auto simp: smtp_compose_def)
  obtain ct body where mb: "mail_body ml (clk 1) (clk 2) msg = (ct, body)" by fastforce
  have c: "c = \<lparr> sc_addr = join_host_port (sp_host p) (sp_port p),
      sc_auth = (if sp_username p \<noteq> [] \<and> sp_password p \<noteq> [] then Some (sp_username p, sp_password p) else None),
      sc_from = e, sc_to = [ms_To msg], sc_data = concat (map line (mail_headers ml (clk 0) h msg ct)) @ mail_crlf @ body \<rparr>"
    using assms(2) from_addr mb by (simp add: smtp_compose_def)
  have clean: "\<not> has_crlf h" "\<not> has_crlf e" using parseFromAddress_clean [OF assms(1) from_addr] by simp_all
  have ct: "\<not> has_crlf ct" "prefix ''multipart/'' ct"
    using content_type_clean [of ml "clk 1" "clk 2" msg] mb by (auto simp: mail_body_def Let_def split: if_splits)
  have words: "\<not> has_crlf (ml_qword ml (stripCRLF (ms_Subject msg)))" "\<not> has_crlf (ml_date ml (clk 0))"
    using assms(1) strip_no_crlf unfolding mail_laws_def by blast+
  have lines: "list_all (\<lambda>h. \<not> has_crlf h) [''From: '' @ h, ''To: '' @ stripCRLF (ms_To msg), ''Subject: '' @ ml_qword ml (stripCRLF (ms_Subject msg)),
      ''MIME-Version: 1.0'', ''Date: '' @ ml_date ml (clk 0), ''Content-Type: '' @ ct]"
    unfolding list.pred_inject has_crlf_append by (simp only: clean(1) ct(1) words literals_clean strip_no_crlf list.pred_inject simp_thms)
  have kind: "prefix ''Content-Type: multipart/'' (''Content-Type: '' @ ct)" using ct(2) by (simp add: prefix_def)
  have auth: "(if a then Some x else None) \<noteq> None \<longrightarrow> a" for a :: bool and x :: "string \<times> string" by simp
  show ?thesis
    unfolding c smtp_call.select_convs mail_headers_def
    by ((rule exI)+, intro conjI, rule refl, rule lines, rule prefixI, rule refl, rule refl, rule prefixI, rule refl, rule refl,
        rule prefixI, rule refl, rule kind, rule refl, rule clean(2), rule auth)
qed

text \<open>The lines of an attachment have at most 76 characters and lose nothing.\<close>

lemma wrap76_lines: "\<exists>ls. wrap76 s = concat (map line ls) \<and> concat ls = s \<and> list_all (\<lambda>l. length l \<le> 76) ls"
proof (induction s rule: wrap76.induct)
  case (1 s)
  show ?case
  proof (cases "s = []")
    case True
    then show ?thesis by (intro exI [of _ "[]"]) (simp add: wrap76.simps)
  next
    case False
    from 1 [OF False] obtain ls where "wrap76 (drop 76 s) = concat (map line ls)" "concat ls = drop 76 s" "list_all (\<lambda>l. length l \<le> 76) ls" by blast
    then show ?thesis using False by (intro exI [of _ "take 76 s # ls"]) (simp add: wrap76.simps [of s])
  qed
qed

text \<open>An SMS over Vonage counts as sent only when every part was accepted.\<close>

lemma vonage_all_parts:
  assumes "loop vonage_part i parts = Inr messageID"
  shows "list_all (\<lambda>m. vm_Status m = ''0'') parts"
  using assms by (induction parts arbitrary: i) (auto simp: vonage_part_def split: if_splits)

end
