(* ===== verification/Request_Pipeline.thy ===== *)
theory Request_Pipeline
  imports Rate_Limiter Csrf Input_Filters Server_Lifecycle Configuration
begin

text \<open>
  The way of a request to its handler: the security configuration that \<open>internal/server/server.go\<close> builds
  (\<open>internal/security/middleware.go\<close>) and the chain of middleware in the order of \<open>internal/server/router.go\<close>.
  The third-party CORS handler is a parameter, which answers preflight requests itself; compression,
  logging, recovery and request ids do not touch the request.
\<close>

section \<open>Security configuration\<close>

record SecurityConfig =
  sec_AuthRateLimit :: int
  sec_RSVPRateLimit :: int
  sec_GeneralRateLimit :: int
  sec_RateWindow :: duration
  sec_CSRFExcludePaths :: "string list"
  sec_IsProduction :: bool

definition server_security :: "Config \<Rightarrow> SecurityConfig" where
  "server_security c = \<lparr> sec_AuthRateLimit = 10, sec_RSVPRateLimit = 30, sec_GeneralRateLimit = 200, sec_RateWindow = 1 * minute,
     sec_CSRFExcludePaths =
       [''/api/v1/invitations/exchange'', ''/api/v1/invitations/recovery/request'', ''/api/v1/invitations/recovery/exchange'',
        ''/api/v1/invitations/open/inspect'', ''/api/v1/invitations/open/enroll'', ''/api/v1/auth/magic-link'', ''/api/v1/auth/verify'',
        ''/api/v1/auth/account-invites/accept'', ''/api/v1/setup/bootstrap'', ''/api/v1/feedback/public'', ''/api/v1/unsubscribe''],
     sec_IsProduction = (c_Env c = ''production'') \<rparr>"

record Middleware =
  mw_AuthRateLimiter :: RateLimiter
  mw_RSVPRateLimiter :: RateLimiter
  mw_GeneralRateLimiter :: RateLimiter
  mw_excludePaths :: "string list"

definition NewMiddleware :: "SecurityConfig \<Rightarrow> Middleware" where
  "NewMiddleware cfg = \<lparr> mw_AuthRateLimiter = NewRateLimiter (sec_AuthRateLimit cfg) (sec_RateWindow cfg),
     mw_RSVPRateLimiter = NewRateLimiter (sec_RSVPRateLimit cfg) (sec_RateWindow cfg),
     mw_GeneralRateLimiter = NewRateLimiter (sec_GeneralRateLimit cfg) (sec_RateWindow cfg), mw_excludePaths = sec_CSRFExcludePaths cfg \<rparr>"

section \<open>The chain\<close>

text \<open>What does not change between requests.\<close>

record 'x pipeline_env =
  pe_rt :: "'x runtime_scheme"
  pe_net :: netlib
  pe_html :: html_lib
  pe_json :: json_lib
  pe_proxies :: "string list" \<comment> \<open>cfg.TrustedProxies\<close>
  pe_csrfKey :: string
  pe_excludePaths :: "string list"
  pe_preflight :: "http_request \<Rightarrow> bool" \<comment> \<open>the CORS handler answers the request itself\<close>
  pe_shuttingDown :: bool

definition with_request :: "http_request \<Rightarrow> api_request \<Rightarrow> api_request" where
  "with_request h r = http_request.extend h (api_request.fields (ar_body r) (ar_content_length r))"

definition client_key :: "http_request \<Rightarrow> string" where
  "client_key r = (case split_host_port (hr_remote_addr r) of Some (host, port) \<Rightarrow> host | None \<Rightarrow> hr_remote_addr r)"

definition api_path :: "string \<Rightarrow> bool" where
  "api_path p \<longleftrightarrow> p = ''/api/v1'' \<or> prefix ''/api/v1/'' p"

datatype passage =
    Unavailable \<comment> \<open>503 during a shutdown\<close>
  | Preflight
  | CsrfRefused "cookie option"
  | CsrfServerError
  | TooManyRequests int
  | Reached api_request "cookie option"

text \<open>The middleware of the router, then for paths of the API its own: limiter, body limit, sanitizer.\<close>

definition before_limiter :: "'x pipeline_env \<Rightarrow> string option \<Rightarrow> api_request \<Rightarrow> passage" where
  "before_limiter env rand r =
    (let h = http_request.truncate r in
     if rejectDuringShutdown (pe_shuttingDown env) h \<noteq> PassedOn then Unavailable
     else let h1 = TrustedProxyMiddleware (pe_net env) (pe_proxies env) h in
       if pe_preflight env h1 then Preflight
       else case CSRFMiddleware (pe_rt env) (pe_csrfKey env) (pe_excludePaths env) rand h1 of
           CsrfNext c \<Rightarrow> Reached (with_request h1 r) c
         | CsrfRejected c \<Rightarrow> CsrfRefused c
         | CsrfFailed \<Rightarrow> CsrfServerError)"

definition pass_request :: "'x pipeline_env \<Rightarrow> time \<Rightarrow> string option \<Rightarrow> api_request \<Rightarrow> RateLimiter \<Rightarrow> RateLimiter \<times> passage" where
  "pass_request env now rand r rl = (case before_limiter env rand r of
      Reached r1 c \<Rightarrow>
        if api_path (hr_path r1) then
          (let (rl', allowed) = Allow now (client_key (http_request.truncate r1)) rl in
           if allowed then (rl', Reached (api_filters (pe_html env) (pe_json env) r1) c)
           else (rl', TooManyRequests (rl_window rl div second)))
        else (rl, Reached r1 c)
    | refused \<Rightarrow> (rl, refused))"

text \<open>The headers of every response but the refusal during a shutdown.\<close>

definition response_headers :: "'x pipeline_env \<Rightarrow> api_request \<Rightarrow> (string \<times> string) list" where
  "response_headers env r =
    (let h = http_request.truncate r in
     if rejectDuringShutdown (pe_shuttingDown env) h \<noteq> PassedOn then []
     else SecurityHeadersMiddleware (TrustedProxyMiddleware (pe_net env) (pe_proxies env) h))"

datatype pipeline_op = Request "string option" api_request | CleanupTick

fun pipeline_step :: "'x pipeline_env \<Rightarrow> time \<times> pipeline_op \<Rightarrow> RateLimiter \<Rightarrow> RateLimiter \<times> passage option" where
  "pipeline_step env (now, Request rand r) rl = map_prod id Some (pass_request env now rand r rl)"
| "pipeline_step env (now, CleanupTick) rl = (cleanup_tick now rl, None)"

section \<open>The limiter inside the chain\<close>

text \<open>The operations that a sequence of requests makes on the limiter of the API.\<close>

fun limiter_ops :: "'x pipeline_env \<Rightarrow> (time \<times> pipeline_op) list \<Rightarrow> (time \<times> limiter_op) list" where
  "limiter_ops env [] = []"
| "limiter_ops env ((now, CleanupTick) # ops) = (now, LCleanup) # limiter_ops env ops"
| "limiter_ops env ((now, Request rand r) # ops) = (case before_limiter env rand r of
      Reached r1 c \<Rightarrow> if api_path (hr_path r1) then (now, LAllow (client_key (http_request.truncate r1))) # limiter_ops env ops else limiter_ops env ops
    | _ \<Rightarrow> limiter_ops env ops)"

text \<open>The times at which requests of a client reached a handler of the API.\<close>

definition reached_from :: "string \<Rightarrow> (time \<times> pipeline_op) \<times> passage option \<Rightarrow> bool" where
  "reached_from k x = (case snd x of
      Some (Reached r c) \<Rightarrow> api_path (hr_path r) \<and> client_key (http_request.truncate r) = k
    | _ \<Rightarrow> False)"

definition reached_times :: "string \<Rightarrow> (time \<times> pipeline_op) list \<Rightarrow> passage option list \<Rightarrow> time list" where
  "reached_times k ops answers = map (fst \<circ> fst) (filter (reached_from k) (zip ops answers))"

lemma reached_times_Cons [simp]:
  "reached_times k [] vs = []"
  "reached_times k (op # ops) (v # vs) = (if reached_from k (op, v) then [fst op] else []) @ reached_times k ops vs"
  by (simp_all add: reached_times_def)

lemma filters_keep_request: "http_request.truncate (api_filters hl js r) = http_request.truncate r" "hr_path (api_filters hl js r) = hr_path r"
  by (auto simp: api_filters_def SanitizeMiddleware_def BodyLimitMiddleware_def http_request.truncate_def Let_def split: option.splits)

lemma reached_as_allowed:
  "reached_times k ops (run (pipeline_step env) rl ops) = allowed_times k (limiter_ops env ops) (run limiter_step rl (limiter_ops env ops))"
proof (induction ops arbitrary: rl)
  case (Cons x ops)
  obtain now op where x: "x = (now, op)" by (cases x)
  show ?case
  proof (cases op)
    case (Request rand r)
    show ?thesis
    proof (cases "\<exists>r1 c. before_limiter env rand r = Reached r1 c \<and> api_path (hr_path r1)")
      case True
      then obtain r1 c where r1: "before_limiter env rand r = Reached r1 c" "api_path (hr_path r1)" by blast
      obtain rl' allowed where al: "Allow now (client_key (http_request.truncate r1)) rl = (rl', allowed)" by fastforce
      show ?thesis
        using Cons.IH [of rl'] r1 al by (cases allowed) (auto simp: x Request pass_request_def reached_from_def filters_keep_request)
    next
      case False
      then have "fst (pass_request env now rand r rl) = rl" "\<not> reached_from k ((now, Request rand r), Some (snd (pass_request env now rand r rl)))"
        "limiter_ops env (x # ops) = limiter_ops env ops"
        by (auto simp: x Request pass_request_def reached_from_def split: passage.splits)
      then show ?thesis using Cons.IH [of rl] by (simp add: x Request)
    qed
  next
    case CleanupTick
    then show ?thesis using Cons.IH [of "cleanup_tick now rl"] by (simp add: x reached_from_def)
  qed
qed simp

lemma limiter_ops_times: "(t, op) \<in> set (limiter_ops env ops) \<Longrightarrow> \<exists>op'. (t, op') \<in> set ops"
  by (induction env ops rule: limiter_ops.induct) (auto split: passage.splits if_splits)

lemma limiter_ops_sorted: "sorted (map fst ops) \<Longrightarrow> sorted (map fst (limiter_ops env ops))"
proof (induction env ops rule: limiter_ops.induct)
  case (2 env now ops)
  then show ?case using limiter_ops_times [of _ _ env ops] by fastforce
next
  case (3 env now rand r ops)
  then show ?case using limiter_ops_times [of _ _ env ops] by (cases "before_limiter env rand r") fastforce+
qed simp

lemma limiter_ops_no_reset: "(t, LReset k) \<notin> set (limiter_ops env ops)"
proof (induction ops)
  case (Cons x ops)
  then show ?case by (cases "(env, x # ops)" rule: limiter_ops.cases) (auto split: passage.splits)
qed simp

section \<open>What reaches a handler\<close>

lemma resolved_keeps: "hr_path (TrustedProxyMiddleware nl ps h) = hr_path h" "hr_method (TrustedProxyMiddleware nl ps h) = hr_method h"
  "hr_cookie (TrustedProxyMiddleware nl ps h) = hr_cookie h"
  by (auto simp: TrustedProxyMiddleware_def stripForwardedHeaders_def Let_def split: option.splits prod.splits)

lemma truncate_with_request [simp]: "http_request.truncate (with_request h r) = h" "ar_body (with_request h r) = ar_body r"
  by (simp_all add: with_request_def http_request.defs api_request.defs)

lemma pass_request_Reached:
  assumes "pass_request env now rand r rl = (rl', Reached r' c)" "api_path (hr_path r)"
  shows "before_limiter env rand r = Reached (with_request (TrustedProxyMiddleware (pe_net env) (pe_proxies env) (http_request.truncate r)) r) c \<and>
    r' = api_filters (pe_html env) (pe_json env) (with_request (TrustedProxyMiddleware (pe_net env) (pe_proxies env) (http_request.truncate r)) r) \<and>
    snd (Allow now (client_key (http_request.truncate r')) rl)"
proof -
  let ?r1 = "with_request (TrustedProxyMiddleware (pe_net env) (pe_proxies env) (http_request.truncate r)) r"
  obtain r1 where r1: "before_limiter env rand r = Reached r1 c"
    using assms(1) by (auto simp: pass_request_def split: passage.splits if_splits prod.splits)
  then have "r1 = ?r1" by (auto simp: before_limiter_def Let_def split: if_splits csrf_outcome.splits)
  moreover have "hr_path ?r1 = hr_path r" using resolved_keeps(1) by (simp add: with_request_def http_request.defs api_request.defs)
  ultimately show ?thesis
    using assms r1 by (auto simp: pass_request_def filters_keep_request split: if_splits prod.splits)
qed


text \<open>
  What a handler reads of a body that is declared as JSON: nothing when it is larger than 1 MB, the body itself when it is
  empty, not JSON or cannot be encoded again, and otherwise its value with sanitized strings, encoded again.
\<close>

definition json_filtered :: "html_lib \<Rightarrow> json_lib \<Rightarrow> api_request \<Rightarrow> api_request \<Rightarrow> bool" where
  "json_filtered hl js r r' \<longleftrightarrow> (prefix ''application/json'' (content_type r') \<longrightarrow> (case ar_body r of
      Bytes None body \<Rightarrow>
        ar_body r' = (if 1048576 < length body then FailingBody
          else if body = [] then Bytes None []
          else case jl_unmarshal js body of
              None \<Rightarrow> Bytes None body
            | Some v \<Rightarrow> (case jl_marshal js (sanitizeValue hl v) of None \<Rightarrow> Bytes None body | Some t \<Rightarrow> Bytes None t))
    | _ \<Rightarrow> True))"

lemma api_filters_json: "json_filtered hl js r (api_filters hl js r)"
proof -
  have "content_type (api_filters hl js r) = content_type r" using filters_keep_request(1) by (simp add: content_type_def)
  then show ?thesis
    by (auto simp: json_filtered_def api_filters_def BodyLimitMiddleware_def SanitizeMiddleware_def max_bytes_reader_def read_all_def prefix_def
      split: body_reader.splits option.splits)
qed

lemma run_nth: "i < length xs \<Longrightarrow> \<exists>s. run step s0 xs ! i = snd (step (xs ! i) s)"
proof (induction xs arbitrary: s0 i)
  case (Cons x xs)
  then show ?case by (cases i) auto
qed simp

lemma reaching:
  assumes "i < length ops" "ops ! i = (now, Request rand r)" "run (pipeline_step env) rl0 ops ! i = Some (Reached r' ck)" "api_path (hr_path r)"
  shows "\<not> pe_shuttingDown env \<or> hr_path r = ''/api/v1/health''"
    and "http_request.truncate r' = TrustedProxyMiddleware (pe_net env) (pe_proxies env) (http_request.truncate r)"
    and "safe_verb (hr_method r) \<or> csrf_exempt (pe_excludePaths env) (http_request.truncate r') \<or>
       (\<exists>token. token \<noteq> [] \<and> hr_cookie r ''csrf_token'' = Some token \<and> header_get (http_request.truncate r') ''X-Csrf-Token'' = token \<and>
         verifyCSRFToken (pe_rt env) (pe_csrfKey env) token token (session_value (http_request.truncate r')))"
    and "json_filtered (pe_html env) (pe_json env) r r'"
proof -
  let ?h = "TrustedProxyMiddleware (pe_net env) (pe_proxies env) (http_request.truncate r)"
  obtain rl where "Some (Reached r' ck) = snd (pipeline_step env (now, Request rand r) rl)"
    using run_nth [OF assms(1), of "pipeline_step env" rl0] assms(2,3) by metis
  then have "pass_request env now rand r rl = (fst (pass_request env now rand r rl), Reached r' ck)" by (cases "pass_request env now rand r rl") simp
  note passed = pass_request_Reached [OF this assms(4)]
  then show t: "http_request.truncate r' = ?h" by (simp add: filters_keep_request)
  show "json_filtered (pe_html env) (pe_json env) r r'"
    using conjunct1 [OF conjunct2 [OF passed]] api_filters_json [of "pe_html env" "pe_json env" "with_request ?h r"]
    unfolding json_filtered_def truncate_with_request(2) by (simp only:)
  have trunc: "hr_path (http_request.truncate r) = hr_path r" "hr_method (http_request.truncate r) = hr_method r" "hr_cookie (http_request.truncate r) = hr_cookie r"
    by (simp_all add: http_request.truncate_def)
  have chain: "rejectDuringShutdown (pe_shuttingDown env) (http_request.truncate r) = PassedOn"
    "CSRFMiddleware (pe_rt env) (pe_csrfKey env) (pe_excludePaths env) rand ?h = CsrfNext ck"
    using passed by (auto simp: before_limiter_def Let_def split: if_splits csrf_outcome.splits)
  then show "\<not> pe_shuttingDown env \<or> hr_path r = ''/api/v1/health''"
    using assms(4) by (auto simp: rejectDuringShutdown_def trunc api_path_def split: if_splits)
  show "safe_verb (hr_method r) \<or> csrf_exempt (pe_excludePaths env) (http_request.truncate r') \<or>
       (\<exists>token. token \<noteq> [] \<and> hr_cookie r ''csrf_token'' = Some token \<and> header_get (http_request.truncate r') ''X-Csrf-Token'' = token \<and>
         verifyCSRFToken (pe_rt env) (pe_csrfKey env) token token (session_value (http_request.truncate r')))"
    unfolding t using chain(2) resolved_keeps(2,3) [of "pe_net env" "pe_proxies env" "http_request.truncate r"] trunc
    by (auto simp: CSRFMiddleware_def Let_def verifyCSRFToken_def split: option.splits if_splits)
qed

text \<open>
  C38: a handler of the API only sees requests that passed the whole chain, and only so many. However many
  requests arrive, in whatever order and with clean-ups of the limiter in between, a request that reaches a
  handler came while the server was not shutting down, or asks for the health of the API; its address and
  forwarded headers are those that the trusted proxies vouch for, whatever the client sent; if it can change
  state and is not on the list of exempt paths or authorized by a bearer token, it carried a CSRF token that is
  the same in cookie and header and belongs to its session; what it declares as JSON is at most 1 MB and has its
  strings sanitized; and in every minute at most 200 requests of one client address reach a handler.
\<close>

theorem handlers_behind_pipeline:
  assumes "pe_excludePaths env = mw_excludePaths (NewMiddleware (server_security c))" "sorted (map fst ops)"
    and "answers = run (pipeline_step env) (mw_GeneralRateLimiter (NewMiddleware (server_security c))) ops"
  shows "(\<forall>i now rand r r' ck. i < length ops \<and> ops ! i = (now, Request rand r) \<and> answers ! i = Some (Reached r' ck) \<and> api_path (hr_path r) \<longrightarrow>
      (\<not> pe_shuttingDown env \<or> hr_path r = ''/api/v1/health'') \<and>
      http_request.truncate r' = TrustedProxyMiddleware (pe_net env) (pe_proxies env) (http_request.truncate r) \<and>
      (safe_verb (hr_method r) \<or> csrf_exempt (sec_CSRFExcludePaths (server_security c)) (http_request.truncate r') \<or>
       (\<exists>token. token \<noteq> [] \<and> hr_cookie r ''csrf_token'' = Some token \<and> header_get (http_request.truncate r') ''X-Csrf-Token'' = token \<and>
         verifyCSRFToken (pe_rt env) (pe_csrfKey env) token token (session_value (http_request.truncate r')))) \<and>
      json_filtered (pe_html env) (pe_json env) r r') \<and>
    (\<forall>k a. length (filter (\<lambda>t. a \<le> t \<and> t \<le> a + 60000000000) (reached_times k ops answers)) \<le> 200)"
proof (rule conjI)
  have paths: "pe_excludePaths env = sec_CSRFExcludePaths (server_security c)" using assms(1) by (simp add: NewMiddleware_def)
  show "\<forall>i now rand r r' ck. i < length ops \<and> ops ! i = (now, Request rand r) \<and> answers ! i = Some (Reached r' ck) \<and> api_path (hr_path r) \<longrightarrow>
      (\<not> pe_shuttingDown env \<or> hr_path r = ''/api/v1/health'') \<and>
      http_request.truncate r' = TrustedProxyMiddleware (pe_net env) (pe_proxies env) (http_request.truncate r) \<and>
      (safe_verb (hr_method r) \<or> csrf_exempt (sec_CSRFExcludePaths (server_security c)) (http_request.truncate r') \<or>
       (\<exists>token. token \<noteq> [] \<and> hr_cookie r ''csrf_token'' = Some token \<and> header_get (http_request.truncate r') ''X-Csrf-Token'' = token \<and>
         verifyCSRFToken (pe_rt env) (pe_csrfKey env) token token (session_value (http_request.truncate r')))) \<and>
      json_filtered (pe_html env) (pe_json env) r r'"
    unfolding assms(3) paths [symmetric] by (intro allI impI) (elim conjE, intro conjI reaching; assumption)
  have "int (length (filter (\<lambda>t. a \<le> t \<and> t \<le> a + 1 * minute) (reached_times k ops answers))) \<le> 200" for k a
  proof -
    have "LReset k \<notin> snd ` set (limiter_ops env ops)" using limiter_ops_no_reset by fastforce
    then show ?thesis
      unfolding assms(3) reached_as_allowed
      using rate_limit_every_window [of "limiter_ops env ops" k 200 a "1 * minute"] limiter_ops_sorted [OF assms(2), of env]
      by (simp add: NewMiddleware_def server_security_def)
  qed
  then show "\<forall>k a. length (filter (\<lambda>t. a \<le> t \<and> t \<le> a + 60000000000) (reached_times k ops answers)) \<le> 200"
    by (simp add: minute_def second_def)
qed

end
