(* ===== verification/Command_Line.thy ===== *)
theory Command_Line
  imports Backup_Safety Configuration_Safety Server_Lifecycle User_Admin
begin

text \<open>
  The commands of the binary (\<open>cmd/owl-invites/main.go\<close>, \<open>server.go\<close>): the server, the version, the fingerprint of
  the secret, migrations, backups and the promotion of an administrator. The machine gives what the commands
  read; an installation is what they change.
\<close>

section \<open>Flags\<close>

text \<open>
  \<open>flag.FlagSet.Parse\<close> for string flags: \<open>-name value\<close>, \<open>-name=value\<close>, with one or two dashes; parsing stops
  at the first other argument or after \<open>--\<close>. The result has the values given and the remaining arguments.
\<close>

definition cut_equals :: "string \<Rightarrow> string \<times> string option" where
  "cut_equals name = (let k = takeWhile (\<lambda>c. c \<noteq> CHR ''='') name; r = dropWhile (\<lambda>c. c \<noteq> CHR ''='') name in
     (k, if r = [] then None else Some (tl r)))"

fun parse_flags :: "string list \<Rightarrow> (string \<times> string) list \<Rightarrow> string list \<Rightarrow> string + (string \<times> string) list \<times> string list" where
  "parse_flags names vals [] = Inr (vals, [])"
| "parse_flags names vals (a # args) =
    (if length a < 2 \<or> hd a \<noteq> CHR ''-'' then Inr (vals, a # args)
     else if a = ''--'' then Inr (vals, args)
     else let name = (if a ! 1 = CHR ''-'' then drop 2 a else drop 1 a) in
       if name = [] \<or> hd name = CHR ''-'' \<or> hd name = CHR ''='' then Inl (''bad flag syntax: '' @ a)
       else case cut_equals name of (k, v) \<Rightarrow>
         if k \<notin> set names then Inl (if k = ''help'' \<or> k = ''h'' then ''flag: help requested'' else ''flag provided but not defined: -'' @ k)
         else case v of
             Some x \<Rightarrow> parse_flags names (map_put k x vals) args
           | None \<Rightarrow> (case args of
                [] \<Rightarrow> Inl (''flag needs an argument: -'' @ k)
              | x # rest \<Rightarrow> parse_flags names (map_put k x vals) rest))"

section \<open>The machine\<close>

record 's machine =
  mch_rt :: runtime
  mch_net :: netlib
  mch_host :: host
  mch_build :: build_info
  mch_build_json :: "build_info \<Rightarrow> string"
  mch_connect :: "Config \<Rightarrow> string option" \<comment> \<open>database.New: the error, if any\<close>
  mch_migrator :: "Config \<Rightarrow> string + 's migrator"
  mch_latest :: "string \<Rightarrow> string + nat" \<comment> \<open>LatestMigrationVersion on the embedded files\<close>
  mch_codec :: manifest_codec
  mch_io :: backup_io
  mch_abs :: "string \<Rightarrow> path" \<comment> \<open>filepath.Abs\<close>
  mch_bundle :: "string \<Rightarrow> backup_bundle" \<comment> \<open>what is at the path of a bundle\<close>
  mch_snapshot :: string
  mch_uploads :: "string \<Rightarrow> tree option"
  mch_now :: time
  mch_audit_id :: id
  mch_overrides :: "(string \<times> string) list option" \<comment> \<open>GetAll of the instance settings\<close>
  mch_services :: Service

record 's installation =
  ins_schema :: 's
  ins_ids :: idb
  ins_backups :: "(string \<times> backup_bundle) list"
  ins_restored :: "restored list"

datatype cli_outcome = Printed string | ServerStarted Config | Failed string | PromotionFailed id_error

definition cli_usage :: string where
  "cli_usage = ''usage: owl-invites <version [--json] | secret fingerprint | migrate <status|version|up> | backup <sqlite|verify|restore> | admin promote --email user@example.com>''"

definition newline :: string where "newline = [byte 10]"

definition utoa :: "nat \<Rightarrow> string" where "utoa n = itoa (int n)"

definition btoa :: "bool \<Rightarrow> string" where "btoa b = (if b then ''true'' else ''false'')"

definition load_config :: "'s machine \<Rightarrow> string + Config" where
  "load_config m = map_sum (\<lambda>e. ''load configuration: '' @ e) id (Load (mch_rt m) (mch_net m) (mch_host m))"

definition openConfiguredDatabase :: "'s machine \<Rightarrow> string + Config" where
  "openConfiguredDatabase m = rbind (load_config m) (\<lambda>cfg.
     case mch_connect m cfg of Some e \<Rightarrow> Inl (''connect database: '' @ e) | None \<Rightarrow> Inr cfg)"

section \<open>The commands\<close>

definition status_text :: "MigrationStatus \<Rightarrow> string" where
  "status_text st = ''current='' @ utoa (mst_Current st) @ newline @ ''latest='' @ utoa (mst_Latest st) @ newline @
     ''dirty='' @ btoa (mst_Dirty st) @ newline @ ''pending='' @ btoa (mst_Pending st) @ newline"

definition runMigrate :: "'s machine \<Rightarrow> string list \<Rightarrow> 's installation \<Rightarrow> 's installation \<times> cli_outcome" where
  "runMigrate m args s =
    (if length args \<noteq> 1 \<or> (args ! 0 \<noteq> ''status'' \<and> args ! 0 \<noteq> ''version'' \<and> args ! 0 \<noteq> ''up'')
     then (s, Failed ''usage: owl-invites migrate <status|version|up>'')
     else case openConfiguredDatabase m of
       Inl e \<Rightarrow> (s, Failed e)
     | Inr cfg \<Rightarrow>
        (let mk = mch_migrator m cfg; latest = mch_latest m (c_DBDriver cfg) in
         if args ! 0 = ''status'' then
           (s, case ReadMigrationStatus mk latest (ins_schema s) of
                 Inl e \<Rightarrow> Failed (''read migration status: '' @ e) | Inr st \<Rightarrow> Printed (status_text st))
         else if args ! 0 = ''version'' then
           (s, case ReadMigrationStatus mk latest (ins_schema s) of
                 Inl e \<Rightarrow> Failed (''read migration version: '' @ e) | Inr st \<Rightarrow> Printed (utoa (mst_Current st) @ newline))
         else (case MigrateUp mk latest (ins_schema s) of
             (schema, Inl e) \<Rightarrow> (s\<lparr>ins_schema := schema\<rparr>, Failed (''apply migrations: '' @ e))
           | (schema, Inr (before, after)) \<Rightarrow> (s\<lparr>ins_schema := schema\<rparr>, Printed
               (if mst_Current before = mst_Current after \<and> \<not> mst_Dirty before
                then ''schema already at version '' @ utoa (mst_Current after) @ newline
                else ''migrated schema from '' @ utoa (mst_Current before) @ '' to '' @ utoa (mst_Current after) @ newline)))))"

definition backup_usage :: string where "backup_usage = ''usage: owl-invites backup <sqlite|verify|restore>''"

definition restore_usage :: string where
  "restore_usage = ''usage: owl-invites backup restore BACKUP --database NEW_PATH --uploads NEW_DIRECTORY''"

definition run_verify :: "'s machine \<Rightarrow> string list \<Rightarrow> 's installation \<Rightarrow> 's installation \<times> cli_outcome" where
  "run_verify m args s =
    (if length args \<noteq> 2 then (s, Failed ''usage: owl-invites backup verify BACKUP'')
     else (s, case VerifySQLite (mch_rt m) (mch_codec m) (mch_io m) (mch_bundle m (args ! 1)) of
         Inl e \<Rightarrow> Failed (''verify backup: '' @ e)
       | Inr manifest \<Rightarrow> Printed (''backup verified'' @ newline @ ''schema_version='' @ utoa (sm_SchemaVersion (mf_Source manifest)) @ newline @
           ''database_sha256='' @ fa_SHA256 (mf_Database manifest) @ newline @ ''secret_fingerprint='' @ mf_SecretFingerprint manifest @ newline)))"

definition source_of :: "'s machine \<Rightarrow> Config \<Rightarrow> 's \<Rightarrow> source_instance" where
  "source_of m cfg schema = (let b = NormalizeInfo (mch_build m) in
    \<lparr> si_dialect = c_DBDriver cfg, si_status = ReadMigrationStatus (mch_migrator m cfg) (mch_latest m (c_DBDriver cfg)) schema,
      si_snapshot = mch_snapshot m, si_uploads = mch_uploads m (c_UploadsDir cfg), si_uploads_path = mch_abs m (c_UploadsDir cfg),
      si_build = (bi_Version b, bi_Commit b, bi_BuildState b) \<rparr>)"

definition run_create :: "'s machine \<Rightarrow> string list \<Rightarrow> 's installation \<Rightarrow> 's installation \<times> cli_outcome" where
  "run_create m args s = (case parse_flags [''output''] [] (tl args) of
      Inl e \<Rightarrow> (s, Failed e)
    | Inr (vals, rest) \<Rightarrow>
       (let output = map_get vals ''output'' in
        if output = [] \<or> rest \<noteq> [] then (s, Failed ''usage: owl-invites backup sqlite --output DIRECTORY'')
        else case openConfiguredDatabase m of
          Inl e \<Rightarrow> (s, Failed e)
        | Inr cfg \<Rightarrow>
           if c_DBDriver cfg \<noteq> ''sqlite'' then (s, Failed ''backup sqlite requires DB_DRIVER=sqlite'')
           else (case CreateSQLite (mch_rt m) (mch_codec m) (mch_io m) (mch_now m) (source_of m cfg (ins_schema s)) (mch_abs m output) (c_InvitationSecretKey cfg) of
               Inl e \<Rightarrow> (s, Failed (''create SQLite backup: '' @ e))
             | Inr (bundle, manifest) \<Rightarrow> (s\<lparr>ins_backups := ins_backups s @ [(output, bundle)]\<rparr>,
                 Printed (''backup created at '' @ output @ newline @ ''database_sha256='' @ fa_SHA256 (mf_Database manifest) @ newline @
                   ''secret_fingerprint='' @ mf_SecretFingerprint manifest @ newline)))))"

definition run_restore :: "'s machine \<Rightarrow> string list \<Rightarrow> 's installation \<Rightarrow> 's installation \<times> cli_outcome" where
  "run_restore m args s =
    (if length args < 2 then (s, Failed restore_usage)
     else case parse_flags [''database'', ''uploads''] [] (drop 2 args) of
       Inl e \<Rightarrow> (s, Failed e)
     | Inr (vals, rest) \<Rightarrow>
        (let db = map_get vals ''database''; up = map_get vals ''uploads'' in
         if db = [] \<or> up = [] \<or> rest \<noteq> [] then (s, Failed restore_usage)
         else case load_config m of
           Inl e \<Rightarrow> (s, Failed e)
         | Inr cfg \<Rightarrow>
            if c_DBDriver cfg \<noteq> ''sqlite'' then (s, Failed ''backup restore requires DB_DRIVER=sqlite'')
            else (case RestoreSQLite (mch_rt m) (mch_codec m) (mch_io m) (mch_bundle m (args ! 1)) (mch_abs m (args ! 1)) (mch_abs m db) (mch_abs m up)
                    (c_InvitationSecretKey cfg) of
                (r, Inl e) \<Rightarrow> (s\<lparr>ins_restored := ins_restored s @ [r]\<rparr>, Failed (''restore SQLite backup: '' @ e))
              | (r, Inr manifest) \<Rightarrow> (s\<lparr>ins_restored := ins_restored s @ [r]\<rparr>,
                  Printed (''backup restored'' @ newline @ ''schema_version='' @ utoa (sm_SchemaVersion (mf_Source manifest)) @ newline @
                    ''secret_fingerprint='' @ mf_SecretFingerprint manifest @ newline)))))"

definition runBackup :: "'s machine \<Rightarrow> string list \<Rightarrow> 's installation \<Rightarrow> 's installation \<times> cli_outcome" where
  "runBackup m args s = (case args of
      [] \<Rightarrow> (s, Failed backup_usage)
    | a # _ \<Rightarrow>
        if a = ''verify'' then run_verify m args s
        else if a = ''sqlite'' then run_create m args s
        else if a = ''restore'' then run_restore m args s
        else (s, Failed backup_usage))"

definition promoted_text :: "User \<Rightarrow> string" where
  "promoted_text user = ''promoted '' @ u_Email user @ '' to instance administrator'' @ newline"

definition run_promote :: "'s machine \<Rightarrow> string list \<Rightarrow> 's installation \<Rightarrow> 's installation \<times> cli_outcome" where
  "run_promote m args s = (case parse_flags [''email''] [] args of
      Inl e \<Rightarrow> (s, Failed e)
    | Inr (vals, rest) \<Rightarrow>
        if map_get vals ''email'' = [] then (s, Failed ''--email is required'')
        else case openConfiguredDatabase m of
          Inl e \<Rightarrow> (s, Failed e)
        | Inr cfg \<Rightarrow> (case RunMigrations (mch_migrator m cfg) (ins_schema s) of
             (schema, Some e) \<Rightarrow> (s\<lparr>ins_schema := schema\<rparr>, Failed (''run migrations: '' @ e))
           | (schema, None) \<Rightarrow> (case PromoteAdmin (mch_rt m) (mch_now m) (mch_audit_id m) (map_get vals ''email'') (ins_ids s) of
                Inl e \<Rightarrow> (s\<lparr>ins_schema := schema\<rparr>, PromotionFailed e)
              | Inr (ids, user) \<Rightarrow> (s\<lparr>ins_schema := schema, ins_ids := ids\<rparr>, Printed (promoted_text user)))))"

text \<open>
  \<open>server.New\<close> creates the invitation service, whose refusal is a panic, and applies the settings of the
  database to the configuration.
\<close>

definition new_server :: "'s machine \<Rightarrow> Config \<Rightarrow> string + Config" where
  "new_server m cfg = (case NewService (c_InvitationSecretKey cfg) (c_BaseURL cfg) (c_InvitationSessionExpiry cfg) (c_InvitationRecoveryExpiry cfg) (mch_services m) of
      Inl _ \<Rightarrow> Inl ''panic: invalid invitation security configuration''
    | Inr _ \<Rightarrow> Inr (case mch_overrides m of None \<Rightarrow> cfg | Some overrides \<Rightarrow> ApplyInstanceOverrides overrides cfg))"

definition runServer :: "'s machine \<Rightarrow> 's installation \<Rightarrow> 's installation \<times> cli_outcome" where
  "runServer m s = (case Load (mch_rt m) (mch_net m) (mch_host m) of
      Inl e \<Rightarrow> (s, Failed (''load config: '' @ e))
    | Inr cfg \<Rightarrow> (case mch_connect m cfg of
         Some e \<Rightarrow> (s, Failed (''connect to database: '' @ e))
       | None \<Rightarrow> (case RunMigrations (mch_migrator m cfg) (ins_schema s) of
            (schema, Some e) \<Rightarrow> (s\<lparr>ins_schema := schema\<rparr>, Failed (''run migrations: '' @ e))
          | (schema, None) \<Rightarrow> (s\<lparr>ins_schema := schema\<rparr>, case new_server m cfg of Inl e \<Rightarrow> Failed e | Inr c \<Rightarrow> ServerStarted c))))"

definition run_command :: "'s machine \<Rightarrow> string list \<Rightarrow> 's installation \<Rightarrow> 's installation \<times> cli_outcome" where
  "run_command m args s =
    (if args = [] then runServer m s
     else case RunVersionCommand (mch_build_json m) (mch_build m) args of
       Some (Inl e) \<Rightarrow> (s, Failed e)
     | Some (Inr out) \<Rightarrow> (s, Printed out)
     | None \<Rightarrow>
        if args ! 0 = ''migrate'' then runMigrate m (tl args) s
        else if args ! 0 = ''backup'' then runBackup m (tl args) s
        else if length args = 2 \<and> args ! 0 = ''secret'' \<and> args ! 1 = ''fingerprint'' then
          (s, case load_config m of Inl e \<Rightarrow> Failed e | Inr cfg \<Rightarrow> Printed (Fingerprint (mch_rt m) (c_InvitationSecretKey cfg) @ newline))
        else if length args < 2 \<or> args ! 0 \<noteq> ''admin'' \<or> args ! 1 \<noteq> ''promote'' then (s, Failed cli_usage)
        else run_promote m (drop 2 args) s)"

section \<open>What the commands do\<close>

text \<open>The settings of a configuration that matter for starting are not changed by the database.\<close>

lemma started_config: "config_ok rt nl c \<Longrightarrow> new_server m c = Inr c' \<Longrightarrow> config_ok rt nl c'"
  by (auto simp: new_server_def ApplyInstanceOverrides_ok split: sum.splits option.splits)

lemma server_never_panics:
  assumes "Load rt nl h = Inr c"
  shows "\<exists>c'. new_server m c = Inr c'"
  using Load_ok [OF assms] by (auto simp: new_server_def config_ok_def NewService_def NewCapabilitySigner_def split: sum.splits)

text \<open>Which commands write, and to what.\<close>

lemma runMigrate_writes:
  assumes "runMigrate m args s = (s', out)"
  shows "ins_ids s' = ins_ids s \<and> ins_backups s' = ins_backups s \<and> ins_restored s' = ins_restored s \<and> (\<forall>c. out \<noteq> ServerStarted c) \<and>
    (s' = s \<or> args = [''up''])"
  using assms by (cases args) (auto simp: runMigrate_def Let_def split: if_splits sum.splits prod.splits)

lemma runBackup_writes:
  assumes "runBackup m args s = (s', out)"
  shows "ins_schema s' = ins_schema s \<and> ins_ids s' = ins_ids s \<and> (\<forall>c. out \<noteq> ServerStarted c) \<and>
    (ins_backups s' \<noteq> ins_backups s \<longrightarrow> (\<exists>rest text. args = ''sqlite'' # rest \<and> out = Printed text)) \<and>
    (ins_restored s' \<noteq> ins_restored s \<longrightarrow> (\<exists>rest. args = ''restore'' # rest))"
  using assms
  by (cases args)
    (auto simp: runBackup_def run_verify_def run_create_def run_restore_def Let_def split: if_splits sum.splits prod.splits)

lemma run_promote_writes:
  assumes "run_promote m args s = (s', out)"
  shows "ins_backups s' = ins_backups s \<and> ins_restored s' = ins_restored s \<and> (\<forall>c. out \<noteq> ServerStarted c) \<and>
    (ins_ids s' \<noteq> ins_ids s \<longrightarrow> (\<exists>email u. PromoteAdmin (mch_rt m) (mch_now m) (mch_audit_id m) email (ins_ids s) = Inr (ins_ids s', u) \<and>
       out = Printed (promoted_text u)))"
  using assms by (auto simp: run_promote_def split: if_splits sum.splits option.splits prod.splits) blast

lemma runServer_writes:
  assumes "runServer m s = (s', out)"
  shows "ins_ids s' = ins_ids s \<and> ins_backups s' = ins_backups s \<and> ins_restored s' = ins_restored s \<and>
    (\<forall>c. out = ServerStarted c \<longrightarrow> config_ok (mch_rt m) (mch_net m) c)"
  using assms started_config Load_ok by (fastforce simp: runServer_def split: sum.splits option.splits prod.splits)

text \<open>
  An operator's command changes only what it is for. Accounts change only by \<open>admin promote\<close>, and then exactly
  as the promotion of the user that is reported; backups appear only by \<open>backup sqlite\<close> and only when it reports
  success; only \<open>backup restore\<close> touches the paths of a restore; only the server, \<open>migrate up\<close> and
  \<open>admin promote\<close> move the schema; and a server runs only when no command is given, with a configuration in range.
\<close>

theorem commands_change_their_own:
  assumes "run_command m args s = (s', out)"
  shows "(ins_ids s' \<noteq> ins_ids s \<longrightarrow> take 2 args = [''admin'', ''promote''] \<and>
      (\<exists>email u. PromoteAdmin (mch_rt m) (mch_now m) (mch_audit_id m) email (ins_ids s) = Inr (ins_ids s', u) \<and>
         out = Printed (promoted_text u))) \<and>
    (ins_backups s' \<noteq> ins_backups s \<longrightarrow> take 2 args = [''backup'', ''sqlite''] \<and> (\<exists>text. out = Printed text)) \<and>
    (ins_restored s' \<noteq> ins_restored s \<longrightarrow> take 2 args = [''backup'', ''restore'']) \<and>
    (ins_schema s' \<noteq> ins_schema s \<longrightarrow> args = [] \<or> args = [''migrate'', ''up''] \<or> take 2 args = [''admin'', ''promote'']) \<and>
    (\<forall>c. out = ServerStarted c \<longrightarrow> args = [] \<and> config_ok (mch_rt m) (mch_net m) c)"
proof -
  consider (server) "args = []" "runServer m s = (s', out)"
    | (none) "s' = s" "\<forall>c. out \<noteq> ServerStarted c"
    | (migrate) rest where "args = ''migrate'' # rest" "runMigrate m rest s = (s', out)"
    | (backup) rest where "args = ''backup'' # rest" "runBackup m rest s = (s', out)"
    | (promote) rest where "args = ''admin'' # ''promote'' # rest" "run_promote m rest s = (s', out)"
  proof (cases args)
    case Nil
    then show ?thesis using assms server by (simp add: run_command_def)
  next
    case (Cons a as)
    then show ?thesis
      using assms that(2-5) by (cases as) (auto simp: run_command_def split: if_splits option.splits sum.splits)
  qed
  then show ?thesis
  proof cases
    case migrate
    then show ?thesis using runMigrate_writes [OF migrate(2)] by auto
  next
    case backup
    then show ?thesis using runBackup_writes [OF backup(2)] by auto
  next
    case promote
    then show ?thesis using run_promote_writes [OF promote(2)] by auto
  qed (use runServer_writes in auto)
qed

end
