(* ===== verification/Operation_Samples.thy ===== *)
theory Operation_Samples
  imports Service_Samples Question_Safety Invite_Safety Configuration_Safety Statistics Input_Filters Migrations Feedback Server_Lifecycle
    Backup_Safety Data_Export Providers Request_Pipeline Command_Line
begin

text \<open>
  Instances on which the hypotheses of the properties of questions, invite cards, the configuration, statistics,
  request filters, migrations, the scheduler, backups, exports and mail composition hold.
\<close>

section \<open>Questions\<close>

text \<open>A list of strings as a text: every character escaped, every string closed.\<close>

definition encode_texts :: "string list \<Rightarrow> string" where
  "encode_texts xs = CHR ''['' # concat (map (\<lambda>s. concat (map (\<lambda>c. [CHR ''x'', c]) s) @ [CHR '';'']) xs) @ [CHR '']'']"

function decode_texts :: "string \<Rightarrow> string \<Rightarrow> string list option" where
  "decode_texts acc [] = None"
| "decode_texts acc (c # s) =
    (if c = CHR '';'' then map_option (Cons acc) (decode_texts [] s)
     else if c = CHR ''x'' \<and> s \<noteq> [] then decode_texts (acc @ [hd s]) (tl s)
     else if c = CHR '']'' \<and> s = [] then Some [] else None)"
  by pat_completeness auto
termination
  by (relation "measure (\<lambda>(acc, s). length s)") (auto simp: less_Suc_eq_le)

definition question_rt :: runtime where
  "question_rt = sample_rt\<lparr>rt_json_strings := (\<lambda>t. case t of [] \<Rightarrow> None | c # s \<Rightarrow> if c = CHR ''['' then decode_texts [] s else None)\<rparr>"

lemma decode_chars: "decode_texts acc (concat (map (\<lambda>c. [CHR ''x'', c]) s) @ CHR '';'' # r) = map_option (Cons (acc @ s)) (decode_texts [] r)"
  by (induction s arbitrary: acc) simp_all

lemma decode_encoded: "decode_texts [] (concat (map (\<lambda>s. concat (map (\<lambda>c. [CHR ''x'', c]) s) @ [CHR '';'']) xs) @ [CHR '']'']) = Some xs"
  by (induction xs) (simp_all add: decode_chars)

lemma question_codec: "json_codec question_rt encode_texts"
  by (simp add: json_codec_def question_rt_def encode_texts_def decode_encoded)

definition new_question :: CreateQuestionRequest where
  "new_question = \<lparr> cqr_Label = ''Meal'', cqr_Type = ''select'', cqr_Options = [''Fish'', ''Rice''], cqr_Required = Some True, cqr_Scope = ''guest'', cqr_SortOrder = None \<rparr>"

definition asked_db :: db where
  "asked_db = sample_db0\<lparr>db_questions := [sample_question, \<lparr> qr_id = ''q2'', qr_event_id = ''e1'', qr_label = ''Meal'', qr_type = ''select'',
     qr_options = encode_texts [''Fish'', ''Rice''], qr_required = True, qr_scope = ''guest'', qr_sort_order = 1, qr_deleted = False,
     qr_created_at = 0, qr_updated_at = 0 \<rparr>]\<rparr>"

lemma sample_manages: "checkEventOwner ''e1'' ''u3'' event_ids_db = Inr ()"
  by (simp add: checkEventOwner_def CanManageEvent_def event_eval)

lemma sample_question_added:
  "fst (question_handle question_rt encode_texts ''q2'' 0 (Some ''u3'') ''e1'' (QuCreate (Decoded new_question, DecodeEOF)) event_ids_db sample_db0) = asked_db"
  by (simp add: question_routes sample_manages DecodeJSON_def CreateQuestion_def check_label_def check_type_def check_option_count_def check_options_def check_option_def
    check_scope_def CountQuestionsByEventID_def StoreCreateQuestion_def question_checks_def question_row_of_def question_ids_def event_ids_def
    validTypes_def validScopes_def maxLabelLength_def maxOptionLength_def maxOptionsPerQuestion_def maxQuestionsPerEvent_def new_question_def asked_db_def live_question_def
    sample_defs string_eval table_eval trunc_sec_def)

theorem questions_stay_answerable_witness:
  "(question_step question_rt encode_texts)\<^sup>*\<^sup>* sample_db0 asked_db \<and>
   (\<exists>qs ias gas. loadQuestionsTx question_rt ''e1'' asked_db = Inr qs \<and> map fst gas = [''g1''] \<and>
     validateResponseAnswers question_rt qs [sample_guest] ias gas = Inr ())"
proof -
  have step: "(question_step question_rt encode_texts)\<^sup>*\<^sup>* sample_db0 asked_db"
    by (rule r_into_rtranclp, rule question_step.route, subst sample_question_added [symmetric], rule surjective_pairing)
  have "questions_ok question_rt sample_db0"
    by (simp add: questions_ok_def question_ok_def options_ok_def CountQuestionsByEventID_def question_rt_def sample_defs table_eval live_question_def)
  moreover have "remdups (map guest_ID [sample_guest]) = [''g1'']" by (simp add: sample_guest_def)
  ultimately show ?thesis using questions_stay_answerable [OF step _ question_codec, of "''e1''" "[sample_guest]"] step by metis
qed

section \<open>Invite cards\<close>

definition card_background :: string where "card_background = ''/api/v1/uploads/e1_5.png''"

text \<open>A codec of the one object that the sample card needs.\<close>

definition card_json :: json_lib where
  "card_json = \<lparr> jl_unmarshal = (\<lambda>t. if t = ''bg'' then Some (JObject [(background_key, JString card_background)]) else None),
     jl_marshal = (\<lambda>v. if v = JObject [(background_key, JString card_background)] then Some ''bg'' else None) \<rparr>"

definition card_rt :: runtime where
  "card_rt = sample_rt\<lparr>rt_json_background := (\<lambda>t. if t = ''bg'' then Some card_background else None)\<rparr>"

definition card_request :: SaveInviteRequest where
  "card_request = \<lparr> sir_TemplateID = ''confetti'', sir_Heading = ''Hello'', sir_Body = [], sir_Footer = [], sir_PrimaryColor = ''#fff'',
     sir_SecondaryColor = ''red;'', sir_Font = [], sir_CustomData = ''bg'' \<rparr>"

definition sample_uploads :: uploads where
  "sample_uploads = \<lparr> up_dir = ''/data'', up_files = Some [(''e1_1.png'', ''A''), (''b0_1.png'', ''B'')], up_writable = True \<rparr>"

definition carded :: "db \<times> uploads" where
  "carded = fst (card_handle card_rt card_json ''c1'' 0 (Some ''u3'') ''e1'' (CoSave (Decoded card_request, DecodeEOF)) event_ids_db (sample_db0, sample_uploads))"

lemma card_laws: "json_laws card_rt card_json"
  by (auto simp: json_laws_def card_json_def card_rt_def split: if_splits)

lemma sample_colours: "sanitizeColor ''red;'' = []" "sanitizeColor ''#fff'' = ''#fff''" "sanitizeFont [] = []"
  by (simp_all add: sanitizeColor_def sanitizeFont_def guestColorPattern_def hex_byte_def is_digit_def string_eval)

lemma breaking_characters: "css_breaking = ''()<>'' @ [CHR 0x22, CHR 0x27, CHR 0x5C]"
  by code_simp

lemma sample_background: "sanitizeBackgroundURL card_rt card_background = card_background" "card_background \<noteq> []"
proof -
  have "trim_space card_background = card_background" "\<not> contains_any css_breaking card_background" "prefix ''/'' card_background" "card_background \<noteq> []"
    by (simp_all add: card_background_def contains_any_def breaking_characters string_eval)
  then show "sanitizeBackgroundURL card_rt card_background = card_background" "card_background \<noteq> []" by (simp_all add: sanitizeBackgroundURL_def)
qed

lemma sample_custom_data: "sanitizeCustomData card_rt card_json ''bg'' = ''bg''"
  by (simp add: sanitizeCustomData_def unmarshal_object_def string_field_def marshal_object_def card_json_def sample_background map_put_def map_delete_def Let_def)

lemma sample_template: "list_ex (\<lambda>t. t_ID t = ''confetti'') builtInTemplates"
  by (simp add: builtInTemplates_def)

lemma carded_row:
  "\<exists>r. db_cards (fst carded) = [r] \<and> ic_event_id r = ''e1'' \<and> ic_template_id r = ''confetti'' \<and> ic_secondary_color r = ''#f0abfc'' \<and> ic_custom_data r = ''bg''"
  by (simp add: carded_def card_handle_def handleSave_def for_card_event_def sample_manages DecodeJSON_def SaveCard_def Upsert_def FindCardByEventID_def
    sample_template new_card_def default_if_empty_def sample_custom_data sample_colours card_request_def card_row_def sample_defs table_eval event_ids_def Let_def)


definition sample_image :: upload_body where
  "sample_image = \<lparr> ub_size = 300, ub_form = Some (Some (png_signature @ ''data'')), ub_readable = True \<rparr>"

definition uploaded :: "(db \<times> uploads) \<times> card_response" where
  "uploaded = handleUploadImage (5 * second) (Some ''u3'') ''e1'' sample_image event_ids_db (sample_db0, sample_uploads)"

lemma sample_image_type: "snd (detectImageType (png_signature @ ''data'')) = ''.png''"
  by code_simp

lemma sample_stamp: "itoa (secs (5 * second)) = ''5''"
  by code_simp

lemma uploaded_response: "\<exists>d' u'. uploaded = ((d', u'), CardImage ''/api/v1/uploads/e1_5.png'')"
  by (simp add: uploaded_def handleUploadImage_def for_card_event_def sample_manages sample_image_def sample_image_type maxUploadSize_def
    cleanupEventImages_def remove_event_files_def remove_upload_def map_delete_def write_upload_def sample_uploads_def upload_name_def sample_stamp Let_def)

theorem upload_replaces_image_witness:
  "\<exists>files. up_files (snd (fst uploaded)) = Some files \<and> filter (event_file ''e1'') files = [(''e1_5.png'', png_signature @ ''data'')] \<and>
     filter (event_file ''b0'') files = [(''b0_1.png'', ''B'')] \<and>
     serve_upload ''/api/v1/uploads/e1_5.png'' (snd (fst uploaded)) = ServedFile (png_signature @ ''data'')"
proof -
  obtain d' u' where u: "uploaded = ((d', u'), CardImage ''/api/v1/uploads/e1_5.png'')" using uploaded_response by blast
  have files: "up_files sample_uploads = Some [(''e1_1.png'', ''A''), (''b0_1.png'', ''B'')]" "up_dir sample_uploads \<noteq> []"
    "distinct (map fst [(''e1_1.png'', ''A''), (''b0_1.png'', ''B'')])" "filter (event_file ''b0'') [(''e1_1.png'', ''A''), (''b0_1.png'', ''B'')] = [(''b0_1.png'', ''B'')]"
    by (simp_all add: sample_uploads_def event_file_def)
  have ids: "uuid_text ''e1''" "uuid_text ''b0''" by (simp_all add: uuid_text_def hex_byte_def is_digit_def)
  from upload_replaces_image [OF u [unfolded uploaded_def] files(1,2,3) ids(1)] obtain data files' name where o:
    "ub_form sample_image = Some (Some data)" "up_files u' = Some files'" "filter (event_file ''e1'') files' = [(name, data)]"
    "''/api/v1/uploads/e1_5.png'' = ''/api/v1/uploads/'' @ name" "serve_upload ''/api/v1/uploads/e1_5.png'' u' = ServedFile data"
    "\<And>e2. uuid_text e2 \<Longrightarrow> e2 \<noteq> ''e1'' \<Longrightarrow> filter (event_file e2) files' = filter (event_file e2) [(''e1_1.png'', ''A''), (''b0_1.png'', ''B'')]"
    by blast
  have "name = ''e1_5.png''" using o(4) by simp
  moreover have "data = png_signature @ ''data''" using o(1) by (simp add: sample_image_def)
  moreover have "snd (fst uploaded) = u'" unfolding u by simp
  moreover have "filter (event_file ''b0'') files' = [(''b0_1.png'', ''B'')]" using o(6) [OF ids(2)] unfolding files(4) by simp
  ultimately show ?thesis using o(2,3,5) by (simp only:) blast
qed

section \<open>Configuration\<close>

definition sample_key :: string where "sample_key = replicate 32 (CHR ''k'')"

definition sample_host :: host where
  "sample_host = \<lparr> h_env = [''ENV'' \<mapsto> ''production'', ''OWL_INVITES_SECRET_KEY'' \<mapsto> sample_key, ''TRUSTED_PROXIES'' \<mapsto> ''P,,C''],
     h_stat = (\<lambda>p. StatMissing), h_read = (\<lambda>p. None), h_duration = (\<lambda>t. Some 60) \<rparr>"

lemma sample_env: "getEnv sample_host k f = (if k = ''ENV'' then ''production'' else if k = ''OWL_INVITES_SECRET_KEY'' then sample_key
    else if k = ''TRUSTED_PROXIES'' then ''P,,C'' else f)"
  by (simp add: getEnv_def sample_host_def sample_key_def)

lemma sample_periods: "h_duration sample_host t = Some 60"
  by (simp add: sample_host_def)

lemma sample_secret: "loadInvitationSecret sample_rt sample_host ''production'' = Inr sample_key"
proof -
  have "to_lower sample_rt (trim_space sample_key) = sample_key" by (simp add: sample_key_def sample_rt_def string_eval)
  moreover have "\<not> contains_str m sample_key" if "CHR ''e'' \<in> set m" for m
    using that by (auto simp: contains_str_iff sample_key_def dest!: set_mono_sublist)
  ultimately have "\<not> isObviousSecretPlaceholder sample_rt sample_key" by (simp add: isObviousSecretPlaceholder_def placeholder_markers_def)
  moreover have "length sample_key = 32" by (simp add: sample_key_def)
  ultimately show ?thesis by (simp add: loadInvitationSecret_def sample_host_def)
qed

lemma sample_loads: "\<exists>c. Load sample_rt sample_net sample_host = Inr c \<and> c_TrustedProxies c = [''P'', ''C''] \<and> c_InvitationSecretKey c = sample_key"
proof -
  have "split_on (CHR '','') ''P,,C'' = [''P'', [], ''C'']" by code_simp
  then have "parse_proxies sample_net ''P,,C'' = Inr [''P'', ''C'']"
    by (simp add: parse_proxies_def proxy_entry_def sample_net_def string_eval)
  moreover have "atoi ''587'' = Some 587" "atoi ''8080'' = Some 8080" "atoi ''30'' = Some 30" "atoi ''10'' = Some 10" by code_simp+
  moreover have "resolveDatabaseDSN sample_host ''sqlite'' = Inr (''/data/owl-invites.db'', [])"
    by (simp add: resolveDatabaseDSN_def ResolveSQLiteDefaultDSN_def regularPathExists_def sample_host_def DefaultSQLiteDSN_def)
  ultimately show ?thesis
    by (simp add: Load_def sample_env sample_secret parse_duration_env_def positive_duration_env_def int_env_def sample_periods or_err_def new_config_def Let_def)
qed

theorem loaded_configuration_starts_witness:
  "\<exists>c svc. Load sample_rt sample_net sample_host = Inr c \<and>
     NewService (c_InvitationSecretKey c) (c_BaseURL c) (c_InvitationSessionExpiry c) (c_InvitationRecoveryExpiry c) sample_service = Inr svc \<and>
     cs_key (svc_signer svc) = sample_key \<and> length (trustedNetworks sample_net (c_TrustedProxies c)) = 2"
proof -
  obtain c where c: "Load sample_rt sample_net sample_host = Inr c" "c_TrustedProxies c = [''P'', ''C'']" "c_InvitationSecretKey c = sample_key"
    using sample_loads by blast
  have "c = ApplyInstanceOverrides [] c" by (simp add: ApplyInstanceOverrides_def override_def)
  from loaded_configuration_starts [OF c(1) this, of sample_service] c show ?thesis by auto
qed

section \<open>Statistics\<close>

definition sample_tables :: tables where
  "sample_tables = \<lparr> tb_identity = event_ids_db, tb_invitations = sample_db1, tb_notifications = empty_ndb \<rparr>"

theorem statistics_count_rows_witness:
  "gst_Total (is_Guests (store_GetInstanceStats sample_tables)) = 1 \<and> gst_Attending (is_Guests (store_GetInstanceStats sample_tables)) = 0 \<and>
   evt_Total (is_Events (store_GetInstanceStats sample_tables)) = 1"
proof -
  have "wf_db (tb_invitations sample_tables)" using sample_db1_wf by (simp add: sample_tables_def)
  moreover have "\<forall>r \<in> set (db_guest_responses (tb_invitations sample_tables)). validAttendance (gr_attendance r)"
    by (simp add: sample_tables_def sample_defs validAttendance_def AttendancePending_def)
  moreover have "live_guests (tb_invitations sample_tables) = [guest_values 0 ''i1'' sample_guest]" "id_events (tb_identity sample_tables) = [sample_draft]"
    "attendance_of (tb_invitations sample_tables) (g_id (guest_values 0 ''i1'' sample_guest)) = ''pending''"
    by (simp_all add: live_guests_def sample_tables_def event_ids_db_def sample_defs attendance_of_def select_row_def)
  ultimately show ?thesis using statistics_count_rows [of sample_tables] by (simp add: affected_def)
qed

definition stats_requests :: "stats_request list" where
  "stats_requests = [\<lparr> sq_now = 0, sq_done = 1, sq_tables = Some sample_tables \<rparr>, \<lparr> sq_now = 100 * second, sq_done = 101 * second, sq_tables = None \<rparr>]"

theorem stats_at_most_five_minutes_old_witness:
  "\<exists>stats. serve_stats ''r'' stats_requests \<lparr> sts_cached = None, sts_cachedAt = 0 \<rparr> ! 1 = StatsData stats \<and> stats = store_GetInstanceStats sample_tables"
proof -
  have answer: "\<exists>stats. serve_stats ''r'' stats_requests \<lparr> sts_cached = None, sts_cachedAt = 0 \<rparr> ! 1 = StatsData stats"
    by (simp add: stats_requests_def handleGetInstanceStats_def GetInstanceStats_def cacheTTL_def minute_def second_def Let_def)
  then obtain stats where s: "serve_stats ''r'' stats_requests \<lparr> sts_cached = None, sts_cachedAt = 0 \<rparr> ! 1 = StatsData stats" by blast
  have "1 < length stats_requests" by (simp add: stats_requests_def)
  from stats_at_most_five_minutes_old [OF this s] obtain j t where "j \<le> 1" "sq_tables (stats_requests ! j) = Some t" "stats = store_GetInstanceStats t" by blast
  then have "stats = store_GetInstanceStats sample_tables" by (cases j) (auto simp: stats_requests_def)
  then show ?thesis using s by blast
qed

section \<open>Request filters\<close>

text \<open>A library that drops everything from the first tag on, and a codec of one text.\<close>

definition sample_html :: html_lib where
  "sample_html = \<lparr> hl_strict = takeWhile (\<lambda>c. c \<noteq> CHR ''<''), hl_unescape = (\<lambda>s. s) \<rparr>"

definition filter_json :: json_lib where
  "filter_json = \<lparr> jl_unmarshal = (\<lambda>t. Some (JArray [JString t])), jl_marshal = (\<lambda>v. case v of JArray [JString t] \<Rightarrow> Some t | _ \<Rightarrow> None) \<rparr>"

definition json_request :: api_request where
  "json_request = http_request.extend (sample_http\<lparr>hr_header := (\<lambda>n. if n = ''Content-Type'' then [''application/json''] else [])\<rparr>)
     (api_request.fields (Bytes None ''hi<script>'') 10)"

theorem json_bodies_filtered_witness:
  "ar_body (api_filters sample_html filter_json json_request) = Bytes None ''hi'' \<and> ar_content_length (api_filters sample_html filter_json json_request) = 2"
proof -
  have "prefix ''application/json'' (content_type json_request)" "ar_body json_request = Bytes None ''hi<script>''"
    by (simp_all add: content_type_def json_request_def header_get_def http_request.defs api_request.defs)
  from json_bodies_filtered [OF this, of sample_html filter_json] show ?thesis
    by (simp add: filter_json_def sample_html_def SanitizeStrict_def)
qed

text \<open>A guest's page without a session sends feedback, with a made-up client address.\<close>

definition public_request :: api_request where
  "public_request = json_request\<lparr>hr_path := ''/api/v1/feedback/public'',
     hr_header := (\<lambda>n. if n = ''Content-Type'' then [''application/json''] else if n = ''X-Forwarded-For'' then [''X''] else [])\<rparr>"

definition pipeline_sample :: "Config \<Rightarrow> unit pipeline_env" where
  "pipeline_sample c = \<lparr> pe_rt = sample_rt, pe_net = sample_net, pe_html = sample_html, pe_json = filter_json, pe_proxies = [], pe_csrfKey = ''key'',
     pe_excludePaths = mw_excludePaths (NewMiddleware (server_security c)), pe_preflight = (\<lambda>r. False), pe_shuttingDown = False \<rparr>"

lemma public_request_path: "api_path (hr_path public_request)" "hr_path public_request = ''/api/v1/feedback/public''"
  by (simp_all add: public_request_def api_path_def)

lemma public_request_proxied:
  "TrustedProxyMiddleware sample_net [] (http_request.truncate public_request) = stripForwardedHeaders (http_request.truncate public_request)"
  by (simp add: TrustedProxyMiddleware_def trustedNetworks_def ipInNetworks_def split: prod.split option.split)

lemma public_request_chain:
  "\<exists>r1. before_limiter (pipeline_sample c) None public_request = Reached r1 None \<and> hr_path r1 = ''/api/v1/feedback/public''"
proof -
  let ?h = "stripForwardedHeaders (http_request.truncate public_request)"
  have path: "hr_path ?h = ''/api/v1/feedback/public''"
    by (simp add: stripForwardedHeaders_def http_request.truncate_def public_request_path)
  then have "csrf_exempt (pe_excludePaths (pipeline_sample c)) ?h"
    by (simp add: csrf_exempt_def pipeline_sample_def NewMiddleware_def server_security_def)
  then have "before_limiter (pipeline_sample c) None public_request = Reached (with_request ?h public_request) None"
    unfolding before_limiter_def Let_def
    by (simp add: CSRFMiddleware_def rejectDuringShutdown_def public_request_proxied) (simp add: pipeline_sample_def public_request_proxied)
  then show ?thesis using path by (simp add: with_request_def http_request.defs api_request.defs)
qed

theorem handlers_behind_pipeline_witness:
  "\<exists>c r'. Load sample_rt sample_net sample_host = Inr c \<and>
     run (pipeline_step (pipeline_sample c)) (mw_GeneralRateLimiter (NewMiddleware (server_security c))) [(0, Request None public_request)] = [Some (Reached r' None)] \<and>
     ar_body r' = Bytes None ''hi'' \<and> hr_header r' ''X-Forwarded-For'' = []"
proof -
  obtain c where c: "Load sample_rt sample_net sample_host = Inr c" using sample_loads by blast
  let ?ops = "[(0, Request None public_request)]" and ?rl = "mw_GeneralRateLimiter (NewMiddleware (server_security c))"
  obtain r1 where r1: "before_limiter (pipeline_sample c) None public_request = Reached r1 None" "hr_path r1 = ''/api/v1/feedback/public''"
    using public_request_chain by blast
  have "snd (Allow 0 k ?rl)" for k
    by (simp add: Allow_def NewMiddleware_def server_security_def NewRateLimiter_def entries_of_def pruneEntries_def prune_loop.simps [of _ 0 0 "[]"] Let_def)
  then obtain rl' where "Allow 0 (client_key (http_request.truncate r1)) ?rl = (rl', True)" by (metis prod.collapse eq_True)
  then obtain r' where r': "run (pipeline_step (pipeline_sample c)) ?rl ?ops = [Some (Reached r' None)]"
    using r1 by (simp add: pass_request_def api_path_def)
  have "pe_excludePaths (pipeline_sample c) = mw_excludePaths (NewMiddleware (server_security c))" by (simp add: pipeline_sample_def)
  from handlers_behind_pipeline [OF this, of ?ops] r' public_request_path(1)
  have h: "http_request.truncate r' = stripForwardedHeaders (http_request.truncate public_request)" "json_filtered sample_html filter_json public_request r'"
    by (simp_all add: pipeline_sample_def public_request_proxied)
  have body: "ar_body public_request = Bytes None ''hi<script>''"
    by (simp add: public_request_def json_request_def http_request.defs api_request.defs)
  have headers: "hr_header r' = hr_header (http_request.truncate r')" by (simp add: http_request.truncate_def)
  then have "hr_header r' ''Content-Type'' = [''application/json'']" "hr_header r' ''X-Forwarded-For'' = []"
    unfolding headers h(1) by (simp_all add: stripForwardedHeaders_def http_request.truncate_def public_request_def forwarded_names_def)
  then have "prefix ''application/json'' (content_type r')" "hr_header r' ''X-Forwarded-For'' = []"
    by (simp_all add: content_type_def header_get_def http_request.truncate_def)
  then have "ar_body r' = Bytes None ''hi''"
    using h(2) body by (simp add: json_filtered_def filter_json_def sample_html_def SanitizeStrict_def)
  then show ?thesis using c r' \<open>hr_header r' ''X-Forwarded-For'' = []\<close> by blast
qed

section \<open>Migrations\<close>

definition counting_migrator :: "nat migrator" where
  "counting_migrator = \<lparr> mg_version = (\<lambda>s. Inr (Some (s, False))), mg_force = (\<lambda>v s. Inr v), mg_up = (\<lambda>s. UpDone 40), mg_migrate = (\<lambda>v s. UpDone v) \<rparr>"

theorem gate2_never_rolled_back_witness:
  "fst (RunMigrationsTo (Inr counting_migrator) 35 40) = 40 \<and> snd (RunMigrationsTo (Inr counting_migrator) 35 40) \<noteq> None"
  using gate2_never_rolled_back [of counting_migrator 40 40 False] by (simp add: counting_migrator_def)

section \<open>The scheduler\<close>

definition two_jobs :: scheduler where
  "two_jobs = RegisterJob (RegisterJob \<lparr> sd_started = False, sd_cancelled = False, sd_jobs = [], sd_runs = [] \<rparr>)"


section \<open>Backups\<close>

definition digest_rt :: runtime where
  "digest_rt = sample_rt\<lparr>rt_sha256 := (\<lambda>x. replicate 32 (CHR ''d'')), rt_hmac := (\<lambda>k x. replicate 32 (CHR ''h''))\<rparr>"

definition sample_tree :: tree where
  "sample_tree = [(''e1_5.png'', RegularFile ''png''), (''old'', Directory), (''old/a.png'', RegularFile [])]"

definition sample_source :: source_instance where
  "sample_source = \<lparr> si_dialect = ''sqlite'', si_status = Inr \<lparr> mst_Current = 40, mst_Latest = 40, mst_Dirty = False, mst_Pending = False \<rparr>,
     si_snapshot = ''SQLite'', si_uploads = Some sample_tree, si_uploads_path = [''data'', ''uploads''], si_build = (''1.0'', ''abc'', ''clean'') \<rparr>"

definition sample_manifest :: Manifest where
  "sample_manifest = \<lparr> mf_FormatVersion = 1, mf_CreatedAt = 5, mf_Source = \<lparr> sm_DatabaseType = ''sqlite'', sm_SchemaVersion = 40, sm_SchemaDirty = False,
     sm_ApplicationVersion = ''1.0'', sm_Commit = ''abc'', sm_BuildState = ''clean'' \<rparr>, mf_Database = hashFile digest_rt ''SQLite'' databaseFilename,
     mf_SecretFingerprint = Fingerprint digest_rt sample_key, mf_Uploads = snapshot_of digest_rt (tree_files sample_tree) \<rparr>"

definition sample_codec :: manifest_codec where
  "sample_codec = \<lparr> mc_encode = (\<lambda>m. if m = sample_manifest then Some ''m'' else None), mc_decode = (\<lambda>t. if t = ''m'' @ [byte 10] then Some sample_manifest else None) \<rparr>"

text \<open>Every step works, every destination is absent, and the file is a clean database of version 40.\<close>

definition sample_io :: backup_io where
  "sample_io = \<lparr> io_ok = (\<lambda>n. True), io_lstat = (\<lambda>n p. Some False), io_inspect = (\<lambda>d. Inr (40, False)) \<rparr>"

definition sample_bundle :: backup_bundle where
  "sample_bundle = BundleDir [(databaseFilename, TopFile ''SQLite''), (manifestFilename, TopFile (''m'' @ [byte 10])), (uploadsDirectory, TopDirectory sample_tree)]"

lemma sample_backup: "CreateSQLite digest_rt sample_codec sample_io 5 sample_source [''backup''] sample_key = Inr (sample_bundle, sample_manifest)"
proof -
  have "plain_tree sample_tree" by (simp add: plain_tree_def sample_tree_def)
  then have "copyTree sample_io sample_tree = Inr sample_tree" "inventoryUploads digest_rt sample_tree = Inr (snapshot_of digest_rt (tree_files sample_tree))"
    using copyTree_works inventory_plain by (simp_all add: sample_io_def)
  then show ?thesis
    by (simp add: CreateSQLite_def sample_source_def requireAbsent_def pathWithin_def step_ok_def writeManifest_def sample_codec_def sample_bundle_def
      sample_manifest_def FormatVersion_def sample_io_def or_err_def)
qed



section \<open>Exports\<close>

definition export_tables :: all_tables where
  "export_tables = \<lparr> at_identity = event_ids_db, at_invitations = sample_db1, at_webhooks = webhook_db, at_reminders = [sample_reminder], at_notifications = empty_ndb \<rparr>"


section \<open>Mail\<close>

definition plain_mail_lib :: mail_lib where
  "plain_mail_lib = \<lparr> ml_parse = (\<lambda>s. Some ([], s, s)), ml_qword = (\<lambda>s. s), ml_qprint = (\<lambda>s. s), ml_base64 = (\<lambda>s. s), ml_date = (\<lambda>t. ''now'') \<rparr>"

definition sample_smtp :: smtp_provider where
  "sample_smtp = \<lparr> sp_host = ''h'', sp_port = ''25'', sp_username = [], sp_password = [], sp_from = ''a@b.c'' \<rparr>"

definition forged_mail :: Message where
  "forged_mail = \<lparr> ms_To = ''x@y.z'', ms_Subject = ''Hi'' @ [byte 13, byte 10] @ ''Bcc: all'', ms_Body = [], ms_Plain = ''text'', ms_Attachments = [] \<rparr>"

theorem mail_headers_fixed_witness:
  "\<exists>c h1 h2 h3 h4 h5 h6 body. smtp_compose plain_mail_lib (\<lambda>k. 0) sample_smtp forged_mail = Inr c \<and>
     sc_data c = concat (map line [h1, h2, h3, h4, h5, h6]) @ mail_crlf @ body \<and> list_all (\<lambda>h. \<not> has_crlf h) [h1, h2, h3, h4, h5, h6]"
proof -
  have laws: "mail_laws plain_mail_lib" by (simp add: mail_laws_def plain_mail_lib_def has_crlf_def byte_def char_of_eq_iff)
  have "byte 13 = CHR 0x0D" "byte 10 = CHR 0x0A" by (simp_all add: byte_def char_of_eq_iff)
  then have "stripCRLF (trim_space ''a@b.c'') = ''a@b.c''" by (simp add: trim_space_graphic graphic_def stripCRLF_def contains_any_def)
  then have "\<exists>c. smtp_compose plain_mail_lib (\<lambda>k. 0) sample_smtp forged_mail = Inr c"
    by (simp add: smtp_compose_def parseFromAddress_def plain_mail_lib_def sample_smtp_def case_prod_beta Let_def)
  then obtain c where c: "smtp_compose plain_mail_lib (\<lambda>k. 0) sample_smtp forged_mail = Inr c" by blast
  obtain h1 h2 h3 h4 h5 h6 body where "sc_data c = concat (map line [h1, h2, h3, h4, h5, h6]) @ mail_crlf @ body"
    "list_all (\<lambda>h. \<not> has_crlf h) [h1, h2, h3, h4, h5, h6]"
    using mail_headers_fixed [OF laws c] by (elim exE conjE) (rule that)
  then show ?thesis using c by (intro exI conjI)
qed

end
