(* ===== verification/Spec2Isabelle.thy ===== *)
theory Spec2Isabelle
  imports Operation_Samples
begin

text \<open>
  A verification library for Owl Invites, a self-hosted server for events and invitations written in
  Go (the packages under \<open>src/internal\<close>).

  \<^bold>\<open>The program.\<close> Organizers sign in with magic links (\<open>auth\<close>), are administered by administrators
  (\<open>useradmin\<close>, \<open>admincli\<close>), own events and series of events (\<open>event\<close>) and invite households to them
  (\<open>invitation\<close>). Guests open their invitation with a signed capability link, answer for every guest
  of the household, or enroll through an open link. Mail goes through \<open>notification\<close>, which honours the list of
  \<open>suppression\<close>; jobs of \<open>scheduler\<close> deliver reminders and delete old events; \<open>webhook\<close> tells other servers of
  changes; \<open>calendar\<close> writes calendar files; \<open>question\<close> and \<open>invite\<close> edit the questions and the card that guests see;
  \<open>stats\<close> counts rows, \<open>feedback\<close> takes reports; \<open>instanceconfig\<close> sets the instance up. \<open>cmd/owl-invites\<close> starts the server
  (\<open>server\<close>) with the settings of \<open>config\<close>, or runs \<open>backup\<close> and migrations. State is in one SQL database and a directory of uploads; requests pass
  the middleware of \<open>security\<close> (rate limits, trusted proxies, CSRF tokens, headers), and the SQL text
  passes the placeholder rewriting of \<open>database\<close>.

  \<^bold>\<open>The model.\<close> A table is a list of rows (\<open>record\<close>s with the columns), a statement an update of
  such lists that checks the constraints of the migrations, an operation a function from clock
  readings, random bytes, fresh identifiers and the database to an error or a result. A transaction
  is the composition of its statements, and returns no database when it fails. Third-party code is a
  parameter: SHA-256 and HMAC (\<open>runtime\<close>), mail delivery and its templates, \<open>net.ParseIP\<close>,
  \<open>time.Parse\<close>, the email parser, JSON and CSV syntax, bluemonday, golang-migrate, the checks of SQLite, the outcome of
  file operations. The two halves of the database have a record
  each: \<open>db\<close> (Schema) for the tables of invitations, \<open>idb\<close> (Identity_Schema) for those of accounts and events.

  \<^bold>\<open>Shared theories.\<close>
  \<^item> Owl_Prelude: results as sums with \<open>rbind\<close>, loops with errors, tables, \<open>ORDER BY\<close>; the locales for
    invariants of transition systems, single use of tokens, encodings and simulations.
  \<^item> Go_Lib: the functions of Go's library that the code uses (\<open>strings\<close>, \<open>strconv\<close>, \<open>hex\<close>, \<open>base64\<close>,
    times to the second and as RFC 3339 text); Go_Time: the calendar (\<open>time.Date\<close>, \<open>AddDate\<close>).

  \<^bold>\<open>Invitations\<close> (\<open>src/internal/invitation\<close>).
  \<^item> Invitation_Model (\<open>model.go\<close>), Capability (\<open>capability.go\<close>), Schema (the tables), Presentation
    (\<open>presentation_store.go\<close>).
  \<^item> Invitation_Store, Invitation_Response, Invitation_Recovery, Invitation_Open, Invitation_Management:
    the store operations (\<open>store.go\<close>, \<open>response_store.go\<close>, \<open>recovery_store.go\<close>, \<open>open_store.go\<close>,
    \<open>management_store.go\<close>), with the effect of each on every table.
  \<^item> Invitation_Service, Invitation_Flows, Import_CSV, Export_CSV, Invitation_Handler: the service,
    import and export, and the HTTP routes (\<open>service.go\<close>, \<open>management.go\<close>, \<open>csv.go\<close>, \<open>export.go\<close>, \<open>handler.go\<close>).
  \<^item> Lifecycle, Invitation_Guarantees, Invitation_Access, Import_Roundtrip, Organizer_Access: what holds
    across operations: the schema invariant, finality of revocation, single use of recovery tokens,
    delivery of mail, round trips of links and imports, confinement of organizers to their event.

  \<^bold>\<open>Requests\<close> (\<open>src/internal/security\<close>, \<open>src/internal/database/rewrite.go\<close>).
  \<^item> Rate_Limiter (refinement of the log of allowed requests), Trusted_Proxy, Csrf, Placeholder_Rewrite.
  \<^item> Json_Values and Input_Filters (\<open>bodylimit.go\<close>, \<open>sanitize.go\<close>, \<open>honeypot.go\<close>): what a handler reads of a body.
  \<^item> Request_Pipeline (\<open>server/router.go\<close>, \<open>security/middleware.go\<close>): the chain of all of these in front of the handlers, and
    what reaches a handler over any sequence of requests.

  \<^bold>\<open>Accounts\<close> (\<open>src/internal/auth\<close>, \<open>useradmin\<close>, \<open>admincli\<close>).
  \<^item> Identity_Schema (tables), Auth_Service (store, service, middleware), User_Admin, and Account_Safety
    with the step relation of account operations: an administrator remains, magic links are used once,
    a login opens a session, disabled users are locked out.
  \<^item> Account_Handler (\<open>auth/handler.go\<close>, \<open>useradmin/handler.go\<close>, \<open>event/series_handler.go\<close>, the cascade of
    \<open>DeleteOrganizerCascade\<close>) and Account_Routes: deletion is complete, administrative routes are guarded.
  \<^item> Instance_Admin (\<open>instanceconfig\<close>, \<open>eventadmin\<close>) and Instance_Safety: an instance is set up once, a transfer
    moves one ownership.

  \<^bold>\<open>Events\<close> (\<open>src/internal/event\<close>).
  \<^item> Event_Service (\<open>store.go\<close>, \<open>cohost_store.go\<close>, \<open>service.go\<close>), Event_Series (\<open>series_store.go\<close>,
    \<open>series_service.go\<close>), Event_Handler (\<open>handler.go\<close>).
  \<^item> Event_Safety: the step relation of all operations on events, series, members and accounts; events
    follow their lifecycle, keep their one owner, and routes are guarded. Series_Schedule: dates of
    recurring events and the bounds of their generation. Series_Override: edited occurrences.

  \<^bold>\<open>Services around events.\<close>
  \<^item> Reminders (\<open>scheduler/reminder_store.go\<close>, \<open>reminder.go\<close>, \<open>handler.go\<close>) and Reminder_Safety: with workers and
    routes interleaved step by step, no reminder is delivered twice. Retention (\<open>scheduler/cleanup.go\<close>): what the
    retention job deletes and whom it warns.
  \<^item> Notification (\<open>notification\<close>, \<open>suppression\<close>) and Notification_Safety: unsubscribe links suppress their scope;
    sending is bounded and logged.
  \<^item> Webhook (\<open>webhook\<close>) and Webhook_Safety: addresses, attempts and tables of webhooks. The masks of the reserved
    blocks work on 8-bit words.
  \<^item> Calendar (\<open>calendar/ics.go\<close>) and Calendar_Reader: a reader of the format gets the texts back.

  \<^item> Questions (\<open>question\<close>) and Question_Safety: after any edits every household can answer; the order of an organizer is the
    order of everybody. Invite_Design (\<open>invite\<close>, uploads of \<open>server/router.go\<close>) and Invite_Safety: guests see the preview, an
    upload replaces the images of its event only.
  \<^item> Statistics (\<open>stats\<close>), Feedback (\<open>feedback\<close>), Data_Export (\<open>auth/store.go\<close>): counts of rows and their age, reports, the rows
    of an organizer. Providers (\<open>notification/email\<close>, \<open>notification/sms\<close>): the mail that is composed and the calls of each provider.

  \<^bold>\<open>Operation.\<close>
  \<^item> Configuration (\<open>config\<close>, \<open>secretkey\<close>) and Configuration_Safety: what loads is in range and starts. Migrations
    (\<open>database/migrate.go\<close>). Server_Lifecycle (\<open>scheduler/scheduler.go\<close>, health, shutdown, \<open>buildinfo\<close>): the scheduler stops for good.
  \<^item> Backup (\<open>backup\<close>) and Backup_Safety: a backup restores what was saved, and a restoration succeeds after its checks or
    leaves nothing. Command_Line (\<open>cmd/owl-invites\<close>): every command and what it changes.

  \<^bold>\<open>Witnesses.\<close> Samples, Security_Samples, Event_Samples, Service_Samples and Operation_Samples instantiate the properties that have
  hypotheses on concrete databases and requests.

  \<^bold>\<open>Bounds and loops.\<close> Every loop is a total recursion; there is no fuel. Integers of the code that
  cannot overflow (versions, counts, nanoseconds) are \<^typ>\<open>int\<close>; \<open>atoi\<close> has the range of a 64-bit
  integer. Strings are lists of bytes.

  \<^bold>\<open>Not modelled.\<close> Network input and output itself (the connections to mail, SMS and webhook servers, of which the model
  has requests and answers), the HTML templates of mails other than the invitation, database drivers, the constructor
  calls and the callbacks of \<open>server.New\<close> other than those for publication and duplication, static files and the OpenAPI document, log
  entries, and the fixtures of the tests. The manifest lists every package with its status.
\<close>

end
